(* ===== verification/Prelude.thy ===== *)
theory Prelude
  imports Main "HOL-Library.Multiset" "HOL-Library.Char_ord" "HOL-Library.List_Lexorder" "HOL-Library.Product_Lexorder"
begin

text \<open>
  Shared vocabulary of the development.  Python exceptions are values of a sum type: a
  computation that may raise has type \<open>'a res\<close>, \<open>Inl (c, m)\<close> being the exception of class
  \<open>c\<close> with message \<open>m\<close>.  The theory also holds the list operations of the Python library the
  components use (\<open>dict.fromkeys\<close>, \<open>sorted(set(..))\<close>, \<open>str.strip\<close>, \<open>str.split\<close>,
  \<open>str.startswith\<close>, \<open>x in s\<close>), with the generic lemmas about them.

  Text is modelled by \<^typ>\<open>string\<close>: a character stands for the code point of the same
  number, so strings range over the code points 0 to 255.
\<close>

named_theorems res_simps \<open>rewrite rules of the exception monad\<close>
named_theorems text_simps \<open>unfolding rules for the textual checks\<close>

section \<open>Exceptions\<close>

datatype exn =
    TypeErr | ValueErr | KeyErr | IndexErr | AttributeErr | RuntimeErr | OverflowErr
  | UnicodeErr | JSONDecodeErr | SecurityErr | PermissionErr | AcquisitionErr
  | AcquisitionDriftErr | PermissionDeniedErr | UnknownEffectErr | OperationalErr | BusyErr
  | IntegrityErr | InterfaceErr | OSErr | TimeoutErr | ParseErr | UnavailableErr | AuthSecurityErr

type_synonym 'a res = "(exn \<times> string) + 'a"

text \<open>\<open>except ValueError\<close> also catches the subclasses of \<open>ValueError\<close>.\<close>

definition is_value_error :: "exn \<Rightarrow> bool" where
  "is_value_error c \<longleftrightarrow> c \<in> {ValueErr, UnicodeErr, JSONDecodeErr, SecurityErr,
     AcquisitionErr, AcquisitionDriftErr, PermissionDeniedErr, AuthSecurityErr}"

definition raise :: "exn \<Rightarrow> string \<Rightarrow> 'a res" where
  "raise c m = Inl (c, m)"

definition ebind :: "'a res \<Rightarrow> ('a \<Rightarrow> 'b res) \<Rightarrow> 'b res" where
  "ebind r f = (case r of Inl e \<Rightarrow> Inl e | Inr a \<Rightarrow> f a)"

definition eseq :: "unit res \<Rightarrow> 'b res \<Rightarrow> 'b res" where
  "eseq r s = (case r of Inl e \<Rightarrow> Inl e | Inr _ \<Rightarrow> s)"

definition guard :: "bool \<Rightarrow> exn \<Rightarrow> string \<Rightarrow> unit res" where
  "guard b c m = (if b then Inr () else Inl (c, m))"

definition raises :: "'a res \<Rightarrow> bool" where
  "raises r \<longleftrightarrow> (case r of Inl _ \<Rightarrow> True | Inr _ \<Rightarrow> False)"

text \<open>\<open>for x in xs: f(x)\<close>, stopping at the first exception.\<close>

primrec efor :: "'a list \<Rightarrow> ('a \<Rightarrow> unit res) \<Rightarrow> unit res" where
  "efor [] f = Inr ()"
| "efor (x # xs) f = eseq (f x) (efor xs f)"

text \<open>\<open>[f(x) for x in xs]\<close>, stopping at the first exception.\<close>

primrec emap :: "('a \<Rightarrow> 'b res) \<Rightarrow> 'a list \<Rightarrow> 'b list res" where
  "emap f [] = Inr []"
| "emap f (x # xs) = ebind (f x) (\<lambda>y. ebind (emap f xs) (\<lambda>ys. Inr (y # ys)))"

primrec eall :: "('a \<Rightarrow> bool res) \<Rightarrow> 'a list \<Rightarrow> bool res" where
  "eall f [] = Inr True"
| "eall f (x # xs) = ebind (f x) (\<lambda>b. if b then eall f xs else Inr False)"

lemma ebind_simps [simp, res_simps]:
  "ebind (Inr a) f = f a" "ebind (Inl e) f = Inl e"
  by (simp_all add: ebind_def)

lemma eseq_simps [simp, res_simps]:
  "eseq (Inr u) s = s" "eseq (Inl e) s = Inl e"
  by (simp_all add: eseq_def)

lemma raises_simps [simp, res_simps]:
  "raises (Inl e)" "\<not> raises (Inr a)"
  by (simp_all add: raises_def)

lemma guard_simps [simp, res_simps]:
  "guard True c m = Inr ()" "guard False c m = Inl (c, m)"
  by (simp_all add: guard_def)

lemma raise_ne [simp, res_simps]: "raise c m \<noteq> Inr a" "Inr a \<noteq> raise c m"
  by (simp_all add: raise_def)

lemma ebind_Inr_iff [res_simps]: "ebind r f = Inr b \<longleftrightarrow> (\<exists>a. r = Inr a \<and> f a = Inr b)"
  by (cases r) auto

lemma eseq_Inr_iff [res_simps]: "eseq r s = Inr b \<longleftrightarrow> r = Inr () \<and> s = Inr b"
  by (cases r) auto

lemma guard_Inr_iff [res_simps]: "guard b c m = Inr u \<longleftrightarrow> b"
  by (simp add: guard_def)

lemma not_raises_iff: "\<not> raises r \<longleftrightarrow> (\<exists>a. r = Inr a)"
  by (cases r) auto

lemma efor_Inr_iff [res_simps]: "efor xs f = Inr u \<longleftrightarrow> (\<forall>x \<in> set xs. f x = Inr ())"
  by (induction xs) (auto simp: eseq_Inr_iff)

lemma emap_Inr_iff [res_simps]: "emap f xs = Inr ys \<longleftrightarrow> list_all2 (\<lambda>x y. f x = Inr y) xs ys"
  by (induction xs arbitrary: ys) (auto simp: ebind_Inr_iff list_all2_Cons1)

lemma emap_total: "(\<And>x. x \<in> set xs \<Longrightarrow> f x = Inr (g x)) \<Longrightarrow> emap f xs = Inr (map g xs)"
  by (induction xs) auto

section \<open>Lists\<close>

text \<open>\<open>dict.fromkeys(xs)\<close>: the distinct elements, in the order of first occurrence.\<close>

fun fromkeys_from :: "'a list \<Rightarrow> 'a list \<Rightarrow> 'a list" where
  "fromkeys_from acc [] = rev acc"
| "fromkeys_from acc (x # xs) =
     (if List.member acc x then fromkeys_from acc xs else fromkeys_from (x # acc) xs)"

definition dict_fromkeys :: "'a list \<Rightarrow> 'a list" where
  "dict_fromkeys xs = fromkeys_from [] xs"

lemma set_fromkeys_from: "set (fromkeys_from acc xs) = set acc \<union> set xs"
  by (induction acc xs rule: fromkeys_from.induct) auto

lemma distinct_fromkeys_from: "distinct acc \<Longrightarrow> distinct (fromkeys_from acc xs)"
  by (induction acc xs rule: fromkeys_from.induct) auto

lemma set_dict_fromkeys [simp]: "set (dict_fromkeys xs) = set xs"
  by (simp add: dict_fromkeys_def set_fromkeys_from)

lemma distinct_dict_fromkeys [simp]: "distinct (dict_fromkeys xs)"
  by (simp add: dict_fromkeys_def distinct_fromkeys_from)

lemma dict_fromkeys_eq_Nil [simp]: "dict_fromkeys xs = [] \<longleftrightarrow> xs = []"
  by (metis set_dict_fromkeys set_empty)

lemma dict_fromkeys_Nil [simp]: "dict_fromkeys [] = []"
  by simp

text \<open>\<open>sorted(set(xs))\<close>.\<close>

definition sorted_set :: "'a::linorder list \<Rightarrow> 'a list" where
  "sorted_set xs = sort (remdups xs)"

lemma set_sorted_set [simp]: "set (sorted_set xs) = set xs"
  by (simp add: sorted_set_def)

lemma distinct_sorted_set [simp]: "distinct (sorted_set xs)"
  by (simp add: sorted_set_def)

lemma sorted_sorted_set [simp]: "sorted (sorted_set xs)"
  by (simp add: sorted_set_def)

lemma sorted_set_Nil [simp]: "sorted_set [] = []"
  by (simp add: sorted_set_def)

lemma sorted_set_single [simp]: "sorted_set [x] = [x]"
  by (simp add: sorted_set_def)

lemma sorted_set_idem: "sorted_set (sorted_set xs) = sorted_set xs"
  by (simp add: sorted_set_def distinct_remdups_id sorted_sort_id)

lemma sorted_set_id: "sorted xs \<Longrightarrow> distinct xs \<Longrightarrow> sorted_set xs = xs"
  by (simp add: sorted_set_def distinct_remdups_id sorted_sort_id)

lemma sorted_set_cong: "set xs = set ys \<Longrightarrow> sorted_set xs = sorted_set ys"
  by (rule sorted_distinct_set_unique) simp_all

section \<open>Text\<close>

text \<open>\<open>str.isspace\<close> on the code points 0 to 255, and \<open>str.strip()\<close>.\<close>

definition is_space :: "char \<Rightarrow> bool" where
  "is_space c \<longleftrightarrow> (let n = (of_char c :: nat) in
     (9 \<le> n \<and> n \<le> 13) \<or> (28 \<le> n \<and> n \<le> 32) \<or> n = 133 \<or> n = 160)"

definition strip :: "string \<Rightarrow> string" where
  "strip s = rev (dropWhile is_space (rev (dropWhile is_space s)))"

text \<open>\<open>s.split(c)\<close> for a one-character separator.\<close>

fun split_on :: "char \<Rightarrow> string \<Rightarrow> string list" where
  "split_on c [] = [[]]"
| "split_on c (x # xs) =
     (if x = c then [] # split_on c xs
      else (case split_on c xs of [] \<Rightarrow> [[x]] | p # ps \<Rightarrow> (x # p) # ps))"

text \<open>\<open>s.lower()\<close> on the code points 0 to 255.\<close>

definition lower_char :: "char \<Rightarrow> char" where
  "lower_char c = (let n = (of_char c :: nat) in
     if (65 \<le> n \<and> n \<le> 90) \<or> (192 \<le> n \<and> n \<le> 222 \<and> n \<noteq> 215) then char_of (n + 32) else c)"

definition lower :: "string \<Rightarrow> string" where
  "lower s = map lower_char s"

definition startswith :: "string \<Rightarrow> string \<Rightarrow> bool" where
  "startswith s p \<longleftrightarrow> take (length p) s = p"

text \<open>\<open>p in s\<close>: substring test.\<close>

fun contains :: "string \<Rightarrow> string \<Rightarrow> bool" where
  "contains p [] = (p = [])"
| "contains p (x # xs) = (startswith (x # xs) p \<or> contains p xs)"

definition nul :: char where "nul = CHR 0x00"

definition hex_lower :: string where "hex_lower = ''0123456789abcdef''"

definition is_hex :: "char \<Rightarrow> bool" where
  "is_hex c \<longleftrightarrow> List.member hex_lower c"

text \<open>\<open>re.fullmatch("sha256:[0-9a-f]{64}")\<close> and \<open>re.fullmatch("[0-9a-f]{40}")\<close>.\<close>

definition is_sha256 :: "string \<Rightarrow> bool" where
  "is_sha256 s \<longleftrightarrow> startswith s ''sha256:'' \<and> length s = 71 \<and> list_all is_hex (drop 7 s)"

definition is_sha40 :: "string \<Rightarrow> bool" where
  "is_sha40 s \<longleftrightarrow> length s = 40 \<and> list_all is_hex s"

text \<open>The check most textual fields go through: non-empty, no surrounding blanks, no NUL.\<close>

definition normalized :: "string \<Rightarrow> bool" where
  "normalized s \<longleftrightarrow> s \<noteq> [] \<and> s = strip s \<and> \<not> List.member s nul"

definition relative_path :: "string \<Rightarrow> bool" where
  "relative_path s \<longleftrightarrow> \<not> startswith s ''/'' \<and> \<not> List.member s (CHR 0x5C) \<and>
     \<not> list_ex (\<lambda>p. p = [] \<or> p = ''.'' \<or> p = ''..'') (split_on (CHR ''/'') s)"

text \<open>Decimal text of integers: \<open>str(n)\<close>.\<close>

fun show_nat :: "nat \<Rightarrow> string" where
  "show_nat n = (if n < 10 then [char_of (48 + n)]
                 else show_nat (n div 10) @ [char_of (48 + n mod 10)])"

declare show_nat.simps [simp del]

definition show_int :: "int \<Rightarrow> string" where
  "show_int i = (if i < 0 then CHR ''-'' # show_nat (nat (- i)) else show_nat (nat i))"

lemma startswith_simps [simp]:
  "startswith s []" "\<not> startswith [] (p # ps)"
  "startswith (x # xs) (p # ps) \<longleftrightarrow> x = p \<and> startswith xs ps"
  by (auto simp: startswith_def)

lemma hex_not_space: "is_hex c \<Longrightarrow> \<not> is_space c"
  by (auto simp: is_hex_def hex_lower_def is_space_def)

lemma strip_no_space_ends:
  assumes "s \<noteq> []" "\<not> is_space (hd s)" "\<not> is_space (last s)"
  shows "strip s = s"
proof -
  have "dropWhile is_space s = s"
    using assms(1,2) by (cases s) auto
  moreover have "dropWhile is_space (rev s) = rev s"
    using assms(1,3) by (cases "rev s") (auto simp: last_conv_nth hd_rev[symmetric])
  ultimately show ?thesis by (simp add: strip_def)
qed

text \<open>A hash text passes the normalisation checks that precede the pattern check.\<close>

lemma is_sha256E:
  assumes "is_sha256 s"
  obtains t where "s = ''sha256:'' @ t" "length t = 64" "\<forall>c \<in> set t. is_hex c"
proof -
  have t: "take 7 s = ''sha256:''"
    using assms unfolding is_sha256_def startswith_def by (simp add: numeral_eq_Suc)
  have "s = take 7 s @ drop 7 s" by simp
  then have "s = ''sha256:'' @ drop 7 s" by (simp only: t)
  moreover have "length (drop 7 s) = 64" using assms by (simp add: is_sha256_def)
  moreover have "\<forall>c \<in> set (drop 7 s). is_hex c"
    using assms by (simp add: is_sha256_def list_all_iff)
  ultimately show ?thesis using that by blast
qed

lemma is_sha256I: "length t = 64 \<Longrightarrow> \<forall>c \<in> set t. is_hex c \<Longrightarrow> is_sha256 (''sha256:'' @ t)"
  by (simp add: is_sha256_def list_all_iff)

lemma hex_not_nul: "is_hex c \<Longrightarrow> c \<noteq> nul"
  by (auto simp: is_hex_def hex_lower_def nul_def)

lemma is_sha256_normalized: "is_sha256 s \<Longrightarrow> normalized s"
proof -
  assume "is_sha256 s"
  then obtain t where s: "s = ''sha256:'' @ t" and l: "length t = 64"
    and h: "\<forall>c \<in> set t. is_hex c"
    by (rule is_sha256E)
  have ne: "t \<noteq> []" using l by auto
  then have "is_hex (last t)" using h by simp
  then have "\<not> is_space (last s)" using ne by (simp add: s hex_not_space)
  moreover have "\<not> is_space (hd s)" by (simp add: s is_space_def)
  ultimately have "strip s = s"
    by (intro strip_no_space_ends) (simp_all add: s)
  moreover have "nul \<notin> set t" using h hex_not_nul by blast
  then have "nul \<notin> set s" by (simp add: s nul_def)
  ultimately show ?thesis by (simp add: normalized_def s)
qed

lemma distinct_map_sort_key: "distinct (map f (sort_key k xs)) \<longleftrightarrow> distinct (map f xs)"
  by (rule mset_eq_imp_distinct_iff) simp

end
