(* ===== verification/PyValue.thy ===== *)
theory PyValue
  imports Prelude
begin

text \<open>
  The dynamic values the program passes around, and the Python operations on them: the exact
  type tests (\<open>type(v) is str\<close>), equality (\<open>==\<close>, with \<open>True == 1\<close>, \<open>1 == 1.0\<close>, and dictionaries
  compared without order), hashability (membership in a set raises \<open>TypeError\<close> for a list or a
  dictionary), dictionary access and \<open>str\<close> / \<open>repr\<close>.

  A dictionary is the list of its items in insertion order.  A member of a \<open>str\<close>-mixin
  enumeration (\<open>class X(str, Enum)\<close>) is \<open>PEnum class value\<close>; an instance of any other class is
  \<open>PObject class\<close>.  A float is kept as its integral value when it has one, or as its text.
\<close>

datatype pyfloat = FInt int string | FFrac string | FPosInf | FNegInf | FNaN

datatype pyval =
    PNone
  | PBool bool
  | PInt int
  | PFloat pyfloat
  | PStr string
  | PBytes string
  | PList "pyval list"
  | PTuple "pyval list"
  | PDict "(pyval \<times> pyval) list"
  | PEnum string string
  | PObject string

type_synonym pydict = "(pyval \<times> pyval) list"

section \<open>Type tests\<close>

definition is_str :: "pyval \<Rightarrow> bool" where
  "is_str v \<longleftrightarrow> (case v of PStr _ \<Rightarrow> True | _ \<Rightarrow> False)"

text \<open>\<open>isinstance(v, str)\<close> also holds of the members of the string enumerations.\<close>

definition isinstance_str :: "pyval \<Rightarrow> bool" where
  "isinstance_str v \<longleftrightarrow> (case v of PStr _ \<Rightarrow> True | PEnum _ _ \<Rightarrow> True | _ \<Rightarrow> False)"

definition is_int :: "pyval \<Rightarrow> bool" where
  "is_int v \<longleftrightarrow> (case v of PInt _ \<Rightarrow> True | _ \<Rightarrow> False)"

definition is_bool :: "pyval \<Rightarrow> bool" where
  "is_bool v \<longleftrightarrow> (case v of PBool _ \<Rightarrow> True | _ \<Rightarrow> False)"

definition is_tuple :: "pyval \<Rightarrow> bool" where
  "is_tuple v \<longleftrightarrow> (case v of PTuple _ \<Rightarrow> True | _ \<Rightarrow> False)"

definition is_list :: "pyval \<Rightarrow> bool" where
  "is_list v \<longleftrightarrow> (case v of PList _ \<Rightarrow> True | _ \<Rightarrow> False)"

definition is_dict :: "pyval \<Rightarrow> bool" where
  "is_dict v \<longleftrightarrow> (case v of PDict _ \<Rightarrow> True | _ \<Rightarrow> False)"

definition is_bytes :: "pyval \<Rightarrow> bool" where
  "is_bytes v \<longleftrightarrow> (case v of PBytes _ \<Rightarrow> True | _ \<Rightarrow> False)"

text \<open>The text of a string value; only read where a type test has succeeded.\<close>

definition str_of :: "pyval \<Rightarrow> string" where
  "str_of v = (case v of PStr s \<Rightarrow> s | PEnum _ s \<Rightarrow> s | _ \<Rightarrow> [])"

text \<open>The elements of a list or tuple.\<close>

definition elems :: "pyval \<Rightarrow> pyval list" where
  "elems v = (case v of PTuple xs \<Rightarrow> xs | PList xs \<Rightarrow> xs | _ \<Rightarrow> [])"

definition items :: "pyval \<Rightarrow> pydict" where
  "items v = (case v of PDict d \<Rightarrow> d | _ \<Rightarrow> [])"

lemmas type_test_defs =
  is_str_def isinstance_str_def is_int_def is_bool_def is_tuple_def is_list_def is_dict_def
  is_bytes_def

lemma type_test_simps [simp]:
  "is_str (PStr s)" "isinstance_str (PStr s)" "isinstance_str (PEnum c s)" "is_int (PInt i)"
  "is_bool (PBool b)" "is_tuple (PTuple xs)" "is_list (PList xs)" "is_dict (PDict d)"
  "is_bytes (PBytes s)" "str_of (PStr s) = s" "str_of (PEnum c s) = s"
  "elems (PTuple xs) = xs" "elems (PList xs) = xs" "items (PDict d) = d"
  by (simp_all add: type_test_defs str_of_def elems_def items_def)

lemma is_str_iff: "is_str v \<longleftrightarrow> (\<exists>s. v = PStr s)"
  by (cases v) (simp_all add: is_str_def)

lemma is_int_iff: "is_int v \<longleftrightarrow> (\<exists>i. v = PInt i)"
  by (cases v) (simp_all add: is_int_def)

lemma is_bool_iff: "is_bool v \<longleftrightarrow> (\<exists>b. v = PBool b)"
  by (cases v) (simp_all add: is_bool_def)

lemma is_tuple_iff: "is_tuple v \<longleftrightarrow> (\<exists>xs. v = PTuple xs)"
  by (cases v) (simp_all add: is_tuple_def)

lemma is_list_iff: "is_list v \<longleftrightarrow> (\<exists>xs. v = PList xs)"
  by (cases v) (simp_all add: is_list_def)

lemma is_dict_iff: "is_dict v \<longleftrightarrow> (\<exists>d. v = PDict d)"
  by (cases v) (simp_all add: is_dict_def)

lemma is_bytes_iff: "is_bytes v \<longleftrightarrow> (\<exists>s. v = PBytes s)"
  by (cases v) (simp_all add: is_bytes_def)

lemma isinstance_str_iff: "isinstance_str v \<longleftrightarrow> (\<exists>s. v = PStr s) \<or> (\<exists>c s. v = PEnum c s)"
  by (cases v) (simp_all add: isinstance_str_def)

lemma map_PStr_eq [simp]: "map PStr xs = map PStr ys \<longleftrightarrow> xs = ys"
  by (rule inj_map_eq_map) (simp add: inj_on_def)

lemma type_test_False [simp]:
  "\<not> is_str PNone" "\<not> is_str (PBool b)" "\<not> is_str (PInt i)" "\<not> is_str (PFloat f)"
  "\<not> is_str (PBytes s)" "\<not> is_str (PList xs)" "\<not> is_str (PTuple xs)" "\<not> is_str (PDict d)"
  "\<not> is_str (PEnum c s)" "\<not> is_str (PObject c)"
  by (simp_all add: is_str_def)

section \<open>Truth value\<close>

definition truthy :: "pyval \<Rightarrow> bool" where
  "truthy v \<longleftrightarrow> (case v of
      PNone \<Rightarrow> False | PBool b \<Rightarrow> b | PInt i \<Rightarrow> i \<noteq> 0
    | PFloat f \<Rightarrow> (case f of FInt i _ \<Rightarrow> i \<noteq> 0 | _ \<Rightarrow> True)
    | PStr s \<Rightarrow> s \<noteq> [] | PBytes s \<Rightarrow> s \<noteq> [] | PList xs \<Rightarrow> xs \<noteq> [] | PTuple xs \<Rightarrow> xs \<noteq> []
    | PDict d \<Rightarrow> d \<noteq> [] | PEnum _ s \<Rightarrow> s \<noteq> [] | PObject _ \<Rightarrow> True)"

section \<open>Dictionaries\<close>

text \<open>A key matches the text \<open>k\<close> when it is that string (or an enumeration member equal to it).\<close>

definition key_is :: "string \<Rightarrow> pyval \<Rightarrow> bool" where
  "key_is k p \<longleftrightarrow> (case p of PStr s \<Rightarrow> s = k | PEnum _ s \<Rightarrow> s = k | _ \<Rightarrow> False)"

primrec dget :: "pydict \<Rightarrow> string \<Rightarrow> pyval option" where
  "dget [] k = None"
| "dget (p # d) k = (if key_is k (fst p) then Some (snd p) else dget d k)"

text \<open>\<open>d.get(k)\<close> and \<open>d[k]\<close>.\<close>

definition get :: "pydict \<Rightarrow> string \<Rightarrow> pyval" where
  "get d k = (case dget d k of None \<Rightarrow> PNone | Some v \<Rightarrow> v)"

definition getitem :: "pydict \<Rightarrow> string \<Rightarrow> pyval res" where
  "getitem d k = (case dget d k of None \<Rightarrow> Inl (KeyErr, k) | Some v \<Rightarrow> Inr v)"

definition get_default :: "pydict \<Rightarrow> string \<Rightarrow> pyval \<Rightarrow> pyval" where
  "get_default d k w = (case dget d k of None \<Rightarrow> w | Some v \<Rightarrow> v)"

text \<open>\<open>k in d\<close>, and \<open>set(d) == {k1, .., kn}\<close>.\<close>

definition has_key :: "pydict \<Rightarrow> string \<Rightarrow> bool" where
  "has_key d k \<longleftrightarrow> dget d k \<noteq> None"

definition keys_are :: "pydict \<Rightarrow> string list \<Rightarrow> bool" where
  "keys_are d ks \<longleftrightarrow> list_all (has_key d) ks \<and> list_all (\<lambda>p. list_ex (\<lambda>k. key_is k (fst p)) ks) d"

text \<open>\<open>{k: v for k, v in d.items() if k != x}\<close>.\<close>

definition without_key :: "pydict \<Rightarrow> string \<Rightarrow> pydict" where
  "without_key d x = filter (\<lambda>p. \<not> key_is x (fst p)) d"

text \<open>\<open>d[k] = v\<close> for a string key: an existing key keeps its place.\<close>

fun dset :: "pydict \<Rightarrow> string \<Rightarrow> pyval \<Rightarrow> pydict" where
  "dset [] k v = [(PStr k, v)]"
| "dset (p # d) k v = (if key_is k (fst p) then (fst p, v) # d else p # dset d k v)"

text \<open>A dictionary display with string keys.\<close>

definition mkdict :: "(string \<times> pyval) list \<Rightarrow> pyval" where
  "mkdict kvs = PDict (map (\<lambda>(k, v). (PStr k, v)) kvs)"

lemma key_is_simps [simp]: "key_is k (PStr s) \<longleftrightarrow> s = k" "key_is k (PEnum c s) \<longleftrightarrow> s = k"
  by (simp_all add: key_is_def)

lemma dget_mkdict: "dget (map (\<lambda>(k, v). (PStr k, v)) kvs) x = map_of kvs x"
  by (induction kvs) auto

lemma items_mkdict [simp]: "items (mkdict kvs) = map (\<lambda>(k, v). (PStr k, v)) kvs"
  by (simp add: mkdict_def)

lemma is_dict_mkdict [simp]: "is_dict (mkdict kvs)"
  by (simp add: mkdict_def)

lemma key_is_unique: "key_is k p \<Longrightarrow> key_is x p \<Longrightarrow> k = x"
  by (cases p) (auto simp: key_is_def)

lemma dget_dset: "dget (dset d k v) x = (if x = k then Some v else dget d x)"
  by (induction d k v rule: dset.induct) (auto dest: key_is_unique)

lemma dget_without_key: "dget (without_key d x) k = (if k = x then None else dget d k)"
  unfolding without_key_def by (induction d) (auto dest: key_is_unique)

lemma dget_in_set: "dget d k = Some v \<Longrightarrow> \<exists>p \<in> set d. key_is k (fst p) \<and> snd p = v"
  by (induction d) (auto split: if_splits)

section \<open>Equality\<close>

text \<open>The numeric value of a number that has an integral one, for \<open>True == 1 == 1.0\<close>.\<close>

definition num_of :: "pyval \<Rightarrow> int option" where
  "num_of v = (case v of PBool b \<Rightarrow> Some (if b then 1 else 0) | PInt i \<Rightarrow> Some i
     | PFloat (FInt i _) \<Rightarrow> Some i | _ \<Rightarrow> None)"

definition float_eq :: "pyfloat \<Rightarrow> pyfloat \<Rightarrow> bool" where
  "float_eq f g \<longleftrightarrow> (case (f, g) of
     (FInt i _, FInt j _) \<Rightarrow> i = j | (FFrac s, FFrac t) \<Rightarrow> s = t
   | (FPosInf, FPosInf) \<Rightarrow> True | (FNegInf, FNegInf) \<Rightarrow> True | _ \<Rightarrow> False)"

function py_eq :: "pyval \<Rightarrow> pyval \<Rightarrow> bool"
and py_eqs :: "pyval list \<Rightarrow> pyval list \<Rightarrow> bool"
and py_sub :: "pydict \<Rightarrow> pydict \<Rightarrow> bool" where
  "py_eq PNone w = (w = PNone)"
| "py_eq (PBool b) w = (num_of w = Some (if b then 1 else 0))"
| "py_eq (PInt i) w = (num_of w = Some i)"
| "py_eq (PFloat f) w = (case w of PFloat g \<Rightarrow> float_eq f g
     | _ \<Rightarrow> (case f of FInt i _ \<Rightarrow> num_of w = Some i | _ \<Rightarrow> False))"
| "py_eq (PStr s) w = (isinstance_str w \<and> str_of w = s)"
| "py_eq (PEnum c s) w = (isinstance_str w \<and> str_of w = s)"
| "py_eq (PBytes s) w = (w = PBytes s)"
| "py_eq (PObject c) w = (w = PObject c)"
| "py_eq (PList xs) w = (case w of PList ys \<Rightarrow> py_eqs xs ys | _ \<Rightarrow> False)"
| "py_eq (PTuple xs) w = (case w of PTuple ys \<Rightarrow> py_eqs xs ys | _ \<Rightarrow> False)"
| "py_eq (PDict d) w = (case w of PDict e \<Rightarrow> length d = length e \<and> py_sub d e | _ \<Rightarrow> False)"
| "py_eqs [] ys = (ys = [])"
| "py_eqs (x # xs) ys = (case ys of [] \<Rightarrow> False | y # zs \<Rightarrow> py_eq x y \<and> py_eqs xs zs)"
| "py_sub [] e = True"
| "py_sub ((k, v) # d) e = (list_ex (\<lambda>p. py_eq k (fst p) \<and> py_eq v (snd p)) e \<and> py_sub d e)"
  by pat_completeness auto
termination
  by (relation "measure (\<lambda>x. case x of Inl (v, _) \<Rightarrow> size v
        | Inr (Inl (xs, _)) \<Rightarrow> size_list size xs
        | Inr (Inr (d, _)) \<Rightarrow> size_list (size_prod size size) d)") auto

lemma py_eq_PStr [simp]: "py_eq v (PStr s) \<longleftrightarrow> isinstance_str v \<and> str_of v = s"
  by (cases v) (auto simp: type_test_defs str_of_def num_of_def split: pyfloat.splits)

section \<open>Hashability and membership in a set\<close>

fun hashable :: "pyval \<Rightarrow> bool" where
  "hashable (PList xs) = False"
| "hashable (PDict d) = False"
| "hashable (PTuple xs) = list_all hashable xs"
| "hashable _ = True"

text \<open>\<open>v in {"s1", .., "sn"}\<close>.\<close>

definition in_strs :: "pyval \<Rightarrow> string list \<Rightarrow> bool res" where
  "in_strs v ss = (if hashable v then Inr (list_ex (\<lambda>s. py_eq v (PStr s)) ss)
                   else Inl (TypeErr, ''unhashable type''))"

lemma in_strs_PStr [simp]: "in_strs (PStr s) ss = Inr (List.member ss s)"
  by (auto simp: in_strs_def list_ex_iff)

lemma in_strs_Inr_True: "in_strs v ss = Inr True \<Longrightarrow> isinstance_str v \<and> str_of v \<in> set ss"
  by (auto simp: in_strs_def list_ex_iff split: if_splits)

end
