(* ===== verification/Sha256.thy ===== *)
theory Sha256
  imports Prelude "HOL-Library.Word"
begin

text \<open>
  The digest function of the Python library module \<open>hashlib\<close> the program hashes with:
  SHA-256 of FIPS 180-4, on byte strings, as an executable function.  The development uses
  two facts about it only: a digest is 64 lower-case hexadecimal characters, and it is a
  function of the bytes.  Nothing rests on its being free of collisions; a theorem that needs
  two particular messages not to collide says so in its statement.
\<close>

unbundle bit_operations_syntax

type_synonym w32 = "32 word"

text \<open>The constants: the first 32 bits of the fractional parts of the cube roots of the first 64
  primes, and of the square roots of the first eight.  \<open>iroot k n b r\<close> adds to \<open>r\<close> the bits below \<open>b\<close>
  of the \<open>k\<close>-th root of \<open>n\<close>, highest first.\<close>

fun iroot :: "nat \<Rightarrow> int \<Rightarrow> nat \<Rightarrow> int \<Rightarrow> int" where
  "iroot k n 0 r = r"
| "iroot k n (Suc b) r = iroot k n b (if (r + 2 ^ b) ^ k \<le> n then r + 2 ^ b else r)"

definition root_fraction :: "nat \<Rightarrow> int \<Rightarrow> w32" where
  "root_fraction k p = of_int (iroot k (p * 2 ^ (32 * k)) 40 0)"

definition small_primes :: "int list" where
  "small_primes = filter (\<lambda>n. list_all (\<lambda>d. n mod d \<noteq> 0) [2..n - 1]) [2..311]"

definition sha_k :: "w32 list" where
  "sha_k = map (root_fraction 3) small_primes"

definition sha_init :: "w32 list" where
  "sha_init = map (root_fraction 2) [2, 3, 5, 7, 11, 13, 17, 19]"

definition rotr :: "nat \<Rightarrow> w32 \<Rightarrow> w32" where
  "rotr n w = drop_bit n w OR push_bit (32 - n) w"

definition sml0 :: "w32 \<Rightarrow> w32" where
  "sml0 x = (rotr 7 x XOR rotr 18 x) XOR drop_bit 3 x"

definition sml1 :: "w32 \<Rightarrow> w32" where
  "sml1 x = (rotr 17 x XOR rotr 19 x) XOR drop_bit 10 x"

definition big0 :: "w32 \<Rightarrow> w32" where
  "big0 x = (rotr 2 x XOR rotr 13 x) XOR rotr 22 x"

definition big1 :: "w32 \<Rightarrow> w32" where
  "big1 x = (rotr 6 x XOR rotr 11 x) XOR rotr 25 x"

text \<open>The message schedule: the sixteen words of the block, then \<open>n\<close> more, each computed from
  the sixteen before it.\<close>

primrec schedule :: "nat \<Rightarrow> w32 list \<Rightarrow> w32 list" where
  "schedule 0 ws = ws"
| "schedule (Suc n) ws =
     hd ws # schedule n (tl ws @ [sml1 (ws ! 14) + ws ! 9 + sml0 (ws ! 1) + ws ! 0])"

definition sha_round :: "w32 \<times> w32 \<Rightarrow> w32 list \<Rightarrow> w32 list" where
  "sha_round kw st =
     (case st of [a, b, c, d, e, f, g, h] \<Rightarrow>
        let t1 = h + big1 e + ((e AND f) XOR (NOT e AND g)) + fst kw + snd kw;
            t2 = big0 a + (((a AND b) XOR (a AND c)) XOR (b AND c))
        in [t1 + t2, a, b, c, d + t1, e, f, g]
      | _ \<Rightarrow> st)"

definition compress :: "w32 list \<Rightarrow> w32 list \<Rightarrow> w32 list" where
  "compress st ws = map2 (+) st (fold sha_round (zip sha_k (schedule 48 ws)) st)"

definition byte_word :: "char \<Rightarrow> w32" where
  "byte_word c = word_of_int (of_char c)"

fun be_words :: "string \<Rightarrow> w32 list" where
  "be_words (a # b # c # d # cs) =
     (push_bit 24 (byte_word a) OR push_bit 16 (byte_word b) OR
      push_bit 8 (byte_word c) OR byte_word d) # be_words cs"
| "be_words _ = []"

definition be_bytes8 :: "nat \<Rightarrow> string" where
  "be_bytes8 n = map (\<lambda>i. char_of (int n div 256 ^ i mod 256)) [7, 6, 5, 4, 3, 2, 1, 0]"

definition pad :: "string \<Rightarrow> string" where
  "pad m = m @ [CHR 0x80] @ replicate ((119 - length m mod 64) mod 64) (CHR 0x00)
           @ be_bytes8 (8 * length m)"

fun blocks :: "w32 list \<Rightarrow> w32 list list" where
  "blocks ws = (if length ws < 16 then [] else take 16 ws # blocks (drop 16 ws))"

declare blocks.simps [simp del]

definition sha256_words :: "string \<Rightarrow> w32 list" where
  "sha256_words m = fold (\<lambda>b st. compress st b) (blocks (be_words (pad m))) sha_init"

definition hex_digit :: "nat \<Rightarrow> char" where
  "hex_digit n = hex_lower ! (n mod 16)"

definition hex8 :: "w32 \<Rightarrow> string" where
  "hex8 w = map (\<lambda>i. hex_digit (nat (uint w div 16 ^ i mod 16))) [7, 6, 5, 4, 3, 2, 1, 0]"

text \<open>\<open>hashlib.sha256(m).hexdigest()\<close>.\<close>

definition sha256_hex :: "string \<Rightarrow> string" where
  "sha256_hex m = concat (map hex8 (sha256_words m))"

text \<open>\<open>"sha256:" + hexdigest\<close>, the form of every hash the program stores.\<close>

definition sha_text :: "string \<Rightarrow> string" where
  "sha_text m = ''sha256:'' @ sha256_hex m"

section \<open>Shape of a digest\<close>

lemma length_sha_round [simp]: "length (sha_round kw st) = length st"
  by (auto simp: sha_round_def Let_def split: list.splits)

lemma length_fold_sha_round [simp]: "length (fold sha_round kws st) = length st"
  by (induction kws arbitrary: st) auto

lemma length_compress [simp]: "length (compress st ws) = length st"
  by (simp add: compress_def)

lemma length_sha256_words [simp]: "length (sha256_words m) = 8"
proof -
  have "length (fold (\<lambda>b st. compress st b) bs st) = length st" for bs st
    by (induction bs arbitrary: st) auto
  then show ?thesis by (simp add: sha256_words_def sha_init_def)
qed

lemma hex_digit_is_hex [simp]: "is_hex (hex_digit n)"
proof -
  have "hex_lower ! (n mod 16) \<in> set hex_lower"
    by (rule nth_mem) (simp add: hex_lower_def)
  then show ?thesis by (simp add: hex_digit_def is_hex_def)
qed

lemma sha256_hex_length [simp]: "length (sha256_hex m) = 64"
proof -
  have "length (concat (map hex8 ws)) = 8 * length ws" for ws
    by (induction ws) (simp_all add: hex8_def)
  then show ?thesis by (simp add: sha256_hex_def)
qed

lemma sha256_hex_is_hex: "c \<in> set (sha256_hex m) \<Longrightarrow> is_hex c"
  by (auto simp: sha256_hex_def hex8_def)

lemma sha_text_is_sha256 [simp]: "is_sha256 (sha_text m)"
  unfolding sha_text_def by (rule is_sha256I) (auto dest: sha256_hex_is_hex)

lemma sha_text_normalized [simp]: "normalized (sha_text m)"
  by (rule is_sha256_normalized) simp

lemma sha_text_not_Nil [simp]: "sha_text m \<noteq> []" "[] \<noteq> sha_text m"
  by (simp_all add: sha_text_def)

lemma sha_text_eq_iff: "sha_text m = sha_text n \<longleftrightarrow> sha256_hex m = sha256_hex n"
  by (simp add: sha_text_def)

end
