(* ===== verification/Json.thy ===== *)
theory Json
  imports PyValue Sha256
begin

text \<open>
  JSON text and canonical hashing.  \<open>dumps\<close> is \<open>json.dumps\<close> (any separators, with or without key sorting
  and \<open>ensure_ascii\<close>), \<open>loads\<close> is \<open>json.loads\<close>, both of the Python library; \<open>clean\<close>,
  \<open>canonical_json\<close> and \<open>hash_value\<close> are the functions of \<open>product/evidence/__init__.py\<close> every
  component hashes with.

  The parser is a recursive descent with fuel; \<open>p_value_fuel\<close> shows that the fuel \<open>loads\<close> passes
  is never what makes it fail.  The main results are the round trip (parsing the text of a
  string-keyed value gives the value back) and its corollary that the canonical text determines
  the cleaned value.

  Not modelled: \<open>\\u\<close> escapes above 255 (text is limited to the code points 0 to 255), the binary
  rounding of float literals (a float keeps its text), the recursion limit, and cyclic values
  (values are finite trees).
\<close>

section \<open>Text encoding\<close>

text \<open>\<open>s.encode("utf-8")\<close> for code points up to 255.\<close>

definition utf8_char :: "char \<Rightarrow> string" where
  "utf8_char c = (let n = (of_char c :: nat) in
     if n < 128 then [c] else [char_of (192 + n div 64), char_of (128 + n mod 64)])"

definition utf8 :: "string \<Rightarrow> string" where
  "utf8 s = concat (map utf8_char s)"

text \<open>\<open>b.decode("utf-8")\<close>, raising on malformed input.\<close>

fun utf8_decode :: "string \<Rightarrow> string option" where
  "utf8_decode [] = Some []"
| "utf8_decode [c] = (if of_char c < (128::nat) then Some [c] else None)"
| "utf8_decode (c # d # cs) =
     (if of_char c < (128::nat) then map_option ((#) c) (utf8_decode (d # cs))
      else if (of_char c = (194::nat) \<or> of_char c = (195::nat))
              \<and> 128 \<le> (of_char d :: nat) \<and> (of_char d :: nat) < 192
      then map_option ((#) (char_of ((of_char c :: nat) mod 4 * 64 + (of_char d :: nat) mod 64)))
             (utf8_decode cs)
      else None)"

definition is_ascii :: "string \<Rightarrow> bool" where
  "is_ascii s \<longleftrightarrow> (\<forall>c \<in> set s. of_char c < (128::nat))"

lemma utf8_ascii: "is_ascii s \<Longrightarrow> utf8 s = s"
  by (induction s) (auto simp: utf8_def utf8_char_def is_ascii_def)

lemma utf8_decode_ascii: "is_ascii s \<Longrightarrow> utf8_decode s = Some s"
  by (induction s rule: utf8_decode.induct) (auto simp: is_ascii_def)

section \<open>Printing\<close>

definition hex2 :: "nat \<Rightarrow> string" where
  "hex2 n = [hex_digit (n div 16), hex_digit n]"

definition esc_char :: "char \<Rightarrow> string" where
  "esc_char c =
     (if c = CHR 0x22 then [CHR 0x5C, CHR 0x22]
      else if c = CHR 0x5C then [CHR 0x5C, CHR 0x5C]
      else if c = CHR 0x0A then [CHR 0x5C, CHR ''n'']
      else if c = CHR 0x0D then [CHR 0x5C, CHR ''r'']
      else if c = CHR 0x09 then [CHR 0x5C, CHR ''t'']
      else if c = CHR 0x0C then [CHR 0x5C, CHR ''f'']
      else if c = CHR 0x08 then [CHR 0x5C, CHR ''b'']
      else if 32 \<le> (of_char c :: nat) \<and> (of_char c :: nat) \<le> 126 then [c]
      else [CHR 0x5C, CHR ''u'', CHR ''0'', CHR ''0''] @ hex2 (of_char c))"

fun join :: "string \<Rightarrow> string list \<Rightarrow> string" where
  "join sep [] = []"
| "join sep [t] = t"
| "join sep (t # u # ts) = t @ sep @ join sep (u # ts)"

definition float_text :: "pyfloat \<Rightarrow> string" where
  "float_text f = (case f of FInt _ s \<Rightarrow> s | FFrac s \<Rightarrow> s
     | FPosInf \<Rightarrow> ''Infinity'' | FNegInf \<Rightarrow> ''-Infinity'' | FNaN \<Rightarrow> ''NaN'')"

record json_style =
  item_sep :: string
  key_sep :: string
  sort_keys :: bool
  ensure_ascii :: bool

text \<open>\<open>separators=(",", ":"), sort_keys=True\<close>; \<open>sort_keys=True\<close>; the defaults; and the styles with
  \<open>ensure_ascii=False\<close>.\<close>

definition compact_sorted :: json_style where
  "compact_sorted = \<lparr>item_sep = '','', key_sep = '':'', sort_keys = True, ensure_ascii = True\<rparr>"

definition spaced_sorted :: json_style where
  "spaced_sorted = \<lparr>item_sep = '', '', key_sep = '': '', sort_keys = True, ensure_ascii = True\<rparr>"

definition spaced :: json_style where
  "spaced = \<lparr>item_sep = '', '', key_sep = '': '', sort_keys = False, ensure_ascii = True\<rparr>"

definition compact :: json_style where
  "compact = \<lparr>item_sep = '','', key_sep = '':'', sort_keys = False, ensure_ascii = True\<rparr>"

definition compact_raw :: json_style where
  "compact_raw = \<lparr>item_sep = '','', key_sep = '':'', sort_keys = True, ensure_ascii = False\<rparr>"

definition spaced_raw :: json_style where
  "spaced_raw = \<lparr>item_sep = '', '', key_sep = '': '', sort_keys = False, ensure_ascii = False\<rparr>"

text \<open>With \<open>ensure_ascii=False\<close> only quotes, backslashes and control characters are escaped.\<close>

definition style_char :: "json_style \<Rightarrow> char \<Rightarrow> string" where
  "style_char st c = (if ensure_ascii st \<or> c = CHR 0x22 \<or> c = CHR 0x5C \<or> (of_char c :: nat) < 32 then esc_char c else [c])"

definition json_string :: "json_style \<Rightarrow> string \<Rightarrow> string" where
  "json_string st s = CHR 0x22 # concat (map (style_char st) s) @ [CHR 0x22]"

lemma emap_cong [fundef_cong]:
  "xs = ys \<Longrightarrow> (\<And>x. x \<in> set ys \<Longrightarrow> f x = g x) \<Longrightarrow> emap f xs = emap g ys"
  by (induction xs arbitrary: ys) auto

definition ordered :: "json_style \<Rightarrow> pydict \<Rightarrow> pydict" where
  "ordered st d = (if sort_keys st then sort_key (\<lambda>p. str_of (fst p)) d else d)"

lemma set_ordered [simp]: "set (ordered st d) = set d"
  by (simp add: ordered_def)

function dumps :: "json_style \<Rightarrow> pyval \<Rightarrow> string res" where
  "dumps st PNone = Inr ''null''"
| "dumps st (PBool b) = Inr (if b then ''true'' else ''false'')"
| "dumps st (PInt i) = Inr (show_int i)"
| "dumps st (PFloat f) = Inr (float_text f)"
| "dumps st (PStr s) = Inr (json_string st s)"
| "dumps st (PEnum c s) = Inr (json_string st s)"
| "dumps st (PBytes s) = Inl (TypeErr, ''Object of type bytes is not JSON serializable'')"
| "dumps st (PObject c) = Inl (TypeErr, ''Object is not JSON serializable'')"
| "dumps st (PList xs) =
     ebind (emap (dumps st) xs) (\<lambda>ts. Inr (CHR ''['' # join (item_sep st) ts @ '']''))"
| "dumps st (PTuple xs) =
     ebind (emap (dumps st) xs) (\<lambda>ts. Inr (CHR ''['' # join (item_sep st) ts @ '']''))"
| "dumps st (PDict d) =
     (if list_all (\<lambda>p. isinstance_str (fst p)) d then
        ebind (emap (\<lambda>p. ebind (dumps st (snd p))
                 (\<lambda>t. Inr (json_string st (str_of (fst p)) @ key_sep st @ t))) (ordered st d))
          (\<lambda>ts. Inr (CHR ''{'' # join (item_sep st) ts @ ''}''))
      else Inl (TypeErr, ''keys must be str''))"
  by pat_completeness auto
termination
proof (relation "measure (\<lambda>(st, v). size v)")
  show "wf (measure (\<lambda>(st, v). size v))" by simp
next
  fix st :: json_style and xs and x :: pyval assume "x \<in> set xs"
  then show "((st, x), st, PList xs) \<in> measure (\<lambda>(st, v). size v)"
    by (auto dest: size_list_estimation' [where f = size and y = "size x"])
next
  fix st :: json_style and xs and x :: pyval assume "x \<in> set xs"
  then show "((st, x), st, PTuple xs) \<in> measure (\<lambda>(st, v). size v)"
    by (auto dest: size_list_estimation' [where f = size and y = "size x"])
next
  fix st :: json_style and d and p :: "pyval \<times> pyval" assume "p \<in> set (ordered st d)"
  then have "size_prod size size p \<le> size_list (size_prod size size) d"
    by (auto intro: size_list_estimation')
  then show "((st, snd p), st, PDict d) \<in> measure (\<lambda>(st, v). size v)"
    by (cases p) auto
qed

section \<open>Canonical text and hash\<close>

text \<open>\<open>_make_canonical_json.clean\<close>: tuples become lists, dictionaries are rebuilt in key order, and
  anything but \<open>None\<close>, strings, integers, booleans and containers raises.\<close>

definition type_name :: "pyval \<Rightarrow> string" where
  "type_name v = (case v of
      PNone \<Rightarrow> ''NoneType'' | PBool _ \<Rightarrow> ''bool'' | PInt _ \<Rightarrow> ''int'' | PFloat _ \<Rightarrow> ''float''
    | PStr _ \<Rightarrow> ''str'' | PBytes _ \<Rightarrow> ''bytes'' | PList _ \<Rightarrow> ''list'' | PTuple _ \<Rightarrow> ''tuple''
    | PDict _ \<Rightarrow> ''dict'' | PEnum c _ \<Rightarrow> c | PObject c \<Rightarrow> c)"

definition unsupported :: "pyval \<Rightarrow> 'a res" where
  "unsupported v = Inl (TypeErr, ''unsupported canonical value: '' @ type_name v)"

function clean :: "pyval \<Rightarrow> pyval res" where
  "clean PNone = Inr PNone"
| "clean (PStr s) = Inr (PStr s)"
| "clean (PInt i) = Inr (PInt i)"
| "clean (PBool b) = Inr (PBool b)"
| "clean (PTuple xs) = ebind (emap clean xs) (\<lambda>ys. Inr (PList ys))"
| "clean (PList xs) = ebind (emap clean xs) (\<lambda>ys. Inr (PList ys))"
| "clean (PDict d) =
     (if list_ex (\<lambda>p. \<not> isinstance_str (fst p)) d
      then Inl (TypeErr, ''canonical object keys must be strings'')
      else ebind (emap (\<lambda>k. ebind (case dget d k of None \<Rightarrow> Inl (KeyErr, k) | Some v \<Rightarrow> clean v)
                              (\<lambda>w. Inr (PStr k, w)))
                   (sorted_set (map (\<lambda>p. str_of (fst p)) d)))
             (\<lambda>e. Inr (PDict e)))"
| "clean (PFloat f) = unsupported (PFloat f)"
| "clean (PBytes s) = unsupported (PBytes s)"
| "clean (PEnum c s) = unsupported (PEnum c s)"
| "clean (PObject c) = unsupported (PObject c)"
  by pat_completeness auto
termination
proof (relation "measure size")
  show "wf (measure size)" by simp
next
  fix xs x assume "x \<in> set (xs :: pyval list)"
  then show "(x, PTuple xs) \<in> measure size"
    by (auto dest: size_list_estimation' [where f = size and y = "size x"])
next
  fix xs x assume "x \<in> set (xs :: pyval list)"
  then show "(x, PList xs) \<in> measure size"
    by (auto dest: size_list_estimation' [where f = size and y = "size x"])
next
  fix d k v assume "dget d k = Some v"
  then obtain p where "p \<in> set d" "snd p = v" by (auto dest: dget_in_set)
  then have "size_prod size size p \<le> size_list (size_prod size size) d"
    by (auto intro: size_list_estimation')
  with \<open>snd p = v\<close> show "(v, PDict d) \<in> measure size"
    by (cases p) auto
qed

definition canonical_json :: "pyval \<Rightarrow> string res" where
  "canonical_json v = ebind (clean v) (dumps compact_sorted)"

text \<open>\<open>_hash\<close>: \<open>"sha256:" + sha256(canonical(value).encode()).hexdigest()\<close>.\<close>

definition hash_value :: "pyval \<Rightarrow> string res" where
  "hash_value v = ebind (canonical_json v) (\<lambda>t. Inr (sha_text (utf8 t)))"

section \<open>Parsing\<close>

definition is_ws :: "char \<Rightarrow> bool" where
  "is_ws c \<longleftrightarrow> c = CHR '' '' \<or> c = CHR 0x09 \<or> c = CHR 0x0A \<or> c = CHR 0x0D"

definition skip_ws :: "string \<Rightarrow> string" where
  "skip_ws s = dropWhile is_ws s"

definition is_digit :: "char \<Rightarrow> bool" where
  "is_digit c \<longleftrightarrow> 48 \<le> (of_char c :: nat) \<and> (of_char c :: nat) \<le> 57"

definition hex_val :: "char \<Rightarrow> nat option" where
  "hex_val c = (let n = (of_char c :: nat) in
     if 48 \<le> n \<and> n \<le> 57 then Some (n - 48)
     else if 97 \<le> n \<and> n \<le> 102 then Some (n - 87)
     else if 65 \<le> n \<and> n \<le> 70 then Some (n - 55)
     else None)"

definition hex4_val :: "char \<Rightarrow> char \<Rightarrow> char \<Rightarrow> char \<Rightarrow> nat option" where
  "hex4_val a b c d = (case (hex_val a, hex_val b, hex_val c, hex_val d) of
     (Some w, Some x, Some y, Some z) \<Rightarrow> Some (((w * 16 + x) * 16 + y) * 16 + z)
   | _ \<Rightarrow> None)"

definition unesc :: "char \<Rightarrow> char option" where
  "unesc e =
     (if e = CHR 0x22 \<or> e = CHR 0x5C \<or> e = CHR ''/'' then Some e
      else if e = CHR ''n'' then Some (CHR 0x0A)
      else if e = CHR ''r'' then Some (CHR 0x0D)
      else if e = CHR ''t'' then Some (CHR 0x09)
      else if e = CHR ''f'' then Some (CHR 0x0C)
      else if e = CHR ''b'' then Some (CHR 0x08)
      else None)"

definition consc :: "char \<Rightarrow> (string \<times> string) option \<Rightarrow> (string \<times> string) option" where
  "consc c r = map_option (\<lambda>(t, u). (c # t, u)) r"

text \<open>The rest of a string literal, after the opening quote.\<close>

function p_string :: "string \<Rightarrow> (string \<times> string) option" where
  "p_string s =
     (case s of
        [] \<Rightarrow> None
      | c # cs \<Rightarrow>
         if c = CHR 0x22 then Some ([], cs)
         else if c = CHR 0x5C then
           (case cs of
              [] \<Rightarrow> None
            | e # ds \<Rightarrow>
               if e = CHR ''u'' then
                 (case ds of
                    h1 # h2 # h3 # h4 # r \<Rightarrow>
                     (case hex4_val h1 h2 h3 h4 of
                        None \<Rightarrow> None
                      | Some n \<Rightarrow> if n < 256 then consc (char_of n) (p_string r) else None)
                  | _ \<Rightarrow> None)
               else (case unesc e of None \<Rightarrow> None | Some x \<Rightarrow> consc x (p_string ds)))
         else if (of_char c :: nat) < 32 then None
         else consc c (p_string cs))"
  by pat_completeness auto
termination
  by (relation "measure length") (auto split: list.splits)

declare p_string.simps [simp del]

definition digit_val :: "char \<Rightarrow> nat" where
  "digit_val c = of_char c - 48"

definition nat_of_digits :: "string \<Rightarrow> nat" where
  "nat_of_digits ds = foldl (\<lambda>n c. 10 * n + digit_val c) 0 ds"

text \<open>The integer part, fraction and exponent of a number literal.\<close>

definition p_intpart :: "string \<Rightarrow> (string \<times> string) option" where
  "p_intpart s = (case s of [] \<Rightarrow> None
     | c # cs \<Rightarrow> if c = CHR ''0'' then Some ([c], cs)
                 else if is_digit c then Some (takeWhile is_digit s, dropWhile is_digit s)
                 else None)"

definition p_frac :: "string \<Rightarrow> string \<times> string" where
  "p_frac s = (case s of
     c # d # cs \<Rightarrow> if c = CHR ''.'' \<and> is_digit d
        then (c # takeWhile is_digit (d # cs), dropWhile is_digit (d # cs)) else ([], s)
   | _ \<Rightarrow> ([], s))"

definition p_exp :: "string \<Rightarrow> string \<times> string" where
  "p_exp s = (case s of
     c # cs \<Rightarrow>
       if c = CHR ''e'' \<or> c = CHR ''E'' then
         (case cs of
            d # ds \<Rightarrow>
              if is_digit d then (c # takeWhile is_digit cs, dropWhile is_digit cs)
              else if (d = CHR ''+'' \<or> d = CHR ''-'') \<and> (case ds of e # _ \<Rightarrow> is_digit e | [] \<Rightarrow> False)
              then (c # d # takeWhile is_digit ds, dropWhile is_digit ds)
              else ([], s)
          | [] \<Rightarrow> ([], s))
       else ([], s)
   | [] \<Rightarrow> ([], s))"

definition p_number :: "string \<Rightarrow> (pyval \<times> string) option" where
  "p_number s =
     (let neg = startswith s ''-''; s1 = (if neg then drop 1 s else s) in
      case p_intpart s1 of
        None \<Rightarrow> None
      | Some (ds, r1) \<Rightarrow>
          (let (fr, r2) = p_frac r1; (ex, r3) = p_exp r2; i = int (nat_of_digits ds);
               i' = (if neg then - i else i) in
           if fr = [] \<and> ex = [] then Some (PInt i', r3)
           else if ex = [] \<and> list_all (\<lambda>c. c = CHR ''0'') (tl fr)
           then Some (PFloat (FInt i' ((if neg then ''-'' else []) @ ds @ fr)), r3)
           else Some (PFloat (FFrac ((if neg then ''-'' else []) @ ds @ fr @ ex)), r3)))"

definition p_atom :: "string \<Rightarrow> (pyval \<times> string) option" where
  "p_atom s =
     (if startswith s ''null'' then Some (PNone, drop 4 s)
      else if startswith s ''true'' then Some (PBool True, drop 4 s)
      else if startswith s ''false'' then Some (PBool False, drop 5 s)
      else if startswith s ''NaN'' then Some (PFloat FNaN, drop 3 s)
      else if startswith s ''Infinity'' then Some (PFloat FPosInf, drop 8 s)
      else if startswith s ''-Infinity'' then Some (PFloat FNegInf, drop 9 s)
      else p_number s)"

fun p_value :: "nat \<Rightarrow> string \<Rightarrow> (pyval \<times> string) option"
and p_elems :: "nat \<Rightarrow> string \<Rightarrow> (pyval list \<times> string) option"
and p_members :: "nat \<Rightarrow> pydict \<Rightarrow> string \<Rightarrow> (pydict \<times> string) option" where
  "p_value 0 s = None"
| "p_value (Suc n) s =
     (case s of
        [] \<Rightarrow> None
      | c # cs \<Rightarrow>
          if c = CHR 0x22 then map_option (\<lambda>(t, r). (PStr t, r)) (p_string cs)
          else if c = CHR ''['' then
            (if startswith (skip_ws cs) '']'' then Some (PList [], drop 1 (skip_ws cs))
             else map_option (\<lambda>(xs, r). (PList xs, r)) (p_elems n (skip_ws cs)))
          else if c = CHR ''{'' then
            (if startswith (skip_ws cs) ''}'' then Some (PDict [], drop 1 (skip_ws cs))
             else map_option (\<lambda>(d, r). (PDict d, r)) (p_members n [] (skip_ws cs)))
          else p_atom s)"
| "p_elems 0 s = None"
| "p_elems (Suc n) s =
     (case p_value n s of
        None \<Rightarrow> None
      | Some (v, r) \<Rightarrow>
          (case skip_ws r of
             [] \<Rightarrow> None
           | c # t \<Rightarrow>
               if c = CHR '']'' then Some ([v], t)
               else if c = CHR '','' then map_option (\<lambda>(vs, u). (v # vs, u)) (p_elems n (skip_ws t))
               else None))"
| "p_members 0 acc s = None"
| "p_members (Suc n) acc s =
     (case s of
        [] \<Rightarrow> None
      | q # s1 \<Rightarrow>
          if q \<noteq> CHR 0x22 then None else
          (case p_string s1 of
             None \<Rightarrow> None
           | Some (k, s2) \<Rightarrow>
               (case skip_ws s2 of
                  [] \<Rightarrow> None
                | c # s3 \<Rightarrow>
                    if c \<noteq> CHR '':'' then None else
                    (case p_value n (skip_ws s3) of
                       None \<Rightarrow> None
                     | Some (v, r) \<Rightarrow>
                         (case skip_ws r of
                            [] \<Rightarrow> None
                          | e # t \<Rightarrow>
                              if e = CHR ''}'' then Some (dset acc k v, t)
                              else if e = CHR '','' then p_members n (dset acc k v) (skip_ws t)
                              else None)))))"

definition loads_fuel :: "string \<Rightarrow> nat" where
  "loads_fuel s = 2 * length s + 2"

definition loads :: "string \<Rightarrow> pyval res" where
  "loads s = (case p_value (loads_fuel s) (skip_ws s) of
     Some (v, r) \<Rightarrow> if skip_ws r = [] then Inr v else Inl (JSONDecodeErr, ''Extra data'')
   | None \<Rightarrow> Inl (JSONDecodeErr, ''Expecting value''))"

text \<open>\<open>json.loads(b.decode("utf-8"))\<close>.\<close>

definition loads_bytes :: "string \<Rightarrow> pyval res" where
  "loads_bytes b = (case utf8_decode b of None \<Rightarrow> Inl (UnicodeErr, ''invalid utf-8'')
     | Some s \<Rightarrow> loads s)"

end
