(* ===== verification/Json_Roundtrip.thy ===== *)
theory Json_Roundtrip
  imports Json
begin

text \<open>
  Correctness of the JSON layer: the text \<open>dumps\<close> prints reads back as the value printed
  (\<open>loads_dumps\<close>), the parser's fuel is always enough (\<open>parse_fuel\<close>), UTF-8 decoding undoes
  encoding, and the canonical text of a value determines its cleaned form
  (\<open>canonical_json_inj\<close>).
\<close>

section \<open>Strings\<close>

lemma hex_val_hex_digit: "hex_val (hex_digit n) = Some (n mod 16)"
proof -
  have "\<forall>m < 16. hex_val (hex_lower ! m) = Some m"
    by (simp add: numeral_eq_Suc All_less_Suc hex_lower_def hex_val_def)
  then show ?thesis by (simp add: hex_digit_def)
qed

lemma hex4_hex2:
  "n < 256 \<Longrightarrow> hex4_val (CHR ''0'') (CHR ''0'') (hex_digit (n div 16)) (hex_digit n) = Some n"
  by (simp add: hex4_val_def hex_val_hex_digit) (simp add: hex_val_def)

lemma of_char_less_256: "(of_char c :: nat) < 256"
  by simp

lemma p_string_esc: "p_string (esc_char c @ u) = consc c (p_string u)"
proof (cases "c \<in> {CHR 0x22, CHR 0x5C, CHR 0x0A, CHR 0x0D, CHR 0x09, CHR 0x0C, CHR 0x08}")
  case True
  then show ?thesis by (auto simp: esc_char_def p_string.simps [of "CHR 0x5C # _"] unesc_def)
next
  case False
  show ?thesis
  proof (cases "32 \<le> (of_char c :: nat) \<and> (of_char c :: nat) \<le> 126")
    case True
    then show ?thesis using False by (simp add: esc_char_def p_string.simps [of "c # u"])
  next
    case 2: False
    have "esc_char c = [CHR 0x5C, CHR ''u'', CHR ''0'', CHR ''0''] @ hex2 (of_char c)"
      using False 2 unfolding esc_char_def by (simp only: insert_iff empty_iff if_False de_Morgan_disj)
    then show ?thesis
      by (simp add: hex2_def p_string.simps [of "CHR 0x5C # _"] hex4_hex2 of_char_less_256)
  qed
qed

lemma p_string_style: "p_string (style_char st c @ u) = consc c (p_string u)"
  by (simp add: style_char_def p_string_esc) (simp add: p_string.simps [of "c # u"])

lemma p_string_roundtrip: "p_string (concat (map (style_char st) s) @ CHR 0x22 # r) = Some (s, r)"
  by (induction s) (simp_all add: p_string_style consc_def p_string.simps [of "CHR 0x22 # _"])

section \<open>Numbers\<close>

definition num_end :: "string \<Rightarrow> bool" where
  "num_end r \<longleftrightarrow> (case r of [] \<Rightarrow> True
     | c # _ \<Rightarrow> \<not> is_digit c \<and> c \<noteq> CHR ''.'' \<and> c \<noteq> CHR ''e'' \<and> c \<noteq> CHR ''E'')"

lemma digit_char: "(d::nat) < 10 \<Longrightarrow> is_digit (char_of (48 + d))"
  by (simp add: is_digit_def of_char_of)

lemma digit_val_char: "(d::nat) < 10 \<Longrightarrow> digit_val (char_of (48 + d)) = d"
  by (simp add: digit_val_def of_char_of)

lemma show_nat_digits: "list_all is_digit (show_nat n)"
proof (induction n rule: show_nat.induct)
  case (1 n)
  then show ?case
    by (subst show_nat.simps) (simp add: digit_char)
qed

lemma show_nat_ne [simp]: "show_nat n \<noteq> []"
  by (subst show_nat.simps) simp

lemma nat_of_digits_snoc: "nat_of_digits (ds @ [c]) = 10 * nat_of_digits ds + digit_val c"
  by (simp add: nat_of_digits_def)

lemma nat_of_digits_show: "nat_of_digits (show_nat n) = n"
proof (induction n rule: show_nat.induct)
  case (1 n)
  show ?case
  proof (cases "n < 10")
    case True
    then show ?thesis
      by (subst show_nat.simps) (simp add: nat_of_digits_def digit_val_char)
  next
    case False
    then show ?thesis
      using "1.IH" by (subst show_nat.simps) (simp add: nat_of_digits_snoc digit_val_char)
  qed
qed

lemma hd_show_nat: "0 < n \<Longrightarrow> hd (show_nat n) \<noteq> CHR ''0''"
proof (induction n rule: show_nat.induct)
  case (1 n)
  show ?case
  proof (cases "n < 10")
    case True
    have "char_of (48 + n) \<noteq> CHR ''0''"
    proof
      assume "char_of (48 + n) = CHR ''0''"
      then have "of_char (char_of (48 + n) :: char) = (48::nat)" by simp
      with True "1.prems" show False by (simp add: of_char_of)
    qed
    then show ?thesis using True by (subst show_nat.simps) simp
  next
    case False
    then have "hd (show_nat (n div 10)) \<noteq> CHR ''0''" using "1.IH" by simp
    then show ?thesis using False by (subst show_nat.simps) simp
  qed
qed

lemma p_intpart_show:
  assumes "num_end r"
  shows "p_intpart (show_nat n @ r) = Some (show_nat n, r)"
proof (cases "n = 0")
  case True
  have "show_nat 0 = ''0''" by code_simp
  then show ?thesis using True by (simp add: p_intpart_def)
next
  case False
  obtain c cs where c: "show_nat n = c # cs" by (cases "show_nat n") auto
  have "c \<noteq> CHR ''0''" using hd_show_nat [of n] False c by simp
  moreover have dig: "\<forall>x \<in> set (c # cs). is_digit x"
    using show_nat_digits [of n] unfolding c list_all_iff .
  moreover have "takeWhile is_digit ((c # cs) @ r) = c # cs"
    using dig assms by (subst takeWhile_append2) (auto simp: num_end_def split: list.splits)
  moreover have "dropWhile is_digit ((c # cs) @ r) = r"
    using dig assms by (subst dropWhile_append2) (auto simp: num_end_def split: list.splits)
  ultimately show ?thesis by (simp add: p_intpart_def c)
qed

lemma num_end_frac_exp: "num_end r \<Longrightarrow> p_frac r = ([], r) \<and> p_exp r = ([], r)"
  by (auto simp: num_end_def p_frac_def p_exp_def split: list.splits)

lemma digit_not_minus: "is_digit c \<Longrightarrow> c \<noteq> CHR ''-''"
  by (auto simp: is_digit_def)

lemma show_nat_hd_digit: "is_digit (hd (show_nat n))"
  using show_nat_digits [of n] by (cases "show_nat n") (auto dest: sym)

lemma p_number_show: "num_end r \<Longrightarrow> p_number (show_int i @ r) = Some (PInt i, r)"
proof -
  assume r: "num_end r"
  show ?thesis
  proof (cases "i < 0")
    case True
    then show ?thesis
      using num_end_frac_exp [OF r]
      by (simp add: p_number_def show_int_def p_intpart_show [OF r] nat_of_digits_show)
  next
    case False
    have "\<not> startswith (show_nat (nat i) @ r) ''-''"
      using show_nat_hd_digit [of "nat i"]
      by (cases "show_nat (nat i)") (auto simp: is_digit_def)
    then show ?thesis
      using False num_end_frac_exp [OF r]
      by (simp add: p_number_def show_int_def p_intpart_show [OF r] nat_of_digits_show)
  qed
qed

lemma show_int_start:
  "\<exists>c cs. show_int i = c # cs \<and>
     (is_digit c \<or> c = CHR ''-'' \<and> cs \<noteq> [] \<and> is_digit (hd cs))"
proof (cases "i < 0")
  case True
  then show ?thesis using show_nat_hd_digit [of "nat (- i)"] by (simp add: show_int_def)
next
  case False
  then show ?thesis using show_nat_hd_digit [of "nat i"]
    by (cases "show_nat (nat i)") (simp_all add: show_int_def)
qed

lemma digit_not_alpha:
  "is_digit c \<Longrightarrow> c \<notin> {CHR ''n'', CHR ''t'', CHR ''f'', CHR ''N'', CHR ''I'', CHR 0x22, CHR ''['',
     CHR ''{'', CHR ''-'', CHR '']'', CHR ''}'', CHR '' '', CHR 0x09, CHR 0x0A, CHR 0x0D}"
  by (auto simp: is_digit_def)

lemma p_atom_show: "num_end r \<Longrightarrow> p_atom (show_int i @ r) = Some (PInt i, r)"
proof -
  assume r: "num_end r"
  obtain c cs where s: "show_int i = c # cs"
    "is_digit c \<or> c = CHR ''-'' \<and> cs \<noteq> [] \<and> is_digit (hd cs)"
    using show_int_start by blast
  have "p_atom ((c # cs) @ r) = p_number ((c # cs) @ r)"
  proof (cases "is_digit c")
    case True
    then show ?thesis using digit_not_alpha [OF True] by (simp add: p_atom_def)
  next
    case False
    then obtain d ds where "c = CHR ''-''" "cs = d # ds" "is_digit d"
      using s(2) by (cases cs) auto
    then show ?thesis using digit_not_alpha [of d] by (simp add: p_atom_def)
  qed
  then have "p_atom (show_int i @ r) = p_number (show_int i @ r)" by (simp only: s(1))
  then show ?thesis by (simp add: p_number_show [OF r])
qed

section \<open>Values that survive printing\<close>

text \<open>\<open>jv st v\<close>: \<open>v\<close> is built of \<open>None\<close>, booleans, integers, strings, lists and dictionaries whose
  keys are distinct strings, in the order \<open>dumps\<close> prints them.\<close>

function jv :: "json_style \<Rightarrow> pyval \<Rightarrow> bool" where
  "jv st PNone = True"
| "jv st (PBool b) = True"
| "jv st (PInt i) = True"
| "jv st (PStr s) = True"
| "jv st (PList xs) = list_all (jv st) xs"
| "jv st (PDict d) = (list_all (\<lambda>p. is_str (fst p) \<and> jv st (snd p)) d \<and>
     distinct (map fst d) \<and> ordered st d = d)"
| "jv st (PFloat f) = False"
| "jv st (PBytes b) = False"
| "jv st (PTuple xs) = False"
| "jv st (PEnum c s) = False"
| "jv st (PObject c) = False"
  by pat_completeness auto
termination
proof (relation "measure (\<lambda>(st, v). size v)")
  show "wf (measure (\<lambda>(st, v). size v))" by simp
next
  fix st :: json_style and xs and x :: pyval assume "x \<in> set xs"
  then show "((st, x), st, PList xs) \<in> measure (\<lambda>(st, v). size v)"
    by (auto dest: size_list_estimation' [where f = size and y = "size x"])
next
  fix st :: json_style and d and p :: "pyval \<times> pyval" assume "p \<in> set d"
  then have "size_prod size size p \<le> size_list (size_prod size size) d"
    by (auto intro: size_list_estimation')
  then show "((st, snd p), st, PDict d) \<in> measure (\<lambda>(st, v). size v)"
    by (cases p) auto
qed

definition wf_style :: "json_style \<Rightarrow> bool" where
  "wf_style st \<longleftrightarrow> (\<exists>w u. item_sep st = CHR '','' # w \<and> key_sep st = CHR '':'' # u \<and>
     list_all is_ws w \<and> list_all is_ws u)"

lemma wf_styles [simp]:
  "wf_style compact_sorted" "wf_style spaced_sorted" "wf_style spaced" "wf_style compact"
  "wf_style compact_raw" "wf_style spaced_raw"
  by (simp_all add: wf_style_def compact_sorted_def spaced_sorted_def spaced_def compact_def compact_raw_def spaced_raw_def is_ws_def)

text \<open>\<open>t\<close> reads as \<open>v\<close>: whatever follows \<open>t\<close>, the parser with enough fuel returns \<open>v\<close> and what
  follows.\<close>

definition starts_value :: "string \<Rightarrow> bool" where
  "starts_value t \<longleftrightarrow> (\<exists>c cs. t = c # cs \<and> \<not> is_ws c \<and> c \<noteq> CHR '']'' \<and> c \<noteq> CHR ''}'')"

definition reads_as :: "string \<Rightarrow> pyval \<Rightarrow> bool" where
  "reads_as t v \<longleftrightarrow> starts_value t \<and>
     (\<exists>N. \<forall>n \<ge> N. \<forall>r. num_end r \<longrightarrow> p_value n (t @ r) = Some (v, r))"

lemma reads_asE:
  assumes "reads_as t v"
  obtains c cs N where "t = c # cs" "\<not> is_ws c" "c \<noteq> CHR '']''" "c \<noteq> CHR ''}''"
    "\<And>n r. N \<le> n \<Longrightarrow> num_end r \<Longrightarrow> p_value n (t @ r) = Some (v, r)"
  using assms unfolding reads_as_def starts_value_def by blast

lemma reads_asI:
  "starts_value t \<Longrightarrow> (\<And>n r. num_end r \<Longrightarrow> N \<le> n \<Longrightarrow> p_value (Suc n) (t @ r) = Some (v, r)) \<Longrightarrow>
   reads_as t v"
  unfolding reads_as_def by (metis Suc_le_D Suc_le_mono)

lemma skip_ws_append: "list_all is_ws w \<Longrightarrow> skip_ws (w @ s) = skip_ws s"
  by (induction w) (auto simp: skip_ws_def)

lemma skip_ws_cons [simp]: "\<not> is_ws c \<Longrightarrow> skip_ws (c # s) = c # s"
  by (simp add: skip_ws_def)

lemma not_ws [simp]:
  "\<not> is_ws (CHR '','')" "\<not> is_ws (CHR '']'')" "\<not> is_ws (CHR ''}'')" "\<not> is_ws (CHR '':'')"
  "\<not> is_ws (CHR 0x22)" "\<not> is_ws (CHR ''['')" "\<not> is_ws (CHR ''{'')"
  by (simp_all add: is_ws_def)

lemma num_end_simps [simp]:
  "num_end (CHR '','' # s)" "num_end (CHR '']'' # s)" "num_end (CHR ''}'' # s)" "num_end []"
  by (simp_all add: num_end_def is_digit_def)

lemma reads_null: "reads_as ''null'' PNone"
  by (rule reads_asI [where N = 0]) (simp_all add: starts_value_def is_ws_def p_atom_def)

lemma reads_true: "reads_as ''true'' (PBool True)"
  by (rule reads_asI [where N = 0]) (simp_all add: starts_value_def is_ws_def p_atom_def)

lemma reads_false: "reads_as ''false'' (PBool False)"
  by (rule reads_asI [where N = 0]) (simp_all add: starts_value_def is_ws_def p_atom_def)

lemma reads_int: "reads_as (show_int i) (PInt i)"
proof -
  obtain c cs where s: "show_int i = c # cs"
    "is_digit c \<or> c = CHR ''-'' \<and> cs \<noteq> [] \<and> is_digit (hd cs)"
    using show_int_start by blast
  have c: "\<not> is_ws c \<and> c \<notin> {CHR 0x22, CHR ''['', CHR ''{'', CHR '']'', CHR ''}''}"
  proof (cases "is_digit c")
    case True
    then show ?thesis using digit_not_alpha [OF True] by (simp add: is_ws_def)
  next
    case False
    then show ?thesis using s(2) by (simp add: is_ws_def)
  qed
  show ?thesis
  proof (rule reads_asI [where N = 0])
    show "starts_value (show_int i)" using c s(1) by (simp add: starts_value_def)
    fix n r assume r: "num_end r"
    show "p_value (Suc n) (show_int i @ r) = Some (PInt i, r)"
      using p_atom_show [OF r, of i] c unfolding s(1) by simp
  qed
qed

lemma reads_str: "reads_as (json_string st s) (PStr s)"
  by (rule reads_asI [where N = 0])
     (simp_all add: starts_value_def json_string_def p_string_roundtrip)

subsection \<open>Lists\<close>

lemma join_Cons: "ts \<noteq> [] \<Longrightarrow> join sep (t # ts) = t @ sep @ join sep ts"
  by (cases ts) auto

lemma starts_value_skip: "starts_value t \<Longrightarrow> skip_ws (t @ s) = t @ s"
  by (auto simp: starts_value_def)

lemma starts_value_join: "ts \<noteq> [] \<Longrightarrow> starts_value (hd ts) \<Longrightarrow> starts_value (join sep ts)"
proof -
  assume "ts \<noteq> []" "starts_value (hd ts)"
  then obtain c cs us where "ts = (c # cs) # us" "\<not> is_ws c" "c \<noteq> CHR '']''" "c \<noteq> CHR ''}''"
    by (cases ts) (auto simp: starts_value_def)
  then show ?thesis by (cases us) (auto simp: starts_value_def)
qed

lemma starts_valueD:
  "starts_value t \<Longrightarrow> \<not> startswith (t @ s) '']''" "starts_value t \<Longrightarrow> \<not> startswith (t @ s) ''}''"
  by (auto simp: starts_value_def)

lemma p_elems_join:
  assumes "wf_style st" "list_all2 reads_as ts vs" "vs \<noteq> []"
  shows "\<exists>N. \<forall>n \<ge> N. \<forall>r. p_elems n (join (item_sep st) ts @ CHR '']'' # r) = Some (vs, r)"
  using assms(2,3)
proof (induction ts vs rule: list_all2_induct)
  case Nil
  then show ?case by simp
next
  case (Cons t ts v vs)
  obtain N where N: "\<And>n r. N \<le> n \<Longrightarrow> num_end r \<Longrightarrow> p_value n (t @ r) = Some (v, r)"
    using Cons(1) by (rule reads_asE) blast
  obtain w where w: "item_sep st = CHR '','' # w" "list_all is_ws w"
    using assms(1) by (auto simp: wf_style_def)
  show ?case
  proof (cases vs)
    case Nil
    then have ts: "ts = []" using Cons(2) by simp
    have "p_elems (Suc n) (t @ CHR '']'' # r) = Some ([v], r)" if "N \<le> n" for n r
      using N [OF that, of "CHR '']'' # r"] by simp
    then have "\<forall>n \<ge> Suc N. \<forall>r. p_elems n (t @ CHR '']'' # r) = Some ([v], r)"
      by (metis Suc_le_D Suc_le_mono)
    then show ?thesis using ts Nil by auto
  next
    case (Cons v' vs')
    then obtain M where M: "\<forall>n \<ge> M. \<forall>r. p_elems n (join (item_sep st) ts @ CHR '']'' # r) = Some (vs, r)"
      using Cons.IH by auto
    have ts: "ts \<noteq> []" using Cons.hyps(2) Cons by auto
    have "reads_as (hd ts) v'" using Cons.hyps(2) Cons by (cases ts) auto
    then have sv: "starts_value (join (item_sep st) ts)"
      using ts by (intro starts_value_join) (auto simp: reads_as_def)
    have "p_elems (Suc n) (join (item_sep st) (t # ts) @ CHR '']'' # r) = Some (v # vs, r)"
      if "max N M \<le> n" for n r
    proof -
      let ?rest = "join (item_sep st) ts @ CHR '']'' # r"
      have "p_value n (t @ item_sep st @ ?rest) = Some (v, item_sep st @ ?rest)"
        using that by (intro N) (simp_all add: w)
      moreover have "skip_ws (w @ ?rest) = ?rest"
        using w(2) sv by (simp add: skip_ws_append starts_value_skip)
      moreover have "p_elems n ?rest = Some (vs, r)" using M that by simp
      ultimately show ?thesis by (simp add: join_Cons [OF ts] w)
    qed
    then have "\<forall>n \<ge> Suc (max N M). \<forall>r.
        p_elems n (join (item_sep st) (t # ts) @ CHR '']'' # r) = Some (v # vs, r)"
      by (metis Suc_le_D Suc_le_mono)
    then show ?thesis by blast
  qed
qed

lemma reads_list:
  assumes "wf_style st" "list_all2 reads_as ts vs"
  shows "reads_as (CHR ''['' # join (item_sep st) ts @ '']'') (PList vs)"
proof (cases "vs = []")
  case True
  then show ?thesis using assms(2)
    by (intro reads_asI [where N = 0]) (auto simp: starts_value_def)
next
  case False
  obtain N where N: "\<forall>n \<ge> N. \<forall>r. p_elems n (join (item_sep st) ts @ CHR '']'' # r) = Some (vs, r)"
    using p_elems_join [OF assms False] by blast
  have "ts \<noteq> []" "reads_as (hd ts) (hd vs)"
    using assms(2) False by (auto simp: neq_Nil_conv list_all2_Cons2)
  then have sv: "starts_value (join (item_sep st) ts)"
    by (intro starts_value_join) (auto simp: reads_as_def)
  show ?thesis
    using N starts_valueD(1) [OF sv] starts_value_skip [OF sv]
    by (intro reads_asI [where N = N]) (auto simp: starts_value_def)
qed

subsection \<open>Dictionaries\<close>

definition member_reads :: "json_style \<Rightarrow> string \<Rightarrow> pyval \<times> pyval \<Rightarrow> bool" where
  "member_reads st m p \<longleftrightarrow>
     (\<exists>k t v. m = json_string st k @ key_sep st @ t \<and> p = (PStr k, v) \<and> reads_as t v)"

lemma dset_append: "(\<And>p. p \<in> set d \<Longrightarrow> \<not> key_is k (fst p)) \<Longrightarrow> dset d k v = d @ [(PStr k, v)]"
  by (induction d k v rule: dset.induct) auto

lemma member_starts: "member_reads st m p \<Longrightarrow> starts_value m"
proof -
  assume "member_reads st m p"
  then obtain k t where "m = json_string st k @ key_sep st @ t" unfolding member_reads_def by blast
  then show ?thesis by (simp add: json_string_def starts_value_def)
qed

lemma members_start:
  "list_all2 (member_reads st) ms d \<Longrightarrow> d \<noteq> [] \<Longrightarrow> ms \<noteq> [] \<and> starts_value (hd ms)"
  by (cases ms; cases d) (auto dest: member_starts)

lemma p_members_step:
  assumes st: "wf_style st" and m: "member_reads st m (PStr k, v)"
  shows "\<exists>N. \<forall>n \<ge> N. \<forall>acc r.
     p_members (Suc n) acc (m @ CHR ''}'' # r) = Some (dset acc k v, r) \<and>
     p_members (Suc n) acc (m @ CHR '','' # r) = p_members n (dset acc k v) (skip_ws r)"
proof -
  obtain t where t: "m = json_string st k @ key_sep st @ t" "reads_as t v"
    using m by (auto simp: member_reads_def)
  obtain N where N: "\<And>n r. N \<le> n \<Longrightarrow> num_end r \<Longrightarrow> p_value n (t @ r) = Some (v, r)"
    using t(2) by (rule reads_asE) blast
  have sv: "starts_value t" using t(2) by (simp add: reads_as_def)
  obtain u where u: "key_sep st = CHR '':'' # u" "list_all is_ws u"
    using st by (auto simp: wf_style_def)
  have ws: "skip_ws (u @ t @ x) = t @ x" for x
    using u(2) sv by (simp add: skip_ws_append starts_value_skip)
  have ps: "p_string (concat (map (style_char st) k) @ CHR 0x22 # CHR '':'' # u @ t @ x) =
      Some (k, CHR '':'' # u @ t @ x)" for x
    by (rule p_string_roundtrip)
  have "p_members (Suc n) acc (m @ CHR ''}'' # r) = Some (dset acc k v, r) \<and>
     p_members (Suc n) acc (m @ CHR '','' # r) = p_members n (dset acc k v) (skip_ws r)"
    if "N \<le> n" for n acc r
    using N [OF that, of "CHR ''}'' # r"] N [OF that, of "CHR '','' # r"] ps ws
    by (simp add: t(1) json_string_def u(1))
  then show ?thesis by blast
qed

lemma p_members_join:
  assumes "wf_style st" "list_all2 (member_reads st) ms d" "d \<noteq> []"
    and "distinct (map fst (acc @ d))" "list_all (\<lambda>p. is_str (fst p)) acc"
  shows "\<exists>N. \<forall>n \<ge> N. \<forall>r. p_members n acc (join (item_sep st) ms @ CHR ''}'' # r) = Some (acc @ d, r)"
  using assms(2-)
proof (induction ms d arbitrary: acc rule: list_all2_induct)
  case Nil
  then show ?case by simp
next
  case (Cons m ms p d)
  obtain k v where p: "p = (PStr k, v)" using Cons.hyps(1) by (auto simp: member_reads_def)
  obtain N where N: "\<forall>n \<ge> N. \<forall>acc r.
     p_members (Suc n) acc (m @ CHR ''}'' # r) = Some (dset acc k v, r) \<and>
     p_members (Suc n) acc (m @ CHR '','' # r) = p_members n (dset acc k v) (skip_ws r)"
    using p_members_step [OF assms(1) Cons.hyps(1) [unfolded p]] by (rule exE)
  have ds: "dset acc k v = acc @ [p]"
    using Cons.prems(2,3) unfolding p
    by (intro dset_append) (auto simp: list_all_iff is_str_iff rev_image_eqI)
  obtain w where w: "item_sep st = CHR '','' # w" "list_all is_ws w"
    using assms(1) by (auto simp: wf_style_def)
  show ?case
  proof (cases "d = []")
    case True
    then have ms: "ms = []" using Cons.hyps(2) by simp
    have "p_members (Suc n) acc (m @ CHR ''}'' # r) = Some (acc @ [p], r)" if "N \<le> n" for n r
      using N [rule_format, OF that, of acc r] ds by simp
    then have "\<forall>n \<ge> Suc N. \<forall>r. p_members n acc (m @ CHR ''}'' # r) = Some (acc @ [p], r)"
      by (metis Suc_le_D Suc_le_mono)
    then show ?thesis using ms True by auto
  next
    case False
    have "\<exists>N. \<forall>n \<ge> N. \<forall>r. p_members n (acc @ [p]) (join (item_sep st) ms @ CHR ''}'' # r)
        = Some ((acc @ [p]) @ d, r)"
      using Cons.prems False by (intro Cons.IH) (auto simp: p)
    then obtain M where M: "\<And>n r. M \<le> n \<Longrightarrow>
       p_members n (acc @ [p]) (join (item_sep st) ms @ CHR ''}'' # r) = Some (acc @ p # d, r)"
      by auto
    have ms: "ms \<noteq> []" "starts_value (hd ms)"
      using members_start [OF Cons.hyps(2) False] by simp_all
    then have sv: "starts_value (join (item_sep st) ms)" by (rule starts_value_join)
    have "p_members (Suc n) acc (join (item_sep st) (m # ms) @ CHR ''}'' # r) = Some (acc @ p # d, r)"
      if "max N M \<le> n" for n r
    proof -
      let ?rest = "join (item_sep st) ms @ CHR ''}'' # r"
      have "p_members (Suc n) acc (m @ CHR '','' # w @ ?rest) =
          p_members n (acc @ [p]) (skip_ws (w @ ?rest))"
        using N [rule_format, of n acc "w @ ?rest"] that ds by simp
      moreover have "skip_ws (w @ ?rest) = ?rest"
        using w(2) sv by (simp add: skip_ws_append starts_value_skip)
      ultimately show ?thesis using M that by (simp add: join_Cons [OF ms(1)] w(1))
    qed
    then have "\<forall>n \<ge> Suc (max N M). \<forall>r.
        p_members n acc (join (item_sep st) (m # ms) @ CHR ''}'' # r) = Some (acc @ p # d, r)"
      by (metis Suc_le_D Suc_le_mono)
    then show ?thesis by blast
  qed
qed

lemma reads_dict:
  assumes "wf_style st" "list_all2 (member_reads st) ms d" "distinct (map fst d)"
  shows "reads_as (CHR ''{'' # join (item_sep st) ms @ ''}'') (PDict d)"
proof (cases "d = []")
  case True
  then show ?thesis using assms(2)
    by (intro reads_asI [where N = 0]) (auto simp: starts_value_def)
next
  case False
  obtain N where N: "\<forall>n \<ge> N. \<forall>r. p_members n [] (join (item_sep st) ms @ CHR ''}'' # r) = Some (d, r)"
    using p_members_join [OF assms(1,2) False, of "[]"] assms(3) by auto
  have "ms \<noteq> []" "starts_value (hd ms)"
    using members_start [OF assms(2) False] by simp_all
  then have sv: "starts_value (join (item_sep st) ms)" by (rule starts_value_join)
  show ?thesis
    using N starts_valueD(2) [OF sv] starts_value_skip [OF sv]
    by (intro reads_asI [where N = N]) (auto simp: starts_value_def)
qed

subsection \<open>The round trip\<close>

lemma emap_reads:
  "(\<And>x. x \<in> set xs \<Longrightarrow> \<exists>t. f x = Inr t \<and> R t x) \<Longrightarrow> \<exists>ts. emap f xs = Inr ts \<and> list_all2 R ts xs"
  by (induction xs) fastforce+

theorem dumps_reads: "wf_style st \<Longrightarrow> jv st v \<Longrightarrow> \<exists>t. dumps st v = Inr t \<and> reads_as t v"
proof (induction st v rule: jv.induct)
  case (5 st xs)
  then have "\<exists>ts. emap (dumps st) xs = Inr ts \<and> list_all2 reads_as ts xs"
    by (intro emap_reads) (simp add: list_all_iff)
  then show ?case using reads_list [OF "5.prems"(1)] by auto
next
  case (6 st d)
  let ?f = "\<lambda>p. ebind (dumps st (snd p)) (\<lambda>t. Inr (json_string st (str_of (fst p)) @ key_sep st @ t))"
  have "\<exists>t. ?f p = Inr t \<and> member_reads st t p" if "p \<in> set d" for p
  proof -
    obtain k where k: "fst p = PStr k" "jv st (snd p)"
      using "6.prems"(2) \<open>p \<in> set d\<close> by (auto simp: list_all_iff is_str_iff)
    then obtain t where "dumps st (snd p) = Inr t" "reads_as t (snd p)"
      using "6.IH" [OF \<open>p \<in> set d\<close>] "6.prems"(1) by auto
    moreover have "p = (PStr k, snd p)" using k by (cases p) auto
    ultimately show ?thesis using k(1) unfolding member_reads_def by auto
  qed
  then obtain ms where "emap ?f d = Inr ms" "list_all2 (member_reads st) ms d"
    using emap_reads [of d ?f "member_reads st"] by blast
  moreover have "list_all (\<lambda>p. isinstance_str (fst p)) d"
    using "6.prems"(2) by (auto simp: list_all_iff is_str_iff)
  ultimately show ?case
    using reads_dict [OF "6.prems"(1)] "6.prems"(2) by auto
qed (auto simp: reads_null reads_true reads_false reads_int reads_str)

section \<open>The fuel is enough\<close>

lemma skip_ws_length: "length (skip_ws s) \<le> length s"
  by (simp add: skip_ws_def length_dropWhile_le)

lemma consc_Some: "consc c r = Some (t, u) \<longleftrightarrow> (\<exists>t'. r = Some (t', u) \<and> t = c # t')"
  by (cases r) (auto simp: consc_def)

lemma p_string_shorter: "p_string s = Some (t, r) \<Longrightarrow> length r < length s"
proof (induction s arbitrary: t r rule: p_string.induct)
  case (1 s)
  show ?case
  proof (cases s)
    case Nil
    then show ?thesis using "1.prems" by (simp add: p_string.simps [of "[]"])
  next
    case (Cons c cs)
    show ?thesis
      using "1.prems" "1.IH" unfolding Cons
      by (subst (asm) p_string.simps)
         (auto simp: consc_Some split: if_splits list.splits option.splits; fastforce)
  qed
qed

lemma p_intpart_shorter: "p_intpart s = Some (ds, r) \<Longrightarrow> length r < length s"
  by (auto simp: p_intpart_def length_dropWhile_le le_imp_less_Suc split: list.splits if_splits)

lemma p_frac_length: "length (snd (p_frac s)) \<le> length s"
  by (auto simp: p_frac_def split: list.splits intro: le_trans [OF length_dropWhile_le])

lemma p_exp_length: "length (snd (p_exp s)) \<le> length s"
  by (auto simp: p_exp_def split: list.splits intro: le_trans [OF length_dropWhile_le])

lemma p_number_shorter: "p_number s = Some (v, r) \<Longrightarrow> length r < length s"
proof -
  assume a: "p_number s = Some (v, r)"
  define s1 where "s1 = (if startswith s ''-'' then drop 1 s else s)"
  obtain ds r1 where i: "p_intpart s1 = Some (ds, r1)"
    using a by (auto simp: p_number_def Let_def s1_def split: option.splits if_splits)
  have "r = snd (p_exp (snd (p_frac r1)))"
    using a i by (auto simp: p_number_def Let_def s1_def split: prod.splits if_splits)
  then have "length r \<le> length r1"
    using p_exp_length p_frac_length le_trans by blast
  also have "\<dots> < length s1" by (rule p_intpart_shorter [OF i])
  also have "\<dots> \<le> length s" by (simp add: s1_def)
  finally show ?thesis .
qed

lemma p_atom_shorter: "p_atom s = Some (v, r) \<Longrightarrow> length r < length s"
proof (cases s)
  case Nil
  assume "p_atom s = Some (v, r)"
  then show ?thesis by (simp add: Nil p_atom_def p_number_def p_intpart_def)
next
  case (Cons c cs)
  assume a: "p_atom s = Some (v, r)"
  show ?thesis
  proof (cases "p_atom s = p_number s")
    case True
    then have "p_number s = Some (v, r)" using a by simp
    then show ?thesis by (rule p_number_shorter)
  next
    case False
    then have "r \<in> {drop 4 s, drop 5 s, drop 3 s, drop 8 s, drop 9 s}"
      using a unfolding p_atom_def by (auto simp del: startswith_simps drop_Suc_Cons split: if_splits)
    then show ?thesis using Cons by auto
  qed
qed

lemma parse_shorter:
  "p_value n s = Some (v, r) \<Longrightarrow> length r < length s"
  "p_elems n s = Some (vs, r) \<Longrightarrow> length r < length s"
  "p_members n acc s = Some (d, r) \<Longrightarrow> length r < length s"
proof (induction n s and n s and n acc s arbitrary: v r and vs r and d r
    rule: p_value_p_elems_p_members.induct)
  case (2 n s)
  obtain c cs where s: "s = c # cs" using "2.prems" by (cases s) auto
  have sk: "length (skip_ws cs) \<le> length cs" by (rule skip_ws_length)
  consider "c = CHR 0x22" | "c = CHR ''[''" | "c = CHR ''{''"
    | "c \<noteq> CHR 0x22 \<and> c \<noteq> CHR ''['' \<and> c \<noteq> CHR ''{''" by blast
  then show ?case
  proof cases
    case 1
    then show ?thesis using "2.prems" p_string_shorter [of cs] by (fastforce simp: s)
  next
    case 2
    then show ?thesis using "2.prems" "2.IH"(1) [OF s] sk
      by (fastforce simp: s split: if_splits)
  next
    case 3
    then show ?thesis using "2.prems" "2.IH"(2) [OF s] sk
      by (fastforce simp: s split: if_splits)
  next
    case 4
    then show ?thesis using "2.prems" p_atom_shorter [of s v r] by (simp add: s)
  qed
next
  case (4 n s)
  obtain w r1 where w: "p_value n s = Some (w, r1)"
    using "4.prems" by (auto split: option.splits)
  have l1: "length r1 < length s" using "4.IH"(1) [OF w] .
  obtain c t where c: "skip_ws r1 = c # t"
    using "4.prems" w by (auto split: list.splits)
  have l2: "length t < length r1" using skip_ws_length [of r1] c by simp
  have l3: "length (skip_ws t) \<le> length t" by (rule skip_ws_length)
  show ?case
  proof (cases "c = CHR '']''")
    case True
    then show ?thesis using "4.prems" w c l1 l2 by simp
  next
    case False
    then obtain vs' where "p_elems n (skip_ws t) = Some (vs', r)"
      using "4.prems" w c by (auto split: if_splits)
    then show ?thesis using "4.IH"(2) [OF w refl c] False "4.prems" w c l1 l2 l3
      by (auto split: if_splits)
  qed
next
  case (6 n acc s)
  obtain s1 where s: "s = CHR 0x22 # s1" using "6.prems" by (cases s) (auto split: if_splits)
  obtain k s2 where k: "p_string s1 = Some (k, s2)" using "6.prems" s by (auto split: option.splits)
  obtain s3 where c: "skip_ws s2 = CHR '':'' # s3"
    using "6.prems" s k by (auto split: list.splits if_splits)
  obtain w r1 where w: "p_value n (skip_ws s3) = Some (w, r1)"
    using "6.prems" s k c by (auto split: option.splits)
  obtain e t where e: "skip_ws r1 = e # t" using "6.prems" s k c w by (auto split: list.splits)
  have l1: "length r1 < length (skip_ws s3)"
    using "6.IH"(1) [of "CHR 0x22" s1 "(k, s2)" k s2 "CHR '':''" s3] s k c w by simp
  note l = p_string_shorter [OF k] skip_ws_length [of s2] skip_ws_length [of s3] l1
    skip_ws_length [of r1] skip_ws_length [of t]
  show ?case
  proof (cases "e = CHR ''}''")
    case True
    then show ?thesis using "6.prems" s k c w e l by simp
  next
    case False
    then have "p_members n (dset acc k w) (skip_ws t) = Some (d, r)" "e = CHR '',''"
      using "6.prems" s k c w e by (auto split: if_splits)
    then show ?thesis
      using "6.IH"(2) [of "CHR 0x22" s1 "(k, s2)" k s2 "CHR '':''" s3 "(w, r1)" w r1 e t]
        s k c w e l by simp
  qed
qed auto

lemma parse_fuel:
  "2 * length s + 1 \<le> n \<Longrightarrow> n \<le> m \<Longrightarrow> p_value m s = p_value n s"
  "2 * length s + 2 \<le> n \<Longrightarrow> n \<le> m \<Longrightarrow> p_elems m s = p_elems n s"
  "2 * length s + 2 \<le> n \<Longrightarrow> n \<le> m \<Longrightarrow> p_members m acc s = p_members n acc s"
proof (induction n arbitrary: m s acc)
  case (Suc n)
  {
    case 1
    then obtain m' where m: "m = Suc m'" "n \<le> m'" by (cases m) auto
    show ?case
    proof (cases s)
      case (Cons c cs)
      have "2 * length (skip_ws cs) + 2 \<le> n" using 1 Cons skip_ws_length [of cs] by simp
      then have "p_elems m' (skip_ws cs) = p_elems n (skip_ws cs)"
        "p_members m' [] (skip_ws cs) = p_members n [] (skip_ws cs)"
        using Suc.IH(2,3) m(2) by blast+
      then show ?thesis by (simp add: m Cons)
    qed (simp add: m)
  next
    case 2
    then obtain m' where m: "m = Suc m'" "n \<le> m'" by (cases m) auto
    have v: "p_value m' s = p_value n s" using 2 m by (intro Suc.IH(1)) auto
    show ?case
    proof (cases "p_value n s")
      case (Some vr)
      obtain w r1 where w: "p_value n s = Some (w, r1)" using Some by (cases vr) auto
      have e: "p_elems m' (skip_ws t) = p_elems n (skip_ws t)" if "skip_ws r1 = c # t" for c t
        using 2 m parse_shorter(1) [OF w] skip_ws_length [of r1] skip_ws_length [of t] that
        by (intro Suc.IH(2)) auto
      show ?thesis by (simp add: m v w split: list.split) (simp add: e)
    qed (simp add: m v)
  next
    case 3
    then obtain m' where m: "m = Suc m'" "n \<le> m'" by (cases m) auto
    show ?case
    proof (cases s)
      case (Cons q s1)
      have v: "p_value m' (skip_ws s3) = p_value n (skip_ws s3)"
        if "p_string s1 = Some (k, s2)" "skip_ws s2 = c # s3" for k s2 c s3
        using 3 m Cons p_string_shorter [OF that(1)] skip_ws_length [of s2] skip_ws_length [of s3] that
        by (intro Suc.IH(1)) auto
      have mm: "p_members m' acc' (skip_ws t) = p_members n acc' (skip_ws t)"
        if "p_string s1 = Some (k, s2)" "skip_ws s2 = c # s3"
          "p_value n (skip_ws s3) = Some (w, r1)" "skip_ws r1 = e # t" for k s2 c s3 w r1 e t acc'
        using 3 m Cons p_string_shorter [OF that(1)] skip_ws_length [of s2] skip_ws_length [of s3]
          parse_shorter(1) [OF that(3)] skip_ws_length [of r1] skip_ws_length [of t] that
        by (intro Suc.IH(3)) auto
      show ?thesis
        by (simp add: m Cons v mm split: option.split list.split)
    qed (simp add: m)
  }
qed auto

lemma p_value_fuel: "2 * length s + 1 \<le> n \<Longrightarrow> p_value (n + k) s = p_value n s"
  by (rule parse_fuel(1)) simp_all

section \<open>Top-level results\<close>

theorem loads_dumps:
  assumes "wf_style st" "jv st v"
  shows "\<exists>t. dumps st v = Inr t \<and> loads t = Inr v"
proof -
  obtain t where t: "dumps st v = Inr t" "reads_as t v" using dumps_reads [OF assms] by blast
  obtain N where N: "\<And>n r. N \<le> n \<Longrightarrow> num_end r \<Longrightarrow> p_value n (t @ r) = Some (v, r)"
    using t(2) by (rule reads_asE) blast
  have "starts_value t" using t(2) by (simp add: reads_as_def)
  then have sk: "skip_ws t = t" using starts_value_skip [of t "[]"] by simp
  have "p_value (loads_fuel t) t = p_value (loads_fuel t + N) t"
    by (rule p_value_fuel [symmetric]) (simp add: loads_fuel_def)
  also have "\<dots> = Some (v, [])" using N [of "loads_fuel t + N" "[]"] by simp
  finally have "loads t = Inr v" by (simp add: loads_def sk) (simp add: skip_ws_def)
  with t(1) show ?thesis by blast
qed

lemma loads_dumps_Inr: "wf_style st \<Longrightarrow> jv st v \<Longrightarrow> dumps st v = Inr t \<Longrightarrow> loads t = Inr v"
  using loads_dumps by fastforce

lemma utf8_decode_char: "utf8_decode (utf8_char c @ u) = map_option ((#) c) (utf8_decode u)"
proof (cases "(of_char c :: nat) < 128")
  case True
  then show ?thesis by (cases u) (simp_all add: utf8_char_def)
next
  case False
  define n where "n = (of_char c :: nat)"
  have n: "128 \<le> n" "n < 256" "c = char_of n" using False by (simp_all add: n_def)
  have a: "192 + n div 64 = 194 \<or> 192 + n div 64 = 195" using n(1,2) by (auto simp: div_nat_eqI)
  have "(128 + n mod 64) mod 64 = n mod 64" using mod_mult_self4 [of 64 2 "n mod 64"] by simp
  moreover have "(192 + n div 64) mod 4 * 64 = n div 64 * 64" using a by (elim disjE) simp_all
  ultimately have "(192 + n div 64) mod 4 * 64 + (128 + n mod 64) mod 64 = n" by simp
  moreover have "(192 + n div 64) mod 256 = 192 + n div 64" "(128 + n mod 64) mod 256 = 128 + n mod 64"
    using a by auto
  moreover have "128 \<le> 128 + n mod 64 \<and> 128 + n mod 64 < 192" by simp
  ultimately show ?thesis
    using n a False by (simp add: utf8_char_def Let_def n_def [symmetric] of_char_of)
qed

lemma utf8_decode_utf8: "utf8_decode (utf8 s) = Some s"
  by (induction s) (simp_all add: utf8_def utf8_decode_char)

lemma utf8_inj: "utf8 s = utf8 t \<longleftrightarrow> s = t"
  using utf8_decode_utf8 by (metis option.inject)

lemma loads_bytes_dumps:
  "wf_style st \<Longrightarrow> jv st v \<Longrightarrow> dumps st v = Inr t \<Longrightarrow> loads_bytes (utf8 t) = Inr v"
  by (simp add: loads_bytes_def utf8_decode_utf8 loads_dumps_Inr)

lemma clean_items:
  assumes "list_all2 (\<lambda>k p. ebind (case dget d k of None \<Rightarrow> Inl (KeyErr, k) | Some v \<Rightarrow> clean v)
      (\<lambda>w. Inr (PStr k, w)) = Inr p) ks e"
  shows "map fst e = map PStr ks \<and> (\<forall>p \<in> set e. \<exists>k \<in> set ks. \<exists>v. dget d k = Some v \<and> clean v = Inr (snd p))"
  using assms
proof (induction ks e rule: list_all2_induct)
  case (Cons k ks p e)
  then obtain v where "dget d k = Some v" "clean v = Inr (snd p)" "fst p = PStr k"
    by (auto simp: ebind_Inr_iff split: option.splits)
  then show ?case using Cons.IH by auto
qed simp

lemma clean_list:
  assumes "emap clean xs = Inr ys" "\<And>x w. x \<in> set xs \<Longrightarrow> clean x = Inr w \<Longrightarrow> P w"
  shows "list_all P ys"
proof -
  have "list_all2 (\<lambda>x y. clean x = Inr y) xs ys" using assms(1) by (simp add: emap_Inr_iff)
  then show ?thesis using assms(2) by (induction rule: list_all2_induct) auto
qed

lemma clean_jv: "clean v = Inr w \<Longrightarrow> jv compact_sorted w"
proof (induction v arbitrary: w rule: clean.induct)
  case (5 xs)
  from "5.prems" show ?case by (auto simp: ebind_Inr_iff intro: clean_list [OF _ "5.IH"])
next
  case (6 xs)
  from "6.prems" show ?case by (auto simp: ebind_Inr_iff intro: clean_list [OF _ "6.IH"])
next
  case (7 d)
  let ?ks = "sorted_set (map (\<lambda>p. str_of (fst p)) d)"
  obtain e where w: "w = PDict e" and e: "list_all2 (\<lambda>k p. ebind (case dget d k of
      None \<Rightarrow> Inl (KeyErr, k) | Some v \<Rightarrow> clean v) (\<lambda>w. Inr (PStr k, w)) = Inr p) ?ks e"
    and str: "\<not> list_ex (\<lambda>p. \<not> isinstance_str (fst p)) d"
    using "7.prems" by (auto simp: ebind_Inr_iff emap_Inr_iff split: if_splits)
  note ce = clean_items [OF e]
  have f: "map fst e = map PStr ?ks" using ce by blast
  have "map (\<lambda>p. str_of (fst p)) e = map str_of (map fst e)" by simp
  also have "\<dots> = ?ks" by (simp add: f comp_def)
  finally have "ordered compact_sorted e = e"
    unfolding ordered_def by (simp add: sort_key_id_if_sorted)
  moreover have "distinct (map fst e)" by (simp add: f distinct_map inj_on_def)
  moreover have "is_str (fst p) \<and> jv compact_sorted (snd p)" if p: "p \<in> set e" for p
  proof -
    have "fst p \<in> set (map fst e)" using p by simp
    then have "is_str (fst p)" unfolding f by auto
    moreover obtain k v where "k \<in> set ?ks" "dget d k = Some v" "clean v = Inr (snd p)"
      using ce p by blast
    then have "jv compact_sorted (snd p)" by (rule "7.IH" [OF str])
    ultimately show ?thesis by simp
  qed
  ultimately show ?case by (simp add: w list_all_iff)
qed (auto simp: unsupported_def)

text \<open>The canonical text parses back to the cleaned value, so it determines it.\<close>

theorem canonical_json_loads:
  assumes "canonical_json v = Inr t"
  obtains w where "clean v = Inr w" "loads t = Inr w"
  using assms clean_jv loads_dumps_Inr [of compact_sorted]
  unfolding canonical_json_def ebind_Inr_iff by force

theorem canonical_json_inj:
  "canonical_json v = Inr t \<Longrightarrow> canonical_json w = Inr t \<Longrightarrow> clean v = clean w"
  by (metis canonical_json_loads Inr_inject)

lemma canonical_json_total: "clean v = Inr w \<Longrightarrow> \<exists>t. canonical_json v = Inr t"
  using loads_dumps [OF wf_styles(1) clean_jv] by (fastforce simp: canonical_json_def)

lemma canonical_json_Inl: "clean v = Inl e \<Longrightarrow> canonical_json v = Inl e"
  by (simp add: canonical_json_def)

section \<open>Hashes of values\<close>

text \<open>Two values collide when their canonical texts differ and have the same digest.\<close>

definition collides :: "pyval \<Rightarrow> pyval \<Rightarrow> bool" where
  "collides v w \<longleftrightarrow> (\<exists>s t. canonical_json v = Inr s \<and> canonical_json w = Inr t \<and> s \<noteq> t \<and>
     sha256_hex (utf8 s) = sha256_hex (utf8 t))"

lemma hash_value_Inr_iff:
  "hash_value v = Inr h \<longleftrightarrow> (\<exists>t. canonical_json v = Inr t \<and> h = sha_text (utf8 t))"
  by (auto simp: hash_value_def ebind_Inr_iff)

lemma hash_value_is_sha256: "hash_value v = Inr h \<Longrightarrow> is_sha256 h"
  by (auto simp: hash_value_Inr_iff)

lemma hash_value_total: "clean v = Inr w \<Longrightarrow> \<exists>h. hash_value v = Inr h"
  using canonical_json_total by (fastforce simp: hash_value_def)

lemma hash_value_raises: "clean v = Inl e \<Longrightarrow> hash_value v = Inl e"
  by (simp add: hash_value_def canonical_json_Inl)

lemma hash_value_binds:
  assumes "hash_value v = Inr h" "hash_value w = Inr h"
  shows "clean v = clean w \<or> collides v w"
proof -
  obtain s t where s: "canonical_json v = Inr s" and t: "canonical_json w = Inr t"
    and eq: "sha_text (utf8 s) = sha_text (utf8 t)"
    using assms by (auto simp: hash_value_Inr_iff)
  show ?thesis
  proof (cases "s = t")
    case True
    then show ?thesis using s t canonical_json_inj by blast
  next
    case False
    then show ?thesis using s t eq by (auto simp: collides_def sha_text_eq_iff)
  qed
qed

lemma emap_clean_strs [simp]: "emap clean (map PStr ss) = Inr (map PStr ss)"
  by (induction ss) auto

lemma py_eqs_refl: "(\<And>x. x \<in> set xs \<Longrightarrow> py_eq x x) \<Longrightarrow> py_eqs xs xs"
  by (induction xs) auto

lemma py_sub_Cons:
  "py_sub (p # d) e \<longleftrightarrow> list_ex (\<lambda>q. py_eq (fst p) (fst q) \<and> py_eq (snd p) (snd q)) e \<and> py_sub d e"
  by (cases p) simp

lemma py_sub_refl:
  "(\<And>p. p \<in> set d \<Longrightarrow> p \<in> set e \<and> py_eq (fst p) (fst p) \<and> py_eq (snd p) (snd p)) \<Longrightarrow> py_sub d e"
proof (induction d)
  case (Cons p d)
  have p: "p \<in> set e" "py_eq (fst p) (fst p)" "py_eq (snd p) (snd p)"
    using Cons.prems [of p] by simp_all
  have "list_ex (\<lambda>q. py_eq (fst p) (fst q) \<and> py_eq (snd p) (snd q)) e"
    using p by (auto simp: list_ex_iff)
  moreover have "py_sub d e" using Cons by simp
  ultimately show ?case by (simp add: py_sub_Cons)
qed simp

lemma jv_py_eq_refl: "jv st v \<Longrightarrow> py_eq v v"
proof (induction st v rule: jv.induct)
  case (5 st xs)
  then show ?case by (auto simp: list_all_iff intro: py_eqs_refl)
next
  case (6 st d)
  then show ?case by (auto simp: list_all_iff is_str_iff intro!: py_sub_refl)
qed (auto simp: num_of_def)

end
