(* ===== verification/Evidence.thy ===== *)
theory Evidence
  imports Json_Roundtrip
begin

text \<open>
  The evidence subjects of \<open>product/evidence/__init__.py\<close>: acceptance contract, change set,
  verification plan, observation and evidence bundle, with their constructors, identities,
  serialisation, the subject validator, the integrity derivation and the envelope validator.

  The classes are frozen dataclasses; a field may nevertheless hold any value, because an
  instance can be made with \<open>object.__new__\<close>, which is what the sealed validators guard against.
  So each record field is a \<^typ>\<open>pyval\<close>, a constructor is a function into \<^typ>\<open>'a res\<close> that runs
  \<open>__post_init__\<close>, and a subject argument is an \<open>'a obj\<close>: an instance of the exact class with
  exactly its fields, or not.  The hashes of a subject are read where its constructor or the
  validator has been passed; \<open>sorted_tuple\<close>, the \<open>tuple(sorted(..))\<close> in them, therefore treats
  the tuples of strings and raises on anything else.
\<close>

section \<open>Textual requirements\<close>

definition require_text :: "pyval \<Rightarrow> string \<Rightarrow> unit res" where
  "require_text value field =
     (if \<not> is_str value then Inl (TypeErr, field @ '' must be a string'')
      else if \<not> normalized (str_of value)
      then Inl (ValueErr, field @ '' must be non-empty and normalized'')
      else Inr ())"

definition require_hash :: "pyval \<Rightarrow> string \<Rightarrow> unit res" where
  "require_hash value field =
     eseq (require_text value field)
       (guard (is_sha256 (str_of value)) ValueErr (field @ '' must be sha256:<64 lowercase hex>''))"

definition require_ids :: "pyval \<Rightarrow> string \<Rightarrow> unit res" where
  "require_ids values field =
     (case values of
        PTuple xs \<Rightarrow>
          eseq (efor xs (\<lambda>v. require_text v field))
            (eseq (guard (distinct (map str_of xs)) ValueErr (field @ '' must not contain duplicates''))
               (guard (xs \<noteq> []) ValueErr (field @ '' must be non-empty'')))
      | _ \<Rightarrow> Inl (TypeErr, field @ '' must be a tuple''))"

definition require_paths :: "pyval \<Rightarrow> string \<Rightarrow> unit res" where
  "require_paths values field =
     eseq (require_ids values field)
       (efor (elems values)
          (\<lambda>v. guard (relative_path (str_of v)) ValueErr (field @ '' must contain relative paths'')))"

definition validate_normalized_paths :: "pyval \<Rightarrow> string \<Rightarrow> pyval res" where
  "validate_normalized_paths values field = eseq (require_paths values field) (Inr values)"

section \<open>Statuses\<close>

datatype integrity_status =
    VALID | SCOPE_ESCAPE | MISSING | STALE | TAMPERED | MALFORMED | CROSS_BOUND | DUPLICATE
  | LEGACY_NON_CERTIFIABLE

text \<open>\<open>CROSS_BINDING_INVALID = "CROSS_BOUND"\<close> is an alias in the enumeration.\<close>

abbreviation CROSS_BINDING_INVALID :: integrity_status where
  "CROSS_BINDING_INVALID \<equiv> CROSS_BOUND"

fun integrity_value :: "integrity_status \<Rightarrow> string" where
  "integrity_value VALID = ''VALID''"
| "integrity_value SCOPE_ESCAPE = ''SCOPE_ESCAPE''"
| "integrity_value MISSING = ''MISSING''"
| "integrity_value STALE = ''STALE''"
| "integrity_value TAMPERED = ''TAMPERED''"
| "integrity_value MALFORMED = ''MALFORMED''"
| "integrity_value CROSS_BOUND = ''CROSS_BOUND''"
| "integrity_value DUPLICATE = ''DUPLICATE''"
| "integrity_value LEGACY_NON_CERTIFIABLE = ''LEGACY_NON_CERTIFIABLE''"

abbreviation OBS_PASS :: pyval where "OBS_PASS \<equiv> PEnum ''ObservationStatus'' ''PASS''"
abbreviation OBS_FAIL :: pyval where "OBS_FAIL \<equiv> PEnum ''ObservationStatus'' ''FAIL''"

text \<open>\<open>type(v) is ObservationStatus\<close>.\<close>

definition is_observation_status :: "pyval \<Rightarrow> bool" where
  "is_observation_status v \<longleftrightarrow> v = OBS_PASS \<or> v = OBS_FAIL"

section \<open>Subjects\<close>

datatype 'a obj = Obj 'a | WrongType | WrongFields

record acceptance_contract =
  ac_contract_id :: pyval
  ac_requirements_hash :: pyval
  ac_required_verifier_ids :: pyval
  ac_allowed_paths :: pyval
  ac_deletion_policy :: pyval

record change_set =
  cs_change_set_id :: pyval
  cs_source_revision :: pyval
  cs_target_revision :: pyval
  cs_diff_hash :: pyval
  cs_paths :: pyval

record verification_plan =
  vp_plan_id :: pyval
  vp_acceptance_contract_hash :: pyval
  vp_change_set_hash :: pyval
  vp_required_verifier_ids :: pyval

record observation =
  ob_verifier_id :: pyval
  ob_artifact_id :: pyval
  ob_artifact_hash :: pyval
  ob_status :: pyval

text \<open>\<open>eb_observations\<close> is \<open>None\<close> when the field does not hold a tuple.\<close>

record evidence_bundle =
  eb_bundle_id :: pyval
  eb_acceptance_contract_hash :: pyval
  eb_change_set_hash :: pyval
  eb_verification_plan_hash :: pyval
  eb_observations :: "observation obj list option"
  eb_claimed_bundle_hash :: pyval

definition deletion_policy_ok :: "pyval \<Rightarrow> bool" where
  "deletion_policy_ok v \<longleftrightarrow> is_str v \<and> List.member [''FORBID'', ''ALLOW''] (str_of v)"

definition AcceptanceContract ::
  "pyval \<Rightarrow> pyval \<Rightarrow> pyval \<Rightarrow> pyval \<Rightarrow> pyval \<Rightarrow> acceptance_contract res" where
  "AcceptanceContract contract_id requirements_hash required_verifier_ids allowed_paths deletion_policy =
     eseq (require_text contract_id ''contract_id'')
    (eseq (require_hash requirements_hash ''requirements_hash'')
    (eseq (require_ids required_verifier_ids ''required_verifier_ids'')
    (eseq (require_paths allowed_paths ''allowed_paths'')
    (eseq (guard (deletion_policy_ok deletion_policy) ValueErr
             ''deletion_policy must be FORBID or ALLOW'')
     (Inr \<lparr>ac_contract_id = contract_id, ac_requirements_hash = requirements_hash,
           ac_required_verifier_ids = required_verifier_ids, ac_allowed_paths = allowed_paths,
           ac_deletion_policy = deletion_policy\<rparr>)))))"

definition ChangeSet :: "pyval \<Rightarrow> pyval \<Rightarrow> pyval \<Rightarrow> pyval \<Rightarrow> pyval \<Rightarrow> change_set res" where
  "ChangeSet change_set_id source_revision target_revision diff_hash paths =
     eseq (require_text change_set_id ''change_set_id'')
    (eseq (require_text source_revision ''source_revision'')
    (eseq (require_text target_revision ''target_revision'')
    (eseq (require_hash diff_hash ''diff_hash'')
    (eseq (require_paths paths ''paths'')
     (Inr \<lparr>cs_change_set_id = change_set_id, cs_source_revision = source_revision,
           cs_target_revision = target_revision, cs_diff_hash = diff_hash, cs_paths = paths\<rparr>)))))"

definition VerificationPlan :: "pyval \<Rightarrow> pyval \<Rightarrow> pyval \<Rightarrow> pyval \<Rightarrow> verification_plan res" where
  "VerificationPlan plan_id acceptance_contract_hash change_set_hash required_verifier_ids =
     eseq (require_text plan_id ''plan_id'')
    (eseq (require_hash acceptance_contract_hash ''acceptance_contract_hash'')
    (eseq (require_hash change_set_hash ''change_set_hash'')
    (eseq (require_ids required_verifier_ids ''required_verifier_ids'')
     (Inr \<lparr>vp_plan_id = plan_id, vp_acceptance_contract_hash = acceptance_contract_hash,
           vp_change_set_hash = change_set_hash,
           vp_required_verifier_ids = required_verifier_ids\<rparr>))))"

definition Observation :: "pyval \<Rightarrow> pyval \<Rightarrow> pyval \<Rightarrow> pyval \<Rightarrow> observation res" where
  "Observation verifier_id artifact_id artifact_hash status =
     eseq (require_text verifier_id ''verifier_id'')
    (eseq (require_text artifact_id ''artifact_id'')
    (eseq (require_hash artifact_hash ''artifact_hash'')
    (eseq (guard (is_observation_status status) TypeErr ''status must be ObservationStatus'')
     (Inr \<lparr>ob_verifier_id = verifier_id, ob_artifact_id = artifact_id,
           ob_artifact_hash = artifact_hash, ob_status = status\<rparr>))))"

definition is_exact :: "'a obj \<Rightarrow> bool" where
  "is_exact x \<longleftrightarrow> (case x of Obj _ \<Rightarrow> True | WrongType \<Rightarrow> False | WrongFields \<Rightarrow> False)"

definition right_type :: "'a obj \<Rightarrow> bool" where
  "right_type x \<longleftrightarrow> (case x of Obj _ \<Rightarrow> True | WrongType \<Rightarrow> False | WrongFields \<Rightarrow> True)"

definition EvidenceBundle ::
  "pyval \<Rightarrow> pyval \<Rightarrow> pyval \<Rightarrow> pyval \<Rightarrow> observation obj list option \<Rightarrow> pyval \<Rightarrow> evidence_bundle res" where
  "EvidenceBundle bundle_id acceptance_contract_hash change_set_hash verification_plan_hash
       observations claimed_bundle_hash =
     eseq (require_text bundle_id ''bundle_id'')
    (eseq (require_hash acceptance_contract_hash ''acceptance_contract_hash'')
    (eseq (require_hash change_set_hash ''change_set_hash'')
    (eseq (require_hash verification_plan_hash ''verification_plan_hash'')
    (eseq (guard (observations \<noteq> None \<and> observations \<noteq> Some []) ValueErr
             ''observations must be non-empty tuple'')
    (eseq (guard (list_all right_type (the observations)) TypeErr
             ''observations must contain Observation values'')
    (eseq (if claimed_bundle_hash \<noteq> PNone
           then require_hash claimed_bundle_hash ''claimed_bundle_hash'' else Inr ())
     (Inr \<lparr>eb_bundle_id = bundle_id, eb_acceptance_contract_hash = acceptance_contract_hash,
           eb_change_set_hash = change_set_hash, eb_verification_plan_hash = verification_plan_hash,
           eb_observations = observations, eb_claimed_bundle_hash = claimed_bundle_hash\<rparr>)))))))"

section \<open>Identities\<close>

definition sorted_tuple :: "pyval \<Rightarrow> pyval res" where
  "sorted_tuple v =
     (if is_tuple v \<and> list_all is_str (elems v)
      then Inr (PTuple (map PStr (sort (map str_of (elems v)))))
      else Inl (TypeErr, ''not a tuple of strings''))"

text \<open>The tuple each identity hashes, and the identity.\<close>

definition contract_value :: "acceptance_contract \<Rightarrow> pyval res" where
  "contract_value c =
     ebind (sorted_tuple (ac_required_verifier_ids c)) (\<lambda>ids.
     ebind (sorted_tuple (ac_allowed_paths c)) (\<lambda>paths.
       Inr (PTuple [ac_contract_id c, ac_requirements_hash c, ids, paths, ac_deletion_policy c])))"

definition contract_hash :: "acceptance_contract \<Rightarrow> string res" where
  "contract_hash c = ebind (contract_value c) hash_value"

definition change_set_value :: "change_set \<Rightarrow> pyval res" where
  "change_set_value cs =
     ebind (sorted_tuple (cs_paths cs)) (\<lambda>paths.
       Inr (PTuple [cs_change_set_id cs, cs_source_revision cs, cs_target_revision cs,
         cs_diff_hash cs, paths]))"

definition change_set_hash :: "change_set \<Rightarrow> string res" where
  "change_set_hash cs = ebind (change_set_value cs) hash_value"

definition plan_value :: "verification_plan \<Rightarrow> pyval res" where
  "plan_value p =
     ebind (sorted_tuple (vp_required_verifier_ids p)) (\<lambda>ids.
       Inr (PTuple [vp_plan_id p, vp_acceptance_contract_hash p, vp_change_set_hash p, ids]))"

definition plan_hash :: "verification_plan \<Rightarrow> string res" where
  "plan_hash p = ebind (plan_value p) hash_value"

text \<open>The observations of a bundle that passed the constructor, in canonical order.\<close>

definition the_obs :: "evidence_bundle \<Rightarrow> observation list" where
  "the_obs e = concat (map (\<lambda>x. case x of Obj ob \<Rightarrow> [ob] | _ \<Rightarrow> []) (case eb_observations e of
     None \<Rightarrow> [] | Some xs \<Rightarrow> xs))"

definition obs_key :: "observation \<Rightarrow> string \<times> string" where
  "obs_key x = (str_of (ob_verifier_id x), str_of (ob_artifact_id x))"

definition sorted_obs :: "evidence_bundle \<Rightarrow> observation list" where
  "sorted_obs e = sort_key obs_key (the_obs e)"

definition bundle_core :: "evidence_bundle \<Rightarrow> pyval" where
  "bundle_core e =
     PTuple [eb_bundle_id e, eb_acceptance_contract_hash e, eb_change_set_hash e,
       eb_verification_plan_hash e,
       PTuple (map (\<lambda>x. PTuple [ob_verifier_id x, ob_artifact_id x, ob_artifact_hash x,
         PStr (str_of (ob_status x))]) (sorted_obs e))]"

definition bundle_hash :: "evidence_bundle \<Rightarrow> string res" where
  "bundle_hash e = hash_value (bundle_core e)"

definition EVIDENCE_BUNDLE_SCHEMA :: string where
  "EVIDENCE_BUNDLE_SCHEMA = ''nexus.evidence_bundle.v1-experimental''"

definition observation_dict :: "observation \<Rightarrow> pyval" where
  "observation_dict x = mkdict [(''verifier_id'', ob_verifier_id x), (''artifact_id'', ob_artifact_id x),
     (''artifact_hash'', ob_artifact_hash x), (''status'', PStr (str_of (ob_status x)))]"

definition bundle_body :: "evidence_bundle \<Rightarrow> (string \<times> pyval) list" where
  "bundle_body e = [(''evidence_bundle_schema'', PStr EVIDENCE_BUNDLE_SCHEMA),
     (''bundle_id'', eb_bundle_id e),
     (''acceptance_contract_hash'', eb_acceptance_contract_hash e),
     (''change_set_hash'', eb_change_set_hash e),
     (''verification_plan_hash'', eb_verification_plan_hash e),
     (''observations'', PList (map observation_dict (sorted_obs e)))]"

text \<open>\<open>claimed is not None and claimed != computed\<close>.\<close>

definition claim_differs :: "pyval \<Rightarrow> string \<Rightarrow> bool" where
  "claim_differs claimed h \<longleftrightarrow> claimed \<noteq> PNone \<and> \<not> py_eq claimed (PStr h)"

text \<open>\<open>EvidenceBundle.to_dict\<close> (the sealed serializer) and \<open>envelope_hash\<close>.\<close>

definition bundle_to_dict :: "evidence_bundle \<Rightarrow> pyval res" where
  "bundle_to_dict e =
     ebind (if eb_claimed_bundle_hash e \<noteq> PNone then bundle_hash e else Inr []) (\<lambda>h.
       if claim_differs (eb_claimed_bundle_hash e) h
       then Inl (ValueErr, ''claimed_bundle_hash does not match computed hash'')
       else ebind (hash_value (mkdict (bundle_body e))) (\<lambda>bh.
         Inr (mkdict (bundle_body e @ [(''bundle_hash'', PStr bh)]))))"

definition envelope_hash :: "evidence_bundle \<Rightarrow> string res" where
  "envelope_hash e = ebind (bundle_to_dict e) (\<lambda>d. Inr (str_of (get (items d) ''bundle_hash'')))"

section \<open>Integrity\<close>

definition has_duplicates :: "observation list \<Rightarrow> bool" where
  "has_duplicates obs \<longleftrightarrow> \<not> distinct (map (\<lambda>x. str_of (ob_verifier_id x)) obs) \<or>
     \<not> distinct (map (\<lambda>x. str_of (ob_artifact_id x)) obs)"

text \<open>The ladder of comparisons that \<open>EvidenceBundle.integrity\<close> and \<open>derive_evidence_integrity\<close>
  share, given the computed hashes of contract, change set, plan and evidence.\<close>

definition integrity_ladder ::
  "verification_plan \<Rightarrow> evidence_bundle \<Rightarrow> string \<Rightarrow> string \<Rightarrow> string \<Rightarrow> string \<Rightarrow> integrity_status" where
  "integrity_ladder p e ch csh ph eh =
     (if claim_differs (eb_claimed_bundle_hash e) eh then TAMPERED
      else if \<not> py_eq (eb_acceptance_contract_hash e) (PStr ch) then CROSS_BOUND
      else if \<not> py_eq (eb_change_set_hash e) (PStr csh) then STALE
      else if \<not> py_eq (eb_verification_plan_hash e) (PStr ph)
           \<or> \<not> py_eq (vp_acceptance_contract_hash p) (PStr ch)
           \<or> \<not> py_eq (vp_change_set_hash p) (PStr csh) then CROSS_BINDING_INVALID
      else if has_duplicates (the_obs e) then DUPLICATE
      else VALID)"

definition bundle_integrity ::
  "evidence_bundle \<Rightarrow> acceptance_contract \<Rightarrow> change_set \<Rightarrow> verification_plan \<Rightarrow> integrity_status res" where
  "bundle_integrity e c cs p =
     ebind (contract_hash c) (\<lambda>ch. ebind (change_set_hash cs) (\<lambda>csh. ebind (plan_hash p) (\<lambda>ph.
     ebind (bundle_hash e) (\<lambda>eh. Inr (integrity_ladder p e ch csh ph eh)))))"

section \<open>Subject validation\<close>

definition malformed :: "string \<Rightarrow> string" where
  "malformed name = ''MALFORMED:'' @ name"

definition fields_err :: "string \<Rightarrow> 'a obj \<Rightarrow> string list" where
  "fields_err name x = (if is_exact x then [] else [malformed name])"

definition err_if :: "bool \<Rightarrow> string \<Rightarrow> string list" where
  "err_if b name = (if b then [malformed name] else [])"

definition text_err :: "pyval \<Rightarrow> string \<Rightarrow> string \<Rightarrow> string list" where
  "text_err v pre key = err_if (raises (require_text v key)) (pre @ ''.'' @ key)"

definition hash_err :: "pyval \<Rightarrow> string \<Rightarrow> string \<Rightarrow> string list" where
  "hash_err v pre key = err_if (raises (require_hash v key)) (pre @ ''.'' @ key)"

definition contract_errs :: "acceptance_contract \<Rightarrow> string list" where
  "contract_errs c =
     text_err (ac_contract_id c) ''contract'' ''contract_id'' @
     hash_err (ac_requirements_hash c) ''contract'' ''requirements_hash'' @
     err_if (raises (require_ids (ac_required_verifier_ids c) ''required_verifier_ids''))
       ''contract.required_verifier_ids'' @
     err_if (raises (require_paths (ac_allowed_paths c) ''allowed_paths'')) ''contract.allowed_paths'' @
     err_if (\<not> deletion_policy_ok (ac_deletion_policy c)) ''contract.deletion_policy''"

definition change_set_errs :: "change_set \<Rightarrow> string list" where
  "change_set_errs cs =
     text_err (cs_change_set_id cs) ''change_set'' ''change_set_id'' @
     text_err (cs_source_revision cs) ''change_set'' ''source_revision'' @
     text_err (cs_target_revision cs) ''change_set'' ''target_revision'' @
     hash_err (cs_diff_hash cs) ''change_set'' ''diff_hash'' @
     err_if (raises (require_paths (cs_paths cs) ''paths'')) ''change_set.paths''"

definition plan_errs :: "verification_plan \<Rightarrow> string list" where
  "plan_errs p =
     text_err (vp_plan_id p) ''plan'' ''plan_id'' @
     hash_err (vp_acceptance_contract_hash p) ''plan'' ''acceptance_contract_hash'' @
     hash_err (vp_change_set_hash p) ''plan'' ''change_set_hash'' @
     err_if (raises (require_ids (vp_required_verifier_ids p) ''required_verifier_ids''))
       ''plan.required_verifier_ids''"

definition observation_errs :: "nat \<Rightarrow> observation obj \<Rightarrow> string list" where
  "observation_errs i x =
     (let name = ''evidence.observations['' @ show_nat i @ '']'' in
      case x of
        Obj ob \<Rightarrow>
          text_err (ob_verifier_id ob) name ''verifier_id'' @
          text_err (ob_artifact_id ob) name ''artifact_id'' @
          hash_err (ob_artifact_hash ob) name ''artifact_hash'' @
          err_if (\<not> is_observation_status (ob_status ob)) (name @ ''.status'')
      | _ \<Rightarrow> [malformed name])"

fun observations_errs :: "nat \<Rightarrow> observation obj list \<Rightarrow> string list" where
  "observations_errs i [] = []"
| "observations_errs i (x # xs) = observation_errs i x @ observations_errs (Suc i) xs"

definition evidence_errs :: "evidence_bundle \<Rightarrow> string list" where
  "evidence_errs e =
     text_err (eb_bundle_id e) ''evidence'' ''bundle_id'' @
     hash_err (eb_acceptance_contract_hash e) ''evidence'' ''acceptance_contract_hash'' @
     hash_err (eb_change_set_hash e) ''evidence'' ''change_set_hash'' @
     hash_err (eb_verification_plan_hash e) ''evidence'' ''verification_plan_hash'' @
     (if eb_claimed_bundle_hash e \<noteq> PNone
      then hash_err (eb_claimed_bundle_hash e) ''evidence'' ''claimed_bundle_hash'' else []) @
     (case eb_observations e of
        None \<Rightarrow> [malformed ''evidence.observations'']
      | Some obs \<Rightarrow> if obs = [] then [malformed ''evidence.observations'']
                    else observations_errs 0 obs)"

definition obj_errs :: "('a \<Rightarrow> string list) \<Rightarrow> 'a obj \<Rightarrow> string list" where
  "obj_errs f x = (case x of Obj a \<Rightarrow> f a | _ \<Rightarrow> [])"

definition validate_evidence_subjects ::
  "acceptance_contract obj \<Rightarrow> change_set obj \<Rightarrow> verification_plan obj \<Rightarrow> evidence_bundle obj
   \<Rightarrow> string list" where
  "validate_evidence_subjects c cs p e = dict_fromkeys
     (fields_err ''contract'' c @ fields_err ''change_set'' cs @ fields_err ''plan'' p @
      fields_err ''evidence'' e @
      obj_errs contract_errs c @ obj_errs change_set_errs cs @ obj_errs plan_errs p @
      obj_errs evidence_errs e)"

definition derive_evidence_integrity ::
  "acceptance_contract obj \<Rightarrow> change_set obj \<Rightarrow> verification_plan obj \<Rightarrow> evidence_bundle obj
   \<Rightarrow> integrity_status res" where
  "derive_evidence_integrity contract change_set plan evidence =
     (if \<not> right_type contract \<or> \<not> right_type change_set \<or> \<not> right_type plan \<or> \<not> right_type evidence
      then Inr MALFORMED
      else if validate_evidence_subjects contract change_set plan evidence \<noteq> [] then Inr MALFORMED
      else (case (contract, change_set, plan, evidence) of
              (Obj c, Obj cs, Obj p, Obj e) \<Rightarrow>
                ebind (contract_hash c) (\<lambda>ch. ebind (change_set_hash cs) (\<lambda>csh.
                ebind (plan_hash p) (\<lambda>ph. ebind (bundle_hash e) (\<lambda>eh.
                  Inr (integrity_ladder p e ch csh ph eh)))))
            | _ \<Rightarrow> Inr MALFORMED))"

section \<open>The serialised envelope\<close>

text \<open>The envelope validator appends to a list of errors inside a \<open>try\<close>; an exception adds one more
  and keeps those found so far.  A step maps the errors to the errors and whether it raised.\<close>

type_synonym acc = "string list \<times> bool"

definition andthen :: "acc \<Rightarrow> (string list \<Rightarrow> acc) \<Rightarrow> acc" where
  "andthen a f = (if snd a then a else f (fst a))"

definition add_if :: "bool \<Rightarrow> string \<Rightarrow> string list \<Rightarrow> acc" where
  "add_if b m errs = ((if b then errs @ [m] else errs), False)"

definition require_step :: "unit res \<Rightarrow> string list \<Rightarrow> acc" where
  "require_step r errs = (errs, raises r)"

definition steps :: "('a \<Rightarrow> string list \<Rightarrow> acc) \<Rightarrow> 'a list \<Rightarrow> string list \<Rightarrow> acc" where
  "steps f xs errs = foldl (\<lambda>a x. andthen a (f x)) (errs, False) xs"

definition envelope_keys :: "string list" where
  "envelope_keys = [''evidence_bundle_schema'', ''bundle_id'', ''acceptance_contract_hash'',
     ''change_set_hash'', ''verification_plan_hash'', ''observations'', ''bundle_hash'']"

text \<open>One row of \<open>observations\<close>: the errors it adds and the row, when it is one.\<close>

definition row_keys :: "string list" where
  "row_keys = [''verifier_id'', ''artifact_id'', ''artifact_hash'', ''status'']"

type_synonym obs_row = "string \<times> string \<times> string \<times> string"

definition envelope_row :: "nat \<Rightarrow> pyval \<Rightarrow> string list \<times> obs_row option" where
  "envelope_row i row =
     (let name = ''observations['' @ show_nat i @ '']''; d = items row;
          f = (\<lambda>k. str_of (get d k)) in
      if \<not> is_dict row \<or> \<not> keys_are d row_keys then ([malformed name], None)
      else if \<not> list_all (\<lambda>k. isinstance_str (get d k)) row_keys then ([malformed name], None)
      else (err_if (\<not> List.member [''PASS'', ''FAIL''] (f ''status'')) (name @ ''.status'') @
            err_if (raises (require_text (get d ''verifier_id'') ''verifier_id'') \<or>
                    raises (require_text (get d ''artifact_id'') ''artifact_id'') \<or>
                    raises (require_hash (get d ''artifact_hash'') ''artifact_hash'')) name,
            Some (f ''verifier_id'', f ''artifact_id'', f ''artifact_hash'', f ''status'')))"

fun envelope_rows :: "nat \<Rightarrow> pyval list \<Rightarrow> string list \<times> obs_row list" where
  "envelope_rows i [] = ([], [])"
| "envelope_rows i (x # xs) =
     (let (e1, r1) = envelope_row i x; (e2, r2) = envelope_rows (Suc i) xs
      in (e1 @ e2, (case r1 of None \<Rightarrow> r2 | Some r \<Rightarrow> r # r2)))"

definition row_key :: "obs_row \<Rightarrow> string \<times> string" where
  "row_key r = (fst r, fst (snd r))"

text \<open>The checks on the payload alone: keys, schema, field types, textual forms, rows, duplicates,
  order and the envelope's own hash.\<close>

definition envelope_fields :: "pydict \<Rightarrow> string list \<Rightarrow> acc" where
  "envelope_fields d errs =
     andthen (andthen (andthen (andthen (andthen (errs, False)
       (add_if (\<not> keys_are d envelope_keys) (malformed ''keys'')))
       (add_if (\<not> py_eq (get d ''evidence_bundle_schema'') (PStr EVIDENCE_BUNDLE_SCHEMA))
          ''STALE:evidence_bundle_schema''))
       (steps (\<lambda>k. add_if (\<not> has_key d k \<or> \<not> isinstance_str (get d k)) (malformed k))
          [''bundle_id'', ''acceptance_contract_hash'', ''change_set_hash'',
           ''verification_plan_hash'', ''bundle_hash'']))
       (require_step (if isinstance_str (get d ''bundle_id'')
          then require_text (get d ''bundle_id'') ''bundle_id'' else Inr ())))
       (steps (\<lambda>k. require_step (if isinstance_str (get d k) then require_hash (get d k) k else Inr ()))
          [''acceptance_contract_hash'', ''change_set_hash'', ''verification_plan_hash'', ''bundle_hash''])"

definition envelope_body :: "pydict \<Rightarrow> pyval" where
  "envelope_body d = PDict (map (\<lambda>k. (PStr k, get d k))
     (filter (has_key d) (filter (\<lambda>k. k \<noteq> ''bundle_hash'') envelope_keys)))"

definition envelope_observations :: "pydict \<Rightarrow> string list \<Rightarrow> acc" where
  "envelope_observations d errs =
     (let obs = get d ''observations'';
          (row_errs, rows) = (if is_list obs then envelope_rows 0 (elems obs) else ([], []));
          e1 = errs @ err_if (\<not> is_list obs \<or> elems obs = []) ''observations'' @ row_errs @
               (if \<not> distinct (map fst rows) \<or> \<not> distinct (map (\<lambda>r. fst (snd r)) rows)
                then [''DUPLICATE:observations''] else []) @
               err_if (rows \<noteq> sort_key row_key rows) ''observation_order'' in
      if e1 \<noteq> [] then (e1, False)
      else (case hash_value (envelope_body d) of
              Inl _ \<Rightarrow> (e1, True)
            | Inr h \<Rightarrow> add_if (\<not> py_eq (get d ''bundle_hash'') (PStr h)) ''TAMPERED:bundle_hash'' e1))"

text \<open>The comparisons with the contract, change set and plan.\<close>

definition envelope_bindings ::
  "pydict \<Rightarrow> acceptance_contract \<Rightarrow> change_set \<Rightarrow> verification_plan \<Rightarrow> string list \<Rightarrow> acc" where
  "envelope_bindings d c cs p errs =
     (case contract_hash c of Inl _ \<Rightarrow> (errs, True) | Inr ch \<Rightarrow>
      andthen (add_if (\<not> py_eq (get d ''acceptance_contract_hash'') (PStr ch))
                 ''CROSS_BOUND:acceptance_contract_hash'' errs) (\<lambda>e1.
      case change_set_hash cs of Inl _ \<Rightarrow> (e1, True) | Inr csh \<Rightarrow>
      andthen (add_if (\<not> py_eq (get d ''change_set_hash'') (PStr csh)) ''STALE:change_set_hash'' e1) (\<lambda>e2.
      case plan_hash p of Inl _ \<Rightarrow> (e2, True) | Inr ph \<Rightarrow>
        add_if (\<not> py_eq (get d ''verification_plan_hash'') (PStr ph)
             \<or> \<not> py_eq (vp_acceptance_contract_hash p) (PStr ch)
             \<or> \<not> py_eq (vp_change_set_hash p) (PStr csh))
          ''CROSS_BINDING_INVALID:verification_plan_hash'' e2)))"

definition envelope_expected ::
  "pyval \<Rightarrow> evidence_bundle option \<Rightarrow> pyval \<Rightarrow> string list \<Rightarrow> acc" where
  "envelope_expected payload expected_bundle expected_hash errs =
     (if errs \<noteq> [] then (errs, False)
      else (case expected_bundle of
              Some b \<Rightarrow> (case bundle_to_dict b of Inl _ \<Rightarrow> (errs, True)
                         | Inr v \<Rightarrow> add_if (\<not> py_eq payload v) ''TAMPERED:fields'' errs)
            | None \<Rightarrow> add_if (\<not> py_eq (get (items payload) ''bundle_hash'') expected_hash)
                        ''TAMPERED:fields'' errs))"

text \<open>\<open>expected_bundle\<close> is \<open>None\<close> when the argument is \<open>None\<close>, and \<open>Some None\<close> when it is not an
  \<open>EvidenceBundle\<close>; likewise \<open>None\<close> for a contract, change set or plan of another class.\<close>

definition envelope_arguments ::
  "acceptance_contract option \<Rightarrow> change_set option \<Rightarrow> verification_plan option
   \<Rightarrow> evidence_bundle option option \<Rightarrow> pyval \<Rightarrow> unit res" where
  "envelope_arguments contract change_set plan expected_bundle expected_hash =
     eseq (guard ((expected_bundle = None) \<noteq> (expected_hash = PNone)) TypeErr
        ''exactly one independently supplied expected bundle or envelope hash is required'')
    (eseq (guard (expected_bundle \<noteq> Some None) TypeErr ''expected_bundle must be EvidenceBundle'')
    (eseq (case expected_bundle of
             Some (Some b) \<Rightarrow>
               if eb_claimed_bundle_hash b \<noteq> PNone
               then ebind (bundle_hash b) (\<lambda>h. guard (\<not> claim_differs (eb_claimed_bundle_hash b) h)
                      ValueErr ''expected_bundle claimed hash does not match computed hash'')
               else Inr ()
           | _ \<Rightarrow> Inr ())
    (eseq (if expected_hash \<noteq> PNone then require_hash expected_hash ''expected_envelope_hash'' else Inr ())
    (eseq (guard (contract \<noteq> None) TypeErr ''contract must be AcceptanceContract'')
    (eseq (guard (change_set \<noteq> None) TypeErr ''change_set must be ChangeSet'')
          (guard (plan \<noteq> None) TypeErr ''plan must be VerificationPlan''))))))"

definition envelope_try ::
  "pyval \<Rightarrow> acceptance_contract \<Rightarrow> change_set \<Rightarrow> verification_plan \<Rightarrow> evidence_bundle option \<Rightarrow> pyval
   \<Rightarrow> string list" where
  "envelope_try payload c cs p expected_bundle expected_hash =
     (if \<not> is_dict payload then [malformed ''payload'']
      else (let d = items payload;
                a = andthen (andthen (andthen (envelope_fields d []) (envelope_observations d))
                      (envelope_bindings d c cs p))
                      (envelope_expected payload expected_bundle expected_hash)
            in dict_fromkeys (fst a @ (if snd a then [malformed ''payload''] else []))))"

definition validate_evidence_bundle_envelope ::
  "pyval \<Rightarrow> acceptance_contract option \<Rightarrow> change_set option \<Rightarrow> verification_plan option
   \<Rightarrow> evidence_bundle option option \<Rightarrow> pyval \<Rightarrow> string list res" where
  "validate_evidence_bundle_envelope payload contract change_set plan expected_bundle expected_hash =
     eseq (envelope_arguments contract change_set plan expected_bundle expected_hash)
       (Inr (envelope_try payload (the contract) (the change_set) (the plan)
               (case expected_bundle of Some b \<Rightarrow> b | None \<Rightarrow> None) expected_hash))"

text \<open>\<open>ObservationStatus(s)\<close>.\<close>

definition observation_status_of :: "string \<Rightarrow> pyval res" where
  "observation_status_of s = (if List.member [''PASS'', ''FAIL''] s
     then Inr (PEnum ''ObservationStatus'' s) else Inl (ValueErr, ''not a valid ObservationStatus''))"

definition load_observation :: "pyval \<Rightarrow> observation res" where
  "load_observation r = (let d = items r in
     ebind (observation_status_of (str_of (get d ''status''))) (\<lambda>st.
       Observation (get d ''verifier_id'') (get d ''artifact_id'') (get d ''artifact_hash'') st))"

definition load_evidence_bundle_envelope ::
  "pyval \<Rightarrow> acceptance_contract option \<Rightarrow> change_set option \<Rightarrow> verification_plan option
   \<Rightarrow> evidence_bundle option option \<Rightarrow> pyval \<Rightarrow> evidence_bundle option res" where
  "load_evidence_bundle_envelope payload contract change_set plan expected_bundle expected_hash =
     ebind (validate_evidence_bundle_envelope payload contract change_set plan expected_bundle
              expected_hash) (\<lambda>errors.
       if errors \<noteq> [] then Inr None
       else (let d = items payload in
         ebind (emap load_observation (elems (get d ''observations''))) (\<lambda>obs.
         ebind (EvidenceBundle (get d ''bundle_id'') (get d ''acceptance_contract_hash'')
                  (get d ''change_set_hash'') (get d ''verification_plan_hash'')
                  (Some (map Obj obs)) PNone) (\<lambda>b. Inr (Some b)))))"

section \<open>Characterisation of the textual requirements\<close>

lemma require_text_Inr: "require_text v f = Inr u \<longleftrightarrow> (\<exists>s. v = PStr s \<and> normalized s)"
  by (cases v) (auto simp: require_text_def)

lemma require_hash_Inr: "require_hash v f = Inr u \<longleftrightarrow> (\<exists>s. v = PStr s \<and> is_sha256 s)"
  by (auto simp: require_hash_def eseq_Inr_iff guard_Inr_iff require_text_Inr is_sha256_normalized)

lemma strs_of_all: "list_all is_str xs \<Longrightarrow> xs = map PStr (map str_of xs)"
  by (induction xs) (auto simp: is_str_iff)

lemma str_of_comp_PStr [simp]: "str_of \<circ> PStr = id"
  by (auto simp: fun_eq_iff)

lemma require_ids_Inr:
  "require_ids v f = Inr u \<longleftrightarrow>
     (\<exists>ss. v = PTuple (map PStr ss) \<and> (\<forall>s \<in> set ss. normalized s) \<and> distinct ss \<and> ss \<noteq> [])"
proof
  assume a: "require_ids v f = Inr u"
  then obtain xs where v: "v = PTuple xs" and t: "\<forall>x \<in> set xs. \<exists>s. x = PStr s \<and> normalized s"
    and d: "distinct (map str_of xs)" and n: "xs \<noteq> []"
    by (cases v) (auto simp: require_ids_def eseq_Inr_iff guard_Inr_iff efor_Inr_iff require_text_Inr)
  have "xs = map PStr (map str_of xs)"
    using t by (intro strs_of_all) (auto simp: list_all_iff is_str_iff)
  moreover have "\<forall>s \<in> set (map str_of xs). normalized s" using t by fastforce
  ultimately show "\<exists>ss. v = PTuple (map PStr ss) \<and> (\<forall>s \<in> set ss. normalized s) \<and> distinct ss \<and> ss \<noteq> []"
    using v d n by (metis map_is_Nil_conv)
next
  assume "\<exists>ss. v = PTuple (map PStr ss) \<and> (\<forall>s \<in> set ss. normalized s) \<and> distinct ss \<and> ss \<noteq> []"
  then show "require_ids v f = Inr u"
    by (auto simp: require_ids_def eseq_Inr_iff guard_Inr_iff efor_Inr_iff require_text_Inr)
qed

lemma require_paths_Inr:
  "require_paths v f = Inr u \<longleftrightarrow>
     (\<exists>ss. v = PTuple (map PStr ss) \<and> (\<forall>s \<in> set ss. normalized s \<and> relative_path s) \<and>
        distinct ss \<and> ss \<noteq> [])"
  by (auto simp: require_paths_def eseq_Inr_iff guard_Inr_iff efor_Inr_iff require_ids_Inr)

lemma raises_require:
  "\<not> raises (require_text v f) \<longleftrightarrow> (\<exists>s. v = PStr s \<and> normalized s)"
  "\<not> raises (require_hash v f) \<longleftrightarrow> (\<exists>s. v = PStr s \<and> is_sha256 s)"
  "\<not> raises (require_ids v f) \<longleftrightarrow>
     (\<exists>ss. v = PTuple (map PStr ss) \<and> (\<forall>s \<in> set ss. normalized s) \<and> distinct ss \<and> ss \<noteq> [])"
  "\<not> raises (require_paths v f) \<longleftrightarrow>
     (\<exists>ss. v = PTuple (map PStr ss) \<and> (\<forall>s \<in> set ss. normalized s \<and> relative_path s) \<and>
        distinct ss \<and> ss \<noteq> [])"
  by (auto simp: not_raises_iff require_text_Inr require_hash_Inr require_ids_Inr require_paths_Inr)

lemma err_if_Nil [simp]: "err_if b m = [] \<longleftrightarrow> \<not> b"
  by (simp add: err_if_def)

lemma text_err_Nil [simp]: "text_err v p k = [] \<longleftrightarrow> (\<exists>s. v = PStr s \<and> normalized s)"
  by (simp add: text_err_def raises_require)

lemma hash_err_Nil [simp]: "hash_err v p k = [] \<longleftrightarrow> (\<exists>s. v = PStr s \<and> is_sha256 s)"
  by (simp add: hash_err_def raises_require)

lemma deletion_policy_ok_iff:
  "deletion_policy_ok v \<longleftrightarrow> v = PStr ''FORBID'' \<or> v = PStr ''ALLOW''"
  by (auto simp: deletion_policy_ok_def is_str_iff)

section \<open>Validated subjects\<close>

lemma map_Obj_eq [simp]: "map Obj xs = map Obj ys \<longleftrightarrow> xs = ys"
  by (rule inj_map_eq_map) (simp add: inj_on_def)

text \<open>The typed content of a subject the validator accepts.\<close>

lemma contract_errs_Nil:
  "contract_errs c = [] \<longleftrightarrow>
     (\<exists>i h ids paths pol. c = \<lparr>ac_contract_id = PStr i, ac_requirements_hash = PStr h,
        ac_required_verifier_ids = PTuple (map PStr ids), ac_allowed_paths = PTuple (map PStr paths),
        ac_deletion_policy = PStr pol\<rparr> \<and> normalized i \<and> is_sha256 h \<and>
      (\<forall>s \<in> set ids. normalized s) \<and> distinct ids \<and> ids \<noteq> [] \<and>
      (\<forall>s \<in> set paths. normalized s \<and> relative_path s) \<and> distinct paths \<and> paths \<noteq> [] \<and>
      (pol = ''FORBID'' \<or> pol = ''ALLOW''))"
  by (cases c) (auto simp: contract_errs_def raises_require deletion_policy_ok_iff)

lemma change_set_errs_Nil:
  "change_set_errs cs = [] \<longleftrightarrow>
     (\<exists>i a b h paths. cs = \<lparr>cs_change_set_id = PStr i, cs_source_revision = PStr a,
        cs_target_revision = PStr b, cs_diff_hash = PStr h, cs_paths = PTuple (map PStr paths)\<rparr> \<and>
      normalized i \<and> normalized a \<and> normalized b \<and> is_sha256 h \<and>
      (\<forall>s \<in> set paths. normalized s \<and> relative_path s) \<and> distinct paths \<and> paths \<noteq> [])"
  by (cases cs) (auto simp: change_set_errs_def raises_require)

lemma plan_errs_Nil:
  "plan_errs p = [] \<longleftrightarrow>
     (\<exists>i a b ids. p = \<lparr>vp_plan_id = PStr i, vp_acceptance_contract_hash = PStr a,
        vp_change_set_hash = PStr b, vp_required_verifier_ids = PTuple (map PStr ids)\<rparr> \<and>
      normalized i \<and> is_sha256 a \<and> is_sha256 b \<and> (\<forall>s \<in> set ids. normalized s) \<and>
      distinct ids \<and> ids \<noteq> [])"
  by (cases p) (auto simp: plan_errs_def raises_require)

definition wf_observation :: "observation \<Rightarrow> bool" where
  "wf_observation x \<longleftrightarrow> (\<exists>v a h. normalized v \<and> normalized a \<and> is_sha256 h \<and>
     (x = \<lparr>ob_verifier_id = PStr v, ob_artifact_id = PStr a, ob_artifact_hash = PStr h, ob_status = OBS_PASS\<rparr> \<or>
      x = \<lparr>ob_verifier_id = PStr v, ob_artifact_id = PStr a, ob_artifact_hash = PStr h, ob_status = OBS_FAIL\<rparr>))"

lemma observation_errs_Nil: "observation_errs i x = [] \<longleftrightarrow> (\<exists>y. x = Obj y \<and> wf_observation y)"
proof (cases x)
  case (Obj y)
  show ?thesis
    unfolding Obj by (cases y)
      (auto simp: observation_errs_def wf_observation_def is_observation_status_def Let_def)
qed (simp_all add: observation_errs_def Let_def)

lemma observations_errs_Nil:
  "observations_errs i xs = [] \<longleftrightarrow> (\<exists>ys. xs = map Obj ys \<and> (\<forall>y \<in> set ys. wf_observation y))"
proof (induction xs arbitrary: i)
  case (Cons x xs)
  then show ?case
    by (auto simp: observation_errs_Nil map_eq_Cons_conv) (metis list.set_intros(1,2) list.simps(9) set_ConsD)
qed simp

lemma evidence_errs_Nil:
  "evidence_errs e = [] \<longleftrightarrow>
     (\<exists>i a b p obs cl. e = \<lparr>eb_bundle_id = PStr i, eb_acceptance_contract_hash = PStr a,
        eb_change_set_hash = PStr b, eb_verification_plan_hash = PStr p,
        eb_observations = Some (map Obj obs), eb_claimed_bundle_hash = cl\<rparr> \<and>
      normalized i \<and> is_sha256 a \<and> is_sha256 b \<and> is_sha256 p \<and>
      obs \<noteq> [] \<and> (\<forall>x \<in> set obs. wf_observation x) \<and>
      (cl = PNone \<or> (\<exists>h. cl = PStr h \<and> is_sha256 h)))"
proof (cases e)
  case (fields i a b p obs cl)
  then show ?thesis
    by (cases obs) (auto simp: evidence_errs_def observations_errs_Nil split: if_splits)
qed

lemma the_obs_map_Obj [simp]:
  "eb_observations e = Some (map Obj obs) \<Longrightarrow> the_obs e = obs"
proof -
  have "concat (map (\<lambda>x. case x of Obj ob \<Rightarrow> [ob] | _ \<Rightarrow> []) (map Obj ys)) = ys" for ys :: "observation list"
    by (induction ys) auto
  then show "eb_observations e = Some (map Obj obs) \<Longrightarrow> the_obs e = obs"
    by (simp add: the_obs_def)
qed

lemma is_exact_iff: "is_exact x \<longleftrightarrow> (\<exists>a. x = Obj a)"
  by (cases x) (auto simp: is_exact_def)

lemma right_type_simps [simp]: "right_type (Obj a)" "\<not> right_type WrongType" "right_type WrongFields"
  by (simp_all add: right_type_def)

theorem subjects_valid_iff:
  "validate_evidence_subjects c cs p e = [] \<longleftrightarrow>
     (\<exists>c' cs' p' e'. c = Obj c' \<and> cs = Obj cs' \<and> p = Obj p' \<and> e = Obj e' \<and>
        contract_errs c' = [] \<and> change_set_errs cs' = [] \<and> plan_errs p' = [] \<and> evidence_errs e' = [])"
  by (auto simp: validate_evidence_subjects_def fields_err_def obj_errs_def is_exact_iff
      split: if_splits)

section \<open>Constructors and the validator agree\<close>

lemma AcceptanceContract_Inr:
  "AcceptanceContract i h ids paths pol = Inr c \<longleftrightarrow>
     contract_errs c = [] \<and> c = \<lparr>ac_contract_id = i, ac_requirements_hash = h,
       ac_required_verifier_ids = ids, ac_allowed_paths = paths, ac_deletion_policy = pol\<rparr>"
  by (auto simp: AcceptanceContract_def contract_errs_def text_err_def hash_err_def
      eseq_Inr_iff guard_Inr_iff not_raises_iff)

lemma ChangeSet_Inr:
  "ChangeSet i a b h paths = Inr cs \<longleftrightarrow>
     change_set_errs cs = [] \<and> cs = \<lparr>cs_change_set_id = i, cs_source_revision = a,
       cs_target_revision = b, cs_diff_hash = h, cs_paths = paths\<rparr>"
  by (auto simp: ChangeSet_def change_set_errs_def text_err_def hash_err_def
      eseq_Inr_iff guard_Inr_iff not_raises_iff)

lemma VerificationPlan_Inr:
  "VerificationPlan i a b ids = Inr p \<longleftrightarrow>
     plan_errs p = [] \<and> p = \<lparr>vp_plan_id = i, vp_acceptance_contract_hash = a,
       vp_change_set_hash = b, vp_required_verifier_ids = ids\<rparr>"
  by (auto simp: VerificationPlan_def plan_errs_def text_err_def hash_err_def
      eseq_Inr_iff guard_Inr_iff not_raises_iff)

lemma Observation_Inr:
  "Observation v a h st = Inr x \<longleftrightarrow>
     wf_observation x \<and> x = \<lparr>ob_verifier_id = v, ob_artifact_id = a, ob_artifact_hash = h, ob_status = st\<rparr>"
  by (auto simp: Observation_def wf_observation_def eseq_Inr_iff guard_Inr_iff require_text_Inr
      require_hash_Inr is_observation_status_def)

text \<open>The bundle's constructor only checks the class of its observations, so the observations must
  have come from their own constructor.\<close>

lemma EvidenceBundle_Inr:
  assumes "\<forall>x \<in> set obs. wf_observation x"
  shows "EvidenceBundle i a b p (Some (map Obj obs)) cl = Inr e \<longleftrightarrow>
     evidence_errs e = [] \<and> e = \<lparr>eb_bundle_id = i, eb_acceptance_contract_hash = a,
       eb_change_set_hash = b, eb_verification_plan_hash = p,
       eb_observations = Some (map Obj obs), eb_claimed_bundle_hash = cl\<rparr>"
  using assms
  by (auto simp: EvidenceBundle_def evidence_errs_def text_err_def hash_err_def eseq_Inr_iff
      guard_Inr_iff not_raises_iff observations_errs_Nil list_all_iff)

section \<open>Identities of validated subjects\<close>

lemma sorted_tuple_strs [simp]: "sorted_tuple (PTuple (map PStr ss)) = Inr (PTuple (map PStr (sort ss)))"
  by (simp add: sorted_tuple_def list_all_iff)

lemma hash_value_ok: "clean v = Inr w \<Longrightarrow> \<exists>h. hash_value v = Inr h \<and> is_sha256 h"
  using hash_value_total hash_value_is_sha256 by blast

lemma contract_value_wf:
  "contract_errs c = [] \<Longrightarrow> \<exists>i h ids paths pol.
     contract_value c = Inr (PTuple [PStr i, PStr h, PTuple (map PStr (sort ids)),
       PTuple (map PStr (sort paths)), PStr pol]) \<and>
     c = \<lparr>ac_contract_id = PStr i, ac_requirements_hash = PStr h,
        ac_required_verifier_ids = PTuple (map PStr ids), ac_allowed_paths = PTuple (map PStr paths),
        ac_deletion_policy = PStr pol\<rparr>"
  by (auto simp: contract_errs_Nil contract_value_def)

lemma contract_hash_wf: "contract_errs c = [] \<Longrightarrow> \<exists>h. contract_hash c = Inr h \<and> is_sha256 h"
  by (drule contract_value_wf) (auto simp: contract_hash_def intro!: hash_value_ok)

lemma change_set_value_wf:
  "change_set_errs cs = [] \<Longrightarrow> \<exists>i a b h paths.
     change_set_value cs = Inr (PTuple [PStr i, PStr a, PStr b, PStr h, PTuple (map PStr (sort paths))]) \<and>
     cs = \<lparr>cs_change_set_id = PStr i, cs_source_revision = PStr a, cs_target_revision = PStr b,
        cs_diff_hash = PStr h, cs_paths = PTuple (map PStr paths)\<rparr>"
  by (auto simp: change_set_errs_Nil change_set_value_def)

lemma change_set_hash_wf: "change_set_errs cs = [] \<Longrightarrow> \<exists>h. change_set_hash cs = Inr h \<and> is_sha256 h"
  by (drule change_set_value_wf) (auto simp: change_set_hash_def intro!: hash_value_ok)

lemma plan_value_wf:
  "plan_errs p = [] \<Longrightarrow> \<exists>i a b ids.
     plan_value p = Inr (PTuple [PStr i, PStr a, PStr b, PTuple (map PStr (sort ids))]) \<and>
     p = \<lparr>vp_plan_id = PStr i, vp_acceptance_contract_hash = PStr a,
        vp_change_set_hash = PStr b, vp_required_verifier_ids = PTuple (map PStr ids)\<rparr>"
  by (auto simp: plan_errs_Nil plan_value_def)

lemma plan_hash_wf: "plan_errs p = [] \<Longrightarrow> \<exists>h. plan_hash p = Inr h \<and> is_sha256 h"
  by (drule plan_value_wf) (auto simp: plan_hash_def intro!: hash_value_ok)

lemma wf_observation_clean:
  "wf_observation x \<Longrightarrow> clean (PTuple [ob_verifier_id x, ob_artifact_id x, ob_artifact_hash x,
     PStr (str_of (ob_status x))]) = Inr (PList [ob_verifier_id x, ob_artifact_id x,
     ob_artifact_hash x, PStr (str_of (ob_status x))])"
  by (auto simp: wf_observation_def)

lemma set_sorted_obs [simp]: "set (sorted_obs e) = set (the_obs e)"
  by (simp add: sorted_obs_def)

lemma evidence_errs_obs: "evidence_errs e = [] \<Longrightarrow> x \<in> set (the_obs e) \<Longrightarrow> wf_observation x"
  by (auto simp: evidence_errs_Nil)

lemma bundle_hash_wf: "evidence_errs e = [] \<Longrightarrow> \<exists>h. bundle_hash e = Inr h \<and> is_sha256 h"
proof -
  assume e: "evidence_errs e = []"
  have "emap clean (map (\<lambda>x. PTuple [ob_verifier_id x, ob_artifact_id x, ob_artifact_hash x,
      PStr (str_of (ob_status x))]) (sorted_obs e)) = Inr (map (\<lambda>x. PList [ob_verifier_id x,
      ob_artifact_id x, ob_artifact_hash x, PStr (str_of (ob_status x))]) (sorted_obs e))"
    using wf_observation_clean evidence_errs_obs [OF e]
    by (subst emap_total [where g = "\<lambda>v. PList (elems v)"]) auto
  then have "\<exists>w. clean (bundle_core e) = Inr w"
    using e by (auto simp: bundle_core_def evidence_errs_Nil)
  then show ?thesis using hash_value_total hash_value_is_sha256 unfolding bundle_hash_def by blast
qed

text \<open>Integrity derivation never raises, and on validated subjects it is the bundle's own method.\<close>

lemma derive_wf:
  assumes "validate_evidence_subjects (Obj c) (Obj cs) (Obj p) (Obj e) = []"
  obtains ch csh ph eh where "contract_hash c = Inr ch" "change_set_hash cs = Inr csh"
    "plan_hash p = Inr ph" "bundle_hash e = Inr eh"
    "derive_evidence_integrity (Obj c) (Obj cs) (Obj p) (Obj e) = Inr (integrity_ladder p e ch csh ph eh)"
proof -
  have "contract_errs c = []" "change_set_errs cs = []" "plan_errs p = []" "evidence_errs e = []"
    using assms by (auto simp: subjects_valid_iff)
  then obtain ch csh ph eh where "contract_hash c = Inr ch" "change_set_hash cs = Inr csh"
    "plan_hash p = Inr ph" "bundle_hash e = Inr eh"
    using contract_hash_wf change_set_hash_wf plan_hash_wf bundle_hash_wf by metis
  then show ?thesis using that assms by (simp add: derive_evidence_integrity_def)
qed

lemma derive_invalid:
  "validate_evidence_subjects c cs p e \<noteq> [] \<Longrightarrow> derive_evidence_integrity c cs p e = Inr MALFORMED"
  by (simp add: derive_evidence_integrity_def)

lemma derive_total: "\<exists>st. derive_evidence_integrity c cs p e = Inr st"
proof (cases "validate_evidence_subjects c cs p e = []")
  case True
  then obtain c' cs' p' e' where "c = Obj c'" "cs = Obj cs'" "p = Obj p'" "e = Obj e'"
    by (auto simp: subjects_valid_iff)
  then show ?thesis using True derive_wf by metis
qed (simp add: derive_invalid)

section \<open>What an identity determines\<close>

lemma sort_eq_iff_set:
  "distinct xs \<Longrightarrow> distinct ys \<Longrightarrow> sort xs = sort ys \<longleftrightarrow> set xs = set (ys :: string list)"
  by (metis distinct_remdups_id set_sort sorted_set_cong sorted_set_def)

text \<open>Two hashes over values with the same cleaned form agree; equal hashes give the same cleaned
  form or an explicit collision of the hash function.\<close>

lemma hash_value_eq_iff:
  assumes "clean v = Inr v'" "clean w = Inr w'"
  shows "hash_value v = hash_value w \<longleftrightarrow> v' = w' \<or> collides v w"
proof -
  obtain s t where st: "canonical_json v = Inr s" "canonical_json w = Inr t"
    using assms canonical_json_total by metis
  have "hash_value v = hash_value w" if "v' = w'"
    using that assms by (simp add: hash_value_def canonical_json_def)
  moreover have "hash_value v = hash_value w" if "collides v w"
    using that st by (auto simp: collides_def hash_value_def sha_text_eq_iff)
  moreover have "v' = w' \<or> collides v w" if "hash_value v = hash_value w"
    using that st hash_value_binds [of v _ w] assms by (auto simp: hash_value_def)
  ultimately show ?thesis by blast
qed

definition same_contract :: "acceptance_contract \<Rightarrow> acceptance_contract \<Rightarrow> bool" where
  "same_contract c d \<longleftrightarrow> ac_contract_id c = ac_contract_id d \<and>
     ac_requirements_hash c = ac_requirements_hash d \<and>
     set (elems (ac_required_verifier_ids c)) = set (elems (ac_required_verifier_ids d)) \<and>
     set (elems (ac_allowed_paths c)) = set (elems (ac_allowed_paths d)) \<and>
     ac_deletion_policy c = ac_deletion_policy d"

definition same_change_set :: "change_set \<Rightarrow> change_set \<Rightarrow> bool" where
  "same_change_set c d \<longleftrightarrow> cs_change_set_id c = cs_change_set_id d \<and>
     cs_source_revision c = cs_source_revision d \<and> cs_target_revision c = cs_target_revision d \<and>
     cs_diff_hash c = cs_diff_hash d \<and> set (elems (cs_paths c)) = set (elems (cs_paths d))"

definition same_plan :: "verification_plan \<Rightarrow> verification_plan \<Rightarrow> bool" where
  "same_plan c d \<longleftrightarrow> vp_plan_id c = vp_plan_id d \<and>
     vp_acceptance_contract_hash c = vp_acceptance_contract_hash d \<and>
     vp_change_set_hash c = vp_change_set_hash d \<and>
     set (elems (vp_required_verifier_ids c)) = set (elems (vp_required_verifier_ids d))"

text \<open>Two computations of a value that collide under the hash.\<close>

definition values_collide :: "pyval res \<Rightarrow> pyval res \<Rightarrow> bool" where
  "values_collide r s \<longleftrightarrow> (\<exists>v w. r = Inr v \<and> s = Inr w \<and> collides v w)"

lemma PStr_image_eq [simp]: "PStr ` A = PStr ` B \<longleftrightarrow> A = B"
  by (rule inj_image_eq_iff) (simp add: inj_on_def)

lemma contract_hash_eq_iff:
  assumes "contract_errs c = []" "contract_errs d = []"
  shows "contract_hash c = contract_hash d \<longleftrightarrow>
    same_contract c d \<or> values_collide (contract_value c) (contract_value d)"
  using assms
  by (auto simp: contract_errs_Nil contract_hash_def contract_value_def hash_value_eq_iff
      same_contract_def values_collide_def sort_eq_iff_set)

lemma change_set_hash_eq_iff:
  assumes "change_set_errs c = []" "change_set_errs d = []"
  shows "change_set_hash c = change_set_hash d \<longleftrightarrow>
    same_change_set c d \<or> values_collide (change_set_value c) (change_set_value d)"
  using assms
  by (auto simp: change_set_errs_Nil change_set_hash_def change_set_value_def hash_value_eq_iff
      same_change_set_def values_collide_def sort_eq_iff_set)

lemma plan_hash_eq_iff:
  assumes "plan_errs c = []" "plan_errs d = []"
  shows "plan_hash c = plan_hash d \<longleftrightarrow>
    same_plan c d \<or> values_collide (plan_value c) (plan_value d)"
  using assms
  by (auto simp: plan_errs_Nil plan_hash_def plan_value_def hash_value_eq_iff
      same_plan_def values_collide_def sort_eq_iff_set)

section \<open>Integrity of validated evidence\<close>

text \<open>The typed reading of \<open>VALID\<close>: every stored link is the identity of the subject it names.\<close>

definition linked :: "pyval \<Rightarrow> string res \<Rightarrow> bool" where
  "linked v r \<longleftrightarrow> (\<exists>h. r = Inr h \<and> v = PStr h)"

lemma ladder_VALID_iff:
  assumes "evidence_errs e = []" "plan_errs p = []"
  shows "integrity_ladder p e ch csh ph eh = VALID \<longleftrightarrow>
     (eb_claimed_bundle_hash e = PNone \<or> eb_claimed_bundle_hash e = PStr eh) \<and>
     eb_acceptance_contract_hash e = PStr ch \<and> eb_change_set_hash e = PStr csh \<and>
     eb_verification_plan_hash e = PStr ph \<and> vp_acceptance_contract_hash p = PStr ch \<and>
     vp_change_set_hash p = PStr csh \<and> \<not> has_duplicates (the_obs e)"
proof -
  obtain a b q where "eb_acceptance_contract_hash e = PStr a" "eb_change_set_hash e = PStr b"
    "eb_verification_plan_hash e = PStr q"
    using assms(1) by (auto simp: evidence_errs_Nil)
  moreover have "eb_claimed_bundle_hash e = PNone \<or> (\<exists>h. eb_claimed_bundle_hash e = PStr h)"
    using assms(1) by (auto simp: evidence_errs_Nil)
  moreover obtain a' b' where "vp_acceptance_contract_hash p = PStr a'" "vp_change_set_hash p = PStr b'"
    using assms(2) by (auto simp: plan_errs_Nil)
  ultimately show ?thesis
    by (elim disjE exE) (simp_all add: integrity_ladder_def claim_differs_def, blast+)
qed

lemma derive_VALID_iff:
  "derive_evidence_integrity (Obj c) (Obj cs) (Obj p) (Obj e) = Inr VALID \<longleftrightarrow>
     contract_errs c = [] \<and> change_set_errs cs = [] \<and> plan_errs p = [] \<and> evidence_errs e = [] \<and>
     (eb_claimed_bundle_hash e = PNone \<or> linked (eb_claimed_bundle_hash e) (bundle_hash e)) \<and>
     linked (eb_acceptance_contract_hash e) (contract_hash c) \<and>
     linked (eb_change_set_hash e) (change_set_hash cs) \<and>
     linked (eb_verification_plan_hash e) (plan_hash p) \<and>
     linked (vp_acceptance_contract_hash p) (contract_hash c) \<and>
     linked (vp_change_set_hash p) (change_set_hash cs) \<and> \<not> has_duplicates (the_obs e)"
proof (cases "validate_evidence_subjects (Obj c) (Obj cs) (Obj p) (Obj e) = []")
  case True
  then have errs: "contract_errs c = []" "change_set_errs cs = []" "plan_errs p = []" "evidence_errs e = []"
    by (auto simp: subjects_valid_iff)
  from True show ?thesis
    by (rule derive_wf) (auto simp: errs ladder_VALID_iff linked_def)
next
  case False
  then show ?thesis by (auto simp: derive_invalid subjects_valid_iff)
qed

lemma derive_VALID_Obj:
  "derive_evidence_integrity c cs p e = Inr VALID \<Longrightarrow>
     \<exists>c' cs' p' e'. c = Obj c' \<and> cs = Obj cs' \<and> p = Obj p' \<and> e = Obj e'"
  by (cases "validate_evidence_subjects c cs p e = []") (auto simp: subjects_valid_iff derive_invalid)

lemma linked_eq: "linked v r \<Longrightarrow> linked v s \<Longrightarrow> r = s"
  by (auto simp: linked_def)

section \<open>A sample certification subject\<close>

text \<open>Concrete subjects the witnesses use: a contract, a change set, a plan and an evidence bundle
  that name each other by their identities.\<close>

definition sample_sha :: string where
  "sample_sha = ''sha256:'' @ replicate 64 (CHR ''0'')"

definition sample_contract_of :: "string list \<Rightarrow> acceptance_contract" where
  "sample_contract_of ids = \<lparr>ac_contract_id = PStr ''contract'', ac_requirements_hash = PStr sample_sha,
     ac_required_verifier_ids = PTuple (map PStr ids),
     ac_allowed_paths = PTuple (map PStr [''src/a.py'', ''src/b.py'']), ac_deletion_policy = PStr ''FORBID''\<rparr>"

definition sample_change_set :: change_set where
  "sample_change_set = \<lparr>cs_change_set_id = PStr ''change'', cs_source_revision = PStr ''rev1'',
     cs_target_revision = PStr ''rev2'', cs_diff_hash = PStr sample_sha,
     cs_paths = PTuple (map PStr [''src/a.py''])\<rparr>"

definition sample_plan_of :: "string list \<Rightarrow> verification_plan" where
  "sample_plan_of ids = \<lparr>vp_plan_id = PStr ''plan'',
     vp_acceptance_contract_hash = PStr (projr (contract_hash (sample_contract_of ids))),
     vp_change_set_hash = PStr (projr (change_set_hash sample_change_set)),
     vp_required_verifier_ids = PTuple (map PStr ids)\<rparr>"

definition sample_obs :: "string \<Rightarrow> string \<Rightarrow> pyval \<Rightarrow> observation" where
  "sample_obs v a st = \<lparr>ob_verifier_id = PStr v, ob_artifact_id = PStr a,
     ob_artifact_hash = PStr sample_sha, ob_status = st\<rparr>"

definition sample_evidence_of :: "string list \<Rightarrow> observation list \<Rightarrow> evidence_bundle" where
  "sample_evidence_of ids obs = \<lparr>eb_bundle_id = PStr ''bundle'',
     eb_acceptance_contract_hash = PStr (projr (contract_hash (sample_contract_of ids))),
     eb_change_set_hash = PStr (projr (change_set_hash sample_change_set)),
     eb_verification_plan_hash = PStr (projr (plan_hash (sample_plan_of ids))),
     eb_observations = Some (map Obj obs), eb_claimed_bundle_hash = PNone\<rparr>"

definition sample_ids :: "string list" where
  "sample_ids = [''unit'', ''lint'']"

abbreviation sample_contract :: acceptance_contract where
  "sample_contract \<equiv> sample_contract_of sample_ids"

abbreviation sample_plan :: verification_plan where
  "sample_plan \<equiv> sample_plan_of sample_ids"

definition sample_evidence :: evidence_bundle where
  "sample_evidence = sample_evidence_of sample_ids
     [sample_obs ''unit'' ''log1'' OBS_PASS, sample_obs ''lint'' ''log2'' OBS_PASS]"

definition ids_ok :: "string list \<Rightarrow> bool" where
  "ids_ok ids \<longleftrightarrow> ids \<noteq> [] \<and> distinct ids \<and> list_all normalized ids"

lemma sample_sha_ok [simp]: "is_sha256 sample_sha"
  unfolding sample_sha_def by (rule is_sha256I) (simp_all add: is_hex_def hex_lower_def)

lemma ids_ok_require: "ids_ok ids \<Longrightarrow> raises (require_ids (PTuple (map PStr ids)) f) = False"
  by (simp add: ids_ok_def raises_require list_all_iff)

lemma sample_ids_ok [simp]: "ids_ok sample_ids"
  by (simp add: ids_ok_def sample_ids_def normalized_def strip_def is_space_def nul_def)

lemma sample_contract_ok: "ids_ok ids \<Longrightarrow> contract_errs (sample_contract_of ids) = []"
proof -
  assume ids: "ids_ok ids"
  have "raises (require_paths (ac_allowed_paths (sample_contract_of ids)) f) = False" for f
    by (simp add: sample_contract_of_def require_paths_def require_ids_def require_text_def
        normalized_def strip_def is_space_def nul_def relative_path_def)
  moreover have "raises (require_ids (ac_required_verifier_ids (sample_contract_of ids)) f) = False" for f
    using ids_ok_require [OF ids] by (simp add: sample_contract_of_def)
  ultimately show ?thesis
    by (simp add: contract_errs_def)
      (simp add: sample_contract_of_def deletion_policy_ok_def normalized_def strip_def is_space_def nul_def)
qed

lemma sample_change_set_ok [simp]: "change_set_errs sample_change_set = []"
proof -
  have "raises (require_paths (cs_paths sample_change_set) f) = False" for f
    by (simp add: sample_change_set_def require_paths_def require_ids_def require_text_def
        normalized_def strip_def is_space_def nul_def relative_path_def)
  then show ?thesis
    by (simp add: change_set_errs_def sample_change_set_def)
      (simp add: normalized_def strip_def is_space_def nul_def)
qed

lemma sample_contract_hash:
  assumes "ids_ok ids"
  shows "contract_hash (sample_contract_of ids) = Inr (projr (contract_hash (sample_contract_of ids)))"
    "is_sha256 (projr (contract_hash (sample_contract_of ids)))"
  using contract_hash_wf [OF sample_contract_ok [OF assms]] by auto

lemma sample_change_set_hash:
  "change_set_hash sample_change_set = Inr (projr (change_set_hash sample_change_set))"
  "is_sha256 (projr (change_set_hash sample_change_set))"
  using change_set_hash_wf [OF sample_change_set_ok] by auto

lemma sample_plan_ok: "ids_ok ids \<Longrightarrow> plan_errs (sample_plan_of ids) = []"
proof -
  assume ids: "ids_ok ids"
  have "raises (require_ids (vp_required_verifier_ids (sample_plan_of ids)) f) = False" for f
    using ids_ok_require [OF ids] by (simp add: sample_plan_of_def)
  moreover have "normalized ''plan''" by (simp add: normalized_def strip_def is_space_def nul_def)
  ultimately show ?thesis
    using sample_contract_hash(2) [OF ids] sample_change_set_hash(2)
    by (simp add: plan_errs_def) (simp add: sample_plan_of_def)
qed

lemma sample_plan_hash:
  assumes "ids_ok ids"
  shows "plan_hash (sample_plan_of ids) = Inr (projr (plan_hash (sample_plan_of ids)))"
    "is_sha256 (projr (plan_hash (sample_plan_of ids)))"
  using plan_hash_wf [OF sample_plan_ok [OF assms]] by auto

lemma sample_evidence_of_ok:
  assumes "ids_ok ids" "obs \<noteq> []" "\<forall>x \<in> set obs. wf_observation x"
  shows "evidence_errs (sample_evidence_of ids obs) = []"
proof -
  have "normalized ''bundle''" by (simp add: normalized_def strip_def is_space_def nul_def)
  then show ?thesis
    using assms(2,3) sample_contract_hash(2) [OF assms(1)] sample_change_set_hash(2) sample_plan_hash(2) [OF assms(1)]
    by (simp add: sample_evidence_of_def evidence_errs_def observations_errs_Nil)
qed

lemma the_obs_sample [simp]: "the_obs (sample_evidence_of ids obs) = obs"
  by (rule the_obs_map_Obj) (simp add: sample_evidence_of_def)

lemma sample_evidence_of_valid:
  assumes "ids_ok ids" "obs \<noteq> []" "\<forall>x \<in> set obs. wf_observation x" "\<not> has_duplicates obs"
  shows "derive_evidence_integrity (Obj (sample_contract_of ids)) (Obj sample_change_set) (Obj (sample_plan_of ids))
    (Obj (sample_evidence_of ids obs)) = Inr VALID"
  unfolding derive_VALID_iff the_obs_sample
  using sample_contract_ok [OF assms(1)] sample_plan_ok [OF assms(1)] sample_evidence_of_ok [OF assms(1-3)]
    assms(4) sample_contract_hash(1) [OF assms(1)] sample_change_set_hash(1) sample_plan_hash(1) [OF assms(1)]
  by (simp add: linked_def) (simp add: sample_evidence_of_def sample_plan_of_def)

lemma sample_obs_wf:
  "normalized v \<Longrightarrow> normalized a \<Longrightarrow> st = OBS_PASS \<or> st = OBS_FAIL \<Longrightarrow> wf_observation (sample_obs v a st)"
  by (auto simp: wf_observation_def sample_obs_def)

lemma sample_evidence_valid:
  "derive_evidence_integrity (Obj sample_contract) (Obj sample_change_set) (Obj sample_plan)
    (Obj sample_evidence) = Inr VALID"
  unfolding sample_evidence_def
proof (rule sample_evidence_of_valid)
  show "\<forall>x \<in> set [sample_obs ''unit'' ''log1'' OBS_PASS, sample_obs ''lint'' ''log2'' OBS_PASS]. wf_observation x"
    by (auto intro!: sample_obs_wf simp: normalized_def strip_def is_space_def nul_def)
qed (simp_all add: has_duplicates_def sample_obs_def)

end
