(* ===== verification/Evidence_Envelope.thy ===== *)
theory Evidence_Envelope
  imports Evidence "HOL-Library.Multiset"
begin

text \<open>
  Theorems about the serialised evidence envelope of \<open>product/evidence/__init__.py\<close>: what
  \<open>validate_evidence_bundle_envelope\<close> accepts, that an accepted payload loads to a bundle whose
  derived integrity is \<open>VALID\<close>, and that a bundle's own serialisation is accepted and loads back.
\<close>

section \<open>Accumulating validators\<close>

abbreviation clear :: acc where "clear \<equiv> ([], False)"

text \<open>A step accepts when it leaves the empty error list empty and does not raise.\<close>

definition accepts :: "(string list \<Rightarrow> acc) \<Rightarrow> bool \<Rightarrow> bool" where
  "accepts f C \<longleftrightarrow> (\<forall>errs. f errs = clear \<longleftrightarrow> errs = [] \<and> C)"

lemma acceptsD: "accepts f C \<Longrightarrow> f errs = clear \<longleftrightarrow> errs = [] \<and> C"
  by (simp add: accepts_def)

lemma andthen_clear: "accepts f C \<Longrightarrow> andthen a f = clear \<longleftrightarrow> a = clear \<and> C"
  by (cases a) (auto simp: andthen_def dest: acceptsD)

lemma accepts_andthen:
  "accepts f C \<Longrightarrow> accepts g D \<Longrightarrow> accepts (\<lambda>errs. andthen (f errs) g) (C \<and> D)"
  by (simp add: accepts_def andthen_clear [of g D])

lemma accepts_add_if: "accepts (add_if b m) (\<not> b)"
  by (auto simp: accepts_def add_if_def)

lemma accepts_require: "accepts (require_step r) (\<not> raises r)"
  by (auto simp: accepts_def require_step_def)

lemma accepts_start: "accepts (\<lambda>errs. (errs, False)) True"
  by (simp add: accepts_def)

lemma accepts_cong: "accepts f C \<Longrightarrow> C \<longleftrightarrow> D \<Longrightarrow> accepts f D"
  by simp

lemma accepts_steps:
  assumes "\<And>x. x \<in> set xs \<Longrightarrow> accepts (f x) (C x)"
  shows "accepts (steps f xs) (\<forall>x \<in> set xs. C x)"
  using assms
proof (induction xs rule: rev_induct)
  case (snoc x xs)
  have "steps f (xs @ [x]) = (\<lambda>errs. andthen (steps f xs errs) (f x))"
    by (simp add: fun_eq_iff steps_def)
  moreover have "accepts (steps f xs) (\<forall>x \<in> set xs. C x)" "accepts (f x) (C x)"
    using snoc by simp_all
  ultimately have "accepts (steps f (xs @ [x])) ((\<forall>x \<in> set xs. C x) \<and> C x)"
    by (simp add: accepts_andthen)
  then show ?case by (rule accepts_cong) auto
qed (simp add: steps_def accepts_def)

section \<open>What the envelope validator accepts\<close>

definition hash_fields :: "string list" where
  "hash_fields = [''acceptance_contract_hash'', ''change_set_hash'', ''verification_plan_hash'', ''bundle_hash'']"

definition fields_ok :: "pydict \<Rightarrow> bool" where
  "fields_ok d \<longleftrightarrow> keys_are d envelope_keys \<and>
     py_eq (get d ''evidence_bundle_schema'') (PStr EVIDENCE_BUNDLE_SCHEMA) \<and>
     (\<exists>s. get d ''bundle_id'' = PStr s \<and> normalized s) \<and>
     (\<forall>k \<in> set hash_fields. \<exists>s. get d k = PStr s \<and> is_sha256 s)"

lemma has_key_get: "get d k = PStr s \<Longrightarrow> has_key d k"
  by (auto simp: get_def has_key_def split: option.splits)

lemma accepts_fields: "accepts (envelope_fields d) (fields_ok d)"
proof -
  have "accepts (envelope_fields d)
     (((((True \<and> \<not> \<not> keys_are d envelope_keys) \<and>
       \<not> \<not> py_eq (get d ''evidence_bundle_schema'') (PStr EVIDENCE_BUNDLE_SCHEMA)) \<and>
       (\<forall>k \<in> set (''bundle_id'' # hash_fields). \<not> (\<not> has_key d k \<or> \<not> isinstance_str (get d k)))) \<and>
       \<not> raises (if isinstance_str (get d ''bundle_id'') then require_text (get d ''bundle_id'') ''bundle_id'' else Inr ())) \<and>
       (\<forall>k \<in> set hash_fields. \<not> raises (if isinstance_str (get d k) then require_hash (get d k) k else Inr ())))"
    unfolding envelope_fields_def hash_fields_def
    by (intro accepts_andthen accepts_steps accepts_add_if accepts_require accepts_start)
  then show ?thesis
    by (rule accepts_cong) (auto simp: fields_ok_def raises_require hash_fields_def dest: has_key_get)
qed

text \<open>A row of an accepted envelope.\<close>

definition row_ok :: "pyval \<Rightarrow> bool" where
  "row_ok x \<longleftrightarrow> is_dict x \<and> keys_are (items x) row_keys \<and>
     (\<exists>v. get (items x) ''verifier_id'' = PStr v \<and> normalized v) \<and>
     (\<exists>a. get (items x) ''artifact_id'' = PStr a \<and> normalized a) \<and>
     (\<exists>h. get (items x) ''artifact_hash'' = PStr h \<and> is_sha256 h) \<and>
     isinstance_str (get (items x) ''status'') \<and> str_of (get (items x) ''status'') \<in> {''PASS'', ''FAIL''}"

definition row_of :: "pyval \<Rightarrow> obs_row" where
  "row_of x = (let f = (\<lambda>k. str_of (get (items x) k)) in
     (f ''verifier_id'', f ''artifact_id'', f ''artifact_hash'', f ''status''))"

lemma envelope_row_Nil: "fst (envelope_row i x) = [] \<longleftrightarrow> row_ok x"
  by (auto simp: envelope_row_def row_ok_def Let_def raises_require row_keys_def)

lemma envelope_row_row: "row_ok x \<Longrightarrow> snd (envelope_row i x) = Some (row_of x)"
  by (auto simp: envelope_row_def row_ok_def Let_def row_keys_def row_of_def)

lemma envelope_rows_ok:
  "fst (envelope_rows i xs) = [] \<longleftrightarrow> (\<forall>x \<in> set xs. row_ok x)"
  by (induction xs arbitrary: i) (simp_all add: envelope_row_Nil split_beta)

lemma envelope_rows_rows:
  "\<forall>x \<in> set xs. row_ok x \<Longrightarrow> snd (envelope_rows i xs) = map row_of xs"
proof (induction xs arbitrary: i)
  case (Cons x xs)
  then have "snd (envelope_row i x) = Some (row_of x)" by (simp add: envelope_row_row)
  then show ?case using Cons by (cases "envelope_row i x") (simp add: split_beta)
qed simp

definition observations_ok :: "pydict \<Rightarrow> bool" where
  "observations_ok d \<longleftrightarrow> (\<exists>xs. get d ''observations'' = PList xs \<and> xs \<noteq> [] \<and> (\<forall>x \<in> set xs. row_ok x) \<and>
     distinct (map (\<lambda>x. fst (row_of x)) xs) \<and> distinct (map (\<lambda>x. fst (snd (row_of x))) xs) \<and>
     sorted (map (row_key \<circ> row_of) xs)) \<and>
     (\<exists>h. hash_value (envelope_body d) = Inr h \<and> py_eq (get d ''bundle_hash'') (PStr h))"

lemma sort_key_id_iff: "rows = sort_key f rows \<longleftrightarrow> sorted (map f rows)"
  by (metis sorted_sort_key sort_key_id_if_sorted)

lemma accepts_observations: "accepts (envelope_observations d) (observations_ok d)"
  unfolding accepts_def
proof
  fix errs
  show "envelope_observations d errs = clear \<longleftrightarrow> errs = [] \<and> observations_ok d"
  proof (cases "get d ''observations''")
    case (PList xs)
    show ?thesis
    proof (cases "\<forall>x \<in> set xs. row_ok x")
      case True
      then have r: "envelope_rows 0 xs = ([], map row_of xs)"
        using envelope_rows_ok [of 0 xs] envelope_rows_rows [of xs 0] by (simp add: prod_eq_iff)
      show ?thesis
        using True
        by (auto simp: envelope_observations_def PList r observations_ok_def add_if_def o_def
            sort_key_id_iff Let_def split: sum.splits if_splits)
    next
      case False
      then have "fst (envelope_rows 0 xs) \<noteq> []" by (simp add: envelope_rows_ok)
      then show ?thesis using False
        by (auto simp: envelope_observations_def PList observations_ok_def split: prod.splits if_splits)
    qed
  qed (auto simp: envelope_observations_def observations_ok_def type_test_defs)
qed

definition bindings_ok :: "pydict \<Rightarrow> acceptance_contract \<Rightarrow> change_set \<Rightarrow> verification_plan \<Rightarrow> bool" where
  "bindings_ok d c cs p \<longleftrightarrow> (\<exists>ch csh ph. contract_hash c = Inr ch \<and> change_set_hash cs = Inr csh \<and>
     plan_hash p = Inr ph \<and> py_eq (get d ''acceptance_contract_hash'') (PStr ch) \<and>
     py_eq (get d ''change_set_hash'') (PStr csh) \<and> py_eq (get d ''verification_plan_hash'') (PStr ph) \<and>
     py_eq (vp_acceptance_contract_hash p) (PStr ch) \<and> py_eq (vp_change_set_hash p) (PStr csh))"

lemma accepts_bindings: "accepts (envelope_bindings d c cs p) (bindings_ok d c cs p)"
  unfolding accepts_def
  by (auto simp: envelope_bindings_def bindings_ok_def andthen_def add_if_def split: sum.splits)

definition expected_ok :: "pyval \<Rightarrow> evidence_bundle option \<Rightarrow> pyval \<Rightarrow> bool" where
  "expected_ok payload eb eh \<longleftrightarrow> (case eb of
     Some b \<Rightarrow> (\<exists>v. bundle_to_dict b = Inr v \<and> py_eq payload v)
   | None \<Rightarrow> py_eq (get (items payload) ''bundle_hash'') eh)"

lemma accepts_expected: "accepts (envelope_expected payload eb eh) (expected_ok payload eb eh)"
  unfolding accepts_def
  by (auto simp: envelope_expected_def expected_ok_def add_if_def split: sum.splits option.splits)

lemma envelope_try_Nil:
  "envelope_try payload c cs p eb eh = [] \<longleftrightarrow>
     is_dict payload \<and> fields_ok (items payload) \<and> observations_ok (items payload) \<and>
     bindings_ok (items payload) c cs p \<and> expected_ok payload eb eh"
proof -
  let ?d = "items payload"
  let ?a = "andthen (andthen (andthen (envelope_fields ?d []) (envelope_observations ?d))
                      (envelope_bindings ?d c cs p)) (envelope_expected payload eb eh)"
  have "?a = clear \<longleftrightarrow> fields_ok ?d \<and> observations_ok ?d \<and> bindings_ok ?d c cs p \<and> expected_ok payload eb eh"
    by (simp add: andthen_clear [OF accepts_expected] andthen_clear [OF accepts_bindings]
        andthen_clear [OF accepts_observations] acceptsD [OF accepts_fields])
  then show ?thesis by (cases ?a) (auto simp: envelope_try_def Let_def)
qed

lemma validate_envelope_Nil:
  "validate_evidence_bundle_envelope payload (Some c) (Some cs) (Some p) eb eh = Inr [] \<longleftrightarrow>
     envelope_arguments (Some c) (Some cs) (Some p) eb eh = Inr () \<and>
     envelope_try payload c cs p (case eb of Some b \<Rightarrow> b | None \<Rightarrow> None) eh = []"
  by (simp add: validate_evidence_bundle_envelope_def eseq_Inr_iff)

section \<open>Cleaning depends on the fields of a dictionary, not on their order\<close>

lemma key_is_str: "key_is k v \<Longrightarrow> isinstance_str v \<and> str_of v = k"
  by (cases v) (auto simp: key_is_def)

lemma dget_some_get: "has_key d k \<Longrightarrow> dget d k = Some (get d k)"
  by (auto simp: has_key_def get_def)

lemma keys_are_set: "keys_are d ks \<Longrightarrow> set (map (\<lambda>p. str_of (fst p)) d) = set ks"
  by (force simp: keys_are_def list_all_iff list_ex_iff has_key_def dest: dget_in_set key_is_str)

lemma clean_by_keys:
  assumes "keys_are d ks"
  shows "clean (PDict d) =
    ebind (emap (\<lambda>k. ebind (clean (get d k)) (\<lambda>w. Inr (PStr k, w))) (sorted_set ks)) (\<lambda>e. Inr (PDict e))"
proof -
  have "\<not> list_ex (\<lambda>p. \<not> isinstance_str (fst p)) d"
    using assms by (fastforce simp: keys_are_def list_all_iff list_ex_iff dest: key_is_str)
  moreover have "sorted_set (map (\<lambda>p. str_of (fst p)) d) = sorted_set ks"
    using keys_are_set [OF assms] by (rule sorted_set_cong)
  moreover have "\<forall>k \<in> set ks. dget d k = Some (get d k)"
    using assms by (auto simp: keys_are_def list_all_iff dget_some_get)
  then have "emap (\<lambda>k. ebind (case dget d k of None \<Rightarrow> Inl (KeyErr, k) | Some v \<Rightarrow> clean v)
       (\<lambda>w. Inr (PStr k, w))) (sorted_set ks)
     = emap (\<lambda>k. ebind (clean (get d k)) (\<lambda>w. Inr (PStr k, w))) (sorted_set ks)"
    by (intro emap_cong) auto
  ultimately show ?thesis by simp
qed

lemma clean_dict_cong:
  assumes "keys_are d ks" "keys_are e ks" "\<And>k. k \<in> set ks \<Longrightarrow> clean (get d k) = clean (get e k)"
  shows "clean (PDict d) = clean (PDict e)"
proof -
  have "emap (\<lambda>k. ebind (clean (get d k)) (\<lambda>w. Inr (PStr k, w))) (sorted_set ks)
      = emap (\<lambda>k. ebind (clean (get e k)) (\<lambda>w. Inr (PStr k, w))) (sorted_set ks)"
    using assms(3) by (intro emap_cong) auto
  then show ?thesis by (simp only: clean_by_keys [OF assms(1)] clean_by_keys [OF assms(2)])
qed

lemma emap_Inr_each: "emap f xs = Inr ys \<Longrightarrow> x \<in> set xs \<Longrightarrow> \<exists>y. f x = Inr y"
  by (induction xs arbitrary: ys) (auto simp: ebind_Inr_iff)

lemma clean_dict_field:
  assumes "clean (PDict d) = Inr w" "keys_are d ks" "k \<in> set ks"
  shows "\<exists>u. clean (get d k) = Inr u"
proof -
  obtain e where "emap (\<lambda>k. ebind (clean (get d k)) (\<lambda>w. Inr (PStr k, w))) (sorted_set ks) = Inr e"
    using assms(1) by (auto simp: clean_by_keys [OF assms(2)] ebind_Inr_iff simp del: clean.simps)
  then show ?thesis using emap_Inr_each assms(3) by (fastforce simp: ebind_Inr_iff)
qed

lemma clean_str: "clean v = Inr u \<Longrightarrow> isinstance_str v \<Longrightarrow> v = PStr (str_of v)"
  by (cases v) (auto simp: isinstance_str_def unsupported_def)

lemma hash_value_cong: "clean v = clean w \<Longrightarrow> hash_value v = hash_value w"
  by (simp add: hash_value_def canonical_json_def)

lemma keys_are_mkdict [simp]: "keys_are (items (mkdict kvs)) (map fst kvs)"
proof -
  have "has_key (items (mkdict kvs)) k" if "k \<in> set (map fst kvs)" for k
    using that unfolding has_key_def items_mkdict dget_mkdict by (simp add: map_of_eq_None_iff)
  moreover have "\<exists>k \<in> set (map fst kvs). key_is k (fst p)" if "p \<in> set (items (mkdict kvs))" for p
    using that by (force simp: split_beta)
  ultimately show ?thesis unfolding keys_are_def list_all_iff list_ex_iff by blast
qed

section \<open>Loading an accepted envelope\<close>

definition row_observation :: "pyval \<Rightarrow> observation" where
  "row_observation x = \<lparr>ob_verifier_id = get (items x) ''verifier_id'',
     ob_artifact_id = get (items x) ''artifact_id'', ob_artifact_hash = get (items x) ''artifact_hash'',
     ob_status = PEnum ''ObservationStatus'' (str_of (get (items x) ''status''))\<rparr>"

definition envelope_bundle :: "pydict \<Rightarrow> evidence_bundle" where
  "envelope_bundle d = \<lparr>eb_bundle_id = get d ''bundle_id'',
     eb_acceptance_contract_hash = get d ''acceptance_contract_hash'',
     eb_change_set_hash = get d ''change_set_hash'',
     eb_verification_plan_hash = get d ''verification_plan_hash'',
     eb_observations = Some (map Obj (map row_observation (elems (get d ''observations'')))),
     eb_claimed_bundle_hash = PNone\<rparr>"

lemma row_observation_wf: "row_ok x \<Longrightarrow> wf_observation (row_observation x)"
  by (auto simp: row_ok_def row_observation_def wf_observation_def)

lemma load_observation_ok: "row_ok x \<Longrightarrow> load_observation x = Inr (row_observation x)"
  by (auto simp: load_observation_def row_observation_def row_ok_def observation_status_of_def
      Observation_Inr wf_observation_def Let_def)

lemma envelope_bundle_wf:
  assumes "fields_ok d" "observations_ok d"
  shows "evidence_errs (envelope_bundle d) = []"
proof -
  obtain xs where xs: "get d ''observations'' = PList xs" "xs \<noteq> []" "\<forall>x \<in> set xs. row_ok x"
    using assms(2) by (auto simp: observations_ok_def)
  then have "map row_observation xs \<noteq> [] \<and> (\<forall>x \<in> set (map row_observation xs). wf_observation x)"
    using row_observation_wf by auto
  moreover obtain i a b p where "get d ''bundle_id'' = PStr i" "normalized i"
    "get d ''acceptance_contract_hash'' = PStr a" "is_sha256 a" "get d ''change_set_hash'' = PStr b"
    "is_sha256 b" "get d ''verification_plan_hash'' = PStr p" "is_sha256 p"
    using assms(1) by (auto simp: fields_ok_def hash_fields_def)
  ultimately show ?thesis
    unfolding evidence_errs_Nil envelope_bundle_def xs(1) elems_def pyval.case by blast
qed

lemma load_accepted:
  assumes "validate_evidence_bundle_envelope payload (Some c) (Some cs) (Some p) eb eh = Inr []"
  shows "load_evidence_bundle_envelope payload (Some c) (Some cs) (Some p) eb eh =
    Inr (Some (envelope_bundle (items payload)))"
proof -
  let ?d = "items payload"
  have f: "fields_ok ?d" "observations_ok ?d"
    using assms by (auto simp: validate_envelope_Nil envelope_try_Nil)
  then obtain xs where xs: "get ?d ''observations'' = PList xs" "\<forall>x \<in> set xs. row_ok x"
    by (auto simp: observations_ok_def)
  have "emap load_observation xs = Inr (map row_observation xs)"
    using xs by (intro emap_total) (simp add: load_observation_ok)
  moreover have "EvidenceBundle (get ?d ''bundle_id'') (get ?d ''acceptance_contract_hash'')
      (get ?d ''change_set_hash'') (get ?d ''verification_plan_hash'')
      (Some (map Obj (map row_observation xs))) PNone = Inr (envelope_bundle ?d)"
    using envelope_bundle_wf [OF f] xs(2) row_observation_wf
    by (subst EvidenceBundle_Inr) (auto simp: envelope_bundle_def xs(1))
  ultimately show ?thesis
    using assms by (simp add: load_evidence_bundle_envelope_def xs(1) Let_def)
qed

lemma row_observation_keys [simp]:
  "obs_key (row_observation x) = row_key (row_of x)"
  "str_of (ob_verifier_id (row_observation x)) = fst (row_of x)"
  "str_of (ob_artifact_id (row_observation x)) = fst (snd (row_of x))"
  by (simp_all add: obs_key_def row_key_def row_of_def row_observation_def Let_def)

lemma the_obs_envelope_bundle [simp]:
  "the_obs (envelope_bundle d) = map row_observation (elems (get d ''observations''))"
  by (rule the_obs_map_Obj) (simp add: envelope_bundle_def)

lemma sorted_obs_envelope_bundle:
  "observations_ok d \<Longrightarrow> sorted_obs (envelope_bundle d) = the_obs (envelope_bundle d)"
  unfolding sorted_obs_def
  by (intro sort_key_id_if_sorted) (auto simp: observations_ok_def o_def)

lemma clean_row:
  assumes "row_ok x" "clean x = Inr w"
  shows "clean (observation_dict (row_observation x)) = clean x"
proof -
  obtain d where x: "x = PDict d" and k: "keys_are d row_keys"
    using assms(1) by (auto simp: row_ok_def is_dict_iff)
  have "get d ''status'' = PStr (str_of (get d ''status''))"
    using clean_dict_field [of d w row_keys "''status''"] assms clean_str
    by (force simp: x k row_keys_def row_ok_def)
  then have "clean (PDict (items (observation_dict (row_observation x)))) = clean (PDict d)"
    using k by (intro clean_dict_cong [where ks = row_keys])
      (use keys_are_mkdict in \<open>auto simp: observation_dict_def row_keys_def row_observation_def x get_def keys_are_def has_key_def\<close>)
  then show ?thesis by (simp add: x observation_dict_def mkdict_def)
qed

definition body_keys :: "string list" where
  "body_keys = [''evidence_bundle_schema'', ''bundle_id'', ''acceptance_contract_hash'',
     ''change_set_hash'', ''verification_plan_hash'', ''observations'']"

lemma body_keys_filter: "filter (\<lambda>k. k \<noteq> ''bundle_hash'') envelope_keys = body_keys"
  by (simp add: envelope_keys_def body_keys_def)

lemma envelope_body_eq:
  "keys_are d envelope_keys \<Longrightarrow> envelope_body d = mkdict (map (\<lambda>k. (k, get d k)) body_keys)"
  unfolding envelope_body_def body_keys_filter mkdict_def
  by (subst filter_True) (auto simp: keys_are_def list_all_iff envelope_keys_def body_keys_def)

lemma keys_are_body:
  "keys_are (items (mkdict (map (\<lambda>k. (k, f k)) body_keys))) body_keys"
  "keys_are (items (mkdict (bundle_body e))) body_keys"
  using keys_are_mkdict [of "map (\<lambda>k. (k, f k)) body_keys"] keys_are_mkdict [of "bundle_body e"]
  by (simp_all add: o_def bundle_body_def body_keys_def)

lemma get_mkdict_map: "k \<in> set ks \<Longrightarrow> get (items (mkdict (map (\<lambda>k. (k, f k)) ks))) k = f k"
  unfolding get_def items_mkdict dget_mkdict by (simp add: map_of_map_restrict)

lemma clean_list_cong:
  "(\<And>x. x \<in> set xs \<Longrightarrow> clean (f x) = clean x) \<Longrightarrow> clean (PList (map f xs)) = clean (PList xs)"
proof -
  assume a: "\<And>x. x \<in> set xs \<Longrightarrow> clean (f x) = clean x"
  have "emap clean (map f xs) = emap clean xs" using a by (induction xs) auto
  then show ?thesis by simp
qed

lemma get_bundle_body:
  "get (items (mkdict (bundle_body e))) ''evidence_bundle_schema'' = PStr EVIDENCE_BUNDLE_SCHEMA"
  "get (items (mkdict (bundle_body e))) ''bundle_id'' = eb_bundle_id e"
  "get (items (mkdict (bundle_body e))) ''acceptance_contract_hash'' = eb_acceptance_contract_hash e"
  "get (items (mkdict (bundle_body e))) ''change_set_hash'' = eb_change_set_hash e"
  "get (items (mkdict (bundle_body e))) ''verification_plan_hash'' = eb_verification_plan_hash e"
  "get (items (mkdict (bundle_body e))) ''observations'' = PList (map observation_dict (sorted_obs e))"
  by (simp_all add: bundle_body_def get_def)

lemma envelope_bundle_fields [simp]:
  "eb_bundle_id (envelope_bundle d) = get d ''bundle_id''"
  "eb_acceptance_contract_hash (envelope_bundle d) = get d ''acceptance_contract_hash''"
  "eb_change_set_hash (envelope_bundle d) = get d ''change_set_hash''"
  "eb_verification_plan_hash (envelope_bundle d) = get d ''verification_plan_hash''"
  "eb_claimed_bundle_hash (envelope_bundle d) = PNone"
  by (simp_all add: envelope_bundle_def)

lemma clean_envelope_body:
  assumes f: "fields_ok d" and g: "observations_ok d"
  shows "clean (mkdict (bundle_body (envelope_bundle d))) = clean (envelope_body d)"
proof -
  let ?e = "mkdict (map (\<lambda>k. (k, get d k)) body_keys)"
  have body: "envelope_body d = ?e" using f by (simp add: fields_ok_def envelope_body_eq)
  obtain h where "hash_value (envelope_body d) = Inr h" using g by (auto simp: observations_ok_def)
  then obtain w where "clean (envelope_body d) = Inr w"
    by (cases "clean (envelope_body d)") (auto simp: hash_value_raises)
  then have field: "\<exists>u. clean (get d k) = Inr u" if "k \<in> set body_keys" for k
    using clean_dict_field [of "items ?e" w body_keys k] keys_are_body(1) that get_mkdict_map
    by (fastforce simp: body mkdict_def)
  obtain xs where xs: "get d ''observations'' = PList xs" "\<forall>x \<in> set xs. row_ok x"
    using g by (auto simp: observations_ok_def)
  obtain u where "clean (PList xs) = Inr u"
    using field [of "''observations''"] by (auto simp: body_keys_def xs)
  then obtain us where us: "emap clean xs = Inr us" by (auto simp: ebind_Inr_iff)
  have obs: "clean (PList (map observation_dict (map row_observation xs))) = clean (PList xs)"
    unfolding map_map o_def
    by (rule clean_list_cong) (use clean_row xs(2) emap_Inr_each [OF us] in blast)
  have "isinstance_str (get d ''evidence_bundle_schema'')
    \<and> str_of (get d ''evidence_bundle_schema'') = EVIDENCE_BUNDLE_SCHEMA"
    using f by (simp add: fields_ok_def)
  then have schema: "get d ''evidence_bundle_schema'' = PStr EVIDENCE_BUNDLE_SCHEMA"
    using field [of "''evidence_bundle_schema''"] clean_str by (force simp: body_keys_def)
  have "clean (PDict (items (mkdict (bundle_body (envelope_bundle d))))) = clean (PDict (items ?e))"
  proof (rule clean_dict_cong [OF keys_are_body(2) keys_are_body(1)])
    fix k assume k: "k \<in> set body_keys"
    have "k = ''observations'' \<or> get (items (mkdict (bundle_body (envelope_bundle d)))) k = get d k"
      using k unfolding body_keys_def list.set insert_iff
      by (elim disjE emptyE) (simp_all only: get_bundle_body envelope_bundle_fields schema simp_thms)
    moreover have "clean (get (items (mkdict (bundle_body (envelope_bundle d)))) ''observations'') = clean (PList xs)"
      unfolding get_bundle_body sorted_obs_envelope_bundle [OF g] using obs by (simp add: xs(1))
    ultimately show "clean (get (items (mkdict (bundle_body (envelope_bundle d)))) k) = clean (get (items ?e) k)"
      unfolding get_mkdict_map [OF k] using xs(1) by metis
  qed
  then show ?thesis by (simp add: body mkdict_def)
qed

lemma accepted_integrity:
  assumes "contract_errs c = []" "change_set_errs cs = []" "plan_errs p = []"
    and "fields_ok d" "observations_ok d" "bindings_ok d c cs p"
  shows "derive_evidence_integrity (Obj c) (Obj cs) (Obj p) (Obj (envelope_bundle d)) = Inr VALID"
proof -
  have "evidence_errs (envelope_bundle d) = []"
    using assms(4,5) by (rule envelope_bundle_wf)
  moreover have "\<not> has_duplicates (the_obs (envelope_bundle d))"
    using assms(5) by (auto simp: observations_ok_def has_duplicates_def o_def)
  moreover obtain ch csh ph where h: "contract_hash c = Inr ch" "change_set_hash cs = Inr csh"
    "plan_hash p = Inr ph" and eqs: "py_eq (get d ''acceptance_contract_hash'') (PStr ch)"
    "py_eq (get d ''change_set_hash'') (PStr csh)" "py_eq (get d ''verification_plan_hash'') (PStr ph)"
    "py_eq (vp_acceptance_contract_hash p) (PStr ch)" "py_eq (vp_change_set_hash p) (PStr csh)"
    using assms(6) by (auto simp: bindings_ok_def)
  moreover have "get d ''acceptance_contract_hash'' = PStr ch" "get d ''change_set_hash'' = PStr csh"
    "get d ''verification_plan_hash'' = PStr ph"
    using assms(4) eqs(1-3) by (auto simp: fields_ok_def hash_fields_def)
  moreover have "vp_acceptance_contract_hash p = PStr ch" "vp_change_set_hash p = PStr csh"
    using assms(3) eqs(4,5) by (auto simp: plan_errs_Nil)
  ultimately show ?thesis using assms(1-3) by (simp add: derive_VALID_iff linked_def)
qed

lemma accepted_envelope_hash:
  assumes "fields_ok d" "observations_ok d" "get d ''bundle_hash'' = PStr h"
  shows "envelope_hash (envelope_bundle d) = Inr h"
proof -
  have "hash_value (mkdict (bundle_body (envelope_bundle d))) = Inr h"
    using hash_value_cong [OF clean_envelope_body [OF assms(1,2)]] assms(2,3)
    by (auto simp: observations_ok_def)
  then show ?thesis
    by (simp add: envelope_hash_def bundle_to_dict_def envelope_bundle_def claim_differs_def
        bundle_body_def get_def)
qed

section \<open>The envelope a bundle serialises to\<close>

lemma get_observation_dict:
  "get (items (observation_dict x)) ''verifier_id'' = ob_verifier_id x"
  "get (items (observation_dict x)) ''artifact_id'' = ob_artifact_id x"
  "get (items (observation_dict x)) ''artifact_hash'' = ob_artifact_hash x"
  "get (items (observation_dict x)) ''status'' = PStr (str_of (ob_status x))"
  by (simp_all add: observation_dict_def get_def)

lemma keys_are_observation_dict: "keys_are (items (observation_dict x)) row_keys"
  unfolding observation_dict_def
  using keys_are_mkdict [of "[(''verifier_id'', ob_verifier_id x), (''artifact_id'', ob_artifact_id x),
     (''artifact_hash'', ob_artifact_hash x), (''status'', PStr (str_of (ob_status x)))]"]
  by (simp add: row_keys_def)

lemma row_ok_observation_dict: "wf_observation x \<Longrightarrow> row_ok (observation_dict x)"
  unfolding row_ok_def get_observation_dict
  by (auto simp: wf_observation_def keys_are_observation_dict) (simp_all add: observation_dict_def)

lemma row_of_observation_dict:
  "row_of (observation_dict x) = (str_of (ob_verifier_id x), str_of (ob_artifact_id x),
     str_of (ob_artifact_hash x), str_of (ob_status x))"
  unfolding row_of_def Let_def get_observation_dict by simp

lemma row_observation_dict: "wf_observation x \<Longrightarrow> row_observation (observation_dict x) = x"
  unfolding row_observation_def get_observation_dict by (auto simp: wf_observation_def)

text \<open>The dictionary \<open>to_dict\<close> builds, given the hash of its body.\<close>

definition envelope_of :: "evidence_bundle \<Rightarrow> string \<Rightarrow> pyval" where
  "envelope_of e bh = mkdict (bundle_body e @ [(''bundle_hash'', PStr bh)])"

lemma get_envelope_of:
  "k \<in> set body_keys \<Longrightarrow> get (items (envelope_of e bh)) k = get (items (mkdict (bundle_body e))) k"
  "get (items (envelope_of e bh)) ''bundle_hash'' = PStr bh"
  unfolding envelope_of_def get_def items_mkdict dget_mkdict
  by (auto simp: body_keys_def bundle_body_def)

lemma keys_are_envelope_of: "keys_are (items (envelope_of e bh)) envelope_keys"
  unfolding envelope_of_def
  using keys_are_mkdict [of "bundle_body e @ [(''bundle_hash'', PStr bh)]"]
  by (simp add: bundle_body_def envelope_keys_def)

lemma envelope_body_of: "envelope_body (items (envelope_of e bh)) = mkdict (bundle_body e)"
proof -
  have "map (\<lambda>k. (k, get (items (envelope_of e bh)) k)) body_keys =
      map (\<lambda>k. (k, get (items (mkdict (bundle_body e))) k)) body_keys"
    by (intro map_cong refl) (simp only: get_envelope_of)
  also have "\<dots> = bundle_body e"
    unfolding body_keys_def list.map get_bundle_body by (simp only: bundle_body_def)
  finally show ?thesis by (simp add: envelope_body_eq [OF keys_are_envelope_of])
qed

lemma envelope_of_fields_ok:
  assumes "evidence_errs e = []" "is_sha256 bh"
  shows "fields_ok (items (envelope_of e bh))"
proof -
  obtain i a b p where f: "eb_bundle_id e = PStr i" "normalized i" "eb_acceptance_contract_hash e = PStr a"
    "is_sha256 a" "eb_change_set_hash e = PStr b" "is_sha256 b" "eb_verification_plan_hash e = PStr p" "is_sha256 p"
    using assms(1) by (auto simp: evidence_errs_Nil)
  have "get (items (envelope_of e bh)) ''evidence_bundle_schema'' = PStr EVIDENCE_BUNDLE_SCHEMA"
    "get (items (envelope_of e bh)) ''bundle_id'' = PStr i"
    "get (items (envelope_of e bh)) ''acceptance_contract_hash'' = PStr a"
    "get (items (envelope_of e bh)) ''change_set_hash'' = PStr b"
    "get (items (envelope_of e bh)) ''verification_plan_hash'' = PStr p"
    using get_envelope_of(1) [of _ e bh] f unfolding body_keys_def list.set
    by (simp_all only: get_bundle_body insert_iff simp_thms)
  then show ?thesis
    unfolding fields_ok_def hash_fields_def list.set
    using keys_are_envelope_of get_envelope_of(2) f assms(2) by auto
qed

lemma envelope_of_observations_ok:
  assumes e: "evidence_errs e = []" and d: "\<not> has_duplicates (the_obs e)"
    and h: "hash_value (mkdict (bundle_body e)) = Inr bh"
  shows "observations_ok (items (envelope_of e bh))"
proof -
  let ?xs = "map observation_dict (sorted_obs e)"
  have "get (items (envelope_of e bh)) ''observations'' = PList ?xs"
    using get_envelope_of(1) [of "''observations''" e bh] unfolding get_bundle_body by (simp add: body_keys_def)
  moreover have "the_obs e \<noteq> []" using e by (auto simp: evidence_errs_Nil)
  then have "?xs \<noteq> []" by (simp add: sorted_obs_def) (metis length_0_conv length_sort)
  moreover have "\<forall>x \<in> set ?xs. row_ok x"
    using row_ok_observation_dict evidence_errs_obs [OF e] by auto
  moreover have "distinct (map (\<lambda>x. fst (row_of x)) ?xs)" "distinct (map (\<lambda>x. fst (snd (row_of x))) ?xs)"
    using d by (simp_all add: row_of_observation_dict has_duplicates_def o_def sorted_obs_def distinct_map_sort_key)
  moreover have "map (row_key \<circ> row_of) ?xs = map obs_key (sorted_obs e)"
    by (simp add: row_of_observation_dict row_key_def obs_key_def)
  then have "sorted (map (row_key \<circ> row_of) ?xs)" by (simp only: sorted_obs_def sorted_sort_key)
  moreover have "hash_value (envelope_body (items (envelope_of e bh))) = Inr bh"
    by (simp only: envelope_body_of h)
  ultimately show ?thesis unfolding observations_ok_def using get_envelope_of(2) by auto
qed

lemma clean_str_of [simp]: "is_str v \<Longrightarrow> clean v = Inr v"
  by (auto simp: is_str_iff)

lemma jv_observation_dict: "wf_observation x \<Longrightarrow> jv spaced (observation_dict x)"
  by (auto simp: wf_observation_def observation_dict_def mkdict_def ordered_def spaced_def)

lemma jv_envelope_of: "evidence_errs e = [] \<Longrightarrow> jv spaced (envelope_of e bh)"
proof -
  assume e: "evidence_errs e = []"
  then have "\<forall>x \<in> set (sorted_obs e). jv spaced (observation_dict x)"
    using jv_observation_dict evidence_errs_obs by simp
  then show ?thesis
    using e by (auto simp: envelope_of_def bundle_body_def mkdict_def evidence_errs_Nil list_all_iff
        ordered_def spaced_def)
qed

lemma clean_observation_dict: "wf_observation x \<Longrightarrow> \<exists>w. clean (observation_dict x) = Inr w"
  unfolding observation_dict_def mkdict_def
  by (auto simp: wf_observation_def sorted_set_def)

lemma emap_clean_total: "\<forall>x \<in> set xs. \<exists>w. clean x = Inr w \<Longrightarrow> \<exists>ws. emap clean xs = Inr ws"
  by (induction xs) auto

lemma envelope_body_hash:
  assumes "evidence_errs e = []"
  shows "\<exists>bh. hash_value (mkdict (bundle_body e)) = Inr bh \<and> is_sha256 bh"
proof -
  have "\<forall>x \<in> set (map observation_dict (sorted_obs e)). \<exists>w. clean x = Inr w"
    using evidence_errs_obs [OF assms] clean_observation_dict by simp
  then obtain ws where "emap clean (map observation_dict (sorted_obs e)) = Inr ws"
    using emap_clean_total by blast
  then have "\<exists>w. clean (mkdict (bundle_body e)) = Inr w"
    using assms by (auto simp: bundle_body_def mkdict_def evidence_errs_Nil sorted_set_def)
  then show ?thesis using hash_value_ok by blast
qed

lemma bundle_to_dict_VALID:
  assumes "derive_evidence_integrity (Obj c) (Obj cs) (Obj p) (Obj e) = Inr VALID"
  obtains bh where "hash_value (mkdict (bundle_body e)) = Inr bh" "is_sha256 bh"
    "bundle_to_dict e = Inr (envelope_of e bh)"
proof -
  have e: "evidence_errs e = []" and
    cl: "eb_claimed_bundle_hash e = PNone \<or> linked (eb_claimed_bundle_hash e) (bundle_hash e)"
    using assms by (auto simp: derive_VALID_iff)
  obtain bh where bh: "hash_value (mkdict (bundle_body e)) = Inr bh" "is_sha256 bh"
    using envelope_body_hash [OF e] by blast
  moreover have "bundle_to_dict e = Inr (envelope_of e bh)"
    using cl bh by (auto simp: bundle_to_dict_def envelope_of_def claim_differs_def linked_def)
  ultimately show ?thesis by (rule that)
qed

lemma envelope_bundle_of:
  assumes "evidence_errs e = []"
  shows "envelope_bundle (items (envelope_of e bh)) =
    e\<lparr>eb_observations := Some (map Obj (sorted_obs e)), eb_claimed_bundle_hash := PNone\<rparr>"
proof -
  have g: "get (items (envelope_of e bh)) k = get (items (mkdict (bundle_body e))) k" if "k \<in> set body_keys" for k
    using that by (rule get_envelope_of)
  have "map row_observation (map observation_dict (sorted_obs e)) = sorted_obs e"
    unfolding map_map by (rule map_idI) (simp add: row_observation_dict evidence_errs_obs [OF assms])
  moreover have "envelope_bundle (items (envelope_of e bh)) = \<lparr>eb_bundle_id = eb_bundle_id e,
     eb_acceptance_contract_hash = eb_acceptance_contract_hash e,
     eb_change_set_hash = eb_change_set_hash e, eb_verification_plan_hash = eb_verification_plan_hash e,
     eb_observations = Some (map Obj (map row_observation (map observation_dict (sorted_obs e)))),
     eb_claimed_bundle_hash = PNone\<rparr>"
    unfolding envelope_bundle_def using g unfolding body_keys_def list.set
    by (simp only: get_bundle_body insert_iff simp_thms type_test_simps)
  ultimately show ?thesis by simp
qed

lemma envelope_arguments_VALID:
  assumes "derive_evidence_integrity (Obj c) (Obj cs) (Obj p) (Obj e) = Inr VALID"
  shows "envelope_arguments (Some c) (Some cs) (Some p) (Some (Some e)) PNone = Inr ()"
proof -
  have "evidence_errs e = []" and
    "eb_claimed_bundle_hash e = PNone \<or> linked (eb_claimed_bundle_hash e) (bundle_hash e)"
    using assms by (auto simp: derive_VALID_iff)
  then show ?thesis by (auto simp: envelope_arguments_def linked_def claim_differs_def)
qed

lemma envelope_of_bindings_ok:
  assumes "derive_evidence_integrity (Obj c) (Obj cs) (Obj p) (Obj e) = Inr VALID"
  shows "bindings_ok (items (envelope_of e bh)) c cs p"
proof -
  have "get (items (envelope_of e bh)) ''acceptance_contract_hash'' = eb_acceptance_contract_hash e"
    "get (items (envelope_of e bh)) ''change_set_hash'' = eb_change_set_hash e"
    "get (items (envelope_of e bh)) ''verification_plan_hash'' = eb_verification_plan_hash e"
    using get_envelope_of(1) [of _ e bh] unfolding body_keys_def list.set
    by (simp_all only: get_bundle_body insert_iff simp_thms)
  then show ?thesis
    unfolding bindings_ok_def using assms by (simp only: derive_VALID_iff linked_def) force
qed

lemma envelope_of_accepted:
  assumes v: "derive_evidence_integrity (Obj c) (Obj cs) (Obj p) (Obj e) = Inr VALID"
    and bh: "hash_value (mkdict (bundle_body e)) = Inr bh" "is_sha256 bh"
    and x: "expected_ok (envelope_of e bh) eb eh"
  shows "envelope_try (envelope_of e bh) c cs p eb eh = []"
proof -
  have "evidence_errs e = []" "\<not> has_duplicates (the_obs e)" using v by (auto simp: derive_VALID_iff)
  moreover have "is_dict (envelope_of e bh)" by (simp add: envelope_of_def)
  ultimately show ?thesis
    using envelope_of_bindings_ok [OF v] envelope_of_fields_ok envelope_of_observations_ok bh x
    by (simp add: envelope_try_Nil)
qed

section \<open>Constructors of a bundle and its observations\<close>

abbreviation observation_constructs :: "observation obj \<Rightarrow> bool" where
  "observation_constructs x \<equiv> (case x of Obj y \<Rightarrow> Observation (ob_verifier_id y) (ob_artifact_id y)
     (ob_artifact_hash y) (ob_status y) = Inr y | _ \<Rightarrow> False)"

lemma observations_construct:
  "list_all observation_constructs xs \<longleftrightarrow> (\<exists>ys. xs = map Obj ys \<and> (\<forall>y \<in> set ys. wf_observation y))"
proof -
  have "list_all observation_constructs xs \<longleftrightarrow> observations_errs i xs = []" for i
    by (induction xs arbitrary: i) (auto simp: observation_errs_Nil Observation_Inr split: obj.splits)
  then show ?thesis by (simp only: observations_errs_Nil)
qed

lemma evidence_errs_constructors:
  "evidence_errs e = [] \<longleftrightarrow>
     EvidenceBundle (eb_bundle_id e) (eb_acceptance_contract_hash e) (eb_change_set_hash e)
       (eb_verification_plan_hash e) (eb_observations e) (eb_claimed_bundle_hash e) = Inr e \<and>
     list_all observation_constructs (case eb_observations e of Some xs \<Rightarrow> xs | None \<Rightarrow> [])"
  (is "_ \<longleftrightarrow> ?B")
proof
  assume a: "evidence_errs e = []"
  then obtain obs where "eb_observations e = Some (map Obj obs)" "\<forall>x \<in> set obs. wf_observation x"
    by (auto simp: evidence_errs_Nil)
  with a show ?B by (auto simp: EvidenceBundle_Inr observations_construct)
next
  assume b: ?B
  then obtain obs where "eb_observations e = Some (map Obj obs)" "\<forall>x \<in> set obs. wf_observation x"
    by (cases "eb_observations e")
      (auto simp: EvidenceBundle_def eseq_Inr_iff guard_Inr_iff observations_construct)
  with b show "evidence_errs e = []" by (simp add: EvidenceBundle_Inr)
qed

section \<open>Properties\<close>

text \<open>C5: \<open>derive_evidence_integrity\<close> answers \<open>VALID\<close> exactly when the four subjects are instances of
  their classes that pass every field check, each stored link is the recomputed identity of the
  subject it names (evidence to contract, change set and plan; plan to contract and change set; a
  claimed bundle hash to the bundle), and no verifier or artifact is observed twice.\<close>

theorem evidence_valid_iff:
  "derive_evidence_integrity contract change_set plan evidence = Inr VALID \<longleftrightarrow>
   (\<exists>c cs p e. contract = Obj c \<and> change_set = Obj cs \<and> plan = Obj p \<and> evidence = Obj e \<and>
     contract_errs c = [] \<and> change_set_errs cs = [] \<and> plan_errs p = [] \<and> evidence_errs e = [] \<and>
     (eb_claimed_bundle_hash e = PNone \<or> linked (eb_claimed_bundle_hash e) (bundle_hash e)) \<and>
     linked (eb_acceptance_contract_hash e) (contract_hash c) \<and>
     linked (eb_change_set_hash e) (change_set_hash cs) \<and>
     linked (eb_verification_plan_hash e) (plan_hash p) \<and>
     linked (vp_acceptance_contract_hash p) (contract_hash c) \<and>
     linked (vp_change_set_hash p) (change_set_hash cs) \<and> \<not> has_duplicates (the_obs e))"
  using derive_VALID_Obj [of contract change_set plan evidence] derive_VALID_iff by fastforce

text \<open>C6: a bundle with \<open>VALID\<close> integrity determines its subjects.  If the same evidence is valid for
  two triples of contract, change set and plan, the triples agree field by field (up to the order
  of identifier and path lists), unless two different canonical texts have the same SHA-256.\<close>

theorem valid_evidence_binds_subjects:
  assumes "derive_evidence_integrity (Obj c) (Obj cs) (Obj p) (Obj e) = Inr VALID"
    and "derive_evidence_integrity (Obj c') (Obj cs') (Obj p') (Obj e) = Inr VALID"
  shows "(same_contract c c' \<or> values_collide (contract_value c) (contract_value c')) \<and>
    (same_change_set cs cs' \<or> values_collide (change_set_value cs) (change_set_value cs')) \<and>
    (same_plan p p' \<or> values_collide (plan_value p) (plan_value p'))"
  using assms
  by (auto simp: derive_VALID_iff contract_hash_eq_iff [symmetric] change_set_hash_eq_iff [symmetric]
      plan_hash_eq_iff [symmetric] intro: linked_eq)

theorem valid_evidence_binds_subjects_witness:
  "derive_evidence_integrity (Obj sample_contract) (Obj sample_change_set) (Obj sample_plan) (Obj sample_evidence)
     = Inr VALID \<and>
   (same_plan sample_plan sample_plan \<or> values_collide (plan_value sample_plan) (plan_value sample_plan))"
  using valid_evidence_binds_subjects [OF sample_evidence_valid sample_evidence_valid]
    sample_evidence_valid by blast

text \<open>The subject validator and the constructors agree.  The validator accepts a contract, a change
  set, a plan and an evidence bundle exactly when running each constructor on the stored fields
  (and the \<open>Observation\<close> constructor on each observation) succeeds and gives the subject back.\<close>

theorem validator_agrees_with_constructors:
  "validate_evidence_subjects (Obj c) (Obj cs) (Obj p) (Obj e) = [] \<longleftrightarrow>
     AcceptanceContract (ac_contract_id c) (ac_requirements_hash c) (ac_required_verifier_ids c)
       (ac_allowed_paths c) (ac_deletion_policy c) = Inr c \<and>
     ChangeSet (cs_change_set_id cs) (cs_source_revision cs) (cs_target_revision cs) (cs_diff_hash cs)
       (cs_paths cs) = Inr cs \<and>
     VerificationPlan (vp_plan_id p) (vp_acceptance_contract_hash p) (vp_change_set_hash p)
       (vp_required_verifier_ids p) = Inr p \<and>
     EvidenceBundle (eb_bundle_id e) (eb_acceptance_contract_hash e) (eb_change_set_hash e)
       (eb_verification_plan_hash e) (eb_observations e) (eb_claimed_bundle_hash e) = Inr e \<and>
     list_all (\<lambda>x. case x of Obj y \<Rightarrow> Observation (ob_verifier_id y) (ob_artifact_id y)
       (ob_artifact_hash y) (ob_status y) = Inr y | _ \<Rightarrow> False)
       (case eb_observations e of Some xs \<Rightarrow> xs | None \<Rightarrow> [])"
  by (simp add: subjects_valid_iff AcceptanceContract_Inr ChangeSet_Inr VerificationPlan_Inr
      evidence_errs_constructors)

text \<open>On subjects the validator accepts, the sealed derivation computes exactly what the bundle's
  own \<open>integrity\<close> method computes, and neither raises.\<close>

lemma derive_agrees_with_bundle_integrity:
  assumes "validate_evidence_subjects (Obj c) (Obj cs) (Obj p) (Obj e) = []"
  shows "\<exists>st. derive_evidence_integrity (Obj c) (Obj cs) (Obj p) (Obj e) = Inr st \<and>
    bundle_integrity e c cs p = Inr st"
  using assms by (rule derive_wf) (simp add: bundle_integrity_def)

text \<open>C8: the round trip of the envelope.  A bundle with \<open>VALID\<close> integrity serialises; the JSON text of
  the envelope parses back to it; the validator accepts it against the bundle itself; and loading
  it gives the bundle back, its observations in canonical order.\<close>

theorem envelope_roundtrip:
  assumes "derive_evidence_integrity (Obj c) (Obj cs) (Obj p) (Obj e) = Inr VALID"
  shows "\<exists>d t. bundle_to_dict e = Inr d \<and> dumps spaced d = Inr t \<and> loads t = Inr d \<and>
    validate_evidence_bundle_envelope d (Some c) (Some cs) (Some p) (Some (Some e)) PNone = Inr [] \<and>
    load_evidence_bundle_envelope d (Some c) (Some cs) (Some p) (Some (Some e)) PNone =
      Inr (Some (e\<lparr>eb_observations := Some (map Obj (sorted_obs e)), eb_claimed_bundle_hash := PNone\<rparr>))"
proof -
  obtain bh where bh: "hash_value (mkdict (bundle_body e)) = Inr bh" "is_sha256 bh"
    "bundle_to_dict e = Inr (envelope_of e bh)"
    using assms by (rule bundle_to_dict_VALID)
  have e: "evidence_errs e = []"
    using assms by (auto simp: derive_VALID_iff)
  obtain t where t: "dumps spaced (envelope_of e bh) = Inr t" "loads t = Inr (envelope_of e bh)"
    using loads_dumps [OF wf_styles(3) jv_envelope_of [OF e]] by blast
  have "expected_ok (envelope_of e bh) (Some e) PNone"
    using bh(3) jv_py_eq_refl [OF jv_envelope_of [OF e]] by (simp add: expected_ok_def)
  then have v: "validate_evidence_bundle_envelope (envelope_of e bh) (Some c) (Some cs) (Some p)
      (Some (Some e)) PNone = Inr []"
    using envelope_arguments_VALID [OF assms] envelope_of_accepted [OF assms bh(1,2)]
    by (simp add: validate_envelope_Nil)
  then show ?thesis
    using bh(3) t load_accepted [OF v] envelope_bundle_of [OF e] by auto
qed

theorem envelope_roundtrip_witness:
  "\<exists>d t. bundle_to_dict sample_evidence = Inr d \<and> dumps spaced d = Inr t \<and> loads t = Inr d \<and>
    validate_evidence_bundle_envelope d (Some sample_contract) (Some sample_change_set) (Some sample_plan)
      (Some (Some sample_evidence)) PNone = Inr []"
  using envelope_roundtrip [OF sample_evidence_valid] by blast

text \<open>C7: an accepted envelope is sound.  Whatever payload the validator accepts for well-formed
  subjects and an independently supplied envelope hash, it loads to a bundle whose derived integrity
  is \<open>VALID\<close> and whose own envelope hash is the supplied one.\<close>

theorem envelope_sound:
  assumes "contract_errs c = []" "change_set_errs cs = []" "plan_errs p = []"
    and "validate_evidence_bundle_envelope payload (Some c) (Some cs) (Some p) None (PStr h) = Inr []"
  shows "\<exists>b. load_evidence_bundle_envelope payload (Some c) (Some cs) (Some p) None (PStr h) = Inr (Some b) \<and>
    derive_evidence_integrity (Obj c) (Obj cs) (Obj p) (Obj b) = Inr VALID \<and> envelope_hash b = Inr h"
proof -
  let ?d = "items payload"
  have f: "fields_ok ?d" "observations_ok ?d" "bindings_ok ?d c cs p"
    and x: "py_eq (get ?d ''bundle_hash'') (PStr h)"
    using assms(4) by (auto simp: validate_envelope_Nil envelope_try_Nil expected_ok_def)
  have "get ?d ''bundle_hash'' = PStr h"
    using f(1) x by (auto simp: fields_ok_def hash_fields_def)
  then show ?thesis
    using load_accepted [OF assms(4)] accepted_integrity [OF assms(1-3) f] accepted_envelope_hash [OF f(1,2)]
    by blast
qed

theorem envelope_sound_witness:
  "\<exists>payload h b. load_evidence_bundle_envelope payload (Some sample_contract) (Some sample_change_set)
     (Some sample_plan) None (PStr h) = Inr (Some b) \<and>
   derive_evidence_integrity (Obj sample_contract) (Obj sample_change_set) (Obj sample_plan) (Obj b) = Inr VALID \<and>
   envelope_hash b = Inr h"
proof -
  obtain bh where bh: "hash_value (mkdict (bundle_body sample_evidence)) = Inr bh" "is_sha256 bh"
    by (rule bundle_to_dict_VALID [OF sample_evidence_valid])
  have "expected_ok (envelope_of sample_evidence bh) None (PStr bh)"
    by (simp only: expected_ok_def option.case get_envelope_of) simp
  then have "validate_evidence_bundle_envelope (envelope_of sample_evidence bh) (Some sample_contract)
      (Some sample_change_set) (Some sample_plan) None (PStr bh) = Inr []"
    using envelope_of_accepted [OF sample_evidence_valid bh] bh(2)
    by (simp add: validate_envelope_Nil envelope_arguments_def require_hash_Inr eseq_Inr_iff)
  from envelope_sound [OF sample_contract_ok [OF sample_ids_ok] sample_change_set_ok sample_plan_ok [OF sample_ids_ok] this]
  show ?thesis by blast
qed

end
