(* ===== verification/Verification.thy ===== *)
theory Verification
  imports Evidence_Envelope
begin

text \<open>
  \<open>product/verification/__init__.py\<close>: the verification result and its invariant, the reducer that
  alone produces results, and \<open>verify\<close>, which judges an evidence bundle against its contract,
  change set and plan.

  A result's \<open>status\<close> and \<open>integrity\<close> are options, \<open>None\<close> standing for a value of another class,
  and \<open>vr_registered\<close> records that the reducer entered the object in its registry
  (\<open>is_reduced_result\<close> looks an object up by identity, and only the reducer registers).
\<close>

section \<open>Results\<close>

datatype verification_status = VERIFIED | FAILED_VERIFICATION | UNVERIFIABLE

fun verification_value :: "verification_status \<Rightarrow> string" where
  "verification_value VERIFIED = ''VERIFIED''"
| "verification_value FAILED_VERIFICATION = ''FAILED_VERIFICATION''"
| "verification_value UNVERIFIABLE = ''UNVERIFIABLE''"

record verification_result =
  vr_status :: "verification_status option"
  vr_reason_codes :: pyval
  vr_integrity :: "integrity_status option"
  vr_registered :: bool

text \<open>One reason code: a non-blank string of at most 128 characters; \<open>sorted(set(..))\<close> of a list of
  such codes, compared by their text.\<close>

definition bounded_code :: "pyval \<Rightarrow> bool" where
  "bounded_code v \<longleftrightarrow> isinstance_str v \<and> str_of v \<noteq> [] \<and> str_of v = strip (str_of v) \<and>
     length (str_of v) \<le> 128"

fun first_by_text :: "string list \<Rightarrow> pyval list \<Rightarrow> pyval list" where
  "first_by_text seen [] = []"
| "first_by_text seen (v # vs) =
     (if List.member seen (str_of v) then first_by_text seen vs
      else v # first_by_text (str_of v # seen) vs)"

definition sorted_codes :: "pyval list \<Rightarrow> pyval list" where
  "sorted_codes vs = sort_key str_of (first_by_text [] vs)"

definition codes_canonical :: "pyval list \<Rightarrow> bool" where
  "codes_canonical vs \<longleftrightarrow> map str_of vs = sorted_set (map str_of vs)"

text \<open>\<open>VerificationResult.__post_init__\<close>.\<close>

definition result_post_init :: "verification_result \<Rightarrow> unit res" where
  "result_post_init r =
     eseq (guard (vr_status r \<noteq> None) TypeErr ''status must be VerificationStatus'')
    (eseq (guard (vr_integrity r \<noteq> None) TypeErr ''integrity must be IntegrityStatus'')
    (eseq (guard (is_tuple (vr_reason_codes r)) TypeErr ''reason_codes must be a tuple'')
    (eseq (guard (length (elems (vr_reason_codes r)) \<le> 64) ValueErr ''reason_codes is bounded'')
    (eseq (efor (elems (vr_reason_codes r)) (\<lambda>c. guard (bounded_code c) ValueErr
             ''reason_codes must contain bounded nonblank strings''))
    (eseq (guard (codes_canonical (elems (vr_reason_codes r))) ValueErr
             ''reason_codes must be unique and sorted'')
    (eseq (guard (\<not> (vr_status r = Some VERIFIED \<and>
               (vr_integrity r \<noteq> Some VALID \<or> elems (vr_reason_codes r) \<noteq> []))) ValueErr
             ''VERIFIED requires valid integrity and no failed checks'')
     (guard (\<not> (vr_integrity r \<noteq> Some VALID \<and> vr_status r \<noteq> Some UNVERIFIABLE)) ValueErr
        ''non-valid integrity requires UNVERIFIABLE status'')))))))"

section \<open>The reducer\<close>

definition validate_reasons :: "pyval \<Rightarrow> unit res" where
  "validate_reasons reasons =
     eseq (guard (is_tuple reasons) TypeErr ''reasons must be a tuple'')
    (eseq (efor (elems reasons) (\<lambda>c. guard (bounded_code c) ValueErr
             ''reasons must contain bounded nonblank strings''))
     (guard (codes_canonical (elems reasons)) ValueErr ''reasons must be unique and sorted''))"

text \<open>The status, integrity and extra code the branches of the reducer choose.\<close>

definition reduce_choice ::
  "integrity_status \<Rightarrow> pyval list \<Rightarrow> bool \<Rightarrow> (verification_status \<times> integrity_status \<times> string list) res" where
  "reduce_choice condition observations no_reasons =
     (if condition = SCOPE_ESCAPE then
        Inr (FAILED_VERIFICATION, VALID, if no_reasons then [integrity_value condition] else [])
      else if condition \<noteq> VALID then
        Inr (UNVERIFIABLE, condition, if no_reasons then [integrity_value condition] else [])
      else if observations = [] then Inr (UNVERIFIABLE, MISSING, [integrity_value MISSING])
      else ebind (if list_ex is_str observations
                  then eall (\<lambda>item. in_strs item [''PASS'', ''FAIL'']) observations else Inr False) (\<lambda>legacy.
        if legacy then Inr (UNVERIFIABLE, LEGACY_NON_CERTIFIABLE, [integrity_value LEGACY_NON_CERTIFIABLE])
        else if list_ex is_str observations then Inr (UNVERIFIABLE, MALFORMED, [integrity_value MALFORMED])
        else if \<not> list_all is_observation_status observations
        then Inr (UNVERIFIABLE, MALFORMED, [integrity_value MALFORMED])
        else if List.member observations OBS_FAIL then Inr (FAILED_VERIFICATION, VALID, [''VERIFIER_FAILED''])
        else Inr (VERIFIED, VALID, [])))"

definition reduce_verification :: "integrity_status option \<Rightarrow> pyval \<Rightarrow> pyval \<Rightarrow> verification_result res" where
  "reduce_verification condition observations reasons =
     (case condition of
        None \<Rightarrow> Inl (TypeErr, ''condition must be IntegrityStatus'')
      | Some cond \<Rightarrow>
          eseq (validate_reasons reasons)
         (eseq (guard (is_tuple observations) TypeErr ''observations must be a tuple'')
         (ebind (reduce_choice cond (elems observations) (elems reasons = [])) (\<lambda>(status, integrity, extra).
            let result = \<lparr>vr_status = Some status,
                  vr_reason_codes = PTuple (if status \<noteq> VERIFIED
                    then sorted_codes (elems reasons @ map PStr extra) else []),
                  vr_integrity = Some integrity, vr_registered = True\<rparr>
            in eseq (result_post_init result) (Inr result)))))"

text \<open>The default arguments \<open>observations=()\<close>, \<open>reasons=()\<close>.\<close>

abbreviation reduce0 :: "integrity_status \<Rightarrow> verification_result res" where
  "reduce0 condition \<equiv> reduce_verification (Some condition) (PTuple []) (PTuple [])"

definition is_reduced_result :: "verification_result obj \<Rightarrow> bool" where
  "is_reduced_result x \<longleftrightarrow> (case x of Obj r \<Rightarrow> vr_registered r | _ \<Rightarrow> False)"

section \<open>Verification\<close>

text \<open>\<open>{vars(o)["verifier_id"]: o for o in observations}[x]\<close>: the last observation of a verifier.\<close>

definition obs_lookup :: "observation list \<Rightarrow> string \<Rightarrow> observation option" where
  "obs_lookup obs x = find (\<lambda>ob. str_of (ob_verifier_id ob) = x) (rev obs)"

definition obs_status :: "observation list \<Rightarrow> string \<Rightarrow> pyval" where
  "obs_status obs x = (case obs_lookup obs x of None \<Rightarrow> PNone | Some ob \<Rightarrow> ob_status ob)"

definition strs :: "pyval \<Rightarrow> string list" where
  "strs v = map str_of (elems v)"

text \<open>The judgement of evidence whose integrity is \<open>VALID\<close>.\<close>

definition judge ::
  "acceptance_contract \<Rightarrow> change_set \<Rightarrow> verification_plan \<Rightarrow> evidence_bundle \<Rightarrow> verification_result res" where
  "judge c cs p e =
     (let paths = strs (cs_paths cs); allowed = strs (ac_allowed_paths c);
          required = strs (ac_required_verifier_ids c); planned = strs (vp_required_verifier_ids p);
          observations = the_obs e; observed = map (\<lambda>ob. str_of (ob_verifier_id ob)) observations in
      if \<not> list_all (List.member allowed) paths then reduce0 SCOPE_ESCAPE
      else if set required \<noteq> set planned then reduce0 MISSING
      else if set observed \<noteq> set planned then reduce0 MISSING
      else if \<not> list_all (\<lambda>ob. is_observation_status (ob_status ob)) observations then reduce0 MALFORMED
      else (let missing = sort (filter (\<lambda>x. obs_lookup observations x = None \<or> \<not> List.member planned x) required) in
        if missing \<noteq> [] \<or> observations = []
        then reduce_verification (Some MISSING) (PTuple []) (PTuple (map PStr missing))
        else (let failed = sort (filter (\<lambda>x. obs_status observations x \<noteq> OBS_PASS) required) in
          reduce_verification (Some VALID) (PTuple (map (obs_status observations) required))
            (PTuple (map PStr failed)))))"

definition verify ::
  "acceptance_contract obj \<Rightarrow> change_set obj \<Rightarrow> verification_plan obj \<Rightarrow> evidence_bundle obj
   \<Rightarrow> verification_result res" where
  "verify contract change_set plan evidence =
     (if validate_evidence_subjects contract change_set plan evidence \<noteq> [] then reduce0 MALFORMED
      else ebind (derive_evidence_integrity contract change_set plan evidence) (\<lambda>integrity.
        if integrity \<noteq> VALID then reduce0 integrity
        else (case (contract, change_set, plan, evidence) of
                (Obj c, Obj cs, Obj p, Obj e) \<Rightarrow> judge c cs p e
              | _ \<Rightarrow> reduce0 MALFORMED)))"

section \<open>Sorted codes\<close>

lemma insort_key_map: "insort_key f (g x) (map g xs) = map g (insort_key (\<lambda>x. f (g x)) x xs)"
  by (induction xs) auto

lemma sort_key_map: "sort_key f (map g xs) = map g (sort_key (\<lambda>x. f (g x)) xs)"
  by (induction xs) (auto simp: insort_key_map)

lemma first_by_text_strs:
  "\<exists>xs. first_by_text seen (map PStr ss) = map PStr xs \<and> distinct xs \<and> set xs = set ss - set seen"
proof (induction ss arbitrary: seen)
  case (Cons s ss)
  show ?case
  proof (cases "s \<in> set seen")
    case True
    then show ?thesis using Cons [of seen] by auto
  next
    case False
    obtain xs where "first_by_text (s # seen) (map PStr ss) = map PStr xs" "distinct xs"
      "set xs = set ss - set (s # seen)"
      using Cons by blast
    then show ?thesis using False by (intro exI [of _ "s # xs"]) auto
  qed
qed simp

lemma sorted_codes_strs: "sorted_codes (map PStr ss) = map PStr (sorted_set ss)"
proof -
  obtain xs where "first_by_text [] (map PStr ss) = map PStr xs" "distinct xs" "set xs = set ss"
    using first_by_text_strs [of "[]" ss] by auto
  then have "sorted_codes (map PStr ss) = map PStr (sort xs)" "sort xs = sorted_set ss"
    by (simp_all add: sorted_codes_def sort_key_map sorted_distinct_set_unique)
  then show ?thesis by simp
qed

lemma sorted_codes_single [simp]: "sorted_codes [PStr s] = [PStr s]"
  using sorted_codes_strs [of "[s]"] by simp

lemma codes_canonical_sorted_set [simp]: "codes_canonical (map PStr (sorted_set ss))"
  by (simp add: codes_canonical_def o_def sorted_set_idem)

lemma codes_canonical_Nil [simp]: "codes_canonical []"
  by (simp add: codes_canonical_def)

lemma codes_canonical_single [simp]: "codes_canonical [PStr s]"
  by (simp add: codes_canonical_def)

section \<open>What the reducer returns\<close>

definition mk_result :: "verification_status \<Rightarrow> string list \<Rightarrow> integrity_status \<Rightarrow> verification_result" where
  "mk_result st codes i = \<lparr>vr_status = Some st, vr_reason_codes = PTuple (map PStr codes),
     vr_integrity = Some i, vr_registered = True\<rparr>"

definition code_ok :: "string \<Rightarrow> bool" where
  "code_ok s \<longleftrightarrow> s \<noteq> [] \<and> s = strip s \<and> length s \<le> 128"

lemma bounded_code_PStr [simp]: "bounded_code (PStr s) \<longleftrightarrow> code_ok s"
  by (auto simp: bounded_code_def code_ok_def)

lemma code_ok_integrity [simp]: "code_ok (integrity_value i)"
  by (cases i) (simp_all add: code_ok_def strip_def is_space_def)

lemma code_ok_verifier_failed [simp]: "code_ok ''VERIFIER_FAILED''"
  by (simp add: code_ok_def strip_def is_space_def)

lemma post_init_mk_result:
  "result_post_init (mk_result st codes i) = Inr () \<longleftrightarrow>
     length codes \<le> 64 \<and> (\<forall>c \<in> set codes. code_ok c) \<and> codes = sorted_set codes \<and>
     (st = VERIFIED \<longrightarrow> i = VALID \<and> codes = []) \<and> (i \<noteq> VALID \<longrightarrow> st = UNVERIFIABLE)"
  by (auto simp: result_post_init_def mk_result_def eseq_Inr_iff guard_Inr_iff efor_Inr_iff
      codes_canonical_def o_def)

lemma reduce0_eq:
  "cond \<noteq> VALID \<Longrightarrow> reduce0 cond = Inr (if cond = SCOPE_ESCAPE
     then mk_result FAILED_VERIFICATION [''SCOPE_ESCAPE''] VALID
     else mk_result UNVERIFIABLE [integrity_value cond] cond)"
  using post_init_mk_result [of UNVERIFIABLE "[integrity_value cond]" cond]
    post_init_mk_result [of FAILED_VERIFICATION "[''SCOPE_ESCAPE'']" VALID]
    code_ok_integrity [of SCOPE_ESCAPE]
  by (auto simp: reduce_verification_def reduce_choice_def validate_reasons_def mk_result_def Let_def)

text \<open>The codes of a failed judgement: the failing verifiers and \<open>VERIFIER_FAILED\<close>, as long as they
  fit the bounds on reason codes.\<close>

definition failure_codes :: "string list \<Rightarrow> string list" where
  "failure_codes failed = sorted_set (failed @ [''VERIFIER_FAILED''])"

definition codes_fit :: "string list \<Rightarrow> bool" where
  "codes_fit failed \<longleftrightarrow> list_all (\<lambda>s. length s \<le> 128) failed \<and> length (failure_codes failed) \<le> 64"

lemma reduce_choice_VALID:
  "obs \<noteq> [] \<Longrightarrow> list_all is_observation_status obs \<Longrightarrow> reduce_choice VALID obs b =
     Inr (if OBS_FAIL \<in> set obs then (FAILED_VERIFICATION, VALID, [''VERIFIER_FAILED'']) else (VERIFIED, VALID, []))"
proof -
  assume a: "obs \<noteq> []" "list_all is_observation_status obs"
  then have "\<not> list_ex is_str obs"
    by (auto simp: list_all_iff list_ex_iff is_observation_status_def)
  then show ?thesis using a by (simp add: reduce_choice_def)
qed

lemma reduce_pass:
  "obs \<noteq> [] \<Longrightarrow> \<forall>x \<in> set obs. x = OBS_PASS \<Longrightarrow>
     reduce_verification (Some VALID) (PTuple obs) (PTuple []) = Inr (mk_result VERIFIED [] VALID)"
  using post_init_mk_result [of VERIFIED "[]" VALID]
  by (auto simp: reduce_verification_def validate_reasons_def reduce_choice_VALID mk_result_def Let_def
      list_all_iff is_observation_status_def)

lemma validate_reasons_strs:
  "validate_reasons (PTuple (map PStr ss)) = Inr u \<longleftrightarrow> (\<forall>s \<in> set ss. code_ok s) \<and> ss = sorted_set ss"
  by (auto simp: validate_reasons_def eseq_Inr_iff guard_Inr_iff efor_Inr_iff codes_canonical_def o_def)

lemma reduce_fail:
  assumes "list_all is_observation_status obs" "OBS_FAIL \<in> set obs" "\<forall>s \<in> set failed. code_ok s"
    "failed = sorted_set failed" "codes_fit failed"
  shows "reduce_verification (Some VALID) (PTuple obs) (PTuple (map PStr failed)) =
    Inr (mk_result FAILED_VERIFICATION (failure_codes failed) VALID)"
proof -
  have "validate_reasons (PTuple (map PStr failed)) = Inr ()"
    using assms(3,4) by (simp add: validate_reasons_strs)
  moreover have "obs \<noteq> []" using assms(2) by auto
  moreover have codes: "sorted_codes (map PStr failed @ map PStr [''VERIFIER_FAILED'']) = map PStr (failure_codes failed)"
    unfolding failure_codes_def sorted_codes_strs [symmetric] by simp
  moreover have "result_post_init (mk_result FAILED_VERIFICATION (failure_codes failed) VALID) = Inr ()"
    using assms(3,5) by (auto simp: post_init_mk_result codes_fit_def failure_codes_def sorted_set_idem)
  ultimately show ?thesis
    using assms(1,2) by (simp add: reduce_verification_def reduce_choice_VALID mk_result_def Let_def)
qed

lemma reduce_fail_unfit:
  assumes "list_all is_observation_status obs" "OBS_FAIL \<in> set obs"
    "\<forall>s \<in> set failed. normalized s" "failed = sorted_set failed" "\<not> codes_fit failed"
  shows "\<exists>m. reduce_verification (Some VALID) (PTuple obs) (PTuple (map PStr failed)) = Inl (ValueErr, m)"
proof (cases "\<forall>s \<in> set failed. code_ok s")
  case True
  have "validate_reasons (PTuple (map PStr failed)) = Inr ()"
    using True assms(4) by (simp add: validate_reasons_strs)
  moreover have "obs \<noteq> []" using assms(2) by auto
  moreover have codes: "sorted_codes (map PStr failed @ map PStr [''VERIFIER_FAILED'']) = map PStr (failure_codes failed)"
    unfolding failure_codes_def sorted_codes_strs [symmetric] by simp
  moreover have "\<not> length (failure_codes failed) \<le> 64"
    using True assms(5) by (auto simp: codes_fit_def code_ok_def list_all_iff)
  ultimately show ?thesis
    using assms(1,2)
    by (simp add: reduce_verification_def reduce_choice_VALID Let_def result_post_init_def)
next
  case False
  have "efor (map PStr failed) (\<lambda>c. guard (bounded_code c) ValueErr m) = Inl (ValueErr, m)" for m
    using False by (induction failed) (auto simp: guard_def)
  then show ?thesis by (simp add: reduce_verification_def validate_reasons_def)
qed

section \<open>What verification returns\<close>

definition required_ids :: "acceptance_contract \<Rightarrow> string list" where
  "required_ids c = strs (ac_required_verifier_ids c)"

definition observed_ids :: "evidence_bundle \<Rightarrow> string list" where
  "observed_ids e = map (\<lambda>ob. str_of (ob_verifier_id ob)) (the_obs e)"

text \<open>The change set stays inside the allowed paths; contract, plan and evidence name the same
  verifiers; the verifiers the contract requires that did not pass.\<close>

definition in_scope :: "acceptance_contract \<Rightarrow> change_set \<Rightarrow> bool" where
  "in_scope c cs \<longleftrightarrow> set (strs (cs_paths cs)) \<subseteq> set (strs (ac_allowed_paths c))"

definition covered :: "acceptance_contract \<Rightarrow> verification_plan \<Rightarrow> evidence_bundle \<Rightarrow> bool" where
  "covered c p e \<longleftrightarrow> set (required_ids c) = set (strs (vp_required_verifier_ids p)) \<and>
     set (observed_ids e) = set (strs (vp_required_verifier_ids p))"

definition failing :: "acceptance_contract \<Rightarrow> evidence_bundle \<Rightarrow> string list" where
  "failing c e = sort (filter (\<lambda>x. obs_status (the_obs e) x \<noteq> OBS_PASS) (required_ids c))"

lemma obs_lookup_None: "obs_lookup obs x = None \<longleftrightarrow> x \<notin> set (map (\<lambda>ob. str_of (ob_verifier_id ob)) obs)"
  by (auto simp: obs_lookup_def find_None_iff)

lemma obs_lookup_in: "obs_lookup obs x = Some ob \<Longrightarrow> ob \<in> set obs \<and> str_of (ob_verifier_id ob) = x"
  by (auto simp: obs_lookup_def find_Some_iff) (metis length_rev nth_mem set_rev)

lemma wf_observation_status: "wf_observation x \<Longrightarrow> is_observation_status (ob_status x)"
  by (auto simp: wf_observation_def is_observation_status_def)

lemma contract_required:
  "contract_errs c = [] \<Longrightarrow> distinct (required_ids c) \<and> required_ids c \<noteq> [] \<and> (\<forall>s \<in> set (required_ids c). normalized s)"
  by (auto simp: contract_errs_Nil required_ids_def strs_def)

lemma normalized_code_ok: "normalized s \<Longrightarrow> length s \<le> 128 \<Longrightarrow> code_ok s"
  by (simp add: normalized_def code_ok_def)

lemma sort_Nil_iff: "sort xs = [] \<longleftrightarrow> xs = []"
  by (metis length_0_conv length_sort)

lemma judge_eq:
  assumes c: "contract_errs c = []" and e: "evidence_errs e = []"
  shows "judge c cs p e =
    (if \<not> in_scope c cs then Inr (mk_result FAILED_VERIFICATION [''SCOPE_ESCAPE''] VALID)
     else if \<not> covered c p e then Inr (mk_result UNVERIFIABLE [''MISSING''] MISSING)
     else reduce_verification (Some VALID) (PTuple (map (obs_status (the_obs e)) (required_ids c)))
            (PTuple (map PStr (failing c e))))"
proof -
  have st: "list_all (\<lambda>ob. is_observation_status (ob_status ob)) (the_obs e)"
    using evidence_errs_obs [OF e] wf_observation_status by (simp add: list_all_iff)
  have ne: "the_obs e \<noteq> []" using e by (auto simp: evidence_errs_Nil)
  have scope: "list_all (List.member (strs (ac_allowed_paths c))) (strs (cs_paths cs)) \<longleftrightarrow> in_scope c cs"
    by (auto simp: in_scope_def list_all_iff)
  have cov: "(set (strs (ac_required_verifier_ids c)) \<noteq> set (strs (vp_required_verifier_ids p)) \<or>
      set (map (\<lambda>ob. str_of (ob_verifier_id ob)) (the_obs e)) \<noteq> set (strs (vp_required_verifier_ids p))) \<longleftrightarrow>
      \<not> covered c p e"
    by (auto simp: covered_def required_ids_def observed_ids_def)
  have miss: "filter (\<lambda>x. obs_lookup (the_obs e) x = None \<or> \<not> List.member (strs (vp_required_verifier_ids p)) x)
      (strs (ac_required_verifier_ids c)) = []" if "covered c p e"
    using that unfolding covered_def observed_ids_def required_ids_def
    by (auto simp: filter_empty_conv obs_lookup_None)
  show ?thesis
    unfolding judge_def Let_def scope
    using cov st ne miss
    by (simp add: reduce0_eq failing_def required_ids_def del: set_map) metis
qed

lemma obs_status_cases:
  assumes "evidence_errs e = []" "covered c p e" "x \<in> set (required_ids c)"
  shows "is_observation_status (obs_status (the_obs e) x)"
proof -
  have "obs_lookup (the_obs e) x \<noteq> None"
    using assms(2,3) unfolding obs_lookup_None covered_def observed_ids_def by auto
  then obtain ob where "obs_lookup (the_obs e) x = Some ob" by auto
  then show ?thesis
    using obs_lookup_in evidence_errs_obs [OF assms(1)] wf_observation_status by (fastforce simp: obs_status_def)
qed

theorem verify_valid:
  assumes v: "derive_evidence_integrity (Obj c) (Obj cs) (Obj p) (Obj e) = Inr VALID"
  shows "\<not> in_scope c cs \<Longrightarrow> verify (Obj c) (Obj cs) (Obj p) (Obj e) =
      Inr (mk_result FAILED_VERIFICATION [''SCOPE_ESCAPE''] VALID)"
    and "in_scope c cs \<Longrightarrow> \<not> covered c p e \<Longrightarrow> verify (Obj c) (Obj cs) (Obj p) (Obj e) =
      Inr (mk_result UNVERIFIABLE [''MISSING''] MISSING)"
    and "in_scope c cs \<Longrightarrow> covered c p e \<Longrightarrow> failing c e = [] \<Longrightarrow>
      verify (Obj c) (Obj cs) (Obj p) (Obj e) = Inr (mk_result VERIFIED [] VALID)"
    and "in_scope c cs \<Longrightarrow> covered c p e \<Longrightarrow> failing c e \<noteq> [] \<Longrightarrow> codes_fit (failing c e) \<Longrightarrow>
      verify (Obj c) (Obj cs) (Obj p) (Obj e) = Inr (mk_result FAILED_VERIFICATION (failure_codes (failing c e)) VALID)"
    and "in_scope c cs \<Longrightarrow> covered c p e \<Longrightarrow> failing c e \<noteq> [] \<Longrightarrow> \<not> codes_fit (failing c e) \<Longrightarrow>
      \<exists>m. verify (Obj c) (Obj cs) (Obj p) (Obj e) = Inl (ValueErr, m)"
proof -
  have c: "contract_errs c = []" and e: "evidence_errs e = []"
    and s: "validate_evidence_subjects (Obj c) (Obj cs) (Obj p) (Obj e) = []"
    using v by (auto simp: derive_VALID_iff subjects_valid_iff)
  have eq: "verify (Obj c) (Obj cs) (Obj p) (Obj e) = judge c cs p e"
    using v s by (simp add: verify_def)
  show "\<not> in_scope c cs \<Longrightarrow> verify (Obj c) (Obj cs) (Obj p) (Obj e) =
      Inr (mk_result FAILED_VERIFICATION [''SCOPE_ESCAPE''] VALID)"
    "in_scope c cs \<Longrightarrow> \<not> covered c p e \<Longrightarrow> verify (Obj c) (Obj cs) (Obj p) (Obj e) =
      Inr (mk_result UNVERIFIABLE [''MISSING''] MISSING)"
    by (simp_all add: eq judge_eq [OF c e])
  assume sc: "in_scope c cs" "covered c p e"
  let ?obs = "map (obs_status (the_obs e)) (required_ids c)"
  have jd: "judge c cs p e = reduce_verification (Some VALID) (PTuple ?obs) (PTuple (map PStr (failing c e)))"
    using sc by (simp add: judge_eq [OF c e])
  have all: "list_all is_observation_status ?obs"
    using obs_status_cases [OF e sc(2)] by (simp add: list_all_iff)
  have sorted: "failing c e = sorted_set (failing c e)"
    using contract_required [OF c] by (simp add: failing_def sorted_set_id)
  have norm: "\<forall>s \<in> set (failing c e). normalized s" using contract_required [OF c] by (auto simp: failing_def)
  have fail: "OBS_FAIL \<in> set ?obs" if ne: "failing c e \<noteq> []"
  proof -
    obtain x where "x \<in> set (failing c e)" using ne by (meson list.set_sel(1))
    then have "x \<in> set (required_ids c)" "obs_status (the_obs e) x \<noteq> OBS_PASS" by (auto simp: failing_def)
    then show ?thesis
      using obs_status_cases [OF e sc(2)] by (force simp: is_observation_status_def)
  qed
  show "verify (Obj c) (Obj cs) (Obj p) (Obj e) = Inr (mk_result VERIFIED [] VALID)" if f: "failing c e = []"
  proof -
    have "filter (\<lambda>x. obs_status (the_obs e) x \<noteq> OBS_PASS) (required_ids c) = []"
      using f unfolding failing_def sort_Nil_iff .
    then have "\<forall>x \<in> set ?obs. x = OBS_PASS" by (auto simp: filter_empty_conv)
    then show ?thesis using contract_required [OF c] f by (simp add: eq jd reduce_pass)
  qed
  show "verify (Obj c) (Obj cs) (Obj p) (Obj e) = Inr (mk_result FAILED_VERIFICATION (failure_codes (failing c e)) VALID)"
    if "failing c e \<noteq> []" "codes_fit (failing c e)"
  proof -
    have "\<forall>s \<in> set (failing c e). code_ok s"
      using norm that(2) normalized_code_ok by (auto simp: codes_fit_def list_all_iff)
    then show ?thesis
      unfolding eq jd using all fail that sorted by (intro reduce_fail) auto
  qed
  show "\<exists>m. verify (Obj c) (Obj cs) (Obj p) (Obj e) = Inl (ValueErr, m)"
    if "failing c e \<noteq> []" "\<not> codes_fit (failing c e)"
    unfolding eq jd using all fail that sorted norm by (intro reduce_fail_unfit) auto
qed

lemma ladder_not_scope: "integrity_ladder p e ch csh ph eh \<noteq> SCOPE_ESCAPE"
  by (simp add: integrity_ladder_def)

lemma integrity_not_scope: "derive_evidence_integrity c cs p e \<noteq> Inr SCOPE_ESCAPE"
proof (cases "validate_evidence_subjects c cs p e = []")
  case True
  then obtain c' cs' p' e' where eq: "c = Obj c'" "cs = Obj cs'" "p = Obj p'" "e = Obj e'"
    by (auto simp: subjects_valid_iff)
  show ?thesis
    using True unfolding eq by (rule derive_wf) (simp add: ladder_not_scope)
qed (simp add: derive_invalid)

theorem verify_not_valid:
  assumes "derive_evidence_integrity c cs p e = Inr st" "st \<noteq> VALID"
  shows "verify c cs p e = Inr (mk_result UNVERIFIABLE [integrity_value st] st)"
proof (cases "validate_evidence_subjects c cs p e = []")
  case True
  then show ?thesis using assms integrity_not_scope by (auto simp: verify_def reduce0_eq)
next
  case False
  then have "st = MALFORMED" using assms by (simp add: derive_invalid)
  then show ?thesis using False by (simp add: verify_def reduce0_eq)
qed

end
