(* ===== verification/Certification.thy ===== *)
theory Certification
  imports Verification
begin

text \<open>
  \<open>product/certification/__init__.py\<close>: the certification policy and \<open>certify_result\<close>, the reducer
  from a verification result and a policy to a disposition.
\<close>

datatype disposition = CERTIFIED | REJECTED | BLOCKED

fun disposition_value :: "disposition \<Rightarrow> string" where
  "disposition_value CERTIFIED = ''CERTIFIED''"
| "disposition_value REJECTED = ''REJECTED''"
| "disposition_value BLOCKED = ''BLOCKED''"

record policy =
  accepted :: pyval
  authority_present :: pyval
  approval_present :: pyval
  signing_present :: pyval

definition policy_fields :: "policy \<Rightarrow> pyval list" where
  "policy_fields po = [accepted po, authority_present po, approval_present po, signing_present po]"

text \<open>The well-formedness \<open>certify_result\<close> rechecks on a result's reason codes.\<close>

definition codes_wf :: "pyval \<Rightarrow> bool" where
  "codes_wf v \<longleftrightarrow> is_tuple v \<and>
     list_all (\<lambda>c. isinstance_str c \<and> str_of c \<noteq> [] \<and> str_of c = strip (str_of c)) (elems v) \<and>
     distinct (map str_of (elems v)) \<and> sorted (map str_of (elems v))"

definition certify_result :: "verification_result obj \<Rightarrow> policy \<Rightarrow> disposition" where
  "certify_result result po =
     (case result of
        Obj r \<Rightarrow>
          if \<not> is_reduced_result result then BLOCKED
          else if vr_status r = None then BLOCKED
          else if vr_integrity r = None then BLOCKED
          else if \<not> codes_wf (vr_reason_codes r) then BLOCKED
          else if vr_status r = Some VERIFIED \<and>
                  (vr_integrity r \<noteq> Some VALID \<or> elems (vr_reason_codes r) \<noteq> []) then BLOCKED
          else if vr_integrity r \<noteq> Some VALID \<and> vr_status r \<noteq> Some UNVERIFIABLE then BLOCKED
          else if vr_status r = Some FAILED_VERIFICATION \<or> vr_integrity r = Some TAMPERED then REJECTED
          else if vr_status r = Some UNVERIFIABLE then
            (if List.member [Some TAMPERED, Some MALFORMED, Some CROSS_BOUND, Some DUPLICATE] (vr_integrity r)
             then REJECTED else BLOCKED)
          else if accepted po = PBool False then REJECTED
          else if list_ex (\<lambda>v. v \<noteq> PBool True) (policy_fields po) then BLOCKED
          else CERTIFIED
      | _ \<Rightarrow> BLOCKED)"

section \<open>The disposition of a reduced result\<close>

definition fully_approved :: "policy \<Rightarrow> bool" where
  "fully_approved po \<longleftrightarrow> list_all (\<lambda>v. v = PBool True) (policy_fields po)"

lemma certified_iff:
  "certify_result x po = CERTIFIED \<longleftrightarrow>
     (\<exists>r. x = Obj r \<and> vr_registered r \<and> vr_status r = Some VERIFIED \<and> vr_integrity r = Some VALID \<and>
        vr_reason_codes r = PTuple []) \<and> fully_approved po"
proof (cases x)
  case (Obj r)
  have "codes_wf v \<and> elems v = [] \<longleftrightarrow> v = PTuple []" for v
    by (cases v) (auto simp: codes_wf_def is_tuple_def)
  then show ?thesis
    by (cases "vr_status r"; cases "the (vr_status r)")
      (auto simp: Obj certify_result_def is_reduced_result_def fully_approved_def policy_fields_def)
qed (simp_all add: certify_result_def)

text \<open>A result the reducer made is judged by its status, its integrity and the policy alone.\<close>

lemma codes_wf_strs:
  "(\<forall>s \<in> set ss. code_ok s) \<Longrightarrow> ss = sorted_set ss \<Longrightarrow> codes_wf (PTuple (map PStr ss))"
  by (auto simp: codes_wf_def list_all_iff code_ok_def o_def)
    (metis distinct_sorted_set, metis sorted_sorted_set)

lemma certify_reduced:
  assumes "result_post_init (mk_result st codes i) = Inr ()"
  shows "certify_result (Obj (mk_result st codes i)) po =
    (case st of
       FAILED_VERIFICATION \<Rightarrow> REJECTED
     | UNVERIFIABLE \<Rightarrow> (if i \<in> {TAMPERED, MALFORMED, CROSS_BOUND, DUPLICATE} then REJECTED else BLOCKED)
     | VERIFIED \<Rightarrow> (if accepted po = PBool False then REJECTED
                    else if fully_approved po then CERTIFIED else BLOCKED))"
proof -
  have "codes_wf (PTuple (map PStr codes))"
    using assms codes_wf_strs unfolding post_init_mk_result by blast
  then show ?thesis
    using assms unfolding post_init_mk_result
    by (cases st) (auto simp: certify_result_def is_reduced_result_def mk_result_def fully_approved_def
        policy_fields_def)
qed

end
