(* ===== verification/Receipt.thy ===== *)
theory Receipt
  imports Certification
begin

text \<open>
  \<open>product/certification/receipt.py\<close>: the certification receipt, its factory with the sealed
  invariant, canonical body, hash and serialiser, the strict JSON check, the envelope validator
  and the certification result.

  The \<open>verification\<close>, \<open>disposition\<close> and \<open>policy\<close> fields hold an instance of their class or a foreign
  value (\<open>WrongType\<close>, \<open>None\<close>); reading an attribute of a foreign value raises \<open>AttributeError\<close>.
\<close>

section \<open>Constants\<close>

definition CLAIM_CEILING :: "string list" where
  "CLAIM_CEILING = [''NO_MERGE_AUTHORIZATION'', ''NO_DEPLOYMENT_TRUTH'', ''NO_OUTCOME_TRUTH'',
     ''NO_PRODUCTION_READINESS'', ''NO_PUBLIC_PROTOCOL_STABILITY'']"

definition VERIFICATION_STATUSES :: "string list" where
  "VERIFICATION_STATUSES = [''VERIFIED'', ''FAILED_VERIFICATION'', ''UNVERIFIABLE'']"

definition INTEGRITY_STATUSES :: "string list" where
  "INTEGRITY_STATUSES = [''VALID'', ''SCOPE_ESCAPE'', ''MISSING'', ''STALE'', ''TAMPERED'', ''MALFORMED'',
     ''CROSS_BOUND'', ''DUPLICATE'', ''LEGACY_NON_CERTIFIABLE'']"

definition PUBLIC_PROTOCOL_VERSION :: string where
  "PUBLIC_PROTOCOL_VERSION = ''0.1.0-experimental''"

definition IMPLEMENTATION_SCHEMA :: string where
  "IMPLEMENTATION_SCHEMA = ''nexus.changeset_certification.v2''"

definition CERTIFICATION_RECEIPT_SCHEMA :: string where
  "CERTIFICATION_RECEIPT_SCHEMA = ''nexus.certification_receipt.v1-experimental''"

section \<open>Strict JSON values\<close>

lemma efor_cong [fundef_cong]:
  "xs = ys \<Longrightarrow> (\<And>x. x \<in> set ys \<Longrightarrow> f x = g x) \<Longrightarrow> efor xs f = efor ys g"
  by (induction xs arbitrary: ys) auto

definition isfinite :: "pyfloat \<Rightarrow> bool" where
  "isfinite f \<longleftrightarrow> f \<noteq> FPosInf \<and> f \<noteq> FNegInf \<and> f \<noteq> FNaN"

function strict_json :: "pyval \<Rightarrow> unit res" where
  "strict_json PNone = Inr ()"
| "strict_json (PStr s) = Inr ()"
| "strict_json (PBool b) = Inr ()"
| "strict_json (PInt i) = Inr ()"
| "strict_json (PFloat f) = guard (isfinite f) ValueErr ''non-finite value''"
| "strict_json (PList xs) = efor xs strict_json"
| "strict_json (PTuple xs) = efor xs strict_json"
| "strict_json (PDict d) = efor d (\<lambda>p.
     eseq (guard (is_str (fst p)) TypeErr ''object keys must be strings'') (strict_json (snd p)))"
| "strict_json (PBytes s) = Inl (TypeErr, ''unsupported value'')"
| "strict_json (PEnum c s) = Inl (TypeErr, ''unsupported value'')"
| "strict_json (PObject c) = Inl (TypeErr, ''unsupported value'')"
  by pat_completeness auto
termination
proof (relation "measure size")
  show "wf (measure size)" by simp
next
  fix xs x assume "x \<in> set (xs :: pyval list)"
  then show "(x, PList xs) \<in> measure size"
    by (auto dest: size_list_estimation' [where f = size and y = "size x"])
next
  fix xs x assume "x \<in> set (xs :: pyval list)"
  then show "(x, PTuple xs) \<in> measure size"
    by (auto dest: size_list_estimation' [where f = size and y = "size x"])
next
  fix d and p :: "pyval \<times> pyval" assume "p \<in> set d"
  then have "size_prod size size p \<le> size_list (size_prod size size) d"
    by (auto intro: size_list_estimation')
  then show "(snd p, PDict d) \<in> measure size"
    by (cases p) auto
qed

section \<open>Receipts\<close>

record receipt =
  rc_acceptance_contract_hash :: pyval
  rc_change_set_hash :: pyval
  rc_verification_plan_hash :: pyval
  rc_evidence_hash :: pyval
  rc_verification :: "verification_result obj"
  rc_disposition :: "disposition option"
  rc_policy :: "policy obj"
  rc_claim_ceiling :: pyval
  rc_protocol_version :: pyval
  rc_implementation_schema :: pyval
  rc_claimed_receipt_hash :: pyval

definition ceiling_tuple :: pyval where
  "ceiling_tuple = PTuple (map PStr CLAIM_CEILING)"

definition policy_valid :: "policy obj \<Rightarrow> bool" where
  "policy_valid x \<longleftrightarrow> (case x of Obj po \<Rightarrow> list_all (\<lambda>v. v = PNone \<or> is_bool v) (policy_fields po)
     | _ \<Rightarrow> False)"

text \<open>\<open>certifier(fields["verification"], fields["policy"])\<close>, the policy being valid.\<close>

definition certify_obj :: "verification_result obj \<Rightarrow> policy obj \<Rightarrow> disposition" where
  "certify_obj v x = (case x of Obj po \<Rightarrow> certify_result v po | _ \<Rightarrow> BLOCKED)"

definition require_receipt_hashes :: "receipt \<Rightarrow> unit res" where
  "require_receipt_hashes r =
     eseq (require_hash (rc_acceptance_contract_hash r) ''acceptance_contract_hash'')
    (eseq (require_hash (rc_change_set_hash r) ''change_set_hash'')
    (eseq (require_hash (rc_verification_plan_hash r) ''verification_plan_hash'')
          (require_hash (rc_evidence_hash r) ''evidence_hash'')))"

definition require_claimed :: "pyval \<Rightarrow> unit res" where
  "require_claimed v = (if v \<noteq> PNone then require_hash v ''claimed_receipt_hash'' else Inr ())"

definition reducer_produced :: "verification_result obj \<Rightarrow> unit res" where
  "reducer_produced v = guard (is_exact v \<and> is_reduced_result v) TypeErr
     ''verification must be reducer-produced VerificationResult''"

text \<open>\<open>Receipt.__post_init__\<close> and the sealed invariant the factory runs.\<close>

definition receipt_post_init :: "receipt \<Rightarrow> unit res" where
  "receipt_post_init r =
     eseq (require_receipt_hashes r)
    (eseq (reducer_produced (rc_verification r))
    (eseq (guard (rc_disposition r \<noteq> None) TypeErr ''disposition must be CertificationDisposition'')
    (eseq (guard (policy_valid (rc_policy r)) TypeErr ''policy fields must be bool or None'')
    (eseq (guard (py_eq (rc_claim_ceiling r) ceiling_tuple) ValueErr ''claim_ceiling must equal CLAIM_CEILING'')
    (eseq (guard (py_eq (rc_protocol_version r) (PStr PUBLIC_PROTOCOL_VERSION)) ValueErr
             ''protocol_version must equal PUBLIC_PROTOCOL_VERSION'')
    (eseq (guard (py_eq (rc_implementation_schema r) (PStr IMPLEMENTATION_SCHEMA)) ValueErr
             ''implementation_schema must equal IMPLEMENTATION_SCHEMA'')
    (eseq (guard (Some (certify_obj (rc_verification r) (rc_policy r)) = rc_disposition r) ValueErr
             ''disposition must match reducer'')
          (require_claimed (rc_claimed_receipt_hash r)))))))))"

definition receipt_invariant :: "receipt \<Rightarrow> unit res" where
  "receipt_invariant r =
     eseq (require_receipt_hashes r)
    (eseq (reducer_produced (rc_verification r))
    (eseq (guard (rc_disposition r \<noteq> None \<and> policy_valid (rc_policy r)) TypeErr
             ''invalid receipt certification fields'')
    (eseq (guard (py_eq (rc_claim_ceiling r) ceiling_tuple \<and>
               py_eq (rc_protocol_version r) (PStr PUBLIC_PROTOCOL_VERSION) \<and>
               py_eq (rc_implementation_schema r) (PStr IMPLEMENTATION_SCHEMA)) ValueErr
             ''receipt constants do not match'')
    (eseq (guard (Some (certify_obj (rc_verification r) (rc_policy r)) = rc_disposition r) ValueErr
             ''disposition must match reducer'')
          (require_claimed (rc_claimed_receipt_hash r))))))"

text \<open>\<open>list(v)\<close>.\<close>

definition py_list :: "pyval \<Rightarrow> pyval list res" where
  "py_list v = (case v of
      PTuple xs \<Rightarrow> Inr xs | PList xs \<Rightarrow> Inr xs | PDict d \<Rightarrow> Inr (map fst d)
    | PStr s \<Rightarrow> Inr (map (\<lambda>c. PStr [c]) s) | PEnum _ s \<Rightarrow> Inr (map (\<lambda>c. PStr [c]) s)
    | PBytes s \<Rightarrow> Inr (map (\<lambda>c. PInt (of_char c)) s)
    | _ \<Rightarrow> Inl (TypeErr, ''object is not iterable''))"

definition enum_value :: "('a \<Rightarrow> string) \<Rightarrow> 'a option \<Rightarrow> pyval res" where
  "enum_value f x = (case x of None \<Rightarrow> Inl (AttributeErr, ''value'') | Some a \<Rightarrow> Inr (PStr (f a)))"

definition verification_body :: "verification_result obj \<Rightarrow> pyval res" where
  "verification_body v = (case v of
      Obj r \<Rightarrow> ebind (enum_value verification_value (vr_status r)) (\<lambda>st.
               ebind (enum_value integrity_value (vr_integrity r)) (\<lambda>i.
               ebind (py_list (vr_reason_codes r)) (\<lambda>codes.
                 Inr (mkdict [(''status'', st), (''condition'', i), (''reason_codes'', PList codes)]))))
    | _ \<Rightarrow> Inl (AttributeErr, ''verification''))"

definition policy_names :: "string list" where
  "policy_names = [''accepted'', ''authority_present'', ''approval_present'', ''signing_present'']"

definition policy_dict :: "policy \<Rightarrow> pyval" where
  "policy_dict po = mkdict (zip policy_names (policy_fields po))"

definition certification_body :: "disposition option \<Rightarrow> policy obj \<Rightarrow> pyval res" where
  "certification_body d x =
     ebind (enum_value disposition_value d) (\<lambda>dv.
       case x of Obj po \<Rightarrow> Inr (mkdict [(''disposition'', dv), (''policy'', policy_dict po)])
       | _ \<Rightarrow> Inl (AttributeErr, ''policy''))"

text \<open>The sealed receipt body (\<open>canonical_value\<close>), the receipt hash and the serialiser.\<close>

definition receipt_body :: "receipt \<Rightarrow> (string \<times> pyval) list res" where
  "receipt_body r =
     ebind (verification_body (rc_verification r)) (\<lambda>v.
     ebind (certification_body (rc_disposition r) (rc_policy r)) (\<lambda>c.
     ebind (py_list (rc_claim_ceiling r)) (\<lambda>ceiling.
       Inr [(''receipt_schema'', PStr CERTIFICATION_RECEIPT_SCHEMA),
            (''protocol_version'', rc_protocol_version r),
            (''implementation_schema'', rc_implementation_schema r),
            (''acceptance_contract_hash'', rc_acceptance_contract_hash r),
            (''change_set_hash'', rc_change_set_hash r),
            (''verification_plan_hash'', rc_verification_plan_hash r),
            (''evidence_hash'', rc_evidence_hash r),
            (''verification'', v),
            (''certification'', c),
            (''claim_ceiling'', PList ceiling)])))"

definition receipt_core_hash :: "receipt \<Rightarrow> string res" where
  "receipt_core_hash r = ebind (receipt_body r) (\<lambda>b. hash_value (mkdict b))"

definition serialize_receipt :: "receipt \<Rightarrow> pyval res" where
  "serialize_receipt r = ebind (receipt_body r) (\<lambda>b. ebind (hash_value (mkdict b)) (\<lambda>h.
     Inr (mkdict (b @ [(''receipt_hash'', PStr h)]))))"

text \<open>\<open>Receipt.to_dict\<close> and \<open>Receipt.validate\<close>; \<open>WrongFields\<close> is an instance with other fields.\<close>

definition receipt_to_dict :: "receipt obj \<Rightarrow> pyval res" where
  "receipt_to_dict x = (case x of
      Obj r \<Rightarrow>
        ebind (if rc_claimed_receipt_hash r \<noteq> PNone then receipt_core_hash r else Inr []) (\<lambda>h.
          if claim_differs (rc_claimed_receipt_hash r) h
          then Inl (ValueErr, ''claimed_receipt_hash does not match computed hash'')
          else serialize_receipt r)
    | _ \<Rightarrow> Inl (ValueErr, ''receipt fields do not match sealed fields''))"

definition receipt_validate :: "receipt obj \<Rightarrow> bool res" where
  "receipt_validate x = (case x of
      Obj r \<Rightarrow> if rc_claimed_receipt_hash r = PNone then Inr True
               else ebind (receipt_core_hash r) (\<lambda>h. Inr (py_eq (rc_claimed_receipt_hash r) (PStr h)))
    | _ \<Rightarrow> Inr False)"

definition receipt_options :: "string list" where
  "receipt_options = [''claim_ceiling'', ''protocol_version'', ''implementation_schema'', ''claimed_receipt_hash'']"

definition create_receipt ::
  "pyval \<Rightarrow> pyval \<Rightarrow> pyval \<Rightarrow> pyval \<Rightarrow> verification_result obj \<Rightarrow> disposition option \<Rightarrow> policy obj \<Rightarrow> pydict
   \<Rightarrow> receipt res" where
  "create_receipt ch csh ph eh verification disp po options =
     (if list_ex (\<lambda>p. \<not> List.member receipt_options (str_of (fst p))) options
      then Inl (TypeErr, ''unexpected receipt options'')
      else (let r = \<lparr>rc_acceptance_contract_hash = ch, rc_change_set_hash = csh,
              rc_verification_plan_hash = ph, rc_evidence_hash = eh, rc_verification = verification,
              rc_disposition = disp, rc_policy = po,
              rc_claim_ceiling = get_default options ''claim_ceiling'' ceiling_tuple,
              rc_protocol_version = get_default options ''protocol_version'' (PStr PUBLIC_PROTOCOL_VERSION),
              rc_implementation_schema = get_default options ''implementation_schema'' (PStr IMPLEMENTATION_SCHEMA),
              rc_claimed_receipt_hash = get_default options ''claimed_receipt_hash'' PNone\<rparr>
            in eseq (receipt_invariant r) (Inr r)))"

section \<open>The receipt envelope\<close>

text \<open>\<open>except (TypeError, ValueError)\<close>, and with \<open>OverflowError\<close> added.\<close>

definition type_or_value :: "exn \<Rightarrow> bool" where
  "type_or_value c \<longleftrightarrow> c = TypeErr \<or> is_value_error c"

definition catch :: "(exn \<Rightarrow> bool) \<Rightarrow> 'a \<Rightarrow> 'a res \<Rightarrow> 'a res" where
  "catch P d r = (case r of Inl e \<Rightarrow> if P (fst e) then Inr d else Inl e | Inr a \<Rightarrow> Inr a)"

definition receipt_hash_errs :: "pydict \<Rightarrow> string list res" where
  "receipt_hash_errs d =
     (if isinstance_str (get d ''receipt_hash'') then
        catch type_or_value [''TAMPERED:receipt_hash'']
          (eseq (require_hash (get d ''receipt_hash'') ''receipt_hash'')
            (ebind (hash_value (PDict (without_key d ''receipt_hash''))) (\<lambda>h.
               Inr (if \<not> py_eq (get d ''receipt_hash'') (PStr h) then [''TAMPERED:receipt_hash''] else []))))
      else Inr [])"

definition stale_if :: "bool \<Rightarrow> string \<Rightarrow> string list" where
  "stale_if b name = (if b then [''STALE:'' @ name] else [])"

definition receipt_field_errs :: "pydict \<Rightarrow> string \<Rightarrow> string list" where
  "receipt_field_errs d field =
     (if \<not> isinstance_str (get d field) then [malformed field]
      else err_if (field \<noteq> ''receipt_hash'' \<and> raises (require_hash (get d field) field)) field)"

definition receipt_hash_fields :: "string list" where
  "receipt_hash_fields = [''acceptance_contract_hash'', ''change_set_hash'', ''verification_plan_hash'',
     ''evidence_hash'', ''receipt_hash'']"

definition verification_errs :: "pyval \<Rightarrow> string list res" where
  "verification_errs v =
     (let d = items v; codes = get d ''reason_codes'' in
      if \<not> is_dict v \<or> \<not> keys_are d [''status'', ''condition'', ''reason_codes'']
      then Inr [malformed ''verification'']
      else ebind (in_strs (get d ''status'') VERIFICATION_STATUSES) (\<lambda>s.
        if \<not> s then Inr [malformed ''verification'']
        else ebind (in_strs (get d ''condition'') INTEGRITY_STATUSES) (\<lambda>i.
          Inr (err_if (\<not> i \<or> \<not> is_list codes \<or> \<not> list_all is_str (elems codes) \<or>
                 map str_of (elems codes) \<noteq> sorted_set (map str_of (elems codes))) ''verification''))))"

definition certification_errs :: "pyval \<Rightarrow> string list res" where
  "certification_errs v =
     (let d = items v; po = get d ''policy'' in
      if \<not> is_dict v \<or> \<not> keys_are d [''disposition'', ''policy''] then Inr [malformed ''certification'']
      else ebind (in_strs (get d ''disposition'') (map disposition_value [CERTIFIED, REJECTED, BLOCKED])) (\<lambda>b.
        Inr (err_if (\<not> b) ''disposition'' @
             err_if (\<not> is_dict po \<or> \<not> keys_are (items po) policy_names \<or>
               list_ex (\<lambda>p. snd p \<noteq> PNone \<and> \<not> is_bool (snd p)) (items po)) ''policy'')))"

definition receipt_envelope_body :: "pydict \<Rightarrow> receipt obj \<Rightarrow> string list res" where
  "receipt_envelope_body d expected =
     eseq (strict_json (PDict d))
    (ebind (case expected of Obj r \<Rightarrow> serialize_receipt r
            | _ \<Rightarrow> Inl (ValueErr, ''receipt fields do not match sealed fields'')) (\<lambda>ser.
     ebind (receipt_hash_errs d) (\<lambda>he.
     ebind (verification_errs (get d ''verification'')) (\<lambda>ve.
     ebind (certification_errs (get d ''certification'')) (\<lambda>ce.
       let errors =
         err_if (\<not> keys_are d (map (\<lambda>p. str_of (fst p)) (items ser))) ''keys'' @ he @
         stale_if (\<not> py_eq (get d ''receipt_schema'') (PStr CERTIFICATION_RECEIPT_SCHEMA)) ''receipt_schema'' @
         stale_if (\<not> py_eq (get d ''protocol_version'') (PStr PUBLIC_PROTOCOL_VERSION)) ''protocol_version'' @
         stale_if (\<not> py_eq (get d ''implementation_schema'') (PStr IMPLEMENTATION_SCHEMA)) ''implementation_schema'' @
         concat (map (receipt_field_errs d) receipt_hash_fields) @ ve @ ce @
         err_if (\<not> py_eq (get d ''claim_ceiling'') (PList (map PStr CLAIM_CEILING))) ''claim_ceiling'' in
       Inr (dict_fromkeys (errors @
         (if errors = [] \<and> \<not> py_eq (PDict d) ser then [''TAMPERED:fields''] else []))))))))"

definition validate_receipt_envelope :: "pyval \<Rightarrow> receipt obj \<Rightarrow> string list res" where
  "validate_receipt_envelope payload expected =
     (if \<not> right_type expected then Inl (TypeErr, ''expected_receipt must be Receipt'')
      else if \<not> is_dict payload then Inr [malformed ''payload'']
      else catch (\<lambda>c. type_or_value c \<or> c = OverflowErr) [malformed ''payload'']
             (receipt_envelope_body (items payload) expected))"

section \<open>Certification results\<close>

record certification_result =
  cr_verification :: "verification_result obj"
  cr_disposition :: "disposition option"
  cr_receipt :: "receipt obj"

text \<open>\<open>receipt.verification != verification\<close> and \<open>certifier(..) is not disposition\<close>.\<close>

definition result_matches :: "verification_result obj \<Rightarrow> disposition option \<Rightarrow> receipt \<Rightarrow> unit res" where
  "result_matches v d r =
     eseq (guard (rc_verification r = v \<and> rc_disposition r = d) ValueErr
             ''certification result must match receipt'')
          (guard (Some (certify_obj v (rc_policy r)) = d) ValueErr ''disposition must match reducer'')"

definition create_certification_result ::
  "verification_result obj \<Rightarrow> disposition option \<Rightarrow> receipt obj \<Rightarrow> certification_result res" where
  "create_certification_result v d x =
     (case x of
        Obj r \<Rightarrow> eseq (result_matches v d r)
          (Inr \<lparr>cr_verification = v, cr_disposition = d, cr_receipt = x\<rparr>)
      | WrongType \<Rightarrow> Inl (TypeErr, ''receipt must be Receipt'')
      | WrongFields \<Rightarrow> Inl (KeyErr, ''verification''))"

definition certification_result_post_init :: "certification_result \<Rightarrow> unit res" where
  "certification_result_post_init x =
     eseq (reducer_produced (cr_verification x))
    (eseq (guard (cr_disposition x \<noteq> None \<and> right_type (cr_receipt x)) TypeErr
             ''invalid certification result types'')
     (case cr_receipt x of
        Obj r \<Rightarrow> result_matches (cr_verification x) (cr_disposition x) r
      | _ \<Rightarrow> Inl (AttributeErr, ''verification'')))"

end
