(* ===== verification/Kernel.thy ===== *)
theory Kernel
  imports Receipt
begin

text \<open>
  \<open>product/kernel/__init__.py\<close>: the certification input and the three kernel operations \<open>certify\<close>,
  \<open>validate_receipt\<close> and \<open>validate_serialized_receipt\<close>.
\<close>

section \<open>Operations\<close>

record certification_input =
  ci_contract :: "acceptance_contract obj"
  ci_change_set :: "change_set obj"
  ci_plan :: "verification_plan obj"
  ci_evidence :: "evidence_bundle obj"
  ci_policy_accepted :: pyval
  ci_authority_present :: pyval
  ci_approval_present :: pyval
  ci_signing_present :: pyval

definition type_err :: "'a obj \<Rightarrow> string \<Rightarrow> string list" where
  "type_err x name = err_if (\<not> right_type x) name"

definition bool_err :: "pyval \<Rightarrow> string \<Rightarrow> string list" where
  "bool_err v name = err_if (v \<noteq> PNone \<and> \<not> is_bool v) name"

definition validate_input :: "certification_input obj \<Rightarrow> string list" where
  "validate_input value =
     (case value of
        Obj i \<Rightarrow> dict_fromkeys
          (validate_evidence_subjects (ci_contract i) (ci_change_set i) (ci_plan i) (ci_evidence i) @
           type_err (ci_contract i) ''contract'' @ type_err (ci_change_set i) ''change_set'' @
           type_err (ci_plan i) ''plan'' @ type_err (ci_evidence i) ''evidence'' @
           bool_err (ci_policy_accepted i) ''policy_accepted'' @
           bool_err (ci_authority_present i) ''authority_present'' @
           bool_err (ci_approval_present i) ''approval_present'' @
           bool_err (ci_signing_present i) ''signing_present'')
      | _ \<Rightarrow> [malformed ''input''])"

definition input_policy :: "certification_input \<Rightarrow> policy" where
  "input_policy i = \<lparr>accepted = ci_policy_accepted i, authority_present = ci_authority_present i,
     approval_present = ci_approval_present i, signing_present = ci_signing_present i\<rparr>"

definition obj_hash :: "('a \<Rightarrow> string res) \<Rightarrow> 'a obj \<Rightarrow> string res" where
  "obj_hash f x = (case x of Obj a \<Rightarrow> f a | _ \<Rightarrow> Inl (AttributeErr, ''hash''))"

definition certify :: "certification_input obj \<Rightarrow> certification_result res" where
  "certify value =
     (if validate_input value \<noteq> []
      then Inl (ValueErr, ''invalid_certification_input:'' @ join '','' (validate_input value))
      else (case value of
        Obj i \<Rightarrow>
          ebind (verify (ci_contract i) (ci_change_set i) (ci_plan i) (ci_evidence i)) (\<lambda>result.
            let policy = input_policy i; disp = certify_result (Obj result) policy in
            ebind (obj_hash contract_hash (ci_contract i)) (\<lambda>ch.
            ebind (obj_hash change_set_hash (ci_change_set i)) (\<lambda>csh.
            ebind (obj_hash plan_hash (ci_plan i)) (\<lambda>ph.
            ebind (obj_hash bundle_hash (ci_evidence i)) (\<lambda>eh.
            ebind (create_receipt (PStr ch) (PStr csh) (PStr ph) (PStr eh) (Obj result) (Some disp)
                     (Obj policy) []) (\<lambda>r.
              create_certification_result (Obj result) (Some disp) (Obj r)))))))
      | _ \<Rightarrow> Inl (ValueErr, ''invalid_certification_input:'')))"

definition validate_receipt :: "receipt obj \<Rightarrow> certification_input obj \<Rightarrow> bool res" where
  "validate_receipt x value =
     (if \<not> right_type x \<or> validate_input value \<noteq> [] then Inr False
      else ebind (certify value) (\<lambda>res.
        case (x, cr_receipt res) of
          (Obj r, Obj expected) \<Rightarrow>
            ebind (receipt_core_hash r) (\<lambda>h. ebind (receipt_core_hash expected) (\<lambda>h'.
              Inr (h = h' \<and> (rc_claimed_receipt_hash r = PNone \<or>
                py_eq (rc_claimed_receipt_hash r) (PStr h)))))
        | _ \<Rightarrow> Inr False))"

definition validate_serialized_receipt :: "pyval \<Rightarrow> certification_input obj \<Rightarrow> string list res" where
  "validate_serialized_receipt payload value =
     (if validate_input value \<noteq> [] then Inr [malformed ''input'']
      else ebind (certify value) (\<lambda>res. validate_receipt_envelope payload (cr_receipt res)))"

section \<open>Validated inputs\<close>

definition policy_ok :: "policy \<Rightarrow> bool" where
  "policy_ok po \<longleftrightarrow> list_all (\<lambda>v. v = PNone \<or> is_bool v) (policy_fields po)"

lemma validate_input_Nil:
  "validate_input value = [] \<longleftrightarrow> (\<exists>i c cs p e. value = Obj i \<and> ci_contract i = Obj c \<and>
     ci_change_set i = Obj cs \<and> ci_plan i = Obj p \<and> ci_evidence i = Obj e \<and>
     validate_evidence_subjects (Obj c) (Obj cs) (Obj p) (Obj e) = [] \<and> policy_ok (input_policy i))"
proof (cases "value")
  case (Obj i)
  have "validate_input (Obj i) = [] \<longleftrightarrow>
      validate_evidence_subjects (ci_contract i) (ci_change_set i) (ci_plan i) (ci_evidence i) = [] \<and>
      right_type (ci_contract i) \<and> right_type (ci_change_set i) \<and> right_type (ci_plan i) \<and>
      right_type (ci_evidence i) \<and> policy_ok (input_policy i)"
    by (simp add: validate_input_def type_err_def bool_err_def policy_ok_def policy_fields_def
        input_policy_def)
  moreover have "\<exists>c cs p e. ci_contract i = Obj c \<and> ci_change_set i = Obj cs \<and> ci_plan i = Obj p \<and> ci_evidence i = Obj e"
    if "validate_evidence_subjects (ci_contract i) (ci_change_set i) (ci_plan i) (ci_evidence i) = []"
    using that by (auto simp: subjects_valid_iff)
  ultimately show ?thesis unfolding Obj by force
qed (simp_all add: validate_input_def)

text \<open>The receipt of a judged input.\<close>

definition receipt_of ::
  "string \<Rightarrow> string \<Rightarrow> string \<Rightarrow> string \<Rightarrow> verification_result \<Rightarrow> policy \<Rightarrow> receipt" where
  "receipt_of ch csh ph eh v po = \<lparr>rc_acceptance_contract_hash = PStr ch, rc_change_set_hash = PStr csh,
     rc_verification_plan_hash = PStr ph, rc_evidence_hash = PStr eh, rc_verification = Obj v,
     rc_disposition = Some (certify_result (Obj v) po), rc_policy = Obj po,
     rc_claim_ceiling = ceiling_tuple, rc_protocol_version = PStr PUBLIC_PROTOCOL_VERSION,
     rc_implementation_schema = PStr IMPLEMENTATION_SCHEMA, rc_claimed_receipt_hash = PNone\<rparr>"

lemma py_eq_ceiling: "py_eq ceiling_tuple ceiling_tuple"
  by (simp add: ceiling_tuple_def CLAIM_CEILING_def)

lemma create_receipt_of:
  assumes "is_sha256 ch" "is_sha256 csh" "is_sha256 ph" "is_sha256 eh" "vr_registered v" "policy_ok po"
  shows "create_receipt (PStr ch) (PStr csh) (PStr ph) (PStr eh) (Obj v)
    (Some (certify_result (Obj v) po)) (Obj po) [] = Inr (receipt_of ch csh ph eh v po)"
proof -
  have "require_receipt_hashes (receipt_of ch csh ph eh v po) = Inr ()"
    using assms(1-4) by (simp add: require_receipt_hashes_def receipt_of_def eseq_Inr_iff require_hash_Inr)
  moreover have "receipt_invariant (receipt_of ch csh ph eh v po) =
      eseq (require_receipt_hashes (receipt_of ch csh ph eh v po)) (Inr ())"
    using assms(5,6) py_eq_ceiling
    by (simp add: receipt_invariant_def receipt_of_def reducer_produced_def is_exact_def is_reduced_result_def
        policy_valid_def policy_ok_def certify_obj_def require_claimed_def)
  moreover have "create_receipt (PStr ch) (PStr csh) (PStr ph) (PStr eh) (Obj v)
      (Some (certify_result (Obj v) po)) (Obj po) [] =
      eseq (receipt_invariant (receipt_of ch csh ph eh v po)) (Inr (receipt_of ch csh ph eh v po))"
    by (simp add: create_receipt_def get_default_def receipt_of_def Let_def)
  ultimately show ?thesis by simp
qed

lemma reduce_registered: "reduce_verification x obs reasons = Inr v \<Longrightarrow> vr_registered v"
  by (cases x) (auto simp: reduce_verification_def ebind_Inr_iff eseq_Inr_iff Let_def)

lemma verify_registered: "verify c cs p e = Inr v \<Longrightarrow> vr_registered v"
  unfolding verify_def judge_def Let_def
  by (auto simp: ebind_Inr_iff intro: reduce_registered split: if_splits obj.splits)

lemma certify_eq:
  assumes "validate_input (Obj i) = []"
    and "ci_contract i = Obj c" "ci_change_set i = Obj cs" "ci_plan i = Obj p" "ci_evidence i = Obj e"
  obtains ch csh ph eh where "contract_hash c = Inr ch" "change_set_hash cs = Inr csh"
    "plan_hash p = Inr ph" "bundle_hash e = Inr eh" "is_sha256 ch" "is_sha256 csh" "is_sha256 ph" "is_sha256 eh"
    "certify (Obj i) = ebind (verify (Obj c) (Obj cs) (Obj p) (Obj e)) (\<lambda>v.
       Inr \<lparr>cr_verification = Obj v, cr_disposition = Some (certify_result (Obj v) (input_policy i)),
            cr_receipt = Obj (receipt_of ch csh ph eh v (input_policy i))\<rparr>)"
proof -
  have errs: "contract_errs c = []" "change_set_errs cs = []" "plan_errs p = []" "evidence_errs e = []"
    and po: "policy_ok (input_policy i)"
    using assms by (auto simp: validate_input_Nil subjects_valid_iff)
  obtain ch csh ph eh where h: "contract_hash c = Inr ch" "is_sha256 ch" "change_set_hash cs = Inr csh"
    "is_sha256 csh" "plan_hash p = Inr ph" "is_sha256 ph" "bundle_hash e = Inr eh" "is_sha256 eh"
    using contract_hash_wf [OF errs(1)] change_set_hash_wf [OF errs(2)] plan_hash_wf [OF errs(3)]
      bundle_hash_wf [OF errs(4)] by blast
  have "certify (Obj i) = ebind (verify (Obj c) (Obj cs) (Obj p) (Obj e)) (\<lambda>v.
       Inr \<lparr>cr_verification = Obj v, cr_disposition = Some (certify_result (Obj v) (input_policy i)),
            cr_receipt = Obj (receipt_of ch csh ph eh v (input_policy i))\<rparr>)"
  proof (cases "verify (Obj c) (Obj cs) (Obj p) (Obj e)")
    case (Inr v)
    then have reg: "vr_registered v" by (rule verify_registered)
    have "create_certification_result (Obj v) (Some (certify_result (Obj v) (input_policy i)))
        (Obj (receipt_of ch csh ph eh v (input_policy i))) = Inr \<lparr>cr_verification = Obj v,
          cr_disposition = Some (certify_result (Obj v) (input_policy i)),
          cr_receipt = Obj (receipt_of ch csh ph eh v (input_policy i))\<rparr>"
      by (simp add: create_certification_result_def result_matches_def receipt_of_def certify_obj_def)
    then show ?thesis
      using Inr assms h create_receipt_of [OF h(2,4,6,8) reg po]
      by (simp add: certify_def obj_hash_def Let_def)
  qed (use assms in \<open>simp add: certify_def\<close>)
  then show ?thesis using that h by blast
qed

end
