(* ===== verification/Kernel_Properties.thy ===== *)
theory Kernel_Properties
  imports Kernel
begin

text \<open>
  Theorems about the certification kernel: when an input is certified, how verification classifies
  it, that the kernel's own receipts validate, that accepted receipts are the recomputed ones, and
  what a receipt hash determines.
\<close>

section \<open>Printable values\<close>

lemma jv_clean: "jv st v \<Longrightarrow> \<exists>w. clean v = Inr w"
proof (induction st v rule: jv.induct)
  case (5 st xs)
  then have "\<forall>x \<in> set xs. \<exists>w. clean x = Inr w" by (auto simp: list_all_iff)
  then show ?case using emap_clean_total by fastforce
next
  case (6 st d)
  have keys: "\<not> list_ex (\<lambda>p. \<not> isinstance_str (fst p)) d"
    using "6.prems" by (auto simp: list_all_iff list_ex_iff is_str_iff)
  have "\<exists>w. (case dget d k of None \<Rightarrow> Inl (KeyErr, k) | Some v \<Rightarrow> clean v) = Inr w"
    if k: "k \<in> set (map (\<lambda>p. str_of (fst p)) d)" for k
  proof -
    obtain p where p: "p \<in> set d" "k = str_of (fst p)" using k by auto
    then have "fst p = PStr k" using "6.prems" by (auto simp: list_all_iff is_str_iff)
    with p(1) have "dget d k \<noteq> None" by (induction d) auto
    then obtain v where v: "dget d k = Some v" by auto
    then obtain q where "q \<in> set d" "snd q = v" using dget_in_set by blast
    then show ?thesis using "6.IH" [of q] "6.prems" v by (auto simp: list_all_iff)
  qed
  then have "\<exists>es. emap (\<lambda>k. ebind (case dget d k of None \<Rightarrow> Inl (KeyErr, k) | Some v \<Rightarrow> clean v)
      (\<lambda>w. Inr (PStr k, w))) ks = Inr es" if "set ks \<subseteq> set (map (\<lambda>p. str_of (fst p)) d)" for ks
    using that by (induction ks) (fastforce simp: ebind_Inr_iff)+
  from this [of "sorted_set (map (\<lambda>p. str_of (fst p)) d)"]
  obtain es where "emap (\<lambda>k. ebind (case dget d k of None \<Rightarrow> Inl (KeyErr, k) | Some v \<Rightarrow> clean v)
      (\<lambda>w. Inr (PStr k, w))) (sorted_set (map (\<lambda>p. str_of (fst p)) d)) = Inr es"
    unfolding set_sorted_set by blast
  then have "clean (PDict d) = Inr (PDict es)"
    using keys by (simp only: clean.simps if_False ebind_simps)
  then show ?case ..
qed auto

lemma jv_strict: "jv st v \<Longrightarrow> strict_json v = Inr ()"
  by (induction st v rule: jv.induct) (auto simp: efor_Inr_iff list_all_iff eseq_Inr_iff)

section \<open>The body of a kernel receipt\<close>

definition receipt_fields ::
  "string \<Rightarrow> string \<Rightarrow> string \<Rightarrow> string \<Rightarrow> verification_status \<Rightarrow> string list \<Rightarrow> integrity_status
   \<Rightarrow> disposition \<Rightarrow> policy \<Rightarrow> (string \<times> pyval) list" where
  "receipt_fields ch csh ph eh st codes i disp po =
     [(''receipt_schema'', PStr CERTIFICATION_RECEIPT_SCHEMA),
      (''protocol_version'', PStr PUBLIC_PROTOCOL_VERSION),
      (''implementation_schema'', PStr IMPLEMENTATION_SCHEMA),
      (''acceptance_contract_hash'', PStr ch), (''change_set_hash'', PStr csh),
      (''verification_plan_hash'', PStr ph), (''evidence_hash'', PStr eh),
      (''verification'', mkdict [(''status'', PStr (verification_value st)),
         (''condition'', PStr (integrity_value i)), (''reason_codes'', PList (map PStr codes))]),
      (''certification'', mkdict [(''disposition'', PStr (disposition_value disp)), (''policy'', policy_dict po)]),
      (''claim_ceiling'', PList (map PStr CLAIM_CEILING))]"

lemma receipt_body_of:
  "receipt_body (receipt_of ch csh ph eh (mk_result st codes i) po) =
     Inr (receipt_fields ch csh ph eh st codes i (certify_result (Obj (mk_result st codes i)) po) po)"
  by (simp add: receipt_body_def receipt_of_def verification_body_def certification_body_def enum_value_def
      py_list_def ceiling_tuple_def receipt_fields_def) (simp add: mk_result_def py_list_def)

lemma jv_strs [simp]: "list_all (jv s) (map PStr xs)"
  by (simp add: list_all_iff)

lemma jv_policy: "policy_ok po \<Longrightarrow> jv spaced (policy_dict po)"
  by (auto simp: policy_ok_def policy_dict_def policy_names_def policy_fields_def mkdict_def is_bool_iff
      ordered_def spaced_def)

lemma jv_receipt_fields:
  "policy_ok po \<Longrightarrow> jv spaced (mkdict (receipt_fields ch csh ph eh st codes i disp po))"
  "policy_ok po \<Longrightarrow> jv spaced (mkdict (receipt_fields ch csh ph eh st codes i disp po @ [(''receipt_hash'', PStr h)]))"
  using jv_policy [of po]
  by (simp_all add: receipt_fields_def mkdict_def ordered_def spaced_def)

definition receipt_keys :: "string list" where
  "receipt_keys = [''receipt_schema'', ''protocol_version'', ''implementation_schema'',
     ''acceptance_contract_hash'', ''change_set_hash'', ''verification_plan_hash'', ''evidence_hash'',
     ''verification'', ''certification'', ''claim_ceiling'']"

lemma map_fst_receipt_fields: "map fst (receipt_fields ch csh ph eh st codes i disp po) = receipt_keys"
  by (simp add: receipt_fields_def receipt_keys_def)

lemma get_receipt_fields:
  assumes "d = items (mkdict (receipt_fields ch csh ph eh st codes i disp po @ [(''receipt_hash'', PStr h)]))"
  shows "get d ''receipt_hash'' = PStr h"
    "get d ''receipt_schema'' = PStr CERTIFICATION_RECEIPT_SCHEMA"
    "get d ''protocol_version'' = PStr PUBLIC_PROTOCOL_VERSION"
    "get d ''implementation_schema'' = PStr IMPLEMENTATION_SCHEMA"
    "get d ''acceptance_contract_hash'' = PStr ch" "get d ''change_set_hash'' = PStr csh"
    "get d ''verification_plan_hash'' = PStr ph" "get d ''evidence_hash'' = PStr eh"
    "get d ''verification'' = mkdict [(''status'', PStr (verification_value st)),
         (''condition'', PStr (integrity_value i)), (''reason_codes'', PList (map PStr codes))]"
    "get d ''certification'' = mkdict [(''disposition'', PStr (disposition_value disp)), (''policy'', policy_dict po)]"
    "get d ''claim_ceiling'' = PList (map PStr CLAIM_CEILING)"
  unfolding assms by (simp_all add: receipt_fields_def get_def)

text \<open>The kernel's receipt serialises; the serialisation is the printable dictionary of its body and
  the hash of the body.\<close>

lemma serialize_receipt_of:
  assumes "policy_ok po"
  obtains h where "hash_value (mkdict (receipt_fields ch csh ph eh st codes i
       (certify_result (Obj (mk_result st codes i)) po) po)) = Inr h" "is_sha256 h"
    "receipt_core_hash (receipt_of ch csh ph eh (mk_result st codes i) po) = Inr h"
    "serialize_receipt (receipt_of ch csh ph eh (mk_result st codes i) po) =
       Inr (mkdict (receipt_fields ch csh ph eh st codes i
         (certify_result (Obj (mk_result st codes i)) po) po @ [(''receipt_hash'', PStr h)]))"
proof -
  let ?b = "receipt_fields ch csh ph eh st codes i (certify_result (Obj (mk_result st codes i)) po) po"
  obtain h where "hash_value (mkdict ?b) = Inr h" "is_sha256 h"
    using jv_clean [OF jv_receipt_fields(1) [OF assms]] hash_value_ok by blast
  then show ?thesis
    by (intro that [of h]) (simp_all add: receipt_core_hash_def serialize_receipt_def receipt_body_of)
qed

lemma without_receipt_hash:
  "PDict (without_key (items (mkdict (receipt_fields ch csh ph eh st codes i disp po @ [(''receipt_hash'', PStr h)])))
     ''receipt_hash'') = mkdict (receipt_fields ch csh ph eh st codes i disp po)"
  by (simp add: without_key_def receipt_fields_def mkdict_def)

lemma verification_errs_ok:
  "codes = sorted_set codes \<Longrightarrow> verification_errs (mkdict [(''status'', PStr (verification_value st)),
     (''condition'', PStr (integrity_value i)), (''reason_codes'', PList (map PStr codes))]) = Inr []"
  by (cases st; cases i) (simp_all add: verification_errs_def Let_def keys_are_def has_key_def get_def
      VERIFICATION_STATUSES_def INTEGRITY_STATUSES_def list_all_iff o_def err_if_def)

lemma certification_errs_ok:
  assumes "policy_ok po"
  shows "certification_errs (mkdict [(''disposition'', PStr (disposition_value disp)), (''policy'', policy_dict po)]) = Inr []"
proof -
  have "keys_are (items (policy_dict po)) policy_names"
    using keys_are_mkdict [of "zip policy_names (policy_fields po)"]
    unfolding policy_dict_def by (simp add: policy_names_def policy_fields_def)
  moreover have "\<not> list_ex (\<lambda>p. snd p \<noteq> PNone \<and> \<not> is_bool (snd p)) (items (policy_dict po))"
    using assms by (auto simp: policy_dict_def policy_names_def policy_fields_def policy_ok_def)
  moreover have "is_dict (policy_dict po)" by (simp add: policy_dict_def)
  ultimately show ?thesis
    by (cases disp) (simp_all add: certification_errs_def Let_def get_def keys_are_def [of "_ # _"] has_key_def err_if_def)
qed

section \<open>Accepting a serialised receipt\<close>

lemma receipt_envelope_accepts:
  assumes po: "policy_ok po" and codes: "codes = sorted_set codes"
    and h: "is_sha256 ch" "is_sha256 csh" "is_sha256 ph" "is_sha256 eh"
    and ser: "serialize_receipt (receipt_of ch csh ph eh (mk_result st codes i) po) = Inr payload"
  shows "validate_receipt_envelope payload (Obj (receipt_of ch csh ph eh (mk_result st codes i) po)) = Inr []"
proof -
  let ?disp = "certify_result (Obj (mk_result st codes i)) po"
  let ?b = "receipt_fields ch csh ph eh st codes i ?disp po"
  obtain r where r: "hash_value (mkdict ?b) = Inr r" "is_sha256 r"
    and ser0: "serialize_receipt (receipt_of ch csh ph eh (mk_result st codes i) po) =
       Inr (mkdict (?b @ [(''receipt_hash'', PStr r)]))"
    using serialize_receipt_of [OF po] by metis
  define d where "d = items (mkdict (?b @ [(''receipt_hash'', PStr r)]))"
  note get = get_receipt_fields [OF d_def]
  have ser': "serialize_receipt (receipt_of ch csh ph eh (mk_result st codes i) po) = Inr (PDict d)"
    using ser0 by (simp add: d_def mkdict_def)
  have j: "jv spaced (PDict d)" using jv_receipt_fields(2) [OF po] by (simp add: d_def mkdict_def)
  have he: "receipt_hash_errs d = Inr []"
    unfolding receipt_hash_errs_def get unfolding d_def without_receipt_hash
    using r by (simp add: catch_def require_hash_def require_text_def is_sha256_normalized)
  have fe: "concat (map (receipt_field_errs d) receipt_hash_fields) = []"
    unfolding receipt_hash_fields_def list.map receipt_field_errs_def get
    using h by (simp add: raises_require)
  have ke: "keys_are d (map (\<lambda>p. str_of (fst p)) d)"
    using keys_are_mkdict [of "?b @ [(''receipt_hash'', PStr r)]"] by (simp add: d_def o_def split_beta)
  have ce: "py_eq (PList (map PStr CLAIM_CEILING)) (PList (map PStr CLAIM_CEILING))"
    by (simp add: CLAIM_CEILING_def)
  have "receipt_envelope_body d (Obj (receipt_of ch csh ph eh (mk_result st codes i) po)) = Inr []"
    unfolding receipt_envelope_body_def obj.case ser' he ebind_simps get
      verification_errs_ok [OF codes] certification_errs_ok [OF po]
    using jv_strict [OF j] fe ke ce jv_py_eq_refl [OF j]
    by (simp add: err_if_def stale_if_def Let_def)
  moreover have "payload = PDict d" using ser ser' by simp
  ultimately show ?thesis by (simp add: validate_receipt_envelope_def catch_def)
qed

lemma verify_shape:
  assumes "validate_evidence_subjects (Obj c) (Obj cs) (Obj p) (Obj e) = []"
    and "verify (Obj c) (Obj cs) (Obj p) (Obj e) = Inr v"
  obtains st codes i where "v = mk_result st codes i" "codes = sorted_set codes"
proof -
  obtain s where s: "derive_evidence_integrity (Obj c) (Obj cs) (Obj p) (Obj e) = Inr s"
    using derive_total by blast
  show ?thesis
  proof (cases "s = VALID")
    case True
    note vv = verify_valid [OF s [unfolded True]]
    consider "\<not> in_scope c cs" | "in_scope c cs" "\<not> covered c p e"
      | "in_scope c cs" "covered c p e" "failing c e = []"
      | "in_scope c cs" "covered c p e" "failing c e \<noteq> []" "codes_fit (failing c e)"
      | "in_scope c cs" "covered c p e" "failing c e \<noteq> []" "\<not> codes_fit (failing c e)" by blast
    then show ?thesis
      using vv assms(2) by cases (auto simp: failure_codes_def sorted_set_idem intro!: that)
  next
    case False
    then show ?thesis using verify_not_valid [OF s] assms(2) by (auto intro!: that)
  qed
qed

text \<open>The result of certifying a validated input.\<close>

lemma certify_result_shape:
  assumes "certify (Obj inp) = Inr res"
  obtains c cs p e ch csh ph eh st codes i where
    "ci_contract inp = Obj c" "ci_change_set inp = Obj cs" "ci_plan inp = Obj p" "ci_evidence inp = Obj e"
    "validate_evidence_subjects (Obj c) (Obj cs) (Obj p) (Obj e) = []" "validate_input (Obj inp) = []"
    "contract_hash c = Inr ch" "change_set_hash cs = Inr csh" "plan_hash p = Inr ph" "bundle_hash e = Inr eh"
    "is_sha256 ch" "is_sha256 csh" "is_sha256 ph" "is_sha256 eh"
    "codes = sorted_set codes" "policy_ok (input_policy inp)"
    "verify (Obj c) (Obj cs) (Obj p) (Obj e) = Inr (mk_result st codes i)"
    "res = \<lparr>cr_verification = Obj (mk_result st codes i),
       cr_disposition = Some (certify_result (Obj (mk_result st codes i)) (input_policy inp)),
       cr_receipt = Obj (receipt_of ch csh ph eh (mk_result st codes i) (input_policy inp))\<rparr>"
proof -
  have v: "validate_input (Obj inp) = []"
    using assms by (auto simp: certify_def split: if_splits)
  then obtain c cs p e where s: "ci_contract inp = Obj c" "ci_change_set inp = Obj cs" "ci_plan inp = Obj p"
    "ci_evidence inp = Obj e" "validate_evidence_subjects (Obj c) (Obj cs) (Obj p) (Obj e) = []"
    "policy_ok (input_policy inp)"
    by (auto simp: validate_input_Nil)
  from certify_eq [OF v s(1-4)] obtain ch csh ph eh where
    h: "contract_hash c = Inr ch" "change_set_hash cs = Inr csh" "plan_hash p = Inr ph" "bundle_hash e = Inr eh"
      "is_sha256 ch" "is_sha256 csh" "is_sha256 ph" "is_sha256 eh"
    and eq: "certify (Obj inp) = ebind (verify (Obj c) (Obj cs) (Obj p) (Obj e)) (\<lambda>v.
       Inr \<lparr>cr_verification = Obj v, cr_disposition = Some (certify_result (Obj v) (input_policy inp)),
            cr_receipt = Obj (receipt_of ch csh ph eh v (input_policy inp))\<rparr>)"
    by blast
  obtain vr where vr: "verify (Obj c) (Obj cs) (Obj p) (Obj e) = Inr vr"
    using assms eq by (auto simp: ebind_Inr_iff)
  obtain st codes i where "vr = mk_result st codes i" "codes = sorted_set codes"
    using verify_shape [OF s(5) vr] .
  then show ?thesis using that s v h vr eq assms by simp
qed

lemma failing_Nil: "failing c e = [] \<longleftrightarrow> list_all (\<lambda>x. obs_status (the_obs e) x = OBS_PASS) (required_ids c)"
  unfolding failing_def sort_Nil_iff by (auto simp: filter_empty_conv list_all_iff)

lemma verified_conditions:
  assumes "verify (Obj c) (Obj cs) (Obj p) (Obj e) = Inr (mk_result VERIFIED codes i)"
  shows "derive_evidence_integrity (Obj c) (Obj cs) (Obj p) (Obj e) = Inr VALID \<and> in_scope c cs \<and> covered c p e \<and>
    list_all (\<lambda>x. obs_status (the_obs e) x = OBS_PASS) (required_ids c)"
proof -
  obtain s where s: "derive_evidence_integrity (Obj c) (Obj cs) (Obj p) (Obj e) = Inr s"
    using derive_total by blast
  then have V: "s = VALID" using verify_not_valid [OF s] assms by (auto simp: mk_result_def)
  note vv = verify_valid [OF s [unfolded V]]
  have "in_scope c cs" using vv(1) assms by (auto simp: mk_result_def)
  moreover have "covered c p e" using vv(2) assms calculation by (auto simp: mk_result_def)
  moreover have "failing c e = []" using vv(4,5) assms calculation by (auto simp: mk_result_def)
  ultimately show ?thesis using s V by (simp add: failing_Nil)
qed

section \<open>Equality of dictionaries field by field\<close>

lemma dget_distinct:
  "distinct (map fst e) \<Longrightarrow> list_all (\<lambda>p. is_str (fst p)) e \<Longrightarrow> (PStr k, v) \<in> set e \<Longrightarrow> dget e k = Some v"
  by (induction e) (auto simp: is_str_iff image_iff split: if_splits)

lemma py_sub_field:
  "py_sub d e \<Longrightarrow> p \<in> set d \<Longrightarrow> \<exists>q \<in> set e. py_eq (fst p) (fst q) \<and> py_eq (snd p) (snd q)"
  by (induction d) (auto simp: py_sub_Cons list_ex_iff)

lemma py_eq_field:
  assumes "py_eq (PDict d) (PDict e)" "distinct (map fst e)" "list_all (\<lambda>p. is_str (fst p)) e" "has_key d k"
  shows "py_eq (get d k) (get e k)"
proof -
  obtain v where v: "dget d k = Some v" using assms(4) by (auto simp: has_key_def)
  then obtain p where p: "p \<in> set d" "key_is k (fst p)" "snd p = v" using dget_in_set by blast
  obtain q where q: "q \<in> set e" "py_eq (fst p) (fst q)" "py_eq v (snd q)"
    using py_sub_field [of d e p] assms(1) p by auto
  then obtain s where s: "fst q = PStr s" using assms(3) by (auto simp: list_all_iff is_str_iff)
  then have "s = k" using q(2) key_is_str [OF p(2)] by simp
  then have "dget e k = Some (snd q)"
    using dget_distinct [OF assms(2,3), of k "snd q"] q(1) s by (cases q) auto
  then show ?thesis using v q(3) by (simp add: get_def)
qed

section \<open>Properties\<close>

text \<open>What the kernel asks of the subjects and the policy of an input.\<close>

definition certifiable ::
  "acceptance_contract \<Rightarrow> change_set \<Rightarrow> verification_plan \<Rightarrow> evidence_bundle \<Rightarrow> policy \<Rightarrow> bool" where
  "certifiable c cs p e po \<longleftrightarrow> derive_evidence_integrity (Obj c) (Obj cs) (Obj p) (Obj e) = Inr VALID \<and>
     in_scope c cs \<and> covered c p e \<and> failing c e = [] \<and> fully_approved po"

lemma certified_certifiable:
  assumes "certify (Obj inp) = Inr res" "cr_disposition res = Some CERTIFIED"
  obtains c cs p e where "ci_contract inp = Obj c" "ci_change_set inp = Obj cs" "ci_plan inp = Obj p" "ci_evidence inp = Obj e"
    "certifiable c cs p e (input_policy inp)"
proof -
  from assms(1) obtain c cs p e ch csh ph eh st codes i where
    s: "ci_contract inp = Obj c" "ci_change_set inp = Obj cs" "ci_plan inp = Obj p" "ci_evidence inp = Obj e"
    and v: "verify (Obj c) (Obj cs) (Obj p) (Obj e) = Inr (mk_result st codes i)"
    and r: "res = \<lparr>cr_verification = Obj (mk_result st codes i),
       cr_disposition = Some (certify_result (Obj (mk_result st codes i)) (input_policy inp)),
       cr_receipt = Obj (receipt_of ch csh ph eh (mk_result st codes i) (input_policy inp))\<rparr>"
    by (rule certify_result_shape)
  have cert: "st = VERIFIED" "i = VALID" "fully_approved (input_policy inp)"
    using assms(2) unfolding r by (auto simp: certified_iff mk_result_def)
  then show ?thesis
    using that [OF s] verified_conditions [OF v [unfolded cert]] by (auto simp: certifiable_def failing_Nil)
qed

lemma certifiable_certified:
  assumes s: "ci_contract inp = Obj c" "ci_change_set inp = Obj cs" "ci_plan inp = Obj p" "ci_evidence inp = Obj e"
    and a: "certifiable c cs p e (input_policy inp)"
  obtains res where "certify (Obj inp) = Inr res" "cr_disposition res = Some CERTIFIED"
proof -
  have vi: "validate_input (Obj inp) = []"
    using assms by (auto simp: certifiable_def validate_input_Nil derive_VALID_iff subjects_valid_iff policy_ok_def
        fully_approved_def list_all_iff)
  have d: "derive_evidence_integrity (Obj c) (Obj cs) (Obj p) (Obj e) = Inr VALID" "in_scope c cs" "covered c p e"
    "failing c e = []" using a by (simp_all add: certifiable_def)
  have "certify_result (Obj (mk_result VERIFIED [] VALID)) (input_policy inp) = CERTIFIED"
    using a by (simp add: certifiable_def certified_iff mk_result_def)
  then show ?thesis
    using that certify_eq [OF vi s] verify_valid(3) [OF d] by (metis certification_result.select_convs(2) ebind_simps(1))
qed

lemma certified_iff_conditions:
  "(\<exists>res. certify (Obj inp) = Inr res \<and> cr_disposition res = Some CERTIFIED) \<longleftrightarrow>
   (\<exists>c cs p e. ci_contract inp = Obj c \<and> ci_change_set inp = Obj cs \<and> ci_plan inp = Obj p \<and> ci_evidence inp = Obj e \<and>
      certifiable c cs p e (input_policy inp))"
  by (meson certified_certifiable certifiable_certified)

text \<open>C1: the kernel certifies an input exactly when its subjects are well formed, the integrity of the
  evidence derives to \<open>VALID\<close>, the change set stays inside the contract's allowed paths, contract,
  plan and evidence name the same verifiers, every required verifier's observation is \<open>PASS\<close>, and
  all four policy flags are \<open>True\<close>.\<close>

theorem certified_exactly_when:
  "(\<exists>res. certify (Obj inp) = Inr res \<and> cr_disposition res = Some CERTIFIED) \<longleftrightarrow>
   (\<exists>c cs p e. ci_contract inp = Obj c \<and> ci_change_set inp = Obj cs \<and> ci_plan inp = Obj p \<and>
      ci_evidence inp = Obj e \<and> derive_evidence_integrity (Obj c) (Obj cs) (Obj p) (Obj e) = Inr VALID \<and>
      in_scope c cs \<and> covered c p e \<and>
      list_all (\<lambda>x. obs_status (the_obs e) x = OBS_PASS) (required_ids c) \<and>
      ci_policy_accepted inp = PBool True \<and> ci_authority_present inp = PBool True \<and>
      ci_approval_present inp = PBool True \<and> ci_signing_present inp = PBool True)"
proof -
  have "ci_policy_accepted inp = PBool True \<and> ci_authority_present inp = PBool True \<and> ci_approval_present inp = PBool True \<and>
      ci_signing_present inp = PBool True \<longleftrightarrow> fully_approved (input_policy inp)"
    by (auto simp: fully_approved_def policy_fields_def input_policy_def)
  then show ?thesis unfolding certified_iff_conditions failing_Nil [symmetric] certifiable_def by blast
qed

text \<open>A sample input: the sample subjects over given verifiers and observations, all flags \<open>True\<close>.\<close>

definition sample_input_of :: "string list \<Rightarrow> observation list \<Rightarrow> certification_input" where
  "sample_input_of ids obs = \<lparr>ci_contract = Obj (sample_contract_of ids), ci_change_set = Obj sample_change_set,
     ci_plan = Obj (sample_plan_of ids), ci_evidence = Obj (sample_evidence_of ids obs),
     ci_policy_accepted = PBool True, ci_authority_present = PBool True,
     ci_approval_present = PBool True, ci_signing_present = PBool True\<rparr>"

definition sample_passes :: "observation list" where
  "sample_passes = [sample_obs ''unit'' ''log1'' OBS_PASS, sample_obs ''lint'' ''log2'' OBS_PASS]"

lemma sample_input_valid:
  assumes "derive_evidence_integrity (Obj (sample_contract_of ids)) (Obj sample_change_set)
    (Obj (sample_plan_of ids)) (Obj (sample_evidence_of ids obs)) = Inr VALID"
  shows "validate_input (Obj (sample_input_of ids obs)) = []"
  using assms
  by (auto simp: validate_input_Nil sample_input_of_def derive_VALID_iff subjects_valid_iff policy_ok_def
      policy_fields_def input_policy_def)

lemma sample_scope: "in_scope (sample_contract_of ids) sample_change_set"
  by (simp add: in_scope_def sample_contract_of_def sample_change_set_def strs_def)

lemma sample_required [simp]: "required_ids (sample_contract_of ids) = ids"
  by (simp add: required_ids_def sample_contract_of_def strs_def o_def)

lemma sample_planned [simp]: "strs (vp_required_verifier_ids (sample_plan_of ids)) = ids"
  by (simp add: sample_plan_of_def strs_def o_def)

lemma sample_covered:
  "set (map (\<lambda>x. str_of (ob_verifier_id x)) obs) = set ids \<Longrightarrow>
     covered (sample_contract_of ids) (sample_plan_of ids) (sample_evidence_of ids obs)"
  by (simp add: covered_def observed_ids_def)

lemma sample_verified:
  "verify (Obj sample_contract) (Obj sample_change_set) (Obj sample_plan) (Obj sample_evidence) =
     Inr (mk_result VERIFIED [] VALID)"
proof (rule verify_valid(3) [OF sample_evidence_valid sample_scope])
  show "covered sample_contract sample_plan sample_evidence"
    unfolding sample_evidence_def by (rule sample_covered) (simp add: sample_ids_def sample_obs_def)
  show "failing sample_contract sample_evidence = []"
    unfolding failing_Nil sample_evidence_def
    by (simp add: sample_ids_def obs_status_def obs_lookup_def sample_obs_def)
qed

lemma sample_certifies: "\<exists>res. certify (Obj (sample_input_of sample_ids sample_passes)) = Inr res"
proof -
  have e: "sample_evidence_of sample_ids sample_passes = sample_evidence"
    by (simp add: sample_evidence_def sample_passes_def)
  have v: "validate_input (Obj (sample_input_of sample_ids sample_passes)) = []"
    using sample_evidence_valid by (intro sample_input_valid) (simp add: e)
  have "ci_contract (sample_input_of sample_ids sample_passes) = Obj sample_contract"
    "ci_change_set (sample_input_of sample_ids sample_passes) = Obj sample_change_set"
    "ci_plan (sample_input_of sample_ids sample_passes) = Obj sample_plan"
    "ci_evidence (sample_input_of sample_ids sample_passes) = Obj sample_evidence"
    by (simp_all add: sample_input_of_def e)
  from certify_eq [OF v this] show ?thesis using sample_verified by (metis ebind_simps(1))
qed

text \<open>Verification of evidence with \<open>VALID\<close> integrity.  A change outside the allowed paths fails with
  \<open>SCOPE_ESCAPE\<close>; a mismatch between the verifiers of contract, plan and evidence is unverifiable
  with \<open>MISSING\<close>; otherwise the result is \<open>VERIFIED\<close> without codes when every required verifier
  passed, and failed with exactly the failing verifiers and \<open>VERIFIER_FAILED\<close> when some did not.
  No other result is returned, and no result only when the failing codes exceed their bounds.\<close>

lemma verify_outcome:
  assumes "derive_evidence_integrity (Obj c) (Obj cs) (Obj p) (Obj e) = Inr VALID"
  shows "verify (Obj c) (Obj cs) (Obj p) (Obj e) = Inr r \<longleftrightarrow>
    \<not> (in_scope c cs \<and> covered c p e \<and> failing c e \<noteq> [] \<and> \<not> codes_fit (failing c e)) \<and>
    r = (if \<not> in_scope c cs then mk_result FAILED_VERIFICATION [''SCOPE_ESCAPE''] VALID
         else if \<not> covered c p e then mk_result UNVERIFIABLE [''MISSING''] MISSING
         else if failing c e = [] then mk_result VERIFIED [] VALID
         else mk_result FAILED_VERIFICATION (failure_codes (failing c e)) VALID)"
proof -
  note vv = verify_valid [OF assms]
  consider "\<not> in_scope c cs" | "in_scope c cs" "\<not> covered c p e"
    | "in_scope c cs" "covered c p e" "failing c e = []"
    | "in_scope c cs" "covered c p e" "failing c e \<noteq> []" "codes_fit (failing c e)"
    | "in_scope c cs" "covered c p e" "failing c e \<noteq> []" "\<not> codes_fit (failing c e)" by blast
  then show ?thesis using vv by cases auto
qed

lemma verify_outcome_witness:
  "verify (Obj sample_contract) (Obj sample_change_set) (Obj sample_plan) (Obj sample_evidence) =
     Inr (mk_result VERIFIED [] VALID)"
proof -
  have "covered sample_contract sample_plan sample_evidence"
    unfolding sample_evidence_def by (rule sample_covered) (simp add: sample_ids_def sample_obs_def)
  moreover have "failing sample_contract sample_evidence = []"
    unfolding failing_Nil sample_evidence_def
    by (simp add: sample_ids_def obs_status_def obs_lookup_def sample_obs_def)
  ultimately show ?thesis
    unfolding verify_outcome [OF sample_evidence_valid] using sample_scope by simp
qed

text \<open>C4: on a validated input \<open>certify\<close> raises in exactly one situation: the integrity is \<open>VALID\<close>, the
  change is in scope, the verifiers match, and the identifiers of the failing verifiers do not fit
  the bounds on reason codes (128 characters each, 64 codes with \<open>VERIFIER_FAILED\<close>).  Such an input
  passes the subject validator, so the failure is not reported as a rejection.\<close>

theorem certify_raises_iff:
  assumes "validate_input (Obj inp) = []" "ci_contract inp = Obj c" "ci_change_set inp = Obj cs"
    "ci_plan inp = Obj p" "ci_evidence inp = Obj e"
  shows "raises (certify (Obj inp)) \<longleftrightarrow>
    derive_evidence_integrity (Obj c) (Obj cs) (Obj p) (Obj e) = Inr VALID \<and> in_scope c cs \<and>
    covered c p e \<and> failing c e \<noteq> [] \<and> \<not> codes_fit (failing c e)"
proof -
  have r: "raises (certify (Obj inp)) \<longleftrightarrow> raises (verify (Obj c) (Obj cs) (Obj p) (Obj e))"
    by (rule certify_eq [OF assms]) (cases "verify (Obj c) (Obj cs) (Obj p) (Obj e)"; simp)
  obtain s where s: "derive_evidence_integrity (Obj c) (Obj cs) (Obj p) (Obj e) = Inr s"
    using derive_total by blast
  show ?thesis
  proof (cases "s = VALID")
    case True
    note vv = verify_valid [OF s [unfolded True]]
    consider "\<not> in_scope c cs" | "in_scope c cs" "\<not> covered c p e"
      | "in_scope c cs" "covered c p e" "failing c e = []"
      | "in_scope c cs" "covered c p e" "failing c e \<noteq> []" "codes_fit (failing c e)"
      | "in_scope c cs" "covered c p e" "failing c e \<noteq> []" "\<not> codes_fit (failing c e)" by blast
    then show ?thesis unfolding r using vv s True by cases auto
  next
    case False
    then show ?thesis unfolding r using verify_not_valid [OF s False] s by simp
  qed
qed

text \<open>A verifier identifier of 129 characters that fails.\<close>

theorem certify_raises_iff_witness:
  "raises (certify (Obj (sample_input_of [replicate 129 (CHR ''v'')]
     [sample_obs (replicate 129 (CHR ''v'')) ''log'' OBS_FAIL])))"
proof -
  let ?v = "replicate 129 (CHR ''v'')"
  let ?obs = "[sample_obs ?v ''log'' OBS_FAIL]"
  have nv: "normalized ?v" "normalized ''log''"
    by (simp_all add: normalized_def nul_def strip_def is_space_def numeral_eq_Suc)
  have d: "derive_evidence_integrity (Obj (sample_contract_of [?v])) (Obj sample_change_set)
      (Obj (sample_plan_of [?v])) (Obj (sample_evidence_of [?v] ?obs)) = Inr VALID"
    by (rule sample_evidence_of_valid) (use nv sample_obs_wf in \<open>auto simp: ids_ok_def has_duplicates_def\<close>)
  have f: "failing (sample_contract_of [?v]) (sample_evidence_of [?v] ?obs) = [?v]"
    by (simp add: failing_def obs_status_def obs_lookup_def) (simp add: sample_obs_def)
  have c: "covered (sample_contract_of [?v]) (sample_plan_of [?v]) (sample_evidence_of [?v] ?obs)"
    by (rule sample_covered) (simp add: sample_obs_def)
  have "\<not> codes_fit [?v]" by (simp add: codes_fit_def)
  then show ?thesis
    using certify_raises_iff [OF sample_input_valid [OF d], of "sample_contract_of [?v]" sample_change_set
        "sample_plan_of [?v]" "sample_evidence_of [?v] ?obs"] d f c sample_scope
    by (simp add: sample_input_of_def)
qed

lemma kernel_receipt_roundtrip:
  assumes "certify (Obj inp) = Inr res"
  shows "\<exists>d t. receipt_to_dict (cr_receipt res) = Inr d \<and> dumps spaced d = Inr t \<and> loads t = Inr d \<and>
    validate_serialized_receipt d (Obj inp) = Inr [] \<and> validate_receipt (cr_receipt res) (Obj inp) = Inr True"
  using assms
proof (rule certify_result_shape)
  fix c cs p e ch csh ph eh st codes i
  assume h: "is_sha256 ch" "is_sha256 csh" "is_sha256 ph" "is_sha256 eh" and codes: "codes = sorted_set codes"
    and po: "policy_ok (input_policy inp)" and v: "validate_input (Obj inp) = []"
    and r: "res = \<lparr>cr_verification = Obj (mk_result st codes i),
       cr_disposition = Some (certify_result (Obj (mk_result st codes i)) (input_policy inp)),
       cr_receipt = Obj (receipt_of ch csh ph eh (mk_result st codes i) (input_policy inp))\<rparr>"
  let ?r = "receipt_of ch csh ph eh (mk_result st codes i) (input_policy inp)"
  obtain k where k: "receipt_core_hash ?r = Inr k"
    and ser: "serialize_receipt ?r = Inr (mkdict (receipt_fields ch csh ph eh st codes i
       (certify_result (Obj (mk_result st codes i)) (input_policy inp)) (input_policy inp) @ [(''receipt_hash'', PStr k)]))"
    (is "_ = Inr ?d")
    using serialize_receipt_of [OF po] by metis
  have j: "jv spaced ?d" using po by (rule jv_receipt_fields)
  have cl: "rc_claimed_receipt_hash ?r = PNone" by (simp add: receipt_of_def)
  have "receipt_to_dict (Obj ?r) = Inr ?d"
    using ser cl by (simp add: receipt_to_dict_def claim_differs_def)
  moreover have "\<exists>t. dumps spaced ?d = Inr t \<and> loads t = Inr ?d"
    using loads_dumps [OF wf_styles(3) j] by blast
  moreover have "validate_serialized_receipt ?d (Obj inp) = Inr []"
    using receipt_envelope_accepts [OF po codes h ser] assms v
    by (simp add: validate_serialized_receipt_def r)
  moreover have "validate_receipt (Obj ?r) (Obj inp) = Inr True"
    using assms v k cl by (simp add: validate_receipt_def r)
  ultimately show ?thesis unfolding r by auto
qed

text \<open>C3: the round trip of a receipt.  The receipt of a certified input serialises, its JSON text
  parses back to the same dictionary, and the kernel accepts both the receipt object and the
  serialised form for that input.\<close>

theorem receipt_roundtrip:
  assumes "certify (Obj inp) = Inr res"
  shows "\<exists>d t. receipt_to_dict (cr_receipt res) = Inr d \<and> dumps spaced d = Inr t \<and> loads t = Inr d \<and>
    validate_serialized_receipt d (Obj inp) = Inr [] \<and> validate_receipt (cr_receipt res) (Obj inp) = Inr True"
  using assms by (rule kernel_receipt_roundtrip)

theorem receipt_roundtrip_witness:
  "\<exists>res d t. certify (Obj (sample_input_of sample_ids sample_passes)) = Inr res \<and>
     receipt_to_dict (cr_receipt res) = Inr d \<and> dumps spaced d = Inr t \<and> loads t = Inr d \<and>
     validate_serialized_receipt d (Obj (sample_input_of sample_ids sample_passes)) = Inr []"
  using sample_certifies receipt_roundtrip by metis

lemma envelope_body_Nil:
  assumes "receipt_envelope_body d (Obj r) = Inr []"
  shows "\<exists>ser. serialize_receipt r = Inr ser \<and> py_eq (PDict d) ser \<and>
    keys_are d (map (\<lambda>p. str_of (fst p)) (items ser))"
  using assms by (auto simp: receipt_envelope_body_def ebind_Inr_iff eseq_Inr_iff Let_def split: if_splits)

lemma certification_disposition:
  assumes "receipt_envelope_body d (Obj r) = Inr []"
    and "py_eq (get d ''certification'') (mkdict [(''disposition'', PStr s), (''policy'', v)])"
  shows "py_eq (get (items (get d ''certification'')) ''disposition'') (PStr s)"
proof -
  obtain ce where "certification_errs (get d ''certification'') = Inr ce" "ce = []"
    using assms(1) by (auto simp: receipt_envelope_body_def ebind_Inr_iff eseq_Inr_iff Let_def split: if_splits)
  then obtain w where w: "get d ''certification'' = PDict w" "keys_are w [''disposition'', ''policy'']"
    by (auto simp: certification_errs_def Let_def is_dict_iff split: if_splits)
  let ?e = "[(PStr ''disposition'', PStr s), (PStr ''policy'', v)]"
  have "py_eq (get w ''disposition'') (get ?e ''disposition'')"
    using assms(2) w by (intro py_eq_field) (auto simp: mkdict_def keys_are_def)
  then show ?thesis by (simp add: w(1) get_def [of ?e])
qed

text \<open>C2: an accepted serialised receipt is the recomputed one.  Whatever payload
  \<open>validate_serialized_receipt\<close> accepts for an input equals, as Python values, the dictionary of the
  receipt the kernel computes for that input; in particular its disposition and its receipt hash
  are the computed ones.\<close>

theorem accepted_receipt_is_recomputed:
  assumes "validate_serialized_receipt payload (Obj inp) = Inr []"
  shows "\<exists>res r disp h. certify (Obj inp) = Inr res \<and> cr_receipt res = Obj r \<and> cr_disposition res = Some disp \<and>
    receipt_core_hash r = Inr h \<and> (\<exists>d. receipt_to_dict (Obj r) = Inr d \<and> py_eq payload d) \<and>
    py_eq (get (items payload) ''receipt_hash'') (PStr h) \<and>
    py_eq (get (items (get (items payload) ''certification'')) ''disposition'') (PStr (disposition_value disp))"
proof -
  obtain res where c: "certify (Obj inp) = Inr res"
    and e: "validate_receipt_envelope payload (cr_receipt res) = Inr []"
    using assms by (auto simp: validate_serialized_receipt_def ebind_Inr_iff split: if_splits)
  from c show ?thesis
  proof (rule certify_result_shape)
    fix ch csh ph eh st codes i
    assume po: "policy_ok (input_policy inp)"
      and r: "res = \<lparr>cr_verification = Obj (mk_result st codes i),
         cr_disposition = Some (certify_result (Obj (mk_result st codes i)) (input_policy inp)),
         cr_receipt = Obj (receipt_of ch csh ph eh (mk_result st codes i) (input_policy inp))\<rparr>"
    let ?r = "receipt_of ch csh ph eh (mk_result st codes i) (input_policy inp)"
    let ?disp = "certify_result (Obj (mk_result st codes i)) (input_policy inp)"
    obtain k where k: "receipt_core_hash ?r = Inr k"
      and ser: "serialize_receipt ?r = Inr (mkdict (receipt_fields ch csh ph eh st codes i ?disp (input_policy inp)
        @ [(''receipt_hash'', PStr k)]))" (is "_ = Inr (mkdict ?kvs)")
      using serialize_receipt_of [OF po] by metis
    define d where "d = items (mkdict ?kvs)"
    obtain w where w: "payload = PDict w" and b: "receipt_envelope_body w (Obj ?r) = Inr []"
      using e unfolding r
      by (auto simp: validate_receipt_envelope_def is_dict_iff catch_def malformed_def split: if_splits sum.splits)
    have eq: "py_eq (PDict w) (PDict d)" and keys: "keys_are w (map (\<lambda>p. str_of (fst p)) d)"
      using envelope_body_Nil [OF b] ser by (auto simp: d_def mkdict_def)
    have dist: "distinct (map fst d)" "list_all (\<lambda>p. is_str (fst p)) d"
      by (simp_all add: d_def receipt_fields_def)
    have hk: "has_key w ''receipt_hash''" "has_key w ''certification''"
      using keys by (auto simp: keys_are_def d_def receipt_fields_def)
    note get = get_receipt_fields [OF d_def]
    have rh: "py_eq (get w ''receipt_hash'') (PStr k)"
      using py_eq_field [OF eq dist hk(1)] unfolding get .
    have ce: "py_eq (get w ''certification'') (mkdict [(''disposition'', PStr (disposition_value ?disp)),
        (''policy'', policy_dict (input_policy inp))])"
      using py_eq_field [OF eq dist hk(2)] unfolding get .
    have "py_eq (get (items (get w ''certification'')) ''disposition'') (PStr (disposition_value ?disp))"
      using certification_disposition [OF b] ce by blast
    moreover have "receipt_to_dict (Obj ?r) = Inr (PDict d)"
      using ser by (simp add: receipt_to_dict_def receipt_of_def claim_differs_def d_def mkdict_def)
    ultimately show ?thesis using c k eq rh unfolding r w by auto
  qed
qed

theorem accepted_receipt_is_recomputed_witness:
  "\<exists>payload res. validate_serialized_receipt payload (Obj (sample_input_of sample_ids sample_passes)) = Inr [] \<and>
     certify (Obj (sample_input_of sample_ids sample_passes)) = Inr res"
  using sample_certifies kernel_receipt_roundtrip accepted_receipt_is_recomputed by metis

lemma clean_dict_inj:
  assumes "clean (PDict d) = Inr w" "clean (PDict e) = Inr w" "keys_are d ks" "keys_are e ks" "k \<in> set ks"
  shows "clean (get d k) = clean (get e k)"
proof -
  let ?f = "\<lambda>d k. ebind (clean (get d k)) (\<lambda>w. Inr (PStr k, w))"
  obtain z where d: "emap (?f d) (sorted_set ks) = Inr z" and e: "emap (?f e) (sorted_set ks) = Inr z"
    using assms(1,2) by (auto simp: clean_by_keys [OF assms(3)] clean_by_keys [OF assms(4)] ebind_Inr_iff
        simp del: clean.simps)
  have "k \<in> set (sorted_set ks)" using assms(5) by simp
  then obtain n where n: "n < length (sorted_set ks)" "sorted_set ks ! n = k" by (metis in_set_conv_nth)
  then have "?f d k = Inr (z ! n)" "?f e k = Inr (z ! n)"
    using d e unfolding emap_Inr_iff by (auto simp: list_all2_conv_all_nth)
  then show ?thesis by (auto simp: ebind_Inr_iff) (metis prod.inject)
qed

lemma certification_clean_inj:
  assumes "clean (mkdict [(''disposition'', PStr (disposition_value disp)), (''policy'', policy_dict po)]) =
      clean (mkdict [(''disposition'', PStr (disposition_value disp')), (''policy'', policy_dict po')])"
    and "policy_ok po"
  shows "disp = disp'"
proof -
  define d where "d = [(PStr ''disposition'', PStr (disposition_value disp)), (PStr ''policy'', policy_dict po)]"
  define e where "e = [(PStr ''disposition'', PStr (disposition_value disp')), (PStr ''policy'', policy_dict po')]"
  have "jv spaced (PDict d)" using jv_policy [OF assms(2)] by (simp add: d_def ordered_def spaced_def)
  then obtain u where "clean (PDict d) = Inr u" using jv_clean by blast
  moreover have "clean (PDict d) = clean (PDict e)"
    using assms(1) by (simp add: d_def e_def mkdict_def del: clean.simps)
  moreover have "keys_are d [''disposition'', ''policy'']" "keys_are e [''disposition'', ''policy'']"
    by (simp_all add: d_def e_def keys_are_def has_key_def)
  ultimately have "clean (get d ''disposition'') = clean (get e ''disposition'')"
    by (intro clean_dict_inj [of d u e]) auto
  then show ?thesis by (cases disp; cases disp') (simp_all add: d_def e_def get_def)
qed

lemma receipt_fields_inj:
  assumes eq: "clean (mkdict (receipt_fields ch csh ph eh st codes i disp po)) =
      clean (mkdict (receipt_fields ch' csh' ph' eh' st' codes' i' disp' po'))"
    and po: "policy_ok po" "policy_ok po'"
  shows "ch = ch' \<and> csh = csh' \<and> ph = ph' \<and> eh = eh' \<and> disp = disp'"
proof -
  let ?k = "receipt_fields ch csh ph eh st codes i disp po"
  let ?k' = "receipt_fields ch' csh' ph' eh' st' codes' i' disp' po'"
  obtain w where w: "clean (PDict (items (mkdict ?k))) = Inr w" "clean (PDict (items (mkdict ?k'))) = Inr w"
    using jv_clean [OF jv_receipt_fields(1) [OF po(1)]] eq by (metis items_mkdict mkdict_def)
  have keys: "keys_are (items (mkdict ?k)) receipt_keys" "keys_are (items (mkdict ?k')) receipt_keys"
    using keys_are_mkdict [of ?k] keys_are_mkdict [of ?k'] unfolding map_fst_receipt_fields by simp_all
  have f: "clean (get (items (mkdict ?k)) k) = clean (get (items (mkdict ?k')) k)" if "k \<in> set receipt_keys" for k
    using w keys that by (rule clean_dict_inj)
  have "clean (PStr ch) = clean (PStr ch')" "clean (PStr csh) = clean (PStr csh')"
    "clean (PStr ph) = clean (PStr ph')" "clean (PStr eh) = clean (PStr eh')"
    using f [of "''acceptance_contract_hash''"] f [of "''change_set_hash''"]
      f [of "''verification_plan_hash''"] f [of "''evidence_hash''"]
    by (simp_all add: receipt_keys_def receipt_fields_def get_def)
  moreover have "disp = disp'"
    using f [of "''certification''"] by (intro certification_clean_inj [OF _ po(1)])
      (simp add: receipt_keys_def receipt_fields_def get_def del: clean.simps)
  ultimately show ?thesis by simp
qed

text \<open>A receipt hash certifies one subject.  If two inputs yield receipts with the same hash, the
  dispositions agree and the contracts, change sets and plans agree field by field (up to the order
  of identifier and path lists), unless two different canonical texts have the same SHA-256.\<close>

theorem receipt_hash_binds_subjects:
  assumes "certify (Obj inp) = Inr res" "certify (Obj inp') = Inr res'"
    and "cr_receipt res = Obj r" "cr_receipt res' = Obj r'" "receipt_core_hash r = receipt_core_hash r'"
    and "ci_contract inp = Obj c" "ci_change_set inp = Obj cs" "ci_plan inp = Obj p"
    and "ci_contract inp' = Obj c'" "ci_change_set inp' = Obj cs'" "ci_plan inp' = Obj p'"
  shows "(cr_disposition res = cr_disposition res' \<and>
      (same_contract c c' \<or> values_collide (contract_value c) (contract_value c')) \<and>
      (same_change_set cs cs' \<or> values_collide (change_set_value cs) (change_set_value cs')) \<and>
      (same_plan p p' \<or> values_collide (plan_value p) (plan_value p'))) \<or>
    (\<exists>b b'. receipt_body r = Inr b \<and> receipt_body r' = Inr b' \<and> collides (mkdict b) (mkdict b'))"
proof -
  from assms(1) obtain e ch csh ph eh st codes i where
    v: "validate_evidence_subjects (Obj c) (Obj cs) (Obj p) (Obj e) = []" and po: "policy_ok (input_policy inp)"
    and h: "contract_hash c = Inr ch" "change_set_hash cs = Inr csh" "plan_hash p = Inr ph"
    and r: "r = receipt_of ch csh ph eh (mk_result st codes i) (input_policy inp)"
    and d: "cr_disposition res = Some (certify_result (Obj (mk_result st codes i)) (input_policy inp))"
    using assms(3,6-8) by (rule_tac certify_result_shape) auto
  from assms(2) obtain e' ch' csh' ph' eh' st' codes' i' where
    v': "validate_evidence_subjects (Obj c') (Obj cs') (Obj p') (Obj e') = []" and po': "policy_ok (input_policy inp')"
    and h': "contract_hash c' = Inr ch'" "change_set_hash cs' = Inr csh'" "plan_hash p' = Inr ph'"
    and r': "r' = receipt_of ch' csh' ph' eh' (mk_result st' codes' i') (input_policy inp')"
    and d': "cr_disposition res' = Some (certify_result (Obj (mk_result st' codes' i')) (input_policy inp'))"
    using assms(4,9-11) by (rule_tac certify_result_shape) auto
  have errs: "contract_errs c = []" "change_set_errs cs = []" "plan_errs p = []"
    "contract_errs c' = []" "change_set_errs cs' = []" "plan_errs p' = []"
    using v v' by (auto simp: subjects_valid_iff)
  let ?b = "receipt_fields ch csh ph eh st codes i (certify_result (Obj (mk_result st codes i)) (input_policy inp)) (input_policy inp)"
  let ?b' = "receipt_fields ch' csh' ph' eh' st' codes' i' (certify_result (Obj (mk_result st' codes' i')) (input_policy inp')) (input_policy inp')"
  have b: "receipt_body r = Inr ?b" "receipt_body r' = Inr ?b'" unfolding r r' by (rule receipt_body_of)+
  obtain w w' where "clean (mkdict ?b) = Inr w" "clean (mkdict ?b') = Inr w'"
    using jv_clean [OF jv_receipt_fields(1) [OF po]] jv_clean [OF jv_receipt_fields(1) [OF po']] by blast
  moreover have "hash_value (mkdict ?b) = hash_value (mkdict ?b')"
    using assms(5) b by (simp add: receipt_core_hash_def)
  ultimately have "clean (mkdict ?b) = clean (mkdict ?b') \<or> collides (mkdict ?b) (mkdict ?b')"
    by (simp add: hash_value_eq_iff)
  then show ?thesis
    using receipt_fields_inj [OF _ po po'] b h h' d d' contract_hash_eq_iff [OF errs(1,4)]
      change_set_hash_eq_iff [OF errs(2,5)] plan_hash_eq_iff [OF errs(3,6)] by force
qed

theorem receipt_hash_binds_subjects_witness:
  "\<exists>res r. certify (Obj (sample_input_of sample_ids sample_passes)) = Inr res \<and> cr_receipt res = Obj r \<and>
    ((same_contract sample_contract sample_contract \<or> values_collide (contract_value sample_contract) (contract_value sample_contract)) \<or>
     (\<exists>b b'. receipt_body r = Inr b \<and> receipt_body r = Inr b' \<and> collides (mkdict b) (mkdict b')))"
proof -
  obtain res where res: "certify (Obj (sample_input_of sample_ids sample_passes)) = Inr res"
    using sample_certifies by blast
  then obtain r where r: "cr_receipt res = Obj r" by (rule certify_result_shape) auto
  show ?thesis
    using receipt_hash_binds_subjects [OF res res r r refl, of sample_contract sample_change_set sample_plan
        sample_contract sample_change_set sample_plan] res r
    by (auto simp: sample_input_of_def)
qed

text \<open>The receipt factory's sealed invariant accepts exactly the receipts the class's own
  \<open>__post_init__\<close> accepts, and a certification result made by its factory from a reducer-produced
  verification satisfies that class's \<open>__post_init__\<close>.\<close>

lemma sealed_invariants_agree:
  "(receipt_invariant r = Inr () \<longleftrightarrow> receipt_post_init r = Inr ()) \<and>
   (create_certification_result v (Some d) x = Inr res \<and> is_reduced_result v \<longleftrightarrow>
     certification_result_post_init \<lparr>cr_verification = v, cr_disposition = Some d, cr_receipt = x\<rparr> = Inr () \<and>
     res = \<lparr>cr_verification = v, cr_disposition = Some d, cr_receipt = x\<rparr>)"
proof
  show "receipt_invariant r = Inr () \<longleftrightarrow> receipt_post_init r = Inr ()"
    by (auto simp: receipt_invariant_def receipt_post_init_def eseq_Inr_iff guard_Inr_iff)
  have "is_reduced_result v \<Longrightarrow> is_exact v" by (cases v) (auto simp: is_reduced_result_def is_exact_def)
  then show "create_certification_result v (Some d) x = Inr res \<and> is_reduced_result v \<longleftrightarrow>
     certification_result_post_init \<lparr>cr_verification = v, cr_disposition = Some d, cr_receipt = x\<rparr> = Inr () \<and>
     res = \<lparr>cr_verification = v, cr_disposition = Some d, cr_receipt = x\<rparr>"
    by (cases x) (auto simp: create_certification_result_def certification_result_post_init_def
        reducer_produced_def eseq_Inr_iff guard_Inr_iff)
qed

end
