(* ===== verification/Ledger.thy ===== *)
theory Ledger
  imports Kernel_Properties
begin

text \<open>
  \<open>product/ledger.py\<close>: the append-only receipt ledger.

  The SQLite table is the list of its rows in primary-key order; a transaction is a function from
  the table to an outcome and the table, so a rolled-back transaction returns the table it got.
  What SQLite and the other processes do is data of the model: before each attempt the others may
  have changed the table, connecting, \<open>BEGIN IMMEDIATE\<close> and \<open>COMMIT\<close> may raise \<open>OperationalError\<close> with
  any message, and the storage checks see the file modes of that moment.  The declared types of
  \<open>LedgerAppendRequest\<close> are kept (text and integer fields are strings and integers); the signer and
  the anchor verifier are parameters, functions that may raise.  \<open>chain_result\<close> leaves out the
  message text \<open>error_reason\<close>; the status names the fault.
\<close>

section \<open>Constants and results\<close>

definition LEDGER_SCHEMA_VERSION :: string where
  "LEDGER_SCHEMA_VERSION = ''nexus.ledger-entry.v1''"

definition GENESIS_PREVIOUS_HASH :: string where
  "GENESIS_PREVIOUS_HASH = ''sha256:'' @ replicate 64 (CHR ''0'')"

definition MAX_CONTENTION_ATTEMPTS :: nat where
  "MAX_CONTENTION_ATTEMPTS = 5"

definition IDENTITY_ENVELOPE_SCHEMA :: string where
  "IDENTITY_ENVELOPE_SCHEMA = ''nexus.evidence.identity-envelope.v1''"

datatype append_status =
    APPENDED | REPLAYED | STALE_GENERATION | IDEMPOTENCY_CONFLICT | UNKNOWN_EFFECT
  | BUSY_RETRY_EXHAUSTED

fun append_status_value :: "append_status \<Rightarrow> string" where
  "append_status_value APPENDED = ''APPENDED''"
| "append_status_value REPLAYED = ''REPLAYED''"
| "append_status_value STALE_GENERATION = ''STALE_GENERATION''"
| "append_status_value IDEMPOTENCY_CONFLICT = ''IDEMPOTENCY_CONFLICT''"
| "append_status_value UNKNOWN_EFFECT = ''UNKNOWN_EFFECT_RECONCILIATION_REQUIRED''"
| "append_status_value BUSY_RETRY_EXHAUSTED = ''LEDGER_BUSY_RECONCILIATION_REQUIRED''"

record signer =
  sg_public_metadata :: "pyval option"
  sg_sign_entry :: "string \<Rightarrow> (string \<times> string \<times> pyval \<times> string) res"

record ledger_request =
  lr_ledger_id :: string
  lr_request_id :: string
  lr_idempotency_key :: string
  lr_expected_generation :: int
  lr_attempt :: int
  lr_canonical_request :: pyval
  lr_identity_envelope_bytes :: string
  lr_completion_receipt_bytes :: string
  lr_source_snapshot_hash :: string
  lr_signer :: "signer option"
  lr_failpoint :: "string option"

text \<open>A row of \<open>ledger_entries\<close>; nullable columns are options.\<close>

record row =
  rw_sequence :: int
  rw_committed_generation :: int
  rw_expected_generation :: int
  rw_attempt :: int
  rw_ledger_id :: string
  rw_request_id :: string
  rw_idempotency_key :: string
  rw_request_hash :: string
  rw_envelope_bytes :: string
  rw_envelope_hash :: string
  rw_receipt_bytes :: string
  rw_receipt_hash :: string
  rw_factual_disposition :: string
  rw_claim_ceiling :: string
  rw_source_snapshot_hash :: string
  rw_previous_entry_hash :: string
  rw_entry_hash :: string
  rw_signer_algorithm :: "string option"
  rw_signer_key_id :: "string option"
  rw_signer_public_metadata :: "string option"
  rw_signature :: "string option"
  rw_created_at :: string

record ledger_entry =
  le_schema :: string
  le_ledger_id :: string
  le_sequence :: int
  le_committed_generation :: int
  le_expected_generation :: int
  le_attempt :: int
  le_request_id :: string
  le_idempotency_key :: string
  le_request_hash :: string
  le_envelope_bytes :: string
  le_envelope_hash :: string
  le_receipt_bytes :: string
  le_receipt_hash :: string
  le_factual_disposition :: pyval
  le_claim_ceiling :: "pyval list"
  le_source_snapshot_hash :: string
  le_previous_entry_hash :: string
  le_entry_hash :: string
  le_signer_algorithm :: "string option"
  le_signer_key_id :: "string option"
  le_signer_public_metadata :: pyval
  le_signature :: "string option"
  le_created_at :: string

definition opt_str :: "string option \<Rightarrow> pyval" where
  "opt_str x = (case x of None \<Rightarrow> PNone | Some s \<Rightarrow> PStr s)"

definition entry_to_dict :: "ledger_entry \<Rightarrow> pyval" where
  "entry_to_dict e = mkdict [(''schema'', PStr (le_schema e)), (''ledger_id'', PStr (le_ledger_id e)),
     (''sequence'', PInt (le_sequence e)), (''committed_generation'', PInt (le_committed_generation e)),
     (''expected_generation'', PInt (le_expected_generation e)), (''attempt'', PInt (le_attempt e)),
     (''request_id'', PStr (le_request_id e)), (''idempotency_key'', PStr (le_idempotency_key e)),
     (''request_hash'', PStr (le_request_hash e)), (''envelope_hash'', PStr (le_envelope_hash e)),
     (''receipt_hash'', PStr (le_receipt_hash e)), (''factual_disposition'', le_factual_disposition e),
     (''claim_ceiling'', PList (le_claim_ceiling e)),
     (''source_snapshot_hash'', PStr (le_source_snapshot_hash e)),
     (''previous_entry_hash'', PStr (le_previous_entry_hash e)), (''entry_hash'', PStr (le_entry_hash e)),
     (''signer_algorithm'', opt_str (le_signer_algorithm e)), (''signer_key_id'', opt_str (le_signer_key_id e)),
     (''signer_public_metadata'', le_signer_public_metadata e), (''created_at'', PStr (le_created_at e))]"

record append_result =
  ar_status :: append_status
  ar_entry :: "ledger_entry option"
  ar_is_replay :: bool
  ar_generation :: int
  ar_error_reason :: "string option"

record read_result =
  rr_found :: bool
  rr_entry :: "ledger_entry option"
  rr_status :: string

record chain_result =
  ch_valid :: bool
  ch_status :: string
  ch_entries_count :: nat
  ch_head_sequence :: int
  ch_head_generation :: int
  ch_head_hash :: "string option"

record anchor_result =
  an_status :: string
  an_head_hash :: "string option"
  an_reason :: "string option"

section \<open>Storage\<close>

text \<open>A path is the list of its parts, as in \<open>pathlib\<close>.\<close>

type_synonym path = "string list"

definition path_of :: "string \<Rightarrow> path" where
  "path_of s = (if startswith s ''/'' then [''/''] else []) @
     filter (\<lambda>p. p \<noteq> [] \<and> p \<noteq> ''.'') (split_on (CHR ''/'') s)"

record fs_view =
  fv_is_symlink :: "path \<Rightarrow> bool"
  fv_resolve :: "path \<Rightarrow> path"
  fv_home :: path
  fv_xdg_state_home :: "string option"

definition resolve_ledger_path :: "fs_view \<Rightarrow> path option \<Rightarrow> path res" where
  "resolve_ledger_path fs override_path =
     (case override_path of
        Some p \<Rightarrow>
          if fv_is_symlink fs p then Inl (SecurityErr, ''Ledger path cannot be a symlink'')
          else Inr (fv_resolve fs (butlast p) @ (if p = [] then [] else [last p]))
      | None \<Rightarrow>
          (let base = (case fv_xdg_state_home fs of
                 Some xdg \<Rightarrow> if xdg \<noteq> [] \<and> strip xdg \<noteq> [] then fv_resolve fs (path_of xdg)
                             else fv_resolve fs (fv_home fs @ [''.local'', ''state''])
               | None \<Rightarrow> fv_resolve fs (fv_home fs @ [''.local'', ''state'']))
           in Inr (fv_resolve fs (base @ [''nexus-core'', ''ledger.sqlite3'']))))"

text \<open>What \<open>stat\<close> says of a file, and whether \<open>chmod\<close> on it succeeds.\<close>

record fs_node =
  fn_exists :: bool
  fn_symlink :: bool
  fn_regular :: bool
  fn_nlink :: nat
  fn_uid :: int
  fn_mode :: nat
  fn_chmod_ok :: bool

record storage =
  st_process_uid :: int
  st_parent :: fs_node
  st_file :: fs_node
  st_wal :: fs_node
  st_shm :: fs_node

text \<open>Modes \<open>0o700\<close> and \<open>0o600\<close>.\<close>

definition chmod :: "nat \<Rightarrow> fs_node \<Rightarrow> fs_node" where
  "chmod m n = (if fn_chmod_ok n then n\<lparr>fn_mode := m\<rparr> else n)"

definition ensure_secure_storage :: "storage \<Rightarrow> storage res" where
  "ensure_secure_storage st =
     (if fn_symlink (st_file st) then Inl (SecurityErr, ''Ledger file cannot be a symlink'')
      else
        (let par = (if fn_exists (st_parent st) then st_parent st
                    else (st_parent st)\<lparr>fn_exists := True, fn_uid := st_process_uid st, fn_mode := 448\<rparr>);
             st1 = st\<lparr>st_parent := chmod 448 par\<rparr> in
         if fn_uid par \<noteq> st_process_uid st
         then Inl (PermissionErr, ''Directory is not owned by current UID'')
         else if \<not> fn_exists (st_file st) then Inr st1
         else if \<not> fn_regular (st_file st) then Inl (SecurityErr, ''Ledger file is not a regular file'')
         else if fn_nlink (st_file st) > 1 then Inl (SecurityErr, ''Ledger file has hard links'')
         else if fn_uid (st_file st) \<noteq> st_process_uid st
         then Inl (PermissionErr, ''Ledger file is not owned by current UID'')
         else Inr (st1\<lparr>st_file := chmod 384 (st_file st)\<rparr>)))"

definition secure_sidecar :: "int \<Rightarrow> fs_node \<Rightarrow> fs_node res" where
  "secure_sidecar uid n =
     (if \<not> fn_exists n then Inr n
      else if fn_symlink n \<or> \<not> fn_regular n then Inl (SecurityErr, ''Ledger sidecar is invalid'')
      else if fn_uid n \<noteq> uid then Inl (PermissionErr, ''Ledger sidecar is not owned by current UID'')
      else Inr (chmod 384 n))"

definition secure_sidecars :: "storage \<Rightarrow> storage res" where
  "secure_sidecars st =
     ebind (secure_sidecar (st_process_uid st) (st_file st)) (\<lambda>f.
     ebind (secure_sidecar (st_process_uid st) (st_wal st)) (\<lambda>w.
     ebind (secure_sidecar (st_process_uid st) (st_shm st)) (\<lambda>s.
       Inr (st\<lparr>st_file := f, st_wal := w, st_shm := s\<rparr>))))"

text \<open>The outcome of a database call: success, or an \<open>OperationalError\<close> with its message.\<close>

datatype sql_outcome = SqlOk | SqlError string

definition is_busy :: "string \<Rightarrow> bool" where
  "is_busy msg \<longleftrightarrow> contains ''busy'' (lower msg) \<or> contains ''locked'' (lower msg)"

text \<open>Opening the database creates its file, with the mode \<open>fn_mode\<close> (of the umask), when there is none.
  Whether the two sidecars exist by then is up to SQLite: their nodes are those of that moment.\<close>

definition create_database :: "storage \<Rightarrow> storage" where
  "create_database st = (if fn_exists (st_file st) then st
     else st\<lparr>st_file := (st_file st)\<lparr>fn_exists := True, fn_symlink := False, fn_regular := True, fn_nlink := 1,
       fn_uid := st_process_uid st\<rparr>\<rparr>)"

text \<open>\<open>_connect_ledger\<close>: up to five tries, each of which may raise; \<open>last_error\<close> is the last
  busy error.\<close>

fun connect_loop :: "storage \<Rightarrow> (nat \<Rightarrow> sql_outcome) \<Rightarrow> nat \<Rightarrow> string \<Rightarrow> storage res" where
  "connect_loop st tries 0 last_error = Inl (OperationalErr, last_error)"
| "connect_loop st tries (Suc n) last_error =
     (case tries (MAX_CONTENTION_ATTEMPTS - Suc n) of
        SqlOk \<Rightarrow> secure_sidecars (create_database st)
      | SqlError msg \<Rightarrow> if is_busy msg then connect_loop st tries n msg else Inl (OperationalErr, msg))"

definition connect_ledger :: "storage \<Rightarrow> (nat \<Rightarrow> sql_outcome) \<Rightarrow> storage res" where
  "connect_ledger st tries =
     ebind (ensure_secure_storage st) (\<lambda>st'.
       connect_loop st' tries MAX_CONTENTION_ATTEMPTS ''Could not connect to ledger'')"

section \<open>Hashes\<close>

definition compute_canonical_request_hash :: "pyval \<Rightarrow> string res" where
  "compute_canonical_request_hash v =
     (if isinstance_str v then
        (if startswith (str_of v) ''sha256:'' \<and> length (str_of v) = 71 then Inr (str_of v)
         else Inr (sha_text (utf8 (str_of v))))
      else hash_value v)"

text \<open>The part of an entry its hash covers.\<close>

record entry_core =
  ec_schema :: string
  ec_ledger_id :: string
  ec_sequence :: int
  ec_committed_generation :: int
  ec_request_id :: string
  ec_idempotency_key :: string
  ec_request_hash :: string
  ec_envelope_hash :: string
  ec_receipt_hash :: string
  ec_factual_disposition :: pyval
  ec_claim_ceiling :: "pyval list"
  ec_source_snapshot_hash :: string
  ec_previous_entry_hash :: string
  ec_signer_public_metadata :: pyval

definition entry_core_value :: "entry_core \<Rightarrow> pyval" where
  "entry_core_value c = PTuple [PStr (ec_schema c), PStr (ec_ledger_id c), PInt (ec_sequence c),
     PInt (ec_committed_generation c), PStr (ec_request_id c), PStr (ec_idempotency_key c),
     PStr (ec_request_hash c), PStr (ec_envelope_hash c), PStr (ec_receipt_hash c),
     ec_factual_disposition c, PList (ec_claim_ceiling c), PStr (ec_source_snapshot_hash c),
     PStr (ec_previous_entry_hash c), ec_signer_public_metadata c]"

definition compute_entry_hash :: "entry_core \<Rightarrow> string res" where
  "compute_entry_hash c = hash_value (entry_core_value c)"

definition row_to_entry :: "row \<Rightarrow> ledger_entry res" where
  "row_to_entry r =
     ebind (case rw_signer_public_metadata r of None \<Rightarrow> Inr PNone
            | Some s \<Rightarrow> if s = [] then Inr PNone else loads s) (\<lambda>meta.
     ebind (loads (rw_claim_ceiling r)) (\<lambda>cc.
     ebind (py_list cc) (\<lambda>ceiling.
       Inr \<lparr>le_schema = LEDGER_SCHEMA_VERSION, le_ledger_id = rw_ledger_id r, le_sequence = rw_sequence r,
         le_committed_generation = rw_committed_generation r,
         le_expected_generation = rw_expected_generation r, le_attempt = rw_attempt r,
         le_request_id = rw_request_id r, le_idempotency_key = rw_idempotency_key r,
         le_request_hash = rw_request_hash r, le_envelope_bytes = rw_envelope_bytes r,
         le_envelope_hash = rw_envelope_hash r, le_receipt_bytes = rw_receipt_bytes r,
         le_receipt_hash = rw_receipt_hash r, le_factual_disposition = PStr (rw_factual_disposition r),
         le_claim_ceiling = ceiling, le_source_snapshot_hash = rw_source_snapshot_hash r,
         le_previous_entry_hash = rw_previous_entry_hash r, le_entry_hash = rw_entry_hash r,
         le_signer_algorithm = rw_signer_algorithm r, le_signer_key_id = rw_signer_key_id r,
         le_signer_public_metadata = meta, le_signature = rw_signature r,
         le_created_at = rw_created_at r\<rparr>)))"

section \<open>Parsing a request\<close>

record parsed =
  pq_request_hash :: string
  pq_envelope_hash :: string
  pq_receipt_hash :: string
  pq_disposition :: pyval
  pq_claim_ceiling :: "pyval list"

text \<open>\<open>except Exception as exc: raise ValueError(..)\<close>.\<close>

definition as_value_error :: "string \<Rightarrow> 'a res \<Rightarrow> 'a res" where
  "as_value_error m r = (case r of Inl e \<Rightarrow> Inl (ValueErr, m @ snd e) | Inr a \<Rightarrow> Inr a)"

definition parse_envelope :: "string \<Rightarrow> string res" where
  "parse_envelope b = as_value_error ''malformed identity envelope bytes: ''
     (ebind (loads_bytes b) (\<lambda>v.
      eseq (guard (is_dict v \<and> py_eq (get (items v) ''schema'') (PStr IDENTITY_ENVELOPE_SCHEMA)) ValueErr
              ''invalid identity envelope schema'')
           (hash_value v)))"

text \<open>\<open>v["disposition"]\<close> for the value of \<open>"certification"\<close>.\<close>

definition subscript :: "pyval \<Rightarrow> string \<Rightarrow> pyval res" where
  "subscript v k = (case v of PDict d \<Rightarrow> getitem d k | _ \<Rightarrow> Inl (TypeErr, ''not subscriptable by a string''))"

definition parse_receipt :: "string \<Rightarrow> (string \<times> pyval \<times> pyval list) res" where
  "parse_receipt b = as_value_error ''malformed completion receipt bytes: ''
     (ebind (loads_bytes b) (\<lambda>v.
      eseq (guard (is_dict v \<and> py_eq (get (items v) ''receipt_schema'') (PStr CERTIFICATION_RECEIPT_SCHEMA))
              ValueErr ''invalid completion receipt schema'')
     (eseq (guard (truthy (get (items v) ''receipt_hash'') \<and> isinstance_str (get (items v) ''receipt_hash''))
              ValueErr ''completion receipt missing receipt_hash'')
     (ebind (getitem (items v) ''certification'') (\<lambda>c.
      ebind (subscript c ''disposition'') (\<lambda>disp.
      ebind (getitem (items v) ''claim_ceiling'') (\<lambda>cc.
      ebind (py_list cc) (\<lambda>ceiling.
        Inr (str_of (get (items v) ''receipt_hash''), disp, ceiling)))))))))"

definition parse_request :: "ledger_request \<Rightarrow> parsed res" where
  "parse_request q =
     ebind (compute_canonical_request_hash (lr_canonical_request q)) (\<lambda>rh.
     ebind (parse_envelope (lr_identity_envelope_bytes q)) (\<lambda>eh.
     ebind (parse_receipt (lr_completion_receipt_bytes q)) (\<lambda>(h, disp, ceiling).
       Inr \<lparr>pq_request_hash = rh, pq_envelope_hash = eh, pq_receipt_hash = h, pq_disposition = disp,
            pq_claim_ceiling = ceiling\<rparr>)))"

section \<open>The append transaction\<close>

text \<open>Binding a Python value to a \<open>TEXT NOT NULL\<close> column.\<close>

definition bind_text :: "pyval \<Rightarrow> string res" where
  "bind_text v = (case v of
      PStr s \<Rightarrow> Inr s | PEnum _ s \<Rightarrow> Inr s | PInt i \<Rightarrow> Inr (show_int i)
    | PBool b \<Rightarrow> Inr (if b then ''1'' else ''0'') | PFloat f \<Rightarrow> Inr (float_text f)
    | PNone \<Rightarrow> Inl (IntegrityErr, ''NOT NULL constraint failed'')
    | _ \<Rightarrow> Inl (InterfaceErr, ''Error binding parameter''))"

definition int64 :: "int \<Rightarrow> bool" where
  "int64 i \<longleftrightarrow> - (2 ^ 63) \<le> i \<and> i < 2 ^ 63"

definition sha256_digest :: "string \<Rightarrow> string" where
  "sha256_digest m = concat (map (\<lambda>w. map (\<lambda>i. char_of (nat (uint w div 256 ^ i mod 256))) [3, 2, 1, 0])
     (sha256_words m))"

text \<open>The durable head: sequence, generation and entry hash.\<close>

definition head_row :: "row list \<Rightarrow> int \<times> int \<times> string" where
  "head_row rows = (if rows = [] then (0, 0, GENESIS_PREVIOUS_HASH)
     else (let r = last rows in (rw_sequence r, rw_committed_generation r, rw_entry_hash r)))"

definition new_core :: "ledger_request \<Rightarrow> parsed \<Rightarrow> int \<Rightarrow> int \<Rightarrow> string \<Rightarrow> pyval \<Rightarrow> entry_core" where
  "new_core q p sq gen prev meta =
     \<lparr>ec_schema = LEDGER_SCHEMA_VERSION, ec_ledger_id = lr_ledger_id q, ec_sequence = sq,
      ec_committed_generation = gen, ec_request_id = lr_request_id q,
      ec_idempotency_key = lr_idempotency_key q, ec_request_hash = pq_request_hash p,
      ec_envelope_hash = pq_envelope_hash p, ec_receipt_hash = pq_receipt_hash p,
      ec_factual_disposition = pq_disposition p, ec_claim_ceiling = pq_claim_ceiling p,
      ec_source_snapshot_hash = lr_source_snapshot_hash q, ec_previous_entry_hash = prev,
      ec_signer_public_metadata = meta\<rparr>"

text \<open>Signing: the algorithm, key, metadata and signature (all absent without a signer) and the
  entry hash.\<close>

type_synonym signing = "string option \<times> string option \<times> pyval \<times> string option \<times> string"

definition sign_domain :: "ledger_request \<Rightarrow> parsed \<Rightarrow> int \<Rightarrow> int \<Rightarrow> string \<Rightarrow> pyval" where
  "sign_domain q p sq gen prelim = PTuple [PStr ''nexus.ledger-entry-signature.v1'', PStr (lr_ledger_id q),
     PInt sq, PInt gen, PStr prelim, PList (pq_claim_ceiling p)]"

text \<open>\<open>getattr(request.signer, "public_metadata", {})\<close>, or an empty dictionary when it is not one.\<close>

definition signer_meta :: "signer \<Rightarrow> pyval" where
  "signer_meta sg = (case sg_public_metadata sg of
     Some m \<Rightarrow> if is_dict m then m else PDict [] | None \<Rightarrow> PDict [])"

definition sign_new_entry :: "ledger_request \<Rightarrow> parsed \<Rightarrow> int \<Rightarrow> int \<Rightarrow> string \<Rightarrow> signing res" where
  "sign_new_entry q p sq gen prev =
     (case lr_signer q of
        None \<Rightarrow> ebind (compute_entry_hash (new_core q p sq gen prev PNone)) (\<lambda>h.
                  Inr (None, None, PNone, None, h))
      | Some sg \<Rightarrow>
          (let meta = signer_meta sg in
           ebind (compute_entry_hash (new_core q p sq gen prev (if truthy meta then meta else PNone))) (\<lambda>prelim.
           ebind (canonical_json (sign_domain q p sq gen prelim)) (\<lambda>domain.
           ebind (sg_sign_entry sg (sha256_digest (utf8 domain))) (\<lambda>(algo, kid, res_meta, sig).
           ebind (if \<not> py_eq res_meta meta
                  then compute_entry_hash (new_core q p sq gen prev res_meta) else Inr prelim) (\<lambda>h.
             Inr (Some algo, Some kid, res_meta, Some sig, h)))))))"

text \<open>The row to insert, with the exceptions of binding its parameters and of its constraints, and
  the entry reported to the caller.\<close>

definition new_row :: "ledger_request \<Rightarrow> parsed \<Rightarrow> int \<Rightarrow> int \<Rightarrow> string \<Rightarrow> signing \<Rightarrow> string \<Rightarrow> row res" where
  "new_row q p sq gen prev sg now =
     (case sg of (algo, kid, meta, sig, h) \<Rightarrow>
        ebind (dumps spaced (PList (pq_claim_ceiling p))) (\<lambda>cc.
        ebind (if meta = PNone then Inr None else ebind (dumps spaced meta) (\<lambda>t. Inr (Some t))) (\<lambda>mt.
        eseq (guard (int64 sq \<and> int64 gen \<and> int64 (lr_expected_generation q) \<and> int64 (lr_attempt q))
                OverflowErr ''Python int too large to convert to SQLite INTEGER'')
       (ebind (bind_text (pq_disposition p)) (\<lambda>disp.
          Inr \<lparr>rw_sequence = sq, rw_committed_generation = gen,
            rw_expected_generation = lr_expected_generation q, rw_attempt = lr_attempt q,
            rw_ledger_id = lr_ledger_id q, rw_request_id = lr_request_id q,
            rw_idempotency_key = lr_idempotency_key q, rw_request_hash = pq_request_hash p,
            rw_envelope_bytes = lr_identity_envelope_bytes q, rw_envelope_hash = pq_envelope_hash p,
            rw_receipt_bytes = lr_completion_receipt_bytes q, rw_receipt_hash = pq_receipt_hash p,
            rw_factual_disposition = disp, rw_claim_ceiling = cc,
            rw_source_snapshot_hash = lr_source_snapshot_hash q, rw_previous_entry_hash = prev,
            rw_entry_hash = h, rw_signer_algorithm = algo, rw_signer_key_id = kid,
            rw_signer_public_metadata = mt, rw_signature = sig, rw_created_at = now\<rparr>)))))"

definition new_entry :: "ledger_request \<Rightarrow> parsed \<Rightarrow> int \<Rightarrow> int \<Rightarrow> string \<Rightarrow> signing \<Rightarrow> string \<Rightarrow> ledger_entry" where
  "new_entry q p sq gen prev sg now =
     (case sg of (algo, kid, meta, sig, h) \<Rightarrow>
       \<lparr>le_schema = LEDGER_SCHEMA_VERSION, le_ledger_id = lr_ledger_id q, le_sequence = sq,
         le_committed_generation = gen, le_expected_generation = lr_expected_generation q,
         le_attempt = lr_attempt q, le_request_id = lr_request_id q,
         le_idempotency_key = lr_idempotency_key q, le_request_hash = pq_request_hash p,
         le_envelope_bytes = lr_identity_envelope_bytes q, le_envelope_hash = pq_envelope_hash p,
         le_receipt_bytes = lr_completion_receipt_bytes q, le_receipt_hash = pq_receipt_hash p,
         le_factual_disposition = pq_disposition p, le_claim_ceiling = pq_claim_ceiling p,
         le_source_snapshot_hash = lr_source_snapshot_hash q, le_previous_entry_hash = prev,
         le_entry_hash = h, le_signer_algorithm = algo, le_signer_key_id = kid,
         le_signer_public_metadata = meta, le_signature = sig, le_created_at = now\<rparr>)"

text \<open>\<open>INSERT\<close> checks the \<open>UNIQUE\<close> columns and the primary key.\<close>

definition insert_row :: "row list \<Rightarrow> row \<Rightarrow> row list res" where
  "insert_row rows r =
     (if list_ex (\<lambda>x. rw_request_id x = rw_request_id r \<or> rw_idempotency_key x = rw_idempotency_key r \<or>
          rw_entry_hash x = rw_entry_hash r \<or> rw_sequence x = rw_sequence r) rows
      then Inl (IntegrityErr, ''UNIQUE constraint failed'')
      else Inr (rows @ [r]))"

definition conflict_result :: "int \<Rightarrow> string \<Rightarrow> append_result" where
  "conflict_result gen why = \<lparr>ar_status = IDEMPOTENCY_CONFLICT, ar_entry = None, ar_is_replay = False,
     ar_generation = gen, ar_error_reason = Some why\<rparr>"

definition stale_result :: "int \<Rightarrow> int \<Rightarrow> append_result" where
  "stale_result expected current = \<lparr>ar_status = STALE_GENERATION, ar_entry = None, ar_is_replay = False,
     ar_generation = current, ar_error_reason = Some (''expected generation '' @ show_int expected @
       '' != current generation '' @ show_int current)\<rparr>"

definition replay_result :: "ledger_entry \<Rightarrow> append_result" where
  "replay_result e = \<lparr>ar_status = REPLAYED, ar_entry = Some e, ar_is_replay = True,
     ar_generation = le_committed_generation e, ar_error_reason = None\<rparr>"

definition appended_result :: "ledger_entry \<Rightarrow> append_result" where
  "appended_result e = \<lparr>ar_status = APPENDED, ar_entry = Some e, ar_is_replay = False,
     ar_generation = le_committed_generation e, ar_error_reason = None\<rparr>"

definition exhausted_result :: append_result where
  "exhausted_result = \<lparr>ar_status = BUSY_RETRY_EXHAUSTED, ar_entry = None, ar_is_replay = False,
     ar_generation = 0, ar_error_reason = Some ''SQLite busy contention retry exhausted''\<rparr>"

text \<open>The transaction up to \<open>COMMIT\<close>: a result without a write, or the table to commit with the entry
  to report.  \<open>now\<close> is the clock.\<close>

datatype txn = Answer append_result | Commit "row list" ledger_entry

definition append_txn :: "row list \<Rightarrow> ledger_request \<Rightarrow> parsed \<Rightarrow> string \<Rightarrow> txn res" where
  "append_txn rows q p now =
     (case find (\<lambda>r. rw_idempotency_key r = lr_idempotency_key q) rows of
        Some r \<Rightarrow>
          ebind (row_to_entry r) (\<lambda>e.
            if rw_request_hash r \<noteq> pq_request_hash p
            then Inr (Answer (conflict_result (le_committed_generation e)
                   ''idempotency key reused with different canonical request hash''))
            else Inr (Answer (replay_result e)))
      | None \<Rightarrow>
          if list_ex (\<lambda>r. rw_request_id r = lr_request_id q) rows
          then Inr (Answer (conflict_result 0
                 (''request_id '' @ lr_request_id q @ '' already bound to another key'')))
          else (case head_row rows of (cur_seq, cur_gen, prev) \<Rightarrow>
            if lr_expected_generation q \<noteq> cur_gen
            then Inr (Answer (stale_result (lr_expected_generation q) cur_gen))
            else (let sq = cur_seq + 1; gen = cur_gen + 1 in
              ebind (sign_new_entry q p sq gen prev) (\<lambda>sg.
                if lr_failpoint q = Some ''before_write'' then Inl (RuntimeErr, ''Failpoint: before_write'')
                else ebind (new_row q p sq gen prev sg now) (\<lambda>r.
                  ebind (insert_row rows r) (\<lambda>rows'.
                    if lr_failpoint q = Some ''before_commit''
                    then Inl (RuntimeErr, ''Failpoint: before_commit'')
                    else Inr (Commit rows' (new_entry q p sq gen prev sg now))))))))"

text \<open>What happens around one attempt.\<close>

record attempt_env =
  ae_others :: "row list \<Rightarrow> row list"
  ae_storage :: storage
  ae_connect :: "nat \<Rightarrow> sql_outcome"
  ae_begin :: sql_outcome
  ae_commit :: sql_outcome
  ae_after :: storage
  ae_now :: string

text \<open>One attempt: \<open>None\<close> to try again, or the answer (a result or an exception), and the table.  An
  \<open>OperationalError\<close> rolls back; after a commit the sidecar check or the failpoint may still raise.\<close>

definition operational :: "string \<Rightarrow> append_result res option" where
  "operational msg = (if is_busy msg then None else Some (Inl (OperationalErr, msg)))"

definition append_attempt ::
  "attempt_env \<Rightarrow> row list \<Rightarrow> ledger_request \<Rightarrow> parsed \<Rightarrow> append_result res option \<times> row list" where
  "append_attempt env rows0 q p =
     (let rows = ae_others env rows0 in
      case connect_ledger (ae_storage env) (ae_connect env) of
        Inl e \<Rightarrow> (if fst e = OperationalErr then operational (snd e) else Some (Inl e), rows)
      | Inr _ \<Rightarrow>
         (case ae_begin env of
            SqlError msg \<Rightarrow> (operational msg, rows)
          | SqlOk \<Rightarrow>
             (case append_txn rows q p (ae_now env) of
                Inl e \<Rightarrow> (if fst e = OperationalErr then operational (snd e) else Some (Inl e), rows)
              | Inr (Answer r) \<Rightarrow> (Some (Inr r), rows)
              | Inr (Commit rows' e) \<Rightarrow>
                 (case ae_commit env of
                    SqlError msg \<Rightarrow> (operational msg, rows)
                  | SqlOk \<Rightarrow>
                      (Some (ebind (secure_sidecars (ae_after env)) (\<lambda>_.
                         if lr_failpoint q = Some ''before_response''
                         then Inl (UnknownEffectErr, append_status_value UNKNOWN_EFFECT)
                         else Inr (appended_result e))), rows')))))"

fun append_loop ::
  "(nat \<Rightarrow> attempt_env) \<Rightarrow> nat \<Rightarrow> row list \<Rightarrow> ledger_request \<Rightarrow> parsed \<Rightarrow> append_result res \<times> row list" where
  "append_loop envs 0 rows q p = (Inr exhausted_result, rows)"
| "append_loop envs (Suc n) rows q p =
     (case append_attempt (envs (MAX_CONTENTION_ATTEMPTS - Suc n)) rows q p of
        (Some r, rows') \<Rightarrow> (r, rows')
      | (None, rows') \<Rightarrow> append_loop envs n rows' q p)"

definition append_or_replay ::
  "fs_view \<Rightarrow> path option \<Rightarrow> (nat \<Rightarrow> attempt_env) \<Rightarrow> row list \<Rightarrow> ledger_request \<Rightarrow> append_result res \<times> row list" where
  "append_or_replay fs db_path envs rows q =
     (case resolve_ledger_path fs db_path of
        Inl e \<Rightarrow> (Inl e, rows)
      | Inr _ \<Rightarrow>
         (case parse_request q of
            Inl e \<Rightarrow> (Inl e, rows)
          | Inr p \<Rightarrow> append_loop envs MAX_CONTENTION_ATTEMPTS rows q p))"

section \<open>Reading\<close>

text \<open>The environment of a read: where the ledger is, whether the file exists, how connecting goes.\<close>

record read_env =
  re_fs :: fs_view
  re_db_path :: "path option"
  re_exists :: bool
  re_storage :: storage
  re_connect :: "nat \<Rightarrow> sql_outcome"

definition with_connection :: "read_env \<Rightarrow> 'a \<Rightarrow> 'a res \<Rightarrow> 'a res" where
  "with_connection env absent body =
     ebind (resolve_ledger_path (re_fs env) (re_db_path env)) (\<lambda>_.
       if \<not> re_exists env then Inr absent
       else ebind (connect_ledger (re_storage env) (re_connect env)) (\<lambda>_. body))"

definition get_by_request_id :: "read_env \<Rightarrow> row list \<Rightarrow> string \<Rightarrow> read_result res" where
  "get_by_request_id env rows request_id =
     with_connection env \<lparr>rr_found = False, rr_entry = None, rr_status = ''LEDGER_NOT_FOUND''\<rparr>
       (case find (\<lambda>r. rw_request_id r = request_id) rows of
          None \<Rightarrow> Inr \<lparr>rr_found = False, rr_entry = None, rr_status = ''NOT_FOUND''\<rparr>
        | Some r \<Rightarrow> ebind (row_to_entry r) (\<lambda>e.
            Inr \<lparr>rr_found = True, rr_entry = Some e, rr_status = ''FOUND''\<rparr>))"

section \<open>Verifying the chain\<close>

definition empty_chain :: chain_result where
  "empty_chain = \<lparr>ch_valid = True, ch_status = ''EMPTY'', ch_entries_count = 0, ch_head_sequence = 0,
     ch_head_generation = 0, ch_head_hash = None\<rparr>"

definition entry_core_of :: "ledger_entry \<Rightarrow> entry_core" where
  "entry_core_of e = \<lparr>ec_schema = le_schema e, ec_ledger_id = le_ledger_id e,
     ec_sequence = le_sequence e, ec_committed_generation = le_committed_generation e,
     ec_request_id = le_request_id e, ec_idempotency_key = le_idempotency_key e,
     ec_request_hash = le_request_hash e, ec_envelope_hash = le_envelope_hash e,
     ec_receipt_hash = le_receipt_hash e, ec_factual_disposition = le_factual_disposition e,
     ec_claim_ceiling = le_claim_ceiling e, ec_source_snapshot_hash = le_source_snapshot_hash e,
     ec_previous_entry_hash = le_previous_entry_hash e,
     ec_signer_public_metadata = le_signer_public_metadata e\<rparr>"

definition envelope_fault :: "ledger_entry \<Rightarrow> string option" where
  "envelope_fault e =
     (case ebind (loads_bytes (le_envelope_bytes e)) hash_value of
        Inl _ \<Rightarrow> Some ''ENVELOPE_CORRUPT''
      | Inr h \<Rightarrow> if h \<noteq> le_envelope_hash e then Some ''ENVELOPE_TAMPERED'' else None)"

definition receipt_fault :: "ledger_entry \<Rightarrow> string option" where
  "receipt_fault e =
     (case loads_bytes (le_receipt_bytes e) of
        Inl _ \<Rightarrow> Some ''RECEIPT_CORRUPT''
      | Inr v \<Rightarrow>
          if \<not> is_dict v then Some ''RECEIPT_CORRUPT''
          else if \<not> py_eq (get (items v) ''receipt_hash'') (PStr (le_receipt_hash e))
          then Some ''RECEIPT_TAMPERED'' else None)"

text \<open>The first fault of an entry at its place in the chain, in the order of the checks.\<close>

definition entry_fault :: "string option \<Rightarrow> int \<Rightarrow> int \<Rightarrow> string \<Rightarrow> ledger_entry \<Rightarrow> string option res" where
  "entry_fault expected_ledger_id expected_sequence last_generation previous_hash e =
     (if expected_ledger_id \<noteq> None \<and> Some (le_ledger_id e) \<noteq> expected_ledger_id
      then Inr (Some ''LEDGER_ID_MISMATCH'')
      else if le_sequence e \<noteq> expected_sequence then Inr (Some ''SEQUENCE_GAP'')
      else if le_committed_generation e \<le> last_generation then Inr (Some ''GENERATION_NON_MONOTONIC'')
      else if le_previous_entry_hash e \<noteq> previous_hash then Inr (Some ''PREVIOUS_HASH_MISMATCH'')
      else (case envelope_fault e of
          Some f \<Rightarrow> Inr (Some f)
        | None \<Rightarrow>
           (case receipt_fault e of
              Some f \<Rightarrow> Inr (Some f)
            | None \<Rightarrow> ebind (compute_entry_hash (entry_core_of e)) (\<lambda>h.
                Inr (if h \<noteq> le_entry_hash e then Some ''ENTRY_HASH_MISMATCH'' else None)))))"

fun verify_rows ::
  "nat \<Rightarrow> string option \<Rightarrow> int \<Rightarrow> int \<Rightarrow> string \<Rightarrow> row list \<Rightarrow> chain_result res" where
  "verify_rows n lid sq gen prev [] =
     Inr \<lparr>ch_valid = True, ch_status = ''VALID'', ch_entries_count = n, ch_head_sequence = sq - 1,
          ch_head_generation = gen, ch_head_hash = Some prev\<rparr>"
| "verify_rows n lid sq gen prev (r # rs) =
     ebind (row_to_entry r) (\<lambda>e.
     ebind (entry_fault lid sq gen prev e) (\<lambda>f.
       case f of
         Some status \<Rightarrow> Inr \<lparr>ch_valid = False, ch_status = status, ch_entries_count = n,
            ch_head_sequence = le_sequence e, ch_head_generation = le_committed_generation e,
            ch_head_hash = Some (le_entry_hash e)\<rparr>
       | None \<Rightarrow> verify_rows n lid (sq + 1) (le_committed_generation e) (le_entry_hash e) rs))"

definition verify_table :: "row list \<Rightarrow> string option \<Rightarrow> chain_result res" where
  "verify_table rows lid = (if rows = [] then Inr empty_chain
     else verify_rows (length rows) lid 1 0 GENESIS_PREVIOUS_HASH rows)"

definition verify_chain :: "read_env \<Rightarrow> row list \<Rightarrow> string option \<Rightarrow> chain_result res" where
  "verify_chain env rows expected_ledger_id = with_connection env empty_chain (verify_table rows expected_ledger_id)"

section \<open>The external anchor\<close>

definition anchor_domain :: "string \<Rightarrow> row \<Rightarrow> pyval" where
  "anchor_domain lid r = PTuple [PStr ''nexus.ledger-head-anchor.v1'', PStr lid, PStr LEDGER_SCHEMA_VERSION,
     PInt (rw_committed_generation r), PInt (rw_sequence r), PStr (rw_entry_hash r)]"

definition anchor_unavailable :: "string \<Rightarrow> anchor_result" where
  "anchor_unavailable why = \<lparr>an_status = ''ANCHOR_UNAVAILABLE'', an_head_hash = None, an_reason = Some why\<rparr>"

definition verify_external_anchor ::
  "(pyval \<Rightarrow> string \<Rightarrow> string res) option \<Rightarrow> pyval \<Rightarrow> read_env \<Rightarrow> row list \<Rightarrow> string option \<Rightarrow> anchor_result res" where
  "verify_external_anchor verifier anchor env rows ledger_id =
     (case verifier of
        None \<Rightarrow> Inr (anchor_unavailable ''verifier or anchor is missing'')
      | Some verify_head_anchor \<Rightarrow>
          if anchor = PNone then Inr (anchor_unavailable ''verifier or anchor is missing'')
          else with_connection env (anchor_unavailable ''ledger database does not exist'')
            (if rows = [] then Inr (anchor_unavailable ''ledger is empty; head anchor unavailable'')
             else (let r = last rows;
                       lid = (case ledger_id of Some l \<Rightarrow> if l = [] then rw_ledger_id r else l
                              | None \<Rightarrow> rw_ledger_id r) in
               ebind (canonical_json (anchor_domain lid r)) (\<lambda>payload.
               ebind (verify_head_anchor anchor (utf8 payload)) (\<lambda>status.
                 Inr \<lparr>an_status = (if List.member [''VERIFIED'', ''ANCHOR_UNAVAILABLE'', ''UNVERIFIABLE''] status
                        then status else ''UNVERIFIABLE''),
                      an_head_hash = Some (rw_entry_hash r), an_reason = None\<rparr>)))))"

end
