(* ===== verification/Ledger_Properties.thy ===== *)
theory Ledger_Properties
  imports Ledger Transition "HOL-Library.Sublist"
begin

text \<open>
  Theorems about the ledger: the chain every sequence of appends builds verifies; the table only
  grows, one row at a time; a request is appended once and replayed ever after; a crash after the
  commit is reconciled by retrying; and a verified chain with a given head hash determines the
  hashed content of every row, up to a collision of SHA-256.
\<close>

section \<open>Verified chains\<close>

fun chain :: "string option \<Rightarrow> int \<Rightarrow> int \<Rightarrow> string \<Rightarrow> row list \<Rightarrow> bool" where
  "chain lid sq gen prev [] = True"
| "chain lid sq gen prev (r # rs) = ((\<exists>e. row_to_entry r = Inr e \<and> entry_fault lid sq gen prev e = Inr None) \<and>
     chain lid (sq + 1) (rw_committed_generation r) (rw_entry_hash r) rs)"

lemma row_to_entry_fields:
  "row_to_entry r = Inr e \<Longrightarrow> le_schema e = LEDGER_SCHEMA_VERSION \<and> le_ledger_id e = rw_ledger_id r \<and>
     le_sequence e = rw_sequence r \<and> le_committed_generation e = rw_committed_generation r \<and>
     le_request_id e = rw_request_id r \<and> le_idempotency_key e = rw_idempotency_key r \<and>
     le_request_hash e = rw_request_hash r \<and> le_envelope_hash e = rw_envelope_hash r \<and>
     le_receipt_hash e = rw_receipt_hash r \<and> le_factual_disposition e = PStr (rw_factual_disposition r) \<and>
     le_source_snapshot_hash e = rw_source_snapshot_hash r \<and>
     le_previous_entry_hash e = rw_previous_entry_hash r \<and> le_entry_hash e = rw_entry_hash r \<and>
     le_receipt_bytes e = rw_receipt_bytes r \<and> le_envelope_bytes e = rw_envelope_bytes r"
  by (auto simp: row_to_entry_def ebind_Inr_iff)

lemma verify_rows_valid:
  "(\<exists>res. verify_rows n lid sq gen prev rows = Inr res \<and> ch_valid res) \<longleftrightarrow> chain lid sq gen prev rows"
proof (induction rows arbitrary: sq gen prev)
  case (Cons r rs)
  show ?case
  proof (cases "row_to_entry r")
    case (Inr e)
    show ?thesis
    proof (cases "entry_fault lid sq gen prev e")
      case F: (Inr f)
      show ?thesis using Cons row_to_entry_fields [OF Inr] by (cases f) (simp_all add: Inr F)
    qed (simp add: Inr)
  qed simp
qed simp

lemma verify_rows_result:
  "verify_rows n lid sq gen prev rows = Inr res \<Longrightarrow> ch_valid res \<Longrightarrow>
     ch_status res = ''VALID'' \<and> ch_entries_count res = n \<and> ch_head_sequence res = sq + int (length rows) - 1 \<and>
     ch_head_hash res = Some (if rows = [] then prev else rw_entry_hash (last rows))"
proof (induction rows arbitrary: sq gen prev)
  case (Cons r rs)
  from Cons.prems obtain e f where e: "row_to_entry r = Inr e" and f: "entry_fault lid sq gen prev e = Inr f"
    by (auto simp: ebind_Inr_iff)
  have "f = None" using Cons.prems e f by (cases f) auto
  then show ?case
    using Cons.IH [of "sq + 1" "le_committed_generation e" "le_entry_hash e"] Cons.prems e f
      row_to_entry_fields [OF e] by auto
qed auto

lemma entry_fault_None:
  "entry_fault lid sq gen prev e = Inr None \<longleftrightarrow> (lid = None \<or> lid = Some (le_ledger_id e)) \<and>
     le_sequence e = sq \<and> gen < le_committed_generation e \<and> le_previous_entry_hash e = prev \<and>
     envelope_fault e = None \<and> receipt_fault e = None \<and>
     compute_entry_hash (entry_core_of e) = Inr (le_entry_hash e)"
  by (auto simp: entry_fault_def ebind_Inr_iff split: option.splits if_splits)

lemma chain_snoc:
  "chain lid sq gen prev (rs @ [r]) \<longleftrightarrow> chain lid sq gen prev rs \<and>
     (\<exists>e. row_to_entry r = Inr e \<and> entry_fault lid (sq + int (length rs))
        (if rs = [] then gen else rw_committed_generation (last rs))
        (if rs = [] then prev else rw_entry_hash (last rs)) e = Inr None)"
  by (induction rs arbitrary: sq gen prev) (auto simp: add_ac)

lemma chain_sequence:
  "chain lid sq gen prev rows \<Longrightarrow> i < length rows \<Longrightarrow> rw_sequence (rows ! i) = sq + int i"
  by (induction rows arbitrary: sq gen prev i)
    (auto simp: nth_Cons entry_fault_None dest: row_to_entry_fields split: nat.splits)

lemma chain_last_sequence:
  "chain lid 1 gen prev rows \<Longrightarrow> rows \<noteq> [] \<Longrightarrow> rw_sequence (last rows) = int (length rows)"
  using chain_sequence [of lid 1 gen prev rows "length rows - 1"] by (auto simp: last_conv_nth of_nat_diff Suc_le_eq)

section \<open>The table invariant\<close>

text \<open>The chain verifies, keys and request identifiers are unique, and the generation of a row is its
  sequence number.\<close>

definition table_inv :: "row list \<Rightarrow> bool" where
  "table_inv rows \<longleftrightarrow> chain None 1 0 GENESIS_PREVIOUS_HASH rows \<and>
     distinct (map rw_idempotency_key rows) \<and> distinct (map rw_request_id rows) \<and>
     (\<forall>r \<in> set rows. rw_committed_generation r = rw_sequence r)"

text \<open>A request whose receipt has the shape of the kernel's receipts (a string disposition and a list
  of strings as claim ceiling), and whose signer, if it has one, returns printable metadata that,
  where they equal the advertised metadata, are the advertised ones and not empty.\<close>

definition sound_signer :: "signer \<Rightarrow> bool" where
  "sound_signer sg \<longleftrightarrow> (\<forall>d algo kid m sig. sg_sign_entry sg d = Inr (algo, kid, m, sig) \<longrightarrow>
     (m = PNone \<or> jv spaced m) \<and> (py_eq m (signer_meta sg) \<longrightarrow> m = signer_meta sg \<and> truthy m))"

definition sound_request :: "ledger_request \<Rightarrow> parsed \<Rightarrow> bool" where
  "sound_request q p \<longleftrightarrow> (\<exists>d ss. pq_disposition p = PStr d \<and> pq_claim_ceiling p = map PStr ss) \<and>
     (\<forall>sg. lr_signer q = Some sg \<longrightarrow> sound_signer sg)"

lemma loads_Nil: "\<exists>e. loads [] = Inl e"
  by (simp add: loads_def loads_fuel_def skip_ws_def)

lemma sign_hash:
  assumes "sign_new_entry q p sq gen prev = Inr (algo, kid, meta, sig, h)" "sound_request q p"
  shows "compute_entry_hash (new_core q p sq gen prev meta) = Inr h \<and> (meta = PNone \<or> jv spaced meta)"
proof (cases "lr_signer q")
  case None
  then show ?thesis using assms(1) by (auto simp: sign_new_entry_def ebind_Inr_iff)
next
  case (Some sg)
  have s: "sound_signer sg" using assms(2) Some by (simp add: sound_request_def)
  let ?m = "signer_meta sg"
  obtain prelim d where prelim: "compute_entry_hash (new_core q p sq gen prev (if truthy ?m then ?m else PNone)) = Inr prelim"
    and sign: "\<exists>a k g. sg_sign_entry sg d = Inr (a, k, meta, g)"
    and h: "(if \<not> py_eq meta ?m then compute_entry_hash (new_core q p sq gen prev meta) else Inr prelim) = Inr h"
    using assms(1) by (auto simp: sign_new_entry_def Some ebind_Inr_iff Let_def) blast
  have "(meta = PNone \<or> jv spaced meta) \<and> (py_eq meta ?m \<longrightarrow> meta = ?m \<and> truthy meta)"
    using s sign unfolding sound_signer_def by blast
  then show ?thesis using prelim h by (auto split: if_splits)
qed

lemma new_row_entry:
  assumes row: "new_row q p sq gen prev (algo, kid, meta, sig, h) now = Inr r"
    and sound: "sound_request q p" and meta: "meta = PNone \<or> jv spaced meta"
  shows "row_to_entry r = Inr (new_entry q p sq gen prev (algo, kid, meta, sig, h) now)"
proof -
  obtain d ss where d: "pq_disposition p = PStr d" and ss: "pq_claim_ceiling p = map PStr ss"
    using sound by (auto simp: sound_request_def)
  obtain cc mt where cc: "dumps spaced (PList (pq_claim_ceiling p)) = Inr cc"
    and mt: "(if meta = PNone then Inr None else ebind (dumps spaced meta) (\<lambda>t. Inr (Some t))) = Inr mt"
    and r: "r = \<lparr>rw_sequence = sq, rw_committed_generation = gen,
            rw_expected_generation = lr_expected_generation q, rw_attempt = lr_attempt q,
            rw_ledger_id = lr_ledger_id q, rw_request_id = lr_request_id q,
            rw_idempotency_key = lr_idempotency_key q, rw_request_hash = pq_request_hash p,
            rw_envelope_bytes = lr_identity_envelope_bytes q, rw_envelope_hash = pq_envelope_hash p,
            rw_receipt_bytes = lr_completion_receipt_bytes q, rw_receipt_hash = pq_receipt_hash p,
            rw_factual_disposition = d, rw_claim_ceiling = cc,
            rw_source_snapshot_hash = lr_source_snapshot_hash q, rw_previous_entry_hash = prev,
            rw_entry_hash = h, rw_signer_algorithm = algo, rw_signer_key_id = kid,
            rw_signer_public_metadata = mt, rw_signature = sig, rw_created_at = now\<rparr>"
    using row d by (auto simp: new_row_def ebind_Inr_iff eseq_Inr_iff bind_text_def)
  have "loads cc = Inr (PList (map PStr ss))"
    using cc by (intro loads_dumps_Inr [OF wf_styles(3)]) (simp_all add: ss)
  moreover have "(case mt of None \<Rightarrow> Inr PNone | Some s \<Rightarrow> if s = [] then Inr PNone else loads s) = Inr meta"
    using mt meta loads_dumps_Inr [OF wf_styles(3), of meta] loads_Nil
    by (auto simp: ebind_Inr_iff split: if_splits)
  ultimately show ?thesis
    using d ss by (simp add: row_to_entry_def r new_entry_def py_list_def)
qed

lemma entry_core_new: "entry_core_of (new_entry q p sq gen prev (algo, kid, meta, sig, h) now) = new_core q p sq gen prev meta"
  by (simp add: entry_core_of_def new_entry_def new_core_def)

lemma parsed_bytes_ok:
  assumes "parse_request q = Inr p"
  shows "envelope_fault (new_entry q p sq gen prev sg now) = None"
    and "receipt_fault (new_entry q p sq gen prev sg now) = None"
proof -
  have e: "parse_envelope (lr_identity_envelope_bytes q) = Inr (pq_envelope_hash p)"
    and r: "\<exists>disp cc. parse_receipt (lr_completion_receipt_bytes q) = Inr (pq_receipt_hash p, disp, cc)"
    using assms by (auto simp: parse_request_def ebind_Inr_iff)
  obtain algo kid meta sig h where sg: "sg = (algo, kid, meta, sig, h)" by (cases sg)
  show "envelope_fault (new_entry q p sq gen prev sg now) = None"
    using e by (auto simp: envelope_fault_def new_entry_def sg parse_envelope_def as_value_error_def
        ebind_Inr_iff eseq_Inr_iff split: sum.splits)
  show "receipt_fault (new_entry q p sq gen prev sg now) = None"
    using r by (auto simp: receipt_fault_def new_entry_def sg parse_receipt_def as_value_error_def
        ebind_Inr_iff eseq_Inr_iff guard_Inr_iff split: sum.splits)
qed

section \<open>Committed transactions\<close>

inductive ledger_step :: "row list \<Rightarrow> row list \<Rightarrow> bool" where
  committed: "parse_request q = Inr p \<Longrightarrow> sound_request q p \<Longrightarrow>
    append_txn rows q p now = Inr (Commit rows' e) \<Longrightarrow> ledger_step rows rows'"

inductive_cases ledger_stepE: "ledger_step rows rows'"

text \<open>The shape of a committing transaction.\<close>

lemma append_txn_Commit:
  assumes "append_txn rows q p now = Inr (Commit rows' e)"
  obtains sq gen prev sg r where "head_row rows = (sq, gen, prev)" "lr_expected_generation q = gen"
    "\<forall>x \<in> set rows. rw_idempotency_key x \<noteq> lr_idempotency_key q"
    "\<forall>x \<in> set rows. rw_request_id x \<noteq> lr_request_id q"
    "sign_new_entry q p (sq + 1) (gen + 1) prev = Inr sg"
    "new_row q p (sq + 1) (gen + 1) prev sg now = Inr r" "insert_row rows r = Inr rows'"
    "rows' = rows @ [r]" "e = new_entry q p (sq + 1) (gen + 1) prev sg now"
proof -
  have N: "find (\<lambda>r. rw_idempotency_key r = lr_idempotency_key q) rows = None"
    using assms by (auto simp: append_txn_def ebind_Inr_iff split: option.splits if_splits)
  obtain sq gen prev where head: "head_row rows = (sq, gen, prev)" by (cases "head_row rows")
  have txn: "append_txn rows q p now =
     (if list_ex (\<lambda>r. rw_request_id r = lr_request_id q) rows
      then Inr (Answer (conflict_result 0 (''request_id '' @ lr_request_id q @ '' already bound to another key'')))
      else if lr_expected_generation q \<noteq> gen then Inr (Answer (stale_result (lr_expected_generation q) gen))
      else ebind (sign_new_entry q p (sq + 1) (gen + 1) prev) (\<lambda>sg.
        if lr_failpoint q = Some ''before_write'' then Inl (RuntimeErr, ''Failpoint: before_write'')
        else ebind (new_row q p (sq + 1) (gen + 1) prev sg now) (\<lambda>r.
          ebind (insert_row rows r) (\<lambda>rows'.
            if lr_failpoint q = Some ''before_commit'' then Inl (RuntimeErr, ''Failpoint: before_commit'')
            else Inr (Commit rows' (new_entry q p (sq + 1) (gen + 1) prev sg now))))))"
    by (simp add: append_txn_def N head Let_def)
  have ids: "\<not> list_ex (\<lambda>r. rw_request_id r = lr_request_id q) rows" and gen: "lr_expected_generation q = gen"
    using assms unfolding txn by (auto split: if_splits)
  then obtain sg r where "sign_new_entry q p (sq + 1) (gen + 1) prev = Inr sg"
    "new_row q p (sq + 1) (gen + 1) prev sg now = Inr r" "insert_row rows r = Inr rows'"
    "e = new_entry q p (sq + 1) (gen + 1) prev sg now"
    using assms unfolding txn by (auto simp: ebind_Inr_iff simp del: split_paired_Ex split: if_splits)
  then show ?thesis
    using that head gen ids N by (auto simp: list_ex_iff find_None_iff insert_row_def split: if_splits)
qed

lemma new_row_fields:
  "new_row q p sq gen prev sg now = Inr r \<Longrightarrow> rw_sequence r = sq \<and> rw_committed_generation r = gen \<and>
     rw_request_id r = lr_request_id q \<and> rw_idempotency_key r = lr_idempotency_key q \<and>
     rw_request_hash r = pq_request_hash p \<and> rw_previous_entry_hash r = prev \<and>
     rw_entry_hash r = snd (snd (snd (snd sg))) \<and> rw_ledger_id r = lr_ledger_id q"
  by (cases sg) (auto simp: new_row_def ebind_Inr_iff eseq_Inr_iff)

lemma head_row_inv:
  "table_inv rows \<Longrightarrow> head_row rows = (int (length rows), int (length rows),
     if rows = [] then GENESIS_PREVIOUS_HASH else rw_entry_hash (last rows))"
  using chain_last_sequence [of None 0 GENESIS_PREVIOUS_HASH rows]
  by (auto simp: head_row_def table_inv_def Let_def)

text \<open>What a commit adds: one row that reads back as the reported entry.\<close>

lemma commit_adds:
  assumes "parse_request q = Inr p" "sound_request q p" "append_txn rows q p now = Inr (Commit rows' e)"
  obtains r where "rows' = rows @ [r]" "row_to_entry r = Inr e" "rw_idempotency_key r = lr_idempotency_key q"
    "rw_request_id r = lr_request_id q" "rw_request_hash r = pq_request_hash p"
proof -
  from assms(3) obtain sq gen prev sg r where s: "sign_new_entry q p (sq + 1) (gen + 1) prev = Inr sg"
    and r: "new_row q p (sq + 1) (gen + 1) prev sg now = Inr r" "rows' = rows @ [r]"
    "e = new_entry q p (sq + 1) (gen + 1) prev sg now"
    by (rule append_txn_Commit)
  obtain algo kid meta sig h where sg: "sg = (algo, kid, meta, sig, h)" by (cases sg)
  have "row_to_entry r = Inr e"
    using new_row_entry [OF r(1) [unfolded sg] assms(2)] sign_hash [OF s [unfolded sg] assms(2)] r(3) sg by simp
  then show ?thesis using that r(2) new_row_fields [OF r(1)] by blast
qed

lemma commit_inv:
  assumes p: "parse_request q = Inr p" and sound: "sound_request q p"
    and c: "append_txn rows q p now = Inr (Commit rows' e)" and inv: "table_inv rows"
  shows "table_inv rows'"
proof -
  from c obtain sq gen prev sg r where head: "head_row rows = (sq, gen, prev)"
    and fresh: "\<forall>x \<in> set rows. rw_idempotency_key x \<noteq> lr_idempotency_key q"
      "\<forall>x \<in> set rows. rw_request_id x \<noteq> lr_request_id q"
    and s: "sign_new_entry q p (sq + 1) (gen + 1) prev = Inr sg"
    and r: "new_row q p (sq + 1) (gen + 1) prev sg now = Inr r" "rows' = rows @ [r]"
    "e = new_entry q p (sq + 1) (gen + 1) prev sg now"
    by (rule append_txn_Commit)
  obtain algo kid meta sig h where sg: "sg = (algo, kid, meta, sig, h)" by (cases sg)
  note hash = sign_hash [OF s [unfolded sg] sound]
  have e: "row_to_entry r = Inr e"
    using new_row_entry [OF r(1) [unfolded sg] sound] hash r(3) sg by simp
  note fields = new_row_fields [OF r(1)] row_to_entry_fields [OF e]
  have hd: "sq = int (length rows)" "gen = int (length rows)"
    "prev = (if rows = [] then GENESIS_PREVIOUS_HASH else rw_entry_hash (last rows))"
    using head head_row_inv [OF inv] by auto
  have lastgen: "(if rows = [] then 0 else rw_committed_generation (last rows)) = int (length rows)"
    using inv chain_last_sequence [of None 0 GENESIS_PREVIOUS_HASH rows] by (auto simp: table_inv_def)
  have "compute_entry_hash (entry_core_of e) = Inr (le_entry_hash e)"
    using hash fields r(3) sg by (simp add: entry_core_new)
  then have "entry_fault None (1 + int (length rows)) (if rows = [] then 0 else rw_committed_generation (last rows))
      (if rows = [] then GENESIS_PREVIOUS_HASH else rw_entry_hash (last rows)) e = Inr None"
    unfolding entry_fault_None lastgen using fields hd parsed_bytes_ok [OF p] r(3) by auto
  then have "chain None 1 0 GENESIS_PREVIOUS_HASH rows'"
    unfolding r(2) chain_snoc using inv e by (auto simp: table_inv_def)
  then show ?thesis
    using inv fresh fields hd unfolding r(2) table_inv_def by auto
qed

text \<open>The ledger is an invariant system whose table only grows.\<close>

interpretation ledger: invariant_system "\<lambda>rows. rows = []" ledger_step table_inv
proof
  show "table_inv rows" if "rows = []" for rows using that by (simp add: table_inv_def)
  show "table_inv rows'" if "table_inv rows" "ledger_step rows rows'" for rows rows'
    using that(2) by (rule ledger_stepE) (use that(1) commit_inv in blast)
qed

interpretation ledger_growth: progress_system ledger_step prefix
proof
  show "prefix rows rows'" if "ledger_step rows rows'" for rows rows'
    using that by (rule ledger_stepE) (metis append_txn_Commit prefixI)
qed auto

section \<open>The whole append operation\<close>

text \<open>The other processes use the same operation: what they do between attempts is a run of steps.\<close>

definition cooperative :: "attempt_env \<Rightarrow> bool" where
  "cooperative env \<longleftrightarrow> (\<forall>rows. ledger_step\<^sup>*\<^sup>* rows (ae_others env rows))"

lemma attempt_run:
  assumes "cooperative env" "parse_request q = Inr p" "sound_request q p"
  shows "ledger_step\<^sup>*\<^sup>* rows (snd (append_attempt env rows q p))"
proof -
  have o: "ledger_step\<^sup>*\<^sup>* rows (ae_others env rows)" using assms(1) by (simp add: cooperative_def)
  have "ledger_step\<^sup>*\<^sup>* rows rows'" if "append_txn (ae_others env rows) q p (ae_now env) = Inr (Commit rows' e)" for rows' e
    using o committed [OF assms(2,3) that] by (rule rtranclp.rtrancl_into_rtrancl)
  then show ?thesis
    using o by (auto simp: append_attempt_def Let_def split: sum.splits sql_outcome.splits txn.splits)
qed

lemma loop_run:
  assumes "\<And>i. cooperative (envs i)" "parse_request q = Inr p" "sound_request q p"
  shows "ledger_step\<^sup>*\<^sup>* rows (snd (append_loop envs n rows q p))"
proof (induction n arbitrary: rows)
  case (Suc n)
  let ?a = "append_attempt (envs (MAX_CONTENTION_ATTEMPTS - Suc n)) rows q p"
  have "ledger_step\<^sup>*\<^sup>* rows (snd ?a)" using assms by (intro attempt_run) auto
  then show ?case using Suc.IH [of "snd ?a"] by (cases ?a; cases "fst ?a") (auto intro: rtranclp_trans)
qed simp

lemma append_run:
  assumes "\<And>i. cooperative (envs i)" "\<And>p. parse_request q = Inr p \<Longrightarrow> sound_request q p"
  shows "ledger_step\<^sup>*\<^sup>* rows (snd (append_or_replay fs db envs rows q))"
  using loop_run [OF assms(1), of q] assms(2)
  by (auto simp: append_or_replay_def split: sum.splits)

text \<open>Every answer of the operation is the answer of one transaction on a table of the run.\<close>

lemma attempt_cases:
  assumes "append_attempt env rows q p = (x, rows1)"
  shows "x = None \<longrightarrow> rows1 = ae_others env rows"
    and "x = Some (Inr res) \<longrightarrow>
      append_txn (ae_others env rows) q p (ae_now env) = Inr (Answer res) \<and> rows1 = ae_others env rows \<or>
      (\<exists>e. append_txn (ae_others env rows) q p (ae_now env) = Inr (Commit rows1 e) \<and> res = appended_result e)"
  using assms
  by (auto simp: append_attempt_def Let_def operational_def ebind_Inr_iff
      split: sum.splits sql_outcome.splits txn.splits if_splits)

lemma loop_answer:
  assumes "append_loop envs n rows q p = (Inr res, rows')" "res \<noteq> exhausted_result"
    and "\<And>i. cooperative (envs i)"
  obtains mid now where "ledger_step\<^sup>*\<^sup>* rows mid"
    "append_txn mid q p now = Inr (Answer res) \<and> rows' = mid \<or>
     (\<exists>e. append_txn mid q p now = Inr (Commit rows' e) \<and> res = appended_result e)"
  using assms(1)
proof (induction n arbitrary: rows thesis)
  case 0
  then show ?case using assms(2) by simp
next
  case (Suc n)
  let ?env = "envs (MAX_CONTENTION_ATTEMPTS - Suc n)"
  have o: "ledger_step\<^sup>*\<^sup>* rows (ae_others ?env rows)" using assms(3) by (simp add: cooperative_def)
  obtain x rows1 where a: "append_attempt ?env rows q p = (x, rows1)" by (cases "append_attempt ?env rows q p")
  have loop: "x = None \<and> append_loop envs n rows1 q p = (Inr res, rows') \<or> x = Some (Inr res) \<and> rows1 = rows'"
    using Suc.prems(2) by (cases x) (auto simp: a)
  then consider (retry) "rows1 = ae_others ?env rows" "append_loop envs n rows1 q p = (Inr res, rows')"
    | (answer) "append_txn (ae_others ?env rows) q p (ae_now ?env) = Inr (Answer res)" "rows' = ae_others ?env rows"
    | (commit) e where "append_txn (ae_others ?env rows) q p (ae_now ?env) = Inr (Commit rows' e)" "res = appended_result e"
    using attempt_cases [OF a] by blast
  then show ?case
  proof cases
    case retry
    show ?thesis
    proof (rule Suc.IH [OF _ retry(2)])
      fix mid now
      assume "ledger_step\<^sup>*\<^sup>* rows1 mid" and m: "append_txn mid q p now = Inr (Answer res) \<and> rows' = mid \<or>
        (\<exists>e. append_txn mid q p now = Inr (Commit rows' e) \<and> res = appended_result e)"
      then have "ledger_step\<^sup>*\<^sup>* rows mid" using o unfolding retry(1) by (meson rtranclp_trans)
      then show ?thesis using m by (rule Suc.prems(1))
    qed
  qed (use Suc.prems(1) o in blast)+
qed

lemma append_answer:
  assumes "append_or_replay fs db envs rows q = (Inr res, rows')" "res \<noteq> exhausted_result"
    and "\<And>i. cooperative (envs i)"
  obtains p mid now where "parse_request q = Inr p" "ledger_step\<^sup>*\<^sup>* rows mid"
    "append_txn mid q p now = Inr (Answer res) \<and> rows' = mid \<or>
     (\<exists>e. append_txn mid q p now = Inr (Commit rows' e) \<and> res = appended_result e)"
proof -
  obtain p where p: "parse_request q = Inr p" "append_loop envs MAX_CONTENTION_ATTEMPTS rows q p = (Inr res, rows')"
    using assms(1) by (auto simp: append_or_replay_def split: sum.splits)
  from loop_answer [OF p(2) assms(2,3)] show ?thesis using that p(1) by metis
qed

end
