(* ===== verification/Ledger_Claims.thy ===== *)
theory Ledger_Claims
  imports Ledger_Properties
begin

text \<open>
  The properties of the ledger, with the sample requests their witnesses use.
\<close>

section \<open>Answers\<close>

lemma Answer_status:
  "append_txn rows q p now = Inr (Answer res) \<Longrightarrow>
     ar_status res = IDEMPOTENCY_CONFLICT \<or> ar_status res = STALE_GENERATION \<or> ar_status res = REPLAYED"
  by (auto simp: append_txn_def ebind_Inr_iff conflict_result_def stale_result_def replay_result_def Let_def
      split: option.splits prod.splits if_splits)

lemma find_distinct:
  "distinct (map f xs) \<Longrightarrow> x \<in> set xs \<Longrightarrow> find (\<lambda>y. f y = f x) xs = Some x"
  by (induction xs) (auto simp: image_iff)

text \<open>A table that already holds a row for the key answers from that row, whatever the request.\<close>

lemma txn_known_key:
  assumes "table_inv rows" "r \<in> set rows" "rw_idempotency_key r = lr_idempotency_key q" "row_to_entry r = Inr e"
  shows "append_txn rows q p now = Inr (Answer (if pq_request_hash p = rw_request_hash r then replay_result e
    else conflict_result (le_committed_generation e) ''idempotency key reused with different canonical request hash''))"
proof -
  have "find (\<lambda>x. rw_idempotency_key x = lr_idempotency_key q) rows = Some r"
    using find_distinct [of rw_idempotency_key rows r] assms by (simp add: table_inv_def)
  then show ?thesis using assms(4) by (simp add: append_txn_def)
qed

lemma run_keeps: "ledger_step\<^sup>*\<^sup>* rows rows' \<Longrightarrow> r \<in> set rows \<Longrightarrow> r \<in> set rows'"
  using ledger_growth.run_le set_mono_prefix by blast

lemma known_key_answer:
  assumes inv: "table_inv rows" and r: "r \<in> set rows" "rw_idempotency_key r = lr_idempotency_key q" "row_to_entry r = Inr e"
    and a: "append_or_replay fs db envs rows q = (Inr res, rows')" "ar_status res \<noteq> BUSY_RETRY_EXHAUSTED"
    and p: "parse_request q = Inr p" and coop: "\<And>i. cooperative (envs i)"
  shows "res = (if pq_request_hash p = rw_request_hash r then replay_result e
    else conflict_result (le_committed_generation e) ''idempotency key reused with different canonical request hash'')
    \<and> ledger_step\<^sup>*\<^sup>* rows rows'"
proof -
  have "res \<noteq> exhausted_result" using a(2) by (auto simp: exhausted_result_def)
  with a(1) obtain p' mid now where mid: "parse_request q = Inr p'" "ledger_step\<^sup>*\<^sup>* rows mid"
    "append_txn mid q p' now = Inr (Answer res) \<and> rows' = mid \<or>
     (\<exists>e. append_txn mid q p' now = Inr (Commit rows' e) \<and> res = appended_result e)"
    by (rule append_answer [OF _ _ coop])
  have "table_inv mid" "r \<in> set mid" using mid(2) inv r(1) ledger.run_inv run_keeps by blast+
  then show ?thesis using txn_known_key [OF _ _ r(2,3), of mid p' now] mid p by auto
qed

section \<open>Sample requests\<close>

definition sample_envelope :: pyval where
  "sample_envelope = mkdict [(''schema'', PStr IDENTITY_ENVELOPE_SCHEMA)]"

definition sample_receipt_of :: "pyval \<Rightarrow> pyval" where
  "sample_receipt_of disp = mkdict [(''receipt_schema'', PStr CERTIFICATION_RECEIPT_SCHEMA),
     (''receipt_hash'', PStr sample_sha), (''certification'', mkdict [(''disposition'', disp)]),
     (''claim_ceiling'', PList (map PStr CLAIM_CEILING))]"

abbreviation sample_receipt :: pyval where
  "sample_receipt \<equiv> sample_receipt_of (PStr ''CERTIFIED'')"

definition to_bytes :: "pyval \<Rightarrow> string" where
  "to_bytes v = utf8 (projr (dumps spaced v))"

definition sample_request :: "string \<Rightarrow> string \<Rightarrow> int \<Rightarrow> ledger_request" where
  "sample_request key rid gen = \<lparr>lr_ledger_id = ''ledger'', lr_request_id = rid, lr_idempotency_key = key,
     lr_expected_generation = gen, lr_attempt = 1, lr_canonical_request = PStr sample_sha,
     lr_identity_envelope_bytes = to_bytes sample_envelope,
     lr_completion_receipt_bytes = to_bytes sample_receipt, lr_source_snapshot_hash = sample_sha,
     lr_signer = None, lr_failpoint = None\<rparr>"

definition sample_parsed :: parsed where
  "sample_parsed = \<lparr>pq_request_hash = sample_sha, pq_envelope_hash = projr (hash_value sample_envelope),
     pq_receipt_hash = sample_sha, pq_disposition = PStr ''CERTIFIED'', pq_claim_ceiling = map PStr CLAIM_CEILING\<rparr>"

lemma loads_to_bytes: "jv spaced v \<Longrightarrow> loads_bytes (to_bytes v) = Inr v"
  using loads_bytes_dumps [OF wf_styles(3)] dumps_reads [OF wf_styles(3)]
  unfolding to_bytes_def by force

lemma sample_envelope_jv [simp]: "jv spaced sample_envelope"
  by (simp add: sample_envelope_def mkdict_def ordered_def spaced_def)

lemma sample_receipt_jv [simp]: "jv spaced sample_receipt"
  by (simp add: sample_receipt_of_def mkdict_def ordered_def spaced_def)

lemma sample_sha_facts: "startswith sample_sha ''sha256:''" "length sample_sha = 71" "sample_sha \<noteq> []"
  by (simp_all add: sample_sha_def)

lemma sample_parse: "parse_request (sample_request key rid gen) = Inr sample_parsed"
proof -
  obtain h where h: "hash_value sample_envelope = Inr h"
    using jv_clean [OF sample_envelope_jv] hash_value_total by blast
  have "parse_envelope (to_bytes sample_envelope) = Inr (projr (hash_value sample_envelope))"
    using loads_to_bytes [OF sample_envelope_jv] h
    by (simp add: parse_envelope_def as_value_error_def) (simp add: sample_envelope_def get_def)
  moreover have "parse_receipt (to_bytes sample_receipt) = Inr (sample_sha, PStr ''CERTIFIED'', map PStr CLAIM_CEILING)"
    using loads_to_bytes [OF sample_receipt_jv] sample_sha_facts(3)
    by (simp add: parse_receipt_def as_value_error_def)
      (simp add: sample_receipt_of_def get_def getitem_def truthy_def subscript_def mkdict_def py_list_def)
  moreover have "compute_canonical_request_hash (PStr sample_sha) = Inr sample_sha"
    using sample_sha_facts by (simp add: compute_canonical_request_hash_def)
  ultimately show ?thesis
    by (simp add: parse_request_def sample_request_def sample_parsed_def)
qed

lemma sample_sound: "sound_request (sample_request key rid gen) sample_parsed"
  by (auto simp: sound_request_def sample_request_def sample_parsed_def)

text \<open>A request without a signer commits when key and request identifier are fresh, the expected
  generation is the current one, the numbers fit 64 bits, and the entry hash is new.\<close>

lemma core_hash_total:
  assumes "pq_disposition p = PStr d" "pq_claim_ceiling p = map PStr ss"
  shows "\<exists>h. compute_entry_hash (new_core q p sq gen prev PNone) = Inr h"
  unfolding compute_entry_hash_def
  by (rule hash_value_total) (simp add: entry_core_value_def new_core_def assms)

lemma dumps_strs: "\<exists>t. dumps spaced (PList (map PStr ss)) = Inr t"
  using dumps_reads [OF wf_styles(3), of "PList (map PStr ss)"] by auto

lemma sample_commits: "\<exists>r e. append_txn [] (sample_request key rid 0) sample_parsed now = Inr (Commit [r] e)"
proof -
  let ?q = "sample_request key rid 0"
  obtain h where h: "compute_entry_hash (new_core ?q sample_parsed 1 1 GENESIS_PREVIOUS_HASH PNone) = Inr h"
    using core_hash_total [of sample_parsed "''CERTIFIED''" CLAIM_CEILING ?q 1 1 GENESIS_PREVIOUS_HASH]
    by (auto simp: sample_parsed_def)
  then have s: "sign_new_entry ?q sample_parsed 1 1 GENESIS_PREVIOUS_HASH = Inr (None, None, PNone, None, h)"
    by (simp add: sign_new_entry_def sample_request_def)
  obtain t where "dumps spaced (PList (map PStr CLAIM_CEILING)) = Inr t" using dumps_strs by blast
  then have "\<exists>r. new_row ?q sample_parsed 1 1 GENESIS_PREVIOUS_HASH (None, None, PNone, None, h) now = Inr r"
    by (simp add: new_row_def sample_parsed_def sample_request_def bind_text_def int64_def del: dumps.simps)
  then show ?thesis
    using s by (auto simp: append_txn_def head_row_def insert_row_def Let_def) (auto simp: sample_request_def)
qed

lemma sample_first_step: "\<exists>r. ledger_step [] [r]"
  using sample_commits committed [OF sample_parse sample_sound] by blast

text \<open>An environment in which nothing goes wrong.\<close>

definition own_node :: fs_node where
  "own_node = \<lparr>fn_exists = True, fn_symlink = False, fn_regular = True, fn_nlink = 1, fn_uid = 0,
     fn_mode = 384, fn_chmod_ok = True\<rparr>"

definition own_storage :: storage where
  "own_storage = \<lparr>st_process_uid = 0, st_parent = own_node, st_file = own_node, st_wal = own_node, st_shm = own_node\<rparr>"

definition quiet_env :: attempt_env where
  "quiet_env = \<lparr>ae_others = id, ae_storage = own_storage, ae_connect = (\<lambda>_. SqlOk), ae_begin = SqlOk,
     ae_commit = SqlOk, ae_after = own_storage, ae_now = ''2026-01-01T00:00:00+00:00''\<rparr>"

definition plain_fs :: fs_view where
  "plain_fs = \<lparr>fv_is_symlink = (\<lambda>_. False), fv_resolve = id, fv_home = [''/'', ''home''], fv_xdg_state_home = None\<rparr>"

lemma quiet_cooperative [simp]: "cooperative quiet_env"
  by (simp add: cooperative_def quiet_env_def)

lemma own_sidecars: "\<exists>st. secure_sidecars own_storage = Inr st"
  by (simp add: secure_sidecars_def secure_sidecar_def own_storage_def own_node_def)

lemma quiet_connects: "\<exists>st. connect_ledger (ae_storage quiet_env) (ae_connect quiet_env) = Inr st"
  by (simp add: connect_ledger_def ensure_secure_storage_def quiet_env_def own_storage_def own_node_def
      MAX_CONTENTION_ATTEMPTS_def numeral_eq_Suc chmod_def secure_sidecars_def secure_sidecar_def create_database_def Let_def)

lemma quiet_attempt:
  assumes "append_txn rows q p (ae_now quiet_env) = Inr t" "lr_failpoint q = None"
  shows "append_attempt quiet_env rows q p = (case t of Answer r \<Rightarrow> (Some (Inr r), rows)
    | Commit rows' e \<Rightarrow> (Some (Inr (appended_result e)), rows'))"
proof -
  obtain st st' where "connect_ledger (ae_storage quiet_env) (ae_connect quiet_env) = Inr st"
    "secure_sidecars own_storage = Inr st'"
    using quiet_connects own_sidecars by blast
  then show ?thesis
    using assms
    by (cases t) (simp_all add: append_attempt_def Let_def, simp_all add: quiet_env_def)
qed

lemma quiet_append:
  assumes "parse_request q = Inr p" "append_txn rows q p (ae_now quiet_env) = Inr t" "lr_failpoint q = None"
  shows "append_or_replay plain_fs None (\<lambda>_. quiet_env) rows q = (case t of Answer r \<Rightarrow> (Inr r, rows)
    | Commit rows' e \<Rightarrow> (Inr (appended_result e), rows'))"
proof -
  have "append_loop (\<lambda>_. quiet_env) (Suc n) rows q p = (case t of Answer r \<Rightarrow> (Inr r, rows)
      | Commit rows' e \<Rightarrow> (Inr (appended_result e), rows'))" for n
    using quiet_attempt [OF assms(2,3)] by (cases t) simp_all
  from this [of 4] show ?thesis
    using assms(1)
    by (simp add: append_or_replay_def resolve_ledger_path_def plain_fs_def Let_def MAX_CONTENTION_ATTEMPTS_def)
qed

section \<open>Properties\<close>

text \<open>C9: the history every run of the ledger builds verifies.  Let every request be sound: disposition and claim
  ceiling of its receipt are texts, and its signer, if it has one, returns metadata that is \<open>None\<close> or JSON and, where
  it equals the signer's public metadata, is the same value and not empty.  From the empty table, after any sequence
  of transactions committed for sound requests and one more \<open>append_or_replay\<close> (with any contention, crash or
  failpoint, the other processes appending sound requests through the same operation), the new table extends the
  old one and \<open>verify_chain\<close> reports it valid, with one entry per row.  A signer with empty metadata is excluded:
  the ledger writes a row for it that does not verify.\<close>

theorem ledger_history_verifies:
  assumes "ledger_step\<^sup>*\<^sup>* [] rows" "\<And>i. cooperative (envs i)"
    and "\<And>p. parse_request q = Inr p \<Longrightarrow> sound_request q p"
    and "append_or_replay fs db envs rows q = (r, rows')"
  shows "prefix rows rows' \<and> (\<exists>res. verify_table rows' None = Inr res \<and> ch_valid res \<and>
    ch_entries_count res = length rows' \<and> ch_head_sequence res = int (length rows'))"
proof -
  have run: "ledger_step\<^sup>*\<^sup>* rows rows'" using append_run [of envs q rows fs db] assms(2-4) by simp
  have "table_inv rows'"
    by (rule ledger.reachable_inv [OF refl]) (rule rtranclp_trans [OF assms(1) run])
  then have "chain None 1 0 GENESIS_PREVIOUS_HASH rows'" by (simp add: table_inv_def)
  then obtain res where "verify_rows (length rows') None 1 0 GENESIS_PREVIOUS_HASH rows' = Inr res" "ch_valid res"
    using verify_rows_valid by blast
  then have "\<exists>res. verify_table rows' None = Inr res \<and> ch_valid res \<and>
    ch_entries_count res = length rows' \<and> ch_head_sequence res = int (length rows')"
    using verify_rows_result [of "length rows'" None 1 0 GENESIS_PREVIOUS_HASH rows' res]
    by (cases rows') (auto simp: verify_table_def empty_chain_def)
  then show ?thesis using ledger_growth.run_le [OF run] by simp
qed

theorem ledger_history_verifies_witness:
  "\<exists>r rows'. append_or_replay plain_fs None (\<lambda>_. quiet_env) [] (sample_request ''key'' ''req'' 0) = (Inr r, rows') \<and>
     length rows' = 1 \<and> (\<exists>res. verify_table rows' None = Inr res \<and> ch_valid res \<and> ch_entries_count res = 1)"
proof -
  obtain r e where c: "append_txn [] (sample_request ''key'' ''req'' 0) sample_parsed (ae_now quiet_env) = Inr (Commit [r] e)"
    using sample_commits by blast
  have a: "append_or_replay plain_fs None (\<lambda>_. quiet_env) [] (sample_request ''key'' ''req'' 0) = (Inr (appended_result e), [r])"
    using quiet_append [OF sample_parse c] by (simp add: sample_request_def)
  show ?thesis
    using ledger_history_verifies [OF rtranclp.rtrancl_refl quiet_cooperative _ a] a sample_parse sample_sound by auto
qed



end
