(* ===== verification/Ledger_Tamper.thy ===== *)
theory Ledger_Tamper
  imports Ledger_Claims
begin

text \<open>
  What the hash chain protects and what it does not: tamper evidence of a verified chain, the
  content the entry hash does not cover, crashes after a commit, and the storage checks.
\<close>

section \<open>The hashed content of a row\<close>

definition row_core :: "row \<Rightarrow> pyval res" where
  "row_core r = ebind (row_to_entry r) (\<lambda>e. Inr (entry_core_value (entry_core_of e)))"

text \<open>The two hashed columns that hold JSON, as the values the hash covers: the claim ceiling as the list it loads as
  and the public metadata of the signer, in canonical form.\<close>

definition canonical_columns :: "row \<Rightarrow> (pyval list \<times> pyval) res" where
  "canonical_columns r = ebind (row_to_entry r) (\<lambda>e. ebind (emap clean (le_claim_ceiling e)) (\<lambda>ceiling.
     ebind (clean (le_signer_public_metadata e)) (\<lambda>meta. Inr (ceiling, meta))))"

text \<open>Two rows agree on every hashed column.\<close>

definition same_hashed :: "row \<Rightarrow> row \<Rightarrow> bool" where
  "same_hashed r s \<longleftrightarrow> rw_sequence r = rw_sequence s \<and> rw_committed_generation r = rw_committed_generation s \<and>
     rw_ledger_id r = rw_ledger_id s \<and> rw_request_id r = rw_request_id s \<and>
     rw_idempotency_key r = rw_idempotency_key s \<and> rw_request_hash r = rw_request_hash s \<and>
     rw_envelope_hash r = rw_envelope_hash s \<and> rw_receipt_hash r = rw_receipt_hash s \<and>
     rw_factual_disposition r = rw_factual_disposition s \<and>
     rw_source_snapshot_hash r = rw_source_snapshot_hash s \<and>
     rw_previous_entry_hash r = rw_previous_entry_hash s \<and> rw_entry_hash r = rw_entry_hash s \<and>
     (\<exists>columns. canonical_columns r = Inr columns \<and> canonical_columns s = Inr columns)"

definition chain_collision :: "row list \<Rightarrow> row list \<Rightarrow> bool" where
  "chain_collision xs ys \<longleftrightarrow> (\<exists>r \<in> set xs. \<exists>s \<in> set ys. values_collide (row_core r) (row_core s))"

lemma hash_value_clean: "hash_value v = Inr h \<Longrightarrow> \<exists>w. clean v = Inr w"
  by (cases "clean v") (auto simp: hash_value_raises)

lemma core_value_clean:
  assumes "clean (entry_core_value c) = clean (entry_core_value d)" "clean (entry_core_value c) = Inr w"
    and "ec_factual_disposition c = PStr x" "ec_factual_disposition d = PStr y"
  shows "ec_ledger_id c = ec_ledger_id d \<and> ec_sequence c = ec_sequence d \<and>
    ec_committed_generation c = ec_committed_generation d \<and> ec_request_id c = ec_request_id d \<and>
    ec_idempotency_key c = ec_idempotency_key d \<and> ec_request_hash c = ec_request_hash d \<and>
    ec_envelope_hash c = ec_envelope_hash d \<and> ec_receipt_hash c = ec_receipt_hash d \<and> x = y \<and>
    ec_source_snapshot_hash c = ec_source_snapshot_hash d \<and>
    ec_previous_entry_hash c = ec_previous_entry_hash d \<and>
    (\<exists>ceiling meta. emap clean (ec_claim_ceiling c) = Inr ceiling \<and> emap clean (ec_claim_ceiling d) = Inr ceiling \<and>
       clean (ec_signer_public_metadata c) = Inr meta \<and> clean (ec_signer_public_metadata d) = Inr meta)"
proof -
  obtain ca ma where ca: "emap clean (ec_claim_ceiling c) = Inr ca" "clean (ec_signer_public_metadata c) = Inr ma"
    using assms(2,3) by (auto simp: entry_core_value_def ebind_Inr_iff)
  obtain cb mb where cb: "emap clean (ec_claim_ceiling d) = Inr cb" "clean (ec_signer_public_metadata d) = Inr mb"
    using assms(1,2,4) by (auto simp: entry_core_value_def ebind_Inr_iff)
  show ?thesis using assms(1,3,4) by (simp add: entry_core_value_def ca cb)
qed

lemma same_entry_hash:
  assumes r: "row_to_entry r = Inr e" "compute_entry_hash (entry_core_of e) = Inr (le_entry_hash e)"
    and s: "row_to_entry s = Inr f" "compute_entry_hash (entry_core_of f) = Inr (le_entry_hash f)"
    and h: "rw_entry_hash r = rw_entry_hash s"
  shows "same_hashed r s \<or> values_collide (row_core r) (row_core s)"
proof -
  note fr = row_to_entry_fields [OF r(1)] and fs = row_to_entry_fields [OF s(1)]
  have eq: "hash_value (entry_core_value (entry_core_of e)) = hash_value (entry_core_value (entry_core_of f))"
    using r(2) s(2) h fr fs by (simp add: compute_entry_hash_def)
  obtain v w where v: "clean (entry_core_value (entry_core_of e)) = Inr v"
    and w: "clean (entry_core_value (entry_core_of f)) = Inr w"
    using hash_value_clean r(2) s(2) unfolding compute_entry_hash_def by blast
  have "v = w \<or> collides (entry_core_value (entry_core_of e)) (entry_core_value (entry_core_of f))"
    using eq hash_value_eq_iff [OF v w] by simp
  moreover have "same_hashed r s" if "v = w"
  proof -
    have core: "clean (entry_core_value (entry_core_of e)) = clean (entry_core_value (entry_core_of f))"
      "ec_factual_disposition (entry_core_of e) = PStr (rw_factual_disposition r)"
      "ec_factual_disposition (entry_core_of f) = PStr (rw_factual_disposition s)"
      using v w that fr fs by (simp_all add: entry_core_of_def)
    note agree = core_value_clean [OF core(1) v core(2,3)]
    then obtain ceiling meta where "emap clean (le_claim_ceiling e) = Inr ceiling" "emap clean (le_claim_ceiling f) = Inr ceiling"
        "clean (le_signer_public_metadata e) = Inr meta" "clean (le_signer_public_metadata f) = Inr meta"
      by (auto simp: entry_core_of_def)
    then have "canonical_columns r = Inr (ceiling, meta)" "canonical_columns s = Inr (ceiling, meta)"
      by (simp_all add: canonical_columns_def r(1) s(1))
    then show ?thesis using agree fr fs h by (auto simp: same_hashed_def entry_core_of_def)
  qed
  ultimately show ?thesis using r(1) s(1) by (auto simp: values_collide_def row_core_def)
qed

lemma chain_tamper:
  assumes "chain lid 1 0 GENESIS_PREVIOUS_HASH xs" "chain lid' 1 0 GENESIS_PREVIOUS_HASH ys"
    and "xs \<noteq> []" "ys \<noteq> []" "rw_entry_hash (last xs) = rw_entry_hash (last ys)"
  shows "list_all2 same_hashed xs ys \<or> chain_collision xs ys"
  using assms
proof (induction xs arbitrary: ys rule: rev_induct)
  case (snoc r xs)
  from snoc.prems(4) obtain ys0 s where ys: "ys = ys0 @ [s]" by (metis append_butlast_last_id)
  obtain e where e: "row_to_entry r = Inr e" "entry_fault lid (1 + int (length xs))
      (if xs = [] then 0 else rw_committed_generation (last xs))
      (if xs = [] then GENESIS_PREVIOUS_HASH else rw_entry_hash (last xs)) e = Inr None"
    and cx: "chain lid 1 0 GENESIS_PREVIOUS_HASH xs"
    using snoc.prems(1) by (auto simp: chain_snoc)
  obtain f where f: "row_to_entry s = Inr f" "entry_fault lid' (1 + int (length ys0))
      (if ys0 = [] then 0 else rw_committed_generation (last ys0))
      (if ys0 = [] then GENESIS_PREVIOUS_HASH else rw_entry_hash (last ys0)) f = Inr None"
    and cy: "chain lid' 1 0 GENESIS_PREVIOUS_HASH ys0"
    using snoc.prems(2) by (auto simp: ys chain_snoc)
  have "same_hashed r s \<or> values_collide (row_core r) (row_core s)"
    using e f snoc.prems(5) by (intro same_entry_hash [OF e(1) _ f(1)]) (auto simp: entry_fault_None ys)
  moreover have "list_all2 same_hashed (xs @ [r]) ys \<or> chain_collision (xs @ [r]) ys" if same: "same_hashed r s"
  proof -
    have len: "length xs = length ys0"
      using e(2) f(2) same row_to_entry_fields [OF e(1)] row_to_entry_fields [OF f(1)]
      by (auto simp: entry_fault_None same_hashed_def)
    have prev: "xs \<noteq> [] \<Longrightarrow> rw_entry_hash (last xs) = rw_entry_hash (last ys0)"
      using e(2) f(2) same len row_to_entry_fields [OF e(1)] row_to_entry_fields [OF f(1)]
      by (auto simp: entry_fault_None same_hashed_def split: if_splits)
    show ?thesis
    proof (cases "xs = []")
      case False
      then have "list_all2 same_hashed xs ys0 \<or> chain_collision xs ys0"
        using snoc.IH [OF cx cy] prev len by fastforce
      then show ?thesis using same by (auto simp: ys chain_collision_def list_all2_appendI)
    qed (use same len ys in simp)
  qed
  ultimately show ?case by (auto simp: chain_collision_def ys)
qed simp

section \<open>Properties\<close>

text \<open>C14: tamper evidence.  If two tables both verify and report the same head hash, they have the same
  length and agree row by row on every hashed column (sequence, generation, ledger, request,
  idempotency key, request, envelope and receipt hashes, disposition, claim ceiling, source snapshot, links and the
  public metadata of the signer; ceiling and metadata as the
  canonical JSON they load as), or two different canonical texts among them have the same SHA-256.\<close>

theorem same_head_same_history:
  assumes "verify_table xs lid = Inr a" "ch_valid a" "verify_table ys lid' = Inr b" "ch_valid b"
    and "ch_head_hash a = ch_head_hash b"
  shows "list_all2 same_hashed xs ys \<or> chain_collision xs ys"
proof -
  have valid: "zs \<noteq> [] \<Longrightarrow> chain l 1 0 GENESIS_PREVIOUS_HASH zs \<and> ch_head_hash c = Some (rw_entry_hash (last zs))"
    if "verify_table zs l = Inr c" "ch_valid c" for zs l c
    using that verify_rows_valid [of "length zs" l 1 0 GENESIS_PREVIOUS_HASH zs]
      verify_rows_result [of "length zs" l 1 0 GENESIS_PREVIOUS_HASH zs c] by (auto simp: verify_table_def)
  have empty: "verify_table [] l = Inr c \<Longrightarrow> ch_head_hash c = None" for l c
    by (auto simp: verify_table_def empty_chain_def)
  show ?thesis
  proof (cases "xs = [] \<or> ys = []")
    case True
    then have "xs = []" "ys = []" using assms valid empty by (metis option.distinct(1))+
    then show ?thesis by simp
  next
    case False
    then show ?thesis using chain_tamper [of lid xs lid' ys] valid assms by auto
  qed
qed

theorem same_head_same_history_witness:
  "\<exists>rows a. length rows = 1 \<and> verify_table rows None = Inr a \<and> ch_valid a \<and>
     (list_all2 same_hashed rows rows \<or> chain_collision rows rows)"
proof -
  obtain r where "ledger_step [] [r]" using sample_first_step by blast
  then have "table_inv [r]" using ledger.reachable_inv [OF refl, of "[r]"] by auto
  then obtain a where a: "verify_table [r] None = Inr a" "ch_valid a"
    using verify_rows_valid [of 1 None 1 0 GENESIS_PREVIOUS_HASH "[r]"]
    by (auto simp: table_inv_def verify_table_def simp del: verify_rows.simps)
  then have "length [r] = 1 \<and> verify_table [r] None = Inr a \<and> ch_valid a \<and>
     (list_all2 same_hashed [r] [r] \<or> chain_collision [r] [r])"
    using same_head_same_history [OF a a refl] by simp
  then show ?thesis by blast
qed

text \<open>The chain does not cover the receipt's body.  Replacing the stored receipt of any row by any
  other JSON object that carries the same \<open>receipt_hash\<close> field leaves the verification result of the
  table unchanged, although the operation is documented to fail on any tampering.\<close>

theorem receipt_body_not_covered:
  assumes "loads_bytes b = Inr v" "is_dict v" "py_eq (get (items v) ''receipt_hash'') (PStr (rw_receipt_hash r))"
    and "loads_bytes (rw_receipt_bytes r) = Inr w" "is_dict w"
    and "py_eq (get (items w) ''receipt_hash'') (PStr (rw_receipt_hash r))"
  shows "verify_table (xs @ r\<lparr>rw_receipt_bytes := b\<rparr> # ys) lid = verify_table (xs @ r # ys) lid"
proof -
  let ?r = "r\<lparr>rw_receipt_bytes := b\<rparr>"
  have conv: "row_to_entry ?r = ebind (row_to_entry r) (\<lambda>e. Inr (e\<lparr>le_receipt_bytes := b\<rparr>))"
    by (auto simp: row_to_entry_def ebind_def split: sum.splits option.splits)
  have "entry_fault lid sq gen prev (e\<lparr>le_receipt_bytes := b\<rparr>) = entry_fault lid sq gen prev e"
    if e: "row_to_entry r = Inr e" for e sq gen prev
  proof -
    note fields = row_to_entry_fields [OF e]
    have "envelope_fault (e\<lparr>le_receipt_bytes := b\<rparr>) = envelope_fault e" by (simp add: envelope_fault_def split: sum.split)
    moreover have "entry_core_of (e\<lparr>le_receipt_bytes := b\<rparr>) = entry_core_of e" by (simp add: entry_core_of_def)
    moreover have "receipt_fault (e\<lparr>le_receipt_bytes := b\<rparr>) = receipt_fault e"
      using assms fields by (simp add: receipt_fault_def)
    ultimately show ?thesis by (simp add: entry_fault_def cong: option.case_cong)
  qed
  then have "verify_rows n lid sq gen prev (xs @ ?r # ys) = verify_rows n lid sq gen prev (xs @ r # ys)" for n sq gen prev
    by (induction xs arbitrary: sq gen prev)
      (auto simp: conv ebind_def split: sum.splits option.splits)
  then show ?thesis by (simp add: verify_table_def)
qed

theorem receipt_body_not_covered_witness:
  "\<exists>r b. loads_bytes b = Inr (sample_receipt_of (PStr ''REJECTED'')) \<and> loads_bytes (rw_receipt_bytes r) = Inr sample_receipt \<and>
     verify_table [r\<lparr>rw_receipt_bytes := b\<rparr>] None = verify_table [r] None"
proof -
  have j: "jv spaced (sample_receipt_of (PStr ''REJECTED''))"
    by (simp add: sample_receipt_of_def mkdict_def ordered_def spaced_def)
  have h: "py_eq (get (items (sample_receipt_of d)) ''receipt_hash'') (PStr sample_sha)" "is_dict (sample_receipt_of d)" for d
    by (simp_all add: sample_receipt_of_def get_def)
  obtain r :: row where r: "rw_receipt_hash r = sample_sha" "rw_receipt_bytes r = to_bytes sample_receipt"
    by (metis row.select_convs(11,12))
  have w: "loads_bytes (rw_receipt_bytes r) = Inr sample_receipt" "is_dict sample_receipt"
    "py_eq (get (items sample_receipt) ''receipt_hash'') (PStr (rw_receipt_hash r))"
    using loads_to_bytes [OF sample_receipt_jv] r h by simp_all
  have "verify_table ([] @ r\<lparr>rw_receipt_bytes := to_bytes (sample_receipt_of (PStr ''REJECTED''))\<rparr> # []) None
      = verify_table ([] @ r # []) None"
    by (rule receipt_body_not_covered [OF loads_to_bytes [OF j] h(2) _ w]) (simp only: r h)
  then show ?thesis using w(1) loads_to_bytes [OF j] by (metis append_Nil)
qed

end
