(* ===== verification/Ledger_Contract.thy ===== *)
theory Ledger_Contract
  imports Ledger_Tamper
begin

text \<open>
  What the ledger promises its clients.  \<open>register_append\<close> is the abstract contract: a list of
  (idempotency key, request identifier, request hash) triples whose length is the generation; the
  detailed transaction implements it.  Then the generation fence, the recovery of a lost response,
  the outcome under contention, and the state of the storage behind an open connection.
\<close>

section \<open>The abstract register\<close>

type_synonym register = "(string \<times> string \<times> string) list"

text \<open>The generation and hash a key is registered with.\<close>

definition register_lookup :: "register \<Rightarrow> string \<Rightarrow> (int \<times> string) option" where
  "register_lookup reg key = map_option (\<lambda>(i, _, h). (i, h))
     (find (\<lambda>(i, k, _). k = key) (zip [1..int (length reg)] (map (\<lambda>(k, _, h). (k, h)) reg)))"

definition register_append ::
  "register \<Rightarrow> string \<Rightarrow> string \<Rightarrow> string \<Rightarrow> int \<Rightarrow> append_status \<times> int \<times> register" where
  "register_append reg key rid h expected =
     (case register_lookup reg key of
        Some (i, h') \<Rightarrow> (if h' = h then REPLAYED else IDEMPOTENCY_CONFLICT, i, reg)
      | None \<Rightarrow>
          if list_ex (\<lambda>(_, r, _). r = rid) reg then (IDEMPOTENCY_CONFLICT, 0, reg)
          else if expected \<noteq> int (length reg) then (STALE_GENERATION, int (length reg), reg)
          else (APPENDED, int (length reg) + 1, reg @ [(key, rid, h)]))"

definition register_of :: "row list \<Rightarrow> register" where
  "register_of rows = map (\<lambda>r. (rw_idempotency_key r, rw_request_id r, rw_request_hash r)) rows"

fun txn_result :: "row list \<Rightarrow> txn \<Rightarrow> append_result \<times> row list" where
  "txn_result rows (Answer r) = (r, rows)"
| "txn_result rows (Commit rows' e) = (appended_result e, rows')"

text \<open>The register's numbering of the rows is their generation.\<close>

lemma find_zip_from:
  "(\<And>i. i < length rows \<Longrightarrow> rw_committed_generation (rows ! i) = k + int i) \<Longrightarrow>
   find (\<lambda>(i, x, _). x = key) (zip [k..k + int (length rows) - 1] (map (\<lambda>r. (rw_idempotency_key r, rw_request_hash r)) rows))
   = map_option (\<lambda>r. (rw_committed_generation r, rw_idempotency_key r, rw_request_hash r))
       (find (\<lambda>r. rw_idempotency_key r = key) rows)"
proof (induction rows arbitrary: k)
  case (Cons r rs)
  have u: "[k..k + int (length (r # rs)) - 1] = k # [k + 1..k + 1 + int (length rs) - 1]"
    by (simp add: upto_rec1)
  have "rw_committed_generation (rs ! i) = k + 1 + int i" if "i < length rs" for i
    using Cons.prems [of "Suc i"] that by simp
  moreover have "rw_committed_generation r = k" using Cons.prems [of 0] by simp
  ultimately show ?case unfolding u using Cons.IH [of "k + 1"] by simp
qed simp

lemma inv_generation:
  "table_inv rows \<Longrightarrow> i < length rows \<Longrightarrow> rw_committed_generation (rows ! i) = 1 + int i"
  using chain_sequence [of None 1 0 GENESIS_PREVIOUS_HASH rows i] by (auto simp: table_inv_def)

lemma register_find:
  assumes "table_inv rows"
  shows "register_lookup (register_of rows) key = map_option (\<lambda>r. (rw_committed_generation r, rw_request_hash r))
       (find (\<lambda>r. rw_idempotency_key r = key) rows)"
proof -
  have "map (\<lambda>(k, _, h). (k, h)) (register_of rows) = map (\<lambda>r. (rw_idempotency_key r, rw_request_hash r)) rows"
    by (simp add: register_of_def)
  moreover have "length (register_of rows) = length rows" by (simp add: register_of_def)
  ultimately show ?thesis
    using find_zip_from [OF inv_generation [OF assms], of key]
    by (simp add: register_lookup_def option.map_comp comp_def)
qed

lemma txn_refines:
  assumes inv: "table_inv rows" and t: "append_txn rows q p now = Inr t"
  shows "(ar_status (fst (txn_result rows t)), ar_generation (fst (txn_result rows t)), register_of (snd (txn_result rows t)))
    = register_append (register_of rows) (lr_idempotency_key q) (lr_request_id q) (pq_request_hash p) (lr_expected_generation q)"
proof -
  let ?f = "find (\<lambda>r. rw_idempotency_key r = lr_idempotency_key q) rows"
  have ids: "list_ex (\<lambda>(_, r, _). r = lr_request_id q) (register_of rows) = list_ex (\<lambda>r. rw_request_id r = lr_request_id q) rows"
    by (induction rows) (auto simp: register_of_def)
  have len: "length (register_of rows) = length rows" by (simp add: register_of_def)
  show ?thesis
  proof (cases ?f)
    case (Some r)
    with t obtain e where "row_to_entry r = Inr e" by (auto simp: append_txn_def ebind_Inr_iff)
    with t Some row_to_entry_fields [OF this] show ?thesis
      by (auto simp: append_txn_def register_append_def register_find [OF inv] conflict_result_def replay_result_def
          split: if_splits)
  next
    case None
    note reg = register_append_def register_find [OF inv] None ids len
    show ?thesis
    proof (cases t)
      case (Answer r)
      with t None head_row_inv [OF inv] show ?thesis
        by (auto simp: append_txn_def reg Let_def conflict_result_def stale_result_def ebind_Inr_iff split: if_splits)
    next
      case (Commit rows' e)
      from t [unfolded Commit] obtain sq gen prev sg r where c: "head_row rows = (sq, gen, prev)" "lr_expected_generation q = gen"
        "\<forall>x \<in> set rows. rw_request_id x \<noteq> lr_request_id q"
        "new_row q p (sq + 1) (gen + 1) prev sg now = Inr r" "rows' = rows @ [r]"
        "e = new_entry q p (sq + 1) (gen + 1) prev sg now"
        by (rule append_txn_Commit)
      then have "le_committed_generation e = gen + 1" by (cases sg) (simp add: new_entry_def)
      moreover have "\<not> list_ex (\<lambda>r. rw_request_id r = lr_request_id q) rows" using c(3) by (simp add: list_ex_iff)
      ultimately show ?thesis
        using c head_row_inv [OF inv] new_row_fields [OF c(4)]
        by (simp add: reg Commit appended_result_def) (simp add: register_of_def)
    qed
  qed
qed

lemma length_register [simp]: "length (register_of rows) = length rows"
  by (simp add: register_of_def)

lemma register_status_cases:
  assumes "register_append reg key rid h expected = (st, g, reg')" "expected < int (length reg)"
  shows "st \<noteq> APPENDED \<and> reg' = reg \<and>
    ((\<forall>(k, r, _) \<in> set reg. k \<noteq> key \<and> r \<noteq> rid) \<longrightarrow> st = STALE_GENERATION \<and> g = int (length reg))"
proof -
  have "st \<noteq> APPENDED \<and> reg' = reg"
    using assms by (auto simp: register_append_def split: option.splits if_splits)
  moreover have "st = STALE_GENERATION \<and> g = int (length reg)" if new: "\<forall>(k, r, _) \<in> set reg. k \<noteq> key \<and> r \<noteq> rid"
  proof -
    have "register_lookup reg key = None"
      using new by (fastforce simp: register_lookup_def find_None_iff dest!: set_zip_rightD)
    moreover have "\<not> list_ex (\<lambda>(_, r, _). r = rid) reg" using new by (auto simp: list_ex_iff)
    ultimately show ?thesis using assms by (auto simp: register_append_def)
  qed
  ultimately show ?thesis by blast
qed

text \<open>The operation as a whole: its answer is the register's at one moment of the call.\<close>

lemma append_linearizes_at:
  assumes "table_inv rows" "\<And>i. cooperative (envs i)"
    and "append_or_replay fs db envs rows q = (Inr res, rows')" "ar_status res \<noteq> BUSY_RETRY_EXHAUSTED"
  shows "\<exists>p mid. parse_request q = Inr p \<and> ledger_step\<^sup>*\<^sup>* rows mid \<and> table_inv mid \<and> prefix mid rows' \<and>
    (ar_status res, ar_generation res, register_of rows') = register_append (register_of mid) (lr_idempotency_key q)
      (lr_request_id q) (pq_request_hash p) (lr_expected_generation q)"
proof -
  have "res \<noteq> exhausted_result" using assms(4) by (auto simp: exhausted_result_def)
  with assms(3) obtain p mid now where mid: "parse_request q = Inr p" "ledger_step\<^sup>*\<^sup>* rows mid"
    "append_txn mid q p now = Inr (Answer res) \<and> rows' = mid \<or>
     (\<exists>e. append_txn mid q p now = Inr (Commit rows' e) \<and> res = appended_result e)"
    by (rule append_answer [OF _ _ assms(2)])
  have inv: "table_inv mid" using ledger.run_inv [OF mid(2) assms(1)] .
  from mid(3) obtain t where t: "append_txn mid q p now = Inr t" "txn_result mid t = (res, rows')" by auto
  have "prefix mid rows'"
    using mid(3) by (metis append_txn_Commit prefix_order.refl prefixI)
  then show ?thesis using txn_refines [OF inv t(1)] t(2) mid(1,2) inv by auto
qed

section \<open>Lost responses\<close>

lemma unsigned_txn_error:
  assumes "append_txn rows q p now = Inl (UnknownEffectErr, m)" "table_inv rows" "sound_request q p" "lr_signer q = None"
  shows False
proof -
  obtain d ss where p: "pq_disposition p = PStr d" "pq_claim_ceiling p = map PStr ss"
    using assms(3) by (auto simp: sound_request_def)
  have rows: "\<exists>e. row_to_entry r = Inr e" if "r \<in> set rows" for r
  proof -
    have "chain l sq gen prev rows \<Longrightarrow> \<exists>e. row_to_entry r = Inr e" for l sq gen prev
      using that by (induction rows arbitrary: sq gen prev) auto
    then show ?thesis using assms(2) unfolding table_inv_def by blast
  qed
  have sign: "\<exists>h. sign_new_entry q p sq gen prev = Inr (None, None, PNone, None, h)" for sq gen prev
    using core_hash_total [OF p, of q sq gen prev] assms(4) by (auto simp: sign_new_entry_def)
  have row: "new_row q p sq gen prev (None, None, PNone, None, h) now \<noteq> Inl (UnknownEffectErr, m)" for sq gen prev h
    using dumps_strs [of ss] by (auto simp: new_row_def p bind_text_def guard_def eseq_def ebind_def simp del: dumps.simps)
  obtain cs cg prev where hd: "head_row rows = (cs, cg, prev)" by (cases "head_row rows")
  show False
  proof (cases "find (\<lambda>r. rw_idempotency_key r = lr_idempotency_key q) rows")
    case (Some r)
    then have "r \<in> set rows" by (auto simp: find_Some_iff)
    then show ?thesis using rows Some assms(1) by (fastforce simp: append_txn_def split: if_splits)
  next
    case None
    obtain h where s: "sign_new_entry q p (cs + 1) (cg + 1) prev = Inr (None, None, PNone, None, h)" using sign by blast
    show ?thesis
      using assms(1) row [of "cs + 1" "cg + 1" prev h]
      by (cases "new_row q p (cs + 1) (cg + 1) prev (None, None, PNone, None, h) now")
        (auto simp: append_txn_def None hd s Let_def insert_row_def split: if_splits)
  qed
qed

lemma secure_sidecars_error: "secure_sidecars st = Inl e \<Longrightarrow> fst e = SecurityErr \<or> fst e = PermissionErr"
  by (auto simp: secure_sidecars_def secure_sidecar_def ebind_def split: sum.splits if_splits)

lemma connect_error: "connect_ledger st tries = Inl e \<Longrightarrow> fst e = SecurityErr \<or> fst e = PermissionErr \<or> fst e = OperationalErr"
proof -
  have "connect_loop st tries n le = Inl e \<Longrightarrow> fst e = SecurityErr \<or> fst e = PermissionErr \<or> fst e = OperationalErr" for st n le
    by (induction n arbitrary: le) (auto split: sql_outcome.splits if_splits dest: secure_sidecars_error)
  then show "connect_ledger st tries = Inl e \<Longrightarrow> ?thesis"
    by (auto simp: connect_ledger_def ensure_secure_storage_def ebind_def Let_def split: sum.splits if_splits)
qed

lemma attempt_unknown:
  assumes "append_attempt env rows q p = (Some (Inl (UnknownEffectErr, m)), rows1)"
    and "table_inv (ae_others env rows)" "sound_request q p" "lr_signer q = None"
  shows "\<exists>e. append_txn (ae_others env rows) q p (ae_now env) = Inr (Commit rows1 e)"
  using assms(1) unsigned_txn_error [OF _ assms(2-4)]
  by (auto simp: append_attempt_def Let_def operational_def
      split: sum.splits sql_outcome.splits txn.splits if_splits dest!: connect_error)

lemma loop_unknown:
  assumes "append_loop envs n rows q p = (Inl (UnknownEffectErr, m), rows1)" "table_inv rows"
    and "\<And>i. cooperative (envs i)" "sound_request q p" "lr_signer q = None"
  shows "\<exists>mid now e. ledger_step\<^sup>*\<^sup>* rows mid \<and> append_txn mid q p now = Inr (Commit rows1 e)"
  using assms(1,2)
proof (induction n arbitrary: rows)
  case (Suc n)
  let ?env = "envs (MAX_CONTENTION_ATTEMPTS - Suc n)"
  have o: "ledger_step\<^sup>*\<^sup>* rows (ae_others ?env rows)" using assms(3) by (simp add: cooperative_def)
  have inv: "table_inv (ae_others ?env rows)" using ledger.run_inv [OF o Suc.prems(2)] .
  obtain x rows2 where a: "append_attempt ?env rows q p = (x, rows2)" by (cases "append_attempt ?env rows q p")
  show ?case
  proof (cases x)
    case None
    then have "rows2 = ae_others ?env rows" using attempt_cases(1) [OF a] by simp
    then show ?thesis using Suc.IH [of rows2] Suc.prems(1) inv o None a by (auto intro: rtranclp_trans)
  next
    case (Some r)
    then show ?thesis using Suc.prems(1) a attempt_unknown [OF _ inv assms(4,5)] o by auto
  qed
qed simp

section \<open>Storage\<close>

definition secured :: "int \<Rightarrow> fs_node \<Rightarrow> bool" where
  "secured uid n \<longleftrightarrow> (fn_exists n \<longrightarrow> \<not> fn_symlink n \<and> fn_regular n \<and> fn_uid n = uid \<and> (fn_chmod_ok n \<longrightarrow> fn_mode n = 384))"

lemma secure_sidecar_secured: "secure_sidecar uid n = Inr n' \<Longrightarrow> secured uid n' \<and> fn_nlink n' = fn_nlink n \<and> fn_exists n' = fn_exists n"
  by (auto simp: secure_sidecar_def secured_def chmod_def split: if_splits)

lemma secure_sidecars_secured:
  "secure_sidecars st = Inr st' \<Longrightarrow> secured (st_process_uid st) (st_file st') \<and> secured (st_process_uid st) (st_wal st') \<and>
     secured (st_process_uid st) (st_shm st') \<and> st_parent st' = st_parent st \<and>
     fn_nlink (st_file st') = fn_nlink (st_file st) \<and> fn_exists (st_file st') = fn_exists (st_file st)"
  by (auto simp: secure_sidecars_def ebind_Inr_iff dest: secure_sidecar_secured)

lemma connect_loop_secures: "connect_loop st tries n le = Inr st' \<Longrightarrow> secure_sidecars (create_database st) = Inr st'"
  by (induction n arbitrary: le) (auto split: sql_outcome.splits if_splits)

lemma ensure_secures:
  "ensure_secure_storage st = Inr st' \<Longrightarrow> fn_uid (st_parent st') = st_process_uid st \<and> st_process_uid st' = st_process_uid st \<and>
     (fn_chmod_ok (st_parent st') \<longrightarrow> fn_mode (st_parent st') = 448) \<and> (fn_exists (st_file st') \<longrightarrow> fn_nlink (st_file st') \<le> 1)"
  by (auto simp: ensure_secure_storage_def chmod_def Let_def split: if_splits)

section \<open>Contention\<close>

text \<open>The database is busy when connecting or starting the transaction reports it; an attempt is
  free when every database call of it succeeds and the files stay secure.\<close>

definition busy_attempt :: "attempt_env \<Rightarrow> bool" where
  "busy_attempt env \<longleftrightarrow> (case connect_ledger (ae_storage env) (ae_connect env) of
     Inl (k, m) \<Rightarrow> k = OperationalErr \<and> is_busy m
   | Inr _ \<Rightarrow> (case ae_begin env of SqlError m \<Rightarrow> is_busy m | SqlOk \<Rightarrow> False))"

definition free_attempt :: "attempt_env \<Rightarrow> bool" where
  "free_attempt env \<longleftrightarrow> connect_ledger (ae_storage env) (ae_connect env) \<in> range Inr \<and> ae_begin env = SqlOk \<and>
     ae_commit env = SqlOk \<and> secure_sidecars (ae_after env) \<in> range Inr"

text \<open>The table when attempt \<open>k\<close> starts, if the ones before it were busy.\<close>

fun others_until :: "(nat \<Rightarrow> attempt_env) \<Rightarrow> nat \<Rightarrow> row list \<Rightarrow> row list" where
  "others_until envs 0 rows = rows"
| "others_until envs (Suc k) rows = ae_others (envs k) (others_until envs k rows)"

lemma busy_retries: "busy_attempt env \<Longrightarrow> append_attempt env rows q p = (None, ae_others env rows)"
  by (auto simp: busy_attempt_def append_attempt_def operational_def Let_def split: sum.splits sql_outcome.splits prod.splits)

lemma free_answers:
  "free_attempt env \<Longrightarrow> append_txn (ae_others env rows) q p (ae_now env) = Inr t \<Longrightarrow> lr_failpoint q = None \<Longrightarrow>
     append_attempt env rows q p = (case txn_result (ae_others env rows) t of (r, rows') \<Rightarrow> (Some (Inr r), rows'))"
  by (cases t) (auto simp: free_attempt_def append_attempt_def Let_def split: sum.splits)

lemma loop_busy:
  "(\<And>i. i < k \<Longrightarrow> busy_attempt (envs i)) \<Longrightarrow> k \<le> MAX_CONTENTION_ATTEMPTS \<Longrightarrow>
     append_loop envs MAX_CONTENTION_ATTEMPTS rows q p =
     append_loop envs (MAX_CONTENTION_ATTEMPTS - k) (others_until envs k rows) q p"
proof (induction k)
  case (Suc k)
  then have n: "MAX_CONTENTION_ATTEMPTS - k = Suc (MAX_CONTENTION_ATTEMPTS - Suc k)"
    and m: "MAX_CONTENTION_ATTEMPTS - Suc (MAX_CONTENTION_ATTEMPTS - Suc k) = k" by auto
  show ?case
    using Suc busy_retries [of "envs k" "others_until envs k rows" q p] by (simp add: n m)
qed simp

section \<open>Properties\<close>

text \<open>C11: the append operation implements the abstract register atomically.  On any reachable
  table, whatever the contention and the other processes' appends during the call, an answer that is
  not "retries exhausted" has the status and generation of the register at one moment of the call,
  and the table it leaves is the one the register has then.\<close>

theorem append_implements_register:
  assumes "ledger_step\<^sup>*\<^sup>* [] rows" "\<And>i. cooperative (envs i)"
    and "append_or_replay fs db envs rows q = (Inr res, rows')" "ar_status res \<noteq> BUSY_RETRY_EXHAUSTED"
  shows "\<exists>p mid. parse_request q = Inr p \<and> ledger_step\<^sup>*\<^sup>* rows mid \<and>
    (ar_status res, ar_generation res, register_of rows') = register_append (register_of mid) (lr_idempotency_key q)
      (lr_request_id q) (pq_request_hash p) (lr_expected_generation q)"
  using append_linearizes_at [OF ledger.reachable_inv [OF refl assms(1)] assms(2-4)] by blast

theorem append_implements_register_witness:
  "\<exists>res rows'. append_or_replay plain_fs None (\<lambda>_. quiet_env) [] (sample_request ''key'' ''req'' 0) = (Inr res, rows') \<and>
     register_append [] ''key'' ''req'' sample_sha 0 = (APPENDED, 1, [(''key'', ''req'', sample_sha)]) \<and>
     (\<exists>p mid. parse_request (sample_request ''key'' ''req'' 0) = Inr p \<and> ledger_step\<^sup>*\<^sup>* [] mid \<and>
       (ar_status res, ar_generation res, register_of rows') = register_append (register_of mid) ''key'' ''req'' (pq_request_hash p) 0)"
proof -
  obtain r e where c: "append_txn [] (sample_request ''key'' ''req'' 0) sample_parsed (ae_now quiet_env) = Inr (Commit [r] e)"
    using sample_commits by blast
  have a: "append_or_replay plain_fs None (\<lambda>_. quiet_env) [] (sample_request ''key'' ''req'' 0) = (Inr (appended_result e), [r])"
    using quiet_append [OF sample_parse c] by (simp add: sample_request_def)
  show ?thesis
    using append_implements_register [OF rtranclp.rtrancl_refl quiet_cooperative a] a
    by (auto simp: appended_result_def sample_request_def register_append_def register_lookup_def)
qed

text \<open>C12: the generation fence.  Once a request that expected generation \<open>g\<close> has been appended, no
  later call that expects the same generation is appended, whatever happened in between: with a new
  key and request identifier it is answered \<open>STALE_GENERATION\<close>.\<close>

theorem one_commit_per_generation:
  assumes "ledger_step\<^sup>*\<^sup>* [] rows" "\<And>i. cooperative (envs i)" "\<And>i. cooperative (envs' i)"
    and "\<And>p. parse_request q = Inr p \<Longrightarrow> sound_request q p"
    and "append_or_replay fs db envs rows q = (Inr res, rows1)" "ar_status res = APPENDED"
    and "ledger_step\<^sup>*\<^sup>* rows1 rows2"
    and "append_or_replay fs' db' envs' rows2 q' = (Inr res', rows3)" "ar_status res' \<noteq> BUSY_RETRY_EXHAUSTED"
    and "lr_expected_generation q' = lr_expected_generation q"
  shows "ar_status res' \<noteq> APPENDED \<and>
    ((\<forall>r \<in> set rows3. rw_idempotency_key r \<noteq> lr_idempotency_key q' \<and> rw_request_id r \<noteq> lr_request_id q') \<longrightarrow>
      ar_status res' = STALE_GENERATION)"
proof -
  have inv: "table_inv rows" "table_inv rows1" "table_inv rows2"
    using ledger.reachable_inv [OF refl assms(1)] append_run [of envs q rows fs db] assms(2,4,5,7)
      ledger.run_inv by (metis snd_conv)+
  have "ar_status res \<noteq> BUSY_RETRY_EXHAUSTED" using assms(6) by simp
  from append_linearizes_at [OF inv(1) assms(2,5) this, unfolded assms(6)] obtain p :: parsed and mid
    where m: "table_inv mid" "(APPENDED, ar_generation res, register_of rows1) = register_append (register_of mid)
       (lr_idempotency_key q) (lr_request_id q) (pq_request_hash p) (lr_expected_generation q)"
    by blast
  then have "lr_expected_generation q = int (length mid)" "\<exists>x. register_of rows1 = register_of mid @ [x]"
    by (auto simp: register_append_def split: option.splits if_splits)
  moreover from this(2) have "length rows1 = Suc (length mid)" by (metis length_append_singleton length_register)
  ultimately have "lr_expected_generation q < int (length rows1)" by simp
  then have gen: "lr_expected_generation q' < int (length rows1)" using assms(10) by simp
  from append_linearizes_at [OF inv(3) assms(3,8,9)] obtain p' :: parsed and mid' where m': "ledger_step\<^sup>*\<^sup>* rows2 mid'" "prefix mid' rows3"
    "register_append (register_of mid') (lr_idempotency_key q') (lr_request_id q') (pq_request_hash p')
       (lr_expected_generation q') = (ar_status res', ar_generation res', register_of rows3)" by metis
  have "prefix rows1 mid'" using ledger_growth.run_le rtranclp_trans [OF assms(7) m'(1)] by blast
  then have "lr_expected_generation q' < int (length (register_of mid'))"
    using gen prefix_length_le by fastforce
  note c = register_status_cases [OF m'(3) this]
  have "\<forall>(k, r, _) \<in> set (register_of mid'). k \<noteq> lr_idempotency_key q' \<and> r \<noteq> lr_request_id q'"
    if "\<forall>r \<in> set rows3. rw_idempotency_key r \<noteq> lr_idempotency_key q' \<and> rw_request_id r \<noteq> lr_request_id q'"
    using that set_mono_prefix [OF m'(2)] by (auto simp: register_of_def)
  then show ?thesis using c by blast
qed

theorem one_commit_per_generation_witness:
  "\<exists>e rows1 res'. append_or_replay plain_fs None (\<lambda>_. quiet_env) [] (sample_request ''key'' ''req'' 0) =
     (Inr (appended_result e), rows1) \<and>
   append_or_replay plain_fs None (\<lambda>_. quiet_env) rows1 (sample_request ''other'' ''other'' 0) = (Inr res', rows1) \<and>
   ar_status res' = STALE_GENERATION"
proof -
  let ?q = "sample_request ''key'' ''req'' 0" and ?q' = "sample_request ''other'' ''other'' 0"
  obtain r e where c: "append_txn [] ?q sample_parsed (ae_now quiet_env) = Inr (Commit [r] e)"
    using sample_commits by blast
  have a: "append_or_replay plain_fs None (\<lambda>_. quiet_env) [] ?q = (Inr (appended_result e), [r])"
    using quiet_append [OF sample_parse c] by (simp add: sample_request_def)
  obtain k where k: "rw_idempotency_key r = ''key''" "rw_request_id r = ''req''" "table_inv [r]"
    using commit_adds [OF sample_parse sample_sound c] commit_inv [OF sample_parse sample_sound c]
    by (auto simp: sample_request_def table_inv_def)
  have t: "append_txn [r] ?q' sample_parsed (ae_now quiet_env) = Inr (Answer (stale_result 0 1))"
    using k(1,2) head_row_inv [OF k(3)] by (simp add: append_txn_def) (simp add: sample_request_def)
  have b: "append_or_replay plain_fs None (\<lambda>_. quiet_env) [r] ?q' = (Inr (stale_result 0 1), [r])"
    using quiet_append [OF sample_parse t] by (simp add: sample_request_def)
  have "ar_status (stale_result 0 1) = STALE_GENERATION"
    using one_commit_per_generation [OF rtranclp.rtrancl_refl quiet_cooperative quiet_cooperative _ a _ rtranclp.rtrancl_refl b]
      sample_parse sample_sound k(1,2) by (auto simp: sample_request_def appended_result_def stale_result_def)
  then show ?thesis using a b by blast
qed

text \<open>C13: a lost response is recovered by retrying.  If a call without a signer raises
  \<open>UnknownEffectError\<close>, its row is in the table, and every later call with the same key and canonical
  request that is not starved is answered \<open>REPLAYED\<close> with the entry of that row.\<close>

theorem lost_response_is_replayed:
  assumes reach: "ledger_step\<^sup>*\<^sup>* [] rows" and coop: "\<And>i. cooperative (envs i)" "\<And>i. cooperative (envs' i)"
    and p: "parse_request q = Inr p" "sound_request q p" "lr_signer q = None"
    and lost: "append_or_replay fs db envs rows q = (Inl (UnknownEffectErr, m), rows1)"
    and later: "ledger_step\<^sup>*\<^sup>* rows1 rows2"
    and again: "append_or_replay fs' db' envs' rows2 q' = (Inr res, rows3)" "ar_status res \<noteq> BUSY_RETRY_EXHAUSTED"
    and same: "lr_idempotency_key q' = lr_idempotency_key q" "parse_request q' = Inr p'" "pq_request_hash p' = pq_request_hash p"
  shows "\<exists>r e. r \<in> set rows1 \<and> row_to_entry r = Inr e \<and> rw_request_id r = lr_request_id q \<and>
    rw_receipt_hash r = pq_receipt_hash p \<and> res = replay_result e"
proof -
  have inv: "table_inv rows" using ledger.reachable_inv [OF refl reach] .
  have "append_loop envs MAX_CONTENTION_ATTEMPTS rows q p = (Inl (UnknownEffectErr, m), rows1)"
    using lost p(1) by (auto simp: append_or_replay_def resolve_ledger_path_def Let_def split: sum.splits option.splits if_splits)
  from loop_unknown [OF this inv coop(1) p(2,3)] obtain mid now e
    where c: "ledger_step\<^sup>*\<^sup>* rows mid" "append_txn mid q p now = Inr (Commit rows1 e)" by blast
  from commit_adds [OF p(1,2) c(2)] obtain r where r: "rows1 = mid @ [r]" "row_to_entry r = Inr e"
    "rw_idempotency_key r = lr_idempotency_key q" "rw_request_hash r = pq_request_hash p" "rw_request_id r = lr_request_id q"
    by blast
  have "le_receipt_hash e = pq_receipt_hash p"
    using c(2) by (rule append_txn_Commit) (auto simp: new_entry_def split: prod.splits)
  then have hash: "rw_receipt_hash r = pq_receipt_hash p" using row_to_entry_fields [OF r(2)] by simp
  have "table_inv rows2"
    using ledger.run_inv [OF _ inv] c(1) committed [OF p(1,2) c(2)] later by (meson rtranclp_trans rtranclp.rtrancl_into_rtrancl)
  moreover have "r \<in> set rows2" using run_keeps [OF later] r(1) by simp
  ultimately have "res = replay_result e"
    using known_key_answer [OF _ _ _ r(2) again same(2) coop(2)] r(3,4) same(1,3) by auto
  then show ?thesis using r hash by auto
qed

theorem lost_response_is_replayed_witness:
  "\<exists>m rows1 res. append_or_replay plain_fs None (\<lambda>_. quiet_env) []
       ((sample_request ''key'' ''req'' 0)\<lparr>lr_failpoint := Some ''before_response''\<rparr>) = (Inl (UnknownEffectErr, m), rows1) \<and>
     append_or_replay plain_fs None (\<lambda>_. quiet_env) rows1 (sample_request ''key'' ''req'' 0) = (Inr res, rows1) \<and>
     ar_status res = REPLAYED"
proof -
  let ?q' = "sample_request ''key'' ''req'' 0"
  let ?q = "?q'\<lparr>lr_failpoint := Some ''before_response''\<rparr>"
  have eq: "parse_request ?q = Inr sample_parsed" "sound_request ?q sample_parsed"
    using sample_parse [of "''key''" "''req''" 0] sample_sound [of "''key''" "''req''" 0]
    by (simp_all add: parse_request_def sound_request_def)
  obtain r e where "append_txn [] ?q' sample_parsed (ae_now quiet_env) = Inr (Commit [r] e)"
    using sample_commits by blast
  then have c: "append_txn [] ?q sample_parsed (ae_now quiet_env) = Inr (Commit [r] e)"
    by (simp add: append_txn_def head_row_def Let_def sign_new_entry_def new_row_def new_entry_def new_core_def sample_request_def)
  obtain st st' where "connect_ledger (ae_storage quiet_env) (ae_connect quiet_env) = Inr st" "secure_sidecars own_storage = Inr st'"
    using quiet_connects own_sidecars by blast
  then have "append_attempt quiet_env [] ?q sample_parsed = (Some (Inl (UnknownEffectErr, append_status_value UNKNOWN_EFFECT)), [r])"
    using c by (simp add: append_attempt_def Let_def) (simp add: quiet_env_def)
  then have "append_loop (\<lambda>_. quiet_env) (Suc n) [] ?q sample_parsed = (Inl (UnknownEffectErr, append_status_value UNKNOWN_EFFECT), [r])" for n
    by simp
  from this [of 4] have a: "append_or_replay plain_fs None (\<lambda>_. quiet_env) [] ?q = (Inl (UnknownEffectErr, append_status_value UNKNOWN_EFFECT), [r])"
    using eq(1) by (simp add: append_or_replay_def resolve_ledger_path_def plain_fs_def Let_def MAX_CONTENTION_ATTEMPTS_def
        del: append_loop.simps)
  have k: "rw_idempotency_key r = ''key''" "row_to_entry r = Inr e" "rw_request_hash r = sample_sha" "table_inv [r]"
    using commit_adds [OF eq c] commit_inv [OF eq c] by (auto simp: sample_request_def sample_parsed_def table_inv_def)
  have t: "append_txn [r] ?q' sample_parsed (ae_now quiet_env) = Inr (Answer (replay_result e))"
    using txn_known_key [OF k(4), of r ?q' e] k by (auto simp: sample_request_def sample_parsed_def)
  have b: "append_or_replay plain_fs None (\<lambda>_. quiet_env) [r] ?q' = (Inr (replay_result e), [r])"
    using quiet_append [OF sample_parse t] by (simp add: sample_request_def)
  have "\<exists>x. replay_result e = replay_result x"
    using lost_response_is_replayed [OF rtranclp.rtrancl_refl quiet_cooperative quiet_cooperative eq _ a rtranclp.rtrancl_refl b _ _ sample_parse refl]
    by (auto simp: sample_request_def replay_result_def)
  then show ?thesis using a b by (auto simp: replay_result_def)
qed



text \<open>An open connection has secure storage.  When \<open>_connect_ledger\<close> returns, the database file
  exists, is a regular file with one link owned by this user, neither it nor a sidecar is a symbolic
  link or belongs to someone else, the directory belongs to this user, and every mode that could be
  changed is \<open>0600\<close> (\<open>0700\<close> for the directory).\<close>

theorem connection_has_secure_storage:
  assumes "connect_ledger st tries = Inr st'"
  shows "fn_exists (st_file st') \<and> fn_nlink (st_file st') \<le> 1 \<and>
    list_all (secured (st_process_uid st)) [st_file st', st_wal st', st_shm st'] \<and>
    fn_uid (st_parent st') = st_process_uid st \<and> (fn_chmod_ok (st_parent st') \<longrightarrow> fn_mode (st_parent st') = 448)"
proof -
  obtain st1 where st1: "ensure_secure_storage st = Inr st1" "secure_sidecars (create_database st1) = Inr st'"
    using assms connect_loop_secures by (auto simp: connect_ledger_def ebind_Inr_iff)
  then show ?thesis
    using ensure_secures [OF st1(1)] secure_sidecars_secured [OF st1(2)]
    by (auto simp: create_database_def split: if_splits)
qed

theorem connection_has_secure_storage_witness:
  "\<exists>st'. connect_ledger (own_storage\<lparr>st_file := own_node\<lparr>fn_exists := False, fn_mode := 420\<rparr>\<rparr>) (\<lambda>_. SqlOk) = Inr st' \<and>
     fn_mode (st_file st') = 384 \<and> list_all (secured 0) [st_file st', st_wal st', st_shm st']"
proof -
  let ?st = "own_storage\<lparr>st_file := own_node\<lparr>fn_exists := False, fn_mode := 420\<rparr>\<rparr>"
  have "\<exists>st'. connect_ledger ?st (\<lambda>_. SqlOk) = Inr st' \<and> fn_mode (st_file st') = 384"
    by (simp add: connect_ledger_def ensure_secure_storage_def own_storage_def own_node_def create_database_def
        MAX_CONTENTION_ATTEMPTS_def numeral_eq_Suc chmod_def secure_sidecars_def secure_sidecar_def Let_def)
  then obtain st' where c: "connect_ledger ?st (\<lambda>_. SqlOk) = Inr st'" "fn_mode (st_file st') = 384" by blast
  then show ?thesis using connection_has_secure_storage [OF c(1)] by (simp add: own_storage_def)
qed

end
