(* ===== verification/Schemas.thy ===== *)
theory Schemas
  imports Kernel_Properties
begin

text \<open>
  \<open>product/runtime/schemas.py\<close>: the published JSON schemas, the request validators written by hand
  beside them, and the constructors of responses and errors.

  Payloads are JSON values (string keys).  The validator walks over frozen sets of key names, whose
  iteration order Python leaves open: it is the parameter \<open>it\<close>, of which the theorems only use that it
  visits exactly the members (\<open>iterates\<close>).  \<open>conforms\<close> is the meaning of the JSON-Schema keywords the
  five documents use (draft 2020-12), the specification the validators are compared with.
\<close>

section \<open>Text of values\<close>

text \<open>\<open>repr\<close> of a string (code points up to 255) and of a JSON value, and \<open>str\<close>.\<close>

definition printable :: "char \<Rightarrow> bool" where
  "printable c \<longleftrightarrow> (let n = (of_char c :: nat) in (32 \<le> n \<and> n \<le> 126) \<or> (161 \<le> n \<and> n \<noteq> 173))"

definition repr_char :: "char \<Rightarrow> char \<Rightarrow> string" where
  "repr_char q c =
     (if c = q \<or> c = CHR 0x5C then [CHR 0x5C, c]
      else if c = CHR 0x0A then [CHR 0x5C, CHR ''n'']
      else if c = CHR 0x0D then [CHR 0x5C, CHR ''r'']
      else if c = CHR 0x09 then [CHR 0x5C, CHR ''t'']
      else if printable c then [c]
      else [CHR 0x5C, CHR ''x''] @ hex2 (of_char c))"

definition repr_str :: "string \<Rightarrow> string" where
  "repr_str s = (let q = (if List.member s (CHR 0x27) \<and> \<not> List.member s (CHR 0x22) then CHR 0x22 else CHR 0x27)
     in q # concat (map (repr_char q) s) @ [q])"

definition repr_strs :: "string list \<Rightarrow> string" where
  "repr_strs ss = CHR ''['' # join '', '' (map repr_str ss) @ '']''"

fun py_repr :: "pyval \<Rightarrow> string" where
  "py_repr PNone = ''None''"
| "py_repr (PBool b) = (if b then ''True'' else ''False'')"
| "py_repr (PInt i) = show_int i"
| "py_repr (PFloat f) = (case f of FPosInf \<Rightarrow> ''inf'' | FNegInf \<Rightarrow> ''-inf'' | FNaN \<Rightarrow> ''nan'' | _ \<Rightarrow> float_text f)"
| "py_repr (PStr s) = repr_str s"
| "py_repr (PBytes s) = CHR ''b'' # repr_str s"
| "py_repr (PList xs) = CHR ''['' # join '', '' (map py_repr xs) @ '']''"
| "py_repr (PTuple xs) = CHR ''('' # (case xs of [x] \<Rightarrow> py_repr x @ '','' | _ \<Rightarrow> join '', '' (map py_repr xs)) @ '')''"
| "py_repr (PDict d) = CHR ''{'' # join '', '' (map (\<lambda>(k, v). py_repr k @ '': '' @ py_repr v) d) @ ''}''"
| "py_repr (PEnum c s) = CHR ''<'' # c @ ''.'' @ s @ '': '' @ repr_str s @ ''>''"
| "py_repr (PObject c) = CHR ''<'' # c @ '' object>''"

definition py_str :: "pyval \<Rightarrow> string" where
  "py_str v = (case v of PStr s \<Rightarrow> s | PEnum c s \<Rightarrow> c @ ''.'' @ s | _ \<Rightarrow> py_repr v)"

section \<open>The published schemas\<close>

definition CERTIFICATION_REQUEST_SCHEMA :: pyval where
  "CERTIFICATION_REQUEST_SCHEMA = mkdict [
       (''$schema'', PStr ''https://json-schema.org/draft/2020-12/schema''),
       (''$id'', PStr ''nexus.core.certification-request.v1''),
       (''type'', PStr ''object''),
       (''required'', PList (map PStr [''protocol_version'', ''implementation_schema'', ''repository'', ''acceptance_contract'', ''verification_plan'', ''profile_id'', ''idempotency_key'', ''expected_generation''])),
       (''properties'', mkdict [
         (''protocol_version'', mkdict [(''type'', PStr ''string''), (''const'', PStr PUBLIC_PROTOCOL_VERSION)]),
         (''implementation_schema'', mkdict [(''type'', PStr ''string''), (''const'', PStr IMPLEMENTATION_SCHEMA)]),
         (''repository'', mkdict [
           (''type'', PStr ''object''),
           (''required'', PList (map PStr [''owner'', ''name'', ''pr_number'', ''expected_base_sha'', ''expected_head_sha''])),
           (''properties'', mkdict [
             (''owner'', mkdict [(''type'', PStr ''string'')]),
             (''name'', mkdict [(''type'', PStr ''string'')]),
             (''pr_number'', mkdict [(''type'', PStr ''integer''), (''minimum'', PInt 1)]),
             (''expected_base_sha'', mkdict [(''type'', PStr ''string''), (''pattern'', PStr ''^[0-9a-f]{40}$'')]),
             (''expected_head_sha'', mkdict [(''type'', PStr ''string''), (''pattern'', PStr ''^[0-9a-f]{40}$'')])]),
           (''additionalProperties'', PBool False)]),
         (''acceptance_contract'', mkdict [(''type'', PStr ''object'')]),
         (''verification_plan'', mkdict [(''type'', PStr ''object'')]),
         (''profile_id'', mkdict [(''type'', PStr ''string''), (''const'', PStr ''python-oci-pytest-v1'')]),
         (''idempotency_key'', mkdict [(''type'', PStr ''string''), (''maxLength'', PInt 128)]),
         (''expected_generation'', mkdict [(''type'', PStr ''integer''), (''minimum'', PInt 0)])]),
       (''additionalProperties'', PBool False)]"

definition HTTP_RESPONSE_SCHEMA :: pyval where
  "HTTP_RESPONSE_SCHEMA = mkdict [
       (''$schema'', PStr ''https://json-schema.org/draft/2020-12/schema''),
       (''$id'', PStr ''nexus.core.http-response.v1''),
       (''type'', PStr ''object''),
       (''required'', PList (map PStr [''request_id'', ''state'', ''generation'', ''acquisition'', ''execution'', ''evidence'', ''verification'', ''disposition'', ''receipt'', ''claim_ceiling''])),
       (''properties'', mkdict [
         (''request_id'', mkdict [(''type'', PStr ''string'')]),
         (''state'', mkdict [
           (''type'', PStr ''string''),
           (''enum'', PList (map PStr [''PENDING'', ''RUNNING'', ''COMPLETED'', ''FAILED'', ''UNVERIFIABLE'']))]),
         (''generation'', mkdict [(''type'', PStr ''integer'')]),
         (''acquisition'', mkdict [(''type'', PList (map PStr [''object'', ''null'']))]),
         (''execution'', mkdict [(''type'', PList (map PStr [''object'', ''null'']))]),
         (''evidence'', mkdict [(''type'', PList (map PStr [''object'', ''null'']))]),
         (''verification'', mkdict [(''type'', PList (map PStr [''object'', ''null'']))]),
         (''disposition'', mkdict [
           (''type'', PList (map PStr [''string'', ''null''])),
           (''enum'', PList [PStr ''CERTIFIED'', PStr ''REJECTED'', PStr ''BLOCKED'', PNone])]),
         (''receipt'', mkdict [(''type'', PList (map PStr [''object'', ''null'']))]),
         (''claim_ceiling'', mkdict [(''type'', PStr ''array''), (''items'', mkdict [(''type'', PStr ''string'')])])]),
       (''additionalProperties'', PBool False)]"

definition HTTP_ERROR_SCHEMA :: pyval where
  "HTTP_ERROR_SCHEMA = mkdict [
       (''$schema'', PStr ''https://json-schema.org/draft/2020-12/schema''),
       (''$id'', PStr ''nexus.core.http-error.v1''),
       (''type'', PStr ''object''),
       (''required'', PList (map PStr [''code'', ''request_id'', ''message''])),
       (''properties'', mkdict [
         (''code'', mkdict [(''type'', PStr ''string'')]),
         (''request_id'', mkdict [(''type'', PList (map PStr [''string'', ''null'']))]),
         (''message'', mkdict [(''type'', PStr ''string'')])]),
       (''additionalProperties'', PBool False)]"

definition RECEIPT_VERIFY_REQUEST_SCHEMA :: pyval where
  "RECEIPT_VERIFY_REQUEST_SCHEMA = mkdict [
       (''$schema'', PStr ''https://json-schema.org/draft/2020-12/schema''),
       (''$id'', PStr ''nexus.core.receipt-verify-request.v1''),
       (''type'', PStr ''object''),
       (''required'', PList (map PStr [''receipt'', ''requested_scope'', ''original_inputs''])),
       (''properties'', mkdict [
         (''receipt'', mkdict [(''type'', PStr ''object'')]),
         (''requested_scope'', mkdict [
           (''type'', PStr ''string''),
           (''enum'', PList (map PStr [''AUTO'', ''ENVELOPE_ONLY'', ''FULL'']))]),
         (''original_inputs'', mkdict [(''type'', PList (map PStr [''object'', ''null'']))])]),
       (''additionalProperties'', PBool False)]"

definition RECEIPT_VERIFY_RESPONSE_SCHEMA :: pyval where
  "RECEIPT_VERIFY_RESPONSE_SCHEMA = mkdict [
       (''$schema'', PStr ''https://json-schema.org/draft/2020-12/schema''),
       (''$id'', PStr ''nexus.core.receipt-verify-response.v1''),
       (''type'', PStr ''object''),
       (''required'', PList (map PStr [''scope'', ''status'', ''reason_codes'', ''receipt_hash'', ''recomputed_hash'', ''claim_ceiling''])),
       (''properties'', mkdict [
         (''scope'', mkdict [
           (''type'', PStr ''string''),
           (''enum'', PList (map PStr [''ENVELOPE_ONLY'', ''FULL_RECOMPUTED'']))]),
         (''status'', mkdict [
           (''type'', PStr ''string''),
           (''enum'', PList (map PStr [''VALID'', ''INVALID'', ''UNVERIFIABLE'']))]),
         (''reason_codes'', mkdict [(''type'', PStr ''array''), (''items'', mkdict [(''type'', PStr ''string'')])]),
         (''receipt_hash'', mkdict [(''type'', PStr ''string'')]),
         (''recomputed_hash'', mkdict [(''type'', PList (map PStr [''string'', ''null'']))]),
         (''claim_ceiling'', mkdict [(''type'', PStr ''array''), (''items'', mkdict [(''type'', PStr ''string'')])])]),
       (''additionalProperties'', PBool False)]"

definition SCHEMA_BUNDLE :: pyval where
  "SCHEMA_BUNDLE = mkdict [
       (''CERTIFICATION_REQUEST_SCHEMA'', CERTIFICATION_REQUEST_SCHEMA),
       (''HTTP_ERROR_SCHEMA'', HTTP_ERROR_SCHEMA),
       (''HTTP_RESPONSE_SCHEMA'', HTTP_RESPONSE_SCHEMA),
       (''RECEIPT_VERIFY_REQUEST_SCHEMA'', RECEIPT_VERIFY_REQUEST_SCHEMA),
       (''RECEIPT_VERIFY_RESPONSE_SCHEMA'', RECEIPT_VERIFY_RESPONSE_SCHEMA)]"

definition SCHEMA_BUNDLE_HASH :: "string res" where
  "SCHEMA_BUNDLE_HASH = hash_value SCHEMA_BUNDLE"

text \<open>\<open>frozenset(schema["required"])\<close>, as the list it is built from.\<close>

definition required_keys :: "pyval \<Rightarrow> string list" where
  "required_keys schema = map str_of (elems (get (items schema) ''required''))"

definition REQUIRED_REQUEST_KEYS :: "string list" where
  "REQUIRED_REQUEST_KEYS = required_keys CERTIFICATION_REQUEST_SCHEMA"

definition REQUIRED_REPO_KEYS :: "string list" where
  "REQUIRED_REPO_KEYS =
     required_keys (get (items (get (items CERTIFICATION_REQUEST_SCHEMA) ''properties'')) ''repository'')"

section \<open>The certification request\<close>

definition key_errs :: "string \<Rightarrow> string \<Rightarrow> string list \<Rightarrow> pydict \<Rightarrow> string list" where
  "key_errs missing_msg extra_msg required d =
     (let missing = filter (\<lambda>k. \<not> has_key d k) required;
          extra = filter (\<lambda>k. \<not> List.member required k) (map (\<lambda>p. str_of (fst p)) d) in
      (if missing \<noteq> [] then [missing_msg @ repr_strs (sorted_set missing)] else []) @
      (if extra \<noteq> [] then [extra_msg @ repr_strs (sorted_set extra)] else []))"

text \<open>A non-empty string without surrounding blanks.\<close>

definition trimmed :: "pyval \<Rightarrow> bool" where
  "trimmed v \<longleftrightarrow> isinstance_str v \<and> str_of v \<noteq> [] \<and> str_of v = strip (str_of v)"

definition int_at_least :: "int \<Rightarrow> pyval \<Rightarrow> bool" where
  "int_at_least m v \<longleftrightarrow> (case v of PInt i \<Rightarrow> m \<le> i | _ \<Rightarrow> False)"

definition sha40_value :: "pyval \<Rightarrow> bool" where
  "sha40_value v \<longleftrightarrow> isinstance_str v \<and> is_sha40 (str_of v)"

definition repository_errs :: "(string list \<Rightarrow> string list) \<Rightarrow> pyval \<Rightarrow> string list" where
  "repository_errs it repo =
     (if \<not> is_dict repo then [''repository must be a JSON object'']
      else if \<not> keys_are (items repo) REQUIRED_REPO_KEYS
      then key_errs ''repository missing keys: '' ''repository unknown keys rejected: '' REQUIRED_REPO_KEYS (items repo)
      else (case find (\<lambda>k. get (items repo) k = PNone) (it REQUIRED_REPO_KEYS) of
          Some k \<Rightarrow> [''null value forbidden in repository key '' @ [CHR 0x27] @ k @ [CHR 0x27]]
        | None \<Rightarrow>
           (let f = get (items repo) in
            if \<not> trimmed (f ''owner'') then [''repository.owner must be a non-empty normalized string'']
            else if \<not> trimmed (f ''name'') then [''repository.name must be a non-empty normalized string'']
            else if \<not> int_at_least 1 (f ''pr_number'') then [''repository.pr_number must be a positive integer'']
            else if \<not> sha40_value (f ''expected_base_sha'')
            then [''repository.expected_base_sha must be a 40-character lowercase hex string'']
            else if \<not> sha40_value (f ''expected_head_sha'')
            then [''repository.expected_head_sha must be a 40-character lowercase hex string'']
            else if py_eq (f ''expected_base_sha'') (f ''expected_head_sha'')
            then [''repository.expected_base_sha and expected_head_sha must differ'']
            else [])))"

definition unsupported_msg :: "string \<Rightarrow> pyval \<Rightarrow> string" where
  "unsupported_msg key v = ''unsupported '' @ key @ '' '' @ [CHR 0x27] @ py_str v @ [CHR 0x27]"

definition validate_certification_request :: "(string list \<Rightarrow> string list) \<Rightarrow> pyval \<Rightarrow> string list" where
  "validate_certification_request it payload =
     (if \<not> is_dict payload then [''payload must be a JSON object'']
      else if \<not> keys_are (items payload) REQUIRED_REQUEST_KEYS
      then key_errs ''missing required keys: '' ''unknown keys rejected: '' REQUIRED_REQUEST_KEYS (items payload)
      else (case find (\<lambda>k. get (items payload) k = PNone) (it REQUIRED_REQUEST_KEYS) of
          Some k \<Rightarrow> [''null value forbidden for key '' @ [CHR 0x27] @ k @ [CHR 0x27]]
        | None \<Rightarrow>
           (let f = get (items payload) in
            if \<not> py_eq (f ''protocol_version'') (PStr PUBLIC_PROTOCOL_VERSION)
            then [unsupported_msg ''protocol_version'' (f ''protocol_version'')]
            else if \<not> py_eq (f ''implementation_schema'') (PStr IMPLEMENTATION_SCHEMA)
            then [unsupported_msg ''implementation_schema'' (f ''implementation_schema'')]
            else if \<not> py_eq (f ''profile_id'') (PStr ''python-oci-pytest-v1'')
            then [unsupported_msg ''profile_id'' (f ''profile_id'')]
            else if repository_errs it (f ''repository'') \<noteq> [] then repository_errs it (f ''repository'')
            else if \<not> is_dict (f ''acceptance_contract'') then [''acceptance_contract must be a JSON object'']
            else if \<not> is_dict (f ''verification_plan'') then [''verification_plan must be a JSON object'']
            else if \<not> (trimmed (f ''idempotency_key'') \<and> length (utf8 (str_of (f ''idempotency_key''))) \<le> 128)
            then [''idempotency_key must be a non-empty normalized string with length <= 128 bytes'']
            else if \<not> int_at_least 0 (f ''expected_generation'')
            then [''expected_generation must be a non-negative integer'']
            else [])))"

section \<open>Responses\<close>

text \<open>\<open>dict(v)\<close>: a copy of a dictionary, or of an iterable of pairs.\<close>

fun dict_pair :: "pyval \<Rightarrow> (pyval \<times> pyval) res" where
  "dict_pair (PStr [a, b]) = Inr (PStr [a], PStr [b])"
| "dict_pair (PList [a, b]) = Inr (a, b)"
| "dict_pair (PTuple [a, b]) = Inr (a, b)"
| "dict_pair v = (if isinstance_str v \<or> is_list v \<or> is_tuple v \<or> is_dict v
     then Inl (ValueErr, ''dictionary update sequence element has the wrong length'')
     else Inl (TypeErr, ''cannot convert dictionary update sequence element to a sequence''))"

fun dict_update :: "pydict \<Rightarrow> pyval \<Rightarrow> pyval \<Rightarrow> pydict" where
  "dict_update [] k v = [(k, v)]"
| "dict_update (p # d) k v = (if py_eq (fst p) k then (fst p, v) # d else p # dict_update d k v)"

fun dict_pairs :: "pydict \<Rightarrow> pyval list \<Rightarrow> pydict res" where
  "dict_pairs d [] = Inr d"
| "dict_pairs d (x # xs) = ebind (dict_pair x) (\<lambda>(k, v).
     if hashable k then dict_pairs (dict_update d k v) xs else Inl (TypeErr, ''unhashable type''))"

definition py_dict :: "pyval \<Rightarrow> pyval res" where
  "py_dict v = (case v of
      PDict d \<Rightarrow> Inr (PDict d)
    | PList xs \<Rightarrow> ebind (dict_pairs [] xs) (\<lambda>d. Inr (PDict d))
    | PTuple xs \<Rightarrow> ebind (dict_pairs [] xs) (\<lambda>d. Inr (PDict d))
    | PStr [] \<Rightarrow> Inr (PDict [])
    | PStr _ \<Rightarrow> Inl (ValueErr, ''dictionary update sequence element has the wrong length'')
    | _ \<Rightarrow> Inl (TypeErr, ''object is not iterable''))"

definition opt_dict :: "pyval \<Rightarrow> pyval res" where
  "opt_dict v = (if v = PNone then Inr PNone else py_dict v)"

definition make_http_response ::
  "string \<Rightarrow> string \<Rightarrow> int \<Rightarrow> pyval \<Rightarrow> pyval \<Rightarrow> pyval \<Rightarrow> pyval \<Rightarrow> pyval \<Rightarrow> pyval \<Rightarrow> pyval list \<Rightarrow> pyval res" where
  "make_http_response request_id state generation acquisition execution evidence verification disposition receipt claim_ceiling =
     ebind (opt_dict acquisition) (\<lambda>acq.
     ebind (opt_dict execution) (\<lambda>ex.
     ebind (opt_dict evidence) (\<lambda>ev.
     ebind (opt_dict verification) (\<lambda>ver.
     ebind (opt_dict receipt) (\<lambda>rec.
       Inr (mkdict [(''request_id'', PStr request_id), (''state'', PStr state), (''generation'', PInt generation),
         (''acquisition'', acq), (''execution'', ex), (''evidence'', ev), (''verification'', ver),
         (''disposition'', disposition), (''receipt'', rec), (''claim_ceiling'', PList claim_ceiling)]))))))"

text \<open>The response of a request that has no result yet: every section is null.\<close>

definition bare_response :: "string \<Rightarrow> string \<Rightarrow> int \<Rightarrow> pyval" where
  "bare_response request_id state generation =
     mkdict [(''request_id'', PStr request_id), (''state'', PStr state), (''generation'', PInt generation),
       (''acquisition'', PNone), (''execution'', PNone), (''evidence'', PNone), (''verification'', PNone),
       (''disposition'', PNone), (''receipt'', PNone), (''claim_ceiling'', PList (map PStr CLAIM_CEILING))]"

definition make_http_error :: "string \<Rightarrow> string option \<Rightarrow> string \<Rightarrow> pyval" where
  "make_http_error code request_id message =
     mkdict [(''code'', PStr code), (''request_id'', case request_id of None \<Rightarrow> PNone | Some r \<Rightarrow> PStr r),
       (''message'', PStr message)]"

definition validate_receipt_verify_request :: "pyval \<Rightarrow> string list res" where
  "validate_receipt_verify_request payload =
     (let req_keys = required_keys RECEIPT_VERIFY_REQUEST_SCHEMA in
      if \<not> is_dict payload then Inr [''payload must be a JSON object'']
      else if \<not> keys_are (items payload) req_keys then Inr [''keys must match '' @ repr_strs (sort req_keys)]
      else (let receipt = get (items payload) ''receipt''; orig = get (items payload) ''original_inputs'' in
        if \<not> is_dict receipt then Inr [''receipt must be a JSON object'']
        else if \<not> py_eq (get (items receipt) ''receipt_schema'') (PStr CERTIFICATION_RECEIPT_SCHEMA)
        then Inr [''invalid receipt_schema in receipt'']
        else ebind (in_strs (get (items payload) ''requested_scope'') [''AUTO'', ''ENVELOPE_ONLY'', ''FULL'']) (\<lambda>known.
          if \<not> known then Inr [''requested_scope must be AUTO, ENVELOPE_ONLY, or FULL'']
          else if orig \<noteq> PNone \<and> \<not> is_dict orig then Inr [''original_inputs must be a JSON object or null'']
          else Inr [])))"

section \<open>Conformance to a schema\<close>

definition type_ok :: "string \<Rightarrow> pyval \<Rightarrow> bool" where
  "type_ok t v \<longleftrightarrow>
     (t = ''object'' \<and> is_dict v) \<or> (t = ''array'' \<and> (is_list v \<or> is_tuple v)) \<or> (t = ''null'' \<and> v = PNone) \<or>
     (t = ''string'' \<and> isinstance_str v) \<or>
     (t = ''integer'' \<and> (is_int v \<or> (case v of PFloat (FInt _ _) \<Rightarrow> True | _ \<Rightarrow> False)))"

definition types_ok :: "pyval option \<Rightarrow> pyval \<Rightarrow> bool" where
  "types_ok t v \<longleftrightarrow> (case t of None \<Rightarrow> True | Some (PStr s) \<Rightarrow> type_ok s v
     | Some ts \<Rightarrow> list_ex (\<lambda>s. type_ok (str_of s) v) (elems ts))"

text \<open>The keywords that do not descend: \<open>const\<close>, \<open>enum\<close>, \<open>minimum\<close>, \<open>maxLength\<close>, \<open>pattern\<close> (the one the
  schemas use), \<open>required\<close>, \<open>additionalProperties: false\<close>.\<close>

definition keyword_ok :: "pydict \<Rightarrow> pyval \<Rightarrow> bool" where
  "keyword_ok s v \<longleftrightarrow>
     types_ok (dget s ''type'') v \<and>
     (case dget s ''const'' of None \<Rightarrow> True | Some c \<Rightarrow> py_eq v c) \<and>
     (case dget s ''enum'' of None \<Rightarrow> True | Some cs \<Rightarrow> list_ex (py_eq v) (elems cs)) \<and>
     (case dget s ''minimum'' of Some (PInt m) \<Rightarrow> (case num_of v of None \<Rightarrow> True | Some i \<Rightarrow> m \<le> i) | _ \<Rightarrow> True) \<and>
     (case dget s ''maxLength'' of Some (PInt m) \<Rightarrow> isinstance_str v \<longrightarrow> int (length (str_of v)) \<le> m | _ \<Rightarrow> True) \<and>
     (case dget s ''pattern'' of None \<Rightarrow> True
        | Some p \<Rightarrow> p = PStr ''^[0-9a-f]{40}$'' \<and> (isinstance_str v \<longrightarrow> is_sha40 (str_of v))) \<and>
     (is_dict v \<longrightarrow> list_all (has_key (items v)) (map str_of (elems (get s ''required'')))) \<and>
     (is_dict v \<and> dget s ''additionalProperties'' = Some (PBool False) \<longrightarrow>
        list_all (\<lambda>p. has_key (items (get s ''properties'')) (str_of (fst p))) (items v))"

function conforms :: "pyval \<Rightarrow> pyval \<Rightarrow> bool" where
  "conforms schema v =
     (case schema of
        PDict s \<Rightarrow>
          keyword_ok s v \<and>
          (case dget s ''properties'' of
             Some (PDict ps) \<Rightarrow> list_all (\<lambda>p. case dget (items v) (str_of (fst p)) of
                None \<Rightarrow> True | Some w \<Rightarrow> conforms (snd p) w) ps
           | _ \<Rightarrow> True) \<and>
          (case dget s ''items'' of Some sub \<Rightarrow> list_all (conforms sub) (elems v) | None \<Rightarrow> True)
      | _ \<Rightarrow> True)"
  by pat_completeness auto
termination
proof (relation "measure (\<lambda>(schema, v). size schema)")
  have sub: "size sub < size (PDict s)" if g: "dget s k = Some sub" for s k sub
  proof -
    obtain p where p: "p \<in> set s" "snd p = sub" using dget_in_set [OF g] by blast
    then have "size_prod size size p \<le> size_list (size_prod size size) s"
      by (auto intro: size_list_estimation')
    then show ?thesis using p(2) by (cases p) auto
  qed
  show "wf (measure (\<lambda>(schema, v). size schema))" by simp
  fix schema v s sub z assume "schema = PDict s" "dget s ''items'' = Some sub"
  then show "((sub, z), schema, v) \<in> measure (\<lambda>(schema, v). size schema)" using sub by simp
next
  fix schema v :: pyval and s t ps and p :: "pyval \<times> pyval" and w
  assume a: "schema = PDict s" "dget s ''properties'' = Some t" "t = PDict ps" "p \<in> set ps"
  obtain r where r: "r \<in> set s" "snd r = t" using dget_in_set [OF a(2)] by blast
  then have "size_prod size size r \<le> size_list (size_prod size size) s"
    by (auto intro: size_list_estimation')
  moreover have "size_prod size size p \<le> size_list (size_prod size size) ps"
    using a(4) by (auto intro: size_list_estimation')
  ultimately show "((snd p, w), schema, v) \<in> measure (\<lambda>(schema, v). size schema)"
    using a r by (cases p; cases r) auto
qed

declare conforms.simps [simp del]

end
