(* ===== verification/Schema_Properties.thy ===== *)
theory Schema_Properties
  imports Schemas
begin

text \<open>
  The hand-written request validator agrees with the published schema, and what the response
  constructors build conforms to the published response schemas.
\<close>

definition iterates :: "(string list \<Rightarrow> string list) \<Rightarrow> bool" where
  "iterates it \<longleftrightarrow> (\<forall>ks. set (it ks) = set ks)"

lemma iterates_id [simp]: "iterates id"
  by (simp add: iterates_def)

section \<open>Keys\<close>

lemma key_is_text: "s \<noteq> [] \<Longrightarrow> key_is s k \<longleftrightarrow> str_of k = s"
  by (cases k) (auto simp: str_of_def key_is_def)

lemma key_is_member: "[] \<notin> set ks \<Longrightarrow> list_ex (\<lambda>k. key_is k p) ks \<longleftrightarrow> List.member ks (str_of p)"
  by (induction ks) (auto simp: key_is_text)

lemma keys_are_iff:
  "[] \<notin> set ks \<Longrightarrow> keys_are d ks \<longleftrightarrow> list_all (has_key d) ks \<and> list_all (\<lambda>p. List.member ks (str_of (fst p))) d"
  by (simp add: keys_are_def key_is_member)

lemma key_errs_Nil: "[] \<notin> set ks \<Longrightarrow> key_errs m x ks d = [] \<longleftrightarrow> keys_are d ks"
  by (auto simp: keys_are_iff key_errs_def Let_def filter_empty_conv list_all_iff)

lemma find_null: "iterates it \<Longrightarrow> find (\<lambda>k. f k = PNone) (it ks) = None \<longleftrightarrow> (\<forall>k \<in> set ks. f k \<noteq> PNone)"
  by (auto simp: find_None_iff iterates_def)

lemma request_keys:
  "REQUIRED_REQUEST_KEYS = [''protocol_version'', ''implementation_schema'', ''repository'', ''acceptance_contract'',
     ''verification_plan'', ''profile_id'', ''idempotency_key'', ''expected_generation'']"
  by (simp add: REQUIRED_REQUEST_KEYS_def required_keys_def CERTIFICATION_REQUEST_SCHEMA_def get_def)

lemma repo_keys:
  "REQUIRED_REPO_KEYS = [''owner'', ''name'', ''pr_number'', ''expected_base_sha'', ''expected_head_sha'']"
  by (simp add: REQUIRED_REPO_KEYS_def required_keys_def CERTIFICATION_REQUEST_SCHEMA_def get_def)

lemma keys_nonempty [simp]: "[] \<notin> set REQUIRED_REQUEST_KEYS" "[] \<notin> set REQUIRED_REPO_KEYS"
  by (simp_all add: request_keys repo_keys)

section \<open>Conformance\<close>

lemma map_of_keys: "has_key (map (\<lambda>(k, v). (PStr k, v)) ps) k \<longleftrightarrow> List.member (map fst ps) k"
  by (auto simp: has_key_def dget_mkdict map_of_eq_None_iff)

lemma conforms_mkdict:
  "conforms (mkdict kvs) v \<longleftrightarrow> keyword_ok (map (\<lambda>(k, v). (PStr k, v)) kvs) v \<and>
     (case map_of kvs ''properties'' of
        Some (PDict ps) \<Rightarrow> list_all (\<lambda>p. case dget (items v) (str_of (fst p)) of None \<Rightarrow> True | Some w \<Rightarrow> conforms (snd p) w) ps
      | _ \<Rightarrow> True) \<and>
     (case map_of kvs ''items'' of Some sub \<Rightarrow> list_all (conforms sub) (elems v) | None \<Rightarrow> True)"
  by (simp add: mkdict_def conforms.simps [of "PDict _"] dget_mkdict)

lemma conforms_object:
  "map_of kvs ''properties'' = Some (mkdict ps) \<Longrightarrow> map_of kvs ''items'' = None \<Longrightarrow>
     conforms (mkdict kvs) v \<longleftrightarrow> keyword_ok (map (\<lambda>(k, v). (PStr k, v)) kvs) v \<and>
       list_all (\<lambda>(k, sub). case dget (items v) k of None \<Rightarrow> True | Some w \<Rightarrow> conforms sub w) ps"
  unfolding conforms_mkdict by (simp add: mkdict_def list.pred_map comp_def case_prod_unfold cong: option.case_cong)

lemma keyword_object:
  "map_of kvs ''type'' = Some (PStr ''object'') \<Longrightarrow> map_of kvs ''required'' = Some (PList (map PStr req)) \<Longrightarrow>
     map_of kvs ''properties'' = Some (mkdict ps) \<Longrightarrow> map_of kvs ''additionalProperties'' = Some (PBool False) \<Longrightarrow>
     map_of kvs ''const'' = None \<Longrightarrow> map_of kvs ''enum'' = None \<Longrightarrow> map_of kvs ''minimum'' = None \<Longrightarrow>
     map_of kvs ''maxLength'' = None \<Longrightarrow> map_of kvs ''pattern'' = None \<Longrightarrow>
     map fst ps = req \<Longrightarrow> [] \<notin> set req \<Longrightarrow>
     keyword_ok (map (\<lambda>(k, v). (PStr k, v)) kvs) v \<longleftrightarrow> is_dict v \<and> keys_are (items v) req"
  by (simp add: keyword_ok_def dget_mkdict types_ok_def type_ok_def keys_are_iff get_def comp_def map_of_keys
      del: map_of_eq_None_iff) blast

lemmas leaf_simps = conforms_mkdict keyword_ok_def types_ok_def type_ok_def get_def has_key_def


lemma elems_PNone [simp]: "elems PNone = []"
  by (simp add: elems_def)

lemma get_simps: "get [] k = PNone" "get ((PStr s, v) # d) k = (if s = k then v else get d k)"
  by (simp_all add: get_def)

lemma leaf_conforms:
  "conforms (mkdict [(''type'', PStr ''string'')]) v \<longleftrightarrow> isinstance_str v"
  "conforms (mkdict [(''type'', PStr ''object'')]) v \<longleftrightarrow> is_dict v"
  "conforms (mkdict [(''type'', PStr ''integer'')]) v \<longleftrightarrow> type_ok ''integer'' v"
  "conforms (mkdict [(''type'', PList [PStr ''object'', PStr ''null''])]) v \<longleftrightarrow> is_dict v \<or> v = PNone"
  "conforms (mkdict [(''type'', PList [PStr ''string'', PStr ''null''])]) v \<longleftrightarrow> isinstance_str v \<or> v = PNone"
  "conforms (mkdict [(''type'', PStr ''string''), (''const'', PStr s)]) v \<longleftrightarrow> py_eq v (PStr s)"
  "conforms (mkdict [(''type'', PStr ''string''), (''pattern'', PStr ''^[0-9a-f]{40}$'')]) v \<longleftrightarrow> sha40_value v"
  "conforms (mkdict [(''type'', PStr ''string''), (''maxLength'', PInt m)]) v \<longleftrightarrow>
     isinstance_str v \<and> int (length (str_of v)) \<le> m"
  "conforms (mkdict [(''type'', PStr ''integer''), (''minimum'', PInt m)]) v \<longleftrightarrow>
     type_ok ''integer'' v \<and> (case num_of v of None \<Rightarrow> True | Some i \<Rightarrow> m \<le> i)"
  "conforms (mkdict [(''type'', PStr ''string''), (''enum'', PList cs)]) v \<longleftrightarrow>
     isinstance_str v \<and> list_ex (py_eq v) cs"
  by (auto simp add: leaf_simps sha40_value_def list_ex_iff)

lemma strings_conform:
  "conforms (mkdict [(''type'', PStr ''array''), (''items'', mkdict [(''type'', PStr ''string'')])]) v \<longleftrightarrow>
     (is_list v \<or> is_tuple v) \<and> list_all isinstance_str (elems v)"
  by (subst conforms_mkdict) (auto simp: leaf_conforms keyword_ok_def types_ok_def type_ok_def get_def list_all_iff)

text \<open>An object whose keys are the required ones conforms when each member does.\<close>

lemma members_conform:
  "list_all (has_key d) (map fst ps) \<Longrightarrow>
   list_all (\<lambda>(k, sub). case dget d k of None \<Rightarrow> True | Some w \<Rightarrow> conforms sub w) ps \<longleftrightarrow>
   list_all (\<lambda>(k, sub). conforms sub (get d k)) ps"
  by (induction ps) (auto simp: has_key_def get_def)

lemma object_conforms:
  assumes "map_of kvs ''type'' = Some (PStr ''object'')" "map_of kvs ''required'' = Some (PList rs)"
    "map_of kvs ''properties'' = Some (mkdict ps)" "map_of kvs ''additionalProperties'' = Some (PBool False)"
    "map_of kvs ''const'' = None" "map_of kvs ''enum'' = None" "map_of kvs ''minimum'' = None"
    "map_of kvs ''maxLength'' = None" "map_of kvs ''pattern'' = None" "map_of kvs ''items'' = None"
    "map fst ps = req" "[] \<notin> set req" "rs = map PStr req"
  shows "conforms (mkdict kvs) v \<longleftrightarrow> is_dict v \<and> keys_are (items v) req \<and> list_all (\<lambda>(k, sub). conforms sub (get (items v) k)) ps"
proof -
  have "keys_are (items v) req \<Longrightarrow> list_all (has_key (items v)) (map fst ps)"
    unfolding assms(11) by (simp add: keys_are_def)
  then show ?thesis
    unfolding conforms_object [OF assms(3,10)] keyword_object [OF assms(1) assms(2) [unfolded assms(13)] assms(3-9,11,12)]
    using members_conform [of "items v" ps] by blast
qed

definition REPOSITORY_SCHEMA :: pyval where
  "REPOSITORY_SCHEMA = get (items (get (items CERTIFICATION_REQUEST_SCHEMA) ''properties'')) ''repository''"

lemma repository_conforms:
  "conforms REPOSITORY_SCHEMA v \<longleftrightarrow> is_dict v \<and> keys_are (items v) REQUIRED_REPO_KEYS \<and>
     (let f = get (items v) in isinstance_str (f ''owner'') \<and> isinstance_str (f ''name'') \<and>
       type_ok ''integer'' (f ''pr_number'') \<and> (case num_of (f ''pr_number'') of None \<Rightarrow> True | Some i \<Rightarrow> 1 \<le> i) \<and>
       sha40_value (f ''expected_base_sha'') \<and> sha40_value (f ''expected_head_sha''))"
  unfolding REPOSITORY_SCHEMA_def CERTIFICATION_REQUEST_SCHEMA_def
  by (simp add: get_simps object_conforms leaf_conforms repo_keys Let_def)

lemma request_conforms:
  "conforms CERTIFICATION_REQUEST_SCHEMA v \<longleftrightarrow> is_dict v \<and> keys_are (items v) REQUIRED_REQUEST_KEYS \<and>
     (let f = get (items v) in py_eq (f ''protocol_version'') (PStr PUBLIC_PROTOCOL_VERSION) \<and>
       py_eq (f ''implementation_schema'') (PStr IMPLEMENTATION_SCHEMA) \<and> conforms REPOSITORY_SCHEMA (f ''repository'') \<and>
       is_dict (f ''acceptance_contract'') \<and> is_dict (f ''verification_plan'') \<and>
       py_eq (f ''profile_id'') (PStr ''python-oci-pytest-v1'') \<and>
       isinstance_str (f ''idempotency_key'') \<and> int (length (str_of (f ''idempotency_key''))) \<le> 128 \<and>
       type_ok ''integer'' (f ''expected_generation'') \<and>
       (case num_of (f ''expected_generation'') of None \<Rightarrow> True | Some i \<Rightarrow> 0 \<le> i))"
  unfolding REPOSITORY_SCHEMA_def CERTIFICATION_REQUEST_SCHEMA_def
  by (simp add: get_simps object_conforms leaf_conforms request_keys repo_keys Let_def)

lemma length_utf8: "length s \<le> length (utf8 s)"
  by (induction s) (auto simp: utf8_def utf8_char_def Let_def)

lemma int_at_least_iff:
  "int_at_least m v \<longleftrightarrow> is_int v \<and> type_ok ''integer'' v \<and> (case num_of v of None \<Rightarrow> True | Some i \<Rightarrow> m \<le> i)"
  by (cases v) (simp_all add: int_at_least_def type_ok_def num_of_def is_int_def)

section \<open>The request validator\<close>

text \<open>What the validator asks beyond the schema document.\<close>

definition request_semantics :: "pyval \<Rightarrow> bool" where
  "request_semantics payload \<longleftrightarrow> (let f = get (items payload); r = get (items (f ''repository'')) in
     trimmed (r ''owner'') \<and> trimmed (r ''name'') \<and> is_int (r ''pr_number'') \<and>
     \<not> py_eq (r ''expected_base_sha'') (r ''expected_head_sha'') \<and>
     trimmed (f ''idempotency_key'') \<and> length (utf8 (str_of (f ''idempotency_key''))) \<le> 128 \<and>
     is_int (f ''expected_generation''))"

lemma not_PNone [simp]: "isinstance_str v \<Longrightarrow> v \<noteq> PNone" "is_int v \<Longrightarrow> v \<noteq> PNone" "is_dict v \<Longrightarrow> v \<noteq> PNone"
  by (auto simp: type_test_defs)

lemma repository_errs_Nil:
  assumes "iterates it"
  shows "repository_errs it v = [] \<longleftrightarrow> conforms REPOSITORY_SCHEMA v \<and> (let r = get (items v) in
     trimmed (r ''owner'') \<and> trimmed (r ''name'') \<and> is_int (r ''pr_number'') \<and>
     \<not> py_eq (r ''expected_base_sha'') (r ''expected_head_sha''))"
proof (cases "is_dict v \<and> keys_are (items v) REQUIRED_REPO_KEYS")
  case True
  let ?f = "get (items v)"
  have null: "find (\<lambda>k. ?f k = PNone) (it REQUIRED_REPO_KEYS) = None" if "trimmed (?f ''owner'')" "trimmed (?f ''name'')"
      "is_int (?f ''pr_number'')" "sha40_value (?f ''expected_base_sha'')" "sha40_value (?f ''expected_head_sha'')"
    using that by (auto simp: find_null [OF assms] repo_keys trimmed_def sha40_value_def)
  show ?thesis
  proof (cases "find (\<lambda>k. ?f k = PNone) (it REQUIRED_REPO_KEYS)")
    case None
    then show ?thesis
      using True by (auto simp: repository_errs_def repository_conforms Let_def int_at_least_iff trimmed_def)
  next
    case (Some k)
    then show ?thesis using True null by (auto simp: repository_errs_def repository_conforms Let_def)
  qed
next
  case False
  then show ?thesis by (auto simp: repository_errs_def repository_conforms key_errs_Nil)
qed

lemma validate_request_Nil:
  assumes "iterates it"
  shows "validate_certification_request it payload = [] \<longleftrightarrow>
     conforms CERTIFICATION_REQUEST_SCHEMA payload \<and> request_semantics payload"
proof (cases "is_dict payload \<and> keys_are (items payload) REQUIRED_REQUEST_KEYS")
  case True
  let ?f = "get (items payload)"
  have null: "find (\<lambda>k. ?f k = PNone) (it REQUIRED_REQUEST_KEYS) = None"
    if "conforms CERTIFICATION_REQUEST_SCHEMA payload" "request_semantics payload"
    using that by (auto simp: find_null [OF assms] request_keys request_conforms request_semantics_def Let_def
        repository_conforms trimmed_def)
  have len: "int (length (str_of v)) \<le> 128" if "length (utf8 (str_of v)) \<le> 128" for v
    using that length_utf8 [of "str_of v"] by linarith
  show ?thesis
  proof (cases "find (\<lambda>k. ?f k = PNone) (it REQUIRED_REQUEST_KEYS)")
    case None
    then show ?thesis
      using True len by (auto simp: validate_certification_request_def request_conforms request_semantics_def Let_def
          repository_errs_Nil [OF assms] int_at_least_iff trimmed_def)
  next
    case (Some k)
    then show ?thesis using True null by (auto simp: validate_certification_request_def)
  qed
next
  case False
  then show ?thesis by (auto simp: validate_certification_request_def request_conforms key_errs_Nil)
qed

section \<open>Responses\<close>

lemma bare_response: "make_http_response rid st gen PNone PNone PNone PNone PNone PNone (map PStr CLAIM_CEILING) = Inr (bare_response rid st gen)"
  by (simp add: make_http_response_def bare_response_def opt_dict_def)

lemma py_dict_is_dict: "py_dict v = Inr w \<Longrightarrow> is_dict w"
  by (auto simp: py_dict_def ebind_Inr_iff split: pyval.splits list.splits)

lemma opt_dict_ok: "opt_dict v = Inr w \<Longrightarrow> is_dict w \<or> w = PNone"
  using py_dict_is_dict by (auto simp: opt_dict_def split: if_splits)

definition job_states :: "string list" where
  "job_states = [''PENDING'', ''RUNNING'', ''COMPLETED'', ''FAILED'', ''UNVERIFIABLE'']"

definition dispositions :: "pyval list" where
  "dispositions = [PStr ''CERTIFIED'', PStr ''REJECTED'', PStr ''BLOCKED'', PNone]"

lemma response_conforms:
  assumes "make_http_response rid st gen acq ex ev ver disp rec cc = Inr r"
    and "List.member job_states st" "List.member dispositions disp" "list_all isinstance_str cc"
  shows "conforms HTTP_RESPONSE_SCHEMA r"
proof -
  obtain a b c d e where r: "r = mkdict [(''request_id'', PStr rid), (''state'', PStr st), (''generation'', PInt gen),
         (''acquisition'', a), (''execution'', b), (''evidence'', c), (''verification'', d),
         (''disposition'', disp), (''receipt'', e), (''claim_ceiling'', PList cc)]"
    and n: "is_dict a \<or> a = PNone" "is_dict b \<or> b = PNone" "is_dict c \<or> c = PNone" "is_dict d \<or> d = PNone" "is_dict e \<or> e = PNone"
    using assms(1) by (auto simp: make_http_response_def ebind_Inr_iff dest!: opt_dict_ok)
  have st: "List.member [''PENDING'', ''RUNNING'', ''COMPLETED'', ''FAILED'', ''UNVERIFIABLE''] st"
    using assms(2) by (simp only: job_states_def)
  have d: "conforms (mkdict [(''type'', PList [PStr ''string'', PStr ''null'']),
       (''enum'', PList [PStr ''CERTIFIED'', PStr ''REJECTED'', PStr ''BLOCKED'', PNone])]) disp"
    using assms(3) by (auto simp: leaf_simps dispositions_def)
  show ?thesis
    unfolding HTTP_RESPONSE_SCHEMA_def
    using n st d assms(4)
    by (simp add: object_conforms leaf_conforms strings_conform r keys_are_def has_key_def get_simps type_ok_def)
qed

lemma error_conforms: "conforms HTTP_ERROR_SCHEMA (make_http_error code rid msg)"
  unfolding HTTP_ERROR_SCHEMA_def
  by (simp add: object_conforms leaf_conforms make_http_error_def keys_are_def has_key_def get_simps split: option.split)

section \<open>Properties\<close>

definition sample_repository :: pyval where
  "sample_repository = mkdict [(''owner'', PStr ''octo''), (''name'', PStr ''repo''), (''pr_number'', PInt 7),
     (''expected_base_sha'', PStr (replicate 40 (CHR ''a''))), (''expected_head_sha'', PStr (replicate 40 (CHR ''b'')))]"

definition sample_payload :: "string \<Rightarrow> int \<Rightarrow> pyval" where
  "sample_payload key gen = mkdict [(''protocol_version'', PStr PUBLIC_PROTOCOL_VERSION),
     (''implementation_schema'', PStr IMPLEMENTATION_SCHEMA), (''repository'', sample_repository),
     (''acceptance_contract'', mkdict []), (''verification_plan'', mkdict []),
     (''profile_id'', PStr ''python-oci-pytest-v1''), (''idempotency_key'', PStr key),
     (''expected_generation'', PInt gen)]"

lemma sample_payload_accepted:
  "key \<in> {''key'', ''other''} \<Longrightarrow> 0 \<le> gen \<Longrightarrow> validate_certification_request id (sample_payload key gen) = []"
  by (auto simp: validate_certification_request_def sample_payload_def sample_repository_def keys_are_def request_keys
      has_key_def get_simps repository_errs_def repo_keys trimmed_def strip_def is_space_def int_at_least_def
      sha40_value_def is_sha40_def is_hex_def hex_lower_def utf8_def utf8_char_def Let_def find_None_iff list_all_iff)

text \<open>C20: the hand-written request validator agrees with the published schema.  It accepts a payload
  exactly when the payload conforms to \<open>CERTIFICATION_REQUEST_SCHEMA\<close> and meets the listed semantic
  constraints (trimmed non-empty names and key, exact integers, different commits, a key of at most
  128 bytes), whatever order it visits the key sets in.\<close>

theorem request_validator_agrees_with_schema:
  assumes "iterates it"
  shows "validate_certification_request it payload = [] \<longleftrightarrow>
     conforms CERTIFICATION_REQUEST_SCHEMA payload \<and> request_semantics payload"
  using validate_request_Nil [OF assms] .

theorem request_validator_agrees_with_schema_witness:
  "iterates id \<and> conforms CERTIFICATION_REQUEST_SCHEMA (sample_payload ''key'' 0) \<and>
     request_semantics (sample_payload ''key'' 0)"
  using request_validator_agrees_with_schema [OF iterates_id, of "sample_payload ''key'' 0"]
    sample_payload_accepted [of "''key''" 0] by simp

end
