(* ===== verification/Auth.thy ===== *)
theory Auth
  imports Schema_Properties Ledger
begin

text \<open>
  \<open>product/runtime/auth.py\<close>: the per-install bearer token, its file and the check of the
  \<open>Authorization\<close> header.

  The state is the token's directory and file (\<open>token_store\<close>) as \<open>stat\<close> shows them, with the file's
  bytes; the random bytes of \<open>os.urandom\<close> are an argument.  Whether the kernel lets the process open
  the file (permissions, type) is \<open>ts_open_ok\<close>; a symbolic link is refused by \<open>O_NOFOLLOW\<close>.
\<close>

definition TOKEN_LENGTH :: nat where
  "TOKEN_LENGTH = 43"

definition token_char :: "char \<Rightarrow> bool" where
  "token_char c \<longleftrightarrow> (let n = (of_char c :: nat) in
     (65 \<le> n \<and> n \<le> 90) \<or> (97 \<le> n \<and> n \<le> 122) \<or> (48 \<le> n \<and> n \<le> 57) \<or> c = CHR ''_'' \<or> c = CHR ''-'')"

text \<open>\<open>_TOKEN_PATTERN.fullmatch(token)\<close>.\<close>

definition token_pattern :: "string \<Rightarrow> bool" where
  "token_pattern s \<longleftrightarrow> length s = 43 \<and> list_all token_char s"

definition resolve_token_path :: "fs_view \<Rightarrow> string option \<Rightarrow> path option \<Rightarrow> path res" where
  "resolve_token_path fs xdg_config override_path =
     (case override_path of
        Some p \<Rightarrow>
          if fv_is_symlink fs p then Inl (AuthSecurityErr, ''token path cannot be a symlink'')
          else Inr (fv_resolve fs p)
      | None \<Rightarrow>
          (let base = (case xdg_config of
                 Some xdg \<Rightarrow> if xdg \<noteq> [] \<and> strip xdg \<noteq> [] then fv_resolve fs (path_of xdg)
                             else fv_resolve fs (fv_home fs @ [''.config''])
               | None \<Rightarrow> fv_resolve fs (fv_home fs @ [''.config'']))
           in Inr (fv_resolve fs (base @ [''nexus-core'', ''token'']))))"

section \<open>Generating a token\<close>

definition b64url_alphabet :: string where
  "b64url_alphabet = ''ABCDEFGHIJKLMNOPQRSTUVWXYZabcdefghijklmnopqrstuvwxyz0123456789-_''"

definition b64url_char :: "nat \<Rightarrow> char" where
  "b64url_char n = b64url_alphabet ! (n mod 64)"

text \<open>\<open>base64.urlsafe_b64encode\<close>: three bytes become four characters, the last group is padded.\<close>

fun urlsafe_b64encode :: "string \<Rightarrow> string" where
  "urlsafe_b64encode [] = []"
| "urlsafe_b64encode [a] = (let x = (of_char a :: nat) in
     [b64url_char (x div 4), b64url_char (x mod 4 * 16), CHR ''='', CHR ''=''])"
| "urlsafe_b64encode [a, b] = (let x = (of_char a :: nat); y = (of_char b :: nat) in
     [b64url_char (x div 4), b64url_char (x mod 4 * 16 + y div 16), b64url_char (y mod 16 * 4), CHR ''=''])"
| "urlsafe_b64encode (a # b # c # r) = (let x = (of_char a :: nat); y = (of_char b :: nat); z = (of_char c :: nat) in
     [b64url_char (x div 4), b64url_char (x mod 4 * 16 + y div 16), b64url_char (y mod 16 * 4 + z div 64),
      b64url_char z] @ urlsafe_b64encode r)"

definition rstrip_eq :: "string \<Rightarrow> string" where
  "rstrip_eq s = rev (dropWhile (\<lambda>c. c = CHR ''='') (rev s))"

definition generate_bearer_token :: "string \<Rightarrow> string" where
  "generate_bearer_token raw = rstrip_eq (urlsafe_b64encode raw)"

section \<open>The token file\<close>

record token_store =
  ts_uid :: int
  ts_parent :: fs_node
  ts_file :: fs_node
  ts_content :: string
  ts_open_ok :: bool

definition write_secure_token :: "string \<Rightarrow> token_store \<Rightarrow> token_store res" where
  "write_secure_token token st =
     (if length token \<noteq> TOKEN_LENGTH \<or> \<not> token_pattern token
      then Inl (ValueErr, ''token must be exactly 43 base64url characters without padding'')
      else
        (let par0 = (if fn_exists (ts_parent st) then ts_parent st
               else (ts_parent st)\<lparr>fn_exists := True, fn_uid := ts_uid st, fn_mode := 448\<rparr>);
             par = chmod 448 par0 in
         if fn_uid par \<noteq> ts_uid st then Inl (AuthSecurityErr, ''config directory not owned by current UID'')
         else if fn_symlink (ts_file st) \<or> \<not> ts_open_ok st then Inl (OSErr, ''open'')
         else
           (let file = (if fn_exists (ts_file st) then ts_file st
                  else (ts_file st)\<lparr>fn_exists := True, fn_regular := True, fn_nlink := 1, fn_uid := ts_uid st, fn_mode := 384\<rparr>) in
            if \<not> fn_chmod_ok file then Inl (OSErr, ''chmod'')
            else Inr (st\<lparr>ts_parent := par, ts_file := file\<lparr>fn_mode := 384\<rparr>, ts_content := token\<rparr>))))"

definition read_bearer_token :: "token_store \<Rightarrow> string res" where
  "read_bearer_token st =
     eseq (guard (fn_exists (ts_file st)) AuthSecurityErr ''token file does not exist'')
    (eseq (guard (fn_exists (ts_parent st)) AuthSecurityErr ''token parent directory does not exist'')
    (eseq (guard (\<not> fn_symlink (ts_parent st)) AuthSecurityErr ''token directory cannot be a symlink'')
    (eseq (guard (fn_uid (ts_parent st) = ts_uid st) AuthSecurityErr ''token parent directory not owned by current UID'')
    (eseq (guard (fn_mode (ts_parent st) mod 512 = 448) AuthSecurityErr ''token parent directory mode must be 0700'')
    (eseq (guard (\<not> fn_symlink (ts_file st) \<and> ts_open_ok st) AuthSecurityErr ''failed to open token file securely'')
    (eseq (guard (fn_regular (ts_file st)) AuthSecurityErr ''token path is not a regular file'')
    (eseq (guard (fn_nlink (ts_file st) = 1) AuthSecurityErr ''token file has invalid link count'')
    (eseq (guard (fn_uid (ts_file st) = ts_uid st) AuthSecurityErr ''token file not owned by current UID'')
    (eseq (guard (fn_mode (ts_file st) mod 512 = 384) AuthSecurityErr ''token file mode must be 0600'')
     (let data = take 256 (ts_content st) in
      eseq (guard (is_ascii data) AuthSecurityErr ''token contains non-ASCII bytes'')
     (eseq (guard (length data = TOKEN_LENGTH \<and> token_pattern data) AuthSecurityErr
              ''token format invalid: must be exactly 43 unpadded base64url characters'')
       (Inr data))))))))))))"

section \<open>The header\<close>

text \<open>\<open>header_value.split(" ", 1)\<close>, and \<open>hmac.compare_digest\<close> on strings, which raises on text that is
  not ASCII.\<close>

definition split_once :: "string \<Rightarrow> string list" where
  "split_once s = (case dropWhile (\<lambda>c. c \<noteq> CHR '' '') s of
     [] \<Rightarrow> [s] | _ # r \<Rightarrow> [takeWhile (\<lambda>c. c \<noteq> CHR '' '') s, r])"

definition compare_digest :: "string \<Rightarrow> string \<Rightarrow> bool res" where
  "compare_digest a b = (if is_ascii a \<and> is_ascii b then Inr (a = b)
     else Inl (TypeErr, ''comparing strings with non-ASCII characters is not supported''))"

definition validate_auth_header :: "string option \<Rightarrow> string \<Rightarrow> bool res" where
  "validate_auth_header header_value expected_token =
     (case header_value of
        None \<Rightarrow> Inr False
      | Some h \<Rightarrow>
          if h = [] then Inr False
          else (case split_once h of
              [scheme, token] \<Rightarrow>
                if scheme \<noteq> ''Bearer'' then Inr False
                else if length token \<noteq> TOKEN_LENGTH then Inr False
                else compare_digest token expected_token
            | _ \<Rightarrow> Inr False))"

text \<open>The middleware: a response is its status and JSON body; an exception of the check leaves the
  middleware (the server answers 500).\<close>

type_synonym response = "int \<times> pyval"

definition auth_middleware :: "string \<Rightarrow> string option \<Rightarrow> response res \<Rightarrow> response res" where
  "auth_middleware expected_token auth_header handler =
     ebind (validate_auth_header auth_header expected_token) (\<lambda>ok.
       if ok then handler
       else Inr (401, make_http_error ''UNAUTHORIZED'' None ''unauthorized''))"

section \<open>Lemmas\<close>

lemma b64url_char_token: "token_char (b64url_char n)"
proof -
  have "list_all token_char b64url_alphabet" by (simp add: b64url_alphabet_def token_char_def)
  moreover have "n mod 64 < length b64url_alphabet" by (simp add: b64url_alphabet_def)
  ultimately show ?thesis by (simp add: b64url_char_def list_all_length)
qed

lemma token_char_ne: "token_char c \<Longrightarrow> c \<noteq> CHR ''=''"
  by (auto simp: token_char_def)

text \<open>The encoding of \<open>3k + 2\<close> bytes: \<open>4k + 3\<close> characters of the alphabet and one padding sign.\<close>

lemma b64_two: "length s = 3 * k + 2 \<Longrightarrow>
   \<exists>t. urlsafe_b64encode s = t @ [CHR ''=''] \<and> length t = 4 * k + 3 \<and> list_all token_char t"
proof (induction k arbitrary: s)
  case 0
  then obtain a b where "s = [a, b]" by (auto simp: numeral_2_eq_2 length_Suc_conv)
  then show ?case
    by (intro exI [of _ "butlast (urlsafe_b64encode s)"]) (simp add: Let_def b64url_char_token)
next
  case (Suc k)
  then obtain a b c r where s: "s = a # b # c # r" "length r = 3 * k + 2"
    by (auto simp: length_Suc_conv numeral_3_eq_3)
  from Suc.IH [OF s(2)] obtain t where "urlsafe_b64encode r = t @ [CHR ''='']" "length t = 4 * k + 3" "list_all token_char t"
    by blast
  then show ?case
    by (intro exI [of _ "butlast (urlsafe_b64encode s)"]) (simp add: s Let_def b64url_char_token)
qed

lemma generated_token: "length raw = 32 \<Longrightarrow> token_pattern (generate_bearer_token raw)"
proof -
  assume "length raw = 32"
  then obtain t where t: "urlsafe_b64encode raw = t @ [CHR ''='']" "length t = 43" "list_all token_char t"
    using b64_two [of raw 10] by auto
  then have "t \<noteq> []" by auto
  then have "token_char (last t)" using t(3) by (simp add: list_all_iff)
  then have "last t \<noteq> CHR ''=''" using token_char_ne by blast
  then have "dropWhile (\<lambda>c. c = CHR ''='') (rev t) = rev t"
    using \<open>t \<noteq> []\<close> by (cases "rev t") (auto simp: last_conv_nth hd_rev [symmetric])
  then show ?thesis using t by (simp add: generate_bearer_token_def rstrip_eq_def token_pattern_def)
qed

lemma token_char_ascii: "token_char c \<Longrightarrow> of_char c < (128 :: nat)"
  by (auto simp: token_char_def Let_def)

lemma token_ascii: "token_pattern s \<Longrightarrow> is_ascii s"
  using token_char_ascii by (auto simp: token_pattern_def is_ascii_def list_all_iff)

lemma split_once_two: "split_once h = [a, b] \<Longrightarrow> h = a @ CHR '' '' # b"
proof -
  let ?P = "\<lambda>c. c \<noteq> CHR '' ''"
  assume s: "split_once h = [a, b]"
  then obtain c where d: "dropWhile ?P h = c # b" "a = takeWhile ?P h"
    by (auto simp: split_once_def split: list.splits)
  then have "c = CHR '' ''" using hd_dropWhile [of ?P h] by auto
  then show "h = a @ CHR '' '' # b" using d takeWhile_dropWhile_id [of ?P h] by simp
qed

lemma split_bearer: "split_once (''Bearer '' @ t) = [''Bearer'', t]"
  by (simp add: split_once_def)

lemma auth_header_cases:
  assumes "token_pattern tok"
  shows "validate_auth_header h tok =
     (if \<exists>t. h = Some (''Bearer '' @ t) \<and> length t = TOKEN_LENGTH \<and> \<not> is_ascii t
      then Inl (TypeErr, ''comparing strings with non-ASCII characters is not supported'')
      else Inr (h = Some (''Bearer '' @ tok)))"
proof -
  have tok: "is_ascii tok" "length tok = TOKEN_LENGTH"
    using token_ascii [OF assms] assms by (simp_all add: token_pattern_def TOKEN_LENGTH_def)
  show ?thesis
  proof (cases "\<exists>t. h = Some (''Bearer '' @ t)")
    case True
    then obtain t where h: "h = Some (''Bearer '' @ t)" by blast
    show ?thesis
      unfolding validate_auth_header_def h option.case(2) split_bearer using tok
      by (auto simp: compare_digest_def)
  next
    case False
    then have "validate_auth_header h tok = Inr False"
      using split_once_two by (fastforce simp: validate_auth_header_def split: option.splits list.splits)
    then show ?thesis using False by auto
  qed
qed

section \<open>Properties\<close>

text \<open>A generated token survives its file.  For any 32 random bytes, when \<open>write_secure_token\<close>
  stores the generated token in a directory and a file this process may open (no links, no second
  name), \<open>read_bearer_token\<close> returns the same token.\<close>

theorem token_roundtrip:
  assumes "length raw = 32" "write_secure_token (generate_bearer_token raw) st = Inr st'"
    and "\<not> fn_symlink (ts_parent st)" "fn_chmod_ok (ts_parent st)"
    and "fn_exists (ts_file st) \<longrightarrow> fn_regular (ts_file st) \<and> fn_nlink (ts_file st) = 1 \<and> fn_uid (ts_file st) = ts_uid st"
  shows "read_bearer_token st' = Inr (generate_bearer_token raw)"
proof -
  have pat: "token_pattern (generate_bearer_token raw)" by (rule generated_token [OF assms(1)])
  then have len: "length (generate_bearer_token raw) = 43" by (simp add: token_pattern_def)
  then have "take 256 (generate_bearer_token raw) = generate_bearer_token raw" by simp
  then show ?thesis
    using assms(2-) pat token_ascii [OF pat] len
    by (auto simp: write_secure_token_def read_bearer_token_def Let_def chmod_def TOKEN_LENGTH_def split: if_splits)
qed

definition fresh_store :: token_store where
  "fresh_store = (let node = \<lparr>fn_exists = False, fn_symlink = False, fn_regular = False, fn_nlink = 0, fn_uid = 0,
     fn_mode = 0, fn_chmod_ok = True\<rparr> in \<lparr>ts_uid = 0, ts_parent = node, ts_file = node, ts_content = [], ts_open_ok = True\<rparr>)"

theorem token_roundtrip_witness:
  "\<exists>st'. write_secure_token (generate_bearer_token (replicate 32 (CHR ''x''))) fresh_store = Inr st' \<and>
     read_bearer_token st' = Inr (generate_bearer_token (replicate 32 (CHR ''x'')))"
proof -
  let ?raw = "replicate 32 (CHR ''x'')"
  have pat: "token_pattern (generate_bearer_token ?raw)" by (rule generated_token) simp
  then obtain st' where w: "write_secure_token (generate_bearer_token ?raw) fresh_store = Inr st'"
    by (auto simp: write_secure_token_def fresh_store_def Let_def chmod_def TOKEN_LENGTH_def token_pattern_def)
  have "read_bearer_token st' = Inr (generate_bearer_token ?raw)"
    by (rule token_roundtrip [OF _ w]) (simp_all add: fresh_store_def Let_def)
  then show ?thesis using w by blast
qed

text \<open>C19: only the token opens the door.  With a well-formed token the handler runs exactly when the
  header is \<open>Bearer\<close>, one blank and that token; any other header gets the 401 error, except a
  43-character credential with a character outside ASCII, on which the comparison raises.\<close>

theorem handler_runs_iff_bearer_token:
  assumes "token_pattern tok"
  shows "auth_middleware tok h handler =
     (if h = Some (''Bearer '' @ tok) then handler
      else if \<exists>t. h = Some (''Bearer '' @ t) \<and> length t = TOKEN_LENGTH \<and> \<not> is_ascii t
      then Inl (TypeErr, ''comparing strings with non-ASCII characters is not supported'')
      else Inr (401, make_http_error ''UNAUTHORIZED'' None ''unauthorized''))"
  using token_ascii [OF assms] by (auto simp: auth_middleware_def auth_header_cases [OF assms])

theorem handler_runs_iff_bearer_token_witness:
  "auth_middleware (replicate 43 (CHR ''A'')) (Some (''Bearer '' @ replicate 43 (CHR 0xE9))) (Inr (200, PNone)) =
     Inl (TypeErr, ''comparing strings with non-ASCII characters is not supported'') \<and>
   auth_middleware (replicate 43 (CHR ''A'')) (Some (''Bearer '' @ replicate 43 (CHR ''A''))) (Inr (200, PNone)) = Inr (200, PNone)"
proof -
  let ?tok = "replicate 43 (CHR ''A'')" and ?bad = "replicate 43 (CHR 0xE9)"
  have tok: "token_pattern ?tok" by (simp add: token_pattern_def token_char_def list_all_iff)
  have bad: "length ?bad = TOKEN_LENGTH" "\<not> is_ascii ?bad" "?bad \<noteq> ?tok"
    by (simp_all add: TOKEN_LENGTH_def is_ascii_def replicate_eq_replicate)
  show ?thesis
    using bad handler_runs_iff_bearer_token [OF tok, of "Some (''Bearer '' @ ?bad)" "Inr (200, PNone)"]
      handler_runs_iff_bearer_token [OF tok, of "Some (''Bearer '' @ ?tok)" "Inr (200, PNone)"] by simp
qed

end
