(* ===== verification/Acquisition.thy ===== *)
theory Acquisition
  imports Kernel_Properties
begin

text \<open>
  \<open>product/acquisition/github.py\<close>: reading a pull request through an injected port, twice, into an
  immutable snapshot whose constructor checks everything the certification later relies on.

  The port is a parameter: a function of the locator and the number of the read, which may raise.
  A locator or snapshot field may hold any value until the constructor has checked it.
  \<open>py_sorted\<close> is \<open>sorted\<close>: it raises \<open>TypeError\<close> on elements that do not compare (a fractional float is
  taken not to compare).  \<open>left != right\<close> compares the fields with \<open>==\<close>.
\<close>

section \<open>Ordering of values\<close>

function py_lt :: "pyval \<Rightarrow> pyval \<Rightarrow> bool option"
and py_lts :: "pyval list \<Rightarrow> pyval list \<Rightarrow> bool option" where
  "py_lt a b =
     (if isinstance_str a \<and> isinstance_str b then Some (str_of a < str_of b)
      else (case (num_of a, num_of b) of
          (Some i, Some j) \<Rightarrow> Some (i < j)
        | _ \<Rightarrow> (case (a, b) of
              (PBytes s, PBytes t) \<Rightarrow> Some (s < t)
            | (PList xs, PList ys) \<Rightarrow> py_lts xs ys
            | (PTuple xs, PTuple ys) \<Rightarrow> py_lts xs ys
            | _ \<Rightarrow> None)))"
| "py_lts [] ys = Some (ys \<noteq> [])"
| "py_lts (x # xs) ys = (case ys of [] \<Rightarrow> Some False
     | y # zs \<Rightarrow> if py_eq x y then py_lts xs zs else py_lt x y)"
  by pat_completeness auto
termination
  by (relation "measure (\<lambda>z. case z of Inl (a, _) \<Rightarrow> size a | Inr (xs, _) \<Rightarrow> size_list size xs)") auto

declare py_lt.simps [simp del]

fun comparable :: "pyval list \<Rightarrow> bool" where
  "comparable [] = True"
| "comparable (x # xs) = (list_all (\<lambda>y. py_lt x y \<noteq> None \<and> py_lt y x \<noteq> None) xs \<and> comparable xs)"

fun py_insort :: "pyval \<Rightarrow> pyval list \<Rightarrow> pyval list" where
  "py_insort x [] = [x]"
| "py_insort x (y # ys) = (if py_lt y x = Some True then y # py_insort x ys else x # y # ys)"

definition py_sorted :: "pyval \<Rightarrow> pyval list res" where
  "py_sorted v = ebind (py_list v) (\<lambda>xs.
     if comparable xs then Inr (foldr py_insort xs []) else Inl (TypeErr, ''not supported between instances''))"

text \<open>\<open>len(xs) == len(set(xs))\<close>, raising on unhashable elements.\<close>

fun py_distinct :: "pyval list \<Rightarrow> bool" where
  "py_distinct [] = True"
| "py_distinct (x # xs) = (\<not> list_ex (py_eq x) xs \<and> py_distinct xs)"

definition set_distinct :: "pyval list \<Rightarrow> bool res" where
  "set_distinct xs = (if list_all hashable xs then Inr (py_distinct xs) else Inl (TypeErr, ''unhashable type''))"

section \<open>The locator\<close>

record locator =
  lo_repository_owner :: pyval
  lo_repository_name :: pyval
  lo_pr_number :: pyval

definition name_start :: "char \<Rightarrow> bool" where
  "name_start c \<longleftrightarrow> (let n = (of_char c :: nat) in
     (65 \<le> n \<and> n \<le> 90) \<or> (97 \<le> n \<and> n \<le> 122) \<or> (48 \<le> n \<and> n \<le> 57))"

text \<open>\<open>_NAME.fullmatch\<close>.\<close>

definition is_name :: "string \<Rightarrow> bool" where
  "is_name s \<longleftrightarrow> (case s of [] \<Rightarrow> False
     | c # cs \<Rightarrow> name_start c \<and> length cs \<le> 99 \<and> list_all (\<lambda>d. name_start d \<or> List.member ''_.-'' d) cs)"

definition name_check :: "pyval \<Rightarrow> string \<Rightarrow> unit res" where
  "name_check v field = guard (is_str v \<and> str_of v \<noteq> [] \<and> str_of v = strip (str_of v) \<and> is_name (str_of v))
     AcquisitionErr (field @ '' is not a normalized GitHub name'')"

definition GitHubPullRequestLocator :: "pyval \<Rightarrow> pyval \<Rightarrow> pyval \<Rightarrow> locator res" where
  "GitHubPullRequestLocator owner name pr =
     eseq (name_check owner ''repository_owner'')
    (eseq (name_check name ''repository_name'')
    (eseq (guard (case pr of PInt i \<Rightarrow> 0 < i | _ \<Rightarrow> False) AcquisitionErr ''pr_number must be a positive exact int'')
     (Inr \<lparr>lo_repository_owner = owner, lo_repository_name = name, lo_pr_number = pr\<rparr>)))"

definition locator_hash :: "locator \<Rightarrow> string res" where
  "locator_hash l = ebind (dumps compact (PList [PStr (lower (str_of (lo_repository_owner l))),
       PStr (lower (str_of (lo_repository_name l))), lo_pr_number l])) (\<lambda>t. Inr (sha_text (utf8 t)))"

section \<open>The snapshot\<close>

definition sha_check :: "pyval \<Rightarrow> string \<Rightarrow> unit res" where
  "sha_check v field = guard (is_str v \<and> is_sha40 (str_of v)) AcquisitionErr (field @ '' must be lowercase 40-hex SHA'')"

definition hash_check :: "pyval \<Rightarrow> string \<Rightarrow> unit res" where
  "hash_check v field = guard (is_str v \<and> is_sha256 (str_of v)) AcquisitionErr (field @ '' must be sha256:<64 lowercase hex>'')"

definition valid_path :: "pyval \<Rightarrow> bool" where
  "valid_path p \<longleftrightarrow> is_str p \<and> str_of p \<noteq> [] \<and> str_of p = strip (str_of p) \<and> relative_path (str_of p)"

definition paths_check :: "pyval \<Rightarrow> string \<Rightarrow> bool \<Rightarrow> pyval list res" where
  "paths_check v field allow_empty =
     eseq (guard (is_list v \<or> is_tuple v) AcquisitionErr (field @ '' must be a path list''))
    (eseq (guard (allow_empty \<or> elems v \<noteq> []) AcquisitionErr (field @ '' must be non-empty''))
    (ebind (set_distinct (elems v)) (\<lambda>unique.
     eseq (guard unique AcquisitionErr (field @ '' contains duplicate paths''))
    (eseq (efor (elems v) (\<lambda>p. guard (valid_path p) AcquisitionErr (field @ '' contains an invalid relative path'')))
     (py_sorted v)))))"

record snapshot =
  sn_repository_owner :: pyval
  sn_repository_name :: pyval
  sn_pr_number :: pyval
  sn_base_sha :: pyval
  sn_head_sha :: pyval
  sn_base_tree_sha :: pyval
  sn_head_tree_sha :: pyval
  sn_merge_base_policy :: pyval
  sn_diff_bytes :: pyval
  sn_diff_hash :: pyval
  sn_changed_paths :: pyval
  sn_deleted_paths :: pyval
  sn_checks :: pyval
  sn_pagination_complete :: pyval
  sn_observed_at :: pyval
  sn_freshness_cas :: pyval
  sn_locator_hash :: pyval

text \<open>The subject \<open>_freshness_cas_for\<close> hashes.\<close>

definition cas_subject :: "snapshot \<Rightarrow> pyval" where
  "cas_subject s = mkdict [
     (''repository_owner'', PStr (lower (str_of (sn_repository_owner s)))),
     (''repository_name'', PStr (lower (str_of (sn_repository_name s)))), (''pr_number'', sn_pr_number s),
     (''base_sha'', sn_base_sha s), (''head_sha'', sn_head_sha s), (''base_tree_sha'', sn_base_tree_sha s),
     (''head_tree_sha'', sn_head_tree_sha s), (''merge_base_policy'', sn_merge_base_policy s),
     (''diff_hash'', sn_diff_hash s), (''changed_paths'', PList (elems (sn_changed_paths s))),
     (''deleted_paths'', PList (elems (sn_deleted_paths s))),
     (''checks'', PList (map (\<lambda>x. PList (elems x)) (elems (sn_checks s))))]"

definition freshness_cas_for :: "snapshot \<Rightarrow> string res" where
  "freshness_cas_for s = ebind (dumps compact_sorted (cas_subject s)) (\<lambda>t. Inr (sha_text (utf8 t)))"

text \<open>\<open>_UTC_RFC3339.fullmatch\<close>, and \<open>datetime.fromisoformat\<close> on text of that shape.\<close>

definition rfc3339_shape :: "string \<Rightarrow> bool" where
  "rfc3339_shape s \<longleftrightarrow> 20 \<le> length s \<and>
     list_all (\<lambda>i. is_digit (s ! i)) [0, 1, 2, 3, 5, 6, 8, 9, 11, 12, 14, 15, 17, 18] \<and>
     s ! 4 = CHR ''-'' \<and> s ! 7 = CHR ''-'' \<and> s ! 10 = CHR ''T'' \<and> s ! 13 = CHR '':'' \<and> s ! 16 = CHR '':'' \<and>
     last s = CHR ''Z'' \<and>
     (length s = 20 \<or> s ! 19 = CHR ''.'' \<and> 22 \<le> length s \<and> list_all is_digit (butlast (drop 20 s)))"

definition field_at :: "string \<Rightarrow> nat \<Rightarrow> nat \<Rightarrow> nat" where
  "field_at s i n = nat_of_digits (take n (drop i s))"

definition is_leap :: "nat \<Rightarrow> bool" where
  "is_leap y \<longleftrightarrow> y mod 4 = 0 \<and> (y mod 100 \<noteq> 0 \<or> y mod 400 = 0)"

definition days_in :: "nat \<Rightarrow> nat \<Rightarrow> nat" where
  "days_in y m = (if m = 2 then (if is_leap y then 29 else 28)
     else if List.member [4, 6, 9, 11] m then 30 else 31)"

definition valid_timestamp :: "string \<Rightarrow> bool" where
  "valid_timestamp s \<longleftrightarrow>
     (let y = field_at s 0 4; m = field_at s 5 2; d = field_at s 8 2 in
      1 \<le> y \<and> 1 \<le> m \<and> m \<le> 12 \<and> 1 \<le> d \<and> d \<le> days_in y m \<and>
      field_at s 11 2 \<le> 23 \<and> field_at s 14 2 \<le> 59 \<and> field_at s 17 2 \<le> 59)"

definition sorted_check :: "pyval \<Rightarrow> string \<Rightarrow> unit res" where
  "sorted_check v field = ebind (py_sorted v) (\<lambda>xs. guard (py_eq v (PTuple xs)) AcquisitionErr (field @ '' must be sorted''))"

definition checks_check :: "pyval \<Rightarrow> unit res" where
  "checks_check v =
     eseq (guard (is_tuple v \<and> list_all (\<lambda>x. is_tuple x \<and> length (elems x) = 2) (elems v)) AcquisitionErr
       ''checks must be (identity, digest) pairs'')
    (ebind (py_sorted v) (\<lambda>xs.
     ebind (if py_eq v (PTuple xs) then set_distinct (map (\<lambda>x. hd (elems x)) (elems v)) else Inr False) (\<lambda>ok.
     eseq (guard ok AcquisitionErr ''checks must be sorted and have unique identities'')
       (efor (elems v) (\<lambda>x. eseq (guard (is_str (hd (elems x)) \<and> normalized (str_of (hd (elems x)))) AcquisitionErr
            ''check identities must be normalized'')
          (hash_check (elems x ! 1) ''check digest''))))))"

definition snapshot_post_init :: "snapshot \<Rightarrow> unit res" where
  "snapshot_post_init s =
     ebind (GitHubPullRequestLocator (sn_repository_owner s) (sn_repository_name s) (sn_pr_number s)) (\<lambda>loc.
     eseq (sha_check (sn_base_sha s) ''base_sha'')
    (eseq (sha_check (sn_head_sha s) ''head_sha'')
    (eseq (sha_check (sn_base_tree_sha s) ''base_tree_sha'')
    (eseq (sha_check (sn_head_tree_sha s) ''head_tree_sha'')
    (eseq (guard (\<not> py_eq (sn_base_sha s) (sn_head_sha s)) AcquisitionErr ''base_sha and head_sha must differ'')
    (eseq (guard (py_eq (sn_merge_base_policy s) (PStr ''base_sha_exact'')) AcquisitionErr
             ''merge_base_policy must be base_sha_exact'')
    (case sn_diff_bytes s of
       PBytes b \<Rightarrow>
         eseq (guard (py_eq (sn_diff_hash s) (PStr (sha_text b))) AcquisitionErr ''diff_hash does not match diff_bytes'')
        (eseq (hash_check (sn_diff_hash s) ''diff_hash'')
        (eseq (sorted_check (sn_changed_paths s) ''changed_paths'')
        (eseq (sorted_check (sn_deleted_paths s) ''deleted_paths'')
        (ebind (paths_check (sn_changed_paths s) ''changed_paths'' False) (\<lambda>_.
         ebind (paths_check (sn_deleted_paths s) ''deleted_paths'' True) (\<lambda>_.
         eseq (guard (list_all (\<lambda>p. list_ex (py_eq p) (elems (sn_changed_paths s))) (elems (sn_deleted_paths s)))
                 AcquisitionErr ''deleted_paths must be a subset of changed_paths'')
        (eseq (checks_check (sn_checks s))
        (eseq (guard (sn_pagination_complete s = PBool True) AcquisitionErr ''pagination_complete must be true'')
        (eseq (guard (is_str (sn_observed_at s) \<and> rfc3339_shape (str_of (sn_observed_at s))) AcquisitionErr
                 ''observed_at must be canonical UTC RFC3339 ending in Z'')
        (eseq (guard (valid_timestamp (str_of (sn_observed_at s))) AcquisitionErr
                 ''observed_at must be a valid UTC RFC3339 timestamp'')
        (ebind (freshness_cas_for s) (\<lambda>cas.
         eseq (guard (py_eq (sn_freshness_cas s) (PStr cas)) AcquisitionErr ''freshness_cas does not match snapshot subject'')
        (ebind (locator_hash loc) (\<lambda>lh.
          guard (py_eq (sn_locator_hash s) (PStr lh)) AcquisitionErr ''locator_hash does not match locator''))))))))))))))
     | _ \<Rightarrow> Inl (AcquisitionErr, ''diff_bytes must be immutable bytes''))))))))"

definition GitHubAcquisitionSnapshot :: "snapshot \<Rightarrow> snapshot res" where
  "GitHubAcquisitionSnapshot s = eseq (snapshot_post_init s) (Inr s)"

definition bytes_hex :: "string \<Rightarrow> string" where
  "bytes_hex b = concat (map (\<lambda>c. hex2 (of_char c)) b)"

definition snapshot_to_dict :: "snapshot \<Rightarrow> pyval" where
  "snapshot_to_dict s = mkdict [
     (''repository_owner'', sn_repository_owner s), (''repository_name'', sn_repository_name s),
     (''pr_number'', sn_pr_number s), (''base_sha'', sn_base_sha s), (''head_sha'', sn_head_sha s),
     (''base_tree_sha'', sn_base_tree_sha s), (''head_tree_sha'', sn_head_tree_sha s),
     (''merge_base_policy'', sn_merge_base_policy s),
     (''diff_bytes'', PStr (bytes_hex (case sn_diff_bytes s of PBytes b \<Rightarrow> b | _ \<Rightarrow> []))),
     (''diff_hash'', sn_diff_hash s), (''changed_paths'', PList (elems (sn_changed_paths s))),
     (''deleted_paths'', PList (elems (sn_deleted_paths s))),
     (''checks'', PList (map (\<lambda>x. PList (elems x)) (elems (sn_checks s)))),
     (''pagination_complete'', sn_pagination_complete s), (''observed_at'', sn_observed_at s),
     (''freshness_cas'', sn_freshness_cas s), (''locator_hash'', sn_locator_hash s)]"

section \<open>Parsing a response\<close>

definition REQUIRED :: "string list" where
  "REQUIRED = [''repository_owner'', ''repository_name'', ''pr_number'', ''base_sha'', ''head_sha'', ''base_tree_sha'',
     ''head_tree_sha'', ''merge_base_policy'', ''diff_bytes'', ''diff_hash'', ''changed_paths'', ''deleted_paths'',
     ''checks'', ''pagination_complete'', ''observed_at'', ''freshness_cas'']"

text \<open>\<open>GitHubAcquisitionSnapshot(**values)\<close>, once the keys are the fields.\<close>

definition snapshot_of :: "pydict \<Rightarrow> snapshot" where
  "snapshot_of d = \<lparr>sn_repository_owner = get d ''repository_owner'', sn_repository_name = get d ''repository_name'',
     sn_pr_number = get d ''pr_number'', sn_base_sha = get d ''base_sha'', sn_head_sha = get d ''head_sha'',
     sn_base_tree_sha = get d ''base_tree_sha'', sn_head_tree_sha = get d ''head_tree_sha'',
     sn_merge_base_policy = get d ''merge_base_policy'', sn_diff_bytes = get d ''diff_bytes'',
     sn_diff_hash = get d ''diff_hash'', sn_changed_paths = get d ''changed_paths'',
     sn_deleted_paths = get d ''deleted_paths'', sn_checks = get d ''checks'',
     sn_pagination_complete = get d ''pagination_complete'', sn_observed_at = get d ''observed_at'',
     sn_freshness_cas = get d ''freshness_cas'', sn_locator_hash = get d ''locator_hash''\<rparr>"

definition to_tuple :: "pyval \<Rightarrow> pyval" where
  "to_tuple v = (if is_list v \<or> is_tuple v then PTuple (elems v) else v)"

text \<open>\<open>tuple(tuple(x) for x in xs)\<close>.\<close>

definition tuple_of_tuples :: "pyval list \<Rightarrow> pyval res" where
  "tuple_of_tuples xs = ebind (emap (\<lambda>x. ebind (py_list x) (\<lambda>ys. Inr (PTuple ys))) xs) (\<lambda>ts. Inr (PTuple ts))"

definition parse_snapshot :: "pyval \<Rightarrow> locator \<Rightarrow> snapshot res" where
  "parse_snapshot raw loc =
     (let d = items raw in
      eseq (guard (is_dict raw \<and> keys_are d REQUIRED) AcquisitionErr ''response has an incomplete or substituted schema'')
     (eseq (guard (py_eq (get d ''repository_owner'') (lo_repository_owner loc) \<and>
                   py_eq (get d ''repository_name'') (lo_repository_name loc) \<and>
                   py_eq (get d ''pr_number'') (lo_pr_number loc)) AcquisitionDriftErr
              ''response locator differs from requested locator'')
     (eseq (guard (is_bytes (get d ''diff_bytes'')) AcquisitionErr ''diff_bytes must be bytes from the read port'')
     (eseq (guard (is_list (get d ''checks'') \<or> is_tuple (get d ''checks'')) AcquisitionErr ''checks must be a list'')
     (ebind (tuple_of_tuples (elems (get d ''checks''))) (\<lambda>cs.
      ebind (locator_hash loc) (\<lambda>lh.
        GitHubAcquisitionSnapshot ((snapshot_of d)\<lparr>sn_checks := cs,
          sn_changed_paths := to_tuple (get d ''changed_paths''),
          sn_deleted_paths := to_tuple (get d ''deleted_paths''), sn_locator_hash := PStr lh\<rparr>))))))))"

text \<open>Equality of snapshots compares the tuples of their fields.\<close>

definition snapshot_fields :: "snapshot \<Rightarrow> pyval list" where
  "snapshot_fields s = [sn_repository_owner s, sn_repository_name s, sn_pr_number s, sn_base_sha s, sn_head_sha s,
     sn_base_tree_sha s, sn_head_tree_sha s, sn_merge_base_policy s, sn_diff_bytes s, sn_diff_hash s,
     sn_changed_paths s, sn_deleted_paths s, sn_checks s, sn_pagination_complete s, sn_observed_at s,
     sn_freshness_cas s, sn_locator_hash s]"

definition snapshot_eq :: "snapshot \<Rightarrow> snapshot \<Rightarrow> bool" where
  "snapshot_eq a b \<longleftrightarrow> py_eqs (snapshot_fields a) (snapshot_fields b)"

type_synonym read_port = "locator \<Rightarrow> nat \<Rightarrow> pyval res"

text \<open>\<open>except PermissionError\<close> around the two reads.\<close>

definition permission_denied :: "'a res \<Rightarrow> 'a res" where
  "permission_denied r = (case r of
     Inl (PermissionErr, m) \<Rightarrow> Inl (PermissionDeniedErr, ''GitHub read permission denied'') | _ \<Rightarrow> r)"

definition acquire_github_pull_request :: "read_port \<Rightarrow> locator \<Rightarrow> snapshot res" where
  "acquire_github_pull_request port loc =
     ebind (permission_denied (ebind (port loc 0) (\<lambda>first. ebind (port loc 1) (\<lambda>second. Inr (first, second))))) (\<lambda>(first, second).
     ebind (parse_snapshot first loc) (\<lambda>left.
     ebind (parse_snapshot second loc) (\<lambda>right.
       if \<not> snapshot_eq left right then Inl (AcquisitionDriftErr, ''independent GitHub reads disagree'')
       else Inr left)))"

definition serialize_github_acquisition_snapshot :: "snapshot obj \<Rightarrow> pyval res" where
  "serialize_github_acquisition_snapshot s = (case s of
     WrongType \<Rightarrow> Inl (TypeErr, ''snapshot must be GitHubAcquisitionSnapshot'')
   | WrongFields \<Rightarrow> Inl (AttributeErr, ''snapshot'')
   | Obj x \<Rightarrow> Inr (snapshot_to_dict x))"

text \<open>\<open>bytes.fromhex\<close>: pairs of hex digits, with ASCII white space between pairs.\<close>

definition ascii_space :: "char \<Rightarrow> bool" where
  "ascii_space c \<longleftrightarrow> (let n = (of_char c :: nat) in (9 \<le> n \<and> n \<le> 13) \<or> n = 32)"

fun fromhex :: "string \<Rightarrow> string option" where
  "fromhex [] = Some []"
| "fromhex [c] = (if ascii_space c then Some [] else None)"
| "fromhex (c # d # cs) =
     (if ascii_space c then fromhex (d # cs)
      else (case (hex_val c, hex_val d) of
          (Some x, Some y) \<Rightarrow> map_option ((#) (char_of (16 * x + y))) (fromhex cs)
        | _ \<Rightarrow> None))"

definition FIELDS :: "string list" where
  "FIELDS = REQUIRED @ [''locator_hash'']"

definition as_acquisition_error :: "'a res \<Rightarrow> 'a res" where
  "as_acquisition_error r = (case r of
     Inl (c, m) \<Rightarrow> if c = KeyErr \<or> c = TypeErr \<or> is_value_error c
        then Inl (AcquisitionErr, ''malformed serialized acquisition snapshot'') else Inl (c, m)
   | Inr x \<Rightarrow> Inr x)"

definition load_conversions :: "pydict \<Rightarrow> (pyval \<times> pyval \<times> pyval \<times> pyval) res" where
  "load_conversions d =
     ebind (getitem d ''diff_bytes'') (\<lambda>h.
     ebind (case h of PStr t \<Rightarrow> (case fromhex t of Some b \<Rightarrow> Inr (PBytes b) | None \<Rightarrow> Inl (ValueErr, ''non-hexadecimal number found''))
            | _ \<Rightarrow> Inl (TypeErr, ''fromhex() argument must be str'')) (\<lambda>diff.
     ebind (getitem d ''checks'') (\<lambda>cs. ebind (py_list cs) (\<lambda>xs. ebind (tuple_of_tuples xs) (\<lambda>checks.
     ebind (getitem d ''changed_paths'') (\<lambda>cp. ebind (py_list cp) (\<lambda>changed.
     ebind (getitem d ''deleted_paths'') (\<lambda>dp. ebind (py_list dp) (\<lambda>deleted.
       Inr (diff, checks, PTuple changed, PTuple deleted))))))))))"

definition load_github_acquisition_snapshot :: "pyval \<Rightarrow> snapshot res" where
  "load_github_acquisition_snapshot payload =
     eseq (guard (is_dict payload) TypeErr ''payload must be a mapping'')
    (ebind (as_acquisition_error (load_conversions (items payload))) (\<lambda>(diff, checks, changed, deleted).
     eseq (guard (keys_are (items payload) FIELDS) TypeErr ''unexpected or missing keyword argument'')
      (GitHubAcquisitionSnapshot ((snapshot_of (items payload))\<lparr>sn_diff_bytes := diff, sn_checks := checks,
         sn_changed_paths := changed, sn_deleted_paths := deleted\<rparr>))))"

end
