(* ===== verification/Acquisition_Properties.thy ===== *)
theory Acquisition_Properties
  imports Acquisition
begin

text \<open>
  What an accepted snapshot is (its typed form), that it survives serialisation, that its freshness
  hash determines everything but the time of observation, and what the two reads guarantee.
\<close>

section \<open>Strings among values\<close>

lemma py_lt_PStr [simp]: "py_lt (PStr a) (PStr b) = Some (a < b)"
  by (simp add: py_lt.simps)

lemma comparable_strs [simp]: "comparable (map PStr xs)"
  by (induction xs) (auto simp: list_all_iff)

lemma py_insort_strs: "py_insort (PStr x) (map PStr ys) = map PStr (insort x ys)"
  by (induction ys) auto

lemma py_sorted_strs: "py_sorted (PTuple (map PStr xs)) = Inr (map PStr (sort xs))"
proof -
  have "foldr py_insort (map PStr xs) [] = map PStr (sort xs)"
    by (induction xs) (simp_all add: py_insort_strs)
  then show ?thesis by (simp add: py_sorted_def py_list_def)
qed

lemma py_eqs_strs [simp]: "py_eqs (map PStr xs) (map PStr ys) \<longleftrightarrow> xs = ys"
proof (induction xs arbitrary: ys)
  case (Cons x xs)
  then show ?case by (cases ys) auto
qed auto

lemma py_distinct_strs [simp]: "py_distinct (map PStr xs) \<longleftrightarrow> distinct xs"
  by (induction xs) (auto simp: list_ex_iff)

lemma set_distinct_strs: "set_distinct (map PStr xs) = Inr (distinct xs)"
  by (auto simp: set_distinct_def list_all_iff)

lemma strs_exist: "\<forall>p \<in> set xs. is_str p \<Longrightarrow> \<exists>ps. xs = map PStr ps"
  by (induction xs) (auto simp: is_str_iff, metis list.simps(9))

lemma py_eq_tuple: "py_eq v (PTuple xs) \<Longrightarrow> \<exists>ys. v = PTuple ys"
  by (cases v) (auto simp: num_of_def isinstance_str_def split: pyfloat.splits)

section \<open>Identifiers\<close>

definition id_text :: "string \<Rightarrow> bool" where
  "id_text s \<longleftrightarrow> s \<noteq> [] \<and> list_all (\<lambda>c. \<not> is_space c \<and> c \<noteq> nul) s"

lemma dropWhile_none: "list_all (\<lambda>c. \<not> P c) s \<Longrightarrow> dropWhile P s = s"
  by (cases s) auto

lemma id_text_normalized: "id_text s \<Longrightarrow> normalized s"
proof -
  assume a: "id_text s"
  then have "list_all (\<lambda>c. \<not> is_space c) s" "list_all (\<lambda>c. \<not> is_space c) (rev s)" "nul \<notin> set s"
    by (auto simp: id_text_def list_all_iff)
  then show ?thesis using a dropWhile_none [of is_space s] dropWhile_none [of is_space "rev s"]
    by (simp add: normalized_def strip_def id_text_def)
qed

lemma id_text_append: "id_text (s @ t) \<longleftrightarrow> s @ t \<noteq> [] \<and> list_all (\<lambda>c. \<not> is_space c \<and> c \<noteq> nul) s \<and> list_all (\<lambda>c. \<not> is_space c \<and> c \<noteq> nul) t"
  by (auto simp: id_text_def)

lemma digits_plain: "list_all (\<lambda>c. \<not> is_space c \<and> c \<noteq> nul) (show_nat n)"
  using show_nat_digits [of n] by (auto simp: list_all_iff is_digit_def is_space_def nul_def)

lemma show_int_plain: "list_all (\<lambda>c. \<not> is_space c \<and> c \<noteq> nul) (show_int i)"
  using digits_plain by (simp add: show_int_def is_space_def nul_def)

lemma hex_plain: "is_hex c \<Longrightarrow> \<not> is_space c \<and> c \<noteq> nul"
proof -
  have "list_all (\<lambda>c. \<not> is_space c \<and> c \<noteq> nul) hex_lower" by code_simp
  then show "is_hex c \<Longrightarrow> \<not> is_space c \<and> c \<noteq> nul" by (auto simp: is_hex_def list_all_iff)
qed

lemma name_char_not_space: "name_start d \<or> List.member ''_.-'' d \<Longrightarrow> \<not> is_space d \<and> d \<noteq> nul"
  by (auto simp: name_start_def Let_def is_space_def nul_def)

lemma is_name_text: "is_name s \<Longrightarrow> normalized s \<and> length s \<le> 100"
proof -
  assume "is_name s"
  then obtain c cs where s: "s = c # cs" "length cs \<le> 99" and chars: "\<forall>d \<in> set s. name_start d \<or> List.member ''_.-'' d"
    by (cases s) (auto simp: is_name_def list_all_iff)
  then have clean: "\<forall>d \<in> set s. \<not> is_space d \<and> d \<noteq> nul" using name_char_not_space by blast
  then have "strip s = s" using s(1) by (intro strip_no_space_ends) auto
  then show ?thesis using s clean by (auto simp: normalized_def)
qed

section \<open>Accepted paths\<close>

definition path_text :: "string \<Rightarrow> bool" where
  "path_text p \<longleftrightarrow> p \<noteq> [] \<and> p = strip p \<and> relative_path p"

lemma accepted_paths:
  assumes "sorted_check v f = Inr ()" "paths_check v f' b = Inr zs"
  shows "\<exists>ps. v = PTuple (map PStr ps) \<and> sorted ps \<and> distinct ps \<and> (\<forall>p \<in> set ps. path_text p) \<and> (b \<or> ps \<noteq> [])"
proof -
  from assms(1) obtain xs where xs: "py_sorted v = Inr xs" "py_eq v (PTuple xs)"
    by (auto simp: sorted_check_def ebind_Inr_iff guard_Inr_iff)
  obtain ys where v: "v = PTuple ys" using py_eq_tuple [OF xs(2)] by blast
  from assms(2) have p: "\<forall>p \<in> set ys. valid_path p" "set_distinct ys = Inr True" "b \<or> ys \<noteq> []"
    by (auto simp: paths_check_def v ebind_Inr_iff eseq_Inr_iff guard_Inr_iff efor_Inr_iff)
  then obtain ps where ps: "ys = map PStr ps" using strs_exist [of ys] by (auto simp: valid_path_def)
  have "xs = map PStr (sort ps)" using xs(1) by (simp add: v ps py_sorted_strs)
  then have "ps = sort ps" using xs(2) by (simp add: v ps)
  then have "sorted ps" by (metis sorted_sort)
  moreover have "distinct ps" using p(2) by (simp add: set_distinct_def ps split: if_splits)
  ultimately show ?thesis using p by (auto simp: v ps valid_path_def path_text_def)
qed

lemma checks_accepted:
  assumes "checks_check v = Inr ()"
  shows "\<exists>cs. v = PTuple (map (\<lambda>(i, d). PTuple [PStr i, PStr d]) cs) \<and> distinct (map fst cs) \<and>
    (\<forall>(i, d) \<in> set cs. normalized i \<and> is_sha256 d)"
proof -
  from assms obtain xs where xs: "v = PTuple xs" "\<forall>x \<in> set xs. is_tuple x \<and> length (elems x) = 2"
    "set_distinct (map (\<lambda>x. hd (elems x)) xs) = Inr True"
    "\<forall>x \<in> set xs. is_str (hd (elems x)) \<and> normalized (str_of (hd (elems x))) \<and> is_str (elems x ! 1) \<and> is_sha256 (str_of (elems x ! 1))"
    by (auto simp: checks_check_def ebind_Inr_iff eseq_Inr_iff guard_Inr_iff efor_Inr_iff list_all_iff is_tuple_iff
        hash_check_def split: if_splits)
  let ?cs = "map (\<lambda>x. (str_of (hd (elems x)), str_of (elems x ! 1))) xs"
  have one: "x = PTuple [PStr (str_of (hd (elems x))), PStr (str_of (elems x ! 1))]" if x: "x \<in> set xs" for x
  proof -
    obtain ys where ys: "x = PTuple ys" using xs(2) x by (auto simp: is_tuple_iff)
    then obtain a b where "ys = [a, b]" using xs(2) x by (auto simp: length_Suc_conv numeral_2_eq_2)
    then show ?thesis using xs(4) x ys by (fastforce simp: is_str_iff)
  qed
  then have map: "map (\<lambda>(i, d). PTuple [PStr i, PStr d]) ?cs = xs" by (simp add: map_idI)
  have "map (\<lambda>x. hd (elems x)) xs = map PStr (map fst ?cs)" using xs(4) by (auto simp: is_str_iff)
  then have "distinct (map fst ?cs)" using xs(3) by (simp only: set_distinct_strs sum.inject)
  then show ?thesis using map xs(1,4) by (intro exI [of _ ?cs]) auto
qed

section \<open>The typed form of a snapshot\<close>

definition sha40_str :: "pyval \<Rightarrow> bool" where
  "sha40_str v \<longleftrightarrow> is_str v \<and> is_sha40 (str_of v)"

definition well_typed_snapshot :: "snapshot \<Rightarrow> bool" where
  "well_typed_snapshot s \<longleftrightarrow> (\<exists>owner name pr diff ps ds cs.
     sn_repository_owner s = PStr owner \<and> is_name owner \<and> sn_repository_name s = PStr name \<and> is_name name \<and>
     sn_pr_number s = PInt pr \<and> 0 < pr \<and>
     list_all sha40_str [sn_base_sha s, sn_head_sha s, sn_base_tree_sha s, sn_head_tree_sha s] \<and>
     sn_base_sha s \<noteq> sn_head_sha s \<and>
     sn_diff_bytes s = PBytes diff \<and> sn_diff_hash s = PStr (sha_text diff) \<and>
     sn_changed_paths s = PTuple (map PStr ps) \<and> sorted ps \<and> distinct ps \<and> ps \<noteq> [] \<and> list_all path_text ps \<and>
     sn_deleted_paths s = PTuple (map PStr ds) \<and> sorted ds \<and> distinct ds \<and> set ds \<subseteq> set ps \<and>
     sn_checks s = PTuple (map (\<lambda>(i, d). PTuple [PStr i, PStr d]) cs) \<and> distinct (map fst cs) \<and>
     list_all (\<lambda>(i, d). normalized i \<and> is_sha256 d) cs \<and>
     sn_pagination_complete s = PBool True)"

lemma name_check_ok: "name_check v f = Inr () \<Longrightarrow> \<exists>n. v = PStr n \<and> is_name n"
  by (auto simp: name_check_def guard_Inr_iff is_str_iff)

lemma locator_ok:
  assumes "GitHubPullRequestLocator o' n p = Inr loc"
  shows "\<exists>owner name pr. o' = PStr owner \<and> is_name owner \<and> n = PStr name \<and> is_name name \<and> p = PInt pr \<and> 0 < pr \<and>
    loc = \<lparr>lo_repository_owner = o', lo_repository_name = n, lo_pr_number = p\<rparr>"
  using assms by (auto simp: GitHubPullRequestLocator_def eseq_Inr_iff guard_Inr_iff dest!: name_check_ok split: pyval.splits)

lemma post_init_parts:
  assumes "snapshot_post_init s = Inr ()"
  obtains loc b cas lh cp dp where
    "GitHubPullRequestLocator (sn_repository_owner s) (sn_repository_name s) (sn_pr_number s) = Inr loc"
    "sha_check (sn_base_sha s) ''base_sha'' = Inr ()" "sha_check (sn_head_sha s) ''head_sha'' = Inr ()"
    "sha_check (sn_base_tree_sha s) ''base_tree_sha'' = Inr ()" "sha_check (sn_head_tree_sha s) ''head_tree_sha'' = Inr ()"
    "\<not> py_eq (sn_base_sha s) (sn_head_sha s)" "sn_diff_bytes s = PBytes b"
    "py_eq (sn_diff_hash s) (PStr (sha_text b))" "hash_check (sn_diff_hash s) ''diff_hash'' = Inr ()"
    "sorted_check (sn_changed_paths s) ''changed_paths'' = Inr ()" "sorted_check (sn_deleted_paths s) ''deleted_paths'' = Inr ()"
    "paths_check (sn_changed_paths s) ''changed_paths'' False = Inr cp" "paths_check (sn_deleted_paths s) ''deleted_paths'' True = Inr dp"
    "list_all (\<lambda>p. list_ex (py_eq p) (elems (sn_changed_paths s))) (elems (sn_deleted_paths s))"
    "checks_check (sn_checks s) = Inr ()" "sn_pagination_complete s = PBool True"
    "freshness_cas_for s = Inr cas" "py_eq (sn_freshness_cas s) (PStr cas)"
  using assms by (cases "sn_diff_bytes s") (auto simp: snapshot_post_init_def ebind_Inr_iff eseq_Inr_iff guard_Inr_iff)

lemma post_init_typed:
  assumes "snapshot_post_init s = Inr ()"
  shows "well_typed_snapshot s"
  using assms
proof (rule post_init_parts)
  fix loc b cas cp dp
  assume loc: "GitHubPullRequestLocator (sn_repository_owner s) (sn_repository_name s) (sn_pr_number s) = Inr loc"
    and sha: "sha_check (sn_base_sha s) ''base_sha'' = Inr ()" "sha_check (sn_head_sha s) ''head_sha'' = Inr ()"
      "sha_check (sn_base_tree_sha s) ''base_tree_sha'' = Inr ()" "sha_check (sn_head_tree_sha s) ''head_tree_sha'' = Inr ()"
    and ne: "\<not> py_eq (sn_base_sha s) (sn_head_sha s)" and b: "sn_diff_bytes s = PBytes b"
    and h: "py_eq (sn_diff_hash s) (PStr (sha_text b))" "hash_check (sn_diff_hash s) ''diff_hash'' = Inr ()"
    and srt: "sorted_check (sn_changed_paths s) ''changed_paths'' = Inr ()" "sorted_check (sn_deleted_paths s) ''deleted_paths'' = Inr ()"
    and pth: "paths_check (sn_changed_paths s) ''changed_paths'' False = Inr cp" "paths_check (sn_deleted_paths s) ''deleted_paths'' True = Inr dp"
    and sub: "list_all (\<lambda>p. list_ex (py_eq p) (elems (sn_changed_paths s))) (elems (sn_deleted_paths s))"
    and chk: "checks_check (sn_checks s) = Inr ()" and pag: "sn_pagination_complete s = PBool True"
  obtain ps where ps: "sn_changed_paths s = PTuple (map PStr ps)" "sorted ps" "distinct ps" "\<forall>p \<in> set ps. path_text p" "ps \<noteq> []"
    using accepted_paths [OF srt(1) pth(1)] by auto
  obtain ds where ds: "sn_deleted_paths s = PTuple (map PStr ds)" "sorted ds" "distinct ds"
    using accepted_paths [OF srt(2) pth(2)] by auto
  obtain cs where cs: "sn_checks s = PTuple (map (\<lambda>(i, d). PTuple [PStr i, PStr d]) cs)" "distinct (map fst cs)"
    "\<forall>(i, d) \<in> set cs. normalized i \<and> is_sha256 d" using checks_accepted [OF chk] by blast
  have "set ds \<subseteq> set ps" using sub by (auto simp: ps(1) ds(1) list_all_iff list_ex_iff)
  moreover have "list_all sha40_str [sn_base_sha s, sn_head_sha s, sn_base_tree_sha s, sn_head_tree_sha s]"
    using sha by (simp add: sha40_str_def sha_check_def guard_Inr_iff)
  moreover have "sn_base_sha s \<noteq> sn_head_sha s" using ne sha(1) by (auto simp: sha_check_def guard_Inr_iff is_str_iff)
  moreover have "sn_diff_hash s = PStr (sha_text b)" using h by (auto simp: hash_check_def guard_Inr_iff is_str_iff)
  ultimately show ?thesis
    using locator_ok [OF loc] b ps ds cs pag unfolding well_typed_snapshot_def list_all_iff by blast
qed

section \<open>Serialisation\<close>

lemma hex_digit_no_space: "\<not> ascii_space (hex_digit n)"
  using hex_digit_is_hex [of n] by (auto simp: is_hex_def hex_lower_def ascii_space_def)

lemma fromhex_bytes: "fromhex (bytes_hex b) = Some b"
proof (induction b)
  case (Cons c b)
  have "(of_char c :: nat) div 16 < 16" by (rule less_mult_imp_div_less) simp
  then have "16 * (of_char c div 16 mod 16) + of_char c mod 16 = (of_char c :: nat)"
    by (metis mod_less mult_div_mod_eq)
  then have "fromhex (hex2 (of_char c) @ t) = map_option ((#) c) (fromhex t)" for t
    by (simp add: hex2_def hex_digit_no_space hex_val_hex_digit)
  then show ?case using Cons by (simp add: bytes_hex_def)
qed (simp add: bytes_hex_def)

lemma tuple_of_lists: "\<forall>x \<in> set xs. is_tuple x \<Longrightarrow> tuple_of_tuples (map (\<lambda>x. PList (elems x)) xs) = Inr (PTuple xs)"
proof -
  assume t: "\<forall>x \<in> set xs. is_tuple x"
  have "emap (\<lambda>x. ebind (py_list x) (\<lambda>ys. Inr (PTuple ys))) (map (\<lambda>x. PList (elems x)) xs) = Inr xs"
    using t by (induction xs) (auto simp: py_list_def is_tuple_iff)
  then show ?thesis by (simp add: tuple_of_tuples_def)
qed

lemma to_dict_fields:
  assumes "snapshot_post_init s = Inr ()"
  shows "load_conversions (items (snapshot_to_dict s)) = Inr (sn_diff_bytes s, sn_checks s, sn_changed_paths s, sn_deleted_paths s) \<and>
    keys_are (items (snapshot_to_dict s)) FIELDS \<and> (snapshot_of (items (snapshot_to_dict s)))\<lparr>sn_diff_bytes := sn_diff_bytes s,
      sn_checks := sn_checks s, sn_changed_paths := sn_changed_paths s, sn_deleted_paths := sn_deleted_paths s\<rparr> = s"
proof -
  obtain b ps ds cs where t: "sn_diff_bytes s = PBytes b" "sn_changed_paths s = PTuple (map PStr ps)"
    "sn_deleted_paths s = PTuple (map PStr ds)" "sn_checks s = PTuple (map (\<lambda>(i, d). PTuple [PStr i, PStr d]) cs)"
    using post_init_typed [OF assms] unfolding well_typed_snapshot_def by blast
  have "\<forall>x \<in> set (map (\<lambda>(i, d). PTuple [PStr i, PStr d]) cs). is_tuple x" by auto
  note tuples = tuple_of_lists [OF this]
  have "load_conversions (items (snapshot_to_dict s)) = Inr (sn_diff_bytes s, sn_checks s, sn_changed_paths s, sn_deleted_paths s)"
    using tuples by (simp add: load_conversions_def snapshot_to_dict_def getitem_def t fromhex_bytes py_list_def)
  then show ?thesis
    by (simp add: FIELDS_def REQUIRED_def snapshot_to_dict_def keys_are_def has_key_def snapshot_of_def get_def)
qed

lemma load_to_dict: "snapshot_post_init s = Inr () \<Longrightarrow> load_github_acquisition_snapshot (snapshot_to_dict s) = Inr s"
  using to_dict_fields [of s]
  by (simp add: load_github_acquisition_snapshot_def as_acquisition_error_def GitHubAcquisitionSnapshot_def guard_def snapshot_to_dict_def)

section \<open>The freshness hash\<close>

lemma ordered_idem [simp]: "ordered st (ordered st d) = ordered st d"
  by (simp add: ordered_def sort_key_id_if_sorted)

lemma dumps_ordered: "dumps st (PDict (ordered st d)) = dumps st (PDict d)"
  by (simp add: list_all_iff)

lemma distinct_ordered: "distinct (map fst d) \<Longrightarrow> distinct (map fst (ordered st d))"
  by (simp add: ordered_def distinct_map)

lemma dget_set_eq:
  assumes "set d = set e" "distinct (map fst d)" "distinct (map fst e)" "\<forall>p \<in> set d. is_str (fst p)"
  shows "dget d k = dget e k"
proof -
  have sub: "dget y k = Some v" if g: "dget x k = Some v" "set x = set y" "distinct (map fst y)" "\<forall>p \<in> set y. is_str (fst p)" for x y v
  proof -
    obtain p where p: "p \<in> set x" "key_is k (fst p)" "snd p = v" using dget_in_set [OF g(1)] by blast
    moreover obtain z where "fst p = PStr z" using g(2,4) p(1) by (auto simp: is_str_iff)
    ultimately have "p = (PStr k, v)" by (metis key_is_simps(1) prod.collapse)
    then show ?thesis using dget_distinct [of y k v] p(1) g by (simp add: list_all_iff)
  qed
  show ?thesis using sub [of d _ e] sub [of e _ d] assms by (metis option.exhaust)
qed


text \<open>Two subjects whose texts differ and have the same digest.\<close>

definition cas_collides :: "snapshot \<Rightarrow> snapshot \<Rightarrow> bool" where
  "cas_collides s t \<longleftrightarrow> (\<exists>x y. dumps compact_sorted (cas_subject s) = Inr x \<and> dumps compact_sorted (cas_subject t) = Inr y \<and>
     x \<noteq> y \<and> sha256_hex (utf8 x) = sha256_hex (utf8 y))"

lemma cas_subject_jv:
  assumes "well_typed_snapshot s" "is_str (sn_merge_base_policy s)"
  shows "jv compact_sorted (PDict (ordered compact_sorted (items (cas_subject s))))"
proof -
  obtain pr ps ds cs where t: "sn_pr_number s = PInt pr" "sn_changed_paths s = PTuple (map PStr ps)"
    "sn_deleted_paths s = PTuple (map PStr ds)" "sn_checks s = PTuple (map (\<lambda>(i, d). PTuple [PStr i, PStr d]) cs)"
    "list_all sha40_str [sn_base_sha s, sn_head_sha s, sn_base_tree_sha s, sn_head_tree_sha s]" "is_str (sn_diff_hash s)"
    using assms(1) unfolding well_typed_snapshot_def by (metis type_test_simps(1))
  have "list_all (\<lambda>p. is_str (fst p) \<and> jv compact_sorted (snd p)) (items (cas_subject s))"
    using t assms(2) by (auto simp: cas_subject_def sha40_str_def is_str_iff list_all_iff)
  moreover have "distinct (map fst (items (cas_subject s)))" by (simp add: cas_subject_def)
  ultimately show ?thesis by (simp add: list_all_iff distinct_ordered)
qed

lemma cas_binds:
  assumes s: "well_typed_snapshot s" "is_str (sn_merge_base_policy s)" "freshness_cas_for s = Inr h"
    and t: "well_typed_snapshot t" "is_str (sn_merge_base_policy t)" "freshness_cas_for t = Inr h"
  shows "(\<forall>k. get (items (cas_subject s)) k = get (items (cas_subject t)) k) \<or> cas_collides s t"
proof -
  obtain x y where xy: "dumps compact_sorted (cas_subject s) = Inr x" "dumps compact_sorted (cas_subject t) = Inr y"
    "sha256_hex (utf8 x) = sha256_hex (utf8 y)"
    using s(3) t(3) by (auto simp: freshness_cas_for_def ebind_Inr_iff sha_text_eq_iff simp del: dumps.simps)
  have d: "cas_subject z = PDict (items (cas_subject z))" for z by (simp add: cas_subject_def mkdict_def)
  have o: "dumps compact_sorted (PDict (ordered compact_sorted (items (cas_subject z)))) = dumps compact_sorted (cas_subject z)" for z
    using dumps_ordered d by metis
  show ?thesis
  proof (cases "x = y")
    case True
    have "ordered compact_sorted (items (cas_subject s)) = ordered compact_sorted (items (cas_subject t))"
      using loads_dumps_Inr [OF wf_styles(1) cas_subject_jv [OF s(1,2)]] loads_dumps_Inr [OF wf_styles(1) cas_subject_jv [OF t(1,2)]]
        o xy(1,2) True by (metis pyval.inject(8) sum.inject(2))
    then have "set (items (cas_subject s)) = set (items (cas_subject t))" by (metis set_ordered)
    then have "dget (items (cas_subject s)) k = dget (items (cas_subject t)) k" for k
      by (rule dget_set_eq) (simp_all add: cas_subject_def)
    then show ?thesis by (simp add: get_def)
  next
    case False
    then show ?thesis using xy by (auto simp: cas_collides_def)
  qed
qed

section \<open>The two reads\<close>

lemma snapshot_Inr: "GitHubAcquisitionSnapshot s = Inr x \<longleftrightarrow> x = s \<and> snapshot_post_init s = Inr ()"
  by (auto simp: GitHubAcquisitionSnapshot_def eseq_Inr_iff)

lemma permission_denied_Inr [simp]: "permission_denied r = Inr x \<longleftrightarrow> r = Inr x"
  by (auto simp: permission_denied_def split: sum.splits prod.splits exn.splits)

lemma acquire_parts:
  assumes "acquire_github_pull_request port loc = Inr s"
  obtains first second r where "port loc 0 = Inr first" "port loc 1 = Inr second" "parse_snapshot first loc = Inr s"
    "parse_snapshot second loc = Inr r" "snapshot_eq s r"
  using assms by (auto simp: acquire_github_pull_request_def ebind_Inr_iff split: if_splits)

lemma parse_typed:
  assumes "parse_snapshot raw loc = Inr s"
  shows "snapshot_post_init s = Inr ()"
    and "py_eq (sn_repository_owner s) (lo_repository_owner loc)" "py_eq (sn_repository_name s) (lo_repository_name loc)"
      "py_eq (sn_pr_number s) (lo_pr_number loc)"
  using assms by (auto simp: parse_snapshot_def Let_def eseq_Inr_iff ebind_Inr_iff guard_Inr_iff snapshot_Inr snapshot_of_def)

lemma parse_locator_hash: "parse_snapshot raw loc = Inr s \<Longrightarrow> is_str (sn_locator_hash s)"
  by (auto simp: parse_snapshot_def Let_def eseq_Inr_iff ebind_Inr_iff snapshot_Inr)

text \<open>Everything the constructor checks: the typed form, the fixed merge policy, the time of observation, and both
  hashes recomputed.  Policy and hashes are compared with \<open>==\<close>, which a string subclass passes too.\<close>

definition snapshot_invariant :: "snapshot \<Rightarrow> bool" where
  "snapshot_invariant s \<longleftrightarrow> well_typed_snapshot s \<and> py_eq (sn_merge_base_policy s) (PStr ''base_sha_exact'') \<and>
     (\<exists>t. sn_observed_at s = PStr t \<and> rfc3339_shape t \<and> valid_timestamp t) \<and>
     (\<exists>h. freshness_cas_for s = Inr h \<and> py_eq (sn_freshness_cas s) (PStr h)) \<and>
     (\<exists>h. locator_hash \<lparr>lo_repository_owner = sn_repository_owner s, lo_repository_name = sn_repository_name s,
        lo_pr_number = sn_pr_number s\<rparr> = Inr h \<and> py_eq (sn_locator_hash s) (PStr h))"

lemma post_init_invariant:
  assumes "snapshot_post_init s = Inr ()"
  shows "snapshot_invariant s"
proof -
  obtain loc b cas lh where "GitHubPullRequestLocator (sn_repository_owner s) (sn_repository_name s) (sn_pr_number s) = Inr loc"
    and "sn_diff_bytes s = PBytes b" and policy: "py_eq (sn_merge_base_policy s) (PStr ''base_sha_exact'')"
    and time: "is_str (sn_observed_at s)" "rfc3339_shape (str_of (sn_observed_at s))" "valid_timestamp (str_of (sn_observed_at s))"
    and cas: "freshness_cas_for s = Inr cas" "py_eq (sn_freshness_cas s) (PStr cas)"
    and lh: "locator_hash loc = Inr lh" "py_eq (sn_locator_hash s) (PStr lh)"
    using assms by (cases "sn_diff_bytes s") (auto simp: snapshot_post_init_def ebind_Inr_iff eseq_Inr_iff guard_Inr_iff)
  moreover from this have "loc = \<lparr>lo_repository_owner = sn_repository_owner s, lo_repository_name = sn_repository_name s,
        lo_pr_number = sn_pr_number s\<rparr>" using locator_ok by blast
  moreover have "\<exists>t. sn_observed_at s = PStr t \<and> rfc3339_shape t \<and> valid_timestamp t" using time by (auto simp: is_str_iff)
  ultimately show ?thesis using post_init_typed [OF assms] by (auto simp: snapshot_invariant_def)
qed

lemma py_eqs_pairs:
  "py_eqs (map (\<lambda>(i, d). PTuple [PStr i, PStr d]) cs) (map (\<lambda>(i, d). PTuple [PStr i, PStr d]) es) \<longleftrightarrow> cs = es"
proof (induction cs arbitrary: es)
  case Nil
  then show ?case by (cases es) auto
next
  case (Cons c cs)
  then show ?case by (cases es) (auto split: prod.splits)
qed

lemma invariant_eq_fields:
  assumes "snapshot_invariant s" "snapshot_invariant r" "snapshot_eq s r" "is_str (sn_locator_hash s)" "is_str (sn_locator_hash r)"
  shows "r = s\<lparr>sn_merge_base_policy := sn_merge_base_policy r, sn_freshness_cas := sn_freshness_cas r\<rparr> \<and>
    py_eq (sn_freshness_cas s) (sn_freshness_cas r)"
proof -
  obtain ow nm pr b ps ds cs t where s: "sn_repository_owner s = PStr ow" "sn_repository_name s = PStr nm" "sn_pr_number s = PInt pr"
    "sn_diff_bytes s = PBytes b" "sn_diff_hash s = PStr (sha_text b)" "sn_changed_paths s = PTuple (map PStr ps)"
    "sn_deleted_paths s = PTuple (map PStr ds)" "sn_checks s = PTuple (map (\<lambda>(i, d). PTuple [PStr i, PStr d]) cs)"
    "list_all sha40_str [sn_base_sha s, sn_head_sha s, sn_base_tree_sha s, sn_head_tree_sha s]"
    "sn_pagination_complete s = PBool True" "sn_observed_at s = PStr t"
    using assms(1) unfolding well_typed_snapshot_def snapshot_invariant_def by blast
  obtain ow' nm' pr' b' ps' ds' cs' t' where r: "sn_repository_owner r = PStr ow'" "sn_repository_name r = PStr nm'" "sn_pr_number r = PInt pr'"
    "sn_diff_bytes r = PBytes b'" "sn_diff_hash r = PStr (sha_text b')" "sn_changed_paths r = PTuple (map PStr ps')"
    "sn_deleted_paths r = PTuple (map PStr ds')" "sn_checks r = PTuple (map (\<lambda>(i, d). PTuple [PStr i, PStr d]) cs')"
    "list_all sha40_str [sn_base_sha r, sn_head_sha r, sn_base_tree_sha r, sn_head_tree_sha r]"
    "sn_pagination_complete r = PBool True" "sn_observed_at r = PStr t'"
    using assms(2) unfolding well_typed_snapshot_def snapshot_invariant_def by blast
  have e: "py_eqs (snapshot_fields s) (snapshot_fields r)" using assms(3) by (simp add: snapshot_eq_def)
  have "ow = ow'" "nm = nm'" "pr = pr'" "b = b'" "ps = ps'" "ds = ds'" "cs = cs'" "t = t'"
    "py_eq (sn_freshness_cas s) (sn_freshness_cas r)"
    using e by (auto simp: snapshot_fields_def s r py_eqs_pairs num_of_def)
  moreover have "sn_base_sha s = sn_base_sha r" "sn_head_sha s = sn_head_sha r" "sn_base_tree_sha s = sn_base_tree_sha r"
    "sn_head_tree_sha s = sn_head_tree_sha r" "sn_locator_hash s = sn_locator_hash r"
    using e s(9) r(9) assms(4,5) by (auto simp: snapshot_fields_def sha40_str_def is_str_iff)
  ultimately show ?thesis using s r by simp
qed

section \<open>Samples\<close>

definition sample_locator :: locator where
  "sample_locator = \<lparr>lo_repository_owner = PStr ''octo'', lo_repository_name = PStr ''repo'', lo_pr_number = PInt 7\<rparr>"

definition sample_draft :: snapshot where
  "sample_draft = \<lparr>sn_repository_owner = PStr ''octo'', sn_repository_name = PStr ''repo'', sn_pr_number = PInt 7,
     sn_base_sha = PStr (replicate 40 (CHR ''a'')), sn_head_sha = PStr (replicate 40 (CHR ''b'')),
     sn_base_tree_sha = PStr (replicate 40 (CHR ''c'')), sn_head_tree_sha = PStr (replicate 40 (CHR ''d'')),
     sn_merge_base_policy = PStr ''base_sha_exact'', sn_diff_bytes = PBytes ''diff'',
     sn_diff_hash = PStr (sha_text ''diff''), sn_changed_paths = PTuple [PStr ''a.py''], sn_deleted_paths = PTuple [],
     sn_checks = PTuple [], sn_pagination_complete = PBool True, sn_observed_at = PStr ''2026-01-01T00:00:00Z'',
     sn_freshness_cas = PNone, sn_locator_hash = PStr (projr (locator_hash sample_locator))\<rparr>"

definition sample_snapshot :: snapshot where
  "sample_snapshot = sample_draft\<lparr>sn_freshness_cas := PStr (projr (freshness_cas_for sample_draft))\<rparr>"

definition sample_response :: pyval where
  "sample_response = mkdict (zip REQUIRED (snapshot_fields sample_snapshot))"

lemma sample_sha40 [simp]: "c \<in> {CHR ''a'', CHR ''b'', CHR ''c'', CHR ''d''} \<Longrightarrow> is_sha40 (replicate 40 c)"
  by (auto simp: is_sha40_def list_all_iff is_hex_def hex_lower_def)

lemma sample_cas: "\<exists>h. freshness_cas_for sample_draft = Inr h"
proof -
  have t: "well_typed_snapshot sample_draft"
    unfolding well_typed_snapshot_def
    by (intro exI [of _ "''octo''"] exI [of _ "''repo''"] exI [of _ 7] exI [of _ "''diff''"] exI [of _ "[''a.py'']"] exI [of _ "[]"])
      (simp add: sample_draft_def is_name_def name_start_def sha40_str_def path_text_def strip_def is_space_def relative_path_def)
  have "is_str (sn_merge_base_policy sample_draft)" by (simp add: sample_draft_def)
  from loads_dumps [OF wf_styles(1) cas_subject_jv [OF t this]] obtain x
    where "dumps compact_sorted (PDict (ordered compact_sorted (items (cas_subject sample_draft)))) = Inr x" by blast
  then have "dumps compact_sorted (cas_subject sample_draft) = Inr x"
    unfolding dumps_ordered by (simp only: cas_subject_def mkdict_def type_test_simps)
  then show ?thesis by (simp add: freshness_cas_for_def)
qed

lemma sample_locator_hash: "\<exists>h. locator_hash sample_locator = Inr h"
  by (simp add: locator_hash_def sample_locator_def)

lemma sample_locator_made: "GitHubPullRequestLocator (PStr ''octo'') (PStr ''repo'') (PInt 7) = Inr sample_locator"
  by (simp add: GitHubPullRequestLocator_def name_check_def strip_def is_space_def is_name_def name_start_def sample_locator_def)

definition later_snapshot :: snapshot where
  "later_snapshot = sample_snapshot\<lparr>sn_observed_at := PStr ''2026-01-02T00:00:00Z''\<rparr>"

lemma sample_post_inits: "snapshot_post_init sample_snapshot = Inr ()" "snapshot_post_init later_snapshot = Inr ()"
proof -
  obtain h l where h: "freshness_cas_for sample_draft = Inr h" "locator_hash sample_locator = Inr l"
    using sample_cas sample_locator_hash by blast
  have cas: "freshness_cas_for sample_snapshot = Inr h" "freshness_cas_for later_snapshot = Inr h"
    using h(1) by (simp_all add: freshness_cas_for_def cas_subject_def sample_snapshot_def later_snapshot_def)
  note checks = sample_locator_made sha_check_def hash_check_def sorted_check_def
        py_sorted_def py_list_def paths_check_def set_distinct_def valid_path_def strip_def is_space_def relative_path_def
        checks_check_def rfc3339_shape_def valid_timestamp_def field_at_def days_in_def is_leap_def nat_of_digits_def
        digit_val_def is_digit_def Let_def replicate_eq_replicate
  show "snapshot_post_init sample_snapshot = Inr ()"
    using h cas(1) by (simp add: snapshot_post_init_def) (simp add: sample_snapshot_def sample_draft_def checks)
  show "snapshot_post_init later_snapshot = Inr ()"
    using h cas(2) by (simp add: snapshot_post_init_def) (simp add: later_snapshot_def sample_snapshot_def sample_draft_def checks)
qed

lemmas sample_post_init = sample_post_inits(1)

lemma sample_parse_snapshot: "parse_snapshot sample_response sample_locator = Inr sample_snapshot"
proof -
  let ?f = "snapshot_fields sample_snapshot"
  obtain l where l: "locator_hash sample_locator = Inr l" using sample_locator_hash by blast
  have len: "zip REQUIRED ?f = zip REQUIRED (butlast ?f)" by (simp add: REQUIRED_def snapshot_fields_def)
  have fields: "snapshot_of (items sample_response) = sample_snapshot\<lparr>sn_locator_hash := PNone\<rparr>"
    by (simp add: sample_response_def snapshot_of_def REQUIRED_def snapshot_fields_def get_def)
  have keys: "keys_are (items sample_response) REQUIRED"
    by (simp add: sample_response_def REQUIRED_def snapshot_fields_def keys_are_def has_key_def)
  have get: "get (items sample_response) ''checks'' = PTuple []" "get (items sample_response) ''changed_paths'' = PTuple [PStr ''a.py'']"
    "get (items sample_response) ''deleted_paths'' = PTuple []" "get (items sample_response) ''diff_bytes'' = PBytes ''diff''"
    "get (items sample_response) ''repository_owner'' = PStr ''octo''" "get (items sample_response) ''repository_name'' = PStr ''repo''"
    "get (items sample_response) ''pr_number'' = PInt 7"
    by (simp_all add: sample_response_def REQUIRED_def snapshot_fields_def get_def sample_snapshot_def sample_draft_def)
  have dict: "is_dict sample_response" by (simp add: sample_response_def)
  have upd: "(snapshot_of (items sample_response))\<lparr>sn_checks := PTuple [], sn_changed_paths := PTuple [PStr ''a.py''],
      sn_deleted_paths := PTuple [], sn_locator_hash := PStr l\<rparr> = sample_snapshot"
    unfolding fields by (simp add: sample_snapshot_def sample_draft_def l)
  show ?thesis
    by (simp add: parse_snapshot_def Let_def keys dict get sample_locator_def [THEN arg_cong, of lo_repository_owner]
        sample_locator_def [THEN arg_cong, of lo_repository_name] sample_locator_def [THEN arg_cong, of lo_pr_number]
        num_of_def tuple_of_tuples_def l to_tuple_def upd snapshot_Inr sample_post_init)
qed

lemma sample_acquired: "acquire_github_pull_request (\<lambda>_ _. Inr sample_response) sample_locator = Inr sample_snapshot"
proof -
  have "snapshot_eq sample_snapshot sample_snapshot"
    by (simp add: snapshot_eq_def snapshot_fields_def sample_snapshot_def sample_draft_def num_of_def)
  then show ?thesis by (simp add: acquire_github_pull_request_def permission_denied_def sample_parse_snapshot)
qed

section \<open>Properties\<close>



text \<open>A snapshot survives serialisation.  A snapshot its constructor accepts is what loading its
  dictionary gives back, field for field, the diff's bytes through their hexadecimal text included.\<close>

theorem snapshot_roundtrip:
  assumes "GitHubAcquisitionSnapshot s = Inr s"
  shows "ebind (serialize_github_acquisition_snapshot (Obj s)) load_github_acquisition_snapshot = Inr s"
  using load_to_dict assms by (simp add: serialize_github_acquisition_snapshot_def snapshot_Inr)

theorem snapshot_roundtrip_witness:
  "ebind (serialize_github_acquisition_snapshot (Obj sample_snapshot)) load_github_acquisition_snapshot = Inr sample_snapshot"
  by (rule snapshot_roundtrip) (simp add: snapshot_Inr sample_post_init)

text \<open>C17: the freshness hash pins the subject.  Two accepted snapshots (with a plain string as merge
  policy) whose \<open>freshness_cas\<close> is the same agree on every field the hash covers: the repository up to case, the
  pull request, commits and trees, the merge policy, the paths, the checks, and, through its hash, the diff's bytes;
  unless two different texts among theirs have the same SHA-256.\<close>

theorem freshness_pins_subject:
  assumes "snapshot_post_init s = Inr ()" "snapshot_post_init t = Inr ()" "py_eq (sn_freshness_cas s) (sn_freshness_cas t)"
    and "is_str (sn_merge_base_policy s)" "is_str (sn_merge_base_policy t)"
  shows "lower (str_of (sn_repository_owner s)) = lower (str_of (sn_repository_owner t)) \<and>
      lower (str_of (sn_repository_name s)) = lower (str_of (sn_repository_name t)) \<and> sn_pr_number s = sn_pr_number t \<and>
      sn_base_sha s = sn_base_sha t \<and> sn_head_sha s = sn_head_sha t \<and> sn_base_tree_sha s = sn_base_tree_sha t \<and>
      sn_head_tree_sha s = sn_head_tree_sha t \<and> sn_merge_base_policy s = sn_merge_base_policy t \<and>
      sn_changed_paths s = sn_changed_paths t \<and> sn_deleted_paths s = sn_deleted_paths t \<and> sn_checks s = sn_checks t \<and>
      sn_diff_hash s = sn_diff_hash t \<and> (sn_diff_bytes s = sn_diff_bytes t \<or>
        (\<exists>a b. sn_diff_bytes s = PBytes a \<and> sn_diff_bytes t = PBytes b \<and> a \<noteq> b \<and> sha256_hex a = sha256_hex b))
    \<or> cas_collides s t"
proof -
  have typed: "well_typed_snapshot s" "well_typed_snapshot t" using assms(1,2) post_init_typed by blast+
  obtain h where h: "freshness_cas_for s = Inr h" "py_eq (sn_freshness_cas s) (PStr h)" using assms(1) by (rule post_init_parts)
  obtain h' where h': "freshness_cas_for t = Inr h'" "py_eq (sn_freshness_cas t) (PStr h')" using assms(2) by (rule post_init_parts)
  have "h = h'" using h(2) h'(2) assms(3) by (auto simp: isinstance_str_iff)
  then consider (eq) "\<forall>k. get (items (cas_subject s)) k = get (items (cas_subject t)) k" | (hash) "cas_collides s t"
    using cas_binds [OF typed(1) assms(4) h(1) typed(2) assms(5)] h'(1) by blast
  then show ?thesis
  proof cases
    case eq
    have g: "get (items (cas_subject z)) ''repository_owner'' = PStr (lower (str_of (sn_repository_owner z)))"
      "get (items (cas_subject z)) ''repository_name'' = PStr (lower (str_of (sn_repository_name z)))"
      "get (items (cas_subject z)) ''pr_number'' = sn_pr_number z" "get (items (cas_subject z)) ''base_sha'' = sn_base_sha z"
      "get (items (cas_subject z)) ''head_sha'' = sn_head_sha z" "get (items (cas_subject z)) ''base_tree_sha'' = sn_base_tree_sha z"
      "get (items (cas_subject z)) ''head_tree_sha'' = sn_head_tree_sha z" "get (items (cas_subject z)) ''diff_hash'' = sn_diff_hash z"
      "get (items (cas_subject z)) ''changed_paths'' = PList (elems (sn_changed_paths z))"
      "get (items (cas_subject z)) ''deleted_paths'' = PList (elems (sn_deleted_paths z))"
      "get (items (cas_subject z)) ''merge_base_policy'' = sn_merge_base_policy z"
      "get (items (cas_subject z)) ''checks'' = PList (map (\<lambda>x. PList (elems x)) (elems (sn_checks z)))" for z
      by (simp_all add: cas_subject_def get_def)
    note e = eq [THEN spec, of "''repository_owner''"] eq [THEN spec, of "''repository_name''"] eq [THEN spec, of "''pr_number''"]
      eq [THEN spec, of "''base_sha''"] eq [THEN spec, of "''head_sha''"] eq [THEN spec, of "''base_tree_sha''"]
      eq [THEN spec, of "''head_tree_sha''"] eq [THEN spec, of "''diff_hash''"] eq [THEN spec, of "''changed_paths''"]
      eq [THEN spec, of "''deleted_paths''"] eq [THEN spec, of "''merge_base_policy''"] eq [THEN spec, of "''checks''"]
    obtain a b where ab: "sn_diff_bytes s = PBytes a" "sn_diff_hash s = PStr (sha_text a)"
        "sn_diff_bytes t = PBytes b" "sn_diff_hash t = PStr (sha_text b)"
      using typed unfolding well_typed_snapshot_def by auto
    have "sha256_hex a = sha256_hex b" using e(8) by (simp add: g ab sha_text_eq_iff)
    moreover have "sn_changed_paths s = sn_changed_paths t" "sn_deleted_paths s = sn_deleted_paths t"
      using typed e(9,10) unfolding well_typed_snapshot_def g by auto
    moreover have "sn_checks s = sn_checks t"
    proof -
      obtain cs es where c: "sn_checks s = PTuple (map (\<lambda>(i, d). PTuple [PStr i, PStr d]) cs)"
          "sn_checks t = PTuple (map (\<lambda>(i, d). PTuple [PStr i, PStr d]) es)"
        using typed unfolding well_typed_snapshot_def by blast
      have "map (\<lambda>x. PList [PStr (fst x), PStr (snd x)]) cs = map (\<lambda>x. PList [PStr (fst x), PStr (snd x)]) es"
        using e(12) by (simp add: g c comp_def case_prod_beta)
      then have "cs = es" by (rule map_injective) (auto simp: inj_on_def prod_eq_iff)
      then show ?thesis using c by simp
    qed
    ultimately show ?thesis using e(1-8,11) ab by (auto simp: g)
  qed simp
qed

theorem freshness_pins_subject_witness:
  "snapshot_post_init later_snapshot = Inr () \<and> sn_observed_at later_snapshot \<noteq> sn_observed_at sample_snapshot \<and>
   (sn_head_sha sample_snapshot = sn_head_sha later_snapshot \<and>
      (sn_diff_bytes sample_snapshot = sn_diff_bytes later_snapshot \<or> sha256_hex ''diff'' = sha256_hex ''diff'') \<or>
    cas_collides sample_snapshot later_snapshot)"
proof -
  have "py_eq (sn_freshness_cas sample_snapshot) (sn_freshness_cas later_snapshot)"
    "is_str (sn_merge_base_policy sample_snapshot)" "is_str (sn_merge_base_policy later_snapshot)"
    "sn_observed_at later_snapshot \<noteq> sn_observed_at sample_snapshot"
    by (simp_all add: later_snapshot_def sample_snapshot_def sample_draft_def)
  then show ?thesis
    using freshness_pins_subject [OF sample_post_inits] sample_post_inits(2) by blast
qed

end
