(* ===== verification/Runner.thy ===== *)
theory Runner
  imports Acquisition_Properties Schemas
begin

text \<open>
  \<open>product/execution/python_runner.py\<close>: the boundary that validates two injected executions of the
  same request, binds them to the profile, and protects exact replay.

  The executor is a parameter (it may raise), and so is the XML parser behind \<open>ET.fromstring\<close>, which is
  the Expat library: a function from bytes to an element or an exception.  The state of a runner is
  its profile and the replay table.  \<open>profile_files\<close> is what the three profile files hold.
\<close>

section \<open>Constants\<close>

definition IMAGE :: string where "IMAGE = ''python:3.12-alpine''"

definition IMAGE_DIGEST :: string where
  "IMAGE_DIGEST = ''sha256:d09d15e60962ca365d1cd544a48773bac9d33f2fb1b00f2aa0deec78ade7dc31''"

definition LOCK_DIGEST :: string where
  "LOCK_DIGEST = ''sha256:7038286fbe6bec24c7e8fd7f934d2f94423d0125177a44f5961ff238de3c520f''"

definition PROFILE_ID :: string where "PROFILE_ID = ''python-oci-pytest-v1''"

definition MAX_OUTPUT_BYTES :: nat where "MAX_OUTPUT_BYTES = 1048576"

definition DEPENDENCY_ARTIFACTS :: pyval where
  "DEPENDENCY_ARTIFACTS = PTuple [
     PTuple [PStr ''iniconfig-2.3.0-py3-none-any.whl'',
       PStr ''https://files.pythonhosted.org/packages/cb/b1/3846dd7f199d53cb17f49cba7e651e9ce294d8497c8c150530ed11865bb8/iniconfig-2.3.0-py3-none-any.whl'',
       PStr ''f631c04d2c48c52b84d0d0549c99ff3859c98df65b3101406327ecc7d53fbf12''],
     PTuple [PStr ''packaging-26.0-py3-none-any.whl'',
       PStr ''https://files.pythonhosted.org/packages/b7/b9/c538f279a4e237a006a2c98387d081e9eb060d203d8ed34467cc0f0b9b53/packaging-26.0-py3-none-any.whl'',
       PStr ''b36f1fef9334a5588b4166f8bcd26a14e521f2b55e6b9de3aaa80d3ff7a37529''],
     PTuple [PStr ''pluggy-1.6.0-py3-none-any.whl'',
       PStr ''https://files.pythonhosted.org/packages/54/20/4d324d65cc6d9205fabedc306948156824eb9f0ee1633355a8f7ec5c66bf/pluggy-1.6.0-py3-none-any.whl'',
       PStr ''e920276dd6813095e9377c0bc5566d94c932c33b27a3e3945d8389c374dd4746''],
     PTuple [PStr ''pygments-2.20.0-py3-none-any.whl'',
       PStr ''https://files.pythonhosted.org/packages/f4/7e/a72dd26f3b0f4f2bf1dd8923c85f7ceb43172af56d63c7383eb62b332364/pygments-2.20.0-py3-none-any.whl'',
       PStr ''81a9e26dd42fd28a23a2d169d86d7ac03b46e2f8b59ed4698fb4785f946d0176''],
     PTuple [PStr ''pytest-9.0.3-py3-none-any.whl'',
       PStr ''https://files.pythonhosted.org/packages/d4/24/a372aaf5c9b7208e7112038812994107bc65a84cd00e0354a88c2c77a617/pytest-9.0.3-py3-none-any.whl'',
       PStr ''2c5efc453d45394fdd706ade797c0a81091eccd1d6e4bccfcd476e2b8e0ab5d9'']]"

definition DEPENDENCY_ARTIFACTS_HASH :: string where
  "DEPENDENCY_ARTIFACTS_HASH = (case dumps compact DEPENDENCY_ARTIFACTS of Inr t \<Rightarrow> sha_text (utf8 t) | Inl _ \<Rightarrow> [])"

definition text_check :: "pyval \<Rightarrow> string \<Rightarrow> unit res" where
  "text_check v field = guard (is_str v \<and> normalized (str_of v)) ValueErr (field @ '' must be a normalized non-empty string'')"

definition digest_check :: "pyval \<Rightarrow> string \<Rightarrow> unit res" where
  "digest_check v field = eseq (text_check v field)
     (guard (length (str_of v) = 71 \<and> startswith (str_of v) ''sha256:'' \<and> list_all is_hex (drop 7 (str_of v)))
        ValueErr (field @ '' must be sha256:<64 lowercase hex>''))"

section \<open>The profile\<close>

record profile =
  pf_profile_id :: pyval
  pf_image :: pyval
  pf_image_digest :: pyval
  pf_lock_digest :: pyval
  pf_network :: pyval
  pf_rootfs :: pyval
  pf_command :: pyval
  pf_timeout_seconds :: pyval
  pf_memory_bytes :: pyval
  pf_cpu_seconds :: pyval
  pf_dependency_artifacts_hash :: pyval

definition COMMAND :: "string list" where
  "COMMAND = [''python'', ''-m'', ''pytest'', ''--junitxml=/evidence/junit.xml'']"

definition default_profile :: profile where
  "default_profile = \<lparr>pf_profile_id = PStr PROFILE_ID, pf_image = PStr IMAGE, pf_image_digest = PStr IMAGE_DIGEST,
     pf_lock_digest = PStr LOCK_DIGEST, pf_network = PStr ''none'', pf_rootfs = PStr ''read-only'',
     pf_command = PTuple (map PStr COMMAND), pf_timeout_seconds = PInt 300, pf_memory_bytes = PInt 1073741824,
     pf_cpu_seconds = PInt 60, pf_dependency_artifacts_hash = PStr DEPENDENCY_ARTIFACTS_HASH\<rparr>"

text \<open>\<open>v <= 0\<close> for a number.\<close>

definition not_positive :: "pyval \<Rightarrow> bool res" where
  "not_positive v = (case num_of v of Some i \<Rightarrow> Inr (i \<le> 0)
     | None \<Rightarrow> (case v of PFloat f \<Rightarrow> Inr (f = FNegInf \<or> (case f of FFrac t \<Rightarrow> startswith t ''-'' | _ \<Rightarrow> False))
        | _ \<Rightarrow> Inl (TypeErr, ''not supported between instances'')))"

text \<open>\<open>a <= 0 or b <= 0 or c <= 0\<close>.\<close>

fun any_not_positive :: "pyval list \<Rightarrow> bool res" where
  "any_not_positive [] = Inr False"
| "any_not_positive (v # vs) = ebind (not_positive v) (\<lambda>b. if b then Inr True else any_not_positive vs)"

definition PythonOCIProfile :: "profile \<Rightarrow> profile res" where
  "PythonOCIProfile p =
     eseq (text_check (pf_profile_id p) ''profile_id'')
    (eseq (text_check (pf_image p) ''image'')
    (eseq (digest_check (pf_image_digest p) ''image_digest'')
    (eseq (digest_check (pf_lock_digest p) ''lock_digest'')
    (eseq (guard (py_eq (pf_dependency_artifacts_hash p) (PStr DEPENDENCY_ARTIFACTS_HASH)) ValueErr
             ''dependency artifact manifest mismatch'')
    (eseq (guard (py_eq (pf_network p) (PStr ''none'') \<and> py_eq (pf_rootfs p) (PStr ''read-only'')) ValueErr
             ''profile must disable network and use a read-only rootfs'')
    (eseq (guard (is_tuple (pf_command p) \<and> elems (pf_command p) \<noteq> [] \<and>
                  list_all (\<lambda>v. is_str v \<and> str_of v \<noteq> []) (elems (pf_command p))) ValueErr
             ''command must be a non-empty argv tuple'')
    (eseq (guard (\<not> list_ex (\<lambda>v. List.member [''sh'', ''bash'', ''-c'', ''--command''] (str_of v)) (elems (pf_command p))) ValueErr
             ''shell invocation is forbidden'')
    (ebind (any_not_positive [pf_timeout_seconds p, pf_memory_bytes p, pf_cpu_seconds p]) (\<lambda>bad.
       if bad then Inl (ValueErr, ''resource limits must be positive'') else Inr p)))))))))"

definition profile_to_dict :: "profile \<Rightarrow> pyval" where
  "profile_to_dict p = mkdict [(''profile_id'', pf_profile_id p), (''image'', pf_image p),
     (''image_digest'', pf_image_digest p), (''lock_digest'', pf_lock_digest p), (''network'', pf_network p),
     (''rootfs'', pf_rootfs p), (''command'', PList (elems (pf_command p))),
     (''timeout_seconds'', pf_timeout_seconds p), (''memory_bytes'', pf_memory_bytes p),
     (''cpu_seconds'', pf_cpu_seconds p), (''dependency_artifacts_hash'', pf_dependency_artifacts_hash p)]"

definition profile_hash :: "profile \<Rightarrow> string res" where
  "profile_hash p = ebind (dumps compact_sorted (profile_to_dict p)) (\<lambda>t. Inr (sha_text (utf8 t)))"

text \<open>The texts of the manifest and the lock file, and the bytes of \<open>uv.lock\<close> if it is there.\<close>

record profile_files =
  pl_manifest :: "string res"
  pl_lock :: "string res"
  pl_uv_lock :: "string option"

definition PROFILE_KEYS :: "string list" where
  "PROFILE_KEYS = [''profile_id'', ''image'', ''image_digest'', ''lock_digest'', ''network'', ''rootfs'', ''command'',
     ''timeout_seconds'', ''memory_bytes'', ''cpu_seconds'', ''dependency_artifacts_hash'']"

definition LOCK_KEYS :: "string list" where
  "LOCK_KEYS = [''profile_id'', ''image'', ''image_digest'', ''uv_lock_sha256'', ''offline'', ''network'',
     ''dependency_artifacts'']"

definition profile_of :: "pydict \<Rightarrow> pyval \<Rightarrow> profile" where
  "profile_of d cmd = \<lparr>pf_profile_id = get d ''profile_id'', pf_image = get d ''image'',
     pf_image_digest = get d ''image_digest'', pf_lock_digest = get d ''lock_digest'', pf_network = get d ''network'',
     pf_rootfs = get d ''rootfs'', pf_command = cmd, pf_timeout_seconds = get d ''timeout_seconds'',
     pf_memory_bytes = get d ''memory_bytes'', pf_cpu_seconds = get d ''cpu_seconds'',
     pf_dependency_artifacts_hash = get d ''dependency_artifacts_hash''\<rparr>"

definition load_profile :: "profile_files \<Rightarrow> profile res" where
  "load_profile files =
     ebind (ebind (pl_manifest files) loads) (\<lambda>data.
     eseq (guard (is_dict data \<and> keys_are (items data) PROFILE_KEYS) ValueErr ''manifest keys mismatch'')
    (ebind (ebind (pl_lock files) loads) (\<lambda>locked.
     let l = items locked in
     eseq (guard (is_dict locked \<and> keys_are l LOCK_KEYS \<and> get l ''offline'' = PBool True \<and>
                  py_eq (get l ''network'') (PStr ''none'')) ValueErr ''profile lock keys or policy mismatch'')
    (ebind (ebind (py_list (get l ''dependency_artifacts'')) tuple_of_tuples) (\<lambda>arts.
     eseq (guard (py_eq arts DEPENDENCY_ARTIFACTS) ValueErr ''profile lock keys or policy mismatch'')
    (eseq (guard (py_eq (get l ''uv_lock_sha256'')
             (PStr (drop 7 (case pl_uv_lock files of Some b \<Rightarrow> sha_text b | None \<Rightarrow> LOCK_DIGEST)))) ValueErr
             ''uv.lock digest mismatch'')
    (ebind (py_list (get (items data) ''command'')) (\<lambda>cmd.
     ebind (PythonOCIProfile (profile_of (items data) (PTuple cmd))) (\<lambda>p.
     eseq (guard (py_eq (get l ''profile_id'') (pf_profile_id p) \<and> py_eq (get l ''image'') (pf_image p) \<and>
                  py_eq (get l ''image_digest'') (pf_image_digest p)) ValueErr ''profile lock mismatch'')
    (eseq (guard (py_eq (pf_lock_digest p) (PStr (''sha256:'' @ str_of (get l ''uv_lock_sha256''))) \<and>
                  py_eq (pf_lock_digest p) (PStr LOCK_DIGEST) \<and>
                  py_eq (pf_dependency_artifacts_hash p) (PStr DEPENDENCY_ARTIFACTS_HASH)) ValueErr ''frozen profile mismatch'')
      (Inr p)))))))))))"

section \<open>Attempts and results\<close>

datatype runner_status = RUN_VERIFIED | RUN_FAILED_VERIFICATION | RUN_UNVERIFIABLE

fun runner_status_value :: "runner_status \<Rightarrow> string" where
  "runner_status_value RUN_VERIFIED = ''VERIFIED''"
| "runner_status_value RUN_FAILED_VERIFICATION = ''FAILED_VERIFICATION''"
| "runner_status_value RUN_UNVERIFIABLE = ''UNVERIFIABLE''"

record execution_attempt =
  ea_attempt_id :: string
  ea_execution_id :: string
  ea_source_revision :: string
  ea_source_tree :: string
  ea_contract_hash :: string
  ea_plan_hash :: string
  ea_environment_hash :: string
  ea_argv :: "pyval list"
  ea_stdout :: string
  ea_stderr :: string
  ea_exit_code :: int
  ea_junit :: string
  ea_artifact_hash :: string
  ea_junit_tests :: int
  ea_junit_failures :: int
  ea_junit_errors :: int
  ea_outcome_hash :: string

record runner_result =
  rs_status :: runner_status
  rs_reason_codes :: "string list"
  rs_profile_hash :: string
  rs_attempt_ids :: "string list"
  rs_artifact_hashes :: "string list"
  rs_attempts :: "execution_attempt list"

definition attempt_to_dict :: "execution_attempt \<Rightarrow> pyval" where
  "attempt_to_dict a = mkdict [(''attempt_id'', PStr (ea_attempt_id a)), (''execution_id'', PStr (ea_execution_id a)),
     (''source_revision'', PStr (ea_source_revision a)), (''source_tree'', PStr (ea_source_tree a)),
     (''contract_hash'', PStr (ea_contract_hash a)), (''plan_hash'', PStr (ea_plan_hash a)),
     (''environment_hash'', PStr (ea_environment_hash a)), (''argv'', PList (ea_argv a)),
     (''stdout'', PStr (bytes_hex (ea_stdout a))), (''stderr'', PStr (bytes_hex (ea_stderr a))),
     (''exit_code'', PInt (ea_exit_code a)), (''junit'', PStr (bytes_hex (ea_junit a))),
     (''artifact_hash'', PStr (ea_artifact_hash a)), (''outcome_hash'', PStr (ea_outcome_hash a))]"

definition runner_result_to_dict :: "runner_result \<Rightarrow> pyval" where
  "runner_result_to_dict r = mkdict [(''status'', PStr (runner_status_value (rs_status r))),
     (''reason_codes'', PList (map PStr (rs_reason_codes r))), (''profile_hash'', PStr (rs_profile_hash r)),
     (''attempt_ids'', PList (map PStr (rs_attempt_ids r))), (''artifact_hashes'', PList (map PStr (rs_artifact_hashes r))),
     (''attempts'', PList (map attempt_to_dict (rs_attempts r)))]"

section \<open>The JUnit report\<close>

datatype element = Element (el_tag: string) (el_attrib: "(string \<times> string) list") (el_text: "string option")
  (el_children: "element list")

type_synonym xml_parser = "string \<Rightarrow> element res"

text \<open>\<open>int(s)\<close>: blanks around, a sign, digits with single underscores between them.\<close>

fun digits_ok :: "string \<Rightarrow> bool" where
  "digits_ok [] = False"
| "digits_ok [c] = is_digit c"
| "digits_ok (c # d # cs) = (is_digit c \<and> (if d = CHR ''_'' then digits_ok cs else digits_ok (d # cs)))"

definition py_int :: "string \<Rightarrow> int option" where
  "py_int s = (let t = strip s; neg = startswith t ''-''; u = (if neg \<or> startswith t ''+'' then drop 1 t else t);
       n = int (nat_of_digits (filter is_digit u)) in
     if digits_ok u then Some (if neg then - n else n) else None)"

definition attrib_get :: "element \<Rightarrow> string \<Rightarrow> string \<Rightarrow> string" where
  "attrib_get e k dflt = (case map_of (el_attrib e) k of Some v \<Rightarrow> v | None \<Rightarrow> dflt)"

definition count_sum :: "element list \<Rightarrow> string \<Rightarrow> int res" where
  "count_sum suites k = ebind (emap (\<lambda>s. case py_int (attrib_get s k ''0'') of Some i \<Rightarrow> Inr i
       | None \<Rightarrow> Inl (ValueErr, ''malformed junit counts'')) suites) (\<lambda>xs. Inr (sum_list xs))"

definition check_junit :: "xml_parser \<Rightarrow> string \<Rightarrow> int \<Rightarrow> (int \<times> int \<times> int) res" where
  "check_junit xml data exit_code =
     (if data = [] then Inl (ValueErr, ''missing junit oracle'')
      else if contains ''<!DOCTYPE'' data \<or> contains ''<!ENTITY'' data then Inl (ValueErr, ''DTD/entity input forbidden'')
      else ebind (xml data) (\<lambda>root.
        let suites = (if el_tag root = ''testsuites'' then el_children root else [root]) in
        ebind (count_sum suites ''tests'') (\<lambda>tests.
        ebind (count_sum suites ''failures'') (\<lambda>failures.
        ebind (count_sum suites ''errors'') (\<lambda>errors.
          if tests \<le> 0 \<or> failures < 0 \<or> errors < 0 \<or> failures + errors > tests \<or> (exit_code = 0 \<and> failures + errors \<noteq> 0)
          then Inl (ValueErr, ''inadequate junit oracle'') else Inr (tests, failures, errors))))))"

text \<open>\<open>s.replace(old, new)\<close>.\<close>

function replace_all :: "string \<Rightarrow> string \<Rightarrow> string \<Rightarrow> string" where
  "replace_all old new s =
     (case s of [] \<Rightarrow> []
      | c # cs \<Rightarrow> if old \<noteq> [] \<and> startswith s old then new @ replace_all old new (drop (length old) s)
                  else c # replace_all old new cs)"
  by pat_completeness auto
termination
  by (relation "measure (\<lambda>(old, new, s). length s)") auto

declare replace_all.simps [simp del]

fun normalized_junit :: "element \<Rightarrow> pyval" where
  "normalized_junit (Element tag attrib txt children) =
     PList [PStr tag,
       mkdict (map (\<lambda>(k, v). (k, PStr v)) (filter (\<lambda>(k, _). \<not> List.member [''timestamp'', ''hostname'', ''time''] k) (sort attrib))),
       PStr (strip (replace_all ''/tmp/'' ''<tmp>/'' (replace_all ''/private/tmp/'' ''<tmp>/'' (case txt of None \<Rightarrow> [] | Some t \<Rightarrow> t)))),
       PList (map normalized_junit children)]"

section \<open>One attempt\<close>

definition join_nul :: "string list \<Rightarrow> string" where
  "join_nul parts = join [CHR 0x00] parts"

text \<open>The content identity of an attempt, from the observed values.\<close>

definition attempt_identity :: "(string \<Rightarrow> pyval) \<Rightarrow> pyval list \<Rightarrow> int \<times> int \<times> int \<Rightarrow> int \<Rightarrow> pyval" where
  "attempt_identity f argv counts exit_code =
     (case counts of (tests, failures, errors) \<Rightarrow>
       mkdict [(''source_revision'', f ''source_revision''), (''source_tree'', f ''source_tree''),
         (''contract_hash'', f ''contract_hash''), (''plan_hash'', f ''plan_hash''),
         (''environment_hash'', f ''environment_hash''), (''profile_id'', f ''profile_id''), (''image'', f ''image''),
         (''image_digest'', f ''image_digest''), (''lock_digest'', f ''lock_digest''), (''network'', f ''network''),
         (''rootfs'', f ''rootfs''), (''timeout_seconds'', f ''timeout_seconds''), (''memory_bytes'', f ''memory_bytes''),
         (''cpu_seconds'', f ''cpu_seconds''), (''argv'', PList argv),
         (''junit'', PList [PInt tests, PInt failures, PInt errors]), (''exit_code'', PInt exit_code)])"

definition artifact_digest :: "pyval \<Rightarrow> string \<Rightarrow> string \<Rightarrow> string \<Rightarrow> string \<Rightarrow> string res" where
  "artifact_digest identity deps out err junit =
     ebind (dumps compact_sorted identity) (\<lambda>t. Inr (sha_text (join_nul [utf8 t @ utf8 deps, out, err, junit])))"

definition outcome_digest :: "string list \<Rightarrow> pyval list \<Rightarrow> int \<Rightarrow> element \<Rightarrow> string res" where
  "outcome_digest bindings argv exit_code root =
     ebind (dumps compact (PList (map PStr bindings @ [PList argv, PInt exit_code, normalized_junit root])))
       (\<lambda>t. Inr (sha_text (utf8 t)))"

definition OBSERVED :: "string list" where
  "OBSERVED = [''source_revision'', ''source_tree'', ''contract_hash'', ''plan_hash'', ''environment_hash'', ''profile_id'',
     ''image'', ''image_digest'', ''lock_digest'', ''dependency_artifacts_hash'', ''network'', ''rootfs'',
     ''timeout_seconds'', ''memory_bytes'', ''cpu_seconds'', ''execution_id'']"

definition expected_values :: "profile \<Rightarrow> pydict \<Rightarrow> (string \<times> pyval) list" where
  "expected_values p request =
     map (\<lambda>k. (k, get request k)) [''source_revision'', ''source_tree'', ''contract_hash'', ''plan_hash'', ''environment_hash''] @
     [(''profile_id'', pf_profile_id p), (''image'', pf_image p), (''image_digest'', pf_image_digest p),
      (''lock_digest'', pf_lock_digest p), (''dependency_artifacts_hash'', pf_dependency_artifacts_hash p),
      (''network'', pf_network p), (''rootfs'', pf_rootfs p), (''timeout_seconds'', pf_timeout_seconds p),
      (''memory_bytes'', pf_memory_bytes p), (''cpu_seconds'', pf_cpu_seconds p)]"

definition the_bytes :: "pyval \<Rightarrow> string" where
  "the_bytes v = (case v of PBytes b \<Rightarrow> b | _ \<Rightarrow> [])"

definition BINDINGS :: "string list" where
  "BINDINGS = [''source_revision'', ''source_tree'', ''contract_hash'', ''plan_hash'', ''environment_hash'']"

definition make_attempt :: "xml_parser \<Rightarrow> profile \<Rightarrow> pyval \<Rightarrow> pydict \<Rightarrow> nat \<Rightarrow> execution_attempt res" where
  "make_attempt xml p raw request index =
     (let d = items raw; f = get d;
          out = get_default d ''stdout'' (PBytes []); err = get_default d ''stderr'' (PBytes []);
          junit = get_default d ''junit'' (PBytes []) in
      eseq (guard (is_dict raw) TypeErr ''not a mapping'')
     (eseq (guard (list_all (has_key d) OBSERVED) ValueErr ''missing observed execution identity'')
     (eseq (guard (list_all (\<lambda>(k, v). py_eq (f k) v) (expected_values p request)) ValueErr ''observed execution identity mismatch'')
     (eseq (text_check (f ''execution_id'') ''execution_id'')
     (eseq (guard (is_bytes out \<and> is_bytes err \<and> is_bytes junit) ValueErr ''execution streams must be bytes'')
     (eseq (guard (list_all (\<lambda>v. length (the_bytes v) \<le> MAX_OUTPUT_BYTES) [out, err, junit]) ValueErr
              ''execution evidence exceeds size limit'')
     (ebind (py_list (get_default d ''argv'' (pf_command p))) (\<lambda>argv.
      eseq (guard (py_eqs argv (elems (pf_command p))) ValueErr ''unexpected argv'')
     (eseq (guard (is_int (f ''exit_code'')) ValueErr ''missing exit code'')
     (let exit_code = (case f ''exit_code'' of PInt i \<Rightarrow> i | _ \<Rightarrow> 0) in
      ebind (check_junit xml (the_bytes junit) exit_code) (\<lambda>(tests, failures, errors).
      ebind (artifact_digest (attempt_identity f argv (tests, failures, errors) exit_code)
               (str_of (pf_dependency_artifacts_hash p)) (the_bytes out) (the_bytes err) (the_bytes junit)) (\<lambda>artifact.
      let bindings = map (\<lambda>k. py_str (f k)) BINDINGS in
      ebind (xml (the_bytes junit)) (\<lambda>root.
      ebind (outcome_digest bindings argv exit_code root) (\<lambda>outcome.
        Inr \<lparr>ea_attempt_id = py_str (get request ''attempt_id'') @ ''-'' @ show_nat index,
          ea_execution_id = str_of (f ''execution_id''), ea_source_revision = bindings ! 0, ea_source_tree = bindings ! 1,
          ea_contract_hash = bindings ! 2, ea_plan_hash = bindings ! 3, ea_environment_hash = bindings ! 4,
          ea_argv = argv, ea_stdout = the_bytes out, ea_stderr = the_bytes err, ea_exit_code = exit_code,
          ea_junit = the_bytes junit, ea_artifact_hash = artifact, ea_junit_tests = tests, ea_junit_failures = failures,
          ea_junit_errors = errors, ea_outcome_hash = outcome\<rparr>))))))))))))))"

definition same_outcome :: "execution_attempt \<Rightarrow> execution_attempt \<Rightarrow> bool" where
  "same_outcome a b \<longleftrightarrow> ea_outcome_hash a = ea_outcome_hash b"

section \<open>Running\<close>

type_synonym executor = "profile \<Rightarrow> pydict \<Rightarrow> nat \<Rightarrow> pyval res"

definition REQUIRED_BINDINGS :: "string list" where
  "REQUIRED_BINDINGS = BINDINGS @ [''attempt_id'']"

definition request_key :: "pydict \<Rightarrow> string res" where
  "request_key request = ebind (dumps compact_sorted (mkdict (map (\<lambda>k. (k, PStr (py_str (get request k)))) REQUIRED_BINDINGS)))
     (\<lambda>t. Inr (sha_text (utf8 t)))"

definition validate_run_request :: "pydict \<Rightarrow> string res" where
  "validate_run_request request =
     eseq (efor REQUIRED_BINDINGS (\<lambda>k. eseq (guard (is_str (get request k)) ValueErr (k @ '' must be string''))
        (text_check (get request k) k)))
    (eseq (efor [''source_revision'', ''source_tree''] (\<lambda>k. guard (is_sha40 (str_of (get request k))) ValueErr
        (k @ '' must be lowercase git identity'')))
    (eseq (efor [''contract_hash'', ''plan_hash'', ''environment_hash''] (\<lambda>k. digest_check (get request k) k))
     (request_key request)))"

definition unknown_result :: "profile \<Rightarrow> string list \<Rightarrow> runner_result res" where
  "unknown_result p reasons = ebind (profile_hash p) (\<lambda>h.
     Inr \<lparr>rs_status = RUN_UNVERIFIABLE, rs_reason_codes = sort reasons, rs_profile_hash = h, rs_attempt_ids = [],
          rs_artifact_hashes = [], rs_attempts = []\<rparr>)"

definition attempts_result :: "profile \<Rightarrow> runner_status \<Rightarrow> string list \<Rightarrow> execution_attempt list \<Rightarrow> runner_result res" where
  "attempts_result p status reasons attempts = ebind (profile_hash p) (\<lambda>h.
     Inr \<lparr>rs_status = status, rs_reason_codes = sort reasons, rs_profile_hash = h,
          rs_attempt_ids = map ea_attempt_id attempts, rs_artifact_hashes = map ea_artifact_hash attempts,
          rs_attempts = attempts\<rparr>)"

text \<open>The exceptions \<open>run\<close> turns into a result.\<close>

definition runner_catches :: "exn \<Rightarrow> bool" where
  "runner_catches c \<longleftrightarrow> is_value_error c \<or> List.member [TypeErr, KeyErr, ParseErr, TimeoutErr, OSErr, PermissionErr,
     RuntimeErr, UnavailableErr, UnknownEffectErr] c"

definition judge_attempts :: "profile \<Rightarrow> execution_attempt \<Rightarrow> execution_attempt \<Rightarrow> runner_result res" where
  "judge_attempts p a b =
     (if ea_execution_id a = ea_execution_id b then attempts_result p RUN_UNVERIFIABLE [''DUPLICATE_EXECUTION_ID''] [a, b]
      else if \<not> same_outcome a b then attempts_result p RUN_UNVERIFIABLE [''NONDETERMINISTIC''] [a, b]
      else if ea_exit_code a = 0 then attempts_result p RUN_VERIFIED [] [a, b]
      else if ea_exit_code a = 1 \<and> ea_junit_failures a + ea_junit_errors a > 0
      then attempts_result p RUN_FAILED_VERIFICATION [''TEST_FAILURE''] [a, b]
      else attempts_result p RUN_UNVERIFIABLE [''UNKNOWN_EXECUTION_OUTCOME''] [a, b])"

type_synonym replay = "string \<Rightarrow> runner_result option"

text \<open>\<open>self._replay[key] = result; return result\<close>.\<close>

definition remember :: "replay \<Rightarrow> string \<Rightarrow> runner_result res \<Rightarrow> runner_result res \<times> replay" where
  "remember replay key r = (case r of Inr x \<Rightarrow> (r, replay(key \<mapsto> x)) | Inl _ \<Rightarrow> (r, replay))"

definition run :: "xml_parser \<Rightarrow> profile \<Rightarrow> executor \<Rightarrow> replay \<Rightarrow> pydict \<Rightarrow> runner_result res \<times> replay" where
  "run xml p executor replay request =
     (if \<not> list_all (has_key request) REQUIRED_BINDINGS then (unknown_result p [''MISSING_BINDING''], replay)
      else (case validate_run_request request of
          Inl (c, m) \<Rightarrow> if c = TypeErr \<or> is_value_error c then (unknown_result p [''MALFORMED_REQUEST''], replay)
                        else (Inl (c, m), replay)
        | Inr key \<Rightarrow>
           (case replay key of
              Some r \<Rightarrow> (Inr r, replay)
            | None \<Rightarrow>
               (case ebind (ebind (executor p request 1) (\<lambda>raw. make_attempt xml p raw request 1)) (\<lambda>a.
                     ebind (ebind (executor p request 2) (\<lambda>raw. make_attempt xml p raw request 2)) (\<lambda>b. Inr (a, b))) of
                  Inl (c, m) \<Rightarrow> if runner_catches c
                     then remember replay key (unknown_result p [''MALFORMED_OR_UNAVAILABLE''])
                     else (Inl (c, m), replay)
                | Inr (a, b) \<Rightarrow> remember replay key (judge_attempts p a b)))))"

section \<open>Loading a stored result\<close>

definition hex_item :: "pydict \<Rightarrow> string \<Rightarrow> string res" where
  "hex_item d k = ebind (getitem d k) (\<lambda>v. case v of
     PStr t \<Rightarrow> (case fromhex t of Some b \<Rightarrow> Inr b | None \<Rightarrow> Inl (ValueErr, ''non-hexadecimal number found''))
   | _ \<Rightarrow> Inl (TypeErr, ''fromhex() argument must be str''))"

definition git_item_check :: "pydict \<Rightarrow> string \<Rightarrow> unit res" where
  "git_item_check d k = ebind (getitem d k) (\<lambda>v.
     guard (is_str v \<and> is_sha40 (str_of v)) ValueErr ''receipt git identity mismatch'')"

definition item_check :: "(pyval \<Rightarrow> string \<Rightarrow> unit res) \<Rightarrow> pydict \<Rightarrow> string \<Rightarrow> unit res" where
  "item_check chk d k = ebind (getitem d k) (\<lambda>v. chk v k)"

text \<open>The identity values \<open>from_dict\<close> fills in for the profile.\<close>

definition frozen_value :: "pydict \<Rightarrow> string \<Rightarrow> pyval" where
  "frozen_value d k = (case map_of [(''profile_id'', PStr PROFILE_ID), (''image'', PStr IMAGE),
       (''image_digest'', PStr IMAGE_DIGEST), (''lock_digest'', PStr LOCK_DIGEST), (''network'', PStr ''none''),
       (''rootfs'', PStr ''read-only''), (''timeout_seconds'', PInt 300), (''memory_bytes'', PInt 1073741824),
       (''cpu_seconds'', PInt 60)] k of Some v \<Rightarrow> v | None \<Rightarrow> get d k)"

definition load_attempt :: "xml_parser \<Rightarrow> profile \<Rightarrow> pyval \<Rightarrow> execution_attempt res" where
  "load_attempt xml p item =
     (let d = items item in
      eseq (guard (is_dict item) AttributeErr ''get'')
     (eseq (guard (is_int (get d ''exit_code'')) ValueErr ''receipt exit code must be int'')
     (let exit_code = (case get d ''exit_code'' of PInt i \<Rightarrow> i | _ \<Rightarrow> 0) in
      ebind (hex_item d ''stdout'') (\<lambda>out.
      ebind (hex_item d ''stderr'') (\<lambda>err.
      ebind (hex_item d ''junit'') (\<lambda>junit.
      ebind (ebind (getitem d ''argv'') py_list) (\<lambda>argv.
      eseq (guard (py_eqs argv (elems (pf_command p)) \<and> list_all (\<lambda>x. length x \<le> MAX_OUTPUT_BYTES) [out, err, junit])
              ValueErr ''receipt command or output limit mismatch'')
     (eseq (efor [''source_revision'', ''source_tree''] (git_item_check d))
     (eseq (efor [''contract_hash'', ''plan_hash'', ''environment_hash''] (item_check digest_check d))
     (eseq (efor [''attempt_id'', ''execution_id''] (item_check text_check d))
     (ebind (check_junit xml junit exit_code) (\<lambda>counts.
      ebind (artifact_digest (attempt_identity (frozen_value d) argv counts exit_code) DEPENDENCY_ARTIFACTS_HASH out err junit) (\<lambda>artifact.
      ebind (getitem d ''artifact_hash'') (\<lambda>stored.
      eseq (guard (py_eq (PStr artifact) stored) ValueErr ''artifact hash mismatch'')
     (ebind (xml junit) (\<lambda>root.
      ebind (outcome_digest (map (\<lambda>k. str_of (get d k)) BINDINGS) argv exit_code root) (\<lambda>outcome.
      eseq (guard (py_eq (get d ''outcome_hash'') (PStr outcome)) ValueErr ''outcome hash mismatch'')
     (case counts of (tests, failures, errors) \<Rightarrow>
        Inr \<lparr>ea_attempt_id = str_of (get d ''attempt_id''), ea_execution_id = str_of (get d ''execution_id''),
          ea_source_revision = str_of (get d ''source_revision''), ea_source_tree = str_of (get d ''source_tree''),
          ea_contract_hash = str_of (get d ''contract_hash''), ea_plan_hash = str_of (get d ''plan_hash''),
          ea_environment_hash = str_of (get d ''environment_hash''), ea_argv = argv, ea_stdout = out, ea_stderr = err,
          ea_exit_code = exit_code, ea_junit = junit, ea_artifact_hash = artifact, ea_junit_tests = tests,
          ea_junit_failures = failures, ea_junit_errors = errors, ea_outcome_hash = outcome\<rparr>))))))))))))))))))"

definition ZERO_ATTEMPT_REASONS :: "string list" where
  "ZERO_ATTEMPT_REASONS = [''MISSING_BINDING'', ''MALFORMED_REQUEST'', ''MALFORMED_OR_UNAVAILABLE'']"

definition load_zero :: "pydict \<Rightarrow> runner_result res" where
  "load_zero d =
     (let reasons = elems (get d ''reason_codes'') in
      eseq (guard (py_eq (get d ''status'') (PStr (runner_status_value RUN_UNVERIFIABLE)) \<and>
                   list_ex (\<lambda>r. py_eqs reasons [PStr r]) ZERO_ATTEMPT_REASONS) ValueErr ''invalid zero-attempt receipt'')
     (ebind (profile_hash default_profile) (\<lambda>h.
      eseq (guard (py_eq (get d ''profile_hash'') (PStr h) \<and> py_eq (get d ''attempt_ids'') (PList []) \<and>
                   py_eq (get d ''artifact_hashes'') (PList [])) ValueErr ''invalid zero-attempt summary'')
       (Inr \<lparr>rs_status = RUN_UNVERIFIABLE, rs_reason_codes = map str_of reasons, rs_profile_hash = h,
             rs_attempt_ids = [], rs_artifact_hashes = [], rs_attempts = []\<rparr>))))"

text \<open>The status and reasons recomputed from the two attempts.\<close>

definition recomputed_verdict :: "execution_attempt \<Rightarrow> execution_attempt \<Rightarrow> runner_status \<times> string list" where
  "recomputed_verdict a b =
     (let duplicate = (ea_execution_id a = ea_execution_id b);
          bad = ea_junit_failures a + ea_junit_errors a;
          status = (if ea_exit_code a = 0 \<and> bad = 0 then RUN_VERIFIED
                    else if ea_exit_code a = 1 \<and> bad > 0 then RUN_FAILED_VERIFICATION else RUN_UNVERIFIABLE) in
      if \<not> same_outcome a b then
        (if duplicate then (RUN_UNVERIFIABLE, [''DUPLICATE_EXECUTION_ID'']) else (RUN_UNVERIFIABLE, [''NONDETERMINISTIC'']))
      else if duplicate then (RUN_UNVERIFIABLE, [''DUPLICATE_EXECUTION_ID''])
      else (status, case status of RUN_VERIFIED \<Rightarrow> [] | RUN_FAILED_VERIFICATION \<Rightarrow> [''TEST_FAILURE'']
              | RUN_UNVERIFIABLE \<Rightarrow> [''UNKNOWN_EXECUTION_OUTCOME'']))"

definition load_two :: "pydict \<Rightarrow> execution_attempt \<Rightarrow> execution_attempt \<Rightarrow> runner_result res" where
  "load_two d a b =
     (case recomputed_verdict a b of (status, reasons) \<Rightarrow>
      ebind (if py_eqs (elems (get d ''reason_codes'')) (map PStr reasons) then getitem d ''status'' else Inr PNone) (\<lambda>st.
      eseq (guard (py_eq st (PStr (runner_status_value status))) ValueErr ''receipt status/reasons mismatch'')
     (ebind (getitem d ''profile_hash'') (\<lambda>ph.
      ebind (ebind (getitem d ''attempt_ids'') py_list) (\<lambda>ids.
      ebind (ebind (getitem d ''artifact_hashes'') py_list) (\<lambda>hashes.
      ebind (profile_hash default_profile) (\<lambda>h.
      eseq (guard (py_eq ph (PStr h) \<and> py_eqs ids (map PStr (map ea_attempt_id [a, b])) \<and>
                   py_eqs hashes (map PStr (map ea_artifact_hash [a, b]))) ValueErr ''receipt summary mismatch'')
       (Inr \<lparr>rs_status = status, rs_reason_codes = reasons, rs_profile_hash = h, rs_attempt_ids = map ea_attempt_id [a, b],
             rs_artifact_hashes = map ea_artifact_hash [a, b], rs_attempts = [a, b]\<rparr>))))))))"

definition from_dict :: "xml_parser \<Rightarrow> profile_files \<Rightarrow> pyval \<Rightarrow> runner_result res" where
  "from_dict xml files data =
     eseq (guard (is_dict data \<and> is_list (get (items data) ''reason_codes'')) ValueErr ''malformed receipt'')
    (ebind (load_profile files) (\<lambda>p.
     ebind (py_list (get_default (items data) ''attempts'' (PTuple []))) (\<lambda>xs.
     ebind (emap (load_attempt xml p) xs) (\<lambda>attempts.
       case attempts of
         [] \<Rightarrow> load_zero (items data)
       | [a, b] \<Rightarrow> load_two (items data) a b
       | _ \<Rightarrow> Inl (ValueErr, ''receipt requires two distinct executions'')))))"

end
