(* ===== verification/Runner_Properties.thy ===== *)
theory Runner_Properties
  imports Runner Transition Schema_Properties
begin

text \<open>
  What a verified run guarantees, that results are replayed exactly, and that a stored result loads
  back.  The runner is an invariant system over its replay table, and a progress system: the table
  only gains entries.
\<close>

section \<open>Plain executors\<close>

text \<open>Values without enumeration members and floats, which compare equal to strings and integers but
  print differently.\<close>

fun plain :: "pyval \<Rightarrow> bool" where
  "plain (PEnum c s) = False"
| "plain (PFloat f) = False"
| "plain (PList xs) = list_all plain xs"
| "plain (PTuple xs) = list_all plain xs"
| "plain (PDict d) = list_all (\<lambda>p. plain (fst p)) d"
| "plain _ = True"

definition plain_dict :: "pyval \<Rightarrow> bool" where
  "plain_dict v \<longleftrightarrow> list_all (\<lambda>p. plain (snd p)) (items v)"

definition plain_executor :: "executor \<Rightarrow> bool" where
  "plain_executor ex \<longleftrightarrow> (\<forall>p q i raw. ex p q i = Inr raw \<longrightarrow> plain_dict raw)"

lemma plain_get: "plain_dict v \<Longrightarrow> plain (get (items v) k)"
  by (auto simp: plain_dict_def get_def list_all_iff dest: dget_in_set split: option.splits)

lemma plain_str: "plain v \<Longrightarrow> py_eq v (PStr s) \<Longrightarrow> v = PStr s"
  by (auto simp: isinstance_str_iff)

lemma plain_int: "plain v \<Longrightarrow> py_eq v (PInt i) \<Longrightarrow> 1 < i \<Longrightarrow> v = PInt i"
  by (cases v) (auto simp: num_of_def isinstance_str_def split: if_splits)

lemma plain_strs: "list_all plain xs \<Longrightarrow> py_eqs xs (map PStr ss) \<Longrightarrow> xs = map PStr ss"
proof (induction xs arbitrary: ss)
  case (Cons x xs)
  then show ?case by (cases ss) (auto dest: plain_str simp del: py_eq_PStr)
qed simp

lemma plain_list: "plain v \<Longrightarrow> py_list v = Inr xs \<Longrightarrow> list_all plain xs"
  by (cases v) (auto simp: py_list_def list_all_iff)

section \<open>One attempt\<close>

lemma make_attempt_parts:
  assumes "make_attempt xml p raw q i = Inr a"
  obtains counts root where
    "list_all (\<lambda>(k, v). py_eq (get (items raw) k) v) (expected_values p q)" "list_all (has_key (items raw)) OBSERVED"
    "text_check (get (items raw) ''execution_id'') ''execution_id'' = Inr ()"
    "py_list (get_default (items raw) ''argv'' (pf_command p)) = Inr (ea_argv a)" "py_eqs (ea_argv a) (elems (pf_command p))"
    "list_all (\<lambda>x. length x \<le> MAX_OUTPUT_BYTES) [ea_stdout a, ea_stderr a, ea_junit a]"
    "get (items raw) ''exit_code'' = PInt (ea_exit_code a)"
    "check_junit xml (ea_junit a) (ea_exit_code a) = Inr counts"
    "counts = (ea_junit_tests a, ea_junit_failures a, ea_junit_errors a)"
    "artifact_digest (attempt_identity (get (items raw)) (ea_argv a) counts (ea_exit_code a))
       (str_of (pf_dependency_artifacts_hash p)) (ea_stdout a) (ea_stderr a) (ea_junit a) = Inr (ea_artifact_hash a)"
    "xml (ea_junit a) = Inr root"
    "outcome_digest (map (\<lambda>k. py_str (get (items raw) k)) BINDINGS) (ea_argv a) (ea_exit_code a) root = Inr (ea_outcome_hash a)"
    "[ea_source_revision a, ea_source_tree a, ea_contract_hash a, ea_plan_hash a, ea_environment_hash a] =
       map (\<lambda>k. py_str (get (items raw) k)) BINDINGS"
    "ea_execution_id a = str_of (get (items raw) ''execution_id'')"
    "ea_attempt_id a = py_str (get q ''attempt_id'') @ ''-'' @ show_nat i"
  using assms
  by (auto simp: make_attempt_def Let_def eseq_Inr_iff ebind_Inr_iff guard_Inr_iff is_int_iff BINDINGS_def the_bytes_def
      split: prod.splits)

section \<open>The replay table\<close>

text \<open>What a result marked verified shows of the request it answers.\<close>

definition clean_attempt :: "xml_parser \<Rightarrow> pydict \<Rightarrow> execution_attempt \<Rightarrow> bool" where
  "clean_attempt xml q a \<longleftrightarrow>
     [PStr (ea_source_revision a), PStr (ea_source_tree a), PStr (ea_contract_hash a), PStr (ea_plan_hash a),
      PStr (ea_environment_hash a)] = map (get q) BINDINGS \<and>
     check_junit xml (ea_junit a) (ea_exit_code a) = Inr (ea_junit_tests a, ea_junit_failures a, ea_junit_errors a)"

definition verified_result :: "xml_parser \<Rightarrow> pydict \<Rightarrow> runner_result \<Rightarrow> bool" where
  "verified_result xml q r \<longleftrightarrow> (rs_status r = RUN_VERIFIED \<longrightarrow> (\<exists>a b. rs_attempts r = [a, b] \<and>
     clean_attempt xml q a \<and> clean_attempt xml q b \<and> ea_execution_id a \<noteq> ea_execution_id b \<and>
     ea_outcome_hash a = ea_outcome_hash b \<and> ea_exit_code a = 0 \<and>
     0 < ea_junit_tests a \<and> ea_junit_failures a = 0 \<and> ea_junit_errors a = 0 \<and>
     rs_artifact_hashes r = [ea_artifact_hash a, ea_artifact_hash b]))"

definition replay_inv :: "xml_parser \<Rightarrow> replay \<Rightarrow> bool" where
  "replay_inv xml rep \<longleftrightarrow> (\<forall>key r. rep key = Some r \<longrightarrow> (\<exists>q. request_key q = Inr key \<and> verified_result xml q r))"

inductive runner_step :: "xml_parser \<Rightarrow> profile \<Rightarrow> replay \<Rightarrow> replay \<Rightarrow> bool" for xml p where
  ran: "plain_executor ex \<Longrightarrow> run xml p ex rep q = (res, rep') \<Longrightarrow> runner_step xml p rep rep'"

inductive_cases runner_stepE: "runner_step xml p rep rep'"

lemma valid_request_strs:
  assumes "validate_run_request q = Inr key" "k \<in> set REQUIRED_BINDINGS"
  shows "\<exists>s. get q k = PStr s"
  using assms by (auto simp: validate_run_request_def eseq_Inr_iff efor_Inr_iff guard_Inr_iff is_str_iff)

lemma valid_request_key: "validate_run_request q = Inr key \<Longrightarrow> request_key q = Inr key"
  by (auto simp: validate_run_request_def eseq_Inr_iff)

lemma attempt_clean:
  assumes "make_attempt xml p raw q i = Inr a" "plain_dict raw" "validate_run_request q = Inr key"
  shows "clean_attempt xml q a"
  using assms(1)
proof (rule make_attempt_parts)
  fix counts root
  assume e: "list_all (\<lambda>(k, v). py_eq (get (items raw) k) v) (expected_values p q)"
    and c: "check_junit xml (ea_junit a) (ea_exit_code a) = Inr counts"
      "counts = (ea_junit_tests a, ea_junit_failures a, ea_junit_errors a)"
    and b: "[ea_source_revision a, ea_source_tree a, ea_contract_hash a, ea_plan_hash a, ea_environment_hash a] =
       map (\<lambda>k. py_str (get (items raw) k)) BINDINGS"
  have one: "PStr (py_str (get (items raw) k)) = get q k" if k: "k \<in> set BINDINGS" for k
  proof -
    have "k \<in> set REQUIRED_BINDINGS" using k by (simp add: REQUIRED_BINDINGS_def)
    then obtain s where s: "get q k = PStr s" using valid_request_strs [OF assms(3)] by blast
    have "(k, get q k) \<in> set (expected_values p q)" using k by (auto simp: expected_values_def BINDINGS_def)
    then have "py_eq (get (items raw) k) (PStr s)" using e s by (auto simp: list_all_iff simp del: py_eq_PStr)
    then have "get (items raw) k = PStr s" by (rule plain_str [OF plain_get [OF assms(2)]])
    then show ?thesis using s by (simp add: py_str_def)
  qed
  have "map PStr [ea_source_revision a, ea_source_tree a, ea_contract_hash a, ea_plan_hash a, ea_environment_hash a] = map (get q) BINDINGS"
    unfolding b using one by simp
  then show "clean_attempt xml q a" using c by (simp add: clean_attempt_def)
qed

lemma check_junit_counts:
  "check_junit xml data code = Inr (t, f, e) \<Longrightarrow> 0 < t \<and> 0 \<le> f \<and> 0 \<le> e \<and> f + e \<le> t \<and> (code = 0 \<longrightarrow> f = 0 \<and> e = 0)"
  by (auto simp: check_junit_def ebind_Inr_iff Let_def split: if_splits)

lemma clean_counts:
  "clean_attempt xml q a \<Longrightarrow> 0 < ea_junit_tests a \<and>
     (ea_exit_code a = 0 \<longrightarrow> ea_junit_failures a = 0 \<and> ea_junit_errors a = 0)"
  using check_junit_counts by (auto simp: clean_attempt_def)

lemma judge_verified:
  assumes "judge_attempts p a b = Inr r" "clean_attempt xml q a" "clean_attempt xml q b"
  shows "verified_result xml q r"
  using assms clean_counts [OF assms(2)]
  by (auto simp: judge_attempts_def attempts_result_def verified_result_def ebind_Inr_iff same_outcome_def split: if_splits)

lemma unknown_verified: "unknown_result p rs = Inr r \<Longrightarrow> verified_result xml q r"
  by (auto simp: unknown_result_def verified_result_def ebind_Inr_iff)

text \<open>The cases of a run that returns.\<close>

lemma run_cases:
  assumes "run xml p ex rep q = (Inr r, rep')"
  obtains (rejected) c where "List.member ZERO_ATTEMPT_REASONS c" "unknown_result p [c] = Inr r" "rep' = rep"
  | (replayed) key where "validate_run_request q = Inr key" "rep key = Some r" "rep' = rep"
  | (failed) key where "validate_run_request q = Inr key" "rep key = None"
      "unknown_result p [''MALFORMED_OR_UNAVAILABLE''] = Inr r" "rep' = rep(key \<mapsto> r)"
  | (judged) key raw1 raw2 a b where "validate_run_request q = Inr key" "rep key = None" "ex p q 1 = Inr raw1"
      "make_attempt xml p raw1 q 1 = Inr a" "ex p q 2 = Inr raw2" "make_attempt xml p raw2 q 2 = Inr b"
      "judge_attempts p a b = Inr r" "rep' = rep(key \<mapsto> r)"
proof (cases "list_all (has_key q) REQUIRED_BINDINGS")
  case False
  then have "unknown_result p [''MISSING_BINDING''] = Inr r \<and> rep' = rep" using assms by (simp add: run_def)
  then show ?thesis using rejected [of "''MISSING_BINDING''"] by (simp add: ZERO_ATTEMPT_REASONS_def)
next
  case keys: True
  show ?thesis
  proof (cases "validate_run_request q")
    case (Inl e)
    then have "unknown_result p [''MALFORMED_REQUEST''] = Inr r \<and> rep' = rep"
      using assms keys by (simp add: run_def split: prod.splits if_splits)
    then show ?thesis using rejected [of "''MALFORMED_REQUEST''"] by (simp add: ZERO_ATTEMPT_REASONS_def)
  next
    case v: (Inr key)
    show ?thesis
    proof (cases "rep key")
      case (Some x)
      then have "rep key = Some r \<and> rep' = rep" using assms keys v by (simp add: run_def)
      then show ?thesis using replayed v by blast
    next
      case n: None
      let ?m = "ebind (ebind (ex p q 1) (\<lambda>raw. make_attempt xml p raw q 1)) (\<lambda>a.
                     ebind (ebind (ex p q 2) (\<lambda>raw. make_attempt xml p raw q 2)) (\<lambda>b. Inr (a, b)))"
      show ?thesis
      proof (cases ?m)
        case (Inl e)
        then have "unknown_result p [''MALFORMED_OR_UNAVAILABLE''] = Inr r \<and> rep' = rep(key \<mapsto> r)"
          using assms keys v n by (auto simp: run_def remember_def split: if_splits sum.splits prod.splits)
        then show ?thesis using failed v n by blast
      next
        case (Inr ab)
        then obtain raw1 raw2 a b where "ex p q 1 = Inr raw1" "make_attempt xml p raw1 q 1 = Inr a" "ex p q 2 = Inr raw2"
            "make_attempt xml p raw2 q 2 = Inr b" "ab = (a, b)" by (auto simp: ebind_Inr_iff)
        moreover have "judge_attempts p a b = Inr r \<and> rep' = rep(key \<mapsto> r)"
          using assms keys v n Inr calculation(5) by (auto simp: run_def remember_def split: sum.splits)
        ultimately show ?thesis using judged v n by blast
      qed
    qed
  qed
qed

lemma run_raises_keeps: "run xml p ex rep q = (Inl e, rep') \<Longrightarrow> rep' = rep"
  by (auto simp: run_def remember_def split: if_splits sum.splits option.splits prod.splits)

lemma run_keeps_inv:
  assumes "run xml p ex rep q = (Inr r, rep')" "plain_executor ex" "replay_inv xml rep"
  shows "replay_inv xml rep' \<and> (\<exists>q'. verified_result xml q' r \<and>
    (\<forall>key. validate_run_request q = Inr key \<longrightarrow> request_key q' = Inr key))"
  using assms(1)
proof (cases rule: run_cases)
  case (rejected c)
  then show ?thesis using assms(3) unknown_verified [OF rejected(2)] valid_request_key by blast
next
  case (replayed key)
  then show ?thesis using assms(3) unfolding replay_inv_def by (metis sum.inject(2))
next
  case (failed key)
  then show ?thesis using assms(3) unknown_verified [OF failed(3)] valid_request_key [OF failed(1)]
    by (auto simp: replay_inv_def)
next
  case (judged key raw1 raw2 a b)
  have "plain_dict raw1" "plain_dict raw2" using judged assms(2) by (auto simp: plain_executor_def)
  then have "verified_result xml q r"
    using judge_verified [OF judged(7)] attempt_clean [OF judged(4) _ judged(1)] attempt_clean [OF judged(6) _ judged(1)] by blast
  then show ?thesis using assms(3) judged(1,8) valid_request_key [OF judged(1)] by (auto simp: replay_inv_def)
qed

lemma run_grows: "run xml p ex rep q = (res, rep') \<Longrightarrow> rep \<subseteq>\<^sub>m rep'"
proof (cases res)
  case (Inr r)
  assume "run xml p ex rep q = (res, rep')"
  then have "run xml p ex rep q = (Inr r, rep')" using Inr by simp
  then show ?thesis by (cases rule: run_cases) (auto simp: map_le_def)
qed (auto dest: run_raises_keeps)

interpretation runner: invariant_system "\<lambda>rep. rep = Map.empty" "runner_step xml p" "replay_inv xml" for xml p
proof
  show "replay_inv xml rep" if "rep = Map.empty" for rep using that by (simp add: replay_inv_def)
  show "replay_inv xml rep'" if inv: "replay_inv xml rep" and step: "runner_step xml p rep rep'" for rep rep'
    using step
  proof (rule runner_stepE)
    fix ex q res assume "plain_executor ex" "run xml p ex rep q = (res, rep')"
    then show ?thesis using run_keeps_inv run_raises_keeps inv by (cases res) blast+
  qed
qed

interpretation runner_table: progress_system "runner_step xml p" "(\<subseteq>\<^sub>m)" for xml p
proof
  show "rep \<subseteq>\<^sub>m rep" for rep :: replay by simp
  show "rep \<subseteq>\<^sub>m rep3" if "rep \<subseteq>\<^sub>m rep2" "rep2 \<subseteq>\<^sub>m rep3" for rep rep2 rep3 :: replay
    using that by (rule map_le_trans)
  show "rep \<subseteq>\<^sub>m rep'" if "runner_step xml p rep rep'" for rep rep'
    using that by (rule runner_stepE) (rule run_grows)
qed

section \<open>Stored results load back\<close>

lemma expected_default:
  assumes "list_all (\<lambda>(k, v). py_eq (get (items raw) k) v) (expected_values default_profile q)" "plain_dict raw"
    and "\<forall>k \<in> set BINDINGS. \<exists>s. get q k = PStr s"
  shows "\<forall>k \<in> set BINDINGS. get (items raw) k = get q k"
    and "get (items raw) ''profile_id'' = PStr PROFILE_ID" "get (items raw) ''image'' = PStr IMAGE"
    "get (items raw) ''image_digest'' = PStr IMAGE_DIGEST" "get (items raw) ''lock_digest'' = PStr LOCK_DIGEST"
    "get (items raw) ''network'' = PStr ''none''" "get (items raw) ''rootfs'' = PStr ''read-only''"
    "get (items raw) ''timeout_seconds'' = PInt 300" "get (items raw) ''memory_bytes'' = PInt 1073741824"
    "get (items raw) ''cpu_seconds'' = PInt 60"
proof -
  note pl = plain_get [OF assms(2)]
  have eq: "py_eq (get (items raw) k) v" if "(k, v) \<in> set (expected_values default_profile q)" for k v
    using assms(1) that by (auto simp: list_all_iff)
  show "\<forall>k \<in> set BINDINGS. get (items raw) k = get q k"
  proof
    fix k assume k: "k \<in> set BINDINGS"
    then obtain s where s: "get q k = PStr s" using assms(3) by blast
    have "(k, get q k) \<in> set (expected_values default_profile q)" using k by (auto simp: expected_values_def BINDINGS_def)
    then have "py_eq (get (items raw) k) (PStr s)" using eq s by metis
    then show "get (items raw) k = get q k" using plain_str [OF pl] s by metis
  qed
  have str: "get (items raw) k = PStr s" if "(k, PStr s) \<in> set (expected_values default_profile q)" for k s
    using plain_str [OF pl eq [OF that]] .
  have int: "get (items raw) k = PInt i" if "(k, PInt i) \<in> set (expected_values default_profile q)" "1 < i" for k i
    using plain_int [OF pl eq [OF that(1)] that(2)] .
  show "get (items raw) ''profile_id'' = PStr PROFILE_ID" "get (items raw) ''image'' = PStr IMAGE"
    "get (items raw) ''image_digest'' = PStr IMAGE_DIGEST" "get (items raw) ''lock_digest'' = PStr LOCK_DIGEST"
    "get (items raw) ''network'' = PStr ''none''" "get (items raw) ''rootfs'' = PStr ''read-only''"
    by (rule str, simp add: expected_values_def default_profile_def)+
  show "get (items raw) ''timeout_seconds'' = PInt 300" "get (items raw) ''memory_bytes'' = PInt 1073741824"
    "get (items raw) ''cpu_seconds'' = PInt 60"
    by (rule int, simp add: expected_values_def default_profile_def, simp)+
qed

lemma strip_append_digit: "normalized s \<Longrightarrow> is_digit d \<Longrightarrow> list_all (\<lambda>c. c \<noteq> nul) t \<Longrightarrow> normalized (s @ t @ [d])"
proof -
  assume a: "normalized s" "is_digit d" "list_all (\<lambda>c. c \<noteq> nul) t"
  then have ne: "s \<noteq> []" and st: "s = strip s" and nn: "nul \<notin> set s" by (auto simp: normalized_def)
  have "\<not> is_space (hd s)"
  proof
    assume h: "is_space (hd s)"
    have "length (strip s) \<le> length (dropWhile is_space s)"
      unfolding strip_def by (metis length_dropWhile_le length_rev)
    also have "\<dots> < length s" using h ne by (cases s) (auto simp: length_dropWhile_le le_imp_less_Suc)
    finally show False using st by simp
  qed
  moreover have "\<not> is_space d" "d \<noteq> nul" using a(2) by (auto simp: is_digit_def is_space_def nul_def Let_def)
  ultimately have "strip (s @ t @ [d]) = s @ t @ [d]" using ne by (intro strip_no_space_ends) simp_all
  then show ?thesis using nn a(3) \<open>d \<noteq> nul\<close> by (auto simp: normalized_def list_all_iff)
qed

lemma attempt_id_normalized: "normalized s \<Longrightarrow> normalized (s @ ''-'' @ show_nat i)"
proof -
  assume s: "normalized s"
  have d: "list_all is_digit (show_nat i)" by (rule show_nat_digits)
  have sp: "show_nat i = butlast (show_nat i) @ [last (show_nat i)]" by simp
  have "is_digit (last (show_nat i))" using d by (simp add: list_all_iff)
  moreover have "list_all (\<lambda>c. c \<noteq> nul) (''-'' @ butlast (show_nat i))"
    using d by (auto simp: list_all_iff is_digit_def nul_def dest!: in_set_butlastD)
  ultimately show ?thesis using strip_append_digit [OF s] sp by (metis append.assoc)
qed

lemma attempt_dict_get:
  "get (items (attempt_to_dict a)) ''attempt_id'' = PStr (ea_attempt_id a)"
  "get (items (attempt_to_dict a)) ''execution_id'' = PStr (ea_execution_id a)"
  "get (items (attempt_to_dict a)) ''source_revision'' = PStr (ea_source_revision a)"
  "get (items (attempt_to_dict a)) ''source_tree'' = PStr (ea_source_tree a)"
  "get (items (attempt_to_dict a)) ''contract_hash'' = PStr (ea_contract_hash a)"
  "get (items (attempt_to_dict a)) ''plan_hash'' = PStr (ea_plan_hash a)"
  "get (items (attempt_to_dict a)) ''environment_hash'' = PStr (ea_environment_hash a)"
  "get (items (attempt_to_dict a)) ''argv'' = PList (ea_argv a)"
  "get (items (attempt_to_dict a)) ''exit_code'' = PInt (ea_exit_code a)"
  "get (items (attempt_to_dict a)) ''outcome_hash'' = PStr (ea_outcome_hash a)"
  by (simp_all add: attempt_to_dict_def get_simps)

lemma attempt_dict_item:
  "getitem (items (attempt_to_dict a)) ''attempt_id'' = Inr (PStr (ea_attempt_id a))"
  "getitem (items (attempt_to_dict a)) ''execution_id'' = Inr (PStr (ea_execution_id a))"
  "getitem (items (attempt_to_dict a)) ''source_revision'' = Inr (PStr (ea_source_revision a))"
  "getitem (items (attempt_to_dict a)) ''source_tree'' = Inr (PStr (ea_source_tree a))"
  "getitem (items (attempt_to_dict a)) ''contract_hash'' = Inr (PStr (ea_contract_hash a))"
  "getitem (items (attempt_to_dict a)) ''plan_hash'' = Inr (PStr (ea_plan_hash a))"
  "getitem (items (attempt_to_dict a)) ''environment_hash'' = Inr (PStr (ea_environment_hash a))"
  "getitem (items (attempt_to_dict a)) ''argv'' = Inr (PList (ea_argv a))"
  "getitem (items (attempt_to_dict a)) ''artifact_hash'' = Inr (PStr (ea_artifact_hash a))"
  by (simp_all add: attempt_to_dict_def getitem_def)

lemma attempt_dict_hex:
  "hex_item (items (attempt_to_dict a)) ''stdout'' = Inr (ea_stdout a)"
  "hex_item (items (attempt_to_dict a)) ''stderr'' = Inr (ea_stderr a)"
  "hex_item (items (attempt_to_dict a)) ''junit'' = Inr (ea_junit a)"
  by (simp_all add: attempt_to_dict_def hex_item_def getitem_def fromhex_bytes)

lemma load_made_attempt:
  assumes made: "make_attempt xml default_profile raw q i = Inr a" and plain: "plain_dict raw"
    and valid: "validate_run_request q = Inr key"
  shows "load_attempt xml default_profile (attempt_to_dict a) = Inr a"
  using made
proof (rule make_attempt_parts)
  fix counts root
  assume e: "list_all (\<lambda>(k, v). py_eq (get (items raw) k) v) (expected_values default_profile q)"
    and ex: "text_check (get (items raw) ''execution_id'') ''execution_id'' = Inr ()"
    and argv: "py_list (get_default (items raw) ''argv'' (pf_command default_profile)) = Inr (ea_argv a)"
      "py_eqs (ea_argv a) (elems (pf_command default_profile))"
    and len: "list_all (\<lambda>x. length x \<le> MAX_OUTPUT_BYTES) [ea_stdout a, ea_stderr a, ea_junit a]"
    and junit: "check_junit xml (ea_junit a) (ea_exit_code a) = Inr counts"
      "counts = (ea_junit_tests a, ea_junit_failures a, ea_junit_errors a)"
    and art: "artifact_digest (attempt_identity (get (items raw)) (ea_argv a) counts (ea_exit_code a))
       (str_of (pf_dependency_artifacts_hash default_profile)) (ea_stdout a) (ea_stderr a) (ea_junit a) = Inr (ea_artifact_hash a)"
    and root: "xml (ea_junit a) = Inr root"
    and out: "outcome_digest (map (\<lambda>k. py_str (get (items raw) k)) BINDINGS) (ea_argv a) (ea_exit_code a) root = Inr (ea_outcome_hash a)"
    and bind: "[ea_source_revision a, ea_source_tree a, ea_contract_hash a, ea_plan_hash a, ea_environment_hash a] =
       map (\<lambda>k. py_str (get (items raw) k)) BINDINGS"
    and ids: "ea_execution_id a = str_of (get (items raw) ''execution_id'')" "ea_attempt_id a = py_str (get q ''attempt_id'') @ ''-'' @ show_nat i"
  let ?d = "items (attempt_to_dict a)"
  have qs: "\<forall>k \<in> set BINDINGS. \<exists>s. get q k = PStr s"
    using valid_request_strs [OF valid] by (auto simp: REQUIRED_BINDINGS_def)
  note ed = expected_default [OF e plain qs]
  have "map PStr [ea_source_revision a, ea_source_tree a, ea_contract_hash a, ea_plan_hash a, ea_environment_hash a] =
      map (get q) BINDINGS"
    unfolding bind using ed(1) qs by (fastforce simp: py_str_def)
  then have q: "get q ''source_revision'' = PStr (ea_source_revision a)" "get q ''source_tree'' = PStr (ea_source_tree a)"
    "get q ''contract_hash'' = PStr (ea_contract_hash a)" "get q ''plan_hash'' = PStr (ea_plan_hash a)"
    "get q ''environment_hash'' = PStr (ea_environment_hash a)"
    by (simp_all add: BINDINGS_def)
  note get = attempt_dict_get [of a] and item = attempt_dict_item [of a] and hex = attempt_dict_hex [of a]
  have sha: "is_sha40 (ea_source_revision a)" "is_sha40 (ea_source_tree a)"
    "digest_check (PStr (ea_contract_hash a)) ''contract_hash'' = Inr ()" "digest_check (PStr (ea_plan_hash a)) ''plan_hash'' = Inr ()"
    "digest_check (PStr (ea_environment_hash a)) ''environment_hash'' = Inr ()"
    using valid by (auto simp: validate_run_request_def eseq_Inr_iff efor_Inr_iff guard_Inr_iff q)
  obtain rid where rid: "get q ''attempt_id'' = PStr rid" "normalized rid"
    using valid by (auto simp: validate_run_request_def eseq_Inr_iff efor_Inr_iff guard_Inr_iff is_str_iff text_check_def
        REQUIRED_BINDINGS_def)
  have "normalized (ea_attempt_id a)" using attempt_id_normalized [OF rid(2)] by (simp add: ids(2) rid(1) py_str_def)
  moreover have "normalized (ea_execution_id a)" using ex ids(1) by (simp add: text_check_def guard_Inr_iff)
  ultimately have texts: "text_check (PStr (ea_attempt_id a)) f = Inr ()" "text_check (PStr (ea_execution_id a)) f = Inr ()" for f
    by (simp_all add: text_check_def)
  have identity: "attempt_identity (frozen_value ?d) (ea_argv a) counts (ea_exit_code a) =
      attempt_identity (get (items raw)) (ea_argv a) counts (ea_exit_code a)"
    using ed by (simp add: attempt_identity_def frozen_value_def BINDINGS_def q get)
  have binds: "map (\<lambda>k. str_of (get ?d k)) BINDINGS = map (\<lambda>k. py_str (get (items raw) k)) BINDINGS"
    unfolding bind [symmetric] by (simp add: BINDINGS_def get)
  have art': "artifact_digest (attempt_identity (frozen_value ?d) (ea_argv a) counts (ea_exit_code a)) DEPENDENCY_ARTIFACTS_HASH
      (ea_stdout a) (ea_stderr a) (ea_junit a) = Inr (ea_artifact_hash a)"
    using art unfolding identity by (simp add: default_profile_def)
  have dict: "is_dict (attempt_to_dict a)" by (simp add: attempt_to_dict_def)
  show "load_attempt xml default_profile (attempt_to_dict a) = Inr a"
    using argv(2) len
    by (simp add: load_attempt_def Let_def dict get item hex git_item_check_def item_check_def sha texts py_list_def junit
        art' [unfolded junit(2)] root binds out del: py_eqs.simps)
qed

lemma profile_hash_default: "\<exists>h. profile_hash default_profile = Inr h"
proof -
  let ?d = "items (profile_to_dict default_profile)"
  have "jv compact_sorted (PDict (ordered compact_sorted ?d))"
    by (simp add: list_all_iff distinct_ordered profile_to_dict_def default_profile_def COMMAND_def)
  from loads_dumps [OF wf_styles(1) this] obtain t where "dumps compact_sorted (PDict ?d) = Inr t"
    unfolding dumps_ordered by blast
  moreover have "profile_to_dict default_profile = PDict ?d" by (simp add: profile_to_dict_def mkdict_def)
  ultimately show ?thesis by (simp add: profile_hash_def del: dumps.simps)
qed

definition loads_back :: "xml_parser \<Rightarrow> profile_files \<Rightarrow> runner_result \<Rightarrow> bool" where
  "loads_back xml files r \<longleftrightarrow> from_dict xml files (runner_result_to_dict r) = Inr r"

lemma unknown_loads_back:
  assumes "unknown_result default_profile [c] = Inr r" "List.member ZERO_ATTEMPT_REASONS c"
    and "load_profile files = Inr default_profile"
  shows "loads_back xml files r"
  using assms
  by (auto simp: unknown_result_def ebind_Inr_iff loads_back_def from_dict_def runner_result_to_dict_def get_simps
      get_default_def py_list_def load_zero_def Let_def list_ex_iff ZERO_ATTEMPT_REASONS_def)

lemma judged_loads_back:
  assumes r: "judge_attempts default_profile a b = Inr r" and files: "load_profile files = Inr default_profile"
    and a: "load_attempt xml default_profile (attempt_to_dict a) = Inr a" "clean_attempt xml q a"
    and b: "load_attempt xml default_profile (attempt_to_dict b) = Inr b"
  shows "loads_back xml files r"
proof -
  obtain h where h: "profile_hash default_profile = Inr h" using profile_hash_default by blast
  have neg: "0 \<le> ea_junit_failures a \<and> 0 \<le> ea_junit_errors a" "ea_exit_code a = 0 \<longrightarrow> ea_junit_failures a = 0 \<and> ea_junit_errors a = 0"
    using check_junit_counts a(2) by (auto simp: clean_attempt_def)
  obtain st rs where v: "recomputed_verdict a b = (st, rs)" by (cases "recomputed_verdict a b")
  have rr: "r = \<lparr>rs_status = st, rs_reason_codes = rs, rs_profile_hash = h, rs_attempt_ids = map ea_attempt_id [a, b],
      rs_artifact_hashes = map ea_artifact_hash [a, b], rs_attempts = [a, b]\<rparr>"
    using r v neg by (auto simp: judge_attempts_def attempts_result_def h recomputed_verdict_def Let_def split: if_splits)
  have two: "load_two (items (runner_result_to_dict r)) a b = Inr r"
    unfolding load_two_def v by (simp add: rr runner_result_to_dict_def get_simps getitem_def h py_list_def)
  show ?thesis
    unfolding loads_back_def from_dict_def files using two a(1) b
    by (simp add: runner_result_to_dict_def get_simps get_default_def py_list_def rr)
qed

lemma run_loads_back:
  assumes "run xml default_profile ex rep q = (Inr r, rep')" "plain_executor ex" "load_profile files = Inr default_profile"
    and stored: "\<forall>key x. rep key = Some x \<longrightarrow> loads_back xml files x"
  shows "loads_back xml files r \<and> (\<forall>key x. rep' key = Some x \<longrightarrow> loads_back xml files x)"
  using assms(1)
proof (cases rule: run_cases)
  case (rejected c)
  then show ?thesis using unknown_loads_back [OF rejected(2,1) assms(3)] stored by simp
next
  case (replayed key)
  then show ?thesis using stored by blast
next
  case (failed key)
  then show ?thesis using unknown_loads_back [OF failed(3) _ assms(3)] stored by (auto simp: ZERO_ATTEMPT_REASONS_def)
next
  case (judged key raw1 raw2 a b)
  have pl: "plain_dict raw1" "plain_dict raw2" using judged assms(2) by (auto simp: plain_executor_def)
  have "loads_back xml files r"
    using judged_loads_back [OF judged(7) assms(3) load_made_attempt [OF judged(4) pl(1) judged(1)]
        attempt_clean [OF judged(4) pl(1) judged(1)] load_made_attempt [OF judged(6) pl(2) judged(1)]] .
  then show ?thesis using judged(8) stored by auto
qed

section \<open>Samples\<close>

definition sample_root :: element where
  "sample_root = Element ''testsuite'' [(''tests'', ''1'')] None []"

definition sample_xml :: xml_parser where
  "sample_xml data = Inr sample_root"

definition sample_raw :: "pydict \<Rightarrow> nat \<Rightarrow> pyval" where
  "sample_raw q i = mkdict [(''source_revision'', PStr (str_of (get q ''source_revision''))),
     (''source_tree'', PStr (str_of (get q ''source_tree''))), (''contract_hash'', PStr (str_of (get q ''contract_hash''))),
     (''plan_hash'', PStr (str_of (get q ''plan_hash''))), (''environment_hash'', PStr (str_of (get q ''environment_hash''))),
     (''profile_id'', PStr PROFILE_ID), (''image'', PStr IMAGE), (''image_digest'', PStr IMAGE_DIGEST),
     (''lock_digest'', PStr LOCK_DIGEST), (''dependency_artifacts_hash'', PStr DEPENDENCY_ARTIFACTS_HASH),
     (''network'', PStr ''none''), (''rootfs'', PStr ''read-only''), (''timeout_seconds'', PInt 300),
     (''memory_bytes'', PInt 1073741824), (''cpu_seconds'', PInt 60),
     (''execution_id'', PStr (''exec-'' @ show_nat i)), (''exit_code'', PInt 0), (''junit'', PBytes ''<testsuite/>'')]"

definition sample_executor :: executor where
  "sample_executor p q i = Inr (sample_raw q i)"

definition sample_run_request :: pydict where
  "sample_run_request = items (mkdict [(''source_revision'', PStr (replicate 40 (CHR ''b''))),
     (''source_tree'', PStr (replicate 40 (CHR ''d''))), (''contract_hash'', PStr sample_sha),
     (''plan_hash'', PStr sample_sha), (''environment_hash'', PStr sample_sha), (''attempt_id'', PStr ''att'')])"

lemma sample_plain [simp]: "plain_executor sample_executor"
  by (simp add: plain_executor_def sample_executor_def plain_dict_def sample_raw_def)

lemma show_small: "show_nat 1 = ''1''" "show_nat 2 = ''2''"
  by code_simp+

lemma dumps_dict_total:
  assumes "list_all (\<lambda>p. is_str (fst p) \<and> jv st (snd p)) d" "distinct (map fst d)" "wf_style st"
  shows "\<exists>t. dumps st (PDict d) = Inr t"
proof -
  have "jv st (PDict (ordered st d))" using assms(1,2) by (simp add: list_all_iff distinct_ordered)
  from loads_dumps [OF assms(3) this] show ?thesis unfolding dumps_ordered by blast
qed

lemma sample_raw_get:
  "get (items (sample_raw q i)) ''source_revision'' = PStr (str_of (get q ''source_revision''))"
  "get (items (sample_raw q i)) ''source_tree'' = PStr (str_of (get q ''source_tree''))"
  "get (items (sample_raw q i)) ''contract_hash'' = PStr (str_of (get q ''contract_hash''))"
  "get (items (sample_raw q i)) ''plan_hash'' = PStr (str_of (get q ''plan_hash''))"
  "get (items (sample_raw q i)) ''environment_hash'' = PStr (str_of (get q ''environment_hash''))"
  "get (items (sample_raw q i)) ''profile_id'' = PStr PROFILE_ID" "get (items (sample_raw q i)) ''image'' = PStr IMAGE"
  "get (items (sample_raw q i)) ''image_digest'' = PStr IMAGE_DIGEST" "get (items (sample_raw q i)) ''lock_digest'' = PStr LOCK_DIGEST"
  "get (items (sample_raw q i)) ''dependency_artifacts_hash'' = PStr DEPENDENCY_ARTIFACTS_HASH"
  "get (items (sample_raw q i)) ''network'' = PStr ''none''" "get (items (sample_raw q i)) ''rootfs'' = PStr ''read-only''"
  "get (items (sample_raw q i)) ''timeout_seconds'' = PInt 300" "get (items (sample_raw q i)) ''memory_bytes'' = PInt 1073741824"
  "get (items (sample_raw q i)) ''cpu_seconds'' = PInt 60"
  "get (items (sample_raw q i)) ''execution_id'' = PStr (''exec-'' @ show_nat i)"
  "get (items (sample_raw q i)) ''exit_code'' = PInt 0"
  by (simp_all add: sample_raw_def get_simps)

lemma sample_identity_total: "\<exists>h. artifact_digest (attempt_identity (get (items (sample_raw q i))) (map PStr COMMAND) (1, 0, 0) 0) d x y z = Inr h"
proof -
  let ?v = "attempt_identity (get (items (sample_raw q i))) (map PStr COMMAND) (1, 0, 0) 0"
  have "list_all (\<lambda>p. is_str (fst p) \<and> jv compact_sorted (snd p)) (items ?v)" "distinct (map fst (items ?v))"
    by (simp_all add: attempt_identity_def sample_raw_get)
  from dumps_dict_total [OF this wf_styles(1)] obtain t where "dumps compact_sorted (PDict (items ?v)) = Inr t" by blast
  then have "dumps compact_sorted ?v = Inr t" by (simp only: attempt_identity_def mkdict_def type_test_simps case_prod_conv)
  then show ?thesis by (simp add: artifact_digest_def)
qed

lemma sample_outcome_total: "\<exists>h. outcome_digest bs (map PStr COMMAND) 0 sample_root = Inr h"
proof -
  have "jv compact (PList (map PStr bs @ [PList (map PStr COMMAND), PInt 0, normalized_junit sample_root]))"
    by (simp add: sample_root_def mkdict_def ordered_def compact_def)
  from loads_dumps [OF wf_styles(4) this] show ?thesis by (auto simp: outcome_digest_def)
qed

lemma sample_check_junit: "check_junit sample_xml ''<testsuite/>'' 0 = Inr (1, 0, 0)"
  by (simp add: check_junit_def sample_xml_def sample_root_def count_sum_def attrib_get_def py_int_def strip_def is_space_def
      is_digit_def nat_of_digits_def digit_val_def Let_def)

lemma sample_attempt:
  assumes "validate_run_request q = Inr key"
  obtains a where "make_attempt sample_xml default_profile (sample_raw q i) q i = Inr a" "ea_exit_code a = 0"
    "ea_execution_id a = ''exec-'' @ show_nat i"
    "outcome_digest (map (\<lambda>k. str_of (get q k)) BINDINGS) (map PStr COMMAND) 0 sample_root = Inr (ea_outcome_hash a)"
proof -
  let ?d = "items (sample_raw q i)"
  have keys: "list_all (has_key ?d) OBSERVED"
    by (simp add: OBSERVED_def sample_raw_def has_key_def)
  have q: "\<exists>s. get q k = PStr s" if "k \<in> set BINDINGS" for k
    using valid_request_strs [OF assms, of k] that by (auto simp: REQUIRED_BINDINGS_def)
  have qs: "py_eq (PStr (str_of (get q k))) (get q k)" if "k \<in> set BINDINGS" for k
    using q [OF that] by auto
  have exp: "list_all (\<lambda>(k, v). py_eq (get ?d k) v) (expected_values default_profile q)"
    using qs [of "''source_revision''"] qs [of "''source_tree''"] qs [of "''contract_hash''"] qs [of "''plan_hash''"]
      qs [of "''environment_hash''"]
    by (simp add: expected_values_def sample_raw_get BINDINGS_def default_profile_def num_of_def)
  have dict: "is_dict (sample_raw q i)" by (simp add: sample_raw_def)
  have streams: "get_default ?d ''stdout'' (PBytes []) = PBytes []" "get_default ?d ''stderr'' (PBytes []) = PBytes []"
    "get_default ?d ''junit'' (PBytes []) = PBytes ''<testsuite/>''"
    "get_default ?d ''argv'' (pf_command default_profile) = PTuple (map PStr COMMAND)"
    by (simp_all add: get_default_def sample_raw_def default_profile_def)
  obtain art out where art: "artifact_digest (attempt_identity (get ?d) (map PStr COMMAND) (1, 0, 0) 0)
      (str_of (pf_dependency_artifacts_hash default_profile)) [] [] ''<testsuite/>'' = Inr art"
    and out: "outcome_digest (map (\<lambda>k. str_of (get q k)) BINDINGS) (map PStr COMMAND) 0 sample_root = Inr out"
    using sample_identity_total sample_outcome_total by blast
  have binds: "map (\<lambda>k. py_str (get ?d k)) BINDINGS = map (\<lambda>k. str_of (get q k)) BINDINGS"
    by (simp add: BINDINGS_def sample_raw_get py_str_def)
  have exec: "text_check (PStr (''exec-'' @ show_nat i)) ''execution_id'' = Inr ()"
  proof -
    have "normalized ''exec''" by (simp add: normalized_def strip_def is_space_def nul_def)
    from attempt_id_normalized [OF this, of i] show ?thesis by (simp add: text_check_def)
  qed
  have "\<exists>a. make_attempt sample_xml default_profile (sample_raw q i) q i = Inr a \<and> ea_exit_code a = 0 \<and>
     ea_execution_id a = ''exec-'' @ show_nat i \<and> ea_outcome_hash a = out"
    using art out
    by (simp add: make_attempt_def Let_def dict keys exp streams sample_raw_get exec [unfolded append.simps] the_bytes_def MAX_OUTPUT_BYTES_def
        py_list_def sample_check_junit binds sample_xml_def del: py_eqs.simps) (simp add: default_profile_def)
  then show ?thesis using that out by blast
qed

lemma sample_run:
  assumes "validate_run_request q = Inr key" "list_all (has_key q) REQUIRED_BINDINGS"
  shows "\<exists>r. run sample_xml default_profile sample_executor Map.empty q = (Inr r, [key \<mapsto> r]) \<and> rs_status r = RUN_VERIFIED"
proof -
  obtain a where a: "make_attempt sample_xml default_profile (sample_raw q 1) q 1 = Inr a" "ea_exit_code a = 0" "ea_execution_id a = ''exec-1''"
    "outcome_digest (map (\<lambda>k. str_of (get q k)) BINDINGS) (map PStr COMMAND) 0 sample_root = Inr (ea_outcome_hash a)"
    using sample_attempt [OF assms(1), of 1] by (metis show_small(1) append.simps)
  obtain b where b: "make_attempt sample_xml default_profile (sample_raw q 2) q 2 = Inr b" "ea_execution_id b = ''exec-2''"
    "outcome_digest (map (\<lambda>k. str_of (get q k)) BINDINGS) (map PStr COMMAND) 0 sample_root = Inr (ea_outcome_hash b)"
    using sample_attempt [OF assms(1), of 2] by (metis show_small(2) append.simps)
  obtain h where h: "profile_hash default_profile = Inr h" using profile_hash_default by blast
  have "ea_outcome_hash a = ea_outcome_hash b" using a(4) b(3) by simp
  then have "\<exists>r. judge_attempts default_profile a b = Inr r \<and> rs_status r = RUN_VERIFIED"
    using a b h by (simp add: judge_attempts_def same_outcome_def attempts_result_def)
  then show ?thesis
    using assms a(1) b(1) by (auto simp: run_def sample_executor_def remember_def simp del: One_nat_def)
qed

lemma sample_request_valid: "\<exists>key. validate_run_request sample_run_request = Inr key"
proof -
  have n: "normalized ''att''" by (simp add: normalized_def strip_def is_space_def nul_def)
  have s: "is_sha256 sample_sha" "normalized sample_sha"
    using is_sha256_normalized by (auto simp: sample_sha_def is_sha256_def is_hex_def hex_lower_def list_all_iff)
  have g: "normalized (replicate 40 c)" if "c \<in> {CHR ''b'', CHR ''d''}" for c
    using that by (auto simp: normalized_def strip_def is_space_def nul_def)
  have "\<exists>t. dumps compact_sorted (mkdict (map (\<lambda>k. (k, PStr (py_str (get sample_run_request k)))) REQUIRED_BINDINGS)) = Inr t"
    unfolding mkdict_def by (rule dumps_dict_total) (simp_all add: REQUIRED_BINDINGS_def BINDINGS_def)
  then obtain key where key: "request_key sample_run_request = Inr key" by (auto simp: request_key_def)
  have get: "get sample_run_request ''source_revision'' = PStr (replicate 40 (CHR ''b''))"
    "get sample_run_request ''source_tree'' = PStr (replicate 40 (CHR ''d''))"
    "get sample_run_request ''contract_hash'' = PStr sample_sha" "get sample_run_request ''plan_hash'' = PStr sample_sha"
    "get sample_run_request ''environment_hash'' = PStr sample_sha" "get sample_run_request ''attempt_id'' = PStr ''att''"
    by (simp_all add: sample_run_request_def get_simps)
  have sha: "digest_check (PStr sample_sha) f = Inr ()" for f
    using s by (simp add: digest_check_def text_check_def is_sha256_def)
  have txt1: "text_check (PStr sample_sha) f = Inr ()" "text_check (PStr ''att'') f = Inr ()"
      "text_check (PStr (replicate 40 (CHR ''b''))) f = Inr ()" "text_check (PStr (replicate 40 (CHR ''d''))) f = Inr ()" for f
    using s n g by (simp_all add: text_check_def)
  show ?thesis
    by (simp add: validate_run_request_def REQUIRED_BINDINGS_def BINDINGS_def get sha txt1 key del: replicate.simps)
qed

end
