(* ===== verification/Runner_Claims.thy ===== *)
theory Runner_Claims
  imports Runner_Properties
begin

text \<open>
  The guarantees of the runner: what a verified result shows, exact replay, and the round trip of a
  result through its dictionary.
\<close>

section \<open>What a request key determines\<close>

definition key_text :: "pydict \<Rightarrow> string res" where
  "key_text q = dumps compact_sorted (mkdict (map (\<lambda>k. (k, PStr (py_str (get q k)))) REQUIRED_BINDINGS))"

definition requests_collide :: "pydict \<Rightarrow> pydict \<Rightarrow> bool" where
  "requests_collide q q' \<longleftrightarrow> (\<exists>s t. key_text q = Inr s \<and> key_text q' = Inr t \<and> s \<noteq> t \<and>
     sha_text (utf8 s) = sha_text (utf8 t))"

lemma key_text_bindings:
  assumes "key_text q = Inr t" "key_text q' = Inr t" "k \<in> set REQUIRED_BINDINGS"
  shows "py_str (get q k) = py_str (get q' k)"
proof -
  let ?d = "\<lambda>q. map (\<lambda>k. (PStr k, PStr (py_str (get q k)))) REQUIRED_BINDINGS"
  have t: "loads t = Inr (PDict (ordered compact_sorted (?d q)))" if "key_text q = Inr t" for q
  proof (rule loads_dumps_Inr [OF wf_styles(1)])
    have "distinct (map fst (?d q))" by (simp add: REQUIRED_BINDINGS_def BINDINGS_def)
    from distinct_ordered [OF this] show "jv compact_sorted (PDict (ordered compact_sorted (?d q)))"
      by (simp add: list_all_iff)
    show "dumps compact_sorted (PDict (ordered compact_sorted (?d q))) = Inr t"
      using that unfolding key_text_def mkdict_def dumps_ordered by (simp only: map_map comp_def case_prod_conv)
  qed
  have "set (ordered compact_sorted (?d q)) = set (ordered compact_sorted (?d q'))"
    using t [OF assms(1)] t [OF assms(2)] by simp
  then have "set (?d q) = set (?d q')" by (simp only: set_ordered)
  moreover have "(PStr k, PStr (py_str (get q k))) \<in> set (?d q)" using assms(3) by simp
  ultimately show ?thesis by auto
qed

lemma request_key_text: "request_key q = Inr key \<longleftrightarrow> (\<exists>t. key_text q = Inr t \<and> key = sha_text (utf8 t))"
  by (auto simp: request_key_def key_text_def ebind_Inr_iff)

lemma same_key_bindings:
  assumes "request_key q = Inr key" "request_key q' = Inr key" "\<not> requests_collide q q'" "k \<in> set REQUIRED_BINDINGS"
  shows "py_str (get q k) = py_str (get q' k)"
proof -
  obtain s t where "key_text q = Inr s" "key_text q' = Inr t" "sha_text (utf8 s) = sha_text (utf8 t)"
    using assms(1,2) unfolding request_key_text by metis
  then show ?thesis using assms(3,4) key_text_bindings unfolding requests_collide_def by metis
qed

lemma clean_attempt_same:
  assumes clean: "clean_attempt xml q' a" and valid: "validate_run_request q = Inr key" and "request_key q' = Inr key"
    and "\<not> requests_collide q q'"
  shows "clean_attempt xml q a"
proof -
  have "get q k = get q' k" if k: "k \<in> set BINDINGS" for k
  proof -
    have r: "k \<in> set REQUIRED_BINDINGS" using k by (simp add: REQUIRED_BINDINGS_def)
    obtain s where s: "get q k = PStr s" using valid_request_strs [OF valid r] by blast
    have "get q' k \<in> set (map (get q') BINDINGS)" using k by simp
    then obtain s' where s': "get q' k = PStr s'"
      using clean unfolding clean_attempt_def by (metis (no_types, lifting) empty_iff empty_set set_ConsD)
    show ?thesis
      using same_key_bindings [OF valid_request_key [OF valid] assms(3,4) r] by (simp add: s s' py_str_def)
  qed
  then have "map (get q) BINDINGS = map (get q') BINDINGS" by simp
  then show ?thesis using clean by (simp add: clean_attempt_def)
qed

section \<open>Replay\<close>

lemma valid_request_has: "validate_run_request q = Inr key \<Longrightarrow> list_all (has_key q) REQUIRED_BINDINGS"
  using valid_request_strs by (fastforce simp: list_all_iff has_key_def get_def split: option.splits)

lemma run_valid_remembers:
  assumes "validate_run_request q = Inr key" "run xml p ex rep q = (Inr r, rep')"
  shows "rep' key = Some r"
  using assms valid_request_has [OF assms(1)]
  by (auto simp: run_def remember_def split: option.splits sum.splits if_splits)

lemma run_known: "validate_run_request q = Inr key \<Longrightarrow> rep key = Some r \<Longrightarrow> run xml p ex rep q = (Inr r, rep)"
  using valid_request_has [of q key] by (simp add: run_def)

definition table_loads_back :: "xml_parser \<Rightarrow> profile_files \<Rightarrow> replay \<Rightarrow> bool" where
  "table_loads_back xml files rep \<longleftrightarrow> (load_profile files = Inr default_profile \<longrightarrow>
     (\<forall>key r. rep key = Some r \<longrightarrow> loads_back xml files r))"

interpretation stored: invariant_system "\<lambda>rep. rep = Map.empty" "runner_step xml default_profile" "table_loads_back xml files"
  for xml files
proof
  show "table_loads_back xml files rep" if "rep = Map.empty" for rep using that by (simp add: table_loads_back_def)
  show "table_loads_back xml files rep'"
    if inv: "table_loads_back xml files rep" and step: "runner_step xml default_profile rep rep'" for rep rep'
    using step
  proof (rule runner_stepE)
    fix ex q res assume "plain_executor ex" "run xml default_profile ex rep q = (res, rep')"
    then show ?thesis using run_loads_back run_raises_keeps inv unfolding table_loads_back_def by (cases res) blast+
  qed
qed

section \<open>Properties\<close>

text \<open>C16: a verified result was earned.  Whenever a runner that started with no remembered results
  answers a valid request with VERIFIED, there are two attempts with different execution identities
  and the same outcome, each bound to the five identities of the request, with exit code 0 and a JUnit
  report of at least one test and no failure or error; or two requests collide under SHA-256.\<close>

theorem verified_run_is_clean:
  assumes "(runner_step xml p)\<^sup>*\<^sup>* Map.empty rep" "plain_executor ex" "validate_run_request q = Inr key"
    and "run xml p ex rep q = (Inr r, rep')" "rs_status r = RUN_VERIFIED"
  shows "(\<exists>a b. rs_attempts r = [a, b] \<and> clean_attempt xml q a \<and> clean_attempt xml q b \<and>
      ea_execution_id a \<noteq> ea_execution_id b \<and> ea_outcome_hash a = ea_outcome_hash b \<and> ea_exit_code a = 0 \<and>
      0 < ea_junit_tests a \<and> ea_junit_failures a = 0 \<and> ea_junit_errors a = 0) \<or> (\<exists>q'. requests_collide q q')"
proof -
  have "replay_inv xml rep" using runner.reachable_inv [OF refl assms(1)] .
  from run_keeps_inv [OF assms(4,2) this] obtain q' where q': "verified_result xml q' r" "request_key q' = Inr key"
    using assms(3) by blast
  from q'(1) assms(5) show ?thesis
    unfolding verified_result_def using clean_attempt_same [OF _ assms(3) q'(2)] by blast
qed

theorem verified_run_is_clean_witness:
  "\<exists>r rep'. run sample_xml default_profile sample_executor Map.empty sample_run_request = (Inr r, rep') \<and>
     rs_status r = RUN_VERIFIED \<and> ((\<exists>a b. rs_attempts r = [a, b] \<and> ea_exit_code a = 0) \<or>
       (\<exists>q'. requests_collide sample_run_request q'))"
proof -
  obtain key where key: "validate_run_request sample_run_request = Inr key" using sample_request_valid by blast
  from sample_run [OF key valid_request_has [OF key]] obtain r where
    "run sample_xml default_profile sample_executor Map.empty sample_run_request = (Inr r, [key \<mapsto> r])" "rs_status r = RUN_VERIFIED"
    by blast
  then show ?thesis
    using verified_run_is_clean [OF rtranclp.rtrancl_refl sample_plain key] by blast
qed

text \<open>Exact replay.  Once a valid request has been answered, every later request with the same
  key gets the same result, whatever executor is passed and whatever ran in between, and the table of
  results does not change.\<close>

theorem exact_replay:
  assumes "validate_run_request q = Inr key" "run xml p ex rep q = (Inr r, rep1)"
    and "(runner_step xml p)\<^sup>*\<^sup>* rep1 rep2" "validate_run_request q' = Inr key"
  shows "run xml p ex' rep2 q' = (Inr r, rep2)"
proof -
  have "rep1 key = Some r" using run_valid_remembers [OF assms(1,2)] .
  moreover have "rep1 \<subseteq>\<^sub>m rep2" using runner_table.run_le [OF assms(3)] .
  ultimately have "rep2 key = Some r" by (force simp: map_le_def)
  then show ?thesis using run_known [OF assms(4)] by blast
qed

theorem exact_replay_witness:
  "\<exists>key r. run sample_xml default_profile sample_executor Map.empty sample_run_request = (Inr r, [key \<mapsto> r]) \<and>
     run sample_xml default_profile (\<lambda>_ _ _. Inl (TimeoutErr, [])) [key \<mapsto> r] sample_run_request = (Inr r, [key \<mapsto> r])"
proof -
  obtain key where key: "validate_run_request sample_run_request = Inr key" using sample_request_valid by blast
  from sample_run [OF key valid_request_has [OF key]] obtain r where
    "run sample_xml default_profile sample_executor Map.empty sample_run_request = (Inr r, [key \<mapsto> r])" by blast
  then show ?thesis using exact_replay [OF key _ rtranclp.rtrancl_refl key] by blast
qed

text \<open>Results survive storage.  With the pinned profile, every result of a run loads back from its
  dictionary: \<open>RunnerResult.from_dict\<close> recomputes both attempts, their artifact and outcome hashes, the
  status, the reasons and the summary, and gives the same result.\<close>

theorem runner_result_roundtrip:
  assumes "load_profile files = Inr default_profile" "(runner_step xml default_profile)\<^sup>*\<^sup>* Map.empty rep"
    and "plain_executor ex" "run xml default_profile ex rep q = (Inr r, rep')"
  shows "from_dict xml files (runner_result_to_dict r) = Inr r"
proof -
  have "table_loads_back xml files rep" using stored.reachable_inv [OF refl assms(2)] .
  then show ?thesis using run_loads_back [OF assms(4,3,1)] assms(1) by (auto simp: table_loads_back_def loads_back_def)
qed

text \<open>The two texts of the pinned profile, without a \<open>uv.lock\<close> beside them.\<close>

definition sample_lock :: pyval where
  "sample_lock = mkdict [(''profile_id'', PStr PROFILE_ID), (''image'', PStr IMAGE), (''image_digest'', PStr IMAGE_DIGEST),
     (''uv_lock_sha256'', PStr (drop 7 LOCK_DIGEST)), (''offline'', PBool True), (''network'', PStr ''none''),
     (''dependency_artifacts'', PList (map (\<lambda>t. PList (elems t)) (elems DEPENDENCY_ARTIFACTS)))]"

definition sample_files :: profile_files where
  "sample_files = \<lparr>pl_manifest = dumps spaced (profile_to_dict default_profile), pl_lock = dumps spaced sample_lock, pl_uv_lock = None\<rparr>"

lemma loads_dumps_dict:
  assumes "list_all (\<lambda>p. is_str (fst p) \<and> jv spaced (snd p)) d" "distinct (map fst d)"
  shows "ebind (dumps spaced (PDict d)) loads = Inr (PDict d)"
proof -
  have "jv spaced (PDict d)" using assms by (simp add: ordered_def spaced_def)
  from loads_dumps [OF wf_styles(3) this] show ?thesis by (auto simp del: dumps.simps)
qed

lemma sample_manifest: "ebind (pl_manifest sample_files) loads = Inr (profile_to_dict default_profile)"
  using loads_dumps_dict [of "items (profile_to_dict default_profile)"]
  by (simp add: sample_files_def profile_to_dict_def default_profile_def mkdict_def COMMAND_def del: dumps.simps)

lemma sample_lock_text: "ebind (pl_lock sample_files) loads = Inr sample_lock"
  using loads_dumps_dict [of "items sample_lock"]
  by (simp add: sample_files_def sample_lock_def mkdict_def DEPENDENCY_ARTIFACTS_def del: dumps.simps)

lemma sample_digests: "digest_check (PStr IMAGE_DIGEST) f = Inr ()" "digest_check (PStr LOCK_DIGEST) f = Inr ()"
proof -
  have "is_sha256 IMAGE_DIGEST" "is_sha256 LOCK_DIGEST" by code_simp+
  then show "digest_check (PStr IMAGE_DIGEST) f = Inr ()" "digest_check (PStr LOCK_DIGEST) f = Inr ()"
    using is_sha256_normalized by (auto simp: digest_check_def text_check_def is_sha256_def)
qed

lemma default_profile_ok: "PythonOCIProfile default_profile = Inr default_profile"
proof -
  have "normalized PROFILE_ID" "normalized IMAGE" by code_simp+
  then show ?thesis
    by (simp add: PythonOCIProfile_def default_profile_def sample_digests COMMAND_def text_check_def not_positive_def num_of_def)
qed

lemma sample_loads: "load_profile sample_files = Inr default_profile"
proof -
  have d: "profile_of (items (profile_to_dict default_profile)) (PTuple (map PStr COMMAND)) = default_profile"
    by (simp add: profile_of_def profile_to_dict_def default_profile_def get_simps)
  have keys: "keys_are (items (profile_to_dict default_profile)) PROFILE_KEYS" "keys_are (items sample_lock) LOCK_KEYS"
    by (simp_all add: keys_are_def has_key_def PROFILE_KEYS_def LOCK_KEYS_def profile_to_dict_def sample_lock_def)
  have get: "get (items (profile_to_dict default_profile)) ''command'' = PList (map PStr COMMAND)"
    "get (items sample_lock) ''offline'' = PBool True" "get (items sample_lock) ''network'' = PStr ''none''"
    "get (items sample_lock) ''uv_lock_sha256'' = PStr (drop 7 LOCK_DIGEST)" "get (items sample_lock) ''profile_id'' = PStr PROFILE_ID"
    "get (items sample_lock) ''image'' = PStr IMAGE" "get (items sample_lock) ''image_digest'' = PStr IMAGE_DIGEST"
    "get (items sample_lock) ''dependency_artifacts'' = PList (map (\<lambda>t. PList (elems t)) (elems DEPENDENCY_ARTIFACTS))"
    by (simp_all add: profile_to_dict_def sample_lock_def default_profile_def get_simps)
  have arts: "tuple_of_tuples (map (\<lambda>t. PList (elems t)) (elems DEPENDENCY_ARTIFACTS)) = Inr DEPENDENCY_ARTIFACTS"
    by (simp add: tuple_of_tuples_def to_tuple_def py_list_def DEPENDENCY_ARTIFACTS_def)
  have eq: "py_eq DEPENDENCY_ARTIFACTS DEPENDENCY_ARTIFACTS" by (simp add: DEPENDENCY_ARTIFACTS_def)
  have lock: "''sha256:'' @ drop 7 LOCK_DIGEST = LOCK_DIGEST" by (simp add: LOCK_DIGEST_def)
  have dict: "is_dict (profile_to_dict default_profile)" "is_dict sample_lock" by (simp_all add: profile_to_dict_def sample_lock_def)
  have uv: "pl_uv_lock sample_files = None" by (simp add: sample_files_def)
  have fields: "pf_profile_id default_profile = PStr PROFILE_ID" "pf_image default_profile = PStr IMAGE"
    "pf_image_digest default_profile = PStr IMAGE_DIGEST" "pf_lock_digest default_profile = PStr LOCK_DIGEST"
    "pf_dependency_artifacts_hash default_profile = PStr DEPENDENCY_ARTIFACTS_HASH" by (simp_all add: default_profile_def)
  show ?thesis
    unfolding load_profile_def sample_manifest sample_lock_text
    by (simp only: ebind_simps dict keys get arts eq uv Let_def simp_thms eseq_simps guard_simps py_eq_PStr type_test_simps option.case
        py_list_def pyval.case d default_profile_ok fields lock)
qed

theorem runner_result_roundtrip_witness:
  "\<exists>r rep'. run sample_xml default_profile sample_executor Map.empty sample_run_request = (Inr r, rep') \<and>
     from_dict sample_xml sample_files (runner_result_to_dict r) = Inr r"
proof -
  obtain key where key: "validate_run_request sample_run_request = Inr key" using sample_request_valid by blast
  from sample_run [OF key valid_request_has [OF key]] obtain r where
    "run sample_xml default_profile sample_executor Map.empty sample_run_request = (Inr r, [key \<mapsto> r])" by blast
  then show ?thesis using runner_result_roundtrip [OF sample_loads rtranclp.rtrancl_refl sample_plain] by blast
qed

end
