(* ===== verification/Service.thy ===== *)
theory Service
  imports Runner_Claims Auth Ledger_Contract
begin

text \<open>
  \<open>product/runtime/service.py\<close>: the certification service that ties acquisition, runner, kernel and
  ledger together.

  The coroutines of the service never await between reading and writing its tables, so each runs as one
  step: \<open>submit_certification\<close> starts a task, and the task (\<open>execute_pipeline\<close>) later runs from start to
  end.  A task that has not started can only be cancelled (\<open>drain\<close>).  The ledger's table is shared with
  other processes and is passed beside the service.  The read port, the executor, the profile files,
  the XML parser and the circumstances of the append are inputs of a pipeline run.
\<close>

section \<open>State\<close>

record job =
  jb_request_id :: string
  jb_idempotency_key :: string
  jb_request_hash :: string
  jb_state :: string
  jb_generation :: int
  jb_payload :: pyval
  jb_task_done :: bool
  jb_response :: "pyval option"
  jb_receipt_bytes :: "string option"
  jb_envelope_bytes :: "string option"
  jb_error_code :: "string option"
  jb_error_message :: "string option"

record service =
  sv_db_path :: path
  sv_ledger_id :: string
  sv_signer :: "signer option"
  sv_admission_stopped :: bool
  sv_in_flight :: "string \<Rightarrow> job option"
  sv_by_idempotency :: "string \<Rightarrow> string option"

definition new_service :: "fs_view \<Rightarrow> path option \<Rightarrow> string \<Rightarrow> signer option \<Rightarrow> service res" where
  "new_service fs db_path ledger_id sg = ebind (resolve_ledger_path fs db_path) (\<lambda>p.
     Inr \<lparr>sv_db_path = p, sv_ledger_id = ledger_id, sv_signer = sg, sv_admission_stopped = False,
       sv_in_flight = Map.empty, sv_by_idempotency = Map.empty\<rparr>)"

section \<open>Reading the ledger\<close>

text \<open>Whether the database file exists and whether a plain read of it succeeds.\<close>

record db_view =
  dv_exists :: bool
  dv_readable :: bool

definition get_current_ledger_generation :: "db_view \<Rightarrow> row list \<Rightarrow> int" where
  "get_current_ledger_generation dv rows =
     (if \<not> dv_exists dv then 0
      else if \<not> dv_readable dv then 0
      else if rows = [] then 0 else rw_committed_generation (last rows))"

definition get_ledger_entry_by_idempotency :: "db_view \<Rightarrow> row list \<Rightarrow> string \<Rightarrow> row option" where
  "get_ledger_entry_by_idempotency dv rows key =
     (if \<not> dv_exists dv then None
      else if \<not> dv_readable dv then None
      else find (\<lambda>r. rw_idempotency_key r = key) rows)"

section \<open>Submission\<close>

definition loads_or_none :: "string \<Rightarrow> pyval" where
  "loads_or_none b = (case loads_bytes b of Inl _ \<Rightarrow> PNone | Inr v \<Rightarrow> v)"

text \<open>\<open>receipt_dict.get("verification") if receipt_dict else None\<close>.\<close>

definition receipt_verification :: "pyval \<Rightarrow> pyval res" where
  "receipt_verification v = (if \<not> truthy v then Inr PNone
     else if is_dict v then Inr (get (items v) ''verification'') else Inl (AttributeErr, ''get''))"

text \<open>The response built from a committed entry.\<close>

definition stored_response :: "string \<Rightarrow> int \<Rightarrow> pyval \<Rightarrow> string \<Rightarrow> string \<Rightarrow> pyval list \<Rightarrow> pyval res" where
  "stored_response request_id generation disp receipt_b env_b ceiling =
     (let receipt = loads_or_none receipt_b; env = loads_or_none env_b in
      ebind (receipt_verification receipt) (\<lambda>ver.
        make_http_response request_id (if \<not> py_eq disp (PStr ''REJECTED'') then ''COMPLETED'' else ''FAILED'')
          generation PNone PNone env ver disp receipt ceiling))"

definition int_of :: "pyval \<Rightarrow> int" where
  "int_of v = (case v of PInt i \<Rightarrow> i | _ \<Rightarrow> 0)"

definition stopped_error :: pyval where
  "stopped_error = make_http_error ''SERVICE_UNAVAILABLE'' None ''service is shutting down; new requests rejected''"

definition conflict_error :: pyval where
  "conflict_error = make_http_error ''IDEMPOTENCY_CONFLICT'' None
     ''idempotency key reused with different canonical request hash''"

definition stale_error :: "int \<Rightarrow> int \<Rightarrow> pyval" where
  "stale_error expected current = make_http_error ''STALE_GENERATION'' None (''expected_generation '' @ show_int expected @
     '' does not match current head generation '' @ show_int current)"

definition invalid_request :: "string list \<Rightarrow> response" where
  "invalid_request errs =
     (if list_ex (contains ''unsupported'') errs
      then (422, make_http_error ''UNSUPPORTED_CONTRACT'' None (hd errs))
      else (400, make_http_error ''MALFORMED_REQUEST'' None (hd errs)))"

definition new_job :: "string \<Rightarrow> string \<Rightarrow> string \<Rightarrow> int \<Rightarrow> pyval \<Rightarrow> job" where
  "new_job request_id key request_hash generation payload =
     \<lparr>jb_request_id = request_id, jb_idempotency_key = key, jb_request_hash = request_hash, jb_state = ''PENDING'',
      jb_generation = generation, jb_payload = payload, jb_task_done = False,
      jb_response = Some (bare_response request_id ''PENDING'' generation), jb_receipt_bytes = None,
      jb_envelope_bytes = None, jb_error_code = None, jb_error_message = None\<rparr>"

text \<open>\<open>job.response or make_http_response(..)\<close>.\<close>

definition job_response :: "job \<Rightarrow> pyval" where
  "job_response j = (case jb_response j of Some r \<Rightarrow> r
     | None \<Rightarrow> bare_response (jb_request_id j) (jb_state j) (jb_generation j))"

definition in_flight_job :: "service \<Rightarrow> string \<Rightarrow> job option" where
  "in_flight_job sv key = (case sv_by_idempotency sv key of None \<Rightarrow> None | Some rid \<Rightarrow> sv_in_flight sv rid)"

definition request_id_of :: "string \<Rightarrow> string" where
  "request_id_of uuid_hex = ''req_'' @ take 16 uuid_hex"

text \<open>\<open>it\<close> is the iteration order of the key sets, \<open>uuid_hex\<close> the random identifier.\<close>

definition submit_certification ::
  "(string list \<Rightarrow> string list) \<Rightarrow> db_view \<Rightarrow> string \<Rightarrow> row list \<Rightarrow> service \<Rightarrow> pyval \<Rightarrow> response res \<times> service" where
  "submit_certification it dv uuid_hex rows sv payload =
     (let errs = validate_certification_request it payload in
      if sv_admission_stopped sv then (Inr (503, stopped_error), sv)
      else if errs \<noteq> [] then (Inr (invalid_request errs), sv)
      else (case compute_canonical_request_hash payload of
        Inl e \<Rightarrow> (Inl e, sv)
      | Inr req_hash \<Rightarrow>
         (let key = str_of (get (items payload) ''idempotency_key'');
              expected = int_of (get (items payload) ''expected_generation'') in
          case get_ledger_entry_by_idempotency dv rows key of
            Some r \<Rightarrow>
              if rw_request_hash r \<noteq> req_hash then (Inr (409, conflict_error), sv)
              else (ebind (stored_response (rw_request_id r) (rw_committed_generation r) (PStr (rw_factual_disposition r))
                      (rw_receipt_bytes r) (rw_envelope_bytes r) (map PStr CLAIM_CEILING)) (\<lambda>resp. Inr (200, resp)), sv)
          | None \<Rightarrow>
             (case in_flight_job sv key of
                Some j \<Rightarrow> (Inr (if jb_request_hash j \<noteq> req_hash then (409, conflict_error) else (202, job_response j)), sv)
              | None \<Rightarrow>
                 (let current = get_current_ledger_generation dv rows in
                  if expected \<noteq> current then (Inr (409, stale_error expected current), sv)
                  else (let rid = request_id_of uuid_hex; j = new_job rid key req_hash expected payload in
                    (Inr (202, job_response j),
                     sv\<lparr>sv_in_flight := (sv_in_flight sv)(rid \<mapsto> j),
                        sv_by_idempotency := (sv_by_idempotency sv)(key \<mapsto> rid)\<rparr>)))))))"

section \<open>The pipeline\<close>

record pipeline_env =
  pe_fs :: fs_view
  pe_port :: "read_port option"
  pe_executor :: "executor option"
  pe_files :: profile_files
  pe_xml :: xml_parser
  pe_appends :: "nat \<Rightarrow> attempt_env"

definition set_state :: "string \<Rightarrow> job \<Rightarrow> job" where
  "set_state st j = j\<lparr>jb_state := st, jb_response := Some (bare_response (jb_request_id j) st (jb_generation j))\<rparr>"

text \<open>The job set to \<open>UNVERIFIABLE\<close> with a code and a message.\<close>

definition unverifiable :: "string \<Rightarrow> string \<Rightarrow> job \<Rightarrow> job" where
  "unverifiable code message j = (set_state ''UNVERIFIABLE'' j)\<lparr>jb_error_code := Some code, jb_error_message := Some message\<rparr>"

definition stale_source_job :: "job \<Rightarrow> job" where
  "stale_source_job = unverifiable ''STALE_SOURCE'' ''acquired PR SHA does not match expected_base_sha / expected_head_sha''"

definition interrupted_job :: "job \<Rightarrow> job" where
  "interrupted_job = unverifiable ''INTERNAL_ERROR'' ''certification pipeline interrupted or unverifiable''"

text \<open>TG-1: the acquisition.\<close>

definition acquire_stage :: "pipeline_env \<Rightarrow> pydict \<Rightarrow> (locator \<times> snapshot) res" where
  "acquire_stage env repo =
     ebind (getitem repo ''owner'') (\<lambda>owner.
     ebind (getitem repo ''name'') (\<lambda>name.
     ebind (getitem repo ''pr_number'') (\<lambda>pr.
     ebind (GitHubPullRequestLocator owner name pr) (\<lambda>loc.
       case pe_port env of
         None \<Rightarrow> Inl (RuntimeErr, ''GitHub read port is not configured'')
       | Some port \<Rightarrow> ebind (acquire_github_pull_request port loc) (\<lambda>s. Inr (loc, s))))))"

definition stale_source :: "pydict \<Rightarrow> snapshot \<Rightarrow> bool" where
  "stale_source repo s \<longleftrightarrow> \<not> py_eq (sn_base_sha s) (get repo ''expected_base_sha'') \<or>
     \<not> py_eq (sn_head_sha s) (get repo ''expected_head_sha'')"

text \<open>TG-2: the runner, fresh for each job.\<close>

definition run_request :: "string \<Rightarrow> snapshot \<Rightarrow> string \<Rightarrow> string \<Rightarrow> string \<Rightarrow> pydict" where
  "run_request request_id s ch ph eh = items (mkdict [(''source_revision'', sn_head_sha s),
     (''source_tree'', sn_head_tree_sha s), (''contract_hash'', PStr ch), (''plan_hash'', PStr ph),
     (''environment_hash'', PStr eh), (''attempt_id'', PStr (''att-'' @ request_id))])"

definition run_stage :: "pipeline_env \<Rightarrow> string \<Rightarrow> pydict \<Rightarrow> snapshot \<Rightarrow> runner_result res" where
  "run_stage env request_id payload s =
     ebind (load_profile (pe_files env)) (\<lambda>p.
       case pe_executor env of
         None \<Rightarrow> Inl (RuntimeErr, ''Runner executor is not configured'')
       | Some ex \<Rightarrow>
           ebind (ebind (getitem payload ''acceptance_contract'') hash_value) (\<lambda>ch.
           ebind (ebind (getitem payload ''verification_plan'') hash_value) (\<lambda>ph.
           ebind (profile_hash p) (\<lambda>eh.
             fst (run (pe_xml env) p ex Map.empty (run_request request_id s ch ph eh))))))"

text \<open>\<open>tuple(v)\<close>.\<close>

definition tuple_of :: "pyval \<Rightarrow> pyval res" where
  "tuple_of v = ebind (py_list v) (\<lambda>xs. Inr (PTuple xs))"

definition pytest_ids :: pyval where
  "pytest_ids = PTuple [PStr ''pytest'']"

text \<open>The contract, change set, plan and evidence of a job.\<close>

definition job_contract :: "string \<Rightarrow> pydict \<Rightarrow> snapshot \<Rightarrow> acceptance_contract res" where
  "job_contract request_id raw s =
     ebind (hash_value (PStr ''requirements'')) (\<lambda>req.
     ebind (tuple_of (get_default raw ''required_verifier_ids'' pytest_ids)) (\<lambda>ids.
     ebind (tuple_of (get_default raw ''allowed_paths'' (sn_changed_paths s))) (\<lambda>paths.
       AcceptanceContract (get_default raw ''contract_id'' (PStr (''ac-'' @ request_id)))
         (get_default raw ''requirements_hash'' (PStr req)) ids paths
         (get_default raw ''deletion_policy'' (PStr ''FORBID'')))))"

definition job_change_set :: "snapshot \<Rightarrow> change_set res" where
  "job_change_set s = ChangeSet (PStr (''pr-'' @ py_str (sn_pr_number s))) (sn_base_sha s) (sn_head_sha s)
     (sn_diff_hash s) (sn_changed_paths s)"

definition job_plan :: "string \<Rightarrow> pydict \<Rightarrow> string \<Rightarrow> string \<Rightarrow> verification_plan res" where
  "job_plan request_id raw ch csh =
     ebind (tuple_of (get_default raw ''required_verifier_ids'' pytest_ids)) (\<lambda>ids.
       VerificationPlan (get_default raw ''plan_id'' (PStr (''plan-'' @ request_id))) (PStr ch) (PStr csh) ids)"

definition job_observation :: "runner_result \<Rightarrow> observation res" where
  "job_observation r =
     ebind (if rs_artifact_hashes r \<noteq> [] then Inr (hd (rs_artifact_hashes r)) else hash_value (PStr ''none'')) (\<lambda>h.
       Observation (PStr ''pytest'') (PStr (if rs_attempt_ids r \<noteq> [] then hd (rs_attempt_ids r) else ''none'')) (PStr h)
         (if rs_status r = RUN_VERIFIED then OBS_PASS else OBS_FAIL))"

definition job_evidence :: "string \<Rightarrow> string \<Rightarrow> string \<Rightarrow> string \<Rightarrow> observation \<Rightarrow> evidence_bundle res" where
  "job_evidence request_id ch csh ph ob =
     EvidenceBundle (PStr (''bundle-'' @ request_id)) (PStr ch) (PStr csh) (PStr ph) (Some [Obj ob]) PNone"

definition job_subjects ::
  "string \<Rightarrow> pydict \<Rightarrow> pydict \<Rightarrow> snapshot \<Rightarrow> runner_result \<Rightarrow> certification_input res" where
  "job_subjects request_id raw_contract raw_plan s r =
     ebind (job_contract request_id raw_contract s) (\<lambda>c.
     ebind (job_change_set s) (\<lambda>cs.
     ebind (contract_hash c) (\<lambda>ch.
     ebind (change_set_hash cs) (\<lambda>csh.
     ebind (job_plan request_id raw_plan ch csh) (\<lambda>p.
     ebind (job_observation r) (\<lambda>ob.
     ebind (plan_hash p) (\<lambda>ph.
     ebind (job_evidence request_id ch csh ph ob) (\<lambda>e.
       Inr \<lparr>ci_contract = Obj c, ci_change_set = Obj cs, ci_plan = Obj p, ci_evidence = Obj e,
            ci_policy_accepted = PBool True, ci_authority_present = PBool True,
            ci_approval_present = PBool True, ci_signing_present = PBool True\<rparr>))))))))"

text \<open>TG-3: the identity envelope.\<close>

definition identity_envelope ::
  "job \<Rightarrow> locator \<Rightarrow> snapshot \<Rightarrow> runner_result \<Rightarrow> evidence_bundle \<Rightarrow> string \<Rightarrow> pyval res" where
  "identity_envelope j loc s r e receipt_h =
     ebind (hash_value (jb_payload j)) (\<lambda>context.
     ebind (bundle_hash e) (\<lambda>bh.
     ebind (ebind (bundle_to_dict e) hash_value) (\<lambda>ih.
     ebind (locator_hash loc) (\<lambda>lh.
     ebind (hash_value (runner_result_to_dict r)) (\<lambda>rh.
     let body = [(''schema'', PStr IDENTITY_ENVELOPE_SCHEMA), (''context_hash'', PStr context),
         (''profile_hash'', PStr (rs_profile_hash r)), (''bundle_hash'', PStr bh), (''ingestion_receipt_hash'', PStr ih),
         (''subject_hash'', PStr lh), (''execution_id'', PStr (''exec-'' @ jb_request_id j)),
         (''attempt_id'', PStr (if rs_attempt_ids r \<noteq> [] then hd (rs_attempt_ids r) else ''att-'' @ jb_request_id j)),
         (''generation'', PStr (show_int (jb_generation j))), (''producer_id'', PStr ''nexus.controller.v1''),
         (''issuer_id'', PStr ''nexus.service.v1''), (''acquisition_snapshot_hash'', sn_freshness_cas s),
         (''runner_result_hash'', PStr rh), (''verification_receipt_hash'', PStr receipt_h),
         (''external_receipt_hashes'', PList [])] in
     ebind (hash_value (mkdict body)) (\<lambda>ident.
       Inr (mkdict (body @ [(''identity_hash'', PStr ident)]))))))))"

text \<open>Everything up to the append: the runner's result, the kernel's result and what is to be stored.\<close>

record evaluation =
  ev_run :: runner_result
  ev_input :: certification_input
  ev_disposition :: disposition
  ev_receipt :: pyval
  ev_receipt_bytes :: string
  ev_envelope :: pyval
  ev_envelope_bytes :: string

definition json_bytes :: "pyval \<Rightarrow> string res" where
  "json_bytes v = ebind (dumps spaced_sorted v) (\<lambda>t. Inr (utf8 t))"

definition the_evidence :: "certification_input \<Rightarrow> evidence_bundle res" where
  "the_evidence ci = (case ci_evidence ci of Obj e \<Rightarrow> Inr e | _ \<Rightarrow> Inl (AttributeErr, ''hash''))"

definition disposition_of :: "certification_result \<Rightarrow> disposition res" where
  "disposition_of res = (case cr_disposition res of Some d \<Rightarrow> Inr d | None \<Rightarrow> Inl (AttributeErr, ''value''))"

definition evaluate_stage :: "pipeline_env \<Rightarrow> job \<Rightarrow> locator \<Rightarrow> snapshot \<Rightarrow> evaluation res" where
  "evaluate_stage env j loc s =
     (let payload = items (jb_payload j); rid = jb_request_id j in
      ebind (run_stage env rid payload s) (\<lambda>r.
      ebind (job_subjects rid (items (get payload ''acceptance_contract'')) (items (get payload ''verification_plan'')) s r) (\<lambda>ci.
      ebind (certify (Obj ci)) (\<lambda>res.
      ebind (receipt_to_dict (cr_receipt res)) (\<lambda>rd.
      ebind (json_bytes rd) (\<lambda>rb.
      ebind (the_evidence ci) (\<lambda>e.
      ebind (obj_hash receipt_core_hash (cr_receipt res)) (\<lambda>rh.
      ebind (identity_envelope j loc s r e rh) (\<lambda>env_dict.
      ebind (json_bytes env_dict) (\<lambda>eb.
      ebind (disposition_of res) (\<lambda>d.
        Inr \<lparr>ev_run = r, ev_input = ci, ev_disposition = d, ev_receipt = rd, ev_receipt_bytes = rb,
             ev_envelope = env_dict, ev_envelope_bytes = eb\<rparr>)))))))))))"

text \<open>TG-4: the append.\<close>

definition job_append_request :: "service \<Rightarrow> job \<Rightarrow> snapshot \<Rightarrow> evaluation \<Rightarrow> ledger_request" where
  "job_append_request sv j s ev = \<lparr>lr_ledger_id = sv_ledger_id sv, lr_request_id = jb_request_id j,
     lr_idempotency_key = jb_idempotency_key j, lr_expected_generation = jb_generation j, lr_attempt = 1,
     lr_canonical_request = jb_payload j, lr_identity_envelope_bytes = ev_envelope_bytes ev,
     lr_completion_receipt_bytes = ev_receipt_bytes ev, lr_source_snapshot_hash = str_of (sn_locator_hash s),
     lr_signer = sv_signer sv, lr_failpoint = None\<rparr>"

definition disposition_state :: "string \<Rightarrow> string" where
  "disposition_state disp = (if disp \<noteq> ''REJECTED'' then ''COMPLETED'' else ''FAILED'')"

definition completed_job :: "job \<Rightarrow> snapshot \<Rightarrow> evaluation \<Rightarrow> int \<Rightarrow> job" where
  "completed_job j s ev generation =
     (let disp = disposition_value (ev_disposition ev);
          j' = j\<lparr>jb_state := disposition_state disp, jb_generation := generation,
                jb_receipt_bytes := Some (ev_receipt_bytes ev), jb_envelope_bytes := Some (ev_envelope_bytes ev)\<rparr> in
      case ebind (receipt_verification (ev_receipt ev)) (\<lambda>ver.
             make_http_response (jb_request_id j) (jb_state j') generation (snapshot_to_dict s)
               (runner_result_to_dict (ev_run ev)) (ev_envelope ev) ver (PStr disp) (ev_receipt ev) (map PStr CLAIM_CEILING)) of
        Inl _ \<Rightarrow> interrupted_job j'
      | Inr resp \<Rightarrow> j'\<lparr>jb_response := Some resp\<rparr>)"

definition refused_job :: "job \<Rightarrow> append_result \<Rightarrow> job" where
  "refused_job j res = unverifiable (append_status_value (ar_status res))
     (case ar_error_reason res of Some m \<Rightarrow> if m = [] then ''ledger append failed'' else m | None \<Rightarrow> ''ledger append failed'') j"

definition append_stage :: "pipeline_env \<Rightarrow> service \<Rightarrow> job \<Rightarrow> snapshot \<Rightarrow> evaluation \<Rightarrow> row list \<Rightarrow> job \<times> row list" where
  "append_stage env sv j s ev rows =
     (case append_or_replay (pe_fs env) (Some (sv_db_path sv)) (pe_appends env) rows (job_append_request sv j s ev) of
        (Inl _, rows') \<Rightarrow> (interrupted_job j, rows')
      | (Inr res, rows') \<Rightarrow>
          (if ar_status res = APPENDED \<or> ar_status res = REPLAYED then completed_job j s ev (ar_generation res)
           else refused_job j res, rows'))"

definition execute_pipeline :: "pipeline_env \<Rightarrow> service \<Rightarrow> job \<Rightarrow> row list \<Rightarrow> job \<times> row list" where
  "execute_pipeline env sv job rows =
     (let j = (set_state ''RUNNING'' job)\<lparr>jb_task_done := True\<rparr>; repo = items (get (items (jb_payload job)) ''repository'') in
      case acquire_stage env repo of
        Inl _ \<Rightarrow> (interrupted_job j, rows)
      | Inr (loc, s) \<Rightarrow>
          if stale_source repo s then (stale_source_job j, rows)
          else (case evaluate_stage env j loc s of
              Inl _ \<Rightarrow> (interrupted_job j, rows)
            | Inr ev \<Rightarrow> append_stage env sv j s ev rows))"

section \<open>Status and receipt\<close>

definition not_found_error :: "string \<Rightarrow> string \<Rightarrow> pyval" where
  "not_found_error request_id message = make_http_error ''REQUEST_NOT_FOUND'' (Some request_id) message"

definition read_entry :: "read_env \<Rightarrow> service \<Rightarrow> row list \<Rightarrow> string \<Rightarrow> ledger_entry option res" where
  "read_entry env sv rows request_id =
     ebind (get_by_request_id (env\<lparr>re_db_path := Some (sv_db_path sv)\<rparr>) rows request_id) (\<lambda>res.
       Inr (if \<not> rr_found res then None else rr_entry res))"

definition get_status :: "read_env \<Rightarrow> service \<Rightarrow> row list \<Rightarrow> string \<Rightarrow> response res" where
  "get_status env sv rows request_id =
     (case Option.bind (sv_in_flight sv request_id) jb_response of
        Some resp \<Rightarrow> Inr (200, resp)
      | None \<Rightarrow> ebind (read_entry env sv rows request_id) (\<lambda>found. case found of
            None \<Rightarrow> Inr (404, not_found_error request_id ''request ID not found'')
          | Some e \<Rightarrow> ebind (stored_response request_id (le_committed_generation e) (le_factual_disposition e)
                (le_receipt_bytes e) (le_envelope_bytes e) (le_claim_ceiling e)) (\<lambda>resp. Inr (200, resp))))"

definition stored_receipt :: "read_env \<Rightarrow> service \<Rightarrow> row list \<Rightarrow> string \<Rightarrow> response res" where
  "stored_receipt env sv rows request_id =
     ebind (read_entry env sv rows request_id) (\<lambda>found. case found of
         None \<Rightarrow> Inr (404, not_found_error request_id ''request ID not found'')
       | Some e \<Rightarrow> (case loads_bytes (le_receipt_bytes e) of
             Inr v \<Rightarrow> Inr (200, v)
           | Inl _ \<Rightarrow> Inr (404, not_found_error request_id ''receipt data unavailable'')))"

definition get_receipt :: "read_env \<Rightarrow> service \<Rightarrow> row list \<Rightarrow> string \<Rightarrow> response res" where
  "get_receipt env sv rows request_id =
     (case sv_in_flight sv request_id of
        None \<Rightarrow> stored_receipt env sv rows request_id
      | Some j \<Rightarrow>
          if List.member [''PENDING'', ''RUNNING''] (jb_state j)
          then Inr (409, make_http_error ''RESULT_NOT_READY'' (Some request_id) ''certification result is not ready'')
          else (case jb_receipt_bytes j of
              Some b \<Rightarrow> if b = [] then stored_receipt env sv rows request_id
                else (case loads_bytes b of Inr v \<Rightarrow> Inr (200, v) | Inl _ \<Rightarrow> stored_receipt env sv rows request_id)
            | None \<Rightarrow> stored_receipt env sv rows request_id))"

section \<open>Receipt verification\<close>

definition receipt_error :: "string \<Rightarrow> response" where
  "receipt_error message = (422, make_http_error ''RECEIPT_INVALID'' None message)"

definition verify_response :: "string \<Rightarrow> string \<Rightarrow> string list \<Rightarrow> string \<Rightarrow> pyval \<Rightarrow> pyval" where
  "verify_response scope status reasons claimed recomputed = mkdict [(''scope'', PStr scope), (''status'', PStr status),
     (''reason_codes'', PList (map PStr reasons)), (''receipt_hash'', PStr claimed), (''recomputed_hash'', recomputed),
     (''claim_ceiling'', PList (map PStr CLAIM_CEILING))]"

definition item_tuple :: "pyval \<Rightarrow> string \<Rightarrow> pyval res" where
  "item_tuple v k = ebind (subscript v k) tuple_of"

definition original_contract :: "pyval \<Rightarrow> acceptance_contract res" where
  "original_contract raw =
     ebind (subscript raw ''contract_id'') (\<lambda>cid.
     ebind (subscript raw ''requirements_hash'') (\<lambda>rh.
     ebind (item_tuple raw ''required_verifier_ids'') (\<lambda>ids.
     ebind (item_tuple raw ''allowed_paths'') (\<lambda>paths.
     ebind (subscript raw ''deletion_policy'') (\<lambda>dp. AcceptanceContract cid rh ids paths dp)))))"

definition original_change_set :: "pyval \<Rightarrow> change_set res" where
  "original_change_set raw =
     ebind (subscript raw ''change_set_id'') (\<lambda>cid.
     ebind (subscript raw ''source_revision'') (\<lambda>src.
     ebind (subscript raw ''target_revision'') (\<lambda>tgt.
     ebind (subscript raw ''diff_hash'') (\<lambda>dh.
     ebind (item_tuple raw ''paths'') (\<lambda>paths. ChangeSet cid src tgt dh paths)))))"

definition original_plan :: "pyval \<Rightarrow> string \<Rightarrow> string \<Rightarrow> verification_plan res" where
  "original_plan raw ch csh =
     ebind (subscript raw ''plan_id'') (\<lambda>pid.
     ebind (item_tuple raw ''required_verifier_ids'') (\<lambda>ids. VerificationPlan pid (PStr ch) (PStr csh) ids))"

text \<open>\<open>ObservationStatus(v)\<close>: only a text equal to a member's value is one.\<close>

definition status_of_value :: "pyval \<Rightarrow> pyval res" where
  "status_of_value v = (if isinstance_str v then observation_status_of (str_of v)
     else Inl (ValueErr, ''not a valid ObservationStatus''))"

definition original_observation :: "pyval \<Rightarrow> observation res" where
  "original_observation item =
     (if \<not> is_dict item then Inl (AttributeErr, ''get'')
      else ebind (getitem (items item) ''artifact_id'') (\<lambda>aid.
           ebind (getitem (items item) ''artifact_hash'') (\<lambda>ah.
           ebind (ebind (getitem (items item) ''status'') status_of_value) (\<lambda>st.
             Observation (get_default (items item) ''verifier_id'' (get_default (items item) ''method'' (PStr ''pytest'')))
               aid ah st))))"

definition original_evidence :: "pyval \<Rightarrow> observation list \<Rightarrow> string \<Rightarrow> string \<Rightarrow> string \<Rightarrow> evidence_bundle res" where
  "original_evidence raw obs ch csh ph = ebind (subscript raw ''bundle_id'') (\<lambda>bid.
     EvidenceBundle bid (PStr ch) (PStr csh) (PStr ph) (Some (map Obj obs)) PNone)"

text \<open>\<open>receipt.get("certification", {}).get("policy", {})\<close> and the policy fields, an absent one read as
  true.\<close>

definition dict_get :: "pyval \<Rightarrow> string \<Rightarrow> pyval \<Rightarrow> pyval res" where
  "dict_get v k dflt = (if is_dict v then Inr (get_default (items v) k dflt) else Inl (AttributeErr, ''get''))"

definition or_true :: "pyval \<Rightarrow> pyval" where
  "or_true v = (if v \<noteq> PNone then v else PBool True)"

definition receipt_policy :: "pyval \<Rightarrow> policy res" where
  "receipt_policy receipt =
     ebind (dict_get receipt ''certification'' (PDict [])) (\<lambda>c.
     ebind (dict_get c ''policy'' (PDict [])) (\<lambda>d.
     ebind (dict_get d ''accepted'' PNone) (\<lambda>a.
       Inr \<lparr>accepted = a, authority_present = get (items d) ''authority_present'',
            approval_present = get (items d) ''approval_present'', signing_present = get (items d) ''signing_present''\<rparr>)))"

definition original_input :: "pyval \<Rightarrow> pyval \<Rightarrow> certification_input res" where
  "original_input receipt inputs =
     ebind (subscript inputs ''acceptance_contract'') (\<lambda>raw_c.
     ebind (subscript inputs ''change_set'') (\<lambda>raw_cs.
     ebind (subscript inputs ''verification_plan'') (\<lambda>raw_p.
     ebind (subscript inputs ''evidence'') (\<lambda>raw_e.
     ebind (original_contract raw_c) (\<lambda>c.
     ebind (original_change_set raw_cs) (\<lambda>cs.
     ebind (contract_hash c) (\<lambda>ch.
     ebind (change_set_hash cs) (\<lambda>csh.
     ebind (original_plan raw_p ch csh) (\<lambda>p.
     ebind (ebind (subscript raw_e ''observations'') py_list) (\<lambda>rows.
     ebind (emap original_observation rows) (\<lambda>obs.
     ebind (plan_hash p) (\<lambda>ph.
     ebind (original_evidence raw_e obs ch csh ph) (\<lambda>e.
     ebind (receipt_policy receipt) (\<lambda>po.
       Inr \<lparr>ci_contract = Obj c, ci_change_set = Obj cs, ci_plan = Obj p, ci_evidence = Obj e,
            ci_policy_accepted = or_true (accepted po), ci_authority_present = or_true (authority_present po),
            ci_approval_present = or_true (approval_present po), ci_signing_present = or_true (signing_present po)\<rparr>))))))))))))))"

definition recomputed_hash :: "pyval \<Rightarrow> pyval \<Rightarrow> string res" where
  "recomputed_hash receipt inputs =
     ebind (original_input receipt inputs) (\<lambda>ci. ebind (certify (Obj ci)) (\<lambda>res. obj_hash receipt_core_hash (cr_receipt res)))"

definition full_verification :: "pyval \<Rightarrow> pyval \<Rightarrow> string \<Rightarrow> response" where
  "full_verification receipt inputs claimed =
     (if \<not> truthy inputs \<or> \<not> is_dict inputs
      then (200, verify_response ''FULL_RECOMPUTED'' ''UNVERIFIABLE'' [''MISSING_ORIGINAL_INPUTS''] claimed PNone)
      else (case recomputed_hash receipt inputs of
          Inl _ \<Rightarrow> receipt_error ''failed to recompute receipt from original_inputs''
        | Inr h \<Rightarrow> if h = claimed then (200, verify_response ''FULL_RECOMPUTED'' ''VALID'' [] claimed (PStr h))
            else (200, verify_response ''FULL_RECOMPUTED'' ''INVALID'' [''RECOMPUTED_HASH_MISMATCH''] claimed (PStr h))))"

definition verify_receipt :: "pyval \<Rightarrow> response res" where
  "verify_receipt payload =
     ebind (validate_receipt_verify_request payload) (\<lambda>errs.
       if errs \<noteq> [] then Inr (receipt_error (hd errs))
       else (let receipt = get (items payload) ''receipt''; claimed = get (items receipt) ''receipt_hash'' in
         if \<not> truthy claimed \<or> \<not> isinstance_str claimed then Inr (receipt_error ''receipt missing receipt_hash'')
         else ebind (hash_value (PDict (without_key (items receipt) ''receipt_hash''))) (\<lambda>expected.
           if str_of claimed \<noteq> expected then Inr (receipt_error ''receipt_hash does not match canonical receipt body'')
           else if py_eq (get (items payload) ''requested_scope'') (PStr ''FULL'')
           then Inr (full_verification receipt (get (items payload) ''original_inputs'') (str_of claimed))
           else Inr (200, verify_response ''ENVELOPE_ONLY'' ''VALID'' [] (str_of claimed) PNone))))"

section \<open>Shutting down\<close>

definition stop_admission :: "service \<Rightarrow> service" where
  "stop_admission sv = sv\<lparr>sv_admission_stopped := True\<rparr>"

definition cancel_job :: "job \<Rightarrow> job" where
  "cancel_job j = j\<lparr>jb_task_done := True\<rparr>"

text \<open>\<open>drain\<close>: admission stops, and after the wait the tasks still pending are cancelled.  The pipelines
  that run during the wait are steps of their own; \<open>drain\<close> is what it does after them.\<close>

definition drain :: "service \<Rightarrow> service" where
  "drain sv = (let sv' = stop_admission sv in
     sv'\<lparr>sv_in_flight := (\<lambda>rid. map_option (\<lambda>j. if jb_task_done j then j else cancel_job j) (sv_in_flight sv' rid))\<rparr>)"

end
