(* ===== verification/Service_Json.thy ===== *)
theory Service_Json
  imports Service
begin

text \<open>
  What the service stores and reads back: \<open>json.dumps(.., sort_keys=True)\<close> loads as the value with every
  object's keys in order, so the request a pipeline makes to the ledger always parses.
\<close>

section \<open>Sorting the keys everywhere\<close>

function (sequential) sort_deep :: "pyval \<Rightarrow> pyval" where
  "sort_deep (PList xs) = PList (map sort_deep xs)"
| "sort_deep (PDict d) = PDict (ordered spaced_sorted (map (\<lambda>p. (fst p, sort_deep (snd p))) d))"
| "sort_deep v = v"
  by pat_completeness auto
termination
proof (relation "measure size")
  fix xs :: "pyval list" and x assume "x \<in> set xs"
  then show "(x, PList xs) \<in> measure size" by (auto dest: size_list_estimation' [where f = size and y = "size x"])
next
  fix d :: pydict and p assume "p \<in> set d"
  then have "size_prod size size p \<le> size_list (size_prod size size) d" by (auto intro: size_list_estimation')
  then show "(snd p, PDict d) \<in> measure size" by (cases p) auto
qed simp

lemma ordered_map: "ordered st (map (\<lambda>p. (fst p, f (snd p))) d) = map (\<lambda>p. (fst p, f (snd p))) (ordered st d)"
  by (simp add: ordered_def sort_key_map)

lemma emap_map: "emap f (map g xs) = emap (\<lambda>x. f (g x)) xs"
  by (induction xs) auto

lemma dumps_sort_deep: "dumps spaced_sorted (sort_deep v) = dumps spaced_sorted v"
proof (induction v rule: sort_deep.induct)
  case (1 xs)
  have "emap (dumps spaced_sorted) (map sort_deep xs) = emap (dumps spaced_sorted) xs"
    unfolding emap_map by (rule emap_cong) (use 1 in auto)
  then show ?case by simp
next
  case (2 d)
  let ?f = "\<lambda>p. (fst p, sort_deep (snd p))"
  let ?F = "\<lambda>p. ebind (dumps spaced_sorted (snd p)) (\<lambda>t. Inr (json_string spaced_sorted (str_of (fst p)) @ key_sep spaced_sorted @ t))"
  have "emap ?F (map ?f (ordered spaced_sorted d)) = emap ?F (ordered spaced_sorted d)"
    unfolding emap_map by (rule emap_cong) (use 2 in auto)
  moreover have "list_all (\<lambda>p. isinstance_str (fst p)) (map ?f d) = list_all (\<lambda>p. isinstance_str (fst p)) d"
    by (simp add: list_all_iff)
  ultimately show ?case by (simp only: sort_deep.simps dumps_ordered) (simp add: ordered_map list_all_iff)
qed simp_all

lemma ordered_spaced [simp]: "ordered spaced d = d"
  by (simp add: ordered_def spaced_def)

lemma jv_sort_deep: "jv spaced v \<Longrightarrow> jv spaced_sorted (sort_deep v)"
proof (induction v rule: sort_deep.induct)
  case (1 xs)
  then show ?case by (auto simp: list_all_iff)
next
  case (2 d)
  let ?f = "\<lambda>p. (fst p, sort_deep (snd p))"
  have "distinct (map fst (ordered spaced_sorted (map ?f d)))"
    using "2.prems" by (intro distinct_ordered) (simp add: comp_def)
  then show ?case using 2 by (auto simp: list_all_iff)
qed (simp_all)

lemma loads_sorted:
  assumes "jv spaced v" "json_bytes v = Inr b"
  shows "loads_bytes b = Inr (sort_deep v)"
proof -
  obtain t where t: "dumps spaced_sorted (sort_deep v) = Inr t" "b = utf8 t"
    using assms(2) by (auto simp: json_bytes_def ebind_Inr_iff dumps_sort_deep)
  show ?thesis unfolding t(2) by (rule loads_bytes_dumps [OF wf_styles(2) jv_sort_deep [OF assms(1)] t(1)])
qed

lemma json_bytes_total: "jv spaced v \<Longrightarrow> \<exists>b. json_bytes v = Inr b"
  using loads_dumps [OF wf_styles(2) jv_sort_deep, of v] by (auto simp: json_bytes_def dumps_sort_deep)

lemma json_bytes_nonempty: "json_bytes v = Inr b \<Longrightarrow> jv spaced v \<Longrightarrow> b \<noteq> []"
proof
  assume b: "json_bytes v = Inr b" "jv spaced v" "b = []"
  have "loads_bytes [] = Inr (sort_deep v)" using loads_sorted [OF b(2,1)] b(3) by simp
  then show False by (simp add: loads_bytes_def loads_def loads_fuel_def skip_ws_def)
qed

text \<open>Reading a key of the sorted value.\<close>

lemma dget_sort_deep:
  assumes "distinct (map fst d)" "list_all (\<lambda>p. is_str (fst p)) d"
  shows "dget (items (sort_deep (PDict d))) k = map_option sort_deep (dget d k)"
proof -
  let ?e = "map (\<lambda>p. (fst p, sort_deep (snd p))) d"
  have fst: "map fst ?e = map fst d" by simp
  have "dget (ordered spaced_sorted ?e) k = dget ?e k"
  proof (rule dget_set_eq)
    show "distinct (map fst (ordered spaced_sorted ?e))" by (rule distinct_ordered) (simp only: fst assms(1))
    show "distinct (map fst ?e)" by (simp only: fst assms(1))
    show "\<forall>p \<in> set (ordered spaced_sorted ?e). is_str (fst p)" using assms(2) by (auto simp: list_all_iff)
  qed simp
  moreover have "dget ?e k = map_option sort_deep (dget d k)" by (induction d) auto
  ultimately show ?thesis by simp
qed

lemma get_sort_deep:
  "distinct (map fst d) \<Longrightarrow> list_all (\<lambda>p. is_str (fst p)) d \<Longrightarrow> get (items (sort_deep (PDict d))) k = sort_deep (get d k)"
  using dget_sort_deep [of d k] by (auto simp: get_def split: option.splits)

lemma getitem_sort_deep:
  "distinct (map fst d) \<Longrightarrow> list_all (\<lambda>p. is_str (fst p)) d \<Longrightarrow> getitem d k = Inr v \<Longrightarrow>
     getitem (items (sort_deep (PDict d))) k = Inr (sort_deep v)"
  using dget_sort_deep [of d k] by (auto simp: getitem_def split: option.splits)

lemma sort_deep_mkdict: "\<exists>d. sort_deep (mkdict kvs) = PDict d"
  by (simp add: mkdict_def)

lemma mkdict_keys: "list_all (\<lambda>p. is_str (fst p)) (items (mkdict kvs))" "map fst (items (mkdict kvs)) = map (\<lambda>p. PStr (fst p)) kvs"
  by (auto simp: list_all_iff)

end
