(* ===== verification/Service_Properties.thy ===== *)
theory Service_Properties
  imports Service_Json
begin

text \<open>
  The state of the service under any interleaving of submissions, pipelines, shutdown and the other
  processes' appends: what every job in flight satisfies, and what later states keep.
\<close>

section \<open>The kernel's receipt\<close>

lemma kernel_receipt:
  assumes "certify (Obj inp) = Inr res"
  obtains ch csh ph eh st codes i h disp where "cr_disposition res = Some disp"
    "receipt_to_dict (cr_receipt res) = Inr (mkdict (receipt_fields ch csh ph eh st codes i disp (input_policy inp) @
       [(''receipt_hash'', PStr h)]))" "policy_ok (input_policy inp)" "is_sha256 h"
    "obj_hash receipt_core_hash (cr_receipt res) = Inr h"
    "hash_value (mkdict (receipt_fields ch csh ph eh st codes i disp (input_policy inp))) = Inr h"
  using assms
proof (rule certify_result_shape)
  fix c cs p e ch csh ph eh st codes i
  let ?po = "input_policy inp"
  let ?d = "certify_result (Obj (mk_result st codes i)) ?po"
  let ?r = "receipt_of ch csh ph eh (mk_result st codes i) ?po"
  assume po: "policy_ok ?po" and r: "res = \<lparr>cr_verification = Obj (mk_result st codes i), cr_disposition = Some ?d, cr_receipt = Obj ?r\<rparr>"
  obtain h where h: "hash_value (mkdict (receipt_fields ch csh ph eh st codes i ?d ?po)) = Inr h" "is_sha256 h"
    "receipt_core_hash ?r = Inr h"
    "serialize_receipt ?r = Inr (mkdict (receipt_fields ch csh ph eh st codes i ?d ?po @ [(''receipt_hash'', PStr h)]))"
    using serialize_receipt_of [OF po] by metis
  have "rc_claimed_receipt_hash ?r = PNone" by (simp add: receipt_of_def)
  then have "receipt_to_dict (Obj ?r) = serialize_receipt ?r"
    by (simp add: receipt_to_dict_def claim_differs_def)
  then show ?thesis using that [of ?d ch csh ph eh st codes i h] r po h by (simp add: obj_hash_def)
qed

lemma sort_deep_strs [simp]: "sort_deep (PList (map PStr xs)) = PList (map PStr xs)"
  by (simp add: comp_def)

lemma getitem_get: "get d k \<noteq> PNone \<Longrightarrow> getitem d k = Inr (get d k)"
  by (auto simp: get_def getitem_def split: option.splits)

lemma parse_receipt_of:
  assumes "loads_bytes b = Inr (PDict D)" "get D ''receipt_schema'' = PStr CERTIFICATION_RECEIPT_SCHEMA"
    and "get D ''receipt_hash'' = PStr h" "h \<noteq> []" "get D ''certification'' = PDict c"
    and "get c ''disposition'' = PStr d" "get D ''claim_ceiling'' = PList cc"
  shows "parse_receipt b = Inr (h, PStr d, cc)"
  using assms getitem_get [of D "''certification''"] getitem_get [of c "''disposition''"] getitem_get [of D "''claim_ceiling''"]
  by (simp add: parse_receipt_def as_value_error_def subscript_def truthy_def py_list_def)

lemma parse_kernel_receipt:
  assumes po: "policy_ok po"
    and b: "json_bytes (mkdict (receipt_fields ch csh ph eh st codes i disp po @ [(''receipt_hash'', PStr h)])) = Inr b" "h \<noteq> []"
  shows "parse_receipt b = Inr (h, PStr (disposition_value disp), map PStr CLAIM_CEILING)"
proof -
  let ?kvs = "receipt_fields ch csh ph eh st codes i disp po @ [(''receipt_hash'', PStr h)]"
  let ?c = "[(PStr ''disposition'', PStr (disposition_value disp)), (PStr ''policy'', policy_dict po)]"
  have "mkdict ?kvs = PDict (items (mkdict ?kvs))" unfolding items_mkdict by (simp only: mkdict_def)
  then obtain d where d: "mkdict ?kvs = PDict d" "d = items (mkdict ?kvs)" by blast
  obtain D where D: "sort_deep (PDict d) = PDict D" by simp
  obtain C where C: "sort_deep (PDict ?c) = PDict C" by simp
  have "map fst d = map PStr (map fst ?kvs)" unfolding d(2) mkdict_keys(2) by simp
  also have "map fst ?kvs = receipt_keys @ [''receipt_hash'']" by (simp add: map_fst_receipt_fields)
  finally have "distinct (map fst d)" by (simp add: receipt_keys_def)
  moreover have "list_all (\<lambda>p. is_str (fst p)) d" unfolding d(2) by (rule mkdict_keys)
  ultimately have get: "get D k = sort_deep (get d k)" for k using get_sort_deep [of d k] by (simp only: D type_test_simps(14))
  have "get C ''disposition'' = sort_deep (get ?c ''disposition'')"
    using get_sort_deep [of ?c "''disposition''"] by (simp only: C type_test_simps(14)) simp
  then have disp: "get C ''disposition'' = PStr (disposition_value disp)" by (simp add: get_def)
  note f = get_receipt_fields [OF d(2)]
  have cert: "get D ''certification'' = PDict C"
    unfolding get f(10) C [symmetric] by (simp only: mkdict_def) simp
  show ?thesis
  proof (rule parse_receipt_of [OF _ _ _ b(2) cert disp])
    show "loads_bytes b = Inr (PDict D)"
      using loads_sorted [OF jv_receipt_fields(2) [OF po] b(1)] by (simp only: d(1) D)
  qed (simp_all add: get f del: sort_deep.simps(1))
qed


section \<open>The stages of a pipeline\<close>

lemma evaluated:
  assumes "evaluate_stage env j loc s = Inr ev"
  obtains res h where "run_stage env (jb_request_id j) (items (jb_payload j)) s = Inr (ev_run ev)"
    "job_subjects (jb_request_id j) (items (get (items (jb_payload j)) ''acceptance_contract''))
       (items (get (items (jb_payload j)) ''verification_plan'')) s (ev_run ev) = Inr (ev_input ev)"
    "certify (Obj (ev_input ev)) = Inr res" "cr_disposition res = Some (ev_disposition ev)"
    "receipt_to_dict (cr_receipt res) = Inr (ev_receipt ev)" "json_bytes (ev_receipt ev) = Inr (ev_receipt_bytes ev)"
    "obj_hash receipt_core_hash (cr_receipt res) = Inr h"
    "\<exists>e. identity_envelope j loc s (ev_run ev) e h = Inr (ev_envelope ev)" "json_bytes (ev_envelope ev) = Inr (ev_envelope_bytes ev)"
  using assms
  by (auto simp: evaluate_stage_def Let_def ebind_Inr_iff disposition_of_def split: option.splits) blast

text \<open>The stored receipt parses to the kernel's disposition and its own hash.\<close>

lemma evaluation_receipt:
  assumes "evaluate_stage env j loc s = Inr ev"
  obtains h d where "parse_receipt (ev_receipt_bytes ev) = Inr (h, PStr (disposition_value (ev_disposition ev)), map PStr CLAIM_CEILING)"
    "is_sha256 h" "ev_receipt ev = PDict d" "get d ''receipt_hash'' = PStr h" "jv spaced (ev_receipt ev)"
    "is_dict (get d ''verification'')" "hash_value (PDict (without_key d ''receipt_hash'')) = Inr h"
  using assms
proof (rule evaluated)
  fix res
  assume c: "certify (Obj (ev_input ev)) = Inr res" "cr_disposition res = Some (ev_disposition ev)"
    "receipt_to_dict (cr_receipt res) = Inr (ev_receipt ev)" "json_bytes (ev_receipt ev) = Inr (ev_receipt_bytes ev)"
  let ?po = "input_policy (ev_input ev)"
  from c(1) obtain ch csh ph eh st codes i h disp where k: "cr_disposition res = Some disp"
    "receipt_to_dict (cr_receipt res) = Inr (mkdict (receipt_fields ch csh ph eh st codes i disp ?po @ [(''receipt_hash'', PStr h)]))"
    "policy_ok ?po" "is_sha256 h"
    "hash_value (mkdict (receipt_fields ch csh ph eh st codes i disp ?po)) = Inr h"
    by (rule kernel_receipt)
  let ?m = "mkdict (receipt_fields ch csh ph eh st codes i disp ?po @ [(''receipt_hash'', PStr h)])"
  have "disp = ev_disposition ev" "ev_receipt ev = ?m" using k c by auto
  moreover obtain d where d: "?m = PDict d" "d = items ?m" unfolding mkdict_def by auto
  moreover have "h \<noteq> []" using k(4) by (auto simp: is_sha256_def)
  moreover note f = get_receipt_fields [OF d(2)]
  moreover have "is_dict (get d ''verification'')" unfolding f by (simp add: mkdict_def)
  moreover have "hash_value (PDict (without_key d ''receipt_hash'')) = Inr h"
    unfolding d(2) without_receipt_hash by (rule k(5))
  ultimately show ?thesis
    using that [of h d] parse_kernel_receipt [OF k(3)] jv_receipt_fields(2) [OF k(3)] k c by metis
qed

text \<open>The response of a finished job can always be built.\<close>

lemma py_dict_mkdict: "py_dict (mkdict kvs) = Inr (mkdict kvs)"
  by (simp add: py_dict_def mkdict_def)

lemma opt_dict_dict: "is_dict v \<Longrightarrow> opt_dict v = Inr v"
  by (auto simp: opt_dict_def py_dict_def is_dict_def split: pyval.splits)

lemma to_dict_dicts: "is_dict (snapshot_to_dict s)" "is_dict (runner_result_to_dict r)"
  by (simp_all add: snapshot_to_dict_def runner_result_to_dict_def mkdict_def)

lemma envelope_dict: "identity_envelope j loc s r e h = Inr v \<Longrightarrow> is_dict v"
  by (auto simp: identity_envelope_def Let_def ebind_Inr_iff mkdict_def)

lemma completed_job_ok:
  assumes ev: "evaluate_stage env j0 loc s = Inr ev"
  obtains resp where "completed_job j s ev g = j\<lparr>jb_state := disposition_state (disposition_value (ev_disposition ev)),
      jb_generation := g, jb_receipt_bytes := Some (ev_receipt_bytes ev), jb_envelope_bytes := Some (ev_envelope_bytes ev),
      jb_response := Some resp\<rparr>"
    "conforms HTTP_RESPONSE_SCHEMA resp"
    "get (items resp) ''request_id'' = PStr (jb_request_id j)"
    "get (items resp) ''state'' = PStr (disposition_state (disposition_value (ev_disposition ev)))"
    "get (items resp) ''generation'' = PInt g"
    "get (items resp) ''disposition'' = PStr (disposition_value (ev_disposition ev))"
    "get (items resp) ''receipt'' = ev_receipt ev"
proof -
  let ?disp = "disposition_value (ev_disposition ev)"
  from ev obtain h d where r: "ev_receipt ev = PDict d" "is_dict (get d ''verification'')" "get d ''receipt_hash'' = PStr h"
    by (rule evaluation_receipt)
  obtain e k where "identity_envelope j0 loc s (ev_run ev) e k = Inr (ev_envelope ev)"
    using ev by (rule evaluated) blast
  then have e: "is_dict (ev_envelope ev)" by (rule envelope_dict)
  have "truthy (PDict d)" using r(3) by (auto simp: truthy_def get_def)
  then have v: "receipt_verification (ev_receipt ev) = Inr (get d ''verification'')"
    unfolding r(1) by (simp add: receipt_verification_def)
  let ?resp = "mkdict [(''request_id'', PStr (jb_request_id j)), (''state'', PStr (disposition_state ?disp)), (''generation'', PInt g),
         (''acquisition'', snapshot_to_dict s), (''execution'', runner_result_to_dict (ev_run ev)), (''evidence'', ev_envelope ev),
         (''verification'', get d ''verification''), (''disposition'', PStr ?disp), (''receipt'', ev_receipt ev),
         (''claim_ceiling'', PList (map PStr CLAIM_CEILING))]"
  have m: "make_http_response (jb_request_id j) (disposition_state ?disp) g (snapshot_to_dict s) (runner_result_to_dict (ev_run ev))
      (ev_envelope ev) (get d ''verification'') (PStr ?disp) (ev_receipt ev) (map PStr CLAIM_CEILING) = Inr ?resp"
    using opt_dict_dict [OF to_dict_dicts(1)] opt_dict_dict [OF to_dict_dicts(2)] opt_dict_dict [OF e] opt_dict_dict [OF r(2)]
      opt_dict_dict [of "ev_receipt ev"] r(1)
    by (simp add: make_http_response_def)
  have "conforms HTTP_RESPONSE_SCHEMA ?resp"
  proof (rule response_conforms [OF m])
    show "List.member job_states (disposition_state ?disp)" by (simp add: job_states_def disposition_state_def)
    show "List.member dispositions (PStr ?disp)" by (cases "ev_disposition ev") (simp_all add: dispositions_def)
  qed (simp add: list_all_iff)
  then show ?thesis using that [of ?resp] m v by (simp add: completed_job_def Let_def get_simps)
qed


section \<open>What a certified evaluation shows\<close>

lemma fresh_run_verified:
  assumes "run xml p ex Map.empty q = (Inr r, rep)" "plain_executor ex"
  shows "verified_result xml q r"
  using assms(1)
proof (cases rule: run_cases)
  case (judged key raw1 raw2 a b)
  then have "plain_dict raw1" "plain_dict raw2" using assms(2) by (auto simp: plain_executor_def)
  then show ?thesis
    using judge_verified [OF judged(7)] attempt_clean [OF judged(4) _ judged(1)] attempt_clean [OF judged(6) _ judged(1)] by blast
qed (auto intro: unknown_verified)

lemma run_stage_verified:
  assumes "run_stage env rid payload s = Inr r" "rs_status r = RUN_VERIFIED" "\<And>ex. pe_executor env = Some ex \<Longrightarrow> plain_executor ex"
  obtains q a b where "get q ''source_revision'' = sn_head_sha s" "get q ''source_tree'' = sn_head_tree_sha s"
    "rs_attempts r = [a, b]" "clean_attempt (pe_xml env) q a" "clean_attempt (pe_xml env) q b"
    "ea_execution_id a \<noteq> ea_execution_id b" "ea_outcome_hash a = ea_outcome_hash b" "ea_exit_code a = 0"
    "0 < ea_junit_tests a" "ea_junit_failures a = 0" "ea_junit_errors a = 0"
proof -
  obtain p ex ch ph eh where ex: "pe_executor env = Some ex"
    and r: "fst (run (pe_xml env) p ex Map.empty (run_request rid s ch ph eh)) = Inr r"
    using assms(1) by (auto simp: run_stage_def ebind_Inr_iff split: option.splits)
  let ?q = "run_request rid s ch ph eh"
  obtain rep where "run (pe_xml env) p ex Map.empty ?q = (Inr r, rep)" using r by (metis prod.collapse)
  from fresh_run_verified [OF this assms(3) [OF ex]] have v: "verified_result (pe_xml env) ?q r" .
  have "get ?q ''source_revision'' = sn_head_sha s" "get ?q ''source_tree'' = sn_head_tree_sha s"
    by (simp_all add: run_request_def get_simps)
  then show ?thesis using that v assms(2) unfolding verified_result_def by blast
qed

text \<open>The verdict as a function of the payload, the snapshot and the runner's status: outside the allowed
  paths the change is rejected, verifiers other than \<open>pytest\<close> block it, and otherwise the runner decides.\<close>

definition texts :: "pyval \<Rightarrow> string list" where
  "texts v = (case py_list v of Inr xs \<Rightarrow> map str_of xs | Inl _ \<Rightarrow> [])"

definition contract_of :: "job \<Rightarrow> pydict" where
  "contract_of j = items (get (items (jb_payload j)) ''acceptance_contract'')"

definition plan_of :: "job \<Rightarrow> pydict" where
  "plan_of j = items (get (items (jb_payload j)) ''verification_plan'')"

definition verdict :: "job \<Rightarrow> snapshot \<Rightarrow> runner_status \<Rightarrow> disposition" where
  "verdict j s st =
     (if \<not> set (texts (sn_changed_paths s)) \<subseteq> set (texts (get_default (contract_of j) ''allowed_paths'' (sn_changed_paths s)))
      then REJECTED
      else if set (texts (get_default (contract_of j) ''required_verifier_ids'' pytest_ids)) \<noteq> {''pytest''} \<or>
              set (texts (get_default (plan_of j) ''required_verifier_ids'' pytest_ids)) \<noteq> {''pytest''} then BLOCKED
      else if st = RUN_VERIFIED then CERTIFIED else REJECTED)"

lemma tuple_texts: "tuple_of v = Inr t \<Longrightarrow> strs t = texts v"
  by (auto simp: tuple_of_def ebind_Inr_iff texts_def strs_def)

lemma tuple_strs: "strs (PTuple xs) = texts (PTuple xs)"
  by (simp add: strs_def texts_def py_list_def)

lemma evidence_of:
  assumes "job_evidence rid ch csh ph ob = Inr e" "wf_observation ob"
  shows "evidence_errs e = [] \<and> the_obs e = [ob] \<and> eb_claimed_bundle_hash e = PNone \<and>
    eb_acceptance_contract_hash e = PStr ch \<and> eb_change_set_hash e = PStr csh \<and> eb_verification_plan_hash e = PStr ph"
  using assms EvidenceBundle_Inr [of "[ob]"] the_obs_map_Obj [of e "[ob]"] by (auto simp: job_evidence_def)

text \<open>The subjects of a job are linked to each other by construction, so their integrity is \<open>VALID\<close>.\<close>

lemma job_subjects_parts:
  assumes "job_subjects rid raw_c raw_p s r = Inr ci"
  obtains c cs p ob e where "ci_contract ci = Obj c" "ci_change_set ci = Obj cs" "ci_plan ci = Obj p" "ci_evidence ci = Obj e"
    "fully_approved (input_policy ci)" "derive_evidence_integrity (Obj c) (Obj cs) (Obj p) (Obj e) = Inr VALID"
    "strs (cs_paths cs) = texts (sn_changed_paths s)"
    "strs (ac_allowed_paths c) = texts (get_default raw_c ''allowed_paths'' (sn_changed_paths s))"
    "strs (ac_required_verifier_ids c) = texts (get_default raw_c ''required_verifier_ids'' pytest_ids)"
    "strs (vp_required_verifier_ids p) = texts (get_default raw_p ''required_verifier_ids'' pytest_ids)"
    "the_obs e = [ob]" "ob_verifier_id ob = PStr ''pytest''"
    "ob_status ob = (if rs_status r = RUN_VERIFIED then OBS_PASS else OBS_FAIL)"
proof -
  from assms obtain c cs p ob e ch csh ph where k: "ci_contract ci = Obj c" "ci_change_set ci = Obj cs" "ci_plan ci = Obj p"
    "ci_evidence ci = Obj e" "fully_approved (input_policy ci)"
    and c: "job_contract rid raw_c s = Inr c" and cs: "job_change_set s = Inr cs" and p: "job_plan rid raw_p ch csh = Inr p"
    and ob: "job_observation r = Inr ob" and e: "job_evidence rid ch csh ph ob = Inr e"
    and h: "contract_hash c = Inr ch" "change_set_hash cs = Inr csh" "plan_hash p = Inr ph"
    by (force simp: job_subjects_def ebind_Inr_iff fully_approved_def input_policy_def policy_fields_def)
  have errs: "contract_errs c = []" "change_set_errs cs = []" "plan_errs p = []"
    using c cs p by (auto simp: job_contract_def job_change_set_def job_plan_def ebind_Inr_iff
        AcceptanceContract_Inr ChangeSet_Inr VerificationPlan_Inr)
  have o: "wf_observation ob" "ob_verifier_id ob = PStr ''pytest''"
    "ob_status ob = (if rs_status r = RUN_VERIFIED then OBS_PASS else OBS_FAIL)"
    using ob by (auto simp: job_observation_def ebind_Inr_iff Observation_Inr split: if_splits)
  note ev = evidence_of [OF e o(1)]
  have "vp_acceptance_contract_hash p = PStr ch" "vp_change_set_hash p = PStr csh"
    using p by (auto simp: job_plan_def ebind_Inr_iff VerificationPlan_Inr)
  then have "derive_evidence_integrity (Obj c) (Obj cs) (Obj p) (Obj e) = Inr VALID"
    using errs h ev by (simp add: derive_VALID_iff linked_def has_duplicates_def)
  moreover have "\<exists>xs. cs_paths cs = PTuple xs" using errs(2) by (auto simp: change_set_errs_Nil)
  then have "strs (cs_paths cs) = texts (sn_changed_paths s)"
    using cs tuple_strs by (auto simp: job_change_set_def ChangeSet_Inr)
  moreover have "strs (ac_allowed_paths c) = texts (get_default raw_c ''allowed_paths'' (sn_changed_paths s))"
    "strs (ac_required_verifier_ids c) = texts (get_default raw_c ''required_verifier_ids'' pytest_ids)"
    using c tuple_texts by (auto simp: job_contract_def ebind_Inr_iff AcceptanceContract_Inr)
  moreover have "strs (vp_required_verifier_ids p) = texts (get_default raw_p ''required_verifier_ids'' pytest_ids)"
    using p tuple_texts by (auto simp: job_plan_def ebind_Inr_iff VerificationPlan_Inr)
  ultimately show ?thesis using that k ev o by simp
qed

lemma valid_disposition:
  assumes d: "derive_evidence_integrity (Obj c) (Obj cs) (Obj p) (Obj e) = Inr VALID" and po: "fully_approved po"
    and v: "verify (Obj c) (Obj cs) (Obj p) (Obj e) = Inr (mk_result st codes i)"
  shows "certify_result (Obj (mk_result st codes i)) po =
      (if \<not> in_scope c cs then REJECTED else if \<not> covered c p e then BLOCKED else if failing c e = [] then CERTIFIED else REJECTED)"
proof -
  have a: "accepted po = PBool True" using po by (simp add: fully_approved_def policy_fields_def)
  have code: "code_ok ''SCOPE_ESCAPE''" "code_ok ''MISSING''" by (simp_all add: code_ok_def strip_def is_space_def)
  have "result_post_init (mk_result FAILED_VERIFICATION (failure_codes (failing c e)) VALID) = Inr ()"
    if "codes_fit (failing c e)"
  proof -
    have "code_ok x" if "x \<in> set (failing c e)" for x
    proof (rule normalized_code_ok)
      show "length x \<le> 128" using that \<open>codes_fit (failing c e)\<close> by (auto simp: codes_fit_def list_all_iff)
      show "normalized x" using that contract_required [of c] d by (auto simp: failing_def derive_VALID_iff)
    qed
    then show ?thesis using that by (auto simp: post_init_mk_result codes_fit_def failure_codes_def sorted_set_idem)
  qed
  note fail = certify_reduced [OF this, of po]
  have scope: "certify_result (Obj (mk_result FAILED_VERIFICATION [''SCOPE_ESCAPE''] VALID)) po = REJECTED"
    "certify_result (Obj (mk_result UNVERIFIABLE [''MISSING''] MISSING)) po = BLOCKED"
    "certify_result (Obj (mk_result VERIFIED [] VALID)) po = CERTIFIED"
    using certify_reduced [of FAILED_VERIFICATION "[''SCOPE_ESCAPE'']" VALID po]
      certify_reduced [of UNVERIFIABLE "[''MISSING'']" MISSING po] certify_reduced [of VERIFIED "[]" VALID po] a po code
    by (simp_all add: post_init_mk_result)
  consider "\<not> in_scope c cs" | "in_scope c cs" "\<not> covered c p e" | "in_scope c cs" "covered c p e" "failing c e = []"
    | "in_scope c cs" "covered c p e" "failing c e \<noteq> []" "codes_fit (failing c e)"
    | "in_scope c cs" "covered c p e" "failing c e \<noteq> []" "\<not> codes_fit (failing c e)" by blast
  then show ?thesis
    using verify_valid [OF d] v scope fail by cases (auto simp: mk_result_def)
qed

lemma evaluation_verdict:
  assumes ev: "evaluate_stage env j loc s = Inr ev"
  shows "ev_disposition ev = verdict j s (rs_status (ev_run ev))"
  using ev
proof (rule evaluated)
  fix res
  assume js: "job_subjects (jb_request_id j) (items (get (items (jb_payload j)) ''acceptance_contract''))
       (items (get (items (jb_payload j)) ''verification_plan'')) s (ev_run ev) = Inr (ev_input ev)"
    and c: "certify (Obj (ev_input ev)) = Inr res" "cr_disposition res = Some (ev_disposition ev)"
  from c(1) obtain co cs p e ch csh ph eh st codes i where
    k: "ci_contract (ev_input ev) = Obj co" "ci_change_set (ev_input ev) = Obj cs" "ci_plan (ev_input ev) = Obj p"
      "ci_evidence (ev_input ev) = Obj e"
    and v: "verify (Obj co) (Obj cs) (Obj p) (Obj e) = Inr (mk_result st codes i)"
    and r: "res = \<lparr>cr_verification = Obj (mk_result st codes i),
       cr_disposition = Some (certify_result (Obj (mk_result st codes i)) (input_policy (ev_input ev))),
       cr_receipt = Obj (receipt_of ch csh ph eh (mk_result st codes i) (input_policy (ev_input ev)))\<rparr>"
    by (rule certify_result_shape)
  from js obtain c' cs' p' ob e' where k': "ci_contract (ev_input ev) = Obj c'" "ci_change_set (ev_input ev) = Obj cs'"
    "ci_plan (ev_input ev) = Obj p'" "ci_evidence (ev_input ev) = Obj e'"
    and po: "fully_approved (input_policy (ev_input ev))"
    and d: "derive_evidence_integrity (Obj c') (Obj cs') (Obj p') (Obj e') = Inr VALID"
    and t: "strs (cs_paths cs') = texts (sn_changed_paths s)"
      "strs (ac_allowed_paths c') = texts (get_default (contract_of j) ''allowed_paths'' (sn_changed_paths s))"
      "strs (ac_required_verifier_ids c') = texts (get_default (contract_of j) ''required_verifier_ids'' pytest_ids)"
      "strs (vp_required_verifier_ids p') = texts (get_default (plan_of j) ''required_verifier_ids'' pytest_ids)"
    and o: "the_obs e' = [ob]" "ob_verifier_id ob = PStr ''pytest''"
      "ob_status ob = (if rs_status (ev_run ev) = RUN_VERIFIED then OBS_PASS else OBS_FAIL)"
    unfolding contract_of_def plan_of_def by (rule job_subjects_parts)
  have same: "c' = co" "cs' = cs" "p' = p" "e' = e" using k k' by auto
  have disp: "ev_disposition ev = certify_result (Obj (mk_result st codes i)) (input_policy (ev_input ev))"
    using c(2) r by simp
  have "covered co p e \<longleftrightarrow> set (strs (ac_required_verifier_ids co)) = {''pytest''} \<and> set (strs (vp_required_verifier_ids p)) = {''pytest''}"
    using o by (auto simp: covered_def observed_ids_def required_ids_def same)
  moreover have "failing co e = [] \<longleftrightarrow> rs_status (ev_run ev) = RUN_VERIFIED" if "set (strs (ac_required_verifier_ids co)) = {''pytest''}"
    using that o by (auto simp: failing_Nil required_ids_def obs_status_def obs_lookup_def list_all_iff same)
  ultimately show ?thesis
    unfolding disp valid_disposition [OF d [unfolded same] po v] verdict_def t [unfolded same, symmetric] in_scope_def
    by auto
qed

section \<open>The append of a pipeline\<close>

text \<open>The row a job's append answers from.\<close>

definition registers :: "row list \<Rightarrow> string \<Rightarrow> string \<Rightarrow> int \<Rightarrow> bool" where
  "registers rows key request_hash generation \<longleftrightarrow> (\<exists>r \<in> set rows. rw_idempotency_key r = key \<and>
     rw_request_hash r = request_hash \<and> rw_committed_generation r = generation)"

lemma registers_run: "registers rows key h g \<Longrightarrow> ledger_step\<^sup>*\<^sup>* rows rows' \<Longrightarrow> registers rows' key h g"
  unfolding registers_def using run_keeps by blast

lemma row_bytes: "new_row q p sq gen prev sg now = Inr r \<Longrightarrow>
    rw_receipt_bytes r = lr_completion_receipt_bytes q \<and> rw_envelope_bytes r = lr_identity_envelope_bytes q"
  by (cases sg) (auto simp: new_row_def ebind_Inr_iff eseq_Inr_iff)

lemma answered_row:
  assumes "append_or_replay fs db envs rows q = (Inr res, rows')" "ar_status res = APPENDED \<or> ar_status res = REPLAYED"
    and "\<And>i. cooperative (envs i)" "\<And>p. parse_request q = Inr p \<Longrightarrow> sound_request q p"
  obtains r h where "r \<in> set rows'" "rw_idempotency_key r = lr_idempotency_key q" "rw_committed_generation r = ar_generation res"
    "compute_canonical_request_hash (lr_canonical_request q) = Inr h" "rw_request_hash r = h"
    "ar_status res = APPENDED \<Longrightarrow> rw_request_id r = lr_request_id q \<and> rw_receipt_bytes r = lr_completion_receipt_bytes q"
    "\<exists>e. row_to_entry r = Inr e \<and> ar_entry res = Some e"
    "ar_status res = APPENDED \<Longrightarrow> r = last rows' \<and> rw_envelope_bytes r = lr_identity_envelope_bytes q \<and>
       (\<exists>p. parse_request q = Inr p \<and> bind_text (pq_disposition p) = Inr (rw_factual_disposition r))"
proof -
  have "res \<noteq> exhausted_result" using assms(2) by (auto simp: exhausted_result_def)
  with assms(1) obtain p mid now where p: "parse_request q = Inr p"
    and mid: "append_txn mid q p now = Inr (Answer res) \<and> rows' = mid \<or>
     (\<exists>e. append_txn mid q p now = Inr (Commit rows' e) \<and> res = appended_result e)"
    by (rule append_answer [OF _ _ assms(3)])
  have h: "compute_canonical_request_hash (lr_canonical_request q) = Inr (pq_request_hash p)"
    using p by (auto simp: parse_request_def ebind_Inr_iff)
  from mid show ?thesis
  proof
    assume a: "append_txn mid q p now = Inr (Answer res) \<and> rows' = mid"
    with Answer_status assms(2) have st: "ar_status res = REPLAYED" by fastforce
    obtain r e where r: "find (\<lambda>r. rw_idempotency_key r = lr_idempotency_key q) mid = Some r" "row_to_entry r = Inr e"
      "rw_request_hash r = pq_request_hash p" "res = replay_result e"
      using a st by (auto simp: append_txn_def ebind_Inr_iff conflict_result_def stale_result_def Let_def
          split: option.splits prod.splits if_splits)
    have x: "r \<in> set rows'" "rw_idempotency_key r = lr_idempotency_key q" using r(1) a by (auto simp: find_Some_iff)
    have e: "rw_committed_generation r = ar_generation res" "ar_entry res = Some e" "ar_status res \<noteq> APPENDED"
      using row_to_entry_fields [OF r(2)] r(4) by (simp_all add: replay_result_def)
    show ?thesis by (rule that [OF x e(1) h r(3)]) (use e(2,3) r(2) in blast)+
  next
    assume "\<exists>e. append_txn mid q p now = Inr (Commit rows' e) \<and> res = appended_result e"
    then obtain e where c: "append_txn mid q p now = Inr (Commit rows' e)" "res = appended_result e" by blast
    then obtain sq gen prev sg r where r: "new_row q p (sq + 1) (gen + 1) prev sg now = Inr r" "rows' = mid @ [r]"
      "e = new_entry q p (sq + 1) (gen + 1) prev sg now"
      using append_txn_Commit by metis
    have "le_committed_generation e = gen + 1" unfolding r(3) by (cases sg) (simp add: new_entry_def)
    then have g: "rw_committed_generation r = ar_generation res" using c(2) new_row_fields [OF r(1)] by (simp add: appended_result_def)
    have disp: "bind_text (pq_disposition p) = Inr (rw_factual_disposition r)"
      using r(1) by (cases sg) (auto simp: new_row_def ebind_Inr_iff eseq_Inr_iff)
    obtain r' where "rows' = mid @ [r']" "row_to_entry r' = Inr e" using c(1) by (rule commit_adds [OF p assms(4) [OF p]])
    then have e: "row_to_entry r = Inr e" "ar_entry res = Some e" using r(2) c(2) by (simp_all add: appended_result_def)
    have x: "r \<in> set rows'" "rw_idempotency_key r = lr_idempotency_key q" "rw_request_hash r = pq_request_hash p"
      "r = last rows'" "rw_request_id r = lr_request_id q"
      using r(2) new_row_fields [OF r(1)] by simp_all
    show ?thesis by (rule that [OF x(1,2) g h x(3)]) (use x(4,5) row_bytes [OF r(1)] e p disp in blast)+
  qed
qed

section \<open>A whole pipeline\<close>

definition started :: "job \<Rightarrow> job" where
  "started job = (set_state ''RUNNING'' job)\<lparr>jb_task_done := True\<rparr>"

lemma started_simps [simp]:
  "jb_request_id (started j) = jb_request_id j" "jb_idempotency_key (started j) = jb_idempotency_key j"
  "jb_request_hash (started j) = jb_request_hash j" "jb_payload (started j) = jb_payload j"
  "jb_generation (started j) = jb_generation j" "jb_receipt_bytes (started j) = jb_receipt_bytes j" "jb_task_done (started j)"
  by (simp_all add: started_def set_state_def)

lemma pipeline_request_sound:
  assumes "evaluate_stage env j loc s = Inr ev" "\<And>sg. sv_signer sv = Some sg \<Longrightarrow> sound_signer sg"
    and "parse_request (job_append_request sv j s ev) = Inr p"
  shows "sound_request (job_append_request sv j s ev) p"
proof -
  from assms(1) obtain h where
    "parse_receipt (ev_receipt_bytes ev) = Inr (h, PStr (disposition_value (ev_disposition ev)), map PStr CLAIM_CEILING)"
    by (rule evaluation_receipt)
  then have "pq_disposition p = PStr (disposition_value (ev_disposition ev)) \<and> pq_claim_ceiling p = map PStr CLAIM_CEILING"
    using assms(3) by (auto simp: parse_request_def job_append_request_def ebind_Inr_iff)
  then show ?thesis using assms(2) unfolding sound_request_def by (auto simp: job_append_request_def)
qed

lemma pipeline_cases:
  assumes "execute_pipeline env sv job rows = (j, rows')"
    and "\<And>i. cooperative (pe_appends env i)" "\<And>sg. sv_signer sv = Some sg \<Longrightarrow> sound_signer sg"
  obtains (failed) code message where "j = unverifiable code message (started job)" "ledger_step\<^sup>*\<^sup>* rows rows'"
  | (finished) loc s ev res where
      "acquire_stage env (items (get (items (jb_payload job)) ''repository'')) = Inr (loc, s)"
      "\<not> stale_source (items (get (items (jb_payload job)) ''repository'')) s"
      "evaluate_stage env (started job) loc s = Inr ev"
      "append_or_replay (pe_fs env) (Some (sv_db_path sv)) (pe_appends env) rows (job_append_request sv (started job) s ev) = (Inr res, rows')"
      "ar_status res = APPENDED \<or> ar_status res = REPLAYED" "j = completed_job (started job) s ev (ar_generation res)"
      "ledger_step\<^sup>*\<^sup>* rows rows'"
proof (cases "acquire_stage env (items (get (items (jb_payload job)) ''repository''))")
  case (Inl e)
  then show ?thesis using assms(1) failed
    by (auto simp: execute_pipeline_def started_def [symmetric] interrupted_job_def)
next
  case (Inr ls)
  obtain loc s where ls: "ls = (loc, s)" by (cases ls)
  note a = Inr [unfolded ls]
  show ?thesis
  proof (cases "stale_source (items (get (items (jb_payload job)) ''repository'')) s")
    case True
    then show ?thesis using assms(1) failed a
      by (auto simp: execute_pipeline_def started_def [symmetric] stale_source_job_def)
  next
    case fresh: False
    show ?thesis
    proof (cases "evaluate_stage env (started job) loc s")
      case (Inl e)
      then show ?thesis using assms(1) failed a fresh
        by (auto simp: execute_pipeline_def started_def [symmetric] interrupted_job_def)
    next
      case (Inr ev)
      let ?q = "job_append_request sv (started job) s ev"
      obtain x rows1 where app: "append_or_replay (pe_fs env) (Some (sv_db_path sv)) (pe_appends env) rows ?q = (x, rows1)"
        by (cases "append_or_replay (pe_fs env) (Some (sv_db_path sv)) (pe_appends env) rows ?q")
      have "ledger_step\<^sup>*\<^sup>* rows (snd (append_or_replay (pe_fs env) (Some (sv_db_path sv)) (pe_appends env) rows ?q))"
        by (rule append_run [OF assms(2)]) (rule pipeline_request_sound [OF Inr assms(3)])
      then have run: "ledger_step\<^sup>*\<^sup>* rows rows1" by (simp add: app)
      have "append_stage env sv (started job) s ev rows = (j, rows')"
        using assms(1) a fresh Inr by (simp add: execute_pipeline_def started_def [symmetric])
      then show ?thesis
        using failed finished a fresh Inr app run
        by (cases x) (auto simp: append_stage_def interrupted_job_def refused_job_def split: if_splits)
    qed
  qed
qed


section \<open>The service as a transition system\<close>

text \<open>A job in flight: its response follows the schema and carries its identity, state and generation,
  it is pending until its pipeline has run, and a finished job is in the ledger.\<close>

definition response_of :: "job \<Rightarrow> pyval \<Rightarrow> bool" where
  "response_of j resp \<longleftrightarrow> jb_response j = Some resp \<and> conforms HTTP_RESPONSE_SCHEMA resp \<and>
     get (items resp) ''request_id'' = PStr (jb_request_id j) \<and> get (items resp) ''state'' = PStr (jb_state j) \<and>
     get (items resp) ''generation'' = PInt (jb_generation j)"

definition job_finished :: "job \<Rightarrow> bool" where
  "job_finished j \<longleftrightarrow> jb_state j = ''COMPLETED'' \<or> jb_state j = ''FAILED''"

definition job_ok :: "row list \<Rightarrow> string \<Rightarrow> job \<Rightarrow> bool" where
  "job_ok rows rid j \<longleftrightarrow> jb_request_id j = rid \<and>
     compute_canonical_request_hash (jb_payload j) = Inr (jb_request_hash j) \<and> (\<exists>resp. response_of j resp) \<and>
     List.member [''PENDING'', ''COMPLETED'', ''FAILED'', ''UNVERIFIABLE''] (jb_state j) \<and>
     (\<not> jb_task_done j \<longrightarrow> jb_state j = ''PENDING'') \<and>
     (job_finished j \<longrightarrow> registers rows (jb_idempotency_key j) (jb_request_hash j) (jb_generation j) \<and> jb_receipt_bytes j \<noteq> None)"

type_synonym service_state = "service \<times> row list"

definition service_init :: "service_state \<Rightarrow> bool" where
  "service_init st \<longleftrightarrow> (\<exists>fs db lid sg. new_service fs db lid sg = Inr (fst st) \<and> (\<forall>x. sg = Some x \<longrightarrow> sound_signer x)) \<and>
     ledger_step\<^sup>*\<^sup>* [] (snd st)"

definition service_inv :: "service_state \<Rightarrow> bool" where
  "service_inv st \<longleftrightarrow> (case st of (sv, rows) \<Rightarrow> table_inv rows \<and> (\<forall>sg. sv_signer sv = Some sg \<longrightarrow> sound_signer sg) \<and>
     (\<forall>rid j. sv_in_flight sv rid = Some j \<longrightarrow> job_ok rows rid j \<and> sv_by_idempotency sv (jb_idempotency_key j) = Some rid) \<and>
     (\<forall>key rid. sv_by_idempotency sv key = Some rid \<longrightarrow> (\<exists>j. sv_in_flight sv rid = Some j \<and> jb_idempotency_key j = key)))"

text \<open>\<open>submitted\<close> excludes the collision of a fresh 64-bit identifier with one in use.\<close>

inductive service_step :: "service_state \<Rightarrow> service_state \<Rightarrow> bool" where
  submitted: "sv_in_flight sv (request_id_of u) = None \<Longrightarrow> submit_certification it dv u rows sv payload = (answer, sv') \<Longrightarrow>
    service_step (sv, rows) (sv', rows)"
| ran: "sv_in_flight sv rid = Some job \<Longrightarrow> \<not> jb_task_done job \<Longrightarrow> (\<And>i. cooperative (pe_appends env i)) \<Longrightarrow>
    execute_pipeline env sv job rows = (j, rows') \<Longrightarrow>
    service_step (sv, rows) (sv\<lparr>sv_in_flight := (sv_in_flight sv)(rid \<mapsto> j)\<rparr>, rows')"
| stopped: "service_step (sv, rows) (stop_admission sv, rows)"
| drained: "service_step (sv, rows) (drain sv, rows)"
| others: "ledger_step rows rows' \<Longrightarrow> service_step (sv, rows) (sv, rows')"

inductive_cases service_stepE: "service_step st st'"

lemma bare_response_conforms: "List.member job_states st \<Longrightarrow> conforms HTTP_RESPONSE_SCHEMA (bare_response rid st gen)"
  by (rule response_conforms [OF bare_response]) (simp_all add: dispositions_def list_all_iff)

lemma bare_response_get: "get (items (bare_response rid st gen)) ''request_id'' = PStr rid"
  "get (items (bare_response rid st gen)) ''state'' = PStr st" "get (items (bare_response rid st gen)) ''generation'' = PInt gen"
  by (simp_all add: bare_response_def get_simps)

lemma unverifiable_response: "\<exists>resp. response_of (unverifiable code message j) resp"
  by (simp add: unverifiable_def set_state_def response_of_def bare_response_get bare_response_conforms job_states_def)

lemma new_job_ok: "compute_canonical_request_hash payload = Inr h \<Longrightarrow> job_ok rows rid (new_job rid key h gen payload)"
  by (simp add: job_ok_def new_job_def response_of_def bare_response_get bare_response_conforms job_states_def job_finished_def)

lemma job_ok_run: "job_ok rows rid j \<Longrightarrow> ledger_step\<^sup>*\<^sup>* rows rows' \<Longrightarrow> job_ok rows' rid j"
  unfolding job_ok_def using registers_run by blast

text \<open>What a pipeline makes of its job.\<close>

lemma pipeline_job:
  assumes "execute_pipeline env sv job rows = (j, rows')"
    and "\<And>i. cooperative (pe_appends env i)" "\<And>sg. sv_signer sv = Some sg \<Longrightarrow> sound_signer sg"
    and ok: "job_ok rows0 rid job"
  shows "job_ok rows' rid j \<and> jb_task_done j \<and> jb_idempotency_key j = jb_idempotency_key job \<and> jb_payload j = jb_payload job \<and>
    jb_request_hash j = jb_request_hash job \<and> ledger_step\<^sup>*\<^sup>* rows rows'"
proof (rule pipeline_cases [OF assms(1)])
  fix code message
  assume "j = unverifiable code message (started job)" "ledger_step\<^sup>*\<^sup>* rows rows'"
  then show ?thesis
    using ok unverifiable_response [of code message "started job"]
    by (simp add: job_ok_def unverifiable_def set_state_def job_finished_def)
next
  let ?j = "started job" and ?repo = "items (get (items (jb_payload job)) ''repository'')"
  fix loc s ev res
  assume finished: "acquire_stage env ?repo = Inr (loc, s)" "\<not> stale_source ?repo s" "evaluate_stage env ?j loc s = Inr ev"
      "append_or_replay (pe_fs env) (Some (sv_db_path sv)) (pe_appends env) rows (job_append_request sv ?j s ev) = (Inr res, rows')"
      "ar_status res = APPENDED \<or> ar_status res = REPLAYED" "j = completed_job ?j s ev (ar_generation res)"
      "ledger_step\<^sup>*\<^sup>* rows rows'"
  obtain resp where r: "j = ?j\<lparr>jb_state := disposition_state (disposition_value (ev_disposition ev)),
      jb_generation := ar_generation res, jb_receipt_bytes := Some (ev_receipt_bytes ev), jb_envelope_bytes := Some (ev_envelope_bytes ev),
      jb_response := Some resp\<rparr>"
    "conforms HTTP_RESPONSE_SCHEMA resp" "get (items resp) ''request_id'' = PStr (jb_request_id ?j)"
    "get (items resp) ''state'' = PStr (disposition_state (disposition_value (ev_disposition ev)))"
    "get (items resp) ''generation'' = PInt (ar_generation res)"
    unfolding finished(6) by (rule completed_job_ok [OF finished(3), of ?j "ar_generation res"]) blast
  from finished(4,5) assms(2) obtain x h where x: "x \<in> set rows'" "rw_idempotency_key x = jb_idempotency_key job"
    "rw_committed_generation x = ar_generation res" "compute_canonical_request_hash (jb_payload job) = Inr h" "rw_request_hash x = h"
  proof (rule answered_row)
    fix p assume "parse_request (job_append_request sv ?j s ev) = Inr p"
    with finished(3) assms(3) show "sound_request (job_append_request sv ?j s ev) p" by (rule pipeline_request_sound)
  qed (auto simp: job_append_request_def)
  have "registers rows' (jb_idempotency_key job) (jb_request_hash job) (ar_generation res)"
    using x ok by (auto simp: registers_def job_ok_def)
  then show ?thesis
    using ok r finished(7) by (auto simp: job_ok_def response_of_def disposition_state_def)
qed (use assms(2,3) in auto)

lemma submit_cases:
  assumes "submit_certification it dv u rows sv payload = (answer, sv')"
  obtains (same) "sv' = sv"
  | (new) key h gen where "sv' = sv\<lparr>sv_in_flight := (sv_in_flight sv)(request_id_of u \<mapsto> new_job (request_id_of u) key h gen payload),
        sv_by_idempotency := (sv_by_idempotency sv)(key \<mapsto> request_id_of u)\<rparr>"
      "compute_canonical_request_hash payload = Inr h" "in_flight_job sv key = None" "\<not> sv_admission_stopped sv"
      "answer = Inr (202, job_response (new_job (request_id_of u) key h gen payload))"
      "validate_certification_request it payload = []" "key = str_of (get (items payload) ''idempotency_key'')"
      "gen = int_of (get (items payload) ''expected_generation'')" "gen = get_current_ledger_generation dv rows"
      "get_ledger_entry_by_idempotency dv rows key = None"
proof (cases "sv_admission_stopped sv \<or> validate_certification_request it payload \<noteq> []")
  case True
  then have "sv' = sv" using assms by (cases "sv_admission_stopped sv") (simp_all add: submit_certification_def)
  then show ?thesis by (rule same)
next
  case False
  let ?key = "str_of (get (items payload) ''idempotency_key'')" and ?gen = "int_of (get (items payload) ''expected_generation'')"
  show ?thesis
  proof (cases "compute_canonical_request_hash payload")
    case (Inl e)
    then have "sv' = sv" using assms False by (simp add: submit_certification_def)
    then show ?thesis by (rule same)
  next
    case (Inr h)
    let ?e = "get_ledger_entry_by_idempotency dv rows ?key" and ?j = "in_flight_job sv ?key"
    show ?thesis
    proof (cases "?e \<noteq> None \<or> ?j \<noteq> None \<or> ?gen \<noteq> get_current_ledger_generation dv rows")
      case True
      then have "sv' = sv" using assms False Inr
        by (cases ?e; cases ?j) (simp_all add: submit_certification_def Let_def split: if_splits)
      then show ?thesis by (rule same)
    next
      case ok: False
      then show ?thesis
        using assms False Inr by (intro new [of ?key h ?gen]) (auto simp: submit_certification_def Let_def)
    qed
  qed
qed


lemma drained_flight: "sv_in_flight (drain sv) rid =
    map_option (\<lambda>j. if jb_task_done j then j else cancel_job j) (sv_in_flight sv rid)"
  by (simp add: drain_def stop_admission_def Let_def)

lemma drain_keeps: "sv_by_idempotency (drain sv) = sv_by_idempotency sv" "sv_signer (drain sv) = sv_signer sv"
    "sv_admission_stopped (drain sv)"
  by (simp_all add: drain_def stop_admission_def Let_def)

lemma cancel_ok: "job_ok rows rid j \<Longrightarrow> job_ok rows rid (cancel_job j)"
  by (auto simp: job_ok_def cancel_job_def response_of_def job_finished_def)

lemma service_invD:
  assumes "service_inv (sv, rows)"
  shows "table_inv rows" "sv_signer sv = Some sg \<Longrightarrow> sound_signer sg"
    "sv_in_flight sv rid = Some j \<Longrightarrow> job_ok rows rid j"
    "sv_in_flight sv rid = Some j \<Longrightarrow> sv_by_idempotency sv (jb_idempotency_key j) = Some rid"
    "sv_by_idempotency sv key = Some rid \<Longrightarrow> \<exists>j. sv_in_flight sv rid = Some j \<and> jb_idempotency_key j = key"
  using assms unfolding service_inv_def by blast+

lemma service_invI:
  assumes "table_inv rows" "\<And>sg. sv_signer sv = Some sg \<Longrightarrow> sound_signer sg"
    "\<And>rid j. sv_in_flight sv rid = Some j \<Longrightarrow> job_ok rows rid j \<and> sv_by_idempotency sv (jb_idempotency_key j) = Some rid"
    "\<And>key rid. sv_by_idempotency sv key = Some rid \<Longrightarrow> \<exists>j. sv_in_flight sv rid = Some j \<and> jb_idempotency_key j = key"
  shows "service_inv (sv, rows)"
  using assms unfolding service_inv_def by blast

lemma no_job_of_key: "service_inv (sv, rows) \<Longrightarrow> in_flight_job sv key = None \<Longrightarrow> sv_by_idempotency sv key = None"
  using service_invD(5) by (fastforce simp: in_flight_job_def split: option.splits)

lemma submit_inv:
  assumes inv: "service_inv (sv, rows)" and fresh: "sv_in_flight sv (request_id_of u) = None"
    and s: "submit_certification it dv u rows sv payload = (answer, sv')"
  shows "service_inv (sv', rows)"
  using s
proof (rule submit_cases)
  fix key h gen
  let ?rid = "request_id_of u"
  assume sv': "sv' = sv\<lparr>sv_in_flight := (sv_in_flight sv)(?rid \<mapsto> new_job ?rid key h gen payload),
        sv_by_idempotency := (sv_by_idempotency sv)(key \<mapsto> ?rid)\<rparr>"
    and h: "compute_canonical_request_hash payload = Inr h" and none: "in_flight_job sv key = None"
  have none: "sv_by_idempotency sv key = None" using no_job_of_key [OF inv none] .
  have other: "jb_idempotency_key j \<noteq> key" if "sv_in_flight sv rid = Some j" for rid j
    using service_invD(4) [OF inv that] none by auto
  have new: "jb_idempotency_key (new_job ?rid key h gen payload) = key" by (simp add: new_job_def)
  show ?thesis
  proof (rule service_invI)
    fix rid j assume "sv_in_flight sv' rid = Some j"
    then show "job_ok rows rid j \<and> sv_by_idempotency sv' (jb_idempotency_key j) = Some rid"
      using new_job_ok [OF h, of rows ?rid key gen] service_invD(3,4) [OF inv] other new
      by (auto simp: sv' split: if_splits)
  next
    fix k rid assume "sv_by_idempotency sv' k = Some rid"
    then show "\<exists>j. sv_in_flight sv' rid = Some j \<and> jb_idempotency_key j = k"
      using service_invD(5) [OF inv] fresh new by (cases "k = key") (fastforce simp: sv')+
  qed (use service_invD(1,2) [OF inv] in \<open>simp_all add: sv'\<close>)
qed (use inv in simp)

lemma run_inv_job:
  assumes inv: "service_inv (sv, rows)" and job: "sv_in_flight sv rid = Some job"
    and coop: "\<And>i. cooperative (pe_appends env i)" and e: "execute_pipeline env sv job rows = (j, rows')"
  shows "service_inv (sv\<lparr>sv_in_flight := (sv_in_flight sv)(rid \<mapsto> j)\<rparr>, rows')"
proof -
  note inv = service_invD [OF inv]
  note p = pipeline_job [OF e coop inv(2) inv(3) [OF job]]
  let ?sv = "sv\<lparr>sv_in_flight := (sv_in_flight sv)(rid \<mapsto> j)\<rparr>"
  have key: "sv_by_idempotency sv (jb_idempotency_key job) = Some rid" by (rule inv(4) [OF job])
  show ?thesis
  proof (rule service_invI)
    show "table_inv rows'" using p inv(1) ledger.run_inv by blast
  next
    fix r x assume "sv_in_flight ?sv r = Some x"
    then show "job_ok rows' r x \<and> sv_by_idempotency ?sv (jb_idempotency_key x) = Some r"
      using p key job_ok_run [OF inv(3) [of r x]] inv(4) [of r x] by (cases "r = rid") auto
  next
    fix k r assume "sv_by_idempotency ?sv k = Some r"
    then obtain x where "sv_in_flight sv r = Some x" "jb_idempotency_key x = k" using inv(5) by auto
    then show "\<exists>x. sv_in_flight ?sv r = Some x \<and> jb_idempotency_key x = k" using p job by (cases "r = rid") auto
  qed (simp add: inv(2))
qed

lemma drain_inv:
  assumes "service_inv (sv, rows)"
  shows "service_inv (drain sv, rows)"
proof -
  note inv = service_invD [OF assms]
  have key: "jb_idempotency_key (if jb_task_done j then j else cancel_job j) = jb_idempotency_key j" for j
    by (simp add: cancel_job_def)
  show ?thesis
  proof (rule service_invI)
    fix rid j assume "sv_in_flight (drain sv) rid = Some j"
    then show "job_ok rows rid j \<and> sv_by_idempotency (drain sv) (jb_idempotency_key j) = Some rid"
      using inv(3,4) cancel_ok by (auto simp: drained_flight drain_keeps key)
  next
    fix k rid assume "sv_by_idempotency (drain sv) k = Some rid"
    then obtain j where "sv_in_flight sv rid = Some j" "jb_idempotency_key j = k" using inv(5) by (auto simp: drain_keeps)
    then show "\<exists>j. sv_in_flight (drain sv) rid = Some j \<and> jb_idempotency_key j = k"
      by (auto simp: drained_flight key)
  qed (simp_all add: inv(1,2) drain_keeps)
qed

text \<open>What later states keep: the table only grows; a job keeps its identity, and once its task is done
  it never changes; once admission has stopped it stays so and no job is added.\<close>

definition same_job :: "job \<Rightarrow> job \<Rightarrow> bool" where
  "same_job j j' \<longleftrightarrow> jb_request_id j' = jb_request_id j \<and> jb_idempotency_key j' = jb_idempotency_key j \<and>
     jb_request_hash j' = jb_request_hash j \<and> jb_payload j' = jb_payload j"

definition service_le :: "service_state \<Rightarrow> service_state \<Rightarrow> bool" where
  "service_le st st' \<longleftrightarrow> prefix (snd st) (snd st') \<and> sv_by_idempotency (fst st) \<subseteq>\<^sub>m sv_by_idempotency (fst st') \<and>
     (\<forall>rid j. sv_in_flight (fst st) rid = Some j \<longrightarrow> (\<exists>j'. sv_in_flight (fst st') rid = Some j' \<and> same_job j j' \<and>
        (jb_task_done j \<longrightarrow> j' = j))) \<and>
     (sv_admission_stopped (fst st) \<longrightarrow> sv_admission_stopped (fst st') \<and> dom (sv_in_flight (fst st')) = dom (sv_in_flight (fst st)))"

lemma same_job_refl [simp]: "same_job j j"
  by (simp add: same_job_def)

lemma same_job_trans: "same_job i j \<Longrightarrow> same_job j k \<Longrightarrow> same_job i k"
  by (simp add: same_job_def)

lemma service_le_refl: "service_le st st"
  by (simp add: service_le_def)

lemma service_le_trans:
  assumes "service_le s t" "service_le t u"
  shows "service_le s u"
proof -
  have "\<exists>j''. sv_in_flight (fst u) rid = Some j'' \<and> same_job j j'' \<and> (jb_task_done j \<longrightarrow> j'' = j)"
    if j: "sv_in_flight (fst s) rid = Some j" for rid j
  proof -
    obtain j' where j': "sv_in_flight (fst t) rid = Some j'" "same_job j j'" "jb_task_done j \<longrightarrow> j' = j"
      using assms(1) j unfolding service_le_def by blast
    then obtain j'' where "sv_in_flight (fst u) rid = Some j''" "same_job j' j''" "jb_task_done j' \<longrightarrow> j'' = j'"
      using assms(2) unfolding service_le_def by blast
    then show ?thesis using j' same_job_trans by blast
  qed
  then show ?thesis
    using assms unfolding service_le_def by (auto intro: prefix_order.trans map_le_trans)
qed

lemma submit_le:
  assumes inv: "service_inv (sv, rows)" and fresh: "sv_in_flight sv (request_id_of u) = None"
    and s: "submit_certification it dv u rows sv payload = (answer, sv')"
  shows "service_le (sv, rows) (sv', rows)"
  using s
proof (rule submit_cases)
  fix key h gen
  let ?rid = "request_id_of u"
  assume sv': "sv' = sv\<lparr>sv_in_flight := (sv_in_flight sv)(?rid \<mapsto> new_job ?rid key h gen payload),
        sv_by_idempotency := (sv_by_idempotency sv)(key \<mapsto> ?rid)\<rparr>"
    and none: "in_flight_job sv key = None" and "\<not> sv_admission_stopped sv"
  moreover have "sv_by_idempotency sv key = None" using no_job_of_key [OF inv none] .
  ultimately show ?thesis using fresh by (auto simp: service_le_def map_le_def)
qed (simp add: service_le_refl)

lemma service_init_inv: "service_init st \<Longrightarrow> service_inv st"
proof -
  assume i: "service_init st"
  obtain sv rows where st: "st = (sv, rows)" by (cases st)
  have "table_inv rows" using i ledger.reachable_inv [OF refl] unfolding st service_init_def by simp
  then show ?thesis
    using i unfolding st by (auto simp: service_init_def service_inv_def new_service_def ebind_Inr_iff)
qed

lemma service_step_inv:
  assumes "service_inv st" "service_step st st'"
  shows "service_inv st'"
  using assms(2)
proof (rule service_stepE)
  fix sv u it dv rows payload answer sv'
  assume "st = (sv, rows)" "st' = (sv', rows)" "sv_in_flight sv (request_id_of u) = None"
    "submit_certification it dv u rows sv payload = (answer, sv')"
  then show ?thesis using assms(1) submit_inv by simp
next
  fix sv rid job env rows j rows'
  assume st: "st = (sv, rows)" "st' = (sv\<lparr>sv_in_flight := (sv_in_flight sv)(rid \<mapsto> j)\<rparr>, rows')"
    and run: "sv_in_flight sv rid = Some job" "\<And>i. cooperative (pe_appends env i)" "execute_pipeline env sv job rows = (j, rows')"
  then show ?thesis using assms(1) run_inv_job [OF _ run] by simp
next
  fix sv rows assume "st = (sv, rows)" "st' = (stop_admission sv, rows)"
  then show ?thesis using assms(1) by (simp add: service_inv_def stop_admission_def)
next
  fix sv rows assume "st = (sv, rows)" "st' = (drain sv, rows)"
  then show ?thesis using assms(1) drain_inv by simp
next
  fix rows rows' sv assume st: "st = (sv, rows)" "st' = (sv, rows')" and l: "ledger_step rows rows'"
  note inv = service_invD [OF assms(1) [unfolded st(1)]]
  have "job_ok rows' rid j" if "sv_in_flight sv rid = Some j" for rid j
    using job_ok_run [OF inv(3) [OF that]] l by blast
  then show ?thesis unfolding st(2) using inv ledger.step_inv [OF _ l] by (intro service_invI) auto
qed

lemma service_step_le:
  assumes "service_inv st" "service_step st st'"
  shows "service_le st st'"
  using assms(2)
proof (rule service_stepE)
  fix sv u it dv rows payload answer sv'
  assume "st = (sv, rows)" "st' = (sv', rows)" "sv_in_flight sv (request_id_of u) = None"
    "submit_certification it dv u rows sv payload = (answer, sv')"
  then show ?thesis using assms(1) submit_le by simp
next
  fix sv rid job env rows j rows'
  assume st: "st = (sv, rows)" "st' = (sv\<lparr>sv_in_flight := (sv_in_flight sv)(rid \<mapsto> j)\<rparr>, rows')"
    and job: "sv_in_flight sv rid = Some job" "\<not> jb_task_done job"
    and e: "\<And>i. cooperative (pe_appends env i)" "execute_pipeline env sv job rows = (j, rows')"
  have "sound_signer sg" if "sv_signer sv = Some sg" for sg using assms(1) st that by (simp add: service_inv_def)
  moreover have ok: "job_ok rows rid job" using assms(1) st job by (simp add: service_inv_def)
  ultimately have "job_ok rows' rid j \<and> jb_idempotency_key j = jb_idempotency_key job \<and> jb_payload j = jb_payload job \<and>
      jb_request_hash j = jb_request_hash job \<and> prefix rows rows'"
    using pipeline_job [OF e(2,1)] ledger_growth.run_le by blast
  then show ?thesis using job ok unfolding st by (auto simp: service_le_def same_job_def job_ok_def)
next
  fix sv rows assume "st = (sv, rows)" "st' = (stop_admission sv, rows)"
  then show ?thesis by (simp add: service_le_def stop_admission_def)
next
  fix sv rows assume "st = (sv, rows)" "st' = (drain sv, rows)"
  then show ?thesis
    by (auto simp: service_le_def drained_flight drain_keeps same_job_def cancel_job_def dom_def)
next
  fix rows rows' sv assume "st = (sv, rows)" "st' = (sv, rows')" "ledger_step rows rows'"
  then show ?thesis using ledger_growth.step_le by (simp add: service_le_def)
qed

interpretation certification_service: invariant_progress service_init service_step service_inv service_le
  by unfold_locales
    (auto intro: service_init_inv service_step_inv service_le_refl service_le_trans service_step_le)

end
