(* ===== verification/Service_Progress.thy ===== *)
theory Service_Progress
  imports Service_Properties
begin

text \<open>
  The pipeline makes progress: a fresh request that leaves the contract and the plan to their defaults
  is always evaluated, whatever the runner's result, and what the ledger is given always parses.
\<close>

section \<open>The runner's result is plain JSON\<close>

lemma made_attempt_json:
  assumes "make_attempt xml default_profile raw q i = Inr a" "plain_dict raw"
  shows "jv spaced (attempt_to_dict a)"
  using assms(1)
proof (rule make_attempt_parts)
  assume argv: "py_list (get_default (items raw) ''argv'' (pf_command default_profile)) = Inr (ea_argv a)"
      "py_eqs (ea_argv a) (elems (pf_command default_profile))"
  have "plain (get_default (items raw) ''argv'' (pf_command default_profile))"
    using plain_get [OF assms(2), of "''argv''"]
    by (auto simp: get_default_def get_def default_profile_def list_all_iff split: option.splits)
  then have "list_all plain (ea_argv a)" using argv(1) by (rule plain_list)
  then have "ea_argv a = map PStr COMMAND"
    using argv(2) by (intro plain_strs) (simp_all add: default_profile_def)
  then show ?thesis by (simp add: attempt_to_dict_def mkdict_def)
qed

lemma run_json:
  assumes "run xml default_profile ex Map.empty q = (Inr r, rep)" "plain_executor ex"
  shows "jv spaced (runner_result_to_dict r)"
  using assms(1)
proof (cases rule: run_cases)
  case (judged key raw1 raw2 a b)
  have "plain_dict raw1" "plain_dict raw2" using judged assms(2) by (auto simp: plain_executor_def)
  then have "jv spaced (attempt_to_dict a)" "jv spaced (attempt_to_dict b)"
    using made_attempt_json judged(4,6) by blast+
  moreover have "rs_attempts r = [a, b]"
    using judged(7) by (auto simp: judge_attempts_def attempts_result_def ebind_Inr_iff split: if_splits)
  ultimately show ?thesis by (simp add: runner_result_to_dict_def mkdict_def)
qed (auto simp: unknown_result_def ebind_Inr_iff runner_result_to_dict_def mkdict_def)

lemma run_stage_json:
  assumes "run_stage env rid payload s = Inr r" "load_profile (pe_files env) = Inr default_profile"
    and "\<And>ex. pe_executor env = Some ex \<Longrightarrow> plain_executor ex"
  shows "jv spaced (runner_result_to_dict r)"
proof -
  obtain ex q where ex: "pe_executor env = Some ex" "fst (run (pe_xml env) default_profile ex Map.empty q) = Inr r"
    using assms(1,2) by (auto simp: run_stage_def ebind_Inr_iff split: option.splits)
  then show ?thesis using run_json [OF _ assms(3) [OF ex(1)]] by (metis prod.collapse)
qed

lemma jv_hash: "jv spaced v \<Longrightarrow> \<exists>h. hash_value v = Inr h \<and> is_sha256 h"
  using jv_clean hash_value_ok by blast

section \<open>The subjects of a default request\<close>

definition default_request :: "job \<Rightarrow> bool" where
  "default_request j \<longleftrightarrow> contract_of j = [] \<and> plan_of j = []"

lemma typed_parts:
  assumes "well_typed_snapshot s"
  obtains pr ps diff where "sn_pr_number s = PInt pr" "0 < pr" "sn_changed_paths s = PTuple (map PStr ps)" "distinct ps" "ps \<noteq> []"
    "list_all path_text ps" "sn_diff_hash s = PStr (sha_text diff)"
    "list_all sha40_str [sn_base_sha s, sn_head_sha s, sn_base_tree_sha s, sn_head_tree_sha s]"
  using assms unfolding well_typed_snapshot_def by (elim exE conjE) (rule that; assumption)

lemma subjects_built:
  assumes s: "well_typed_snapshot s" "list_all normalized (texts (sn_changed_paths s))" and rid: "id_text rid"
    and r: "rs_artifact_hashes r \<noteq> [] \<Longrightarrow> is_sha256 (hd (rs_artifact_hashes r))"
      "rs_attempt_ids r \<noteq> [] \<Longrightarrow> normalized (hd (rs_attempt_ids r))"
  shows "\<exists>ci. job_subjects rid [] [] s r = Inr ci"
proof -
  from s(1) obtain pr ps diff where w: "sn_pr_number s = PInt pr" "0 < pr" "sn_changed_paths s = PTuple (map PStr ps)" "distinct ps" "ps \<noteq> []"
    "list_all path_text ps" "sn_diff_hash s = PStr (sha_text diff)"
    and w': "list_all sha40_str [sn_base_sha s, sn_head_sha s, sn_base_tree_sha s, sn_head_tree_sha s]"
    by (rule typed_parts)
  have ps: "\<forall>x \<in> set ps. normalized x \<and> relative_path x"
    using s(2) w(3,6) by (auto simp: texts_def py_list_def list_all_iff path_text_def)
  have n: "normalized (p @ rid)" if "list_all (\<lambda>c. \<not> is_space c \<and> c \<noteq> nul) p" for p
    using that rid by (intro id_text_normalized) (auto simp: id_text_append id_text_def)
  have prn: "normalized (''pr-'' @ show_int pr)"
    using show_int_plain by (intro id_text_normalized) (simp add: id_text_def is_space_def nul_def)
  have hex: "normalized x" if "is_sha40 x" for x
    using that hex_plain by (intro id_text_normalized) (auto simp: is_sha40_def id_text_def list_all_iff)
  obtain a b where sha: "sn_base_sha s = PStr a" "normalized a" "sn_head_sha s = PStr b" "normalized b"
    using w' hex by (auto simp: sha40_str_def is_str_iff)
  obtain req where req: "hash_value (PStr ''requirements'') = Inr req" "is_sha256 req" using jv_hash [of "PStr ''requirements''"] by auto
  obtain nh where nh: "hash_value (PStr ''none'') = Inr nh" "is_sha256 nh" using jv_hash [of "PStr ''none''"] by auto
  have small: "normalized ''pytest''" "normalized ''none''" by (simp_all add: normalized_def strip_def is_space_def nul_def)
  have pl: "list_all (\<lambda>c. \<not> is_space c \<and> c \<noteq> nul) ''ac-''" "list_all (\<lambda>c. \<not> is_space c \<and> c \<noteq> nul) ''plan-''"
    "list_all (\<lambda>c. \<not> is_space c \<and> c \<noteq> nul) ''bundle-''" by (simp_all add: is_space_def nul_def)
  let ?c = "\<lparr>ac_contract_id = PStr (''ac-'' @ rid), ac_requirements_hash = PStr req, ac_required_verifier_ids = pytest_ids,
     ac_allowed_paths = sn_changed_paths s, ac_deletion_policy = PStr ''FORBID''\<rparr>"
  let ?cs = "\<lparr>cs_change_set_id = PStr (''pr-'' @ show_int pr), cs_source_revision = PStr a, cs_target_revision = PStr b,
     cs_diff_hash = PStr (sha_text diff), cs_paths = sn_changed_paths s\<rparr>"
  have "contract_errs ?c = []"
    unfolding contract_errs_Nil using n [OF pl(1)] req(2) small ps w(4,5)
    by (intro exI [of _ "''ac-'' @ rid"] exI [of _ req] exI [of _ "[''pytest'']"] exI [of _ ps] exI [of _ "''FORBID''"])
      (simp add: pytest_ids_def w(3))
  then have c: "job_contract rid [] s = Inr ?c" "contract_errs ?c = []"
    by (simp_all add: job_contract_def req AcceptanceContract_Inr get_default_def tuple_of_def pytest_ids_def py_list_def w(3))
  have "change_set_errs ?cs = []"
    unfolding change_set_errs_Nil using prn sha ps w(4,5)
    by (intro exI [of _ "''pr-'' @ show_int pr"] exI [of _ a] exI [of _ b] exI [of _ "sha_text diff"] exI [of _ ps])
      (simp add: w(3))
  then have cs: "job_change_set s = Inr ?cs" "change_set_errs ?cs = []"
    by (simp_all add: job_change_set_def ChangeSet_Inr w sha py_str_def)
  obtain ch csh where h: "contract_hash ?c = Inr ch" "is_sha256 ch" "change_set_hash ?cs = Inr csh" "is_sha256 csh"
    using contract_hash_wf [OF c(2)] change_set_hash_wf [OF cs(2)] by blast
  let ?p = "\<lparr>vp_plan_id = PStr (''plan-'' @ rid), vp_acceptance_contract_hash = PStr ch, vp_change_set_hash = PStr csh,
     vp_required_verifier_ids = pytest_ids\<rparr>"
  have "plan_errs ?p = []"
    unfolding plan_errs_Nil using n [OF pl(2)] h small
    by (intro exI [of _ "''plan-'' @ rid"] exI [of _ ch] exI [of _ csh] exI [of _ "[''pytest'']"]) (simp add: pytest_ids_def)
  then have p: "job_plan rid [] ch csh = Inr ?p" "plan_errs ?p = []"
    by (simp_all add: job_plan_def VerificationPlan_Inr get_default_def tuple_of_def pytest_ids_def py_list_def)
  obtain ph where ph: "plan_hash ?p = Inr ph" "is_sha256 ph" using plan_hash_wf [OF p(2)] by blast
  have "\<exists>ob. job_observation r = Inr ob"
  proof -
    obtain x where x: "(if rs_artifact_hashes r \<noteq> [] then Inr (hd (rs_artifact_hashes r)) else hash_value (PStr ''none'')) = Inr x"
      "is_sha256 x" using r(1) nh by (cases "rs_artifact_hashes r \<noteq> []") auto
    show ?thesis
      unfolding job_observation_def x ebind_simps Observation_Inr using x(2) r(2) small
      by (auto simp: wf_observation_def)
  qed
  then obtain ob where ob: "job_observation r = Inr ob" "wf_observation ob"
    by (auto simp: job_observation_def ebind_Inr_iff Observation_Inr)
  let ?e = "\<lparr>eb_bundle_id = PStr (''bundle-'' @ rid), eb_acceptance_contract_hash = PStr ch, eb_change_set_hash = PStr csh,
     eb_verification_plan_hash = PStr ph, eb_observations = Some (map Obj [ob]), eb_claimed_bundle_hash = PNone\<rparr>"
  have "evidence_errs ?e = []"
    unfolding evidence_errs_Nil using n [OF pl(3)] h ph ob(2)
    by (intro exI [of _ "''bundle-'' @ rid"] exI [of _ ch] exI [of _ csh] exI [of _ ph] exI [of _ "[ob]"] exI [of _ PNone]) simp
  then have "\<exists>e. job_evidence rid ch csh ph ob = Inr e"
    using EvidenceBundle_Inr [of "[ob]" "PStr (''bundle-'' @ rid)" "PStr ch" "PStr csh" "PStr ph" PNone ?e] ob(2)
    by (auto simp: job_evidence_def)
  then show ?thesis using c(1) cs(1) h p(1) ob(1) ph by (auto simp: job_subjects_def)
qed


section \<open>Evaluation always succeeds\<close>

lemma artifact_digest_sha: "artifact_digest v d x y z = Inr h \<Longrightarrow> is_sha256 h"
  by (auto simp: artifact_digest_def ebind_Inr_iff)

lemma runner_ids:
  assumes "run xml default_profile ex Map.empty q = (Inr r, rep)" "plain_executor ex"
  shows "(rs_artifact_hashes r \<noteq> [] \<longrightarrow> is_sha256 (hd (rs_artifact_hashes r))) \<and>
    (rs_attempt_ids r \<noteq> [] \<longrightarrow> normalized (hd (rs_attempt_ids r)))"
  using assms(1)
proof (cases rule: run_cases)
  case (judged key raw1 raw2 a b)
  have r: "rs_artifact_hashes r = [ea_artifact_hash a, ea_artifact_hash b]" "rs_attempt_ids r = [ea_attempt_id a, ea_attempt_id b]"
    using judged(7) by (auto simp: judge_attempts_def attempts_result_def ebind_Inr_iff split: if_splits)
  obtain rid where rid: "get q ''attempt_id'' = PStr rid" "normalized rid"
    using judged(1) by (auto simp: validate_run_request_def eseq_Inr_iff efor_Inr_iff guard_Inr_iff is_str_iff text_check_def
        REQUIRED_BINDINGS_def)
  from judged(4) have "is_sha256 (ea_artifact_hash a) \<and> ea_attempt_id a = py_str (get q ''attempt_id'') @ ''-'' @ show_nat 1"
    by (rule make_attempt_parts) (simp only: artifact_digest_sha simp_thms)
  then show ?thesis using r attempt_id_normalized [OF rid(2)] rid(1) by (simp add: py_str_def)
next
  case (replayed key)
  then show ?thesis by simp
qed (auto simp: unknown_result_def ebind_Inr_iff)

definition plain_snapshot :: "snapshot \<Rightarrow> bool" where
  "plain_snapshot s \<longleftrightarrow> well_typed_snapshot s \<and> list_all normalized (texts (sn_changed_paths s)) \<and> is_str (sn_freshness_cas s)"

text \<open>The one verifier a job has is \<open>pytest\<close>, so the failing codes fit their bounds and the kernel never
  raises.\<close>

lemma job_certifies:
  assumes "job_subjects rid [] [] s r = Inr ci"
  shows "\<exists>res. certify (Obj ci) = Inr res"
  using assms
proof (rule job_subjects_parts)
  fix c cs p ob e
  assume k: "ci_contract ci = Obj c" "ci_change_set ci = Obj cs" "ci_plan ci = Obj p" "ci_evidence ci = Obj e"
    and po: "fully_approved (input_policy ci)"
    and d: "derive_evidence_integrity (Obj c) (Obj cs) (Obj p) (Obj e) = Inr VALID"
    and ids: "strs (ac_required_verifier_ids c) = texts (get_default [] ''required_verifier_ids'' pytest_ids)"
  have "validate_input (Obj ci) = []"
    using k po d by (auto simp: validate_input_Nil derive_VALID_iff subjects_valid_iff policy_ok_def fully_approved_def list_all_iff)
  note certify_eq [OF this k]
  moreover have "codes_fit (failing c e)"
  proof -
    have "required_ids c = [''pytest'']"
      using ids by (simp add: required_ids_def texts_def get_default_def pytest_ids_def py_list_def)
    then have "failing c e = [] \<or> failing c e = [''pytest'']" by (simp add: failing_def)
    then show ?thesis by (auto simp: codes_fit_def failure_codes_def sorted_set_def)
  qed
  then have "\<exists>v. verify (Obj c) (Obj cs) (Obj p) (Obj e) = Inr v"
    using verify_valid [OF d] by (cases "in_scope c cs"; cases "covered c p e"; cases "failing c e = []") auto
  ultimately show ?thesis by (metis ebind_simps(1))
qed

lemma evaluation_built:
  assumes j: "default_request j" "is_dict (jb_payload j)" "compute_canonical_request_hash (jb_payload j) = Inr h"
      "id_text (jb_request_id j)"
    and s: "plain_snapshot s" and loc: "GitHubPullRequestLocator o' n pr = Inr loc"
    and r: "run_stage env (jb_request_id j) (items (jb_payload j)) s = Inr r"
    and env: "load_profile (pe_files env) = Inr default_profile" "\<And>ex. pe_executor env = Some ex \<Longrightarrow> plain_executor ex"
  shows "\<exists>ev. evaluate_stage env j loc s = Inr ev \<and> ev_run ev = r"
proof -
  obtain ex q where ex: "pe_executor env = Some ex" "fst (run (pe_xml env) default_profile ex Map.empty q) = Inr r"
    using r env(1) by (auto simp: run_stage_def ebind_Inr_iff split: option.splits)
  obtain rep where "run (pe_xml env) default_profile ex Map.empty q = (Inr r, rep)" using ex(2) by (metis prod.collapse)
  note ids = runner_ids [OF this env(2) [OF ex(1)]]
  obtain ci where ci: "job_subjects (jb_request_id j) [] [] s r = Inr ci"
    using subjects_built [OF _ _ j(4), of s r] s ids by (auto simp: plain_snapshot_def)
  obtain res where res: "certify (Obj ci) = Inr res" using job_certifies [OF ci] by blast
  obtain c cs p ob e where e: "ci_evidence ci = Obj e" "derive_evidence_integrity (Obj c) (Obj cs) (Obj p) (Obj e) = Inr VALID"
    using job_subjects_parts [OF ci] by metis
  from res obtain ch csh ph eh st codes i rh disp where k: "cr_disposition res = Some disp"
    "receipt_to_dict (cr_receipt res) = Inr (mkdict (receipt_fields ch csh ph eh st codes i disp (input_policy ci) @ [(''receipt_hash'', PStr rh)]))"
    "policy_ok (input_policy ci)" "obj_hash receipt_core_hash (cr_receipt res) = Inr rh"
    by (rule kernel_receipt)
  obtain rb where rb: "json_bytes (mkdict (receipt_fields ch csh ph eh st codes i disp (input_policy ci) @ [(''receipt_hash'', PStr rh)])) = Inr rb"
    using json_bytes_total [OF jv_receipt_fields(2) [OF k(3)]] by blast
  have "\<exists>env_dict. identity_envelope j loc s r e rh = Inr env_dict \<and> jv spaced env_dict"
  proof -
    obtain d where "jb_payload j = PDict d" using j(2) by (cases "jb_payload j") (simp_all add: is_dict_def)
    then have ctx: "hash_value (jb_payload j) = Inr h"
      using j(3) by (simp add: compute_canonical_request_hash_def isinstance_str_def)
    have ee: "evidence_errs e = []" using e(2) by (simp add: derive_VALID_iff)
    obtain bh where bh: "bundle_hash e = Inr bh" using bundle_hash_wf [OF ee] by blast
    obtain eh' ih where ih: "bundle_to_dict e = Inr (envelope_of e eh')" "hash_value (envelope_of e eh') = Inr ih"
      using bundle_to_dict_VALID [OF e(2)] jv_hash [OF jv_envelope_of [OF ee]] by metis
    obtain lh where lh: "locator_hash loc = Inr lh" using locator_ok [OF loc] by (auto simp: locator_hash_def)
    obtain rr where rr: "hash_value (runner_result_to_dict r) = Inr rr" using jv_hash [OF run_stage_json [OF r env]] by blast
    obtain cas where cas: "sn_freshness_cas s = PStr cas" using s by (auto simp: plain_snapshot_def is_str_iff)
    let ?body = "[(''schema'', PStr IDENTITY_ENVELOPE_SCHEMA), (''context_hash'', PStr h),
         (''profile_hash'', PStr (rs_profile_hash r)), (''bundle_hash'', PStr bh), (''ingestion_receipt_hash'', PStr ih),
         (''subject_hash'', PStr lh), (''execution_id'', PStr (''exec-'' @ jb_request_id j)),
         (''attempt_id'', PStr (if rs_attempt_ids r \<noteq> [] then hd (rs_attempt_ids r) else ''att-'' @ jb_request_id j)),
         (''generation'', PStr (show_int (jb_generation j))), (''producer_id'', PStr ''nexus.controller.v1''),
         (''issuer_id'', PStr ''nexus.service.v1''), (''acquisition_snapshot_hash'', sn_freshness_cas s),
         (''runner_result_hash'', PStr rr), (''verification_receipt_hash'', PStr rh), (''external_receipt_hashes'', PList [])]"
    have "jv spaced (mkdict ?body)" by (simp add: mkdict_def cas)
    then obtain ident where ident: "hash_value (mkdict ?body) = Inr ident" using jv_hash by blast
    have "identity_envelope j loc s r e rh = Inr (mkdict (?body @ [(''identity_hash'', PStr ident)]))"
      unfolding identity_envelope_def ctx bh ih lh rr ebind_simps Let_def ident ..
    moreover have "jv spaced (mkdict (?body @ [(''identity_hash'', PStr ident)]))" by (simp add: mkdict_def cas)
    ultimately show ?thesis by blast
  qed
  then obtain env_dict eb where "identity_envelope j loc s r e rh = Inr env_dict" "json_bytes env_dict = Inr eb"
    using json_bytes_total by blast
  then show ?thesis
    using j(1) r ci res k rb e(1)
    by (simp add: evaluate_stage_def default_request_def contract_of_def plan_of_def the_evidence_def disposition_of_def)
qed


section \<open>What the ledger is given parses\<close>

lemma identity_envelope_jv:
  assumes "identity_envelope j loc s r e h = Inr v" "is_str (sn_freshness_cas s)"
  obtains d where "v = PDict d" "jv spaced v" "get d ''schema'' = PStr IDENTITY_ENVELOPE_SCHEMA"
    "distinct (map fst d)" "list_all (\<lambda>p. is_str (fst p)) d"
proof -
  obtain cas where "sn_freshness_cas s = PStr cas" using assms(2) by (auto simp: is_str_iff)
  then have "\<exists>d. v = PDict d \<and> jv spaced v \<and> get d ''schema'' = PStr IDENTITY_ENVELOPE_SCHEMA \<and>
      distinct (map fst d) \<and> list_all (\<lambda>p. is_str (fst p)) d"
    using assms(1) by (auto simp: identity_envelope_def Let_def ebind_Inr_iff mkdict_def get_simps)
  then show ?thesis using that by blast
qed

lemma request_parses:
  assumes ev: "evaluate_stage env j loc s = Inr ev" and cas: "is_str (sn_freshness_cas s)"
    and h: "compute_canonical_request_hash (jb_payload j) = Inr h"
  obtains p where "parse_request (job_append_request sv j s ev) = Inr p" "pq_request_hash p = h"
    "pq_disposition p = PStr (disposition_value (ev_disposition ev))" "pq_claim_ceiling p = map PStr CLAIM_CEILING"
proof -
  obtain e k where i: "identity_envelope j loc s (ev_run ev) e k = Inr (ev_envelope ev)"
    and b: "json_bytes (ev_envelope ev) = Inr (ev_envelope_bytes ev)"
    using ev by (rule evaluated) blast
  from i cas obtain d where d: "ev_envelope ev = PDict d" "jv spaced (ev_envelope ev)" "get d ''schema'' = PStr IDENTITY_ENVELOPE_SCHEMA"
    "distinct (map fst d)" "list_all (\<lambda>p. is_str (fst p)) d"
    by (rule identity_envelope_jv)
  obtain D where D: "sort_deep (PDict d) = PDict D" by simp
  have l: "loads_bytes (ev_envelope_bytes ev) = Inr (PDict D)" using loads_sorted [OF d(2) b] by (simp only: d(1) D)
  have "get D ''schema'' = sort_deep (PStr IDENTITY_ENVELOPE_SCHEMA)"
    using get_sort_deep [OF d(4,5), of "''schema''"] by (simp only: D type_test_simps(14) d(3))
  moreover obtain eh where "hash_value (PDict D) = Inr eh"
    using jv_clean [OF jv_sort_deep [OF d(2)]] hash_value_total unfolding d(1) D by blast
  ultimately have "parse_envelope (ev_envelope_bytes ev) = Inr eh"
    by (simp add: parse_envelope_def as_value_error_def l)
  moreover obtain rh where "parse_receipt (ev_receipt_bytes ev) = Inr (rh, PStr (disposition_value (ev_disposition ev)), map PStr CLAIM_CEILING)"
    using evaluation_receipt [OF ev] by metis
  ultimately show ?thesis using that h by (simp add: parse_request_def job_append_request_def)
qed

text \<open>A first append commits.\<close>

lemma first_commit:
  assumes "pq_disposition p = PStr d" "pq_claim_ceiling p = map PStr ss" "lr_signer q = None" "lr_failpoint q = None"
    "lr_expected_generation q = 0" "lr_attempt q = 1"
  shows "\<exists>r e. append_txn [] q p now = Inr (Commit [r] e)"
proof -
  obtain h where h: "compute_entry_hash (new_core q p 1 1 GENESIS_PREVIOUS_HASH PNone) = Inr h"
    using core_hash_total [OF assms(1,2)] by blast
  then have s: "sign_new_entry q p 1 1 GENESIS_PREVIOUS_HASH = Inr (None, None, PNone, None, h)"
    by (simp add: sign_new_entry_def assms)
  obtain t where "dumps spaced (PList (map PStr ss)) = Inr t" using dumps_strs by blast
  then have "\<exists>r. new_row q p 1 1 GENESIS_PREVIOUS_HASH (None, None, PNone, None, h) now = Inr r"
    by (simp add: new_row_def assms bind_text_def int64_def del: dumps.simps)
  then show ?thesis
    using s assms by (auto simp: append_txn_def head_row_def insert_row_def Let_def)
qed

lemma free_append:
  assumes "parse_request q = Inr p" "append_txn (ae_others (envs 0) rows) q p (ae_now (envs 0)) = Inr t" "free_attempt (envs 0)"
    "lr_failpoint q = None" "resolve_ledger_path fs (Some db) = Inr path"
  shows "append_or_replay fs (Some db) envs rows q = apfst Inr (txn_result (ae_others (envs 0) rows) t)"
proof -
  have "append_loop envs (Suc 4) rows q p = apfst Inr (txn_result (ae_others (envs 0) rows) t)"
    unfolding append_loop.simps using free_answers [OF assms(3,2,4)] by (simp add: MAX_CONTENTION_ATTEMPTS_def split: prod.splits)
  then show ?thesis
    using assms(1,5) by (simp add: append_or_replay_def MAX_CONTENTION_ATTEMPTS_def del: append_loop.simps)
qed

end
