(* ===== verification/Service_Claims.thy ===== *)
theory Service_Claims
  imports Service_Progress
begin

text \<open>
  The properties of the certification service: what a finished job shows, that a fresh request is
  decided, the invariant of the jobs in flight, resubmission, shutdown and receipt verification.
\<close>

section \<open>A sample pipeline\<close>

definition sample_env :: pipeline_env where
  "sample_env = \<lparr>pe_fs = plain_fs, pe_port = Some (\<lambda>_ _. Inr sample_response), pe_executor = Some sample_executor,
     pe_files = sample_files, pe_xml = sample_xml, pe_appends = (\<lambda>_. quiet_env)\<rparr>"

definition sample_service :: service where
  "sample_service = \<lparr>sv_db_path = [''ledger.sqlite3''], sv_ledger_id = ''ledger'', sv_signer = None, sv_admission_stopped = False,
     sv_in_flight = Map.empty, sv_by_idempotency = Map.empty\<rparr>"

definition sample_uuid :: string where
  "sample_uuid = replicate 32 (CHR ''0'')"

definition sample_job :: job where
  "sample_job = new_job (request_id_of sample_uuid) ''key'' (projr (compute_canonical_request_hash (sample_payload ''key'' 0))) 0
     (sample_payload ''key'' 0)"

lemma sample_payload_jv: "jv spaced (sample_payload key gen)"
  by (simp add: sample_payload_def sample_repository_def mkdict_def)

lemma payload_hash: "jv spaced (PDict d) \<Longrightarrow> \<exists>h. compute_canonical_request_hash (PDict d) = Inr h"
  using jv_hash [of "PDict d"] by (auto simp: compute_canonical_request_hash_def isinstance_str_def)

lemma sample_payload_hash: "\<exists>h. compute_canonical_request_hash (sample_payload key gen) = Inr h"
  using payload_hash [of "items (sample_payload key gen)"] sample_payload_jv [of key gen]
  by (simp add: sample_payload_def mkdict_def)

lemma sample_job_fields: "jb_request_id sample_job = request_id_of sample_uuid" "jb_payload sample_job = sample_payload ''key'' 0"
  "jb_idempotency_key sample_job = ''key''" "jb_generation sample_job = 0" "\<not> jb_task_done sample_job"
  "compute_canonical_request_hash (sample_payload ''key'' 0) = Inr (jb_request_hash sample_job)"
  using sample_payload_hash [of "''key''" 0] by (auto simp: sample_job_def new_job_def)

lemma sample_default: "default_request sample_job"
  by (simp add: default_request_def contract_of_def plan_of_def sample_job_fields sample_payload_def get_simps)

lemma sample_id: "id_text (request_id_of sample_uuid)"
  by (simp add: id_text_def request_id_of_def sample_uuid_def is_space_def nul_def numeral_eq_Suc)

lemma sample_job_well_formed: "is_dict (jb_payload sample_job)"
  "compute_canonical_request_hash (jb_payload sample_job) = Inr (jb_request_hash sample_job)" "id_text (jb_request_id sample_job)"
  using sample_job_fields(6) sample_id by (simp_all add: sample_job_fields(1,2)) (simp add: sample_payload_def)

lemma sample_acquire: "acquire_stage sample_env (items (get (items (jb_payload sample_job)) ''repository'')) = Inr (sample_locator, sample_snapshot)"
  by (simp add: acquire_stage_def sample_job_fields sample_payload_def sample_repository_def get_simps getitem_def
      sample_locator_made sample_env_def sample_acquired)

lemma sample_snapshot_fields: "sn_base_sha sample_snapshot = PStr (replicate 40 (CHR ''a''))"
  "sn_head_sha sample_snapshot = PStr (replicate 40 (CHR ''b''))" "sn_head_tree_sha sample_snapshot = PStr (replicate 40 (CHR ''d''))"
  "sn_changed_paths sample_snapshot = PTuple [PStr ''a.py'']" "is_str (sn_freshness_cas sample_snapshot)"
  by (simp_all add: sample_snapshot_def sample_draft_def)

lemma sample_fresh: "\<not> stale_source (items (get (items (jb_payload sample_job)) ''repository'')) sample_snapshot"
  by (simp add: stale_source_def sample_job_fields sample_payload_def sample_repository_def get_simps sample_snapshot_fields
      del: replicate.simps)

lemma sample_plain_snapshot: "plain_snapshot sample_snapshot"
proof -
  have "normalized ''a.py''" by (simp add: normalized_def strip_def is_space_def nul_def)
  then show ?thesis
    using post_init_typed [OF sample_post_init] by (simp add: plain_snapshot_def sample_snapshot_fields texts_def py_list_def)
qed

text \<open>The request the pipeline makes of the runner is always valid.\<close>

lemma run_request_valid:
  assumes s: "list_all sha40_str [sn_head_sha s, sn_head_tree_sha s]" and h: "is_sha256 ch" "is_sha256 ph" "is_sha256 eh"
    and rid: "id_text rid"
  shows "\<exists>key. validate_run_request (run_request rid s ch ph eh) = Inr key"
proof -
  let ?q = "run_request rid s ch ph eh"
  obtain a b where sha: "sn_head_sha s = PStr a" "is_sha40 a" "sn_head_tree_sha s = PStr b" "is_sha40 b"
    using s by (auto simp: sha40_str_def is_str_iff)
  have get: "get ?q ''source_revision'' = PStr a" "get ?q ''source_tree'' = PStr b" "get ?q ''contract_hash'' = PStr ch"
    "get ?q ''plan_hash'' = PStr ph" "get ?q ''environment_hash'' = PStr eh" "get ?q ''attempt_id'' = PStr (''att-'' @ rid)"
    by (simp_all add: run_request_def get_simps sha)
  have "\<exists>t. dumps compact_sorted (mkdict (map (\<lambda>k. (k, PStr (py_str (get ?q k)))) REQUIRED_BINDINGS)) = Inr t"
    unfolding mkdict_def by (rule dumps_dict_total) (simp_all add: REQUIRED_BINDINGS_def BINDINGS_def)
  then obtain key where key: "request_key ?q = Inr key" by (auto simp: request_key_def)
  have hex: "normalized x" if "is_sha40 x" for x
    using that hex_plain by (intro id_text_normalized) (auto simp: is_sha40_def id_text_def list_all_iff)
  have "normalized (''att-'' @ rid)"
    using rid by (intro id_text_normalized) (simp add: id_text_def is_space_def nul_def)
  then have texts: "text_check (PStr x) f = Inr ()" if "x \<in> {a, b, ch, ph, eh, ''att-'' @ rid}" for x f
    using that hex sha h is_sha256_normalized by (auto simp: text_check_def)
  then have dig: "digest_check (PStr x) f = Inr ()" if "x \<in> {ch, ph, eh}" for x f
    using that h by (auto simp: digest_check_def is_sha256_def)
  show ?thesis
    by (simp add: validate_run_request_def REQUIRED_BINDINGS_def BINDINGS_def get texts [simplified] dig [simplified] key sha)
qed

lemma sample_run_stage: "\<exists>r. run_stage sample_env (jb_request_id sample_job) (items (jb_payload sample_job)) sample_snapshot = Inr r \<and>
    rs_status r = RUN_VERIFIED"
proof -
  obtain eh where eh: "profile_hash default_profile = Inr eh" using profile_hash_default by blast
  then have "is_sha256 eh" by (auto simp: profile_hash_def ebind_Inr_iff)
  moreover obtain ch where ch: "hash_value (PDict []) = Inr ch" "is_sha256 ch" using jv_hash [of "PDict []"] by (auto simp: ordered_def spaced_def)
  moreover have "list_all sha40_str [sn_head_sha sample_snapshot, sn_head_tree_sha sample_snapshot]"
    using sample_sha40 by (simp add: sample_snapshot_fields sha40_str_def del: replicate.simps)
  ultimately obtain key where key: "validate_run_request (run_request (request_id_of sample_uuid) sample_snapshot ch ch eh) = Inr key"
    using run_request_valid [OF _ _ _ _ sample_id] by blast
  from sample_run [OF key valid_request_has [OF key]] obtain r
    where r: "fst (run sample_xml default_profile sample_executor Map.empty (run_request (request_id_of sample_uuid) sample_snapshot ch ch eh)) = Inr r"
      "rs_status r = RUN_VERIFIED" by force
  then have "run_stage sample_env (jb_request_id sample_job) (items (jb_payload sample_job)) sample_snapshot = Inr r"
    by (simp add: run_stage_def sample_env_def sample_loads eh sample_job_fields)
      (simp add: sample_payload_def getitem_def mkdict_def ch)
  then show ?thesis using r(2) by blast
qed

lemma sample_env_facts: "load_profile (pe_files sample_env) = Inr default_profile"
  "pe_executor sample_env = Some ex \<Longrightarrow> plain_executor ex" "cooperative (pe_appends sample_env i)"
  using sample_loads by (auto simp: sample_env_def)

lemma quiet_free: "free_attempt quiet_env"
  using quiet_connects own_sidecars unfolding free_attempt_def by (auto simp: quiet_env_def)

lemma sample_append:
  assumes "parse_request q = Inr p" "pq_disposition p = PStr d" "pq_claim_ceiling p = map PStr ss" "lr_signer q = None" "lr_failpoint q = None"
    "lr_expected_generation q = 0" "lr_attempt q = 1"
  shows "\<exists>r e. append_or_replay plain_fs (Some [''ledger.sqlite3'']) (\<lambda>_. quiet_env) [] q = (Inr (appended_result e), [r])"
proof -
  obtain r e where c: "append_txn [] q p (ae_now quiet_env) = Inr (Commit [r] e)" using first_commit [OF assms(2-7)] by blast
  have o: "ae_others quiet_env [] = []" by (simp add: quiet_env_def)
  have path: "\<exists>x. resolve_ledger_path plain_fs (Some [''ledger.sqlite3'']) = Inr x" by (simp add: resolve_ledger_path_def plain_fs_def)
  show ?thesis using free_append [of q p "\<lambda>_. quiet_env" "[]"] assms(1,5) c quiet_free path o by fastforce
qed


lemma verdict_started [simp]: "verdict (started j) = verdict j"
  by (simp add: fun_eq_iff verdict_def contract_of_def plan_of_def)

lemma default_started [simp]: "default_request (started j) = default_request j"
  by (simp add: default_request_def contract_of_def plan_of_def)

text \<open>The run of a fresh request up to its append.\<close>

lemma fresh_pipeline:
  assumes job: "default_request job" "is_dict (jb_payload job)" "compute_canonical_request_hash (jb_payload job) = Inr h"
      "id_text (jb_request_id job)"
    and acq: "acquire_stage env (items (get (items (jb_payload job)) ''repository'')) = Inr (loc, s)"
      "\<not> stale_source (items (get (items (jb_payload job)) ''repository'')) s" "plain_snapshot s"
    and r: "run_stage env (jb_request_id job) (items (jb_payload job)) s = Inr r"
    and env: "load_profile (pe_files env) = Inr default_profile" "\<And>ex. pe_executor env = Some ex \<Longrightarrow> plain_executor ex"
  obtains ev p where "evaluate_stage env (started job) loc s = Inr ev" "ev_disposition ev = verdict job s (rs_status r)"
    "parse_request (job_append_request sv (started job) s ev) = Inr p" "pq_request_hash p = h"
    "pq_disposition p = PStr (disposition_value (ev_disposition ev))" "pq_claim_ceiling p = map PStr CLAIM_CEILING"
    "execute_pipeline env sv job rows = append_stage env sv (started job) s ev rows"
proof -
  let ?j = "started job"
  obtain owner name pr where loc: "GitHubPullRequestLocator owner name pr = Inr loc"
    using acq(1) by (auto simp: acquire_stage_def ebind_Inr_iff split: option.splits)
  obtain ev where ev: "evaluate_stage env ?j loc s = Inr ev" "ev_run ev = r"
    using evaluation_built [of ?j h s _ _ _ loc env r, OF _ _ _ _ acq(3) loc _ env] job r by auto
  have d: "ev_disposition ev = verdict job s (rs_status r)" using evaluation_verdict [OF ev(1)] ev(2) by simp
  obtain p where p: "parse_request (job_append_request sv ?j s ev) = Inr p" "pq_request_hash p = h"
    "pq_disposition p = PStr (disposition_value (ev_disposition ev))" "pq_claim_ceiling p = map PStr CLAIM_CEILING"
    using request_parses [OF ev(1), of h] acq(3) job(3) by (auto simp: plain_snapshot_def)
  have pipe: "execute_pipeline env sv job rows = append_stage env sv ?j s ev rows"
    using acq(1,2) ev(1) by (simp add: execute_pipeline_def started_def [symmetric])
  then show ?thesis using that ev d p by blast
qed

text \<open>The sample pipeline certifies and commits.\<close>

lemma sample_verdict: "verdict sample_job sample_snapshot RUN_VERIFIED = CERTIFIED"
  by (simp add: verdict_def contract_of_def plan_of_def sample_job_fields sample_payload_def get_simps get_default_def
      sample_snapshot_fields texts_def py_list_def pytest_ids_def)

lemma sample_pipeline:
  obtains j r where "execute_pipeline sample_env sample_service sample_job [] = (j, [r])" "jb_state j = ''COMPLETED''"
proof -
  obtain rr where rr: "run_stage sample_env (jb_request_id sample_job) (items (jb_payload sample_job)) sample_snapshot = Inr rr"
    "rs_status rr = RUN_VERIFIED" using sample_run_stage by blast
  obtain ev p where ev: "evaluate_stage sample_env (started sample_job) sample_locator sample_snapshot = Inr ev"
      "ev_disposition ev = verdict sample_job sample_snapshot (rs_status rr)"
    and p: "parse_request (job_append_request sample_service (started sample_job) sample_snapshot ev) = Inr p"
      "pq_disposition p = PStr (disposition_value (ev_disposition ev))" "pq_claim_ceiling p = map PStr CLAIM_CEILING"
    and pipe: "execute_pipeline sample_env sample_service sample_job [] = append_stage sample_env sample_service (started sample_job) sample_snapshot ev []"
    using sample_default sample_job_well_formed sample_acquire sample_fresh sample_plain_snapshot rr(1) sample_env_facts(1,2) by (rule fresh_pipeline)
  let ?q = "job_append_request sample_service (started sample_job) sample_snapshot ev"
  obtain r e where a: "append_or_replay plain_fs (Some [''ledger.sqlite3'']) (\<lambda>_. quiet_env) [] ?q = (Inr (appended_result e), [r])"
    using sample_append [OF p] by (auto simp: job_append_request_def sample_service_def sample_job_fields)
  obtain resp where "completed_job (started sample_job) sample_snapshot ev (ar_generation (appended_result e)) =
      (started sample_job)\<lparr>jb_state := disposition_state (disposition_value (ev_disposition ev)),
      jb_generation := ar_generation (appended_result e), jb_receipt_bytes := Some (ev_receipt_bytes ev),
      jb_envelope_bytes := Some (ev_envelope_bytes ev), jb_response := Some resp\<rparr>"
    by (rule completed_job_ok [OF ev(1)])
  moreover have "ev_disposition ev = CERTIFIED" using ev(2) rr(2) sample_verdict by simp
  ultimately show ?thesis
    using that [of "completed_job (started sample_job) sample_snapshot ev (ar_generation (appended_result e))" r] a
    by (simp add: pipe append_stage_def) (simp add: sample_env_def sample_service_def appended_result_def disposition_state_def)
qed

text \<open>An accepted submission leaves its job in flight under its key.\<close>

lemma accepted_submission:
  assumes "submit_certification it dv u rows sv payload = (Inr (202, resp), sv1)"
  shows "\<exists>h j. compute_canonical_request_hash payload = Inr h \<and> validate_certification_request it payload = [] \<and>
    in_flight_job sv1 (str_of (get (items payload) ''idempotency_key'')) = Some j \<and> jb_request_hash j = h"
proof -
  let ?key = "str_of (get (items payload) ''idempotency_key'')"
  have stop: "\<not> sv_admission_stopped sv"
    using assms by (cases "sv_admission_stopped sv") (simp_all add: submit_certification_def)
  have ok: "validate_certification_request it payload = []"
  proof (rule ccontr)
    assume "validate_certification_request it payload \<noteq> []"
    then show False using assms stop by (simp add: submit_certification_def invalid_request_def Let_def split: if_splits)
  qed
  note ok = stop ok
  obtain h where h: "compute_canonical_request_hash payload = Inr h"
    using assms ok by (cases "compute_canonical_request_hash payload") (simp_all add: submit_certification_def)
  have none: "get_ledger_entry_by_idempotency dv rows ?key = None"
    using assms ok h by (cases "get_ledger_entry_by_idempotency dv rows ?key")
      (auto simp: submit_certification_def Let_def ebind_Inr_iff split: if_splits)
  show ?thesis
  proof (cases "in_flight_job sv ?key")
    case (Some j)
    then show ?thesis using assms ok h none by (auto simp: submit_certification_def Let_def split: if_splits)
  next
    case None
    then have "sv1 = sv\<lparr>sv_in_flight := (sv_in_flight sv)(request_id_of u \<mapsto> new_job (request_id_of u) ?key h
        (int_of (get (items payload) ''expected_generation'')) payload), sv_by_idempotency := (sv_by_idempotency sv)(?key \<mapsto> request_id_of u)\<rparr>"
      using assms ok h none by (auto simp: submit_certification_def Let_def split: if_splits)
    then show ?thesis using ok h by (simp add: in_flight_job_def new_job_def)
  qed
qed

section \<open>Properties\<close>

lemma pipeline_disposition:
  assumes "evaluate_stage env j loc s = Inr ev" "parse_request (job_append_request sv j s ev) = Inr p"
  shows "pq_disposition p = PStr (disposition_value (ev_disposition ev))"
proof -
  from assms(1) obtain h where
    "parse_receipt (ev_receipt_bytes ev) = Inr (h, PStr (disposition_value (ev_disposition ev)), map PStr CLAIM_CEILING)"
    by (rule evaluation_receipt)
  then show ?thesis using assms(2) by (auto simp: parse_request_def job_append_request_def ebind_Inr_iff)
qed

text \<open>What the ledger holds for a finished job.  The answer of the append reports the row of the job's key, with its
  request hash and the generation the job reports; where the job's own row was appended, it is the last one and
  carries the job's identifier, its verdict, and byte for byte the receipt and the envelope the job keeps.  (A
  replayed answer reports the row of the earlier run, whose verdict may be another.)\<close>

definition recorded :: "row list \<Rightarrow> job \<Rightarrow> string \<Rightarrow> disposition \<Rightarrow> append_result \<Rightarrow> bool" where
  "recorded rows j h d res \<longleftrightarrow> (\<exists>x e. x \<in> set rows \<and> row_to_entry x = Inr e \<and> ar_entry res = Some e \<and>
     rw_idempotency_key x = jb_idempotency_key j \<and> rw_request_hash x = h \<and> rw_committed_generation x = jb_generation j \<and>
     (ar_status res = APPENDED \<longrightarrow> x = last rows \<and> rw_request_id x = jb_request_id j \<and>
        rw_factual_disposition x = disposition_value d \<and>
        jb_receipt_bytes j = Some (rw_receipt_bytes x) \<and> jb_envelope_bytes j = Some (rw_envelope_bytes x)))"

text \<open>C21: a finished job was decided on the right evidence.  Let the executor be plain (no floats and no enumeration
  members among the values it reports), the signer sound (metadata that is \<open>None\<close> or JSON and, where it equals the
  public metadata, the same value and not empty) and every other process append through the same operation.  If a
  pipeline run leaves its job \<open>COMPLETED\<close> or \<open>FAILED\<close>, then the pull request was acquired with exactly the expected
  base and head commits; the runner ran on that head and, where it reports VERIFIED, two clean attempts of different
  executions bound to the head commit and its tree agree and pass; the disposition reported is the verdict (rejected
  outside the allowed paths, blocked when verifiers other than \<open>pytest\<close> are named, otherwise the runner's), and
  job and response carry the receipt evaluated from that evidence.  The ledger was asked to append the job's request
  with this receipt and answered \<open>APPENDED\<close> or \<open>REPLAYED\<close> with the entry of a row under the job's key, request hash
  and generation.  If appended, that is the last row, and it holds the job's identifier, the verdict, and receipt and
  envelope byte for byte.\<close>

theorem finished_job_was_decided:
  assumes run: "execute_pipeline env sv job rows = (j, rows')" and fin: "job_finished j"
    and env: "\<And>i. cooperative (pe_appends env i)" "\<And>ex. pe_executor env = Some ex \<Longrightarrow> plain_executor ex"
    and sg: "\<And>sg. sv_signer sv = Some sg \<Longrightarrow> sound_signer sg"
    and repo: "repo = items (get (items (jb_payload job)) ''repository'')"
  shows "\<exists>loc s r resp h ev res. acquire_stage env repo = Inr (loc, s) \<and>
    py_eq (sn_base_sha s) (get repo ''expected_base_sha'') \<and> py_eq (sn_head_sha s) (get repo ''expected_head_sha'') \<and>
    run_stage env (jb_request_id job) (items (jb_payload job)) s = Inr r \<and>
    (rs_status r = RUN_VERIFIED \<longrightarrow> (\<exists>q a b. get q ''source_revision'' = sn_head_sha s \<and> get q ''source_tree'' = sn_head_tree_sha s \<and>
       rs_attempts r = [a, b] \<and> clean_attempt (pe_xml env) q a \<and> clean_attempt (pe_xml env) q b \<and>
       ea_execution_id a \<noteq> ea_execution_id b \<and> ea_outcome_hash a = ea_outcome_hash b \<and> ea_exit_code a = 0 \<and>
       0 < ea_junit_tests a \<and> ea_junit_failures a = 0 \<and> ea_junit_errors a = 0)) \<and>
    jb_response j = Some resp \<and> get (items resp) ''disposition'' = PStr (disposition_value (verdict job s (rs_status r))) \<and>
    jb_state j = disposition_state (disposition_value (verdict job s (rs_status r))) \<and>
    compute_canonical_request_hash (jb_payload job) = Inr h \<and>
    jb_request_id j = jb_request_id job \<and> jb_idempotency_key j = jb_idempotency_key job \<and> get (items resp) ''receipt'' = ev_receipt ev \<and>
    evaluate_stage env (started job) loc s = Inr ev \<and> jb_receipt_bytes j = Some (ev_receipt_bytes ev) \<and>
    append_or_replay (pe_fs env) (Some (sv_db_path sv)) (pe_appends env) rows (job_append_request sv (started job) s ev) = (Inr res, rows') \<and>
    (ar_status res = APPENDED \<or> ar_status res = REPLAYED) \<and> recorded rows' j h (verdict job s (rs_status r)) res"
proof (rule pipeline_cases [OF run])
  fix code message
  assume "j = unverifiable code message (started job)"
  then have "jb_state j = ''UNVERIFIABLE''" by (simp add: unverifiable_def set_state_def)
  then show ?thesis using fin by (simp add: job_finished_def)
next
  let ?j = "started job" and ?repo = "items (get (items (jb_payload job)) ''repository'')"
  fix loc s ev res
  assume fin: "acquire_stage env ?repo = Inr (loc, s)" "\<not> stale_source ?repo s" "evaluate_stage env ?j loc s = Inr ev"
      "append_or_replay (pe_fs env) (Some (sv_db_path sv)) (pe_appends env) rows (job_append_request sv ?j s ev) = (Inr res, rows')"
      "ar_status res = APPENDED \<or> ar_status res = REPLAYED" "j = completed_job ?j s ev (ar_generation res)"
  have r: "run_stage env (jb_request_id job) (items (jb_payload job)) s = Inr (ev_run ev)"
    using fin(3) by (rule evaluated) simp
  note v = run_stage_verified [OF r _ env(2)]
  have d: "ev_disposition ev = verdict job s (rs_status (ev_run ev))" using evaluation_verdict [OF fin(3)] by simp
  let ?v = "verdict job s (rs_status (ev_run ev))"
  obtain resp where j: "j = ?j\<lparr>jb_state := disposition_state (disposition_value ?v), jb_generation := ar_generation res,
      jb_receipt_bytes := Some (ev_receipt_bytes ev), jb_envelope_bytes := Some (ev_envelope_bytes ev), jb_response := Some resp\<rparr>"
    "get (items resp) ''disposition'' = PStr (disposition_value ?v)" "get (items resp) ''receipt'' = ev_receipt ev"
    unfolding fin(6) d [symmetric] by (rule completed_job_ok [OF fin(3), of ?j "ar_generation res"]) simp
  let ?q = "job_append_request sv ?j s ev"
  have q: "lr_idempotency_key ?q = jb_idempotency_key job" "lr_canonical_request ?q = jb_payload job" "lr_request_id ?q = jb_request_id job"
    "lr_completion_receipt_bytes ?q = ev_receipt_bytes ev" "lr_identity_envelope_bytes ?q = ev_envelope_bytes ev"
    by (simp_all add: job_append_request_def)
  obtain x h where x: "x \<in> set rows'" "rw_idempotency_key x = lr_idempotency_key ?q"
    "rw_committed_generation x = ar_generation res" "compute_canonical_request_hash (lr_canonical_request ?q) = Inr h" "rw_request_hash x = h"
    "ar_status res = APPENDED \<Longrightarrow> rw_request_id x = lr_request_id ?q \<and> rw_receipt_bytes x = lr_completion_receipt_bytes ?q"
    "\<exists>e. row_to_entry x = Inr e \<and> ar_entry res = Some e"
    "ar_status res = APPENDED \<Longrightarrow> x = last rows' \<and> rw_envelope_bytes x = lr_identity_envelope_bytes ?q \<and>
       (\<exists>p. parse_request ?q = Inr p \<and> bind_text (pq_disposition p) = Inr (rw_factual_disposition x))"
    by (rule answered_row [OF fin(4,5) env(1) pipeline_request_sound [OF fin(3) sg]]; (rule that; simp)?)
  have "rw_factual_disposition x = disposition_value ?v" if a: "ar_status res = APPENDED"
    using x(8) [OF a] pipeline_disposition [OF fin(3)] d by (auto simp: bind_text_def)
  then have rec: "recorded rows' j h ?v res"
    using x unfolding recorded_def q by (intro exI [of _ x]) (auto simp: j(1))
  have run: "rs_status (ev_run ev) = RUN_VERIFIED \<longrightarrow> (\<exists>q a b. get q ''source_revision'' = sn_head_sha s \<and>
       get q ''source_tree'' = sn_head_tree_sha s \<and>
       rs_attempts (ev_run ev) = [a, b] \<and> clean_attempt (pe_xml env) q a \<and> clean_attempt (pe_xml env) q b \<and>
       ea_execution_id a \<noteq> ea_execution_id b \<and> ea_outcome_hash a = ea_outcome_hash b \<and> ea_exit_code a = 0 \<and>
       0 < ea_junit_tests a \<and> ea_junit_failures a = 0 \<and> ea_junit_errors a = 0)"
    using v by metis
  have source: "py_eq (sn_base_sha s) (get ?repo ''expected_base_sha'')" "py_eq (sn_head_sha s) (get ?repo ''expected_head_sha'')"
    using fin(2) by (simp_all add: stale_source_def)
  show ?thesis
    unfolding repo
    by (intro exI [of _ loc] exI [of _ s] exI [of _ "ev_run ev"] exI [of _ resp] exI [of _ h] exI [of _ ev] exI [of _ res] conjI
        fin(1) source r run j(2,3) fin(3,4,5) rec) (simp_all add: j(1) x(4) [unfolded q])
qed (use env(1) sg in auto)

theorem finished_job_was_decided_witness:
  "\<exists>j r resp. execute_pipeline sample_env sample_service sample_job [] = (j, [r]) \<and> job_finished j \<and>
     jb_response j = Some resp \<and> get (items resp) ''disposition'' \<noteq> PNone \<and> rw_idempotency_key r = ''key''"
proof -
  obtain j r where p: "execute_pipeline sample_env sample_service sample_job [] = (j, [r])" "jb_state j = ''COMPLETED''"
    by (rule sample_pipeline)
  have f: "job_finished j" using p(2) by (simp add: job_finished_def)
  have sg: "sv_signer sample_service = Some x \<Longrightarrow> sound_signer x" for x by (simp add: sample_service_def)
  obtain resp d h v res where "jb_response j = Some resp" "get (items resp) ''disposition'' = PStr d" "recorded [r] j h v res"
    and key: "jb_idempotency_key j = jb_idempotency_key sample_job"
    using finished_job_was_decided [OF p(1) f sample_env_facts(3) sample_env_facts(2) sg refl] by blast
  then show ?thesis using p f key by (auto simp: recorded_def sample_job_fields)
qed

text \<open>C22: a fresh request reaches the ledger, and the ledger decides.  For a request with default contract and plan, the
  default profile, a plain executor, a plain pull request (normalised paths, a plain string as freshness hash)
  acquired at the expected commits and a runner that returns any result, the pipeline raises nowhere before its
  append: the evidence is evaluated to the verdict, and the append it makes has the job's key, no failpoint, parses,
  and carries the request's hash and the verdict.  Then the job ends as the ledger answers: finished with that
  verdict, the committed generation and the receipt of the append; \<open>UNVERIFIABLE\<close> with the status of the refusal; or,
  exactly when the append itself raises, as an internal error.\<close>

theorem fresh_request_is_decided:
  assumes job: "default_request job" "is_dict (jb_payload job)" "compute_canonical_request_hash (jb_payload job) = Inr h"
      "id_text (jb_request_id job)"
    and acq: "acquire_stage env (items (get (items (jb_payload job)) ''repository'')) = Inr (loc, s)"
      "\<not> stale_source (items (get (items (jb_payload job)) ''repository'')) s" "plain_snapshot s"
    and r: "run_stage env (jb_request_id job) (items (jb_payload job)) s = Inr r"
    and env: "load_profile (pe_files env) = Inr default_profile" "\<And>ex. pe_executor env = Some ex \<Longrightarrow> plain_executor ex"
  shows "\<exists>ev q p. evaluate_stage env (started job) loc s = Inr ev \<and> ev_disposition ev = verdict job s (rs_status r) \<and>
    q = job_append_request sv (started job) s ev \<and> lr_idempotency_key q = jb_idempotency_key job \<and> lr_failpoint q = None \<and>
    parse_request q = Inr p \<and> pq_request_hash p = h \<and>
    pq_disposition p = PStr (disposition_value (verdict job s (rs_status r))) \<and>
    (case append_or_replay (pe_fs env) (Some (sv_db_path sv)) (pe_appends env) rows q of
       (Inl e, rows') \<Rightarrow> execute_pipeline env sv job rows = (interrupted_job (started job), rows')
     | (Inr res, rows') \<Rightarrow> (\<exists>j. execute_pipeline env sv job rows = (j, rows') \<and>
        (if ar_status res = APPENDED \<or> ar_status res = REPLAYED
         then jb_state j = disposition_state (disposition_value (verdict job s (rs_status r))) \<and> jb_generation j = ar_generation res \<and>
           jb_receipt_bytes j = Some (lr_completion_receipt_bytes q)
         else jb_state j = ''UNVERIFIABLE'' \<and> jb_error_code j = Some (append_status_value (ar_status res)))))"
proof -
  let ?j = "started job"
  obtain ev p where ev: "evaluate_stage env ?j loc s = Inr ev" "ev_disposition ev = verdict job s (rs_status r)"
    and p: "parse_request (job_append_request sv ?j s ev) = Inr p" "pq_request_hash p = h"
      "pq_disposition p = PStr (disposition_value (ev_disposition ev))"
    and pipe: "execute_pipeline env sv job rows = append_stage env sv ?j s ev rows"
    using job acq r env by (rule fresh_pipeline)
  let ?q = "job_append_request sv ?j s ev"
  obtain a rows' where a: "append_or_replay (pe_fs env) (Some (sv_db_path sv)) (pe_appends env) rows ?q = (a, rows')"
    by (cases "append_or_replay (pe_fs env) (Some (sv_db_path sv)) (pe_appends env) rows ?q")
  have q: "lr_idempotency_key ?q = jb_idempotency_key job" "lr_failpoint ?q = None" "lr_completion_receipt_bytes ?q = ev_receipt_bytes ev"
    by (simp_all add: job_append_request_def)
  have "case a of Inl e \<Rightarrow> execute_pipeline env sv job rows = (interrupted_job ?j, rows')
     | Inr res \<Rightarrow> (\<exists>j. execute_pipeline env sv job rows = (j, rows') \<and>
        (if ar_status res = APPENDED \<or> ar_status res = REPLAYED
         then jb_state j = disposition_state (disposition_value (verdict job s (rs_status r))) \<and> jb_generation j = ar_generation res \<and>
           jb_receipt_bytes j = Some (lr_completion_receipt_bytes ?q)
         else jb_state j = ''UNVERIFIABLE'' \<and> jb_error_code j = Some (append_status_value (ar_status res))))"
  proof (cases a)
    case (Inl e)
    then show ?thesis using a by (simp add: pipe append_stage_def)
  next
    case (Inr res)
    show ?thesis
    proof (cases "ar_status res = APPENDED \<or> ar_status res = REPLAYED")
      case True
      obtain resp where "completed_job ?j s ev (ar_generation res) = ?j\<lparr>jb_state := disposition_state (disposition_value (ev_disposition ev)),
        jb_generation := ar_generation res, jb_receipt_bytes := Some (ev_receipt_bytes ev), jb_envelope_bytes := Some (ev_envelope_bytes ev),
        jb_response := Some resp\<rparr>"
        by (rule completed_job_ok [OF ev(1)])
      then show ?thesis using True a ev(2) Inr by (auto simp: pipe append_stage_def q)
    next
      case False
      then show ?thesis using a Inr by (simp add: pipe append_stage_def refused_job_def unverifiable_def set_state_def)
    qed
  qed
  then show ?thesis
    using ev p q a by (intro exI [of _ ev] exI [of _ ?q] exI [of _ p]) (auto split: sum.splits)
qed


theorem fresh_request_is_decided_witness:
  "\<exists>ev q p. q = job_append_request sample_service (started sample_job) sample_snapshot ev \<and> parse_request q = Inr p \<and>
     lr_idempotency_key q = ''key'' \<and> pq_disposition p = PStr ''CERTIFIED''"
proof -
  obtain rr where rr: "run_stage sample_env (jb_request_id sample_job) (items (jb_payload sample_job)) sample_snapshot = Inr rr"
    "rs_status rr = RUN_VERIFIED" using sample_run_stage by blast
  show ?thesis
    using fresh_request_is_decided [OF sample_default sample_job_well_formed sample_acquire sample_fresh sample_plain_snapshot rr(1) sample_env_facts(1,2),
        of sample_service "[]"]
    unfolding rr(2) sample_verdict sample_job_fields by auto
qed


text \<open>C23: the jobs in flight.  In every state the service reaches, under any interleaving of submissions,
  pipelines, shutdown and the appends of other processes, a job is filed under its own identifier and no
  two jobs share an idempotency key; its response conforms to the published schema and carries its
  identifier, state and generation; a job whose task has not run is pending; and a finished job's request
  is in the ledger under its key, hash and generation.\<close>

theorem jobs_in_flight_are_consistent:
  assumes "service_init st" "service_step\<^sup>*\<^sup>* st (sv, rows)" "sv_in_flight sv rid = Some j"
  shows "jb_request_id j = rid \<and> (\<forall>rid' j'. sv_in_flight sv rid' = Some j' \<and> jb_idempotency_key j' = jb_idempotency_key j \<longrightarrow> rid' = rid) \<and>
    (\<exists>resp. response_of j resp) \<and> (\<not> jb_task_done j \<longrightarrow> jb_state j = ''PENDING'') \<and>
    (job_finished j \<longrightarrow> registers rows (jb_idempotency_key j) (jb_request_hash j) (jb_generation j))"
proof -
  have "service_inv (sv, rows)" using certification_service.reachable_inv [OF assms(1,2)] .
  note inv = service_invD [OF this]
  have "rid' = rid" if "sv_in_flight sv rid' = Some j'" "jb_idempotency_key j' = jb_idempotency_key j" for rid' j'
    using inv(4) [OF assms(3)] inv(4) [OF that(1)] that(2) by simp
  then show ?thesis using inv(3) [OF assms(3)] by (auto simp: job_ok_def)
qed

text \<open>The sample service after the submission of the sample request, and after its pipeline.\<close>

definition fresh_view :: db_view where
  "fresh_view = \<lparr>dv_exists = False, dv_readable = False\<rparr>"

definition submitted_service :: service where
  "submitted_service = sample_service\<lparr>sv_in_flight := [request_id_of sample_uuid \<mapsto> sample_job],
     sv_by_idempotency := [''key'' \<mapsto> request_id_of sample_uuid]\<rparr>"

lemma sample_submission:
  "submit_certification id fresh_view sample_uuid [] sample_service (sample_payload ''key'' 0) =
     (Inr (202, job_response sample_job), submitted_service)"
proof -
  obtain h where h: "compute_canonical_request_hash (sample_payload ''key'' 0) = Inr h" using sample_payload_hash by blast
  have get: "get (items (sample_payload ''key'' 0)) ''idempotency_key'' = PStr ''key''"
    "get (items (sample_payload ''key'' 0)) ''expected_generation'' = PInt 0"
    by (simp_all add: sample_payload_def get_simps)
  show ?thesis
    using sample_payload_accepted [of "''key''" 0]
    by (simp add: submit_certification_def Let_def h get get_ledger_entry_by_idempotency_def fresh_view_def in_flight_job_def
        get_current_ledger_generation_def int_of_def sample_job_def submitted_service_def sample_service_def)
qed

lemma sample_init: "service_init (sample_service, [])"
proof -
  have "new_service plain_fs (Some [''ledger.sqlite3'']) ''ledger'' None = Inr sample_service"
    by (simp add: new_service_def resolve_ledger_path_def plain_fs_def sample_service_def)
  then show ?thesis unfolding service_init_def by (auto intro!: exI)
qed

lemma sample_submitted: "service_step\<^sup>*\<^sup>* (sample_service, []) (submitted_service, [])"
proof -
  have "service_step (sample_service, []) (submitted_service, [])"
    by (rule submitted [OF _ sample_submission]) (simp add: sample_service_def)
  then show ?thesis by blast
qed

theorem jobs_in_flight_are_consistent_witness:
  "service_step\<^sup>*\<^sup>* (sample_service, []) (submitted_service, []) \<and> (\<exists>resp. response_of sample_job resp)"
proof -
  have f: "sv_in_flight submitted_service (request_id_of sample_uuid) = Some sample_job" by (simp add: submitted_service_def)
  show ?thesis
    using jobs_in_flight_are_consistent [OF sample_init sample_submitted f] sample_submitted by blast
qed

text \<open>C24: resubmission is idempotent.  After a submission was answered 202, whatever the service and other
  processes do in between, submitting the same payload again starts no second job and does not change
  the service.  It is answered 503 after shutdown; from the ledger when it holds the key (as a conflict
  if the row has another hash, else the stored outcome); and otherwise with the response the one job of
  the key has by then.\<close>

theorem resubmission_starts_nothing:
  assumes reach: "service_init st" "service_step\<^sup>*\<^sup>* st (sv, rows)" and it: "iterates it" "iterates it'"
    and first: "sv_in_flight sv (request_id_of u) = None" "submit_certification it dv u rows sv payload = (Inr (202, resp), sv1)"
    and later: "service_step\<^sup>*\<^sup>* (sv1, rows) (sv2, rows2)"
    and again: "submit_certification it' dv' u' rows2 sv2 payload = (answer, sv3)"
    and key: "key = str_of (get (items payload) ''idempotency_key'')"
  shows "sv3 = sv2 \<and> (\<exists>h j. compute_canonical_request_hash payload = Inr h \<and> in_flight_job sv2 key = Some j \<and> jb_request_hash j = h \<and>
    (if sv_admission_stopped sv2 then answer = Inr (503, stopped_error)
     else case get_ledger_entry_by_idempotency dv' rows2 key of
       Some r \<Rightarrow> if rw_request_hash r \<noteq> h then answer = Inr (409, conflict_error)
         else answer = ebind (stored_response (rw_request_id r) (rw_committed_generation r) (PStr (rw_factual_disposition r))
             (rw_receipt_bytes r) (rw_envelope_bytes r) (map PStr CLAIM_CEILING)) (\<lambda>x. Inr (200, x))
     | None \<Rightarrow> answer = Inr (202, job_response j)))"
proof -
  have inv: "service_inv (sv, rows)" using certification_service.reachable_inv [OF reach] .
  have inv1: "service_inv (sv1, rows)" using submit_inv [OF inv first] .
  obtain h j1 where h: "compute_canonical_request_hash payload = Inr h" "validate_certification_request it payload = []"
    and j1: "in_flight_job sv1 key = Some j1" "jb_request_hash j1 = h"
    using accepted_submission [OF first(2)] key by blast
  then obtain rid where rid: "sv_by_idempotency sv1 key = Some rid" "sv_in_flight sv1 rid = Some j1"
    by (auto simp: in_flight_job_def split: option.splits)
  have le: "service_le (sv1, rows) (sv2, rows2)" using certification_service.inv_run_le [OF later inv1] .
  obtain j2 where j2: "sv_in_flight sv2 rid = Some j2" "same_job j1 j2" using le rid(2) unfolding service_le_def fst_conv by blast
  have "sv_by_idempotency sv2 key = Some rid" using le rid(1) by (force simp: service_le_def map_le_def)
  then have flight: "in_flight_job sv2 key = Some j2" "jb_request_hash j2 = h"
    using j2 j1(2) by (auto simp: in_flight_job_def same_job_def)
  have "validate_certification_request it' payload = []"
    using h(2) validate_request_Nil [OF it(1)] validate_request_Nil [OF it(2)] by blast
  then show ?thesis
    using again h(1) flight key by (auto simp: submit_certification_def Let_def split: option.splits if_splits)
qed


theorem resubmission_starts_nothing_witness:
  "submit_certification id fresh_view sample_uuid [] submitted_service (sample_payload ''key'' 0) =
     (Inr (202, job_response sample_job), submitted_service)"
proof -
  obtain answer sv3 where again: "submit_certification id fresh_view sample_uuid [] submitted_service (sample_payload ''key'' 0) = (answer, sv3)"
    by (cases "submit_certification id fresh_view sample_uuid [] submitted_service (sample_payload ''key'' 0)")
  have fresh: "sv_in_flight sample_service (request_id_of sample_uuid) = None" by (simp add: sample_service_def)
  have key: "''key'' = str_of (get (items (sample_payload ''key'' 0)) ''idempotency_key'')" by (simp add: sample_payload_def get_simps)
  have "in_flight_job submitted_service ''key'' = Some sample_job" by (simp add: in_flight_job_def submitted_service_def)
  moreover have "\<not> sv_admission_stopped submitted_service" by (simp add: submitted_service_def sample_service_def)
  moreover have "get_ledger_entry_by_idempotency fresh_view [] ''key'' = None" by (simp add: get_ledger_entry_by_idempotency_def)
  ultimately show ?thesis
    using resubmission_starts_nothing [OF sample_init rtranclp.rtrancl_refl iterates_id iterates_id fresh sample_submission
        rtranclp.rtrancl_refl again key] again by simp
qed

text \<open>C25: shutdown is final.  Once \<open>drain\<close> has returned, in every later state no job is pending execution, the
  jobs in flight are exactly those \<open>drain\<close> left, every submission is refused with 503 without effect, and
  the ledger only gains the rows of other processes.\<close>

theorem shutdown_is_final:
  assumes "service_init st" "service_step\<^sup>*\<^sup>* st (sv, rows)" "service_step\<^sup>*\<^sup>* (drain sv, rows) (sv', rows')"
  shows "sv_in_flight sv' = sv_in_flight (drain sv) \<and> (\<forall>rid j. sv_in_flight sv' rid = Some j \<longrightarrow> jb_task_done j) \<and>
    submit_certification it dv u rows' sv' payload = (Inr (503, stopped_error), sv') \<and> prefix rows rows'"
proof -
  have inv: "service_inv (drain sv, rows)" using drain_inv [OF certification_service.reachable_inv [OF assms(1,2)]] .
  have le: "service_le (drain sv, rows) (sv', rows')" using certification_service.inv_run_le [OF assms(3) inv] .
  have over: "jb_task_done j" if "sv_in_flight (drain sv) rid = Some j" for rid j
  proof -
    obtain i where "j = (if jb_task_done i then i else cancel_job i)" using \<open>_ = Some j\<close> by (auto simp: drained_flight)
    then show ?thesis by (simp add: cancel_job_def)
  qed
  have "sv_in_flight sv' rid = sv_in_flight (drain sv) rid" for rid
  proof (cases "sv_in_flight (drain sv) rid")
    case (Some j)
    then show ?thesis using le over [OF Some] unfolding service_le_def fst_conv by fastforce
  next
    case None
    have "dom (sv_in_flight sv') = dom (sv_in_flight (drain sv))" using le by (simp add: service_le_def drain_keeps)
    then show ?thesis using None by (metis domIff)
  qed
  then have same: "sv_in_flight sv' = sv_in_flight (drain sv)" by (rule ext)
  have "sv_admission_stopped sv'" "prefix rows rows'" using le by (simp_all add: service_le_def drain_keeps)
  then show ?thesis using same over by (auto simp: submit_certification_def)
qed

theorem shutdown_is_final_witness:
  "submit_certification id fresh_view sample_uuid [] (drain submitted_service) (sample_payload ''other'' 0) =
     (Inr (503, stopped_error), drain submitted_service)"
  using shutdown_is_final [OF sample_init sample_submitted rtranclp.rtrancl_refl] by blast

text \<open>C26: full verification recomputes.  When \<open>verify_receipt\<close> answers a \<open>FULL\<close> request with \<open>VALID\<close>, the
  original inputs parse to an input that the kernel certifies, and the body of the submitted receipt has
  the same canonical form as the body of the receipt the kernel issues for that input, or the two bodies
  are a collision of SHA-256.\<close>

theorem full_verification_is_sound:
  assumes "verify_receipt payload = Inr (200, v)" "py_eq (get (items payload) ''requested_scope'') (PStr ''FULL'')"
    and "get (items v) ''status'' = PStr ''VALID''"
    and r: "receipt = get (items payload) ''receipt''"
  shows "\<exists>ci res rd. original_input receipt (get (items payload) ''original_inputs'') = Inr ci \<and> certify (Obj ci) = Inr res \<and>
    receipt_to_dict (cr_receipt res) = Inr rd \<and>
    (clean (PDict (without_key (items receipt) ''receipt_hash'')) = clean (PDict (without_key (items rd) ''receipt_hash'')) \<or>
     collides (PDict (without_key (items receipt) ''receipt_hash'')) (PDict (without_key (items rd) ''receipt_hash'')))"
proof -
  let ?body = "PDict (without_key (items receipt) ''receipt_hash'')" and ?inputs = "get (items payload) ''original_inputs''"
  let ?claimed = "str_of (get (items receipt) ''receipt_hash'')"
  have h: "hash_value ?body = Inr ?claimed" and full: "full_verification receipt ?inputs ?claimed = (200, v)"
    using assms(1,2) unfolding r by (auto simp: verify_receipt_def receipt_error_def Let_def ebind_Inr_iff split: if_splits)
  have "recomputed_hash receipt ?inputs = Inr ?claimed"
    using full assms(3) by (auto simp: full_verification_def verify_response_def receipt_error_def get_simps split: if_splits sum.splits)
  then obtain ci res where ci: "original_input receipt ?inputs = Inr ci" "certify (Obj ci) = Inr res"
    "obj_hash receipt_core_hash (cr_receipt res) = Inr ?claimed"
    by (auto simp: recomputed_hash_def ebind_Inr_iff)
  from ci(2) obtain ch csh ph eh st codes i disp k where k:
    "receipt_to_dict (cr_receipt res) = Inr (mkdict (receipt_fields ch csh ph eh st codes i disp (input_policy ci) @ [(''receipt_hash'', PStr k)]))"
    "policy_ok (input_policy ci)" "obj_hash receipt_core_hash (cr_receipt res) = Inr k"
    "hash_value (mkdict (receipt_fields ch csh ph eh st codes i disp (input_policy ci))) = Inr k"
    by (rule kernel_receipt)
  let ?rd = "mkdict (receipt_fields ch csh ph eh st codes i disp (input_policy ci) @ [(''receipt_hash'', PStr k)])"
  have body: "hash_value ?body = hash_value (PDict (without_key (items ?rd) ''receipt_hash''))"
    unfolding without_receipt_hash using h k(3,4) ci(3) by simp
  obtain x where x: "clean ?body = Inr x" using h by (cases "clean ?body") (auto simp: hash_value_raises)
  obtain y where y: "clean (PDict (without_key (items ?rd) ''receipt_hash'')) = Inr y"
    unfolding without_receipt_hash using jv_clean [OF jv_receipt_fields(1) [OF k(2)]] by blast
  have "clean ?body = clean (PDict (without_key (items ?rd) ''receipt_hash'')) \<or> collides ?body (PDict (without_key (items ?rd) ''receipt_hash''))"
    using hash_value_eq_iff [OF x y] body x y by auto
  then show ?thesis using ci(1,2) k(1) by blast
qed


text \<open>The sample subjects as original inputs, and the kernel's receipt for them.\<close>

definition sample_inputs :: pyval where
  "sample_inputs = mkdict [
     (''acceptance_contract'', mkdict [(''contract_id'', PStr ''contract''), (''requirements_hash'', PStr sample_sha),
        (''required_verifier_ids'', PList (map PStr sample_ids)), (''allowed_paths'', PList (map PStr [''src/a.py'', ''src/b.py''])),
        (''deletion_policy'', PStr ''FORBID'')]),
     (''change_set'', mkdict [(''change_set_id'', PStr ''change''), (''source_revision'', PStr ''rev1''), (''target_revision'', PStr ''rev2''),
        (''diff_hash'', PStr sample_sha), (''paths'', PList [PStr ''src/a.py''])]),
     (''verification_plan'', mkdict [(''plan_id'', PStr ''plan''), (''required_verifier_ids'', PList (map PStr sample_ids))]),
     (''evidence'', mkdict [(''bundle_id'', PStr ''bundle''),
        (''observations'', PList (map (\<lambda>ob. mkdict [(''verifier_id'', ob_verifier_id ob), (''artifact_id'', ob_artifact_id ob),
           (''artifact_hash'', ob_artifact_hash ob), (''status'', PStr ''PASS'')]) sample_passes))])]"

lemma sample_item: "getitem ((PStr k, v) # d) k = Inr v" "k \<noteq> k' \<Longrightarrow> getitem ((PStr k', v) # d) k = getitem d k"
  by (simp_all add: getitem_def)

lemma sample_subjects_made:
  "original_contract (get (items sample_inputs) ''acceptance_contract'') = Inr sample_contract"
  "original_change_set (get (items sample_inputs) ''change_set'') = Inr sample_change_set"
  "original_plan (get (items sample_inputs) ''verification_plan'') (projr (contract_hash sample_contract)) (projr (change_set_hash sample_change_set)) =
     Inr sample_plan"
  using sample_contract_ok [OF sample_ids_ok] sample_change_set_ok sample_plan_ok [OF sample_ids_ok]
  by (simp_all add: original_contract_def original_change_set_def original_plan_def sample_inputs_def get_simps mkdict_def subscript_def
      sample_item item_tuple_def tuple_of_def py_list_def AcceptanceContract_Inr ChangeSet_Inr VerificationPlan_Inr)
    (simp_all add: sample_contract_of_def sample_change_set_def sample_plan_of_def)

lemma sample_observations_made:
  "ebind (ebind (subscript (get (items sample_inputs) ''evidence'') ''observations'') py_list) (emap original_observation) = Inr sample_passes"
proof -
  have wf: "wf_observation x" if "x \<in> set sample_passes" for x
    using that by (auto simp: sample_passes_def intro!: sample_obs_wf) (simp_all add: normalized_def strip_def is_space_def nul_def)
  have "original_observation (mkdict [(''verifier_id'', ob_verifier_id x), (''artifact_id'', ob_artifact_id x),
           (''artifact_hash'', ob_artifact_hash x), (''status'', PStr ''PASS'')]) = Inr x" if "x \<in> set sample_passes" for x
    using wf [OF that] that
    by (auto simp: original_observation_def mkdict_def sample_item get_default_def status_of_value_def observation_status_of_def
        Observation_Inr sample_passes_def sample_obs_def)
  then have "emap original_observation (map (\<lambda>ob. mkdict [(''verifier_id'', ob_verifier_id ob), (''artifact_id'', ob_artifact_id ob),
           (''artifact_hash'', ob_artifact_hash ob), (''status'', PStr ''PASS'')]) sample_passes) = Inr sample_passes"
    unfolding emap_map by (subst emap_total [where g = id]) auto
  then show ?thesis
    by (simp add: sample_inputs_def get_simps mkdict_def subscript_def sample_item py_list_def)
qed


lemma sample_receipt_policy:
  assumes "policy_fields po = replicate 4 (PBool True)"
  shows "receipt_policy (mkdict (receipt_fields ch csh ph eh st codes i disp po @ [(''receipt_hash'', PStr h)])) = Inr po"
proof -
  obtain a b c d where po: "po = \<lparr>accepted = a, authority_present = b, approval_present = c, signing_present = d\<rparr>" by (cases po)
  have v: "a = PBool True" "b = PBool True" "c = PBool True" "d = PBool True" using assms by (simp_all add: po policy_fields_def numeral_eq_Suc)
  show ?thesis
    by (simp add: receipt_policy_def dict_get_def mkdict_def receipt_fields_def get_default_def po policy_dict_def policy_names_def
        policy_fields_def get_simps v)
qed

definition sample_verify_payload :: "pyval \<Rightarrow> pyval" where
  "sample_verify_payload rd = mkdict [(''receipt'', rd), (''original_inputs'', sample_inputs), (''requested_scope'', PStr ''FULL'')]"

lemma sample_verifies:
  obtains rd h where "verify_receipt (sample_verify_payload rd) = Inr (200, verify_response ''FULL_RECOMPUTED'' ''VALID'' [] h (PStr h))"
proof -
  let ?ci = "sample_input_of sample_ids sample_passes"
  obtain res where res: "certify (Obj ?ci) = Inr res" using sample_certifies by blast
  from res obtain ch csh ph eh st codes i disp h where k:
    "receipt_to_dict (cr_receipt res) = Inr (mkdict (receipt_fields ch csh ph eh st codes i disp (input_policy ?ci) @ [(''receipt_hash'', PStr h)]))"
    "obj_hash receipt_core_hash (cr_receipt res) = Inr h" "is_sha256 h"
    "hash_value (mkdict (receipt_fields ch csh ph eh st codes i disp (input_policy ?ci))) = Inr h"
    by (rule kernel_receipt)
  let ?rd = "mkdict (receipt_fields ch csh ph eh st codes i disp (input_policy ?ci) @ [(''receipt_hash'', PStr h)])"
  let ?p = "sample_verify_payload ?rd"
  note f = get_receipt_fields [OF refl, of ch csh ph eh st codes i disp "input_policy ?ci" h]
  have get: "get (items ?p) ''receipt'' = ?rd" "get (items ?p) ''original_inputs'' = sample_inputs"
    "get (items ?p) ''requested_scope'' = PStr ''FULL''"
    by (simp_all add: sample_verify_payload_def get_simps)
  have keys: "keys_are (items ?p) (required_keys RECEIPT_VERIFY_REQUEST_SCHEMA)"
    by (simp add: sample_verify_payload_def keys_are_def has_key_def required_keys_def RECEIPT_VERIFY_REQUEST_SCHEMA_def get_simps)
  have dict: "is_dict ?p" "is_dict ?rd" "is_dict sample_inputs" "truthy sample_inputs"
    by (simp_all add: sample_verify_payload_def mkdict_def sample_inputs_def truthy_def)
  have valid: "validate_receipt_verify_request ?p = Inr []"
    using dict keys by (simp add: validate_receipt_verify_request_def Let_def get f in_strs_def del: items_mkdict)
  have policy: "receipt_policy ?rd = Inr (input_policy ?ci)"
    by (rule sample_receipt_policy) (simp add: input_policy_def sample_input_of_def policy_fields_def numeral_eq_Suc)
  have sub: "subscript sample_inputs k = Inr (get (items sample_inputs) k)" if "k \<in> {''acceptance_contract'', ''change_set'', ''verification_plan'', ''evidence''}" for k
    using that by (auto simp: sample_inputs_def mkdict_def subscript_def getitem_def get_def)
  obtain obs where obs: "ebind (subscript (get (items sample_inputs) ''evidence'') ''observations'') py_list = Inr obs"
    "emap original_observation obs = Inr sample_passes"
    using sample_observations_made by (auto simp: ebind_Inr_iff)
  have ev: "original_evidence (get (items sample_inputs) ''evidence'') sample_passes (projr (contract_hash sample_contract))
      (projr (change_set_hash sample_change_set)) (projr (plan_hash sample_plan)) = Inr sample_evidence"
  proof -
    have wf: "\<forall>x \<in> set sample_passes. wf_observation x"
      by (auto simp: sample_passes_def intro!: sample_obs_wf) (simp_all add: normalized_def strip_def is_space_def nul_def)
    have "evidence_errs sample_evidence = []" using sample_evidence_valid by (simp add: derive_VALID_iff)
    then have "EvidenceBundle (PStr ''bundle'') (PStr (projr (contract_hash sample_contract)))
      (PStr (projr (change_set_hash sample_change_set))) (PStr (projr (plan_hash sample_plan))) (Some (map Obj sample_passes)) PNone =
        Inr sample_evidence"
      unfolding EvidenceBundle_Inr [OF wf] by (simp add: sample_evidence_def sample_evidence_of_def sample_passes_def)
    moreover have "subscript (get (items sample_inputs) ''evidence'') ''bundle_id'' = Inr (PStr ''bundle'')"
      by (simp add: sample_inputs_def get_simps mkdict_def subscript_def sample_item)
    ultimately show ?thesis by (simp add: original_evidence_def)
  qed
  obtain kc kcs kp where hash: "contract_hash sample_contract = Inr kc" "change_set_hash sample_change_set = Inr kcs" "plan_hash sample_plan = Inr kp"
    using sample_contract_hash(1) [OF sample_ids_ok] sample_change_set_hash(1) sample_plan_hash(1) [OF sample_ids_ok] by metis
  have plan: "original_plan (get (items sample_inputs) ''verification_plan'') kc kcs = Inr sample_plan"
    using sample_subjects_made(3) by (simp only: hash sum.sel(2))
  have "original_input ?rd sample_inputs = Inr ?ci"
    using ev by (simp add: original_input_def sub sample_subjects_made(1,2) hash plan obs policy del: items_mkdict)
      (simp add: sample_input_of_def sample_evidence_def sample_passes_def input_policy_def or_true_def)
  then have "recomputed_hash ?rd sample_inputs = Inr h" using res k(2) by (simp add: recomputed_hash_def)
  then have "full_verification ?rd sample_inputs h = (200, verify_response ''FULL_RECOMPUTED'' ''VALID'' [] h (PStr h))"
    using dict by (simp add: full_verification_def)
  moreover have "h \<noteq> []" using k(3) by (auto simp: is_sha256_def)
  ultimately have "verify_receipt ?p = Inr (200, verify_response ''FULL_RECOMPUTED'' ''VALID'' [] h (PStr h))"
    using k(4) by (simp add: verify_receipt_def valid Let_def get f(1) truthy_def without_receipt_hash del: items_mkdict)
  then show ?thesis by (rule that)
qed

theorem full_verification_is_sound_witness:
  "\<exists>rd h ci res. verify_receipt (sample_verify_payload rd) = Inr (200, verify_response ''FULL_RECOMPUTED'' ''VALID'' [] h (PStr h)) \<and>
     original_input rd sample_inputs = Inr ci \<and> certify (Obj ci) = Inr res"
proof -
  obtain rd h where v: "verify_receipt (sample_verify_payload rd) = Inr (200, verify_response ''FULL_RECOMPUTED'' ''VALID'' [] h (PStr h))"
    by (rule sample_verifies)
  have "py_eq (get (items (sample_verify_payload rd)) ''requested_scope'') (PStr ''FULL'')"
    "get (items (verify_response ''FULL_RECOMPUTED'' ''VALID'' [] h (PStr h))) ''status'' = PStr ''VALID''"
    "rd = get (items (sample_verify_payload rd)) ''receipt''" "sample_inputs = get (items (sample_verify_payload rd)) ''original_inputs''"
    by (simp_all add: sample_verify_payload_def verify_response_def get_simps)
  from full_verification_is_sound [OF v this(1-3)] this(4) show ?thesis using v by metis
qed

end
