(* ===== verification/Loopback.thy ===== *)
theory Loopback
  imports Json_Roundtrip
begin

text \<open>
  \<open>_is_loopback\<close> of \<open>product/runtime/http.py\<close>: which host texts the server may bind to, with the address
  parsers of the standard library's \<open>ipaddress\<close> it calls, and the lemmas that say which texts these are.
\<close>

section \<open>Parsing addresses\<close>

text \<open>\<open>IPv4Address\<close>: four decimal octets without leading zeros.\<close>

definition parse_octet :: "string \<Rightarrow> nat option" where
  "parse_octet s =
     (if s = [] then None
      else if \<not> list_all is_digit s then None
      else if 3 < length s then None
      else if s \<noteq> ''0'' \<and> hd s = CHR ''0'' then None
      else if 255 < nat_of_digits s then None
      else Some (nat_of_digits s))"

definition ipv4_value :: "string \<Rightarrow> nat option" where
  "ipv4_value s = (case map parse_octet (split_on (CHR ''.'') s) of
     [Some a, Some b, Some c, Some d] \<Rightarrow> Some (((a * 256 + b) * 256 + c) * 256 + d)
   | _ \<Rightarrow> None)"

text \<open>\<open>IPv6Address\<close>: groups of at most four hexadecimal digits, one run of them elided by \<open>::\<close>, an
  IPv4 tail and a scope.\<close>

definition hextets_value :: "string list \<Rightarrow> nat option" where
  "hextets_value ps =
     (if list_all (\<lambda>p. p \<noteq> [] \<and> length p \<le> 4 \<and> list_all (\<lambda>c. hex_val c \<noteq> None) p) ps
      then Some (foldl (\<lambda>n p. n * 65536 + foldl (\<lambda>m c. m * 16 + the (hex_val c)) 0 p) 0 ps) else None)"

text \<open>The hextet text \<open>'%x' % n\<close>.\<close>

fun show_hex :: "nat \<Rightarrow> string" where
  "show_hex n = (if n < 16 then [hex_digit n] else show_hex (n div 16) @ [hex_digit n])"

declare show_hex.simps [simp del]

definition expand_tail :: "string list \<Rightarrow> string list option" where
  "expand_tail parts =
     (if CHR ''.'' \<notin> set (last parts) then Some parts
      else map_option (\<lambda>v. butlast parts @ [show_hex (v div 65536 mod 65536), show_hex (v mod 65536)])
             (ipv4_value (last parts)))"

text \<open>The positions, first and last excluded, of empty parts.\<close>

definition skips :: "string list \<Rightarrow> nat list" where
  "skips parts = filter (\<lambda>i. parts ! i = []) [1..<length parts - 1]"

definition parts_value :: "string list \<Rightarrow> nat option" where
  "parts_value parts =
     (case skips parts of
        [] \<Rightarrow> if length parts \<noteq> 8 then None else hextets_value parts
      | [i] \<Rightarrow>
          (let his = (if hd parts = [] then i - 1 else i);
               los = (if last parts = [] then length parts - i - 2 else length parts - i - 1) in
           if hd parts = [] \<and> his \<noteq> 0 then None
           else if last parts = [] \<and> los \<noteq> 0 then None
           else if 8 < his + los + 1 then None
           else (case (hextets_value (take his parts), hextets_value (drop (length parts - los) parts)) of
               (Some h, Some l) \<Rightarrow> Some (h * 65536 ^ (8 - his) + l)
             | _ \<Rightarrow> None))
      | _ \<Rightarrow> None)"

definition ipv6_int :: "string \<Rightarrow> nat option" where
  "ipv6_int s =
     (let parts = split_on (CHR '':'') s in
      if length parts < 3 then None
      else Option.bind (expand_tail parts) (\<lambda>ps. if 9 < length ps then None else parts_value ps))"

definition ipv6_value :: "string \<Rightarrow> nat option" where
  "ipv6_value s =
     (if CHR ''/'' \<in> set s then None
      else (case split_on (CHR ''%'') s of
          [a] \<Rightarrow> ipv6_int a
        | [a, scope] \<Rightarrow> if scope = [] then None else ipv6_int a
        | _ \<Rightarrow> None))"

text \<open>\<open>ipaddress.ip_address(host).is_loopback\<close>.  From Python 3.13 on (\<open>mapped\<close>) an IPv4-mapped IPv6
  address counts as the IPv4 address it maps.\<close>

definition loopback4 :: "nat \<Rightarrow> bool" where
  "loopback4 v \<longleftrightarrow> v div 2 ^ 24 = 127"

definition loopback6 :: "bool \<Rightarrow> nat \<Rightarrow> bool" where
  "loopback6 mapped v \<longleftrightarrow> (if mapped \<and> v div 2 ^ 32 = 65535 then loopback4 (v mod 2 ^ 32) else v = 1)"

definition is_loopback :: "bool \<Rightarrow> string \<Rightarrow> bool" where
  "is_loopback mapped host \<longleftrightarrow>
     (if lower host = ''localhost'' then True
      else (case ipv4_value host of
          Some v \<Rightarrow> loopback4 v
        | None \<Rightarrow> (case ipv6_value host of Some v \<Rightarrow> loopback6 mapped v | None \<Rightarrow> False)))"

section \<open>Splitting\<close>

lemma split_on_none: "c \<notin> set p \<Longrightarrow> split_on c p = [p]"
  by (induction p) auto

lemma split_on_append: "c \<notin> set p \<Longrightarrow> split_on c (p @ c # r) = p # split_on c r"
  by (induction p) auto

lemma split_on_ne: "split_on c s \<noteq> []"
  by (induction s) (auto split: list.splits)

lemma split_on_single: "split_on c s = [p] \<Longrightarrow> s = p"
  by (induction s arbitrary: p) (auto simp: split_on_ne split: if_splits list.splits)

lemma split_on_Cons: "split_on c s = p # q # ps \<Longrightarrow> \<exists>r. s = p @ c # r \<and> split_on c r = q # ps"
proof (induction s arbitrary: p)
  case (Cons x s)
  show ?case
  proof (cases "x = c")
    case False
    then obtain p' where "p = x # p'" "split_on c s = p' # q # ps"
      using Cons.prems by (auto split: list.splits)
    then show ?thesis using Cons.IH by auto
  qed (use Cons.prems in auto)
qed simp

section \<open>Octets and dotted quads\<close>

lemma digit_of_val: "is_digit c \<Longrightarrow> char_of (48 + digit_val c) = c"
  by (simp add: is_digit_def digit_val_def)

lemma digit_val_less: "is_digit c \<Longrightarrow> digit_val c < 10"
  by (auto simp: is_digit_def digit_val_def)

lemma zero_digit: "is_digit c \<Longrightarrow> c \<noteq> CHR ''0'' \<Longrightarrow> 0 < digit_val c"
proof (rule ccontr)
  assume c: "is_digit c" "c \<noteq> CHR ''0''" "\<not> 0 < digit_val c"
  then have "of_char c = (of_char (CHR ''0'') :: nat)" by (simp add: is_digit_def digit_val_def)
  then show False using c(2) by (simp only: of_char_eq_iff)
qed

text \<open>A decimal text without leading zeros is the text of its value.\<close>

lemma show_nat_of_digits:
  "list_all is_digit s \<Longrightarrow> s \<noteq> [] \<Longrightarrow> s = ''0'' \<or> hd s \<noteq> CHR ''0'' \<Longrightarrow>
     show_nat (nat_of_digits s) = s \<and> (hd s \<noteq> CHR ''0'' \<longrightarrow> 0 < nat_of_digits s)"
proof (induction s rule: rev_induct)
  case (snoc c s)
  have c: "is_digit c" using snoc.prems by simp
  show ?case
  proof (cases "s = []")
    case True
    then show ?thesis using c digit_val_less [OF c] digit_of_val [OF c] zero_digit [OF c]
      by (subst show_nat.simps) (simp add: nat_of_digits_def)
  next
    case False
    then have "hd s \<noteq> CHR ''0''" using snoc.prems by (cases s) auto
    then have s: "show_nat (nat_of_digits s) = s" "0 < nat_of_digits s" using snoc False by simp_all
    have "\<not> nat_of_digits (s @ [c]) < 10" using s(2) by (simp add: nat_of_digits_snoc)
    then have "show_nat (nat_of_digits (s @ [c])) = show_nat (nat_of_digits s) @ [char_of (48 + digit_val c)]"
      using digit_val_less [OF c] by (subst show_nat.simps) (simp add: nat_of_digits_snoc)
    then show ?thesis using s digit_of_val [OF c] by (simp add: nat_of_digits_snoc)
  qed
qed simp

lemma length_octet: "n \<le> 255 \<Longrightarrow> length (show_nat n) \<le> 3"
  by (subst show_nat.simps, subst show_nat.simps, subst show_nat.simps) auto

lemma parse_octet_iff: "parse_octet s = Some n \<longleftrightarrow> n \<le> 255 \<and> s = show_nat n"
proof
  assume "parse_octet s = Some n"
  then have s: "s \<noteq> []" "list_all is_digit s" "s = ''0'' \<or> hd s \<noteq> CHR ''0''" "n = nat_of_digits s" "n \<le> 255"
    by (auto simp: parse_octet_def split: if_splits)
  then show "n \<le> 255 \<and> s = show_nat n" using show_nat_of_digits [OF s(2,1,3)] by simp
next
  assume n: "n \<le> 255 \<and> s = show_nat n"
  have "show_nat n = ''0'' \<or> hd (show_nat n) \<noteq> CHR ''0''"
    using hd_show_nat [of n] by (cases "n = 0") (simp_all add: show_nat.simps [of 0])
  then show "parse_octet s = Some n"
    using n length_octet [of n] show_nat_digits [of n] by (auto simp: parse_octet_def nat_of_digits_show)
qed

definition dotted :: "nat \<Rightarrow> nat \<Rightarrow> nat \<Rightarrow> nat \<Rightarrow> string" where
  "dotted a b c d = show_nat a @ CHR ''.'' # show_nat b @ CHR ''.'' # show_nat c @ CHR ''.'' # show_nat d"

lemma digits_no_dot: "CHR ''.'' \<notin> set (show_nat n)"
proof
  assume "CHR ''.'' \<in> set (show_nat n)"
  then have "is_digit (CHR ''.'')" using show_nat_digits [of n] by (auto simp: list_all_iff)
  then show False by (simp add: is_digit_def)
qed

lemma split_dotted: "split_on (CHR ''.'') (dotted a b c d) = [show_nat a, show_nat b, show_nat c, show_nat d]"
  by (simp add: dotted_def split_on_append split_on_none digits_no_dot)

lemma split_four: "split_on c s = [p, q, r, t] \<Longrightarrow> s = p @ c # q @ c # r @ c # t"
  using split_on_Cons [of c s p q "[r, t]"] split_on_Cons [of c _ q r "[t]"] split_on_Cons [of c _ r t "[]"]
    split_on_single [of c _ t] by blast

lemma ipv4_value_iff:
  "ipv4_value s = Some v \<longleftrightarrow> (\<exists>a b c d. a \<le> 255 \<and> b \<le> 255 \<and> c \<le> 255 \<and> d \<le> 255 \<and> s = dotted a b c d \<and>
     v = ((a * 256 + b) * 256 + c) * 256 + d)"
proof
  assume "ipv4_value s = Some v"
  then obtain p q r t a b c d where s: "split_on (CHR ''.'') s = [p, q, r, t]"
    and o: "parse_octet p = Some a" "parse_octet q = Some b" "parse_octet r = Some c" "parse_octet t = Some d"
    and v: "v = ((a * 256 + b) * 256 + c) * 256 + d"
    by (auto simp: ipv4_value_def split: list.splits option.splits)
  show "\<exists>a b c d. a \<le> 255 \<and> b \<le> 255 \<and> c \<le> 255 \<and> d \<le> 255 \<and> s = dotted a b c d \<and> v = ((a * 256 + b) * 256 + c) * 256 + d"
    using o split_four [OF s] v unfolding parse_octet_iff by (auto simp: dotted_def)
next
  assume "\<exists>a b c d. a \<le> 255 \<and> b \<le> 255 \<and> c \<le> 255 \<and> d \<le> 255 \<and> s = dotted a b c d \<and> v = ((a * 256 + b) * 256 + c) * 256 + d"
  then obtain a b c d where v: "a \<le> 255" "b \<le> 255" "c \<le> 255" "d \<le> 255" "s = dotted a b c d" "v = ((a * 256 + b) * 256 + c) * 256 + d"
    by blast
  then have "parse_octet (show_nat a) = Some a" "parse_octet (show_nat b) = Some b" "parse_octet (show_nat c) = Some c"
    "parse_octet (show_nat d) = Some d" unfolding parse_octet_iff by simp_all
  then show "ipv4_value s = Some v" using v by (simp add: ipv4_value_def split_dotted)
qed

lemma loopback4_quad:
  assumes "b \<le> 255" "c \<le> 255" "d \<le> (255 :: nat)"
  shows "loopback4 (((a * 256 + b) * 256 + c) * 256 + d) \<longleftrightarrow> a = 127"
proof -
  have v: "((a * 256 + b) * 256 + c) * 256 + d = a * 16777216 + (b * 65536 + c * 256 + d)" by simp
  have "b * 65536 + c * 256 + d < 16777216" using assms by simp
  then have "(a * 16777216 + (b * 65536 + c * 256 + d)) div 16777216 = a" by simp
  then show ?thesis unfolding loopback4_def v by (simp only: power_numeral pow.simps sqr.simps numeral_One) simp
qed

lemma div_eq_split: "v div k = q \<Longrightarrow> (v :: nat) = q * k + v mod k"
  using div_mult_mod_eq [of v k] by simp

text \<open>The hosts accepted: the name, \<open>127.b.c.d\<close>, and the IPv6 texts of \<open>::1\<close> or of a mapped \<open>127.b.c.d\<close>.\<close>

lemma is_loopback_cases:
  assumes "is_loopback mapped host"
  obtains (name) "lower host = ''localhost''"
  | (quad) b c d where "b \<le> 255" "c \<le> 255" "d \<le> 255" "host = dotted 127 b c d"
  | (one) "ipv6_value host = Some 1"
  | (mapped) w where mapped "w < 2 ^ 24" "ipv6_value host = Some (65535 * 2 ^ 32 + 127 * 2 ^ 24 + w)"
proof (cases "lower host = ''localhost''")
  case other: False
  show ?thesis
  proof (cases "ipv4_value host")
    case (Some v)
    then obtain a b c d where v: "a \<le> 255" "b \<le> 255" "c \<le> 255" "d \<le> 255" "host = dotted a b c d" "v = ((a * 256 + b) * 256 + c) * 256 + d"
      unfolding ipv4_value_iff by blast
    have "loopback4 v" using assms other Some by (simp add: is_loopback_def)
    then have "a = 127" using loopback4_quad [OF v(2-4), of a] v(6) by simp
    then show ?thesis using quad v by blast
  next
    case None
    then obtain v where v: "ipv6_value host = Some v" "loopback6 mapped v"
      using assms other by (auto simp: is_loopback_def split: option.splits)
    show ?thesis
    proof (cases "mapped \<and> v div 2 ^ 32 = 65535")
      case True
      then have m: "v mod 2 ^ 32 div 2 ^ 24 = 127" using v(2) by (simp add: loopback6_def loopback4_def)
      have "v = 65535 * 2 ^ 32 + v mod 2 ^ 32" by (rule div_eq_split) (use True in blast)
      moreover have "v mod 2 ^ 32 = 127 * 2 ^ 24 + v mod 2 ^ 32 mod 2 ^ 24" by (rule div_eq_split [OF m])
      ultimately have "v = 65535 * 2 ^ 32 + 127 * 2 ^ 24 + v mod 2 ^ 32 mod 2 ^ 24" by linarith
      then show ?thesis using True v(1) mapped [of "v mod 2 ^ 32 mod 2 ^ 24"] by simp
    next
      case False
      then have "v = 1" using v(2) by (auto simp: loopback6_def)
      then show ?thesis using one v(1) by simp
    qed
  qed
qed (use name in blast)

lemma quad_is_loopback: "b \<le> 255 \<Longrightarrow> c \<le> 255 \<Longrightarrow> d \<le> 255 \<Longrightarrow> is_loopback mapped (dotted 127 b c d)"
proof -
  assume o: "b \<le> 255" "c \<le> 255" "d \<le> 255"
  have "ipv4_value (dotted 127 b c d) = Some (((127 * 256 + b) * 256 + c) * 256 + d)"
    unfolding ipv4_value_iff by (intro exI [of _ 127] exI [of _ b] exI [of _ c] exI [of _ d]) (simp add: o)
  moreover have "loopback4 (((127 * 256 + b) * 256 + c) * 256 + d)" using loopback4_quad [OF o] by blast
  ultimately show ?thesis by (simp only: is_loopback_def option.case if_True if_False) simp
qed

end
