(* ===== verification/Http.thy ===== *)
theory Http
  imports Service_Properties Loopback
begin

text \<open>
  \<open>product/runtime/http.py\<close>: the loopback server in front of the certification service.

  The first part is the application: a request as aiohttp presents it, the four handlers, the limits
  middleware and, outside it, the authentication of \<open>Auth\<close>.  Which handler a method and path reach is
  aiohttp's router, an argument applied to the registered routes.  The second part starts and stops the
  runtime; binding the socket is an argument, and the bind address check is in \<open>Loopback\<close>.
\<close>

section \<open>Requests and limits\<close>

definition MAX_REQUEST_BODY_BYTES :: nat where
  "MAX_REQUEST_BODY_BYTES = 1048576"

definition MAX_PATH_BYTES :: nat where
  "MAX_PATH_BYTES = 512"

definition MAX_ID_BYTES :: nat where
  "MAX_ID_BYTES = 128"

text \<open>A request: \<open>rq_body\<close> is what reading the body gives.\<close>

record http_request =
  rq_method :: string
  rq_path :: string
  rq_authorization :: "string option"
  rq_content_length :: "nat option"
  rq_content_type :: string
  rq_body :: "string res"

datatype endpoint = PostCertifications | GetStatus | GetReceipt | VerifyReceipt

type_synonym routes = "(string \<times> string \<times> endpoint) list"

datatype resolution = Matched endpoint string | MethodNotAllowed | RouteNotFound

type_synonym router = "routes \<Rightarrow> string \<Rightarrow> string \<Rightarrow> resolution"

definition ROUTES :: routes where
  "ROUTES = [(''POST'', ''/v1/certifications'', PostCertifications),
     (''GET'', ''/v1/certifications/{request_id}'', GetStatus),
     (''GET'', ''/v1/certifications/{request_id}/receipt'', GetReceipt),
     (''POST'', ''/v1/receipts/verify'', VerifyReceipt)]"

text \<open>What a handler reads from outside the service.\<close>

record server_env =
  se_order :: "string list \<Rightarrow> string list"
  se_view :: db_view
  se_uuid :: string
  se_read :: read_env
  se_router :: router

section \<open>The handlers\<close>

text \<open>The part the two POST handlers share: the JSON payload, or the refusal to answer with.\<close>

definition error_answer :: "int \<Rightarrow> string \<Rightarrow> string \<Rightarrow> response" where
  "error_answer status code message = (status, make_http_error code None message)"

definition decode_body :: "http_request \<Rightarrow> (response + pyval) res" where
  "decode_body r = ebind (rq_body r) (\<lambda>b.
     if MAX_REQUEST_BODY_BYTES < length b
     then Inr (Inl (error_answer 413 ''REQUEST_TOO_LARGE'' ''request body exceeds 1 MB''))
     else ebind (loads_bytes b) (\<lambda>v. Inr (Inr v)))"

definition read_json :: "http_request \<Rightarrow> (response + pyval) res" where
  "read_json r =
     (if rq_content_type r = [] \<or> \<not> contains ''application/json'' (rq_content_type r)
      then Inr (Inl (error_answer 415 ''UNSUPPORTED_MEDIA_TYPE'' ''Content-Type must be application/json''))
      else (case decode_body r of
          Inl (e, m) \<Rightarrow> if e = JSONDecodeErr then Inr (Inl (error_answer 400 ''MALFORMED_REQUEST'' ''malformed JSON body''))
            else Inl (e, m)
        | Inr x \<Rightarrow> Inr x))"

definition handle_post_certifications ::
  "server_env \<Rightarrow> row list \<Rightarrow> service \<Rightarrow> http_request \<Rightarrow> response res \<times> service" where
  "handle_post_certifications env rows sv r =
     (case read_json r of
        Inl e \<Rightarrow> (Inl e, sv)
      | Inr (Inl refusal) \<Rightarrow> (Inr refusal, sv)
      | Inr (Inr payload) \<Rightarrow> submit_certification (se_order env) (se_view env) (se_uuid env) rows sv payload)"

definition id_too_long :: response where
  "id_too_long = error_answer 400 ''MALFORMED_REQUEST'' ''request ID exceeds maximum allowed length''"

definition handle_get_status :: "server_env \<Rightarrow> row list \<Rightarrow> service \<Rightarrow> string \<Rightarrow> response res" where
  "handle_get_status env rows sv request_id =
     (if MAX_ID_BYTES < length (utf8 request_id) then Inr id_too_long else get_status (se_read env) sv rows request_id)"

definition handle_get_receipt :: "server_env \<Rightarrow> row list \<Rightarrow> service \<Rightarrow> string \<Rightarrow> response res" where
  "handle_get_receipt env rows sv request_id =
     (if MAX_ID_BYTES < length (utf8 request_id) then Inr id_too_long else get_receipt (se_read env) sv rows request_id)"

definition handle_verify_receipt :: "http_request \<Rightarrow> response res" where
  "handle_verify_receipt r = ebind (read_json r) (\<lambda>x. case x of
     Inl refusal \<Rightarrow> Inr refusal | Inr payload \<Rightarrow> verify_receipt payload)"

definition handle :: "server_env \<Rightarrow> row list \<Rightarrow> service \<Rightarrow> http_request \<Rightarrow> endpoint \<Rightarrow> string \<Rightarrow> response res \<times> service" where
  "handle env rows sv r ep request_id =
     (case ep of
        PostCertifications \<Rightarrow> handle_post_certifications env rows sv r
      | GetStatus \<Rightarrow> (handle_get_status env rows sv request_id, sv)
      | GetReceipt \<Rightarrow> (handle_get_receipt env rows sv request_id, sv)
      | VerifyReceipt \<Rightarrow> (handle_verify_receipt r, sv))"

section \<open>The application\<close>

definition limits_middleware :: "server_env \<Rightarrow> row list \<Rightarrow> service \<Rightarrow> http_request \<Rightarrow> response res \<times> service" where
  "limits_middleware env rows sv r =
     (if MAX_PATH_BYTES < length (utf8 (rq_path r))
      then (Inr (error_answer 400 ''MALFORMED_REQUEST'' ''request path exceeds maximum length of 512 bytes''), sv)
      else if (case rq_content_length r of Some n \<Rightarrow> MAX_REQUEST_BODY_BYTES < n | None \<Rightarrow> False)
      then (Inr (error_answer 413 ''REQUEST_TOO_LARGE'' (''request payload exceeds maximum limit of '' @
              show_nat MAX_REQUEST_BODY_BYTES @ '' bytes'')), sv)
      else (case se_router env ROUTES (rq_method r) (rq_path r) of
          Matched ep request_id \<Rightarrow> handle env rows sv r ep request_id
        | MethodNotAllowed \<Rightarrow> (Inr (error_answer 405 ''METHOD_NOT_ALLOWED''
              (''HTTP method '' @ rq_method r @ '' is not supported for this path'')), sv)
        | RouteNotFound \<Rightarrow> (Inr (error_answer 404 ''ROUTE_NOT_FOUND'' (''path '' @ rq_path r @ '' not found'')), sv)))"

text \<open>The application \<open>create_app\<close> returns: authentication outside the limits, so the inner part, and
  with it any change of the service, happens only for an authenticated request.\<close>

definition serve :: "string \<Rightarrow> server_env \<Rightarrow> row list \<Rightarrow> service \<Rightarrow> http_request \<Rightarrow> response res \<times> service" where
  "serve token env rows sv r =
     (let inner = limits_middleware env rows sv r in
      (auth_middleware token (rq_authorization r) (fst inner),
       if validate_auth_header (rq_authorization r) token = Inr True then snd inner else sv))"

section \<open>Starting and stopping\<close>

text \<open>What \<open>start_runtime\<close> finds: the token files by path, the ledger's storage and table, and the
  socket: \<open>st_bind\<close> is the port the system assigned, when it can be asked.\<close>

record start_env =
  st_mapped :: bool
  st_fs :: fs_view
  st_xdg_config :: "string option"
  st_tokens :: "path \<Rightarrow> token_store"
  st_read :: read_env
  st_rows :: "row list"
  st_bind :: "string \<Rightarrow> int \<Rightarrow> int option res"

record runtime_handle =
  rh_host :: string
  rh_port :: int
  rh_service :: service
  rh_token :: string

definition loopback_error :: "string \<Rightarrow> exn \<times> string" where
  "loopback_error host = (ValueErr, ''host '' @ host @
     '' is not a valid loopback address; only 127.0.0.1/localhost is allowed'')"

text \<open>The checks before the socket is bound: the token and the service to run.\<close>

definition preflight :: "start_env \<Rightarrow> string \<Rightarrow> path option \<Rightarrow> path option \<Rightarrow> service option \<Rightarrow> (string \<times> service) res" where
  "preflight env host token_path db_path given =
     (if \<not> is_loopback (st_mapped env) host then Inl (loopback_error host)
      else ebind (resolve_token_path (st_fs env) (st_xdg_config env) token_path) (\<lambda>tp.
           ebind (read_bearer_token (st_tokens env tp)) (\<lambda>token.
           ebind (resolve_ledger_path (st_fs env) db_path) (\<lambda>resolved.
           ebind (verify_chain ((st_read env)\<lparr>re_fs := st_fs env, re_db_path := Some resolved\<rparr>) (st_rows env) None) (\<lambda>res.
             if \<not> ch_valid res then Inl (ValueErr, ''ledger preflight failed: '' @ ch_status res)
             else ebind (case given of Some sv \<Rightarrow> Inr sv
                         | None \<Rightarrow> new_service (st_fs env) (Some resolved) ''nexus-core-ledger-v1'' None) (\<lambda>sv.
               Inr (token, sv)))))))"

definition start_runtime ::
  "start_env \<Rightarrow> string \<Rightarrow> int \<Rightarrow> path option \<Rightarrow> path option \<Rightarrow> service option \<Rightarrow> runtime_handle res" where
  "start_runtime env host port token_path db_path given =
     ebind (preflight env host token_path db_path given) (\<lambda>(token, sv).
     ebind (st_bind env host port) (\<lambda>socket.
       Inr \<lparr>rh_host = host, rh_port = (if port = 0 then (case socket of Some p \<Rightarrow> p | None \<Rightarrow> port) else port),
            rh_service = sv, rh_token = token\<rparr>))"

text \<open>\<open>stop_runtime\<close> drains the service; closing the site and the runner is aiohttp's, and its failures
  are ignored.\<close>

definition stop_runtime :: "runtime_handle \<Rightarrow> runtime_handle" where
  "stop_runtime h = h\<lparr>rh_service := drain (rh_service h)\<rparr>"

end
