(* ===== verification/Http_Claims.thy ===== *)
theory Http_Claims
  imports Http Service_Claims
begin

text \<open>
  The properties of the server: which requests can change the service, what an error answer looks like,
  and what is established before the socket is bound.
\<close>

section \<open>Answers\<close>

text \<open>A status of the published set; the body of an error follows the error schema.\<close>

definition proper_answer :: "response \<Rightarrow> bool" where
  "proper_answer x \<longleftrightarrow> List.member [200, 202, 400, 401, 404, 405, 409, 413, 415, 422, 503] (fst x) \<and>
     (400 \<le> fst x \<longrightarrow> conforms HTTP_ERROR_SCHEMA (snd x))"

named_theorems answer_simps \<open>the answers of the handlers\<close>

lemma proper_error [answer_simps]: "proper_answer (st, make_http_error c rid m) \<longleftrightarrow>
    List.member [200, 202, 400, 401, 404, 405, 409, 413, 415, 422, 503] st"
  by (simp add: proper_answer_def error_conforms)

lemma proper_error_answer [answer_simps]: "proper_answer (error_answer st c m) \<longleftrightarrow>
    List.member [200, 202, 400, 401, 404, 405, 409, 413, 415, 422, 503] st"
  by (simp add: error_answer_def proper_error)

lemma proper_ok [answer_simps]: "proper_answer (200, v)" "proper_answer (202, v)"
  by (simp_all add: proper_answer_def)

lemma proper_invalid [answer_simps]: "proper_answer (invalid_request errs)"
  by (simp add: invalid_request_def answer_simps)

lemma submit_proper:
  assumes s: "submit_certification it dv u rows sv payload = (Inr x, sv')"
  shows "proper_answer x"
proof -
  let ?key = "str_of (get (items payload) ''idempotency_key'')"
  show ?thesis
  proof (cases "sv_admission_stopped sv \<or> validate_certification_request it payload \<noteq> []")
    case True
    then show ?thesis using s
      by (cases "sv_admission_stopped sv") (auto simp: submit_certification_def stopped_error_def answer_simps)
  next
    case ok: False
    then obtain h where h: "compute_canonical_request_hash payload = Inr h"
      using s by (cases "compute_canonical_request_hash payload") (simp_all add: submit_certification_def)
    show ?thesis
      using s ok by (cases "get_ledger_entry_by_idempotency dv rows ?key"; cases "in_flight_job sv ?key")
        (auto simp: submit_certification_def h Let_def conflict_error_def stale_error_def ebind_Inr_iff answer_simps split: if_splits)
  qed
qed

lemma status_proper: "get_status env sv rows rid = Inr x \<Longrightarrow> proper_answer x"
  by (auto simp: get_status_def ebind_Inr_iff not_found_error_def answer_simps split: option.splits)

lemma stored_proper: "stored_receipt env sv rows rid = Inr x \<Longrightarrow> proper_answer x"
proof -
  assume s: "stored_receipt env sv rows rid = Inr x"
  then obtain found where f: "read_entry env sv rows rid = Inr found" by (auto simp: stored_receipt_def ebind_Inr_iff)
  show ?thesis
  proof (cases found)
    case (Some e)
    then show ?thesis using s f
      by (cases "loads_bytes (le_receipt_bytes e)") (auto simp: stored_receipt_def not_found_error_def answer_simps)
  qed (use s f in \<open>auto simp: stored_receipt_def not_found_error_def answer_simps\<close>)
qed

lemma receipt_proper: "get_receipt env sv rows rid = Inr x \<Longrightarrow> proper_answer x"
  by (auto simp: get_receipt_def answer_simps dest: stored_proper split: option.splits if_splits sum.splits)

lemma full_proper: "proper_answer (full_verification receipt inputs claimed)"
  by (simp add: full_verification_def receipt_error_def answer_simps split: sum.split)

lemma verify_proper: "verify_receipt payload = Inr x \<Longrightarrow> proper_answer x"
  using full_proper by (auto simp: verify_receipt_def receipt_error_def ebind_Inr_iff Let_def answer_simps split: if_splits)

section \<open>Reading the body\<close>

lemma read_json_cases:
  obtains (raised) e where "read_json r = Inl e"
  | (refused) x where "read_json r = Inr (Inl x)" "proper_answer x"
  | (payload) b v where "read_json r = Inr (Inr v)" "contains ''application/json'' (rq_content_type r)" "rq_body r = Inr b"
      "length b \<le> 1048576" "loads_bytes b = Inr v"
proof (cases "read_json r")
  case (Inr y)
  show ?thesis
  proof (cases y)
    case (Inl x)
    then have "proper_answer x" using Inr
      by (auto simp: read_json_def decode_body_def ebind_Inr_iff answer_simps split: if_splits sum.splits)
    then show ?thesis using refused Inr Inl by blast
  next
    case y: (Inr v)
    have c: "contains ''application/json'' (rq_content_type r)"
      using Inr y by (auto simp: read_json_def split: if_splits)
    have "decode_body r = Inr (Inr v)" using Inr y by (auto simp: read_json_def split: if_splits sum.splits)
    then obtain b where "rq_body r = Inr b" "length b \<le> 1048576" "loads_bytes b = Inr v"
      by (auto simp: decode_body_def ebind_Inr_iff MAX_REQUEST_BODY_BYTES_def split: if_splits)
    then show ?thesis using payload Inr y c by blast
  qed
qed (use raised in blast)

lemma handle_proper:
  assumes "handle env rows sv r ep rid = (Inr x, sv')"
  shows "proper_answer x"
proof (cases ep)
  case PostCertifications
  then show ?thesis using assms
    by (cases rule: read_json_cases [of r]) (auto simp: handle_def handle_post_certifications_def dest: submit_proper)
next
  case VerifyReceipt
  then show ?thesis using assms
    by (cases rule: read_json_cases [of r]) (auto simp: handle_def handle_verify_receipt_def dest: verify_proper)
qed (use assms in \<open>auto simp: handle_def handle_get_status_def handle_get_receipt_def id_too_long_def answer_simps
      dest: status_proper receipt_proper split: if_splits\<close>)

lemma limits_proper: "limits_middleware env rows sv r = (Inr x, sv') \<Longrightarrow> proper_answer x"
  by (auto simp: limits_middleware_def answer_simps dest: handle_proper split: if_splits resolution.splits)

text \<open>A request that changes the service reached the submission handler.\<close>

lemma limits_change:
  assumes "limits_middleware env rows sv r = (answer, sv')" "sv' \<noteq> sv"
  obtains rid where "length (utf8 (rq_path r)) \<le> 512" "\<forall>n. rq_content_length r = Some n \<longrightarrow> n \<le> 1048576"
    "se_router env ROUTES (rq_method r) (rq_path r) = Matched PostCertifications rid"
    "handle_post_certifications env rows sv r = (answer, sv')"
proof -
  have "length (utf8 (rq_path r)) \<le> 512" "\<forall>n. rq_content_length r = Some n \<longrightarrow> n \<le> 1048576"
    using assms by (auto simp: limits_middleware_def MAX_PATH_BYTES_def MAX_REQUEST_BODY_BYTES_def split: if_splits)
  moreover obtain rid ep where m: "se_router env ROUTES (rq_method r) (rq_path r) = Matched ep rid"
    "handle env rows sv r ep rid = (answer, sv')"
    using assms by (auto simp: limits_middleware_def split: if_splits resolution.splits)
  moreover have "ep = PostCertifications" using m(2) assms(2) by (cases ep) (auto simp: handle_def)
  ultimately show ?thesis using that by (auto simp: handle_def)
qed

lemma post_change:
  assumes "handle_post_certifications env rows sv r = (answer, sv')" "sv' \<noteq> sv"
  obtains b v where "contains ''application/json'' (rq_content_type r)" "rq_body r = Inr b"
      "length b \<le> 1048576" "loads_bytes b = Inr v"
      "submit_certification (se_order env) (se_view env) (se_uuid env) rows sv v = (answer, sv')"
  using assms by (cases rule: read_json_cases [of r]) (auto simp: handle_post_certifications_def)

text \<open>A request that ends in an exception, which the web framework answers with 500.  The service is left alone, and
  the exception came from the comparison of a bearer token of the right length that is not ASCII, or, for an
  authenticated request that was routed, from reading or decoding its body or from the operation of the service it
  was routed to: limits, routing and error bodies raise nothing.\<close>

definition raised_by :: "string \<Rightarrow> server_env \<Rightarrow> row list \<Rightarrow> service \<Rightarrow> http_request \<Rightarrow> exn \<times> string \<Rightarrow> bool" where
  "raised_by token env rows sv r e \<longleftrightarrow>
     (\<exists>t. rq_authorization r = Some (''Bearer '' @ t) \<and> length t = TOKEN_LENGTH \<and> \<not> is_ascii t) \<or>
     rq_authorization r = Some (''Bearer '' @ token) \<and> (\<exists>ep rid. se_router env ROUTES (rq_method r) (rq_path r) = Matched ep rid \<and>
       (case ep of
          PostCertifications \<Rightarrow> read_json r = Inl e \<or> (\<exists>v. read_json r = Inr (Inr v) \<and>
            fst (submit_certification (se_order env) (se_view env) (se_uuid env) rows sv v) = Inl e)
        | GetStatus \<Rightarrow> get_status (se_read env) sv rows rid = Inl e
        | GetReceipt \<Rightarrow> get_receipt (se_read env) sv rows rid = Inl e
        | VerifyReceipt \<Rightarrow> read_json r = Inl e \<or> (\<exists>v. read_json r = Inr (Inr v) \<and> verify_receipt v = Inl e)))"

lemma submit_raised: "submit_certification it dv u rows sv v = (Inl e, sv') \<Longrightarrow> sv' = sv"
  by (erule submit_cases) simp_all

lemma handle_raised:
  assumes "handle env rows sv r ep rid = (Inl e, sv')"
  shows "sv' = sv \<and> (case ep of
          PostCertifications \<Rightarrow> read_json r = Inl e \<or> (\<exists>v. read_json r = Inr (Inr v) \<and>
            fst (submit_certification (se_order env) (se_view env) (se_uuid env) rows sv v) = Inl e)
        | GetStatus \<Rightarrow> get_status (se_read env) sv rows rid = Inl e
        | GetReceipt \<Rightarrow> get_receipt (se_read env) sv rows rid = Inl e
        | VerifyReceipt \<Rightarrow> read_json r = Inl e \<or> (\<exists>v. read_json r = Inr (Inr v) \<and> verify_receipt v = Inl e))"
proof (cases ep)
  case PostCertifications
  then show ?thesis using assms
    by (cases rule: read_json_cases [of r]) (auto simp: handle_def handle_post_certifications_def dest: submit_raised)
next
  case VerifyReceipt
  then show ?thesis using assms
    by (cases rule: read_json_cases [of r]) (auto simp: handle_def handle_verify_receipt_def)
qed (use assms in \<open>auto simp: handle_def handle_get_status_def handle_get_receipt_def split: if_splits\<close>)

lemma limits_raised:
  assumes "limits_middleware env rows sv r = (Inl e, sv')"
  obtains ep rid where "se_router env ROUTES (rq_method r) (rq_path r) = Matched ep rid" "handle env rows sv r ep rid = (Inl e, sv')"
  using assms by (auto simp: limits_middleware_def split: if_splits resolution.splits)

lemma serve_raised:
  assumes tok: "token_pattern token" and s: "serve token env rows sv r = (Inl e, sv')"
  shows "sv' = sv \<and> raised_by token env rows sv r e"
proof (cases "validate_auth_header (rq_authorization r) token = Inr True")
  case True
  then have "rq_authorization r = Some (''Bearer '' @ token)" by (auto simp: auth_header_cases [OF tok] split: if_splits)
  moreover have "limits_middleware env rows sv r = (Inl e, sv')"
    using s True by (auto simp: serve_def Let_def auth_middleware_def prod_eq_iff)
  then obtain ep rid where "se_router env ROUTES (rq_method r) (rq_path r) = Matched ep rid" "handle env rows sv r ep rid = (Inl e, sv')"
    by (rule limits_raised)
  ultimately show ?thesis using handle_raised by (auto simp: raised_by_def)
next
  case False
  then have "sv' = sv" "\<exists>x. validate_auth_header (rq_authorization r) token = Inl x"
    using s by (auto simp: serve_def Let_def auth_middleware_def ebind_def split: sum.splits if_splits)
  then show ?thesis by (auto simp: raised_by_def auth_header_cases [OF tok] split: if_splits)
qed

section \<open>Starting\<close>

lemma preflight_parts:
  assumes "preflight env host tp db given = Inr (token, sv)"
  obtains t p res where "is_loopback (st_mapped env) host" "resolve_token_path (st_fs env) (st_xdg_config env) tp = Inr t"
    "read_bearer_token (st_tokens env t) = Inr token" "resolve_ledger_path (st_fs env) db = Inr p"
    "verify_chain ((st_read env)\<lparr>re_fs := st_fs env, re_db_path := Some p\<rparr>) (st_rows env) None = Inr res" "ch_valid res"
    "given = Some sv \<or> given = None \<and> new_service (st_fs env) (Some p) ''nexus-core-ledger-v1'' None = Inr sv"
  using assms by (auto simp: preflight_def ebind_Inr_iff Let_def split: if_splits option.splits)

lemma read_token_pattern: "read_bearer_token st = Inr token \<Longrightarrow> token_pattern token"
  by (auto simp: read_bearer_token_def guard_def Let_def eseq_def split: if_splits)

lemma chain_verified:
  assumes "verify_chain env rows None = Inr res" "ch_valid res"
  shows "\<not> re_exists env \<or> (\<exists>c. verify_table rows None = Inr c \<and> ch_valid c)"
  using assms by (auto simp: verify_chain_def with_connection_def ebind_Inr_iff split: if_splits)

section \<open>A sample server\<close>

definition sample_token :: string where
  "sample_token = replicate 43 (CHR ''A'')"

lemma sample_token_pattern: "token_pattern sample_token"
  by (simp add: token_pattern_def token_char_def sample_token_def list_all_iff)

definition sample_store :: token_store where
  "sample_store = \<lparr>ts_uid = 0,
     ts_parent = \<lparr>fn_exists = True, fn_symlink = False, fn_regular = False, fn_nlink = 2, fn_uid = 0, fn_mode = 448, fn_chmod_ok = True\<rparr>,
     ts_file = \<lparr>fn_exists = True, fn_symlink = False, fn_regular = True, fn_nlink = 1, fn_uid = 0, fn_mode = 384, fn_chmod_ok = True\<rparr>,
     ts_content = sample_token, ts_open_ok = True\<rparr>"

lemma sample_store_read: "read_bearer_token sample_store = Inr sample_token"
  using token_ascii [OF sample_token_pattern] sample_token_pattern
  by (simp add: read_bearer_token_def sample_store_def guard_def eseq_def Let_def TOKEN_LENGTH_def)
    (simp add: sample_token_def)

definition sample_read :: read_env where
  "sample_read = \<lparr>re_fs = plain_fs, re_db_path = None, re_exists = False, re_storage = own_storage, re_connect = (\<lambda>_. SqlOk)\<rparr>"

text \<open>A router that knows the submission path.\<close>

definition sample_router :: router where
  "sample_router routes m p = (case find (\<lambda>(rm, rp, _). rm = m \<and> rp = p) routes of
     Some (_, _, ep) \<Rightarrow> Matched ep [] | None \<Rightarrow> RouteNotFound)"

definition sample_server :: server_env where
  "sample_server = \<lparr>se_order = id, se_view = fresh_view, se_uuid = sample_uuid, se_read = sample_read, se_router = sample_router\<rparr>"

definition sample_body :: string where
  "sample_body = utf8 (projr (dumps spaced (sample_payload ''key'' 0)))"

definition sample_http :: "string option \<Rightarrow> http_request" where
  "sample_http auth = \<lparr>rq_method = ''POST'', rq_path = ''/v1/certifications'', rq_authorization = auth,
     rq_content_length = None, rq_content_type = ''application/json'', rq_body = Inr sample_body\<rparr>"

lemma sample_body_loads: "loads_bytes sample_body = Inr (sample_payload ''key'' 0)"
proof -
  obtain t where t: "dumps spaced (sample_payload ''key'' 0) = Inr t"
    using loads_dumps [OF wf_styles(3) sample_payload_jv] by blast
  show ?thesis using loads_bytes_dumps [OF wf_styles(3) sample_payload_jv t] t by (simp add: sample_body_def)
qed

lemma utf8_length: "length (utf8 s) \<le> 2 * length s"
  by (induction s) (auto simp: utf8_def utf8_char_def Let_def)

lemma esc_char_length: "length (esc_char c) \<le> 6"
  by (simp add: esc_char_def hex2_def)

lemma json_string_length: "length (json_string st s) \<le> 2 + 6 * length s"
proof -
  have c: "length (style_char st c) \<le> 6" for c using esc_char_length [of c] by (simp add: style_char_def)
  have "length (concat (map (style_char st) s)) \<le> 6 * length s"
  proof (induction s)
    case (Cons x s)
    then show ?case using c [of x] by simp
  qed simp
  then show ?thesis by (simp add: json_string_def)
qed

lemma show_digit_length: "length (show_int 0) = 1" "length (show_int 7) = 1"
  by (simp_all add: show_int_def show_nat.simps)

lemma spaced_seps: "length (item_sep spaced) = 2" "length (key_sep spaced) = 2"
  by (simp_all add: spaced_def)

lemma sample_body_short: "length sample_body \<le> 1048576"
proof -
  obtain t where t: "dumps spaced (sample_payload ''key'' 0) = Inr t"
    using loads_dumps [OF wf_styles(3) sample_payload_jv] by blast
  note parts = json_string_length [of spaced "''protocol_version''"]
    json_string_length [of spaced "''implementation_schema''"] json_string_length [of spaced "''repository''"] json_string_length [of spaced "''owner''"]
    json_string_length [of spaced "''name''"] json_string_length [of spaced "''pr_number''"] json_string_length [of spaced "''expected_base_sha''"]
    json_string_length [of spaced "''expected_head_sha''"] json_string_length [of spaced "''acceptance_contract''"]
    json_string_length [of spaced "''verification_plan''"] json_string_length [of spaced "''profile_id''"] json_string_length [of spaced "''idempotency_key''"]
    json_string_length [of spaced "''expected_generation''"] json_string_length [of spaced "''octo''"] json_string_length [of spaced "''repo''"]
    json_string_length [of spaced "replicate 40 (CHR ''a'')"] json_string_length [of spaced "replicate 40 (CHR ''b'')"]
    json_string_length [of spaced "''python-oci-pytest-v1''"] json_string_length [of spaced "''key''"]
    json_string_length [of spaced PUBLIC_PROTOCOL_VERSION] json_string_length [of spaced IMPLEMENTATION_SCHEMA]
  have "length t \<le> 10000"
    using t parts
    by (simp add: sample_payload_def sample_repository_def mkdict_def PUBLIC_PROTOCOL_VERSION_def
      IMPLEMENTATION_SCHEMA_def del: replicate.simps) (auto simp: show_digit_length spaced_seps)
  then show ?thesis using t utf8_length [of t] by (simp add: sample_body_def)
qed

lemma sample_served: "serve sample_token sample_server [] sample_service (sample_http (Some (''Bearer '' @ sample_token))) =
    (Inr (202, job_response sample_job), submitted_service)"
proof -
  have auth: "validate_auth_header (Some (''Bearer '' @ sample_token)) sample_token = Inr True"
    using token_ascii [OF sample_token_pattern] by (simp add: auth_header_cases [OF sample_token_pattern])
  have json: "read_json (sample_http a) = Inr (Inr (sample_payload ''key'' 0))" for a
    using sample_body_short
    by (simp add: read_json_def decode_body_def sample_http_def sample_body_loads MAX_REQUEST_BODY_BYTES_def)
  have route: "sample_router ROUTES ''POST'' ''/v1/certifications'' = Matched PostCertifications []"
    by (simp add: sample_router_def ROUTES_def)
  have path: "\<not> MAX_PATH_BYTES < length (utf8 ''/v1/certifications'')"
    by (simp add: MAX_PATH_BYTES_def utf8_def utf8_char_def)
  have "limits_middleware sample_server [] sample_service (sample_http (Some (''Bearer '' @ sample_token))) =
      handle_post_certifications sample_server [] sample_service (sample_http (Some (''Bearer '' @ sample_token)))"
    using path route by (simp add: limits_middleware_def handle_def sample_server_def sample_http_def)
  also have "\<dots> = (Inr (202, job_response sample_job), submitted_service)"
    using sample_submission by (simp add: handle_post_certifications_def json sample_server_def)
  finally show ?thesis using auth by (simp add: serve_def Let_def auth_middleware_def) (simp add: sample_http_def)
qed

section \<open>Properties\<close>

text \<open>C27: only an authenticated, bounded submission changes the service.  If serving a request leaves
  the service in another state, then the request carried exactly the bearer token, its path has at
  most 512 bytes, its announced and its actual body at most 1048576, it was routed to the submission
  handler as JSON, the body parses to a payload the validator accepts, admission is open, the expected
  generation is the current one and the idempotency key is new both to the ledger and to the jobs in
  flight; and the change is exactly one new pending job, which the answer 202 reports.\<close>

theorem only_bounded_authenticated_submissions_change_the_service:
  assumes tok: "token_pattern token" and s: "serve token env rows sv r = (answer, sv')" and ne: "sv' \<noteq> sv"
  shows "rq_authorization r = Some (''Bearer '' @ token) \<and> length (utf8 (rq_path r)) \<le> 512 \<and>
    (\<forall>n. rq_content_length r = Some n \<longrightarrow> n \<le> 1048576) \<and>
    (\<exists>rid. se_router env ROUTES (rq_method r) (rq_path r) = Matched PostCertifications rid) \<and>
    contains ''application/json'' (rq_content_type r) \<and> \<not> sv_admission_stopped sv \<and>
    (\<exists>b v h key gen. rq_body r = Inr b \<and> length b \<le> 1048576 \<and> loads_bytes b = Inr v \<and>
      validate_certification_request (se_order env) v = [] \<and> compute_canonical_request_hash v = Inr h \<and>
      key = str_of (get (items v) ''idempotency_key'') \<and> gen = int_of (get (items v) ''expected_generation'') \<and>
      gen = get_current_ledger_generation (se_view env) rows \<and>
      get_ledger_entry_by_idempotency (se_view env) rows key = None \<and> in_flight_job sv key = None \<and>
      (let rid = request_id_of (se_uuid env); j = new_job rid key h gen v in
        answer = Inr (202, job_response j) \<and>
        sv' = sv\<lparr>sv_in_flight := (sv_in_flight sv)(rid \<mapsto> j), sv_by_idempotency := (sv_by_idempotency sv)(key \<mapsto> rid)\<rparr>))"
proof -
  have auth: "validate_auth_header (rq_authorization r) token = Inr True"
    using s ne by (auto simp: serve_def Let_def split: if_splits)
  then have "rq_authorization r = Some (''Bearer '' @ token)"
    by (auto simp: auth_header_cases [OF tok] split: if_splits)
  moreover have "limits_middleware env rows sv r = (answer, sv')"
    using s auth by (auto simp: serve_def Let_def auth_middleware_def prod_eq_iff)
  then obtain rid where l: "length (utf8 (rq_path r)) \<le> 512" "\<forall>n. rq_content_length r = Some n \<longrightarrow> n \<le> 1048576"
      "se_router env ROUTES (rq_method r) (rq_path r) = Matched PostCertifications rid"
    and h: "handle_post_certifications env rows sv r = (answer, sv')" using ne by (rule limits_change)
  moreover obtain b v where b: "contains ''application/json'' (rq_content_type r)" "rq_body r = Inr b"
      "length b \<le> 1048576" "loads_bytes b = Inr v"
    and sub: "submit_certification (se_order env) (se_view env) (se_uuid env) rows sv v = (answer, sv')"
    using h ne by (rule post_change)
  show ?thesis
    using sub
  proof (rule submit_cases)
    fix key h gen
    assume "validate_certification_request (se_order env) v = []" "compute_canonical_request_hash v = Inr h"
      "\<not> sv_admission_stopped sv" "in_flight_job sv key = None" "get_ledger_entry_by_idempotency (se_view env) rows key = None"
      "key = str_of (get (items v) ''idempotency_key'')" "gen = int_of (get (items v) ''expected_generation'')"
      "gen = get_current_ledger_generation (se_view env) rows"
      "answer = Inr (202, job_response (new_job (request_id_of (se_uuid env)) key h gen v))"
      "sv' = sv\<lparr>sv_in_flight := (sv_in_flight sv)(request_id_of (se_uuid env) \<mapsto> new_job (request_id_of (se_uuid env)) key h gen v),
        sv_by_idempotency := (sv_by_idempotency sv)(key \<mapsto> request_id_of (se_uuid env))\<rparr>"
    then show ?thesis using calculation b unfolding Let_def by blast
  qed (use ne in simp)
qed

theorem only_bounded_authenticated_submissions_change_the_service_witness:
  "\<exists>h. serve sample_token sample_server [] sample_service (sample_http (Some (''Bearer '' @ sample_token))) =
     (Inr (202, job_response sample_job), submitted_service) \<and>
   compute_canonical_request_hash (sample_payload ''key'' 0) = Inr h \<and> in_flight_job sample_service ''key'' = None"
proof -
  have ne: "submitted_service \<noteq> sample_service"
  proof
    assume "submitted_service = sample_service"
    then have "sv_by_idempotency submitted_service ''key'' = sv_by_idempotency sample_service ''key''" by simp
    then show False by (simp add: submitted_service_def sample_service_def)
  qed
  obtain b v h key where "rq_body (sample_http (Some (''Bearer '' @ sample_token))) = Inr b" "loads_bytes b = Inr v"
    "compute_canonical_request_hash v = Inr h" "key = str_of (get (items v) ''idempotency_key'')" "in_flight_job sample_service key = None"
    using only_bounded_authenticated_submissions_change_the_service [OF sample_token_pattern sample_served ne] by blast
  then show ?thesis using sample_served by (auto simp: sample_http_def sample_body_loads) (simp add: sample_payload_def get_simps)
qed

text \<open>C28: every request ends properly.  Whatever the request, the router, the ledger and the state of the service: if
  the handlers answer, the answer has one of eleven statuses, and the body of an error is the published error object.
  If the request raises instead (the web framework then answers 500, outside the schema), the service is unchanged,
  and the exception came from one of the places \<open>raised_by\<close> lists: a token that is not ASCII, a body that cannot be
  read or decoded, or the operation of the service the request was routed to.\<close>

theorem error_answers_follow_the_schema:
  assumes tok: "token_pattern token" and s: "serve token env rows sv r = (answer, sv')"
  shows "case answer of
     Inr (status, body) \<Rightarrow> List.member [200, 202, 400, 401, 404, 405, 409, 413, 415, 422, 503] status \<and>
       (400 \<le> status \<longrightarrow> conforms HTTP_ERROR_SCHEMA body)
   | Inl e \<Rightarrow> sv' = sv \<and> raised_by token env rows sv r e"
proof (cases answer)
  case (Inl e)
  then show ?thesis using serve_raised [OF tok] s by simp
next
  case (Inr x)
  obtain status body where x: "x = (status, body)" by (cases x)
  have s: "serve token env rows sv r = (Inr (status, body), sv')" using s Inr x by simp
  obtain answer sv1 where l: "limits_middleware env rows sv r = (answer, sv1)" by (cases "limits_middleware env rows sv r")
  have "proper_answer (status, body)"
  proof (cases "validate_auth_header (rq_authorization r) token = Inr True")
    case True
    then show ?thesis using s l limits_proper by (simp add: serve_def auth_middleware_def)
  next
    case False
    then have "(status, body) = (401, make_http_error ''UNAUTHORIZED'' None ''unauthorized'')"
      using s by (auto simp: serve_def auth_middleware_def Let_def ebind_Inr_iff split: if_splits)
    then show ?thesis by (simp add: answer_simps)
  qed
  then show ?thesis by (simp add: proper_answer_def Inr x)
qed

theorem error_answers_follow_the_schema_witness:
  "\<exists>body. serve sample_token sample_server [] sample_service (sample_http None) = (Inr (401, body), sample_service) \<and>
     conforms HTTP_ERROR_SCHEMA body"
proof -
  have a: "serve sample_token sample_server [] sample_service (sample_http None) =
      (Inr (401, make_http_error ''UNAUTHORIZED'' None ''unauthorized''), sample_service)"
    by (simp add: serve_def auth_middleware_def validate_auth_header_def sample_http_def Let_def)
  show ?thesis using error_answers_follow_the_schema [OF sample_token_pattern a] a by simp
qed

text \<open>C29: the runtime starts on a loopback address only, and only after its checks.  If it starts, the
  host is \<open>localhost\<close> in some case, a dotted quad \<open>127.b.c.d\<close> in plain decimal, or an IPv6 text of
  \<open>::1\<close> (or, from Python 3.13 on, of a mapped \<open>127.b.c.d\<close>); the token was read from a file that passed
  every check and is well formed; the ledger, if it exists, verifies; and the service it made itself,
  over a table the ledger's own appends produced, is an initial state of the service.\<close>

theorem runtime_starts_on_loopback_only:
  assumes "start_runtime env host port token_path db_path given = Inr h"
  shows "(lower host = ''localhost'' \<or> (\<exists>b c d. b \<le> 255 \<and> c \<le> 255 \<and> d \<le> 255 \<and> host = dotted 127 b c d) \<or>
      ipv6_value host = Some 1 \<or>
      (st_mapped env \<and> (\<exists>w < 2 ^ 24. ipv6_value host = Some (65535 * 2 ^ 32 + 127 * 2 ^ 24 + w)))) \<and>
    (\<exists>t. resolve_token_path (st_fs env) (st_xdg_config env) token_path = Inr t \<and>
      read_bearer_token (st_tokens env t) = Inr (rh_token h)) \<and> token_pattern (rh_token h) \<and>
    (\<not> re_exists (st_read env) \<or> (\<exists>c. verify_table (st_rows env) None = Inr c \<and> ch_valid c)) \<and>
    (case given of Some sv \<Rightarrow> rh_service h = sv
     | None \<Rightarrow> ledger_step\<^sup>*\<^sup>* [] (st_rows env) \<longrightarrow> service_init (rh_service h, st_rows env))"
proof -
  obtain token sv where p: "preflight env host token_path db_path given = Inr (token, sv)"
    and h: "rh_token h = token" "rh_service h = sv"
    using assms by (auto simp: start_runtime_def ebind_Inr_iff)
  obtain t q res where f: "is_loopback (st_mapped env) host" "resolve_token_path (st_fs env) (st_xdg_config env) token_path = Inr t"
    "read_bearer_token (st_tokens env t) = Inr token"
    "verify_chain ((st_read env)\<lparr>re_fs := st_fs env, re_db_path := Some q\<rparr>) (st_rows env) None = Inr res" "ch_valid res"
    "given = Some sv \<or> given = None \<and> new_service (st_fs env) (Some q) ''nexus-core-ledger-v1'' None = Inr sv"
    using p by (rule preflight_parts)
  have "lower host = ''localhost'' \<or> (\<exists>b c d. b \<le> 255 \<and> c \<le> 255 \<and> d \<le> 255 \<and> host = dotted 127 b c d) \<or>
      ipv6_value host = Some 1 \<or> (st_mapped env \<and> (\<exists>w < 2 ^ 24. ipv6_value host = Some (65535 * 2 ^ 32 + 127 * 2 ^ 24 + w)))"
    using f(1) by (cases rule: is_loopback_cases) blast+
  moreover have "\<not> re_exists (st_read env) \<or> (\<exists>c. verify_table (st_rows env) None = Inr c \<and> ch_valid c)"
    using chain_verified [OF f(4,5)] by simp
  moreover have "service_init (sv, st_rows env)" if "given = None" "ledger_step\<^sup>*\<^sup>* [] (st_rows env)"
    using f(6) that by (auto simp: service_init_def)
  ultimately show ?thesis using f(2,3,6) read_token_pattern h by (auto split: option.splits)
qed

definition sample_start :: start_env where
  "sample_start = \<lparr>st_mapped = False, st_fs = plain_fs, st_xdg_config = None, st_tokens = (\<lambda>_. sample_store),
     st_read = sample_read, st_rows = [], st_bind = (\<lambda>_ _. Inr (Some 8767))\<rparr>"

theorem runtime_starts_on_loopback_only_witness:
  "\<exists>h. start_runtime sample_start ''127.0.0.1'' 0 None None None = Inr h \<and> rh_port h = 8767 \<and>
     service_init (rh_service h, []) \<and> token_pattern (rh_token h)"
proof -
  have "dotted 127 0 0 1 = ''127.0.0.1''" by (simp add: dotted_def show_nat.simps char_of_eq_iff take_bit_eq_mod)
  then have loop: "is_loopback False ''127.0.0.1''" using quad_is_loopback [of 0 0 1 False] by simp
  obtain tp where tp: "resolve_token_path plain_fs None None = Inr tp" by (simp add: resolve_token_path_def)
  obtain p where p: "resolve_ledger_path plain_fs None = Inr p" by (simp add: resolve_ledger_path_def plain_fs_def)
  have "resolve_ledger_path plain_fs (Some p) = Inr p" for p
    by (cases p rule: rev_cases) (simp_all add: resolve_ledger_path_def plain_fs_def)
  then obtain h where h: "start_runtime sample_start ''127.0.0.1'' 0 None None None = Inr h" "rh_port h = 8767"
    using loop tp p by (simp add: start_runtime_def preflight_def sample_start_def sample_store_read verify_chain_def
        with_connection_def sample_read_def empty_chain_def new_service_def)
  show ?thesis using runtime_starts_on_loopback_only [OF h(1)] h by (simp add: sample_start_def)
qed

end
