(* ===== verification/Ingestion.thy ===== *)
theory Ingestion
  imports Acquisition "HOL-Library.AList"
begin

text \<open>
  \<open>product/evidence/ingestion.py\<close>, the trust boundary for verifier evidence: the grants of the ingestion
  profile, what a requirement expects, the provenance a submission carries, and \<open>ingest_evidence\<close>, which
  checks every submission against its requirement and the trusted context and issues a receipt.

  The objects are records with typed fields: where the code tests \<open>type(x) is C\<close> the field's type says so,
  and the tests that remain are those on the text.  Nothing assumes that a record passed its
  \<open>__post_init__\<close>: a frozen instance whose text was overwritten afterwards is a record like any other.
  Results carry an identity (a number), because the table of trusted results is keyed by object.
\<close>

section \<open>Enumerations\<close>

datatype evidence_type = ET_VERIFIER_RESULT | ET_CI_CHECK | ET_MANUAL_REVIEW | ET_RUNTIME_OBSERVATION | ET_LEGACY_RECORD

datatype producer_role = PR_VERIFIER | PR_CI | PR_REVIEWER | PR_OWNER | PR_SIGNER | PR_RUNTIME

datatype evidence_generation = EG_SOURCE | EG_EXECUTION | EG_RUNTIME | EG_LEGACY_NARRATIVE

datatype freshness_status = FS_SOURCE_ALIGNED | FS_SOURCE_AHEAD_OF_RUNTIME | FS_RUNTIME_IDENTITY_MISMATCH |
  FS_STALE_OBSERVATION | FS_READY_IDENTITY_BOUND | FS_CONVERGENCE_UNKNOWN

datatype ingestion_trust = IT_UNTRUSTED | IT_RECEIPT_INVALID | IT_TRUSTED

datatype trust_role = TR_POLICY | TR_AUTHORITY | TR_APPROVAL | TR_SIGNING

datatype trust_decision = TD_ALLOW | TD_DENY

fun evidence_type_value :: "evidence_type \<Rightarrow> string" where
  "evidence_type_value ET_VERIFIER_RESULT = ''VERIFIER_RESULT''"
| "evidence_type_value ET_CI_CHECK = ''CI_CHECK''"
| "evidence_type_value ET_MANUAL_REVIEW = ''MANUAL_REVIEW''"
| "evidence_type_value ET_RUNTIME_OBSERVATION = ''RUNTIME_OBSERVATION''"
| "evidence_type_value ET_LEGACY_RECORD = ''LEGACY_RECORD''"

fun producer_role_value :: "producer_role \<Rightarrow> string" where
  "producer_role_value PR_VERIFIER = ''VERIFIER''"
| "producer_role_value PR_CI = ''CI''"
| "producer_role_value PR_REVIEWER = ''REVIEWER''"
| "producer_role_value PR_OWNER = ''OWNER''"
| "producer_role_value PR_SIGNER = ''SIGNER''"
| "producer_role_value PR_RUNTIME = ''RUNTIME''"

fun generation_value :: "evidence_generation \<Rightarrow> string" where
  "generation_value EG_SOURCE = ''SOURCE''"
| "generation_value EG_EXECUTION = ''EXECUTION''"
| "generation_value EG_RUNTIME = ''RUNTIME''"
| "generation_value EG_LEGACY_NARRATIVE = ''LEGACY_NARRATIVE''"

fun freshness_value :: "freshness_status \<Rightarrow> string" where
  "freshness_value FS_SOURCE_ALIGNED = ''SOURCE_ALIGNED''"
| "freshness_value FS_SOURCE_AHEAD_OF_RUNTIME = ''SOURCE_AHEAD_OF_RUNTIME''"
| "freshness_value FS_RUNTIME_IDENTITY_MISMATCH = ''RUNTIME_IDENTITY_MISMATCH''"
| "freshness_value FS_STALE_OBSERVATION = ''STALE_OBSERVATION''"
| "freshness_value FS_READY_IDENTITY_BOUND = ''READY_IDENTITY_BOUND''"
| "freshness_value FS_CONVERGENCE_UNKNOWN = ''CONVERGENCE_UNKNOWN''"

fun trust_role_value :: "trust_role \<Rightarrow> string" where
  "trust_role_value TR_POLICY = ''POLICY''"
| "trust_role_value TR_AUTHORITY = ''AUTHORITY''"
| "trust_role_value TR_APPROVAL = ''APPROVAL''"
| "trust_role_value TR_SIGNING = ''SIGNING''"

fun trust_decision_value :: "trust_decision \<Rightarrow> string" where
  "trust_decision_value TD_ALLOW = ''ALLOW''"
| "trust_decision_value TD_DENY = ''DENY''"

text \<open>\<open>list(TrustRole).index(v)\<close>: the roles are ordered by their place in the enumeration.\<close>

fun trust_role_index :: "trust_role \<Rightarrow> nat" where
  "trust_role_index TR_POLICY = 0"
| "trust_role_index TR_AUTHORITY = 1"
| "trust_role_index TR_APPROVAL = 2"
| "trust_role_index TR_SIGNING = 3"

instantiation trust_role :: linorder
begin

definition less_eq_trust_role :: "trust_role \<Rightarrow> trust_role \<Rightarrow> bool" where
  "less_eq_trust_role a b \<longleftrightarrow> trust_role_index a \<le> trust_role_index b"

definition less_trust_role :: "trust_role \<Rightarrow> trust_role \<Rightarrow> bool" where
  "less_trust_role a b \<longleftrightarrow> trust_role_index a < trust_role_index b"

instance
proof
  fix a b :: trust_role
  show "a \<le> b \<Longrightarrow> b \<le> a \<Longrightarrow> a = b" by (cases a; cases b) (simp_all add: less_eq_trust_role_def)
qed (auto simp: less_eq_trust_role_def less_trust_role_def)

end

section \<open>Textual checks\<close>

definition MAX_TEXT_LENGTH :: nat where
  "MAX_TEXT_LENGTH = 4096"

definition MAX_COLLECTION_ITEMS :: nat where
  "MAX_COLLECTION_ITEMS = 256"

definition MAX_CONTENT_BYTES :: nat where
  "MAX_CONTENT_BYTES = 1048576"

definition text_bounded :: "string \<Rightarrow> string \<Rightarrow> unit res" where
  "text_bounded value name =
     eseq (guard (normalized value) ValueErr (name @ '' must be non-empty and normalized''))
       (guard (length value \<le> MAX_TEXT_LENGTH) ValueErr (name @ '' exceeds maximum length''))"

definition runtime_timestamp :: "string \<Rightarrow> unit res" where
  "runtime_timestamp value =
     guard (normalized value \<and> length value \<le> MAX_TEXT_LENGTH) ValueErr ''runtime timestamps must be normalized''"

definition hash_text :: "string \<Rightarrow> string \<Rightarrow> unit res" where
  "hash_text value name = eseq (text_bounded value name)
     (guard (is_sha256 value) ValueErr (name @ '' must be sha256:<64 lowercase hex>''))"

definition tuple_text :: "string list \<Rightarrow> string \<Rightarrow> bool \<Rightarrow> unit res" where
  "tuple_text values name nonempty =
     eseq (efor values (\<lambda>v. text_bounded v name))
    (eseq (guard (distinct values) ValueErr (name @ '' must not contain duplicates''))
    (eseq (guard (length values \<le> MAX_COLLECTION_ITEMS) ValueErr (name @ '' exceeds maximum size''))
       (guard (\<not> nonempty \<or> values \<noteq> []) ValueErr (name @ '' must be non-empty''))))"

text \<open>\<open>_canon\<close>.  The string enumerations are strings, so they become \<open>str(member)\<close>, the dotted name.\<close>

function (sequential) canon :: "pyval \<Rightarrow> pyval" where
  "canon (PEnum c s) = PStr (c @ ''.'' @ s)"
| "canon (PTuple xs) = PTuple (map canon xs)"
| "canon (PList xs) = PList (map canon xs)"
| "canon (PBytes b) = PStr (''bytes:'' @ bytes_hex b)"
| "canon v = v"
  by pat_completeness auto
termination
  by (relation "measure size") (auto dest: size_list_estimation' [where f = size] intro: le_imp_less_Suc)

definition strings :: "string list \<Rightarrow> pyval" where
  "strings ss = PTuple (map PStr ss)"

definition opt_value :: "string option \<Rightarrow> pyval" where
  "opt_value s = (case s of None \<Rightarrow> PNone | Some t \<Rightarrow> PStr t)"

section \<open>Grants and the profile\<close>

record producer_grant =
  pg_producer_id :: string
  pg_role :: producer_role
  pg_software_hash :: string
  pg_verification_methods :: "string list"

definition producer_grant_post_init :: "producer_grant \<Rightarrow> unit res" where
  "producer_grant_post_init g =
     eseq (text_bounded (pg_producer_id g) ''producer_id'')
    (eseq (hash_text (pg_software_hash g) ''software_hash'')
    (eseq (tuple_text (pg_verification_methods g) ''verification_methods'' True)
       (guard (sorted (pg_verification_methods g)) ValueErr ''verification_methods must be sorted'')))"

definition producer_canon :: "producer_grant \<Rightarrow> pyval" where
  "producer_canon g = canon (PTuple [PStr (pg_producer_id g), PEnum ''ProducerRole'' (producer_role_value (pg_role g)),
     PStr (pg_software_hash g), strings (pg_verification_methods g)])"

record issuer_grant =
  ig_issuer_id :: string
  ig_roles :: "trust_role list"
  ig_actions :: "string list"
  ig_verification_methods :: "string list"

definition issuer_grant_post_init :: "issuer_grant \<Rightarrow> unit res" where
  "issuer_grant_post_init g =
     eseq (text_bounded (ig_issuer_id g) ''issuer_id'')
    (eseq (guard (ig_roles g \<noteq> []) TypeErr ''roles must be TrustRole tuple'')
    (eseq (guard (distinct (ig_roles g)) ValueErr ''roles must not contain duplicates'')
    (eseq (guard (sorted (ig_roles g)) ValueErr ''roles must be sorted'')
    (eseq (tuple_text (ig_actions g) ''actions'' True)
    (eseq (tuple_text (ig_verification_methods g) ''verification_methods'' True)
       (guard (sorted (ig_actions g) \<and> sorted (ig_verification_methods g)) ValueErr ''trust inputs must be sorted''))))))"

definition role_enum :: "trust_role \<Rightarrow> pyval" where
  "role_enum r = PEnum ''TrustRole'' (trust_role_value r)"

definition issuer_canon :: "issuer_grant \<Rightarrow> pyval" where
  "issuer_canon g = canon (PTuple [PStr (ig_issuer_id g), PTuple (map role_enum (ig_roles g)),
     strings (ig_actions g), strings (ig_verification_methods g)])"

record ingestion_profile =
  ip_profile_id :: string
  ip_producers :: "producer_grant list"
  ip_issuers :: "issuer_grant list"
  ip_max_age_seconds :: int

definition ingestion_profile_post_init :: "ingestion_profile \<Rightarrow> unit res" where
  "ingestion_profile_post_init p =
     eseq (text_bounded (ip_profile_id p) ''profile_id'')
    (eseq (guard (length (ip_producers p) \<le> MAX_COLLECTION_ITEMS \<and> length (ip_issuers p) \<le> MAX_COLLECTION_ITEMS) ValueErr
             ''profile collections exceed maximum size'')
    (eseq (guard (distinct (map pg_producer_id (ip_producers p))) ValueErr ''producers must not contain duplicates'')
    (eseq (guard (sorted (map pg_producer_id (ip_producers p))) ValueErr ''producers must be sorted'')
    (eseq (guard (distinct (map ig_issuer_id (ip_issuers p))) ValueErr ''issuers must not contain duplicates'')
    (eseq (guard (sorted (map ig_issuer_id (ip_issuers p))) ValueErr ''issuers must be sorted'')
       (guard (0 \<le> ip_max_age_seconds p) ValueErr ''max_age_seconds must be non-negative int''))))))"

text \<open>The order of Python tuples of these fields: the key the canonical grants are sorted by.\<close>

definition producer_key :: "producer_grant \<Rightarrow> string \<times> string \<times> string \<times> string list" where
  "producer_key g = (pg_producer_id g, producer_role_value (pg_role g), pg_software_hash g, pg_verification_methods g)"

definition issuer_key :: "issuer_grant \<Rightarrow> string \<times> string list \<times> string list \<times> string list" where
  "issuer_key g = (ig_issuer_id g, map trust_role_value (ig_roles g), ig_actions g, ig_verification_methods g)"

definition ingestion_profile_hash :: "ingestion_profile \<Rightarrow> string res" where
  "ingestion_profile_hash p = hash_value (PTuple [PStr (ip_profile_id p),
     PTuple (map producer_canon (sort_key producer_key (ip_producers p))),
     PTuple (map issuer_canon (sort_key issuer_key (ip_issuers p))), PInt (ip_max_age_seconds p)])"

section \<open>Requirements\<close>

record evidence_requirement =
  er_verifier_id :: string
  er_artifact_id :: string
  er_evidence_type :: evidence_type
  er_generation :: evidence_generation
  er_producer_id :: string
  er_execution_id :: string
  er_attempt_id :: string
  er_environment_hash :: string
  er_content_hash :: string
  er_provenance_hash :: string
  er_runtime_ready_required :: bool
  er_human_semantic_review_required :: bool
  er_expected_status :: bool

text \<open>An \<open>ObservationStatus\<close>: \<open>True\<close> is \<open>PASS\<close>, \<open>False\<close> is \<open>FAIL\<close>.\<close>

definition status_enum :: "bool \<Rightarrow> pyval" where
  "status_enum b = (if b then OBS_PASS else OBS_FAIL)"

definition requirement_post_init :: "evidence_requirement \<Rightarrow> unit res" where
  "requirement_post_init r =
     eseq (text_bounded (er_verifier_id r) ''verifier_id'')
    (eseq (text_bounded (er_artifact_id r) ''artifact_id'')
    (eseq (text_bounded (er_producer_id r) ''producer_id'')
    (eseq (text_bounded (er_execution_id r) ''execution_id'')
    (eseq (text_bounded (er_attempt_id r) ''attempt_id'')
    (eseq (hash_text (er_environment_hash r) ''environment_hash'')
    (eseq (hash_text (er_content_hash r) ''content_hash'')
       (hash_text (er_provenance_hash r) ''provenance_hash'')))))))"

definition EVIDENCE_REQUIREMENT_SCHEMA :: string where
  "EVIDENCE_REQUIREMENT_SCHEMA = ''nexus.evidence_requirement.v2-experimental''"

definition requirement_hash :: "evidence_requirement \<Rightarrow> string res" where
  "requirement_hash r = hash_value (canon (PTuple [PStr EVIDENCE_REQUIREMENT_SCHEMA, PStr (er_verifier_id r),
     PStr (er_artifact_id r), PStr (evidence_type_value (er_evidence_type r)), PStr (generation_value (er_generation r)),
     PStr (er_producer_id r), PStr (er_execution_id r), PStr (er_attempt_id r), PStr (er_environment_hash r),
     PStr (er_content_hash r), PStr (er_provenance_hash r), PBool (er_runtime_ready_required r),
     PBool (er_human_semantic_review_required r), PStr (str_of (status_enum (er_expected_status r)))]))"

section \<open>Provenance and submissions\<close>

record runtime_observation =
  ro_generation :: evidence_generation
  ro_desired_source_revision :: string
  ro_loaded_source_revision :: string
  ro_expected_runtime_identity :: "string option"
  ro_observed_runtime_identity :: "string option"
  ro_desired_generation :: int
  ro_observed_generation :: int
  ro_observed_at :: string
  ro_expires_at :: string
  ro_readiness_status :: "string option"

definition opt_text :: "string option \<Rightarrow> string \<Rightarrow> unit res" where
  "opt_text v name = (case v of None \<Rightarrow> Inr () | Some t \<Rightarrow> text_bounded t name)"

definition runtime_observation_post_init :: "runtime_observation \<Rightarrow> unit res" where
  "runtime_observation_post_init r =
     eseq (guard (ro_generation r \<noteq> EG_EXECUTION \<and> ro_generation r \<noteq> EG_LEGACY_NARRATIVE) ValueErr ''unsupported generation'')
    (eseq (text_bounded (ro_desired_source_revision r) ''desired_source_revision'')
    (eseq (text_bounded (ro_loaded_source_revision r) ''loaded_source_revision'')
    (eseq (runtime_timestamp (ro_observed_at r))
    (eseq (runtime_timestamp (ro_expires_at r))
    (eseq (opt_text (ro_expected_runtime_identity r) ''expected_runtime_identity'')
    (eseq (opt_text (ro_observed_runtime_identity r) ''observed_runtime_identity'')
       (opt_text (ro_readiness_status r) ''readiness_status'')))))))"

definition generation_enum :: "evidence_generation \<Rightarrow> pyval" where
  "generation_enum g = PEnum ''EvidenceGeneration'' (generation_value g)"

definition runtime_fields :: "runtime_observation \<Rightarrow> pyval" where
  "runtime_fields r = PTuple [generation_enum (ro_generation r), PStr (ro_desired_source_revision r),
     PStr (ro_loaded_source_revision r), opt_value (ro_expected_runtime_identity r), opt_value (ro_observed_runtime_identity r),
     PInt (ro_desired_generation r), PInt (ro_observed_generation r), PStr (ro_observed_at r), PStr (ro_expires_at r),
     opt_value (ro_readiness_status r)]"

record provenance =
  pv_schema :: string
  pv_evidence_id :: string
  pv_evidence_type :: evidence_type
  pv_verifier_id :: string
  pv_artifact_id :: string
  pv_producer_id :: string
  pv_producer_role :: producer_role
  pv_producer_software_hash :: string
  pv_repository_id :: string
  pv_source_revision :: string
  pv_source_tree :: string
  pv_target_revision :: string
  pv_target_tree :: string
  pv_change_set_hash :: string
  pv_diff_hash :: string
  pv_generated_at :: string
  pv_source_locator :: string
  pv_content_hash :: string
  pv_verification_method :: string
  pv_execution_id :: string
  pv_attempt_id :: string
  pv_environment_hash :: string
  pv_generation :: evidence_generation
  pv_runtime :: "runtime_observation option"

definition provenance_post_init :: "provenance \<Rightarrow> unit res" where
  "provenance_post_init p =
     eseq (efor [(pv_schema p, ''schema''), (pv_evidence_id p, ''evidence_id''), (pv_verifier_id p, ''verifier_id''),
         (pv_artifact_id p, ''artifact_id''), (pv_producer_id p, ''producer_id''), (pv_repository_id p, ''repository_id''),
         (pv_source_revision p, ''source_revision''), (pv_source_tree p, ''source_tree''),
         (pv_target_revision p, ''target_revision''), (pv_target_tree p, ''target_tree''),
         (pv_generated_at p, ''generated_at''), (pv_source_locator p, ''source_locator''),
         (pv_verification_method p, ''verification_method''), (pv_execution_id p, ''execution_id''),
         (pv_attempt_id p, ''attempt_id'')] (\<lambda>(v, n). text_bounded v n))
       (efor [(pv_producer_software_hash p, ''producer_software_hash''), (pv_change_set_hash p, ''change_set_hash''),
         (pv_diff_hash p, ''diff_hash''), (pv_content_hash p, ''content_hash''),
         (pv_environment_hash p, ''environment_hash'')] (\<lambda>(v, n). hash_text v n))"

definition provenance_fields :: "provenance \<Rightarrow> pyval" where
  "provenance_fields p = PTuple [PStr (pv_schema p), PStr (pv_evidence_id p),
     PEnum ''EvidenceType'' (evidence_type_value (pv_evidence_type p)), PStr (pv_verifier_id p), PStr (pv_artifact_id p),
     PStr (pv_producer_id p), PEnum ''ProducerRole'' (producer_role_value (pv_producer_role p)),
     PStr (pv_producer_software_hash p), PStr (pv_repository_id p), PStr (pv_source_revision p), PStr (pv_source_tree p),
     PStr (pv_target_revision p), PStr (pv_target_tree p), PStr (pv_change_set_hash p), PStr (pv_diff_hash p),
     PStr (pv_generated_at p), PStr (pv_source_locator p), PStr (pv_content_hash p), PStr (pv_verification_method p),
     PStr (pv_execution_id p), PStr (pv_attempt_id p), PStr (pv_environment_hash p), generation_enum (pv_generation p),
     (case pv_runtime p of None \<Rightarrow> PNone | Some r \<Rightarrow> runtime_fields r)]"

definition provenance_hash :: "provenance \<Rightarrow> string res" where
  "provenance_hash p = hash_value (canon (provenance_fields p))"

record submission =
  sb_content :: string
  sb_status :: bool
  sb_provenance :: provenance

definition submission_post_init :: "submission \<Rightarrow> unit res" where
  "submission_post_init s = guard (length (sb_content s) \<le> MAX_CONTENT_BYTES) ValueErr ''content exceeds maximum size''"

section \<open>The trusted context\<close>

record ingestion_context =
  ic_contract :: acceptance_contract
  ic_change_set :: change_set
  ic_plan :: verification_plan
  ic_repository_id :: string
  ic_source_tree :: string
  ic_target_tree :: string
  ic_observed_at :: string
  ic_profile :: ingestion_profile
  ic_expected_profile_hash :: string
  ic_requirements :: "evidence_requirement list"
  ic_required_action :: string
  ic_prerequisite_payload_hashes :: "(trust_role \<times> string) list"

definition contract_post_init :: "acceptance_contract \<Rightarrow> unit res" where
  "contract_post_init c = ebind (AcceptanceContract (ac_contract_id c) (ac_requirements_hash c) (ac_required_verifier_ids c)
     (ac_allowed_paths c) (ac_deletion_policy c)) (\<lambda>_. Inr ())"

definition change_set_post_init :: "change_set \<Rightarrow> unit res" where
  "change_set_post_init c = ebind (ChangeSet (cs_change_set_id c) (cs_source_revision c) (cs_target_revision c)
     (cs_diff_hash c) (cs_paths c)) (\<lambda>_. Inr ())"

definition plan_post_init :: "verification_plan \<Rightarrow> unit res" where
  "plan_post_init p = ebind (VerificationPlan (vp_plan_id p) (vp_acceptance_contract_hash p) (vp_change_set_hash p)
     (vp_required_verifier_ids p)) (\<lambda>_. Inr ())"

definition prerequisite_key :: "trust_role \<times> string \<Rightarrow> string \<times> string" where
  "prerequisite_key q = (trust_role_value (fst q), snd q)"

definition prerequisites_check :: "(trust_role \<times> string) list \<Rightarrow> unit res" where
  "prerequisites_check qs =
     eseq (efor qs (\<lambda>q. hash_text (snd q) ''prerequisite_payload_hash''))
    (eseq (guard (distinct (map fst qs)) ValueErr ''prerequisite roles must be unique'')
       (guard (qs = sort_key prerequisite_key qs) ValueErr ''prerequisites must be sorted''))"

definition context_texts :: "ingestion_context \<Rightarrow> unit res" where
  "context_texts c =
     eseq (efor [(ic_repository_id c, ''repository_id''), (ic_source_tree c, ''source_tree''), (ic_target_tree c, ''target_tree''),
         (ic_observed_at c, ''observed_at''), (ic_required_action c, ''required_action'')] (\<lambda>(v, n). text_bounded v n))
       (hash_text (ic_expected_profile_hash c) ''expected_profile_hash'')"

definition context_sizes :: "ingestion_context \<Rightarrow> unit res" where
  "context_sizes c = guard (length (ic_requirements c) \<le> MAX_COLLECTION_ITEMS \<and>
     length (ic_prerequisite_payload_hashes c) \<le> MAX_COLLECTION_ITEMS) ValueErr ''context collections exceed maximum size''"

definition context_post_init :: "ingestion_context \<Rightarrow> unit res" where
  "context_post_init c =
     eseq (context_texts c)
    (eseq (efor (ic_requirements c) requirement_post_init)
    (eseq (context_sizes c)
       (prerequisites_check (ic_prerequisite_payload_hashes c))))"

text \<open>\<open>profile.__post_init__()\<close> and each grant's.\<close>

definition profile_revalidated :: "ingestion_profile \<Rightarrow> unit res" where
  "profile_revalidated p =
     eseq (ingestion_profile_post_init p)
    (eseq (efor (ip_producers p) producer_grant_post_init)
       (efor (ip_issuers p) issuer_grant_post_init))"

definition revalidate_context :: "ingestion_context \<Rightarrow> unit res" where
  "revalidate_context c =
     eseq (contract_post_init (ic_contract c))
    (eseq (change_set_post_init (ic_change_set c))
    (eseq (plan_post_init (ic_plan c))
    (eseq (context_texts c)
    (eseq (context_sizes c)
    (eseq (prerequisites_check (ic_prerequisite_payload_hashes c))
    (eseq (profile_revalidated (ic_profile c))
       (efor (ic_requirements c) requirement_post_init)))))))"

definition caught :: "exn \<Rightarrow> bool" where
  "caught e \<longleftrightarrow> e = TypeErr \<or> is_value_error e \<or> e = AttributeErr"

text \<open>A check inside \<open>try: .. except (TypeError, ValueError, AttributeError)\<close>.\<close>

definition holds :: "unit res \<Rightarrow> bool res" where
  "holds r = (case r of Inr _ \<Rightarrow> Inr True | Inl (e, m) \<Rightarrow> if caught e then Inr False else Inl (e, m))"

definition validate_context_nested :: "ingestion_context \<Rightarrow> bool res" where
  "validate_context_nested c = holds
    (eseq (context_post_init c)
    (eseq (contract_post_init (ic_contract c))
    (eseq (change_set_post_init (ic_change_set c))
    (eseq (plan_post_init (ic_plan c))
    (eseq (profile_revalidated (ic_profile c))
       (efor (ic_requirements c) requirement_post_init))))))"

definition context_hash :: "ingestion_context \<Rightarrow> string res" where
  "context_hash c =
     ebind (ingestion_profile_hash (ic_profile c)) (\<lambda>ph.
     ebind (emap requirement_hash (ic_requirements c)) (\<lambda>rhs.
       hash_value (canon (PTuple [
         PTuple [ac_contract_id (ic_contract c), ac_requirements_hash (ic_contract c), ac_required_verifier_ids (ic_contract c),
           ac_allowed_paths (ic_contract c), ac_deletion_policy (ic_contract c)],
         PTuple [cs_change_set_id (ic_change_set c), cs_source_revision (ic_change_set c), cs_target_revision (ic_change_set c),
           cs_diff_hash (ic_change_set c), cs_paths (ic_change_set c)],
         PTuple [vp_plan_id (ic_plan c), vp_acceptance_contract_hash (ic_plan c), vp_change_set_hash (ic_plan c),
           vp_required_verifier_ids (ic_plan c)],
         PStr (ic_repository_id c), PStr (ic_source_tree c), PStr (ic_target_tree c), PStr (ic_observed_at c), PStr ph,
         PStr (ic_expected_profile_hash c), strings (sort rhs), PStr (ic_required_action c),
         PTuple (map (\<lambda>(r, h). PTuple [role_enum r, PStr h])
           (sort_key prerequisite_key (ic_prerequisite_payload_hashes c)))]))))"

section \<open>Receipts and results\<close>

record ingestion_receipt =
  ir_context_hash :: string
  ir_profile_hash :: string
  ir_bundle_hash :: "string option"
  ir_raw_content_hashes :: "string list"
  ir_provenance_hashes :: "string list"
  ir_observations :: "observation list"
  ir_freshness :: "(string \<times> freshness_status) list"
  ir_machine_verified_artifact_ids :: "string list"
  ir_human_open_artifact_ids :: "string list"
  ir_human_open_reasons :: "(string \<times> string) list"
  ir_missing_verifier_ids :: "string list"
  ir_reason_codes :: "string list"
  ir_receipt_hash :: string

definition observation_fields :: "observation \<Rightarrow> pyval" where
  "observation_fields x = PTuple [ob_verifier_id x, ob_artifact_id x, ob_artifact_hash x, ob_status x]"

text \<open>The fields of a receipt without its own hash, as the tuple that is hashed.\<close>

definition ingested_fields :: "ingestion_receipt \<Rightarrow> pyval list" where
  "ingested_fields r = [PStr (ir_context_hash r), PStr (ir_profile_hash r), opt_value (ir_bundle_hash r),
     strings (ir_raw_content_hashes r), strings (ir_provenance_hashes r), PTuple (map observation_fields (ir_observations r)),
     PTuple (map (\<lambda>(a, f). PTuple [PStr a, PEnum ''FreshnessStatus'' (freshness_value f)]) (ir_freshness r)),
     strings (ir_machine_verified_artifact_ids r), strings (ir_human_open_artifact_ids r),
     PTuple (map (\<lambda>(a, w). PTuple [PStr a, PStr w]) (ir_human_open_reasons r)),
     strings (ir_missing_verifier_ids r), strings (ir_reason_codes r)]"

definition computed_receipt_hash :: "ingestion_receipt \<Rightarrow> string res" where
  "computed_receipt_hash r = hash_value (canon (PTuple (ingested_fields r)))"

definition ingestion_receipt_post_init :: "ingestion_receipt \<Rightarrow> unit res" where
  "ingestion_receipt_post_init r =
     eseq (hash_text (ir_context_hash r) ''context_hash'')
    (eseq (hash_text (ir_profile_hash r) ''profile_hash'')
    (eseq (case ir_bundle_hash r of None \<Rightarrow> Inr () | Some h \<Rightarrow> hash_text h ''bundle_hash'')
    (eseq (guard (sorted (map fst (ir_freshness r))) ValueErr ''freshness must be sorted'')
    (eseq (hash_text (ir_receipt_hash r) ''receipt_hash'')
       (ebind (computed_receipt_hash r) (\<lambda>h.
          guard (ir_receipt_hash r = h) ValueErr ''receipt_hash does not match receipt''))))))"

record ingestion_result =
  in_bundle :: "evidence_bundle option"
  in_receipt :: ingestion_receipt
  in_condition :: integrity_status
  in_reason_codes :: "string list"

definition ingestion_result_post_init :: "ingestion_result \<Rightarrow> unit res" where
  "ingestion_result_post_init r =
     eseq (guard (in_condition r = VALID \<longrightarrow> in_bundle r \<noteq> None) ValueErr ''VALID result requires bundle'')
    (eseq (guard (in_condition r = VALID \<longrightarrow> in_reason_codes r = [] \<and> in_bundle r \<noteq> None) ValueErr
             ''VALID result must have no reasons and a bundle'')
    (eseq (guard (in_condition r \<noteq> VALID \<longrightarrow> in_bundle r = None) ValueErr ''non-VALID result cannot have a bundle'')
       (ebind (case in_bundle r of None \<Rightarrow> Inr None | Some b \<Rightarrow> ebind (bundle_hash b) (\<lambda>h. Inr (Some h))) (\<lambda>h.
          guard (ir_bundle_hash (in_receipt r) = h) ValueErr ''receipt bundle hash mismatch''))))"

section \<open>Reasons\<close>

definition REASON_ORDER :: "string list" where
  "REASON_ORDER = [''TAMPERED'', ''STALE'', ''CROSS_BOUND'', ''DUPLICATE'', ''MALFORMED'', ''MISSING'']"

definition REASON_CODES :: "(string \<times> string list) list" where
  "REASON_CODES =
     [(''TAMPERED'', [''content_hash'', ''provenance_hash'']),
      (''STALE'', [''subject'', ''generation'', ''observation'']),
      (''CROSS_BOUND'', [''producer'', ''repository'', ''tree'', ''changeset'', ''acceptance_contract'', ''observation_status'',
         ''artifact'', ''runtime'', ''execution'']),
      (''DUPLICATE'', [''artifact'', ''verifier'']),
      (''MALFORMED'', [''profile'', ''requirement'', ''submission'', ''provenance'', ''evidence_type'', ''producer_role'',
         ''generation'', ''timestamp'', ''runtime'', ''trust_reference'']),
      (''MISSING'', [''required_verifier'', ''source_locator'', ''execution'', ''runtime_identity'', ''ready_identity'',
         ''prerequisite''])]"

text \<open>\<open>reason.split(":", 1)\<close> on a text with a colon.\<close>

definition reason_kind :: "string \<Rightarrow> string" where
  "reason_kind r = takeWhile (\<lambda>c. c \<noteq> CHR '':'') r"

definition reason_detail :: "string \<Rightarrow> string" where
  "reason_detail r = drop 1 (dropWhile (\<lambda>c. c \<noteq> CHR '':'') r)"

definition known_reason :: "string \<Rightarrow> bool" where
  "known_reason r \<longleftrightarrow> List.member r (CHR '':'') \<and> (case map_of REASON_CODES (reason_kind r) of
     None \<Rightarrow> False | Some details \<Rightarrow> List.member details (reason_detail r))"

text \<open>\<open>IntegrityStatus[kind]\<close>.\<close>

definition status_of_kind :: "string \<Rightarrow> integrity_status" where
  "status_of_kind k = (if k = ''TAMPERED'' then TAMPERED else if k = ''STALE'' then STALE
     else if k = ''CROSS_BOUND'' then CROSS_BOUND else if k = ''DUPLICATE'' then DUPLICATE
     else if k = ''MALFORMED'' then MALFORMED else MISSING)"

definition condition_for_ingestion_reasons :: "string list \<Rightarrow> integrity_status res" where
  "condition_for_ingestion_reasons reasons =
     (if \<not> list_all known_reason reasons then Inl (ValueErr, ''unknown ingestion reason'')
      else Inr (case find (\<lambda>k. list_ex (\<lambda>r. startswith r (k @ '':'')) reasons) REASON_ORDER of
          Some k \<Rightarrow> status_of_kind k | None \<Rightarrow> VALID))"

section \<open>Time\<close>

text \<open>\<open>_parse_time\<close>: the microseconds since the beginning of year 1 of a UTC timestamp.  Digits of the
  fraction beyond the sixth are dropped, as \<open>datetime.fromisoformat\<close> does.\<close>

definition zone_text :: "string \<Rightarrow> bool" where
  "zone_text s \<longleftrightarrow> s = ''Z'' \<or> s = ''+00:00''"

text \<open>The digits of the fraction, when what follows the seconds is a fraction, if any, and the zone.\<close>

definition fraction_of :: "string \<Rightarrow> string option" where
  "fraction_of rest =
     (if zone_text rest then Some []
      else (case rest of
          c # r \<Rightarrow> if c = CHR ''.'' \<and> takeWhile is_digit r \<noteq> [] \<and> zone_text (dropWhile is_digit r)
                   then Some (takeWhile is_digit r) else None
        | [] \<Rightarrow> None))"

definition iso_shape :: "string \<Rightarrow> bool" where
  "iso_shape s \<longleftrightarrow> 19 \<le> length s \<and>
     list_all (\<lambda>i. is_digit (s ! i)) [0, 1, 2, 3, 5, 6, 8, 9, 11, 12, 14, 15, 17, 18] \<and>
     s ! 4 = CHR ''-'' \<and> s ! 7 = CHR ''-'' \<and> s ! 10 = CHR ''T'' \<and> s ! 13 = CHR '':'' \<and> s ! 16 = CHR '':'' \<and>
     fraction_of (drop 19 s) \<noteq> None"

definition days_before :: "nat \<Rightarrow> nat \<Rightarrow> nat" where
  "days_before y m = (y - 1) * 365 + (y - 1) div 4 - (y - 1) div 100 + (y - 1) div 400 + sum_list (map (days_in y) [1..<m])"

definition parse_time :: "string \<Rightarrow> nat option" where
  "parse_time s =
     (if iso_shape s \<and> valid_timestamp s
      then Some ((((days_before (field_at s 0 4) (field_at s 5 2) + field_at s 8 2) * 24 + field_at s 11 2) * 60 +
             field_at s 14 2) * 60 * 1000000 + field_at s 17 2 * 1000000 +
             nat_of_digits (take 6 (the (fraction_of (drop 19 s)) @ replicate 6 (CHR ''0''))))
      else None)"

definition valid_revision :: "string \<Rightarrow> bool" where
  "valid_revision v \<longleftrightarrow> strip v \<noteq> [] \<and> v = strip v \<and> \<not> List.member v nul \<and> length v \<le> MAX_TEXT_LENGTH"

text \<open>The truth value of an optional text.\<close>

definition given :: "string option \<Rightarrow> bool" where
  "given v \<longleftrightarrow> (case v of None \<Rightarrow> False | Some t \<Rightarrow> t \<noteq> [])"

definition derive_runtime_freshness :: "runtime_observation \<Rightarrow> string \<Rightarrow> freshness_status" where
  "derive_runtime_freshness r observed_at =
     (case (parse_time observed_at, parse_time (ro_observed_at r), parse_time (ro_expires_at r)) of
        (Some now, Some at, Some expiry) \<Rightarrow>
          if now < at \<or> expiry < now \<or> ro_observed_generation r \<noteq> ro_desired_generation r then FS_STALE_OBSERVATION
          else if \<not> valid_revision (ro_desired_source_revision r) \<or> \<not> valid_revision (ro_loaded_source_revision r)
          then FS_CONVERGENCE_UNKNOWN
          else if ro_generation r = EG_SOURCE then
            (if ro_desired_source_revision r = [] \<or> ro_loaded_source_revision r = [] then FS_CONVERGENCE_UNKNOWN
             else if ro_loaded_source_revision r \<noteq> ro_desired_source_revision r then FS_SOURCE_AHEAD_OF_RUNTIME
             else if ro_expected_runtime_identity r \<noteq> None \<or> ro_observed_runtime_identity r \<noteq> None \<or> ro_readiness_status r \<noteq> None
             then FS_CONVERGENCE_UNKNOWN else FS_SOURCE_ALIGNED)
          else if ro_loaded_source_revision r \<noteq> ro_desired_source_revision r then FS_SOURCE_AHEAD_OF_RUNTIME
          else if \<not> given (ro_expected_runtime_identity r) \<or> \<not> given (ro_observed_runtime_identity r) then FS_CONVERGENCE_UNKNOWN
          else if ro_expected_runtime_identity r \<noteq> ro_observed_runtime_identity r then FS_RUNTIME_IDENTITY_MISMATCH
          else if ro_readiness_status r \<noteq> Some ''READY'' then FS_CONVERGENCE_UNKNOWN
          else FS_READY_IDENTITY_BOUND
      | _ \<Rightarrow> FS_CONVERGENCE_UNKNOWN)"

section \<open>One submission\<close>

definition PROVENANCE_ENVELOPE_SCHEMA :: string where
  "PROVENANCE_ENVELOPE_SCHEMA = ''product.evidence.provenance.v1''"

definition reason_if :: "bool \<Rightarrow> string \<Rightarrow> string list" where
  "reason_if b r = (if b then [r] else [])"

text \<open>What is wrong with a provenance on its own.  (The recomputation of its hash compares the property
  with the expression that defines it, so it finds nothing.)\<close>

definition envelope_reasons :: "provenance \<Rightarrow> string \<Rightarrow> string list" where
  "envelope_reasons p raw =
     reason_if (pv_schema p \<noteq> PROVENANCE_ENVELOPE_SCHEMA) ''TAMPERED:provenance_hash'' @
     reason_if (raw \<noteq> pv_content_hash p) ''TAMPERED:content_hash'' @
     reason_if (strip (pv_source_locator p) = [] \<or> pv_source_locator p \<noteq> strip (pv_source_locator p) \<or>
       List.member (pv_source_locator p) nul) ''MISSING:source_locator'' @
     reason_if (\<not> valid_revision (pv_source_revision p)) ''MALFORMED:provenance'' @
     reason_if (\<not> valid_revision (pv_target_revision p)) ''MALFORMED:provenance''"

type_synonym requirement_table = "((string \<times> string) \<times> evidence_requirement) list"

text \<open>\<open>{(r.verifier_id, r.artifact_id): r for r in requirements}\<close>.\<close>

definition requirement_table :: "evidence_requirement list \<Rightarrow> requirement_table" where
  "requirement_table rs = fold (\<lambda>r. AList.update (er_verifier_id r, er_artifact_id r) r) rs []"

definition find_requirement :: "requirement_table \<Rightarrow> provenance \<Rightarrow> evidence_requirement option" where
  "find_requirement reqs p =
     (case map_of reqs (pv_verifier_id p, pv_artifact_id p) of
        Some r \<Rightarrow> Some r
      | None \<Rightarrow> map_option snd (find (\<lambda>((v, _), _). v = pv_verifier_id p) reqs))"

definition find_producer :: "ingestion_context \<Rightarrow> provenance \<Rightarrow> producer_grant option" where
  "find_producer c p = find (\<lambda>g. pg_producer_id g = pv_producer_id p) (ip_producers (ic_profile c))"

definition status_mismatch :: "evidence_requirement \<Rightarrow> submission \<Rightarrow> bool" where
  "status_mismatch req s \<longleftrightarrow> sb_status s \<noteq> er_expected_status req"

text \<open>The binding of a submission to its requirement and the context; \<open>raw\<close>, \<open>ph\<close> and \<open>csh\<close> are the hashes
  of the content, the provenance and the change set.\<close>

definition binding_reasons ::
  "ingestion_context \<Rightarrow> string \<Rightarrow> evidence_requirement \<Rightarrow> submission \<Rightarrow> string \<Rightarrow> string \<Rightarrow> string list" where
  "binding_reasons c csh req s raw ph =
     (let p = sb_provenance s; cs = ic_change_set c; producer = find_producer c p in
      reason_if (er_content_hash req \<noteq> pv_content_hash p \<or> er_content_hash req \<noteq> raw) ''TAMPERED:content_hash'' @
      reason_if (status_mismatch req s) ''CROSS_BOUND:observation_status'' @
      reason_if (er_provenance_hash req \<noteq> ph) ''TAMPERED:provenance_hash'' @
      reason_if (pv_artifact_id p \<noteq> er_artifact_id req) ''CROSS_BOUND:artifact'' @
      reason_if (pv_evidence_type p \<noteq> er_evidence_type req) ''CROSS_BOUND:artifact'' @
      reason_if (pv_generation p \<noteq> er_generation req) ''MALFORMED:generation'' @
      reason_if (pv_generation p = EG_SOURCE \<and> (case pv_runtime p of Some r \<Rightarrow> ro_generation r \<noteq> EG_SOURCE | None \<Rightarrow> False)) ''MALFORMED:runtime'' @
      reason_if (pv_generation p = EG_SOURCE \<and> (case pv_runtime p of Some r \<Rightarrow> ro_expected_runtime_identity r \<noteq> None \<or>
        ro_observed_runtime_identity r \<noteq> None \<or> ro_readiness_status r \<noteq> None | None \<Rightarrow> False)) ''MALFORMED:runtime'' @
      reason_if (pv_producer_id p \<noteq> er_producer_id req \<or> (case producer of None \<Rightarrow> True
        | Some g \<Rightarrow> pv_producer_role p \<noteq> pg_role g \<or> pv_producer_software_hash p \<noteq> pg_software_hash g)) ''CROSS_BOUND:producer'' @
      reason_if (pv_repository_id p \<noteq> ic_repository_id c) ''CROSS_BOUND:repository'' @
      reason_if (pv_source_tree p \<noteq> ic_source_tree c \<or> pv_target_tree p \<noteq> ic_target_tree c) ''CROSS_BOUND:tree'' @
      reason_if (valid_revision (pv_source_revision p) \<and> valid_revision (pv_target_revision p) \<and>
        (\<not> py_eq (PStr (pv_source_revision p)) (cs_source_revision cs) \<or>
         \<not> py_eq (PStr (pv_target_revision p)) (cs_target_revision cs))) ''STALE:subject'' @
      reason_if (pv_change_set_hash p \<noteq> csh \<or> \<not> py_eq (PStr (pv_diff_hash p)) (cs_diff_hash cs)) ''CROSS_BOUND:changeset'' @
      reason_if (pv_execution_id p \<noteq> er_execution_id req \<or> pv_attempt_id p \<noteq> er_attempt_id req \<or>
        pv_environment_hash p \<noteq> er_environment_hash req) ''CROSS_BOUND:execution'' @
      reason_if (\<not> List.member (case producer of Some g \<Rightarrow> pg_verification_methods g | None \<Rightarrow> []) (pv_verification_method p))
        ''CROSS_BOUND:producer'' @
      reason_if (pv_generation p \<noteq> er_generation req) ''TAMPERED:provenance_hash'' @
      reason_if (pv_generation p = EG_LEGACY_NARRATIVE) ''MALFORMED:generation'')"

text \<open>The runtime observation \<open>r\<close> of a provenance, with its freshness \<open>f\<close> at the context's time.\<close>

definition observed_runtime_reasons ::
  "evidence_requirement \<Rightarrow> provenance \<Rightarrow> runtime_observation \<Rightarrow> freshness_status \<Rightarrow> string list" where
  "observed_runtime_reasons req p r f =
     (let revisions = valid_revision (ro_desired_source_revision r) \<and> valid_revision (ro_loaded_source_revision r);
          times = parse_time (ro_observed_at r) \<noteq> None \<and> parse_time (ro_expires_at r) \<noteq> None;
          generations = ro_observed_generation r = ro_desired_generation r;
          identities = given (ro_expected_runtime_identity r) \<and> given (ro_observed_runtime_identity r) in
      reason_if (pv_generation p = EG_SOURCE \<and> revisions \<and> ro_loaded_source_revision r \<noteq> ro_desired_source_revision r)
        ''STALE:subject'' @
      reason_if (\<not> generations) ''STALE:generation'' @
      reason_if (\<not> revisions) ''MISSING:source_locator'' @
      reason_if (\<not> times) ''MALFORMED:timestamp'' @
      (case f of
         FS_STALE_OBSERVATION \<Rightarrow> [if \<not> generations then ''STALE:generation'' else ''STALE:observation'']
       | FS_SOURCE_AHEAD_OF_RUNTIME \<Rightarrow> [''STALE:subject'']
       | FS_RUNTIME_IDENTITY_MISMATCH \<Rightarrow> [''CROSS_BOUND:runtime'']
       | FS_CONVERGENCE_UNKNOWN \<Rightarrow>
           if times \<and> revisions
           then (if \<not> identities then [''MISSING:runtime_identity'']
                 else reason_if (ro_readiness_status r \<noteq> Some ''READY'') ''MISSING:ready_identity'')
           else []
       | _ \<Rightarrow> []) @
      reason_if (er_runtime_ready_required req \<and> f \<noteq> FS_READY_IDENTITY_BOUND \<and> f \<noteq> FS_SOURCE_AHEAD_OF_RUNTIME \<and>
        revisions \<and> identities) ''MISSING:ready_identity'' @
      reason_if (pv_generation p = EG_SOURCE \<and> er_runtime_ready_required req) ''MISSING:ready_identity'')"

definition runtime_reasons :: "ingestion_context \<Rightarrow> evidence_requirement \<Rightarrow> provenance \<Rightarrow> string list" where
  "runtime_reasons c req p =
     (case pv_runtime p of
        Some r \<Rightarrow>
          reason_if (pv_generation p = EG_RUNTIME \<and> ro_generation r = EG_SOURCE) ''MALFORMED:generation'' @
          observed_runtime_reasons req p r (derive_runtime_freshness r (ic_observed_at c))
      | None \<Rightarrow>
          reason_if (pv_generation p = EG_RUNTIME \<or> er_runtime_ready_required req) ''MISSING:ready_identity'' @
          reason_if (pv_generation p = EG_RUNTIME) ''MISSING:runtime_identity'')"

definition time_reasons :: "ingestion_context \<Rightarrow> provenance \<Rightarrow> string list" where
  "time_reasons c p =
     (case parse_time (pv_generated_at p) of
        None \<Rightarrow> [''MALFORMED:timestamp'']
      | Some generated \<Rightarrow>
          (case parse_time (ic_observed_at c) of
             None \<Rightarrow> []
           | Some observed \<Rightarrow> reason_if (observed < generated \<or>
               ip_max_age_seconds (ic_profile c) * 1000000 < int observed - int generated) ''STALE:observation''))"

text \<open>What the loop over the submissions has collected.\<close>

record progress =
  pr_reasons :: "string list"
  pr_observations :: "observation list"
  pr_raw_hashes :: "string list"
  pr_provenance_hashes :: "string list"
  pr_freshness :: "(string \<times> freshness_status) list"
  pr_machine :: "string list"
  pr_human :: "string list"
  pr_human_reasons :: "(string \<times> string) list"
  pr_submitted :: "string list"
  pr_seen_artifacts :: "string list"
  pr_seen_verifiers :: "string list"

definition no_progress :: "string list \<Rightarrow> progress" where
  "no_progress reasons = \<lparr>pr_reasons = reasons, pr_observations = [], pr_raw_hashes = [], pr_provenance_hashes = [],
     pr_freshness = [], pr_machine = [], pr_human = [], pr_human_reasons = [], pr_submitted = [], pr_seen_artifacts = [],
     pr_seen_verifiers = []\<rparr>"

definition duplicate_reasons :: "progress \<Rightarrow> provenance \<Rightarrow> string list" where
  "duplicate_reasons st p =
     reason_if (List.member (pr_seen_artifacts st) (pv_artifact_id p)) ''DUPLICATE:artifact'' @
     reason_if (\<not> List.member (pr_seen_artifacts st) (pv_artifact_id p) \<and> List.member (pr_seen_verifiers st) (pv_verifier_id p))
       ''DUPLICATE:verifier''"

definition add_reasons :: "string list \<Rightarrow> progress \<Rightarrow> progress" where
  "add_reasons rs st = st\<lparr>pr_reasons := pr_reasons st @ rs\<rparr>"

text \<open>The observation an accepted status gives, with the marks for machine and human review.\<close>

definition record_observation ::
  "evidence_requirement \<Rightarrow> submission \<Rightarrow> string \<Rightarrow> string list \<Rightarrow> progress \<Rightarrow> progress res" where
  "record_observation req s ph local_reasons st =
     (let p = sb_provenance s; aid = pv_artifact_id p in
      if status_mismatch req s then Inr st
      else ebind (Observation (PStr (pv_verifier_id p)) (PStr aid) (PStr ph) (status_enum (er_expected_status req))) (\<lambda>ob.
        Inr (st\<lparr>pr_observations := pr_observations st @ [ob],
           pr_machine := pr_machine st @ (if local_reasons = [] then [aid] else []),
           pr_human := pr_human st @ (if er_human_semantic_review_required req then [aid] else []),
           pr_human_reasons := pr_human_reasons st @
             (if er_human_semantic_review_required req then [(aid, ''semantic_review_required'')] else [])\<rparr>)))"

definition submission_step ::
  "ingestion_context \<Rightarrow> string \<Rightarrow> requirement_table \<Rightarrow> submission \<Rightarrow> progress \<Rightarrow> progress res" where
  "submission_step c csh reqs s st =
     (let p = sb_provenance s; raw = sha_text (sb_content s) in
      ebind (provenance_hash p) (\<lambda>ph.
      let st1 = st\<lparr>pr_submitted := pr_submitted st @ [pv_verifier_id p], pr_raw_hashes := pr_raw_hashes st @ [raw],
                   pr_provenance_hashes := pr_provenance_hashes st @ [ph]\<rparr>;
          own = envelope_reasons p raw in
      (case find_requirement reqs p of
         None \<Rightarrow> Inr (add_reasons (own @ [''MISSING:required_verifier'', ''TAMPERED:provenance_hash'']) st1)
       | Some req \<Rightarrow>
          (let bound = own @ binding_reasons c csh req s raw ph in
           if pv_generation p = EG_EXECUTION \<and> pv_runtime p \<noteq> None
           then Inr (add_reasons (bound @ [''MALFORMED:runtime'']) st1)
           else (let all = bound @ runtime_reasons c req p @ time_reasons c p @ duplicate_reasons st p in
             record_observation req s ph all (add_reasons all (st1\<lparr>
               pr_freshness := pr_freshness st @ (case pv_runtime p of None \<Rightarrow> []
                 | Some r \<Rightarrow> [(pv_artifact_id p, derive_runtime_freshness r (ic_observed_at c))]),
               pr_seen_artifacts := pr_seen_artifacts st @ [pv_artifact_id p],
               pr_seen_verifiers := pr_seen_verifiers st @ [pv_verifier_id p]\<rparr>)))))))"

fun submissions_loop ::
  "ingestion_context \<Rightarrow> string \<Rightarrow> requirement_table \<Rightarrow> submission list \<Rightarrow> progress \<Rightarrow> progress res" where
  "submissions_loop c csh reqs [] st = Inr st"
| "submissions_loop c csh reqs (s # ss) st = ebind (submission_step c csh reqs s st) (submissions_loop c csh reqs ss)"

section \<open>Minting\<close>

definition mint_receipt :: "ingestion_receipt \<Rightarrow> ingestion_receipt res" where
  "mint_receipt body = ebind (computed_receipt_hash body) (\<lambda>h.
     let r = body\<lparr>ir_receipt_hash := h\<rparr> in eseq (ingestion_receipt_post_init r) (Inr r))"

definition mint_result ::
  "evidence_bundle option \<Rightarrow> ingestion_receipt \<Rightarrow> integrity_status \<Rightarrow> string list \<Rightarrow> ingestion_result res" where
  "mint_result bundle receipt condition reasons =
     (let r = \<lparr>in_bundle = bundle, in_receipt = receipt, in_condition = condition, in_reason_codes = reasons\<rparr> in
      eseq (ingestion_result_post_init r) (Inr r))"

definition bundle_fields :: "evidence_bundle \<Rightarrow> pyval" where
  "bundle_fields b = PTuple [eb_bundle_id b, eb_acceptance_contract_hash b, eb_change_set_hash b, eb_verification_plan_hash b,
     PTuple (map observation_fields (the_obs b)), eb_claimed_bundle_hash b]"

definition result_fingerprint :: "string \<Rightarrow> ingestion_result \<Rightarrow> pyval" where
  "result_fingerprint ch r = canon (PTuple [PStr ch, PTuple [
     (case in_bundle r of None \<Rightarrow> PNone | Some b \<Rightarrow> bundle_fields b),
     PTuple (ingested_fields (in_receipt r) @ [PStr (ir_receipt_hash (in_receipt r))]),
     PEnum ''IntegrityStatus'' (integrity_value (in_condition r)), strings (in_reason_codes r)]])"

text \<open>\<open>_TRUSTED_FINGERPRINTS\<close>: for a result's identity, the identity of its context, the fingerprint at
  minting time and whether it was \<open>VALID\<close>.\<close>

type_synonym trusted = "nat \<Rightarrow> (nat \<times> pyval \<times> bool) option"

definition enroll :: "nat \<Rightarrow> nat \<Rightarrow> string \<Rightarrow> bool \<Rightarrow> ingestion_result \<Rightarrow> trusted \<Rightarrow> ingestion_result \<times> trusted" where
  "enroll cid rid ch ok r tab = (r, tab(rid \<mapsto> (cid, result_fingerprint ch r, ok)))"

definition failure_receipt :: "string \<Rightarrow> string \<Rightarrow> string list \<Rightarrow> ingestion_receipt" where
  "failure_receipt ch ph reasons = \<lparr>ir_context_hash = ch, ir_profile_hash = ph, ir_bundle_hash = None,
     ir_raw_content_hashes = [], ir_provenance_hashes = [], ir_observations = [], ir_freshness = [],
     ir_machine_verified_artifact_ids = [], ir_human_open_artifact_ids = [], ir_human_open_reasons = [],
     ir_missing_verifier_ids = [], ir_reason_codes = sorted_set reasons, ir_receipt_hash = []\<rparr>"

definition mint_failure ::
  "nat \<Rightarrow> nat \<Rightarrow> ingestion_context \<Rightarrow> string list \<Rightarrow> trusted \<Rightarrow> (ingestion_result \<times> trusted) res" where
  "mint_failure cid rid c reasons tab =
     ebind (context_hash c) (\<lambda>ch.
     ebind (ingestion_profile_hash (ic_profile c)) (\<lambda>ph.
     ebind (mint_receipt (failure_receipt ch ph reasons)) (\<lambda>receipt.
     ebind (condition_for_ingestion_reasons reasons) (\<lambda>condition.
     ebind (mint_result None receipt condition reasons) (\<lambda>r. Inr (enroll cid rid ch False r tab))))))"

section \<open>Ingestion\<close>

definition gate_reasons :: "ingestion_context \<Rightarrow> string \<Rightarrow> string \<Rightarrow> string list" where
  "gate_reasons c ch csh =
     reason_if (\<not> py_eq (vp_acceptance_contract_hash (ic_plan c)) (PStr ch)) ''CROSS_BOUND:acceptance_contract'' @
     reason_if (\<not> py_eq (vp_change_set_hash (ic_plan c)) (PStr csh)) ''CROSS_BOUND:changeset''"

text \<open>The checks on profile and requirements repeated inside \<open>try\<close> blocks, and on the requirements as a
  whole.\<close>

definition valid_requirements :: "ingestion_context \<Rightarrow> evidence_requirement list" where
  "valid_requirements c = filter (\<lambda>r. requirement_post_init r = Inr ()) (ic_requirements c)"

definition requirement_reasons :: "ingestion_context \<Rightarrow> string list" where
  "requirement_reasons c =
     (let rs = valid_requirements c; n = length rs in
      reason_if (profile_revalidated (ic_profile c) \<noteq> Inr ()) ''MALFORMED:profile'' @
      map (\<lambda>_. ''MALFORMED:requirement'') (filter (\<lambda>r. requirement_post_init r \<noteq> Inr ()) (ic_requirements c)) @
      reason_if (length (requirement_table rs) \<noteq> n) ''DUPLICATE:verifier'' @
      reason_if (\<not> distinct (map er_verifier_id rs)) ''DUPLICATE:verifier'' @
      reason_if (\<not> distinct (map er_artifact_id rs)) ''DUPLICATE:artifact'' @
      reason_if (list_ex (\<lambda>r. \<not> List.member (strs (ac_required_verifier_ids (ic_contract c))) (er_verifier_id r)) rs)
        ''MALFORMED:requirement'')"

text \<open>Verifiers that are required and not submitted; a requirement of such a verifier names it again.\<close>

definition unsubmitted :: "ingestion_context \<Rightarrow> progress \<Rightarrow> string list" where
  "unsubmitted c st = sort (filter (\<lambda>v. \<not> List.member (pr_submitted st) v)
     (remdups (strs (ac_required_verifier_ids (ic_contract c)) @ strs (vp_required_verifier_ids (ic_plan c)))))"

definition missing_verifiers :: "ingestion_context \<Rightarrow> progress \<Rightarrow> string list" where
  "missing_verifiers c st = unsubmitted c st @
     filter (\<lambda>v. \<not> List.member (pr_submitted st) v) (map (\<lambda>((v, _), _). v) (requirement_table (valid_requirements c)))"

definition final_reasons :: "ingestion_context \<Rightarrow> string \<Rightarrow> progress \<Rightarrow> string list" where
  "final_reasons c ph st = sorted_set
     (if profile_revalidated (ic_profile c) \<noteq> Inr () then [''MALFORMED:profile'']
      else if length (valid_requirements c) \<noteq> length (ic_requirements c) then [''MALFORMED:requirement'']
      else pr_reasons st @ map (\<lambda>_. ''MISSING:required_verifier'') (unsubmitted c st) @
        reason_if (ic_expected_profile_hash c \<noteq> ph) ''MALFORMED:profile'' @
        reason_if (parse_time (ic_observed_at c) = None) ''MALFORMED:timestamp'')"

definition ingested_bundle ::
  "ingestion_context \<Rightarrow> string \<Rightarrow> string \<Rightarrow> string list \<Rightarrow> observation list \<Rightarrow> evidence_bundle option res" where
  "ingested_bundle c ch csh reasons obs =
     (if reasons = [] \<and> length obs = length (ic_requirements c) \<and>
         length (remdups (map obs_key obs)) = length (ic_requirements c)
      then ebind (plan_hash (ic_plan c)) (\<lambda>plh.
           ebind (EvidenceBundle (PStr ''ingested'') (PStr ch) (PStr csh) (PStr plh)
             (Some (map Obj (sort_key obs_key obs))) PNone) (\<lambda>b. Inr (Some b)))
      else Inr None)"

text \<open>\<open>it\<close> is the iteration order of the set of freshness pairs, which the sort by artifact keeps among
  equal artifacts.\<close>

definition ingested_receipt ::
  "((string \<times> freshness_status) list \<Rightarrow> (string \<times> freshness_status) list) \<Rightarrow> ingestion_context \<Rightarrow> string \<Rightarrow> string \<Rightarrow>
   string option \<Rightarrow> string list \<Rightarrow> progress \<Rightarrow> ingestion_receipt" where
  "ingested_receipt it c ch ph bh reasons st = \<lparr>ir_context_hash = ch, ir_profile_hash = ph, ir_bundle_hash = bh,
     ir_raw_content_hashes = sorted_set (pr_raw_hashes st), ir_provenance_hashes = sorted_set (pr_provenance_hashes st),
     ir_observations = sort_key obs_key (pr_observations st), ir_freshness = sort_key fst (it (remdups (pr_freshness st))),
     ir_machine_verified_artifact_ids = sorted_set (pr_machine st), ir_human_open_artifact_ids = sorted_set (pr_human st),
     ir_human_open_reasons = sorted_set (pr_human_reasons st), ir_missing_verifier_ids = sorted_set (missing_verifiers c st),
     ir_reason_codes = reasons, ir_receipt_hash = []\<rparr>"

definition ingest_gated ::
  "((string \<times> freshness_status) list \<Rightarrow> (string \<times> freshness_status) list) \<Rightarrow> nat \<Rightarrow> nat \<Rightarrow> ingestion_context \<Rightarrow>
   string \<Rightarrow> string \<Rightarrow> submission list \<Rightarrow> trusted \<Rightarrow> (ingestion_result \<times> trusted) res" where
  "ingest_gated it cid rid c ach csh submissions tab =
     ebind (submissions_loop c csh (requirement_table (valid_requirements c)) submissions (no_progress (requirement_reasons c))) (\<lambda>st.
     ebind (ingestion_profile_hash (ic_profile c)) (\<lambda>ph.
     let reasons = final_reasons c ph st in
     ebind (condition_for_ingestion_reasons reasons) (\<lambda>condition.
     ebind (ingested_bundle c ach csh reasons (pr_observations st)) (\<lambda>bundle.
     ebind (context_hash c) (\<lambda>ch.
     ebind (case bundle of None \<Rightarrow> Inr None | Some b \<Rightarrow> ebind (bundle_hash b) (\<lambda>h. Inr (Some h))) (\<lambda>bh.
     ebind (mint_receipt (ingested_receipt it c ch ph bh reasons st)) (\<lambda>receipt.
     ebind (mint_result bundle receipt condition reasons) (\<lambda>r.
       Inr (enroll cid rid ch (condition = VALID) r tab)))))))))"

definition ingest_evidence ::
  "((string \<times> freshness_status) list \<Rightarrow> (string \<times> freshness_status) list) \<Rightarrow> nat \<Rightarrow> nat \<Rightarrow> ingestion_context \<Rightarrow>
   submission list \<Rightarrow> trusted \<Rightarrow> (ingestion_result \<times> trusted) res" where
  "ingest_evidence it cid rid c submissions tab =
     eseq (guard (length submissions \<le> MAX_COLLECTION_ITEMS) ValueErr ''submissions exceed maximum size'')
    (eseq (revalidate_context c)
    (ebind (contract_hash (ic_contract c)) (\<lambda>ach.
     ebind (change_set_hash (ic_change_set c)) (\<lambda>csh.
       let gate = gate_reasons c ach csh in
       if gate \<noteq> [] then mint_failure cid rid c (sort gate) tab
       else ingest_gated it cid rid c ach csh submissions tab))))"

section \<open>Trusting a result\<close>

definition recomputed_bundle_ok :: "ingestion_context \<Rightarrow> ingestion_result \<Rightarrow> bool res" where
  "recomputed_bundle_ok c r =
     (case in_bundle r of
        None \<Rightarrow> Inr False
      | Some b \<Rightarrow> ebind (bundle_hash b) (\<lambda>bh.
          if ir_bundle_hash (in_receipt r) \<noteq> Some bh then Inr False
          else ebind (bundle_integrity b (ic_contract c) (ic_change_set c) (ic_plan c)) (\<lambda>st.
            Inr (st = VALID \<and> in_reason_codes r = []))))"

definition is_trusted_ingestion_result :: "nat \<Rightarrow> ingestion_context \<Rightarrow> trusted \<Rightarrow> nat \<Rightarrow> ingestion_result \<Rightarrow> bool res" where
  "is_trusted_ingestion_result cid c tab rid r =
     ebind (validate_context_nested c) (\<lambda>ok.
       if \<not> ok then Inr False
       else (case tab rid of
           None \<Rightarrow> Inr False
         | Some (cid', fingerprint, valid) \<Rightarrow>
             if cid' \<noteq> cid then Inr False
             else if \<not> valid then Inr False
             else ebind (context_hash c) (\<lambda>ch.
               if result_fingerprint ch r \<noteq> fingerprint then Inr False
               else ebind (computed_receipt_hash (in_receipt r)) (\<lambda>h.
                 if h \<noteq> ir_receipt_hash (in_receipt r) \<or> ir_context_hash (in_receipt r) \<noteq> ch then Inr False
                 else if in_condition r = VALID then recomputed_bundle_ok c r else Inr False))))"

definition classify_ingestion_result :: "nat \<Rightarrow> ingestion_context \<Rightarrow> trusted \<Rightarrow> nat \<Rightarrow> ingestion_result \<Rightarrow> ingestion_trust res" where
  "classify_ingestion_result cid c tab rid r =
     (case tab rid of
        None \<Rightarrow> Inr IT_UNTRUSTED
      | Some (cid', _, valid) \<Rightarrow>
          if cid' \<noteq> cid \<or> \<not> valid then Inr IT_UNTRUSTED
          else ebind (validate_context_nested c) (\<lambda>ok.
            if \<not> ok then Inr IT_RECEIPT_INVALID
            else ebind (is_trusted_ingestion_result cid c tab rid r) (\<lambda>t.
              Inr (if t then IT_TRUSTED else IT_RECEIPT_INVALID))))"

end
