(* ===== verification/Ingestion_Properties.thy ===== *)
theory Ingestion_Properties
  imports Ingestion
begin

text \<open>
  Lemmas on trusted ingestion: every hash it takes exists, a loop over the submissions stays clean exactly
  when each submission meets its requirement, and the result that is minted is well formed.
\<close>

section \<open>Hashes exist\<close>

text \<open>Values that become canonical text after \<open>canon\<close>: no float, dictionary or object inside.\<close>

fun plain_value :: "pyval \<Rightarrow> bool" where
  "plain_value (PTuple xs) = list_all plain_value xs"
| "plain_value (PList xs) = list_all plain_value xs"
| "plain_value (PFloat f) = False"
| "plain_value (PDict d) = False"
| "plain_value (PObject c) = False"
| "plain_value v = True"

lemma plain_clean: "plain_value v \<Longrightarrow> \<exists>w. clean (canon v) = Inr w"
proof (induction v rule: plain_value.induct)
  case (1 xs)
  then have "\<forall>x \<in> set (map canon xs). \<exists>w. clean x = Inr w" by (auto simp: list_all_iff)
  then show ?case using emap_clean_total by fastforce
next
  case (2 xs)
  then have "\<forall>x \<in> set (map canon xs). \<exists>w. clean x = Inr w" by (auto simp: list_all_iff)
  then show ?case using emap_clean_total by fastforce
qed simp_all

lemma plain_hash: "plain_value v \<Longrightarrow> \<exists>h. hash_value (canon v) = Inr h \<and> is_sha256 h"
  using plain_clean hash_value_ok by blast

lemma plain_hash_exists: "plain_value v \<Longrightarrow> \<exists>h. hash_value (canon v) = Inr h"
  using plain_hash by blast

lemma plain_texts [simp]: "plain_value (strings ss)" "plain_value (opt_value o')" "plain_value (PTuple (map PStr ss))" "plain_value (role_enum r)"
  "plain_value (status_enum b)" "plain_value (generation_enum g)"
  by (simp_all add: strings_def opt_value_def list_all_iff role_enum_def status_enum_def generation_enum_def split: option.split)

lemma provenance_hash_total: "\<exists>h. provenance_hash p = Inr h \<and> is_sha256 h"
  unfolding provenance_hash_def
  by (rule plain_hash) (simp add: provenance_fields_def runtime_fields_def split: option.split)

lemma requirement_hash_total: "\<exists>h. requirement_hash r = Inr h"
  unfolding requirement_hash_def by (rule plain_hash_exists) simp

lemma canon_clean_list: "\<forall>x \<in> set xs. \<exists>v. plain_value v \<and> f x = canon v \<Longrightarrow> \<exists>w. clean (PTuple (map f xs)) = Inr w"
proof -
  assume "\<forall>x \<in> set xs. \<exists>v. plain_value v \<and> f x = canon v"
  then have "\<forall>x \<in> set (map f xs). \<exists>w. clean x = Inr w" using plain_clean by fastforce
  then show ?thesis using emap_clean_total by fastforce
qed

lemma producer_canon_plain: "\<exists>v. plain_value v \<and> producer_canon g = canon v"
  unfolding producer_canon_def by (rule exI, rule conjI [OF _ refl]) simp

lemma issuer_canon_plain: "\<exists>v. plain_value v \<and> issuer_canon g = canon v"
  unfolding issuer_canon_def by (rule exI, rule conjI [OF _ refl]) (simp add: list_all_iff)

lemma ingestion_profile_hash_total: "\<exists>h. ingestion_profile_hash p = Inr h \<and> is_sha256 h"
proof -
  obtain u v where "clean (PTuple (map producer_canon (sort_key producer_key (ip_producers p)))) = Inr u"
    "clean (PTuple (map issuer_canon (sort_key issuer_key (ip_issuers p)))) = Inr v"
    using canon_clean_list [of _ producer_canon] canon_clean_list [of _ issuer_canon] producer_canon_plain issuer_canon_plain by meson
  then show ?thesis unfolding ingestion_profile_hash_def by (intro hash_value_ok) auto
qed

text \<open>The subjects of a context that passed its checks.\<close>

lemma post_init_iff: "contract_post_init c = Inr () \<longleftrightarrow> contract_errs c = []"
  "change_set_post_init cs = Inr () \<longleftrightarrow> change_set_errs cs = []" "plan_post_init p = Inr () \<longleftrightarrow> plan_errs p = []"
  by (cases c; cases cs; cases p; simp add: contract_post_init_def change_set_post_init_def plan_post_init_def ebind_Inr_iff
      AcceptanceContract_Inr ChangeSet_Inr VerificationPlan_Inr)+

lemma contract_plain: "contract_errs c = [] \<Longrightarrow> plain_value (ac_contract_id c) \<and> plain_value (ac_requirements_hash c) \<and>
    plain_value (ac_required_verifier_ids c) \<and> plain_value (ac_allowed_paths c) \<and> plain_value (ac_deletion_policy c)"
  by (auto simp: contract_errs_Nil list_all_iff)

lemma change_set_plain: "change_set_errs cs = [] \<Longrightarrow> plain_value (cs_change_set_id cs) \<and> plain_value (cs_source_revision cs) \<and>
    plain_value (cs_target_revision cs) \<and> plain_value (cs_diff_hash cs) \<and> plain_value (cs_paths cs)"
  by (auto simp: change_set_errs_Nil list_all_iff)

lemma plan_plain: "plan_errs p = [] \<Longrightarrow> plain_value (vp_plan_id p) \<and> plain_value (vp_acceptance_contract_hash p) \<and>
    plain_value (vp_change_set_hash p) \<and> plain_value (vp_required_verifier_ids p)"
  by (auto simp: plan_errs_Nil list_all_iff)

definition subjects_ok :: "ingestion_context \<Rightarrow> bool" where
  "subjects_ok c \<longleftrightarrow> contract_errs (ic_contract c) = [] \<and> change_set_errs (ic_change_set c) = [] \<and> plan_errs (ic_plan c) = []"

lemma emap_exists: "(\<And>x. \<exists>y. f x = Inr y) \<Longrightarrow> \<exists>ys. emap f xs = Inr ys"
  by (induction xs) (auto, metis ebind_simps(1))

lemma context_hash_total: "subjects_ok c \<Longrightarrow> \<exists>h. context_hash c = Inr h \<and> is_sha256 h"
proof -
  assume s: "subjects_ok c"
  obtain ph where ph: "ingestion_profile_hash (ic_profile c) = Inr ph" using ingestion_profile_hash_total by blast
  obtain rhs where rhs: "emap requirement_hash (ic_requirements c) = Inr rhs"
    using emap_exists requirement_hash_total by blast
  have "plain_value (PTuple (map (\<lambda>(r, h). PTuple [role_enum r, PStr h]) qs))" for qs :: "(trust_role \<times> string) list"
    by (induction qs) auto
  moreover have "plain_value (ac_contract_id (ic_contract c))" "plain_value (ac_requirements_hash (ic_contract c))"
    "plain_value (ac_required_verifier_ids (ic_contract c))" "plain_value (ac_allowed_paths (ic_contract c))"
    "plain_value (ac_deletion_policy (ic_contract c))"
    "plain_value (cs_change_set_id (ic_change_set c))" "plain_value (cs_source_revision (ic_change_set c))"
    "plain_value (cs_target_revision (ic_change_set c))" "plain_value (cs_diff_hash (ic_change_set c))" "plain_value (cs_paths (ic_change_set c))"
    "plain_value (vp_plan_id (ic_plan c))" "plain_value (vp_acceptance_contract_hash (ic_plan c))"
    "plain_value (vp_change_set_hash (ic_plan c))" "plain_value (vp_required_verifier_ids (ic_plan c))"
    using s contract_plain change_set_plain plan_plain unfolding subjects_ok_def by blast+
  ultimately show ?thesis
    unfolding context_hash_def ph rhs ebind_simps
    by (intro plain_hash) (simp only: plain_value.simps list.pred_inject plain_texts simp_thms)
qed

lemma wf_observation_plain: "wf_observation x \<Longrightarrow> plain_value (observation_fields x)"
  by (auto simp: wf_observation_def observation_fields_def is_observation_status_def)

lemma receipt_hash_total:
  assumes "\<forall>x \<in> set (ir_observations r). wf_observation x"
  shows "\<exists>h. computed_receipt_hash r = Inr h \<and> is_sha256 h"
  unfolding computed_receipt_hash_def
  by (rule plain_hash) (use assms wf_observation_plain in \<open>auto simp: ingested_fields_def list_all_iff\<close>)

section \<open>Checks\<close>

lemma is_sha256_text: "is_sha256 h \<Longrightarrow> text_bounded h n = Inr ()"
  using is_sha256_normalized by (auto simp: text_bounded_def is_sha256_def MAX_TEXT_LENGTH_def)

lemma hash_text_iff: "hash_text h n = Inr () \<longleftrightarrow> is_sha256 h"
  using is_sha256_text by (auto simp: hash_text_def eseq_Inr_iff guard_Inr_iff)

lemma text_bounded_iff: "text_bounded v n = Inr () \<longleftrightarrow> normalized v \<and> length v \<le> 4096"
  by (simp add: text_bounded_def eseq_Inr_iff guard_Inr_iff MAX_TEXT_LENGTH_def)

lemma mint_receipt_total:
  assumes "\<forall>x \<in> set (ir_observations r). wf_observation x" "is_sha256 (ir_context_hash r)" "is_sha256 (ir_profile_hash r)"
    "\<And>h. ir_bundle_hash r = Some h \<Longrightarrow> is_sha256 h" "sorted (map fst (ir_freshness r))"
  shows "\<exists>h. mint_receipt r = Inr (r\<lparr>ir_receipt_hash := h\<rparr>) \<and> computed_receipt_hash r = Inr h"
proof -
  obtain h where h: "computed_receipt_hash r = Inr h" "is_sha256 h" using receipt_hash_total [OF assms(1)] by blast
  moreover have "computed_receipt_hash (r\<lparr>ir_receipt_hash := h\<rparr>) = computed_receipt_hash r"
    by (simp add: computed_receipt_hash_def ingested_fields_def)
  ultimately have "ingestion_receipt_post_init (r\<lparr>ir_receipt_hash := h\<rparr>) = Inr ()"
    using assms(2-5) by (auto simp: ingestion_receipt_post_init_def hash_text_iff eseq_Inr_iff split: option.split)
  then show ?thesis using h by (simp add: mint_receipt_def)
qed

lemma mint_result_iff:
  assumes "bundle = None \<and> bh = None \<or> (\<exists>b h. bundle = Some b \<and> bundle_hash b = Inr h \<and> bh = Some h)"
    and "ir_bundle_hash receipt = bh"
  shows "mint_result bundle receipt condition reasons = Inr r \<longleftrightarrow>
    (condition = VALID \<longrightarrow> reasons = []) \<and> (condition = VALID \<longleftrightarrow> bundle \<noteq> None) \<and>
    r = \<lparr>in_bundle = bundle, in_receipt = receipt, in_condition = condition, in_reason_codes = reasons\<rparr>"
  using assms
  by (auto simp: mint_result_def ingestion_result_post_init_def eseq_Inr_iff guard_Inr_iff ebind_Inr_iff Let_def)

section \<open>Freshness\<close>

lemma ready_iff:
  "derive_runtime_freshness r t = FS_READY_IDENTITY_BOUND \<longleftrightarrow>
     (\<exists>now at expiry i. parse_time t = Some now \<and> parse_time (ro_observed_at r) = Some at \<and> parse_time (ro_expires_at r) = Some expiry \<and>
       at \<le> now \<and> now \<le> expiry \<and> ro_observed_generation r = ro_desired_generation r \<and> ro_generation r \<noteq> EG_SOURCE \<and>
       valid_revision (ro_desired_source_revision r) \<and> ro_loaded_source_revision r = ro_desired_source_revision r \<and>
       ro_expected_runtime_identity r = Some i \<and> i \<noteq> [] \<and> ro_observed_runtime_identity r = Some i \<and>
       ro_readiness_status r = Some ''READY'')"
  by (auto simp: derive_runtime_freshness_def given_def not_less split: option.splits if_splits)

lemma aligned_iff:
  "derive_runtime_freshness r t = FS_SOURCE_ALIGNED \<longleftrightarrow>
     (\<exists>now at expiry. parse_time t = Some now \<and> parse_time (ro_observed_at r) = Some at \<and> parse_time (ro_expires_at r) = Some expiry \<and>
       at \<le> now \<and> now \<le> expiry \<and> ro_observed_generation r = ro_desired_generation r \<and> ro_generation r = EG_SOURCE \<and>
       valid_revision (ro_desired_source_revision r) \<and> ro_loaded_source_revision r = ro_desired_source_revision r \<and>
       ro_expected_runtime_identity r = None \<and> ro_observed_runtime_identity r = None \<and> ro_readiness_status r = None)"
  by (auto simp: derive_runtime_freshness_def valid_revision_def not_less split: option.splits if_splits)

text \<open>\<open>FS_CONVERGENCE_UNKNOWN\<close> with readable times and revisions, outside the source generation.\<close>

lemma unknown_cases:
  assumes "derive_runtime_freshness r t = FS_CONVERGENCE_UNKNOWN" "parse_time t \<noteq> None"
    "parse_time (ro_observed_at r) \<noteq> None" "parse_time (ro_expires_at r) \<noteq> None"
    "valid_revision (ro_desired_source_revision r)" "valid_revision (ro_loaded_source_revision r)"
  shows "ro_generation r = EG_SOURCE \<or> \<not> given (ro_expected_runtime_identity r) \<or> \<not> given (ro_observed_runtime_identity r) \<or>
    ro_readiness_status r \<noteq> Some ''READY''"
  using assms by (auto simp: derive_runtime_freshness_def split: if_splits)

lemma reason_if_Nil [simp]: "reason_if b r = [] \<longleftrightarrow> \<not> b" "reason_if False r = []" "reason_if True r = [r]"
  by (simp_all add: reason_if_def)

definition runtime_ok :: "ingestion_context \<Rightarrow> evidence_requirement \<Rightarrow> provenance \<Rightarrow> bool" where
  "runtime_ok c req p \<longleftrightarrow> (case pv_runtime p of
     None \<Rightarrow> pv_generation p \<noteq> EG_RUNTIME \<and> \<not> er_runtime_ready_required req
   | Some r \<Rightarrow> (let f = derive_runtime_freshness r (ic_observed_at c) in
       pv_generation p = EG_SOURCE \<and> f = FS_SOURCE_ALIGNED \<and> \<not> er_runtime_ready_required req \<or>
       pv_generation p = EG_RUNTIME \<and> f = FS_READY_IDENTITY_BOUND))"

text \<open>What the binding checks of a source provenance say about its runtime observation.\<close>

definition source_runtime :: "provenance \<Rightarrow> bool" where
  "source_runtime p \<longleftrightarrow> (case pv_runtime p of None \<Rightarrow> True
   | Some r \<Rightarrow> pv_generation p \<noteq> EG_EXECUTION \<and> (pv_generation p = EG_SOURCE \<longrightarrow> ro_generation r = EG_SOURCE \<and>
       ro_expected_runtime_identity r = None \<and> ro_observed_runtime_identity r = None \<and> ro_readiness_status r = None))"

lemma observed_reasons_Nil:
  assumes now: "parse_time (ic_observed_at c) \<noteq> None" and p: "pv_runtime p = Some r" "pv_generation p \<noteq> EG_LEGACY_NARRATIVE"
    and src: "source_runtime p" "pv_generation p = EG_RUNTIME \<longrightarrow> ro_generation r \<noteq> EG_SOURCE"
    and nil: "observed_runtime_reasons req p r (derive_runtime_freshness r (ic_observed_at c)) = []"
  shows "runtime_ok c req p"
proof -
  let ?f = "derive_runtime_freshness r (ic_observed_at c)"
  have gen: "pv_generation p = EG_SOURCE \<or> pv_generation p = EG_RUNTIME"
    using p src(1) by (cases "pv_generation p") (auto simp: source_runtime_def)
  have rev: "valid_revision (ro_desired_source_revision r)" "valid_revision (ro_loaded_source_revision r)"
    and times: "parse_time (ro_observed_at r) \<noteq> None" "parse_time (ro_expires_at r) \<noteq> None"
    and ready: "pv_generation p = EG_SOURCE \<longrightarrow> \<not> er_runtime_ready_required req"
    using nil by (auto simp: observed_runtime_reasons_def Let_def)
  show ?thesis
  proof (cases ?f)
    case FS_SOURCE_ALIGNED
    then show ?thesis using gen ready src(2) p(1) unfolding runtime_ok_def by (auto simp: Let_def aligned_iff)
  next
    case FS_READY_IDENTITY_BOUND
    then show ?thesis using gen src(1) p(1) unfolding runtime_ok_def source_runtime_def by (auto simp: Let_def ready_iff)
  next
    case FS_CONVERGENCE_UNKNOWN
    then have "given (ro_expected_runtime_identity r) \<and> given (ro_observed_runtime_identity r) \<and> ro_readiness_status r = Some ''READY''"
      using nil rev times by (auto simp: observed_runtime_reasons_def Let_def split: if_splits)
    then have "ro_generation r = EG_SOURCE" using unknown_cases [OF FS_CONVERGENCE_UNKNOWN now times rev] by blast
    then have "ro_expected_runtime_identity r = None" using gen src p(1) by (auto simp: source_runtime_def)
    then show ?thesis using \<open>given _ \<and> _\<close> by (simp add: given_def)
  qed (use nil in \<open>simp_all add: observed_runtime_reasons_def Let_def\<close>)
qed

lemma runtime_reasons_Nil:
  assumes "parse_time (ic_observed_at c) \<noteq> None" "pv_generation p \<noteq> EG_LEGACY_NARRATIVE"
  shows "source_runtime p \<and> runtime_reasons c req p = [] \<longleftrightarrow> runtime_ok c req p"
proof (cases "pv_runtime p")
  case None
  then show ?thesis by (auto simp: source_runtime_def runtime_reasons_def runtime_ok_def)
next
  case (Some r)
  show ?thesis
  proof
    assume "source_runtime p \<and> runtime_reasons c req p = []"
    then show "runtime_ok c req p" using observed_reasons_Nil [OF assms(1) Some assms(2)] by (auto simp: runtime_reasons_def Some)
  next
    assume ok: "runtime_ok c req p"
    then consider "pv_generation p = EG_SOURCE" "derive_runtime_freshness r (ic_observed_at c) = FS_SOURCE_ALIGNED"
        "\<not> er_runtime_ready_required req"
      | "pv_generation p = EG_RUNTIME" "derive_runtime_freshness r (ic_observed_at c) = FS_READY_IDENTITY_BOUND"
      by (auto simp: runtime_ok_def Some Let_def)
    then show "source_runtime p \<and> runtime_reasons c req p = []"
    proof cases
      case 1
      then show ?thesis using 1(2) [unfolded aligned_iff]
        by (auto simp: source_runtime_def runtime_reasons_def observed_runtime_reasons_def Some Let_def given_def)
    next
      case 2
      then show ?thesis using 2(2) [unfolded ready_iff]
        by (auto simp: source_runtime_def runtime_reasons_def observed_runtime_reasons_def Some Let_def given_def)
    qed
  qed
qed

section \<open>A submission that meets its requirement\<close>

definition constructed :: "submission \<Rightarrow> bool" where
  "constructed s \<longleftrightarrow> provenance_post_init (sb_provenance s) = Inr ()"

definition granted :: "ingestion_context \<Rightarrow> provenance \<Rightarrow> bool" where
  "granted c p \<longleftrightarrow> (case find_producer c p of None \<Rightarrow> False
   | Some g \<Rightarrow> pv_producer_role p = pg_role g \<and> pv_producer_software_hash p = pg_software_hash g \<and>
       List.member (pg_verification_methods g) (pv_verification_method p))"

definition recent :: "ingestion_context \<Rightarrow> provenance \<Rightarrow> bool" where
  "recent c p \<longleftrightarrow> (case (parse_time (pv_generated_at p), parse_time (ic_observed_at c)) of
     (Some made, Some now) \<Rightarrow> made \<le> now \<and> int now - int made \<le> ip_max_age_seconds (ic_profile c) * 1000000
   | _ \<Rightarrow> False)"

text \<open>The submission is the one the requirement describes: the same content, provenance and status, from a
  granted producer, for the context's repository, trees, commits and change set, in the required
  execution, recent, and with the runtime evidence its generation asks for.\<close>

definition meets :: "ingestion_context \<Rightarrow> evidence_requirement \<Rightarrow> submission \<Rightarrow> bool" where
  "meets c req s \<longleftrightarrow> (let p = sb_provenance s; cs = ic_change_set c in
     pv_schema p = PROVENANCE_ENVELOPE_SCHEMA \<and> pv_verifier_id p = er_verifier_id req \<and> pv_artifact_id p = er_artifact_id req \<and>
     sb_status s = er_expected_status req \<and> sha_text (sb_content s) = er_content_hash req \<and> pv_content_hash p = er_content_hash req \<and>
     provenance_hash p = Inr (er_provenance_hash req) \<and> pv_evidence_type p = er_evidence_type req \<and>
     pv_generation p = er_generation req \<and> pv_generation p \<noteq> EG_LEGACY_NARRATIVE \<and>
     pv_producer_id p = er_producer_id req \<and> granted c p \<and> pv_repository_id p = ic_repository_id c \<and>
     pv_source_tree p = ic_source_tree c \<and> pv_target_tree p = ic_target_tree c \<and>
     cs_source_revision cs = PStr (pv_source_revision p) \<and> cs_target_revision cs = PStr (pv_target_revision p) \<and>
     change_set_hash cs = Inr (pv_change_set_hash p) \<and> cs_diff_hash cs = PStr (pv_diff_hash p) \<and>
     pv_execution_id p = er_execution_id req \<and> pv_attempt_id p = er_attempt_id req \<and> pv_environment_hash p = er_environment_hash req \<and>
     recent c p \<and> runtime_ok c req p)"

lemma normalized_valid: "normalized v \<Longrightarrow> length v \<le> 4096 \<Longrightarrow> valid_revision v"
  by (auto simp: normalized_def valid_revision_def MAX_TEXT_LENGTH_def)

lemma constructed_parts:
  assumes "constructed s"
  shows "valid_revision (pv_source_revision (sb_provenance s))" "valid_revision (pv_target_revision (sb_provenance s))"
    "normalized (pv_source_locator (sb_provenance s))" "normalized (pv_verifier_id (sb_provenance s))"
    "normalized (pv_artifact_id (sb_provenance s))"
  using assms unfolding constructed_def
  by (auto simp: provenance_post_init_def eseq_Inr_iff efor_Inr_iff text_bounded_iff intro: normalized_valid)

lemma envelope_reasons_Nil:
  "constructed s \<Longrightarrow> envelope_reasons (sb_provenance s) raw = [] \<longleftrightarrow>
     pv_schema (sb_provenance s) = PROVENANCE_ENVELOPE_SCHEMA \<and> raw = pv_content_hash (sb_provenance s)"
  using constructed_parts [of s] by (auto simp: envelope_reasons_def normalized_def)

lemma binding_reasons_Nil:
  assumes "constructed s" "cs_source_revision (ic_change_set c) = PStr a" "cs_target_revision (ic_change_set c) = PStr b"
    "cs_diff_hash (ic_change_set c) = PStr d"
  shows "binding_reasons c csh req s raw ph = [] \<longleftrightarrow> (let p = sb_provenance s in
     er_content_hash req = pv_content_hash p \<and> er_content_hash req = raw \<and> sb_status s = er_expected_status req \<and>
     er_provenance_hash req = ph \<and> pv_artifact_id p = er_artifact_id req \<and> pv_evidence_type p = er_evidence_type req \<and>
     pv_generation p = er_generation req \<and> (pv_generation p \<noteq> EG_EXECUTION \<longrightarrow> source_runtime p) \<and>
     pv_producer_id p = er_producer_id req \<and> granted c p \<and> pv_repository_id p = ic_repository_id c \<and>
     pv_source_tree p = ic_source_tree c \<and> pv_target_tree p = ic_target_tree c \<and> a = pv_source_revision p \<and> b = pv_target_revision p \<and>
     pv_change_set_hash p = csh \<and> d = pv_diff_hash p \<and> pv_execution_id p = er_execution_id req \<and>
     pv_attempt_id p = er_attempt_id req \<and> pv_environment_hash p = er_environment_hash req \<and> pv_generation p \<noteq> EG_LEGACY_NARRATIVE)"
  using constructed_parts(1,2) [OF assms(1)]
  by (auto simp: binding_reasons_def Let_def status_mismatch_def granted_def source_runtime_def assms split: option.split)

lemma time_reasons_Nil: "parse_time (ic_observed_at c) \<noteq> None \<Longrightarrow> time_reasons c p = [] \<longleftrightarrow> recent c p"
  by (auto simp: time_reasons_def recent_def not_less split: option.split)

text \<open>The reasons of one submission are empty exactly when it meets the requirement it was matched with.\<close>

lemma local_clean:
  assumes s: "constructed s" and cs: "change_set_errs (ic_change_set c) = []" "change_set_hash (ic_change_set c) = Inr csh"
    and now: "parse_time (ic_observed_at c) \<noteq> None" and v: "pv_verifier_id (sb_provenance s) = er_verifier_id req"
    and ph: "provenance_hash (sb_provenance s) = Inr ph" and raw: "raw = sha_text (sb_content s)"
  shows "(envelope_reasons (sb_provenance s) raw = [] \<and> binding_reasons c csh req s raw ph = [] \<and>
     \<not> (pv_generation (sb_provenance s) = EG_EXECUTION \<and> pv_runtime (sb_provenance s) \<noteq> None) \<and>
     runtime_reasons c req (sb_provenance s) = [] \<and> time_reasons c (sb_provenance s) = []) \<longleftrightarrow> meets c req s"
proof -
  let ?p = "sb_provenance s"
  obtain a b d where strs: "cs_source_revision (ic_change_set c) = PStr a" "cs_target_revision (ic_change_set c) = PStr b"
    "cs_diff_hash (ic_change_set c) = PStr d" using cs(1) by (auto simp: change_set_errs_Nil)
  have src: "source_runtime ?p \<longleftrightarrow> (pv_generation ?p \<noteq> EG_EXECUTION \<longrightarrow> source_runtime ?p) \<and>
      \<not> (pv_generation ?p = EG_EXECUTION \<and> pv_runtime ?p \<noteq> None)"
    by (auto simp: source_runtime_def split: option.split)
  show ?thesis
    using runtime_reasons_Nil [OF now, of ?p req] time_reasons_Nil [OF now, of ?p] src
    unfolding envelope_reasons_Nil [OF s] binding_reasons_Nil [OF s strs] meets_def Let_def ph strs cs(2) raw
    by (auto simp: v)
qed

end
