(* ===== verification/Codec.thy ===== *)
theory Codec
  imports Prelude
begin

text \<open>
  The interface of a serializer and its loader: what a value that serializes loads back as.  The program has
  one for each portable object (snapshots, external receipts, signature payloads, identity envelopes); their
  theories interpret the locales and get that two values with one serialization are the same.
\<close>

locale codec =
  fixes enc :: "'a \<Rightarrow> 'b res" and dec :: "'b \<Rightarrow> 'a res" and good :: "'a \<Rightarrow> bool"
  assumes dec_enc: "good a \<Longrightarrow> enc a = Inr b \<Longrightarrow> dec b = Inr a"
begin

lemma enc_inj: "good a \<Longrightarrow> good a' \<Longrightarrow> enc a = Inr b \<Longrightarrow> enc a' = Inr b \<Longrightarrow> a = a'"
  by (metis dec_enc Inr_inject)

lemma enc_separates: "good a \<Longrightarrow> good a' \<Longrightarrow> a \<noteq> a' \<Longrightarrow> enc a = Inr b \<Longrightarrow> enc a' \<noteq> Inr b"
  using enc_inj by blast

end

text \<open>A loader that only accepts what the serializer writes.\<close>

locale canonical_codec = codec +
  assumes enc_dec: "dec b = Inr a \<Longrightarrow> enc a = Inr b" and dec_good: "dec b = Inr a \<Longrightarrow> good a"
begin

lemma dec_inj: "dec b = Inr a \<Longrightarrow> dec b' = Inr a \<Longrightarrow> b = b'"
  by (metis enc_dec Inr_inject)

lemma dec_iff: "dec b = Inr a \<longleftrightarrow> good a \<and> enc a = Inr b"
  using dec_enc enc_dec dec_good by blast

end

end
