(* ===== verification/External_Trust.thy ===== *)
theory External_Trust
  imports Ingestion_Properties Acquisition_Properties Codec
begin

text \<open>
  External trust in \<open>product/evidence/ingestion.py\<close>: the payload an issuer signs, the durable receipt of a
  signature check, the reference to a trust decision, and the check that binds the three.

  The Ed25519 verifier is a port: a function of issuer, key, algorithm, payload and signature that may answer
  anything or raise; \<open>None\<close> stands for an object without a \<open>verify\<close> method.  Payloads and signatures may be
  values of any type, as the code tests for \<open>bytes\<close>.
\<close>

section \<open>Fields of any type\<close>

definition text_field :: "pyval \<Rightarrow> string \<Rightarrow> unit res" where
  "text_field v name = eseq (guard (is_str v) TypeErr (name @ '' must be a string'')) (text_bounded (str_of v) name)"

definition hash_field :: "pyval \<Rightarrow> string \<Rightarrow> unit res" where
  "hash_field v name = eseq (text_field v name) (hash_text (str_of v) name)"

text \<open>\<open>_raw_hash\<close>: the digest of bytes; anything else is a \<open>TypeError\<close>.\<close>

definition raw_hash :: "pyval \<Rightarrow> string res" where
  "raw_hash v = (case v of PBytes b \<Rightarrow> Inr (sha_text b) | _ \<Rightarrow> Inl (TypeErr, ''object supporting the buffer API required''))"

section \<open>The signed payload\<close>

definition EXTERNAL_SIGNATURE_PAYLOAD_SCHEMA :: string where
  "EXTERNAL_SIGNATURE_PAYLOAD_SCHEMA = ''nexus.external-signature-payload.v1''"

text \<open>The fields in the order of their checks: \<open>True\<close> for a hash.\<close>

definition SIGNED_FIELDS :: "(string \<times> bool) list" where
  "SIGNED_FIELDS = [(''issuer_id'', False), (''key_id'', False), (''evidence_id'', False), (''subject_hash'', True),
     (''action'', False), (''decision'', False), (''external_receipt_hash'', True), (''acquisition_snapshot_hash'', True),
     (''runner_result_hash'', True)]"

definition signed_values :: "(string \<Rightarrow> pyval) \<Rightarrow> (string \<times> pyval) list" where
  "signed_values f = (''schema'', PStr EXTERNAL_SIGNATURE_PAYLOAD_SCHEMA) # map (\<lambda>(k, _). (k, f k)) SIGNED_FIELDS"

definition build_external_signature_payload :: "(string \<Rightarrow> pyval) \<Rightarrow> string res" where
  "build_external_signature_payload f =
     eseq (efor SIGNED_FIELDS (\<lambda>(k, is_hash). if is_hash then hash_field (f k) k else text_field (f k) k))
    (ebind (dumps compact_sorted (mkdict (signed_values f))) (\<lambda>t. Inr (utf8 t)))"

definition parse_external_signature_payload :: "pyval \<Rightarrow> pydict res" where
  "parse_external_signature_payload payload =
     (case payload of
        PBytes b \<Rightarrow>
          ebind (case loads_bytes b of
              Inl (c, m) \<Rightarrow> if c = UnicodeErr \<or> c = JSONDecodeErr then Inl (ValueErr, ''malformed external signature payload'') else Inl (c, m)
            | Inr v \<Rightarrow> Inr v) (\<lambda>v.
          eseq (guard (is_dict v \<and> keys_are (items v) (''schema'' # map fst SIGNED_FIELDS) \<and>
                  py_eq (get (items v) ''schema'') (PStr EXTERNAL_SIGNATURE_PAYLOAD_SCHEMA)) ValueErr
                  ''external signature payload schema mismatch'')
         (ebind (build_external_signature_payload (get (items v))) (\<lambda>canonical.
          eseq (guard (canonical = b) ValueErr ''external signature payload is not canonical'') (Inr (items v)))))
      | _ \<Rightarrow> Inl (ValueErr, ''payload must be bytes''))"

section \<open>The receipt of a signature check\<close>

definition EXTERNAL_VERIFICATION_STATUSES :: "string list" where
  "EXTERNAL_VERIFICATION_STATUSES = [''VERIFIED'', ''INVALID'', ''REVOKED'']"

definition EXTERNAL_RECEIPT_SCHEMA :: string where
  "EXTERNAL_RECEIPT_SCHEMA = ''nexus.external-verification-receipt.v1''"

record external_receipt =
  xr_issuer_id :: string
  xr_algorithm :: string
  xr_key_id :: string
  xr_payload_hash :: string
  xr_signature_hash :: string
  xr_external_receipt_hash :: string
  xr_revoked :: bool
  xr_status :: string
  xr_receipt_hash :: string

definition external_receipt_digest :: "external_receipt \<Rightarrow> string res" where
  "external_receipt_digest r = hash_value (PTuple [PStr EXTERNAL_RECEIPT_SCHEMA, PStr (xr_issuer_id r), PStr (xr_algorithm r),
     PStr (xr_key_id r), PStr (xr_payload_hash r), PStr (xr_signature_hash r), PStr (xr_external_receipt_hash r),
     PBool (xr_revoked r), PStr (xr_status r)])"

text \<open>The fields, and the record they make once they have passed the type tests.\<close>

definition external_receipt_of :: "(string \<Rightarrow> pyval) \<Rightarrow> external_receipt" where
  "external_receipt_of f = \<lparr>xr_issuer_id = str_of (f ''issuer_id''), xr_algorithm = str_of (f ''algorithm''),
     xr_key_id = str_of (f ''key_id''), xr_payload_hash = str_of (f ''payload_hash''), xr_signature_hash = str_of (f ''signature_hash''),
     xr_external_receipt_hash = str_of (f ''external_receipt_hash''), xr_revoked = (f ''revoked'' = PBool True),
     xr_status = str_of (f ''status''), xr_receipt_hash = str_of (f ''receipt_hash'')\<rparr>"

definition ExternalVerificationReceipt :: "(string \<Rightarrow> pyval) \<Rightarrow> external_receipt res" where
  "ExternalVerificationReceipt f =
     (let r = external_receipt_of f in
      eseq (efor [''issuer_id'', ''algorithm'', ''key_id'', ''status''] (\<lambda>k. text_field (f k) k))
     (eseq (guard (xr_algorithm r = ''Ed25519'') ValueErr ''algorithm must be Ed25519'')
     (eseq (efor [''payload_hash'', ''signature_hash'', ''external_receipt_hash'', ''receipt_hash''] (\<lambda>k. hash_field (f k) k))
     (eseq (guard (is_bool (f ''revoked'')) TypeErr ''revoked must be bool'')
     (eseq (guard (List.member EXTERNAL_VERIFICATION_STATUSES (xr_status r)) ValueErr ''invalid external verification status'')
     (eseq (guard (xr_revoked r \<longleftrightarrow> xr_status r = ''REVOKED'') ValueErr ''revoked/status mismatch'')
     (ebind (external_receipt_digest r) (\<lambda>h.
      eseq (guard (h = xr_receipt_hash r) ValueErr ''receipt_hash does not match verification receipt'') (Inr r)))))))))"

definition external_receipt_fields :: "external_receipt \<Rightarrow> (string \<times> pyval) list" where
  "external_receipt_fields r = [(''issuer_id'', PStr (xr_issuer_id r)), (''algorithm'', PStr (xr_algorithm r)),
     (''key_id'', PStr (xr_key_id r)), (''payload_hash'', PStr (xr_payload_hash r)), (''signature_hash'', PStr (xr_signature_hash r)),
     (''external_receipt_hash'', PStr (xr_external_receipt_hash r)), (''revoked'', PBool (xr_revoked r)),
     (''status'', PStr (xr_status r)), (''receipt_hash'', PStr (xr_receipt_hash r))]"

text \<open>\<open>receipt.__post_init__()\<close>, run again on an instance.\<close>

definition external_receipt_post_init :: "external_receipt \<Rightarrow> unit res" where
  "external_receipt_post_init r =
     ebind (ExternalVerificationReceipt (get (items (mkdict (external_receipt_fields r))))) (\<lambda>_. Inr ())"

definition external_receipt_to_dict :: "external_receipt \<Rightarrow> pyval" where
  "external_receipt_to_dict r = mkdict ((''schema'', PStr EXTERNAL_RECEIPT_SCHEMA) # external_receipt_fields r)"

definition RECEIPT_FIELDS :: "string list" where
  "RECEIPT_FIELDS = [''issuer_id'', ''algorithm'', ''key_id'', ''payload_hash'', ''signature_hash'', ''external_receipt_hash'',
     ''revoked'', ''status'', ''receipt_hash'']"

definition load_external_verification_receipt :: "pyval \<Rightarrow> external_receipt res" where
  "load_external_verification_receipt payload =
     eseq (guard (is_dict payload \<and> py_eq (get (items payload) ''schema'') (PStr EXTERNAL_RECEIPT_SCHEMA) \<and>
             keys_are (items payload) (''schema'' # RECEIPT_FIELDS)) ValueErr ''malformed external verification receipt'')
       (ExternalVerificationReceipt (get (items payload)))"

section \<open>Checking a signature\<close>

text \<open>\<open>verifier.verify(issuer_id=.., key_id=.., algorithm=.., payload=.., signature=..)\<close>.\<close>

type_synonym ed25519_port = "string \<Rightarrow> string \<Rightarrow> string \<Rightarrow> string \<Rightarrow> string \<Rightarrow> pyval res"

text \<open>\<open>except (TypeError, ValueError, OSError): return False\<close>.\<close>

definition port_catches :: "exn \<Rightarrow> bool" where
  "port_catches c \<longleftrightarrow> c = TypeErr \<or> is_value_error c \<or> List.member [OSErr, PermissionErr, TimeoutErr] c"

definition verify_external_ed25519 ::
  "ed25519_port option \<Rightarrow> string \<Rightarrow> string \<Rightarrow> pyval \<Rightarrow> pyval \<Rightarrow> bool res" where
  "verify_external_ed25519 verifier issuer_id key_id payload signature =
     (case verifier of
        None \<Rightarrow> Inl (TypeErr, ''verifier must implement ExternalEd25519VerifierPort'')
      | Some port \<Rightarrow>
          (case (payload, signature) of
             (PBytes p, PBytes s) \<Rightarrow>
               if p = [] \<or> length s \<noteq> 64 then Inr False
               else (case eseq (text_bounded issuer_id ''issuer_id'') (eseq (text_bounded key_id ''key_id'')
                       (port issuer_id key_id ''Ed25519'' p s)) of
                   Inl (c, m) \<Rightarrow> if port_catches c then Inr False else Inl (c, m)
                 | Inr answer \<Rightarrow> Inr (answer = PBool True))
           | _ \<Rightarrow> Inr False))"

text \<open>\<open>_raw_hash(v) if type(v) is bytes else "sha256:" + "0" * 64\<close>.\<close>

definition hash_or_zero :: "pyval \<Rightarrow> string" where
  "hash_or_zero v = (case v of PBytes b \<Rightarrow> sha_text b | _ \<Rightarrow> ''sha256:'' @ replicate 64 (CHR ''0''))"

definition verify_external_ed25519_receipt ::
  "ed25519_port option \<Rightarrow> string \<Rightarrow> string \<Rightarrow> pyval \<Rightarrow> pyval \<Rightarrow> pyval \<Rightarrow> bool \<Rightarrow> external_receipt res" where
  "verify_external_ed25519_receipt verifier issuer_id key_id payload signature receipt revoked =
     (let shape = (case (signature, receipt) of (PBytes s, PBytes x) \<Rightarrow> length s = 64 \<and> x \<noteq> [] | _ \<Rightarrow> False) in
      ebind (if shape \<and> \<not> revoked then verify_external_ed25519 verifier issuer_id key_id payload signature else Inr False) (\<lambda>verified.
      let r = \<lparr>xr_issuer_id = issuer_id, xr_algorithm = ''Ed25519'', xr_key_id = key_id, xr_payload_hash = hash_or_zero payload,
            xr_signature_hash = hash_or_zero signature,
            xr_external_receipt_hash = hash_or_zero (if receipt = PBytes [] then PNone else receipt), xr_revoked = revoked,
            xr_status = (if revoked then ''REVOKED'' else if verified then ''VERIFIED'' else ''INVALID''), xr_receipt_hash = []\<rparr> in
      ebind (external_receipt_digest r) (\<lambda>h.
      let sealed = r\<lparr>xr_receipt_hash := h\<rparr> in
      eseq (external_receipt_post_init sealed) (Inr sealed))))"

section \<open>Trust references\<close>

record trust_reference =
  tr_role :: trust_role
  tr_evidence_id :: string
  tr_issuer_id :: string
  tr_subject_hash :: string
  tr_action :: string
  tr_decision :: trust_decision
  tr_issued_at :: string
  tr_expires_at :: string
  tr_revoked_at :: "string option"
  tr_payload_hash :: string
  tr_signed_payload_hash :: string
  tr_verification_method :: string
  tr_receipt :: string
  tr_receipt_hash :: string

definition trust_reference_post_init :: "trust_reference \<Rightarrow> unit res" where
  "trust_reference_post_init t =
     eseq (efor [(tr_evidence_id t, ''evidence_id''), (tr_issuer_id t, ''issuer_id''), (tr_action t, ''action''),
         (tr_issued_at t, ''issued_at''), (tr_expires_at t, ''expires_at''), (tr_verification_method t, ''verification_method'')]
       (\<lambda>(v, n). text_bounded v n))
    (eseq (efor [(tr_subject_hash t, ''subject_hash''), (tr_payload_hash t, ''payload_hash''),
         (tr_signed_payload_hash t, ''signed_payload_hash''), (tr_receipt_hash t, ''external_verification_receipt_hash'')]
       (\<lambda>(v, n). hash_text v n))
    (eseq (opt_text (tr_revoked_at t) ''revoked_at'')
    (eseq (guard (tr_receipt t \<noteq> []) ValueErr ''external_verification_receipt must be non-empty'')
    (eseq (guard (length (tr_receipt t) \<le> MAX_CONTENT_BYTES) ValueErr ''external_verification_receipt exceeds maximum size'')
       (guard (tr_receipt_hash t = sha_text (tr_receipt t)) ValueErr ''external verification receipt hash mismatch'')))))"

definition trust_reference_hash :: "trust_reference \<Rightarrow> string res" where
  "trust_reference_hash t = hash_value (canon (PTuple [role_enum (tr_role t), PStr (tr_evidence_id t), PStr (tr_issuer_id t),
     PStr (tr_subject_hash t), PStr (tr_action t), PEnum ''TrustDecision'' (trust_decision_value (tr_decision t)),
     PStr (tr_issued_at t), PStr (tr_expires_at t), opt_value (tr_revoked_at t), PStr (tr_payload_hash t),
     PStr (tr_signed_payload_hash t), PStr (tr_verification_method t), PBytes (tr_receipt t), PStr (tr_receipt_hash t)]))"

text \<open>What the signed payload has to say for the reference.\<close>

definition signed_expectations :: "trust_reference \<Rightarrow> string \<Rightarrow> (string \<times> string) list" where
  "signed_expectations t key_id = [(''issuer_id'', tr_issuer_id t), (''key_id'', key_id), (''evidence_id'', tr_evidence_id t),
     (''subject_hash'', tr_subject_hash t), (''action'', tr_action t), (''decision'', trust_decision_value (tr_decision t)),
     (''external_receipt_hash'', tr_receipt_hash t)]"

definition receipt_mismatch :: "trust_reference \<Rightarrow> string \<Rightarrow> pyval \<Rightarrow> pyval \<Rightarrow> external_receipt \<Rightarrow> bool res" where
  "receipt_mismatch t key_id payload signature x =
     (if xr_status x \<noteq> ''VERIFIED'' \<or> xr_revoked x \<or> xr_issuer_id x \<noteq> tr_issuer_id t \<or> xr_key_id x \<noteq> key_id then Inr True
      else ebind (raw_hash payload) (\<lambda>p.
        if xr_payload_hash x \<noteq> p then Inr True
        else ebind (raw_hash signature) (\<lambda>s.
          Inr (xr_signature_hash x \<noteq> s \<or> xr_external_receipt_hash x \<noteq> tr_receipt_hash t))))"

definition in_force :: "trust_reference \<Rightarrow> string \<Rightarrow> bool" where
  "in_force t observed_at \<longleftrightarrow>
     (case (parse_time observed_at, parse_time (tr_issued_at t), parse_time (tr_expires_at t)) of
        (Some observed, Some issued, Some expires) \<Rightarrow> issued \<le> observed \<and> observed < expires | _ \<Rightarrow> False)"

definition reference_checks ::
  "trust_reference \<Rightarrow> ed25519_port option \<Rightarrow> string \<Rightarrow> string \<Rightarrow> pyval \<Rightarrow> pyval \<Rightarrow> external_receipt option \<Rightarrow>
   string option \<Rightarrow> bool res" where
  "reference_checks t verifier expected_issuer_id key_id payload signature receipt observed_at =
     eseq (trust_reference_post_init t)
    (ebind (parse_external_signature_payload payload) (\<lambda>doc.
     eseq (text_bounded expected_issuer_id ''expected_issuer_id'')
    (if tr_issuer_id t \<noteq> expected_issuer_id \<or> tr_revoked_at t \<noteq> None then Inr False
     else if list_ex (\<lambda>(k, expected). \<not> py_eq (get doc k) (PStr expected)) (signed_expectations t key_id) then Inr False
     else (case receipt of
         None \<Rightarrow> Inr False
       | Some x \<Rightarrow>
           eseq (external_receipt_post_init x)
          (ebind (receipt_mismatch t key_id payload signature x) (\<lambda>mismatch.
           if mismatch then Inr False
           else (case observed_at of
               None \<Rightarrow> Inr False
             | Some at \<Rightarrow>
                 if \<not> in_force t at then Inr False
                 else ebind (raw_hash payload) (\<lambda>h.
                   if payload = PBytes [] \<or> tr_signed_payload_hash t \<noteq> h then Inr False
                   else verify_external_ed25519 verifier expected_issuer_id key_id payload signature))))))))"

definition verify_trust_reference_signature ::
  "trust_reference \<Rightarrow> ed25519_port option \<Rightarrow> string \<Rightarrow> string \<Rightarrow> pyval \<Rightarrow> pyval \<Rightarrow> external_receipt option \<Rightarrow>
   string option \<Rightarrow> bool res" where
  "verify_trust_reference_signature t verifier expected_issuer_id key_id payload signature receipt observed_at =
     (case reference_checks t verifier expected_issuer_id key_id payload signature receipt observed_at of
        Inl (c, m) \<Rightarrow> if caught c then Inr False else Inl (c, m)
      | Inr b \<Rightarrow> Inr b)"

end
