(* ===== verification/Native_Receipts.thy ===== *)
theory Native_Receipts
  imports Runner External_Trust
begin

text \<open>
  The portable receipts of \<open>product/evidence/ingestion.py\<close>: \<open>GitHubAcquisitionReceipt\<close>,
  \<open>PythonExecutionAttemptReceipt\<close>, \<open>PythonRunnerProfileReceipt\<close> and \<open>PythonRunnerReceipt\<close>.  The evidence core
  owns them and checks everything again, without importing acquisition or runner, so their fields are the
  fields of \<open>snapshot\<close>, \<open>execution_attempt\<close> and \<open>profile\<close>, and their constructors are different ones.

  As in the theories of those components, a field holds any value until a check has looked at it, and the XML
  parser behind \<open>ElementTree\<close> is a parameter.
\<close>

section \<open>Textual checks\<close>

definition native_sha :: "pyval \<Rightarrow> string \<Rightarrow> bool \<Rightarrow> unit res" where
  "native_sha v field git =
     eseq (guard (is_str v) ValueErr (field @ '' must be a string''))
       (let s = str_of v; valid = (if git then length s = 40 \<and> list_all is_hex s
              else startswith s ''sha256:'' \<and> length s = 71 \<and> list_all is_hex (drop 7 s)) in
        guard (s \<noteq> [] \<and> s = strip s \<and> valid) ValueErr (field @ '' has an invalid digest''))"

definition native_text :: "pyval \<Rightarrow> string \<Rightarrow> unit res" where
  "native_text v field =
     guard (is_str v \<and> str_of v \<noteq> [] \<and> length (str_of v) \<le> MAX_CONTENT_BYTES \<and> str_of v = strip (str_of v) \<and>
       \<not> List.member (str_of v) nul) ValueErr (field @ '' must be a normalized string'')"

section \<open>\<open>datetime.fromisoformat\<close>\<close>

text \<open>
  Which texts \<open>datetime.fromisoformat\<close> (CPython 3.11 and 3.12) reads as a time without a zone: calendar or
  week dates, with or without separators, then any one character, then a time with a fraction of any length.
  A text whose time has a zone is parsed as well, but the code refuses it with the same error as a text that
  does not parse.
\<close>

definition digits_of :: "nat \<Rightarrow> string \<Rightarrow> (nat \<times> string) option" where
  "digits_of n s = (if n \<le> length s \<and> list_all is_digit (take n s) then Some (nat_of_digits (take n s), drop n s) else None)"

text \<open>The text after a separator, if dates have one.\<close>

definition after_separator :: "bool \<Rightarrow> string \<Rightarrow> string option" where
  "after_separator sep s = (if \<not> sep then Some s else if startswith s ''-'' then Some (drop 1 s) else None)"

definition week_ok :: "nat \<Rightarrow> nat \<Rightarrow> nat \<Rightarrow> bool" where
  "week_ok y w d \<longleftrightarrow>
     (let first = ((y - 1) * 365 + (y - 1) div 4 - (y - 1) div 100 + (y - 1) div 400) mod 7 in
      1 \<le> y \<and> 1 \<le> w \<and> w \<le> 53 \<and> (w = 53 \<longrightarrow> first = 3 \<or> (first = 2 \<and> is_leap y)) \<and> 1 \<le> d \<and> d \<le> 7 \<and>
      \<not> (y = 9999 \<and> w = 52 \<and> 5 < d))"

definition week_date :: "nat \<Rightarrow> bool \<Rightarrow> string \<Rightarrow> bool" where
  "week_date y sep s =
     (case digits_of 2 s of
        None \<Rightarrow> False
      | Some (w, r) \<Rightarrow>
          if r = [] then week_ok y w 1
          else (case after_separator sep r of
              None \<Rightarrow> False
            | Some r' \<Rightarrow> (case digits_of 1 r' of Some (d, []) \<Rightarrow> week_ok y w d | _ \<Rightarrow> False)))"

definition month_date :: "nat \<Rightarrow> bool \<Rightarrow> string \<Rightarrow> bool" where
  "month_date y sep s =
     (case digits_of 2 s of
        None \<Rightarrow> False
      | Some (m, r) \<Rightarrow>
          (case after_separator sep r of
             None \<Rightarrow> False
           | Some r' \<Rightarrow> (case digits_of 2 r' of
                Some (d, []) \<Rightarrow> 1 \<le> y \<and> 1 \<le> m \<and> m \<le> 12 \<and> 1 \<le> d \<and> d \<le> days_in y m | _ \<Rightarrow> False)))"

definition date_text :: "string \<Rightarrow> bool" where
  "date_text s =
     (case digits_of 4 s of
        None \<Rightarrow> False
      | Some (y, r) \<Rightarrow>
          let sep = startswith r ''-''; r' = (if sep then drop 1 r else r) in
          if startswith r' ''W'' then week_date y sep (drop 1 r') else month_date y sep r')"

definition char_at :: "string \<Rightarrow> nat \<Rightarrow> char" where
  "char_at s i = (if i < length s then s ! i else nul)"

text \<open>Where the date ends.\<close>

definition date_end :: "string \<Rightarrow> nat option" where
  "date_end s =
     (let n = length s in
      if n = 7 then Some 7
      else if char_at s 4 = CHR ''-'' then
        (if char_at s 5 \<noteq> CHR ''W'' then Some 10
         else if 8 < n \<and> char_at s 8 = CHR ''-'' then
           (if n = 9 then None else if 10 < n \<and> is_digit (char_at s 10) then Some 8 else Some 10)
         else Some 8)
      else if char_at s 4 = CHR ''W'' then
        (let p = 7 + length (takeWhile is_digit (drop 7 s)) in if p < 9 then Some p else if even p then Some 7 else Some 8)
      else Some 8)"

definition fraction_text :: "string \<Rightarrow> bool" where
  "fraction_text s \<longleftrightarrow> s \<noteq> [] \<and> list_all is_digit s"

text \<open>Hours, minutes, seconds: the limits still to come, and whether colons separate (known after the hour).\<close>

fun time_parts :: "nat list \<Rightarrow> bool option \<Rightarrow> string \<Rightarrow> bool" where
  "time_parts [] colons s = False"
| "time_parts (limit # limits) colons s =
     (case digits_of 2 s of
        None \<Rightarrow> False
      | Some (v, r) \<Rightarrow> v \<le> limit \<and>
          (case r of
             [] \<Rightarrow> True
           | c # r' \<Rightarrow>
               let col = (case colons of None \<Rightarrow> c = CHR '':'' | Some b \<Rightarrow> b); rest = (if col then r' else r) in
               r' \<noteq> [] \<and>
               (if c = CHR ''.'' \<or> c = CHR '','' then fraction_text r'
                else (col \<longrightarrow> c = CHR '':'') \<and> (if limits = [] then fraction_text rest else time_parts limits (Some col) rest))))"

definition naive_datetime :: "string \<Rightarrow> bool" where
  "naive_datetime s \<longleftrightarrow> 7 \<le> length s \<and>
     (case date_end s of
        None \<Rightarrow> False
      | Some p \<Rightarrow> p \<le> length s \<and> date_text (take p s) \<and>
          (drop p s = [] \<or>
           (let t = drop (Suc p) s in \<not> list_ex (List.member ''+-Z'') t \<and> time_parts [23, 59, 59] None t)))"

section \<open>The acquisition receipt\<close>

definition native_paths :: "pyval \<Rightarrow> string \<Rightarrow> unit res" where
  "native_paths v field =
     eseq (guard (is_tuple v) ValueErr (field @ '' must be sorted unique tuple''))
    (ebind (py_sorted v) (\<lambda>xs.
     eseq (guard (py_eq v (PTuple xs)) ValueErr (field @ '' must be sorted unique tuple''))
    (ebind (set_distinct (elems v)) (\<lambda>unique.
     eseq (guard unique ValueErr (field @ '' must be sorted unique tuple''))
       (guard (list_all (\<lambda>x. is_str x \<and> str_of x \<noteq> [] \<and> relative_path (str_of x)) (elems v)) ValueErr
          (field @ '' contains invalid path''))))))"

definition is_pair :: "pyval \<Rightarrow> bool" where
  "is_pair v \<longleftrightarrow> is_tuple v \<and> length (elems v) = 2"

definition native_checks :: "pyval \<Rightarrow> unit res" where
  "native_checks v =
     eseq (guard (is_tuple v) ValueErr ''checks must be sorted tuple'')
    (ebind (py_sorted v) (\<lambda>xs.
     eseq (guard (py_eq v (PTuple xs)) ValueErr ''checks must be sorted tuple'')
    (ebind (set_distinct (map (\<lambda>x. hd (elems x)) (filter is_pair (elems v)))) (\<lambda>unique.
     eseq (guard (unique \<and> list_all is_pair (elems v)) ValueErr ''checks must be sorted tuple'')
       (efor (elems v) (\<lambda>x. eseq (native_text (hd (elems x)) ''check identity'')
          (native_sha (elems x ! 1) ''check digest'' False)))))))"

definition native_acquisition_post_init :: "snapshot \<Rightarrow> unit res" where
  "native_acquisition_post_init s =
     eseq (native_text (sn_repository_owner s) ''repository_owner'')
    (eseq (native_text (sn_repository_name s) ''repository_name'')
    (eseq (native_text (sn_observed_at s) ''observed_at'')
    (eseq (guard (case sn_pr_number s of PInt i \<Rightarrow> 0 < i | _ \<Rightarrow> False) ValueErr ''pr_number must be positive'')
    (eseq (native_sha (sn_base_sha s) ''base_sha'' True)
    (eseq (native_sha (sn_head_sha s) ''head_sha'' True)
    (eseq (native_sha (sn_base_tree_sha s) ''base_tree_sha'' True)
    (eseq (native_sha (sn_head_tree_sha s) ''head_tree_sha'' True)
    (eseq (guard (\<not> py_eq (sn_base_sha s) (sn_head_sha s) \<and> py_eq (sn_merge_base_policy s) (PStr ''base_sha_exact'')) ValueErr
             ''invalid acquisition identity'')
    (eseq (guard (case sn_diff_bytes s of PBytes b \<Rightarrow> py_eq (PStr (sha_text b)) (sn_diff_hash s) | _ \<Rightarrow> False) ValueErr
             ''diff_hash does not match diff_bytes'')
    (eseq (native_sha (sn_diff_hash s) ''diff_hash'' False)
    (eseq (native_paths (sn_changed_paths s) ''changed_paths'')
    (eseq (native_paths (sn_deleted_paths s) ''deleted_paths'')
    (eseq (guard (list_all (\<lambda>p. list_ex (py_eq p) (elems (sn_changed_paths s))) (elems (sn_deleted_paths s))) ValueErr
             ''deleted paths must be changed paths'')
    (eseq (native_checks (sn_checks s))
    (eseq (guard (sn_pagination_complete s = PBool True) ValueErr ''pagination must be complete'')
    (eseq (guard (naive_datetime (butlast (str_of (sn_observed_at s))) \<and> last (str_of (sn_observed_at s)) = CHR ''Z'') ValueErr
             ''observed_at must be UTC RFC3339'')
    (ebind (freshness_cas_for s) (\<lambda>cas.
     eseq (guard (py_eq (sn_freshness_cas s) (PStr cas)) ValueErr ''freshness_cas does not match acquisition identity'')
    (ebind (locator_hash \<lparr>lo_repository_owner = sn_repository_owner s, lo_repository_name = sn_repository_name s,
             lo_pr_number = sn_pr_number s\<rparr>) (\<lambda>lh.
     eseq (guard (py_eq (sn_locator_hash s) (PStr lh)) ValueErr ''locator_hash does not match acquisition identity'')
    (eseq (native_sha (sn_freshness_cas s) ''freshness_cas'' False)
       (native_sha (sn_locator_hash s) ''locator_hash'' False))))))))))))))))))))))"

definition GitHubAcquisitionReceipt :: "snapshot \<Rightarrow> snapshot res" where
  "GitHubAcquisitionReceipt s = eseq (native_acquisition_post_init s) (Inr s)"

text \<open>\<open>except (KeyError, TypeError, ValueError)\<close>; \<open>to_dict\<close> makes the dictionary of \<open>snapshot_to_dict\<close>.\<close>

definition as_malformed_receipt :: "'a res \<Rightarrow> 'a res" where
  "as_malformed_receipt r = (case r of
     Inl (c, m) \<Rightarrow> if c = KeyErr \<or> c = TypeErr \<or> is_value_error c
        then Inl (ValueErr, ''malformed acquisition receipt'') else Inl (c, m)
   | Inr x \<Rightarrow> Inr x)"

definition native_acquisition_from_dict :: "pyval \<Rightarrow> snapshot res" where
  "native_acquisition_from_dict payload =
     eseq (guard (is_dict payload) TypeErr ''acquisition receipt must be a dict'')
    (as_malformed_receipt (ebind (load_conversions (items payload)) (\<lambda>(diff, checks, changed, deleted).
     eseq (guard (keys_are (items payload) FIELDS) TypeErr ''unexpected or missing keyword argument'')
      (GitHubAcquisitionReceipt ((snapshot_of (items payload))\<lparr>sn_diff_bytes := diff, sn_checks := checks,
         sn_changed_paths := changed, sn_deleted_paths := deleted\<rparr>)))))"

end
