(* ===== verification/Native_Runner.thy ===== *)
theory Native_Runner
  imports Native_Receipts
begin

text \<open>
  The runner half of the portable receipts of \<open>product/evidence/ingestion.py\<close>: attempts, profile and the
  receipt that binds them, with the truth table of status, reasons and attempts.
\<close>

section \<open>The JUnit report\<close>

text \<open>\<open>except (ET.ParseError, TypeError, ValueError)\<close>.\<close>

definition as_malformed_junit :: "'a res \<Rightarrow> 'a res" where
  "as_malformed_junit r = (case r of
     Inl (c, m) \<Rightarrow> if c = ParseErr \<or> c = TypeErr \<or> is_value_error c then Inl (ValueErr, ''malformed junit oracle'') else Inl (c, m)
   | Inr x \<Rightarrow> Inr x)"

definition native_junit_counts :: "xml_parser \<Rightarrow> string \<Rightarrow> int \<Rightarrow> (int \<times> int \<times> int) res" where
  "native_junit_counts xml data exit_code =
     (if data = [] \<or> contains ''<!DOCTYPE'' data \<or> contains ''<!ENTITY'' data
      then Inl (ValueErr, ''missing or unsafe junit oracle'')
      else ebind (as_malformed_junit (ebind (xml data) (\<lambda>root.
          let suites = (if el_tag root = ''testsuites'' then el_children root else [root]) in
          ebind (count_sum suites ''tests'') (\<lambda>tests.
          ebind (count_sum suites ''failures'') (\<lambda>failures.
          ebind (count_sum suites ''errors'') (\<lambda>errors. Inr (tests, failures, errors))))))) (\<lambda>(tests, failures, errors).
        if tests \<le> 0 \<or> failures < 0 \<or> errors < 0 \<or> failures + errors > tests \<or> (exit_code = 0 \<and> failures + errors \<noteq> 0)
        then Inl (ValueErr, ''inadequate junit oracle'') else Inr (tests, failures, errors)))"

section \<open>Attempts\<close>

definition argv_check :: "pyval list \<Rightarrow> string \<Rightarrow> unit res" where
  "argv_check argv message =
     eseq (guard (argv \<noteq> [] \<and> list_all (\<lambda>x. is_str x \<and> str_of x \<noteq> []) argv) ValueErr message)
       (guard (\<not> list_ex (\<lambda>x. List.member [''sh'', ''bash'', ''-c'', ''--command''] (str_of x)) argv) ValueErr
          ''shell invocation is forbidden'')"

definition native_int :: "pyval \<Rightarrow> (int \<Rightarrow> bool) \<Rightarrow> bool" where
  "native_int v P \<longleftrightarrow> (case v of PInt i \<Rightarrow> P i | _ \<Rightarrow> False)"

definition int_of :: "pyval \<Rightarrow> int" where
  "int_of v = (case v of PInt i \<Rightarrow> i | _ \<Rightarrow> 0)"

text \<open>The fields, and the record they make once they have passed the type tests.\<close>

definition native_attempt_of :: "(string \<Rightarrow> pyval) \<Rightarrow> execution_attempt" where
  "native_attempt_of f = \<lparr>ea_attempt_id = str_of (f ''attempt_id''), ea_execution_id = str_of (f ''execution_id''),
     ea_source_revision = str_of (f ''source_revision''), ea_source_tree = str_of (f ''source_tree''),
     ea_contract_hash = str_of (f ''contract_hash''), ea_plan_hash = str_of (f ''plan_hash''),
     ea_environment_hash = str_of (f ''environment_hash''), ea_argv = elems (f ''argv''), ea_stdout = the_bytes (f ''stdout''),
     ea_stderr = the_bytes (f ''stderr''), ea_exit_code = int_of (f ''exit_code''), ea_junit = the_bytes (f ''junit''),
     ea_artifact_hash = str_of (f ''artifact_hash''), ea_junit_tests = int_of (f ''junit_tests''),
     ea_junit_failures = int_of (f ''junit_failures''), ea_junit_errors = int_of (f ''junit_errors''),
     ea_outcome_hash = str_of (f ''outcome_hash'')\<rparr>"

definition PythonExecutionAttemptReceipt :: "xml_parser \<Rightarrow> (string \<Rightarrow> pyval) \<Rightarrow> execution_attempt res" where
  "PythonExecutionAttemptReceipt xml f =
     (let a = native_attempt_of f in
      eseq (efor [''attempt_id'', ''execution_id''] (\<lambda>k. native_text (f k) k))
     (eseq (efor [''source_revision'', ''source_tree''] (\<lambda>k. native_sha (f k) k True))
     (eseq (efor [''contract_hash'', ''plan_hash'', ''environment_hash'', ''artifact_hash'', ''outcome_hash'']
              (\<lambda>k. native_sha (f k) k False))
     (eseq (guard (is_tuple (f ''argv'')) ValueErr ''argv must be a non-empty tuple'')
     (eseq (argv_check (elems (f ''argv'')) ''argv must be a non-empty tuple'')
     (eseq (efor [''stdout'', ''stderr'', ''junit'']
              (\<lambda>k. guard (is_bytes (f k) \<and> length (the_bytes (f k)) \<le> MAX_CONTENT_BYTES) ValueErr (k @ '' must be bytes'')))
     (eseq (guard (native_int (f ''exit_code'') (\<lambda>_. True)) ValueErr ''exit_code must be int'')
     (eseq (efor [''junit_tests'', ''junit_failures'', ''junit_errors'']
              (\<lambda>k. guard (native_int (f k) (\<lambda>i. 0 \<le> i)) ValueErr (k @ '' must be a non-negative int'')))
     (ebind (native_junit_counts xml (ea_junit a) (ea_exit_code a)) (\<lambda>counts.
      eseq (guard (counts = (ea_junit_tests a, ea_junit_failures a, ea_junit_errors a)) ValueErr
              ''junit semantic counts do not match'') (Inr a)))))))))))"

definition native_attempt_fields :: "execution_attempt \<Rightarrow> (string \<times> pyval) list" where
  "native_attempt_fields a = [(''attempt_id'', PStr (ea_attempt_id a)), (''execution_id'', PStr (ea_execution_id a)),
     (''source_revision'', PStr (ea_source_revision a)), (''source_tree'', PStr (ea_source_tree a)),
     (''contract_hash'', PStr (ea_contract_hash a)), (''plan_hash'', PStr (ea_plan_hash a)),
     (''environment_hash'', PStr (ea_environment_hash a)), (''argv'', PList (ea_argv a)),
     (''stdout'', PStr (bytes_hex (ea_stdout a))), (''stderr'', PStr (bytes_hex (ea_stderr a))),
     (''exit_code'', PInt (ea_exit_code a)), (''junit'', PStr (bytes_hex (ea_junit a))),
     (''artifact_hash'', PStr (ea_artifact_hash a)), (''junit_tests'', PInt (ea_junit_tests a)),
     (''junit_failures'', PInt (ea_junit_failures a)), (''junit_errors'', PInt (ea_junit_errors a)),
     (''outcome_hash'', PStr (ea_outcome_hash a))]"

definition native_attempt_to_dict :: "execution_attempt \<Rightarrow> pyval" where
  "native_attempt_to_dict a = mkdict (native_attempt_fields a)"

section \<open>The profile\<close>

definition PythonRunnerProfileReceipt :: "profile \<Rightarrow> profile res" where
  "PythonRunnerProfileReceipt p =
     eseq (native_text (pf_profile_id p) ''profile_id'')
    (eseq (native_text (pf_image p) ''image'')
    (eseq (native_text (pf_network p) ''network'')
    (eseq (native_text (pf_rootfs p) ''rootfs'')
    (eseq (native_sha (pf_image_digest p) ''image_digest'' False)
    (eseq (native_sha (pf_lock_digest p) ''lock_digest'' False)
    (eseq (native_sha (pf_dependency_artifacts_hash p) ''dependency_artifacts_hash'' False)
    (eseq (guard (py_eq (pf_network p) (PStr ''none'') \<and> py_eq (pf_rootfs p) (PStr ''read-only'')) ValueErr
             ''runner profile must be offline/read-only'')
    (eseq (guard (is_tuple (pf_command p)) ValueErr ''profile command must be argv tuple'')
    (eseq (argv_check (elems (pf_command p)) ''profile command must be argv tuple'')
    (eseq (efor [(''timeout_seconds'', pf_timeout_seconds p), (''memory_bytes'', pf_memory_bytes p), (''cpu_seconds'', pf_cpu_seconds p)]
             (\<lambda>(k, v). guard (native_int v (\<lambda>i. 0 < i)) ValueErr (k @ '' must be positive'')))
      (Inr p)))))))))))"

definition native_profile_fields :: "profile \<Rightarrow> (string \<times> pyval) list" where
  "native_profile_fields p = [(''profile_id'', pf_profile_id p), (''image'', pf_image p), (''image_digest'', pf_image_digest p),
     (''lock_digest'', pf_lock_digest p), (''dependency_artifacts_hash'', pf_dependency_artifacts_hash p),
     (''network'', pf_network p), (''rootfs'', pf_rootfs p), (''timeout_seconds'', pf_timeout_seconds p),
     (''memory_bytes'', pf_memory_bytes p), (''cpu_seconds'', pf_cpu_seconds p), (''command'', PList (elems (pf_command p)))]"

definition native_profile_to_dict :: "profile \<Rightarrow> pyval" where
  "native_profile_to_dict p = mkdict (native_profile_fields p)"

definition native_profile_hash :: "profile \<Rightarrow> string res" where
  "native_profile_hash p = ebind (dumps compact_sorted (native_profile_to_dict p)) (\<lambda>t. Inr (sha_text (utf8 t)))"

section \<open>The runner receipt\<close>

record native_runner =
  nr_status :: pyval
  nr_reason_codes :: pyval
  nr_profile_hash :: pyval
  nr_attempt_ids :: pyval
  nr_artifact_hashes :: pyval
  nr_attempts :: "execution_attempt list"
  nr_profile :: profile

text \<open>Status, reasons and attempts have to agree.\<close>

definition native_truth_table :: "string \<Rightarrow> string list \<Rightarrow> execution_attempt list \<Rightarrow> unit res" where
  "native_truth_table status reasons attempts =
     eseq (guard (List.member [''VERIFIED'', ''FAILED_VERIFICATION''] status \<longrightarrow> length attempts = 2) ValueErr
             ''runner receipt requires two attempts'')
    (eseq (guard (status = ''VERIFIED'' \<longrightarrow> reasons = []) ValueErr ''verified runner receipt must have empty reasons'')
    (eseq (guard (status = ''FAILED_VERIFICATION'' \<longrightarrow> reasons = [''TEST_FAILURE'']) ValueErr
             ''failed runner receipt must have TEST_FAILURE reason'')
    (eseq (guard (status = ''UNVERIFIABLE'' \<longrightarrow> length attempts = 0 \<or> length attempts = 2) ValueErr
             ''unverifiable runner receipt requires zero or two attempts'')
    (eseq (guard (status \<noteq> ''UNVERIFIABLE'' \<longrightarrow> distinct (map ea_execution_id attempts)) ValueErr ''duplicate execution identity'')
    (case attempts of
       [a, b] \<Rightarrow>
         let same = same_outcome a b in
         eseq (guard (status = ''VERIFIED'' \<longrightarrow> same \<and>
                 list_all (\<lambda>x. ea_exit_code x = 0 \<and> ea_junit_failures x + ea_junit_errors x = 0) attempts) ValueErr
                 ''verified runner truth table mismatch'')
        (eseq (guard (status = ''FAILED_VERIFICATION'' \<longrightarrow> same \<and>
                 list_all (\<lambda>x. ea_exit_code x = 1 \<and> 0 < ea_junit_failures x + ea_junit_errors x) attempts) ValueErr
                 ''failed runner truth table mismatch'')
          (guard (status = ''UNVERIFIABLE'' \<longrightarrow> reasons = (if ea_execution_id a = ea_execution_id b then [''DUPLICATE_EXECUTION_ID'']
                 else if \<not> same then [''NONDETERMINISTIC''] else [''UNKNOWN_EXECUTION_OUTCOME''])) ValueErr
                 ''unverifiable runner truth table mismatch''))
     | _ \<Rightarrow> guard (status = ''UNVERIFIABLE'' \<longrightarrow>
              List.member [[''MISSING_BINDING''], [''MALFORMED_REQUEST''], [''MALFORMED_OR_UNAVAILABLE'']] reasons) ValueErr
              ''unverifiable zero-attempt reason is not allowed'')))))"

definition native_identity :: "profile \<Rightarrow> execution_attempt \<Rightarrow> string \<Rightarrow> pyval" where
  "native_identity p a = get (items (mkdict [
     (''source_revision'', PStr (ea_source_revision a)), (''source_tree'', PStr (ea_source_tree a)),
     (''contract_hash'', PStr (ea_contract_hash a)), (''plan_hash'', PStr (ea_plan_hash a)),
     (''environment_hash'', PStr (ea_environment_hash a)), (''profile_id'', pf_profile_id p), (''image'', pf_image p),
     (''image_digest'', pf_image_digest p), (''lock_digest'', pf_lock_digest p), (''network'', pf_network p),
     (''rootfs'', pf_rootfs p), (''timeout_seconds'', pf_timeout_seconds p), (''memory_bytes'', pf_memory_bytes p),
     (''cpu_seconds'', pf_cpu_seconds p)]))"

definition native_bindings :: "execution_attempt \<Rightarrow> string list" where
  "native_bindings a = [ea_source_revision a, ea_source_tree a, ea_contract_hash a, ea_plan_hash a, ea_environment_hash a]"

text \<open>The artifact and outcome hashes, computed again.\<close>

definition native_evidence :: "xml_parser \<Rightarrow> profile \<Rightarrow> execution_attempt \<Rightarrow> unit res" where
  "native_evidence xml p a =
     ebind (artifact_digest (attempt_identity (native_identity p a) (ea_argv a)
              (ea_junit_tests a, ea_junit_failures a, ea_junit_errors a) (ea_exit_code a))
             (str_of (pf_dependency_artifacts_hash p)) (ea_stdout a) (ea_stderr a) (ea_junit a)) (\<lambda>artifact.
     eseq (guard (artifact = ea_artifact_hash a) ValueErr ''artifact_hash does not match runner evidence'')
    (ebind (xml (ea_junit a)) (\<lambda>root.
     ebind (outcome_digest (native_bindings a) (ea_argv a) (ea_exit_code a) root) (\<lambda>outcome.
       guard (outcome = ea_outcome_hash a) ValueErr ''outcome_hash does not match runner evidence''))))"

definition native_runner_post_init :: "xml_parser \<Rightarrow> native_runner \<Rightarrow> unit res" where
  "native_runner_post_init xml r =
     ebind (in_strs (nr_status r) [''VERIFIED'', ''FAILED_VERIFICATION'', ''UNVERIFIABLE'']) (\<lambda>known.
     eseq (guard known ValueErr ''invalid runner status'')
    (eseq (guard (is_tuple (nr_reason_codes r) \<and> list_all is_str (elems (nr_reason_codes r))) ValueErr
             ''reason_codes must be tuple[str,...]'')
    (eseq (native_sha (nr_profile_hash r) ''profile_hash'' False)
    (ebind (native_profile_hash (nr_profile r)) (\<lambda>ph.
     eseq (guard (py_eq (nr_profile_hash r) (PStr ph)) ValueErr ''profile_hash does not match runner profile'')
    (eseq (guard (is_tuple (nr_attempt_ids r) \<and> is_tuple (nr_artifact_hashes r)) ValueErr ''runner summaries must be tuples'')
    (eseq (efor (elems (nr_artifact_hashes r)) (\<lambda>v. native_sha v ''artifact_hash'' False))
    (eseq (native_truth_table (str_of (nr_status r)) (map str_of (elems (nr_reason_codes r))) (nr_attempts r))
    (eseq (efor (nr_attempts r) (native_evidence xml (nr_profile r)))
       (guard (py_eqs (elems (nr_attempt_ids r)) (map (\<lambda>a. PStr (ea_attempt_id a)) (nr_attempts r)) \<and>
               py_eqs (elems (nr_artifact_hashes r)) (map (\<lambda>a. PStr (ea_artifact_hash a)) (nr_attempts r))) ValueErr
          ''runner summary does not match attempts''))))))))))"

definition PythonRunnerReceipt :: "xml_parser \<Rightarrow> native_runner \<Rightarrow> native_runner res" where
  "PythonRunnerReceipt xml r = eseq (native_runner_post_init xml r) (Inr r)"

definition native_runner_fields :: "native_runner \<Rightarrow> (string \<times> pyval) list" where
  "native_runner_fields r = [(''status'', nr_status r), (''reason_codes'', PList (elems (nr_reason_codes r))),
     (''profile_hash'', nr_profile_hash r), (''attempt_ids'', PList (elems (nr_attempt_ids r))),
     (''artifact_hashes'', PList (elems (nr_artifact_hashes r))),
     (''attempts'', PList (map native_attempt_to_dict (nr_attempts r))), (''profile'', native_profile_to_dict (nr_profile r))]"

definition native_runner_to_dict :: "native_runner \<Rightarrow> pyval" where
  "native_runner_to_dict r = mkdict (native_runner_fields r)"

section \<open>Loading\<close>

definition RUNNER_KEYS :: "string list" where
  "RUNNER_KEYS = [''status'', ''reason_codes'', ''profile_hash'', ''attempt_ids'', ''artifact_hashes'', ''attempts'', ''profile'']"

definition NATIVE_PROFILE_KEYS :: "string list" where
  "NATIVE_PROFILE_KEYS = [''profile_id'', ''image'', ''image_digest'', ''lock_digest'', ''dependency_artifacts_hash'',
     ''network'', ''rootfs'', ''command'', ''timeout_seconds'', ''memory_bytes'', ''cpu_seconds'']"

definition ATTEMPT_KEYS :: "string list" where
  "ATTEMPT_KEYS = [''attempt_id'', ''execution_id'', ''source_revision'', ''source_tree'', ''contract_hash'', ''plan_hash'',
     ''environment_hash'', ''argv'', ''stdout'', ''stderr'', ''exit_code'', ''junit'', ''artifact_hash'', ''junit_tests'',
     ''junit_failures'', ''junit_errors'', ''outcome_hash'']"

definition native_load_attempt :: "xml_parser \<Rightarrow> pyval \<Rightarrow> execution_attempt res" where
  "native_load_attempt xml item =
     (let d = items item in
      ebind (py_list (get d ''argv'')) (\<lambda>argv.
      ebind (hex_item d ''stdout'') (\<lambda>out.
      ebind (hex_item d ''stderr'') (\<lambda>err.
      ebind (hex_item d ''junit'') (\<lambda>junit.
        PythonExecutionAttemptReceipt xml ((get d)(''argv'' := PTuple argv, ''stdout'' := PBytes out, ''stderr'' := PBytes err,
          ''junit'' := PBytes junit)))))))"

text \<open>\<open>except (KeyError, TypeError)\<close>: a \<open>ValueError\<close> passes.\<close>

definition as_malformed_runner :: "'a res \<Rightarrow> 'a res" where
  "as_malformed_runner r = (case r of
     Inl (c, m) \<Rightarrow> if c = KeyErr \<or> c = TypeErr then Inl (ValueErr, ''malformed runner receipt'') else Inl (c, m)
   | Inr x \<Rightarrow> Inr x)"

definition native_runner_from_dict :: "xml_parser \<Rightarrow> pyval option \<Rightarrow> pyval \<Rightarrow> native_runner res" where
  "native_runner_from_dict xml override payload =
     eseq (guard (is_dict payload) TypeErr ''runner receipt must be a dict'')
    (as_malformed_runner (
       let d = items payload; profile_data = (case override of Some p \<Rightarrow> p | None \<Rightarrow> get d ''profile'') in
       eseq (guard (keys_are d RUNNER_KEYS) ValueErr ''runner receipt schema keys mismatch'')
      (eseq (guard (is_dict profile_data \<and> keys_are (items profile_data) NATIVE_PROFILE_KEYS) ValueErr
               ''runner profile schema keys mismatch'')
      (ebind (py_list (get (items profile_data) ''command'')) (\<lambda>cmd.
       ebind (PythonRunnerProfileReceipt (profile_of (items profile_data) (PTuple cmd))) (\<lambda>p.
       eseq (guard (is_list (get d ''attempts'') \<and>
               list_all (\<lambda>item. is_dict item \<and> keys_are (items item) ATTEMPT_KEYS) (elems (get d ''attempts''))) ValueErr
               ''runner attempt schema keys mismatch'')
      (ebind (emap (native_load_attempt xml) (elems (get d ''attempts''))) (\<lambda>attempts.
       ebind (py_list (get d ''reason_codes'')) (\<lambda>reasons.
       ebind (py_list (get d ''attempt_ids'')) (\<lambda>ids.
       ebind (py_list (get d ''artifact_hashes'')) (\<lambda>hashes.
         PythonRunnerReceipt xml \<lparr>nr_status = get d ''status'', nr_reason_codes = PTuple reasons,
           nr_profile_hash = get d ''profile_hash'', nr_attempt_ids = PTuple ids, nr_artifact_hashes = PTuple hashes,
           nr_attempts = attempts, nr_profile = p\<rparr>)))))))))))"

section \<open>Receipt hashes\<close>

text \<open>\<open>_native_receipt_hash\<close>: of the canonical JSON of \<open>to_dict\<close>.\<close>

definition native_receipt_hash :: "pyval \<Rightarrow> string res" where
  "native_receipt_hash v = ebind (dumps compact_sorted v) (\<lambda>t. Inr (sha_text (utf8 t)))"

end
