(* ===== verification/Native_Properties.thy ===== *)
theory Native_Properties
  imports Native_Receipts
begin

text \<open>
  The acquisition and the evidence core check the same snapshot with different code.  Every snapshot the
  acquisition accepts is accepted as a portable receipt, and the receipt survives transport as a dictionary.
\<close>

section \<open>Textual checks\<close>

lemma is_sha40_normalized: "is_sha40 s \<Longrightarrow> normalized s"
proof -
  assume s: "is_sha40 s"
  then have ne: "s \<noteq> []" and hex: "\<forall>c \<in> set s. is_hex c" by (auto simp: is_sha40_def list_all_iff)
  then have "strip s = s" by (intro strip_no_space_ends) (simp_all add: hex_not_space)
  then show "normalized s" using ne hex hex_not_nul by (auto simp: normalized_def)
qed

lemma native_sha_git: "native_sha v f True = Inr () \<longleftrightarrow> sha40_str v"
  using is_sha40_normalized by (auto simp: native_sha_def eseq_Inr_iff guard_Inr_iff Let_def sha40_str_def is_sha40_def normalized_def)

lemma native_sha_digest: "native_sha v f False = Inr () \<longleftrightarrow> is_str v \<and> is_sha256 (str_of v)"
  using is_sha256_normalized by (auto simp: native_sha_def eseq_Inr_iff guard_Inr_iff Let_def is_sha256_def normalized_def)

lemma native_text_iff: "native_text v f = Inr () \<longleftrightarrow> is_str v \<and> normalized (str_of v) \<and> length (str_of v) \<le> MAX_CONTENT_BYTES"
  by (auto simp: native_text_def guard_Inr_iff normalized_def)

section \<open>Timestamps\<close>

lemma length_19:
  assumes "19 \<le> length s"
  obtains a b c d e f g h i j k l m n p q t u v r where "s = a # b # c # d # e # f # g # h # i # j # k # l # m # n # p # q # t # u # v # r"
proof -
  have "\<exists>x y. s = x # y \<and> n \<le> length y" if "Suc n \<le> length s" for n and s :: "'b list"
    using that by (cases s) auto
  then show ?thesis using assms that by (metis (no_types, opaque_lifting) eval_nat_numeral(3) eval_nat_numeral(2) numeral_One
        One_nat_def Suc_1 numeral_eq_Suc pred_numeral_simps numeral_nat)
qed

lemma naive_date:
  assumes "list_all is_digit [a, b, c, d, f, g, i, j]" "1 \<le> nat_of_digits [a, b, c, d]" "1 \<le> nat_of_digits [f, g]"
    "nat_of_digits [f, g] \<le> 12" "1 \<le> nat_of_digits [i, j]" "nat_of_digits [i, j] \<le> days_in (nat_of_digits [a, b, c, d]) (nat_of_digits [f, g])"
  shows "date_text [a, b, c, d, CHR ''-'', f, g, CHR ''-'', i, j]"
proof -
  have "f \<noteq> CHR ''W''" using assms(1) by (auto simp: is_digit_def)
  then show ?thesis using assms
    by (simp add: date_text_def digits_of_def month_date_def after_separator_def numeral_nat)
qed

lemma naive_time:
  assumes "list_all is_digit [a, b, c, d, e, f]" "nat_of_digits [a, b] \<le> 23" "nat_of_digits [c, d] \<le> 59" "nat_of_digits [e, f] \<le> 59"
    and "r = [] \<or> (\<exists>ds. r = CHR ''.'' # ds \<and> fraction_text ds)"
  shows "time_parts [23, 59, 59] None (a # b # CHR '':'' # c # d # CHR '':'' # e # f # r)"
proof -
  have "r = CHR ''.'' # ds \<Longrightarrow> fraction_text ds \<Longrightarrow> ds \<noteq> []" for ds by (simp add: fraction_text_def)
  then show ?thesis using assms by (auto simp: digits_of_def numeral_nat)
qed

lemma no_zone:
  assumes "list_all (\<lambda>x. is_digit x \<or> x = CHR ''.'' \<or> x = CHR '':'') t"
  shows "\<not> list_ex (List.member ''+-Z'') t"
proof -
  have "\<not> List.member ''+-Z'' x" if "is_digit x \<or> x = CHR ''.'' \<or> x = CHR '':''" for x
    using that by (auto simp: is_digit_def)
  then show ?thesis using assms unfolding list_ex_iff list_all_iff by blast
qed

lemma rfc3339_naive:
  assumes shape: "rfc3339_shape s" and time: "valid_timestamp s"
  shows "naive_datetime (butlast s) \<and> last s = CHR ''Z''"
proof -
  have "19 \<le> length s" using shape by (simp add: rfc3339_shape_def)
  then obtain a b c d e f g h i j k l m n p q t u v r where
    s: "s = a # b # c # d # e # f # g # h # i # j # k # l # m # n # p # q # t # u # v # r" by (rule length_19)
  have digits: "list_all is_digit [a, b, c, d, f, g, i, j, l, m, p, q, u, v]" and seps: "e = CHR ''-''" "h = CHR ''-''" "k = CHR ''T''"
    "n = CHR '':''" "t = CHR '':''" and z: "last s = CHR ''Z''" and ne: "r \<noteq> []"
    and r: "length r = 1 \<or> hd r = CHR ''.'' \<and> 3 \<le> length r \<and> list_all is_digit (butlast (tl r))"
    using shape by (cases r; simp add: rfc3339_shape_def s numeral_nat)+
  have fields: "1 \<le> nat_of_digits [a, b, c, d]" "1 \<le> nat_of_digits [f, g]" "nat_of_digits [f, g] \<le> 12" "1 \<le> nat_of_digits [i, j]"
    "nat_of_digits [i, j] \<le> days_in (nat_of_digits [a, b, c, d]) (nat_of_digits [f, g])" "nat_of_digits [l, m] \<le> 23"
    "nat_of_digits [p, q] \<le> 59" "nat_of_digits [u, v] \<le> 59"
    using time by (simp_all add: valid_timestamp_def Let_def field_at_def s numeral_nat)
  have frac: "butlast r = [] \<or> (\<exists>ds. butlast r = CHR ''.'' # ds \<and> fraction_text ds)"
    using r by (cases r; cases "tl r") (auto simp: fraction_text_def)
  let ?time = "l # m # CHR '':'' # p # q # CHR '':'' # u # v # butlast r"
  have b: "butlast s = [a, b, c, d, CHR ''-'', f, g, CHR ''-'', i, j] @ CHR ''T'' # ?time" using ne by (simp add: s seps)
  have "date_end (butlast s) = Some 10"
  proof -
    have "f \<noteq> CHR ''W''" using digits by (auto simp: is_digit_def)
    then show ?thesis unfolding b by (simp add: date_end_def char_at_def Let_def)
  qed
  moreover have "date_text (take 10 (butlast s))"
    unfolding b using naive_date [of a b c d f g i j] digits fields by simp
  moreover have "time_parts [23, 59, 59] None ?time"
    using naive_time [of l m p q u v "butlast r"] digits fields frac by simp
  moreover have "\<not> list_ex (List.member ''+-Z'') ?time"
  proof (rule no_zone)
    have "list_all (\<lambda>x. is_digit x \<or> x = CHR ''.'') (butlast r)" using frac by (auto simp: fraction_text_def list_all_iff)
    then have "list_all (\<lambda>x. is_digit x \<or> x = CHR ''.'' \<or> x = CHR '':'') (butlast r)" by (auto simp: list_all_iff)
    then show "list_all (\<lambda>x. is_digit x \<or> x = CHR ''.'' \<or> x = CHR '':'') ?time" using digits by simp
  qed
  ultimately show ?thesis using z unfolding b by (simp add: naive_datetime_def Let_def del: time_parts.simps)
qed

section \<open>The acquisition receipt\<close>

lemma native_paths_ok:
  assumes "v = PTuple (map PStr ps)" "sorted ps" "distinct ps" "\<forall>p \<in> set ps. path_text p"
  shows "native_paths v f = Inr ()"
  using assms by (auto simp: native_paths_def py_sorted_strs set_distinct_strs sorted_sort_id eseq_Inr_iff ebind_Inr_iff
      guard_Inr_iff list_all_iff path_text_def)

definition check_pairs :: "(string \<times> string) list \<Rightarrow> pyval" where
  "check_pairs cs = PTuple (map (\<lambda>(i, d). PTuple [PStr i, PStr d]) cs)"

lemma native_checks_ok:
  assumes v: "v = check_pairs cs" "py_sorted v = Inr xs" "py_eq v (PTuple xs)" "distinct (map fst cs)"
    and "\<forall>(i, d) \<in> set cs. normalized i \<and> length i \<le> MAX_CONTENT_BYTES \<and> is_sha256 d"
  shows "native_checks v = Inr ()"
proof -
  have pairs: "list_all is_pair (elems v)" by (auto simp: v(1) check_pairs_def is_pair_def list_all_iff)
  then have "filter is_pair (elems v) = elems v" by (simp add: list_all_iff)
  moreover have "map (\<lambda>x. hd (elems x)) (elems v) = map PStr (map fst cs)" by (auto simp: v(1) check_pairs_def)
  ultimately have "set_distinct (map (\<lambda>x. hd (elems x)) (filter is_pair (elems v))) = Inr True"
    using assms(4) by (simp only: set_distinct_strs)
  moreover have "\<forall>x \<in> set (elems v). native_text (hd (elems x)) f = Inr () \<and> native_sha (elems x ! 1) g False = Inr ()" for f g
    using assms(5) by (auto simp: v(1) check_pairs_def native_text_iff native_sha_digest)
  ultimately show ?thesis using pairs v(2,3)
    by (simp add: native_checks_def v(1) check_pairs_def eseq_Inr_iff ebind_Inr_iff guard_Inr_iff efor_Inr_iff)
qed

text \<open>The timestamp and the names of the checks fit the receipt's limit on texts.\<close>

definition portable_texts :: "snapshot \<Rightarrow> bool" where
  "portable_texts s \<longleftrightarrow> length (str_of (sn_observed_at s)) \<le> MAX_CONTENT_BYTES \<and>
     (\<forall>x \<in> set (elems (sn_checks s)). length (str_of (hd (elems x))) \<le> MAX_CONTENT_BYTES)"

lemma rfc3339_chars: "rfc3339_shape s \<Longrightarrow> list_all (\<lambda>c. is_digit c \<or> List.member ''-:T.Z'' c) s"
proof -
  let ?P = "\<lambda>c. is_digit c \<or> List.member ''-:T.Z'' c"
  assume r: "rfc3339_shape s"
  have "19 \<le> length s" using r by (simp add: rfc3339_shape_def)
  then obtain a b c d e f g h i j k l m n p q t u v r' where
    s: "s = a # b # c # d # e # f # g # h # i # j # k # l # m # n # p # q # t # u # v # r'" by (rule length_19)
  have "r' = ''Z'' \<or> (\<exists>ds. r' = CHR ''.'' # ds @ ''Z'' \<and> list_all is_digit ds)"
  proof (cases r')
    case (Cons x y)
    then show ?thesis using r by (cases y rule: rev_cases) (simp_all add: rfc3339_shape_def s numeral_nat)
  qed (use r in \<open>simp add: rfc3339_shape_def s\<close>)
  then have "list_all ?P r'" by (auto simp: list_all_iff)
  then show "list_all ?P s" using r by (simp add: rfc3339_shape_def s numeral_nat)
qed

lemma rfc3339_normalized: "rfc3339_shape s \<Longrightarrow> normalized s"
proof -
  assume r: "rfc3339_shape s"
  have "\<not> is_space c \<and> c \<noteq> nul" if "is_digit c \<or> List.member ''-:T.Z'' c" for c
    using that by (auto simp: is_digit_def is_space_def nul_def)
  then have "\<forall>c \<in> set s. \<not> is_space c \<and> c \<noteq> nul" using rfc3339_chars [OF r] unfolding list_all_iff by blast
  moreover have "s \<noteq> []" using r by (auto simp: rfc3339_shape_def)
  ultimately show ?thesis using strip_no_space_ends [of s] by (auto simp: normalized_def)
qed

lemma post_init_rest:
  assumes "snapshot_post_init s = Inr ()"
  shows "rfc3339_shape (str_of (sn_observed_at s))" "valid_timestamp (str_of (sn_observed_at s))" "is_str (sn_observed_at s)"
    "py_eq (sn_merge_base_policy s) (PStr ''base_sha_exact'')"
    "\<exists>lh. locator_hash \<lparr>lo_repository_owner = sn_repository_owner s, lo_repository_name = sn_repository_name s,
        lo_pr_number = sn_pr_number s\<rparr> = Inr lh \<and> py_eq (sn_locator_hash s) (PStr lh)"
    "\<exists>xs. py_sorted (sn_checks s) = Inr xs \<and> py_eq (sn_checks s) (PTuple xs)"
  using assms
  by (cases "sn_diff_bytes s"; auto simp: snapshot_post_init_def GitHubPullRequestLocator_def checks_check_def ebind_Inr_iff
      eseq_Inr_iff guard_Inr_iff split: if_splits; fail)+

lemma native_post_init:
  assumes ok: "snapshot_post_init s = Inr ()" and texts: "portable_texts s"
    and strs: "is_str (sn_freshness_cas s)" "is_str (sn_locator_hash s)"
  shows "native_acquisition_post_init s = Inr ()"
proof -
  from post_init_typed [OF ok] obtain owner name pr diff ps ds cs where
    names: "sn_repository_owner s = PStr owner" "is_name owner" "sn_repository_name s = PStr name" "is_name name"
    and pr: "sn_pr_number s = PInt pr" "0 < pr"
    and shas: "list_all sha40_str [sn_base_sha s, sn_head_sha s, sn_base_tree_sha s, sn_head_tree_sha s]"
    and diff: "sn_diff_bytes s = PBytes diff" "sn_diff_hash s = PStr (sha_text diff)"
    and ps: "sn_changed_paths s = PTuple (map PStr ps)" "sorted ps" "distinct ps" "list_all path_text ps"
    and ds: "sn_deleted_paths s = PTuple (map PStr ds)" "sorted ds" "distinct ds" "set ds \<subseteq> set ps"
    and cs: "sn_checks s = check_pairs cs" "distinct (map fst cs)" "list_all (\<lambda>(i, d). normalized i \<and> is_sha256 d) cs"
    and pag: "sn_pagination_complete s = PBool True"
    unfolding well_typed_snapshot_def check_pairs_def by blast
  from ok obtain cas where ne: "\<not> py_eq (sn_base_sha s) (sn_head_sha s)" and cas: "freshness_cas_for s = Inr cas" "py_eq (sn_freshness_cas s) (PStr cas)"
    by (rule post_init_parts)
  note rest = post_init_rest [OF ok]
  obtain lh where lh: "locator_hash \<lparr>lo_repository_owner = PStr owner, lo_repository_name = PStr name, lo_pr_number = PInt pr\<rparr> = Inr lh"
    "py_eq (sn_locator_hash s) (PStr lh)" using rest(5) names pr by auto
  have digests: "is_sha256 cas" "is_sha256 lh"
    using cas(1) lh(1) sha_text_is_sha256 by (auto simp: freshness_cas_for_def locator_hash_def ebind_Inr_iff)
  have time: "normalized (str_of (sn_observed_at s))" "length (str_of (sn_observed_at s)) \<le> MAX_CONTENT_BYTES"
    using rfc3339_normalized [OF rest(1)] texts by (simp_all add: portable_texts_def)
  have "native_paths (sn_changed_paths s) f = Inr ()" "native_paths (sn_deleted_paths s) f = Inr ()" for f
    using native_paths_ok [OF ps(1-3)] native_paths_ok [OF ds(1-3)] ps(4) ds(4) by (auto simp: list_all_iff)
  moreover have "\<forall>(i, d) \<in> set cs. normalized i \<and> length i \<le> MAX_CONTENT_BYTES \<and> is_sha256 d"
    using cs(3) texts by (fastforce simp: list_all_iff portable_texts_def cs(1) check_pairs_def)
  then have "native_checks (sn_checks s) = Inr ()" using native_checks_ok [OF cs(1) _ _ cs(2)] rest(6) by blast
  moreover have "list_all (\<lambda>p. list_ex (py_eq p) (elems (sn_changed_paths s))) (elems (sn_deleted_paths s))"
    using ds(4) by (auto simp: ps(1) ds(1) list_all_iff list_ex_iff)
  moreover have "naive_datetime (butlast (str_of (sn_observed_at s))) \<and> last (str_of (sn_observed_at s)) = CHR ''Z''"
    by (rule rfc3339_naive [OF rest(1,2)])
  moreover have "str_of (sn_freshness_cas s) = cas" "str_of (sn_locator_hash s) = lh"
    using cas(2) lh(2) strs by (auto simp: is_str_iff)
  moreover have "length owner \<le> MAX_CONTENT_BYTES \<and> length name \<le> MAX_CONTENT_BYTES \<and> normalized owner \<and> normalized name"
    using is_name_text [OF names(2)] is_name_text [OF names(4)] by (simp add: MAX_CONTENT_BYTES_def)
  ultimately show ?thesis
    using names pr shas diff ne cas lh pag rest(3,4) time strs digests
    by (simp add: native_acquisition_post_init_def native_sha_git native_sha_digest native_text_iff sha_text_is_sha256
        eseq_Inr_iff ebind_Inr_iff guard_Inr_iff del: sha_text_eq_iff)
qed

lemma native_snapshot_loads:
  assumes "snapshot_post_init s = Inr ()" "portable_texts s" "is_str (sn_freshness_cas s)" "is_str (sn_locator_hash s)"
  shows "native_acquisition_from_dict (snapshot_to_dict s) = Inr s"
  using to_dict_fields [OF assms(1)] native_post_init [OF assms]
  by (simp add: native_acquisition_from_dict_def GitHubAcquisitionReceipt_def as_malformed_receipt_def guard_def snapshot_to_dict_def)

interpretation acquisition_receipts: codec "\<lambda>s. Inr (snapshot_to_dict s)" native_acquisition_from_dict
  "\<lambda>s. snapshot_post_init s = Inr () \<and> portable_texts s \<and> is_str (sn_freshness_cas s) \<and> is_str (sn_locator_hash s)"
  by unfold_locales (auto simp: native_snapshot_loads)

end
