(* ===== verification/Native_Runner_Properties.thy ===== *)
theory Native_Runner_Properties
  imports Native_Runner Native_Properties Runner_Claims
begin

text \<open>
  The portable runner receipt: what its constructors accept, that its dictionary loads back, and that every
  result of the runner, with the pinned profile, makes one.
\<close>

section \<open>Attempts\<close>

lemma native_counts: "check_junit xml data code = Inr c \<Longrightarrow> native_junit_counts xml data code = Inr c"
proof -
  assume c: "check_junit xml data code = Inr c"
  then obtain root where root: "data \<noteq> []" "\<not> contains ''<!DOCTYPE'' data" "\<not> contains ''<!ENTITY'' data" "xml data = Inr root"
    by (auto simp: check_junit_def ebind_Inr_iff split: if_splits)
  define suites where "suites = (if el_tag root = ''testsuites'' then el_children root else [root])"
  obtain t f e where "count_sum suites ''tests'' = Inr t" "count_sum suites ''failures'' = Inr f" "count_sum suites ''errors'' = Inr e"
    "\<not> (t \<le> 0 \<or> f < 0 \<or> e < 0 \<or> f + e > t \<or> (code = 0 \<and> f + e \<noteq> 0))" "c = (t, f, e)"
    using c root by (auto simp: check_junit_def Let_def ebind_Inr_iff suites_def [symmetric] split: if_splits)
  then show ?thesis using root
    by (simp add: native_junit_counts_def Let_def suites_def [symmetric] as_malformed_junit_def)
qed

definition argv_ok :: "pyval list \<Rightarrow> bool" where
  "argv_ok argv \<longleftrightarrow> argv \<noteq> [] \<and> (\<forall>x \<in> set argv. is_str x \<and> str_of x \<noteq> [] \<and> str_of x \<notin> {''sh'', ''bash'', ''-c'', ''--command''})"

lemma argv_check_iff: "argv_check argv m = Inr () \<longleftrightarrow> argv_ok argv"
  by (auto simp: argv_check_def argv_ok_def eseq_Inr_iff guard_Inr_iff list_all_iff list_ex_iff)

definition attempt_ok :: "xml_parser \<Rightarrow> execution_attempt \<Rightarrow> bool" where
  "attempt_ok xml a \<longleftrightarrow>
     (\<forall>t \<in> {ea_attempt_id a, ea_execution_id a}. normalized t \<and> length t \<le> MAX_CONTENT_BYTES) \<and>
     is_sha40 (ea_source_revision a) \<and> is_sha40 (ea_source_tree a) \<and>
     (\<forall>h \<in> {ea_contract_hash a, ea_plan_hash a, ea_environment_hash a, ea_artifact_hash a, ea_outcome_hash a}. is_sha256 h) \<and>
     argv_ok (ea_argv a) \<and> (\<forall>b \<in> {ea_stdout a, ea_stderr a, ea_junit a}. length b \<le> MAX_CONTENT_BYTES) \<and>
     0 \<le> ea_junit_tests a \<and> 0 \<le> ea_junit_failures a \<and> 0 \<le> ea_junit_errors a \<and>
     native_junit_counts xml (ea_junit a) (ea_exit_code a) = Inr (ea_junit_tests a, ea_junit_failures a, ea_junit_errors a)"

lemma attempt_fields_get:
  "get (items (native_attempt_to_dict a)) ''attempt_id'' = PStr (ea_attempt_id a)"
  "get (items (native_attempt_to_dict a)) ''execution_id'' = PStr (ea_execution_id a)"
  "get (items (native_attempt_to_dict a)) ''source_revision'' = PStr (ea_source_revision a)"
  "get (items (native_attempt_to_dict a)) ''source_tree'' = PStr (ea_source_tree a)"
  "get (items (native_attempt_to_dict a)) ''contract_hash'' = PStr (ea_contract_hash a)"
  "get (items (native_attempt_to_dict a)) ''plan_hash'' = PStr (ea_plan_hash a)"
  "get (items (native_attempt_to_dict a)) ''environment_hash'' = PStr (ea_environment_hash a)"
  "get (items (native_attempt_to_dict a)) ''argv'' = PList (ea_argv a)"
  "get (items (native_attempt_to_dict a)) ''exit_code'' = PInt (ea_exit_code a)"
  "get (items (native_attempt_to_dict a)) ''artifact_hash'' = PStr (ea_artifact_hash a)"
  "get (items (native_attempt_to_dict a)) ''junit_tests'' = PInt (ea_junit_tests a)"
  "get (items (native_attempt_to_dict a)) ''junit_failures'' = PInt (ea_junit_failures a)"
  "get (items (native_attempt_to_dict a)) ''junit_errors'' = PInt (ea_junit_errors a)"
  "get (items (native_attempt_to_dict a)) ''outcome_hash'' = PStr (ea_outcome_hash a)"
  by (simp_all add: native_attempt_to_dict_def native_attempt_fields_def get_simps)

lemma attempt_hex:
  "hex_item (items (native_attempt_to_dict a)) ''stdout'' = Inr (ea_stdout a)"
  "hex_item (items (native_attempt_to_dict a)) ''stderr'' = Inr (ea_stderr a)"
  "hex_item (items (native_attempt_to_dict a)) ''junit'' = Inr (ea_junit a)"
  by (simp_all add: native_attempt_to_dict_def native_attempt_fields_def hex_item_def getitem_def fromhex_bytes)

lemma attempt_receipt_accepted:
  assumes "attempt_ok xml a"
  shows "native_load_attempt xml (native_attempt_to_dict a) = Inr a"
proof -
  define f where "f = (get (items (native_attempt_to_dict a)))(''argv'' := PTuple (ea_argv a), ''stdout'' := PBytes (ea_stdout a),
    ''stderr'' := PBytes (ea_stderr a), ''junit'' := PBytes (ea_junit a))"
  have of: "native_attempt_of f = a"
    by (cases a) (simp add: native_attempt_of_def f_def attempt_fields_get the_bytes_def int_of_def)
  have "PythonExecutionAttemptReceipt xml f = Inr a"
    using assms unfolding PythonExecutionAttemptReceipt_def Let_def of
    by (simp add: f_def attempt_fields_get attempt_ok_def eseq_Inr_iff ebind_Inr_iff guard_Inr_iff efor_Inr_iff native_text_iff
        native_sha_git sha40_str_def native_sha_digest argv_check_iff native_int_def the_bytes_def)
  then show ?thesis
    by (simp add: native_load_attempt_def Let_def attempt_fields_get attempt_hex py_list_def f_def)
qed

lemma attempt_keys: "is_dict (native_attempt_to_dict a) \<and> keys_are (items (native_attempt_to_dict a)) ATTEMPT_KEYS"
proof -
  have keys: "ATTEMPT_KEYS = map fst (native_attempt_fields a)" by (simp add: ATTEMPT_KEYS_def native_attempt_fields_def)
  show ?thesis unfolding keys native_attempt_to_dict_def using keys_are_mkdict by simp
qed

lemma digests_are_sha256:
  "artifact_digest i d x y z = Inr h \<Longrightarrow> is_sha256 h" "outcome_digest b v c r = Inr h \<Longrightarrow> is_sha256 h"
  by (auto simp: artifact_digest_def outcome_digest_def ebind_Inr_iff sha_text_is_sha256 simp del: dumps.simps)

lemma attempt_counts:
  "\<lparr>ea_attempt_id = i, ea_execution_id = x, ea_source_revision = r, ea_source_tree = t, ea_contract_hash = c, ea_plan_hash = p,
     ea_environment_hash = v, ea_argv = w, ea_stdout = out, ea_stderr = err, ea_exit_code = code, ea_junit = j, ea_artifact_hash = h,
     ea_junit_tests = n, ea_junit_failures = f, ea_junit_errors = e, ea_outcome_hash = q\<rparr> = a \<Longrightarrow>
   ea_junit_tests a = n \<and> ea_junit_failures a = f \<and> ea_junit_errors a = e"
  by auto

text \<open>Every attempt that loads back in the runner is one the evidence core accepts.\<close>

lemma loaded_attempt:
  assumes load: "load_attempt xml default_profile (attempt_to_dict a) = Inr a" and argv: "ea_argv a = map PStr COMMAND"
    and len: "length (ea_attempt_id a) \<le> MAX_CONTENT_BYTES" "length (ea_execution_id a) \<le> MAX_CONTENT_BYTES"
  shows "attempt_ok xml a \<and> native_evidence xml default_profile a = Inr ()"
proof -
  let ?d = "items (attempt_to_dict a)"
  note facts = attempt_dict_get [of a] attempt_dict_item [of a] attempt_dict_hex [of a]
  have dict: "is_dict (attempt_to_dict a)" by (simp add: attempt_to_dict_def)
  obtain t f e artifact root outcome where parts:
    "is_sha40 (ea_source_revision a)" "is_sha40 (ea_source_tree a)" "is_sha256 (ea_contract_hash a)" "is_sha256 (ea_plan_hash a)"
    "is_sha256 (ea_environment_hash a)" "normalized (ea_attempt_id a)" "normalized (ea_execution_id a)"
    "list_all (\<lambda>x. length x \<le> MAX_OUTPUT_BYTES) [ea_stdout a, ea_stderr a, ea_junit a]"
    "check_junit xml (ea_junit a) (ea_exit_code a) = Inr (t, f, e)"
    "artifact_digest (attempt_identity (frozen_value ?d) (ea_argv a) (t, f, e) (ea_exit_code a)) DEPENDENCY_ARTIFACTS_HASH
       (ea_stdout a) (ea_stderr a) (ea_junit a) = Inr artifact"
    "xml (ea_junit a) = Inr root" "outcome_digest (map (\<lambda>k. str_of (get ?d k)) BINDINGS) (ea_argv a) (ea_exit_code a) root = Inr outcome"
    "t = ea_junit_tests a" "f = ea_junit_failures a" "e = ea_junit_errors a" "artifact = ea_artifact_hash a" "outcome = ea_outcome_hash a"
    using load
    by (auto simp: load_attempt_def Let_def dict facts git_item_check_def item_check_def py_list_def digest_check_def text_check_def
        is_sha256_def eseq_Inr_iff ebind_Inr_iff guard_Inr_iff efor_Inr_iff simp del: py_eqs.simps dest!: attempt_counts)
  have argv_ok: "argv_ok (ea_argv a)" by (simp add: argv argv_ok_def COMMAND_def)
  have digests: "is_sha256 (ea_artifact_hash a)" "is_sha256 (ea_outcome_hash a)"
    using digests_are_sha256(1) [OF parts(10)] digests_are_sha256(2) [OF parts(12)] parts(16,17) by simp_all
  have "attempt_identity (frozen_value ?d) argv' counts code = attempt_identity (native_identity default_profile a) argv' counts code"
    for argv' counts code
    by (simp add: attempt_identity_def frozen_value_def native_identity_def facts default_profile_def get_simps)
  moreover have "map (\<lambda>k. str_of (get ?d k)) BINDINGS = native_bindings a"
    by (simp add: BINDINGS_def native_bindings_def facts)
  ultimately have "native_evidence xml default_profile a = Inr ()"
    using parts by (simp add: native_evidence_def default_profile_def guard_def)
  then show ?thesis
    using parts argv_ok digests len check_junit_counts [OF parts(9)] native_counts [OF parts(9)]
    by (simp add: attempt_ok_def MAX_OUTPUT_BYTES_def MAX_CONTENT_BYTES_def)
qed

section \<open>The receipt\<close>

lemma profile_receipt_tuple: "PythonRunnerProfileReceipt p = Inr q \<Longrightarrow> q = p \<and> is_tuple (pf_command p)"
  by (auto simp: PythonRunnerProfileReceipt_def eseq_Inr_iff guard_Inr_iff)

lemma native_profile_keys:
  "is_dict (native_profile_to_dict p)" "keys_are (items (native_profile_to_dict p)) NATIVE_PROFILE_KEYS"
  by (simp_all add: keys_are_def has_key_def NATIVE_PROFILE_KEYS_def native_profile_to_dict_def native_profile_fields_def)

lemma native_profile_of:
  assumes "is_tuple (pf_command p)"
  shows "profile_of (items (native_profile_to_dict p)) (PTuple (elems (pf_command p))) = p"
    and "get (items (native_profile_to_dict p)) ''command'' = PList (elems (pf_command p))"
  using assms by (cases p; auto simp: profile_of_def native_profile_to_dict_def native_profile_fields_def get_simps is_tuple_iff)+

lemma runner_fields_get:
  "get (items (native_runner_to_dict n)) ''status'' = nr_status n"
  "get (items (native_runner_to_dict n)) ''reason_codes'' = PList (elems (nr_reason_codes n))"
  "get (items (native_runner_to_dict n)) ''profile_hash'' = nr_profile_hash n"
  "get (items (native_runner_to_dict n)) ''attempt_ids'' = PList (elems (nr_attempt_ids n))"
  "get (items (native_runner_to_dict n)) ''artifact_hashes'' = PList (elems (nr_artifact_hashes n))"
  "get (items (native_runner_to_dict n)) ''attempts'' = PList (map native_attempt_to_dict (nr_attempts n))"
  "get (items (native_runner_to_dict n)) ''profile'' = native_profile_to_dict (nr_profile n)"
  by (simp_all add: native_runner_to_dict_def native_runner_fields_def get_simps)

lemma runner_keys: "is_dict (native_runner_to_dict n)" "keys_are (items (native_runner_to_dict n)) RUNNER_KEYS"
  by (simp_all add: keys_are_def has_key_def RUNNER_KEYS_def native_runner_to_dict_def native_runner_fields_def)

lemma emap_inverse: "\<forall>x \<in> set xs. f (g x) = Inr x \<Longrightarrow> emap f (map g xs) = Inr xs"
  by (induction xs) simp_all

definition portable_run :: "xml_parser \<Rightarrow> native_runner \<Rightarrow> bool" where
  "portable_run xml n \<longleftrightarrow> native_runner_post_init xml n = Inr () \<and> (\<forall>a \<in> set (nr_attempts n). attempt_ok xml a) \<and>
     PythonRunnerProfileReceipt (nr_profile n) = Inr (nr_profile n)"

lemma native_runner_loads:
  assumes "portable_run xml n"
  shows "native_runner_from_dict xml None (native_runner_to_dict n) = Inr n"
proof -
  have ok: "native_runner_post_init xml n = Inr ()" "\<forall>a \<in> set (nr_attempts n). attempt_ok xml a"
    "PythonRunnerProfileReceipt (nr_profile n) = Inr (nr_profile n)" using assms by (auto simp: portable_run_def)
  have cmd: "is_tuple (pf_command (nr_profile n))" using profile_receipt_tuple [OF ok(3)] by simp
  have tuples: "PTuple (elems (nr_reason_codes n)) = nr_reason_codes n" "PTuple (elems (nr_attempt_ids n)) = nr_attempt_ids n"
    "PTuple (elems (nr_artifact_hashes n)) = nr_artifact_hashes n"
    using ok(1) by (auto simp: native_runner_post_init_def eseq_Inr_iff ebind_Inr_iff guard_Inr_iff is_tuple_iff)
  have attempts: "emap (native_load_attempt xml) (map native_attempt_to_dict (nr_attempts n)) = Inr (nr_attempts n)"
    using ok(2) attempt_receipt_accepted by (intro emap_inverse) blast
  have items: "list_all (\<lambda>x. is_dict x \<and> keys_are (items x) ATTEMPT_KEYS) (map native_attempt_to_dict (nr_attempts n))"
    using attempt_keys by (simp add: list_all_iff)
  have eta: "\<lparr>nr_status = nr_status n, nr_reason_codes = nr_reason_codes n, nr_profile_hash = nr_profile_hash n,
    nr_attempt_ids = nr_attempt_ids n, nr_artifact_hashes = nr_artifact_hashes n, nr_attempts = nr_attempts n,
    nr_profile = nr_profile n\<rparr> = n" by simp
  show ?thesis
    using ok(1) ok(3) attempts items tuples
    by (simp add: eta native_runner_from_dict_def Let_def runner_keys runner_fields_get native_profile_keys native_profile_of [OF cmd]
        py_list_def guard_def as_malformed_runner_def PythonRunnerReceipt_def)
qed

interpretation runner_receipts: codec "\<lambda>n. Inr (native_runner_to_dict n)" "native_runner_from_dict xml None" "portable_run xml" for xml
  by unfold_locales (auto simp: native_runner_loads)

section \<open>Results of the runner\<close>

lemma dumps_permuted:
  assumes "mset kvs = mset kvs'" "distinct (map fst kvs)"
  shows "dumps compact_sorted (mkdict kvs) = dumps compact_sorted (mkdict kvs')"
proof -
  let ?d = "\<lambda>kvs. map (\<lambda>(k, v). (PStr k, v :: pyval)) kvs"
  have "mset (?d kvs) = mset (?d kvs')" using assms(1) by (simp add: mset_map)
  moreover have "map (\<lambda>p. str_of (fst p)) (?d kvs) = map fst kvs" by auto
  then have "inj_on (\<lambda>p. str_of (fst p)) (set (?d kvs))" using assms(2) by (metis distinct_map)
  ultimately have "ordered compact_sorted (?d kvs) = ordered compact_sorted (?d kvs')"
    by (simp add: ordered_def compact_sorted_def sort_key_inj_key_eq)
  then show ?thesis using dumps_ordered [of compact_sorted "?d kvs"] dumps_ordered [of compact_sorted "?d kvs'"]
    by (simp add: mkdict_def)
qed

lemma native_hash_of_profile: "native_profile_hash p = profile_hash p"
proof -
  have "dumps compact_sorted (mkdict (native_profile_fields p)) = dumps compact_sorted (profile_to_dict p)"
    unfolding profile_to_dict_def by (rule dumps_permuted) (simp_all add: native_profile_fields_def)
  then show ?thesis by (simp only: native_profile_hash_def native_profile_to_dict_def profile_hash_def)
qed

lemma default_profile_receipt: "PythonRunnerProfileReceipt default_profile = Inr default_profile"
proof -
  have "normalized PROFILE_ID" "normalized IMAGE" "normalized ''none''" "normalized ''read-only''"
    "is_sha256 IMAGE_DIGEST" "is_sha256 LOCK_DIGEST" by code_simp+
  moreover have "length PROFILE_ID \<le> 1048576" "length IMAGE \<le> 1048576" by (simp_all add: PROFILE_ID_def IMAGE_def)
  moreover have "\<not> isl (dumps compact DEPENDENCY_ARTIFACTS)" by (simp add: DEPENDENCY_ARTIFACTS_def)
  then have "is_sha256 DEPENDENCY_ARTIFACTS_HASH"
    by (cases "dumps compact DEPENDENCY_ARTIFACTS") (simp_all add: DEPENDENCY_ARTIFACTS_HASH_def sha_text_is_sha256)
  ultimately show ?thesis
    by (simp add: PythonRunnerProfileReceipt_def default_profile_def eseq_Inr_iff guard_Inr_iff native_text_iff native_sha_digest
        argv_check_iff argv_ok_def COMMAND_def native_int_def MAX_CONTENT_BYTES_def)
qed

text \<open>The portable receipt of a result, and two attempts the outcome hash does not tell apart.\<close>

definition native_of :: "runner_result \<Rightarrow> native_runner" where
  "native_of r = \<lparr>nr_status = PStr (runner_status_value (rs_status r)), nr_reason_codes = PTuple (map PStr (rs_reason_codes r)),
     nr_profile_hash = PStr (rs_profile_hash r), nr_attempt_ids = PTuple (map PStr (rs_attempt_ids r)),
     nr_artifact_hashes = PTuple (map PStr (rs_artifact_hashes r)), nr_attempts = rs_attempts r, nr_profile = default_profile\<rparr>"

definition outcome_ambiguous :: "runner_result \<Rightarrow> bool" where
  "outcome_ambiguous r \<longleftrightarrow> (\<exists>a b. rs_attempts r = [a, b] \<and> ea_outcome_hash a = ea_outcome_hash b \<and>
     (ea_exit_code a \<noteq> ea_exit_code b \<or>
      ea_junit_failures a + ea_junit_errors a \<noteq> ea_junit_failures b + ea_junit_errors b))"

definition portable_attempts :: "runner_result \<Rightarrow> bool" where
  "portable_attempts r \<longleftrightarrow> (\<forall>a \<in> set (rs_attempts r). ea_argv a = map PStr COMMAND)"

definition bounded_ids :: "runner_result \<Rightarrow> bool" where
  "bounded_ids r \<longleftrightarrow> (\<forall>a \<in> set (rs_attempts r). length (ea_attempt_id a) \<le> MAX_CONTENT_BYTES \<and> length (ea_execution_id a) \<le> MAX_CONTENT_BYTES)"

lemma load_zero_parts:
  "load_zero d = Inr r \<Longrightarrow> rs_attempts r = [] \<and> rs_attempt_ids r = [] \<and> rs_artifact_hashes r = [] \<and>
     profile_hash default_profile = Inr (rs_profile_hash r) \<and> rs_status r = RUN_UNVERIFIABLE \<and>
     rs_reason_codes r = map str_of (elems (get d ''reason_codes'')) \<and>
     list_ex (\<lambda>c. py_eqs (elems (get d ''reason_codes'')) [PStr c]) ZERO_ATTEMPT_REASONS"
  by (auto simp: load_zero_def Let_def eseq_Inr_iff ebind_Inr_iff guard_Inr_iff simp del: py_eqs.simps)

lemma load_two_parts:
  "load_two d a b = Inr r \<Longrightarrow> rs_attempts r = [a, b] \<and> rs_attempt_ids r = map ea_attempt_id [a, b] \<and>
     rs_artifact_hashes r = map ea_artifact_hash [a, b] \<and> profile_hash default_profile = Inr (rs_profile_hash r) \<and>
     recomputed_verdict a b = (rs_status r, rs_reason_codes r)"
  by (auto simp: load_two_def eseq_Inr_iff ebind_Inr_iff split: prod.splits simp del: py_eqs.simps)

lemma loaded_result:
  assumes "from_dict xml files (runner_result_to_dict r) = Inr r" "load_profile files = Inr default_profile"
  shows "\<forall>a \<in> set (rs_attempts r). load_attempt xml default_profile (attempt_to_dict a) = Inr a"
    and "profile_hash default_profile = Inr (rs_profile_hash r) \<and> rs_attempt_ids r = map ea_attempt_id (rs_attempts r) \<and>
      rs_artifact_hashes r = map ea_artifact_hash (rs_attempts r) \<and>
      ((rs_attempts r = [] \<and> rs_status r = RUN_UNVERIFIABLE \<and> (\<exists>c \<in> set ZERO_ATTEMPT_REASONS. rs_reason_codes r = [c])) \<or>
       (\<exists>a b. rs_attempts r = [a, b] \<and> recomputed_verdict a b = (rs_status r, rs_reason_codes r)))"
proof -
  let ?d = "items (runner_result_to_dict r)"
  have get: "get_default ?d ''attempts'' (PTuple []) = PList (map attempt_to_dict (rs_attempts r))"
    "get ?d ''reason_codes'' = PList (map PStr (rs_reason_codes r))"
    by (simp_all add: runner_result_to_dict_def get_default_def get_simps)
  obtain as where as: "emap (load_attempt xml default_profile) (map attempt_to_dict (rs_attempts r)) = Inr as"
    and which: "(case as of [] \<Rightarrow> load_zero ?d | [a, b] \<Rightarrow> load_two ?d a b
      | _ \<Rightarrow> Inl (ValueErr, ''receipt requires two distinct executions'')) = Inr r"
    using assms by (auto simp: from_dict_def eseq_Inr_iff ebind_Inr_iff get py_list_def simp del: emap_Inr_iff)
  have cases: "(as = [] \<and> load_zero ?d = Inr r) \<or> (\<exists>a b. as = [a, b] \<and> load_two ?d a b = Inr r)"
    using which by (auto split: list.splits)
  have eq: "rs_attempts r = as" using cases load_zero_parts load_two_parts by blast
  show "\<forall>a \<in> set (rs_attempts r). load_attempt xml default_profile (attempt_to_dict a) = Inr a"
    using as unfolding eq emap_Inr_iff list_all2_map1 by (auto simp: list_all2_same)
  show "profile_hash default_profile = Inr (rs_profile_hash r) \<and> rs_attempt_ids r = map ea_attempt_id (rs_attempts r) \<and>
      rs_artifact_hashes r = map ea_artifact_hash (rs_attempts r) \<and>
      ((rs_attempts r = [] \<and> rs_status r = RUN_UNVERIFIABLE \<and> (\<exists>c \<in> set ZERO_ATTEMPT_REASONS. rs_reason_codes r = [c])) \<or>
       (\<exists>a b. rs_attempts r = [a, b] \<and> recomputed_verdict a b = (rs_status r, rs_reason_codes r)))"
    using cases
  proof
    assume "as = [] \<and> load_zero ?d = Inr r"
    then show ?thesis using load_zero_parts [of ?d r] py_eqs_strs [of "rs_reason_codes r" "[c]" for c]
      by (auto simp: get(2) list_ex_iff simp del: py_eqs_strs)
  next
    assume "\<exists>a b. as = [a, b] \<and> load_two ?d a b = Inr r"
    then show ?thesis using load_two_parts by fastforce
  qed
qed

lemma profile_hash_is_sha256: "profile_hash p = Inr h \<Longrightarrow> is_sha256 h"
  by (auto simp: profile_hash_def ebind_Inr_iff sha_text_is_sha256)

lemma truth_table:
  assumes "rs_attempts r = [a, b]" "recomputed_verdict a b = (rs_status r, rs_reason_codes r)" "\<not> outcome_ambiguous r"
    and "0 \<le> ea_junit_failures a" "0 \<le> ea_junit_errors a"
  shows "native_truth_table (runner_status_value (rs_status r)) (rs_reason_codes r) [a, b] = Inr ()"
  using assms
  by (cases "rs_status r") (auto simp: native_truth_table_def recomputed_verdict_def same_outcome_def outcome_ambiguous_def
      Let_def eseq_Inr_iff guard_Inr_iff split: if_splits)

lemma runner_result_is_portable:
  assumes load: "from_dict xml files (runner_result_to_dict r) = Inr r" "load_profile files = Inr default_profile"
    and "portable_attempts r" "bounded_ids r" "\<not> outcome_ambiguous r"
  shows "portable_run xml (native_of r)"
proof -
  note facts = loaded_result [OF load]
  have attempts: "attempt_ok xml a \<and> native_evidence xml default_profile a = Inr ()" if "a \<in> set (rs_attempts r)" for a
    using loaded_attempt facts(1) assms(3,4) that by (auto simp: portable_attempts_def bounded_ids_def)
  have table: "native_truth_table (runner_status_value (rs_status r)) (rs_reason_codes r) (rs_attempts r) = Inr ()"
    using facts(2)
  proof (elim conjE disjE exE)
    fix a b assume ab: "rs_attempts r = [a, b]" "recomputed_verdict a b = (rs_status r, rs_reason_codes r)"
    then have "attempt_ok xml a" using attempts by simp
    then show ?thesis using truth_table [OF ab assms(5)] ab by (simp add: attempt_ok_def)
  qed (auto simp: native_truth_table_def ZERO_ATTEMPT_REASONS_def eseq_Inr_iff guard_Inr_iff)
  have "is_sha256 (rs_profile_hash r)" using facts(2) profile_hash_is_sha256 by blast
  moreover have "\<forall>h \<in> set (rs_artifact_hashes r). is_sha256 h"
    using facts(2) attempts by (auto simp: attempt_ok_def)
  ultimately have "native_runner_post_init xml (native_of r) = Inr ()"
    using facts(2) table attempts
    by (cases "rs_status r") (auto simp: native_runner_post_init_def native_of_def native_hash_of_profile eseq_Inr_iff ebind_Inr_iff guard_Inr_iff
        efor_Inr_iff native_sha_digest comp_def list_all_iff)
  then show ?thesis using attempts default_profile_receipt by (simp add: portable_run_def native_of_def)
qed

lemma made_argv:
  assumes "make_attempt xml default_profile raw q i = Inr a" "plain_dict raw"
  shows "ea_argv a = map PStr COMMAND"
proof -
  have argv: "py_list (get_default (items raw) ''argv'' (pf_command default_profile)) = Inr (ea_argv a)"
    "py_eqs (ea_argv a) (map PStr COMMAND)"
    using assms(1) by (rule make_attempt_parts, simp_all add: default_profile_def)+
  have "plain (get_default (items raw) ''argv'' (pf_command default_profile))"
    using plain_get [OF assms(2), of "''argv''"]
    by (auto simp: get_default_def get_def default_profile_def COMMAND_def split: option.splits)
  then show ?thesis using plain_list [OF _ argv(1)] argv(2) by (intro plain_strs)
qed

lemma run_portable:
  assumes "run xml default_profile ex rep q = (Inr r, rep')" "plain_executor ex"
    and stored: "\<forall>key x. rep key = Some x \<longrightarrow> portable_attempts x"
  shows "portable_attempts r \<and> (\<forall>key x. rep' key = Some x \<longrightarrow> portable_attempts x)"
proof -
  have none: "unknown_result default_profile cs = Inr x \<Longrightarrow> portable_attempts x" for cs x
    by (auto simp: unknown_result_def portable_attempts_def ebind_Inr_iff)
  have two: "judge_attempts default_profile a b = Inr x \<Longrightarrow> rs_attempts x = [a, b]" for a b x
    by (auto simp: judge_attempts_def attempts_result_def ebind_Inr_iff split: if_splits)
  from assms(1) show ?thesis
  proof (cases rule: run_cases)
    case (judged key raw1 raw2 a b)
    have "plain_dict raw1" "plain_dict raw2" using assms(2) judged by (auto simp: plain_executor_def)
    then have "ea_argv a = map PStr COMMAND" "ea_argv b = map PStr COMMAND" using judged made_argv by blast+
    then have "portable_attempts r" using two judged by (fastforce simp: portable_attempts_def)
    then show ?thesis using stored judged by auto
  qed (use none stored in auto)
qed

definition table_portable :: "replay \<Rightarrow> bool" where
  "table_portable rep \<longleftrightarrow> (\<forall>key r. rep key = Some r \<longrightarrow> portable_attempts r)"

interpretation portable_table: invariant_system "\<lambda>rep. rep = Map.empty" "runner_step xml default_profile" table_portable for xml
proof
  show "table_portable rep" if "rep = Map.empty" for rep using that by (simp add: table_portable_def)
  show "table_portable rep'" if inv: "table_portable rep" and step: "runner_step xml default_profile rep rep'" for rep rep'
    using step
  proof (rule runner_stepE)
    fix ex q res assume "plain_executor ex" "run xml default_profile ex rep q = (res, rep')"
    then show ?thesis using inv run_portable [of xml ex rep q _ rep'] run_raises_keeps [of xml default_profile ex rep q _ rep']
      by (cases res) (auto simp: table_portable_def)
  qed
qed

section \<open>What crosses into the evidence core\<close>

text \<open>Acquired snapshots are portable.  A snapshot returned by the acquisition for a well-formed locator, whose
  timestamp and check names fit the limit of the evidence core and whose freshness hash is a plain string, is
  accepted by the evidence core's own constructor, field by field the same after transport as a dictionary.\<close>

lemma acquired_snapshot_is_portable:
  assumes "acquire_github_pull_request port loc = Inr s" "portable_texts s" "is_str (sn_freshness_cas s)"
  shows "GitHubAcquisitionReceipt s = Inr s \<and> native_acquisition_from_dict (snapshot_to_dict s) = Inr s"
proof -
  obtain first where parsed: "parse_snapshot first loc = Inr s" using assms(1) by (rule acquire_parts)
  then have ok: "snapshot_post_init s = Inr ()" by (rule parse_typed(1))
  have "is_str (sn_locator_hash s)"
    using parsed by (auto simp: parse_snapshot_def Let_def eseq_Inr_iff ebind_Inr_iff snapshot_Inr)
  then show ?thesis
    using native_post_init [OF ok assms(2,3)] native_snapshot_loads [OF ok assms(2,3)] by (simp add: GitHubAcquisitionReceipt_def)
qed

lemma acquired_snapshot_is_portable_witness:
  "acquire_github_pull_request (\<lambda>_ _. Inr sample_response) sample_locator = Inr sample_snapshot \<and>
   native_acquisition_from_dict (snapshot_to_dict sample_snapshot) = Inr sample_snapshot"
proof -
  have "portable_texts sample_snapshot" "is_str (sn_freshness_cas sample_snapshot)"
    by (simp_all add: portable_texts_def sample_snapshot_def sample_draft_def MAX_CONTENT_BYTES_def)
  then show ?thesis using acquired_snapshot_is_portable [OF sample_acquired] sample_acquired by blast
qed

text \<open>C37: runner results are portable.  Let the profile on disk be the pinned one and every executor plain: among the
  values it reports are no floats and no enumeration members, which equal the profile's and print differently.
  Then every result of a run, first or replayed, whose attempt and execution identifiers have at most 1048576
  characters makes a receipt of the evidence core that survives transport as a dictionary: attempts, profile,
  artifact and outcome hashes, and the truth table of status and reasons are all accepted.  The exception is an
  outcome hash shared by two attempts with different exit codes or different numbers of failures.\<close>

theorem runner_result_crosses:
  assumes "load_profile files = Inr default_profile" "(runner_step xml default_profile)\<^sup>*\<^sup>* Map.empty rep"
    and "plain_executor ex" "run xml default_profile ex rep q = (Inr r, rep')" "bounded_ids r"
  shows "native_runner_from_dict xml None (native_runner_to_dict (native_of r)) = Inr (native_of r) \<or> outcome_ambiguous r"
proof -
  have "table_portable rep" using portable_table.reachable_inv [OF refl assms(2)] .
  then have "portable_attempts r" using run_portable [OF assms(4,3)] by (simp add: table_portable_def)
  moreover have "table_loads_back xml files rep" using stored.reachable_inv [OF refl assms(2)] .
  then have "from_dict xml files (runner_result_to_dict r) = Inr r"
    using run_loads_back [OF assms(4,3,1)] assms(1) by (simp add: table_loads_back_def loads_back_def)
  ultimately show ?thesis using runner_result_is_portable [OF _ assms(1)] native_runner_loads assms(5) by blast
qed

lemma sample_made:
  assumes "make_attempt sample_xml default_profile (sample_raw sample_run_request i) sample_run_request i = Inr a" "i < 10"
  shows "length (ea_attempt_id a) \<le> 100" "length (ea_execution_id a) \<le> 100" "ea_exit_code a = 0"
    "ea_junit_failures a + ea_junit_errors a = 0"
proof -
  have one: "length (show_nat i) = 1" using assms(2) by (subst show_nat.simps) simp
  show "length (ea_attempt_id a) \<le> 100" "length (ea_execution_id a) \<le> 100"
    using assms(1) by (rule make_attempt_parts, simp_all add: one sample_run_request_def get_simps py_str_def sample_raw_get)+
  show e: "ea_exit_code a = 0" using assms(1) by (rule make_attempt_parts, simp add: sample_raw_get)
  show "ea_junit_failures a + ea_junit_errors a = 0"
    using assms(1) by (rule make_attempt_parts) (use e in \<open>auto dest: check_junit_counts\<close>)
qed

lemma sample_result_portable:
  assumes "run sample_xml default_profile sample_executor Map.empty sample_run_request = (Inr r, rep)" "rs_status r = RUN_VERIFIED"
  shows "bounded_ids r \<and> \<not> outcome_ambiguous r"
  using assms(1)
proof (cases rule: run_cases)
  case (judged key raw1 raw2 a b)
  then have a: "make_attempt sample_xml default_profile (sample_raw sample_run_request 1) sample_run_request 1 = Inr a"
    and b: "make_attempt sample_xml default_profile (sample_raw sample_run_request 2) sample_run_request 2 = Inr b"
    by (simp_all add: sample_executor_def)
  have "rs_attempts r = [a, b]"
    using judged by (auto simp: judge_attempts_def attempts_result_def ebind_Inr_iff split: if_splits)
  then show ?thesis using sample_made [OF a] sample_made [OF b]
    by (auto simp: bounded_ids_def outcome_ambiguous_def MAX_CONTENT_BYTES_def)
qed (use assms(2) in \<open>auto simp: unknown_result_def ebind_Inr_iff\<close>)

theorem runner_result_crosses_witness:
  "\<exists>r rep. run sample_xml default_profile sample_executor Map.empty sample_run_request = (Inr r, rep) \<and> rs_status r = RUN_VERIFIED \<and>
     native_runner_from_dict sample_xml None (native_runner_to_dict (native_of r)) = Inr (native_of r)"
proof -
  obtain key where key: "validate_run_request sample_run_request = Inr key" using sample_request_valid by blast
  from sample_run [OF key valid_request_has [OF key]] obtain r where
    r: "run sample_xml default_profile sample_executor Map.empty sample_run_request = (Inr r, [key \<mapsto> r])" "rs_status r = RUN_VERIFIED"
    by blast
  then show ?thesis
    using runner_result_crosses [OF sample_loads rtranclp.rtrancl_refl sample_plain r(1)] sample_result_portable [OF r] by blast
qed

end
