(* ===== verification/Identity_Envelope.thy ===== *)
theory Identity_Envelope
  imports Native_Runner Ledger
begin

text \<open>
  The identity envelope of \<open>product/evidence/ingestion.py\<close>: the portable record that names, by hash, the
  context, the ingested bundle, the acquisition, the run and the external signature behind a certification,
  with \<open>make_identity_envelope\<close>, which builds one from accepted evidence only, and its serializer and loader.

  An argument of the wrong class is \<open>None\<close>; the verifier is \<open>None\<close> where none is given and \<open>Some None\<close> for
  an object without a \<open>verify\<close> method.  Context and result carry their identities, as in \<open>Ingestion\<close>.
\<close>

section \<open>The envelope\<close>

record identity =
  id_context_hash :: string
  id_profile_hash :: string
  id_bundle_hash :: string
  id_ingestion_receipt_hash :: string
  id_subject_hash :: string
  id_execution_id :: string
  id_attempt_id :: string
  id_generation :: string
  id_producer_id :: string
  id_issuer_id :: string
  id_acquisition_snapshot_hash :: string
  id_runner_result_hash :: string
  id_verification_receipt_hash :: string
  id_external_receipt_hashes :: "string list"
  id_identity_hash :: string

definition identity_of :: "(string \<Rightarrow> pyval) \<Rightarrow> identity" where
  "identity_of f = \<lparr>id_context_hash = str_of (f ''context_hash''), id_profile_hash = str_of (f ''profile_hash''),
     id_bundle_hash = str_of (f ''bundle_hash''), id_ingestion_receipt_hash = str_of (f ''ingestion_receipt_hash''),
     id_subject_hash = str_of (f ''subject_hash''), id_execution_id = str_of (f ''execution_id''),
     id_attempt_id = str_of (f ''attempt_id''), id_generation = str_of (f ''generation''),
     id_producer_id = str_of (f ''producer_id''), id_issuer_id = str_of (f ''issuer_id''),
     id_acquisition_snapshot_hash = str_of (f ''acquisition_snapshot_hash''), id_runner_result_hash = str_of (f ''runner_result_hash''),
     id_verification_receipt_hash = str_of (f ''verification_receipt_hash''),
     id_external_receipt_hashes = map str_of (elems (f ''external_receipt_hashes'')), id_identity_hash = str_of (f ''identity_hash'')\<rparr>"

text \<open>The fields that are hashed; a loaded or serialized envelope has its own hash after them.\<close>

definition identity_body :: "identity \<Rightarrow> (string \<times> pyval) list" where
  "identity_body e = [(''schema'', PStr IDENTITY_ENVELOPE_SCHEMA), (''context_hash'', PStr (id_context_hash e)),
     (''profile_hash'', PStr (id_profile_hash e)), (''bundle_hash'', PStr (id_bundle_hash e)),
     (''ingestion_receipt_hash'', PStr (id_ingestion_receipt_hash e)), (''subject_hash'', PStr (id_subject_hash e)),
     (''execution_id'', PStr (id_execution_id e)), (''attempt_id'', PStr (id_attempt_id e)),
     (''generation'', PStr (id_generation e)), (''producer_id'', PStr (id_producer_id e)), (''issuer_id'', PStr (id_issuer_id e)),
     (''acquisition_snapshot_hash'', PStr (id_acquisition_snapshot_hash e)), (''runner_result_hash'', PStr (id_runner_result_hash e)),
     (''verification_receipt_hash'', PStr (id_verification_receipt_hash e)),
     (''external_receipt_hashes'', PList (map PStr (id_external_receipt_hashes e)))]"

definition computed_identity_hash :: "identity \<Rightarrow> string res" where
  "computed_identity_hash e = ebind (dumps compact_sorted (mkdict (identity_body e))) (\<lambda>t. Inr (sha_text (utf8 t)))"

text \<open>\<open>_tuple_text\<close> on any value.\<close>

definition tuple_field :: "pyval \<Rightarrow> string \<Rightarrow> bool \<Rightarrow> unit res" where
  "tuple_field v name nonempty =
     eseq (guard (is_tuple v) TypeErr (name @ '' must be a tuple''))
    (eseq (efor (elems v) (\<lambda>x. text_field x name))
    (eseq (guard (distinct (map str_of (elems v))) ValueErr (name @ '' must not contain duplicates''))
    (eseq (guard (length (elems v) \<le> MAX_COLLECTION_ITEMS) ValueErr (name @ '' exceeds maximum size''))
       (guard (\<not> nonempty \<or> elems v \<noteq> []) ValueErr (name @ '' must be non-empty'')))))"

definition EvidenceIdentityEnvelope :: "(string \<Rightarrow> pyval) \<Rightarrow> identity res" where
  "EvidenceIdentityEnvelope f =
     (let e = identity_of f in
      eseq (efor [''context_hash'', ''profile_hash'', ''bundle_hash'', ''ingestion_receipt_hash'', ''subject_hash'', ''execution_id'',
                ''attempt_id'', ''generation'', ''producer_id'', ''issuer_id''] (\<lambda>k. text_field (f k) k))
     (eseq (efor [''context_hash'', ''profile_hash'', ''bundle_hash'', ''ingestion_receipt_hash'', ''subject_hash'',
                ''acquisition_snapshot_hash'', ''runner_result_hash'', ''verification_receipt_hash''] (\<lambda>k. hash_field (f k) k))
     (eseq (tuple_field (f ''external_receipt_hashes'') ''external_receipt_hashes'' False)
     (eseq (efor (elems (f ''external_receipt_hashes'')) (\<lambda>v. hash_field v ''external_receipt_hash''))
     (eseq (hash_field (f ''identity_hash'') ''identity_hash'')
     (ebind (computed_identity_hash e) (\<lambda>h.
      eseq (guard (id_identity_hash e = h) ValueErr ''identity_hash does not match envelope'') (Inr e))))))))"

text \<open>The field of an instance, and \<open>envelope.__post_init__()\<close> run again.\<close>

definition identity_field :: "identity \<Rightarrow> string \<Rightarrow> pyval" where
  "identity_field e k = (if k = ''external_receipt_hashes'' then strings (id_external_receipt_hashes e)
     else get (items (mkdict (identity_body e @ [(''identity_hash'', PStr (id_identity_hash e))]))) k)"

definition identity_post_init :: "identity \<Rightarrow> unit res" where
  "identity_post_init e = ebind (EvidenceIdentityEnvelope (identity_field e)) (\<lambda>_. Inr ())"

definition identity_to_dict :: "identity \<Rightarrow> pyval" where
  "identity_to_dict e = mkdict (identity_body e @ [(''identity_hash'', PStr (id_identity_hash e))])"

definition serialize_identity_envelope :: "identity option \<Rightarrow> pyval res" where
  "serialize_identity_envelope envelope =
     (case envelope of
        None \<Rightarrow> Inl (TypeErr, ''envelope must be EvidenceIdentityEnvelope'')
      | Some e \<Rightarrow> eseq (identity_post_init e) (Inr (identity_to_dict e)))"

definition IDENTITY_KEYS :: "string list" where
  "IDENTITY_KEYS = [''schema'', ''context_hash'', ''profile_hash'', ''bundle_hash'', ''ingestion_receipt_hash'', ''subject_hash'',
     ''execution_id'', ''attempt_id'', ''generation'', ''producer_id'', ''issuer_id'', ''acquisition_snapshot_hash'',
     ''runner_result_hash'', ''verification_receipt_hash'', ''external_receipt_hashes'', ''identity_hash'']"

definition load_identity_envelope :: "pyval \<Rightarrow> identity res" where
  "load_identity_envelope payload =
     (let d = items payload; hashes = get d ''external_receipt_hashes'' in
      eseq (guard (is_dict payload) TypeErr ''payload must be a mapping'')
     (eseq (guard (keys_are d IDENTITY_KEYS \<and> py_eq (get d ''schema'') (PStr IDENTITY_ENVELOPE_SCHEMA)) ValueErr
              ''malformed identity envelope'')
     (eseq (guard (is_list hashes) ValueErr ''external_receipt_hashes must be a list'')
     (ebind (py_sorted hashes) (\<lambda>xs.
      eseq (guard (py_eq hashes (PList xs)) ValueErr ''external_receipt_hashes must be sorted and unique'')
     (ebind (set_distinct (elems hashes)) (\<lambda>unique.
      eseq (guard unique ValueErr ''external_receipt_hashes must be sorted and unique'')
       (EvidenceIdentityEnvelope ((get d)(''external_receipt_hashes'' := PTuple (elems hashes))))))))))) "

section \<open>Making an envelope\<close>

record identity_inputs =
  ii_acquisition :: "snapshot option"
  ii_runner :: "native_runner option"
  ii_receipt :: "external_receipt option"
  ii_reference :: "trust_reference option"
  ii_verifier :: "ed25519_port option option"
  ii_payload :: pyval
  ii_signature :: pyval
  ii_observed_at :: "string option"
  ii_external_receipt_hashes :: pyval

text \<open>\<open>a + "/" + b\<close>.\<close>

definition joined_name :: "pyval \<Rightarrow> pyval \<Rightarrow> string res" where
  "joined_name a b = (if isinstance_str a \<and> isinstance_str b then Inr (str_of a @ ''/'' @ str_of b)
     else Inl (TypeErr, ''unsupported operand type(s) for +''))"

text \<open>The fields of the two receipts that differ from what the context and the requirement name.\<close>

definition acquisition_bound :: "ingestion_context \<Rightarrow> snapshot \<Rightarrow> bool res" where
  "acquisition_bound c s =
     (let cs = ic_change_set c in
      if \<not> (py_eq (sn_base_sha s) (cs_source_revision cs) \<and> py_eq (sn_head_sha s) (cs_target_revision cs) \<and>
            py_eq (sn_base_tree_sha s) (PStr (ic_source_tree c)) \<and> py_eq (sn_head_tree_sha s) (PStr (ic_target_tree c)) \<and>
            py_eq (sn_diff_hash s) (cs_diff_hash cs)) then Inr False
      else ebind (joined_name (sn_repository_owner s) (sn_repository_name s)) (\<lambda>repository.
        Inr (repository = ic_repository_id c \<and> py_eq (sn_changed_paths s) (cs_paths cs))))"

definition attempt_bound :: "ingestion_context \<Rightarrow> evidence_requirement \<Rightarrow> execution_attempt \<Rightarrow> bool res" where
  "attempt_bound c req a =
     (if \<not> (py_eq (PStr (ea_source_revision a)) (cs_target_revision (ic_change_set c)) \<and> ea_source_tree a = ic_target_tree c)
      then Inr False
      else ebind (contract_hash (ic_contract c)) (\<lambda>ach.
        if ea_contract_hash a \<noteq> ach then Inr False
        else ebind (plan_hash (ic_plan c)) (\<lambda>plh.
          Inr (ea_plan_hash a = plh \<and> ea_environment_hash a = er_environment_hash req \<and>
            ea_execution_id a = er_execution_id req \<and> ea_attempt_id a = er_attempt_id req))))"

definition native_bound :: "ingestion_context \<Rightarrow> evidence_requirement \<Rightarrow> snapshot \<Rightarrow> execution_attempt \<Rightarrow> unit res" where
  "native_bound c req s a =
     ebind (acquisition_bound c s) (\<lambda>ok.
     ebind (if ok then attempt_bound c req a else Inr False) (\<lambda>bound.
     eseq (guard bound ValueErr ''CROSS_BOUND:TG1_TG2'')
       (guard (List.member (map pg_producer_id (ip_producers (ic_profile c))) (er_producer_id req)) ValueErr ''CROSS_BOUND:producer'')))"

definition identity_subject :: "string \<Rightarrow> string \<Rightarrow> string \<Rightarrow> string res" where
  "identity_subject schema ch bh = hash_value (PTuple [PStr schema, PStr ch, PStr bh])"

text \<open>The grants of the profile under which the reference's issuer may allow the action.\<close>

definition issuer_granted :: "ingestion_context \<Rightarrow> trust_reference \<Rightarrow> string \<Rightarrow> unit res" where
  "issuer_granted c t issuer_id =
     eseq (guard (tr_issuer_id t = issuer_id \<and> tr_action t = ic_required_action c) ValueErr ''CROSS_BOUND:issuer_action'')
    (case find (\<lambda>g. ig_issuer_id g = issuer_id) (ip_issuers (ic_profile c)) of
       None \<Rightarrow> Inl (ValueErr, ''CROSS_BOUND:issuer_role'')
     | Some g \<Rightarrow>
         eseq (guard (List.member (ig_roles g) (tr_role t)) ValueErr ''CROSS_BOUND:issuer_role'')
        (eseq (guard (List.member (ig_actions g) (ic_required_action c) \<and> tr_action t = ic_required_action c \<and>
                 List.member (ig_verification_methods g) (tr_verification_method t)) ValueErr ''CROSS_BOUND:issuer_action'')
          (guard (tr_decision t = TD_ALLOW) ValueErr ''CROSS_BOUND:issuer_decision'')))"

definition reference_bound :: "ingestion_context \<Rightarrow> trust_reference \<Rightarrow> string \<Rightarrow> string \<Rightarrow> unit res" where
  "reference_bound c t ch bh =
     ebind (identity_subject ''nexus.trusted_prerequisite_subject.v1-experimental'' ch bh) (\<lambda>subject.
     eseq (guard (tr_subject_hash t = subject) ValueErr ''CROSS_BOUND:issuer_subject'')
       (guard (map_of (rev (ic_prerequisite_payload_hashes c)) (tr_role t) = Some (tr_payload_hash t)) ValueErr
          ''CROSS_BOUND:issuer_payload''))"

definition as_unverified :: "'a res \<Rightarrow> 'a res" where
  "as_unverified r = (case r of
     Inl (e, m) \<Rightarrow> if e = TypeErr \<or> is_value_error e then Inl (ValueErr, ''UNVERIFIED_EXTERNAL_RECEIPT'') else Inl (e, m)
   | Inr x \<Rightarrow> Inr x)"

definition signature_bound ::
  "trust_reference \<Rightarrow> ed25519_port option \<Rightarrow> external_receipt \<Rightarrow> pyval \<Rightarrow> pyval \<Rightarrow> string \<Rightarrow> string \<Rightarrow> string \<Rightarrow> unit res" where
  "signature_bound t verifier x payload signature observed_at acquisition_h runner_h =
     ebind (as_unverified (parse_external_signature_payload payload)) (\<lambda>doc.
     eseq (guard (py_eq (get doc ''acquisition_snapshot_hash'') (PStr acquisition_h) \<and>
             py_eq (get doc ''runner_result_hash'') (PStr runner_h)) ValueErr ''CROSS_BOUND:TG1_TG2'')
    (ebind (verify_trust_reference_signature t verifier (xr_issuer_id x) (xr_key_id x) payload signature (Some x) (Some observed_at)) (\<lambda>ok.
       guard ok ValueErr ''UNVERIFIED_EXTERNAL_RECEIPT'')))"

text \<open>The last part: the values of the fields, the identity hash, and the constructor's checks.\<close>

definition sealed_identity :: "identity \<Rightarrow> identity res" where
  "sealed_identity e = ebind (computed_identity_hash e) (\<lambda>h.
     let s = e\<lparr>id_identity_hash := h\<rparr> in eseq (identity_post_init s) (Inr s))"

definition finish_identity ::
  "ingestion_context \<Rightarrow> ingestion_result \<Rightarrow> evidence_requirement \<Rightarrow> execution_attempt \<Rightarrow> external_receipt \<Rightarrow> string \<Rightarrow> string \<Rightarrow>
   string \<Rightarrow> string \<Rightarrow> pyval \<Rightarrow> identity res" where
  "finish_identity c r req a x ch bh acquisition_h runner_h hashes =
     eseq (tuple_field hashes ''external_receipt_hashes'' False)
    (ebind (py_sorted hashes) (\<lambda>xs.
     eseq (guard (py_eq hashes (PTuple xs)) ValueErr ''external_receipt_hashes must be sorted'')
    (ebind (ingestion_profile_hash (ic_profile c)) (\<lambda>ph.
     ebind (identity_subject ''nexus.evidence.identity-subject.v1'' ch bh) (\<lambda>subject.
       sealed_identity \<lparr>id_context_hash = ch, id_profile_hash = ph, id_bundle_hash = bh,
         id_ingestion_receipt_hash = ir_receipt_hash (in_receipt r), id_subject_hash = subject,
         id_execution_id = ea_execution_id a, id_attempt_id = ea_attempt_id a, id_generation = generation_value (er_generation req),
         id_producer_id = er_producer_id req, id_issuer_id = xr_issuer_id x, id_acquisition_snapshot_hash = acquisition_h,
         id_runner_result_hash = runner_h, id_verification_receipt_hash = xr_receipt_hash x,
         id_external_receipt_hashes = map str_of xs, id_identity_hash = ''sha256:'' @ replicate 64 (CHR ''0'')\<rparr>)))))"

text \<open>What needs the external side, once the receipts are bound to requirement \<open>req\<close> by attempt \<open>a\<close>.\<close>

definition external_identity ::
  "ingestion_context \<Rightarrow> ingestion_result \<Rightarrow> evidence_bundle \<Rightarrow> evidence_requirement \<Rightarrow> snapshot \<Rightarrow> native_runner \<Rightarrow>
   execution_attempt \<Rightarrow> identity_inputs \<Rightarrow> identity res" where
  "external_identity c r b req s n a i =
     (case ii_receipt i of
        None \<Rightarrow> Inl (TypeErr, ''verified external receipt is required'')
      | Some x \<Rightarrow>
          eseq (external_receipt_post_init x)
         (eseq (guard (xr_status x = ''VERIFIED'' \<and> \<not> xr_revoked x) ValueErr ''UNTRUSTED_EXTERNAL_RECEIPT'')
         (ebind (py_list (ii_external_receipt_hashes i)) (\<lambda>hs.
          eseq (guard (py_eqs hs [PStr (xr_external_receipt_hash x)]) ValueErr ''CROSS_BOUND:external_receipt'')
         (case (ii_reference i, ii_verifier i, ii_observed_at i) of
            (Some t, Some verifier, Some at) \<Rightarrow>
              eseq (guard (ii_payload i \<noteq> PNone \<and> ii_signature i \<noteq> PNone) ValueErr ''EXTERNAL_REFERENCE_REQUIRED'')
             (eseq (issuer_granted c t (xr_issuer_id x))
             (ebind (context_hash c) (\<lambda>ch.
              ebind (bundle_hash b) (\<lambda>bh.
              eseq (reference_bound c t ch bh)
             (ebind (native_receipt_hash (snapshot_to_dict s)) (\<lambda>acquisition_h.
              ebind (native_receipt_hash (native_runner_to_dict n)) (\<lambda>runner_h.
              eseq (signature_bound t verifier x (ii_payload i) (ii_signature i) at acquisition_h runner_h)
               (finish_identity c r req a x ch bh acquisition_h runner_h (ii_external_receipt_hashes i)))))))))
          | _ \<Rightarrow> Inl (ValueErr, ''EXTERNAL_REFERENCE_REQUIRED''))))))"

definition make_identity_envelope ::
  "nat \<Rightarrow> ingestion_context \<Rightarrow> trusted \<Rightarrow> nat \<Rightarrow> ingestion_result \<Rightarrow> identity_inputs \<Rightarrow> identity res" where
  "make_identity_envelope cid c tab rid r i =
     ebind (is_trusted_ingestion_result cid c tab rid r) (\<lambda>trusted.
     (case (if trusted then in_bundle r else None) of
        None \<Rightarrow> Inl (ValueErr, ''UNTRUSTED_INGESTION'')
      | Some b \<Rightarrow>
         (case (ii_acquisition i, ii_runner i) of
            (Some s, Some n) \<Rightarrow>
              eseq (guard (py_eq (nr_status n) (PStr ''VERIFIED'') \<and> length (nr_attempts n) = 2) ValueErr ''TG2 receipt has no attempts'')
             (case ic_requirements c of
                [req] \<Rightarrow>
                  (case find (\<lambda>a. ea_attempt_id a = er_attempt_id req) (nr_attempts n) of
                     None \<Rightarrow> Inl (ValueErr, ''TG2 attempt is not bound to requirement'')
                   | Some a \<Rightarrow> eseq (native_bound c req s a) (external_identity c r b req s n a i))
              | _ \<Rightarrow> Inl (ValueErr, ''identity requires one bound requirement''))
          | _ \<Rightarrow> Inl (TypeErr, ''TG1/TG2 receipt types are required''))))"

end
