(* ===== verification/External_Trust_Properties.thy ===== *)
theory External_Trust_Properties
  imports External_Trust Schema_Properties
begin

text \<open>
  The signed payload and the external receipt are codecs, and what a signature check that succeeds rests on.
\<close>

section \<open>Flat objects as canonical text\<close>

definition canonical_items :: "pydict \<Rightarrow> pydict" where
  "canonical_items d = ordered compact_sorted d"

lemma canonical_text:
  assumes "distinct (map fst d)" "list_all (\<lambda>p. is_str (fst p) \<and> jv compact_sorted (snd p)) d"
  obtains t where "dumps compact_sorted (PDict d) = Inr t" "loads_bytes (utf8 t) = Inr (PDict (canonical_items d))"
proof -
  have jv: "jv compact_sorted (PDict (canonical_items d))"
    using assms by (simp add: canonical_items_def list_all_iff distinct_ordered)
  then obtain t where "dumps compact_sorted (PDict (canonical_items d)) = Inr t"
    using loads_dumps [OF wf_styles(1)] by blast
  then show ?thesis using that loads_bytes_dumps [OF wf_styles(1) jv] by (simp only: canonical_items_def dumps_ordered)
qed

lemma dget_canonical:
  assumes "distinct (map fst d)" "list_all (\<lambda>p. is_str (fst p)) d"
  shows "dget (canonical_items d) k = dget d k"
  unfolding canonical_items_def
  by (rule dget_set_eq) (use assms in \<open>auto simp: distinct_ordered list_all_iff\<close>)

lemma keys_are_canonical:
  assumes "distinct (map fst d)" "list_all (\<lambda>p. is_str (fst p)) d"
  shows "keys_are (canonical_items d) ks \<longleftrightarrow> keys_are d ks"
  using dget_canonical [OF assms] by (simp add: keys_are_def has_key_def list_all_iff) (simp add: canonical_items_def)

section \<open>The signed payload\<close>

definition signed_items :: "(string \<Rightarrow> pyval) \<Rightarrow> pydict" where
  "signed_items f = canonical_items (items (mkdict (signed_values f)))"

lemma fields_checked: "(if h then hash_field v k else text_field v k) = Inr () \<Longrightarrow> is_str v"
  by (auto simp: hash_field_def text_field_def eseq_Inr_iff guard_Inr_iff split: if_splits)

lemma signed_values_keys: "map fst (signed_values f) = ''schema'' # map fst SIGNED_FIELDS"
  by (simp add: signed_values_def SIGNED_FIELDS_def)

lemma signed_values_distinct: "distinct (map fst (items (mkdict (signed_values f))))"
  by (simp add: signed_values_def SIGNED_FIELDS_def)

lemma mkdict_str_keys: "list_all (\<lambda>p. is_str (fst p)) (items (mkdict kvs))"
  by (auto simp: list_all_iff)

lemma map_of_fields: "map_of (map (\<lambda>(k, _). (k, f k)) ks) k = (if k \<in> fst ` set ks then Some (f k) else None)"
  by (induction ks) auto

lemma no_schema: "''schema'' \<notin> fst ` set SIGNED_FIELDS"
  by (simp add: SIGNED_FIELDS_def)

lemma get_signed_items: "k \<in> fst ` set SIGNED_FIELDS \<Longrightarrow> get (signed_items f) k = f k"
  "get (signed_items f) ''schema'' = PStr EXTERNAL_SIGNATURE_PAYLOAD_SCHEMA"
proof -
  have eq: "get (signed_items f) k = get (items (mkdict (signed_values f))) k" for k
    unfolding signed_items_def get_def
    by (simp only: dget_canonical [OF signed_values_distinct mkdict_str_keys])
  show "k \<in> fst ` set SIGNED_FIELDS \<Longrightarrow> get (signed_items f) k = f k"
    "get (signed_items f) ''schema'' = PStr EXTERNAL_SIGNATURE_PAYLOAD_SCHEMA"
    unfolding eq unfolding get_def items_mkdict dget_mkdict signed_values_def
    using no_schema by (force simp: map_of_fields)+
qed

lemma build_cong: "(\<And>k. k \<in> fst ` set SIGNED_FIELDS \<Longrightarrow> f k = g k) \<Longrightarrow>
    build_external_signature_payload f = build_external_signature_payload g"
  by (simp add: build_external_signature_payload_def signed_values_def SIGNED_FIELDS_def)

lemma build_loads:
  assumes "build_external_signature_payload f = Inr b"
  shows "loads_bytes b = Inr (PDict (signed_items f))"
proof -
  obtain t where t: "dumps compact_sorted (mkdict (signed_values f)) = Inr t" "b = utf8 t"
    and fields: "\<forall>(k, h) \<in> set SIGNED_FIELDS. is_str (f k)"
    using assms fields_checked by (fastforce simp: build_external_signature_payload_def eseq_Inr_iff ebind_Inr_iff efor_Inr_iff)
  have "list_all (\<lambda>p. is_str (fst p) \<and> jv compact_sorted (snd p)) (items (mkdict (signed_values f)))"
    using fields by (auto simp: signed_values_def SIGNED_FIELDS_def is_str_iff)
  from canonical_text [OF signed_values_distinct this] show ?thesis
    using t by (auto simp: signed_items_def mkdict_def)
qed

lemma parse_signature_iff:
  "parse_external_signature_payload (PBytes b) = Inr d \<longleftrightarrow> build_external_signature_payload (get d) = Inr b \<and> d = signed_items (get d)"
proof
  assume "parse_external_signature_payload (PBytes b) = Inr d"
  then have d: "loads_bytes b = Inr (PDict d)" "build_external_signature_payload (get d) = Inr b"
    by (auto simp: parse_external_signature_payload_def ebind_Inr_iff eseq_Inr_iff guard_Inr_iff is_dict_iff
        split: sum.splits prod.splits if_splits)
  then show "build_external_signature_payload (get d) = Inr b \<and> d = signed_items (get d)"
    using build_loads [OF d(2)] by simp
next
  assume a: "build_external_signature_payload (get d) = Inr b \<and> d = signed_items (get d)"
  have "keys_are (signed_items (get d)) (''schema'' # map fst SIGNED_FIELDS)"
    unfolding signed_items_def
    by (subst keys_are_canonical [OF signed_values_distinct mkdict_str_keys])
      (use keys_are_mkdict [of "signed_values (get d)"] signed_values_keys [of "get d"] in simp_all)
  moreover have "py_eq (get (signed_items (get d)) ''schema'') (PStr EXTERNAL_SIGNATURE_PAYLOAD_SCHEMA)"
    using get_signed_items(2) by simp
  ultimately show "parse_external_signature_payload (PBytes b) = Inr d"
    using build_loads [of "get d" b] a
    by (simp add: parse_external_signature_payload_def guard_def)
qed

interpretation signature_payload: canonical_codec "\<lambda>d. build_external_signature_payload (get d)"
  "\<lambda>b. parse_external_signature_payload (PBytes b)" "\<lambda>d. d = signed_items (get d)"
  by unfold_locales (auto simp: parse_signature_iff)

lemma parse_signature_fields:
  assumes "build_external_signature_payload f = Inr b"
  shows "parse_external_signature_payload (PBytes b) = Inr (signed_items f)"
proof -
  have "build_external_signature_payload (get (signed_items f)) = Inr b"
    using assms build_cong [of "get (signed_items f)" f] get_signed_items(1) by simp
  moreover have "signed_items (get (signed_items f)) = signed_items f"
    using get_signed_items(1) [of _ f] by (simp add: signed_items_def signed_values_def SIGNED_FIELDS_def)
  ultimately show ?thesis by (simp add: parse_signature_iff)
qed

section \<open>The external receipt\<close>

lemma text_field_iff: "text_field v n = Inr () \<longleftrightarrow> (\<exists>s. v = PStr s \<and> normalized s \<and> length s \<le> 4096)"
  by (cases v) (auto simp: text_field_def eseq_Inr_iff guard_Inr_iff text_bounded_iff)

lemma hash_field_iff: "hash_field v n = Inr () \<longleftrightarrow> (\<exists>s. v = PStr s \<and> is_sha256 s)"
  using is_sha256_text by (cases v) (auto simp: hash_field_def text_field_def eseq_Inr_iff guard_Inr_iff hash_text_iff)

definition receipt_ok :: "external_receipt \<Rightarrow> bool" where
  "receipt_ok r \<longleftrightarrow> (\<forall>t \<in> {xr_issuer_id r, xr_key_id r}. normalized t \<and> length t \<le> 4096) \<and>
     xr_algorithm r = ''Ed25519'' \<and> is_sha256 (xr_payload_hash r) \<and> is_sha256 (xr_signature_hash r) \<and>
     is_sha256 (xr_external_receipt_hash r) \<and> xr_status r \<in> set EXTERNAL_VERIFICATION_STATUSES \<and>
     (xr_revoked r \<longleftrightarrow> xr_status r = ''REVOKED'') \<and> external_receipt_digest r = Inr (xr_receipt_hash r)"

lemma status_texts: "s \<in> set EXTERNAL_VERIFICATION_STATUSES \<Longrightarrow> normalized s \<and> length s \<le> 4096"
proof -
  have "list_all (\<lambda>s. normalized s \<and> length s \<le> 4096) EXTERNAL_VERIFICATION_STATUSES" by code_simp
  then show "s \<in> set EXTERNAL_VERIFICATION_STATUSES \<Longrightarrow> normalized s \<and> length s \<le> 4096" by (simp add: list_all_iff)
qed

lemma Ed25519_text: "normalized ''Ed25519''"
  by code_simp

lemma external_receipt_digest_total: "\<exists>h. external_receipt_digest r = Inr h \<and> is_sha256 h"
  unfolding external_receipt_digest_def by (rule hash_value_ok) simp

lemma receipt_fields_get:
  "get (items (mkdict (external_receipt_fields r))) ''issuer_id'' = PStr (xr_issuer_id r)"
  "get (items (mkdict (external_receipt_fields r))) ''algorithm'' = PStr (xr_algorithm r)"
  "get (items (mkdict (external_receipt_fields r))) ''key_id'' = PStr (xr_key_id r)"
  "get (items (mkdict (external_receipt_fields r))) ''payload_hash'' = PStr (xr_payload_hash r)"
  "get (items (mkdict (external_receipt_fields r))) ''signature_hash'' = PStr (xr_signature_hash r)"
  "get (items (mkdict (external_receipt_fields r))) ''external_receipt_hash'' = PStr (xr_external_receipt_hash r)"
  "get (items (mkdict (external_receipt_fields r))) ''revoked'' = PBool (xr_revoked r)"
  "get (items (mkdict (external_receipt_fields r))) ''status'' = PStr (xr_status r)"
  "get (items (mkdict (external_receipt_fields r))) ''receipt_hash'' = PStr (xr_receipt_hash r)"
  by (simp_all add: external_receipt_fields_def get_simps)

lemma external_receipt_of_fields: "external_receipt_of (get (items (mkdict (external_receipt_fields r)))) = r"
  by (cases r) (simp only: external_receipt_of_def receipt_fields_get, simp)

lemma ExternalVerificationReceipt_Inr:
  "ExternalVerificationReceipt f = Inr r \<longleftrightarrow> receipt_ok r \<and>
     (\<forall>k \<in> set RECEIPT_FIELDS. f k = get (items (mkdict (external_receipt_fields r))) k)"
proof
  assume l: "ExternalVerificationReceipt f = Inr r"
  then have r: "r = external_receipt_of f" "external_receipt_digest r = Inr (xr_receipt_hash r)"
    "xr_algorithm r = ''Ed25519''" "xr_status r \<in> set EXTERNAL_VERIFICATION_STATUSES" "xr_revoked r \<longleftrightarrow> xr_status r = ''REVOKED''"
    and texts: "\<forall>k \<in> {''issuer_id'', ''algorithm'', ''key_id'', ''status''}. \<exists>s. f k = PStr s \<and> normalized s \<and> length s \<le> 4096"
    and hashes: "\<forall>k \<in> {''payload_hash'', ''signature_hash'', ''external_receipt_hash'', ''receipt_hash''}. \<exists>s. f k = PStr s \<and> is_sha256 s"
    and flag: "is_bool (f ''revoked'')"
    by (auto simp: ExternalVerificationReceipt_def Let_def eseq_Inr_iff ebind_Inr_iff guard_Inr_iff text_field_iff hash_field_iff)
  obtain a b c d p q u h w where "f ''issuer_id'' = PStr a" "f ''algorithm'' = PStr b" "f ''key_id'' = PStr c" "f ''status'' = PStr d"
    "f ''payload_hash'' = PStr p" "f ''signature_hash'' = PStr q" "f ''external_receipt_hash'' = PStr u" "f ''receipt_hash'' = PStr h"
    "f ''revoked'' = PBool w" using texts hashes flag by (auto simp: is_bool_iff)
  then show "receipt_ok r \<and> (\<forall>k \<in> set RECEIPT_FIELDS. f k = get (items (mkdict (external_receipt_fields r))) k)"
    using texts hashes r unfolding RECEIPT_FIELDS_def
    by (simp add: receipt_ok_def external_receipt_of_def receipt_fields_get del: items_mkdict)
next
  assume ok: "receipt_ok r \<and> (\<forall>k \<in> set RECEIPT_FIELDS. f k = get (items (mkdict (external_receipt_fields r))) k)"
  then have f: "f ''issuer_id'' = PStr (xr_issuer_id r)" "f ''algorithm'' = PStr (xr_algorithm r)" "f ''key_id'' = PStr (xr_key_id r)"
    "f ''payload_hash'' = PStr (xr_payload_hash r)" "f ''signature_hash'' = PStr (xr_signature_hash r)"
    "f ''external_receipt_hash'' = PStr (xr_external_receipt_hash r)" "f ''revoked'' = PBool (xr_revoked r)"
    "f ''status'' = PStr (xr_status r)" "f ''receipt_hash'' = PStr (xr_receipt_hash r)"
    unfolding RECEIPT_FIELDS_def by (simp_all only: list.set ball_simps insert_iff receipt_fields_get)
  then have "external_receipt_of f = r" by (cases r) (simp add: external_receipt_of_def)
  then show "ExternalVerificationReceipt f = Inr r"
    using ok status_texts [of "xr_status r"] Ed25519_text external_receipt_digest_total [of r]
    by (auto simp: ExternalVerificationReceipt_def Let_def eseq_Inr_iff ebind_Inr_iff guard_Inr_iff text_field_iff hash_field_iff f
        receipt_ok_def)
qed

lemma external_receipt_post_init_iff: "external_receipt_post_init r = Inr () \<longleftrightarrow> receipt_ok r"
proof -
  have "ExternalVerificationReceipt (get (items (mkdict (external_receipt_fields r)))) = Inr r'
      \<Longrightarrow> r' = r" for r'
    using external_receipt_of_fields [of r]
    by (auto simp: ExternalVerificationReceipt_def Let_def eseq_Inr_iff ebind_Inr_iff)
  then show ?thesis
    by (auto simp: external_receipt_post_init_def ebind_Inr_iff ExternalVerificationReceipt_Inr)
qed

lemma load_external_receipt:
  assumes "receipt_ok r"
  shows "load_external_verification_receipt (external_receipt_to_dict r) = Inr r"
proof -
  let ?kvs = "(''schema'', PStr EXTERNAL_RECEIPT_SCHEMA) # external_receipt_fields r"
  have keys: "''schema'' # RECEIPT_FIELDS = map fst ?kvs" by (simp add: external_receipt_fields_def RECEIPT_FIELDS_def)
  have "\<forall>k \<in> set RECEIPT_FIELDS. get (items (mkdict ?kvs)) k = get (items (mkdict (external_receipt_fields r))) k"
    by (simp add: RECEIPT_FIELDS_def get_simps)
  then have "ExternalVerificationReceipt (get (items (mkdict ?kvs))) = Inr r"
    using assms by (simp only: ExternalVerificationReceipt_Inr simp_thms)
  moreover have "keys_are (items (mkdict ?kvs)) (''schema'' # RECEIPT_FIELDS)" unfolding keys by (rule keys_are_mkdict)
  moreover have "get (items (mkdict ?kvs)) ''schema'' = PStr EXTERNAL_RECEIPT_SCHEMA" by (simp add: get_simps)
  ultimately show ?thesis
    by (simp add: load_external_verification_receipt_def external_receipt_to_dict_def guard_def del: items_mkdict)
qed

interpretation external_receipts: codec "\<lambda>r. eseq (external_receipt_post_init r) (Inr (external_receipt_to_dict r))"
  load_external_verification_receipt "\<lambda>_. True"
  by unfold_locales (auto simp: eseq_Inr_iff external_receipt_post_init_iff load_external_receipt)

section \<open>A verified signature\<close>

text \<open>The port accepts exactly these bytes for this issuer and key.\<close>

definition signature_accepted :: "ed25519_port option \<Rightarrow> string \<Rightarrow> string \<Rightarrow> pyval \<Rightarrow> pyval \<Rightarrow> bool" where
  "signature_accepted verifier issuer_id key_id payload signature \<longleftrightarrow>
     (\<exists>port p s. verifier = Some port \<and> payload = PBytes p \<and> signature = PBytes s \<and> p \<noteq> [] \<and> length s = 64 \<and>
        normalized issuer_id \<and> length issuer_id \<le> 4096 \<and> normalized key_id \<and> length key_id \<le> 4096 \<and>
        port issuer_id key_id ''Ed25519'' p s = Inr (PBool True))"

lemma verify_external_ed25519_True:
  "verify_external_ed25519 verifier issuer_id key_id payload signature = Inr True \<longleftrightarrow>
     signature_accepted verifier issuer_id key_id payload signature"
proof -
  have checks: "eseq (text_bounded issuer_id n) (eseq (text_bounded key_id m) r) = Inr v \<longleftrightarrow>
      normalized issuer_id \<and> length issuer_id \<le> 4096 \<and> normalized key_id \<and> length key_id \<le> 4096 \<and> r = Inr v"
    for n m and r :: "pyval res" and v
    by (auto simp: eseq_Inr_iff text_bounded_iff)
  have caught: "(case r of Inl (c, m) \<Rightarrow> if port_catches c then Inr False else Inl (c, m) | Inr answer \<Rightarrow> Inr (answer = PBool True)) = Inr True
      \<longleftrightarrow> r = Inr (PBool True)" for r :: "pyval res"
    by (auto split: sum.splits)
  show ?thesis
    by (cases verifier; cases payload; cases signature)
      (auto simp: verify_external_ed25519_def signature_accepted_def caught checks)
qed

text \<open>What a durable receipt says: \<open>VERIFIED\<close> only for bytes the port accepted.\<close>

lemma durable_receipt:
  assumes "verify_external_ed25519_receipt verifier issuer_id key_id payload signature receipt revoked = Inr x"
  shows "receipt_ok x \<and> xr_issuer_id x = issuer_id \<and> xr_key_id x = key_id \<and> xr_revoked x = revoked \<and>
    xr_payload_hash x = hash_or_zero payload \<and> xr_signature_hash x = hash_or_zero signature \<and>
    (xr_status x = ''VERIFIED'' \<longleftrightarrow> \<not> revoked \<and> signature_accepted verifier issuer_id key_id payload signature \<and>
       (\<exists>b. receipt = PBytes b \<and> b \<noteq> [] \<and> xr_external_receipt_hash x = sha_text b))"
proof -
  let ?shape = "case (signature, receipt) of (PBytes s, PBytes x) \<Rightarrow> length s = 64 \<and> x \<noteq> [] | _ \<Rightarrow> False"
  obtain verified where v: "(if ?shape \<and> \<not> revoked then verify_external_ed25519 verifier issuer_id key_id payload signature
      else Inr False) = Inr verified"
    and x: "receipt_ok x" "xr_issuer_id x = issuer_id" "xr_key_id x = key_id" "xr_revoked x = revoked"
    "xr_payload_hash x = hash_or_zero payload" "xr_signature_hash x = hash_or_zero signature"
    "xr_external_receipt_hash x = hash_or_zero (if receipt = PBytes [] then PNone else receipt)"
    "xr_status x = (if revoked then ''REVOKED'' else if verified then ''VERIFIED'' else ''INVALID'')"
    using assms
    by (auto simp: verify_external_ed25519_receipt_def Let_def ebind_Inr_iff eseq_Inr_iff external_receipt_post_init_iff)
  have "verified \<longleftrightarrow> \<not> revoked \<and> ?shape \<and> signature_accepted verifier issuer_id key_id payload signature"
    using v verify_external_ed25519_True [of verifier issuer_id key_id payload signature] by (auto split: if_splits)
  moreover have "?shape \<longleftrightarrow> (\<exists>b. receipt = PBytes b \<and> b \<noteq> [])" if "signature_accepted verifier issuer_id key_id payload signature"
    using that by (auto simp: signature_accepted_def split: pyval.splits)
  ultimately show ?thesis using x by (auto simp: hash_or_zero_def)
qed

lemma verify_external_ed25519_receipt_total:
  assumes "normalized issuer_id" "length issuer_id \<le> 4096" "normalized key_id" "length key_id \<le> 4096"
    "verify_external_ed25519 verifier issuer_id key_id payload signature = Inr b"
  shows "\<exists>x. verify_external_ed25519_receipt verifier issuer_id key_id payload signature receipt revoked = Inr x"
proof -
  have digest: "external_receipt_digest (r\<lparr>xr_receipt_hash := h\<rparr>) = external_receipt_digest r" for r h
    by (simp add: external_receipt_digest_def)
  have zero: "is_sha256 (hash_or_zero v)" for v
    using sample_sha_ok by (cases v) (simp_all add: hash_or_zero_def sample_sha_def)
  define shape where "shape = (case (signature, receipt) of (PBytes s, PBytes x) \<Rightarrow> length s = 64 \<and> x \<noteq> [] | _ \<Rightarrow> False)"
  obtain verified where v: "(if shape \<and> \<not> revoked then verify_external_ed25519 verifier issuer_id key_id payload signature
      else Inr False) = Inr verified"
    using assms(5) by (metis (full_types))
  define r where "r = \<lparr>xr_issuer_id = issuer_id, xr_algorithm = ''Ed25519'', xr_key_id = key_id, xr_payload_hash = hash_or_zero payload,
      xr_signature_hash = hash_or_zero signature,
      xr_external_receipt_hash = hash_or_zero (if receipt = PBytes [] then PNone else receipt), xr_revoked = revoked,
      xr_status = (if revoked then ''REVOKED'' else if verified then ''VERIFIED'' else ''INVALID''), xr_receipt_hash = []\<rparr>"
  obtain h where h: "external_receipt_digest r = Inr h" using external_receipt_digest_total by blast
  have "receipt_ok (r\<lparr>xr_receipt_hash := h\<rparr>)"
    using assms(1-4) zero h unfolding receipt_ok_def digest by (simp add: r_def EXTERNAL_VERIFICATION_STATUSES_def)
  then have "external_receipt_post_init (r\<lparr>xr_receipt_hash := h\<rparr>) = Inr ()" by (simp only: external_receipt_post_init_iff)
  then have "verify_external_ed25519_receipt verifier issuer_id key_id payload signature receipt revoked = Inr (r\<lparr>xr_receipt_hash := h\<rparr>)"
    unfolding verify_external_ed25519_receipt_def Let_def shape_def [symmetric] v ebind_simps r_def [symmetric] h by simp
  then show ?thesis by blast
qed

section \<open>A verified trust reference\<close>

definition signed_for :: "trust_reference \<Rightarrow> string \<Rightarrow> pydict \<Rightarrow> bool" where
  "signed_for t key_id doc \<longleftrightarrow> (\<forall>(k, expected) \<in> set (signed_expectations t key_id). get doc k = PStr expected)"

lemma parsed_str: "parse_external_signature_payload v = Inr doc \<Longrightarrow> k \<in> fst ` set SIGNED_FIELDS \<Longrightarrow> \<exists>s. get doc k = PStr s"
proof -
  assume p: "parse_external_signature_payload v = Inr doc" "k \<in> fst ` set SIGNED_FIELDS"
  then obtain b where "v = PBytes b" by (cases v) (auto simp: parse_external_signature_payload_def)
  then have "build_external_signature_payload (get doc) = Inr b" using p by (simp add: parse_signature_iff)
  then show ?thesis using p(2) fields_checked
    by (fastforce simp: build_external_signature_payload_def eseq_Inr_iff efor_Inr_iff is_str_iff)
qed

lemma signed_for_iff:
  assumes "parse_external_signature_payload v = Inr doc"
  shows "\<not> list_ex (\<lambda>(k, expected). \<not> py_eq (get doc k) (PStr expected)) (signed_expectations t key_id) \<longleftrightarrow> signed_for t key_id doc"
proof -
  have "fst ` set (signed_expectations t key_id) \<subseteq> fst ` set SIGNED_FIELDS"
    by (simp add: signed_expectations_def SIGNED_FIELDS_def)
  then have "py_eq (get doc k) (PStr e) \<longleftrightarrow> get doc k = PStr e" if "(k, e) \<in> set (signed_expectations t key_id)" for k e
    using parsed_str [OF assms, of k] that by force
  then show ?thesis by (auto simp: list_ex_iff signed_for_def)
qed

text \<open>Everything a signature check that succeeds rests on.\<close>

definition reference_verified ::
  "trust_reference \<Rightarrow> ed25519_port option \<Rightarrow> string \<Rightarrow> string \<Rightarrow> pyval \<Rightarrow> pyval \<Rightarrow> external_receipt option \<Rightarrow>
   string option \<Rightarrow> bool" where
  "reference_verified t verifier issuer_id key_id payload signature receipt observed_at \<longleftrightarrow>
     trust_reference_post_init t = Inr () \<and> tr_issuer_id t = issuer_id \<and> tr_revoked_at t = None \<and>
     (\<exists>doc. parse_external_signature_payload payload = Inr doc \<and> signed_for t key_id doc) \<and>
     (\<exists>at. observed_at = Some at \<and> in_force t at) \<and>
     (\<exists>x p s. receipt = Some x \<and> payload = PBytes p \<and> signature = PBytes s \<and> receipt_ok x \<and> xr_status x = ''VERIFIED'' \<and>
        xr_issuer_id x = issuer_id \<and> xr_key_id x = key_id \<and> xr_payload_hash x = sha_text p \<and> xr_signature_hash x = sha_text s \<and>
        xr_external_receipt_hash x = tr_receipt_hash t \<and> tr_signed_payload_hash t = sha_text p) \<and>
     signature_accepted verifier issuer_id key_id payload signature"

lemma raw_hash_Inr: "ebind (raw_hash v) f = Inr b \<longleftrightarrow> (\<exists>p. v = PBytes p \<and> f (sha_text p) = Inr b)"
  by (cases v) (simp_all add: raw_hash_def)

lemma receipt_mismatch_False:
  "receipt_mismatch t key_id payload signature x = Inr False \<longleftrightarrow> xr_status x = ''VERIFIED'' \<and> \<not> xr_revoked x \<and>
     xr_issuer_id x = tr_issuer_id t \<and> xr_key_id x = key_id \<and> xr_external_receipt_hash x = tr_receipt_hash t \<and>
     (\<exists>p s. payload = PBytes p \<and> signature = PBytes s \<and> xr_payload_hash x = sha_text p \<and> xr_signature_hash x = sha_text s)"
  by (auto simp: receipt_mismatch_def raw_hash_Inr)

lemma reference_checks_True:
  "reference_checks t verifier issuer_id key_id payload signature receipt observed_at = Inr True \<longleftrightarrow>
     reference_verified t verifier issuer_id key_id payload signature receipt observed_at"
proof
  assume l: "reference_checks t verifier issuer_id key_id payload signature receipt observed_at = Inr True"
  then obtain doc where doc: "parse_external_signature_payload payload = Inr doc" "trust_reference_post_init t = Inr ()"
    "tr_issuer_id t = issuer_id" "tr_revoked_at t = None"
    "\<not> list_ex (\<lambda>(k, expected). \<not> py_eq (get doc k) (PStr expected)) (signed_expectations t key_id)"
    by (auto simp: reference_checks_def eseq_Inr_iff ebind_Inr_iff split: if_splits)
  then obtain x at where x: "receipt = Some x" "external_receipt_post_init x = Inr ()" "observed_at = Some at" "in_force t at"
    "receipt_mismatch t key_id payload signature x = Inr False"
    using l by (auto simp: reference_checks_def eseq_Inr_iff ebind_Inr_iff split: if_splits option.splits)
  then obtain p where "payload = PBytes p" "tr_signed_payload_hash t = sha_text p"
    "verify_external_ed25519 verifier issuer_id key_id payload signature = Inr True"
    using l doc by (auto simp: reference_checks_def eseq_Inr_iff raw_hash_Inr split: if_splits)
  then show "reference_verified t verifier issuer_id key_id payload signature receipt observed_at"
    using doc x signed_for_iff [OF doc(1), of t key_id]
    by (auto simp: reference_verified_def receipt_mismatch_False verify_external_ed25519_True external_receipt_post_init_iff)
next
  assume v: "reference_verified t verifier issuer_id key_id payload signature receipt observed_at"
  then obtain doc at x p s where parts: "parse_external_signature_payload payload = Inr doc" "signed_for t key_id doc"
    "observed_at = Some at" "in_force t at" "receipt = Some x" "payload = PBytes p" "signature = PBytes s" "receipt_ok x"
    "xr_status x = ''VERIFIED''" "xr_issuer_id x = issuer_id" "xr_key_id x = key_id" "xr_payload_hash x = sha_text p"
    "xr_signature_hash x = sha_text s" "xr_external_receipt_hash x = tr_receipt_hash t" "tr_signed_payload_hash t = sha_text p"
    "trust_reference_post_init t = Inr ()" "tr_issuer_id t = issuer_id" "tr_revoked_at t = None"
    "signature_accepted verifier issuer_id key_id payload signature"
    unfolding reference_verified_def by blast
  have "p \<noteq> []" "text_bounded issuer_id n = Inr ()" for n
    using parts(6,19) by (auto simp: signature_accepted_def text_bounded_iff)
  moreover have "\<not> xr_revoked x" using parts(8,9) by (auto simp: receipt_ok_def)
  ultimately show "reference_checks t verifier issuer_id key_id payload signature receipt observed_at = Inr True"
    using parts signed_for_iff [OF parts(1), of t key_id] verify_external_ed25519_True [of verifier issuer_id key_id payload signature]
      receipt_mismatch_False [of t key_id payload signature x] external_receipt_post_init_iff [of x]
    by (simp add: reference_checks_def raw_hash_def)
qed

lemma verify_trust_reference_True:
  "verify_trust_reference_signature t verifier issuer_id key_id payload signature receipt observed_at = Inr True \<longleftrightarrow>
     reference_verified t verifier issuer_id key_id payload signature receipt observed_at"
  unfolding reference_checks_True [symmetric] verify_trust_reference_signature_def by (auto split: sum.splits)

end
