(* ===== verification/Ingestion_Claims.thy ===== *)
theory Ingestion_Claims
  imports Ingestion_Properties
begin

text \<open>
  The loop over the submissions and the properties of \<open>ingest_evidence\<close>: it always decides, the result is
  \<open>VALID\<close> exactly for the evidence the context expects, and exactly then it is trusted.
\<close>

section \<open>The requirement table\<close>

definition table_keyed :: "requirement_table \<Rightarrow> bool" where
  "table_keyed t \<longleftrightarrow> (\<forall>((v, a), r) \<in> set t. v = er_verifier_id r \<and> a = er_artifact_id r)"

lemma table_keyed_fold:
  "table_keyed t \<Longrightarrow> table_keyed (fold (\<lambda>r. AList.update (er_verifier_id r, er_artifact_id r) r) rs t)"
proof (induction rs arbitrary: t)
  case (Cons r rs)
  have "table_keyed (AList.update (er_verifier_id r, er_artifact_id r) r t)"
    using Cons.prems by (induction t) (auto simp: table_keyed_def split: if_splits)
  then show ?case using Cons.IH by simp
qed simp

lemma requirement_table_keyed: "table_keyed (requirement_table rs)"
  unfolding requirement_table_def by (rule table_keyed_fold) (simp add: table_keyed_def)

lemma update_fresh: "k \<notin> fst ` set t \<Longrightarrow> AList.update k v t = t @ [(k, v)]"
  by (induction t) auto

lemma requirement_table_fold:
  "distinct (map er_verifier_id rs) \<Longrightarrow> \<forall>r \<in> set rs. \<forall>e \<in> set t. fst (fst e) \<noteq> er_verifier_id r \<Longrightarrow>
   fold (\<lambda>r. AList.update (er_verifier_id r, er_artifact_id r) r) rs t =
     t @ map (\<lambda>r. ((er_verifier_id r, er_artifact_id r), r)) rs"
proof (induction rs arbitrary: t)
  case (Cons r rs)
  have "(er_verifier_id r, er_artifact_id r) \<notin> fst ` set t" using Cons.prems(2) by force
  moreover have "\<forall>q \<in> set rs. \<forall>e \<in> set (t @ [((er_verifier_id r, er_artifact_id r), r)]). fst (fst e) \<noteq> er_verifier_id q"
    using Cons.prems by auto
  ultimately show ?case using Cons.IH Cons.prems(1) by (simp add: update_fresh)
qed simp

lemma requirement_table_distinct:
  "distinct (map er_verifier_id rs) \<Longrightarrow>
   requirement_table rs = map (\<lambda>r. ((er_verifier_id r, er_artifact_id r), r)) rs"
  unfolding requirement_table_def using requirement_table_fold [of rs "[]"] by simp

lemma find_SomeD: "find P xs = Some x \<Longrightarrow> x \<in> set xs \<and> P x"
  by (metis find_Some_iff nth_mem)

lemma find_requirement_verifier:
  "find_requirement (requirement_table rs) p = Some req \<Longrightarrow> er_verifier_id req = pv_verifier_id p"
  using requirement_table_keyed [of rs]
  by (auto simp: find_requirement_def table_keyed_def split: option.splits dest!: map_of_SomeD find_SomeD)

text \<open>Without duplicate verifiers, the requirement a submission is matched with is the one of its verifier.\<close>

lemma find_requirement_iff:
  assumes "distinct (map er_verifier_id rs)"
  shows "find_requirement (requirement_table rs) p = Some req \<longleftrightarrow> req \<in> set rs \<and> er_verifier_id req = pv_verifier_id p"
proof -
  have unique: "q = r" if "q \<in> set rs" "r \<in> set rs" "er_verifier_id q = er_verifier_id r" for q r
    using assms that by (auto simp: distinct_map dest: inj_onD)
  have in_rs: "r \<in> set rs" if "find_requirement (requirement_table rs) p = Some r" for r
    using that unfolding requirement_table_distinct [OF assms] find_requirement_def
    by (auto split: option.splits dest!: map_of_SomeD find_SomeD)
  moreover have "\<exists>r. find_requirement (requirement_table rs) p = Some r"
    if "req \<in> set rs" "er_verifier_id req = pv_verifier_id p"
  proof (rule ccontr)
    assume "\<nexists>r. find_requirement (requirement_table rs) p = Some r"
    then have "find (\<lambda>((v, _), _). v = pv_verifier_id p) (map (\<lambda>r. ((er_verifier_id r, er_artifact_id r), r)) rs) = None"
      unfolding requirement_table_distinct [OF assms] find_requirement_def by (auto split: option.splits)
    then show False using that by (force simp: find_None_iff)
  qed
  ultimately show ?thesis using find_requirement_verifier [of rs p] in_rs unique by metis
qed

section \<open>One step\<close>

text \<open>What the loop keeps: known reasons and well-formed observations.\<close>

definition sound_progress :: "progress \<Rightarrow> bool" where
  "sound_progress st \<longleftrightarrow> list_all known_reason (pr_reasons st) \<and> (\<forall>x \<in> set (pr_observations st). wf_observation x)"

definition observed :: "submission \<Rightarrow> string \<Rightarrow> observation" where
  "observed s h = \<lparr>ob_verifier_id = PStr (pv_verifier_id (sb_provenance s)), ob_artifact_id = PStr (pv_artifact_id (sb_provenance s)),
     ob_artifact_hash = PStr h, ob_status = status_enum (sb_status s)\<rparr>"

lemma observed_wf: "constructed s \<Longrightarrow> is_sha256 h \<Longrightarrow> wf_observation (observed s h)"
  using constructed_parts(4,5) [of s] by (auto simp: wf_observation_def observed_def status_enum_def)

lemma record_observation_total:
  assumes "constructed s" "is_sha256 ph"
  shows "\<exists>st'. record_observation req s ph rs st = Inr st' \<and> pr_reasons st' = pr_reasons st \<and>
    pr_submitted st' = pr_submitted st \<and> pr_seen_artifacts st' = pr_seen_artifacts st \<and>
    pr_seen_verifiers st' = pr_seen_verifiers st \<and>
    pr_observations st' = pr_observations st @ (if status_mismatch req s then [] else [observed s ph])"
proof (cases "status_mismatch req s")
  case False
  then have "er_expected_status req = sb_status s" by (simp add: status_mismatch_def)
  then show ?thesis using False observed_wf [OF assms]
    by (simp add: record_observation_def Let_def Observation_Inr observed_def ebind_Inr_iff)
qed (simp add: record_observation_def Let_def)

text \<open>Every reason the code gives is one of the table of reason codes.\<close>

lemma known_reasons [simp]:
  "known_reason ''TAMPERED:content_hash''" "known_reason ''TAMPERED:provenance_hash''" "known_reason ''STALE:subject''"
  "known_reason ''STALE:generation''" "known_reason ''STALE:observation''" "known_reason ''CROSS_BOUND:producer''"
  "known_reason ''CROSS_BOUND:repository''" "known_reason ''CROSS_BOUND:tree''" "known_reason ''CROSS_BOUND:changeset''"
  "known_reason ''CROSS_BOUND:acceptance_contract''" "known_reason ''CROSS_BOUND:observation_status''"
  "known_reason ''CROSS_BOUND:artifact''" "known_reason ''CROSS_BOUND:runtime''" "known_reason ''CROSS_BOUND:execution''"
  "known_reason ''DUPLICATE:artifact''" "known_reason ''DUPLICATE:verifier''" "known_reason ''MALFORMED:profile''"
  "known_reason ''MALFORMED:requirement''" "known_reason ''MALFORMED:provenance''" "known_reason ''MALFORMED:generation''"
  "known_reason ''MALFORMED:timestamp''" "known_reason ''MALFORMED:runtime''" "known_reason ''MISSING:required_verifier''"
  "known_reason ''MISSING:source_locator''" "known_reason ''MISSING:runtime_identity''" "known_reason ''MISSING:ready_identity''"
  by code_simp+

lemma known_reason_if [simp]: "list_all known_reason (reason_if b r) \<longleftrightarrow> (b \<longrightarrow> known_reason r)"
  by (simp add: reason_if_def)

lemma envelope_reasons_known [simp]: "list_all known_reason (envelope_reasons p raw)"
  by (simp add: envelope_reasons_def)

lemma binding_reasons_known [simp]: "list_all known_reason (binding_reasons c csh req s raw ph)"
  by (simp add: binding_reasons_def Let_def)

lemma runtime_reasons_known [simp]: "list_all known_reason (runtime_reasons c req p)"
  by (simp add: runtime_reasons_def observed_runtime_reasons_def Let_def split: option.split freshness_status.split)

lemma time_reasons_known [simp]: "list_all known_reason (time_reasons c p)"
  by (simp add: time_reasons_def split: option.split)

lemma duplicate_reasons_known [simp]: "list_all known_reason (duplicate_reasons st p)"
  by (simp add: duplicate_reasons_def)

lemma requirement_reasons_known: "list_all known_reason (requirement_reasons c)"
  by (auto simp: requirement_reasons_def Let_def list_all_iff reason_if_def)

lemma final_reasons_known: "sound_progress st \<Longrightarrow> list_all known_reason (final_reasons c ph st)"
  by (auto simp: final_reasons_def sound_progress_def list_all_iff reason_if_def)

lemma gate_reasons_known: "list_all known_reason (gate_reasons c ach csh)"
  by (simp add: gate_reasons_def)

text \<open>The requirement a submission is matched with, when it is met and nothing of the submission was seen
  before.\<close>

definition accepted :: "ingestion_context \<Rightarrow> requirement_table \<Rightarrow> progress \<Rightarrow> submission \<Rightarrow> bool" where
  "accepted c reqs st s \<longleftrightarrow> (\<exists>req. find_requirement reqs (sb_provenance s) = Some req \<and> meets c req s) \<and>
     pv_artifact_id (sb_provenance s) \<notin> set (pr_seen_artifacts st) \<and> pv_verifier_id (sb_provenance s) \<notin> set (pr_seen_verifiers st)"

lemma duplicate_reasons_Nil: "duplicate_reasons st p = [] \<longleftrightarrow>
    pv_artifact_id p \<notin> set (pr_seen_artifacts st) \<and> pv_verifier_id p \<notin> set (pr_seen_verifiers st)"
  by (auto simp: duplicate_reasons_def)

text \<open>A step never fails on a constructed submission; it adds no reason exactly when the submission is
  accepted, and then it records the observation.\<close>

lemma submission_step_total:
  assumes s: "constructed s" and cs: "change_set_errs (ic_change_set c) = []" "change_set_hash (ic_change_set c) = Inr csh"
    and reqs: "reqs = requirement_table rs" and st: "sound_progress st"
  obtains st' added where "submission_step c csh reqs s st = Inr st'" "sound_progress st'"
    "pr_reasons st' = pr_reasons st @ added" "pr_submitted st' = pr_submitted st @ [pv_verifier_id (sb_provenance s)]"
    "parse_time (ic_observed_at c) \<noteq> None \<Longrightarrow> added = [] \<longleftrightarrow> accepted c reqs st s"
    "parse_time (ic_observed_at c) \<noteq> None \<Longrightarrow> added = [] \<Longrightarrow>
       pr_seen_artifacts st' = pr_seen_artifacts st @ [pv_artifact_id (sb_provenance s)] \<and>
       pr_seen_verifiers st' = pr_seen_verifiers st @ [pv_verifier_id (sb_provenance s)] \<and>
       (\<exists>ph. provenance_hash (sb_provenance s) = Inr ph \<and> pr_observations st' = pr_observations st @ [observed s ph])"
proof -
  let ?p = "sb_provenance s" and ?raw = "sha_text (sb_content s)"
  obtain ph where ph: "provenance_hash ?p = Inr ph" "is_sha256 ph" using provenance_hash_total by blast
  let ?st1 = "st\<lparr>pr_submitted := pr_submitted st @ [pv_verifier_id ?p], pr_raw_hashes := pr_raw_hashes st @ [?raw],
      pr_provenance_hashes := pr_provenance_hashes st @ [ph]\<rparr>"
  show ?thesis
  proof (cases "find_requirement reqs ?p")
    case None
    let ?added = "envelope_reasons ?p ?raw @ [''MISSING:required_verifier'', ''TAMPERED:provenance_hash'']"
    have step: "submission_step c csh reqs s st = Inr (add_reasons ?added ?st1)"
      by (simp add: submission_step_def Let_def ph None)
    show ?thesis
      by (rule that [OF step, where added = ?added]) (use st in \<open>simp_all add: None add_reasons_def sound_progress_def accepted_def\<close>)
  next
    case (Some req)
    have v: "pv_verifier_id ?p = er_verifier_id req" using find_requirement_verifier Some reqs by metis
    note local = local_clean [OF s cs _ v ph(1) refl]
    show ?thesis
    proof (cases "pv_generation ?p = EG_EXECUTION \<and> pv_runtime ?p \<noteq> None")
      case True
      then have not_met: "\<not> meets c req s" if "parse_time (ic_observed_at c) \<noteq> None" using local [OF that] by blast
      let ?added = "envelope_reasons ?p ?raw @ binding_reasons c csh req s ?raw ph @ [''MALFORMED:runtime'']"
      have step: "submission_step c csh reqs s st = Inr (add_reasons ?added ?st1)"
        using True by (simp add: submission_step_def Let_def ph Some)
      show ?thesis
        by (rule that [OF step, where added = ?added])
          (use st not_met in \<open>simp_all add: Some add_reasons_def sound_progress_def accepted_def\<close>)
    next
      case False
      let ?added = "envelope_reasons ?p ?raw @ binding_reasons c csh req s ?raw ph @ runtime_reasons c req ?p @
        time_reasons c ?p @ duplicate_reasons st ?p"
      define st1 where "st1 = add_reasons ?added (?st1\<lparr>
        pr_freshness := pr_freshness st @ (case pv_runtime ?p of None \<Rightarrow> []
                 | Some r \<Rightarrow> [(pv_artifact_id ?p, derive_runtime_freshness r (ic_observed_at c))]),
        pr_seen_artifacts := pr_seen_artifacts st @ [pv_artifact_id ?p],
        pr_seen_verifiers := pr_seen_verifiers st @ [pv_verifier_id ?p]\<rparr>)"
      obtain st' where st': "record_observation req s ph ?added st1 = Inr st'" "pr_reasons st' = pr_reasons st1"
        "pr_submitted st' = pr_submitted st1" "pr_seen_artifacts st' = pr_seen_artifacts st1"
        "pr_seen_verifiers st' = pr_seen_verifiers st1"
        "pr_observations st' = pr_observations st1 @ (if status_mismatch req s then [] else [observed s ph])"
        using record_observation_total [OF s ph(2)] by blast
      have step: "submission_step c csh reqs s st = Inr st'"
        using st'(1) False by (auto simp: submission_step_def Let_def ph Some st1_def add_reasons_def)
      have clean: "?added = [] \<longleftrightarrow> accepted c reqs st s" if "parse_time (ic_observed_at c) \<noteq> None"
        using local [OF that] False by (auto simp: accepted_def Some duplicate_reasons_Nil)
      have mism: "\<not> status_mismatch req s" if "?added = []" "parse_time (ic_observed_at c) \<noteq> None"
        using that(1) clean [OF that(2)] Some by (auto simp: accepted_def meets_def Let_def status_mismatch_def)
      show ?thesis
        by (rule that [OF step, where added = ?added]) (use mism clean st' st observed_wf [OF s ph(2)] ph in
          \<open>auto simp: st1_def add_reasons_def sound_progress_def\<close>)
    qed
  qed
qed

section \<open>The loop\<close>

abbreviation verifier_of :: "submission \<Rightarrow> string" where
  "verifier_of s \<equiv> pv_verifier_id (sb_provenance s)"

abbreviation artifact_of :: "submission \<Rightarrow> string" where
  "artifact_of s \<equiv> pv_artifact_id (sb_provenance s)"

definition expected_submission :: "ingestion_context \<Rightarrow> requirement_table \<Rightarrow> submission \<Rightarrow> bool" where
  "expected_submission c reqs s \<longleftrightarrow> (\<exists>req. find_requirement reqs (sb_provenance s) = Some req \<and> meets c req s)"

definition observation_of :: "submission \<Rightarrow> observation" where
  "observation_of s = observed s (case provenance_hash (sb_provenance s) of Inr h \<Rightarrow> h | Inl _ \<Rightarrow> [])"

lemma submissions_loop_total:
  assumes cs: "change_set_errs (ic_change_set c) = []" "change_set_hash (ic_change_set c) = Inr csh"
    and reqs: "reqs = requirement_table rs"
    and ss: "\<forall>s \<in> set ss. constructed s" and st: "sound_progress st"
  obtains st' added where "submissions_loop c csh reqs ss st = Inr st'" "sound_progress st'"
    "pr_reasons st' = pr_reasons st @ added" "pr_submitted st' = pr_submitted st @ map verifier_of ss"
    "parse_time (ic_observed_at c) \<noteq> None \<Longrightarrow> distinct (pr_seen_artifacts st) \<Longrightarrow> distinct (pr_seen_verifiers st) \<Longrightarrow>
       added = [] \<longleftrightarrow> (\<forall>s \<in> set ss. expected_submission c reqs s) \<and>
         distinct (pr_seen_artifacts st @ map artifact_of ss) \<and> distinct (pr_seen_verifiers st @ map verifier_of ss)"
    "parse_time (ic_observed_at c) \<noteq> None \<Longrightarrow> added = [] \<Longrightarrow>
       pr_observations st' = pr_observations st @ map observation_of ss"
proof -
  let ?now = "parse_time (ic_observed_at c) \<noteq> None"
  have "\<exists>st' added. submissions_loop c csh reqs ss st = Inr st' \<and> sound_progress st' \<and>
      pr_reasons st' = pr_reasons st @ added \<and> pr_submitted st' = pr_submitted st @ map verifier_of ss \<and>
      (?now \<longrightarrow> distinct (pr_seen_artifacts st) \<longrightarrow> distinct (pr_seen_verifiers st) \<longrightarrow>
       (added = [] \<longleftrightarrow> (\<forall>s \<in> set ss. expected_submission c reqs s) \<and>
         distinct (pr_seen_artifacts st @ map artifact_of ss) \<and> distinct (pr_seen_verifiers st @ map verifier_of ss))) \<and>
      (?now \<longrightarrow> added = [] \<longrightarrow> pr_observations st' = pr_observations st @ map observation_of ss)"
    using ss st
  proof (induction ss arbitrary: st)
    case (Cons s ss)
    obtain st1 one where step: "submission_step c csh reqs s st = Inr st1" "sound_progress st1"
      "pr_reasons st1 = pr_reasons st @ one" "pr_submitted st1 = pr_submitted st @ [verifier_of s]"
      "?now \<Longrightarrow> one = [] \<longleftrightarrow> accepted c reqs st s"
      "?now \<Longrightarrow> one = [] \<Longrightarrow> pr_seen_artifacts st1 = pr_seen_artifacts st @ [artifact_of s] \<and>
        pr_seen_verifiers st1 = pr_seen_verifiers st @ [verifier_of s] \<and>
        (\<exists>ph. provenance_hash (sb_provenance s) = Inr ph \<and> pr_observations st1 = pr_observations st @ [observed s ph])"
      using submission_step_total [OF _ cs reqs Cons.prems(2), of s] Cons.prems(1) by (metis list.set_intros(1))
    have "\<forall>s \<in> set ss. constructed s" using Cons.prems(1) by simp
    from Cons.IH [OF this step(2)]
    obtain st' more where loop: "submissions_loop c csh reqs ss st1 = Inr st'" "sound_progress st'"
      "pr_reasons st' = pr_reasons st1 @ more" "pr_submitted st' = pr_submitted st1 @ map verifier_of ss"
      "?now \<longrightarrow> distinct (pr_seen_artifacts st1) \<longrightarrow> distinct (pr_seen_verifiers st1) \<longrightarrow>
       (more = [] \<longleftrightarrow> (\<forall>s \<in> set ss. expected_submission c reqs s) \<and>
         distinct (pr_seen_artifacts st1 @ map artifact_of ss) \<and> distinct (pr_seen_verifiers st1 @ map verifier_of ss))"
      "?now \<longrightarrow> more = [] \<longrightarrow> pr_observations st' = pr_observations st1 @ map observation_of ss"
      by blast
    have "one @ more = [] \<longleftrightarrow> (\<forall>s \<in> set (s # ss). expected_submission c reqs s) \<and>
        distinct (pr_seen_artifacts st @ map artifact_of (s # ss)) \<and> distinct (pr_seen_verifiers st @ map verifier_of (s # ss))"
      if now: ?now and d: "distinct (pr_seen_artifacts st)" "distinct (pr_seen_verifiers st)"
    proof (cases "accepted c reqs st s")
      case True
      then have seen: "one = []" "pr_seen_artifacts st1 = pr_seen_artifacts st @ [artifact_of s]"
        "pr_seen_verifiers st1 = pr_seen_verifiers st @ [verifier_of s]" using step(5,6) [OF now] by auto
      then show ?thesis using True loop(5) now d by (auto simp: accepted_def expected_submission_def)
    next
      case False
      then show ?thesis using step(5) [OF now] d by (auto simp: accepted_def expected_submission_def)
    qed
    moreover have "pr_observations st' = pr_observations st @ map observation_of (s # ss)" if ?now "one @ more = []"
      using that step(6) loop(6) by (auto simp: observation_of_def)
    ultimately show ?case
      by (intro exI [of _ st'] exI [of _ "one @ more"]) (use step loop in simp)
  qed simp
  then show ?thesis using that by blast
qed

section \<open>The condition of the reasons\<close>

lemma known_reason_kind: "known_reason r \<Longrightarrow> \<exists>k \<in> set REASON_ORDER. startswith r (k @ '':'')"
proof -
  assume k: "known_reason r"
  have split: "startswith r (reason_kind r @ '':'')" if "CHR '':'' \<in> set r"
  proof -
    have "dropWhile (\<lambda>c. c \<noteq> CHR '':'') r \<noteq> []" using that by simp
    then obtain c t where t: "dropWhile (\<lambda>c. c \<noteq> CHR '':'') r = c # t" by (cases "dropWhile (\<lambda>c. c \<noteq> CHR '':'') r") auto
    then have "c = CHR '':''" using hd_dropWhile [of "\<lambda>c. c \<noteq> CHR '':''" r] by auto
    then have "r = reason_kind r @ '':'' @ t" using t takeWhile_dropWhile_id [of "\<lambda>c. c \<noteq> CHR '':''" r]
      by (simp add: reason_kind_def)
    then have "r = (reason_kind r @ '':'') @ t" by simp
    then show ?thesis unfolding startswith_def by (metis append_eq_conv_conj)
  qed
  have "reason_kind r \<in> fst ` set REASON_CODES" "CHR '':'' \<in> set r"
    using k by (auto simp: known_reason_def dest!: map_of_SomeD split: option.splits intro: rev_image_eqI)
  then show ?thesis using split by (auto simp: REASON_CODES_def REASON_ORDER_def)
qed

lemma condition_exists: "list_all known_reason rs \<Longrightarrow> \<exists>cond. condition_for_ingestion_reasons rs = Inr cond"
  by (simp add: condition_for_ingestion_reasons_def)

lemma condition_VALID_iff:
  assumes "condition_for_ingestion_reasons rs = Inr cond"
  shows "cond = VALID \<longleftrightarrow> rs = []"
proof -
  have known: "list_all known_reason rs"
    and cond: "cond = (case find (\<lambda>k. list_ex (\<lambda>r. startswith r (k @ '':'')) rs) REASON_ORDER of
          Some k \<Rightarrow> status_of_kind k | None \<Rightarrow> VALID)"
    using assms by (auto simp: condition_for_ingestion_reasons_def split: if_splits)
  show ?thesis
  proof (cases rs)
    case (Cons r rest)
    then have "find (\<lambda>k. list_ex (\<lambda>r. startswith r (k @ '':'')) rs) REASON_ORDER \<noteq> None"
      using known_reason_kind [of r] known by (auto simp: find_None_iff list_ex_iff)
    then show ?thesis using Cons cond by (auto simp: status_of_kind_def split: if_splits)
  qed (simp add: cond REASON_ORDER_def)
qed

section \<open>The evidence a context expects\<close>

text \<open>The plan names the contract and the change set, the profile is the expected one, the requirements are
  for each required verifier once, and every submission meets a requirement, every requirement is met by a
  submission, and no verifier submits twice.\<close>

definition expected_evidence :: "ingestion_context \<Rightarrow> submission list \<Rightarrow> bool" where
  "expected_evidence c ss \<longleftrightarrow>
     linked (vp_acceptance_contract_hash (ic_plan c)) (contract_hash (ic_contract c)) \<and>
     linked (vp_change_set_hash (ic_plan c)) (change_set_hash (ic_change_set c)) \<and>
     ingestion_profile_hash (ic_profile c) = Inr (ic_expected_profile_hash c) \<and> parse_time (ic_observed_at c) \<noteq> None \<and>
     distinct (map er_verifier_id (ic_requirements c)) \<and> distinct (map er_artifact_id (ic_requirements c)) \<and>
     er_verifier_id ` set (ic_requirements c) = set (strs (ac_required_verifier_ids (ic_contract c))) \<and>
     set (strs (vp_required_verifier_ids (ic_plan c))) \<subseteq> set (strs (ac_required_verifier_ids (ic_contract c))) \<and>
     distinct (map verifier_of ss) \<and>
     (\<forall>s \<in> set ss. \<exists>r \<in> set (ic_requirements c). meets c r s) \<and>
     (\<forall>r \<in> set (ic_requirements c). \<exists>s \<in> set ss. meets c r s)"

text \<open>A context that passed \<open>_revalidate_context_or_raise\<close>.\<close>

lemma revalidated:
  assumes "revalidate_context c = Inr ()"
  shows "subjects_ok c" "profile_revalidated (ic_profile c) = Inr ()" "valid_requirements c = ic_requirements c"
    "validate_context_nested c = Inr True"
proof -
  have ok: "contract_post_init (ic_contract c) = Inr ()" "change_set_post_init (ic_change_set c) = Inr ()"
    "plan_post_init (ic_plan c) = Inr ()" "context_texts c = Inr ()" "context_sizes c = Inr ()"
    "prerequisites_check (ic_prerequisite_payload_hashes c) = Inr ()" "profile_revalidated (ic_profile c) = Inr ()"
    "efor (ic_requirements c) requirement_post_init = Inr ()"
    using assms by (auto simp: revalidate_context_def eseq_Inr_iff)
  then show "subjects_ok c" "profile_revalidated (ic_profile c) = Inr ()" "valid_requirements c = ic_requirements c"
    by (simp_all add: subjects_ok_def post_init_iff valid_requirements_def efor_Inr_iff filter_id_conv)
  show "validate_context_nested c = Inr True"
    by (simp add: validate_context_nested_def context_post_init_def holds_def ok)
qed

lemma requirement_reasons_Nil:
  assumes "revalidate_context c = Inr ()"
  shows "requirement_reasons c = [] \<longleftrightarrow> distinct (map er_verifier_id (ic_requirements c)) \<and>
     distinct (map er_artifact_id (ic_requirements c)) \<and>
     er_verifier_id ` set (ic_requirements c) \<subseteq> set (strs (ac_required_verifier_ids (ic_contract c)))"
proof -
  have "filter (\<lambda>r. requirement_post_init r \<noteq> Inr ()) (ic_requirements c) = []"
    using revalidated(3) [OF assms] by (simp add: valid_requirements_def filter_id_conv filter_empty_conv)
  then show ?thesis
    using revalidated(2,3) [OF assms] requirement_table_distinct [of "ic_requirements c"]
    by (auto simp: requirement_reasons_def Let_def list_ex_iff)
qed

lemma unsubmitted_Nil: "unsubmitted c st = [] \<longleftrightarrow>
    set (strs (ac_required_verifier_ids (ic_contract c))) \<union> set (strs (vp_required_verifier_ids (ic_plan c))) \<subseteq> set (pr_submitted st)"
proof -
  have "unsubmitted c st = [] \<longleftrightarrow> set (unsubmitted c st) = {}" by simp
  then show ?thesis by (auto simp: unsubmitted_def)
qed

lemma meets_ids: "meets c r s \<Longrightarrow> verifier_of s = er_verifier_id r \<and> artifact_of s = er_artifact_id r"
  by (simp add: meets_def Let_def)

lemma expected_submission_iff:
  "distinct (map er_verifier_id rs) \<Longrightarrow> expected_submission c (requirement_table rs) s \<longleftrightarrow> (\<exists>r \<in> set rs. meets c r s)"
  using meets_ids by (auto simp: expected_submission_def find_requirement_iff)

lemma verifiers_covered:
  "\<forall>s \<in> set ss. \<exists>r \<in> set rs. meets c r s \<Longrightarrow> verifier_of ` set ss \<subseteq> er_verifier_id ` set rs"
  "\<forall>r \<in> set rs. \<exists>s \<in> set ss. meets c r s \<Longrightarrow> er_verifier_id ` set rs \<subseteq> verifier_of ` set ss"
  by (rule image_subsetI, metis meets_ids image_eqI)+

text \<open>When the requirements name each verifier and artifact once, submissions that are all expected and cover
  the required verifiers are one for each requirement.\<close>

lemma one_for_each:
  assumes rs: "distinct (map er_verifier_id rs)" "distinct (map er_artifact_id rs)" "er_verifier_id ` set rs \<subseteq> ids"
  shows "(\<forall>s \<in> set ss. expected_submission c (requirement_table rs) s) \<and> distinct (map artifact_of ss) \<and>
      distinct (map verifier_of ss) \<and> ids \<union> pids \<subseteq> verifier_of ` set ss \<longleftrightarrow>
    er_verifier_id ` set rs = ids \<and> pids \<subseteq> ids \<and> distinct (map verifier_of ss) \<and>
      (\<forall>s \<in> set ss. \<exists>r \<in> set rs. meets c r s) \<and> (\<forall>r \<in> set rs. \<exists>s \<in> set ss. meets c r s)" (is "?l \<longleftrightarrow> ?r")
proof
  assume l: ?l
  then have all: "\<forall>s \<in> set ss. \<exists>r \<in> set rs. meets c r s" by (simp add: expected_submission_iff [OF rs(1)])
  then have "verifier_of ` set ss \<subseteq> er_verifier_id ` set rs" by (rule verifiers_covered)
  moreover have "\<exists>s \<in> set ss. meets c r s" if "r \<in> set rs" for r
  proof -
    have "er_verifier_id r \<in> verifier_of ` set ss" using l rs(3) that by blast
    then obtain s where s: "s \<in> set ss" "verifier_of s = er_verifier_id r" by (metis imageE)
    then obtain q where q: "q \<in> set rs" "meets c q s" using all by blast
    then have "q = r" using rs(1) that s(2) meets_ids by (metis distinct_map inj_onD)
    then show ?thesis using s(1) q(2) by blast
  qed
  ultimately show ?r using l all rs(3) by blast
next
  assume r: ?r
  have "inj_on artifact_of (set ss)"
  proof (rule inj_onI)
    fix s t
    assume st: "s \<in> set ss" "t \<in> set ss" "artifact_of s = artifact_of t"
    then obtain p q where pq: "p \<in> set rs" "meets c p s" "q \<in> set rs" "meets c q t" using r by blast
    then have "p = q" using rs(2) st(3) meets_ids by (metis distinct_map inj_onD)
    then show "s = t" using pq meets_ids st(1,2) r by (metis distinct_map inj_onD)
  qed
  moreover have "distinct ss" using r by (simp add: distinct_map)
  ultimately have "distinct (map artifact_of ss)" by (simp add: distinct_map)
  moreover have "er_verifier_id ` set rs \<subseteq> verifier_of ` set ss" using r verifiers_covered(2) by blast
  then have "ids \<union> pids \<subseteq> verifier_of ` set ss" using r by (simp, blast)
  ultimately show ?l unfolding expected_submission_iff [OF rs(1)] using r by blast
qed

lemma one_for_each_length:
  assumes "distinct (map er_verifier_id rs)" "distinct (map verifier_of ss)"
    "\<forall>s \<in> set ss. \<exists>r \<in> set rs. meets c r s" "\<forall>r \<in> set rs. \<exists>s \<in> set ss. meets c r s"
  shows "length ss = length rs"
proof -
  have "set (map verifier_of ss) = set (map er_verifier_id rs)"
    using verifiers_covered(1) [OF assms(3)] verifiers_covered(2) [OF assms(4)] by simp
  then show ?thesis using assms(1,2) by (metis distinct_card length_map)
qed

section \<open>The decision\<close>

lemma final_reasons_Nil:
  assumes c: "revalidate_context c = Inr ()" and ph: "ingestion_profile_hash (ic_profile c) = Inr ph"
    and links: "linked (vp_acceptance_contract_hash (ic_plan c)) (contract_hash (ic_contract c))"
      "linked (vp_change_set_hash (ic_plan c)) (change_set_hash (ic_change_set c))"
    and st: "pr_reasons st = requirement_reasons c @ added" "pr_submitted st = map verifier_of ss"
    and added: "parse_time (ic_observed_at c) \<noteq> None \<Longrightarrow>
       added = [] \<longleftrightarrow> (\<forall>s \<in> set ss. expected_submission c (requirement_table (ic_requirements c)) s) \<and>
         distinct (map artifact_of ss) \<and> distinct (map verifier_of ss)"
  shows "final_reasons c ph st = [] \<longleftrightarrow> expected_evidence c ss"
proof -
  have "final_reasons c ph st = [] \<longleftrightarrow> set (final_reasons c ph st) = {}" by simp
  also have "\<dots> \<longleftrightarrow> requirement_reasons c = [] \<and> added = [] \<and> unsubmitted c st = [] \<and> ic_expected_profile_hash c = ph \<and>
      parse_time (ic_observed_at c) \<noteq> None"
    using revalidated(2,3) [OF c] by (simp add: final_reasons_def st(1) conj_ac)
  also have "\<dots> \<longleftrightarrow> expected_evidence c ss"
  proof (cases "requirement_reasons c = [] \<and> parse_time (ic_observed_at c) \<noteq> None")
    case True
    then show ?thesis
      using one_for_each [of "ic_requirements c" "set (strs (ac_required_verifier_ids (ic_contract c)))" ss c
        "set (strs (vp_required_verifier_ids (ic_plan c)))"] added
      unfolding requirement_reasons_Nil [OF c] unsubmitted_Nil st(2) expected_evidence_def set_map ph sum.inject
      by (simp only: links simp_thms conj_ac eq_commute [of ph])
  next
    case False
    then show ?thesis unfolding requirement_reasons_Nil [OF c] expected_evidence_def by auto
  qed
  finally show ?thesis .
qed

section \<open>The bundle\<close>

lemma obs_key_observation_of: "obs_key (observation_of s) = (verifier_of s, artifact_of s)"
  by (simp add: obs_key_def observation_of_def observed_def)

lemma observation_of_wf: "constructed s \<Longrightarrow> wf_observation (observation_of s)"
  using provenance_hash_total [of "sb_provenance s"] observed_wf by (auto simp: observation_of_def)

text \<open>What a bundle shows of the submissions it was made of.\<close>

definition carries :: "submission list \<Rightarrow> evidence_bundle \<Rightarrow> bool" where
  "carries ss b \<longleftrightarrow> evidence_errs b = [] \<and> set (the_obs b) = observation_of ` set ss"

text \<open>A bundle made of one observation per submission: it exists, has a hash and is \<open>VALID\<close> for the context.\<close>

lemma bundle_of_submissions:
  assumes c: "subjects_ok c" and ach: "contract_hash (ic_contract c) = Inr ach" and csh: "change_set_hash (ic_change_set c) = Inr csh"
    and links: "linked (vp_acceptance_contract_hash (ic_plan c)) (contract_hash (ic_contract c))"
      "linked (vp_change_set_hash (ic_plan c)) (change_set_hash (ic_change_set c))"
    and ss: "\<forall>s \<in> set ss. constructed s" "ss \<noteq> []" "distinct (map verifier_of ss)" "distinct (map artifact_of ss)"
    and plh: "plan_hash (ic_plan c) = Inr plh"
  shows "\<exists>b h. EvidenceBundle (PStr ''ingested'') (PStr ach) (PStr csh) (PStr plh)
      (Some (map Obj (sort_key obs_key (map observation_of ss)))) PNone = Inr b \<and>
      bundle_hash b = Inr h \<and> is_sha256 h \<and> bundle_integrity b (ic_contract c) (ic_change_set c) (ic_plan c) = Inr VALID \<and>
      carries ss b"
proof -
  let ?obs = "sort_key obs_key (map observation_of ss)"
  let ?b = "\<lparr>eb_bundle_id = PStr ''ingested'', eb_acceptance_contract_hash = PStr ach, eb_change_set_hash = PStr csh,
    eb_verification_plan_hash = PStr plh, eb_observations = Some (map Obj ?obs), eb_claimed_bundle_hash = PNone\<rparr>"
  have sha: "is_sha256 ach" "is_sha256 csh" "is_sha256 plh"
    using c ach csh plh contract_hash_wf change_set_hash_wf plan_hash_wf unfolding subjects_ok_def by fastforce+
  have wf: "\<forall>x \<in> set ?obs. wf_observation x" using ss(1) observation_of_wf by simp
  have "set ?obs \<noteq> {}" using ss(2) by simp
  then have ne: "?obs \<noteq> []" by (metis set_empty)
  have name: "normalized ''ingested''" by code_simp
  have b: "evidence_errs ?b = []"
    unfolding evidence_errs_Nil
    by (rule exI [of _ "''ingested''"], rule exI [of _ ach], rule exI [of _ csh], rule exI [of _ plh], rule exI [of _ ?obs],
        rule exI [of _ PNone]) (use name sha wf ne in simp_all)
  then obtain h where h: "bundle_hash ?b = Inr h" "is_sha256 h" using bundle_hash_wf by blast
  have "map (\<lambda>x. str_of (ob_verifier_id x)) (map observation_of ss) = map verifier_of ss"
    "map (\<lambda>x. str_of (ob_artifact_id x)) (map observation_of ss) = map artifact_of ss"
    by (simp_all add: observation_of_def observed_def)
  then have "\<not> has_duplicates (the_obs ?b)"
    using ss(3,4) by (simp add: has_duplicates_def distinct_map_sort_key del: map_map)
  then have "bundle_integrity ?b (ic_contract c) (ic_change_set c) (ic_plan c) = Inr VALID"
    using links c b h by (simp add: bundle_integrity_def ach csh plh ladder_VALID_iff linked_def subjects_ok_def)
  then show ?thesis using h b wf by (simp add: EvidenceBundle_Inr carries_def)
qed

section \<open>The result\<close>

text \<open>What a minted result is, with the table it is enrolled in: its condition follows its reasons, it has a
  bundle exactly when it is \<open>VALID\<close>, and the bundle and the receipt are sealed.\<close>

definition minted ::
  "nat \<Rightarrow> nat \<Rightarrow> ingestion_context \<Rightarrow> trusted \<Rightarrow> ingestion_result \<Rightarrow> trusted \<Rightarrow> bool" where
  "minted cid rid c tab r tab' \<longleftrightarrow>
     condition_for_ingestion_reasons (in_reason_codes r) = Inr (in_condition r) \<and>
     (\<exists>ch. context_hash c = Inr ch \<and> tab' = tab(rid \<mapsto> (cid, result_fingerprint ch r, in_condition r = VALID)) \<and>
       ir_context_hash (in_receipt r) = ch) \<and>
     computed_receipt_hash (in_receipt r) = Inr (ir_receipt_hash (in_receipt r)) \<and>
     (case in_bundle r of None \<Rightarrow> in_condition r \<noteq> VALID \<and> ir_bundle_hash (in_receipt r) = None
      | Some b \<Rightarrow> in_condition r = VALID \<and> (\<exists>h. bundle_hash b = Inr h \<and> ir_bundle_hash (in_receipt r) = Some h) \<and>
          bundle_integrity b (ic_contract c) (ic_change_set c) (ic_plan c) = Inr VALID)"

lemma computed_receipt_hash_update: "computed_receipt_hash (r\<lparr>ir_receipt_hash := h\<rparr>) = computed_receipt_hash r"
  by (simp add: computed_receipt_hash_def ingested_fields_def)

lemma minted_receipt:
  assumes "\<forall>x \<in> set (ir_observations r). wf_observation x" "is_sha256 (ir_context_hash r)" "is_sha256 (ir_profile_hash r)"
    "\<And>h. ir_bundle_hash r = Some h \<Longrightarrow> is_sha256 h" "sorted (map fst (ir_freshness r))"
  obtains h where "mint_receipt r = Inr (r\<lparr>ir_receipt_hash := h\<rparr>)"
    "computed_receipt_hash (r\<lparr>ir_receipt_hash := h\<rparr>) = Inr h"
  using mint_receipt_total [OF assms] by (auto simp: computed_receipt_hash_update)

lemma mint_failure_minted:
  assumes c: "subjects_ok c" and known: "list_all known_reason rs" "rs \<noteq> []"
  shows "\<exists>r tab'. mint_failure cid rid c rs tab = Inr (r, tab') \<and> minted cid rid c tab r tab' \<and> in_condition r \<noteq> VALID \<and>
    in_bundle r = None"
proof -
  obtain ch ph where h: "context_hash c = Inr ch" "is_sha256 ch" "ingestion_profile_hash (ic_profile c) = Inr ph" "is_sha256 ph"
    using context_hash_total [OF c] ingestion_profile_hash_total by blast
  obtain rh where rh: "mint_receipt (failure_receipt ch ph rs) = Inr (failure_receipt ch ph rs\<lparr>ir_receipt_hash := rh\<rparr>)"
    "computed_receipt_hash (failure_receipt ch ph rs\<lparr>ir_receipt_hash := rh\<rparr>) = Inr rh"
    by (rule minted_receipt [of "failure_receipt ch ph rs"]) (use h in \<open>auto simp: failure_receipt_def\<close>)
  obtain cond where cond: "condition_for_ingestion_reasons rs = Inr cond" using condition_exists known(1) by blast
  have not_valid: "cond \<noteq> VALID" using condition_VALID_iff [OF cond] known(2) by simp
  define r where "r = \<lparr>in_bundle = None, in_receipt = failure_receipt ch ph rs\<lparr>ir_receipt_hash := rh\<rparr>, in_condition = cond,
    in_reason_codes = rs\<rparr>"
  have "mint_result None (failure_receipt ch ph rs\<lparr>ir_receipt_hash := rh\<rparr>) cond rs = Inr r"
    by (subst mint_result_iff [of _ None]) (use not_valid in \<open>simp_all add: failure_receipt_def r_def\<close>)
  then have "mint_failure cid rid c rs tab = Inr (r, tab(rid \<mapsto> (cid, result_fingerprint ch r, False)))"
    by (simp add: mint_failure_def h rh(1) cond enroll_def)
  moreover have "minted cid rid c tab r (tab(rid \<mapsto> (cid, result_fingerprint ch r, False)))"
    using not_valid rh(2) cond h(1) by (simp add: minted_def r_def failure_receipt_def)
  ultimately show ?thesis using not_valid by (auto simp: r_def)
qed

text \<open>Through the gate: the bundle exists exactly when there are no reasons.\<close>

lemma ingested_bundle_decides:
  assumes c: "subjects_ok c" and ach: "contract_hash (ic_contract c) = Inr ach" and csh: "change_set_hash (ic_change_set c) = Inr csh"
    and reasons: "reasons = [] \<longleftrightarrow> expected_evidence c ss"
    and ss: "\<forall>s \<in> set ss. constructed s" and obs: "reasons = [] \<Longrightarrow> obs = map observation_of ss"
  shows "\<exists>bundle. ingested_bundle c ach csh reasons obs = Inr bundle \<and>
     (case bundle of None \<Rightarrow> reasons \<noteq> []
      | Some b \<Rightarrow> reasons = [] \<and> (\<exists>h. bundle_hash b = Inr h \<and> is_sha256 h) \<and>
          bundle_integrity b (ic_contract c) (ic_change_set c) (ic_plan c) = Inr VALID \<and> carries ss b)"
proof (cases "reasons = []")
  case True
  then have e: "expected_evidence c ss" and o: "obs = map observation_of ss" using reasons obs by auto
  obtain plh where plh: "plan_hash (ic_plan c) = Inr plh" using c plan_hash_wf by (auto simp: subjects_ok_def)
  have len: "length ss = length (ic_requirements c)"
    using e one_for_each_length [of "ic_requirements c" ss c] by (simp add: expected_evidence_def)
  have aids: "distinct (map artifact_of ss)"
    using e one_for_each [of "ic_requirements c" "set (strs (ac_required_verifier_ids (ic_contract c)))" ss c
        "set (strs (vp_required_verifier_ids (ic_plan c)))"]
    unfolding expected_evidence_def by (metis order_refl)
  have "strs (ac_required_verifier_ids (ic_contract c)) \<noteq> []"
    using c by (auto simp: subjects_ok_def contract_errs_Nil strs_def)
  then have ne: "ss \<noteq> []" using e by (auto simp: expected_evidence_def)
  have keys: "map obs_key obs = map (\<lambda>s. (verifier_of s, artifact_of s)) ss" by (simp add: o obs_key_observation_of)
  have "distinct (map fst (map obs_key obs))" using e unfolding keys by (simp add: expected_evidence_def comp_def)
  then have "distinct (map obs_key obs)" by (simp only: distinct_map)
  then have "length (remdups (map obs_key obs)) = length (ic_requirements c)"
    using len by (simp add: distinct_remdups_id o)
  then show ?thesis
    using bundle_of_submissions [OF c ach csh _ _ ss ne _ aids plh] e len True
    by (auto simp: ingested_bundle_def plh o expected_evidence_def)
qed (simp add: ingested_bundle_def)

lemma no_progress_simps [simp]:
  "pr_reasons (no_progress rs) = rs" "pr_observations (no_progress rs) = []" "pr_submitted (no_progress rs) = []"
  "pr_seen_artifacts (no_progress rs) = []" "pr_seen_verifiers (no_progress rs) = []"
  by (simp_all add: no_progress_def)

lemma ingest_gated_minted:
  assumes c: "revalidate_context c = Inr ()" and ach: "contract_hash (ic_contract c) = Inr ach"
    and csh: "change_set_hash (ic_change_set c) = Inr csh" and gate: "gate_reasons c ach csh = []"
    and ss: "\<forall>s \<in> set ss. constructed s"
  shows "\<exists>r tab'. ingest_gated it cid rid c ach csh ss tab = Inr (r, tab') \<and> minted cid rid c tab r tab' \<and>
    (in_condition r = VALID \<longleftrightarrow> expected_evidence c ss) \<and>
    (\<forall>b. in_bundle r = Some b \<longrightarrow> carries ss b)"
proof -
  note sub = revalidated(1) [OF c]
  let ?reqs = "requirement_table (ic_requirements c)"
  obtain ch ph where h: "context_hash c = Inr ch" "is_sha256 ch" "ingestion_profile_hash (ic_profile c) = Inr ph" "is_sha256 ph"
    using context_hash_total [OF sub] ingestion_profile_hash_total by blast
  have links: "linked (vp_acceptance_contract_hash (ic_plan c)) (contract_hash (ic_contract c))"
    "linked (vp_change_set_hash (ic_plan c)) (change_set_hash (ic_change_set c))"
    using sub gate by (auto simp: gate_reasons_def subjects_ok_def plan_errs_Nil linked_def ach csh)
  have start: "sound_progress (no_progress (requirement_reasons c))"
    by (simp add: sound_progress_def requirement_reasons_known)
  have cs: "change_set_errs (ic_change_set c) = []" using sub by (simp add: subjects_ok_def)
  obtain st added where st: "submissions_loop c csh ?reqs ss (no_progress (requirement_reasons c)) = Inr st" "sound_progress st"
    "pr_reasons st = requirement_reasons c @ added" "pr_submitted st = map verifier_of ss"
    "parse_time (ic_observed_at c) \<noteq> None \<Longrightarrow> added = [] \<longleftrightarrow> (\<forall>s \<in> set ss. expected_submission c ?reqs s) \<and>
         distinct (map artifact_of ss) \<and> distinct (map verifier_of ss)"
    "parse_time (ic_observed_at c) \<noteq> None \<Longrightarrow> added = [] \<Longrightarrow> pr_observations st = map observation_of ss"
    by (rule submissions_loop_total [OF cs csh refl [of ?reqs] ss start,
          simplified no_progress_simps append_Nil distinct.simps(1) simp_thms True_implies_equals]) (rule that, blast+)
  define reasons where "reasons = final_reasons c ph st"
  have nil: "reasons = [] \<longleftrightarrow> expected_evidence c ss"
    unfolding reasons_def using final_reasons_Nil [OF c h(3) links st(3,4,5)] .
  have "pr_observations st = map observation_of ss" if "reasons = []"
  proof (rule st(6))
    show "parse_time (ic_observed_at c) \<noteq> None" using that nil by (simp add: expected_evidence_def)
    have "set (final_reasons c ph st) = {}" using that by (simp add: reasons_def)
    then show "added = []" using revalidated(2,3) [OF c] st(3) by (simp add: final_reasons_def)
  qed
  then obtain bopt where b: "ingested_bundle c ach csh reasons (pr_observations st) = Inr bopt"
    "case bopt of None \<Rightarrow> reasons \<noteq> []
      | Some b \<Rightarrow> reasons = [] \<and> (\<exists>h. bundle_hash b = Inr h \<and> is_sha256 h) \<and>
          bundle_integrity b (ic_contract c) (ic_change_set c) (ic_plan c) = Inr VALID \<and> carries ss b"
    using ingested_bundle_decides [OF sub ach csh nil ss] by blast
  obtain cond where cond: "condition_for_ingestion_reasons reasons = Inr cond"
    using condition_exists final_reasons_known [OF st(2)] unfolding reasons_def by blast
  obtain bh where bh: "(case bopt of None \<Rightarrow> Inr None | Some b \<Rightarrow> ebind (bundle_hash b) (\<lambda>h. Inr (Some h))) = Inr bh"
    "bopt = None \<and> bh = None \<or> (\<exists>b h. bopt = Some b \<and> bundle_hash b = Inr h \<and> bh = Some h)"
    "\<And>h. bh = Some h \<Longrightarrow> is_sha256 h"
    using b(2) by (cases bopt) auto
  let ?body = "ingested_receipt it c ch ph bh reasons st"
  obtain rh where rh: "mint_receipt ?body = Inr (?body\<lparr>ir_receipt_hash := rh\<rparr>)"
    "computed_receipt_hash (?body\<lparr>ir_receipt_hash := rh\<rparr>) = Inr rh"
    by (rule minted_receipt [of ?body]) (use h bh(3) st(2) in \<open>simp_all add: ingested_receipt_def sound_progress_def\<close>)
  define r where "r = \<lparr>in_bundle = bopt, in_receipt = ?body\<lparr>ir_receipt_hash := rh\<rparr>, in_condition = cond,
    in_reason_codes = reasons\<rparr>"
  have valid: "cond = VALID \<longleftrightarrow> reasons = []" by (rule condition_VALID_iff [OF cond])
  moreover have "bopt \<noteq> None \<longleftrightarrow> reasons = []" using b(2) by (cases bopt) auto
  ultimately have "mint_result bopt (?body\<lparr>ir_receipt_hash := rh\<rparr>) cond reasons = Inr r"
    by (subst mint_result_iff [OF bh(2)]) (simp_all add: ingested_receipt_def r_def)
  then have result: "ingest_gated it cid rid c ach csh ss tab = Inr (r, tab(rid \<mapsto> (cid, result_fingerprint ch r, cond = VALID)))"
    by (simp add: ingest_gated_def revalidated(3) [OF c] st(1) h(1,3) reasons_def [symmetric] cond b(1) bh(1) rh(1) enroll_def Let_def)
  have "minted cid rid c tab r (tab(rid \<mapsto> (cid, result_fingerprint ch r, cond = VALID)))"
    using cond h(1) rh(2) b(2) bh(2) valid
    by (cases bopt) (auto simp: minted_def r_def ingested_receipt_def)
  moreover have "carries ss b" if "in_bundle r = Some b" for b
    using that b(2) by (simp add: r_def)
  ultimately show ?thesis using result valid nil by (auto simp: r_def)
qed

lemma ingest_minted:
  assumes "revalidate_context c = Inr ()" "length ss \<le> MAX_COLLECTION_ITEMS" "\<forall>s \<in> set ss. constructed s"
  shows "\<exists>r tab'. ingest_evidence it cid rid c ss tab = Inr (r, tab') \<and> minted cid rid c tab r tab' \<and>
    (in_condition r = VALID \<longleftrightarrow> expected_evidence c ss) \<and>
    (\<forall>b. in_bundle r = Some b \<longrightarrow> carries ss b)"
proof -
  have sub: "subjects_ok c" using revalidated(1) [OF assms(1)] .
  obtain ach csh where h: "contract_hash (ic_contract c) = Inr ach" "change_set_hash (ic_change_set c) = Inr csh"
    using sub contract_hash_wf change_set_hash_wf unfolding subjects_ok_def by metis
  have unfold: "ingest_evidence it cid rid c ss tab = (let gate = gate_reasons c ach csh in
      if gate \<noteq> [] then mint_failure cid rid c (sort gate) tab else ingest_gated it cid rid c ach csh ss tab)"
    using assms(1,2) h by (simp add: ingest_evidence_def guard_def)
  show ?thesis
  proof (cases "gate_reasons c ach csh = []")
    case True
    then show ?thesis using ingest_gated_minted [OF assms(1) h True assms(3)] unfold by (simp add: Let_def)
  next
    case False
    then have "set (sort (gate_reasons c ach csh)) \<noteq> {}" by simp
    then have "sort (gate_reasons c ach csh) \<noteq> []" by (metis set_empty)
    moreover have "list_all known_reason (sort (gate_reasons c ach csh))"
      using gate_reasons_known [of c ach csh] by (simp add: list_all_iff)
    moreover have "\<not> expected_evidence c ss"
      using False h by (auto simp: expected_evidence_def gate_reasons_def linked_def)
    ultimately show ?thesis
      using mint_failure_minted [OF sub, of "sort (gate_reasons c ach csh)" cid rid tab] False unfold by (auto simp: Let_def)
  qed
qed

lemma minted_trusted:
  assumes "revalidate_context c = Inr ()" "minted cid rid c tab r tab'"
  shows "is_trusted_ingestion_result cid c tab' rid r = Inr (in_condition r = VALID)"
proof -
  obtain ch where ch: "context_hash c = Inr ch" "tab' = tab(rid \<mapsto> (cid, result_fingerprint ch r, in_condition r = VALID))"
    "ir_context_hash (in_receipt r) = ch" using assms(2) by (auto simp: minted_def)
  have "in_condition r = VALID \<Longrightarrow> in_reason_codes r = []" using assms(2) condition_VALID_iff by (auto simp: minted_def)
  then show ?thesis using revalidated(4) [OF assms(1)] ch assms(2)
    by (auto simp: is_trusted_ingestion_result_def minted_def recomputed_bundle_ok_def split: option.splits)
qed

section \<open>A sample context\<close>

definition sample_time :: string where
  "sample_time = ''2025-01-01T00:00:00Z''"

definition sample_provenance :: provenance where
  "sample_provenance = \<lparr>pv_schema = PROVENANCE_ENVELOPE_SCHEMA, pv_evidence_id = ''e1'', pv_evidence_type = ET_VERIFIER_RESULT,
     pv_verifier_id = ''unit'', pv_artifact_id = ''log1'', pv_producer_id = ''ci'', pv_producer_role = PR_CI,
     pv_producer_software_hash = sample_sha, pv_repository_id = ''repo'', pv_source_revision = ''rev1'',
     pv_source_tree = ''tree1'', pv_target_revision = ''rev2'', pv_target_tree = ''tree2'',
     pv_change_set_hash = projr (change_set_hash sample_change_set), pv_diff_hash = sample_sha, pv_generated_at = sample_time,
     pv_source_locator = ''ci/1'', pv_content_hash = sha_text ''ok'', pv_verification_method = ''pytest'',
     pv_execution_id = ''run1'', pv_attempt_id = ''1'', pv_environment_hash = sample_sha, pv_generation = EG_EXECUTION,
     pv_runtime = None\<rparr>"

definition sample_submission :: submission where
  "sample_submission = \<lparr>sb_content = ''ok'', sb_status = True, sb_provenance = sample_provenance\<rparr>"

definition sample_requirement :: evidence_requirement where
  "sample_requirement = \<lparr>er_verifier_id = ''unit'', er_artifact_id = ''log1'', er_evidence_type = ET_VERIFIER_RESULT,
     er_generation = EG_EXECUTION, er_producer_id = ''ci'', er_execution_id = ''run1'', er_attempt_id = ''1'',
     er_environment_hash = sample_sha, er_content_hash = sha_text ''ok'',
     er_provenance_hash = projr (provenance_hash sample_provenance), er_runtime_ready_required = False,
     er_human_semantic_review_required = True, er_expected_status = True\<rparr>"

definition sample_profile :: ingestion_profile where
  "sample_profile = \<lparr>ip_profile_id = ''profile'',
     ip_producers = [\<lparr>pg_producer_id = ''ci'', pg_role = PR_CI, pg_software_hash = sample_sha,
        pg_verification_methods = [''pytest'']\<rparr>],
     ip_issuers = [\<lparr>ig_issuer_id = ''owner'', ig_roles = [TR_POLICY, TR_AUTHORITY, TR_APPROVAL, TR_SIGNING],
        ig_actions = [''merge''], ig_verification_methods = [''ed25519'']\<rparr>], ip_max_age_seconds = 3600\<rparr>"

definition sample_ingestion :: ingestion_context where
  "sample_ingestion = \<lparr>ic_contract = sample_contract_of [''unit''], ic_change_set = sample_change_set,
     ic_plan = sample_plan_of [''unit''], ic_repository_id = ''repo'', ic_source_tree = ''tree1'', ic_target_tree = ''tree2'',
     ic_observed_at = sample_time, ic_profile = sample_profile,
     ic_expected_profile_hash = projr (ingestion_profile_hash sample_profile), ic_requirements = [sample_requirement],
     ic_required_action = ''merge'', ic_prerequisite_payload_hashes = [(TR_APPROVAL, sample_sha), (TR_AUTHORITY, sample_sha),
        (TR_POLICY, sample_sha), (TR_SIGNING, sample_sha)]\<rparr>"

lemma sample_texts:
  "list_all (\<lambda>t. normalized t \<and> length t \<le> 4096) [''unit'', ''log1'', ''ci'', ''repo'', ''rev1'', ''rev2'', ''tree1'', ''tree2'', ''e1'',
     ''ci/1'', ''pytest'', ''run1'', ''1'', ''profile'', ''merge'', ''owner'', ''ed25519'', sample_time, PROVENANCE_ENVELOPE_SCHEMA]"
  by code_simp

lemma sample_bounded: "t \<in> set [''unit'', ''log1'', ''ci'', ''repo'', ''rev1'', ''rev2'', ''tree1'', ''tree2'', ''e1'',
     ''ci/1'', ''pytest'', ''run1'', ''1'', ''profile'', ''merge'', ''owner'', ''ed25519'', sample_time, PROVENANCE_ENVELOPE_SCHEMA] \<Longrightarrow>
     text_bounded t n = Inr ()"
  using sample_texts by (auto simp: text_bounded_iff list_all_iff)

lemma sample_hashes [simp]: "is_sha256 (sha_text s)" "is_sha256 (projr (provenance_hash p))"
  "is_sha256 (projr (ingestion_profile_hash q))" "is_sha256 (projr (change_set_hash sample_change_set))"
  using provenance_hash_total [of p] ingestion_profile_hash_total [of q] sample_change_set_hash(2)
  by auto

lemma hash_text_ok: "is_sha256 h \<Longrightarrow> hash_text h n = Inr ()"
  by (simp add: hash_text_iff)

lemma sample_constructed: "constructed sample_submission"
  by (simp add: constructed_def sample_submission_def sample_provenance_def provenance_post_init_def sample_bounded hash_text_ok)

lemma sample_requirement_ok: "requirement_post_init sample_requirement = Inr ()"
  by (simp add: requirement_post_init_def sample_requirement_def sample_bounded hash_text_ok)

lemma sample_revalidated: "revalidate_context sample_ingestion = Inr ()"
proof -
  have ids: "ids_ok [''unit'']" by code_simp
  have "contract_post_init (sample_contract_of [''unit'']) = Inr ()" "plan_post_init (sample_plan_of [''unit'']) = Inr ()"
    "change_set_post_init sample_change_set = Inr ()"
    using sample_contract_ok [OF ids] sample_plan_ok [OF ids] by (simp_all add: post_init_iff)
  moreover have "profile_revalidated sample_profile = Inr ()"
    by (simp add: profile_revalidated_def ingestion_profile_post_init_def producer_grant_post_init_def issuer_grant_post_init_def
        sample_profile_def sample_bounded hash_text_ok tuple_text_def guard_def MAX_COLLECTION_ITEMS_def less_eq_trust_role_def)
  moreover have "prerequisites_check [(TR_APPROVAL, sample_sha), (TR_AUTHORITY, sample_sha), (TR_POLICY, sample_sha), (TR_SIGNING, sample_sha)] = Inr ()"
    by (simp add: prerequisites_check_def prerequisite_key_def hash_text_ok less_eq_prod_def)
  ultimately show ?thesis
    by (simp add: revalidate_context_def sample_ingestion_def context_texts_def context_sizes_def
        sample_bounded hash_text_ok sample_requirement_ok guard_def MAX_COLLECTION_ITEMS_def)
qed

lemma sample_expected: "expected_evidence sample_ingestion [sample_submission]"
proof -
  have ids: "ids_ok [''unit'']" by code_simp
  obtain ph where ph: "provenance_hash sample_provenance = Inr ph" using provenance_hash_total by blast
  obtain qh where qh: "ingestion_profile_hash sample_profile = Inr qh" using ingestion_profile_hash_total by blast
  have "iso_shape sample_time" "valid_timestamp sample_time" by code_simp+
  then have time: "parse_time sample_time \<noteq> None" by (simp add: parse_time_def)
  have "granted sample_ingestion sample_provenance"
    by (simp add: granted_def find_producer_def sample_ingestion_def sample_profile_def sample_provenance_def)
  moreover have "recent sample_ingestion sample_provenance"
    using time by (auto simp: recent_def sample_ingestion_def sample_profile_def sample_provenance_def split: option.split)
  moreover have "runtime_ok sample_ingestion sample_requirement sample_provenance"
    by (simp add: runtime_ok_def sample_requirement_def sample_provenance_def)
  ultimately have "meets sample_ingestion sample_requirement sample_submission"
    using ph sample_change_set_hash(1)
    by (simp add: meets_def Let_def sample_submission_def sample_requirement_def)
      (simp add: sample_provenance_def sample_ingestion_def sample_change_set_def)
  then show ?thesis
    using qh time sample_contract_hash(1) [OF ids] sample_change_set_hash(1)
    by (simp add: expected_evidence_def linked_def)
      (simp add: sample_ingestion_def sample_plan_of_def sample_contract_of_def sample_requirement_def strs_def)
qed

section \<open>Properties\<close>

text \<open>C30: \<open>ingest_evidence\<close> always decides, and trusts exactly the evidence the context expects.  For a context
  that passes its checks and submissions that were constructed, it returns a result and enrols it; the
  result is \<open>VALID\<close>, has no reasons and is trusted exactly when the plan names the contract and the change
  set, the profile is the expected one, the requirements are one for each required verifier, and the
  submissions are one for each requirement, each with the content, provenance, producer, subject,
  execution and freshness that the requirement and the context ask for.\<close>

theorem ingestion_trusts_exactly_the_expected_evidence:
  assumes "revalidate_context c = Inr ()" "length ss \<le> MAX_COLLECTION_ITEMS" "\<forall>s \<in> set ss. constructed s"
  shows "\<exists>r tab'. ingest_evidence it cid rid c ss tab = Inr (r, tab') \<and>
    (in_condition r = VALID \<longleftrightarrow> expected_evidence c ss) \<and> (in_reason_codes r = [] \<longleftrightarrow> expected_evidence c ss) \<and>
    (in_bundle r \<noteq> None \<longleftrightarrow> expected_evidence c ss) \<and>
    is_trusted_ingestion_result cid c tab' rid r = Inr (expected_evidence c ss)"
proof -
  obtain r tab' where r: "ingest_evidence it cid rid c ss tab = Inr (r, tab')" "minted cid rid c tab r tab'"
    "in_condition r = VALID \<longleftrightarrow> expected_evidence c ss"
    using ingest_minted [OF assms] by blast
  then have "in_reason_codes r = [] \<longleftrightarrow> in_condition r = VALID"
    using condition_VALID_iff by (auto simp: minted_def)
  moreover have "in_bundle r \<noteq> None \<longleftrightarrow> in_condition r = VALID"
    using r(2) by (auto simp: minted_def split: option.splits)
  ultimately show ?thesis using r minted_trusted [OF assms(1) r(2)] by auto
qed

theorem ingestion_trusts_exactly_the_expected_evidence_witness:
  "\<exists>r tab'. ingest_evidence id 1 2 sample_ingestion [sample_submission] (\<lambda>_. None) = Inr (r, tab') \<and>
    in_condition r = VALID \<and> is_trusted_ingestion_result 1 sample_ingestion tab' 2 r = Inr True"
  using ingestion_trusts_exactly_the_expected_evidence
    [OF sample_revalidated, of "[sample_submission]" id 1 2 "\<lambda>_. None"] sample_expected sample_constructed
  by (auto simp: MAX_COLLECTION_ITEMS_def)

text \<open>C31: no other result is trusted under the identity of a minted one.  Whatever was written into the result
  object or into the context object after \<open>ingest_evidence\<close>, if \<open>is_trusted_ingestion_result\<close> then accepts them,
  the context is the one of the minting (same object, same hash), the evidence was what it expected, the
  result is \<open>VALID\<close> with no reasons, its bundle is \<open>VALID\<close> for the context's subjects, and its receipt has
  the hash of the minted receipt, recomputed.\<close>

theorem only_the_minted_result_is_trusted:
  assumes "revalidate_context c = Inr ()" "length ss \<le> MAX_COLLECTION_ITEMS" "\<forall>s \<in> set ss. constructed s"
    and "ingest_evidence it cid rid c ss tab = Inr (r, tab')"
    and "is_trusted_ingestion_result cid' c' tab' rid r' = Inr True"
  shows "cid' = cid \<and> context_hash c' = context_hash c \<and> expected_evidence c ss \<and>
    in_condition r' = VALID \<and> in_reason_codes r' = [] \<and>
    ir_receipt_hash (in_receipt r') = ir_receipt_hash (in_receipt r) \<and>
    computed_receipt_hash (in_receipt r') = Inr (ir_receipt_hash (in_receipt r)) \<and>
    (\<exists>b h. in_bundle r' = Some b \<and> bundle_hash b = Inr h \<and> ir_bundle_hash (in_receipt r) = Some h \<and>
      bundle_integrity b (ic_contract c') (ic_change_set c') (ic_plan c') = Inr VALID)"
proof -
  have m: "minted cid rid c tab r tab'" "in_condition r = VALID \<longleftrightarrow> expected_evidence c ss"
    using ingest_minted [OF assms(1-3), of it cid rid tab] assms(4) by auto
  then obtain ch where ch: "context_hash c = Inr ch" "tab' rid = Some (cid, result_fingerprint ch r, in_condition r = VALID)"
    by (auto simp: minted_def)
  have t: "cid' = cid" "in_condition r = VALID" "context_hash c' = Inr ch'" "result_fingerprint ch' r' = result_fingerprint ch r"
    "computed_receipt_hash (in_receipt r') = Inr (ir_receipt_hash (in_receipt r'))"
    "in_condition r' = VALID" "recomputed_bundle_ok c' r' = Inr True" if "context_hash c' = Inr ch'" for ch'
    using assms(5) ch(2) that by (auto simp: is_trusted_ingestion_result_def ebind_Inr_iff split: if_splits)
  obtain ch' where ch': "context_hash c' = Inr ch'"
    using assms(5) ch(2) by (auto simp: is_trusted_ingestion_result_def ebind_Inr_iff split: if_splits)
  note t = t [OF ch']
  have same: "ch' = ch" "ir_receipt_hash (in_receipt r') = ir_receipt_hash (in_receipt r)"
    "opt_value (ir_bundle_hash (in_receipt r')) = opt_value (ir_bundle_hash (in_receipt r))"
    using t(4) by (auto simp: result_fingerprint_def ingested_fields_def opt_value_def split: option.splits)
  then have "ir_bundle_hash (in_receipt r') = ir_bundle_hash (in_receipt r)"
    by (auto simp: opt_value_def split: option.splits)
  then show ?thesis using t same ch ch' m(2)
    by (auto simp: recomputed_bundle_ok_def ebind_Inr_iff split: option.splits if_splits)
qed

theorem only_the_minted_result_is_trusted_witness:
  "\<exists>r tab'. ingest_evidence id 1 2 sample_ingestion [sample_submission] (\<lambda>_. None) = Inr (r, tab') \<and>
    (\<exists>b h. in_bundle r = Some b \<and> bundle_hash b = Inr h \<and> ir_bundle_hash (in_receipt r) = Some h)"
proof -
  have ss: "length [sample_submission] \<le> MAX_COLLECTION_ITEMS" "\<forall>s \<in> set [sample_submission]. constructed s"
    using sample_constructed by (simp_all add: MAX_COLLECTION_ITEMS_def)
  obtain r tab' where r: "ingest_evidence id 1 2 sample_ingestion [sample_submission] (\<lambda>_. None) = Inr (r, tab')"
    "minted 1 2 sample_ingestion (\<lambda>_. None) r tab'" "in_condition r = VALID"
    using ingest_minted [OF sample_revalidated ss, of id 1 2 "\<lambda>_. None"] sample_expected by auto
  have "is_trusted_ingestion_result 1 sample_ingestion tab' 2 r = Inr True"
    using minted_trusted [OF sample_revalidated r(2)] r(3) by simp
  then show ?thesis using only_the_minted_result_is_trusted [OF sample_revalidated ss r(1)] r(1) by blast
qed

end
