(* ===== verification/Identity_Claims.thy ===== *)
theory Identity_Claims
  imports Identity_Envelope External_Trust_Properties Ingestion_Claims
begin

text \<open>
  Theorems about identity envelopes: what evidence stands behind one that \<open>make_identity_envelope\<close> builds, and
  that an envelope survives transport as a dictionary.
\<close>

section \<open>The envelope as a portable object\<close>

definition identity_texts_ok :: "identity \<Rightarrow> bool" where
  "identity_texts_ok e \<longleftrightarrow>
     (\<forall>t \<in> {id_execution_id e, id_attempt_id e, id_generation e, id_producer_id e, id_issuer_id e}. normalized t \<and> length t \<le> 4096) \<and>
     (\<forall>h \<in> {id_context_hash e, id_profile_hash e, id_bundle_hash e, id_ingestion_receipt_hash e, id_subject_hash e,
        id_acquisition_snapshot_hash e, id_runner_result_hash e, id_verification_receipt_hash e, id_identity_hash e}. is_sha256 h)"

definition identity_ok :: "identity \<Rightarrow> bool" where
  "identity_ok e \<longleftrightarrow> identity_texts_ok e \<and> (\<forall>h \<in> set (id_external_receipt_hashes e). is_sha256 h) \<and>
     distinct (id_external_receipt_hashes e) \<and> length (id_external_receipt_hashes e) \<le> MAX_COLLECTION_ITEMS \<and>
     computed_identity_hash e = Inr (id_identity_hash e)"

lemma identity_fields [simp]:
  "identity_field e ''context_hash'' = PStr (id_context_hash e)" "identity_field e ''profile_hash'' = PStr (id_profile_hash e)"
  "identity_field e ''bundle_hash'' = PStr (id_bundle_hash e)"
  "identity_field e ''ingestion_receipt_hash'' = PStr (id_ingestion_receipt_hash e)"
  "identity_field e ''subject_hash'' = PStr (id_subject_hash e)" "identity_field e ''execution_id'' = PStr (id_execution_id e)"
  "identity_field e ''attempt_id'' = PStr (id_attempt_id e)" "identity_field e ''generation'' = PStr (id_generation e)"
  "identity_field e ''producer_id'' = PStr (id_producer_id e)" "identity_field e ''issuer_id'' = PStr (id_issuer_id e)"
  "identity_field e ''acquisition_snapshot_hash'' = PStr (id_acquisition_snapshot_hash e)"
  "identity_field e ''runner_result_hash'' = PStr (id_runner_result_hash e)"
  "identity_field e ''verification_receipt_hash'' = PStr (id_verification_receipt_hash e)"
  "identity_field e ''external_receipt_hashes'' = PTuple (map PStr (id_external_receipt_hashes e))"
  "identity_field e ''identity_hash'' = PStr (id_identity_hash e)"
  by (simp_all add: identity_field_def identity_body_def get_simps strings_def)

lemma identity_of_field: "identity_of (identity_field e) = e"
  by (cases e) (simp add: identity_of_def comp_def)

lemma sha_fields: "is_sha256 h \<Longrightarrow> normalized h \<and> length h \<le> 4096"
  using is_sha256_text text_bounded_iff by blast

text \<open>The constructor accepts exactly the fields of an envelope that is in order.\<close>

lemma EvidenceIdentityEnvelope_field: "EvidenceIdentityEnvelope (identity_field e) = Inr e' \<longleftrightarrow> e' = e \<and> identity_ok e"
proof -
  have h: "map str_of (map PStr xs) = xs" for xs by (simp add: comp_def)
  show ?thesis
    using sha_fields
    by (auto simp: EvidenceIdentityEnvelope_def identity_of_field eseq_Inr_iff ebind_Inr_iff guard_Inr_iff efor_Inr_iff text_field_iff
        hash_field_iff tuple_field_def identity_ok_def identity_texts_ok_def comp_def)
qed

lemma identity_post_init_iff: "identity_post_init e = Inr () \<longleftrightarrow> identity_ok e"
  by (auto simp: identity_post_init_def ebind_Inr_iff EvidenceIdentityEnvelope_field)

lemma EvidenceIdentityEnvelope_cong:
  assumes "\<And>k. k \<in> set (tl IDENTITY_KEYS) \<Longrightarrow> f k = g k"
  shows "EvidenceIdentityEnvelope f = EvidenceIdentityEnvelope g"
proof -
  have "identity_of f = identity_of g" using assms by (simp add: identity_of_def IDENTITY_KEYS_def)
  then show ?thesis using assms by (simp add: EvidenceIdentityEnvelope_def IDENTITY_KEYS_def Let_def)
qed

lemma get_identity_dict:
  "get (items (identity_to_dict e)) ''schema'' = PStr IDENTITY_ENVELOPE_SCHEMA"
  "get (items (identity_to_dict e)) ''external_receipt_hashes'' = PList (map PStr (id_external_receipt_hashes e))"
  "k \<in> set (tl IDENTITY_KEYS) \<Longrightarrow> k \<noteq> ''external_receipt_hashes'' \<Longrightarrow> get (items (identity_to_dict e)) k = identity_field e k"
proof -
  show "get (items (identity_to_dict e)) ''schema'' = PStr IDENTITY_ENVELOPE_SCHEMA"
    "get (items (identity_to_dict e)) ''external_receipt_hashes'' = PList (map PStr (id_external_receipt_hashes e))"
    by (simp_all add: identity_to_dict_def identity_body_def get_simps)
  show "k \<in> set (tl IDENTITY_KEYS) \<Longrightarrow> k \<noteq> ''external_receipt_hashes'' \<Longrightarrow> get (items (identity_to_dict e)) k = identity_field e k"
    by (simp add: identity_to_dict_def identity_field_def)
qed

lemma py_sorted_texts: "py_sorted (PList (map PStr xs)) = Inr (map PStr (sort xs))" "py_sorted (PTuple (map PStr xs)) = Inr (map PStr (sort xs))"
  using py_sorted_strs [of xs] by (simp_all add: py_sorted_def py_list_def)

lemma load_identity_either:
  assumes "identity_ok e"
  shows "load_identity_envelope (identity_to_dict e) = (if sorted (id_external_receipt_hashes e) then Inr e
    else Inl (ValueErr, ''external_receipt_hashes must be sorted and unique''))"
proof -
  let ?d = "items (identity_to_dict e)"
  let ?f = "(get ?d)(''external_receipt_hashes'' := PTuple (map PStr (id_external_receipt_hashes e)))"
  have "keys_are ?d IDENTITY_KEYS"
    using keys_are_mkdict [of "identity_body e @ [(''identity_hash'', PStr (id_identity_hash e))]"]
    by (simp add: identity_to_dict_def identity_body_def IDENTITY_KEYS_def)
  moreover have "is_dict (identity_to_dict e)" by (simp add: identity_to_dict_def mkdict_def)
  moreover have "EvidenceIdentityEnvelope ?f = EvidenceIdentityEnvelope (identity_field e)"
    by (rule EvidenceIdentityEnvelope_cong) (use get_identity_dict(3) [of _ e] in auto)
  moreover have "EvidenceIdentityEnvelope (identity_field e) = Inr e" using assms(1) by (simp add: EvidenceIdentityEnvelope_field)
  moreover have "sorted xs \<longleftrightarrow> xs = sort xs" for xs :: "string list" by (metis sorted_sort sorted_sort_id)
  moreover have "set_distinct (map PStr (id_external_receipt_hashes e)) = Inr True"
    using assms(1) by (simp add: set_distinct_strs identity_ok_def)
  ultimately show ?thesis
    by (simp add: load_identity_envelope_def Let_def get_identity_dict(1,2) py_sorted_texts guard_def)
qed

lemma load_identity:
  assumes "identity_ok e" "sorted (id_external_receipt_hashes e)"
  shows "load_identity_envelope (identity_to_dict e) = Inr e"
  using load_identity_either [OF assms(1)] assms(2) by simp

interpretation identities: codec "\<lambda>e. serialize_identity_envelope (Some e)" load_identity_envelope "\<lambda>e. sorted (id_external_receipt_hashes e)"
  by unfold_locales (auto simp: serialize_identity_envelope_def eseq_Inr_iff identity_post_init_iff load_identity)

lemma computed_identity_hash_update [simp]: "computed_identity_hash (e\<lparr>id_identity_hash := h\<rparr>) = computed_identity_hash e"
  by (simp add: computed_identity_hash_def identity_body_def)

lemma identity_hash_total: "\<exists>h. computed_identity_hash e = Inr h \<and> is_sha256 h"
proof -
  have "distinct (map fst (items (mkdict (identity_body e))))"
    "list_all (\<lambda>p. is_str (fst p) \<and> jv compact_sorted (snd p)) (items (mkdict (identity_body e)))"
    by (simp_all add: identity_body_def)
  then obtain t where "dumps compact_sorted (PDict (items (mkdict (identity_body e)))) = Inr t" by (rule canonical_text)
  then have "dumps compact_sorted (mkdict (identity_body e)) = Inr t" by (simp add: mkdict_def)
  then show ?thesis by (simp add: computed_identity_hash_def)
qed

lemma sealed_identity_Inr:
  "sealed_identity e = Inr e' \<longleftrightarrow> (\<exists>h. computed_identity_hash e = Inr h \<and> e' = e\<lparr>id_identity_hash := h\<rparr>) \<and> identity_ok e'"
  by (auto simp: sealed_identity_def Let_def ebind_Inr_iff eseq_Inr_iff identity_post_init_iff)

section \<open>What stands behind an envelope\<close>

text \<open>The acquisition, the attempt and the profile agree with the context and its requirement.\<close>

definition native_agree :: "ingestion_context \<Rightarrow> evidence_requirement \<Rightarrow> snapshot \<Rightarrow> execution_attempt \<Rightarrow> bool" where
  "native_agree c req s a \<longleftrightarrow> (let cs = ic_change_set c in
     py_eq (sn_base_sha s) (cs_source_revision cs) \<and> py_eq (sn_head_sha s) (cs_target_revision cs) \<and>
     py_eq (sn_base_tree_sha s) (PStr (ic_source_tree c)) \<and> py_eq (sn_head_tree_sha s) (PStr (ic_target_tree c)) \<and>
     py_eq (sn_diff_hash s) (cs_diff_hash cs) \<and> py_eq (sn_changed_paths s) (cs_paths cs) \<and>
     joined_name (sn_repository_owner s) (sn_repository_name s) = Inr (ic_repository_id c) \<and>
     py_eq (PStr (ea_source_revision a)) (cs_target_revision cs) \<and> ea_source_tree a = ic_target_tree c \<and>
     contract_hash (ic_contract c) = Inr (ea_contract_hash a) \<and> plan_hash (ic_plan c) = Inr (ea_plan_hash a) \<and>
     ea_environment_hash a = er_environment_hash req \<and> ea_execution_id a = er_execution_id req \<and>
     ea_attempt_id a = er_attempt_id req \<and> er_producer_id req \<in> pg_producer_id ` set (ip_producers (ic_profile c)))"

lemma native_bound_iff: "native_bound c req s a = Inr () \<longleftrightarrow> native_agree c req s a"
proof -
  have acq: "acquisition_bound c s = Inr True \<longleftrightarrow> (let cs = ic_change_set c in
     py_eq (sn_base_sha s) (cs_source_revision cs) \<and> py_eq (sn_head_sha s) (cs_target_revision cs) \<and>
     py_eq (sn_base_tree_sha s) (PStr (ic_source_tree c)) \<and> py_eq (sn_head_tree_sha s) (PStr (ic_target_tree c)) \<and>
     py_eq (sn_diff_hash s) (cs_diff_hash cs) \<and> py_eq (sn_changed_paths s) (cs_paths cs) \<and>
     joined_name (sn_repository_owner s) (sn_repository_name s) = Inr (ic_repository_id c))"
    by (auto simp: acquisition_bound_def Let_def ebind_Inr_iff)
  have att: "attempt_bound c req a = Inr True \<longleftrightarrow> py_eq (PStr (ea_source_revision a)) (cs_target_revision (ic_change_set c)) \<and>
     ea_source_tree a = ic_target_tree c \<and> contract_hash (ic_contract c) = Inr (ea_contract_hash a) \<and>
     plan_hash (ic_plan c) = Inr (ea_plan_hash a) \<and> ea_environment_hash a = er_environment_hash req \<and>
     ea_execution_id a = er_execution_id req \<and> ea_attempt_id a = er_attempt_id req"
    by (auto simp: attempt_bound_def ebind_Inr_iff)
  have "native_bound c req s a = Inr () \<longleftrightarrow> acquisition_bound c s = Inr True \<and> attempt_bound c req a = Inr True \<and>
      er_producer_id req \<in> pg_producer_id ` set (ip_producers (ic_profile c))"
    by (auto simp: native_bound_def ebind_Inr_iff eseq_Inr_iff guard_Inr_iff split: if_splits)
  then show ?thesis by (auto simp: native_agree_def acq att Let_def)
qed

text \<open>The profile lets the reference's issuer allow the action, in the reference's role, by its method.\<close>

definition issuer_may_allow :: "ingestion_context \<Rightarrow> trust_reference \<Rightarrow> bool" where
  "issuer_may_allow c t \<longleftrightarrow> tr_action t = ic_required_action c \<and> tr_decision t = TD_ALLOW \<and>
     (\<exists>g. find (\<lambda>g. ig_issuer_id g = tr_issuer_id t) (ip_issuers (ic_profile c)) = Some g \<and> tr_role t \<in> set (ig_roles g) \<and>
        ic_required_action c \<in> set (ig_actions g) \<and> tr_verification_method t \<in> set (ig_verification_methods g))"

lemma issuer_granted_iff: "issuer_granted c t issuer = Inr () \<longleftrightarrow> tr_issuer_id t = issuer \<and> issuer_may_allow c t"
  by (auto simp: issuer_granted_def issuer_may_allow_def eseq_Inr_iff guard_Inr_iff split: option.splits)

definition about_bundle :: "ingestion_context \<Rightarrow> trust_reference \<Rightarrow> string \<Rightarrow> string \<Rightarrow> bool" where
  "about_bundle c t ch bh \<longleftrightarrow>
     identity_subject ''nexus.trusted_prerequisite_subject.v1-experimental'' ch bh = Inr (tr_subject_hash t) \<and>
     map_of (rev (ic_prerequisite_payload_hashes c)) (tr_role t) = Some (tr_payload_hash t)"

lemma reference_bound_iff: "reference_bound c t ch bh = Inr () \<longleftrightarrow> about_bundle c t ch bh"
  by (auto simp: reference_bound_def about_bundle_def ebind_Inr_iff eseq_Inr_iff guard_Inr_iff)

text \<open>The signature is the issuer's, and what it signs names the hashes of the two receipts.\<close>

definition signs_receipts :: "pyval \<Rightarrow> string \<Rightarrow> string \<Rightarrow> bool" where
  "signs_receipts payload acquisition_h runner_h \<longleftrightarrow>
     (\<exists>doc. parse_external_signature_payload payload = Inr doc \<and> get doc ''acquisition_snapshot_hash'' = PStr acquisition_h \<and>
        get doc ''runner_result_hash'' = PStr runner_h)"

lemma as_unverified_Inr: "as_unverified r = Inr x \<longleftrightarrow> r = Inr x"
  by (auto simp: as_unverified_def split: sum.splits)

lemma signature_bound_iff:
  "signature_bound t verifier x payload signature at acquisition_h runner_h = Inr () \<longleftrightarrow>
     signs_receipts payload acquisition_h runner_h \<and>
     reference_verified t verifier (xr_issuer_id x) (xr_key_id x) payload signature (Some x) (Some at)"
proof -
  let ?v = "verify_trust_reference_signature t verifier (xr_issuer_id x) (xr_key_id x) payload signature (Some x) (Some at)"
  have last: "ebind ?v (\<lambda>ok. guard ok ValueErr ''UNVERIFIED_EXTERNAL_RECEIPT'') = Inr () \<longleftrightarrow> ?v = Inr True"
    by (auto simp: ebind_Inr_iff guard_Inr_iff)
  show ?thesis
  proof (cases "parse_external_signature_payload payload")
    case (Inr doc)
    obtain a r where "get doc ''acquisition_snapshot_hash'' = PStr a" "get doc ''runner_result_hash'' = PStr r"
      using parsed_str [OF Inr, of "''acquisition_snapshot_hash''"] parsed_str [OF Inr, of "''runner_result_hash''"]
      by (auto simp: SIGNED_FIELDS_def)
    then show ?thesis
      by (simp add: signature_bound_def Inr as_unverified_def eseq_Inr_iff guard_Inr_iff last verify_trust_reference_True signs_receipts_def)
  next
    case (Inl e)
    then have "as_unverified (parse_external_signature_payload payload) \<noteq> Inr doc" for doc by (simp add: as_unverified_Inr)
    then show ?thesis using Inl by (simp add: signature_bound_def signs_receipts_def ebind_Inr_iff)
  qed
qed

text \<open>The envelope that names all this.\<close>

definition named_identity ::
  "ingestion_context \<Rightarrow> ingestion_result \<Rightarrow> evidence_requirement \<Rightarrow> execution_attempt \<Rightarrow> external_receipt \<Rightarrow> string \<Rightarrow> string \<Rightarrow> identity \<Rightarrow> bool" where
  "named_identity c r req a x acquisition_h runner_h e \<longleftrightarrow> identity_ok e \<and>
     context_hash c = Inr (id_context_hash e) \<and> ingestion_profile_hash (ic_profile c) = Inr (id_profile_hash e) \<and>
     id_ingestion_receipt_hash e = ir_receipt_hash (in_receipt r) \<and>
     identity_subject ''nexus.evidence.identity-subject.v1'' (id_context_hash e) (id_bundle_hash e) = Inr (id_subject_hash e) \<and>
     id_execution_id e = ea_execution_id a \<and> id_attempt_id e = ea_attempt_id a \<and> id_generation e = generation_value (er_generation req) \<and>
     id_producer_id e = er_producer_id req \<and> id_issuer_id e = xr_issuer_id x \<and> id_acquisition_snapshot_hash e = acquisition_h \<and>
     id_runner_result_hash e = runner_h \<and> id_verification_receipt_hash e = xr_receipt_hash x \<and>
     id_external_receipt_hashes e = [xr_external_receipt_hash x]"

lemma one_hash:
  assumes "py_list hashes = Inr hs" "py_eqs hs [PStr h]" "tuple_field hashes n b = Inr ()"
  shows "hashes = PTuple [PStr h]"
proof -
  obtain v where hs: "hs = [v]" "py_eq v (PStr h)" using assms(2) by (cases hs) (auto split: list.splits elim: py_eqs.elims)
  have t: "is_tuple hashes" "\<forall>x \<in> set (elems hashes). text_field x n = Inr ()"
    using assms(3) by (auto simp: tuple_field_def eseq_Inr_iff guard_Inr_iff efor_Inr_iff)
  then obtain xs where "hashes = PTuple xs" by (auto simp: is_tuple_iff)
  moreover from this have "xs = [v]" using assms(1) hs(1) by (simp add: py_list_def)
  ultimately show ?thesis using t(2) hs(2) by (auto simp: text_field_iff)
qed

lemma finish_identity_iff:
  assumes "context_hash c = Inr ch" "is_sha256 (xr_external_receipt_hash x)"
  shows "py_list hashes = Inr hs \<and> py_eqs hs [PStr (xr_external_receipt_hash x)] \<and> finish_identity c r req a x ch bh ah rh hashes = Inr e \<longleftrightarrow>
     hashes = PTuple [PStr (xr_external_receipt_hash x)] \<and> hs = [PStr (xr_external_receipt_hash x)] \<and>
     id_bundle_hash e = bh \<and> named_identity c r req a x ah rh e"
proof
  assume l: "py_list hashes = Inr hs \<and> py_eqs hs [PStr (xr_external_receipt_hash x)] \<and> finish_identity c r req a x ch bh ah rh hashes = Inr e"
  then have h: "hashes = PTuple [PStr (xr_external_receipt_hash x)]"
    by (intro one_hash [of hashes hs]) (auto simp: finish_identity_def eseq_Inr_iff)
  then show "hashes = PTuple [PStr (xr_external_receipt_hash x)] \<and> hs = [PStr (xr_external_receipt_hash x)] \<and>
     id_bundle_hash e = bh \<and> named_identity c r req a x ah rh e"
    using l py_sorted_texts(2) [of "[xr_external_receipt_hash x]"] assms(1)
    by (auto simp: finish_identity_def eseq_Inr_iff ebind_Inr_iff sealed_identity_Inr named_identity_def py_list_def)
next
  assume r: "hashes = PTuple [PStr (xr_external_receipt_hash x)] \<and> hs = [PStr (xr_external_receipt_hash x)] \<and>
     id_bundle_hash e = bh \<and> named_identity c r req a x ah rh e"
  then have n: "named_identity c r req a x ah rh e" "id_bundle_hash e = bh" "id_context_hash e = ch"
    using assms(1) by (auto simp: named_identity_def)
  let ?e = "\<lparr>id_context_hash = ch, id_profile_hash = id_profile_hash e, id_bundle_hash = bh,
         id_ingestion_receipt_hash = ir_receipt_hash (in_receipt r), id_subject_hash = id_subject_hash e,
         id_execution_id = ea_execution_id a, id_attempt_id = ea_attempt_id a, id_generation = generation_value (er_generation req),
         id_producer_id = er_producer_id req, id_issuer_id = xr_issuer_id x, id_acquisition_snapshot_hash = ah,
         id_runner_result_hash = rh, id_verification_receipt_hash = xr_receipt_hash x,
         id_external_receipt_hashes = [xr_external_receipt_hash x], id_identity_hash = ''sha256:'' @ replicate 64 (CHR ''0'')\<rparr>"
  have e: "e = ?e\<lparr>id_identity_hash := id_identity_hash e\<rparr>"
    using n by (cases e) (simp add: named_identity_def)
  have "computed_identity_hash ?e = computed_identity_hash e" using arg_cong [OF e, of computed_identity_hash] computed_identity_hash_update by metis
  moreover have ok: "identity_ok e" using n(1) by (simp add: named_identity_def)
  ultimately have "computed_identity_hash ?e = Inr (id_identity_hash e)" by (simp add: identity_ok_def)
  then have "sealed_identity ?e = Inr e" unfolding sealed_identity_Inr using e ok by blast
  moreover have "tuple_field hashes ''external_receipt_hashes'' False = Inr ()"
    using r sha_fields [OF assms(2)]
    by (simp add: tuple_field_def eseq_Inr_iff efor_Inr_iff text_field_iff MAX_COLLECTION_ITEMS_def del: efor.simps)
  ultimately show "py_list hashes = Inr hs \<and> py_eqs hs [PStr (xr_external_receipt_hash x)] \<and>
      finish_identity c r req a x ch bh ah rh hashes = Inr e"
    using r n py_sorted_texts(2) [of "[xr_external_receipt_hash x]"]
    by (simp add: finish_identity_def py_list_def named_identity_def)
qed

definition identity_backed ::
  "nat \<Rightarrow> ingestion_context \<Rightarrow> trusted \<Rightarrow> nat \<Rightarrow> ingestion_result \<Rightarrow> identity_inputs \<Rightarrow> identity \<Rightarrow> bool" where
  "identity_backed cid c tab rid r i e \<longleftrightarrow>
     (\<exists>b req s n a x t verifier at ah rh.
        is_trusted_ingestion_result cid c tab rid r = Inr True \<and> in_bundle r = Some b \<and> bundle_hash b = Inr (id_bundle_hash e) \<and>
        ii_acquisition i = Some s \<and> ii_runner i = Some n \<and> ii_receipt i = Some x \<and> ii_reference i = Some t \<and>
        ii_verifier i = Some verifier \<and> ii_observed_at i = Some at \<and> ic_requirements c = [req] \<and>
        py_eq (nr_status n) (PStr ''VERIFIED'') \<and> length (nr_attempts n) = 2 \<and>
        find (\<lambda>a. ea_attempt_id a = er_attempt_id req) (nr_attempts n) = Some a \<and> native_agree c req s a \<and>
        issuer_may_allow c t \<and> about_bundle c t (id_context_hash e) (id_bundle_hash e) \<and>
        native_receipt_hash (snapshot_to_dict s) = Inr ah \<and> native_receipt_hash (native_runner_to_dict n) = Inr rh \<and>
        signs_receipts (ii_payload i) ah rh \<and>
        reference_verified t verifier (xr_issuer_id x) (xr_key_id x) (ii_payload i) (ii_signature i) (Some x) (Some at) \<and>
        ii_external_receipt_hashes i = PTuple [PStr (xr_external_receipt_hash x)] \<and> named_identity c r req a x ah rh e)"

lemma external_identity_iff:
  assumes "is_trusted_ingestion_result cid c tab rid r = Inr True" "in_bundle r = Some b"
  shows "external_identity c r b req s n a i = Inr e \<longleftrightarrow>
     (\<exists>x t verifier at ah rh. ii_receipt i = Some x \<and> ii_reference i = Some t \<and> ii_verifier i = Some verifier \<and>
        ii_observed_at i = Some at \<and> bundle_hash b = Inr (id_bundle_hash e) \<and>
        issuer_may_allow c t \<and> about_bundle c t (id_context_hash e) (id_bundle_hash e) \<and>
        native_receipt_hash (snapshot_to_dict s) = Inr ah \<and> native_receipt_hash (native_runner_to_dict n) = Inr rh \<and>
        signs_receipts (ii_payload i) ah rh \<and>
        reference_verified t verifier (xr_issuer_id x) (xr_key_id x) (ii_payload i) (ii_signature i) (Some x) (Some at) \<and>
        ii_external_receipt_hashes i = PTuple [PStr (xr_external_receipt_hash x)] \<and> named_identity c r req a x ah rh e)"
proof -
  note iffs = eseq_Inr_iff ebind_Inr_iff guard_Inr_iff issuer_granted_iff reference_bound_iff signature_bound_iff
    external_receipt_post_init_iff
  have given: "ii_payload i \<noteq> PNone \<and> ii_signature i \<noteq> PNone \<and> xr_status x = ''VERIFIED'' \<and> \<not> xr_revoked x \<and> receipt_ok x \<and>
      is_sha256 (xr_external_receipt_hash x) \<and> tr_issuer_id t = xr_issuer_id x"
    if "reference_verified t verifier (xr_issuer_id x) (xr_key_id x) (ii_payload i) (ii_signature i) (Some x) (Some at)" for t verifier x at
    using that by (auto simp: reference_verified_def receipt_ok_def)
  show ?thesis
  proof
    assume l: "external_identity c r b req s n a i = Inr e"
    then obtain x where x: "ii_receipt i = Some x" by (auto simp: external_identity_def split: option.splits)
    then obtain hs t verifier at where hs: "py_list (ii_external_receipt_hashes i) = Inr hs" "py_eqs hs [PStr (xr_external_receipt_hash x)]"
      and t: "ii_reference i = Some t" "ii_verifier i = Some verifier" "ii_observed_at i = Some at"
      using l by (auto simp: external_identity_def iffs split: option.splits prod.splits)
    then obtain ch bh ah rh where f: "issuer_granted c t (xr_issuer_id x) = Inr ()" "context_hash c = Inr ch" "bundle_hash b = Inr bh"
      "about_bundle c t ch bh" "native_receipt_hash (snapshot_to_dict s) = Inr ah" "native_receipt_hash (native_runner_to_dict n) = Inr rh"
      "signs_receipts (ii_payload i) ah rh"
      "reference_verified t verifier (xr_issuer_id x) (xr_key_id x) (ii_payload i) (ii_signature i) (Some x) (Some at)"
      "finish_identity c r req a x ch bh ah rh (ii_external_receipt_hashes i) = Inr e"
      using l x by (auto simp: external_identity_def iffs)
    then have "ii_external_receipt_hashes i = PTuple [PStr (xr_external_receipt_hash x)] \<and> id_bundle_hash e = bh \<and>
        named_identity c r req a x ah rh e"
      using finish_identity_iff [OF f(2), of x "ii_external_receipt_hashes i" hs r req a bh ah rh e] given [OF f(8)] hs by blast
    moreover from this have "id_context_hash e = ch" using f(2) by (simp add: named_identity_def)
    ultimately show "\<exists>x t verifier at ah rh. ii_receipt i = Some x \<and> ii_reference i = Some t \<and> ii_verifier i = Some verifier \<and>
        ii_observed_at i = Some at \<and> bundle_hash b = Inr (id_bundle_hash e) \<and>
        issuer_may_allow c t \<and> about_bundle c t (id_context_hash e) (id_bundle_hash e) \<and>
        native_receipt_hash (snapshot_to_dict s) = Inr ah \<and> native_receipt_hash (native_runner_to_dict n) = Inr rh \<and>
        signs_receipts (ii_payload i) ah rh \<and>
        reference_verified t verifier (xr_issuer_id x) (xr_key_id x) (ii_payload i) (ii_signature i) (Some x) (Some at) \<and>
        ii_external_receipt_hashes i = PTuple [PStr (xr_external_receipt_hash x)] \<and> named_identity c r req a x ah rh e"
      using x t f by (intro exI [of _ x] exI [of _ t] exI [of _ verifier] exI [of _ at] exI [of _ ah] exI [of _ rh])
        (simp add: issuer_granted_iff)
  next
    assume "\<exists>x t verifier at ah rh. ii_receipt i = Some x \<and> ii_reference i = Some t \<and> ii_verifier i = Some verifier \<and>
        ii_observed_at i = Some at \<and> bundle_hash b = Inr (id_bundle_hash e) \<and>
        issuer_may_allow c t \<and> about_bundle c t (id_context_hash e) (id_bundle_hash e) \<and>
        native_receipt_hash (snapshot_to_dict s) = Inr ah \<and> native_receipt_hash (native_runner_to_dict n) = Inr rh \<and>
        signs_receipts (ii_payload i) ah rh \<and>
        reference_verified t verifier (xr_issuer_id x) (xr_key_id x) (ii_payload i) (ii_signature i) (Some x) (Some at) \<and>
        ii_external_receipt_hashes i = PTuple [PStr (xr_external_receipt_hash x)] \<and> named_identity c r req a x ah rh e"
    then obtain x t verifier at ah rh where f: "ii_receipt i = Some x" "ii_reference i = Some t" "ii_verifier i = Some verifier"
        "ii_observed_at i = Some at" "bundle_hash b = Inr (id_bundle_hash e)" "issuer_may_allow c t"
        "about_bundle c t (id_context_hash e) (id_bundle_hash e)" "native_receipt_hash (snapshot_to_dict s) = Inr ah"
        "native_receipt_hash (native_runner_to_dict n) = Inr rh" "signs_receipts (ii_payload i) ah rh"
        "reference_verified t verifier (xr_issuer_id x) (xr_key_id x) (ii_payload i) (ii_signature i) (Some x) (Some at)"
        "ii_external_receipt_hashes i = PTuple [PStr (xr_external_receipt_hash x)]" "named_identity c r req a x ah rh e" by blast
    have ch: "context_hash c = Inr (id_context_hash e)" using f(13) by (simp add: named_identity_def)
    have hs: "py_list (ii_external_receipt_hashes i) = Inr [PStr (xr_external_receipt_hash x)] \<and>
        finish_identity c r req a x (id_context_hash e) (id_bundle_hash e) ah rh (ii_external_receipt_hashes i) = Inr e"
      using finish_identity_iff [OF ch, of x "ii_external_receipt_hashes i" "[PStr (xr_external_receipt_hash x)]" r req a "id_bundle_hash e" ah rh e]
        given [OF f(11)] f(12,13) by blast
    have "issuer_granted c t (xr_issuer_id x) = Inr ()" "reference_bound c t (id_context_hash e) (id_bundle_hash e) = Inr ()"
      "signature_bound t verifier x (ii_payload i) (ii_signature i) at ah rh = Inr ()" "external_receipt_post_init x = Inr ()"
      using given [OF f(11)] f by (simp_all add: iffs)
    then show "external_identity c r b req s n a i = Inr e"
      using given [OF f(11)] f hs ch by (simp add: external_identity_def)
  qed
qed

text \<open>C35: an identity envelope rests on evidence for all it names.  \<open>make_identity_envelope\<close> returns \<open>e\<close> exactly when:
  the ingestion result is trusted; the run is \<open>VERIFIED\<close> with two attempts, one of which is the one required; commits,
  trees, diff, paths, contract, plan and environment of acquisition and attempt are the context's; the profile lets the
  issuer allow the action; the reference is about this context and bundle, its signature verifies under the issuer's
  key, and the signed bytes name the hashes of the acquisition and of the run; and the fields of \<open>e\<close> are the
  identities of these objects.\<close>

theorem identity_rests_on_evidence:
  "make_identity_envelope cid c tab rid r i = Inr e \<longleftrightarrow> identity_backed cid c tab rid r i e"
proof (cases "is_trusted_ingestion_result cid c tab rid r = Inr True")
  case True
  note trusted = this
  show ?thesis
  proof (cases "in_bundle r")
    case (Some b)
    have "make_identity_envelope cid c tab rid r i = Inr e \<longleftrightarrow> (\<exists>s n req a. ii_acquisition i = Some s \<and> ii_runner i = Some n \<and>
        py_eq (nr_status n) (PStr ''VERIFIED'') \<and> length (nr_attempts n) = 2 \<and> ic_requirements c = [req] \<and>
        find (\<lambda>a. ea_attempt_id a = er_attempt_id req) (nr_attempts n) = Some a \<and> native_agree c req s a \<and>
        external_identity c r b req s n a i = Inr e)"
      by (auto simp: make_identity_envelope_def True Some eseq_Inr_iff guard_Inr_iff native_bound_iff split: option.splits list.splits)
    then show ?thesis
      unfolding identity_backed_def using external_identity_iff [OF True Some] Some True by (simp only: option.inject) blast
  qed (simp add: make_identity_envelope_def identity_backed_def True)
next
  case False
  then show ?thesis by (auto simp: make_identity_envelope_def identity_backed_def ebind_Inr_iff)
qed

section \<open>Transport\<close>

text \<open>Two envelopes whose canonical texts differ and have the same SHA-256.\<close>

definition identities_collide :: "identity \<Rightarrow> identity \<Rightarrow> bool" where
  "identities_collide e e' \<longleftrightarrow> (\<exists>t t'. dumps compact_sorted (mkdict (identity_body e)) = Inr t \<and>
     dumps compact_sorted (mkdict (identity_body e')) = Inr t' \<and> t \<noteq> t' \<and> sha_text (utf8 t) = sha_text (utf8 t'))"

lemma identity_text:
  obtains t where "dumps compact_sorted (mkdict (identity_body e)) = Inr t"
    "loads_bytes (utf8 t) = Inr (PDict (canonical_items (items (mkdict (identity_body e)))))"
proof -
  have "distinct (map fst (items (mkdict (identity_body e))))"
    "list_all (\<lambda>p. is_str (fst p) \<and> jv compact_sorted (snd p)) (items (mkdict (identity_body e)))"
    by (simp_all add: identity_body_def)
  moreover have "PDict (items (mkdict (identity_body e))) = mkdict (identity_body e)" by (simp add: mkdict_def)
  ultimately show ?thesis using that canonical_text by metis
qed

lemma identity_body_inj:
  assumes "canonical_items (items (mkdict (identity_body e))) = canonical_items (items (mkdict (identity_body e')))"
    "id_identity_hash e = id_identity_hash e'"
  shows "e = e'"
proof -
  have "dget (items (mkdict (identity_body e))) k = dget (items (mkdict (identity_body e'))) k" for k
  proof -
    have "distinct (map fst (items (mkdict (identity_body f))))" "list_all (\<lambda>p. is_str (fst p)) (items (mkdict (identity_body f)))" for f
      by (simp_all add: identity_body_def)
    then show ?thesis using assms(1) dget_canonical by metis
  qed
  then have g: "get (items (mkdict (identity_body e))) k = get (items (mkdict (identity_body e'))) k" for k by (simp add: get_def)
  have fields: "id_context_hash e = id_context_hash e'" "id_profile_hash e = id_profile_hash e'" "id_bundle_hash e = id_bundle_hash e'"
    "id_ingestion_receipt_hash e = id_ingestion_receipt_hash e'" "id_subject_hash e = id_subject_hash e'"
    "id_execution_id e = id_execution_id e'" "id_attempt_id e = id_attempt_id e'" "id_generation e = id_generation e'"
    "id_producer_id e = id_producer_id e'" "id_issuer_id e = id_issuer_id e'"
    "id_acquisition_snapshot_hash e = id_acquisition_snapshot_hash e'" "id_runner_result_hash e = id_runner_result_hash e'"
    "id_verification_receipt_hash e = id_verification_receipt_hash e'"
    using g [of "''context_hash''"] g [of "''profile_hash''"] g [of "''bundle_hash''"] g [of "''ingestion_receipt_hash''"]
      g [of "''subject_hash''"] g [of "''execution_id''"] g [of "''attempt_id''"] g [of "''generation''"] g [of "''producer_id''"]
      g [of "''issuer_id''"] g [of "''acquisition_snapshot_hash''"] g [of "''runner_result_hash''"] g [of "''verification_receipt_hash''"]
    by (simp_all add: identity_body_def get_simps)
  have "map PStr (id_external_receipt_hashes e) = map PStr (id_external_receipt_hashes e')"
    using g [of "''external_receipt_hashes''"] by (simp add: identity_body_def get_simps)
  then have "id_external_receipt_hashes e = id_external_receipt_hashes e'" by (simp add: inj_map_eq_map inj_on_def)
  then show ?thesis using fields assms(2) by (cases e; cases e') simp
qed

lemma tuple_field_texts:
  assumes "tuple_field v n b = Inr ()"
  obtains xs where "v = PTuple (map PStr xs)"
proof -
  obtain ys where v: "v = PTuple ys" using assms by (auto simp: tuple_field_def eseq_Inr_iff guard_Inr_iff is_tuple_iff)
  have "\<forall>y \<in> set ys. is_str y" using assms v by (auto simp: tuple_field_def eseq_Inr_iff efor_Inr_iff text_field_iff)
  then obtain xs where "ys = map PStr xs" using strs_exist by blast
  with v that show ?thesis by blast
qed

lemma EvidenceIdentityEnvelope_ok: "EvidenceIdentityEnvelope f = Inr e \<Longrightarrow> identity_ok e"
proof -
  assume a: "EvidenceIdentityEnvelope f = Inr e"
  then have e: "e = identity_of f" by (auto simp: EvidenceIdentityEnvelope_def Let_def eseq_Inr_iff ebind_Inr_iff)
  have t: "k \<in> {''execution_id'', ''attempt_id'', ''generation'', ''producer_id'', ''issuer_id''} \<Longrightarrow>
      \<exists>s. f k = PStr s \<and> normalized s \<and> length s \<le> 4096" for k
    using a by (auto simp: EvidenceIdentityEnvelope_def Let_def eseq_Inr_iff text_field_iff)
  have h: "k \<in> {''context_hash'', ''profile_hash'', ''bundle_hash'', ''ingestion_receipt_hash'', ''subject_hash'',
      ''acquisition_snapshot_hash'', ''runner_result_hash'', ''verification_receipt_hash'', ''identity_hash''} \<Longrightarrow>
      \<exists>s. f k = PStr s \<and> is_sha256 s" for k
    using a by (auto simp: EvidenceIdentityEnvelope_def Let_def eseq_Inr_iff hash_field_iff)
  have "tuple_field (f ''external_receipt_hashes'') ''external_receipt_hashes'' False = Inr ()"
    using a by (simp add: EvidenceIdentityEnvelope_def Let_def eseq_Inr_iff)
  then obtain xs where xs: "f ''external_receipt_hashes'' = PTuple (map PStr xs)" by (rule tuple_field_texts)
  have k: "f k = identity_field e k" if "k \<in> set (tl IDENTITY_KEYS)" for k
  proof -
    have "f k = PStr (str_of (f k))" if n: "k \<noteq> ''external_receipt_hashes''"
    proof (cases "k \<in> {''execution_id'', ''attempt_id'', ''generation'', ''producer_id'', ''issuer_id''}")
      case True
      from t [OF True] show ?thesis by (elim exE conjE) (simp only: str_of_def pyval.case)
    next
      case False
      with n \<open>k \<in> set (tl IDENTITY_KEYS)\<close> have "k \<in> {''context_hash'', ''profile_hash'', ''bundle_hash'',
          ''ingestion_receipt_hash'', ''subject_hash'', ''acquisition_snapshot_hash'', ''runner_result_hash'',
          ''verification_receipt_hash'', ''identity_hash''}" by (simp only: IDENTITY_KEYS_def) auto
      from h [OF this] show ?thesis by (elim exE conjE) (simp only: str_of_def pyval.case)
    qed
    then show ?thesis using \<open>k \<in> set (tl IDENTITY_KEYS)\<close> xs by (auto simp: IDENTITY_KEYS_def e identity_of_def comp_def)
  qed
  have "EvidenceIdentityEnvelope (identity_field e) = Inr e" using a EvidenceIdentityEnvelope_cong [OF k] by simp
  then show ?thesis by (simp add: EvidenceIdentityEnvelope_field)
qed

lemma identity_hash_determines:
  assumes "identity_ok e" "identity_ok e'" "id_identity_hash e = id_identity_hash e'"
  shows "e = e' \<or> identities_collide e e'"
proof -
  obtain t t' where t: "dumps compact_sorted (mkdict (identity_body e)) = Inr t"
      "loads_bytes (utf8 t) = Inr (PDict (canonical_items (items (mkdict (identity_body e)))))"
    and t': "dumps compact_sorted (mkdict (identity_body e')) = Inr t'"
      "loads_bytes (utf8 t') = Inr (PDict (canonical_items (items (mkdict (identity_body e')))))"
    using identity_text by metis
  have "sha_text (utf8 t) = sha_text (utf8 t')" using assms t(1) t'(1) by (simp add: identity_ok_def computed_identity_hash_def)
  then show ?thesis using t t' identity_body_inj [OF _ assms(3)] by (cases "t = t'") (auto simp: identities_collide_def)
qed

text \<open>An envelope in order, for the witness.\<close>

definition sample_identity :: identity where
  "sample_identity = \<lparr>id_context_hash = sample_sha, id_profile_hash = sample_sha, id_bundle_hash = sample_sha,
     id_ingestion_receipt_hash = sample_sha, id_subject_hash = sample_sha, id_execution_id = ''execution'', id_attempt_id = ''pull'',
     id_generation = ''1'', id_producer_id = ''runner'', id_issuer_id = ''owner'', id_acquisition_snapshot_hash = sample_sha,
     id_runner_result_hash = sample_sha, id_verification_receipt_hash = sample_sha, id_external_receipt_hashes = [sample_sha],
     id_identity_hash = sample_sha\<rparr>"

lemma sample_identity_sealed: "\<exists>e. sealed_identity sample_identity = Inr e \<and> id_external_receipt_hashes e = [sample_sha]"
proof -
  obtain h where h: "computed_identity_hash sample_identity = Inr h" "is_sha256 h" using identity_hash_total by blast
  have n: "normalized ''execution''" "normalized ''pull''" "normalized ''1''" "normalized ''runner''" "normalized ''owner''" by code_simp+
  have c: "computed_identity_hash (sample_identity\<lparr>id_identity_hash := h\<rparr>) = Inr h" using h(1) by simp
  have "identity_texts_ok (sample_identity\<lparr>id_identity_hash := h\<rparr>)"
    using h(2) n by (simp add: identity_texts_ok_def sample_identity_def)
  moreover have "id_external_receipt_hashes (sample_identity\<lparr>id_identity_hash := h\<rparr>) = [sample_sha]" by (simp add: sample_identity_def)
  ultimately have "identity_ok (sample_identity\<lparr>id_identity_hash := h\<rparr>)" using c by (simp add: identity_ok_def MAX_COLLECTION_ITEMS_def)
  then have "sealed_identity sample_identity = Inr (sample_identity\<lparr>id_identity_hash := h\<rparr>)" using h(1) by (simp add: sealed_identity_Inr)
  then show ?thesis by (simp add: sample_identity_def)
qed

text \<open>C36: what an envelope serializes to loads as the same envelope when its receipt hashes are sorted, and is refused
  when they are not (the constructor and the serializer do not ask for the order that the loader does); any
  dictionary that loads as an envelope with the same identity hash loads as this one, or SHA-256 collides on the
  two canonical texts.\<close>

theorem identity_envelope_transport:
  assumes "serialize_identity_envelope (Some e) = Inr d"
  shows "load_identity_envelope d = (if sorted (id_external_receipt_hashes e) then Inr e
      else Inl (ValueErr, ''external_receipt_hashes must be sorted and unique'')) \<and>
    (load_identity_envelope d' = Inr e' \<and> id_identity_hash e' = id_identity_hash e \<longrightarrow> e' = e \<or> identities_collide e' e)"
proof (intro conjI impI)
  have ok: "identity_ok e" "d = identity_to_dict e"
    using assms(1) by (auto simp: serialize_identity_envelope_def eseq_Inr_iff identity_post_init_iff)
  show "load_identity_envelope d = (if sorted (id_external_receipt_hashes e) then Inr e
      else Inl (ValueErr, ''external_receipt_hashes must be sorted and unique''))" using load_identity_either ok by simp
  assume l: "load_identity_envelope d' = Inr e' \<and> id_identity_hash e' = id_identity_hash e"
  then have "identity_ok e'"
    using EvidenceIdentityEnvelope_ok by (auto simp: load_identity_envelope_def Let_def eseq_Inr_iff ebind_Inr_iff)
  then show "e' = e \<or> identities_collide e' e" using identity_hash_determines ok(1) l by blast
qed

theorem identity_envelope_transport_witness:
  "\<exists>e. sealed_identity sample_identity = Inr e \<and> serialize_identity_envelope (Some e) = Inr (identity_to_dict e) \<and>
     load_identity_envelope (identity_to_dict e) = Inr e"
proof -
  obtain e where e: "sealed_identity sample_identity = Inr e" "id_external_receipt_hashes e = [sample_sha]"
    using sample_identity_sealed by blast
  then have "identity_ok e" by (simp add: sealed_identity_Inr)
  then have "identity_post_init e = Inr ()" by (simp add: identity_post_init_iff)
  then have "serialize_identity_envelope (Some e) = Inr (identity_to_dict e)" by (simp add: serialize_identity_envelope_def)
  then show ?thesis using e identity_envelope_transport [of e "identity_to_dict e" "identity_to_dict e" e] by auto
qed

end
