(* ===== verification/Trusted_Adapter.thy ===== *)
theory Trusted_Adapter
  imports External_Trust Kernel
begin

text \<open>
  \<open>product/adapters/trusted.py\<close>: from an ingestion result to a trusted certification.  An expectation fixes,
  for one role, the external receipt that is awaited; \<open>validate_prerequisites\<close> compares the four references
  with the four expectations and the context, and mints the kernel's policy flags; \<open>certify_ingested\<close> runs the
  kernel under them; \<open>is_trusted_certification_result\<close> recognises what was minted.  \<open>product/adapters/legacy.py\<close>,
  the adapter for single values, is at the end.

  Objects carry an identity (a number).  The three weak dictionaries keyed by object are tables from that
  identity to the identities of the objects the entry belongs to and the hash at minting time.  Objects have
  typed fields; \<open>None\<close> stands for an argument that is not a tuple or not of the expected class.
\<close>

section \<open>Registries of minted objects\<close>

type_synonym registry = "nat \<Rightarrow> (nat list \<times> string) option"

definition enlist :: "nat \<Rightarrow> nat list \<Rightarrow> string \<Rightarrow> registry \<Rightarrow> registry" where
  "enlist k owners h reg = reg(k \<mapsto> (owners, h))"

text \<open>The hash in the registry, for an object that belongs to \<open>owners\<close>.\<close>

definition minted_hash :: "registry \<Rightarrow> nat \<Rightarrow> nat list \<Rightarrow> string option" where
  "minted_hash reg k owners = (case reg k of None \<Rightarrow> None | Some (os, h) \<Rightarrow> if os = owners then Some h else None)"

text \<open>\<open>except (KeyError, TypeError, ValueError, AttributeError)\<close>.\<close>

definition lookup_error :: "exn \<Rightarrow> bool" where
  "lookup_error e \<longleftrightarrow> e = KeyErr \<or> caught e"

section \<open>Expectations\<close>

definition EXTERNAL_RECEIPT_EXPECTATION_SCHEMA :: string where
  "EXTERNAL_RECEIPT_EXPECTATION_SCHEMA = ''nexus.external_receipt_expectation.v1-experimental''"

definition ROLES :: "trust_role list" where
  "ROLES = [TR_POLICY, TR_AUTHORITY, TR_APPROVAL, TR_SIGNING]"

record receipt_expectation =
  ex_context_hash :: string
  ex_subject_hash :: string
  ex_profile_hash :: string
  ex_role :: trust_role
  ex_evidence_id :: string
  ex_issuer_id :: string
  ex_expected_payload_hash :: string
  ex_required_action :: string
  ex_verification_method :: string
  ex_external_verification_receipt_hash :: string

definition expectation_hash :: "receipt_expectation \<Rightarrow> string res" where
  "expectation_hash x = hash_value (PTuple [PStr EXTERNAL_RECEIPT_EXPECTATION_SCHEMA, PStr (ex_context_hash x),
     PStr (ex_subject_hash x), PStr (ex_profile_hash x), PStr (trust_role_value (ex_role x)), PStr (ex_evidence_id x),
     PStr (ex_issuer_id x), PStr (ex_expected_payload_hash x), PStr (ex_required_action x), PStr (ex_verification_method x),
     PStr (ex_external_verification_receipt_hash x)])"

text \<open>\<open>ingestion.bundle.hash\<close> and \<open>_subject\<close>.\<close>

definition ingested_bundle_hash :: "ingestion_result \<Rightarrow> string res" where
  "ingested_bundle_hash r = (case in_bundle r of None \<Rightarrow> Inl (AttributeErr, ''hash'') | Some b \<Rightarrow> bundle_hash b)"

definition prerequisite_subject :: "ingestion_context \<Rightarrow> ingestion_result \<Rightarrow> string res" where
  "prerequisite_subject c r =
     ebind (context_hash c) (\<lambda>ch. ebind (ingested_bundle_hash r) (\<lambda>bh.
       hash_value (PTuple [PStr ''nexus.trusted_prerequisite_subject.v1-experimental'', PStr ch, PStr bh])))"

text \<open>\<open>dict(context.prerequisite_payload_hashes)\<close>.\<close>

definition roots :: "ingestion_context \<Rightarrow> trust_role \<Rightarrow> string option" where
  "roots c = map_of (rev (ic_prerequisite_payload_hashes c))"

definition valid_expectation ::
  "nat \<Rightarrow> nat \<Rightarrow> registry \<Rightarrow> nat \<times> receipt_expectation \<Rightarrow> bool res" where
  "valid_expectation cid rid reg = (\<lambda>(k, x).
     case minted_hash reg k [cid, rid] of
       None \<Rightarrow> Inr False
     | Some h \<Rightarrow> catch lookup_error False (ebind (expectation_hash x) (\<lambda>h'. Inr (h' = h))))"

definition bootstrap_external_receipt_expectation ::
  "nat \<Rightarrow> ingestion_context \<Rightarrow> trusted \<Rightarrow> nat \<Rightarrow> ingestion_result \<Rightarrow> trust_role \<Rightarrow> string \<Rightarrow> string \<Rightarrow> string \<Rightarrow> string \<Rightarrow>
   nat \<Rightarrow> registry \<Rightarrow> (receipt_expectation \<times> registry) res" where
  "bootstrap_external_receipt_expectation cid c tab rid r role evidence_id issuer_id method receipt k reg =
     (let missing = (ValueErr, trust_role_value role @ '':ISSUER_GRANT_MISSING'') in
      ebind (is_trusted_ingestion_result cid c tab rid r) (\<lambda>ok.
      eseq (guard ok ValueErr ''UNTRUSTED_INGESTION'')
     (case find (\<lambda>g. ig_issuer_id g = issuer_id) (ip_issuers (ic_profile c)) of
        None \<Rightarrow> Inl missing
      | Some g \<Rightarrow>
          if \<not> List.member (ig_roles g) role then Inl missing
          else eseq (guard (List.member (ig_actions g) (ic_required_action c) \<and> List.member (ig_verification_methods g) method)
                 ValueErr (trust_role_value role @ '':ISSUER_GRANT_MISMATCH''))
         (case roots c role of
            None \<Rightarrow> Inl (ValueErr, ''UNTRUSTED_CONTEXT'')
          | Some root \<Rightarrow>
              ebind (context_hash c) (\<lambda>ch. ebind (prerequisite_subject c r) (\<lambda>subject.
              let x = \<lparr>ex_context_hash = ch, ex_subject_hash = subject, ex_profile_hash = ic_expected_profile_hash c, ex_role = role,
                   ex_evidence_id = evidence_id, ex_issuer_id = issuer_id, ex_expected_payload_hash = root,
                   ex_required_action = ic_required_action c, ex_verification_method = method,
                   ex_external_verification_receipt_hash = sha_text receipt\<rparr>
              in ebind (expectation_hash x) (\<lambda>h. Inr (x, enlist k [cid, rid] h reg))))))))"

section \<open>Validated prerequisites\<close>

record prerequisites =
  pp_subject_hash :: string
  pp_context_hash :: string
  pp_profile_hash :: string
  pp_ingestion_bundle_hash :: string
  pp_ingestion_receipt_hash :: string
  pp_observed_at :: string
  pp_policy_accepted :: bool
  pp_authority_present :: bool
  pp_approval_present :: bool
  pp_signing_present :: bool
  pp_reference_hashes :: "string list"
  pp_expectation_hashes :: "string list"

definition prerequisites_hash :: "prerequisites \<Rightarrow> string res" where
  "prerequisites_hash p = hash_value (PTuple [PStr ''nexus.validated_prerequisites.v1-experimental'', PStr (pp_subject_hash p),
     PStr (pp_context_hash p), PStr (pp_profile_hash p), PStr (pp_ingestion_bundle_hash p), PStr (pp_ingestion_receipt_hash p),
     PStr (pp_observed_at p), PBool (pp_policy_accepted p), PBool (pp_authority_present p), PBool (pp_approval_present p),
     PBool (pp_signing_present p), strings (pp_reference_hashes p), strings (pp_expectation_hashes p)])"

definition registered_prerequisite ::
  "nat \<Rightarrow> ingestion_context \<Rightarrow> nat \<Rightarrow> ingestion_result \<Rightarrow> registry \<Rightarrow> nat \<Rightarrow> prerequisites \<Rightarrow> bool res" where
  "registered_prerequisite cid c rid r reg k p =
     (case minted_hash reg k [cid, rid] of
        None \<Rightarrow> Inr False
      | Some h \<Rightarrow>
          if length (pp_reference_hashes p) \<noteq> 4 \<or> length (pp_expectation_hashes p) \<noteq> 4 then Inr False
          else catch lookup_error False
            (ebind (prerequisite_subject c r) (\<lambda>subject.
             ebind (context_hash c) (\<lambda>ch.
             ebind (ingested_bundle_hash r) (\<lambda>bh.
             ebind (prerequisites_hash p) (\<lambda>ph.
               Inr (pp_subject_hash p = subject \<and> pp_context_hash p = ch \<and> pp_profile_hash p = ic_expected_profile_hash c \<and>
                 pp_ingestion_bundle_hash p = bh \<and> pp_ingestion_receipt_hash p = ir_receipt_hash (in_receipt r) \<and>
                 pp_observed_at p = ic_observed_at c \<and> ph = h)))))))"

text \<open>\<open>_role_map\<close>: exactly four values of the class, one for each role and in the order of the roles.\<close>

definition role_map :: "('a \<Rightarrow> trust_role) \<Rightarrow> 'a option list option \<Rightarrow> (trust_role \<times> 'a) list option" where
  "role_map role values =
     (case values of
        None \<Rightarrow> None
      | Some vs \<Rightarrow>
          if length vs \<noteq> 4 \<or> List.member vs None then None
          else let xs = map the vs in if map role xs = ROLES then Some (zip ROLES xs) else None)"

definition valid_reference :: "trust_reference \<Rightarrow> bool res" where
  "valid_reference t =
     (case trust_reference_post_init t of
        Inr _ \<Rightarrow> Inr True
      | Inl (e, m) \<Rightarrow> if is_value_error e then Inr (m = ''external verification receipt hash mismatch'')
          else if e = TypeErr \<or> e = AttributeErr then Inr False else Inl (e, m))"

text \<open>\<open>a\<close> and \<open>b\<close> are times and satisfy \<open>P\<close>.\<close>

definition times_satisfy :: "(nat \<Rightarrow> nat \<Rightarrow> bool) \<Rightarrow> nat option \<Rightarrow> nat option \<Rightarrow> bool" where
  "times_satisfy P a b = (case (a, b) of (Some x, Some y) \<Rightarrow> P x y | _ \<Rightarrow> False)"

definition expectation_mismatch ::
  "ingestion_context \<Rightarrow> string \<Rightarrow> string \<Rightarrow> trust_role \<Rightarrow> trust_reference \<Rightarrow> receipt_expectation \<Rightarrow> bool" where
  "expectation_mismatch c ch subject role t x =
     (let raw = sha_text (tr_receipt t) in
      ex_context_hash x \<noteq> ch \<or> ex_subject_hash x \<noteq> subject \<or> ex_profile_hash x \<noteq> ic_expected_profile_hash c \<or> ex_role x \<noteq> role \<or>
      ex_evidence_id x \<noteq> tr_evidence_id t \<or> ex_issuer_id x \<noteq> tr_issuer_id t \<or> ex_required_action x \<noteq> ic_required_action c \<or>
      ex_verification_method x \<noteq> tr_verification_method t \<or> Some (ex_expected_payload_hash x) \<noteq> roots c role \<or>
      ex_external_verification_receipt_hash x \<noteq> raw \<and> raw = tr_receipt_hash t)"

text \<open>The table of checks for one role, in order.\<close>

definition role_checks ::
  "ingestion_context \<Rightarrow> string \<Rightarrow> string \<Rightarrow> trust_role \<Rightarrow> trust_reference \<Rightarrow> receipt_expectation \<Rightarrow> (bool \<times> string) list" where
  "role_checks c ch subject role t x =
     (let issued = parse_time (tr_issued_at t); expires = parse_time (tr_expires_at t);
          revoked = Option.bind (tr_revoked_at t) parse_time; observed = parse_time (ic_observed_at c) in
      [(tr_subject_hash t \<noteq> subject, ''SUBJECT_MISMATCH''),
       (expectation_mismatch c ch subject role t x, ''EXTERNAL_RECEIPT_EXPECTATION_MISMATCH''),
       (tr_action t \<noteq> ic_required_action c, ''ACTION_MISMATCH''),
       (Some (tr_payload_hash t) \<noteq> roots c role, ''PAYLOAD_HASH_MISMATCH''),
       (Some (tr_signed_payload_hash t) \<noteq> roots c role, ''SIGNED_PAYLOAD_HASH_MISMATCH''),
       (issued = None \<or> expires = None \<or> tr_revoked_at t \<noteq> None \<and> revoked = None, ''TIMESTAMP_MALFORMED''),
       (times_satisfy (>) issued observed, ''ISSUED_AFTER_OBSERVED_AT''),
       (times_satisfy (\<le>) expires observed, ''EXPIRED_AT_OBSERVED_AT''),
       (times_satisfy (\<le>) revoked observed, ''REVOKED_AT_OBSERVED_AT''),
       (sha_text (tr_receipt t) \<noteq> tr_receipt_hash t, ''EXTERNAL_RECEIPT_HASH_MISMATCH'')])"

definition role_reason ::
  "ingestion_context \<Rightarrow> string \<Rightarrow> string \<Rightarrow> trust_role \<Rightarrow> trust_reference \<Rightarrow> receipt_expectation \<Rightarrow> string list" where
  "role_reason c ch subject role t x =
     (case find fst (role_checks c ch subject role t x) of
        None \<Rightarrow> [] | Some (_, code) \<Rightarrow> [trust_role_value role @ '':'' @ code])"

record prerequisite_result =
  pq_validated :: bool
  pq_prerequisites :: "prerequisites option"
  pq_reason_codes :: "string list"

definition invalid :: "string list \<Rightarrow> prerequisite_result" where
  "invalid reasons = \<lparr>pq_validated = False, pq_prerequisites = None, pq_reason_codes = reasons\<rparr>"

text \<open>The tests that come before the references; \<open>Some code\<close> is an early return.\<close>

definition context_refused :: "bool \<Rightarrow> ingestion_context \<Rightarrow> string option res" where
  "context_refused complete c =
     ebind (holds (context_post_init c)) (\<lambda>ok.
       if \<not> ok \<or> \<not> complete then Inr (Some ''UNTRUSTED_CONTEXT'')
       else catch caught (Some ''UNTRUSTED_CONTEXT'')
         (ebind (ingestion_profile_hash (ic_profile c)) (\<lambda>h.
            Inr (if ic_expected_profile_hash c \<noteq> h then Some ''PROFILE_MISMATCH'' else None))))"

definition ingestion_refused :: "nat \<Rightarrow> ingestion_context \<Rightarrow> trusted \<Rightarrow> nat \<Rightarrow> ingestion_result \<Rightarrow> string option res" where
  "ingestion_refused cid c tab rid r =
     ebind (classify_ingestion_result cid c tab rid r) (\<lambda>state.
       Inr (case state of IT_UNTRUSTED \<Rightarrow> Some ''UNTRUSTED_INGESTION''
         | IT_RECEIPT_INVALID \<Rightarrow> Some ''INGESTION_RECEIPT_INVALID'' | IT_TRUSTED \<Rightarrow> None))"

definition has_all_roots :: "ingestion_context \<Rightarrow> bool" where
  "has_all_roots c \<longleftrightarrow> length (ic_prerequisite_payload_hashes c) = length ROLES \<and>
     set (map fst (ic_prerequisite_payload_hashes c)) = set ROLES"

text \<open>The last part: the references are of the right shape and only their contents are left to check.\<close>

definition judge_prerequisites ::
  "nat \<Rightarrow> ingestion_context \<Rightarrow> nat \<Rightarrow> ingestion_result \<Rightarrow> trust_reference list \<Rightarrow> receipt_expectation list \<Rightarrow> nat \<Rightarrow> registry \<Rightarrow>
   (prerequisite_result \<times> registry) res" where
  "judge_prerequisites cid c rid r ts xs k reg =
     ebind (prerequisite_subject c r) (\<lambda>subject.
     ebind (context_hash c) (\<lambda>ch.
     let reasons = concat (map (\<lambda>(role, t, x). role_reason c ch subject role t x) (zip ROLES (zip ts xs))) in
     if reasons \<noteq> [] then Inr (invalid reasons, reg)
     else (case in_bundle r of
         None \<Rightarrow> Inr (invalid [''INGESTION_RECEIPT_INVALID''], reg)
       | Some b \<Rightarrow>
           ebind (bundle_hash b) (\<lambda>bh.
           ebind (emap trust_reference_hash ts) (\<lambda>ths.
           ebind (emap expectation_hash xs) (\<lambda>xhs.
           let allowed = (\<lambda>i. tr_decision (ts ! i) = TD_ALLOW);
             p = \<lparr>pp_subject_hash = subject, pp_context_hash = ch, pp_profile_hash = ic_expected_profile_hash c,
               pp_ingestion_bundle_hash = bh, pp_ingestion_receipt_hash = ir_receipt_hash (in_receipt r),
               pp_observed_at = ic_observed_at c, pp_policy_accepted = allowed 0, pp_authority_present = allowed 1,
               pp_approval_present = allowed 2, pp_signing_present = allowed 3, pp_reference_hashes = ths,
               pp_expectation_hashes = xhs\<rparr>
           in ebind (prerequisites_hash p) (\<lambda>h.
             Inr (\<lparr>pq_validated = True, pq_prerequisites = Some p, pq_reason_codes = []\<rparr>, enlist k [cid, rid] h reg))))))))"

definition validate_prerequisites ::
  "nat \<Rightarrow> ingestion_context option \<Rightarrow> trusted \<Rightarrow> nat \<Rightarrow> ingestion_result \<Rightarrow> trust_reference option list option \<Rightarrow>
   (nat \<times> receipt_expectation) option list option \<Rightarrow> registry \<Rightarrow> nat \<Rightarrow> registry \<Rightarrow> (prerequisite_result \<times> registry) res" where
  "validate_prerequisites cid context tab rid r references expectations xreg k reg =
     (let refuse = (\<lambda>code. Inr (invalid [code], reg)) in
      case context of
        None \<Rightarrow> refuse ''MALFORMED_INPUT''
      | Some c \<Rightarrow>
          ebind (context_refused (has_all_roots c) c) (\<lambda>bad.
            case bad of Some code \<Rightarrow> refuse code
            | None \<Rightarrow>
                ebind (ingestion_refused cid c tab rid r) (\<lambda>bad.
                case bad of Some code \<Rightarrow> refuse code
                | None \<Rightarrow>
                    (case role_map tr_role references of
                       None \<Rightarrow> refuse ''ROLE_SET_INVALID''
                     | Some refmap \<Rightarrow>
                         (case role_map (ex_role \<circ> snd) expectations of
                            None \<Rightarrow> refuse ''EXPECTATION_SET_INVALID''
                          | Some expmap \<Rightarrow>
                              ebind (eall (valid_expectation cid rid xreg) (map snd expmap)) (\<lambda>ok.
                              if \<not> ok then refuse ''EXPECTATION_SET_INVALID''
                              else ebind (eall valid_reference (map snd refmap)) (\<lambda>ok.
                              if \<not> ok then refuse ''ROLE_SET_INVALID''
                              else judge_prerequisites cid c rid r (map snd refmap) (map (snd \<circ> snd) expmap) k reg)))))))"

section \<open>Trusted certification\<close>

record trusted_certification =
  tc_context_hash :: string
  tc_profile_hash :: string
  tc_ingestion_bundle_hash :: string
  tc_ingestion_receipt_hash :: string
  tc_prerequisite_subject_hash :: string
  tc_prerequisites_hash :: string
  tc_core_receipt_hash :: string
  tc_core_result :: certification_result

definition certification_hash :: "trusted_certification \<Rightarrow> string res" where
  "certification_hash t = hash_value (PTuple [PStr ''nexus.trusted_certification_wrapper.v1-experimental'', PStr (tc_context_hash t),
     PStr (tc_profile_hash t), PStr (tc_ingestion_bundle_hash t), PStr (tc_ingestion_receipt_hash t),
     PStr (tc_prerequisite_subject_hash t), PStr (tc_prerequisites_hash t), PStr (tc_core_receipt_hash t)])"

definition prerequisite_input :: "ingestion_context \<Rightarrow> evidence_bundle \<Rightarrow> prerequisites \<Rightarrow> certification_input" where
  "prerequisite_input c b p = \<lparr>ci_contract = Obj (ic_contract c), ci_change_set = Obj (ic_change_set c), ci_plan = Obj (ic_plan c),
     ci_evidence = Obj b, ci_policy_accepted = PBool (pp_policy_accepted p), ci_authority_present = PBool (pp_authority_present p),
     ci_approval_present = PBool (pp_approval_present p), ci_signing_present = PBool (pp_signing_present p)\<rparr>"

definition refuse_certification :: "string \<Rightarrow> 'a res" where
  "refuse_certification code = Inl (ValueErr, ''invalid_trusted_certification_input:'' @ code)"

definition core_receipt_hash :: "certification_result \<Rightarrow> string res" where
  "core_receipt_hash res = obj_hash receipt_core_hash (cr_receipt res)"

definition certify_ingested ::
  "nat \<Rightarrow> ingestion_context option \<Rightarrow> trusted \<Rightarrow> nat \<Rightarrow> ingestion_result \<Rightarrow> (nat \<times> prerequisites) option \<Rightarrow> registry \<Rightarrow>
   nat \<Rightarrow> registry \<Rightarrow> (trusted_certification \<times> registry) res" where
  "certify_ingested cid context tab rid r prereq preg k reg =
     (case context of
        None \<Rightarrow> refuse_certification ''UNTRUSTED_CONTEXT''
      | Some c \<Rightarrow>
          ebind (context_refused True c) (\<lambda>bad.
          case bad of Some code \<Rightarrow> refuse_certification code
          | None \<Rightarrow>
              ebind (ingestion_refused cid c tab rid r) (\<lambda>bad.
              case bad of Some code \<Rightarrow> refuse_certification code
              | None \<Rightarrow>
                  (case in_bundle r of
                     None \<Rightarrow> refuse_certification ''INGESTION_RECEIPT_INVALID''
                   | Some b \<Rightarrow>
                       (case prereq of
                          None \<Rightarrow> refuse_certification ''UNTRUSTED_PREREQUISITES''
                        | Some (pid, p) \<Rightarrow>
                            ebind (registered_prerequisite cid c rid r preg pid p) (\<lambda>ok.
                            if \<not> ok then refuse_certification ''UNTRUSTED_PREREQUISITES''
                            else ebind (prerequisite_subject c r) (\<lambda>subject.
                            if pp_subject_hash p \<noteq> subject then refuse_certification ''SUBJECT_MISMATCH''
                            else ebind (context_hash c) (\<lambda>ch.
                            if pp_context_hash p \<noteq> ch \<or> pp_ingestion_receipt_hash p \<noteq> ir_receipt_hash (in_receipt r)
                            then refuse_certification ''SUBJECT_MISMATCH''
                            else ebind (certify (Obj (prerequisite_input c b p))) (\<lambda>core.
                              ebind (bundle_hash b) (\<lambda>bh.
                              ebind (prerequisites_hash p) (\<lambda>ph.
                              ebind (core_receipt_hash core) (\<lambda>rh.
                              let t = \<lparr>tc_context_hash = ch, tc_profile_hash = ic_expected_profile_hash c,
                                  tc_ingestion_bundle_hash = bh, tc_ingestion_receipt_hash = ir_receipt_hash (in_receipt r),
                                  tc_prerequisite_subject_hash = pp_subject_hash p, tc_prerequisites_hash = ph,
                                  tc_core_receipt_hash = rh, tc_core_result = core\<rparr>
                              in ebind (certification_hash t) (\<lambda>h. Inr (t, enlist k [cid, rid, pid] h reg))))))))))))))"

text \<open>\<open>==\<close> of two results of verification: the registry flag is no field.\<close>

definition same_verification :: "verification_result obj \<Rightarrow> verification_result obj \<Rightarrow> bool" where
  "same_verification x y =
     (case (x, y) of
        (Obj a, Obj b) \<Rightarrow> vr_status a = vr_status b \<and> py_eq (vr_reason_codes a) (vr_reason_codes b) \<and> vr_integrity a = vr_integrity b
      | _ \<Rightarrow> False)"

definition certification_checks ::
  "nat \<Rightarrow> ingestion_context \<Rightarrow> trusted \<Rightarrow> nat \<Rightarrow> ingestion_result \<Rightarrow> nat \<Rightarrow> prerequisites \<Rightarrow> registry \<Rightarrow> nat \<Rightarrow>
   trusted_certification \<Rightarrow> registry \<Rightarrow> bool res" where
  "certification_checks cid c tab rid r pid p preg k t reg =
     (case minted_hash reg k [cid, rid, pid] of
        None \<Rightarrow> Inr False
      | Some h \<Rightarrow>
          ebind (is_trusted_ingestion_result cid c tab rid r) (\<lambda>ok.
          ebind (if ok then registered_prerequisite cid c rid r preg pid p else Inr False) (\<lambda>ok.
          if \<not> ok then Inr False
          else (case in_bundle r of
              None \<Rightarrow> Inr False
            | Some b \<Rightarrow>
                ebind (certification_hash t) (\<lambda>th. ebind (context_hash c) (\<lambda>ch. ebind (bundle_hash b) (\<lambda>bh.
                ebind (prerequisites_hash p) (\<lambda>ph. ebind (core_receipt_hash (tc_core_result t)) (\<lambda>rh.
                if \<not> (th = h \<and> tc_context_hash t = ch \<and> tc_ingestion_bundle_hash t = bh \<and>
                   tc_ingestion_receipt_hash t = ir_receipt_hash (in_receipt r) \<and> tc_prerequisites_hash t = ph \<and>
                   rh = tc_core_receipt_hash t) then Inr False
                else ebind (certify (Obj (prerequisite_input c b p))) (\<lambda>expected.
                  ebind (core_receipt_hash expected) (\<lambda>eh.
                  Inr (rh = eh \<and> same_verification (cr_verification (tc_core_result t)) (cr_verification expected) \<and>
                    cr_disposition (tc_core_result t) = cr_disposition expected))))))))))))"

text \<open>Any exception is an answer: no.\<close>

definition is_trusted_certification_result ::
  "nat \<Rightarrow> ingestion_context \<Rightarrow> trusted \<Rightarrow> nat \<Rightarrow> ingestion_result \<Rightarrow> nat \<Rightarrow> prerequisites \<Rightarrow> registry \<Rightarrow> nat \<Rightarrow>
   trusted_certification \<Rightarrow> registry \<Rightarrow> bool" where
  "is_trusted_certification_result cid c tab rid r pid p preg k t reg =
     (case certification_checks cid c tab rid r pid p preg k t reg of Inl _ \<Rightarrow> False | Inr b \<Rightarrow> b)"

section \<open>The legacy adapter\<close>

record legacy_result =
  lg_ingestion :: "ingestion_result option"
  lg_fallback_integrity :: "integrity_status option"
  lg_reasons :: "string list"

datatype legacy_value = Legacy_Submission submission | Legacy_Text string | Legacy_Other

definition adapt_legacy_evidence ::
  "((string \<times> freshness_status) list \<Rightarrow> (string \<times> freshness_status) list) \<Rightarrow> nat \<Rightarrow> nat \<Rightarrow> ingestion_context \<Rightarrow> legacy_value \<Rightarrow>
   trusted \<Rightarrow> (legacy_result \<times> trusted) res" where
  "adapt_legacy_evidence it cid rid c v tab =
     (case v of
        Legacy_Submission s \<Rightarrow>
          ebind (ingest_evidence it cid rid c [s] tab) (\<lambda>(r, tab').
            Inr (\<lparr>lg_ingestion = Some r, lg_fallback_integrity = None, lg_reasons = []\<rparr>, tab'))
      | Legacy_Text _ \<Rightarrow> Inr (\<lparr>lg_ingestion = None, lg_fallback_integrity = Some LEGACY_NON_CERTIFIABLE,
          lg_reasons = [''LEGACY_NARRATIVE_NON_CERTIFIABLE'']\<rparr>, tab)
      | Legacy_Other \<Rightarrow> Inr (\<lparr>lg_ingestion = None, lg_fallback_integrity = Some MALFORMED,
          lg_reasons = [''LEGACY_STRUCTURED_MALFORMED'']\<rparr>, tab))"

end
