(* ===== verification/Trusted_Adapter_Properties.thy ===== *)
theory Trusted_Adapter_Properties
  imports Trusted_Adapter Ingestion_Claims
begin

text \<open>
  Theorems about \<open>adapters/trusted.py\<close>: when the four references are accepted, what an accepted chain from
  evidence to certification decides, and what a recognised certification is.
\<close>

section \<open>Minted objects\<close>

text \<open>The interface of a class of minted objects: the registry keeps the hash of \<open>fields\<close>, which determines
  what \<open>view\<close> shows of the object.\<close>

locale minted_class =
  fixes seal :: "'a \<Rightarrow> string res" and fields :: "'a \<Rightarrow> pyval" and view :: "'a \<Rightarrow> 'b"
  assumes seal_fields: "seal x = hash_value (fields x)"
    and fields_view: "clean (fields x) = clean (fields y) \<Longrightarrow> view x = view y"
    and fields_clean: "\<exists>w. clean (fields x) = Inr w"
begin

lemma sealed: "\<exists>h. seal x = Inr h \<and> is_sha256 h"
  unfolding seal_fields using fields_clean [of x] hash_value_ok by blast

text \<open>An object that a registry still recognises shows what it showed when it was minted.\<close>

lemma unchanged: "seal x = Inr h \<Longrightarrow> seal y = Inr h \<Longrightarrow> view x = view y \<or> collides (fields x) (fields y)"
  unfolding seal_fields using fields_view [of x y] hash_value_binds [of "fields x" h "fields y"] by blast

end

definition expectation_fields :: "receipt_expectation \<Rightarrow> pyval" where
  "expectation_fields x = PTuple [PStr EXTERNAL_RECEIPT_EXPECTATION_SCHEMA, PStr (ex_context_hash x),
     PStr (ex_subject_hash x), PStr (ex_profile_hash x), PStr (trust_role_value (ex_role x)), PStr (ex_evidence_id x),
     PStr (ex_issuer_id x), PStr (ex_expected_payload_hash x), PStr (ex_required_action x), PStr (ex_verification_method x),
     PStr (ex_external_verification_receipt_hash x)]"

definition prerequisites_fields :: "prerequisites \<Rightarrow> pyval" where
  "prerequisites_fields p = PTuple [PStr ''nexus.validated_prerequisites.v1-experimental'', PStr (pp_subject_hash p),
     PStr (pp_context_hash p), PStr (pp_profile_hash p), PStr (pp_ingestion_bundle_hash p), PStr (pp_ingestion_receipt_hash p),
     PStr (pp_observed_at p), PBool (pp_policy_accepted p), PBool (pp_authority_present p), PBool (pp_approval_present p),
     PBool (pp_signing_present p), strings (pp_reference_hashes p), strings (pp_expectation_hashes p)]"

definition certification_texts :: "trusted_certification \<Rightarrow> string list" where
  "certification_texts t = [tc_context_hash t, tc_profile_hash t, tc_ingestion_bundle_hash t, tc_ingestion_receipt_hash t,
     tc_prerequisite_subject_hash t, tc_prerequisites_hash t, tc_core_receipt_hash t]"

definition certification_fields :: "trusted_certification \<Rightarrow> pyval" where
  "certification_fields t = PTuple (map PStr (''nexus.trusted_certification_wrapper.v1-experimental'' # certification_texts t))"

lemma role_values_inj: "trust_role_value a = trust_role_value b \<Longrightarrow> a = b"
  by (cases a; cases b) simp_all

lemma map_PStr_inj: "map PStr xs = map PStr ys \<longleftrightarrow> xs = ys"
  by (simp add: inj_map_eq_map inj_on_def)

lemma strings_clean: "clean (strings xs) = Inr (PList (map PStr xs))"
  by (simp add: strings_def)

interpretation expectations: minted_class expectation_hash expectation_fields "\<lambda>x. x"
proof
  show "clean (expectation_fields x) = clean (expectation_fields y) \<Longrightarrow> x = y" for x y
    by (cases x; cases y) (auto simp: expectation_fields_def dest: role_values_inj)
qed (simp_all add: expectation_hash_def expectation_fields_def)

interpretation prerequisite_flags: minted_class prerequisites_hash prerequisites_fields "\<lambda>p. p"
proof
  show "clean (prerequisites_fields x) = clean (prerequisites_fields y) \<Longrightarrow> x = y" for x y
    by (cases x; cases y) (auto simp: prerequisites_fields_def strings_clean map_PStr_inj)
qed (simp_all add: prerequisites_hash_def prerequisites_fields_def strings_clean)

interpretation certifications: minted_class certification_hash certification_fields certification_texts
proof
  show "clean (certification_fields x) = clean (certification_fields y) \<Longrightarrow> certification_texts x = certification_texts y" for x y
    by (simp add: certification_fields_def certification_texts_def)
qed (simp_all add: certification_hash_def certification_fields_def certification_texts_def)

section \<open>Trusted ingestion\<close>

lemma nested_iff: "validate_context_nested c = Inr True \<longleftrightarrow> revalidate_context c = Inr ()"
  by (auto simp: validate_context_nested_def holds_def context_post_init_def revalidate_context_def eseq_Inr_iff
      split: sum.splits prod.splits if_splits)

lemma trusted_ingestion:
  assumes "is_trusted_ingestion_result cid c tab rid r = Inr True"
  obtains ch b bh where "revalidate_context c = Inr ()" "context_hash c = Inr ch" "in_bundle r = Some b" "bundle_hash b = Inr bh"
    "ir_bundle_hash (in_receipt r) = Some bh" "bundle_integrity b (ic_contract c) (ic_change_set c) (ic_plan c) = Inr VALID"
    "tab rid = Some (cid, result_fingerprint ch r, True)"
  using assms
  by (auto simp: is_trusted_ingestion_result_def recomputed_bundle_ok_def ebind_Inr_iff nested_iff
      split: option.splits if_splits)

lemma subject_total:
  assumes "is_trusted_ingestion_result cid c tab rid r = Inr True"
  shows "\<exists>h. prerequisite_subject c r = Inr h"
proof -
  from assms obtain ch b bh where "context_hash c = Inr ch" "in_bundle r = Some b" "bundle_hash b = Inr bh"
    by (rule trusted_ingestion)
  then show ?thesis using hash_value_total by (simp add: prerequisite_subject_def ingested_bundle_hash_def)
qed

lemma context_refused_None:
  "context_refused complete c = Inr None \<longleftrightarrow>
     context_post_init c = Inr () \<and> complete \<and> ingestion_profile_hash (ic_profile c) = Inr (ic_expected_profile_hash c)"
proof -
  obtain h where h: "ingestion_profile_hash (ic_profile c) = Inr h" using ingestion_profile_hash_total by blast
  have ok: "holds x = Inr True \<longleftrightarrow> x = Inr ()" for x by (simp add: holds_def split: sum.splits prod.splits)
  show ?thesis
  proof (cases "context_post_init c = Inr ()")
    case True
    then have "holds (context_post_init c) = Inr True" by (simp add: ok)
    then show ?thesis using True by (simp add: context_refused_def h catch_def)
  next
    case False
    then have "holds (context_post_init c) \<noteq> Inr True" by (simp add: ok)
    then show ?thesis using False by (auto simp: context_refused_def ebind_Inr_iff)
  qed
qed

lemma ingestion_refused_None:
  "ingestion_refused cid c tab rid r = Inr None \<longleftrightarrow> is_trusted_ingestion_result cid c tab rid r = Inr True"
proof
  assume "ingestion_refused cid c tab rid r = Inr None"
  then obtain st where st: "classify_ingestion_result cid c tab rid r = Inr st" "(case st of IT_UNTRUSTED \<Rightarrow> Some ''UNTRUSTED_INGESTION''
      | IT_RECEIPT_INVALID \<Rightarrow> Some ''INGESTION_RECEIPT_INVALID'' | IT_TRUSTED \<Rightarrow> None) = None"
    unfolding ingestion_refused_def ebind_Inr_iff by blast
  then have "classify_ingestion_result cid c tab rid r = Inr IT_TRUSTED" by (cases st) simp_all
  then show "is_trusted_ingestion_result cid c tab rid r = Inr True"
    by (auto simp: classify_ingestion_result_def ebind_Inr_iff split: option.splits if_splits)
next
  assume t: "is_trusted_ingestion_result cid c tab rid r = Inr True"
  then obtain ch where "tab rid = Some (cid, result_fingerprint ch r, True)" "revalidate_context c = Inr ()"
    by (rule trusted_ingestion)
  then show "ingestion_refused cid c tab rid r = Inr None"
    using t revalidated(4) by (simp add: ingestion_refused_def classify_ingestion_result_def)
qed

section \<open>What the references say\<close>

text \<open>At the time of observation, if it can be read, the reference was issued, not expired and not revoked.\<close>

definition dated :: "ingestion_context \<Rightarrow> trust_reference \<Rightarrow> bool" where
  "dated c t \<longleftrightarrow> (\<exists>issued expires. parse_time (tr_issued_at t) = Some issued \<and> parse_time (tr_expires_at t) = Some expires \<and>
     (case parse_time (ic_observed_at c) of None \<Rightarrow> True | Some now \<Rightarrow> issued \<le> now \<and> now < expires)) \<and>
   (case tr_revoked_at t of None \<Rightarrow> True
    | Some w \<Rightarrow> (\<exists>revoked. parse_time w = Some revoked \<and>
        (case parse_time (ic_observed_at c) of None \<Rightarrow> True | Some now \<Rightarrow> now < revoked)))"

text \<open>The expectation that a reference of this content answers.\<close>

definition awaited :: "ingestion_context \<Rightarrow> string \<Rightarrow> string \<Rightarrow> trust_reference \<Rightarrow> receipt_expectation" where
  "awaited c ch subject t = \<lparr>ex_context_hash = ch, ex_subject_hash = subject, ex_profile_hash = ic_expected_profile_hash c,
     ex_role = tr_role t, ex_evidence_id = tr_evidence_id t, ex_issuer_id = tr_issuer_id t,
     ex_expected_payload_hash = tr_payload_hash t, ex_required_action = ic_required_action c,
     ex_verification_method = tr_verification_method t, ex_external_verification_receipt_hash = tr_receipt_hash t\<rparr>"

definition vouches :: "ingestion_context \<Rightarrow> string \<Rightarrow> string \<Rightarrow> trust_reference \<Rightarrow> receipt_expectation \<Rightarrow> bool" where
  "vouches c ch subject t x \<longleftrightarrow> trust_reference_post_init t = Inr () \<and> x = awaited c ch subject t \<and>
     tr_subject_hash t = subject \<and> tr_action t = ic_required_action c \<and> roots c (tr_role t) = Some (tr_payload_hash t) \<and>
     tr_signed_payload_hash t = tr_payload_hash t \<and> dated c t"

lemma expectation_matches:
  assumes "sha_text (tr_receipt t) = tr_receipt_hash t" "roots c (tr_role t) = Some (tr_payload_hash t)"
  shows "\<not> expectation_mismatch c ch subject (tr_role t) t x \<longleftrightarrow> x = awaited c ch subject t"
  using assms by (cases x) (auto simp: expectation_mismatch_def awaited_def Let_def)

lemma dated_iff:
  "dated c t \<longleftrightarrow> (let issued = parse_time (tr_issued_at t); expires = parse_time (tr_expires_at t);
       revoked = Option.bind (tr_revoked_at t) parse_time; observed = parse_time (ic_observed_at c) in
     \<not> (issued = None \<or> expires = None \<or> tr_revoked_at t \<noteq> None \<and> revoked = None) \<and> \<not> times_satisfy (>) issued observed \<and>
     \<not> times_satisfy (\<le>) expires observed \<and> \<not> times_satisfy (\<le>) revoked observed)"
  by (auto simp: dated_def times_satisfy_def Let_def not_less not_le split: option.splits)

text \<open>\<open>_valid_reference\<close> tells the hash mismatch from other errors by the message; no other check has a message
  with the same end.\<close>

definition other_message :: "unit res \<Rightarrow> bool" where
  "other_message r \<longleftrightarrow> (case r of Inl (_, m) \<Rightarrow> take 2 (rev m) \<noteq> ''hc'' | Inr _ \<Rightarrow> True)"

lemma other_message_seq: "other_message r \<Longrightarrow> other_message s \<Longrightarrow> other_message (eseq r s)"
  by (cases r) (auto simp: other_message_def)

lemma other_message_for: "(\<And>x. x \<in> set xs \<Longrightarrow> other_message (f x)) \<Longrightarrow> other_message (efor xs f)"
  by (induction xs) (auto intro: other_message_seq, simp add: other_message_def)

lemma other_message_text: "other_message (text_bounded v n)" "other_message (hash_text v n)" "other_message (opt_text w n)"
  by (auto simp: text_bounded_def hash_text_def opt_text_def other_message_def guard_def split: option.splits)

lemma receipt_hash_ok: "trust_reference_post_init t = Inr () \<longleftrightarrow>
    valid_reference t = Inr True \<and> sha_text (tr_receipt t) = tr_receipt_hash t"
proof -
  define earlier where "earlier = eseq (efor [(tr_evidence_id t, ''evidence_id''), (tr_issuer_id t, ''issuer_id''), (tr_action t, ''action''),
         (tr_issued_at t, ''issued_at''), (tr_expires_at t, ''expires_at''), (tr_verification_method t, ''verification_method'')]
       (\<lambda>(v, n). text_bounded v n))
    (eseq (efor [(tr_subject_hash t, ''subject_hash''), (tr_payload_hash t, ''payload_hash''),
         (tr_signed_payload_hash t, ''signed_payload_hash''), (tr_receipt_hash t, ''external_verification_receipt_hash'')]
       (\<lambda>(v, n). hash_text v n))
    (eseq (opt_text (tr_revoked_at t) ''revoked_at'')
    (eseq (guard (tr_receipt t \<noteq> []) ValueErr ''external_verification_receipt must be non-empty'')
       (guard (length (tr_receipt t) \<le> MAX_CONTENT_BYTES) ValueErr ''external_verification_receipt exceeds maximum size''))))"
  have split: "trust_reference_post_init t =
      eseq earlier (guard (tr_receipt_hash t = sha_text (tr_receipt t)) ValueErr ''external verification receipt hash mismatch'')"
    unfolding trust_reference_post_init_def earlier_def by (simp add: eseq_def split: sum.splits)
  have "other_message (guard b ValueErr ''external_verification_receipt must be non-empty'')"
    "other_message (guard b ValueErr ''external_verification_receipt exceeds maximum size'')" for b
    by (simp_all add: other_message_def guard_def)
  then have "other_message earlier"
    unfolding earlier_def by (intro other_message_seq other_message_for) (auto simp: other_message_text)
  then show ?thesis unfolding valid_reference_def split
    by (cases earlier) (auto simp: other_message_def guard_def split: if_splits)
qed

lemma find_None: "find P xs = None \<longleftrightarrow> (\<forall>x \<in> set xs. \<not> P x)"
  by (auto simp: find_None_iff)

lemma role_reason_Nil:
  assumes "valid_reference t = Inr True"
  shows "role_reason c ch subject (tr_role t) t x = [] \<longleftrightarrow> vouches c ch subject t x"
proof -
  have "role_reason c ch subject (tr_role t) t x = [] \<longleftrightarrow> (\<forall>k \<in> set (role_checks c ch subject (tr_role t) t x). \<not> fst k)"
    by (simp add: role_reason_def find_None [symmetric] split: option.splits prod.splits)
  also have "\<dots> \<longleftrightarrow> tr_subject_hash t = subject \<and> \<not> expectation_mismatch c ch subject (tr_role t) t x \<and>
      tr_action t = ic_required_action c \<and> roots c (tr_role t) = Some (tr_payload_hash t) \<and>
      roots c (tr_role t) = Some (tr_signed_payload_hash t) \<and> dated c t \<and> sha_text (tr_receipt t) = tr_receipt_hash t"
    unfolding dated_iff role_checks_def Let_def by auto
  also have "\<dots> \<longleftrightarrow> vouches c ch subject t x"
    using expectation_matches [of t c ch subject x] receipt_hash_ok [of t] assms by (auto simp: vouches_def)
  finally show ?thesis .
qed

section \<open>Accepted prerequisites\<close>

lemma eall_iff: "eall f xs = Inr True \<longleftrightarrow> (\<forall>x \<in> set xs. f x = Inr True)"
  by (induction xs) (auto simp: ebind_Inr_iff)

lemma role_map_Some:
  "role_map role values = Some m \<longleftrightarrow> (\<exists>xs. values = Some (map Some xs) \<and> map role xs = ROLES \<and> m = zip ROLES xs)"
proof
  assume "role_map role values = Some m"
  then obtain vs where vs: "values = Some vs" "None \<notin> set vs" "map role (map the vs) = ROLES" "m = zip ROLES (map the vs)"
    by (auto simp: role_map_def Let_def split: option.splits if_splits)
  then have "vs = map Some (map the vs)" by (intro nth_equalityI) (auto, metis nth_mem option.collapse)
  then show "\<exists>xs. values = Some (map Some xs) \<and> map role xs = ROLES \<and> m = zip ROLES xs" using vs by blast
next
  assume "\<exists>xs. values = Some (map Some xs) \<and> map role xs = ROLES \<and> m = zip ROLES xs"
  then obtain xs where xs: "values = Some (map Some xs)" "map role xs = ROLES" "m = zip ROLES xs" by blast
  have "length xs = 4" using arg_cong [OF xs(2), of length] by (simp add: ROLES_def)
  then show "role_map role values = Some m" using xs by (auto simp: role_map_def Let_def comp_def)
qed

lemma role_map_length: "map role xs = ROLES \<Longrightarrow> length xs = length ROLES"
  by (metis length_map)

definition recognised :: "nat \<Rightarrow> nat \<Rightarrow> registry \<Rightarrow> nat \<times> receipt_expectation \<Rightarrow> bool" where
  "recognised cid rid reg kx \<longleftrightarrow> (\<exists>h. minted_hash reg (fst kx) [cid, rid] = Some h \<and> expectation_hash (snd kx) = Inr h)"

lemma valid_expectation_iff: "valid_expectation cid rid reg kx = Inr True \<longleftrightarrow> recognised cid rid reg kx"
proof -
  obtain h where "expectation_hash (snd kx) = Inr h" using expectations.sealed by blast
  then show ?thesis by (auto simp: valid_expectation_def recognised_def catch_def split: prod.splits option.splits)
qed

lemma trust_reference_hash_total: "\<exists>h. trust_reference_hash t = Inr h"
  unfolding trust_reference_hash_def
  by (cases "tr_revoked_at t"; rule hash_value_total) (simp_all add: role_enum_def opt_value_def)

text \<open>The prerequisites that accepted references make.\<close>

definition allowed :: "trust_reference \<Rightarrow> bool" where
  "allowed t \<longleftrightarrow> tr_decision t = TD_ALLOW"

definition flags_of :: "prerequisites \<Rightarrow> bool list" where
  "flags_of p = [pp_policy_accepted p, pp_authority_present p, pp_approval_present p, pp_signing_present p]"

text \<open>The prerequisites that stand for these references and expectations: bound to context, bundle and receipt, each flag
  the decision of the reference for its role, and the hashes of all references and expectations.\<close>

definition mints ::
  "ingestion_context \<Rightarrow> ingestion_result \<Rightarrow> trust_reference list \<Rightarrow> receipt_expectation list \<Rightarrow> prerequisites \<Rightarrow> bool" where
  "mints c r ts xs p \<longleftrightarrow> prerequisite_subject c r = Inr (pp_subject_hash p) \<and> context_hash c = Inr (pp_context_hash p) \<and>
     pp_profile_hash p = ic_expected_profile_hash c \<and> ingested_bundle_hash r = Inr (pp_ingestion_bundle_hash p) \<and>
     pp_ingestion_receipt_hash p = ir_receipt_hash (in_receipt r) \<and> pp_observed_at p = ic_observed_at c \<and>
     flags_of p = map allowed ts \<and> emap trust_reference_hash ts = Inr (pp_reference_hashes p) \<and>
     emap expectation_hash xs = Inr (pp_expectation_hashes p)"

lemma mints_unique:
  assumes "mints c r ts xs p" "mints c r ts xs q"
  shows "p = q"
proof -
  have "flags_of p = flags_of q" using assms by (simp add: mints_def)
  then show ?thesis using assms by (cases p, cases q) (auto simp: mints_def flags_of_def)
qed

lemma four_roles:
  assumes "map role xs = ROLES"
  obtains a b c d where "xs = [a, b, c, d]" "role a = TR_POLICY" "role b = TR_AUTHORITY" "role c = TR_APPROVAL" "role d = TR_SIGNING"
  using assms by (auto simp: ROLES_def map_eq_Cons_conv)

lemma judge_reasons_Nil:
  assumes "map tr_role ts = ROLES" "length xs = length ROLES" "\<forall>t \<in> set ts. valid_reference t = Inr True"
  shows "concat (map (\<lambda>(role, t, x). role_reason c ch subject role t x) (zip ROLES (zip ts xs))) = [] \<longleftrightarrow>
    list_all2 (vouches c ch subject) ts xs"
proof -
  obtain t1 t2 t3 t4 where t: "ts = [t1, t2, t3, t4]" "tr_role t1 = TR_POLICY" "tr_role t2 = TR_AUTHORITY"
    "tr_role t3 = TR_APPROVAL" "tr_role t4 = TR_SIGNING" using four_roles [OF assms(1)] by blast
  obtain x1 x2 x3 x4 where x: "xs = [x1, x2, x3, x4]" using assms(2) by (auto simp: ROLES_def length_Suc_conv)
  have "role_reason c ch subject (tr_role t) t x = [] \<longleftrightarrow> vouches c ch subject t x" if "t \<in> set ts" for t x
    using role_reason_Nil assms(3) that by blast
  from this [of t1] this [of t2] this [of t3] this [of t4] show ?thesis by (simp add: t x ROLES_def)
qed

lemma judge_accepts:
  assumes trusted: "is_trusted_ingestion_result cid c tab rid r = Inr True"
    and ch: "context_hash c = Inr ch" and subject: "prerequisite_subject c r = Inr subject"
    and ts: "map tr_role ts = ROLES" "list_all2 (vouches c ch subject) ts xs"
  obtains p h where "judge_prerequisites cid c rid r ts xs k reg =
      Inr (\<lparr>pq_validated = True, pq_prerequisites = Some p, pq_reason_codes = []\<rparr>, enlist k [cid, rid] h reg)"
    "registered_prerequisite cid c rid r (enlist k [cid, rid] h reg) k p = Inr True" "flags_of p = map allowed ts"
    "mints c r ts xs p" "prerequisites_hash p = Inr h"
proof -
  obtain b bh where b: "in_bundle r = Some b" "bundle_hash b = Inr bh" using trusted by (rule trusted_ingestion)
  have len: "length ts = 4" "length xs = 4"
    using role_map_length [OF ts(1)] list_all2_lengthD [OF ts(2)] by (simp_all add: ROLES_def)
  have ok: "\<forall>t \<in> set ts. valid_reference t = Inr True"
    using ts(2) receipt_hash_ok by (fastforce simp: list_all2_conv_all_nth vouches_def in_set_conv_nth)
  obtain ths where ths: "emap trust_reference_hash ts = Inr ths" using emap_exists [of trust_reference_hash ts] trust_reference_hash_total by blast
  obtain xhs where xhs: "emap expectation_hash xs = Inr xhs" using emap_exists [of expectation_hash xs] expectations.sealed by blast
  define p where "p = \<lparr>pp_subject_hash = subject, pp_context_hash = ch, pp_profile_hash = ic_expected_profile_hash c,
       pp_ingestion_bundle_hash = bh, pp_ingestion_receipt_hash = ir_receipt_hash (in_receipt r), pp_observed_at = ic_observed_at c,
       pp_policy_accepted = tr_decision (ts ! 0) = TD_ALLOW, pp_authority_present = tr_decision (ts ! 1) = TD_ALLOW,
       pp_approval_present = tr_decision (ts ! 2) = TD_ALLOW, pp_signing_present = tr_decision (ts ! 3) = TD_ALLOW,
       pp_reference_hashes = ths, pp_expectation_hashes = xhs\<rparr>"
  obtain h where h: "prerequisites_hash p = Inr h" using prerequisite_flags.sealed by blast
  have lens: "length ths = 4" "length xhs = 4"
    using ths xhs len by (auto simp: emap_Inr_iff dest!: list_all2_lengthD)
  have "judge_prerequisites cid c rid r ts xs k reg =
      Inr (\<lparr>pq_validated = True, pq_prerequisites = Some p, pq_reason_codes = []\<rparr>, enlist k [cid, rid] h reg)"
    using judge_reasons_Nil [OF ts(1) _ ok, of xs c ch subject] ts(2) len h
    by (simp add: judge_prerequisites_def subject ch b ths xhs p_def ROLES_def Let_def)
  moreover have "registered_prerequisite cid c rid r (enlist k [cid, rid] h reg) k p = Inr True"
    using lens h b by (simp add: registered_prerequisite_def minted_hash_def enlist_def catch_def ch subject ingested_bundle_hash_def p_def)
  moreover have "flags_of p = map allowed ts"
    using len by (auto simp: p_def flags_of_def allowed_def length_Suc_conv numeral_eq_Suc)
  moreover from this have "mints c r ts xs p"
    using b by (simp add: mints_def p_def ch subject ths xhs ingested_bundle_hash_def)
  ultimately show ?thesis using h by (rule that)
qed

text \<open>The whole test, in one formula.\<close>

definition prerequisites_hold ::
  "nat \<Rightarrow> ingestion_context \<Rightarrow> trusted \<Rightarrow> nat \<Rightarrow> ingestion_result \<Rightarrow> registry \<Rightarrow> trust_reference list \<Rightarrow>
   (nat \<times> receipt_expectation) list \<Rightarrow> bool" where
  "prerequisites_hold cid c tab rid r xreg ts xs \<longleftrightarrow>
     has_all_roots c \<and> ingestion_profile_hash (ic_profile c) = Inr (ic_expected_profile_hash c) \<and>
     is_trusted_ingestion_result cid c tab rid r = Inr True \<and> map tr_role ts = ROLES \<and>
     (\<forall>kx \<in> set xs. recognised cid rid xreg kx) \<and>
     (\<exists>ch subject. context_hash c = Inr ch \<and> prerequisite_subject c r = Inr subject \<and>
        list_all2 (\<lambda>t kx. vouches c ch subject t (snd kx)) ts xs)"

lemma awaited_roles:
  assumes "map tr_role ts = ROLES" "list_all2 (\<lambda>t kx. vouches c ch subject t (snd kx)) ts xs"
  shows "map (ex_role \<circ> snd) xs = ROLES"
proof -
  have "map (ex_role \<circ> snd) xs = map tr_role ts"
    using assms(2) by (intro nth_equalityI) (auto simp: list_all2_conv_all_nth vouches_def awaited_def)
  then show ?thesis using assms(1) by simp
qed

lemma validated_parts:
  assumes "validate_prerequisites cid (Some c) tab rid r references expectations xreg k reg = Inr (res, reg')" "pq_validated res"
  obtains ts xs where "references = Some (map Some ts)" "expectations = Some (map Some xs)"
    "map tr_role ts = ROLES" "map (ex_role \<circ> snd) xs = ROLES" "\<forall>kx \<in> set xs. recognised cid rid xreg kx"
    "\<forall>t \<in> set ts. valid_reference t = Inr True"
    "context_refused (has_all_roots c) c = Inr None" "is_trusted_ingestion_result cid c tab rid r = Inr True"
    "judge_prerequisites cid c rid r ts (map snd xs) k reg = Inr (res, reg')"
proof -
  note v = assms(1) [unfolded validate_prerequisites_def Let_def option.case]
  obtain bad where bad: "context_refused (has_all_roots c) c = Inr bad" using v by (auto simp: ebind_Inr_iff)
  then have r1: "bad = None" using v assms(2) by (auto simp: invalid_def split: option.splits)
  obtain bad' where bad': "ingestion_refused cid c tab rid r = Inr bad'" using v bad r1 by (auto simp: ebind_Inr_iff)
  then have r2: "bad' = None" using v assms(2) bad r1 by (auto simp: invalid_def split: option.splits)
  obtain refmap where m: "role_map tr_role references = Some refmap"
    using v assms(2) bad bad' r1 r2 by (auto simp: invalid_def split: option.splits)
  obtain expmap where m': "role_map (ex_role \<circ> snd) expectations = Some expmap"
    using v assms(2) bad bad' r1 r2 m by (auto simp: invalid_def split: option.splits)
  obtain ts where ts: "references = Some (map Some ts)" "map tr_role ts = ROLES" "refmap = zip ROLES ts"
    using m by (auto simp: role_map_Some)
  obtain xs where xs: "expectations = Some (map Some xs)" "map (ex_role \<circ> snd) xs = ROLES" "expmap = zip ROLES xs"
    using m' by (auto simp: role_map_Some)
  have snds: "map snd refmap = ts" "map snd expmap = xs" "map (snd \<circ> snd) expmap = map snd xs"
    using role_map_length [OF ts(2)] role_map_length [OF xs(2)] by (simp_all add: ts(3) xs(3) map_zip_map2 flip: map_map)
  note v' = v [unfolded bad r1 bad' r2 m m' ebind_simps option.case snds]
  obtain ok where ok: "eall (valid_expectation cid rid xreg) xs = Inr ok" using v' by (auto simp: ebind_Inr_iff)
  then have "ok" using v' assms(2) by (auto simp: invalid_def split: if_splits)
  then have e: "\<forall>kx \<in> set xs. recognised cid rid xreg kx" using ok by (simp add: eall_iff valid_expectation_iff)
  obtain ok' where ok': "eall valid_reference ts = Inr ok'" using v' ok \<open>ok\<close> by (auto simp: ebind_Inr_iff)
  then have "ok'" using v' assms(2) ok \<open>ok\<close> by (auto simp: invalid_def split: if_splits)
  then show ?thesis
    using that [OF ts(1) xs(1) ts(2) xs(2) e] v' ok \<open>ok\<close> ok' bad r1 bad' r2 by (simp add: eall_iff ingestion_refused_None)
qed

lemma prerequisites_hold_accepted:
  assumes "prerequisites_hold cid c tab rid r xreg ts xs"
  obtains p h where "validate_prerequisites cid (Some c) tab rid r (Some (map Some ts)) (Some (map Some xs)) xreg k reg =
      Inr (\<lparr>pq_validated = True, pq_prerequisites = Some p, pq_reason_codes = []\<rparr>, enlist k [cid, rid] h reg)"
    "registered_prerequisite cid c rid r (enlist k [cid, rid] h reg) k p = Inr True" "flags_of p = map allowed ts"
    "mints c r ts (map snd xs) p" "prerequisites_hash p = Inr h"
proof -
  obtain ch subject where h: "context_hash c = Inr ch" "prerequisite_subject c r = Inr subject"
    "list_all2 (\<lambda>t kx. vouches c ch subject t (snd kx)) ts xs" "map tr_role ts = ROLES"
    and trusted: "is_trusted_ingestion_result cid c tab rid r = Inr True"
    and c: "has_all_roots c" "ingestion_profile_hash (ic_profile c) = Inr (ic_expected_profile_hash c)"
    and e: "\<forall>kx \<in> set xs. recognised cid rid xreg kx"
    using assms by (auto simp: prerequisites_hold_def)
  have "list_all2 (vouches c ch subject) ts (map snd xs)" using h(3) by (simp add: list_all2_map2)
  from judge_accepts [OF trusted h(1,2,4) this, of k reg] obtain p hh where p: "judge_prerequisites cid c rid r ts (map snd xs) k reg =
      Inr (\<lparr>pq_validated = True, pq_prerequisites = Some p, pq_reason_codes = []\<rparr>, enlist k [cid, rid] hh reg)"
    "registered_prerequisite cid c rid r (enlist k [cid, rid] hh reg) k p = Inr True" "flags_of p = map allowed ts"
    "mints c r ts (map snd xs) p" "prerequisites_hash p = Inr hh" by blast
  have roles: "map (ex_role \<circ> snd) xs = ROLES" using awaited_roles [OF h(4,3)] .
  have m: "role_map tr_role (Some (map Some ts)) = Some (zip ROLES ts)"
    "role_map (ex_role \<circ> snd) (Some (map Some xs)) = Some (zip ROLES xs)"
    using h(4) roles by (simp_all add: role_map_Some map_PStr_inj inj_map_eq_map)
  have snds: "map snd (zip ROLES ts) = ts" "map snd (zip ROLES xs) = xs" "map (snd \<circ> snd) (zip ROLES xs) = map snd xs"
    using role_map_length [OF h(4)] role_map_length [OF roles] by (simp_all add: map_zip_map2 flip: map_map)
  have "revalidate_context c = Inr ()" using trusted by (rule trusted_ingestion)
  then have "context_refused (has_all_roots c) c = Inr None"
    using c by (simp add: context_refused_None revalidate_context_def context_post_init_def eseq_Inr_iff)
  moreover have "ingestion_refused cid c tab rid r = Inr None" using trusted by (simp add: ingestion_refused_None)
  moreover have "eall (valid_expectation cid rid xreg) xs = Inr True" using e by (simp add: eall_iff valid_expectation_iff)
  moreover have "eall valid_reference ts = Inr True"
    using h(3) receipt_hash_ok by (fastforce simp: eall_iff list_all2_conv_all_nth vouches_def in_set_conv_nth)
  ultimately have "validate_prerequisites cid (Some c) tab rid r (Some (map Some ts)) (Some (map Some xs)) xreg k reg =
      Inr (\<lparr>pq_validated = True, pq_prerequisites = Some p, pq_reason_codes = []\<rparr>, enlist k [cid, rid] hh reg)"
    by (simp add: validate_prerequisites_def Let_def m snds p(1))
  then show ?thesis using that p(2-5) by blast
qed

lemma validated_hold:
  assumes "validate_prerequisites cid (Some c) tab rid r references expectations xreg k reg = Inr (res, reg')" "pq_validated res"
  obtains ts xs where "references = Some (map Some ts)" "expectations = Some (map Some xs)"
    "prerequisites_hold cid c tab rid r xreg ts xs"
proof -
  from assms obtain ts xs where refs: "references = Some (map Some ts)" "expectations = Some (map Some xs)"
    "map tr_role ts = ROLES" "map (ex_role \<circ> snd) xs = ROLES" "\<forall>kx \<in> set xs. recognised cid rid xreg kx"
    "\<forall>t \<in> set ts. valid_reference t = Inr True"
    and c: "context_refused (has_all_roots c) c = Inr None" "is_trusted_ingestion_result cid c tab rid r = Inr True"
    and j: "judge_prerequisites cid c rid r ts (map snd xs) k reg = Inr (res, reg')" by (rule validated_parts)
  obtain ch subject where h: "context_hash c = Inr ch" "prerequisite_subject c r = Inr subject"
    using j by (auto simp: judge_prerequisites_def ebind_Inr_iff)
  have "length (map snd xs) = length ROLES" using role_map_length [OF refs(4)] by simp
  moreover have "concat (map (\<lambda>(role, t, x). role_reason c ch subject role t x) (zip ROLES (zip ts (map snd xs)))) = []"
    using j h assms(2) by (auto simp: judge_prerequisites_def Let_def invalid_def split: if_splits)
  ultimately have "list_all2 (vouches c ch subject) ts (map snd xs)"
    using judge_reasons_Nil [OF refs(3) _ refs(6)] by blast
  then have "prerequisites_hold cid c tab rid r xreg ts xs"
    using refs(3,5) c h by (auto simp: prerequisites_hold_def context_refused_None list_all2_map2)
  then show ?thesis by (rule that [OF refs(1,2)])
qed

lemma prerequisites_accepted:
  assumes "validate_prerequisites cid (Some c) tab rid r references expectations xreg k reg = Inr (res, reg')" "pq_validated res"
  shows "\<exists>ts xs p. references = Some (map Some ts) \<and> expectations = Some (map Some xs) \<and> prerequisites_hold cid c tab rid r xreg ts xs \<and>
    res = \<lparr>pq_validated = True, pq_prerequisites = Some p, pq_reason_codes = []\<rparr> \<and>
    registered_prerequisite cid c rid r reg' k p = Inr True \<and> flags_of p = map allowed ts"
proof -
  from assms obtain ts xs where h: "references = Some (map Some ts)" "expectations = Some (map Some xs)"
    "prerequisites_hold cid c tab rid r xreg ts xs" by (rule validated_hold)
  from prerequisites_hold_accepted [OF h(3), of k reg] obtain p hh where
    "validate_prerequisites cid (Some c) tab rid r (Some (map Some ts)) (Some (map Some xs)) xreg k reg =
      Inr (\<lparr>pq_validated = True, pq_prerequisites = Some p, pq_reason_codes = []\<rparr>, enlist k [cid, rid] hh reg)"
    "registered_prerequisite cid c rid r (enlist k [cid, rid] hh reg) k p = Inr True" "flags_of p = map allowed ts" by blast
  then show ?thesis using assms(1) h by auto
qed

text \<open>C32: prerequisites are validated exactly when four references answer four expectations.
  \<open>validate_prerequisites\<close> answers \<open>VALIDATED\<close> exactly when the context names one root hash for each of the four
  roles and the profile it expects, the ingestion result is trusted, and there are one reference and one
  expectation for each role, in order, each expectation still the one minted for this context and result and
  each reference well formed, for this subject, action and root, in force at the time of observation, and the
  one its expectation awaits.  The answer then holds the prerequisites minted for them and nothing else: the four
  policy flags are the four decisions, and they are registered, with their hash, for the context and the result.\<close>

theorem prerequisites_validated_iff:
  "validate_prerequisites cid (Some c) tab rid r references expectations xreg k reg = Inr (res, reg') \<and> pq_validated res \<longleftrightarrow>
   (\<exists>ts xs p h. references = Some (map Some ts) \<and> expectations = Some (map Some xs) \<and>
      prerequisites_hold cid c tab rid r xreg ts xs \<and> mints c r ts (map snd xs) p \<and>
      prerequisites_hash p = Inr h \<and> reg' = enlist k [cid, rid] h reg \<and>
      res = \<lparr>pq_validated = True, pq_prerequisites = Some p, pq_reason_codes = []\<rparr> \<and>
      registered_prerequisite cid c rid r reg' k p = Inr True)"
  (is "?L \<longleftrightarrow> ?R")
proof
  assume ?L
  then obtain ts xs where h: "references = Some (map Some ts)" "expectations = Some (map Some xs)"
    "prerequisites_hold cid c tab rid r xreg ts xs" using validated_hold by blast
  from prerequisites_hold_accepted [OF h(3), of k reg] show ?R using \<open>?L\<close> h by (metis prod.inject sum.inject(2))
next
  assume ?R
  then obtain ts xs p h where r: "references = Some (map Some ts)" "expectations = Some (map Some xs)"
    "prerequisites_hold cid c tab rid r xreg ts xs" "mints c r ts (map snd xs) p" "prerequisites_hash p = Inr h"
    "reg' = enlist k [cid, rid] h reg" "res = \<lparr>pq_validated = True, pq_prerequisites = Some p, pq_reason_codes = []\<rparr>" by blast
  from prerequisites_hold_accepted [OF r(3), of k reg] obtain q g where
    q: "validate_prerequisites cid (Some c) tab rid r (Some (map Some ts)) (Some (map Some xs)) xreg k reg =
        Inr (\<lparr>pq_validated = True, pq_prerequisites = Some q, pq_reason_codes = []\<rparr>, enlist k [cid, rid] g reg)"
      "mints c r ts (map snd xs) q" "prerequisites_hash q = Inr g" by blast
  have "q = p" "g = h" using mints_unique [OF q(2) r(4)] q(3) r(5) by simp_all
  then show ?L using q(1) r by simp
qed

section \<open>From evidence to a certificate\<close>

lemma refused [simp]: "refuse_certification x \<noteq> Inr y"
  by (simp add: refuse_certification_def)

lemma certify_ingested_parts:
  assumes "certify_ingested cid (Some c) tab rid r (Some (pid, p)) preg k reg = Inr (t, reg')"
  obtains ch b bh ph rh core h where "context_hash c = Inr ch" "in_bundle r = Some b" "bundle_hash b = Inr bh"
    "prerequisites_hash p = Inr ph" "certify (Obj (prerequisite_input c b p)) = Inr core" "core_receipt_hash core = Inr rh"
    "is_trusted_ingestion_result cid c tab rid r = Inr True" "registered_prerequisite cid c rid r preg pid p = Inr True"
    "t = \<lparr>tc_context_hash = ch, tc_profile_hash = ic_expected_profile_hash c, tc_ingestion_bundle_hash = bh,
       tc_ingestion_receipt_hash = ir_receipt_hash (in_receipt r), tc_prerequisite_subject_hash = pp_subject_hash p,
       tc_prerequisites_hash = ph, tc_core_receipt_hash = rh, tc_core_result = core\<rparr>"
    "certification_hash t = Inr h" "reg' = enlist k [cid, rid, pid] h reg"
proof -
  note v = assms [unfolded certify_ingested_def option.case prod.case]
  obtain bad where bad: "context_refused True c = Inr bad" using v unfolding ebind_Inr_iff by blast
  have b1: "bad = None" using v by (cases bad) (simp_all add: bad)
  note v1 = v [unfolded bad b1 ebind_simps option.case]
  obtain bad' where bad': "ingestion_refused cid c tab rid r = Inr bad'" using v1 unfolding ebind_Inr_iff by blast
  have b2: "bad' = None" using v1 by (cases bad') (simp_all add: bad')
  have trusted: "is_trusted_ingestion_result cid c tab rid r = Inr True" using bad' b2 by (simp add: ingestion_refused_None)
  then obtain ch b bh where b: "context_hash c = Inr ch" "in_bundle r = Some b" "bundle_hash b = Inr bh" by (rule trusted_ingestion)
  obtain subject where subject: "prerequisite_subject c r = Inr subject" using subject_total [OF trusted] by blast
  note v2 = v1 [unfolded bad' b2 b(2) ebind_simps option.case prod.case]
  obtain ok where ok: "registered_prerequisite cid c rid r preg pid p = Inr ok" using v2 unfolding ebind_Inr_iff by blast
  have "ok" using v2 by (cases ok) (simp_all add: ok)
  show ?thesis using v2 subject that [OF b _ _ _ trusted] ok \<open>ok\<close> b
    by (auto simp: ebind_Inr_iff Let_def split: if_splits)
qed

lemma kernel_hash_total:
  assumes "certify (Obj inp) = Inr core"
  shows "\<exists>h. core_receipt_hash core = Inr h"
  using assms
proof (rule certify_result_shape)
  fix c cs p e ch csh ph eh st codes i
  assume po: "policy_ok (input_policy inp)" and r: "core = \<lparr>cr_verification = Obj (mk_result st codes i),
       cr_disposition = Some (certify_result (Obj (mk_result st codes i)) (input_policy inp)),
       cr_receipt = Obj (receipt_of ch csh ph eh (mk_result st codes i) (input_policy inp))\<rparr>"
  show ?thesis using serialize_receipt_of [OF po] by (metis core_receipt_hash_def obj_hash_def obj.case(1) r certification_result.select_convs(3))
qed

lemma certify_ingested_total:
  assumes trusted: "is_trusted_ingestion_result cid c tab rid r = Inr True"
    and profile: "ingestion_profile_hash (ic_profile c) = Inr (ic_expected_profile_hash c)"
    and reg: "registered_prerequisite cid c rid r preg pid p = Inr True" and b: "in_bundle r = Some b"
    and core: "certify (Obj (prerequisite_input c b p)) = Inr core"
  obtains t reg' where "certify_ingested cid (Some c) tab rid r (Some (pid, p)) preg k reg = Inr (t, reg')" "tc_core_result t = core"
proof -
  obtain ch bh where b': "context_hash c = Inr ch" "bundle_hash b = Inr bh" and c: "revalidate_context c = Inr ()"
    using trusted b by (auto elim: trusted_ingestion)
  have "context_refused True c = Inr None"
    using c profile by (simp add: context_refused_None revalidate_context_def context_post_init_def eseq_Inr_iff)
  moreover have "ingestion_refused cid c tab rid r = Inr None" using trusted by (simp add: ingestion_refused_None)
  moreover obtain subject where subject: "prerequisite_subject c r = Inr subject" using subject_total [OF trusted] by blast
  moreover have "pp_subject_hash p = subject" "pp_context_hash p = ch" "pp_ingestion_receipt_hash p = ir_receipt_hash (in_receipt r)"
    using reg subject b' b by (auto simp: registered_prerequisite_def catch_def ebind_Inr_iff ingested_bundle_hash_def
        split: option.splits if_splits sum.splits)
  moreover obtain ph where "prerequisites_hash p = Inr ph" using prerequisite_flags.sealed by blast
  moreover obtain rh where "core_receipt_hash core = Inr rh" using core kernel_hash_total by blast
  moreover obtain h where "certification_hash \<lparr>tc_context_hash = ch, tc_profile_hash = ic_expected_profile_hash c,
       tc_ingestion_bundle_hash = bh, tc_ingestion_receipt_hash = ir_receipt_hash (in_receipt r),
       tc_prerequisite_subject_hash = pp_subject_hash p, tc_prerequisites_hash = ph, tc_core_receipt_hash = rh,
       tc_core_result = core\<rparr> = Inr h" using certifications.sealed by blast
  ultimately show ?thesis using that b b' reg core by (simp add: certify_ingested_def Let_def)
qed

lemma observed_pass:
  assumes "carries ss b" "distinct (map verifier_of ss)" "verifier_of ` set ss = set (required_ids c)"
  shows "failing c b = [] \<longleftrightarrow> (\<forall>s \<in> set ss. sb_status s)"
proof -
  have obs: "\<exists>s \<in> set ss. verifier_of s = x \<and> obs_status (the_obs b) x = status_enum (sb_status s)" if x: "x \<in> set (required_ids c)" for x
  proof -
    have "verifier_of s \<in> (\<lambda>ob. str_of (ob_verifier_id ob)) ` set (the_obs b)" if "s \<in> set ss" for s
      using assms(1) that by (force simp: carries_def observation_of_def observed_def)
    moreover obtain s where "s \<in> set ss" "verifier_of s = x" using x unfolding assms(3) [symmetric] by blast
    ultimately have "obs_lookup (the_obs b) x \<noteq> None" by (auto simp: obs_lookup_None)
    then obtain ob where ob: "obs_lookup (the_obs b) x = Some ob" by blast
    then obtain s where "s \<in> set ss" "ob = observation_of s" "verifier_of s = x"
      using obs_lookup_in [OF ob] assms(1) by (auto simp: carries_def observation_of_def observed_def)
    then show ?thesis using ob by (auto simp: obs_status_def observation_of_def observed_def)
  qed
  have "sb_status s \<longleftrightarrow> obs_status (the_obs b) (verifier_of s) = OBS_PASS" if s: "s \<in> set ss" for s
  proof -
    obtain s' where "s' \<in> set ss" "verifier_of s' = verifier_of s" "obs_status (the_obs b) (verifier_of s) = status_enum (sb_status s')"
      using obs [of "verifier_of s"] s assms(3) by blast
    moreover from this have "s' = s" using assms(2) s by (auto simp: distinct_map inj_on_def)
    ultimately show ?thesis by (simp add: status_enum_def)
  qed
  then show ?thesis unfolding failing_Nil list_all_iff assms(3) [symmetric] by auto
qed

lemma expected_verifiers:
  assumes "expected_evidence c ss"
  shows "verifier_of ` set ss = set (required_ids (ic_contract c))"
proof -
  have s: "\<exists>q \<in> set (ic_requirements c). verifier_of s = er_verifier_id q" if "s \<in> set ss" for s
    using assms that meets_ids unfolding expected_evidence_def by blast
  have q: "\<exists>s \<in> set ss. verifier_of s = er_verifier_id q" if "q \<in> set (ic_requirements c)" for q
    using assms that meets_ids unfolding expected_evidence_def by blast
  have "verifier_of ` set ss = er_verifier_id ` set (ic_requirements c)" using s q by (auto simp: image_iff) (metis image_eqI)+
  moreover have "er_verifier_id ` set (ic_requirements c) = set (required_ids (ic_contract c))"
    using assms unfolding expected_evidence_def required_ids_def by blast
  ultimately show ?thesis by simp
qed

lemma certifiable_evidence:
  assumes "subjects_ok c" "bundle_integrity b (ic_contract c) (ic_change_set c) (ic_plan c) = Inr VALID"
    and "expected_evidence c ss" "carries ss b"
  shows "certifiable (ic_contract c) (ic_change_set c) (ic_plan c) b po \<longleftrightarrow> in_scope (ic_contract c) (ic_change_set c) \<and>
    set (required_ids (ic_contract c)) = set (strs (vp_required_verifier_ids (ic_plan c))) \<and> (\<forall>s \<in> set ss. sb_status s) \<and>
    fully_approved po"
proof -
  have "evidence_errs b = []" using assms(4) by (simp add: carries_def)
  then have "derive_evidence_integrity (Obj (ic_contract c)) (Obj (ic_change_set c)) (Obj (ic_plan c)) (Obj b) = Inr VALID"
    using assms(1,2) by (simp add: derive_evidence_integrity_def bundle_integrity_def subjects_valid_iff subjects_ok_def)
  moreover have ids: "verifier_of ` set ss = set (required_ids (ic_contract c))" using expected_verifiers [OF assms(3)] .
  moreover have "set (observed_ids b) = verifier_of ` set ss"
    using assms(4) by (auto simp: carries_def observed_ids_def observation_of_def observed_def image_iff)
  moreover have "failing (ic_contract c) b = [] \<longleftrightarrow> (\<forall>s \<in> set ss. sb_status s)"
    using observed_pass [OF assms(4) _ ids] assms(3) by (simp add: expected_evidence_def)
  ultimately show ?thesis by (auto simp: certifiable_def covered_def)
qed

lemma flags_approved: "fully_approved (input_policy (prerequisite_input c b p)) \<longleftrightarrow> list_all (\<lambda>f. f) (flags_of p)"
  by (simp add: fully_approved_def policy_fields_def input_policy_def prerequisite_input_def flags_of_def)

text \<open>\<open>_bootstrap_external_receipt_expectation\<close> mints the expectation that a reference of the issuer answers.\<close>

lemma bootstrap_mints:
  assumes "is_trusted_ingestion_result cid c tab rid r = Inr True"
    and "context_hash c = Inr ch" "prerequisite_subject c r = Inr subject"
    and "find (\<lambda>g. ig_issuer_id g = tr_issuer_id t) (ip_issuers (ic_profile c)) = Some g"
    and "List.member (ig_roles g) (tr_role t)" "List.member (ig_actions g) (ic_required_action c)"
    and "List.member (ig_verification_methods g) (tr_verification_method t)"
    and "roots c (tr_role t) = Some (tr_payload_hash t)" "tr_receipt_hash t = sha_text (tr_receipt t)"
  obtains h where "bootstrap_external_receipt_expectation cid c tab rid r (tr_role t) (tr_evidence_id t) (tr_issuer_id t)
      (tr_verification_method t) (tr_receipt t) k reg = Inr (awaited c ch subject t, enlist k [cid, rid] h reg)"
    "expectation_hash (awaited c ch subject t) = Inr h"
proof -
  obtain h where h: "expectation_hash (awaited c ch subject t) = Inr h" using expectations.sealed by blast
  have "awaited c ch subject t = \<lparr>ex_context_hash = ch, ex_subject_hash = subject, ex_profile_hash = ic_expected_profile_hash c,
      ex_role = tr_role t, ex_evidence_id = tr_evidence_id t, ex_issuer_id = tr_issuer_id t, ex_expected_payload_hash = tr_payload_hash t,
      ex_required_action = ic_required_action c, ex_verification_method = tr_verification_method t,
      ex_external_verification_receipt_hash = sha_text (tr_receipt t)\<rparr>"
    using assms(9) by (simp add: awaited_def)
  then show ?thesis using that assms h by (simp add: bootstrap_external_receipt_expectation_def Let_def)
qed

subsection \<open>A sample chain\<close>

definition later_time :: string where
  "later_time = ''2025-01-01T00:00:01Z''"

definition sample_reference :: "string \<Rightarrow> trust_role \<Rightarrow> trust_reference" where
  "sample_reference subject role = \<lparr>tr_role = role, tr_evidence_id = ''e1'', tr_issuer_id = ''owner'', tr_subject_hash = subject,
     tr_action = ''merge'', tr_decision = TD_ALLOW, tr_issued_at = sample_time, tr_expires_at = later_time,
     tr_revoked_at = None, tr_payload_hash = sample_sha, tr_signed_payload_hash = sample_sha, tr_verification_method = ''ed25519'',
     tr_receipt = ''ok'', tr_receipt_hash = sha_text ''ok''\<rparr>"

lemma later_texts: "normalized later_time \<and> length later_time \<le> 4096"
  by code_simp

lemma sample_times:
  obtains now where "parse_time sample_time = Some now" "parse_time later_time = Some (now + 1000000)"
proof -
  have ok: "iso_shape sample_time" "valid_timestamp sample_time" "iso_shape later_time" "valid_timestamp later_time"
    unfolding later_time_def by code_simp+
  have "fraction_of (drop 19 sample_time) = Some []" "fraction_of (drop 19 later_time) = Some []"
    unfolding later_time_def by code_simp+
  moreover have "map (\<lambda>(i, n). field_at sample_time i n) [(0, 4), (5, 2), (8, 2), (11, 2), (14, 2)] =
      map (\<lambda>(i, n). field_at later_time i n) [(0, 4), (5, 2), (8, 2), (11, 2), (14, 2)]"
    by (simp add: sample_time_def later_time_def field_at_def)
  moreover have "field_at sample_time 17 2 = 0" "field_at later_time 17 2 = 1"
    by (simp_all add: sample_time_def later_time_def field_at_def nat_of_digits_def digit_val_def)
  ultimately show ?thesis using ok that by (simp add: parse_time_def)
qed

lemma sample_vouches:
  assumes "context_hash sample_ingestion = Inr ch" "prerequisite_subject sample_ingestion r = Inr subject"
  shows "vouches sample_ingestion ch subject (sample_reference subject role)
    (awaited sample_ingestion ch subject (sample_reference subject role))"
proof -
  obtain now where now: "parse_time sample_time = Some now" "parse_time later_time = Some (now + 1000000)" by (rule sample_times)
  have "is_sha256 subject" using assms(2) hash_value_is_sha256 by (auto simp: prerequisite_subject_def ebind_Inr_iff)
  moreover have "text_bounded later_time n = Inr ()" for n
    using later_texts by (simp add: text_bounded_iff)
  ultimately have "trust_reference_post_init (sample_reference subject role) = Inr ()"
    by (simp add: trust_reference_post_init_def sample_reference_def sample_bounded hash_text_ok opt_text_def MAX_CONTENT_BYTES_def)
  moreover have "dated sample_ingestion (sample_reference subject role)"
    using now by (simp add: dated_def sample_reference_def sample_ingestion_def)
  moreover have "roots sample_ingestion role = Some sample_sha" by (cases role) (simp_all add: roots_def sample_ingestion_def)
  ultimately show ?thesis by (simp add: vouches_def) (simp add: sample_reference_def sample_ingestion_def)
qed

lemma sample_hold:
  assumes "is_trusted_ingestion_result 1 sample_ingestion tab 2 r = Inr True"
  obtains xreg ts xs where "prerequisites_hold 1 sample_ingestion tab 2 r xreg ts xs" "list_all allowed ts"
proof -
  obtain ch where ch: "context_hash sample_ingestion = Inr ch" using assms by (rule trusted_ingestion)
  obtain subject where subject: "prerequisite_subject sample_ingestion r = Inr subject" using subject_total [OF assms] by blast
  let ?t = "sample_reference subject"
  let ?x = "\<lambda>role. awaited sample_ingestion ch subject (?t role)"
  define h where "h role = projr (expectation_hash (?x role))" for role
  have h: "expectation_hash (?x role) = Inr (h role)" for role
    using expectations.sealed [of "?x role"] by (auto simp: h_def)
  define xreg where "xreg = enlist 13 [1, 2] (h TR_SIGNING) (enlist 12 [1, 2] (h TR_APPROVAL)
     (enlist 11 [1, 2] (h TR_AUTHORITY) (enlist 10 [1, 2] (h TR_POLICY) (\<lambda>_. None))))"
  have "prerequisites_hold 1 sample_ingestion tab 2 r xreg (map ?t ROLES) (zip [10, 11, 12, 13] (map ?x ROLES))"
    unfolding prerequisites_hold_def
  proof (intro conjI exI)
    show "has_all_roots sample_ingestion" by (auto simp: has_all_roots_def sample_ingestion_def ROLES_def)
    show "ingestion_profile_hash (ic_profile sample_ingestion) = Inr (ic_expected_profile_hash sample_ingestion)"
      using sample_expected by (simp add: expected_evidence_def)
    show "map tr_role (map ?t ROLES) = ROLES" by (simp add: sample_reference_def comp_def)
    show "\<forall>kx \<in> set (zip [10, 11, 12, 13] (map ?x ROLES)). recognised 1 2 xreg kx"
      using h by (simp add: ROLES_def recognised_def minted_hash_def enlist_def xreg_def)
    show "list_all2 (\<lambda>t kx. vouches sample_ingestion ch subject t (snd kx)) (map ?t ROLES) (zip [10, 11, 12, 13] (map ?x ROLES))"
      using sample_vouches [OF ch subject] by (simp add: ROLES_def)
  qed (use assms ch subject in simp_all)
  moreover have "list_all allowed (map ?t ROLES)" by (simp add: list_all_iff allowed_def sample_reference_def)
  ultimately show ?thesis by (rule that)
qed

lemma sample_submissions: "length [sample_submission] \<le> MAX_COLLECTION_ITEMS" "\<forall>s \<in> set [sample_submission]. constructed s"
  using sample_constructed by (simp_all add: MAX_COLLECTION_ITEMS_def)

lemma sample_in_scope: "in_scope (ic_contract sample_ingestion) (ic_change_set sample_ingestion)"
  "set (required_ids (ic_contract sample_ingestion)) = set (strs (vp_required_verifier_ids (ic_plan sample_ingestion)))"
  "\<forall>s \<in> set [sample_submission]. sb_status s"
  unfolding sample_ingestion_def
  by (simp_all only: ingestion_context.select_convs sample_scope sample_required sample_planned) (simp add: sample_submission_def)

lemma sample_chain:
  obtains r tab ts xs xreg p preg b where
    "ingest_evidence id 1 2 sample_ingestion [sample_submission] (\<lambda>_. None) = Inr (r, tab)"
    "validate_prerequisites 1 (Some sample_ingestion) tab 2 r (Some (map Some ts)) (Some (map Some xs)) xreg 3 (\<lambda>_. None) =
      Inr (\<lparr>pq_validated = True, pq_prerequisites = Some p, pq_reason_codes = []\<rparr>, preg)" "list_all allowed ts"
    "is_trusted_ingestion_result 1 sample_ingestion tab 2 r = Inr True" "in_bundle r = Some b"
    "registered_prerequisite 1 sample_ingestion 2 r preg 3 p = Inr True"
    "certifiable (ic_contract sample_ingestion) (ic_change_set sample_ingestion) (ic_plan sample_ingestion) b
       (input_policy (prerequisite_input sample_ingestion b p))"
proof -
  obtain r tab where r: "ingest_evidence id 1 2 sample_ingestion [sample_submission] (\<lambda>_. None) = Inr (r, tab)"
    "minted 1 2 sample_ingestion (\<lambda>_. None) r tab" "in_condition r = VALID" "\<forall>b. in_bundle r = Some b \<longrightarrow> carries [sample_submission] b"
    using ingest_minted [OF sample_revalidated sample_submissions, of id 1 2 "\<lambda>_. None"] sample_expected by auto
  have trusted: "is_trusted_ingestion_result 1 sample_ingestion tab 2 r = Inr True"
    using minted_trusted [OF sample_revalidated r(2)] r(3) by simp
  then obtain b where b: "in_bundle r = Some b"
    "bundle_integrity b (ic_contract sample_ingestion) (ic_change_set sample_ingestion) (ic_plan sample_ingestion) = Inr VALID"
    by (rule trusted_ingestion)
  obtain xreg ts xs where h: "prerequisites_hold 1 sample_ingestion tab 2 r xreg ts xs" "list_all allowed ts"
    by (rule sample_hold [OF trusted])
  from prerequisites_hold_accepted [OF h(1), of 3 "\<lambda>_. None"] obtain p preg where
    v: "validate_prerequisites 1 (Some sample_ingestion) tab 2 r (Some (map Some ts)) (Some (map Some xs)) xreg 3
      (\<lambda>_. None) = Inr (\<lparr>pq_validated = True, pq_prerequisites = Some p, pq_reason_codes = []\<rparr>, preg)"
    "registered_prerequisite 1 sample_ingestion 2 r preg 3 p = Inr True" "flags_of p = map allowed ts" by blast
  have "fully_approved (input_policy (prerequisite_input sample_ingestion b p))"
    using h(2) v(3) by (simp add: flags_approved list_all_iff)
  then have "certifiable (ic_contract sample_ingestion) (ic_change_set sample_ingestion) (ic_plan sample_ingestion) b
       (input_policy (prerequisite_input sample_ingestion b p))"
    using certifiable_evidence [OF revalidated(1) [OF sample_revalidated] b(2) sample_expected] r(4) b(1) sample_in_scope by blast
  then show ?thesis by (rule that [OF r(1) v(1) h(2) trusted b(1) v(2)])
qed

text \<open>C33: what a trusted certificate needs.  When \<open>ingest_evidence\<close> has returned a result for a valid context and
  \<open>validate_prerequisites\<close> has accepted references for it, \<open>certify_ingested\<close> returns a result that is
  \<open>CERTIFIED\<close> exactly when all four references say \<open>ALLOW\<close>, every submission passed, the change stays in the
  allowed paths and the plan asks for the verifiers that the contract requires.\<close>

theorem certificate_needs_evidence_and_approval:
  assumes "revalidate_context c = Inr ()" "length ss \<le> MAX_COLLECTION_ITEMS" "\<forall>s \<in> set ss. constructed s"
    and "ingest_evidence it cid rid c ss tab = Inr (r, tab')"
    and "validate_prerequisites cid (Some c) tab' rid r references expectations xreg pid preg =
      Inr (\<lparr>pq_validated = True, pq_prerequisites = Some p, pq_reason_codes = []\<rparr>, preg')"
  shows "(\<exists>t creg'. certify_ingested cid (Some c) tab' rid r (Some (pid, p)) preg' k creg = Inr (t, creg') \<and>
       cr_disposition (tc_core_result t) = Some CERTIFIED) \<longleftrightarrow>
    (\<exists>ts. references = Some (map Some ts) \<and> list_all allowed ts) \<and> (\<forall>s \<in> set ss. sb_status s) \<and>
    in_scope (ic_contract c) (ic_change_set c) \<and>
    set (required_ids (ic_contract c)) = set (strs (vp_required_verifier_ids (ic_plan c)))"
proof -
  obtain ts xs where h: "references = Some (map Some ts)" "prerequisites_hold cid c tab' rid r xreg ts xs"
    "registered_prerequisite cid c rid r preg' pid p = Inr True" "flags_of p = map allowed ts"
    using prerequisites_accepted [OF assms(5)] by auto
  then have trusted: "is_trusted_ingestion_result cid c tab' rid r = Inr True"
    and profile: "ingestion_profile_hash (ic_profile c) = Inr (ic_expected_profile_hash c)" by (simp_all add: prerequisites_hold_def)
  from trusted obtain b where b: "in_bundle r = Some b" "bundle_integrity b (ic_contract c) (ic_change_set c) (ic_plan c) = Inr VALID"
    by (rule trusted_ingestion)
  have e: "expected_evidence c ss" "carries ss b"
    using ingest_minted [OF assms(1-3), of it cid rid tab] assms(4) b(1) by (auto simp: minted_def)
  let ?i = "prerequisite_input c b p"
  have parts: "ci_contract ?i = Obj (ic_contract c)" "ci_change_set ?i = Obj (ic_change_set c)" "ci_plan ?i = Obj (ic_plan c)"
    "ci_evidence ?i = Obj b" by (simp_all add: prerequisite_input_def)
  have "(\<exists>t creg'. certify_ingested cid (Some c) tab' rid r (Some (pid, p)) preg' k creg = Inr (t, creg') \<and>
       cr_disposition (tc_core_result t) = Some CERTIFIED) \<longleftrightarrow>
     (\<exists>res. certify (Obj ?i) = Inr res \<and> cr_disposition res = Some CERTIFIED)"
    using certify_ingested_total [OF trusted profile h(3) b(1)] b(1) by (auto elim!: certify_ingested_parts) (metis (no_types, lifting))
  also have "\<dots> \<longleftrightarrow> certifiable (ic_contract c) (ic_change_set c) (ic_plan c) b (input_policy ?i)"
    by (simp add: certified_iff_conditions parts)
  also have "\<dots> \<longleftrightarrow> in_scope (ic_contract c) (ic_change_set c) \<and>
      set (required_ids (ic_contract c)) = set (strs (vp_required_verifier_ids (ic_plan c))) \<and> (\<forall>s \<in> set ss. sb_status s) \<and>
      list_all allowed ts"
    using certifiable_evidence [OF revalidated(1) [OF assms(1)] b(2) e] h(4) by (simp add: flags_approved list_all_iff)
  finally show ?thesis using h(1) by (auto simp: inj_map_eq_map)
qed

theorem certificate_needs_evidence_and_approval_witness:
  "\<exists>r tab ts xs xreg p preg t creg.
     ingest_evidence id 1 2 sample_ingestion [sample_submission] (\<lambda>_. None) = Inr (r, tab) \<and>
     validate_prerequisites 1 (Some sample_ingestion) tab 2 r (Some (map Some ts)) (Some (map Some xs)) xreg 3 (\<lambda>_. None) =
       Inr (\<lparr>pq_validated = True, pq_prerequisites = Some p, pq_reason_codes = []\<rparr>, preg) \<and>
     certify_ingested 1 (Some sample_ingestion) tab 2 r (Some (3, p)) preg 4 (\<lambda>_. None) = Inr (t, creg) \<and>
     cr_disposition (tc_core_result t) = Some CERTIFIED"
proof (rule sample_chain)
  fix r tab ts xs xreg p preg b
  assume r: "ingest_evidence id 1 2 sample_ingestion [sample_submission] (\<lambda>_. None) = Inr (r, tab)"
    and v: "validate_prerequisites 1 (Some sample_ingestion) tab 2 r (Some (map Some ts)) (Some (map Some xs)) xreg 3 (\<lambda>_. None) =
      Inr (\<lparr>pq_validated = True, pq_prerequisites = Some p, pq_reason_codes = []\<rparr>, preg)" "list_all allowed ts"
  have "\<exists>ts'. Some (map Some ts) = Some (map Some ts') \<and> list_all allowed ts'" using v(2) by blast
  then have "\<exists>t creg. certify_ingested 1 (Some sample_ingestion) tab 2 r (Some (3, p)) preg 4 (\<lambda>_. None) = Inr (t, creg) \<and>
      cr_disposition (tc_core_result t) = Some CERTIFIED"
    using certificate_needs_evidence_and_approval [OF sample_revalidated sample_submissions r v(1), of 4 "\<lambda>_. None"] sample_in_scope
    by blast
  then show ?thesis using r v(1) by blast
qed

section \<open>Recognised certificates\<close>

lemma kernel_result_same:
  assumes "certify (Obj inp) = Inr core"
  shows "same_verification (cr_verification core) (cr_verification core)"
  using assms
proof (rule certify_result_shape)
  fix ch csh ph eh st codes i
  assume "core = \<lparr>cr_verification = Obj (mk_result st codes i),
       cr_disposition = Some (certify_result (Obj (mk_result st codes i)) (input_policy inp)),
       cr_receipt = Obj (receipt_of ch csh ph eh (mk_result st codes i) (input_policy inp))\<rparr>"
  then show ?thesis by (simp add: same_verification_def mk_result_def py_eqs_refl)
qed

lemma trusted_certification_parts:
  assumes "is_trusted_certification_result cid c tab rid r pid p preg k t reg"
  obtains h b rh core where "minted_hash reg k [cid, rid, pid] = Some h" "certification_hash t = Inr h"
    "is_trusted_ingestion_result cid c tab rid r = Inr True" "registered_prerequisite cid c rid r preg pid p = Inr True"
    "in_bundle r = Some b" "context_hash c = Inr (tc_context_hash t)" "bundle_hash b = Inr (tc_ingestion_bundle_hash t)"
    "certify (Obj (prerequisite_input c b p)) = Inr core" "core_receipt_hash core = Inr rh"
    "core_receipt_hash (tc_core_result t) = Inr rh" "cr_disposition (tc_core_result t) = cr_disposition core"
proof -
  have "certification_checks cid c tab rid r pid p preg k t reg = Inr True"
    using assms by (auto simp: is_trusted_certification_result_def split: sum.splits)
  then show ?thesis using that
    by (auto simp: certification_checks_def ebind_Inr_iff split: option.splits if_splits)
qed

definition kernel_backed ::
  "nat \<Rightarrow> ingestion_context \<Rightarrow> trusted \<Rightarrow> nat \<Rightarrow> ingestion_result \<Rightarrow> nat \<Rightarrow> prerequisites \<Rightarrow> registry \<Rightarrow>
   trusted_certification \<Rightarrow> bool" where
  "kernel_backed cid c tab rid r pid p preg t \<longleftrightarrow>
     is_trusted_ingestion_result cid c tab rid r = Inr True \<and> registered_prerequisite cid c rid r preg pid p = Inr True \<and>
     (\<exists>b core. in_bundle r = Some b \<and> certify (Obj (prerequisite_input c b p)) = Inr core \<and>
        cr_disposition (tc_core_result t) = cr_disposition core \<and>
        core_receipt_hash (tc_core_result t) = core_receipt_hash core)"

text \<open>C34: a recognised certificate is the kernel's.  What \<open>certify_ingested\<close> returns is recognised by
  \<open>is_trusted_certification_result\<close>.  Whatever is written afterwards into the objects involved, if the registry still
  recognises the identity \<open>k\<close>, then context, result and prerequisites are the objects of the certification, all
  hashes of the certificate are the ones returned (or SHA-256 collides), and its disposition and receipt hash are
  those the kernel computes, now, for the context's subjects, the bundle and the flags.\<close>

theorem recognised_certificate_is_the_kernels:
  assumes "certify_ingested cid (Some c) tab rid r (Some (pid, p)) preg k creg = Inr (t, creg')"
  shows "is_trusted_certification_result cid c tab rid r pid p preg k t creg' \<and>
    (is_trusted_certification_result cid' c' tab' rid' r' pid' p' preg' k t' creg' \<longrightarrow>
       cid' = cid \<and> rid' = rid \<and> pid' = pid \<and>
       (certification_texts t' = certification_texts t \<or> collides (certification_fields t') (certification_fields t)) \<and>
       kernel_backed cid' c' tab' rid' r' pid' p' preg' t')"
proof
  from assms obtain ch b bh ph rh core h where parts: "context_hash c = Inr ch" "in_bundle r = Some b" "bundle_hash b = Inr bh"
    "prerequisites_hash p = Inr ph" "certify (Obj (prerequisite_input c b p)) = Inr core" "core_receipt_hash core = Inr rh"
    "is_trusted_ingestion_result cid c tab rid r = Inr True" "registered_prerequisite cid c rid r preg pid p = Inr True"
    "t = \<lparr>tc_context_hash = ch, tc_profile_hash = ic_expected_profile_hash c, tc_ingestion_bundle_hash = bh,
       tc_ingestion_receipt_hash = ir_receipt_hash (in_receipt r), tc_prerequisite_subject_hash = pp_subject_hash p,
       tc_prerequisites_hash = ph, tc_core_receipt_hash = rh, tc_core_result = core\<rparr>"
    "certification_hash t = Inr h" "creg' = enlist k [cid, rid, pid] h creg" by (rule certify_ingested_parts)
  have fields: "tc_context_hash t = ch" "tc_ingestion_bundle_hash t = bh" "tc_ingestion_receipt_hash t = ir_receipt_hash (in_receipt r)"
    "tc_prerequisites_hash t = ph" "tc_core_receipt_hash t = rh" "tc_core_result t = core" by (simp_all add: parts(9))
  show "is_trusted_certification_result cid c tab rid r pid p preg k t creg'"
    using parts(1-8,10,11) kernel_result_same [OF parts(5)]
    by (simp add: is_trusted_certification_result_def certification_checks_def minted_hash_def enlist_def fields)
  have "cid' = cid \<and> rid' = rid \<and> pid' = pid \<and>
       (certification_texts t' = certification_texts t \<or> collides (certification_fields t') (certification_fields t)) \<and>
       kernel_backed cid' c' tab' rid' r' pid' p' preg' t'"
    if "is_trusted_certification_result cid' c' tab' rid' r' pid' p' preg' k t' creg'"
    using that
  proof (rule trusted_certification_parts)
    fix h' b' rh' core'
    assume a: "minted_hash creg' k [cid', rid', pid'] = Some h'" "certification_hash t' = Inr h'"
      "is_trusted_ingestion_result cid' c' tab' rid' r' = Inr True" "registered_prerequisite cid' c' rid' r' preg' pid' p' = Inr True"
      "in_bundle r' = Some b'" "certify (Obj (prerequisite_input c' b' p')) = Inr core'" "core_receipt_hash core' = Inr rh'"
      "core_receipt_hash (tc_core_result t') = Inr rh'" "cr_disposition (tc_core_result t') = cr_disposition core'"
    then have "h' = h" "cid' = cid" "rid' = rid" "pid' = pid"
      by (auto simp: parts(11) minted_hash_def enlist_def split: if_splits)
    then show ?thesis using a parts(10) certifications.unchanged by (auto simp: kernel_backed_def)
  qed
  then show "is_trusted_certification_result cid' c' tab' rid' r' pid' p' preg' k t' creg' \<longrightarrow>
       cid' = cid \<and> rid' = rid \<and> pid' = pid \<and>
       (certification_texts t' = certification_texts t \<or> collides (certification_fields t') (certification_fields t)) \<and>
       kernel_backed cid' c' tab' rid' r' pid' p' preg' t'" by blast
qed

theorem recognised_certificate_is_the_kernels_witness:
  "\<exists>r tab p preg t creg. certify_ingested 1 (Some sample_ingestion) tab 2 r (Some (3, p)) preg 4 (\<lambda>_. None) = Inr (t, creg) \<and>
     is_trusted_certification_result 1 sample_ingestion tab 2 r 3 p preg 4 t creg"
proof (rule sample_chain)
  fix r tab ts xs xreg p preg b
  assume a: "is_trusted_ingestion_result 1 sample_ingestion tab 2 r = Inr True" "in_bundle r = Some b"
    "registered_prerequisite 1 sample_ingestion 2 r preg 3 p = Inr True"
    "certifiable (ic_contract sample_ingestion) (ic_change_set sample_ingestion) (ic_plan sample_ingestion) b
       (input_policy (prerequisite_input sample_ingestion b p))"
  have profile: "ingestion_profile_hash (ic_profile sample_ingestion) = Inr (ic_expected_profile_hash sample_ingestion)"
    using sample_expected by (simp add: expected_evidence_def)
  obtain core where core: "certify (Obj (prerequisite_input sample_ingestion b p)) = Inr core"
    by (rule certifiable_certified [OF _ _ _ _ a(4)]) (simp_all add: prerequisite_input_def)
  obtain t creg where t: "certify_ingested 1 (Some sample_ingestion) tab 2 r (Some (3, p)) preg 4 (\<lambda>_. None) = Inr (t, creg)"
    by (rule certify_ingested_total [OF a(1) profile a(3,2) core])
  show ?thesis using t conjunct1 [OF recognised_certificate_is_the_kernels [OF t]] by blast
qed

end
