(* ===== verification/Pull_Adapter.thy ===== *)
theory Pull_Adapter
  imports Acquisition
begin

text \<open>
  \<open>product/adapters/github.py\<close>: a pull request that was materialised elsewhere, as a change set of the kernel.
  The functions the module exports are the sealed ones it builds at its end; they take the place of the plain
  \<open>snapshot_to_dict\<close>, \<open>load_snapshot\<close>, \<open>to_changeset\<close> and \<open>to_dict\<close> defined before them, which nothing can call.

  Fields hold any value; an argument is an object of the class with its fields (\<open>Obj\<close>), of another class, or
  one whose \<open>vars\<close> have other names.  The final comparison of \<open>vars(loaded)\<close> with the values it was built from
  is left out: they are the same objects.
\<close>

section \<open>The snapshot\<close>

record pull_snapshot =
  ps_repository_owner :: pyval
  ps_repository_name :: pyval
  ps_pr_number :: pyval
  ps_base_sha :: pyval
  ps_head_sha :: pyval
  ps_diff_hash :: pyval
  ps_changed_paths :: pyval

definition PULL_FIELDS :: "string list" where
  "PULL_FIELDS = [''repository_owner'', ''repository_name'', ''pr_number'', ''base_sha'', ''head_sha'', ''diff_hash'', ''changed_paths'']"

definition pull_of :: "(string \<Rightarrow> pyval) \<Rightarrow> pull_snapshot" where
  "pull_of f = \<lparr>ps_repository_owner = f ''repository_owner'', ps_repository_name = f ''repository_name'', ps_pr_number = f ''pr_number'',
     ps_base_sha = f ''base_sha'', ps_head_sha = f ''head_sha'', ps_diff_hash = f ''diff_hash'', ps_changed_paths = f ''changed_paths''\<rparr>"

text \<open>\<open>_GITHUB_OWNER.fullmatch\<close>; \<open>_GITHUB_REPOSITORY\<close> is the pattern of \<open>is_name\<close>.\<close>

definition is_owner :: "string \<Rightarrow> bool" where
  "is_owner s \<longleftrightarrow> s \<noteq> [] \<and> length s \<le> 39 \<and> name_start (hd s) \<and> name_start (last s) \<and>
     list_all (\<lambda>c. name_start c \<or> c = CHR ''-'') s"

definition pull_text :: "pyval \<Rightarrow> string \<Rightarrow> unit res" where
  "pull_text v field = guard (is_str v \<and> normalized (str_of v)) ValueErr (field @ '' must be a normalized nonblank string'')"

definition positive_int :: "pyval \<Rightarrow> bool" where
  "positive_int v \<longleftrightarrow> (case v of PInt i \<Rightarrow> 0 < i | _ \<Rightarrow> False)"

text \<open>The checks of commits and hash that \<open>__post_init__\<close> and \<open>validate\<close> share.\<close>

definition pull_revisions :: "pull_snapshot \<Rightarrow> unit res" where
  "pull_revisions s =
     eseq (guard (positive_int (ps_pr_number s)) ValueErr ''pr_number must be a positive exact int'')
    (eseq (guard (is_str (ps_base_sha s) \<and> is_sha40 (str_of (ps_base_sha s))) ValueErr ''base_sha must be lowercase 40-hex SHA'')
    (eseq (guard (is_str (ps_head_sha s) \<and> is_sha40 (str_of (ps_head_sha s))) ValueErr ''head_sha must be lowercase 40-hex SHA'')
    (eseq (guard (\<not> py_eq (ps_base_sha s) (ps_head_sha s)) ValueErr ''base_sha and head_sha must differ'')
       (guard (is_str (ps_diff_hash s) \<and> is_sha256 (str_of (ps_diff_hash s))) ValueErr
          ''diff_hash must be sha256:<64 lowercase hex>''))))"

definition pull_post_init :: "pull_snapshot \<Rightarrow> unit res" where
  "pull_post_init s =
     eseq (pull_text (ps_repository_owner s) ''repository_owner'')
    (eseq (pull_text (ps_repository_name s) ''repository_name'')
    (eseq (guard (is_owner (str_of (ps_repository_owner s))) ValueErr ''repository_owner must be a GitHub-compatible name'')
    (eseq (guard (is_name (str_of (ps_repository_name s))) ValueErr ''repository_name must be a GitHub-compatible name'')
    (eseq (pull_revisions s)
    (eseq (guard (is_tuple (ps_changed_paths s) \<and> elems (ps_changed_paths s) \<noteq> []) ValueErr ''changed_paths must be a non-empty tuple'')
    (ebind (set_distinct (elems (ps_changed_paths s))) (\<lambda>unique.
     eseq (guard unique ValueErr ''changed_paths must be unique'')
       (efor (elems (ps_changed_paths s)) (\<lambda>p.
          eseq (pull_text p ''changed_paths'')
            (guard (relative_path (str_of p)) ValueErr ''changed_paths must contain normalized relative paths'')))))))))) "

definition GitHubPullRequestSnapshot :: "(string \<Rightarrow> pyval) \<Rightarrow> pull_snapshot res" where
  "GitHubPullRequestSnapshot f = eseq (pull_post_init (pull_of f)) (Inr (pull_of f))"

section \<open>The sealed interface\<close>

definition pull_validate :: "pull_snapshot obj \<Rightarrow> pull_snapshot res" where
  "pull_validate value =
     (case value of
        WrongType \<Rightarrow> Inl (TypeErr, ''snapshot must be GitHubPullRequestSnapshot'')
      | WrongFields \<Rightarrow> Inl (ValueErr, ''malformed GitHub pull-request snapshot fields'')
      | Obj s \<Rightarrow>
          eseq (guard (is_str (ps_repository_owner s) \<and> is_owner (str_of (ps_repository_owner s))) ValueErr
                  ''repository_owner must be a GitHub-compatible name'')
         (eseq (guard (is_str (ps_repository_name s) \<and> is_name (str_of (ps_repository_name s))) ValueErr
                  ''repository_name must be a GitHub-compatible name'')
         (eseq (pull_revisions s)
         (eseq (guard (is_tuple (ps_changed_paths s) \<and> elems (ps_changed_paths s) \<noteq> []) ValueErr
                  ''changed_paths must be a non-empty unique tuple'')
         (ebind (set_distinct (elems (ps_changed_paths s))) (\<lambda>unique.
          eseq (guard unique ValueErr ''changed_paths must be a non-empty unique tuple'')
         (eseq (efor (elems (ps_changed_paths s)) (\<lambda>p. guard (valid_path p) ValueErr ''changed_paths must contain normalized relative paths''))
            (Inr s))))))))"

definition number_in :: "pyval \<Rightarrow> int" where
  "number_in v = (case v of PInt i \<Rightarrow> i | _ \<Rightarrow> 0)"

definition pull_change_set_id :: "pull_snapshot \<Rightarrow> string" where
  "pull_change_set_id s = ''github:'' @ lower (str_of (ps_repository_owner s)) @ ''/'' @ lower (str_of (ps_repository_name s)) @
     ''#pr-'' @ show_int (number_in (ps_pr_number s)) @ ''@'' @ str_of (ps_head_sha s)"

definition to_changeset :: "pull_snapshot obj \<Rightarrow> change_set res" where
  "to_changeset value =
     ebind (pull_validate value) (\<lambda>s.
     ebind (py_sorted (ps_changed_paths s)) (\<lambda>paths.
     ebind (ChangeSet (PStr (pull_change_set_id s)) (ps_base_sha s) (ps_head_sha s) (ps_diff_hash s) (PTuple paths)) (\<lambda>result.
       eseq (guard (result = \<lparr>cs_change_set_id = PStr (pull_change_set_id s), cs_source_revision = ps_base_sha s,
               cs_target_revision = ps_head_sha s, cs_diff_hash = ps_diff_hash s, cs_paths = PTuple paths\<rparr>) ValueErr
               ''malformed mapped ChangeSet'')
         (Inr result))))"

definition pull_to_dict :: "pull_snapshot obj \<Rightarrow> pyval res" where
  "pull_to_dict value =
     ebind (pull_validate value) (\<lambda>s.
     ebind (py_sorted (ps_changed_paths s)) (\<lambda>paths.
       Inr (mkdict [(''repository_owner'', PStr (lower (str_of (ps_repository_owner s)))),
         (''repository_name'', PStr (lower (str_of (ps_repository_name s)))), (''pr_number'', ps_pr_number s),
         (''base_sha'', ps_base_sha s), (''head_sha'', ps_head_sha s), (''diff_hash'', ps_diff_hash s),
         (''changed_paths'', PList paths)])))"

text \<open>\<open>v.lower()\<close>, which texts and bytes have.\<close>

definition lower_byte :: "char \<Rightarrow> char" where
  "lower_byte c = (let n = (of_char c :: nat) in if 65 \<le> n \<and> n \<le> 90 then char_of (n + 32) else c)"

definition lower_value :: "pyval \<Rightarrow> pyval res" where
  "lower_value v =
     (if isinstance_str v then Inr (PStr (lower (str_of v)))
      else (case v of PBytes b \<Rightarrow> Inr (PBytes (map lower_byte b)) | _ \<Rightarrow> Inl (AttributeErr, ''lower'')))"

definition pull_load :: "pyval \<Rightarrow> pull_snapshot res" where
  "pull_load payload =
     (let d = items payload in
      eseq (guard (is_dict payload \<and> keys_are d PULL_FIELDS) ValueErr ''malformed GitHub pull-request snapshot keys'')
     (eseq (guard (is_list (get d ''changed_paths'')) TypeErr ''changed_paths must be a list in serialized snapshots'')
     (ebind (lower_value (get d ''repository_owner'')) (\<lambda>owner.
      ebind (lower_value (get d ''repository_name'')) (\<lambda>name.
      ebind (py_sorted (get d ''changed_paths'')) (\<lambda>paths.
      ebind (GitHubPullRequestSnapshot ((get d)(''repository_owner'' := owner, ''repository_name'' := name,
               ''changed_paths'' := PTuple paths))) (\<lambda>loaded.
        pull_validate (Obj loaded))))))))"

definition certify_pull_request ::
  "pull_snapshot obj \<Rightarrow> acceptance_contract obj \<Rightarrow> verification_plan obj \<Rightarrow> evidence_bundle obj \<Rightarrow> pyval \<Rightarrow> pyval \<Rightarrow> pyval \<Rightarrow>
   pyval \<Rightarrow> certification_result res" where
  "certify_pull_request value contract plan evidence policy authority approval signing =
     ebind (to_changeset value) (\<lambda>cs.
       certify (Obj \<lparr>ci_contract = contract, ci_change_set = Obj cs, ci_plan = plan, ci_evidence = evidence,
         ci_policy_accepted = policy, ci_authority_present = authority, ci_approval_present = approval,
         ci_signing_present = signing\<rparr>))"

end
