(* ===== verification/Pull_Adapter_Properties.thy ===== *)
theory Pull_Adapter_Properties
  imports Pull_Adapter Acquisition_Properties Codec
begin

text \<open>
  Theorems about \<open>adapters/github.py\<close>: what an accepted pull request is, its normal form (lower-case names,
  sorted paths), that a serialization loads as the normal form, and that the change set determines the pull
  request up to its normal form.
\<close>

section \<open>Accepted pull requests\<close>

text \<open>The typed form.\<close>

definition pull :: "string \<Rightarrow> string \<Rightarrow> int \<Rightarrow> string \<Rightarrow> string \<Rightarrow> string \<Rightarrow> string list \<Rightarrow> pull_snapshot" where
  "pull owner name pr base head diff paths = \<lparr>ps_repository_owner = PStr owner, ps_repository_name = PStr name, ps_pr_number = PInt pr,
     ps_base_sha = PStr base, ps_head_sha = PStr head, ps_diff_hash = PStr diff, ps_changed_paths = PTuple (map PStr paths)\<rparr>"

definition pull_ok :: "string \<Rightarrow> string \<Rightarrow> int \<Rightarrow> string \<Rightarrow> string \<Rightarrow> string \<Rightarrow> string list \<Rightarrow> bool" where
  "pull_ok owner name pr base head diff paths \<longleftrightarrow> is_owner owner \<and> is_name name \<and> 0 < pr \<and> is_sha40 base \<and> is_sha40 head \<and>
     base \<noteq> head \<and> is_sha256 diff \<and> paths \<noteq> [] \<and> distinct paths \<and> (\<forall>p \<in> set paths. normalized p \<and> relative_path p)"

lemma owner_text: "is_owner s \<Longrightarrow> normalized s"
  by (rule id_text_normalized) (auto simp: id_text_def is_owner_def list_all_iff name_start_def Let_def is_space_def nul_def)

lemma positive_int_iff: "positive_int v \<longleftrightarrow> (\<exists>i. v = PInt i \<and> 0 < i)"
  by (cases v) (auto simp: positive_int_def)

lemma pull_revisions_iff: "pull_revisions s = Inr () \<longleftrightarrow> (\<exists>i b h d. ps_pr_number s = PInt i \<and> 0 < i \<and> ps_base_sha s = PStr b \<and>
    ps_head_sha s = PStr h \<and> ps_diff_hash s = PStr d \<and> is_sha40 b \<and> is_sha40 h \<and> b \<noteq> h \<and> is_sha256 d)"
  by (auto simp: pull_revisions_def eseq_Inr_iff guard_Inr_iff positive_int_iff is_str_iff)

lemma tuple_of_strs: "is_tuple v \<and> (\<forall>p \<in> set (elems v). is_str p) \<longleftrightarrow> (\<exists>ps. v = PTuple (map PStr ps))"
  using strs_exist by (auto simp: is_tuple_iff)

lemma pull_post_init_iff:
  "pull_post_init s = Inr () \<longleftrightarrow> (\<exists>owner name pr base head diff paths. s = pull owner name pr base head diff paths \<and>
     pull_ok owner name pr base head diff paths)"
proof
  assume a: "pull_post_init s = Inr ()"
  then have t: "is_tuple (ps_changed_paths s)" "\<forall>p \<in> set (elems (ps_changed_paths s)). is_str p"
    by (auto simp: pull_post_init_def eseq_Inr_iff ebind_Inr_iff guard_Inr_iff efor_Inr_iff pull_text_def)
  then obtain paths where p: "ps_changed_paths s = PTuple (map PStr paths)" using tuple_of_strs [of "ps_changed_paths s"] by blast
  obtain owner name where n: "ps_repository_owner s = PStr owner" "ps_repository_name s = PStr name"
    using a by (auto simp: pull_post_init_def eseq_Inr_iff guard_Inr_iff pull_text_def is_str_iff)
  obtain i b h d where r: "ps_pr_number s = PInt i" "0 < i" "ps_base_sha s = PStr b" "ps_head_sha s = PStr h" "ps_diff_hash s = PStr d"
    "is_sha40 b" "is_sha40 h" "b \<noteq> h" "is_sha256 d"
    using a by (auto simp: pull_post_init_def eseq_Inr_iff pull_revisions_iff)
  have "pull_ok owner name i b h d paths"
    using a r by (auto simp: pull_post_init_def pull_ok_def n p eseq_Inr_iff ebind_Inr_iff guard_Inr_iff efor_Inr_iff pull_text_def
        set_distinct_strs)
  moreover have "s = pull owner name i b h d paths" using n r p by (cases s) (simp add: pull_def)
  ultimately show "\<exists>owner name pr base head diff paths. s = pull owner name pr base head diff paths \<and>
     pull_ok owner name pr base head diff paths" by blast
next
  assume "\<exists>owner name pr base head diff paths. s = pull owner name pr base head diff paths \<and> pull_ok owner name pr base head diff paths"
  then show "pull_post_init s = Inr ()"
    using owner_text is_name_text
    by (auto simp: pull_post_init_def pull_ok_def eseq_Inr_iff ebind_Inr_iff guard_Inr_iff efor_Inr_iff pull_text_def
        set_distinct_strs pull_revisions_iff) (auto simp: pull_def set_distinct_strs)
qed

text \<open>What was constructed passes the sealed check.\<close>

lemma pull_validates: "pull_ok owner name pr base head diff paths \<Longrightarrow>
    pull_validate (Obj (pull owner name pr base head diff paths)) = Inr (pull owner name pr base head diff paths)"
proof -
  assume ok: "pull_ok owner name pr base head diff paths"
  then have "pull_revisions (pull owner name pr base head diff paths) = Inr ()"
    by (simp add: pull_revisions_iff) (simp add: pull_def pull_ok_def)
  moreover have "\<forall>p \<in> set paths. valid_path (PStr p)" using ok by (auto simp: pull_ok_def valid_path_def normalized_def)
  then have "efor (map PStr paths) (\<lambda>p. guard (valid_path p) ValueErr m) = Inr ()" for m
    by (simp add: efor_Inr_iff guard_def)
  ultimately show ?thesis using ok
    by (simp add: pull_validate_def pull_ok_def) (simp add: pull_def set_distinct_strs)
qed

section \<open>The normal form\<close>

lemma lower_name_char: "name_start c \<Longrightarrow> name_start (lower_char c)"
  by (auto simp: name_start_def lower_char_def Let_def)

lemma lower_other_char: "\<not> name_start c \<Longrightarrow> of_char c < (128 :: nat) \<Longrightarrow> lower_char c = c"
  by (auto simp: name_start_def lower_char_def Let_def)

lemma lower_char_idem: "lower_char (lower_char c) = lower_char c"
proof -
  have "(of_char c :: nat) < 256" by (rule of_char_less_256)
  then show ?thesis by (auto simp: lower_char_def Let_def)
qed

lemma lower_lower [simp]: "lower (lower s) = lower s"
  by (simp add: lower_def lower_char_idem)

lemma lower_owner: "is_owner s \<Longrightarrow> is_owner (lower s)"
proof -
  assume o: "is_owner s"
  have "name_start (lower_char c) \<or> lower_char c = CHR ''-''" if "name_start c \<or> c = CHR ''-''" for c
    using that lower_name_char by (auto simp: lower_char_def)
  then show "is_owner (lower s)"
    using o lower_name_char by (auto simp: is_owner_def lower_def list_all_iff hd_map last_map)
qed

lemma lower_name: "is_name s \<Longrightarrow> is_name (lower s)"
proof -
  assume o: "is_name s"
  have "name_start (lower_char c) \<or> List.member ''_.-'' (lower_char c)" if "name_start c \<or> List.member ''_.-'' c" for c
    using that lower_name_char by (auto simp: lower_char_def)
  then show "is_name (lower s)"
    using o lower_name_char by (cases s) (auto simp: is_name_def lower_def list_all_iff)
qed

definition normal_pull :: "string \<Rightarrow> string \<Rightarrow> int \<Rightarrow> string \<Rightarrow> string \<Rightarrow> string \<Rightarrow> string list \<Rightarrow> pull_snapshot" where
  "normal_pull owner name pr base head diff paths = pull (lower owner) (lower name) pr base head diff (sort paths)"

lemma normal_ok: "pull_ok owner name pr base head diff paths \<Longrightarrow> pull_ok (lower owner) (lower name) pr base head diff (sort paths)"
  using lower_owner lower_name by (auto simp: pull_ok_def) (metis set_empty set_sort)

definition pull_items :: "string \<Rightarrow> string \<Rightarrow> int \<Rightarrow> string \<Rightarrow> string \<Rightarrow> string \<Rightarrow> string list \<Rightarrow> (string \<times> pyval) list" where
  "pull_items owner name pr base head diff paths = [(''repository_owner'', PStr owner), (''repository_name'', PStr name),
     (''pr_number'', PInt pr), (''base_sha'', PStr base), (''head_sha'', PStr head), (''diff_hash'', PStr diff),
     (''changed_paths'', PList (map PStr paths))]"

lemma pull_serializes:
  assumes "pull_ok owner name pr base head diff paths"
  shows "pull_to_dict (Obj (pull owner name pr base head diff paths)) =
    Inr (mkdict (pull_items (lower owner) (lower name) pr base head diff (sort paths)))"
  using pull_validates [OF assms] by (simp add: pull_to_dict_def) (simp add: pull_def py_sorted_strs pull_items_def)

lemma py_sorted_list: "py_sorted (PList (map PStr xs)) = Inr (map PStr (sort xs))"
  using py_sorted_strs [of xs] by (simp add: py_sorted_def py_list_def)

lemma pull_loads:
  assumes "pull_ok owner name pr base head diff paths"
  shows "pull_load (mkdict (pull_items owner name pr base head diff paths)) = Inr (normal_pull owner name pr base head diff paths)"
proof -
  let ?d = "items (mkdict (pull_items owner name pr base head diff paths))"
  have keys: "keys_are ?d PULL_FIELDS"
    using keys_are_mkdict [of "pull_items owner name pr base head diff paths"] by (simp add: pull_items_def PULL_FIELDS_def)
  have get: "get ?d ''repository_owner'' = PStr owner" "get ?d ''repository_name'' = PStr name" "get ?d ''pr_number'' = PInt pr"
    "get ?d ''base_sha'' = PStr base" "get ?d ''head_sha'' = PStr head" "get ?d ''diff_hash'' = PStr diff"
    "get ?d ''changed_paths'' = PList (map PStr paths)" by (simp_all add: pull_items_def get_def)
  have "pull_of ((get ?d)(''repository_owner'' := PStr (lower owner), ''repository_name'' := PStr (lower name),
      ''changed_paths'' := PTuple (map PStr (sort paths)))) = normal_pull owner name pr base head diff paths"
    by (simp add: pull_of_def get normal_pull_def pull_def del: items_mkdict)
  moreover have "pull_post_init (normal_pull owner name pr base head diff paths) = Inr ()"
    unfolding pull_post_init_iff normal_pull_def using normal_ok [OF assms] by blast
  moreover have "is_dict (mkdict (pull_items owner name pr base head diff paths))" by (simp add: mkdict_def)
  ultimately show ?thesis
    using pull_validates [OF normal_ok [OF assms]] keys
    by (simp add: pull_load_def Let_def get lower_value_def py_sorted_list GitHubPullRequestSnapshot_def normal_pull_def del: items_mkdict)
qed

section \<open>The change set\<close>

definition pull_id :: "string \<Rightarrow> string \<Rightarrow> int \<Rightarrow> string \<Rightarrow> string" where
  "pull_id owner name pr head = ''github:'' @ owner @ ''/'' @ name @ ''#pr-'' @ show_int pr @ ''@'' @ head"

lemma separator_inj: "c \<notin> set a \<Longrightarrow> c \<notin> set b \<Longrightarrow> a @ c # x = b @ c # y \<longleftrightarrow> a = b \<and> x = y"
  by (induction a arbitrary: b; case_tac b; auto)

lemma show_int_inj: "show_int i = show_int j \<longleftrightarrow> i = j"
proof
  assume "show_int i = show_int j"
  then have "p_number (show_int i @ []) = p_number (show_int j @ [])" by simp
  then show "i = j" using p_number_show [of "[]"] by (simp add: num_end_def)
qed simp

lemma pull_id_inj:
  assumes "is_owner owner" "is_owner owner'" "is_name name" "is_name name'"
  shows "pull_id owner name pr head = pull_id owner' name' pr' head' \<longleftrightarrow> owner = owner' \<and> name = name' \<and> pr = pr' \<and> head = head'"
proof -
  have o: "CHR ''/'' \<notin> set owner" "CHR ''/'' \<notin> set owner'"
    using assms(1,2) by (auto simp: is_owner_def list_all_iff name_start_def Let_def)
  have n: "CHR ''#'' \<notin> set name" "CHR ''#'' \<notin> set name'"
    using assms(3,4) by (auto simp: is_name_def list_all_iff name_start_def Let_def split: list.splits)
  have "CHR ''@'' \<notin> set (show_int i)" for i
    using show_nat_digits [of "nat i"] show_nat_digits [of "nat (- i)"] by (auto simp: show_int_def list_all_iff is_digit_def)
  then show ?thesis by (simp add: pull_id_def separator_inj o n show_int_inj)
qed

lemma id_text_parts: "is_owner s \<Longrightarrow> list_all (\<lambda>c. \<not> is_space c \<and> c \<noteq> nul) s" "is_name s \<Longrightarrow> list_all (\<lambda>c. \<not> is_space c \<and> c \<noteq> nul) s"
  "is_sha40 s \<Longrightarrow> list_all (\<lambda>c. \<not> is_space c \<and> c \<noteq> nul) s"
proof -
  show "is_owner s \<Longrightarrow> list_all (\<lambda>c. \<not> is_space c \<and> c \<noteq> nul) s"
    by (auto simp: is_owner_def list_all_iff name_start_def Let_def is_space_def nul_def)
  show "is_name s \<Longrightarrow> list_all (\<lambda>c. \<not> is_space c \<and> c \<noteq> nul) s"
    using name_char_not_space by (auto simp: is_name_def list_all_iff split: list.splits)
  show "is_sha40 s \<Longrightarrow> list_all (\<lambda>c. \<not> is_space c \<and> c \<noteq> nul) s"
    using hex_plain by (auto simp: is_sha40_def list_all_iff)
qed

lemma sha40_normalized: "is_sha40 s \<Longrightarrow> normalized s"
  by (rule id_text_normalized) (auto simp: id_text_def id_text_parts(3), simp add: is_sha40_def)

definition pull_change :: "string \<Rightarrow> string \<Rightarrow> int \<Rightarrow> string \<Rightarrow> string \<Rightarrow> string \<Rightarrow> string list \<Rightarrow> change_set" where
  "pull_change owner name pr base head diff paths = \<lparr>cs_change_set_id = PStr (pull_id (lower owner) (lower name) pr head),
     cs_source_revision = PStr base, cs_target_revision = PStr head, cs_diff_hash = PStr diff,
     cs_paths = PTuple (map PStr (sort paths))\<rparr>"

lemma pull_maps:
  assumes "pull_ok owner name pr base head diff paths"
  shows "to_changeset (Obj (pull owner name pr base head diff paths)) = Inr (pull_change owner name pr base head diff paths)"
    "change_set_errs (pull_change owner name pr base head diff paths) = []"
proof -
  have "id_text (pull_id (lower owner) (lower name) pr head)"
    using id_text_parts lower_owner lower_name assms show_int_plain
    by (simp add: pull_id_def id_text_def pull_ok_def) (simp add: is_space_def nul_def)
  then show errs: "change_set_errs (pull_change owner name pr base head diff paths) = []"
    using assms id_text_normalized sha40_normalized normal_ok [OF assms]
    by (auto simp: change_set_errs_Nil pull_change_def pull_ok_def)
  have "ChangeSet (PStr (pull_id (lower owner) (lower name) pr head)) (PStr base) (PStr head) (PStr diff)
      (PTuple (map PStr (sort paths))) = Inr (pull_change owner name pr base head diff paths)"
    using errs by (simp add: ChangeSet_Inr) (simp add: pull_change_def)
  moreover have "pull_change_set_id (pull owner name pr base head diff paths) = pull_id (lower owner) (lower name) pr head"
    by (simp add: pull_change_set_id_def pull_def pull_id_def number_in_def)
  ultimately show "to_changeset (Obj (pull owner name pr base head diff paths)) = Inr (pull_change owner name pr base head diff paths)"
    using pull_validates [OF assms]
    by (simp add: to_changeset_def) (simp add: pull_def py_sorted_strs pull_change_def)
qed

lemma pull_change_inj:
  assumes "pull_ok owner name pr base head diff paths" "pull_ok owner' name' pr' base' head' diff' paths'"
  shows "pull_change owner name pr base head diff paths = pull_change owner' name' pr' base' head' diff' paths' \<longleftrightarrow>
    normal_pull owner name pr base head diff paths = normal_pull owner' name' pr' base' head' diff' paths'"
  using assms lower_owner lower_name
  by (auto simp: pull_change_def normal_pull_def pull_def pull_ok_def pull_id_inj)

text \<open>The serializer and the loader, on objects in normal form.\<close>

interpretation pulls: codec "\<lambda>s. pull_to_dict (Obj s)" pull_load
  "\<lambda>s. \<exists>owner name pr base head diff paths. s = normal_pull owner name pr base head diff paths \<and> pull_ok owner name pr base head diff paths"
proof
  fix s d
  assume "\<exists>owner name pr base head diff paths. s = normal_pull owner name pr base head diff paths \<and> pull_ok owner name pr base head diff paths"
    and d: "pull_to_dict (Obj s) = Inr d"
  then obtain owner name pr base head diff paths where s: "s = normal_pull owner name pr base head diff paths"
    "pull_ok owner name pr base head diff paths" by blast
  have "d = mkdict (pull_items (lower owner) (lower name) pr base head diff (sort paths))"
    using d pull_serializes [OF normal_ok [OF s(2)]] by (simp add: s(1) normal_pull_def sorted_sort_id)
  then show "pull_load d = Inr s"
    using pull_loads [OF normal_ok [OF s(2)]] by (simp add: s(1) normal_pull_def sorted_sort_id)
qed

lemma pull_cycle:
  assumes "GitHubPullRequestSnapshot f = Inr s"
  obtains owner name pr base head diff paths where "s = pull owner name pr base head diff paths"
    "pull_ok owner name pr base head diff paths"
    "pull_to_dict (Obj s) = Inr (mkdict (pull_items (lower owner) (lower name) pr base head diff (sort paths)))"
    "pull_load (mkdict (pull_items (lower owner) (lower name) pr base head diff (sort paths))) =
       Inr (normal_pull owner name pr base head diff paths)"
    "pull_to_dict (Obj (normal_pull owner name pr base head diff paths)) =
       Inr (mkdict (pull_items (lower owner) (lower name) pr base head diff (sort paths)))"
    "to_changeset (Obj s) = Inr (pull_change owner name pr base head diff paths)"
    "to_changeset (Obj (normal_pull owner name pr base head diff paths)) = Inr (pull_change owner name pr base head diff paths)"
    "change_set_errs (pull_change owner name pr base head diff paths) = []"
proof -
  have "s = pull_of f" "pull_post_init s = Inr ()" using assms by (auto simp: GitHubPullRequestSnapshot_def eseq_Inr_iff)
  then obtain owner name pr base head diff paths where s: "s = pull owner name pr base head diff paths"
    and ok: "pull_ok owner name pr base head diff paths" unfolding pull_post_init_iff by blast
  have change: "pull_change (lower owner) (lower name) pr base head diff (sort paths) = pull_change owner name pr base head diff paths"
    by (simp add: pull_change_def sorted_sort_id)
  show ?thesis
    using that [OF s ok] pull_serializes [OF ok] pull_serializes [OF normal_ok [OF ok]] pull_loads [OF normal_ok [OF ok]]
      pull_maps [OF ok] pull_maps [OF normal_ok [OF ok]]
    by (simp add: s normal_pull_def sorted_sort_id change)
qed

lemma pull_items_inj:
  "mkdict (pull_items owner name pr base head diff paths) = mkdict (pull_items owner' name' pr' base' head' diff' paths') \<longleftrightarrow>
   pull owner name pr base head diff paths = pull owner' name' pr' base' head' diff' paths'"
  by (auto simp: mkdict_def pull_items_def pull_def)

text \<open>The normal form of a pull request and the change set it stands for, from its fields.\<close>

definition normal_form :: "pull_snapshot \<Rightarrow> pull_snapshot" where
  "normal_form s = s\<lparr>ps_repository_owner := PStr (lower (str_of (ps_repository_owner s))),
     ps_repository_name := PStr (lower (str_of (ps_repository_name s))),
     ps_changed_paths := PTuple (map PStr (sort (map str_of (elems (ps_changed_paths s)))))\<rparr>"

definition change_set_of_pull :: "pull_snapshot \<Rightarrow> change_set" where
  "change_set_of_pull n = \<lparr>cs_change_set_id = PStr (''github:'' @ str_of (ps_repository_owner n) @ ''/'' @
       str_of (ps_repository_name n) @ ''#pr-'' @ show_int (case ps_pr_number n of PInt i \<Rightarrow> i | _ \<Rightarrow> 0) @ ''@'' @ str_of (ps_head_sha n)),
     cs_source_revision = ps_base_sha n, cs_target_revision = ps_head_sha n, cs_diff_hash = ps_diff_hash n,
     cs_paths = ps_changed_paths n\<rparr>"

lemma normal_form_pull: "normal_form (pull owner name pr base head diff paths) = normal_pull owner name pr base head diff paths"
  by (simp add: normal_form_def normal_pull_def pull_def comp_def)

lemma change_set_of_normal: "change_set_of_pull (normal_pull owner name pr base head diff paths) = pull_change owner name pr base head diff paths"
  by (simp add: change_set_of_pull_def normal_pull_def pull_def pull_change_def pull_id_def)

text \<open>C40: the change set stands for the pull request.  Any two pull requests that were constructed serialize, load as
  their normal form (owner and name in lower case, paths sorted, everything else the same), which serializes the
  same, and map to the valid change set with the identifier, the commits, the diff hash and the sorted paths of the
  normal form; and they map to the same change set exactly when their normal forms are the same: letter case and the
  order of the paths are all that is lost.\<close>

theorem change_set_stands_for_pull_request:
  assumes "GitHubPullRequestSnapshot f = Inr s" "GitHubPullRequestSnapshot f' = Inr s'"
  shows "\<exists>d cs d' cs'. pull_to_dict (Obj s) = Inr d \<and> pull_load d = Inr (normal_form s) \<and> pull_to_dict (Obj (normal_form s)) = Inr d \<and>
     cs = change_set_of_pull (normal_form s) \<and> to_changeset (Obj s) = Inr cs \<and> to_changeset (Obj (normal_form s)) = Inr cs \<and>
     change_set_errs cs = [] \<and>
     pull_to_dict (Obj s') = Inr d' \<and> pull_load d' = Inr (normal_form s') \<and> to_changeset (Obj s') = Inr cs' \<and>
     (cs = cs' \<longleftrightarrow> normal_form s = normal_form s') \<and> (d = d' \<longleftrightarrow> normal_form s = normal_form s')"
proof -
  from assms(1) obtain owner name pr base head diff paths where p: "s = pull owner name pr base head diff paths"
    "pull_ok owner name pr base head diff paths"
    "pull_to_dict (Obj s) = Inr (mkdict (pull_items (lower owner) (lower name) pr base head diff (sort paths)))"
    "pull_load (mkdict (pull_items (lower owner) (lower name) pr base head diff (sort paths))) =
       Inr (normal_pull owner name pr base head diff paths)"
    "pull_to_dict (Obj (normal_pull owner name pr base head diff paths)) =
       Inr (mkdict (pull_items (lower owner) (lower name) pr base head diff (sort paths)))"
    "to_changeset (Obj s) = Inr (pull_change owner name pr base head diff paths)"
    "to_changeset (Obj (normal_pull owner name pr base head diff paths)) = Inr (pull_change owner name pr base head diff paths)"
    "change_set_errs (pull_change owner name pr base head diff paths) = []" by (rule pull_cycle)
  from assms(2) obtain owner' name' pr' base' head' diff' paths' where q: "s' = pull owner' name' pr' base' head' diff' paths'"
    "pull_ok owner' name' pr' base' head' diff' paths'"
    "pull_to_dict (Obj s') = Inr (mkdict (pull_items (lower owner') (lower name') pr' base' head' diff' (sort paths')))"
    "pull_load (mkdict (pull_items (lower owner') (lower name') pr' base' head' diff' (sort paths'))) =
       Inr (normal_pull owner' name' pr' base' head' diff' paths')"
    "to_changeset (Obj s') = Inr (pull_change owner' name' pr' base' head' diff' paths')" by (rule pull_cycle)
  have n: "normal_form s = normal_pull owner name pr base head diff paths"
    "normal_form s' = normal_pull owner' name' pr' base' head' diff' paths'" by (simp_all add: p(1) q(1) normal_form_pull)
  show ?thesis
    unfolding n
    by (intro exI conjI, rule p(3), rule p(4), rule p(5), rule change_set_of_normal [symmetric], rule p(6), rule p(7), rule p(8),
        rule q(3), rule q(4), rule q(5), rule pull_change_inj [OF p(2) q(2)], unfold normal_pull_def, rule pull_items_inj)
qed

lemma pull_constructed:
  assumes "pull_ok owner name pr base head diff paths"
  shows "GitHubPullRequestSnapshot ((get (items (mkdict (pull_items owner name pr base head diff paths))))
      (''changed_paths'' := PTuple (map PStr paths))) = Inr (pull owner name pr base head diff paths)"
proof -
  have "pull_of ((get (items (mkdict (pull_items owner name pr base head diff paths))))(''changed_paths'' := PTuple (map PStr paths))) =
      pull owner name pr base head diff paths"
    by (simp add: pull_of_def pull_def pull_items_def get_def)
  moreover have "pull_post_init (pull owner name pr base head diff paths) = Inr ()" unfolding pull_post_init_iff using assms by blast
  ultimately show ?thesis by (simp add: GitHubPullRequestSnapshot_def)
qed

definition sample_sha40 :: "char \<Rightarrow> string" where
  "sample_sha40 c = replicate 40 c"

lemma sample_pull_ok:
  "pull_ok ''Octo'' ''Repo'' 7 (sample_sha40 (CHR ''a'')) (sample_sha40 (CHR ''b'')) sample_sha [''b.py'', ''a.py'']"
  "pull_ok ''octo'' ''repo'' 7 (sample_sha40 (CHR ''a'')) (sample_sha40 (CHR ''b'')) sample_sha [''a.py'', ''b.py'']"
proof -
  have "is_sha40 (sample_sha40 (CHR ''a''))" "is_sha40 (sample_sha40 (CHR ''b''))" "sample_sha40 (CHR ''a'') \<noteq> sample_sha40 (CHR ''b'')"
    "is_owner ''Octo''" "is_owner ''octo''" "is_name ''Repo''" "is_name ''repo''" "normalized ''a.py''" "normalized ''b.py''"
    "relative_path ''a.py''" "relative_path ''b.py''" by code_simp+
  then show "pull_ok ''Octo'' ''Repo'' 7 (sample_sha40 (CHR ''a'')) (sample_sha40 (CHR ''b'')) sample_sha [''b.py'', ''a.py'']"
    "pull_ok ''octo'' ''repo'' 7 (sample_sha40 (CHR ''a'')) (sample_sha40 (CHR ''b'')) sample_sha [''a.py'', ''b.py'']"
    by (simp_all add: pull_ok_def)
qed

theorem change_set_stands_for_pull_request_witness:
  "\<exists>cs. to_changeset (Obj (pull ''Octo'' ''Repo'' 7 (sample_sha40 (CHR ''a'')) (sample_sha40 (CHR ''b'')) sample_sha [''b.py'', ''a.py''])) = Inr cs \<and>
     to_changeset (Obj (pull ''octo'' ''repo'' 7 (sample_sha40 (CHR ''a'')) (sample_sha40 (CHR ''b'')) sample_sha [''a.py'', ''b.py''])) = Inr cs"
proof -
  have "lower ''Octo'' = lower ''octo''" "lower ''Repo'' = lower ''repo''" by code_simp+
  moreover have "sort [''b.py'', ''a.py''] = sort [''a.py'', ''b.py'']" by simp
  ultimately have "pull_to_dict (Obj (pull ''Octo'' ''Repo'' 7 (sample_sha40 (CHR ''a'')) (sample_sha40 (CHR ''b'')) sample_sha [''b.py'', ''a.py''])) =
     pull_to_dict (Obj (pull ''octo'' ''repo'' 7 (sample_sha40 (CHR ''a'')) (sample_sha40 (CHR ''b'')) sample_sha [''a.py'', ''b.py'']))"
    by (simp only: pull_serializes [OF sample_pull_ok(1)] pull_serializes [OF sample_pull_ok(2)])
  then show ?thesis
    using change_set_stands_for_pull_request [OF pull_constructed [OF sample_pull_ok(1)] pull_constructed [OF sample_pull_ok(2)]] by auto
qed

end
