(* ===== verification/Wire_V2.thy ===== *)
theory Wire_V2
  imports
    Schemas Acquisition
begin

text \<open>
  \<open>product/adapters/changeset_certification_v2.py\<close>: the provider-neutral v2 wire contract.  A certification
  arrives as a JSON object that binds task, repository, base, diff, scope, candidate and verifier manifest;
  \<open>certify_changeset\<close> judges it with the reducers of the core, and \<open>validate_changeset_certification\<close> decides
  whether an envelope that claims a verdict deserves it.

  The only mapping among the values is the dictionary, and its keys are distinct.  Lists under certain keys stand
  for sets: \<open>_normalize\<close> sorts them.
\<close>

section \<open>Constants\<close>

definition LEGACY_CHANGESET_CERTIFICATION_SCHEMA :: string where
  "LEGACY_CHANGESET_CERTIFICATION_SCHEMA = ''nexus.changeset_certification.v1''"

definition LEGACY_CHANGESET_CERTIFICATION_VERSION :: int where
  "LEGACY_CHANGESET_CERTIFICATION_VERSION = 1"

definition CHANGESET_CERTIFICATION_SCHEMA :: string where
  "CHANGESET_CERTIFICATION_SCHEMA = ''nexus.changeset_certification.v2''"

definition CHANGESET_CERTIFICATION_VERSION :: int where
  "CHANGESET_CERTIFICATION_VERSION = 2"

definition WIRE_CLAIM_CEILING :: string where
  "WIRE_CLAIM_CEILING = ''LOCAL_CHANGESET_CERTIFICATION_V2_CONTRACT_CANDIDATE_ONLY''"

definition MAX_REASONS :: nat where
  "MAX_REASONS = 16"

definition WIRE_REASONS :: "string list" where
  "WIRE_REASONS = [''identity_missing'', ''identity_malformed'', ''evidence_missing'', ''evidence_malformed'', ''scope_missing'',
     ''scope_malformed'', ''candidate_missing'', ''candidate_malformed'', ''verifier_manifest_missing'',
     ''verifier_manifest_malformed'', ''verifier_missing'', ''verifier_failed'', ''verifier_artifact_missing'',
     ''verifier_artifact_malformed'', ''verifier_duplicate'', ''artifact_duplicate'', ''hash_mismatch'', ''manifest_hash_mismatch'',
     ''payload_hash_mismatch'', ''cross_binding_mismatch'', ''status_invalid'', ''reason_invalid'', ''schema_invalid'',
     ''unknown_field'', ''status_substitution'', ''change_set_missing'', ''identity_diff_hash_invalid'', ''evidence_0_invalid'',
     ''evidence_duplicate_id'', ''evidence_empty'', ''evidence_not_sequence'', ''canonical_hash_mismatch'', ''approval_missing'',
     ''authority_missing'', ''signing_missing'', ''policy_missing'', ''policy_disallowed'', ''scope_escape'', ''stale_changeset'',
     ''legacy_v1_reverification_required'']"

section \<open>Normal form and canonical hash\<close>

definition finite_float :: "pyfloat \<Rightarrow> bool" where
  "finite_float f \<longleftrightarrow> (case f of FInt _ _ \<Rightarrow> True | FFrac _ \<Rightarrow> True | _ \<Rightarrow> False)"

text \<open>\<open>sorted(items, key=canonical_json)\<close> for the lists that stand for sets.  The items are normalised already, so
  their canonical text is what is printed for them (\<open>canonical_of_normal\<close>).\<close>

definition SORTED_KEYS :: "string list" where
  "SORTED_KEYS = [''paths'', ''reasons'', ''reason_codes'', ''verifiers'', ''evidence'']"

definition arrange :: "string option \<Rightarrow> pyval list \<Rightarrow> pyval res" where
  "arrange key xs =
     (if (case key of None \<Rightarrow> False | Some k \<Rightarrow> List.member SORTED_KEYS k)
      then ebind (emap (dumps compact_raw) xs) (\<lambda>ts. Inr (PList (map snd (sort_key fst (zip ts xs)))))
      else Inr (PList xs))"

text \<open>\<open>_normalize(value, path)\<close>, of which only the last key of the path matters.\<close>

function wire_normalize :: "string option \<Rightarrow> pyval \<Rightarrow> pyval res" where
  "wire_normalize key PNone = Inr PNone"
| "wire_normalize key (PStr s) = Inr (PStr s)"
| "wire_normalize key (PEnum c s) = Inr (PEnum c s)"
| "wire_normalize key (PBool b) = Inr (PBool b)"
| "wire_normalize key (PInt i) = Inr (PInt i)"
| "wire_normalize key (PFloat f) = (if finite_float f then Inr (PFloat f) else Inl (TypeErr, ''canonical JSON values must be finite''))"
| "wire_normalize key (PDict d) =
     (if list_ex (\<lambda>p. \<not> isinstance_str (fst p)) d then Inl (TypeErr, ''canonical JSON keys must be strings'')
      else ebind (emap (\<lambda>p. ebind (wire_normalize (Some (str_of (fst p))) (snd p)) (\<lambda>w. Inr (fst p, w))) (ordered compact_raw d))
             (\<lambda>e. Inr (PDict e)))"
| "wire_normalize key (PList xs) = ebind (emap (wire_normalize key) xs) (arrange key)"
| "wire_normalize key (PTuple xs) = ebind (emap (wire_normalize key) xs) (arrange key)"
| "wire_normalize key (PBytes b) = Inl (TypeErr, ''unsupported canonical JSON value: bytes'')"
| "wire_normalize key (PObject c) = Inl (TypeErr, ''unsupported canonical JSON value: '' @ c)"
  by pat_completeness auto
termination
proof (relation "measure (\<lambda>(key, v). size v)")
  show "wf (measure (\<lambda>(key, v). size v))" by simp
next
  fix key :: "string option" and d and p :: "pyval \<times> pyval" assume "p \<in> set (ordered compact_raw d)"
  then have "size_prod size size p \<le> size_list (size_prod size size) d"
    by (auto intro: size_list_estimation')
  then show "((Some (str_of (fst p)), snd p), key, PDict d) \<in> measure (\<lambda>(key, v). size v)"
    by (cases p) auto
next
  fix key :: "string option" and xs and x :: pyval assume "x \<in> set xs"
  then show "((key, x), key, PList xs) \<in> measure (\<lambda>(key, v). size v)"
    by (auto dest: size_list_estimation' [where f = size and y = "size x"])
next
  fix key :: "string option" and xs and x :: pyval assume "x \<in> set xs"
  then show "((key, x), key, PTuple xs) \<in> measure (\<lambda>(key, v). size v)"
    by (auto dest: size_list_estimation' [where f = size and y = "size x"])
qed

definition wire_canonical_json :: "pyval \<Rightarrow> string res" where
  "wire_canonical_json v = ebind (wire_normalize None v) (dumps compact_raw)"

definition wire_hash :: "pyval \<Rightarrow> string res" where
  "wire_hash v = ebind (wire_canonical_json v) (\<lambda>t. Inr (sha_text (utf8 t)))"

text \<open>\<open>_copy\<close>: the normal form, printed and read again.\<close>

definition wire_copy :: "pyval \<Rightarrow> pyval res" where
  "wire_copy v = ebind (wire_normalize None v) (\<lambda>w. ebind (dumps spaced_raw w) loads)"

fun contains_nonfinite :: "pyval \<Rightarrow> bool" where
  "contains_nonfinite (PFloat f) = (\<not> finite_float f)"
| "contains_nonfinite (PDict d) = list_ex (\<lambda>p. contains_nonfinite (snd p)) d"
| "contains_nonfinite (PList xs) = list_ex contains_nonfinite xs"
| "contains_nonfinite (PTuple xs) = list_ex contains_nonfinite xs"
| "contains_nonfinite _ = False"

definition payload_input :: "pydict \<Rightarrow> pydict res" where
  "payload_input d = ebind (wire_copy (PDict d)) (\<lambda>v. Inr (without_key (items v) ''canonical_payload_hash''))"

definition manifest_input :: "pydict \<Rightarrow> pydict res" where
  "manifest_input d = ebind (wire_copy (PDict d)) (\<lambda>v. Inr (without_key (items v) ''manifest_hash''))"

definition payload_hash :: "pydict \<Rightarrow> string res" where
  "payload_hash d = ebind (payload_input d) (\<lambda>e. wire_hash (PDict e))"

definition manifest_hash :: "pydict \<Rightarrow> string res" where
  "manifest_hash d = ebind (manifest_input d) (\<lambda>e. wire_hash (PDict e))"

definition hashes_match :: "pydict \<Rightarrow> bool res" where
  "hashes_match p =
     (let m = get p ''verifier_manifest'' in
      if \<not> is_dict m then Inr False
      else ebind (payload_hash p) (\<lambda>h.
        if \<not> py_eq (get p ''canonical_payload_hash'') (PStr h) then Inr False
        else ebind (manifest_hash (items m)) (\<lambda>g. Inr (py_eq (get (items m) ''manifest_hash'') (PStr g)))))"

definition hash_errors :: "pydict \<Rightarrow> string list res" where
  "hash_errors p =
     (let m = get p ''verifier_manifest'' in
      ebind (if \<not> is_dict m then Inr True
             else ebind (manifest_hash (items m)) (\<lambda>g. Inr (\<not> py_eq (get (items m) ''manifest_hash'') (PStr g)))) (\<lambda>bad_manifest.
      ebind (payload_hash p) (\<lambda>h.
        let out = (if bad_manifest then [''manifest_hash_mismatch''] else []) @
          (if \<not> py_eq (get p ''canonical_payload_hash'') (PStr h) then [''payload_hash_mismatch''] else [])
        in Inr (if out = [] then [''hash_mismatch''] else out))))"

section \<open>Facts about verifiers\<close>

text \<open>\<open>reduce_verification(condition, observations, reasons)\<close> with tuples of texts.\<close>

abbreviation reduced :: "integrity_status \<Rightarrow> pyval list \<Rightarrow> string list \<Rightarrow> verification_result res" where
  "reduced condition observations reasons \<equiv>
     reduce_verification (Some condition) (PTuple observations) (PTuple (map PStr reasons))"

definition condition_for_errors :: "string list \<Rightarrow> integrity_status" where
  "condition_for_errors errors =
     (let some_of = (\<lambda>codes. list_ex (\<lambda>r. List.member codes r) errors) in
      if List.member errors ''scope_escape'' then SCOPE_ESCAPE
      else if List.member errors ''stale_changeset'' then STALE
      else if some_of [''payload_hash_mismatch'', ''manifest_hash_mismatch'', ''hash_mismatch''] then TAMPERED
      else if some_of [''cross_binding_mismatch''] then CROSS_BOUND
      else if some_of [''verifier_duplicate'', ''artifact_duplicate''] then DUPLICATE
      else if some_of [''legacy_v1_reverification_required''] then LEGACY_NON_CERTIFIABLE
      else if some_of [''identity_missing'', ''evidence_missing'', ''scope_missing'', ''candidate_missing'',
          ''verifier_manifest_missing'', ''verifier_missing'', ''verifier_artifact_missing''] then MISSING
      else MALFORMED)"

text \<open>\<open>any(verifier.get("status") == "FAIL" for verifier in verifiers)\<close>.\<close>

fun any_failed :: "pyval list \<Rightarrow> bool res" where
  "any_failed [] = Inr False"
| "any_failed (v # vs) =
     (if \<not> is_dict v then Inl (AttributeErr, ''get'')
      else if py_eq (get (items v) ''status'') (PStr ''FAIL'') then Inr True else any_failed vs)"

definition derive_verification_result :: "pyval \<Rightarrow> string list \<Rightarrow> verification_result res" where
  "derive_verification_result payload errors =
     (if List.member errors ''scope_escape'' then reduced SCOPE_ESCAPE [] [''scope_escape'']
      else if errors \<noteq> [] \<or> \<not> is_dict payload then reduced (condition_for_errors errors) [] (sorted_set errors)
      else (let p = items payload; m = get p ''verifier_manifest'' in
        if \<not> is_dict m then reduced MISSING [] [''evidence_missing'']
        else ebind (hashes_match p) (\<lambda>ok.
          if \<not> ok then ebind (hash_errors p) (reduced TAMPERED [])
          else (let vs = get (items m) ''verifiers'' in
            if \<not> is_list vs \<or> elems vs = [] then reduced MISSING [] [''verifier_missing'']
            else ebind (any_failed (elems vs)) (\<lambda>failed.
              if failed then reduced VALID [OBS_FAIL] [''verifier_failed''] else reduced VALID [OBS_PASS] [])))))"

definition unverifiable_because :: "string list \<Rightarrow> integrity_status \<Rightarrow> verification_result res" where
  "unverifiable_because reasons condition = reduced condition [] (sorted_set reasons)"

section \<open>Policy\<close>

definition complete_value :: "pyval \<Rightarrow> bool" where
  "complete_value v \<longleftrightarrow> is_dict v \<and> keys_are (items v) [''complete''] \<and> get (items v) ''complete'' = PBool True"

definition missing_prerequisites :: "pydict \<Rightarrow> string list" where
  "missing_prerequisites p =
     map (\<lambda>k. k @ ''_missing'') (filter (\<lambda>k. \<not> complete_value (get p k)) [''approval'', ''authority'', ''signing''])"

definition policy_reasons :: "pydict \<Rightarrow> string list" where
  "policy_reasons p =
     (let po = get p ''policy'' in
      if po = PNone then [''policy_missing'']
      else if \<not> is_dict po \<or> \<not> keys_are (items po) [''allowed''] \<or> get (items po) ''allowed'' \<noteq> PBool True then [''policy_disallowed'']
      else [])"

definition waiver_is_malformed :: "pydict \<Rightarrow> bool" where
  "waiver_is_malformed p \<longleftrightarrow>
     (let w = get p ''waiver'' in
      w \<noteq> PNone \<and> (\<not> is_dict w \<or> \<not> keys_are (items w) [''approved''] \<or> \<not> is_bool (get (items w) ''approved'')))"

definition opt_complete :: "pyval \<Rightarrow> pyval" where
  "opt_complete v = (if v = PNone then PNone else PBool (complete_value v))"

definition no_policy :: policy where
  "no_policy = \<lparr>accepted = PNone, authority_present = PNone, approval_present = PNone, signing_present = PNone\<rparr>"

definition wire_policy :: "pydict \<Rightarrow> policy" where
  "wire_policy p =
     (let po = get p ''policy'' in
      if \<not> has_key p ''policy'' \<or> po = PNone then no_policy
      else if \<not> is_dict po then no_policy\<lparr>accepted := PBool False\<rparr>
      else if \<not> keys_are (items po) [''allowed''] \<or> \<not> is_bool (get (items po) ''allowed'') then no_policy\<lparr>accepted := PBool False\<rparr>
      else \<lparr>accepted = get (items po) ''allowed'', authority_present = opt_complete (get p ''authority''),
        approval_present = opt_complete (get p ''approval''), signing_present = opt_complete (get p ''signing'')\<rparr>)"

definition effective_policy :: "pydict \<Rightarrow> string list \<Rightarrow> policy" where
  "effective_policy p reasons =
     (let po = get p ''policy''; w = get p ''waiver'' in
      if is_dict po \<and> \<not> keys_are (items po) [''allowed''] \<or> is_dict w \<and> \<not> keys_are (items w) [''approved''] \<or>
         list_ex (\<lambda>r. List.member [''unknown_field'', ''reason_invalid'', ''status_substitution'', ''hash_mismatch'',
           ''payload_hash_mismatch'', ''manifest_hash_mismatch''] r) reasons
      then \<lparr>accepted = PBool False, authority_present = PBool True, approval_present = PBool True, signing_present = PBool True\<rparr>
      else wire_policy p)"

section \<open>Validation of the envelope's form\<close>

definition texts_ok :: "pyval \<Rightarrow> string list \<Rightarrow> bool" where
  "texts_ok v ks \<longleftrightarrow> list_all (\<lambda>k. isinstance_str (get (items v) k) \<and> normalized (str_of (get (items v) k))) ks"

definition sha_value :: "pyval \<Rightarrow> bool" where
  "sha_value v \<longleftrightarrow> isinstance_str v \<and> is_sha256 (str_of v)"

definition paths_ok :: "pyval \<Rightarrow> bool" where
  "paths_ok v \<longleftrightarrow> is_list v \<and> \<not> raises (validate_normalized_paths (PTuple (elems v)) ''paths'')"

text \<open>A mapping with exactly these keys, the second list of which are normalised texts.\<close>

definition exact_texts :: "pyval \<Rightarrow> string list \<Rightarrow> string list \<Rightarrow> bool" where
  "exact_texts v ks ts \<longleftrightarrow> is_dict v \<and> keys_are (items v) ks \<and> texts_ok v ts"

definition ENVELOPE_KEYS :: "string list" where
  "ENVELOPE_KEYS = [''schema'', ''version'', ''task'', ''repository'', ''base'', ''diff'', ''allowed_scope'', ''candidate'',
     ''verifier_manifest'', ''disposition'', ''reasons'', ''claim_ceiling'', ''canonical_payload_hash'', ''approval'', ''authority'',
     ''signing'', ''policy'', ''waiver'']"

definition MANIFEST_TEXTS :: "string list" where
  "MANIFEST_TEXTS = [''manifest_id'', ''task_id'', ''attempt_id'', ''repository'', ''source'', ''base_commit'', ''base_tree'',
     ''candidate_commit'', ''candidate_tree'']"

definition MANIFEST_KEYS :: "string list" where
  "MANIFEST_KEYS = MANIFEST_TEXTS @ [''diff_hash'', ''verifiers'', ''manifest_hash'']"

text \<open>\<open>factual\<close>, the claimed verification result.\<close>

definition factual_errs :: "pyval \<Rightarrow> string list res" where
  "factual_errs v =
     (let d = items v; codes = get d ''reason_codes''; bad = Inr [''evidence_malformed''] in
      if \<not> is_dict v \<or> \<not> keys_are d [''status'', ''reason_codes''] then bad
      else ebind (in_strs (get d ''status'') [''VERIFIED'', ''FAILED_VERIFICATION'', ''UNVERIFIABLE'']) (\<lambda>known.
        if \<not> known \<or> \<not> is_list codes \<or> MAX_REASONS < length (elems codes) then bad
        else ebind (set_distinct (elems codes)) (\<lambda>unique.
          if \<not> unique then bad
          else ebind (eall (\<lambda>r. in_strs r WIRE_REASONS) (elems codes)) (\<lambda>known. if known then Inr [] else bad))))"

definition subject_errs :: "pydict \<Rightarrow> string list res" where
  "subject_errs p =
     (let f = get p; diff = f ''diff''; scope = f ''allowed_scope'' in
      if list_ex (\<lambda>k. f k = PNone) [''task'', ''repository'', ''base'', ''diff''] then Inr [''identity_missing'']
      else if \<not> exact_texts (f ''task'') [''task_id'', ''attempt_id''] [''task_id'', ''attempt_id''] then Inr [''identity_malformed'']
      else if \<not> exact_texts (f ''repository'') [''repository'', ''source''] [''repository'', ''source''] then Inr [''identity_malformed'']
      else if \<not> exact_texts (f ''base'') [''commit'', ''tree''] [''commit'', ''tree''] then Inr [''identity_malformed'']
      else if \<not> is_dict diff \<or> \<not> keys_are (items diff) [''hash'', ''paths''] \<or> \<not> sha_value (get (items diff) ''hash'') \<or>
          \<not> paths_ok (get (items diff) ''paths'') then Inr [''identity_malformed'']
      else if scope = PNone then Inr [''scope_missing'']
      else if \<not> is_dict scope \<or> \<not> keys_are (items scope) [''paths'', ''deletion_policy''] \<or> \<not> paths_ok (get (items scope) ''paths'')
        then Inr [''scope_malformed'']
      else ebind (in_strs (get (items scope) ''deletion_policy'') [''FORBID'', ''ALLOW'']) (\<lambda>known.
        if \<not> known then Inr [''scope_malformed'']
        else if \<not> list_all (List.member (strs (get (items scope) ''paths''))) (strs (get (items diff) ''paths'')) then Inr [''scope_escape'']
        else Inr []))"

definition candidate_errs :: "pydict \<Rightarrow> string list" where
  "candidate_errs p =
     (let c = get p ''candidate'' in
      if c = PNone then []
      else if \<not> exact_texts c [''commit'', ''tree'', ''diff_hash''] [''commit'', ''tree''] \<or> \<not> sha_value (get (items c) ''diff_hash'')
        then [''candidate_malformed'']
      else if \<not> py_eq (get (items c) ''diff_hash'') (get (items (get p ''diff'')) ''hash'') then [''cross_binding_mismatch'']
      else [])"

text \<open>What the manifest is bound to; without a candidate, its commit and tree are \<open>none\<close>.\<close>

definition manifest_bindings :: "pydict \<Rightarrow> (string \<times> pyval) list" where
  "manifest_bindings p =
     (let f = (\<lambda>a k. get (items (get p a)) k); c = get p ''candidate'' in
      [(''task_id'', f ''task'' ''task_id''), (''attempt_id'', f ''task'' ''attempt_id''),
       (''repository'', f ''repository'' ''repository''), (''source'', f ''repository'' ''source''),
       (''base_commit'', f ''base'' ''commit''), (''base_tree'', f ''base'' ''tree''),
       (''candidate_commit'', if truthy c then f ''candidate'' ''commit'' else PStr ''none''),
       (''candidate_tree'', if truthy c then f ''candidate'' ''tree'' else PStr ''none''), (''diff_hash'', f ''diff'' ''hash'')])"

definition manifest_errs :: "pydict \<Rightarrow> string list" where
  "manifest_errs p =
     (let m = get p ''verifier_manifest'' in
      if m = PNone then [''verifier_manifest_missing'']
      else if \<not> exact_texts m MANIFEST_KEYS MANIFEST_TEXTS \<or> \<not> sha_value (get (items m) ''diff_hash'') \<or>
        \<not> sha_value (get (items m) ''manifest_hash'') then [''verifier_manifest_malformed'']
      else if \<not> list_all (\<lambda>(k, v). py_eq (get (items m) k) v) (manifest_bindings p) then [''cross_binding_mismatch'']
      else [])"

fun verifier_errs :: "string \<Rightarrow> string list \<Rightarrow> string list \<Rightarrow> pyval list \<Rightarrow> string list res" where
  "verifier_errs attempt ids artifacts [] = Inr []"
| "verifier_errs attempt ids artifacts (v # vs) =
     (let f = (\<lambda>k. get (items v) k); i = str_of (f ''verifier_id''); a = str_of (f ''artifact_id'') in
      if \<not> is_dict v then Inr [''verifier_artifact_malformed'']
      else if \<not> exact_texts v [''verifier_id'', ''artifact_id'', ''artifact_hash'', ''status''] [''verifier_id'', ''artifact_id''] \<or>
        \<not> sha_value (f ''artifact_hash'') then Inr [''verifier_artifact_missing'']
      else if List.member ids i then Inr [''verifier_duplicate'']
      else if List.member artifacts a then Inr [''artifact_duplicate'']
      else ebind (in_strs (f ''status'') [''PASS'', ''FAIL'']) (\<lambda>known.
        if \<not> known then Inr [''verifier_artifact_malformed'']
        else if a \<noteq> i @ '':'' @ attempt then Inr [''cross_binding_mismatch'']
        else verifier_errs attempt (i # ids) (a # artifacts) vs))"

definition verifiers_errs :: "pydict \<Rightarrow> string list res" where
  "verifiers_errs p =
     (let vs = get (items (get p ''verifier_manifest'')) ''verifiers'' in
      if \<not> is_list vs \<or> elems vs = [] then Inr [''verifier_missing'']
      else verifier_errs (str_of (get (items (get p ''task'')) ''attempt_id'')) [] [] (elems vs))"

definition verdict_errs :: "pydict \<Rightarrow> string list res" where
  "verdict_errs p =
     (let reasons = get p ''reasons''; disposition = get p ''disposition'' in
      if \<not> is_list reasons then Inr [''reason_invalid'']
      else if MAX_REASONS < length (elems reasons) \<or>
        list_ex (\<lambda>r. \<not> isinstance_str r \<or> \<not> List.member WIRE_REASONS (str_of r)) (elems reasons) then Inr [''reason_invalid'']
      else if \<not> distinct (map str_of (elems reasons)) then Inr [''reason_invalid'']
      else ebind (in_strs disposition [''CERTIFIED'', ''REJECTED'', ''BLOCKED'']) (\<lambda>known.
        if \<not> known then Inr [''status_invalid'']
        else if py_eq disposition (PStr ''CERTIFIED'') \<and> get p ''candidate'' = PNone then Inr [''candidate_missing'']
        else if py_eq disposition (PStr ''REJECTED'') \<and> elems reasons = [] then Inr [''reason_invalid'']
        else if \<not> py_eq (get p ''claim_ceiling'') (PStr WIRE_CLAIM_CEILING) then Inr [''cross_binding_mismatch'']
        else if \<not> sha_value (get p ''canonical_payload_hash'') then Inr [''payload_hash_mismatch'']
        else Inr []))"

text \<open>The checks of \<open>_validate\<close> in their order, each returning when it finds something.\<close>

definition or_else :: "string list res \<Rightarrow> string list res \<Rightarrow> string list res" where
  "or_else r s = ebind r (\<lambda>errs. if errs \<noteq> [] then Inr errs else s)"

definition wire_validate :: "pydict \<Rightarrow> bool \<Rightarrow> string list res" where
  "wire_validate p allow_result =
     (let allowed = ENVELOPE_KEYS @ (if allow_result then [''verification_result''] else []) in
      if \<not> list_all (\<lambda>q. List.member allowed (str_of (fst q))) p then Inr [''unknown_field'']
      else if \<not> py_eq (get p ''schema'') (PStr CHANGESET_CERTIFICATION_SCHEMA) \<or>
        \<not> py_eq (get p ''version'') (PInt CHANGESET_CERTIFICATION_VERSION) then Inr [''schema_invalid'']
      else or_else (if allow_result \<and> has_key p ''verification_result'' then factual_errs (get p ''verification_result'') else Inr [])
          (or_else (subject_errs p)
          (or_else (Inr (candidate_errs p))
          (or_else (Inr (manifest_errs p))
          (or_else (verifiers_errs p)
             (verdict_errs p))))))"

section \<open>Certifications\<close>

record change_set_identity =
  wi_change_set_id :: string
  wi_source_revision :: string
  wi_target_revision :: string
  wi_diff_hash :: string

record wire_certification =
  wc_change_set :: change_set_identity
  wc_status :: disposition
  wc_reason_codes :: "string list"
  wc_envelope :: "pyval option"
  wc_verification_result :: verification_result

definition internal_reason :: "string \<Rightarrow> string" where
  "internal_reason code = (case map_of [(''MISSING'', ''evidence_missing''), (''MALFORMED'', ''evidence_malformed''),
       (''TAMPERED'', ''hash_mismatch''), (''CROSS_BOUND'', ''cross_binding_mismatch''), (''DUPLICATE'', ''verifier_duplicate''),
       (''STALE'', ''stale_changeset''), (''LEGACY_NON_CERTIFIABLE'', ''legacy_v1_reverification_required''),
       (''VERIFIER_FAILED'', ''verifier_failed'')] code of None \<Rightarrow> code | Some c \<Rightarrow> c)"

definition project_reasons :: "verification_result \<Rightarrow> string list" where
  "project_reasons r = sorted_set (filter (List.member WIRE_REASONS) (map internal_reason (strs (vr_reason_codes r))))"

definition status_text :: "verification_result \<Rightarrow> string" where
  "status_text r = (case vr_status r of None \<Rightarrow> [] | Some s \<Rightarrow> verification_value s)"

definition project_verification_result :: "verification_result \<Rightarrow> pyval" where
  "project_verification_result r =
     mkdict [(''status'', PStr (status_text r)), (''reason_codes'', PList (map PStr (project_reasons r)))]"

definition new_envelope ::
  "pyval \<Rightarrow> pyval \<Rightarrow> pyval \<Rightarrow> pyval \<Rightarrow> pyval \<Rightarrow> pyval \<Rightarrow> pyval list \<Rightarrow> disposition \<Rightarrow> string list \<Rightarrow> pydict res" where
  "new_envelope task repository base diff scope candidate verifiers disposition reasons =
     (let c = (if truthy candidate then candidate else mkdict [(''commit'', PStr ''none''), (''tree'', PStr ''none'')]);
        manifest = items (mkdict [(''manifest_id'', PStr (''manifest:'' @ py_str (get (items task) ''attempt_id''))),
          (''task_id'', get (items task) ''task_id''), (''attempt_id'', get (items task) ''attempt_id''),
          (''repository'', get (items repository) ''repository''), (''source'', get (items repository) ''source''),
          (''base_commit'', get (items base) ''commit''), (''base_tree'', get (items base) ''tree''),
          (''candidate_commit'', get (items c) ''commit''), (''candidate_tree'', get (items c) ''tree''),
          (''diff_hash'', get (items diff) ''hash''), (''verifiers'', PList verifiers)])
      in ebind (wire_hash (PDict manifest)) (\<lambda>mh.
         let payload = items (mkdict [(''schema'', PStr CHANGESET_CERTIFICATION_SCHEMA),
           (''version'', PInt CHANGESET_CERTIFICATION_VERSION), (''task'', task), (''repository'', repository), (''base'', base),
           (''diff'', diff), (''allowed_scope'', scope),
           (''candidate'', if py_eq (get (items c) ''commit'') (PStr ''none'') then PNone else c),
           (''verifier_manifest'', PDict (dset manifest ''manifest_hash'' (PStr mh))),
           (''disposition'', PStr (disposition_value disposition)), (''reasons'', PList (map PStr reasons)),
           (''claim_ceiling'', PStr WIRE_CLAIM_CEILING)])
         in ebind (wire_hash (PDict payload)) (\<lambda>ph. Inr (dset payload ''canonical_payload_hash'' (PStr ph)))))"

definition as_mapping :: "pyval \<Rightarrow> pydict" where
  "as_mapping v = (if is_dict v then items v else [])"

definition identity_of_envelope :: "pydict \<Rightarrow> change_set_identity" where
  "identity_of_envelope d =
     (let f = (\<lambda>a k. py_str (get_default (as_mapping (get d a)) k (PStr []))) in
      \<lparr>wi_change_set_id = f ''task'' ''task_id'', wi_source_revision = f ''base'' ''commit'',
       wi_target_revision = f ''candidate'' ''commit'', wi_diff_hash = f ''diff'' ''hash''\<rparr>)"

text \<open>The envelope that carries a verdict: the payload with the verdict written into it, and both hashes renewed.\<close>

definition with_manifest_hash :: "pydict \<Rightarrow> pydict res" where
  "with_manifest_hash d =
     (let m = get d ''verifier_manifest'' in
      if is_dict m then ebind (manifest_hash (items m)) (\<lambda>mh.
        Inr (dset d ''verifier_manifest'' (PDict (dset (items m) ''manifest_hash'' (PStr mh)))))
      else Inr d)"

definition stamped :: "pydict \<Rightarrow> disposition \<Rightarrow> string list \<Rightarrow> verification_result \<Rightarrow> pydict res" where
  "stamped d verdict reasons r =
     ebind (with_manifest_hash
        (dset (dset (dset (dset (dset d ''schema'' (PStr CHANGESET_CERTIFICATION_SCHEMA))
           ''version'' (PInt CHANGESET_CERTIFICATION_VERSION))
           ''disposition'' (PStr (disposition_value verdict)))
           ''reasons'' (PList (map PStr (sorted_set reasons))))
           ''verification_result'' (project_verification_result r))) (\<lambda>e.
     ebind (payload_hash e) (\<lambda>ph. Inr (dset e ''canonical_payload_hash'' (PStr ph))))"

definition wire_result :: "pydict \<Rightarrow> string list \<Rightarrow> verification_result \<Rightarrow> wire_certification res" where
  "wire_result p reasons factual =
     (let verdict = certify_result (Obj factual) (effective_policy p reasons) in
      ebind (wire_copy (PDict p)) (\<lambda>v.
      ebind (stamped (items v) verdict reasons factual) (\<lambda>e.
        Inr \<lparr>wc_change_set = identity_of_envelope e, wc_status = verdict, wc_reason_codes = sorted_set reasons,
          wc_envelope = Some (PDict e), wc_verification_result = factual\<rparr>)))"

definition no_identity :: change_set_identity where
  "no_identity = \<lparr>wi_change_set_id = [], wi_source_revision = [], wi_target_revision = [], wi_diff_hash = []\<rparr>"

definition blocked_because :: "string \<Rightarrow> verification_result \<Rightarrow> wire_certification" where
  "blocked_because reason factual = \<lparr>wc_change_set = no_identity, wc_status = certify_result (Obj factual) no_policy,
     wc_reason_codes = [reason], wc_envelope = None, wc_verification_result = factual\<rparr>"

definition blocked :: "string \<Rightarrow> integrity_status \<Rightarrow> wire_certification res" where
  "blocked reason condition = ebind (unverifiable_because [reason] condition) (\<lambda>factual. Inr (blocked_because reason factual))"

definition zero_hash :: string where
  "zero_hash = ''sha256:'' @ replicate 64 (CHR ''0'')"

definition minimal_invalid :: "string \<Rightarrow> pydict res" where
  "minimal_invalid reason =
     ebind (reduced MISSING [] [reason]) (\<lambda>factual.
       let m = PStr ''missing'' in
       new_envelope (mkdict [(''task_id'', m), (''attempt_id'', m)]) (mkdict [(''repository'', m), (''source'', m)])
         (mkdict [(''commit'', m), (''tree'', m)]) (mkdict [(''hash'', PStr zero_hash), (''paths'', PList [m])])
         (mkdict [(''paths'', PList [m]), (''deletion_policy'', PStr ''FORBID'')]) PNone
         [mkdict [(''verifier_id'', m), (''artifact_id'', PStr ''missing:missing''), (''artifact_hash'', PStr zero_hash),
            (''status'', PStr ''FAIL'')]]
         (certify_result (Obj factual) no_policy) [reason])"

definition minimal :: "wire_certification \<Rightarrow> pydict res" where
  "minimal c =
     ebind (minimal_invalid (case wc_reason_codes c of [] \<Rightarrow> ''identity_missing'' | r # _ \<Rightarrow> r)) (\<lambda>p.
       let d = dset p ''verification_result'' (project_verification_result (wc_verification_result c)) in
       ebind (payload_hash d) (\<lambda>h. Inr (dset d ''canonical_payload_hash'' (PStr h))))"

definition certification_to_dict :: "wire_certification \<Rightarrow> pyval res" where
  "certification_to_dict c =
     (case wc_envelope c of Some e \<Rightarrow> wire_copy e | None \<Rightarrow> ebind (minimal c) (\<lambda>d. Inr (PDict d)))"

section \<open>Certifying a change set\<close>

definition candidate_binding_is_stale :: "pydict \<Rightarrow> bool" where
  "candidate_binding_is_stale p \<longleftrightarrow>
     (let part = (\<lambda>k. as_mapping (get p k)); m = part ''verifier_manifest'';
        same = (\<lambda>k a b. py_eq (get m k) (get (part a) b)) in
      list_all (\<lambda>k. part k \<noteq> []) [''task'', ''repository'', ''base'', ''diff'', ''candidate'', ''verifier_manifest''] \<and>
      (same ''task_id'' ''task'' ''task_id'' \<and> same ''attempt_id'' ''task'' ''attempt_id'' \<and>
       same ''repository'' ''repository'' ''repository'' \<and> same ''source'' ''repository'' ''source'' \<and>
       same ''base_commit'' ''base'' ''commit'' \<and> same ''base_tree'' ''base'' ''tree'' \<and>
       same ''diff_hash'' ''diff'' ''hash'' \<and> py_eq (get (part ''candidate'') ''diff_hash'') (get (part ''diff'') ''hash'')) \<and>
      (\<not> same ''candidate_commit'' ''candidate'' ''commit'' \<or> \<not> same ''candidate_tree'' ''candidate'' ''tree''))"

text \<open>The payload once the form of the envelope is in order.\<close>

definition certify_valid :: "pydict \<Rightarrow> wire_certification res" where
  "certify_valid p =
     ebind (derive_verification_result (PDict p) []) (\<lambda>verification.
     if vr_status verification = Some FAILED_VERIFICATION then wire_result p [''verifier_failed''] verification
     else ebind (hashes_match p) (\<lambda>ok.
       if \<not> ok then ebind (hash_errors p) (\<lambda>errs. ebind (unverifiable_because errs TAMPERED) (wire_result p errs))
       else if waiver_is_malformed p then wire_result p [''reason_invalid''] verification
       else if policy_reasons p \<noteq> [] then wire_result p (policy_reasons p) verification
       else wire_result p (missing_prerequisites p) verification))"

definition certify_copied :: "pydict \<Rightarrow> wire_certification res" where
  "certify_copied p =
     (if py_eq (get p ''schema'') (PStr LEGACY_CHANGESET_CERTIFICATION_SCHEMA) \<and>
         py_eq (get p ''version'') (PInt LEGACY_CHANGESET_CERTIFICATION_VERSION)
      then blocked ''legacy_v1_reverification_required'' LEGACY_NON_CERTIFIABLE
      else if has_key p ''change_set'' then blocked ''legacy_v1_reverification_required'' LEGACY_NON_CERTIFIABLE
      else if has_key p ''verification_result'' then
        ebind (wire_copy (PDict p)) (\<lambda>v.
        let sanitized = without_key (items v) ''verification_result'' in
        ebind (payload_hash sanitized) (\<lambda>h.
        let sealed = dset sanitized ''canonical_payload_hash'' (PStr h) in
        ebind (derive_verification_result (PDict sealed) []) (wire_result sealed [''unknown_field''])))
      else if \<not> list_all (has_key p) [''task'', ''repository'', ''base'', ''diff'']
      then ebind (derive_verification_result (PDict p) []) (wire_result p [''identity_missing''])
      else ebind (wire_validate p False) (\<lambda>errors.
        if errors = [''cross_binding_mismatch''] \<and> candidate_binding_is_stale p
        then ebind (unverifiable_because [''stale_changeset''] STALE) (wire_result p [''stale_changeset''])
        else if errors \<noteq> [] then ebind (derive_verification_result (PDict p) errors) (wire_result p errors)
        else certify_valid p))"

definition certify_changeset :: "pyval \<Rightarrow> wire_certification res" where
  "certify_changeset payload =
     (if \<not> is_dict payload then blocked ''identity_missing'' MISSING
      else if contains_nonfinite payload then blocked ''identity_malformed'' MISSING
      else (case wire_copy payload of
          Inl e \<Rightarrow> if type_or_value (fst e) then blocked ''identity_malformed'' MISSING else Inl e
        | Inr v \<Rightarrow> certify_copied (items v)))"

text \<open>\<open>build_changeset_certification\<close>: the convenience interface, which never certifies.  The loop over the
  evidence gives the verifiers of the manifest, or the reason to refuse.\<close>

fun evidence_verifiers :: "string list \<Rightarrow> pyval list \<Rightarrow> string + pyval list" where
  "evidence_verifiers ids [] = Inr []"
| "evidence_verifiers ids (v # vs) =
     (let f = get (items v); kind = f ''kind'' in
      if \<not> is_dict v \<or> \<not> texts_ok v [''evidence_id'', ''kind'', ''source''] \<or> \<not> sha_value (f ''content_hash'')
      then Inl ''verifier_artifact_malformed''
      else if List.member ids (str_of kind) then Inl ''verifier_duplicate''
      else (case evidence_verifiers (str_of kind # ids) vs of
          Inl reason \<Rightarrow> Inl reason
        | Inr rest \<Rightarrow> Inr (mkdict [(''verifier_id'', kind), (''artifact_id'', PStr (py_str kind @ '':attempt-1'')),
            (''artifact_hash'', f ''content_hash''), (''status'', PStr ''PASS'')] # rest)))"

definition convenience_request :: "pydict \<Rightarrow> pyval list \<Rightarrow> pydict res" where
  "convenience_request cs verifiers =
     (let source = PStr (py_str (get cs ''source_revision'')); target = PStr (py_str (get cs ''target_revision''));
        paths = PList [PStr (''changeset/'' @ py_str (get cs ''change_set_id''))] in
      ebind (reduced VALID [OBS_PASS] []) (\<lambda>passed.
        new_envelope (mkdict [(''task_id'', PStr (py_str (get cs ''change_set_id''))), (''attempt_id'', PStr ''attempt-1'')])
          (mkdict [(''repository'', PStr ''local''), (''source'', source)]) (mkdict [(''commit'', source), (''tree'', source)])
          (mkdict [(''hash'', get cs ''diff_hash''), (''paths'', paths)])
          (mkdict [(''paths'', paths), (''deletion_policy'', PStr ''FORBID'')])
          (mkdict [(''commit'', target), (''tree'', target), (''diff_hash'', get cs ''diff_hash'')])
          verifiers (certify_result (Obj passed) no_policy) [''policy_missing'']))"

definition build_changeset_certification :: "pyval \<Rightarrow> pyval \<Rightarrow> pyval res" where
  "build_changeset_certification change_set evidence =
     (let invalid = (\<lambda>reason. ebind (minimal_invalid reason) (\<lambda>d. Inr (PDict d))) in
      if \<not> is_dict change_set \<or> \<not> texts_ok change_set [''change_set_id'', ''source_revision'', ''target_revision''] \<or>
        \<not> sha_value (get (items change_set) ''diff_hash'') then invalid ''identity_missing''
      else if \<not> (is_list evidence \<or> is_tuple evidence) \<or> elems evidence = [] then invalid ''evidence_missing''
      else (case evidence_verifiers [] (elems evidence) of
          Inl reason \<Rightarrow> invalid reason
        | Inr verifiers \<Rightarrow>
            ebind (convenience_request (items change_set) verifiers) (\<lambda>request.
            ebind (certify_changeset (PDict request)) certification_to_dict)))"

section \<open>Validating a certification\<close>

definition expected_reasons :: "pydict \<Rightarrow> verification_result \<Rightarrow> string list" where
  "expected_reasons p verification =
     (if vr_status verification = Some FAILED_VERIFICATION then [''verifier_failed'']
      else if policy_reasons p \<noteq> [] then policy_reasons p
      else if missing_prerequisites p \<noteq> [] then missing_prerequisites p
      else if waiver_is_malformed p then [''reason_invalid'']
      else project_reasons verification)"

definition validate_claim :: "pydict \<Rightarrow> string list res" where
  "validate_claim p =
     (let actual = strs (get p ''reasons'');
        structural = filter (List.member actual) [''evidence_missing'', ''identity_malformed'', ''identity_missing'']
      in case structural of r # _ \<Rightarrow> Inr [r]
       | [] \<Rightarrow>
           ebind (derive_verification_result (PDict p) []) (\<lambda>verification.
           let claimed = get p ''verification_result'';
             status = disposition_value (certify_result (Obj verification) (effective_policy p actual)) in
           if claimed \<noteq> PNone \<and> \<not> py_eq claimed (project_verification_result verification) then Inr [''status_substitution'']
           else if \<not> py_eq (get p ''disposition'') (PStr status) \<or> actual \<noteq> expected_reasons p verification
           then Inr [''status_substitution'']
           else Inr []))"

definition validate_payload :: "pydict \<Rightarrow> string list res" where
  "validate_payload p =
     (if py_eq (get p ''schema'') (PStr CHANGESET_CERTIFICATION_SCHEMA) \<and>
         py_eq (get p ''version'') (PInt CHANGESET_CERTIFICATION_VERSION) \<and> \<not> has_key p ''verification_result''
      then Inr [''evidence_missing'']
      else or_else (wire_validate p True)
        (ebind (hashes_match p) (\<lambda>ok. if \<not> ok then hash_errors p else validate_claim p)))"

definition validate_changeset_certification :: "wire_certification + pyval \<Rightarrow> string list res" where
  "validate_changeset_certification certification =
     (case (case certification of Inl c \<Rightarrow> certification_to_dict c | Inr v \<Rightarrow> wire_copy v) of
        Inl e \<Rightarrow> if type_or_value (fst e) then Inr [''identity_malformed''] else Inl e
      | Inr v \<Rightarrow> if \<not> is_dict v then Inr [''identity_malformed''] else validate_payload (items v))"

end
