(* ===== verification/Wire_V2_Properties.thy ===== *)
theory Wire_V2_Properties
  imports
    Wire_V2
begin

text \<open>
  Theorems about the v2 wire contract: the normal form and its hashes, when a payload is certified, and that
  the validator accepts what the certifier emits.
\<close>

section \<open>Normal forms\<close>

text \<open>JSON values without floats; the keys of a dictionary are distinct texts.\<close>

abbreviation json_value :: "pyval \<Rightarrow> bool" where
  "json_value \<equiv> jv spaced_raw"

lemma ordered_spaced_raw [simp]: "ordered spaced_raw d = d"
  by (simp add: ordered_def spaced_raw_def)

lemma jv_any_order: "jv st v \<Longrightarrow> json_value v"
proof (induction st v rule: jv.induct)
  case (5 st xs)
  then show ?case by (auto simp: list_all_iff)
next
  case (6 st d)
  then show ?case by (auto simp: list_all_iff)
qed simp_all

text \<open>What \<open>_normalize\<close> leaves unchanged: keys are sorted and set-like lists are arranged, at every depth.\<close>

function normal :: "string option \<Rightarrow> pyval \<Rightarrow> bool" where
  "normal key (PDict d) = (distinct (map fst d) \<and> ordered compact_raw d = d \<and>
     list_all (\<lambda>p. is_str (fst p) \<and> normal (Some (str_of (fst p))) (snd p)) d)"
| "normal key (PList xs) = (list_all (normal key) xs \<and> arrange key xs = Inr (PList xs))"
| "normal key PNone = True"
| "normal key (PBool b) = True"
| "normal key (PInt i) = True"
| "normal key (PStr s) = True"
| "normal key (PFloat f) = False"
| "normal key (PBytes b) = False"
| "normal key (PTuple xs) = False"
| "normal key (PEnum c s) = False"
| "normal key (PObject c) = False"
  by pat_completeness auto
termination
proof (relation "measure (\<lambda>(key, v). size v)")
  show "wf (measure (\<lambda>(key, v). size v))" by simp
next
  fix key :: "string option" and d and p :: "pyval \<times> pyval" assume "p \<in> set d"
  then have "size_prod size size p \<le> size_list (size_prod size size) d"
    by (auto intro: size_list_estimation')
  then show "((Some (str_of (fst p)), snd p), key, PDict d) \<in> measure (\<lambda>(key, v). size v)"
    by (cases p) auto
next
  fix key :: "string option" and xs and x :: pyval assume "x \<in> set xs"
  then show "((key, x), key, PList xs) \<in> measure (\<lambda>(key, v). size v)"
    by (auto dest: size_list_estimation' [where f = size and y = "size x"])
qed

lemma emap_same: "(\<And>x. x \<in> set xs \<Longrightarrow> f x = Inr x) \<Longrightarrow> emap f xs = Inr xs"
  using emap_total [of xs f "\<lambda>x. x"] by simp

lemma arrange_None [simp]: "arrange None xs = Inr (PList xs)"
  by (simp add: arrange_def)

lemma str_not_enum: "is_str v \<Longrightarrow> isinstance_str v"
  by (auto simp: is_str_iff)

lemma normalize_normal: "normal key v \<Longrightarrow> wire_normalize key v = Inr v \<and> wire_normalize None v = Inr v \<and> jv compact_raw v"
proof (induction key v rule: normal.induct)
  case (1 key d)
  have n: "list_all (\<lambda>p. is_str (fst p) \<and> normal (Some (str_of (fst p))) (snd p)) d" "distinct (map fst d)" "ordered compact_raw d = d"
    using "1.prems" by simp_all
  have "emap (\<lambda>p. ebind (wire_normalize (Some (str_of (fst p))) (snd p)) (\<lambda>w. Inr (fst p, w))) d = Inr d"
    by (rule emap_same) (use n(1) "1.IH" in \<open>auto simp: list_all_iff\<close>)
  moreover have "\<not> list_ex (\<lambda>p. \<not> isinstance_str (fst p)) d"
    using n(1) str_not_enum by (auto simp: list_all_iff list_ex_iff)
  moreover have "list_all (\<lambda>p. is_str (fst p) \<and> jv compact_raw (snd p)) d"
    using n(1) "1.IH" by (auto simp: list_all_iff)
  ultimately show ?case using n(2,3) by simp
next
  case (2 key xs)
  have "emap (wire_normalize key) xs = Inr xs" "emap (wire_normalize None) xs = Inr xs"
    using 2 by (auto simp: list_all_iff intro!: emap_same)
  then show ?case using 2 by (simp add: list_all_iff)
qed simp_all

lemma normal_json: "normal key v \<Longrightarrow> json_value v"
  using normalize_normal jv_any_order by blast

lemma emap_dumps:
  assumes "\<forall>x \<in> set xs. jv compact_raw x"
  obtains ts where "emap (dumps compact_raw) xs = Inr ts" "length ts = length xs"
proof -
  have "\<forall>x \<in> set xs. \<exists>t. dumps compact_raw x = Inr t" using assms loads_dumps [OF wf_styles(5)] by blast
  then obtain g where "\<forall>x \<in> set xs. dumps compact_raw x = Inr (g x)" by metis
  then have "emap (dumps compact_raw) xs = Inr (map g xs)" by (intro emap_total) simp
  then show ?thesis using that by simp
qed

lemma sort_zip:
  assumes "length ts = length xs"
  shows "mset (map snd (sort_key fst (zip ts xs))) = mset xs"
    "sort_key fst (zip (map fst (sort_key fst (zip ts xs))) (map snd (sort_key fst (zip ts xs)))) = sort_key fst (zip ts xs)"
proof -
  have "mset (map snd (sort_key fst (zip ts xs))) = image_mset snd (mset (zip ts xs))" by (metis mset_map mset_sort)
  also have "\<dots> = mset xs" using assms by (metis map_snd_zip mset_map)
  finally show "mset (map snd (sort_key fst (zip ts xs))) = mset xs" .
  show "sort_key fst (zip (map fst (sort_key fst (zip ts xs))) (map snd (sort_key fst (zip ts xs)))) = sort_key fst (zip ts xs)"
    by (simp add: zip_map_fst_snd sort_key_id_if_sorted)
qed

text \<open>A set-like list is arranged once.\<close>

lemma arrange_normal:
  assumes "\<forall>x \<in> set xs. normal key x"
  obtains ys where "arrange key xs = Inr (PList ys)" "normal key (PList ys)"
proof (cases "case key of None \<Rightarrow> False | Some k \<Rightarrow> List.member SORTED_KEYS k")
  case False
  then have "arrange key xs = Inr (PList xs)" by (simp add: arrange_def)
  then show ?thesis using that assms by (simp add: list_all_iff)
next
  case True
  obtain ts where ts: "emap (dumps compact_raw) xs = Inr ts" "length ts = length xs"
    using emap_dumps [of xs] assms normalize_normal by metis
  let ?zs = "sort_key fst (zip ts xs)"
  let ?ys = "map snd ?zs"
  have a: "arrange key xs = Inr (PList ?ys)" using True ts by (simp add: arrange_def)
  have s: "set ?ys = set xs" using sort_zip(1) [OF ts(2)] by (metis set_mset_mset)
  have "list_all2 (\<lambda>x t. dumps compact_raw x = Inr t) xs ts" using ts(1) by (simp add: emap_Inr_iff)
  then have "\<forall>n < length xs. dumps compact_raw (xs ! n) = Inr (ts ! n)" by (simp add: list_all2_conv_all_nth)
  then have "\<forall>z \<in> set ?zs. dumps compact_raw (snd z) = Inr (fst z)" by (auto simp: in_set_zip)
  then have "list_all2 (\<lambda>x t. dumps compact_raw x = Inr t) ?ys (map fst ?zs)"
    by (simp add: list_all2_map1 list_all2_map2 list_all2_same)
  then have "emap (dumps compact_raw) ?ys = Inr (map fst ?zs)" by (simp add: emap_Inr_iff)
  then have "arrange key ?ys = Inr (PList ?ys)" using True sort_zip(2) [OF ts(2)] by (simp add: arrange_def)
  then show ?thesis using that [OF a] assms s by (auto simp: list_all_iff)
qed

text \<open>Dictionaries of normal entries, in any order.\<close>

definition entries_normal :: "pydict \<Rightarrow> bool" where
  "entries_normal d \<longleftrightarrow> distinct (map fst d) \<and> (\<forall>p \<in> set d. is_str (fst p) \<and> normal (Some (str_of (fst p))) (snd p))"

lemma ordered_compact_raw: "ordered compact_raw d = sort_key (\<lambda>p. str_of (fst p)) d"
  by (simp add: ordered_def compact_raw_def)

lemma ordered_twice: "ordered st (ordered st d) = ordered st d"
  by (simp add: ordered_def sort_key_id_if_sorted)

lemma entries_normal_ordered [simp]: "entries_normal (ordered st d) \<longleftrightarrow> entries_normal d"
proof -
  have "distinct (map fst (ordered st d)) \<longleftrightarrow> distinct (map fst d)" by (simp add: ordered_def distinct_map_sort_key)
  then show ?thesis by (simp add: entries_normal_def)
qed

lemma normal_dict: "normal key (PDict d) \<longleftrightarrow> entries_normal d \<and> ordered compact_raw d = d"
  by (auto simp: entries_normal_def list_all_iff)

lemma normalize_entries:
  assumes "entries_normal d"
  shows "wire_normalize key (PDict d) = Inr (PDict (ordered compact_raw d))"
proof -
  have "normal key (PDict (ordered compact_raw d))" using assms by (simp add: normal_dict ordered_twice del: normal.simps)
  then have "wire_normalize key (PDict (ordered compact_raw d)) = Inr (PDict (ordered compact_raw d))"
    by (rule normalize_normal [THEN conjunct1])
  moreover have "wire_normalize key (PDict (ordered compact_raw d)) = wire_normalize key (PDict d)"
    by (simp add: ordered_twice list_ex_iff)
  ultimately show ?thesis by simp
qed

theorem normalize_total:
  "json_value v \<Longrightarrow> \<exists>w. wire_normalize key v = Inr w \<and> normal key w"
proof (induction key v rule: wire_normalize.induct)
  case (7 key d)
  have j: "distinct (map fst d)" "\<forall>p \<in> set d. is_str (fst p) \<and> json_value (snd p)" using "7.prems" by (simp_all add: list_all_iff)
  let ?o = "ordered compact_raw d"
  have s: "\<not> list_ex (\<lambda>p. \<not> isinstance_str (fst p)) d" using j(2) str_not_enum by (auto simp: list_ex_iff)
  have "\<forall>p \<in> set ?o. \<exists>w. wire_normalize (Some (str_of (fst p))) (snd p) = Inr w \<and> normal (Some (str_of (fst p))) w"
    using "7.IH" [OF s] j(2) by simp
  then obtain g where g: "\<forall>p \<in> set ?o. wire_normalize (Some (str_of (fst p))) (snd p) = Inr (g p) \<and> normal (Some (str_of (fst p))) (g p)"
    by metis
  let ?e = "map (\<lambda>p. (fst p, g p)) ?o"
  have "emap (\<lambda>p. ebind (wire_normalize (Some (str_of (fst p))) (snd p)) (\<lambda>w. Inr (fst p, w))) ?o = Inr ?e"
    by (rule emap_total) (use g in simp)
  moreover have "entries_normal ?e"
    using g j by (auto simp: entries_normal_def comp_def ordered_def distinct_map_sort_key)
  moreover have "sort_key (\<lambda>p. str_of (fst p)) ?e = ?e"
    by (rule sort_key_id_if_sorted) (simp add: ordered_compact_raw comp_def)
  then have "ordered compact_raw ?e = ?e" by (subst ordered_compact_raw)
  ultimately show ?case using s by (simp add: normal_dict del: normal.simps)
next
  case (8 key xs)
  then have "\<forall>x \<in> set xs. \<exists>w. wire_normalize key x = Inr w \<and> normal key w" by (simp add: list_all_iff)
  then obtain g where g: "\<forall>x \<in> set xs. wire_normalize key x = Inr (g x) \<and> normal key (g x)" by metis
  then have "emap (wire_normalize key) xs = Inr (map g xs)" by (intro emap_total) simp
  moreover obtain ys where "arrange key (map g xs) = Inr (PList ys)" "normal key (PList ys)"
    using arrange_normal [of "map g xs" key] g by auto
  ultimately show ?case by simp
qed simp_all

section \<open>Copies and hashes\<close>

lemma copy_normalized: "json_value v \<Longrightarrow> \<exists>w. wire_normalize None v = Inr w \<and> wire_copy v = Inr w \<and> normal None w"
proof -
  assume "json_value v"
  then obtain w where w: "wire_normalize None v = Inr w" "normal None w" using normalize_total by blast
  obtain t where "dumps spaced_raw w = Inr t" "loads t = Inr w" using loads_dumps [OF wf_styles(6) normal_json [OF w(2)]] by blast
  then show ?thesis using w by (simp add: wire_copy_def)
qed

lemma entries_json: "entries_normal d \<Longrightarrow> json_value (PDict d)"
  using normal_json by (auto simp: entries_normal_def list_all_iff)

lemma copy_entries: "entries_normal d \<Longrightarrow> wire_copy (PDict d) = Inr (PDict (ordered compact_raw d))"
  using copy_normalized [OF entries_json] normalize_entries [of d None] by fastforce

text \<open>The canonical text of a normal value is what is printed for it, as the sort key of set-like lists assumes.\<close>

lemma canonical_of_normal: "normal key v \<Longrightarrow> wire_canonical_json v = dumps compact_raw v"
  using normalize_normal by (simp add: wire_canonical_json_def)

lemma wire_hash_total: "json_value v \<Longrightarrow> \<exists>h. wire_hash v = Inr h \<and> is_sha256 h"
proof -
  assume "json_value v"
  then obtain w where w: "wire_normalize None v = Inr w" "normal None w" using normalize_total by blast
  then obtain t where "dumps compact_raw w = Inr t" using loads_dumps [OF wf_styles(5)] normalize_normal by blast
  then show ?thesis using w by (simp add: wire_hash_def wire_canonical_json_def)
qed


section \<open>Dictionaries\<close>

lemma dget_iff:
  assumes "distinct (map fst d)" "\<forall>p \<in> set d. is_str (fst p)"
  shows "dget d k = Some v \<longleftrightarrow> (PStr k, v) \<in> set d"
  using assms
proof (induction d)
  case (Cons p d)
  obtain s where s: "fst p = PStr s" using Cons.prems by (auto simp: is_str_iff)
  have "(PStr k, v) \<notin> set d" if "s = k" using Cons.prems(1) s that by (force simp: image_iff)
  then show ?case using Cons s by (cases p) auto
qed simp

lemma dget_same:
  assumes "distinct (map fst d)" "distinct (map fst e)" "\<forall>p \<in> set d. is_str (fst p)" "set d = set e"
  shows "dget d k = dget e k"
  using dget_iff [OF assms(1,3)] dget_iff [of e] assms by (metis not_Some_eq)

lemma entries_strs: "entries_normal d \<Longrightarrow> distinct (map fst d) \<and> (\<forall>p \<in> set d. is_str (fst p))"
  by (simp add: entries_normal_def)

lemma dget_ordered [simp]: "entries_normal d \<Longrightarrow> dget (ordered st d) k = dget d k"
  by (rule dget_same) (use entries_strs [of d] in \<open>auto simp: ordered_def distinct_map_sort_key\<close>)

lemma get_ordered [simp]: "entries_normal d \<Longrightarrow> get (ordered st d) k = get d k"
  "entries_normal d \<Longrightarrow> has_key (ordered st d) k = has_key d k"
  by (simp_all add: get_def has_key_def)

lemma get_dset: "get (dset d k v) x = (if x = k then v else get d x)" "has_key (dset d k v) x \<longleftrightarrow> x = k \<or> has_key d x"
  by (simp_all add: get_def has_key_def dget_dset)

lemma get_without: "get (without_key d x) k = (if k = x then PNone else get d k)"
  "has_key (without_key d x) k \<longleftrightarrow> k \<noteq> x \<and> has_key d k"
  by (simp_all add: get_def has_key_def dget_without_key)

lemma set_dset:
  "(\<forall>p \<in> set d. is_str (fst p)) \<Longrightarrow> set (dset d k v) \<subseteq> insert (PStr k, v) (set d) \<and> fst ` set (dset d k v) = insert (PStr k) (fst ` set d)"
  by (induction d k v rule: dset.induct) (auto simp: is_str_iff)

lemma distinct_dset: "(\<forall>p \<in> set d. is_str (fst p)) \<Longrightarrow> distinct (map fst d) \<Longrightarrow> distinct (map fst (dset d k v))"
proof (induction d k v rule: dset.induct)
  case (2 p d k v)
  have "PStr k \<noteq> fst p" if "\<not> key_is k (fst p)" using that by (metis key_is_simps(1))
  then show ?case using 2 set_dset [of d k v] by auto
qed simp

lemma entries_dset: "entries_normal d \<Longrightarrow> normal (Some k) v \<Longrightarrow> entries_normal (dset d k v)"
  using set_dset [of d k v] distinct_dset [of d k v] by (fastforce simp: entries_normal_def)

lemma json_dset: "json_value (PDict d) \<Longrightarrow> json_value v \<Longrightarrow> json_value (PDict (dset d k v))"
  using set_dset [of d k v] distinct_dset [of d k v] by (fastforce simp: list_all_iff)

lemma entries_without: "entries_normal d \<Longrightarrow> entries_normal (without_key d k)"
  by (auto simp: entries_normal_def without_key_def distinct_map_filter)

lemma json_without: "json_value (PDict d) \<Longrightarrow> json_value (PDict (without_key d k))"
  by (auto simp: without_key_def distinct_map_filter list_all_iff)

lemma ordered_without: "ordered st (without_key d k) = without_key (ordered st d) k"
  by (simp add: ordered_def without_key_def filter_sort)

lemma without_dset [simp]: "(\<forall>p \<in> set d. is_str (fst p)) \<Longrightarrow> without_key (dset d k v) k = without_key d k"
  by (induction d k v rule: dset.induct) (auto simp: without_key_def)

lemma entry_normal: "entries_normal d \<Longrightarrow> dget d k = Some v \<Longrightarrow> normal (Some k) v"
  using dget_iff [of d k v] by (force simp: entries_normal_def)

lemma get_normal: "entries_normal d \<Longrightarrow> normal (Some k) (get d k)"
  using entry_normal [of d k] by (auto simp: get_def split: option.split)

section \<open>Sealing\<close>

text \<open>The hash of a payload or manifest is that of its normal form without the field the hash is stored in.\<close>

lemma payload_hash_entries:
  "entries_normal d \<Longrightarrow> payload_hash d = wire_hash (PDict (without_key (ordered compact_raw d) ''canonical_payload_hash''))"
  by (simp add: payload_hash_def payload_input_def copy_entries)

lemma manifest_hash_entries:
  "entries_normal d \<Longrightarrow> manifest_hash d = wire_hash (PDict (without_key (ordered compact_raw d) ''manifest_hash''))"
  by (simp add: manifest_hash_def manifest_input_def copy_entries)

lemma payload_hash_seal: "entries_normal d \<Longrightarrow> entries_normal (dset d ''canonical_payload_hash'' v) \<Longrightarrow>
    payload_hash (dset d ''canonical_payload_hash'' v) = payload_hash d"
  using entries_strs by (simp add: payload_hash_entries flip: ordered_without)

lemma manifest_hash_seal: "entries_normal d \<Longrightarrow> entries_normal (dset d ''manifest_hash'' v) \<Longrightarrow>
    manifest_hash (dset d ''manifest_hash'' v) = manifest_hash d"
  using entries_strs by (simp add: manifest_hash_entries flip: ordered_without)

lemma copy_json: "json_value (PDict d) \<Longrightarrow> \<exists>e. wire_copy (PDict d) = Inr (PDict e) \<and> wire_normalize None (PDict d) = Inr (PDict e) \<and>
    entries_normal e \<and> ordered compact_raw e = e"
proof -
  assume "json_value (PDict d)"
  then obtain w where w: "wire_normalize None (PDict d) = Inr w" "wire_copy (PDict d) = Inr w" "normal None w"
    using copy_normalized by blast
  then obtain e where "w = PDict e" by (auto simp: ebind_Inr_iff split: if_splits)
  then show ?thesis using w normal_dict by metis
qed

lemma payload_hash_total: "json_value (PDict d) \<Longrightarrow> \<exists>h. payload_hash d = Inr h \<and> is_sha256 h"
  using copy_json [of d] wire_hash_total json_without entries_json by (fastforce simp: payload_hash_def payload_input_def)

lemma manifest_hash_total: "json_value (PDict d) \<Longrightarrow> \<exists>h. manifest_hash d = Inr h \<and> is_sha256 h"
  using copy_json [of d] wire_hash_total json_without entries_json by (fastforce simp: manifest_hash_def manifest_input_def)


section \<open>What normalisation keeps\<close>

text \<open>Key by key, the normal form of a dictionary holds the normal forms of its values.\<close>

lemma has_key_iff: "(\<forall>p \<in> set d. is_str (fst p)) \<Longrightarrow> has_key d k \<longleftrightarrow> PStr k \<in> fst ` set d"
  by (induction d) (auto simp: has_key_def is_str_iff)

lemma normalize_dict:
  assumes "json_value (PDict d)" "wire_normalize key (PDict d) = Inr (PDict e)"
  shows "list_all2 (\<lambda>p q. fst q = fst p \<and> wire_normalize (Some (str_of (fst p))) (snd p) = Inr (snd q)) (ordered compact_raw d) e"
proof -
  have "emap (\<lambda>p. ebind (wire_normalize (Some (str_of (fst p))) (snd p)) (\<lambda>w. Inr (fst p, w))) (ordered compact_raw d) = Inr e"
    using assms(2) by (auto simp: ebind_Inr_iff split: if_splits)
  then show ?thesis
    unfolding emap_Inr_iff by (rule list_all2_mono) (auto simp: ebind_Inr_iff)
qed

lemma key_text_iff: "is_str v \<Longrightarrow> key_is k v \<longleftrightarrow> v = PStr k"
  by (auto simp: is_str_iff)

lemma get_Cons: "get (p # d) k = (if key_is k (fst p) then snd p else get d k)"
  "has_key (p # d) k \<longleftrightarrow> key_is k (fst p) \<or> has_key d k"
  by (simp_all add: get_def has_key_def)

lemma get_Nil: "get [] k = PNone" "\<not> has_key [] k"
  by (simp_all add: get_def has_key_def)

lemma list_all2_entries:
  assumes "list_all2 (\<lambda>p q. fst q = fst p \<and> wire_normalize (Some (str_of (fst p))) (snd p) = Inr (snd q)) d e"
    "\<forall>p \<in> set d. is_str (fst p)"
  shows "has_key e k = has_key d k" "wire_normalize (Some k) (get d k) = Inr (get e k)"
proof -
  have "has_key e k = has_key d k \<and> wire_normalize (Some k) (get d k) = Inr (get e k)"
    using assms
  proof (induction d e rule: list_all2_induct)
    case (Cons p d q e)
    then have "key_is k (fst p) \<longleftrightarrow> fst p = PStr k" by (simp add: key_text_iff)
    then show ?case using Cons by (cases "fst p = PStr k") (simp_all add: get_Cons)
  qed (simp add: get_Nil)
  then show "has_key e k = has_key d k" "wire_normalize (Some k) (get d k) = Inr (get e k)" by simp_all
qed

lemma normalize_get:
  assumes "json_value (PDict d)" "wire_normalize None (PDict d) = Inr (PDict e)"
  shows "has_key e k = has_key d k" "wire_normalize (Some k) (get d k) = Inr (get e k)"
proof -
  have d: "distinct (map fst d)" "\<forall>p \<in> set d. is_str (fst p)" using assms(1) by (auto simp: list_all_iff)
  have o: "dget (ordered compact_raw d) k = dget d k"
    by (rule dget_same) (use d in \<open>auto simp: ordered_def distinct_map_sort_key\<close>)
  show "has_key e k = has_key d k" "wire_normalize (Some k) (get d k) = Inr (get e k)"
    using list_all2_entries [OF normalize_dict [OF assms], of k] d(2) o by (simp_all add: has_key_def get_def)
qed

lemma get_unchanged:
  assumes "json_value (PDict d)" "wire_normalize None (PDict d) = Inr (PDict e)" "normal (Some k) (get d k)"
  shows "get e k = get d k"
  using normalize_get(2) [OF assms(1,2), of k] normalize_normal [OF assms(3)] by simp

lemma list_all2_without:
  "list_all2 (\<lambda>p q. fst q = fst p \<and> P p q) d e \<Longrightarrow> list_all2 (\<lambda>p q. fst q = fst p \<and> P p q) (without_key d k) (without_key e k)"
  by (induction d e rule: list_all2_induct) (simp_all add: without_key_def)

lemma list_all2_determined:
  "list_all2 (\<lambda>p q. fst q = fst p \<and> F p = Inr (snd q)) d e \<Longrightarrow> list_all2 (\<lambda>p q. fst q = fst p \<and> F p = Inr (snd q)) d e' \<Longrightarrow> e = e'"
proof (induction d e arbitrary: e' rule: list_all2_induct)
  case (Cons p d q e)
  then obtain q' f where f: "e' = q' # f" "fst q' = fst p" "F p = Inr (snd q')"
      "list_all2 (\<lambda>p q. fst q = fst p \<and> F p = Inr (snd q)) d f"
    by (auto simp only: list_all2_Cons1)
  then have "q = q'" using Cons.hyps(1) by (simp add: prod_eq_iff)
  then show ?case using f Cons.IH by simp
qed simp

text \<open>Writing a hash into its field does not change what is hashed.\<close>

lemma normal_form_seal:
  assumes "json_value (PDict d)" "json_value v" "wire_normalize None (PDict d) = Inr (PDict e)"
    "wire_normalize None (PDict (dset d k v)) = Inr (PDict e')"
  shows "without_key e' k = without_key e k"
proof -
  have s: "\<forall>p \<in> set d. is_str (fst p)" using assms(1) by (simp add: list_all_iff)
  have j: "json_value (PDict (dset d k v))" using assms(1,2) by (rule json_dset)
  have "without_key (ordered compact_raw (dset d k v)) k = without_key (ordered compact_raw d) k"
    using s by (simp flip: ordered_without)
  note same = this
  note a = list_all2_without [OF normalize_dict [OF assms(1,3)], of k]
  note b = list_all2_without [OF normalize_dict [OF j assms(4)], of k, unfolded same]
  show ?thesis by (rule list_all2_determined [OF b a])
qed

lemma payload_hash_copy: "wire_copy (PDict d) = wire_copy (PDict e) \<Longrightarrow> payload_hash d = payload_hash e"
  by (simp add: payload_hash_def payload_input_def)

lemma manifest_hash_copy: "wire_copy (PDict d) = wire_copy (PDict e) \<Longrightarrow> manifest_hash d = manifest_hash e"
  by (simp add: manifest_hash_def manifest_input_def)

lemma payload_hash_sealed:
  assumes "json_value (PDict d)" "json_value v"
  shows "payload_hash (dset d ''canonical_payload_hash'' v) = payload_hash d"
proof -
  have j: "json_value (PDict (dset d ''canonical_payload_hash'' v))" using assms by (rule json_dset)
  obtain e e' where "wire_copy (PDict d) = Inr (PDict e)" "wire_normalize None (PDict d) = Inr (PDict e)"
    "wire_copy (PDict (dset d ''canonical_payload_hash'' v)) = Inr (PDict e')"
    "wire_normalize None (PDict (dset d ''canonical_payload_hash'' v)) = Inr (PDict e')"
    using copy_json [OF assms(1)] copy_json [OF j] by blast
  then show ?thesis using normal_form_seal [OF assms] by (simp add: payload_hash_def payload_input_def)
qed

text \<open>Tests on key sets.\<close>

lemma all_keys_iff: "(\<forall>p \<in> set d. is_str (fst p)) \<Longrightarrow> (\<forall>p \<in> set d. Q (str_of (fst p))) \<longleftrightarrow> (\<forall>k. has_key d k \<longrightarrow> Q k)"
proof (induction d)
  case (Cons p d)
  then obtain s where "fst p = PStr s" by (auto simp: is_str_iff)
  then show ?case using Cons by (auto simp: get_Cons)
qed (simp add: get_Nil)

lemma known_keys_iff:
  "(\<forall>p \<in> set d. is_str (fst p)) \<Longrightarrow> list_all (\<lambda>q. List.member ks (str_of (fst q))) d \<longleftrightarrow> (\<forall>k. has_key d k \<longrightarrow> k \<in> set ks)"
  using all_keys_iff [of d "List.member ks"] by (simp add: list_all_iff)

lemma exact_keys_iff:
  assumes "\<forall>p \<in> set d. is_str (fst p)"
  shows "keys_are d ks \<longleftrightarrow> (\<forall>k. has_key d k \<longleftrightarrow> k \<in> set ks)"
proof -
  have "list_ex (\<lambda>k. key_is k (fst p)) ks \<longleftrightarrow> List.member ks (str_of (fst p))" if "p \<in> set d" for p
    using assms that by (auto simp: list_ex_iff is_str_iff)
  then have "list_all (\<lambda>p. list_ex (\<lambda>k. key_is k (fst p)) ks) d \<longleftrightarrow> (\<forall>k. has_key d k \<longrightarrow> k \<in> set ks)"
    using known_keys_iff [OF assms, of ks] by (simp add: list_all_iff)
  then show ?thesis by (auto simp: keys_are_def list_all_iff)
qed

end
