(* ===== verification/Wire_V2_Claims.thy ===== *)
theory Wire_V2_Claims
  imports
    Wire_V2_Properties
begin

text \<open>
  The properties of the v2 wire contract: when a payload is certified, and what the validator says of a certification.
\<close>

section \<open>Facts about verifiers\<close>

definition passed :: verification_result where
  "passed = mk_result VERIFIED [] VALID"

definition failed :: verification_result where
  "failed = mk_result FAILED_VERIFICATION [''VERIFIER_FAILED'', ''verifier_failed''] VALID"

lemma reduced_pass: "reduce_verification (Some VALID) (PTuple [OBS_PASS]) (PTuple []) = Inr passed"
  using reduce_pass [of "[OBS_PASS]"] by (simp add: passed_def)

lemma reduced_fail: "reduce_verification (Some VALID) (PTuple [OBS_FAIL]) (PTuple [PStr ''verifier_failed'']) = Inr failed"
proof -
  have "failure_codes [''verifier_failed''] = [''VERIFIER_FAILED'', ''verifier_failed'']" by (simp add: failure_codes_def) code_simp
  moreover have "code_ok ''verifier_failed''" by (simp add: code_ok_def strip_def is_space_def)
  ultimately show ?thesis
    using reduce_fail [of "[OBS_FAIL]" "[''verifier_failed'']"] by (simp add: failed_def codes_fit_def is_observation_status_def)
qed

lemma reduced_verified: "reduced c obs rs = Inr v \<Longrightarrow> vr_status v = Some VERIFIED \<Longrightarrow> c = VALID"
  by (rule ccontr) (auto simp: reduce_verification_def reduce_choice_def Let_def eseq_Inr_iff ebind_Inr_iff split: if_splits)

lemma any_failed_iff: "any_failed vs = Inr False \<longleftrightarrow> (\<forall>v \<in> set vs. is_dict v \<and> \<not> py_eq (get (items v) ''status'') (PStr ''FAIL''))"
  by (induction vs) auto

text \<open>Both hashes are right, the manifest lists verifiers, all objects, and none has the status \<open>FAIL\<close>.  (A verifier
  without a status does not fail.)\<close>

definition verifiers_of :: "pydict \<Rightarrow> pyval" where
  "verifiers_of p = get (items (get p ''verifier_manifest'')) ''verifiers''"

definition no_verifier_fails :: "pydict \<Rightarrow> bool" where
  "no_verifier_fails p \<longleftrightarrow> is_dict (get p ''verifier_manifest'') \<and> hashes_match p = Inr True \<and>
     is_list (verifiers_of p) \<and> elems (verifiers_of p) \<noteq> [] \<and>
     (\<forall>v \<in> set (elems (verifiers_of p)). is_dict v \<and> \<not> py_eq (get (items v) ''status'') (PStr ''FAIL''))"

lemma derive_verified_only:
  assumes d: "derive_verification_result (PDict p) [] = Inr v" and v: "vr_status v = Some VERIFIED"
  shows "no_verifier_fails p"
proof -
  have f: "vr_status failed \<noteq> Some VERIFIED" by (simp add: failed_def mk_result_def)
  note unfolded = d [unfolded derive_verification_result_def, simplified]
  have m: "is_dict (get p ''verifier_manifest'')"
  proof (rule ccontr)
    assume "\<not> is_dict (get p ''verifier_manifest'')"
    then have "reduced MISSING [] [''evidence_missing''] = Inr v" using unfolded by (simp add: Let_def)
    from reduced_verified [OF this v] show False by simp
  qed
  obtain b where b: "hashes_match p = Inr b" using unfolded m by (auto simp: Let_def ebind_Inr_iff)
  have b: "hashes_match p = Inr True"
  proof (cases b)
    case False
    then obtain es where "reduced TAMPERED [] es = Inr v" using unfolded m b by (auto simp: Let_def ebind_Inr_iff)
    from reduced_verified [OF this v] show ?thesis by simp
  qed (use b in simp)
  have l: "is_list (verifiers_of p) \<and> elems (verifiers_of p) \<noteq> []"
  proof (rule ccontr)
    assume "\<not> (is_list (verifiers_of p) \<and> elems (verifiers_of p) \<noteq> [])"
    then have "reduced MISSING [] [''verifier_missing''] = Inr v" using unfolded m b by (simp add: Let_def verifiers_of_def)
    from reduced_verified [OF this v] show False by simp
  qed
  obtain a where a: "any_failed (elems (verifiers_of p)) = Inr a"
    using unfolded m b l by (auto simp: Let_def verifiers_of_def ebind_Inr_iff)
  have "any_failed (elems (verifiers_of p)) = Inr False"
  proof (cases a)
    case True
    then have "v = failed" using unfolded m b l a by (simp add: Let_def verifiers_of_def reduced_fail)
    then show ?thesis using f v by simp
  qed (use a in simp)
  then show ?thesis using m b l any_failed_iff [of "elems (verifiers_of p)"] by (simp add: no_verifier_fails_def)
qed

lemma derive_verified:
  "(\<exists>v. derive_verification_result (PDict p) errors = Inr v \<and> vr_status v = Some VERIFIED) \<longleftrightarrow> errors = [] \<and> no_verifier_fails p"
  "no_verifier_fails p \<Longrightarrow> derive_verification_result (PDict p) [] = Inr passed"
proof -
  show d: "derive_verification_result (PDict p) [] = Inr passed" if "no_verifier_fails p"
    using that any_failed_iff [of "elems (verifiers_of p)"]
    by (simp add: derive_verification_result_def no_verifier_fails_def verifiers_of_def Let_def reduced_pass)
  have "vr_status passed = Some VERIFIED" by (simp add: passed_def mk_result_def)
  moreover have "errors = [] \<and> no_verifier_fails p" if v: "derive_verification_result (PDict p) errors = Inr v" "vr_status v = Some VERIFIED" for v
  proof -
    have ne: "condition_for_errors errors \<noteq> VALID" by (simp add: condition_for_errors_def Let_def)
    have e: "errors = []"
    proof (rule ccontr)
      assume "errors \<noteq> []"
      then have "reduced (if List.member errors ''scope_escape'' then SCOPE_ESCAPE else condition_for_errors errors) []
          (if List.member errors ''scope_escape'' then [''scope_escape''] else sorted_set errors) = Inr v"
        using v(1) by (simp add: derive_verification_result_def split: if_splits)
      from reduced_verified [OF this v(2)] show False using ne by (simp split: if_splits)
    qed
    have d: "derive_verification_result (PDict p) [] = Inr v" using v(1) e by simp
    then show ?thesis using derive_verified_only v(2) e by blast
  qed
  ultimately show "(\<exists>v. derive_verification_result (PDict p) errors = Inr v \<and> vr_status v = Some VERIFIED) \<longleftrightarrow> errors = [] \<and> no_verifier_fails p"
    using d by auto
qed

section \<open>Policy\<close>

text \<open>The policy of a payload allows a certificate: \<open>{"allowed": True}\<close>, all three prerequisites complete, and a waiver,
  if it is an object, with its one key.\<close>

definition approves :: "pydict \<Rightarrow> bool" where
  "approves p \<longleftrightarrow> is_dict (get p ''policy'') \<and> keys_are (items (get p ''policy'')) [''allowed''] \<and>
     get (items (get p ''policy'')) ''allowed'' = PBool True \<and>
     complete_value (get p ''authority'') \<and> complete_value (get p ''approval'') \<and> complete_value (get p ''signing'') \<and>
     (is_dict (get p ''waiver'') \<longrightarrow> keys_are (items (get p ''waiver'')) [''approved''])"

definition harmless :: "string list \<Rightarrow> bool" where
  "harmless reasons \<longleftrightarrow> set reasons \<inter> {''unknown_field'', ''reason_invalid'', ''status_substitution'', ''hash_mismatch'',
     ''payload_hash_mismatch'', ''manifest_hash_mismatch''} = {}"

lemma complete_not_none [simp]: "\<not> complete_value PNone"
  by (simp add: complete_value_def is_dict_def)

lemma opt_complete_True [simp]: "opt_complete v = PBool True \<longleftrightarrow> complete_value v"
  by (auto simp: opt_complete_def)

lemma allowed_has_key: "is_dict (get p k) \<Longrightarrow> has_key p k"
  by (auto simp: has_key_def get_def is_dict_def split: option.splits)

lemma effective_policy_approves: "fully_approved (effective_policy p reasons) \<longleftrightarrow> approves p \<and> harmless reasons"
proof -
  have h: "list_ex (\<lambda>r. List.member [''unknown_field'', ''reason_invalid'', ''status_substitution'', ''hash_mismatch'',
      ''payload_hash_mismatch'', ''manifest_hash_mismatch''] r) reasons \<longleftrightarrow> \<not> harmless reasons"
    by (auto simp: list_ex_iff harmless_def)
  have w: "fully_approved (wire_policy p) \<longleftrightarrow> is_dict (get p ''policy'') \<and> keys_are (items (get p ''policy'')) [''allowed''] \<and>
     get (items (get p ''policy'')) ''allowed'' = PBool True \<and>
     complete_value (get p ''authority'') \<and> complete_value (get p ''approval'') \<and> complete_value (get p ''signing'')"
    using allowed_has_key [of p "''policy''"]
    by (auto simp: wire_policy_def no_policy_def fully_approved_def policy_fields_def Let_def is_bool_def is_dict_def split: if_splits)
  show ?thesis
    unfolding effective_policy_def Let_def h approves_def
    by (auto simp: w) (simp_all add: fully_approved_def policy_fields_def)
qed

lemma approves_iff: "approves p \<longleftrightarrow> policy_reasons p = [] \<and> missing_prerequisites p = [] \<and>
    (is_dict (get p ''waiver'') \<longrightarrow> keys_are (items (get p ''waiver'')) [''approved''])"
  by (auto simp: approves_def policy_reasons_def missing_prerequisites_def Let_def is_dict_def split: if_splits)

lemma certified_wire: "certify_result (Obj v) (effective_policy p reasons) = CERTIFIED \<Longrightarrow>
    vr_status v = Some VERIFIED \<and> approves p \<and> harmless reasons"
  by (simp add: certified_iff effective_policy_approves)

lemma certified_passed: "certify_result (Obj passed) (effective_policy p reasons) = CERTIFIED \<longleftrightarrow> approves p \<and> harmless reasons"
  by (simp add: certified_iff effective_policy_approves passed_def mk_result_def)

section \<open>The result\<close>

lemma json_get: "json_value (PDict d) \<Longrightarrow> json_value (get d k)"
proof -
  assume j: "json_value (PDict d)"
  show ?thesis
  proof (cases "dget d k")
    case (Some v)
    then have "v \<in> snd ` set d" using dget_in_set by force
    then show ?thesis using j Some by (auto simp: get_def list_all_iff)
  qed (simp add: get_def)
qed

lemma json_strs: "json_value (PList (map PStr ss))"
  by (simp add: list_all_iff)

lemma json_projected: "json_value (project_verification_result r)"
  by (simp add: project_verification_result_def mkdict_def list_all_iff)

lemma stamped_total:
  assumes "json_value (PDict d)"
  obtains e where "stamped d verdict reasons r = Inr e"
proof -
  let ?d = "dset (dset (dset (dset (dset d ''schema'' (PStr CHANGESET_CERTIFICATION_SCHEMA))
       ''version'' (PInt CHANGESET_CERTIFICATION_VERSION)) ''disposition'' (PStr (disposition_value verdict)))
       ''reasons'' (PList (map PStr (sorted_set reasons)))) ''verification_result'' (project_verification_result r)"
  have j: "json_value (PDict ?d)" using assms by (intro json_dset json_strs json_projected) simp_all
  have "\<exists>e. with_manifest_hash ?d = Inr e \<and> json_value (PDict e)"
  proof (cases "is_dict (get ?d ''verifier_manifest'')")
    case True
    then obtain m where m: "get ?d ''verifier_manifest'' = PDict m" by (auto simp: is_dict_iff)
    have jm: "json_value (PDict m)" using json_get [OF j, of "''verifier_manifest''"] unfolding m .
    obtain h where h: "manifest_hash m = Inr h" using manifest_hash_total [OF jm] by blast
    have "json_value (PDict (dset ?d ''verifier_manifest'' (PDict (dset m ''manifest_hash'' (PStr h)))))"
      by (intro json_dset j jm) simp
    then show ?thesis by (simp add: with_manifest_hash_def Let_def m h)
  next
    case False
    then show ?thesis using j by (simp add: with_manifest_hash_def Let_def)
  qed
  then obtain e where e: "with_manifest_hash ?d = Inr e" "json_value (PDict e)" by blast
  then obtain h where "payload_hash e = Inr h" using payload_hash_total by blast
  then show ?thesis using that e(1) by (simp add: stamped_def)
qed

lemma wire_result_total:
  assumes "entries_normal p"
  obtains c where "wire_result p reasons v = Inr c" "wc_status c = certify_result (Obj v) (effective_policy p reasons)"
    "wc_reason_codes c = sorted_set reasons"
proof -
  have "json_value (PDict (ordered compact_raw p))" using entries_json [of "ordered compact_raw p"] assms by simp
  then obtain e where "stamped (ordered compact_raw p) (certify_result (Obj v) (effective_policy p reasons)) reasons v = Inr e"
    by (rule stamped_total)
  then show ?thesis using that copy_entries [OF assms] by (simp add: wire_result_def Let_def)
qed

lemma wire_result_certified:
  assumes "entries_normal p"
  shows "(\<exists>c. wire_result p reasons v = Inr c \<and> wc_status c = CERTIFIED) \<longleftrightarrow>
     certify_result (Obj v) (effective_policy p reasons) = CERTIFIED"
proof -
  obtain c where "wire_result p reasons v = Inr c" "wc_status c = certify_result (Obj v) (effective_policy p reasons)"
    by (rule wire_result_total [OF assms])
  then show ?thesis by auto
qed

text \<open>A verdict on what the manifest says, with these reasons.\<close>

lemma derived_certified:
  assumes "entries_normal p"
  shows "(\<exists>c. ebind (derive_verification_result (PDict p) errors) (wire_result p reasons) = Inr c \<and> wc_status c = CERTIFIED) \<longleftrightarrow>
     errors = [] \<and> no_verifier_fails p \<and> approves p \<and> harmless reasons"
proof -
  have "(\<exists>c. ebind (derive_verification_result (PDict p) errors) (wire_result p reasons) = Inr c \<and> wc_status c = CERTIFIED) \<longleftrightarrow>
      (\<exists>v. derive_verification_result (PDict p) errors = Inr v \<and> certify_result (Obj v) (effective_policy p reasons) = CERTIFIED)"
    using wire_result_certified [OF assms, of reasons] by (auto simp: ebind_Inr_iff)
  also have "\<dots> \<longleftrightarrow> errors = [] \<and> no_verifier_fails p \<and> approves p \<and> harmless reasons"
    using derive_verified(1) [of p errors] derive_verified(2) [of p] certified_wire [of _ p reasons] certified_passed [of p reasons] by blast
  finally show ?thesis .
qed

section \<open>When a payload is certified\<close>

definition wire_certified :: "wire_certification res \<Rightarrow> bool" where
  "wire_certified r \<longleftrightarrow> (\<exists>c. r = Inr c \<and> wc_status c = CERTIFIED)"

lemma wire_certified_Inr [simp]: "wire_certified (Inr c) \<longleftrightarrow> wc_status c = CERTIFIED" "\<not> wire_certified (Inl x)"
  by (simp_all add: wire_certified_def)

lemma wire_certified_bind: "wire_certified (ebind r f) \<longleftrightarrow> (\<exists>a. r = Inr a \<and> wire_certified (f a))"
  by (cases r) simp_all

lemma certified_result: "entries_normal p \<Longrightarrow> wire_certified (wire_result p reasons v) \<Longrightarrow>
    vr_status v = Some VERIFIED \<and> approves p \<and> harmless reasons"
  using wire_result_certified certified_wire by (simp add: wire_certified_def)

lemma certified_result_passed: "entries_normal p \<Longrightarrow> wire_certified (wire_result p reasons passed) \<longleftrightarrow> approves p \<and> harmless reasons"
  using wire_result_certified certified_passed by (simp add: wire_certified_def)

lemma not_unverifiable_certified:
  "entries_normal p \<Longrightarrow> c \<noteq> VALID \<Longrightarrow> \<not> wire_certified (ebind (unverifiable_because rs c) (wire_result p reasons))"
  using certified_result reduced_verified by (auto simp: wire_certified_bind unverifiable_because_def)

lemma blocked_not_certified: "\<not> wire_certified (blocked reason c)"
  by (auto simp: blocked_def wire_certified_bind blocked_because_def certified_iff no_policy_def fully_approved_def policy_fields_def)

lemma certify_valid_certified:
  assumes n: "entries_normal p"
  shows "wire_certified (certify_valid p) \<longleftrightarrow> no_verifier_fails p \<and> approves p \<and> \<not> waiver_is_malformed p"
proof (cases "no_verifier_fails p")
  case True
  have h: "harmless []" "\<not> harmless [''reason_invalid'']" by (simp_all add: harmless_def)
  have m: "hashes_match p = Inr True" "vr_status passed \<noteq> Some FAILED_VERIFICATION"
    using True by (simp_all add: no_verifier_fails_def passed_def mk_result_def)
  have c: "certify_valid p = wire_result p (if waiver_is_malformed p then [''reason_invalid'']
      else if policy_reasons p \<noteq> [] then policy_reasons p else missing_prerequisites p) passed"
    using m by (simp add: certify_valid_def derive_verified(2) [OF True])
  have a: "approves p \<Longrightarrow> policy_reasons p = [] \<and> missing_prerequisites p = []" using approves_iff by blast
  show ?thesis unfolding c certified_result_passed [OF n] using a h True by (cases "waiver_is_malformed p"; cases "approves p") simp_all
next
  case False
  have "\<not> wire_certified (certify_valid p)"
  proof
    assume "wire_certified (certify_valid p)"
    then obtain v where v: "derive_verification_result (PDict p) [] = Inr v"
      "wire_certified (certify_valid p)" by (auto simp: certify_valid_def wire_certified_bind)
    have nv: "vr_status v \<noteq> Some VERIFIED" using derive_verified_only [OF v(1)] False by blast
    then have r: "\<not> wire_certified (wire_result p rs v)" for rs using certified_result [OF n] by blast
    have t: "\<not> wire_certified (ebind (hash_errors p) (\<lambda>errs. ebind (unverifiable_because errs TAMPERED) (wire_result p errs)))"
    proof (cases "hash_errors p")
      case (Inr errs)
      show ?thesis using not_unverifiable_certified [OF n, of TAMPERED errs errs] by (simp add: Inr)
    qed simp
    show False
    proof (cases "vr_status v = Some FAILED_VERIFICATION")
      case True
      then show ?thesis using v r by (simp add: certify_valid_def)
    next
      case False
      show ?thesis
      proof (cases "hashes_match p")
        case (Inl x)
        then show ?thesis using v False by (simp add: certify_valid_def)
      next
        case (Inr b)
        then show ?thesis using v False r t by (cases b) (simp_all add: certify_valid_def split: if_split_asm)
      qed
    qed
  qed
  then show ?thesis using False by simp
qed

definition IDENTITY_PARTS :: "string list" where
  "IDENTITY_PARTS = [''task'', ''repository'', ''base'', ''diff'']"

definition legacy_payload :: "pydict \<Rightarrow> bool" where
  "legacy_payload p \<longleftrightarrow> py_eq (get p ''schema'') (PStr LEGACY_CHANGESET_CERTIFICATION_SCHEMA) \<and>
     py_eq (get p ''version'') (PInt LEGACY_CHANGESET_CERTIFICATION_VERSION)"

lemma certify_copied_certified:
  assumes n: "entries_normal p"
  shows "wire_certified (certify_copied p) \<longleftrightarrow>
    no_verifier_fails p \<and> approves p \<and> \<not> legacy_payload p \<and> \<not> has_key p ''change_set'' \<and> \<not> has_key p ''verification_result'' \<and>
    (list_all (has_key p) IDENTITY_PARTS \<longrightarrow> wire_validate p False = Inr [] \<and> \<not> waiver_is_malformed p)"
proof -
  have h: "harmless [''identity_missing'']" by (simp add: harmless_def)
  have unknown: "\<not> wire_certified (ebind r (\<lambda>v. let q = f v in ebind (g q) (\<lambda>h. let s = k q h in
      ebind (d s) (wire_result s [''unknown_field'']))))" if "\<And>v h. r = Inr v \<Longrightarrow> g (f v) = Inr h \<Longrightarrow> entries_normal (k (f v) h)"
    for r :: "pyval res" and f and g :: "pydict \<Rightarrow> string res" and k d
    using that certified_result by (fastforce simp: wire_certified_bind Let_def harmless_def)
  have u: "\<not> wire_certified (ebind (wire_copy (PDict p)) (\<lambda>v. let sanitized = without_key (items v) ''verification_result'' in
      ebind (payload_hash sanitized) (\<lambda>h. let sealed = dset sanitized ''canonical_payload_hash'' (PStr h) in
      ebind (derive_verification_result (PDict sealed) []) (wire_result sealed [''unknown_field'']))))"
    by (rule unknown) (use copy_entries [OF n] in \<open>auto intro!: entries_dset entries_without simp: n\<close>)
  have e: "wire_certified (ebind (derive_verification_result (PDict p) errors) (wire_result p reasons)) \<longleftrightarrow>
      errors = [] \<and> no_verifier_fails p \<and> approves p \<and> harmless reasons" for errors reasons
    using derived_certified [OF n] by (simp add: wire_certified_def)
  have full: "wire_certified (ebind (wire_validate p False) (\<lambda>errors.
        if errors = [''cross_binding_mismatch''] \<and> candidate_binding_is_stale p
        then ebind (unverifiable_because [''stale_changeset''] STALE) (wire_result p [''stale_changeset''])
        else if errors \<noteq> [] then ebind (derive_verification_result (PDict p) errors) (wire_result p errors)
        else certify_valid p)) \<longleftrightarrow>
      wire_validate p False = Inr [] \<and> no_verifier_fails p \<and> approves p \<and> \<not> waiver_is_malformed p"
  proof (cases "wire_validate p False")
    case (Inr errors)
    have "\<not> wire_certified (ebind (unverifiable_because [''stale_changeset''] STALE) (wire_result p [''stale_changeset'']))"
      by (rule not_unverifiable_certified [OF n]) simp
    then show ?thesis using Inr e [of errors errors] certify_valid_certified [OF n] by simp
  qed simp
  show ?thesis
    unfolding certify_copied_def legacy_payload_def [symmetric] IDENTITY_PARTS_def [symmetric]
    using u h e [of "[]" "[''identity_missing'']"] full blocked_not_certified by simp blast
qed

lemma json_finite: "json_value v \<Longrightarrow> \<not> contains_nonfinite v"
  by (induction v rule: contains_nonfinite.induct) (auto simp: list_all_iff list_ex_iff)

lemma certify_json:
  assumes "json_value (PDict d)" "wire_normalize None (PDict d) = Inr (PDict p)"
  shows "certify_changeset (PDict d) = certify_copied p" "entries_normal p" "ordered compact_raw p = p"
proof -
  obtain e where "wire_copy (PDict d) = Inr (PDict e)" "wire_normalize None (PDict d) = Inr (PDict e)" "entries_normal e"
    "ordered compact_raw e = e" using copy_json [OF assms(1)] by blast
  then show "certify_changeset (PDict d) = certify_copied p" "entries_normal p" "ordered compact_raw p = p"
    using assms(2) json_finite [OF assms(1)] by (simp_all add: certify_changeset_def del: contains_nonfinite.simps wire_normalize.simps)
qed

section \<open>What a valid envelope says\<close>

lemma or_else_Nil: "or_else r s = Inr [] \<longleftrightarrow> r = Inr [] \<and> s = Inr []"
  by (auto simp: or_else_def ebind_Inr_iff)

lemma verifier_errs_dicts: "verifier_errs attempt ids artifacts vs = Inr [] \<Longrightarrow> \<forall>v \<in> set vs. is_dict v"
proof (induction attempt ids artifacts vs rule: verifier_errs.induct)
  case (2 attempt ids artifacts v vs)
  then show ?case by (auto simp: Let_def ebind_Inr_iff split: if_splits)
qed simp

lemma verifiers_errs_Nil:
  assumes "verifiers_errs p = Inr []"
  shows "is_list (verifiers_of p) \<and> elems (verifiers_of p) \<noteq> [] \<and> (\<forall>v \<in> set (elems (verifiers_of p)). is_dict v)"
  using assms verifier_errs_dicts by (fastforce simp: verifiers_errs_def verifiers_of_def Let_def split: if_splits)

lemma verifier_errs_status: "verifier_errs attempt ids artifacts vs = Inr [] \<Longrightarrow>
    \<forall>v \<in> set vs. py_eq (get (items v) ''status'') (PStr ''PASS'') \<or> py_eq (get (items v) ''status'') (PStr ''FAIL'')"
proof (induction attempt ids artifacts vs rule: verifier_errs.induct)
  case (2 attempt ids artifacts v vs)
  obtain known where k: "in_strs (get (items v) ''status'') [''PASS'', ''FAIL''] = Inr known"
    using "2.prems" by (auto simp: Let_def ebind_Inr_iff split: if_split_asm)
  have "known" using "2.prems" k by (auto simp: Let_def split: if_split_asm)
  then have "py_eq (get (items v) ''status'') (PStr ''PASS'') \<or> py_eq (get (items v) ''status'') (PStr ''FAIL'')"
    using k by (auto simp: in_strs_def isinstance_str_iff split: if_split_asm)
  moreover have "verifier_errs attempt (str_of (get (items v) ''verifier_id'') # ids) (str_of (get (items v) ''artifact_id'') # artifacts) vs = Inr []"
    using "2.prems" k \<open>known\<close> by (auto simp: Let_def split: if_split_asm)
  ultimately show ?case using "2.IH" "2.prems" k \<open>known\<close> by (auto simp: Let_def split: if_split_asm)
qed simp

lemma verifiers_errs_status:
  assumes "verifiers_errs p = Inr []"
  shows "\<forall>v \<in> set (elems (verifiers_of p)). py_eq (get (items v) ''status'') (PStr ''PASS'') \<or>
    py_eq (get (items v) ''status'') (PStr ''FAIL'')"
  using assms verifier_errs_status by (fastforce simp: verifiers_errs_def verifiers_of_def Let_def split: if_splits)

lemma manifest_errs_dict: "manifest_errs p = [] \<Longrightarrow> is_dict (get p ''verifier_manifest'')"
  by (simp add: manifest_errs_def exact_texts_def Let_def split: if_splits)

definition some_failed :: "pydict \<Rightarrow> bool" where
  "some_failed p \<longleftrightarrow> (\<exists>v \<in> set (elems (verifiers_of p)). py_eq (get (items v) ''status'') (PStr ''FAIL''))"

lemma any_failed_dicts: "\<forall>v \<in> set vs. is_dict v \<Longrightarrow> any_failed vs = Inr (\<exists>v \<in> set vs. py_eq (get (items v) ''status'') (PStr ''FAIL''))"
  by (induction vs) auto

definition outcome :: "pydict \<Rightarrow> verification_result" where
  "outcome p = (if some_failed p then failed else passed)"

lemma derive_valid:
  assumes "manifest_errs p = []" "verifiers_errs p = Inr []" "hashes_match p = Inr True"
  shows "derive_verification_result (PDict p) [] = Inr (outcome p)"
  using verifiers_errs_Nil [OF assms(2)] manifest_errs_dict [OF assms(1)] assms(3)
  by (simp add: derive_verification_result_def Let_def verifiers_of_def [symmetric] any_failed_dicts some_failed_def
      reduced_fail reduced_pass outcome_def) blast

text \<open>The reasons of a verdict over a well-formed envelope.\<close>

definition emitted_reasons :: "pydict \<Rightarrow> string list" where
  "emitted_reasons p = (if some_failed p then [''verifier_failed''] else if waiver_is_malformed p then [''reason_invalid'']
     else if policy_reasons p \<noteq> [] then policy_reasons p else missing_prerequisites p)"

definition REASON_LISTS :: "string list list" where
  "REASON_LISTS = [[], [''verifier_failed''], [''reason_invalid''], [''policy_missing''], [''policy_disallowed''], [''approval_missing''], [''authority_missing''],
     [''signing_missing''], [''approval_missing'', ''authority_missing''], [''approval_missing'', ''signing_missing''],
     [''authority_missing'', ''signing_missing''], [''approval_missing'', ''authority_missing'', ''signing_missing'']]"

lemma emitted_reasons_listed: "emitted_reasons p \<in> set REASON_LISTS"
  by (simp add: emitted_reasons_def policy_reasons_def missing_prerequisites_def REASON_LISTS_def Let_def)

text \<open>A set-like list whose printed elements are in order is arranged.\<close>

lemma arrange_sorted:
  assumes "sorted (map (json_string compact_raw) rs)"
  shows "arrange key (map PStr rs) = Inr (PList (map PStr rs))"
proof -
  have "emap (dumps compact_raw) (map PStr rs) = Inr (map (json_string compact_raw) rs)" by (induction rs) simp_all
  moreover have "sort_key fst (zip (map (json_string compact_raw) rs) (map PStr rs)) = zip (map (json_string compact_raw) rs) (map PStr rs)"
    by (rule sort_key_id_if_sorted) (simp add: assms)
  ultimately show ?thesis by (simp add: arrange_def)
qed

lemma reason_order:
  "json_string compact_raw ''approval_missing'' \<le> json_string compact_raw ''authority_missing''"
  "json_string compact_raw ''authority_missing'' \<le> json_string compact_raw ''signing_missing''"
  "''approval_missing'' < ''authority_missing''" "''authority_missing'' < ''signing_missing''"
  by code_simp+

lemma listed_reasons:
  assumes "rs \<in> set REASON_LISTS"
  shows "sorted_set rs = rs" "normal (Some ''reasons'') (PList (map PStr rs))" "distinct rs" "set rs \<subseteq> set WIRE_REASONS" "length rs \<le> 3"
    "set rs \<inter> {''evidence_missing'', ''identity_malformed'', ''identity_missing''} = {}"
proof -
  note o = reason_order order_trans [OF reason_order(1,2)] less_trans [OF reason_order(3,4)]
  show d: "distinct rs" "set rs \<subseteq> set WIRE_REASONS" "length rs \<le> 3"
    "set rs \<inter> {''evidence_missing'', ''identity_malformed'', ''identity_missing''} = {}"
    using assms by (auto simp: REASON_LISTS_def WIRE_REASONS_def)
  have "sorted rs" using assms o(3,4,6) by (auto simp: REASON_LISTS_def less_imp_le simp del: Cons_less_Cons Cons_le_Cons)
  then show "sorted_set rs = rs" using d(1) by (rule sorted_set_id)
  have "sorted (map (json_string compact_raw) rs)" using assms o(1,2,5) by (auto simp: REASON_LISTS_def)
  from arrange_sorted [OF this] show "normal (Some ''reasons'') (PList (map PStr rs))" by (simp add: list_all_iff)
qed

lemma project_passed: "project_reasons passed = []" "status_text passed = ''VERIFIED''"
  by (simp_all add: project_reasons_def passed_def mk_result_def strs_def status_text_def)

lemma project_failed: "project_reasons failed = [''verifier_failed'']" "status_text failed = ''FAILED_VERIFICATION''"
  by (simp_all add: project_reasons_def failed_def mk_result_def strs_def status_text_def internal_reason_def WIRE_REASONS_def sorted_set_def)

definition projected :: "verification_result \<Rightarrow> pyval" where
  "projected r = mkdict [(''reason_codes'', PList (map PStr (project_reasons r))), (''status'', PStr (status_text r))]"

lemma normalize_verdict:
  assumes "arrange (Some ''reason_codes'') (map PStr rs) = Inr (PList (map PStr rs))"
  shows "wire_normalize key (mkdict [(''status'', PStr st), (''reason_codes'', PList (map PStr rs))]) =
    Inr (mkdict [(''reason_codes'', PList (map PStr rs)), (''status'', PStr st)])"
proof -
  have "emap (wire_normalize (Some ''reason_codes'')) (map PStr rs) = Inr (map PStr rs)" by (rule emap_same) auto
  then show ?thesis using assms by (simp add: mkdict_def ordered_compact_raw)
qed

lemma normalize_projected:
  assumes "r = passed \<or> r = failed"
  shows "wire_normalize key (project_verification_result r) = Inr (projected r)"
proof -
  have "sorted (map (json_string compact_raw) (project_reasons r))" using assms project_passed(1) project_failed(1) by auto
  then have "arrange (Some ''reason_codes'') (map PStr (project_reasons r)) = Inr (PList (map PStr (project_reasons r)))"
    by (rule arrange_sorted)
  then show ?thesis unfolding project_verification_result_def projected_def by (rule normalize_verdict)
qed

lemma projected_ok:
  assumes "r = passed \<or> r = failed"
  shows "factual_errs (projected r) = Inr []" "py_eq (projected r) (project_verification_result r)"
proof -
  have "factual_errs (projected passed) = Inr []" "factual_errs (projected failed) = Inr []"
    unfolding projected_def project_passed project_failed by code_simp+
  then show "factual_errs (projected r) = Inr []" using assms by auto
  have "py_eq (projected passed) (project_verification_result passed)" "py_eq (projected failed) (project_verification_result failed)"
    unfolding projected_def project_verification_result_def project_passed project_failed by code_simp+
  then show "py_eq (projected r) (project_verification_result r)" using assms by auto
qed


section \<open>The stamped envelope\<close>

text \<open>The fields \<open>_result\<close> writes; every other field of the envelope is the payload's.\<close>

definition STAMPED_KEYS :: "string list" where
  "STAMPED_KEYS = [''schema'', ''version'', ''disposition'', ''reasons'', ''verification_result'', ''verifier_manifest'',
     ''canonical_payload_hash'']"

text \<open>\<open>f\<close> is the normal form of the envelope made of \<open>p\<close>.\<close>

definition stamped_form :: "pydict \<Rightarrow> disposition \<Rightarrow> string list \<Rightarrow> verification_result \<Rightarrow> pydict \<Rightarrow> bool" where
  "stamped_form p verdict rs r f \<longleftrightarrow> entries_normal f \<and> ordered compact_raw f = f \<and>
     (\<forall>k. has_key f k \<longleftrightarrow> has_key p k \<or> k \<in> set STAMPED_KEYS) \<and> (\<forall>k. k \<notin> set STAMPED_KEYS \<longrightarrow> get f k = get p k) \<and>
     get f ''schema'' = PStr CHANGESET_CERTIFICATION_SCHEMA \<and> get f ''version'' = PInt CHANGESET_CERTIFICATION_VERSION \<and>
     get f ''disposition'' = PStr (disposition_value verdict) \<and> get f ''reasons'' = PList (map PStr rs) \<and>
     get f ''verification_result'' = projected r \<and>
     (\<exists>m g h. get f ''verifier_manifest'' = PDict m \<and> entries_normal m \<and> manifest_hash m = Inr g \<and> is_sha256 g \<and>
        get m ''manifest_hash'' = PStr g \<and> (\<forall>k. k \<noteq> ''manifest_hash'' \<longrightarrow> get m k = get (items (get p ''verifier_manifest'')) k) \<and>
        (\<forall>k. has_key m k \<longleftrightarrow> has_key (items (get p ''verifier_manifest'')) k \<or> k = ''manifest_hash'') \<and>
        payload_hash f = Inr h \<and> is_sha256 h \<and> get f ''canonical_payload_hash'' = PStr h)"

lemma stamped_forms:
  assumes "entries_normal p" "get p ''verifier_manifest'' = PDict m" "rs \<in> set REASON_LISTS" "r = passed \<or> r = failed"
  obtains e f where "stamped p verdict rs r = Inr e" "wire_copy (PDict e) = Inr (PDict f)" "stamped_form p verdict rs r f"
proof -
  let ?d = "dset (dset (dset (dset (dset p ''schema'' (PStr CHANGESET_CERTIFICATION_SCHEMA))
       ''version'' (PInt CHANGESET_CERTIFICATION_VERSION)) ''disposition'' (PStr (disposition_value verdict)))
       ''reasons'' (PList (map PStr (sorted_set rs)))) ''verification_result'' (project_verification_result r)"
  have mn: "entries_normal m" using get_normal [OF assms(1), of "''verifier_manifest''"] assms(2) normal_dict by simp
  obtain g where g: "manifest_hash m = Inr g" "is_sha256 g" using manifest_hash_total [OF entries_json [OF mn]] by blast
  let ?m = "dset m ''manifest_hash'' (PStr g)"
  have m': "entries_normal ?m" by (intro entries_dset mn) simp
  have mg: "manifest_hash ?m = Inr g" using manifest_hash_seal [OF mn m'] g(1) by simp
  have jp: "json_value (PDict p)" by (rule entries_json [OF assms(1)])
  have jd: "json_value (PDict ?d)" by (intro json_dset json_strs json_projected jp) simp_all
  have gm: "get ?d ''verifier_manifest'' = PDict m" using assms(2) by (simp add: get_dset)
  let ?e = "dset ?d ''verifier_manifest'' (PDict ?m)"
  have je: "json_value (PDict ?e)" by (intro json_dset jd entries_json m')
  obtain h where h: "payload_hash ?e = Inr h" "is_sha256 h" using payload_hash_total [OF je] by blast
  let ?f = "dset ?e ''canonical_payload_hash'' (PStr h)"
  have jf: "json_value (PDict ?f)" by (intro json_dset je) simp
  have st: "stamped p verdict rs r = Inr ?f" by (simp add: stamped_def with_manifest_hash_def Let_def gm g(1) h(1))
  obtain f where f: "wire_copy (PDict ?f) = Inr (PDict f)" "wire_normalize None (PDict ?f) = Inr (PDict f)" "entries_normal f"
    "ordered compact_raw f = f" using copy_json [OF jf] by blast
  note keys = normalize_get(1) [OF jf f(2)]
  note norm = normalize_get(2) [OF jf f(2)]
  note same = get_unchanged [OF jf f(2)]
  have "payload_hash f = payload_hash ?f" by (rule payload_hash_copy) (simp add: f(1) copy_entries [OF f(3)] f(4))
  also have "\<dots> = Inr h" using payload_hash_sealed [OF je, of "PStr h"] h(1) by simp
  finally have ph: "payload_hash f = Inr h" .
  have fm: "get f ''verifier_manifest'' = PDict (ordered compact_raw ?m)"
    using norm [of "''verifier_manifest''"] normalize_entries [OF m'] by (simp add: get_dset)
  have mo: "manifest_hash (ordered compact_raw ?m) = Inr g"
    using manifest_hash_copy [of "ordered compact_raw ?m" ?m] mg m' by (simp add: copy_entries ordered_twice)
  have kept: "get f k = get p k" if "k \<notin> set STAMPED_KEYS" for k
  proof -
    have "get ?f k = get p k" using that by (simp add: STAMPED_KEYS_def get_dset)
    then show ?thesis using same [of k] get_normal [OF assms(1), of k] by simp
  qed
  have get_f: "get ?f ''schema'' = PStr CHANGESET_CERTIFICATION_SCHEMA" "get ?f ''version'' = PInt CHANGESET_CERTIFICATION_VERSION"
    "get ?f ''disposition'' = PStr (disposition_value verdict)" "get ?f ''reasons'' = PList (map PStr rs)"
    "get ?f ''verification_result'' = project_verification_result r" "get ?f ''canonical_payload_hash'' = PStr h"
    using listed_reasons(1) [OF assms(3)] by (simp_all add: get_dset)
  have scalar: "get f k = get ?f k" if "get ?f k = PStr x \<or> get ?f k = PInt i" for k x i
    by (rule same) (use that in auto)
  have rs: "get f ''reasons'' = PList (map PStr rs)"
    using same [of "''reasons''"] listed_reasons(2) [OF assms(3)] unfolding get_f(4) by blast
  have vr: "get f ''verification_result'' = projected r"
    using norm [of "''verification_result''"] normalize_projected [OF assms(4)] unfolding get_f(5) by simp
  have parts: "get f ''schema'' = PStr CHANGESET_CERTIFICATION_SCHEMA" "get f ''version'' = PInt CHANGESET_CERTIFICATION_VERSION"
    "get f ''disposition'' = PStr (disposition_value verdict)" "get f ''canonical_payload_hash'' = PStr h"
    using scalar get_f by metis+
  have hk: "has_key f k \<longleftrightarrow> has_key p k \<or> k \<in> set STAMPED_KEYS" for k
    using keys [of k] by (auto simp: STAMPED_KEYS_def get_dset)
  have mk: "entries_normal (ordered compact_raw ?m)" "get (ordered compact_raw ?m) ''manifest_hash'' = PStr g"
    "k \<noteq> ''manifest_hash'' \<Longrightarrow> get (ordered compact_raw ?m) k = get (items (get p ''verifier_manifest'')) k"
    "has_key (ordered compact_raw ?m) k \<longleftrightarrow> has_key (items (get p ''verifier_manifest'')) k \<or> k = ''manifest_hash''" for k
    using m' assms(2) by (auto simp: get_dset)
  have "stamped_form p verdict rs r f"
    unfolding stamped_form_def using f(3,4) hk kept parts rs vr fm mk mo ph g(2) h(2) by blast
  then show ?thesis using that [OF st f(1)] by blast
qed


section \<open>What is emitted validates\<close>

lemma wire_validate_Nil: "wire_validate p b = Inr [] \<longleftrightarrow>
    list_all (\<lambda>q. List.member (ENVELOPE_KEYS @ (if b then [''verification_result''] else [])) (str_of (fst q))) p \<and>
    py_eq (get p ''schema'') (PStr CHANGESET_CERTIFICATION_SCHEMA) \<and> py_eq (get p ''version'') (PInt CHANGESET_CERTIFICATION_VERSION) \<and>
    (b \<and> has_key p ''verification_result'' \<longrightarrow> factual_errs (get p ''verification_result'') = Inr []) \<and>
    subject_errs p = Inr [] \<and> candidate_errs p = [] \<and> manifest_errs p = [] \<and> verifiers_errs p = Inr [] \<and> verdict_errs p = Inr []"
  by (auto simp: wire_validate_def Let_def or_else_Nil simp del: py_eq_PStr split: if_split_asm)

lemma form_kept:
  assumes "stamped_form p verdict rs r f"
  shows "get f ''task'' = get p ''task''" "get f ''repository'' = get p ''repository''" "get f ''base'' = get p ''base''"
    "get f ''diff'' = get p ''diff''" "get f ''allowed_scope'' = get p ''allowed_scope''" "get f ''candidate'' = get p ''candidate''"
    "get f ''policy'' = get p ''policy''" "get f ''waiver'' = get p ''waiver''" "get f ''authority'' = get p ''authority''"
    "get f ''approval'' = get p ''approval''" "get f ''signing'' = get p ''signing''" "get f ''claim_ceiling'' = get p ''claim_ceiling''"
    "has_key f ''policy'' = has_key p ''policy''"
  using assms by (simp_all add: stamped_form_def STAMPED_KEYS_def)

lemma form_same:
  assumes "stamped_form p verdict rs r f"
  shows "subject_errs f = subject_errs p" "candidate_errs f = candidate_errs p" "manifest_bindings f = manifest_bindings p"
    "policy_reasons f = policy_reasons p" "missing_prerequisites f = missing_prerequisites p"
    "waiver_is_malformed f = waiver_is_malformed p" "effective_policy f reasons = effective_policy p reasons"
    "verifiers_of f = verifiers_of p" "verifiers_errs f = verifiers_errs p" "some_failed f = some_failed p"
proof -
  note k = form_kept [OF assms]
  show "subject_errs f = subject_errs p" by (simp add: subject_errs_def Let_def k)
  show "candidate_errs f = candidate_errs p" by (simp add: candidate_errs_def Let_def k)
  show "manifest_bindings f = manifest_bindings p" by (simp add: manifest_bindings_def Let_def k)
  show "policy_reasons f = policy_reasons p" by (simp add: policy_reasons_def Let_def k)
  show "missing_prerequisites f = missing_prerequisites p" by (simp add: missing_prerequisites_def Let_def k)
  show "waiver_is_malformed f = waiver_is_malformed p" by (simp add: waiver_is_malformed_def Let_def k)
  show "effective_policy f reasons = effective_policy p reasons" by (simp add: effective_policy_def wire_policy_def Let_def k)
  obtain m where m: "get f ''verifier_manifest'' = PDict m" "get m ''verifiers'' = get (items (get p ''verifier_manifest'')) ''verifiers''"
    using assms by (auto simp: stamped_form_def)
  then show v: "verifiers_of f = verifiers_of p" by (simp add: verifiers_of_def)
  show "verifiers_errs f = verifiers_errs p"
    using v by (simp add: verifiers_errs_def verifiers_of_def Let_def k)
  show "some_failed f = some_failed p" by (simp add: some_failed_def v)
qed

lemma form_hashes: "stamped_form p verdict rs r f \<Longrightarrow> hashes_match f = Inr True"
  by (auto simp: stamped_form_def hashes_match_def)

lemma form_manifest:
  assumes "stamped_form p verdict rs r f" "entries_normal p" "manifest_errs p = []"
  shows "manifest_errs f = []"
proof -
  let ?n = "items (get p ''verifier_manifest'')"
  obtain m g where m: "get f ''verifier_manifest'' = PDict m" "entries_normal m" "get m ''manifest_hash'' = PStr g" "is_sha256 g"
    "\<And>k. k \<noteq> ''manifest_hash'' \<Longrightarrow> get m k = get ?n k" "\<And>k. has_key m k \<longleftrightarrow> has_key ?n k \<or> k = ''manifest_hash''"
    using assms(1) by (auto simp: stamped_form_def)
  have p: "exact_texts (get p ''verifier_manifest'') MANIFEST_KEYS MANIFEST_TEXTS" "sha_value (get ?n ''diff_hash'')"
    "list_all (\<lambda>(k, v). py_eq (get ?n k) v) (manifest_bindings p)"
    using assms(3) by (simp_all add: manifest_errs_def Let_def split: if_split_asm)
  obtain n where n: "get p ''verifier_manifest'' = PDict n" using p(1) by (auto simp: exact_texts_def is_dict_iff)
  have ns: "\<forall>q \<in> set n. is_str (fst q)" using get_normal [OF assms(2), of "''verifier_manifest''"] by (simp add: n list_all_iff)
  have ms: "\<forall>q \<in> set m. is_str (fst q)" using m(2) by (simp add: entries_normal_def)
  have h: "''manifest_hash'' \<in> set MANIFEST_KEYS" "''manifest_hash'' \<notin> set MANIFEST_TEXTS" by (simp_all add: MANIFEST_KEYS_def MANIFEST_TEXTS_def)
  have "keys_are n MANIFEST_KEYS" using p(1) by (simp add: exact_texts_def n)
  then have keys: "keys_are m MANIFEST_KEYS" using m(6) h(1) unfolding exact_keys_iff [OF ns] exact_keys_iff [OF ms] by (auto simp: n)
  have texts: "texts_ok (PDict m) MANIFEST_TEXTS"
    using p(1) m(5) h(2) unfolding exact_texts_def texts_ok_def list_all_iff n by (metis type_test_simps(14))
  have "list_all (\<lambda>(k, v). py_eq (get m k) v) (manifest_bindings p)"
    using p(3) by (simp add: manifest_bindings_def m(5) Let_def)
  then show ?thesis
    using keys texts p(2) m(1,3,4) by (simp add: manifest_errs_def exact_texts_def form_same(3) [OF assms(1)] m(5) sha_value_def)
qed

lemma form_verdict:
  assumes "stamped_form p verdict rs r f" "rs \<in> set REASON_LISTS" "verdict_errs p = Inr []"
    "verdict = REJECTED \<longrightarrow> rs \<noteq> []"
  shows "verdict_errs f = Inr (if verdict = CERTIFIED \<and> get p ''candidate'' = PNone then [''candidate_missing''] else [])"
proof -
  have c: "py_eq (get p ''claim_ceiling'') (PStr WIRE_CLAIM_CEILING)"
    using assms(3) by (auto simp: verdict_errs_def Let_def ebind_Inr_iff split: if_split_asm)
  have f: "get f ''disposition'' = PStr (disposition_value verdict)" "get f ''reasons'' = PList (map PStr rs)"
    using assms(1) by (simp_all add: stamped_form_def)
  have h: "sha_value (get f ''canonical_payload_hash'')" using assms(1) by (auto simp: stamped_form_def sha_value_def)
  have l: "distinct (map (str_of \<circ> PStr) rs)" "\<not> MAX_REASONS < length rs" "\<not> list_ex (\<lambda>x. x \<notin> set WIRE_REASONS) rs"
    using listed_reasons(3-5) [OF assms(2)] by (auto simp: comp_def MAX_REASONS_def list_ex_iff)
  show ?thesis
    using c h l assms(4)
    by (cases verdict) (simp_all add: verdict_errs_def Let_def f form_kept [OF assms(1)] list_ex_iff image_iff comp_def)
qed

text \<open>A well-formed envelope whose hashes are right gets its verdict from verifiers and policy.\<close>

lemma certify_well_formed:
  assumes "wire_validate p False = Inr []" "hashes_match p = Inr True" "\<forall>q \<in> set p. is_str (fst q)"
  shows "certify_copied p = wire_result p (emitted_reasons p) (outcome p)"
proof -
  have v: "list_all (\<lambda>q. List.member ENVELOPE_KEYS (str_of (fst q))) p" "py_eq (get p ''schema'') (PStr CHANGESET_CERTIFICATION_SCHEMA)"
    "subject_errs p = Inr []" "manifest_errs p = []" "verifiers_errs p = Inr []"
    using assms(1) unfolding wire_validate_Nil by simp_all
  have "has_key p k \<longrightarrow> k \<in> set ENVELOPE_KEYS" for k using v(1) unfolding known_keys_iff [OF assms(3)] by blast
  then have unknown: "\<not> has_key p ''change_set''" "\<not> has_key p ''verification_result''" by (force simp: ENVELOPE_KEYS_def)+
  have "get p k \<noteq> PNone \<Longrightarrow> has_key p k" for k by (auto simp: get_def has_key_def split: option.splits)
  moreover have "\<not> list_ex (\<lambda>k. get p k = PNone) [''task'', ''repository'', ''base'', ''diff'']"
    using v(3) by (simp add: subject_errs_def Let_def split: if_split_asm)
  ultimately have parts: "list_all (has_key p) [''task'', ''repository'', ''base'', ''diff'']" by simp
  have legacy: "\<not> py_eq (get p ''schema'') (PStr LEGACY_CHANGESET_CERTIFICATION_SCHEMA)"
    using v(2) by (simp add: CHANGESET_CERTIFICATION_SCHEMA_def LEGACY_CHANGESET_CERTIFICATION_SCHEMA_def)
  have "certify_copied p = certify_valid p"
    using unknown parts legacy assms(1) by (simp add: certify_copied_def del: py_eq_PStr)
  also have "\<dots> = wire_result p (emitted_reasons p) (outcome p)"
    using assms(2) derive_valid [OF v(4,5) assms(2)]
    by (simp add: certify_valid_def outcome_def emitted_reasons_def failed_def passed_def mk_result_def)
  finally show ?thesis .
qed

lemma verdict_rejected:
  assumes "certify_result (Obj (outcome p)) (effective_policy p (emitted_reasons p)) = REJECTED"
  shows "emitted_reasons p \<noteq> []"
proof
  assume n: "emitted_reasons p = []"
  then have "outcome p = passed" "policy_reasons p = []" "missing_prerequisites p = []" and w: "\<not> waiver_is_malformed p"
    by (simp_all add: emitted_reasons_def outcome_def split: if_split_asm)
  moreover have "is_dict (get p ''waiver'') \<longrightarrow> keys_are (items (get p ''waiver'')) [''approved'']"
    using w by (auto simp: waiver_is_malformed_def Let_def is_dict_def)
  ultimately have "approves p" using approves_iff by blast
  then have "certify_result (Obj passed) (effective_policy p []) = CERTIFIED" by (simp add: certified_passed harmless_def)
  then show False using assms(1) n \<open>outcome p = passed\<close> by simp
qed

lemma form_known:
  assumes f: "stamped_form p verdict rs r f" and p: "entries_normal p" "list_all (\<lambda>q. List.member ENVELOPE_KEYS (str_of (fst q))) p"
  shows "list_all (\<lambda>q. List.member (ENVELOPE_KEYS @ [''verification_result'']) (str_of (fst q))) f"
proof -
  have ps: "\<forall>q \<in> set p. is_str (fst q)" and fs: "\<forall>q \<in> set f. is_str (fst q)"
    using p(1) f by (simp_all add: entries_normal_def stamped_form_def)
  have sub: "set STAMPED_KEYS \<subseteq> set (ENVELOPE_KEYS @ [''verification_result''])" by (simp add: STAMPED_KEYS_def ENVELOPE_KEYS_def)
  have "k \<in> set (ENVELOPE_KEYS @ [''verification_result''])" if "has_key f k" for k
  proof (cases "has_key p k")
    case True
    then have "k \<in> set ENVELOPE_KEYS" using p(2) known_keys_iff [OF ps] by blast
    then show ?thesis by (simp only: set_append Un_iff simp_thms)
  next
    case False
    then show ?thesis using that f sub by (auto simp only: stamped_form_def)
  qed
  then show ?thesis using known_keys_iff [OF fs] by blast
qed

text \<open>The reasons the validator expects are the ones emitted, except where a malformed waiver hides a policy reason.\<close>

definition waiver_hides_policy :: "pydict \<Rightarrow> bool" where
  "waiver_hides_policy p \<longleftrightarrow> waiver_is_malformed p \<and> \<not> some_failed p \<and> (policy_reasons p \<noteq> [] \<or> missing_prerequisites p \<noteq> [])"

lemma form_expected:
  assumes "stamped_form p verdict rs r f"
  shows "emitted_reasons p = expected_reasons f (outcome p) \<longleftrightarrow> \<not> waiver_hides_policy p"
proof -
  have e: "expected_reasons f (outcome p) = (if some_failed p then [''verifier_failed''] else if policy_reasons p \<noteq> [] then policy_reasons p
      else if missing_prerequisites p \<noteq> [] then missing_prerequisites p else if waiver_is_malformed p then [''reason_invalid''] else [])"
    using form_same(4-6) [OF assms] project_passed(1) by (simp add: expected_reasons_def outcome_def failed_def passed_def mk_result_def)
  have "policy_reasons p \<noteq> [''reason_invalid'']" by (simp add: policy_reasons_def Let_def)
  moreover have "missing_prerequisites p \<noteq> [''reason_invalid'']" by (simp add: missing_prerequisites_def)
  ultimately show ?thesis unfolding e by (auto simp: emitted_reasons_def waiver_hides_policy_def)
qed

lemma validated_answer:
  assumes "wire_validate p False = Inr []" "verdict_errs f = Inr errs"
    and f: "list_all (\<lambda>q. List.member (ENVELOPE_KEYS @ [''verification_result'']) (str_of (fst q))) f"
      "py_eq (get f ''schema'') (PStr CHANGESET_CERTIFICATION_SCHEMA)" "py_eq (get f ''version'') (PInt CHANGESET_CERTIFICATION_VERSION)"
      "factual_errs (get f ''verification_result'') = Inr []" "subject_errs f = Inr []" "candidate_errs f = []" "manifest_errs f = []"
      "verifiers_errs f = Inr []"
  shows "wire_validate f True = Inr errs"
  using f assms(2) by (simp add: wire_validate_def Let_def or_else_def del: py_eq_PStr)

lemma form_answers:
  assumes f: "stamped_form p verdict (emitted_reasons p) (outcome p) f" and p: "entries_normal p" "wire_validate p False = Inr []"
    and d: "verdict = certify_result (Obj (outcome p)) (effective_policy p (emitted_reasons p))"
  shows "validate_payload f = Inr (if verdict = CERTIFIED \<and> get p ''candidate'' = PNone then [''candidate_missing'']
    else if waiver_hides_policy p then [''status_substitution''] else [])"
proof -
  note v = p(2) [unfolded wire_validate_Nil]
  have o: "outcome p = passed \<or> outcome p = failed" by (simp add: outcome_def)
  have g: "get f ''schema'' = PStr CHANGESET_CERTIFICATION_SCHEMA" "get f ''version'' = PInt CHANGESET_CERTIFICATION_VERSION"
    "get f ''disposition'' = PStr (disposition_value verdict)" "get f ''reasons'' = PList (map PStr (emitted_reasons p))"
    "get f ''verification_result'' = projected (outcome p)" "has_key f ''verification_result''" "entries_normal f"
    using f by (simp_all add: stamped_form_def STAMPED_KEYS_def)
  have known: "list_all (\<lambda>q. List.member (ENVELOPE_KEYS @ [''verification_result'']) (str_of (fst q))) f"
    by (rule form_known [OF f p(1)]) (use v in simp)
  have m: "manifest_errs f = []" using form_manifest [OF f p(1)] v by blast
  have e: "verifiers_errs f = Inr []" using form_same(9) [OF f] v by simp
  have vd: "verdict_errs f = Inr (if verdict = CERTIFIED \<and> get p ''candidate'' = PNone then [''candidate_missing''] else [])"
  proof (rule form_verdict [OF f emitted_reasons_listed])
    show "verdict_errs p = Inr []" using v by blast
    show "verdict = REJECTED \<longrightarrow> emitted_reasons p \<noteq> []" using verdict_rejected [of p] unfolding d by blast
  qed
  have w: "wire_validate f True = Inr (if verdict = CERTIFIED \<and> get p ''candidate'' = PNone then [''candidate_missing''] else [])"
    by (rule validated_answer [OF p(2) vd known _ _ _ _ _ m e])
      (use g v form_same(1,2) [OF f] projected_ok(1) [OF o] in \<open>simp_all add: num_of_def\<close>)
  have dv: "derive_verification_result (PDict f) [] = Inr (outcome p)"
    using derive_valid [OF m e form_hashes [OF f]] form_same(10) [OF f] by (simp add: outcome_def)
  have rs: "strs (get f ''reasons'') = emitted_reasons p" by (simp add: g strs_def comp_def)
  have st: "filter (List.member (emitted_reasons p)) [''evidence_missing'', ''identity_malformed'', ''identity_missing''] = []"
    using listed_reasons(6) [OF emitted_reasons_listed, of p] by auto
  have claim: "validate_claim f = Inr (if waiver_hides_policy p then [''status_substitution''] else [])"
    unfolding validate_claim_def rs Let_def st
    using dv projected_ok(2) [OF o] form_expected [OF f] form_same(7) [OF f] by (simp add: g d)
  show ?thesis
    using w form_hashes [OF f] claim g(6) by (simp add: validate_payload_def or_else_def)
qed

text \<open>C38: what a v2 certificate takes.  A JSON payload without floats is certified exactly when its normal form has both
  hashes right and a manifest with verifiers of which none has the status \<open>FAIL\<close>, a policy that approves and all
  three prerequisites complete, is no legacy payload and claims no verification result; and, if it names task,
  repository, base and diff, is a well-formed envelope with all cross-bindings right, no malformed waiver, and every
  verifier with the status \<open>PASS\<close>.  A payload that leaves one of the four parts out is certified without any of these
  bindings, and with verifiers that report no status at all.\<close>

theorem payload_certified_iff:
  assumes "json_value (PDict d)" "wire_normalize None (PDict d) = Inr (PDict p)"
  shows "(\<exists>c. certify_changeset (PDict d) = Inr c \<and> wc_status c = CERTIFIED) \<longleftrightarrow>
    no_verifier_fails p \<and> approves p \<and> \<not> legacy_payload p \<and> \<not> has_key p ''change_set'' \<and> \<not> has_key p ''verification_result'' \<and>
    (list_all (has_key p) IDENTITY_PARTS \<longrightarrow> wire_validate p False = Inr [] \<and> \<not> waiver_is_malformed p \<and>
       (\<forall>v \<in> set (elems (verifiers_of p)). py_eq (get (items v) ''status'') (PStr ''PASS'')))"
proof -
  have "\<forall>v \<in> set (elems (verifiers_of p)). py_eq (get (items v) ''status'') (PStr ''PASS'')"
    if "wire_validate p False = Inr []" "no_verifier_fails p"
    using that verifiers_errs_status [of p] unfolding wire_validate_Nil no_verifier_fails_def by blast
  then show ?thesis using certify_copied_certified certify_json [OF assms] by (auto simp: wire_certified_def)
qed


text \<open>C39: what the validator says of what the certifier emits.  For a JSON payload without floats whose normal form is a
  well-formed envelope with both hashes right, the certification serializes to a dictionary that carries its verdict
  and its reasons, and object and dictionary validate alike: they are accepted, with two exceptions.  A payload
  without a candidate that is certified is answered \<open>candidate_missing\<close>, and one whose malformed waiver was reported
  in place of a missing or disallowing policy or a missing prerequisite is answered \<open>status_substitution\<close>.\<close>

theorem certification_validates:
  assumes "json_value (PDict d)" "wire_normalize None (PDict d) = Inr (PDict p)"
    and "wire_validate p False = Inr []" "hashes_match p = Inr True"
  shows "\<exists>c f answer. certify_changeset (PDict d) = Inr c \<and> certification_to_dict c = Inr (PDict f) \<and>
    get f ''disposition'' = PStr (disposition_value (wc_status c)) \<and> get f ''reasons'' = PList (map PStr (wc_reason_codes c)) \<and>
    validate_changeset_certification (Inl c) = Inr answer \<and> validate_changeset_certification (Inr (PDict f)) = Inr answer \<and>
    answer = (if wc_status c = CERTIFIED \<and> get p ''candidate'' = PNone then [''candidate_missing'']
      else if waiver_hides_policy p then [''status_substitution''] else [])"
proof -
  note p = certify_json [OF assms(1,2)]
  let ?verdict = "certify_result (Obj (outcome p)) (effective_policy p (emitted_reasons p))"
  have ps: "\<forall>q \<in> set p. is_str (fst q)" using p(2) by (simp add: entries_normal_def)
  have "manifest_errs p = []" using assms(3) unfolding wire_validate_Nil by blast
  then obtain m where m: "get p ''verifier_manifest'' = PDict m" using manifest_errs_dict is_dict_iff by blast
  obtain e f where e: "stamped p ?verdict (emitted_reasons p) (outcome p) = Inr e" "wire_copy (PDict e) = Inr (PDict f)"
    and f: "stamped_form p ?verdict (emitted_reasons p) (outcome p) f"
    by (rule stamped_forms [OF p(2) m emitted_reasons_listed, where r = "outcome p" and verdict = ?verdict]) (auto simp: outcome_def)
  note valid = form_answers [OF f p(2) assms(3) refl]
  have copy: "wire_copy (PDict f) = Inr (PDict f)" using f copy_entries [of f] by (simp add: stamped_form_def)
  have "wire_copy (PDict p) = Inr (PDict p)" using copy_entries [OF p(2)] p(3) by simp
  then have "certify_changeset (PDict d) = Inr \<lparr>wc_change_set = identity_of_envelope e, wc_status = ?verdict,
      wc_reason_codes = sorted_set (emitted_reasons p), wc_envelope = Some (PDict e), wc_verification_result = outcome p\<rparr>"
    using certify_well_formed [OF assms(3,4) ps] e(1) by (simp add: p(1) wire_result_def Let_def)
  moreover have "get f ''disposition'' = PStr (disposition_value ?verdict)" "get f ''reasons'' = PList (map PStr (emitted_reasons p))"
    using f by (simp_all add: stamped_form_def)
  ultimately show ?thesis
    using valid copy e(2) listed_reasons(1) [OF emitted_reasons_listed, of p]
    by (simp add: certification_to_dict_def validate_changeset_certification_def)
qed

section \<open>Examples\<close>

lemma arrange_single: "jv compact_raw x \<Longrightarrow> arrange key [x] = Inr (PList [x])"
  using loads_dumps [OF wf_styles(5)] by (fastforce simp: arrange_def)

lemma arrange_empty [simp]: "arrange key [] = Inr (PList [])"
  by (simp add: arrange_def)

definition sample_verifier :: pyval where
  "sample_verifier = mkdict [(''artifact_hash'', PStr sample_sha), (''artifact_id'', PStr ''pytest:attempt-1''),
     (''status'', PStr ''PASS''), (''verifier_id'', PStr ''pytest'')]"

definition sample_manifest :: "string \<Rightarrow> pydict" where
  "sample_manifest g = items (mkdict [(''attempt_id'', PStr ''attempt-1''), (''base_commit'', PStr ''base''), (''base_tree'', PStr ''tree0''),
     (''candidate_commit'', PStr ''head''), (''candidate_tree'', PStr ''tree1''), (''diff_hash'', PStr sample_sha),
     (''manifest_hash'', PStr g), (''manifest_id'', PStr ''manifest:attempt-1''), (''repository'', PStr ''repo''),
     (''source'', PStr ''base''), (''task_id'', PStr ''task''), (''verifiers'', PList [sample_verifier])])"

definition complete_object :: pyval where
  "complete_object = mkdict [(''complete'', PBool True)]"

definition sample_payload :: "string \<Rightarrow> string \<Rightarrow> pydict" where
  "sample_payload g h = items (mkdict [
     (''allowed_scope'', mkdict [(''deletion_policy'', PStr ''FORBID''), (''paths'', PList [PStr ''a.py''])]),
     (''approval'', complete_object), (''authority'', complete_object),
     (''base'', mkdict [(''commit'', PStr ''base''), (''tree'', PStr ''tree0'')]),
     (''candidate'', mkdict [(''commit'', PStr ''head''), (''diff_hash'', PStr sample_sha), (''tree'', PStr ''tree1'')]),
     (''canonical_payload_hash'', PStr h), (''claim_ceiling'', PStr WIRE_CLAIM_CEILING),
     (''diff'', mkdict [(''hash'', PStr sample_sha), (''paths'', PList [PStr ''a.py''])]), (''disposition'', PStr ''BLOCKED''),
     (''policy'', mkdict [(''allowed'', PBool True)]), (''reasons'', PList []),
     (''repository'', mkdict [(''repository'', PStr ''repo''), (''source'', PStr ''base'')]),
     (''schema'', PStr CHANGESET_CERTIFICATION_SCHEMA), (''signing'', complete_object),
     (''task'', mkdict [(''attempt_id'', PStr ''attempt-1''), (''task_id'', PStr ''task'')]),
     (''verifier_manifest'', PDict (sample_manifest g)), (''version'', PInt CHANGESET_CERTIFICATION_VERSION)])"

text \<open>A payload that names no task, repository, base or diff.\<close>

definition anonymous_payload :: "string \<Rightarrow> string \<Rightarrow> pydict" where
  "anonymous_payload g h = items (mkdict [(''approval'', complete_object), (''authority'', complete_object),
     (''canonical_payload_hash'', PStr h), (''policy'', mkdict [(''allowed'', PBool True)]), (''signing'', complete_object),
     (''verifier_manifest'', PDict (sample_manifest g))])"

lemma normal_verifier: "normal key sample_verifier"
  by (simp add: sample_verifier_def mkdict_def ordered_compact_raw)

lemma normal_manifest: "normal key (PDict (sample_manifest g))"
  using arrange_single [of sample_verifier] normal_verifier normalize_normal
  by (simp add: sample_manifest_def mkdict_def ordered_compact_raw)

lemma normal_samples: "normal key (PDict (sample_payload g h))" "normal key (PDict (anonymous_payload g h))"
proof -
  have "arrange key [PStr x] = Inr (PList [PStr x])" for key x by (rule arrange_single) simp
  then show "normal key (PDict (sample_payload g h))" "normal key (PDict (anonymous_payload g h))"
    using normal_manifest
    by (simp_all add: sample_payload_def anonymous_payload_def complete_object_def mkdict_def ordered_compact_raw)
qed

text \<open>Hashes that seal the samples.\<close>

lemma sample_manifest_sealed: "\<exists>g. manifest_hash (sample_manifest g) = Inr g \<and> is_sha256 g"
proof -
  have n: "entries_normal (sample_manifest g)" for g using normal_manifest [of None g] normal_dict by blast
  obtain g where g: "manifest_hash (sample_manifest []) = Inr g" "is_sha256 g"
    using manifest_hash_total [OF entries_json [OF n]] by blast
  have d: "sample_manifest g = dset (sample_manifest []) ''manifest_hash'' (PStr g)" by (simp add: sample_manifest_def mkdict_def)
  have "manifest_hash (sample_manifest g) = manifest_hash (sample_manifest [])"
    using manifest_hash_seal [OF n, of "[]" "PStr g"] n [of g] unfolding d by blast
  then show ?thesis using g by auto
qed

lemma sealed_payload:
  assumes "\<And>h. entries_normal (P h)" "\<And>h. P h = dset (P []) ''canonical_payload_hash'' (PStr h)"
  shows "\<exists>h. payload_hash (P h) = Inr h \<and> is_sha256 h"
proof -
  obtain h where h: "payload_hash (P []) = Inr h" "is_sha256 h" using payload_hash_total [OF entries_json [OF assms(1)]] by blast
  have "payload_hash (P h) = payload_hash (P [])"
    using payload_hash_sealed [OF entries_json [OF assms(1)], of "PStr h" "[]"] assms(2) [of h] by simp
  then show ?thesis using h by auto
qed

lemma samples_sealed:
  "\<exists>g h. is_sha256 g \<and> is_sha256 h \<and> hashes_match (sample_payload g h) = Inr True"
  "\<exists>g h. hashes_match (anonymous_payload g h) = Inr True"
proof -
  obtain g where g: "manifest_hash (sample_manifest g) = Inr g" "is_sha256 g" using sample_manifest_sealed by blast
  have m: "get (sample_manifest g) ''manifest_hash'' = PStr g" by (simp add: sample_manifest_def mkdict_def get_Cons)
  have n: "entries_normal (sample_payload g h)" "entries_normal (anonymous_payload g h)" for h
    using normal_samples [of None g h] normal_dict by blast+
  have d: "sample_payload g h = dset (sample_payload g []) ''canonical_payload_hash'' (PStr h)"
    "anonymous_payload g h = dset (anonymous_payload g []) ''canonical_payload_hash'' (PStr h)" for h
    by (simp_all add: sample_payload_def anonymous_payload_def mkdict_def)
  obtain h where "payload_hash (sample_payload g h) = Inr h" "is_sha256 h" using sealed_payload [OF n(1) d(1)] by blast
  moreover have "get (sample_payload g h) ''verifier_manifest'' = PDict (sample_manifest g)"
    "get (sample_payload g h) ''canonical_payload_hash'' = PStr h" for h by (simp_all add: sample_payload_def mkdict_def get_Cons)
  ultimately show "\<exists>g h. is_sha256 g \<and> is_sha256 h \<and> hashes_match (sample_payload g h) = Inr True"
    using g m by (intro exI [of _ g] exI [of _ h]) (simp add: hashes_match_def)
  obtain h where "payload_hash (anonymous_payload g h) = Inr h" using sealed_payload [OF n(2) d(2)] by blast
  moreover have "get (anonymous_payload g h) ''verifier_manifest'' = PDict (sample_manifest g)"
    "get (anonymous_payload g h) ''canonical_payload_hash'' = PStr h" for h by (simp_all add: anonymous_payload_def mkdict_def get_Cons)
  ultimately show "\<exists>g h. hashes_match (anonymous_payload g h) = Inr True"
    using g m by (intro exI [of _ g] exI [of _ h]) (simp add: hashes_match_def)
qed

lemma sample_passes:
  "hashes_match (anonymous_payload g h) = Inr True \<Longrightarrow> no_verifier_fails (anonymous_payload g h)" "approves (anonymous_payload g h)"
  by (simp_all add: no_verifier_fails_def verifiers_of_def approves_def complete_value_def keys_are_def has_key_def get_def
      anonymous_payload_def sample_manifest_def sample_verifier_def complete_object_def mkdict_def is_dict_def)

lemma sample_valid:
  assumes "is_sha256 g" "is_sha256 h"
  shows "wire_validate (sample_payload g h) False = Inr []"
proof -
  have t: "normalized ''attempt-1''" "normalized ''task''" "normalized ''repo''" "normalized ''base''" "normalized ''head''"
    "normalized ''tree0''" "normalized ''tree1''" "normalized ''manifest:attempt-1''" "normalized ''pytest''"
    "normalized ''pytest:attempt-1''" by code_simp+
  have p: "paths_ok (PList [PStr ''a.py''])" by code_simp
  note parts = sample_payload_def sample_manifest_def sample_verifier_def complete_object_def mkdict_def get_Cons get_Nil keys_are_def
    exact_texts_def texts_ok_def sha_value_def num_of_def
  show ?thesis
    unfolding wire_validate_Nil
  proof (intro conjI impI)
    show "subject_errs (sample_payload g h) = Inr []" using t p by (simp add: subject_errs_def parts strs_def)
    show "candidate_errs (sample_payload g h) = []" using t by (simp add: candidate_errs_def parts)
    show "manifest_errs (sample_payload g h) = []"
      using t assms by (simp add: manifest_errs_def manifest_bindings_def MANIFEST_KEYS_def MANIFEST_TEXTS_def parts truthy_def)
    show "verifiers_errs (sample_payload g h) = Inr []" using t by (simp add: verifiers_errs_def parts)
    show "verdict_errs (sample_payload g h) = Inr []" using assms by (simp add: verdict_errs_def parts MAX_REASONS_def)
  qed (simp_all add: parts ENVELOPE_KEYS_def)
qed

theorem payload_certified_iff_witness:
  "\<exists>g h c. certify_changeset (PDict (anonymous_payload g h)) = Inr c \<and> wc_status c = CERTIFIED \<and>
     \<not> has_key (anonymous_payload g h) ''task''"
proof -
  obtain g h where s: "hashes_match (anonymous_payload g h) = Inr True" using samples_sealed(2) by blast
  have n: "entries_normal (anonymous_payload g h)" "ordered compact_raw (anonymous_payload g h) = anonymous_payload g h"
    using normal_samples(2) [of None g h] normal_dict by blast+
  have w: "wire_normalize None (PDict (anonymous_payload g h)) = Inr (PDict (anonymous_payload g h))"
    using normalize_entries [OF n(1)] n(2) by simp
  have k: "\<not> has_key (anonymous_payload g h) ''task''" "\<not> has_key (anonymous_payload g h) ''change_set''"
    "\<not> has_key (anonymous_payload g h) ''verification_result''" "\<not> legacy_payload (anonymous_payload g h)"
    by (simp_all add: anonymous_payload_def mkdict_def get_Cons get_Nil legacy_payload_def)
  have "\<not> list_all (has_key (anonymous_payload g h)) IDENTITY_PARTS" using k(1) by (simp add: IDENTITY_PARTS_def)
  then show ?thesis
    using payload_certified_iff [OF entries_json [OF n(1)] w] sample_passes(1) [OF s] sample_passes(2) k by blast
qed

theorem certification_validates_witness:
  "\<exists>g h c f. certify_changeset (PDict (sample_payload g h)) = Inr c \<and> certification_to_dict c = Inr (PDict f) \<and>
     validate_changeset_certification (Inr (PDict f)) = Inr []"
proof -
  obtain g h where s: "is_sha256 g" "is_sha256 h" "hashes_match (sample_payload g h) = Inr True" using samples_sealed(1) by blast
  have n: "entries_normal (sample_payload g h)" "ordered compact_raw (sample_payload g h) = sample_payload g h"
    using normal_samples(1) [of None g h] normal_dict by blast+
  have w: "wire_normalize None (PDict (sample_payload g h)) = Inr (PDict (sample_payload g h))"
    using normalize_entries [OF n(1)] n(2) by simp
  have k: "\<not> waiver_hides_policy (sample_payload g h)" "get (sample_payload g h) ''candidate'' \<noteq> PNone"
    by (simp_all add: sample_payload_def mkdict_def get_Cons get_Nil waiver_hides_policy_def waiver_is_malformed_def)
  show ?thesis using certification_validates [OF entries_json [OF n(1)] w sample_valid [OF s(1,2)] s(3)] k by auto
qed

end
