(* ===== verification/Spec2Isabelle.thy ===== *)
theory Spec2Isabelle
  imports Ledger_Contract Auth Runner_Claims Service_Claims Http_Claims Native_Runner_Properties Identity_Claims
    Trusted_Adapter_Properties Pull_Adapter_Properties Wire_V2_Claims
begin

text \<open>
  A verification library for Nexus Core, the certification program under \<open>src/product/\<close>: a loopback HTTP
  service that decides, for one commit of one pull request, whether it is certified, and records every
  decision in an append-only, hash-chained ledger.

  \<^bold>\<open>How the parts work together.\<close>  A client posts a certification request.  The server (\<open>runtime/http.py\<close>)
  authenticates it (\<open>runtime/auth.py\<close>), bounds and parses it, and hands it to the service
  (\<open>runtime/service.py\<close>), which validates it against the published schema (\<open>runtime/schemas.py\<close>), answers
  a repeated idempotency key from the ledger or from its table of jobs in flight, and otherwise starts a
  job.  The job's pipeline acquires the pull request (\<open>acquisition/github.py\<close>), refuses a stale commit, has
  the tests executed twice (\<open>execution/python_runner.py\<close>), builds the contract, change set, plan and
  evidence (\<open>evidence/__init__.py\<close>), asks the kernel for a verdict (\<open>kernel/__init__.py\<close> over
  \<open>verification/__init__.py\<close> and \<open>certification/\<close>), and appends receipt and identity envelope to the ledger
  (\<open>ledger.py\<close>).

  Beside the service stands the trusted path, for evidence that others produced.  A context fixes a profile of
  producers and issuers and one requirement for each verifier; \<open>ingest_evidence\<close> (\<open>evidence/ingestion.py\<close>) judges
  submissions against it and mints a result that is recognised by identity and hash; \<open>validate_prerequisites\<close>
  (\<open>adapters/trusted.py\<close>) turns four references of external issuers into the kernel's policy flags, and
  \<open>certify_ingested\<close> runs the same kernel on the ingested bundle.  \<open>make_identity_envelope\<close> binds an ingestion result,
  the receipts of acquisition and runner and a signed external receipt into one portable envelope.
  \<open>adapters/github.py\<close> brings a pull request that was materialised elsewhere to the kernel as a change set.
  \<open>adapters/changeset_certification_v2.py\<close> is the wire contract for certifications made elsewhere: a JSON envelope
  that binds task, repository, base, diff, scope, candidate and verifier manifest by hashes, judged by the same
  reducers (\<open>certify_changeset\<close>), and checked again by whoever receives it (\<open>validate_changeset_certification\<close>).

  \<^bold>\<open>Theories.\<close>
  \<^item> \<open>Prelude\<close>: exceptions as a sum (\<open>'a res\<close>, \<open>ebind\<close>, \<open>guard\<close>), text and list operations of Python, the
    collections \<open>res_simps\<close> and \<open>text_simps\<close>.  \<open>PyValue\<close>: the dynamic values, \<open>==\<close>, truth, dictionaries.
    \<open>Sha256\<close>: the digest, executable.  \<open>Json\<close>, \<open>Json_Roundtrip\<close>: \<open>json.dumps\<close> and \<open>json.loads\<close>, the canonical
    JSON of \<open>evidence\<close> and \<open>_hash\<close>; parsing what was printed, and a hash determines the canonical value up
    to a collision of SHA-256, which the lemmas name and never exclude.
  \<^item> \<open>Evidence\<close>, \<open>Evidence_Envelope\<close>: the five subject classes as records with their constructors
    (\<open>AcceptanceContract\<close>, \<open>ChangeSet\<close>, ...), identities, \<open>validate_evidence_subjects\<close>,
    \<open>derive_evidence_integrity\<close>, and the envelope: accepted bytes determine the bundle.
  \<^item> \<open>Verification\<close>, \<open>Certification\<close>, \<open>Receipt\<close>, \<open>Kernel\<close>, \<open>Kernel_Properties\<close>: result, reducers, receipt
    and \<open>certify\<close>; when an input is certified, what a receipt that validates is, when the kernel raises.
    The weak registry that marks reduced results is a flag that only the reducer sets.
  \<^item> \<open>Ledger\<close>: the table as a list of rows, the storage checks, \<open>append_or_replay\<close> with idempotency,
    generation fence, signing, failpoints and the retry loop, reads, \<open>verify_chain\<close>, the external anchor.
    \<open>Ledger_Properties\<close>, \<open>Ledger_Claims\<close>, \<open>Ledger_Tamper\<close>, \<open>Ledger_Contract\<close>: the table invariant and
    the step relation \<open>ledger_step\<close>, one append per key, tampering that is detected and tampering that is
    not, and the refinement of the table by the abstract register \<open>register_append\<close>.
  \<^item> \<open>Transition\<close>: the interfaces of the stateful parts (\<open>invariant_system\<close>, \<open>progress_system\<close>,
    \<open>invariant_progress\<close>), interpreted for the ledger, the runner and the service.
  \<^item> \<open>Schemas\<close>, \<open>Schema_Properties\<close>: the published documents, a meaning for the keywords they use, the
    request validators, and their agreement.  \<open>Auth\<close>: the token, its file, the header.
  \<^item> \<open>Acquisition\<close>, \<open>Acquisition_Properties\<close>: locator, snapshot and its invariant, the double read,
    storing and loading.  \<open>Runner\<close>, \<open>Runner_Properties\<close>, \<open>Runner_Claims\<close>: profile, attempts, verdict, replay
    table, loading stored results.
  \<^item> \<open>Service\<close>: jobs and the service as records, \<open>submit_certification\<close>, \<open>execute_pipeline\<close> in stages,
    status, receipt, \<open>verify_receipt\<close>, \<open>drain\<close>.  \<open>Service_Json\<close>, \<open>Service_Progress\<close>,
    \<open>Service_Properties\<close>, \<open>Service_Claims\<close>: what is stored loads back, every stage of a default request
    succeeds, the step relation \<open>service_step\<close> of all interleavings, and the end-to-end properties.
  \<^item> \<open>Loopback\<close>, \<open>Http\<close>, \<open>Http_Claims\<close>: the bind address, the four handlers behind limits and
    authentication, start and stop.
  \<^item> \<open>Codec\<close>: the interface of objects that travel as dictionaries, interpreted for pull requests and identity
    envelopes (the locale \<open>codec\<close>).
  \<^item> \<open>Ingestion\<close>, \<open>Ingestion_Properties\<close>, \<open>Ingestion_Claims\<close>: grants, profile, requirements, provenance, context,
    freshness and \<open>ingest_evidence\<close>, with the table of trusted results; when a result is trusted, and that nothing
    else ever is.  \<open>External_Trust\<close>, \<open>External_Trust_Properties\<close>: signature payloads, external receipts, trust
    references and their verification by the Ed25519 port.
  \<^item> \<open>Native_Receipts\<close>, \<open>Native_Properties\<close>, \<open>Native_Runner\<close>, \<open>Native_Runner_Properties\<close>: the evidence core's own
    forms of snapshot and runner result, and that what acquisition and runner produce crosses into them.
    \<open>Identity_Envelope\<close>, \<open>Identity_Claims\<close>: the identity envelope, what stands behind one, its transport.
  \<^item> \<open>Trusted_Adapter\<close>, \<open>Trusted_Adapter_Properties\<close>: expectations, prerequisites, trusted certifications, with the
    three weak registries as tables from object identity to owners and hash (the locale \<open>minted_class\<close>); from submissions
    to certificate.  \<open>Pull_Adapter\<close>, \<open>Pull_Adapter_Properties\<close>: the pull request adapter.
  \<^item> \<open>Wire_V2\<close>, \<open>Wire_V2_Properties\<close>, \<open>Wire_V2_Claims\<close>: the v2 wire contract, its normal form and hashes; when a
    payload is certified, and what the validator says of what the certifier emits.

  \<^bold>\<open>Bounds and fuel.\<close>  Parsers that take fuel get the length of their text, and the round trip shows that
  this is enough.  The append loop makes \<open>MAX_CONTENTION_ATTEMPTS\<close> attempts, as the code does; other loops
  are structural or have a measure.  The request limits 512, 1048576 and 128 bytes are those of the code.

  \<^bold>\<open>Inputs of the model.\<close>  What is not under \<open>src/\<close> is an argument: the GitHub read port, the executor,
  the XML parser behind \<open>ElementTree\<close>, signer and anchor verifier, the Ed25519 verifier port, SQLite's and the file system's
  outcomes, the appends of other processes, the clock, the random bytes, aiohttp's router, body reading and
  socket, the iteration order of frozen sets.  The coroutines of the service have no \<open>await\<close> between
  reading and writing its tables, so each is one step.

  \<^bold>\<open>Not modelled.\<close>  Code points above 255, the rounding of float literals, the recursion limit, cyclic
  values, the wording of some library errors and of \<open>error_reason\<close> in a chain result.  In the
  trusted path the objects of ingestion and trusted adapter have fields of their declared types, so the branches
  for values of a wrong class are modelled only where an argument is \<open>None\<close> or an \<open>obj\<close>.  The
  compatibility gate, the clients and the benchmarks of \<open>product/\<close> are further components; the rest of the repository is the
  earlier orchestration engine, scripts, archives and experiments, outside the certification program.
\<close>

end
